(* ===== verification/Bridge_Prelude.thy ===== *)
theory Bridge_Prelude
  imports Main "HOL-Library.Word"
begin

text \<open>
  Shared vocabulary of the development: the return codes of \<^verbatim>\<open>scim-bridge.h\<close>, the outcome type
  of code that may block or leave the defined part of C, bytes and characters, NUL-terminated
  strings, and the accessor contract (\<open>lens\<close>) that the plain getters and setters of the bridge
  library are instances of.
\<close>

unbundle bit_operations_syntax

section \<open>Return codes and outcomes\<close>

text \<open>\<^verbatim>\<open>RETVAL_FAILED = -1\<close>, \<^verbatim>\<open>RETVAL_SUCCEEDED = 0\<close>, \<^verbatim>\<open>RETVAL_IGNORED = 1\<close>. C tests a return
  code with \<^verbatim>\<open>if (retval)\<close>, which is true for every code but \<^verbatim>\<open>RETVAL_SUCCEEDED\<close>.\<close>

datatype retval = RETVAL_FAILED | RETVAL_SUCCEEDED | RETVAL_IGNORED

text \<open>
  The outcome of running a piece of C: it returns a value, it blocks for ever in a system call
  (the script of the kernel's answers is exhausted), or it leaves the defined part of C (reads
  memory that was never written, writes out of bounds, violates an \<^verbatim>\<open>assert\<close>, passes a wrong
  argument to a conversion of \<^verbatim>\<open>printf\<close>) or calls \<^verbatim>\<open>abort\<close>.
\<close>

datatype 'a run = Done 'a | Blocks | Undefined

primrec run_bind :: "'a run \<Rightarrow> ('a \<Rightarrow> 'b run) \<Rightarrow> 'b run" where
  "run_bind (Done x) f = f x"
| "run_bind Blocks f = Blocks"
| "run_bind Undefined f = Undefined"

lemma run_bind_cong [fundef_cong]:
  "m = m' \<Longrightarrow> (\<And>x. m' = Done x \<Longrightarrow> f x = g x) \<Longrightarrow> run_bind m f = run_bind m' g"
  by (cases m') auto

lemma run_bind_eq_Done [simp]:
  "run_bind m f = Done y \<longleftrightarrow> (\<exists>x. m = Done x \<and> f x = Done y)"
  by (cases m) auto

lemma Done_eq_run_bind [simp]:
  "Done y = run_bind m f \<longleftrightarrow> (\<exists>x. m = Done x \<and> f x = Done y)"
  by (cases m) auto

lemma run_bind_Undefined [simp]:
  "run_bind m f = Undefined \<longleftrightarrow> m = Undefined \<or> (\<exists>x. m = Done x \<and> f x = Undefined)"
  by (cases m) auto

lemma run_bind_assoc: "run_bind (run_bind m f) g = run_bind m (\<lambda>x. run_bind (f x) g)"
  by (cases m) auto

text \<open>\<open>terminates_with P m\<close>: the code returns, and what it returns satisfies \<open>P\<close>.\<close>

primrec terminates_with :: "('a \<Rightarrow> bool) \<Rightarrow> 'a run \<Rightarrow> bool" where
  "terminates_with P (Done x) = P x"
| "terminates_with P Blocks = False"
| "terminates_with P Undefined = False"

text \<open>\<open>safe_with P m\<close>: the code stays in the defined part of C, and \<open>P\<close> holds of what it returns,
  if it returns.\<close>

primrec safe_with :: "('a \<Rightarrow> bool) \<Rightarrow> 'a run \<Rightarrow> bool" where
  "safe_with P (Done x) = P x"
| "safe_with P Blocks = True"
| "safe_with P Undefined = False"

lemma safe_withD: "safe_with P m \<Longrightarrow> m = Done x \<Longrightarrow> P x"
  by simp

lemma safe_with_mono: "safe_with P m \<Longrightarrow> (\<And>x. m = Done x \<Longrightarrow> P x \<Longrightarrow> Q x) \<Longrightarrow> safe_with Q m"
  by (cases m) auto

lemma safe_with_bind:
  "safe_with P m \<Longrightarrow> (\<And>x. m = Done x \<Longrightarrow> P x \<Longrightarrow> safe_with Q (f x)) \<Longrightarrow> safe_with Q (run_bind m f)"
  by (cases m) auto

lemma safe_with_iff:
  "safe_with P m \<longleftrightarrow> m \<noteq> Undefined \<and> (\<forall>x. m = Done x \<longrightarrow> P x)"
  by (cases m) auto

section \<open>Machine integers\<close>

lemma sint_eq_uint: "uint (w :: 'a::len word) < 2 ^ (LENGTH('a) - 1) \<Longrightarrow> sint w = uint w"
  using order_trans [OF _ uint_ge_0 [of w], of "- (2 ^ (LENGTH('a) - 1))"]
  by (simp add: sint_uint signed_take_bit_int_eq_self)

lemma sint_word_of_int_range:
  "- 2147483648 \<le> k \<Longrightarrow> k < 2147483648 \<Longrightarrow> sint (word_of_int k :: 32 word) = k"
  by (subst sint_sbintrunc') (simp add: signed_take_bit_int_eq_self)

lemma unat_32_le: "unat (w :: 32 word) \<le> 4294967295"
proof -
  have "unat w < 2 ^ LENGTH(32)" by (rule unsigned_less)
  then show ?thesis by simp
qed

lemma ucast_of_nat_64_32: "ucast (of_nat n :: 64 word) = (of_nat n :: 32 word)"
  by (simp add: word_unat_eq_iff unsigned_ucast_eq unat_of_nat take_bit_eq_mod mod_mod_cancel)

lemma ucast_word_of_int_64_32: "ucast (word_of_int k :: 64 word) = (word_of_int k :: 32 word)"
  by (simp add: word_uint_eq_iff unsigned_ucast_eq uint_word_of_int take_bit_eq_mod mod_mod_cancel)

section \<open>Bytes and NUL-terminated strings\<close>

definition byte_of_char :: "char \<Rightarrow> 8 word" where
  "byte_of_char c = word_of_nat (of_char c)"

definition char_of_byte :: "8 word \<Rightarrow> char" where
  "char_of_byte b = char_of (unat b)"

lemma byte_of_char_of_byte [simp]: "byte_of_char (char_of_byte b) = b"
proof -
  have "unat b < 2 ^ LENGTH(8)"
    by (rule unsigned_less)
  then have "unat b mod 256 = unat b"
    by simp
  then show ?thesis
    by (simp add: byte_of_char_def char_of_byte_def of_char_mod_256 of_char_of)
qed

lemma char_of_byte_of_char [simp]: "char_of_byte (byte_of_char c) = c"
  by (simp add: byte_of_char_def char_of_byte_def unat_of_nat of_char_mod_256)

lemma map_byte_of_char_of_byte [simp]: "map byte_of_char (map char_of_byte bs) = bs"
  by (simp add: map_idI)

lemma map_char_of_byte_of_char [simp]: "map char_of_byte (map byte_of_char cs) = cs"
  by (simp add: map_idI)

lemma comp_byte_char [simp]:
  "byte_of_char \<circ> char_of_byte = id" "char_of_byte \<circ> byte_of_char = id"
  by (simp_all add: fun_eq_iff)

abbreviation NUL :: char where
  "NUL \<equiv> CHR 0x00"

lemma byte_of_char_eq_0_iff [simp]: "byte_of_char c = 0 \<longleftrightarrow> c = NUL"
proof -
  have "byte_of_char NUL = 0" by (simp add: byte_of_char_def)
  then show ?thesis by (metis char_of_byte_of_char)
qed

text \<open>A C string is the list of its characters before the terminating NUL.\<close>

definition is_cstring :: "string \<Rightarrow> bool" where
  "is_cstring s \<longleftrightarrow> NUL \<notin> set s"

lemma is_cstring_simps [simp]:
  "is_cstring []" "is_cstring (c # s) \<longleftrightarrow> c \<noteq> NUL \<and> is_cstring s"
  "is_cstring (s @ t) \<longleftrightarrow> is_cstring s \<and> is_cstring t"
  by (auto simp: is_cstring_def)

lemma takeWhile_cstring: "is_cstring s \<Longrightarrow> takeWhile (\<lambda>c. c \<noteq> NUL) s = s"
  by (induction s) auto

section \<open>The accessor contract\<close>

text \<open>
  A getter and a setter of one field: what is read after a write, that writing back what was
  read changes nothing, and that a second write overrides the first. The setters of the bridge
  library restrict the values they store faithfully (a colour component is one byte), so the
  first law is relative to a predicate \<open>ok\<close> on values.
\<close>

locale accessor =
  fixes get :: "'s \<Rightarrow> 'v" and put :: "'v \<Rightarrow> 's \<Rightarrow> 's" and ok :: "'v \<Rightarrow> bool"
  assumes get_put: "ok v \<Longrightarrow> get (put v s) = v"
    and put_put: "put v (put w s) = put v s"
begin

lemma get_put_put: "ok v \<Longrightarrow> get (put v (put w s)) = v"
  by (simp add: get_put)

lemma put_inject: "ok v \<Longrightarrow> ok w \<Longrightarrow> put v s = put w t \<Longrightarrow> v = w"
  using get_put by metis

end

text \<open>Two fields of one object: writing one leaves the other as it was, and writes commute.\<close>

locale independent_accessors =
  a: accessor get1 put1 ok1 + b: accessor get2 put2 ok2
  for get1 :: "'s \<Rightarrow> 'v" and put1 ok1 and get2 :: "'s \<Rightarrow> 'w" and put2 ok2 +
  assumes get1_put2: "get1 (put2 w s) = get1 s"
    and get2_put1: "get2 (put1 v s) = get2 s"
    and put_commute: "put1 v (put2 w s) = put2 w (put1 v s)"
begin

lemma both_read: "ok1 v \<Longrightarrow> ok2 w \<Longrightarrow>
    get1 (put1 v (put2 w s)) = v \<and> get2 (put1 v (put2 w s)) = w"
  by (simp add: a.get_put get2_put1 b.get_put)

end

text \<open>
  An encoder and a partial decoder that is its left inverse on the values in \<open>ok\<close>: the contract
  of every textual representation on the bridge's wire.
\<close>

locale text_codec =
  fixes enc :: "'v \<Rightarrow> 'e" and dec :: "'e \<Rightarrow> 'v option" and ok :: "'v \<Rightarrow> bool"
  assumes dec_enc: "ok v \<Longrightarrow> dec (enc v) = Some v"
begin

lemma enc_inject: "ok v \<Longrightarrow> ok w \<Longrightarrow> enc v = enc w \<longleftrightarrow> v = w"
  using dec_enc by (metis option.inject)

end

end
