(* ===== verification/Bridge_String.thy ===== *)
theory Bridge_String
  imports Bridge_Prelude
begin

text \<open>
  \<^verbatim>\<open>extras/immodules/common/scim-bridge-string.c\<close>: the textual forms of the values that travel
  in messages (unsigned and signed integers, booleans) and the translation between UTF-8 and
  UCS-4. A \<^verbatim>\<open>NULL\<close> argument is \<open>None\<close>; \<^verbatim>\<open>RETVAL_FAILED\<close> of a conversion is the result \<open>None\<close>.
  The growing \<^verbatim>\<open>alloca\<close> buffers are modelled with their capacity, and a write beyond it is
  \<open>Undefined\<close>.
\<close>

section \<open>Integers and booleans\<close>

text \<open>The \<^verbatim>\<open>switch\<close> over \<^verbatim>\<open>'0'\<close>..\<^verbatim>\<open>'9'\<close>.\<close>

definition digit_of_char :: "char \<Rightarrow> nat option" where
  "digit_of_char = map_of
     [(CHR ''0'', 0), (CHR ''1'', 1), (CHR ''2'', 2), (CHR ''3'', 3), (CHR ''4'', 4),
      (CHR ''5'', 5), (CHR ''6'', 6), (CHR ''7'', 7), (CHR ''8'', 8), (CHR ''9'', 9)]"

text \<open>\<^verbatim>\<open>value\<close> is an \<^verbatim>\<open>unsigned long\<close>, 64 bits wide on the LP64 platforms the code targets.\<close>

definition UINT_MAX :: "64 word" where "UINT_MAX = 0xFFFFFFFF"
definition INT_MAX :: "64 word" where "INT_MAX = 0x7FFFFFFF"
definition INT_MIN :: int where "INT_MIN = - (2 ^ 31)"

fun string_to_uint_loop :: "string \<Rightarrow> 64 word \<Rightarrow> 64 word option" where
  "string_to_uint_loop [] value = Some value"
| "string_to_uint_loop (c # str) value =
     (case digit_of_char c of
        None \<Rightarrow> None
      | Some digit \<Rightarrow>
          let value' = value * 10 + of_nat digit in
          if value' > UINT_MAX then None else string_to_uint_loop str value')"

definition scim_bridge_string_to_uint :: "string option \<Rightarrow> 32 word option" where
  "scim_bridge_string_to_uint str =
     (case str of None \<Rightarrow> None
      | Some s \<Rightarrow> map_option ucast (string_to_uint_loop s 0))"

text \<open>
  The loop of \<^verbatim>\<open>scim_bridge_string_to_int\<close>. The state is the index \<open>i\<close>, \<open>value\<close> and
  \<open>negative\<close>. A sign at the first position falls through to the case of the digit 0.
  \<open>- ((long) value)\<close> is computed on signed 64-bit integers.
\<close>

fun string_to_int_loop ::
  "nat \<Rightarrow> string \<Rightarrow> 64 word \<Rightarrow> bool \<Rightarrow> (64 word \<times> bool) option" where
  "string_to_int_loop i [] value negative = Some (value, negative)"
| "string_to_int_loop i (c # str) value negative =
     (if c = CHR ''-'' \<and> i \<noteq> 0 then None
      else
        let negative' = (c = CHR ''-'' \<or> negative) in
        case (if c = CHR ''-'' then Some 0 else digit_of_char c) of
          None \<Rightarrow> None
        | Some digit \<Rightarrow>
            let value' = value * 10 + of_nat digit in
            if \<not> negative' then
              (if value' > INT_MAX then None
               else string_to_int_loop (Suc i) str value' negative')
            else
              (if - sint value' < INT_MIN then None
               else string_to_int_loop (Suc i) str value' negative'))"

definition scim_bridge_string_to_int :: "string option \<Rightarrow> int option" where
  "scim_bridge_string_to_int str =
     (case str of None \<Rightarrow> None
      | Some s \<Rightarrow>
          (case string_to_int_loop 0 s 0 False of
             None \<Rightarrow> None
           | Some (value, negative) \<Rightarrow>
               Some (sint (if \<not> negative then ucast value :: 32 word
                           else ucast (- value)))))"

definition scim_bridge_string_to_boolean :: "string option \<Rightarrow> bool option" where
  "scim_bridge_string_to_boolean str =
     (case str of None \<Rightarrow> None
      | Some s \<Rightarrow>
          if s = ''TRUE'' \<or> s = ''True'' \<or> s = ''true'' then Some True
          else if s = ''FALSE'' \<or> s = ''False'' \<or> s = ''false'' then Some False
          else None)"

text \<open>The decimal conversions \<^verbatim>\<open>%u\<close> and \<^verbatim>\<open>%d\<close> of \<^verbatim>\<open>printf\<close>.\<close>

definition char_of_digit :: "nat \<Rightarrow> char" where
  "char_of_digit d = ''0123456789'' ! d"

fun printf_u :: "nat \<Rightarrow> string" where
  "printf_u n = (if n < 10 then [char_of_digit n] else printf_u (n div 10) @ [char_of_digit (n mod 10)])"

declare printf_u.simps [simp del]

definition printf_d :: "int \<Rightarrow> string" where
  "printf_d i = (if i < 0 then CHR ''-'' # printf_u (nat (- i)) else printf_u (nat i))"

text \<open>The result is the length the function returns and the string it stores in \<^verbatim>\<open>*str\<close>.\<close>

definition scim_bridge_string_from_uint :: "32 word \<Rightarrow> nat \<times> string" where
  "scim_bridge_string_from_uint value =
     (length (printf_u (unat value)), printf_u (unat value))"

definition scim_bridge_string_from_int :: "int \<Rightarrow> nat \<times> string" where
  "scim_bridge_string_from_int value = (length (printf_d value), printf_d value)"

definition scim_bridge_string_from_boolean :: "bool \<Rightarrow> nat \<times> string" where
  "scim_bridge_string_from_boolean value =
     (if value then (4, ''TRUE'') else (5, ''FALSE''))"

section \<open>UTF-8 and UCS-4\<close>

text \<open>A wide string is the list of its code units before the terminating \<^verbatim>\<open>L'\0'\<close>.\<close>

definition scim_bridge_wstring_get_length :: "32 word list option \<Rightarrow> int" where
  "scim_bridge_wstring_get_length wstr =
     (case wstr of None \<Rightarrow> -1 | Some ws \<Rightarrow> int (length (takeWhile (\<lambda>wc. wc \<noteq> 0) ws)))"

definition scim_bridge_string_get_length :: "string option \<Rightarrow> int" where
  "scim_bridge_string_get_length str = (case str of None \<Rightarrow> -1 | Some s \<Rightarrow> int (length s))"

definition utf8_lead_size :: "8 word \<Rightarrow> nat" where
  "utf8_lead_size a =
     (if a < 0x80 then 1 else if a < 0xc2 then 0 else if a < 0xe0 then 2
      else if a < 0xf0 then 3 else if a < 0xf8 then 4 else if a < 0xfc then 5
      else if a < 0xfe then 6 else 0)"

definition utf8_tail :: "8 word \<Rightarrow> bool" where
  "utf8_tail b \<longleftrightarrow> (b XOR 0x80) < 0x40"

definition utf8_bits :: "8 word \<Rightarrow> nat \<Rightarrow> 32 word" where
  "utf8_bits b n = push_bit n (ucast (b XOR 0x80))"

definition byte_at :: "8 word list \<Rightarrow> nat \<Rightarrow> 8 word" where
  "byte_at bs k = (if k < length bs then bs ! k else 0)"

text \<open>
  One round of the decoding loop on the bytes from \<^verbatim>\<open>str_index\<close> on, the terminating NUL
  included, so that \<^verbatim>\<open>str_index + k > str_length\<close> is \<open>length bs \<le> k\<close>. The result is the
  code unit and the advance of \<^verbatim>\<open>str_index\<close>. The case of six bytes has no \<^verbatim>\<open>break\<close>: it
  falls through to the default case, which fails.
\<close>

definition utf8_decode_char :: "8 word list \<Rightarrow> (32 word \<times> nat) option" where
  "utf8_decode_char bs =
     (let a = byte_at bs 0; b = byte_at bs 1; c = byte_at bs 2; d = byte_at bs 3;
          e = byte_at bs 4; f = byte_at bs 5;
          wchar_size = utf8_lead_size a in
      if wchar_size = 1 then Some (ucast a, 1)
      else if wchar_size = 2 then
        (if length bs \<le> 1 \<or> \<not> utf8_tail b then None
         else Some (push_bit 6 (ucast (a AND 0x1f)) OR utf8_bits b 0, 2))
      else if wchar_size = 3 then
        (if length bs \<le> 2 \<or> \<not> (utf8_tail b \<and> utf8_tail c \<and> (a \<ge> 0xe1 \<or> b \<ge> 0xa0)) then None
         else Some (push_bit 12 (ucast (a AND 0x0f)) OR utf8_bits b 6 OR utf8_bits c 0, 3))
      else if wchar_size = 4 then
        (if length bs \<le> 3 \<or>
            \<not> (utf8_tail b \<and> utf8_tail c \<and> utf8_tail d \<and> (a \<ge> 0xf1 \<or> b \<ge> 0x90)) then None
         else Some (push_bit 18 (ucast (a AND 0x07)) OR utf8_bits b 12 OR utf8_bits c 6
                    OR utf8_bits d 0, 4))
      else if wchar_size = 5 then
        (if length bs \<le> 4 \<or>
            \<not> (utf8_tail b \<and> utf8_tail c \<and> utf8_tail d \<and> utf8_tail e \<and> (a \<ge> 0xf9 \<or> b \<ge> 0x88))
         then None
         else Some (push_bit 24 (ucast (a AND 0x03)) OR utf8_bits b 18 OR utf8_bits c 12
                    OR utf8_bits d 6 OR utf8_bits e 0, 5))
      else None)"

lemma utf8_decode_char_size: "utf8_decode_char bs = Some (wc, n) \<Longrightarrow> 0 < n \<and> n \<le> 5"
  by (auto simp: utf8_decode_char_def Let_def split: if_splits)

text \<open>
  The loop: \<open>bs\<close> are the bytes from \<^verbatim>\<open>str_index\<close> to the terminator, \<open>buf\<close> the code units
  written so far (its length is \<^verbatim>\<open>i\<close>), and the buffer has room for \<open>cap + 1\<close> of them.
\<close>

function string_to_wstring_loop ::
  "8 word list \<Rightarrow> nat \<Rightarrow> 32 word list \<Rightarrow> 32 word list option run" where
  "string_to_wstring_loop bs cap buf =
     (if bs = [] then Done (Some buf)
      else
        let cap' = (if length buf > cap then cap + 10 else cap) in
        case utf8_decode_char bs of
          None \<Rightarrow> Done None
        | Some (wc, n) \<Rightarrow>
            if length buf > cap' then Undefined
            else string_to_wstring_loop (drop n bs) cap' (buf @ [wc]))"
  by pat_completeness auto
termination
proof (relation "measure (\<lambda>(bs, cap, buf). length bs)", goal_cases)
  case 1
  show ?case by simp
next
  case (2 bs cap buf cap' y wc n)
  then show ?case using utf8_decode_char_size [of bs wc n] by auto
qed

declare string_to_wstring_loop.simps [simp del]

definition scim_bridge_string_to_wstring :: "string option \<Rightarrow> 32 word list option run" where
  "scim_bridge_string_to_wstring str =
     (case str of None \<Rightarrow> Done None
      | Some s \<Rightarrow>
          run_bind (string_to_wstring_loop (map byte_of_char s @ [0]) 10 [])
            (\<lambda>r. Done (map_option butlast r)))"

text \<open>
  \<^verbatim>\<open>wchar\<close> is \<^verbatim>\<open>wchar_t\<close>, a signed integer, where \<^verbatim>\<open>__STDC_ISO_10646__\<close> is defined (glibc), and
  \<^verbatim>\<open>uint32_t\<close> elsewhere; \<open>sg\<close> says which, and the comparisons of the code read the unit so.
\<close>

definition wchar_val :: "bool \<Rightarrow> 32 word \<Rightarrow> int" where
  "wchar_val sg wc = (if sg then sint wc else uint wc)"

definition wc_size_in_utf8 :: "bool \<Rightarrow> 32 word \<Rightarrow> nat" where
  "wc_size_in_utf8 sg wc =
     (let v = wchar_val sg wc in
      if v < 0x80 then 1 else if v < 0x800 then 2 else if v < 0x10000 then 3
      else if v < 0x200000 then 4 else if v < 0x4000000 then 5
      else if v \<le> 0x7fffffff then 6 else 0)"

text \<open>The marks of the falling-through \<^verbatim>\<open>switch\<close>: case \<open>k\<close> leaves \<^verbatim>\<open>wc = (wc >> 6) | mark\<close>.\<close>

definition utf8_mark :: "nat \<Rightarrow> 32 word" where
  "utf8_mark k =
     (if k = 6 then 0x4000000 else if k = 5 then 0x200000 else if k = 4 then 0x10000
      else if k = 3 then 0x800 else 0xc0)"

fun utf8_encode_char :: "nat \<Rightarrow> 32 word \<Rightarrow> 8 word list" where
  "utf8_encode_char 0 wc = []"
| "utf8_encode_char (Suc 0) wc = [ucast wc]"
| "utf8_encode_char (Suc (Suc k)) wc =
     utf8_encode_char (Suc k) (drop_bit 6 wc OR utf8_mark (Suc (Suc k)))
       @ [ucast (0x80 OR (wc AND 0x3f))]"

text \<open>\<^verbatim>\<open>strncpy\<close> copies up to the first NUL and pads with NULs.\<close>

definition strncpy_bytes :: "8 word list \<Rightarrow> 8 word list" where
  "strncpy_bytes bs =
     (let s = takeWhile (\<lambda>b. b \<noteq> 0) bs in s @ replicate (length bs - length s) 0)"

text \<open>
  The loop over \<open>wstr[0]\<close> .. \<open>wstr[wstr_length]\<close>; \<open>buf\<close> are the bytes written so far (its
  length is \<^verbatim>\<open>str_index\<close>), and the buffer has room for \<open>cap + 1\<close> of them.
\<close>

fun wstring_to_string_loop ::
  "bool \<Rightarrow> 32 word list \<Rightarrow> nat \<Rightarrow> 8 word list \<Rightarrow> 8 word list option run" where
  "wstring_to_string_loop sg [] cap buf = Done (Some buf)"
| "wstring_to_string_loop sg (wc # ws) cap buf =
     (let n = wc_size_in_utf8 sg wc in
      if n = 0 then Done None
      else
        let grow = (length buf + n > cap);
            cap' = (if grow then cap + 10 else cap);
            buf' = (if grow then strncpy_bytes buf else buf) in
        if length buf + n > cap' + 1 then Undefined
        else wstring_to_string_loop sg ws cap' (buf' @ utf8_encode_char n wc))"

text \<open>The result is the length the function returns and the C string it stores in \<^verbatim>\<open>*str\<close>
  (\<^verbatim>\<open>strcpy\<close> stops at the first NUL).\<close>

definition scim_bridge_wstring_to_string ::
  "bool \<Rightarrow> 32 word list option \<Rightarrow> (nat \<times> string) option run" where
  "scim_bridge_wstring_to_string sg wstr =
     (case wstr of None \<Rightarrow> Done None
      | Some ws \<Rightarrow>
          run_bind (wstring_to_string_loop sg (takeWhile (\<lambda>wc. wc \<noteq> 0) ws @ [0]) 10 [])
            (\<lambda>r. Done (map_option
               (\<lambda>buf. (length buf - 1, map char_of_byte (takeWhile (\<lambda>b. b \<noteq> 0) buf))) r)))"

section \<open>What the number parsers accept\<close>

text \<open>The number that a string of decimal digits denotes, \<open>v\<close> being the digits before it, and the
  integer that such a string with an optional leading minus sign denotes. Neither knows of any
  width; the empty string denotes 0.\<close>

fun dec_value :: "nat \<Rightarrow> string \<Rightarrow> nat option" where
  "dec_value v [] = Some v"
| "dec_value v (c # s) =
     (case digit_of_char c of None \<Rightarrow> None | Some d \<Rightarrow> dec_value (v * 10 + d) s)"

lemma digit_of_char_bound: "digit_of_char c = Some d \<Longrightarrow> d < 10"
  by (auto simp: digit_of_char_def split: if_splits)

lemma dec_value_ge: "dec_value v s = Some n \<Longrightarrow> v \<le> n"
  by (induction v s rule: dec_value.induct) (fastforce split: option.splits)+

lemma string_to_uint_step:
  assumes "unat (v :: 64 word) \<le> 4294967295" "d < 10"
  shows "unat (v * 10 + of_nat d) = unat v * 10 + d"
proof -
  have "unat (of_nat d :: 64 word) = d"
    using assms(2) by (simp add: unat_of_nat)
  then show ?thesis
    using assms by (simp add: unat_word_ariths)
qed

lemma string_to_uint_loop_spec:
  "unat v \<le> 4294967295 \<Longrightarrow>
   string_to_uint_loop s v =
     (case dec_value (unat v) s of None \<Rightarrow> None
      | Some n \<Rightarrow> if n \<le> 4294967295 then Some (of_nat n) else None)"
proof (induction s v rule: string_to_uint_loop.induct)
  case (1 v)
  then show ?case by simp
next
  case (2 c s v)
  show ?case
  proof (cases "digit_of_char c")
    case None
    then show ?thesis by simp
  next
    case (Some d)
    let ?v = "v * 10 + of_nat d"
    have v: "unat ?v = unat v * 10 + d"
      using string_to_uint_step [OF "2.prems" digit_of_char_bound [OF Some]] .
    have le: "?v > UINT_MAX \<longleftrightarrow> unat v * 10 + d > 4294967295"
      unfolding v [symmetric] by (simp add: word_less_nat_alt UINT_MAX_def)
    show ?thesis
    proof (cases "?v > UINT_MAX")
      case True
      with Some le show ?thesis
        by (auto simp: Let_def split: option.splits dest: dec_value_ge)
    next
      case False
      with le have "unat ?v \<le> 4294967295" using v by simp
      with "2.IH" [OF Some refl False] Some False v show ?thesis by (simp add: Let_def)
    qed
  qed
qed

lemma string_to_uint_iff:
  "scim_bridge_string_to_uint (Some s) = Some w \<longleftrightarrow> dec_value 0 s = Some (unat w)"
proof -
  have w: "unat w \<le> 4294967295" by (rule unat_32_le)
  have *: "ucast (of_nat n :: 64 word) = w \<longleftrightarrow> n = unat w" if "n \<le> 4294967295" for n
  proof -
    have "ucast (of_nat n :: 64 word) = (of_nat n :: 32 word)"
      by (rule ucast_of_nat_64_32)
    moreover have "unat (of_nat n :: 32 word) = n" using that by (simp add: unat_of_nat)
    ultimately show ?thesis by (metis word_unat_eq_iff)
  qed
  show ?thesis
    using w * string_to_uint_loop_spec [of 0 s]
    by (auto simp: scim_bridge_string_to_uint_def split: option.splits if_splits)
qed

lemma digit_of_char_of_digit [simp]: "d < 10 \<Longrightarrow> digit_of_char (char_of_digit d) = Some d"
proof -
  assume "d < 10"
  then have "d \<in> {0, 1, 2, 3, 4, 5, 6, 7, 8, 9}" by auto
  then show ?thesis by (auto simp: digit_of_char_def char_of_digit_def)
qed

lemma digit_of_char_None [simp]:
  "digit_of_char CHR ''-'' = None" "digit_of_char NUL = None"
  "digit_of_char CHR '' '' = None" "digit_of_char (CHR 0x0A) = None"
  by (simp_all add: digit_of_char_def)

lemma dec_value_append:
  "dec_value v (s @ t) = (case dec_value v s of None \<Rightarrow> None | Some n \<Rightarrow> dec_value n t)"
  by (induction v s rule: dec_value.induct) (auto split: option.splits)

lemma dec_value_printf_u: "dec_value 0 (printf_u n) = Some n"
proof (induction n rule: printf_u.induct)
  case (1 n)
  then show ?case
    by (subst printf_u.simps) (auto simp: dec_value_append)
qed

lemma printf_u_Nil [simp]: "printf_u n \<noteq> []"
  by (subst printf_u.simps) simp

lemma string_to_uint_from_uint:
  "scim_bridge_string_to_uint (Some (snd (scim_bridge_string_from_uint v))) = Some v"
  by (simp add: string_to_uint_iff scim_bridge_string_from_uint_def dec_value_printf_u)

fun int_value :: "string \<Rightarrow> int option" where
  "int_value s =
     (if s \<noteq> [] \<and> hd s = CHR ''-'' then map_option (\<lambda>n. - int n) (dec_value 0 (tl s))
      else map_option int (dec_value 0 s))"

declare int_value.simps [simp del]

lemma string_to_int_loop_pos:
  "i \<noteq> 0 \<or> s = [] \<or> hd s \<noteq> CHR ''-'' \<Longrightarrow> unat v \<le> 2147483647 \<Longrightarrow>
   string_to_int_loop i s v False =
     (case dec_value (unat v) s of None \<Rightarrow> None
      | Some n \<Rightarrow> if n \<le> 2147483647 then Some (of_nat n, False) else None)"
proof (induction s arbitrary: i v)
  case Nil
  then show ?case by simp
next
  case (Cons c s)
  show ?case
  proof (cases "digit_of_char c")
    case None
    with Cons.prems show ?thesis by auto
  next
    case (Some d)
    then have c: "c \<noteq> CHR ''-''" by auto
    let ?v = "v * 10 + of_nat d"
    have v: "unat ?v = unat v * 10 + d"
      using string_to_uint_step [OF _ digit_of_char_bound [OF Some], of v] Cons.prems by simp
    have le: "?v > INT_MAX \<longleftrightarrow> unat v * 10 + d > 2147483647"
      unfolding v [symmetric] by (simp add: word_less_nat_alt INT_MAX_def)
    show ?thesis
    proof (cases "?v > INT_MAX")
      case True
      with Some le c show ?thesis
        by (auto simp: Let_def split: option.splits dest: dec_value_ge)
    next
      case False
      with le have "unat ?v \<le> 2147483647" using v by simp
      with Cons.IH [of "Suc i" ?v] Some False v c show ?thesis by (simp add: Let_def)
    qed
  qed
qed

lemma INT_MIN_numeral: "INT_MIN = - 2147483648"
  by (simp add: INT_MIN_def)

lemma string_to_int_loop_neg:
  "i \<noteq> 0 \<Longrightarrow> unat v \<le> 2147483648 \<Longrightarrow>
   string_to_int_loop i s v True =
     (case dec_value (unat v) s of None \<Rightarrow> None
      | Some n \<Rightarrow> if n \<le> 2147483648 then Some (of_nat n, True) else None)"
proof (induction s arbitrary: i v)
  case Nil
  then show ?case by simp
next
  case (Cons c s)
  show ?case
  proof (cases "digit_of_char c")
    case None
    with Cons.prems show ?thesis by auto
  next
    case (Some d)
    then have c: "c \<noteq> CHR ''-''" by auto
    let ?v = "v * 10 + of_nat d"
    have v: "unat ?v = unat v * 10 + d"
      using string_to_uint_step [OF _ digit_of_char_bound [OF Some], of v] Cons.prems by simp
    have "d < 10" by (rule digit_of_char_bound [OF Some])
    have "sint ?v = int (unat v * 10 + d)"
    proof -
      have "uint ?v = int (unat v * 10 + d)" using v by (metis uint_nat)
      moreover have "unat v * 10 + d < 9223372036854775808"
        using Cons.prems \<open>d < 10\<close> by linarith
      then have "int (unat v * 10 + d) < 2 ^ 63"
        using of_nat_less_iff [where 'a = int, THEN iffD2] by fastforce
      ultimately show ?thesis by (subst sint_eq_uint) simp_all
    qed
    then have le: "- sint ?v < INT_MIN \<longleftrightarrow> unat v * 10 + d > 2147483648"
      by (simp only: INT_MIN_numeral) arith
    show ?thesis
    proof (cases "- sint ?v < INT_MIN")
      case True
      with Some le c show ?thesis
        by (auto simp: Let_def split: option.splits dest: dec_value_ge)
    next
      case False
      with le have "unat ?v \<le> 2147483648" using v by simp
      with Cons.IH [of "Suc i" ?v] Some False v c show ?thesis by (simp add: Let_def)
    qed
  qed
qed

lemma sint_of_nat_32: "n \<le> 2147483647 \<Longrightarrow> sint (of_nat n :: 32 word) = int n"
  by (simp add: sint_eq_uint unsigned_of_nat take_bit_eq_mod)

lemma sint_neg_of_nat_32: "n \<le> 2147483648 \<Longrightarrow> sint (ucast (- of_nat n :: 64 word) :: 32 word) = - int n"
proof -
  assume n: "n \<le> 2147483648"
  have "(- of_nat n :: 64 word) = word_of_int (- int n)" by simp
  then have "ucast (- of_nat n :: 64 word) = (word_of_int (- int n) :: 32 word)"
    by (simp only: ucast_word_of_int_64_32)
  then have "sint (ucast (- of_nat n :: 64 word) :: 32 word) = sint (word_of_int (- int n) :: 32 word)"
    by (rule arg_cong)
  also have "\<dots> = - int n"
    using n by (subst sint_sbintrunc') (simp add: signed_take_bit_int_eq_self)
  finally show ?thesis .
qed

lemma string_to_int_iff:
  "scim_bridge_string_to_int (Some s) = Some i \<longleftrightarrow>
   int_value s = Some i \<and> - 2147483648 \<le> i \<and> i \<le> 2147483647"
proof (cases "s \<noteq> [] \<and> hd s = CHR ''-''")
  case True
  then obtain t where s: "s = CHR ''-'' # t" by (cases s) auto
  have "string_to_int_loop 0 s 0 False = string_to_int_loop (Suc 0) t 0 True"
    by (simp add: s INT_MIN_def)
  with s show ?thesis
    using string_to_int_loop_neg [of "Suc 0" 0 t]
    by (auto simp: scim_bridge_string_to_int_def int_value.simps sint_neg_of_nat_32
        split: option.splits if_splits)
next
  case False
  then have "s = [] \<or> hd s \<noteq> CHR ''-''" by auto
  with False show ?thesis
    using string_to_int_loop_pos [of 0 s 0]
    by (auto simp: scim_bridge_string_to_int_def int_value.simps ucast_of_nat_64_32 sint_of_nat_32
        split: option.splits if_splits)
qed

lemma hd_printf_u: "hd (printf_u n) \<noteq> CHR ''-''"
proof
  assume "hd (printf_u n) = CHR ''-''"
  then obtain t where "printf_u n = CHR ''-'' # t" by (cases "printf_u n") auto
  then show False using dec_value_printf_u [of n] by simp
qed

lemma int_value_printf_d: "int_value (printf_d i) = Some i"
  by (simp add: int_value.simps printf_d_def hd_printf_u dec_value_printf_u)

lemma string_to_int_from_int:
  "- 2147483648 \<le> i \<Longrightarrow> i \<le> 2147483647 \<Longrightarrow>
   scim_bridge_string_to_int (Some (snd (scim_bridge_string_from_int i))) = Some i"
  by (simp add: string_to_int_iff scim_bridge_string_from_int_def int_value_printf_d)

lemma string_to_boolean_from_boolean:
  "scim_bridge_string_to_boolean (Some (snd (scim_bridge_string_from_boolean b))) = Some b"
  by (simp add: scim_bridge_string_to_boolean_def scim_bridge_string_from_boolean_def)

section \<open>The codecs of the wire\<close>

interpretation uint_codec: text_codec
  "\<lambda>v. snd (scim_bridge_string_from_uint v)" "\<lambda>s. scim_bridge_string_to_uint (Some s)" "\<lambda>_. True"
  by unfold_locales (rule string_to_uint_from_uint)

interpretation int_codec: text_codec
  "\<lambda>i. snd (scim_bridge_string_from_int i)" "\<lambda>s. scim_bridge_string_to_int (Some s)"
  "\<lambda>i. - 2147483648 \<le> i \<and> i \<le> 2147483647"
  by unfold_locales (simp add: string_to_int_from_int)

interpretation boolean_codec: text_codec
  "\<lambda>b. snd (scim_bridge_string_from_boolean b)" "\<lambda>s. scim_bridge_string_to_boolean (Some s)"
  "\<lambda>_. True"
  by unfold_locales (rule string_to_boolean_from_boolean)

text \<open>every unsigned integer survives the trip through its wire form.\<close>

theorem uint_round_trip:
  "scim_bridge_string_to_uint (Some (snd (scim_bridge_string_from_uint v))) = Some v"
  by (rule uint_codec.dec_enc) simp

text \<open>\<^verbatim>\<open>scim_bridge_string_to_uint\<close> accepts exactly the strings of decimal digits whose value
  fits 32 bits, and returns that value: no overflow of \<^verbatim>\<open>value\<close> goes unnoticed, and nothing that
  fits is rejected.\<close>

theorem string_to_uint_characterised:
  "scim_bridge_string_to_uint (Some s) =
     (case dec_value 0 s of None \<Rightarrow> None
      | Some n \<Rightarrow> if n \<le> 4294967295 then Some (of_nat n) else None)"
  using string_to_uint_loop_spec [of 0 s]
  by (auto simp: scim_bridge_string_to_uint_def ucast_of_nat_64_32 split: option.splits)

text \<open>\<^verbatim>\<open>scim_bridge_string_to_int\<close> accepts exactly the strings of decimal digits with an optional
  leading minus sign whose value fits a 32-bit \<^verbatim>\<open>int\<close>, \<^verbatim>\<open>INT_MIN\<close> included, and returns that value.\<close>

theorem string_to_int_characterised:
  "scim_bridge_string_to_int (Some s) = Some i \<longleftrightarrow>
     int_value s = Some i \<and> - 2147483648 \<le> i \<and> i \<le> 2147483647"
  by (rule string_to_int_iff)

text \<open>every 32-bit \<^verbatim>\<open>int\<close> survives the trip through its wire form.\<close>

theorem int_round_trip:
  fixes v :: "32 word"
  shows "scim_bridge_string_to_int (Some (snd (scim_bridge_string_from_int (sint v)))) = Some (sint v)"
  by (rule int_codec.dec_enc) (use sint_range_size [of v] in \<open>simp add: word_size\<close>)

end
