(* ===== verification/Bridge_Utf8.thy ===== *)
theory Bridge_Utf8
  imports Bridge_String
begin

text \<open>
  The arithmetic of one UTF-8 sequence: what the bit operations of the encoder and the decoder of
  \<^verbatim>\<open>scim-bridge-string.c\<close> compute as integers, that the decoder inverts the encoder on the units of
  one to five bytes (\<open>decode_encode\<close>), and that a sequence that decodes is the encoding of what it
  decodes to (\<open>encode_decode_2\<close> to \<open>encode_decode_5\<close>).
\<close>

lemma or_add_int: "0 \<le> y \<Longrightarrow> y < 2 ^ k \<Longrightarrow> (x * 2 ^ k) OR y = x * 2 ^ k + (y :: int)"
proof -
  assume y: "0 \<le> y" "y < 2 ^ k"
  then have y': "take_bit k y = y" by (simp add: take_bit_int_eq_self)
  have x: "x * 2 ^ k = push_bit k x" by (simp add: push_bit_eq_mult)
  have "push_bit k x + take_bit k y = push_bit k x OR take_bit k y"
    by (rule disjunctive_add) (auto simp: bit_push_bit_iff bit_take_bit_iff)
  with y' x show ?thesis by simp
qed

lemma xor_80_int: "0 \<le> k \<Longrightarrow> k < 256 \<Longrightarrow> (k :: int) XOR 128 = (if k < 128 then k + 128 else k - 128)"
proof -
  have "\<forall>k \<in> set [0..255]. (k :: int) XOR 128 = (if k < 128 then k + 128 else k - 128)"
    by code_simp
  then show "0 \<le> k \<Longrightarrow> k < 256 \<Longrightarrow> ?thesis" by simp
qed

lemma uint_byte: "0 \<le> uint (b :: 8 word)" "uint (b :: 8 word) < 256"
  using uint_lt2p [of b] by simp_all

lemma uint_xor_80: "uint (b XOR 0x80 :: 8 word) = (if uint b < 128 then uint b + 128 else uint b - 128)"
  by (simp add: uint_xor xor_80_int uint_byte)

lemma utf8_tail_iff: "utf8_tail b \<longleftrightarrow> 128 \<le> uint b \<and> uint b < 192"
proof -
  define k where "k = uint b"
  have "0 \<le> k" "k < 256" using uint_byte [of b] by (simp_all add: k_def)
  then show ?thesis
    by (auto simp: utf8_tail_def word_less_def uint_xor_80 k_def [symmetric])
qed

lemma uint_push_ucast:
  "uint (x :: 8 word) * 2 ^ n < 2 ^ 32 \<Longrightarrow>
   uint (push_bit n (ucast x) :: 32 word) = uint x * 2 ^ n"
proof -
  assume "uint x * 2 ^ n < 2 ^ 32"
  moreover have "uint (ucast x :: 32 word) = uint x"
    using uint_byte [of x] by (simp add: unsigned_ucast_eq take_bit_int_eq_self)
  ultimately show ?thesis
    unfolding unsigned_push_bit_eq by (simp add: push_bit_eq_mult take_bit_int_eq_self)
qed

lemma uint_utf8_bits:
  assumes "utf8_tail b" "n \<le> 24"
  shows "uint (utf8_bits b n) = (uint b - 128) * 2 ^ n"
proof -
  have b: "uint (b XOR 0x80) = uint b - 128" "uint b - 128 < 64" "0 \<le> uint b - 128"
    using assms(1) by (auto simp: utf8_tail_iff uint_xor_80)
  have "(2 :: int) ^ n \<le> 2 ^ 24"
    using assms(2) by (intro power_increasing) simp_all
  with b have "(uint b - 128) * 2 ^ n < 64 * 2 ^ 24"
    by (intro mult_less_le_imp_less) auto
  with b show ?thesis
    unfolding utf8_bits_def by (subst uint_push_ucast) simp_all
qed

lemma uint_and_mask:
  "uint (a AND 0x1f :: 8 word) = uint a mod 32" "uint (a AND 0x0f :: 8 word) = uint a mod 16"
  "uint (a AND 0x07 :: 8 word) = uint a mod 8" "uint (a AND 0x03 :: 8 word) = uint a mod 4"
  using take_bit_eq_mask [of 5 "uint a"] take_bit_eq_mask [of 4 "uint a"]
    take_bit_eq_mask [of 3 "uint a"] take_bit_eq_mask [of 2 "uint a"]
  by (simp_all add: uint_and take_bit_eq_mod mask_eq_exp_minus_1)

lemma uint_lead:
  "n \<le> 24 \<Longrightarrow> uint (push_bit n (ucast (a AND 0x1f :: 8 word)) :: 32 word) = uint a mod 32 * 2 ^ n"
  "n \<le> 24 \<Longrightarrow> uint (push_bit n (ucast (a AND 0x0f :: 8 word)) :: 32 word) = uint a mod 16 * 2 ^ n"
  "n \<le> 24 \<Longrightarrow> uint (push_bit n (ucast (a AND 0x07 :: 8 word)) :: 32 word) = uint a mod 8 * 2 ^ n"
  "n \<le> 24 \<Longrightarrow> uint (push_bit n (ucast (a AND 0x03 :: 8 word)) :: 32 word) = uint a mod 4 * 2 ^ n"
proof -
  have *: "uint (push_bit n (ucast x) :: 32 word) = uint x * 2 ^ n"
    if "n \<le> 24" "uint (x :: 8 word) < 32" for n x
  proof -
    have "(2 :: int) ^ n \<le> 2 ^ 24"
      using that(1) by (intro power_increasing) simp_all
    with that have "uint x * 2 ^ n < 32 * 2 ^ 24"
      by (intro mult_less_le_imp_less) auto
    then show ?thesis by (intro uint_push_ucast) simp
  qed
  have bound: "(x :: int) mod 32 < 32" "x mod 16 < 32" "x mod 8 < 32" "x mod 4 < 32" for x
    by (auto intro: order_less_le_trans [OF pos_mod_bound])
  show "n \<le> 24 \<Longrightarrow> uint (push_bit n (ucast (a AND 0x1f :: 8 word)) :: 32 word) = uint a mod 32 * 2 ^ n"
    "n \<le> 24 \<Longrightarrow> uint (push_bit n (ucast (a AND 0x0f :: 8 word)) :: 32 word) = uint a mod 16 * 2 ^ n"
    "n \<le> 24 \<Longrightarrow> uint (push_bit n (ucast (a AND 0x07 :: 8 word)) :: 32 word) = uint a mod 8 * 2 ^ n"
    "n \<le> 24 \<Longrightarrow> uint (push_bit n (ucast (a AND 0x03 :: 8 word)) :: 32 word) = uint a mod 4 * 2 ^ n"
    by (simp_all add: * uint_and_mask bound)
qed

lemma uint_or_add:
  assumes "uint (w :: 32 word) = x * 2 ^ k" "uint v = y" "y < 2 ^ k"
  shows "uint (w OR v) = x * 2 ^ k + y"
proof -
  have "0 \<le> y" using assms(2) by auto
  then show ?thesis
    using or_add_int [OF _ assms(3), of x] by (simp add: uint_or assms)
qed

lemma utf8_tail_bound: "utf8_tail b \<Longrightarrow> uint b - 128 < 64"
  by (simp add: utf8_tail_iff)

lemma uint_utf8_bits_0: "utf8_tail b \<Longrightarrow> uint (utf8_bits b 0) = uint b - 128"
  by (simp add: uint_utf8_bits)

lemma decode2:
  assumes "utf8_tail b"
  shows "uint (push_bit 6 (ucast ((a :: 8 word) AND 0x1f)) OR utf8_bits b 0)
    = uint a mod 32 * 2 ^ 6 + (uint b - 128)"
  using assms by (intro uint_or_add uint_lead uint_utf8_bits_0) (simp_all add: utf8_tail_iff)

lemma decode_tail2:
  assumes "utf8_tail c" "utf8_tail d"
  shows "uint (utf8_bits c 6 OR utf8_bits d 0) = (uint c - 128) * 2 ^ 6 + (uint d - 128)"
  using assms by (intro uint_or_add uint_utf8_bits uint_utf8_bits_0) (simp_all add: utf8_tail_iff)

lemma decode_tail3:
  assumes "utf8_tail b" "utf8_tail c" "utf8_tail d"
  shows "uint (utf8_bits b 12 OR utf8_bits c 6 OR utf8_bits d 0)
    = (uint b - 128) * 2 ^ 12 + ((uint c - 128) * 2 ^ 6 + (uint d - 128))"
  using assms by (intro uint_or_add uint_utf8_bits decode_tail2) (simp_all add: utf8_tail_iff)

lemma decode_tail4:
  assumes "utf8_tail e" "utf8_tail b" "utf8_tail c" "utf8_tail d"
  shows "uint (utf8_bits e 18 OR utf8_bits b 12 OR utf8_bits c 6 OR utf8_bits d 0)
    = (uint e - 128) * 2 ^ 18 + ((uint b - 128) * 2 ^ 12 + ((uint c - 128) * 2 ^ 6 + (uint d - 128)))"
  using assms by (intro uint_or_add uint_utf8_bits decode_tail3) (simp_all add: utf8_tail_iff)

lemma decode3:
  assumes "utf8_tail c" "utf8_tail d"
  shows "uint (push_bit 12 (ucast ((a :: 8 word) AND 0x0f)) OR utf8_bits c 6 OR utf8_bits d 0)
    = uint a mod 16 * 2 ^ 12 + ((uint c - 128) * 2 ^ 6 + (uint d - 128))"
  using assms by (intro uint_or_add uint_lead decode_tail2) (simp_all add: utf8_tail_iff)

lemma decode4:
  assumes "utf8_tail b" "utf8_tail c" "utf8_tail d"
  shows "uint (push_bit 18 (ucast ((a :: 8 word) AND 0x07)) OR utf8_bits b 12 OR utf8_bits c 6 OR utf8_bits d 0)
    = uint a mod 8 * 2 ^ 18 + ((uint b - 128) * 2 ^ 12 + ((uint c - 128) * 2 ^ 6 + (uint d - 128)))"
  using assms by (intro uint_or_add uint_lead decode_tail3) (simp_all add: utf8_tail_iff)

lemma decode5:
  assumes "utf8_tail e" "utf8_tail b" "utf8_tail c" "utf8_tail d"
  shows "uint (push_bit 24 (ucast ((a :: 8 word) AND 0x03)) OR utf8_bits e 18 OR utf8_bits b 12
      OR utf8_bits c 6 OR utf8_bits d 0)
    = uint a mod 4 * 2 ^ 24 + ((uint e - 128) * 2 ^ 18 + ((uint b - 128) * 2 ^ 12
        + ((uint c - 128) * 2 ^ 6 + (uint d - 128))))"
  using assms by (intro uint_or_add uint_lead decode_tail4) (simp_all add: utf8_tail_iff)

lemma uint_low_byte: "uint (ucast (0x80 OR (wc AND 0x3f) :: 32 word) :: 8 word) = 128 + uint wc mod 64"
proof -
  have m: "uint (wc AND 0x3f) = uint wc mod 64"
    using take_bit_eq_mask [of 6 "uint wc"] by (simp add: uint_and take_bit_eq_mod mask_eq_exp_minus_1)
  have "uint (0x80 OR (wc AND 0x3f) :: 32 word) = 1 * 2 ^ 7 + uint wc mod 64"
    by (rule uint_or_add) (use m in \<open>simp_all add: order_less_trans [OF pos_mod_bound]\<close>)
  then show ?thesis
    by (simp add: unsigned_ucast_eq take_bit_eq_mod)
qed

lemma uint_32: "0 \<le> uint (w :: 32 word)" "uint (w :: 32 word) < 4294967296"
  using uint_lt2p [of w] by simp_all

lemma uint_utf8_mark:
  "uint wc < 2 ^ 12 \<Longrightarrow> uint (drop_bit 6 wc OR utf8_mark 2) = uint wc div 64 + 0xc0"
  "uint wc < 2 ^ 17 \<Longrightarrow> uint (drop_bit 6 wc OR utf8_mark 3) = uint wc div 64 + 0x800"
  "uint wc < 2 ^ 22 \<Longrightarrow> uint (drop_bit 6 wc OR utf8_mark 4) = uint wc div 64 + 0x10000"
  "uint wc < 2 ^ 27 \<Longrightarrow> uint (drop_bit 6 wc OR utf8_mark 5) = uint wc div 64 + 0x200000"
proof -
  have d: "uint (drop_bit 6 wc) = uint wc div 64"
    unfolding unsigned_drop_bit_eq using uint_32 [of wc]
    by (simp add: drop_bit_eq_div take_bit_int_eq_self)
  have *: "uint (drop_bit 6 wc OR m) = uint wc div 64 + x * 2 ^ k"
    if "uint m = x * 2 ^ k" "uint wc div 64 < 2 ^ k" for m x k
    using uint_or_add [OF that(1) d that(2)] by (simp add: or.commute)
  show "uint wc < 2 ^ 12 \<Longrightarrow> uint (drop_bit 6 wc OR utf8_mark 2) = uint wc div 64 + 0xc0"
    using * [of "utf8_mark 2" 3 6] by (simp add: utf8_mark_def)
  show "uint wc < 2 ^ 17 \<Longrightarrow> uint (drop_bit 6 wc OR utf8_mark 3) = uint wc div 64 + 0x800"
    using * [of "utf8_mark 3" 1 11] by (simp add: utf8_mark_def)
  show "uint wc < 2 ^ 22 \<Longrightarrow> uint (drop_bit 6 wc OR utf8_mark 4) = uint wc div 64 + 0x10000"
    using * [of "utf8_mark 4" 1 16] by (simp add: utf8_mark_def)
  show "uint wc < 2 ^ 27 \<Longrightarrow> uint (drop_bit 6 wc OR utf8_mark 5) = uint wc div 64 + 0x200000"
    using * [of "utf8_mark 5" 1 21] by (simp add: utf8_mark_def)
qed

lemma sint_32: "sint (w :: 32 word) = (if uint w < 2147483648 then uint w else uint w - 4294967296)"
proof -
  define k where "k = uint w"
  have k: "0 \<le> k" "k < 4294967296" using uint_32 [of w] by (simp_all add: k_def)
  have "k div 2147483648 = (if k < 2147483648 then 0 else 1)" using k by auto
  then have "bit k 31 \<longleftrightarrow> \<not> k < 2147483648" by (simp add: bit_iff_odd)
  moreover have "sint w = take_bit 32 k - 2 ^ 32 * of_bool (bit k 31)"
    unfolding sint_uint k_def [symmetric] by (simp add: signed_take_bit_eq_take_bit_minus)
  ultimately show ?thesis
    using k by (simp add: take_bit_int_eq_self k_def [symmetric])
qed

lemma wc_size_cases:
  "wc_size_in_utf8 sg wc = 1 \<Longrightarrow> \<not> sg \<Longrightarrow> uint wc < 0x80"
  "wc_size_in_utf8 sg wc = 2 \<longleftrightarrow> 0x80 \<le> uint wc \<and> uint wc < 0x800"
  "wc_size_in_utf8 sg wc = 3 \<longleftrightarrow> 0x800 \<le> uint wc \<and> uint wc < 0x10000"
  "wc_size_in_utf8 sg wc = 4 \<longleftrightarrow> 0x10000 \<le> uint wc \<and> uint wc < 0x200000"
  "wc_size_in_utf8 sg wc = 5 \<longleftrightarrow> 0x200000 \<le> uint wc \<and> uint wc < 0x4000000"
  "wc_size_in_utf8 sg wc = 6 \<longleftrightarrow> 0x4000000 \<le> uint wc \<and> uint wc < 0x80000000"
proof -
  note s = sint_32 [of wc]
  show "wc_size_in_utf8 sg wc = 1 \<Longrightarrow> \<not> sg \<Longrightarrow> uint wc < 0x80"
  "wc_size_in_utf8 sg wc = 2 \<longleftrightarrow> 0x80 \<le> uint wc \<and> uint wc < 0x800"
  "wc_size_in_utf8 sg wc = 3 \<longleftrightarrow> 0x800 \<le> uint wc \<and> uint wc < 0x10000"
  "wc_size_in_utf8 sg wc = 4 \<longleftrightarrow> 0x10000 \<le> uint wc \<and> uint wc < 0x200000"
  "wc_size_in_utf8 sg wc = 5 \<longleftrightarrow> 0x200000 \<le> uint wc \<and> uint wc < 0x4000000"
  "wc_size_in_utf8 sg wc = 6 \<longleftrightarrow> 0x4000000 \<le> uint wc \<and> uint wc < 0x80000000"
    using uint_32 [of wc] by (auto simp: wc_size_in_utf8_def wchar_val_def Let_def s split: if_splits)
qed

lemma length_utf8_encode_char [simp]: "length (utf8_encode_char n wc) = n"
  by (induction n wc rule: utf8_encode_char.induct) auto

lemma utf8_encode_char_eqs:
  "utf8_encode_char 1 wc = [ucast wc]"
  "utf8_encode_char 2 wc = [ucast (drop_bit 6 wc OR utf8_mark 2), ucast (0x80 OR (wc AND 0x3f))]"
  "utf8_encode_char 3 wc = utf8_encode_char 2 (drop_bit 6 wc OR utf8_mark 3) @ [ucast (0x80 OR (wc AND 0x3f))]"
  "utf8_encode_char 4 wc = utf8_encode_char 3 (drop_bit 6 wc OR utf8_mark 4) @ [ucast (0x80 OR (wc AND 0x3f))]"
  "utf8_encode_char 5 wc = utf8_encode_char 4 (drop_bit 6 wc OR utf8_mark 5) @ [ucast (0x80 OR (wc AND 0x3f))]"
  by (simp_all add: eval_nat_numeral)

lemma add_64_div: "m = 64 * k \<Longrightarrow> (a + m) div 64 = a div 64 + (k :: int)"
  by (simp only: div_mult_self2 zero_neq_numeral not_False_eq_True add.commute [of k])

lemma add_64_mod: "64 dvd m \<Longrightarrow> (a + m) mod 64 = a mod (64 :: int)"
  by (subst mod_add_right_eq [symmetric]) (simp only: dvd_imp_mod_0 add_0_right)

lemma add_64_div_mod:
  "(a + 2048) div 64 = a div 64 + (32 :: int)" "(a + 2048) mod 64 = a mod (64 :: int)"
  "(a + 65536) div 64 = a div 64 + (1024 :: int)" "(a + 65536) mod 64 = a mod (64 :: int)"
  "(a + 2097152) div 64 = a div 64 + (32768 :: int)" "(a + 2097152) mod 64 = a mod (64 :: int)"
  "(a + 1024) div 64 = a div 64 + (16 :: int)" "(a + 1024) mod 64 = a mod (64 :: int)"
  "(a + 32768) div 64 = a div 64 + (512 :: int)" "(a + 32768) mod 64 = a mod (64 :: int)"
  "(a + 512) div 64 = a div 64 + (8 :: int)" "(a + 512) mod 64 = a mod (64 :: int)"
  by ((rule add_64_div | rule add_64_mod), simp)+

lemma six_bits:
  assumes "0 \<le> (u :: int)"
  obtains q r where "u div 64 = q" "u mod 64 = r" "u = 64 * q + r" "0 \<le> q" "0 \<le> r" "r < 64"
  using assms by (metis mult_div_mod_eq pos_imp_zdiv_nonneg_iff pos_mod_bound pos_mod_sign zero_less_numeral)

lemma lead_payload:
  "0 \<le> q \<Longrightarrow> q < 32 \<Longrightarrow> (q + 0xc0) mod 32 = (q :: int)"
  "0 \<le> q \<Longrightarrow> q < 16 \<Longrightarrow> (q + 0xe0) mod 16 = (q :: int)"
  "0 \<le> q \<Longrightarrow> q < 8 \<Longrightarrow> (q + 0xf0) mod 8 = (q :: int)"
  "0 \<le> q \<Longrightarrow> q < 4 \<Longrightarrow> (q + 0xf8) mod 4 = (q :: int)"
  using mod_mult_self2 [of q 32 6] mod_mult_self2 [of q 16 14] mod_mult_self2 [of q 8 30]
    mod_mult_self2 [of q 4 62]
  by simp_all

lemma encode1_bytes: "uint wc < 128 \<Longrightarrow> map uint (utf8_encode_char 1 wc) = [uint wc]"
  by (simp add: unsigned_ucast_eq take_bit_int_eq_self)

lemma encode2_bytes:
  assumes "uint wc < 4096"
  shows "map uint (utf8_encode_char 2 wc) = [uint wc div 64 + 0xc0, 128 + uint wc mod 64]"
proof -
  have "uint (drop_bit 6 wc OR utf8_mark 2) = uint wc div 64 + 0xc0"
    using uint_utf8_mark(1) [of wc] assms by simp
  moreover have "0 \<le> uint wc div 64 + 0xc0" "uint wc div 64 + 0xc0 < 256"
    using assms by (simp_all add: pos_imp_zdiv_nonneg_iff)
  ultimately have "uint (ucast (drop_bit 6 wc OR utf8_mark 2) :: 8 word) = uint wc div 64 + 0xc0"
    by (simp only: unsigned_ucast_eq) (simp add: take_bit_int_eq_self)
  then show ?thesis
    by (simp only: utf8_encode_char_eqs(2) uint_low_byte list.map)
qed

lemma encode3_bytes:
  assumes "uint wc < 131072"
  shows "map uint (utf8_encode_char 3 wc) =
    [uint wc div 64 div 64 + 0xe0, 128 + uint wc div 64 mod 64, 128 + uint wc mod 64]"
proof -
  have m: "uint (drop_bit 6 wc OR utf8_mark 3) = uint wc div 64 + 2048"
    using uint_utf8_mark(2) [of wc] assms by simp
  have "map uint (utf8_encode_char 2 (drop_bit 6 wc OR utf8_mark 3)) =
      [uint wc div 64 div 64 + 0xe0, 128 + uint wc div 64 mod 64]"
    by (subst encode2_bytes) (use assms in \<open>simp_all add: m add_64_div_mod\<close>)
  then show ?thesis
    by (simp only: utf8_encode_char_eqs(3) map_append uint_low_byte list.map append.simps)
qed

lemma encode4_bytes:
  assumes "uint wc < 4194304"
  shows "map uint (utf8_encode_char 4 wc) =
    [uint wc div 64 div 64 div 64 + 0xf0, 128 + uint wc div 64 div 64 mod 64,
     128 + uint wc div 64 mod 64, 128 + uint wc mod 64]"
proof -
  have m: "uint (drop_bit 6 wc OR utf8_mark 4) = uint wc div 64 + 65536"
    using uint_utf8_mark(3) [of wc] assms by simp
  have "map uint (utf8_encode_char 3 (drop_bit 6 wc OR utf8_mark 4)) =
      [uint wc div 64 div 64 div 64 + 0xf0, 128 + uint wc div 64 div 64 mod 64, 128 + uint wc div 64 mod 64]"
    by (subst encode3_bytes) (use assms in \<open>simp_all add: m add_64_div_mod\<close>)
  then show ?thesis
    by (simp only: utf8_encode_char_eqs(4) map_append uint_low_byte list.map append.simps)
qed

lemma encode5_bytes:
  assumes "uint wc < 134217728"
  shows "map uint (utf8_encode_char 5 wc) =
    [uint wc div 64 div 64 div 64 div 64 + 0xf8, 128 + uint wc div 64 div 64 div 64 mod 64,
     128 + uint wc div 64 div 64 mod 64, 128 + uint wc div 64 mod 64, 128 + uint wc mod 64]"
proof -
  have m: "uint (drop_bit 6 wc OR utf8_mark 5) = uint wc div 64 + 2097152"
    using uint_utf8_mark(4) [of wc] assms by simp
  have "map uint (utf8_encode_char 4 (drop_bit 6 wc OR utf8_mark 5)) =
      [uint wc div 64 div 64 div 64 div 64 + 0xf8, 128 + uint wc div 64 div 64 div 64 mod 64,
       128 + uint wc div 64 div 64 mod 64, 128 + uint wc div 64 mod 64]"
    by (subst encode4_bytes) (use assms in \<open>simp_all add: m add_64_div_mod\<close>)
  then show ?thesis
    by (simp only: utf8_encode_char_eqs(5) map_append uint_low_byte list.map append.simps)
qed


text \<open>Equal numbers, equal bytes.\<close>

lemma map_uint_inject: "map uint bs = map uint (bs' :: 8 word list) \<longleftrightarrow> bs = bs'"
  by (rule inj_map_eq_map) (simp add: inj_on_def word_uint_eq_iff)

lemma byte_at_simps [simp]:
  "byte_at (b # bs) 0 = b" "byte_at (b # bs) (Suc k) = byte_at bs k"
  by (simp_all add: byte_at_def)

lemma byte_at_numerals [simp]:
  "byte_at (b # bs) 1 = byte_at bs 0" "byte_at (b # bs) 2 = byte_at bs 1" "byte_at (b # bs) 3 = byte_at bs 2"
  "byte_at (b # bs) 4 = byte_at bs 3" "byte_at (b # bs) 5 = byte_at bs 4"
  by (simp_all add: byte_at_def)

lemma utf8_lead_size_uint: "utf8_lead_size a =
     (if uint a < 0x80 then 1 else if uint a < 0xc2 then 0 else if uint a < 0xe0 then 2
      else if uint a < 0xf0 then 3 else if uint a < 0xf8 then 4 else if uint a < 0xfc then 5
      else if uint a < 0xfe then 6 else 0)"
  by (simp add: utf8_lead_size_def word_less_def)

lemma decode_encode_1:
  assumes "uint wc < 128"
  shows "utf8_decode_char (utf8_encode_char 1 wc @ rest) = Some (wc, 1)"
proof -
  have u: "uint (ucast wc :: 8 word) = uint wc"
    using assms by (simp only: unsigned_ucast_eq) (simp add: take_bit_int_eq_self)
  then have "uint (ucast (ucast wc :: 8 word) :: 32 word) = uint wc"
    using assms by (subst unsigned_ucast_eq) (simp only: u, simp add: take_bit_int_eq_self)
  then have "ucast (ucast wc :: 8 word) = wc" by (simp only: word_uint_eq_iff)
  then show ?thesis
    using u assms by (simp add: utf8_decode_char_def Let_def utf8_lead_size_uint)
qed

lemma decode_encode_2:
  assumes "0x80 \<le> uint wc" "uint wc < 0x800"
  shows "utf8_decode_char (utf8_encode_char 2 wc @ rest) = Some (wc, 2)"
proof -
  obtain q r where u: "uint wc div 64 = q" "uint wc mod 64 = r" "uint wc = 64 * q + r"
      "0 \<le> q" "0 \<le> r" "r < 64"
    using six_bits uint_32(1) by blast
  have q: "2 \<le> q" "q < 32" using assms u(3-6) by linarith+
  obtain a b where bs: "utf8_encode_char 2 wc = [a, b]"
    and a: "uint a = q + 0xc0" and b: "uint b = 128 + r"
    using encode2_bytes [of wc] assms by (auto simp: map_eq_Cons_conv u(1,2))
  have t: "utf8_tail b" using u(3-6) by (simp add: utf8_tail_iff b)
  have la: "0xc2 \<le> uint a" "uint a < 0xe0" using q a by auto
  have "uint (push_bit 6 (ucast (a AND 0x1f)) OR utf8_bits b 0) = uint wc"
    by (simp only: decode2 [OF t] a b) (use u(3-6) q in \<open>simp add: lead_payload\<close>)
  then have "push_bit 6 (ucast (a AND 0x1f)) OR utf8_bits b 0 = wc"
    by (simp only: word_uint_eq_iff)
  then show ?thesis
    using la t by (simp add: bs utf8_decode_char_def Let_def utf8_lead_size_uint)
qed

lemma decode_encode_3:
  assumes "0x800 \<le> uint wc" "uint wc < 0x10000"
  shows "utf8_decode_char (utf8_encode_char 3 wc @ rest) = Some (wc, 3)"
proof -
  obtain q r where u: "uint wc div 64 = q" "uint wc mod 64 = r" "uint wc = 64 * q + r"
      "0 \<le> q" "0 \<le> r" "r < 64"
    using six_bits uint_32(1) by blast
  obtain q1 r1 where v: "q div 64 = q1" "q mod 64 = r1" "q = 64 * q1 + r1"
      "0 \<le> q1" "0 \<le> r1" "r1 < 64"
    using six_bits u(4) by blast
  have q: "q1 < 16" "1 \<le> q1 \<or> 32 \<le> r1" using assms u(3-6) v(3-6) by linarith+
  obtain a b c where bs: "utf8_encode_char 3 wc = [a, b, c]"
    and a: "uint a = q1 + 0xe0" and b: "uint b = 128 + r1" and c: "uint c = 128 + r"
    using encode3_bytes [of wc] assms by (auto simp: map_eq_Cons_conv u(1,2) v(1,2))
  have t: "utf8_tail b" "utf8_tail c" using u(3-6) v(3-6) by (simp_all add: utf8_tail_iff b c)
  have la: "0xe0 \<le> uint a" "uint a < 0xf0" "0xe1 \<le> uint a \<or> 0xa0 \<le> uint b"
    using q v(4-6) a b by auto
  have "uint (push_bit 12 (ucast (a AND 0x0f)) OR utf8_bits b 6 OR utf8_bits c 0) = uint wc"
    by (simp only: decode3 [OF t] a b c) (use u(3-6) v(3-6) q in \<open>simp add: lead_payload\<close>)
  then have "push_bit 12 (ucast (a AND 0x0f)) OR utf8_bits b 6 OR utf8_bits c 0 = wc"
    by (simp only: word_uint_eq_iff)
  then show ?thesis
    using la t by (simp add: bs utf8_decode_char_def Let_def utf8_lead_size_uint word_le_def)
qed

lemma decode_encode_4:
  assumes "0x10000 \<le> uint wc" "uint wc < 0x200000"
  shows "utf8_decode_char (utf8_encode_char 4 wc @ rest) = Some (wc, 4)"
proof -
  obtain q r where u: "uint wc div 64 = q" "uint wc mod 64 = r" "uint wc = 64 * q + r"
      "0 \<le> q" "0 \<le> r" "r < 64"
    using six_bits uint_32(1) by blast
  obtain q1 r1 where v: "q div 64 = q1" "q mod 64 = r1" "q = 64 * q1 + r1"
      "0 \<le> q1" "0 \<le> r1" "r1 < 64"
    using six_bits u(4) by blast
  obtain q2 r2 where w: "q1 div 64 = q2" "q1 mod 64 = r2" "q1 = 64 * q2 + r2"
      "0 \<le> q2" "0 \<le> r2" "r2 < 64"
    using six_bits v(4) by blast
  have q: "q2 < 8" "1 \<le> q2 \<or> 16 \<le> r2" using assms u(3-6) v(3-6) w(3-6) by linarith+
  obtain a b c d where bs: "utf8_encode_char 4 wc = [a, b, c, d]"
    and a: "uint a = q2 + 0xf0" and b: "uint b = 128 + r2" and c: "uint c = 128 + r1"
    and d: "uint d = 128 + r"
    using encode4_bytes [of wc] assms by (auto simp: map_eq_Cons_conv u(1,2) v(1,2) w(1,2))
  have t: "utf8_tail b" "utf8_tail c" "utf8_tail d"
    using u(3-6) v(3-6) w(3-6) by (simp_all add: utf8_tail_iff b c d)
  have la: "0xf0 \<le> uint a" "uint a < 0xf8" "0xf1 \<le> uint a \<or> 0x90 \<le> uint b"
    using q w(4-6) a b by auto
  have "uint (push_bit 18 (ucast (a AND 0x07)) OR utf8_bits b 12 OR utf8_bits c 6 OR utf8_bits d 0)
      = uint wc"
    by (simp only: decode4 [OF t] a b c d) (use u(3-6) v(3-6) w(3-6) q in \<open>simp add: lead_payload\<close>)
  then have "push_bit 18 (ucast (a AND 0x07)) OR utf8_bits b 12 OR utf8_bits c 6 OR utf8_bits d 0 = wc"
    by (simp only: word_uint_eq_iff)
  then show ?thesis
    using la t by (simp add: bs utf8_decode_char_def Let_def utf8_lead_size_uint word_le_def)
qed

lemma decode_encode_5:
  assumes "0x200000 \<le> uint wc" "uint wc < 0x4000000"
  shows "utf8_decode_char (utf8_encode_char 5 wc @ rest) = Some (wc, 5)"
proof -
  obtain q r where u: "uint wc div 64 = q" "uint wc mod 64 = r" "uint wc = 64 * q + r"
      "0 \<le> q" "0 \<le> r" "r < 64"
    using six_bits uint_32(1) by blast
  obtain q1 r1 where v: "q div 64 = q1" "q mod 64 = r1" "q = 64 * q1 + r1"
      "0 \<le> q1" "0 \<le> r1" "r1 < 64"
    using six_bits u(4) by blast
  obtain q2 r2 where w: "q1 div 64 = q2" "q1 mod 64 = r2" "q1 = 64 * q2 + r2"
      "0 \<le> q2" "0 \<le> r2" "r2 < 64"
    using six_bits v(4) by blast
  obtain q3 r3 where x: "q2 div 64 = q3" "q2 mod 64 = r3" "q2 = 64 * q3 + r3"
      "0 \<le> q3" "0 \<le> r3" "r3 < 64"
    using six_bits w(4) by blast
  have q: "q3 < 4" "1 \<le> q3 \<or> 8 \<le> r3" using assms u(3-6) v(3-6) w(3-6) x(3-6) by linarith+
  obtain a b c d e where bs: "utf8_encode_char 5 wc = [a, b, c, d, e]"
    and a: "uint a = q3 + 0xf8" and b: "uint b = 128 + r3" and c: "uint c = 128 + r2"
    and d: "uint d = 128 + r1" and e: "uint e = 128 + r"
    using encode5_bytes [of wc] assms
    by (auto simp: map_eq_Cons_conv u(1,2) v(1,2) w(1,2) x(1,2))
  have t: "utf8_tail b" "utf8_tail c" "utf8_tail d" "utf8_tail e"
    using u(3-6) v(3-6) w(3-6) x(3-6) by (simp_all add: utf8_tail_iff b c d e)
  have la: "0xf8 \<le> uint a" "uint a < 0xfc" "0xf9 \<le> uint a \<or> 0x88 \<le> uint b"
    using q x(4-6) a b by auto
  have "uint (push_bit 24 (ucast (a AND 0x03)) OR utf8_bits b 18 OR utf8_bits c 12 OR utf8_bits d 6
      OR utf8_bits e 0) = uint wc"
    by (simp only: decode5 [OF t] a b c d e) (use u(3-6) v(3-6) w(3-6) x(3-6) q in \<open>simp add: lead_payload\<close>)
  then have "push_bit 24 (ucast (a AND 0x03)) OR utf8_bits b 18 OR utf8_bits c 12 OR utf8_bits d 6
      OR utf8_bits e 0 = wc"
    by (simp only: word_uint_eq_iff)
  then show ?thesis
    using la t by (simp add: bs utf8_decode_char_def Let_def utf8_lead_size_uint word_le_def)
qed

lemma wc_size_uint:
  "uint wc < 0x80000000 \<Longrightarrow> wc_size_in_utf8 sg wc =
     (if uint wc < 0x80 then 1 else if uint wc < 0x800 then 2 else if uint wc < 0x10000 then 3
      else if uint wc < 0x200000 then 4 else if uint wc < 0x4000000 then 5 else 6)"
  by (simp add: wc_size_in_utf8_def wchar_val_def Let_def sint_32)

lemma decode_encode:
  assumes "uint wc < 0x4000000"
  shows "utf8_decode_char (utf8_encode_char (wc_size_in_utf8 sg wc) wc @ rest)
    = Some (wc, wc_size_in_utf8 sg wc)"
proof -
  consider "uint wc < 0x80" | "0x80 \<le> uint wc" "uint wc < 0x800"
    | "0x800 \<le> uint wc" "uint wc < 0x10000" | "0x10000 \<le> uint wc" "uint wc < 0x200000"
    | "0x200000 \<le> uint wc" by linarith
  then show ?thesis
  proof cases
    case 1
    with decode_encode_1 [of wc rest] show ?thesis by (simp add: wc_size_uint)
  next
    case 2
    with decode_encode_2 [of wc rest] show ?thesis by (simp add: wc_size_uint)
  next
    case 3
    with decode_encode_3 [of wc rest] show ?thesis by (simp add: wc_size_uint)
  next
    case 4
    with decode_encode_4 [of wc rest] show ?thesis by (simp add: wc_size_uint)
  next
    case 5
    with decode_encode_5 [of wc rest] assms show ?thesis by (simp add: wc_size_uint)
  qed
qed

lemma horner_64: "0 \<le> y \<Longrightarrow> y < 64 \<Longrightarrow> (64 * p + y) div 64 = (p :: int)"
  "0 \<le> y \<Longrightarrow> y < 64 \<Longrightarrow> (64 * p + y) mod 64 = (y :: int)"
  by auto

lemma encode_decode_2:
  assumes t: "utf8_tail b" and a: "0xc2 \<le> uint a" "uint a < 0xe0"
    and wc: "wc = push_bit 6 (ucast (a AND 0x1f :: 8 word)) OR utf8_bits b 0"
  shows "utf8_encode_char 2 wc = [a, b] \<and> 0x80 \<le> uint wc \<and> uint wc < 0x800"
proof -
  define p y where "p = uint a - 192" and "y = uint b - 128"
  have y: "0 \<le> y" "y < 64" using t by (simp_all add: y_def utf8_tail_iff)
  have p: "2 \<le> p" "p < 32" "uint a = p + 192" using a by (simp_all add: p_def)
  have u: "uint wc = 64 * p + y"
    unfolding wc decode2 [OF t] using p by (simp add: lead_payload y_def)
  then have "map uint (utf8_encode_char 2 wc) = map uint [a, b]"
    using p y by (subst encode2_bytes) (simp_all add: horner_64 y_def)
  then have "utf8_encode_char 2 wc = [a, b]" by (rule map_uint_inject [THEN iffD1])
  then show ?thesis using u p y by simp
qed

lemma encode_decode_3:
  assumes t: "utf8_tail b" "utf8_tail c" and a: "0xe0 \<le> uint a" "uint a < 0xf0"
    and min: "0xe1 \<le> uint a \<or> 0xa0 \<le> uint b"
    and wc: "wc = push_bit 12 (ucast (a AND 0x0f :: 8 word)) OR utf8_bits b 6 OR utf8_bits c 0"
  shows "utf8_encode_char 3 wc = [a, b, c] \<and> 0x800 \<le> uint wc \<and> uint wc < 0x10000"
proof -
  define p y z where "p = uint a - 224" and "y = uint b - 128" and "z = uint c - 128"
  have y: "0 \<le> y" "y < 64" "0 \<le> z" "z < 64"
    using t by (simp_all add: y_def z_def utf8_tail_iff)
  have p: "0 \<le> p" "p < 16" "uint a = p + 224" using a by (simp_all add: p_def)
  have m: "1 \<le> p \<or> 32 \<le> y" using min by (auto simp: p_def y_def)
  have u: "uint wc = 64 * (64 * p + y) + z"
    unfolding wc decode3 [OF t] using p by (simp add: lead_payload y_def z_def)
  have lt: "uint wc < 131072" using u p y by (simp add: algebra_simps)
  have "map uint (utf8_encode_char 3 wc) = map uint [a, b, c]"
    unfolding encode3_bytes [OF lt] u
    using p y by (simp add: horner_64 del: distrib_left_numeral) (simp add: y_def z_def)
  then have "utf8_encode_char 3 wc = [a, b, c]" by (rule map_uint_inject [THEN iffD1])
  then show ?thesis using u p y m by auto
qed

lemma encode_decode_4:
  assumes t: "utf8_tail b" "utf8_tail c" "utf8_tail d" and a: "0xf0 \<le> uint a" "uint a < 0xf8"
    and min: "0xf1 \<le> uint a \<or> 0x90 \<le> uint b"
    and wc: "wc = push_bit 18 (ucast (a AND 0x07 :: 8 word)) OR utf8_bits b 12 OR utf8_bits c 6 OR utf8_bits d 0"
  shows "utf8_encode_char 4 wc = [a, b, c, d] \<and> 0x10000 \<le> uint wc \<and> uint wc < 0x200000"
proof -
  define p x y z where "p = uint a - 240" and "x = uint b - 128" and "y = uint c - 128" and "z = uint d - 128"
  have y: "0 \<le> x" "x < 64" "0 \<le> y" "y < 64" "0 \<le> z" "z < 64"
    using t by (simp_all add: x_def y_def z_def utf8_tail_iff)
  have p: "0 \<le> p" "p < 8" "uint a = p + 240" using a by (simp_all add: p_def)
  have m: "1 \<le> p \<or> 16 \<le> x" using min by (auto simp: p_def x_def)
  have u: "uint wc = 64 * (64 * (64 * p + x) + y) + z"
    unfolding wc decode4 [OF t] using p by (simp add: lead_payload x_def y_def z_def)
  have lt: "uint wc < 4194304" using u p y by (simp add: algebra_simps)
  have "map uint (utf8_encode_char 4 wc) = map uint [a, b, c, d]"
    unfolding encode4_bytes [OF lt] u
    using p y by (simp add: horner_64 del: distrib_left_numeral) (simp add: x_def y_def z_def)
  then have "utf8_encode_char 4 wc = [a, b, c, d]" by (rule map_uint_inject [THEN iffD1])
  then show ?thesis using u p y m by auto
qed

lemma encode_decode_5:
  assumes t: "utf8_tail e" "utf8_tail b" "utf8_tail c" "utf8_tail d"
    and a: "0xf8 \<le> uint a" "uint a < 0xfc"
    and min: "0xf9 \<le> uint a \<or> 0x88 \<le> uint e"
    and wc: "wc = push_bit 24 (ucast (a AND 0x03 :: 8 word)) OR utf8_bits e 18 OR utf8_bits b 12
      OR utf8_bits c 6 OR utf8_bits d 0"
  shows "utf8_encode_char 5 wc = [a, e, b, c, d] \<and> 0x200000 \<le> uint wc \<and> uint wc < 0x4000000"
proof -
  define p w x y z where "p = uint a - 248" and "w = uint e - 128" and "x = uint b - 128"
    and "y = uint c - 128" and "z = uint d - 128"
  have y: "0 \<le> w" "w < 64" "0 \<le> x" "x < 64" "0 \<le> y" "y < 64" "0 \<le> z" "z < 64"
    using t by (simp_all add: w_def x_def y_def z_def utf8_tail_iff)
  have p: "0 \<le> p" "p < 4" "uint a = p + 248" using a by (simp_all add: p_def)
  have m: "1 \<le> p \<or> 8 \<le> w" using min by (auto simp: p_def w_def)
  have u: "uint wc = 64 * (64 * (64 * (64 * p + w) + x) + y) + z"
    unfolding wc decode5 [OF t] using p by (simp add: lead_payload w_def x_def y_def z_def)
  have lt: "uint wc < 134217728" using u p y by (simp add: algebra_simps)
  have "map uint (utf8_encode_char 5 wc) = map uint [a, e, b, c, d]"
    unfolding encode5_bytes [OF lt] u
    using p y by (simp add: horner_64 del: distrib_left_numeral) (simp add: w_def x_def y_def z_def)
  then have "utf8_encode_char 5 wc = [a, e, b, c, d]" by (rule map_uint_inject [THEN iffD1])
  then show ?thesis using u p y m by auto
qed

end
