(* ===== verification/Bridge_Wstring.thy ===== *)
theory Bridge_Wstring
  imports Bridge_Utf8
begin

text \<open>
  The conversions between C strings in UTF-8 and wide strings: both loops stay inside their
  buffers, and each is the inverse of the other on the units of at most five bytes.
\<close>

lemma decode_Some:
  assumes "utf8_decode_char bs = Some (wc, n)" "bs \<noteq> []"
  shows "wc_size_in_utf8 sg wc = n \<and> uint wc < 0x4000000 \<and> n \<le> length bs \<and>
    utf8_encode_char n wc = take n bs"
proof -
  let ?a = "byte_at bs 0" and ?b = "byte_at bs 1" and ?c = "byte_at bs 2" and ?d = "byte_at bs 3"
    and ?e = "byte_at bs 4"
  consider (1) "utf8_lead_size ?a = 1" | (2) "utf8_lead_size ?a = 2" | (3) "utf8_lead_size ?a = 3"
    | (4) "utf8_lead_size ?a = 4" | (5) "utf8_lead_size ?a = 5"
    using assms(1) by (auto simp: utf8_decode_char_def Let_def split: if_splits)
  then show ?thesis
  proof cases
    case 1
    then have a: "uint ?a < 128" by (auto simp: utf8_lead_size_uint split: if_splits)
    from 1 assms(1) have wc: "wc = ucast ?a" "n = 1"
      by (auto simp: utf8_decode_char_def Let_def)
    then have "uint wc = uint ?a"
      using uint_byte [of ?a] by (simp add: unsigned_ucast_eq take_bit_int_eq_self)
    moreover have "take 1 bs = [?a]" using assms(2) by (cases bs) simp_all
    moreover have "utf8_encode_char 1 wc = [?a]"
      using a calculation(1) by (intro map_uint_inject [THEN iffD1]) (simp only: encode1_bytes list.map)
    ultimately show ?thesis
      using a assms(2) wc(2) by (cases bs) (simp_all add: wc_size_uint)
  next
    case 2
    then have a: "0xc2 \<le> uint ?a" "uint ?a < 0xe0"
      by (auto simp: utf8_lead_size_uint split: if_splits)
    from 2 assms(1) have l: "\<not> length bs \<le> 1" and t: "utf8_tail ?b" and n: "n = 2"
      and wc: "wc = push_bit 6 (ucast (?a AND 0x1f)) OR utf8_bits ?b 0"
      by (auto simp: utf8_decode_char_def Let_def split: if_splits)
    have "take 2 bs = [?a, ?b]"
      using l by (auto simp: take_Suc_conv_app_nth eval_nat_numeral byte_at_def)
    with encode_decode_2 [OF t a wc] l n show ?thesis by (simp add: wc_size_uint)
  next
    case 3
    then have a: "0xe0 \<le> uint ?a" "uint ?a < 0xf0"
      by (auto simp: utf8_lead_size_uint split: if_splits)
    from 3 assms(1) have l: "\<not> length bs \<le> 2" and t: "utf8_tail ?b" "utf8_tail ?c" and n: "n = 3"
      and min: "0xe1 \<le> uint ?a \<or> 0xa0 \<le> uint ?b"
      and wc: "wc = push_bit 12 (ucast (?a AND 0x0f)) OR utf8_bits ?b 6 OR utf8_bits ?c 0"
      by (auto simp: utf8_decode_char_def Let_def word_le_def split: if_splits)
    have "take 3 bs = [?a, ?b, ?c]"
      using l by (auto simp: take_Suc_conv_app_nth eval_nat_numeral byte_at_def)
    with encode_decode_3 [OF t a min wc] l n show ?thesis by (simp add: wc_size_uint)
  next
    case 4
    then have a: "0xf0 \<le> uint ?a" "uint ?a < 0xf8"
      by (auto simp: utf8_lead_size_uint split: if_splits)
    from 4 assms(1) have l: "\<not> length bs \<le> 3" and t: "utf8_tail ?b" "utf8_tail ?c" "utf8_tail ?d"
      and n: "n = 4" and min: "0xf1 \<le> uint ?a \<or> 0x90 \<le> uint ?b"
      and wc: "wc = push_bit 18 (ucast (?a AND 0x07)) OR utf8_bits ?b 12 OR utf8_bits ?c 6 OR utf8_bits ?d 0"
      by (auto simp: utf8_decode_char_def Let_def word_le_def split: if_splits)
    have "take 4 bs = [?a, ?b, ?c, ?d]"
      using l by (auto simp: take_Suc_conv_app_nth eval_nat_numeral byte_at_def)
    with encode_decode_4 [OF t a min wc] l n show ?thesis by (simp add: wc_size_uint)
  next
    case 5
    then have a: "0xf8 \<le> uint ?a" "uint ?a < 0xfc"
      by (auto simp: utf8_lead_size_uint split: if_splits)
    from 5 assms(1) have l: "\<not> length bs \<le> 4"
      and t: "utf8_tail ?b" "utf8_tail ?c" "utf8_tail ?d" "utf8_tail ?e"
      and n: "n = 5" and min: "0xf9 \<le> uint ?a \<or> 0x88 \<le> uint ?b"
      and wc: "wc = push_bit 24 (ucast (?a AND 0x03)) OR utf8_bits ?b 18 OR utf8_bits ?c 12
        OR utf8_bits ?d 6 OR utf8_bits ?e 0"
      by (auto simp: utf8_decode_char_def Let_def word_le_def split: if_splits)
    have "take 5 bs = [?a, ?b, ?c, ?d, ?e]"
      using l by (auto simp: take_Suc_conv_app_nth eval_nat_numeral byte_at_def)
    with encode_decode_5 [OF t a min wc] l n show ?thesis by (simp add: wc_size_uint)
  qed
qed

text \<open>The loops agree with plain concatenation, and stay within their buffers.\<close>

definition utf8_bytes :: "bool \<Rightarrow> 32 word list \<Rightarrow> 8 word list" where
  "utf8_bytes sg ws = concat (map (\<lambda>wc. utf8_encode_char (wc_size_in_utf8 sg wc) wc) ws)"

lemma wc_size_pos: "uint wc < 0x80000000 \<Longrightarrow> 0 < wc_size_in_utf8 sg wc \<and> wc_size_in_utf8 sg wc \<le> 6"
  by (simp add: wc_size_uint)

lemma string_to_wstring_loop_utf8_bytes:
  "\<forall>wc \<in> set ws. uint wc < 0x4000000 \<Longrightarrow> length buf \<le> cap + 1 \<Longrightarrow>
   string_to_wstring_loop (utf8_bytes sg ws) cap buf = Done (Some (buf @ ws))"
proof (induction ws arbitrary: cap buf)
  case Nil
  then show ?case by (simp add: utf8_bytes_def string_to_wstring_loop.simps)
next
  case (Cons wc ws)
  let ?n = "wc_size_in_utf8 sg wc"
  have n: "0 < ?n" using Cons.prems(1) wc_size_pos [of wc sg] by simp
  have bs: "utf8_bytes sg (wc # ws) = utf8_encode_char ?n wc @ utf8_bytes sg ws"
    by (simp add: utf8_bytes_def)
  have "utf8_decode_char (utf8_bytes sg (wc # ws)) = Some (wc, ?n)"
    using Cons.prems(1) by (simp add: bs decode_encode)
  moreover have "utf8_bytes sg (wc # ws) \<noteq> []"
    using n by (simp add: bs flip: length_0_conv)
  moreover have "drop ?n (utf8_bytes sg (wc # ws)) = utf8_bytes sg ws"
    by (simp add: bs)
  ultimately show ?case
    using Cons.prems Cons.IH [of "buf @ [wc]"]
    by (subst string_to_wstring_loop.simps) (simp add: Let_def)
qed

lemma string_to_wstring_loop_Some:
  "string_to_wstring_loop bs cap buf = Done (Some r) \<Longrightarrow>
   \<exists>ws. r = buf @ ws \<and> (\<forall>wc \<in> set ws. uint wc < 0x4000000) \<and> bs = utf8_bytes sg ws"
proof (induction bs cap buf rule: string_to_wstring_loop.induct)
  case (1 bs cap buf)
  show ?case
  proof (cases "bs = []")
    case True
    with "1.prems" show ?thesis
      by (simp add: string_to_wstring_loop.simps utf8_bytes_def)
  next
    case False
    let ?cap = "if length buf > cap then cap + 10 else cap"
    from False "1.prems" obtain wc n where d: "utf8_decode_char bs = Some (wc, n)"
      and l: "\<not> length buf > ?cap"
      and r: "string_to_wstring_loop (drop n bs) ?cap (buf @ [wc]) = Done (Some r)"
      by (subst (asm) string_to_wstring_loop.simps)
        (auto simp: Let_def split: option.splits if_splits)
    from "1.IH" [OF False refl d refl l r] obtain ws where
      ws: "r = buf @ wc # ws" "\<forall>wc \<in> set ws. uint wc < 0x4000000" "drop n bs = utf8_bytes sg ws"
      by auto
    have "bs = utf8_bytes sg (wc # ws)"
      using decode_Some [OF d False, of sg] ws(3) append_take_drop_id [of n bs]
      by (simp add: utf8_bytes_def)
    with ws decode_Some [OF d False] show ?thesis by (intro exI [of _ "wc # ws"]) simp
  qed
qed

lemma string_to_wstring_loop_safe:
  "length buf \<le> cap + 1 \<Longrightarrow> \<exists>r. string_to_wstring_loop bs cap buf = Done r"
proof (induction bs cap buf rule: string_to_wstring_loop.induct)
  case (1 bs cap buf)
  show ?case
  proof (cases "bs = [] \<or> utf8_decode_char bs = None")
    case True
    then show ?thesis by (subst string_to_wstring_loop.simps) (auto simp: Let_def)
  next
    case False
    then obtain wc n where d: "bs \<noteq> []" "utf8_decode_char bs = Some (wc, n)" by auto
    let ?cap = "if length buf > cap then cap + 10 else cap"
    have l: "\<not> length buf > ?cap" using "1.prems" by auto
    have "length (buf @ [wc]) \<le> ?cap + 1" using l by simp
    from "1.IH" [OF d(1) refl d(2) refl l this] l d show ?thesis
      by (subst string_to_wstring_loop.simps) (auto simp: Let_def)
  qed
qed

lemma encode_nonzero_high: "2 \<le> n \<Longrightarrow> 0 \<notin> set (utf8_encode_char n wc)"
proof (induction n wc rule: utf8_encode_char.induct)
  case (3 k wc)
  have tail: "ucast (0x80 OR (wc AND 0x3f)) \<noteq> (0 :: 8 word)"
    using uint_low_byte [of wc] by (auto simp: word_uint_eq_iff simp flip: uint_0_eq)
  show ?case
  proof (cases "k = 0")
    case True
    have "bit (ucast (drop_bit 6 wc OR utf8_mark 2) :: 8 word) 7"
      by (simp add: bit_unsigned_iff bit_or_iff utf8_mark_def bit_numeral_rec)
    then have "ucast (drop_bit 6 wc OR utf8_mark 2) \<noteq> (0 :: 8 word)" by auto
    with True tail show ?thesis by (auto simp: numeral_2_eq_2)
  next
    case False
    with 3 tail show ?thesis by auto
  qed
qed simp_all

lemma encode_nonzero:
  "wc \<noteq> 0 \<Longrightarrow> uint wc < 0x80000000 \<Longrightarrow> 0 \<notin> set (utf8_encode_char (wc_size_in_utf8 sg wc) wc)"
proof (cases "uint wc < 0x80")
  case True
  assume "wc \<noteq> 0"
  moreover have "uint (ucast wc :: 8 word) = uint wc"
    using True by (simp only: unsigned_ucast_eq) (simp add: take_bit_int_eq_self)
  ultimately have "ucast wc \<noteq> (0 :: 8 word)"
    by (metis uint_0_eq word_uint_eq_iff)
  with True show ?thesis by (simp add: wc_size_uint)
next
  case False
  assume "uint wc < 0x80000000"
  with False show ?thesis by (intro encode_nonzero_high) (simp add: wc_size_uint)
qed

lemma wc_size_le: "wc_size_in_utf8 sg wc \<le> 6"
  by (simp add: wc_size_in_utf8_def Let_def)

lemma wc_size_0 [simp]: "wc_size_in_utf8 sg 0 = Suc 0"
  by (simp add: wc_size_uint)

lemma utf8_bytes_simps [simp]:
  "utf8_bytes sg [] = []"
  "utf8_bytes sg (wc # ws) = utf8_encode_char (wc_size_in_utf8 sg wc) wc @ utf8_bytes sg ws"
  "utf8_bytes sg (ws @ vs) = utf8_bytes sg ws @ utf8_bytes sg vs"
  by (simp_all add: utf8_bytes_def)

lemma strncpy_bytes_nonzero: "0 \<notin> set bs \<Longrightarrow> strncpy_bytes bs = bs"
proof -
  assume "0 \<notin> set bs"
  then have "takeWhile (\<lambda>b. b \<noteq> 0) bs = bs" by (auto simp: takeWhile_eq_all_conv)
  then show ?thesis unfolding strncpy_bytes_def Let_def by (simp only:) simp
qed

lemma length_strncpy_bytes [simp]: "length (strncpy_bytes bs) = length bs"
  by (simp add: strncpy_bytes_def Let_def length_takeWhile_le)

lemma wstring_to_string_loop_safe:
  "length buf \<le> cap \<Longrightarrow> \<exists>r. wstring_to_string_loop sg ws cap buf = Done r"
proof (induction ws arbitrary: cap buf)
  case (Cons wc ws)
  let ?n = "wc_size_in_utf8 sg wc"
  let ?cap = "if length buf + ?n > cap then cap + 10 else cap"
  have "length buf + ?n \<le> ?cap" using Cons.prems wc_size_le [of sg wc] by auto
  then show ?case using Cons.IH by (auto simp: Let_def)
qed simp

lemma wstring_to_string_loop_eq:
  "\<forall>wc \<in> set ws. wc \<noteq> 0 \<and> uint wc < 0x80000000 \<Longrightarrow> 0 \<notin> set buf \<Longrightarrow> length buf \<le> cap \<Longrightarrow>
   wstring_to_string_loop sg (ws @ [0]) cap buf = Done (Some (buf @ utf8_bytes sg ws @ [0]))"
proof (induction ws arbitrary: cap buf)
  case Nil
  then show ?case by (auto simp: Let_def strncpy_bytes_nonzero)
next
  case (Cons wc ws)
  let ?n = "wc_size_in_utf8 sg wc"
  let ?cap = "if length buf + ?n > cap then cap + 10 else cap"
  have n: "0 < ?n" using Cons.prems(1) wc_size_pos [of wc sg] by simp
  have l: "length buf + ?n \<le> ?cap" using Cons.prems wc_size_le [of sg wc] by auto
  have z: "0 \<notin> set (buf @ utf8_encode_char ?n wc)"
    using Cons.prems encode_nonzero [of wc sg] by auto
  have "wstring_to_string_loop sg (ws @ [0]) ?cap (buf @ utf8_encode_char ?n wc)
      = Done (Some ((buf @ utf8_encode_char ?n wc) @ utf8_bytes sg ws @ [0]))"
    using Cons.prems z l by (intro Cons.IH) auto
  then show ?case using n l Cons.prems(2) by (auto simp: Let_def strncpy_bytes_nonzero)
qed

lemma takeWhile_nonzero: "\<forall>wc \<in> set ws. wc \<noteq> (0 :: 'a::zero) \<Longrightarrow> takeWhile (\<lambda>wc. wc \<noteq> 0) ws = ws"
  by (simp add: takeWhile_eq_all_conv)

lemma utf8_bytes_nonzero:
  "\<forall>wc \<in> set ws. wc \<noteq> 0 \<and> uint wc < 0x80000000 \<Longrightarrow> 0 \<notin> set (utf8_bytes sg ws)"
  by (induction ws) (use encode_nonzero in auto)

lemma wstring_to_string_eq:
  assumes "\<forall>wc \<in> set ws. wc \<noteq> 0 \<and> uint wc < 0x80000000"
  shows "scim_bridge_wstring_to_string sg (Some ws) =
    Done (Some (length (utf8_bytes sg ws), map char_of_byte (utf8_bytes sg ws)))"
proof -
  have "0 \<notin> set (utf8_bytes sg ws)" by (rule utf8_bytes_nonzero [OF assms])
  then have "takeWhile (\<lambda>b. b \<noteq> 0) (utf8_bytes sg ws @ [0]) = utf8_bytes sg ws"
    by (auto simp: takeWhile_append)
  then show ?thesis
    using wstring_to_string_loop_eq [OF assms, of "[]" 10 sg] assms
    by (simp add: scim_bridge_wstring_to_string_def takeWhile_nonzero)
qed

lemma string_to_wstring_bytes:
  assumes "\<forall>wc \<in> set ws. uint wc < 0x4000000"
  shows "scim_bridge_string_to_wstring (Some (map char_of_byte (utf8_bytes sg ws))) = Done (Some ws)"
  using string_to_wstring_loop_utf8_bytes [of "ws @ [0]" "[]" 10 sg] assms
  by (simp add: scim_bridge_string_to_wstring_def)

lemma last_utf8_bytes_0:
  assumes "utf8_bytes sg ws = bs @ [0]" "\<forall>wc \<in> set ws. uint wc < 0x4000000" "0 \<notin> set bs"
  shows "\<exists>vs. ws = vs @ [0] \<and> bs = utf8_bytes sg vs \<and> (\<forall>wc \<in> set vs. wc \<noteq> 0)"
  using assms
proof (induction ws arbitrary: bs)
  case (Cons wc ws)
  let ?e = "utf8_encode_char (wc_size_in_utf8 sg wc) wc"
  show ?case
  proof (cases "ws = []")
    case True
    with Cons.prems have e: "?e = bs @ [0]" by simp
    then have "0 \<in> set ?e" by simp
    then have "wc = 0" using encode_nonzero [of wc sg] Cons.prems(2) by fastforce
    with e True show ?thesis by (intro exI [of _ "[]"]) simp
  next
    case False
    have "uint (last ws) < 0x4000000" using False Cons.prems(2) by simp
    then have "0 < wc_size_in_utf8 sg (last ws)" using wc_size_pos [of "last ws" sg] by simp
    moreover have "utf8_bytes sg ws = utf8_bytes sg (butlast ws) @
        utf8_encode_char (wc_size_in_utf8 sg (last ws)) (last ws)"
      using False utf8_bytes_simps(3) [of sg "butlast ws" "[last ws]"] by simp
    ultimately have "utf8_bytes sg ws \<noteq> []"
      using length_utf8_encode_char [of "wc_size_in_utf8 sg (last ws)" "last ws"] by (metis append_is_Nil_conv length_0_conv less_irrefl)
    then obtain cs y where y: "utf8_bytes sg ws = cs @ [y]" by (meson rev_exhaust)
    have "(?e @ cs) @ [y] = bs @ [0]"
      using Cons.prems(1) by (simp only: utf8_bytes_simps y append_assoc)
    then have cs: "utf8_bytes sg ws = cs @ [0]" "bs = ?e @ cs"
      unfolding y append1_eq_conv by simp_all
    have "\<forall>wc \<in> set ws. uint wc < 0x4000000" "0 \<notin> set cs" using Cons.prems(2,3) cs(2) by simp_all
    from Cons.IH [OF cs(1) this] obtain vs where
      vs: "ws = vs @ [0]" "cs = utf8_bytes sg vs" "\<forall>wc \<in> set vs. wc \<noteq> 0" by blast
    have "wc \<noteq> 0" using Cons.prems(3) cs(2) by auto
    with vs cs(2) show ?thesis by (intro exI [of _ "wc # vs"]) simp
  qed
qed simp

lemma decode_six: 
  assumes "0x4000000 \<le> uint wc" "uint wc < 0x80000000"
  shows "utf8_decode_char (utf8_encode_char 6 wc @ rest) = None"
proof -
  let ?w = "drop_bit 6 wc OR utf8_mark 6"
  have d: "uint (drop_bit 6 wc) = uint wc div 64"
    unfolding unsigned_drop_bit_eq using uint_32 [of wc]
    by (simp add: drop_bit_eq_div take_bit_int_eq_self)
  have w: "uint ?w = uint wc div 64 + 0x4000000"
    using uint_or_add [of "utf8_mark 6" 1 26, OF _ d] assms
    by (simp add: or.commute utf8_mark_def)
  have q: "uint ?w div 64 div 64 div 64 div 64 = uint wc div 64 div 64 div 64 div 64 div 64 + 4"
    unfolding w by (simp only: add_64_div [of 67108864 1048576, simplified]
      add_64_div [of 1048576 16384, simplified] add_64_div [of 16384 256, simplified]
      add_64_div [of 256 4, simplified])
  have "uint ?w < 134217728" using w assms(2) by simp
  from encode5_bytes [OF this] obtain a as where
    e: "utf8_encode_char 5 ?w = a # as" "uint a = uint ?w div 64 div 64 div 64 div 64 + 0xf8"
    by (auto simp: map_eq_Cons_conv)
  define r where "r = uint wc div 64 div 64 div 64 div 64 div 64"
  have r: "0 \<le> r" "r < 2"
    unfolding r_def using assms by (simp_all add: pos_imp_zdiv_nonneg_iff)
  have a: "uint a = r + 0xfc" using e(2) unfolding q r_def by simp
  have c: "utf8_encode_char 6 wc = utf8_encode_char 5 ?w @ [ucast (0x80 OR (wc AND 0x3f))]"
    by (simp add: eval_nat_numeral)
  have "utf8_lead_size a = 6" using a r by (simp add: utf8_lead_size_uint)
  then show ?thesis by (simp add: c e(1) utf8_decode_char_def Let_def byte_at_def)
qed

lemma loop_six:
  "\<forall>wc \<in> set xs. uint wc < 0x4000000 \<Longrightarrow> 0x4000000 \<le> uint wc \<Longrightarrow> uint wc < 0x80000000 \<Longrightarrow>
   length buf \<le> cap + 1 \<Longrightarrow>
   string_to_wstring_loop (utf8_bytes sg (xs @ wc # ys)) cap buf = Done None"
proof (induction xs arbitrary: cap buf)
  case Nil
  then have "wc_size_in_utf8 sg wc = 6" by (simp add: wc_size_uint)
  with Nil decode_six [of wc] show ?case
    by (subst string_to_wstring_loop.simps)
      (auto simp flip: length_0_conv simp: utf8_decode_char_def)
next
  case (Cons v xs)
  let ?n = "wc_size_in_utf8 sg v" and ?rest = "utf8_bytes sg (xs @ wc # ys)"
  have n: "0 < ?n" using Cons.prems(1) wc_size_pos [of v sg] by simp
  have "utf8_decode_char (utf8_encode_char ?n v @ ?rest) = Some (v, ?n)"
    using Cons.prems(1) by (simp add: decode_encode)
  moreover have "utf8_encode_char ?n v \<noteq> []" using n by (simp flip: length_0_conv)
  ultimately show ?case
    using Cons.prems Cons.IH [of "buf @ [v]"]
    by (subst string_to_wstring_loop.simps) (simp add: Let_def)
qed

text \<open>a wide string of units below \<^verbatim>\<open>0x4000000\<close> is encoded, whatever the signedness of
  \<^verbatim>\<open>wchar_t\<close>, into a C string whose returned length is right, and decoding that string gives the
  wide string back.\<close>

theorem wstring_round_trip:
  assumes "\<forall>wc \<in> set ws. wc \<noteq> 0 \<and> uint wc < 0x4000000"
  shows "\<exists>s. scim_bridge_wstring_to_string sg (Some ws) = Done (Some (length s, s)) \<and>
    scim_bridge_string_to_wstring (Some s) = Done (Some ws)"
proof -
  have "\<forall>wc \<in> set ws. wc \<noteq> 0 \<and> uint wc < 0x80000000" using assms by fastforce
  from wstring_to_string_eq [OF this, of sg] assms show ?thesis
    by (auto simp: string_to_wstring_bytes)
qed

text \<open>every C string that decodes is what its decoding encodes to: no two byte strings decode to
  the same wide string, so overlong forms are rejected.\<close>

theorem string_round_trip:
  assumes s: "is_cstring s" and r: "scim_bridge_string_to_wstring (Some s) = Done (Some ws)"
  shows "scim_bridge_wstring_to_string sg (Some ws) = Done (Some (length s, s))"
proof -
  let ?bs = "map byte_of_char s"
  have nz: "0 \<notin> set ?bs" using s by (auto simp: is_cstring_def)
  from r obtain r' where l: "string_to_wstring_loop (?bs @ [0]) 10 [] = Done (Some r')"
    and ws: "ws = butlast r'"
    by (auto simp: scim_bridge_string_to_wstring_def)
  from string_to_wstring_loop_Some [OF l, of sg] obtain
    r: "\<forall>wc \<in> set r'. uint wc < 0x4000000" "utf8_bytes sg r' = ?bs @ [0]" by auto
  from last_utf8_bytes_0 [OF r(2,1) nz] ws
  have w: "?bs = utf8_bytes sg ws" "\<forall>wc \<in> set ws. wc \<noteq> 0" "\<forall>wc \<in> set ws. uint wc < 0x4000000"
    using r(1) by auto
  then have "\<forall>wc \<in> set ws. wc \<noteq> 0 \<and> uint wc < 0x80000000" by fastforce
  from wstring_to_string_eq [OF this, of sg] w(1) [symmetric] show ?thesis
    by (simp del: map_map)
qed

text \<open>a wide string with a unit of six bytes (from \<^verbatim>\<open>0x4000000\<close> on) is encoded by
  \<^verbatim>\<open>scim_bridge_wstring_to_string\<close> but \<^verbatim>\<open>scim_bridge_string_to_wstring\<close> rejects the result: the
  case of six bytes lacks its \<^verbatim>\<open>break\<close> and falls through to the failing default case.\<close>

theorem six_byte_units_rejected:
  assumes "\<forall>wc \<in> set ws. wc \<noteq> 0 \<and> uint wc < 0x80000000" "\<exists>wc \<in> set ws. 0x4000000 \<le> uint wc"
  shows "\<exists>s. scim_bridge_wstring_to_string sg (Some ws) = Done (Some (length s, s)) \<and>
    scim_bridge_string_to_wstring (Some s) = Done None"
proof -
  from split_list_first_prop [OF assms(2)] obtain xs wc ys where
    ws: "ws = xs @ wc # ys" "0x4000000 \<le> uint wc" "\<forall>v \<in> set xs. \<not> 0x4000000 \<le> uint v" by auto
  have "string_to_wstring_loop (utf8_bytes sg (xs @ wc # (ys @ [0]))) 10 [] = Done None"
    using ws assms(1) by (intro loop_six) auto
  then have "scim_bridge_string_to_wstring (Some (map char_of_byte (utf8_bytes sg ws))) = Done None"
    by (simp add: scim_bridge_string_to_wstring_def ws(1))
  with wstring_to_string_eq [OF assms(1), of sg] show ?thesis by auto
qed

text \<open>C24: both conversions return on every argument, and neither loop writes outside its growing
  stack buffer, although the buffer grows by a fixed ten elements.\<close>

theorem conversions_stay_in_bounds:
  "(\<exists>r. scim_bridge_string_to_wstring str = Done r) \<and>
   (\<exists>r. scim_bridge_wstring_to_string sg wstr = Done r)"
proof (intro conjI)
  show "\<exists>r. scim_bridge_string_to_wstring str = Done r"
    using string_to_wstring_loop_safe [of "[]" 10]
    by (cases str) (auto simp: scim_bridge_string_to_wstring_def)
  show "\<exists>r. scim_bridge_wstring_to_string sg wstr = Done r"
    using wstring_to_string_loop_safe [of "[]" 10]
    by (cases wstr) (auto simp: scim_bridge_wstring_to_string_def)
qed

end
