(* ===== verification/Core_Utf8.thy ===== *)
theory Core_Utf8
  imports Bridge_Wstring
begin

text \<open>
  The UTF-8 conversions of the core library, \<^verbatim>\<open>src/scim_utility.cpp\<close>. They are a second copy of the
  algorithm of \<^verbatim>\<open>scim-bridge-string.c\<close>, repaired and with other conventions: sequences of six bytes
  are accepted, an error is a return value that is not positive, and the conversions of whole strings
  stop at an error instead of failing. A \<^verbatim>\<open>String\<close> is a list of bytes, which may hold NULs, a
  \<^verbatim>\<open>WideString\<close> a list of 32-bit units. The wrap-around of an \<^verbatim>\<open>int\<close> length past 2147483647 bytes is
  not modelled. \<open>sg\<close> tells whether \<^verbatim>\<open>ucs4_t\<close> is the signed \<^verbatim>\<open>wchar_t\<close> or \<^verbatim>\<open>uint32\<close>
  (\<^verbatim>\<open>scim_types.h.in\<close>).
\<close>

type_synonym bytes = "8 word list"
type_synonym WideString = "32 word list"

definition RET_ILSEQ :: int where
  "RET_ILSEQ = 0"

definition RET_TOOFEW :: "int \<Rightarrow> int" where
  "RET_TOOFEW n = - 1 - n"

definition RET_TOOSMALL :: int where
  "RET_TOOSMALL = - 1"

text \<open>What is stored through \<^verbatim>\<open>pwc\<close> is the second component, \<^term>\<open>None\<close> when nothing is.\<close>

definition utf8_mbtowc :: "bytes \<Rightarrow> int \<Rightarrow> int \<times> 32 word option" where
  "utf8_mbtowc src src_len =
     (let c = byte_at src 0; s1 = byte_at src 1; s2 = byte_at src 2; s3 = byte_at src 3;
          s4 = byte_at src 4; s5 = byte_at src 5 in
      if c < 0x80 then (1, Some (ucast c))
      else if c < 0xc2 then (RET_ILSEQ, None)
      else if c < 0xe0 then
        (if src_len < 2 then (RET_TOOFEW 0, None)
         else if \<not> utf8_tail s1 then (RET_ILSEQ, None)
         else (2, Some (push_bit 6 (ucast (c AND 0x1f)) OR utf8_bits s1 0)))
      else if c < 0xf0 then
        (if src_len < 3 then (RET_TOOFEW 0, None)
         else if \<not> (utf8_tail s1 \<and> utf8_tail s2 \<and> (c \<ge> 0xe1 \<or> s1 \<ge> 0xa0)) then (RET_ILSEQ, None)
         else (3, Some (push_bit 12 (ucast (c AND 0x0f)) OR utf8_bits s1 6 OR utf8_bits s2 0)))
      else if c < 0xf8 then
        (if src_len < 4 then (RET_TOOFEW 0, None)
         else if \<not> (utf8_tail s1 \<and> utf8_tail s2 \<and> utf8_tail s3 \<and> (c \<ge> 0xf1 \<or> s1 \<ge> 0x90))
         then (RET_ILSEQ, None)
         else (4, Some (push_bit 18 (ucast (c AND 0x07)) OR utf8_bits s1 12 OR utf8_bits s2 6
                        OR utf8_bits s3 0)))
      else if c < 0xfc then
        (if src_len < 5 then (RET_TOOFEW 0, None)
         else if \<not> (utf8_tail s1 \<and> utf8_tail s2 \<and> utf8_tail s3 \<and> utf8_tail s4 \<and>
                    (c \<ge> 0xf9 \<or> s1 \<ge> 0x88))
         then (RET_ILSEQ, None)
         else (5, Some (push_bit 24 (ucast (c AND 0x03)) OR utf8_bits s1 18 OR utf8_bits s2 12
                        OR utf8_bits s3 6 OR utf8_bits s4 0)))
      else if c < 0xfe then
        (if src_len < 6 then (RET_TOOFEW 0, None)
         else if \<not> (utf8_tail s1 \<and> utf8_tail s2 \<and> utf8_tail s3 \<and> utf8_tail s4 \<and> utf8_tail s5 \<and>
                    (c \<ge> 0xfd \<or> s1 \<ge> 0x84))
         then (RET_ILSEQ, None)
         else (6, Some (push_bit 30 (ucast (c AND 0x01)) OR utf8_bits s1 24 OR utf8_bits s2 18
                        OR utf8_bits s3 12 OR utf8_bits s4 6 OR utf8_bits s5 0)))
      else (RET_ILSEQ, None))"

text \<open>The count and the bytes stored; the \<^verbatim>\<open>if\<close> chain and the falling-through \<^verbatim>\<open>switch\<close> are those of
  the bridge.\<close>

definition utf8_wctomb :: "bool \<Rightarrow> 32 word \<Rightarrow> int \<Rightarrow> int \<times> bytes" where
  "utf8_wctomb sg wc dest_size =
     (let count = wc_size_in_utf8 sg wc in
      if count = 0 then (RET_ILSEQ, [])
      else if dest_size < int count then (RET_TOOSMALL, [])
      else (int count, utf8_encode_char count wc))"

lemma utf8_mbtowc_count: "utf8_mbtowc src n = (k, w) \<Longrightarrow> k \<le> 6 \<and> (0 < k \<longleftrightarrow> w \<noteq> None)"
  by (auto simp: utf8_mbtowc_def Let_def RET_ILSEQ_def RET_TOOFEW_def split: if_splits)

function utf8_mbstowcs :: "bytes \<Rightarrow> WideString" where
  "utf8_mbstowcs s =
     (if s = [] \<or> byte_at s 0 = 0 then []
      else case utf8_mbtowc s (int (length s)) of
             (un, Some wc) \<Rightarrow> if 0 < un then wc # utf8_mbstowcs (drop (nat un) s) else []
           | (un, None) \<Rightarrow> [])"
  by pat_completeness auto

termination by (relation "measure length") auto

declare utf8_mbstowcs.simps [simp del]

fun utf8_wcstombs :: "bool \<Rightarrow> WideString \<Rightarrow> bytes" where
  "utf8_wcstombs sg [] = []"
| "utf8_wcstombs sg (wc # ws) =
     (case utf8_wctomb sg wc 6 of
        (un, utf8) \<Rightarrow> if 0 < un then utf8 @ utf8_wcstombs sg ws else utf8_wcstombs sg ws)"

section \<open>Sequences of six bytes\<close>

lemma utf8_mark_6: "uint (drop_bit 6 wc OR utf8_mark 6) = uint wc div 64 + 0x4000000"
proof -
  have d: "uint (drop_bit 6 wc) = uint wc div 64"
    unfolding unsigned_drop_bit_eq using uint_32 [of wc]
    by (simp add: drop_bit_eq_div take_bit_int_eq_self)
  have "uint (utf8_mark 6 OR drop_bit 6 wc) = 1 * 2 ^ 26 + uint wc div 64"
    by (rule uint_or_add [OF _ d]) (use uint_32 [of wc] in \<open>simp_all add: utf8_mark_def\<close>)
  then show ?thesis by (simp add: or.commute)
qed

lemma encode6_bytes:
  "map uint (utf8_encode_char 6 wc) =
    [uint wc div 64 div 64 div 64 div 64 div 64 + 0xfc, 128 + uint wc div 64 div 64 div 64 div 64 mod 64,
     128 + uint wc div 64 div 64 div 64 mod 64, 128 + uint wc div 64 div 64 mod 64,
     128 + uint wc div 64 mod 64, 128 + uint wc mod 64]"
proof -
  have six: "utf8_encode_char 6 wc = utf8_encode_char 5 (drop_bit 6 wc OR utf8_mark 6)
      @ [ucast (0x80 OR (wc AND 0x3f))]"
    by (simp add: eval_nat_numeral)
  have big: "(a + 67108864) div 64 = a div 64 + (1048576 :: int)" "(a + 67108864) mod 64 = a mod (64 :: int)"
    "(a + 1048576) div 64 = a div 64 + (16384 :: int)" "(a + 1048576) mod 64 = a mod (64 :: int)"
    "(a + 16384) div 64 = a div 64 + (256 :: int)" "(a + 16384) mod 64 = a mod (64 :: int)"
    "(a + 256) div 64 = a div 64 + (4 :: int)" "(a + 256) mod 64 = a mod (64 :: int)" for a
    by ((rule add_64_div | rule add_64_mod), simp)+
  have "map uint (utf8_encode_char 5 (drop_bit 6 wc OR utf8_mark 6)) =
    [uint wc div 64 div 64 div 64 div 64 div 64 + 0xfc, 128 + uint wc div 64 div 64 div 64 div 64 mod 64,
     128 + uint wc div 64 div 64 div 64 mod 64, 128 + uint wc div 64 div 64 mod 64,
     128 + uint wc div 64 mod 64]"
    by (subst encode5_bytes) (use uint_32 [of wc] in \<open>simp_all add: utf8_mark_6 big\<close>)
  then show ?thesis
    by (simp only: six map_append uint_low_byte list.map append.simps)
qed

lemma decode_tail5:
  assumes "utf8_tail f" "utf8_tail e" "utf8_tail b" "utf8_tail c" "utf8_tail d"
  shows "uint (utf8_bits f 24 OR utf8_bits e 18 OR utf8_bits b 12 OR utf8_bits c 6 OR utf8_bits d 0)
    = (uint f - 128) * 2 ^ 24 + ((uint e - 128) * 2 ^ 18 + ((uint b - 128) * 2 ^ 12
        + ((uint c - 128) * 2 ^ 6 + (uint d - 128))))"
  using assms by (intro uint_or_add uint_utf8_bits decode_tail4) (simp_all add: utf8_tail_iff)

lemma uint_lead_6: "uint (push_bit 30 (ucast (a AND 1 :: 8 word)) :: 32 word) = uint a mod 2 * 2 ^ 30"
proof -
  have "uint (a AND 1) = uint a mod 2"
    by (simp add: and_one_eq uint_mod)
  moreover have "uint a mod 2 < 2" by simp
  ultimately show ?thesis by (subst uint_push_ucast) simp_all
qed

lemma decode6:
  assumes "utf8_tail f" "utf8_tail e" "utf8_tail b" "utf8_tail c" "utf8_tail d"
  shows "uint (push_bit 30 (ucast ((a :: 8 word) AND 1)) OR utf8_bits f 24 OR utf8_bits e 18
      OR utf8_bits b 12 OR utf8_bits c 6 OR utf8_bits d 0)
    = uint a mod 2 * 2 ^ 30 + ((uint f - 128) * 2 ^ 24 + ((uint e - 128) * 2 ^ 18
        + ((uint b - 128) * 2 ^ 12 + ((uint c - 128) * 2 ^ 6 + (uint d - 128)))))"
  using assms by (intro uint_or_add uint_lead_6 decode_tail5) (simp_all add: utf8_tail_iff)

lemma lead_payload_6: "0 \<le> q \<Longrightarrow> q < 2 \<Longrightarrow> (q + 0xfc) mod 2 = (q :: int)"
  using mod_mult_self2 [of q 2 126] by simp

lemma decode_encode_6:
  assumes "0x4000000 \<le> uint wc" "uint wc < 0x80000000"
  shows "utf8_mbtowc (utf8_encode_char 6 wc @ rest) (int (length (utf8_encode_char 6 wc @ rest))) = (6, Some wc)"
proof -
  obtain q r where u: "uint wc div 64 = q" "uint wc mod 64 = r" "uint wc = 64 * q + r"
      "0 \<le> q" "0 \<le> r" "r < 64"
    using six_bits uint_32(1) by blast
  obtain q1 r1 where v: "q div 64 = q1" "q mod 64 = r1" "q = 64 * q1 + r1"
      "0 \<le> q1" "0 \<le> r1" "r1 < 64"
    using six_bits u(4) by blast
  obtain q2 r2 where w: "q1 div 64 = q2" "q1 mod 64 = r2" "q1 = 64 * q2 + r2"
      "0 \<le> q2" "0 \<le> r2" "r2 < 64"
    using six_bits v(4) by blast
  obtain q3 r3 where x: "q2 div 64 = q3" "q2 mod 64 = r3" "q2 = 64 * q3 + r3"
      "0 \<le> q3" "0 \<le> r3" "r3 < 64"
    using six_bits w(4) by blast
  obtain q4 r4 where y: "q3 div 64 = q4" "q3 mod 64 = r4" "q3 = 64 * q4 + r4"
      "0 \<le> q4" "0 \<le> r4" "r4 < 64"
    using six_bits x(4) by blast
  have q: "q4 < 2" "1 \<le> q4 \<or> 4 \<le> r4" using assms u(3-6) v(3-6) w(3-6) x(3-6) y(3-6) by linarith+
  obtain a b c d e f where bs: "utf8_encode_char 6 wc = [a, b, c, d, e, f]"
    and a: "uint a = q4 + 0xfc" and b: "uint b = 128 + r4" and c: "uint c = 128 + r3"
    and d: "uint d = 128 + r2" and e: "uint e = 128 + r1" and f: "uint f = 128 + r"
    using encode6_bytes [of wc]
    by (auto simp: map_eq_Cons_conv u(1,2) v(1,2) w(1,2) x(1,2) y(1,2))
  have t: "utf8_tail b" "utf8_tail c" "utf8_tail d" "utf8_tail e" "utf8_tail f"
    using u(3-6) v(3-6) w(3-6) x(3-6) y(3-6) by (simp_all add: utf8_tail_iff b c d e f)
  have la: "0xfc \<le> uint a" "uint a < 0xfe" "0xfd \<le> uint a \<or> 0x84 \<le> uint b"
    using q y(4-6) a b by auto
  have "uint (push_bit 30 (ucast (a AND 0x01)) OR utf8_bits b 24 OR utf8_bits c 18 OR utf8_bits d 12
      OR utf8_bits e 6 OR utf8_bits f 0) = uint wc"
    by (simp only: decode6 [OF t] a b c d e f)
      (use u(3-6) v(3-6) w(3-6) x(3-6) y(3-6) q in \<open>simp add: lead_payload_6\<close>)
  then have "push_bit 30 (ucast (a AND 0x01)) OR utf8_bits b 24 OR utf8_bits c 18 OR utf8_bits d 12
      OR utf8_bits e 6 OR utf8_bits f 0 = wc"
    by (simp only: word_uint_eq_iff)
  then show ?thesis
    using la t by (simp add: bs utf8_mbtowc_def Let_def word_less_def word_le_def)
qed

text \<open>Up to five bytes the two decoders agree.\<close>

lemma utf8_mbtowc_decode:
  "utf8_decode_char bs = Some (wc, n) \<Longrightarrow> utf8_mbtowc bs (int (length bs)) = (int n, Some wc)"
proof -
  assume d: "utf8_decode_char bs = Some (wc, n)"
  define c where "c = byte_at bs 0"
  consider "c < 0x80" | "\<not> c < 0x80" "c < 0xc2" | "\<not> c < 0x80" "\<not> c < 0xc2" "c < 0xe0"
    | "\<not> c < 0x80" "\<not> c < 0xc2" "\<not> c < 0xe0" "c < 0xf0"
    | "\<not> c < 0x80" "\<not> c < 0xc2" "\<not> c < 0xe0" "\<not> c < 0xf0" "c < 0xf8"
    | "\<not> c < 0x80" "\<not> c < 0xc2" "\<not> c < 0xe0" "\<not> c < 0xf0" "\<not> c < 0xf8" "c < 0xfc"
    | "\<not> c < 0x80" "\<not> c < 0xc2" "\<not> c < 0xe0" "\<not> c < 0xf0" "\<not> c < 0xf8" "\<not> c < 0xfc"
    by blast
  then show ?thesis
    by cases (use d in \<open>simp add: utf8_decode_char_def utf8_mbtowc_def utf8_lead_size_def Let_def
      flip: c_def split: if_splits\<close>)+
qed

lemma mbtowc_encode:
  assumes "uint wc < 0x80000000"
  shows "utf8_mbtowc (utf8_encode_char (wc_size_in_utf8 sg wc) wc @ rest)
      (int (length (utf8_encode_char (wc_size_in_utf8 sg wc) wc @ rest)))
    = (int (wc_size_in_utf8 sg wc), Some wc)"
proof (cases "uint wc < 0x4000000")
  case True
  from decode_encode [OF this, of sg rest] show ?thesis by (rule utf8_mbtowc_decode)
next
  case False
  then have "wc_size_in_utf8 sg wc = 6" using assms by (simp add: wc_size_uint)
  with False assms decode_encode_6 [of wc rest] show ?thesis by simp
qed

section \<open>Round trips\<close>

text \<open>The units that both conversions carry: not the NUL that ends a string, and at most six bytes.\<close>

definition utf8_units :: "WideString \<Rightarrow> bool" where
  "utf8_units ws \<longleftrightarrow> list_all (\<lambda>wc. wc \<noteq> 0 \<and> wc < 0x80000000) ws"

lemma wcstombs_eq: "utf8_units ws \<Longrightarrow> utf8_wcstombs sg ws = utf8_bytes sg ws"
proof (induction ws)
  case (Cons wc ws)
  then have "uint wc < 0x80000000" by (simp add: utf8_units_def word_less_def)
  with Cons wc_size_pos [OF this, of sg] show ?case
    by (simp add: utf8_wctomb_def Let_def utf8_units_def)
qed simp

lemma mbstowcs_bytes: "utf8_units ws \<Longrightarrow> utf8_mbstowcs (utf8_bytes sg ws) = ws"
proof (induction ws)
  case Nil
  then show ?case by (subst utf8_mbstowcs.simps) simp
next
  case (Cons wc ws)
  let ?n = "wc_size_in_utf8 sg wc"
  have wc: "uint wc < 0x80000000" "wc \<noteq> 0" using Cons.prems by (simp_all add: utf8_units_def word_less_def)
  have n: "0 < ?n" using wc_size_pos [OF wc(1), of sg] by simp
  then obtain b bs where b: "utf8_encode_char ?n wc = b # bs"
    by (metis length_utf8_encode_char less_numeral_extra(3) list.exhaust list.size(3))
  then have "byte_at (utf8_bytes sg (wc # ws)) 0 \<noteq> 0"
    using encode_nonzero [OF wc(2,1), of sg] by simp
  moreover have "utf8_bytes sg (wc # ws) \<noteq> []" by (simp add: b)
  moreover have "drop ?n (utf8_bytes sg (wc # ws)) = utf8_bytes sg ws" by simp
  ultimately show ?case
    using Cons mbtowc_encode [OF wc(1), of sg "utf8_bytes sg ws"] n
    by (subst utf8_mbstowcs.simps) (simp add: utf8_units_def)
qed

lemma mbstowcs_wcstombs: "utf8_units ws \<Longrightarrow> utf8_mbstowcs (utf8_wcstombs sg ws) = ws"
  by (simp add: wcstombs_eq mbstowcs_bytes)

lemma length_wcstombs: "length (utf8_wcstombs sg ws) \<le> 6 * length ws"
  by (induction ws) (auto simp: utf8_wctomb_def Let_def wc_size_le intro: add_mono)

section \<open>What is decoded was encoded\<close>

lemma mbtowc_decode_char:
  assumes "utf8_mbtowc bs (int (length bs)) = (k, Some wc)" "byte_at bs 0 < 0xfc" "bs \<noteq> []"
  shows "utf8_decode_char bs = Some (wc, nat k)"
proof -
  define c where "c = byte_at bs 0"
  have l: "int (length bs) < 2 \<longleftrightarrow> length bs \<le> 1" "int (length bs) < 3 \<longleftrightarrow> length bs \<le> 2"
    "int (length bs) < 4 \<longleftrightarrow> length bs \<le> 3" "int (length bs) < 5 \<longleftrightarrow> length bs \<le> 4" by auto
  consider "c < 0x80" | "\<not> c < 0x80" "c < 0xc2" | "\<not> c < 0x80" "\<not> c < 0xc2" "c < 0xe0"
    | "\<not> c < 0x80" "\<not> c < 0xc2" "\<not> c < 0xe0" "c < 0xf0"
    | "\<not> c < 0x80" "\<not> c < 0xc2" "\<not> c < 0xe0" "\<not> c < 0xf0" "c < 0xf8"
    | "\<not> c < 0x80" "\<not> c < 0xc2" "\<not> c < 0xe0" "\<not> c < 0xf0" "\<not> c < 0xf8" "c < 0xfc"
    using assms(2) c_def by blast
  then show ?thesis
    by cases (use assms in \<open>simp add: utf8_decode_char_def utf8_mbtowc_def utf8_lead_size_def Let_def l
      flip: c_def split: if_splits\<close>)+
qed

lemma encode_decode_6:
  assumes t: "utf8_tail f" "utf8_tail e" "utf8_tail b" "utf8_tail c" "utf8_tail d"
    and a: "0xfc \<le> uint a" "uint a < 0xfe"
    and min: "0xfd \<le> uint a \<or> 0x84 \<le> uint f"
    and wc: "wc = push_bit 30 (ucast (a AND 0x01 :: 8 word)) OR utf8_bits f 24 OR utf8_bits e 18
      OR utf8_bits b 12 OR utf8_bits c 6 OR utf8_bits d 0"
  shows "utf8_encode_char 6 wc = [a, f, e, b, c, d] \<and> 0x4000000 \<le> uint wc \<and> uint wc < 0x80000000"
proof -
  define p v w x y z where "p = uint a - 252" and "v = uint f - 128" and "w = uint e - 128"
    and "x = uint b - 128" and "y = uint c - 128" and "z = uint d - 128"
  have y: "0 \<le> v" "v < 64" "0 \<le> w" "w < 64" "0 \<le> x" "x < 64" "0 \<le> y" "y < 64" "0 \<le> z" "z < 64"
    using t by (simp_all add: v_def w_def x_def y_def z_def utf8_tail_iff)
  have p: "0 \<le> p" "p < 2" "uint a = p + 252" using a by (simp_all add: p_def)
  have m: "1 \<le> p \<or> 4 \<le> v" using min by (auto simp: p_def v_def)
  have u: "uint wc = 64 * (64 * (64 * (64 * (64 * p + v) + w) + x) + y) + z"
    unfolding wc decode6 [OF t] using p by (simp add: lead_payload_6 v_def w_def x_def y_def z_def)
  have "map uint (utf8_encode_char 6 wc) = map uint [a, f, e, b, c, d]"
    unfolding encode6_bytes u
    using p y by (simp add: horner_64 del: distrib_left_numeral) (simp add: v_def w_def x_def y_def z_def)
  then have "utf8_encode_char 6 wc = [a, f, e, b, c, d]" by (rule map_uint_inject [THEN iffD1])
  then show ?thesis using u p y m by auto
qed

lemma mbtowc_Some:
  assumes "utf8_mbtowc bs (int (length bs)) = (k, Some wc)" "bs \<noteq> []"
  shows "wc_size_in_utf8 sg wc = nat k \<and> uint wc < 0x80000000 \<and> utf8_encode_char (nat k) wc = take (nat k) bs"
proof (cases "byte_at bs 0 < 0xfc")
  case True
  from decode_Some [OF mbtowc_decode_char [OF assms(1) True assms(2)] assms(2), of sg]
  show ?thesis by simp
next
  case False
  let ?a = "byte_at bs 0" and ?b = "byte_at bs 1" and ?c = "byte_at bs 2" and ?d = "byte_at bs 3"
    and ?e = "byte_at bs 4" and ?f = "byte_at bs 5"
  have f: "\<not> ?a < 0x80" "\<not> ?a < 0xc2" "\<not> ?a < 0xe0" "\<not> ?a < 0xf0" "\<not> ?a < 0xf8" "\<not> ?a < 0xfc"
    using False by (simp_all add: word_less_def)
  then have a: "?a < 0xfe" and l: "6 \<le> length bs" and k: "k = 6"
    and t: "utf8_tail ?b" "utf8_tail ?c" "utf8_tail ?d" "utf8_tail ?e" "utf8_tail ?f"
    and m: "0xfd \<le> ?a \<or> 0x84 \<le> ?b"
    and wc: "wc = push_bit 30 (ucast (?a AND 0x01)) OR utf8_bits ?b 24 OR utf8_bits ?c 18
      OR utf8_bits ?d 12 OR utf8_bits ?e 6 OR utf8_bits ?f 0"
    using assms(1) by (simp_all add: utf8_mbtowc_def Let_def split: if_splits)
  have tk: "take 6 bs = [?a, ?b, ?c, ?d, ?e, ?f]"
    using l by (auto simp: take_Suc_conv_app_nth eval_nat_numeral byte_at_def)
  have "0xfc \<le> uint ?a" "uint ?a < 0xfe" "0xfd \<le> uint ?a \<or> 0x84 \<le> uint ?b"
    using f(6) a m by (simp_all add: word_less_def word_le_def)
  from encode_decode_6 [OF t this wc] tk k show ?thesis by (simp add: wc_size_uint)
qed

text \<open>Where the decoding of a string stops: at its end, at a NUL, or at bytes that are no sequence.\<close>

definition utf8_stops :: "bytes \<Rightarrow> bool" where
  "utf8_stops s \<longleftrightarrow> s = [] \<or> byte_at s 0 = 0 \<or> fst (utf8_mbtowc s (int (length s))) \<le> 0"

lemma mbstowcs_prefix: "\<exists>rest. s = utf8_wcstombs sg (utf8_mbstowcs s) @ rest \<and> utf8_stops rest"
proof (induction s rule: utf8_mbstowcs.induct)
  case (1 s)
  obtain k w where d: "utf8_mbtowc s (int (length s)) = (k, w)" by fastforce
  show ?case
  proof (cases "s = [] \<or> byte_at s 0 = 0 \<or> w = None")
    case True
    then have "utf8_mbstowcs s = []" by (subst utf8_mbstowcs.simps) (auto simp: d)
    moreover have "utf8_stops s" using True utf8_mbtowc_count [OF d] by (auto simp: utf8_stops_def d)
    ultimately show ?thesis by simp
  next
    case False
    then obtain wc where wc: "w = Some wc" "s \<noteq> []" "byte_at s 0 \<noteq> 0" by auto
    with d have k: "0 < k" using utf8_mbtowc_count [OF d] by simp
    have e: "wc_size_in_utf8 sg wc = nat k" "utf8_encode_char (nat k) wc = take (nat k) s"
      using mbtowc_Some [of s k wc sg] d wc by simp_all
    from "1.IH" [OF _ d [symmetric] wc(1) k] wc obtain rest where
      r: "drop (nat k) s = utf8_wcstombs sg (utf8_mbstowcs (drop (nat k) s)) @ rest" "utf8_stops rest" by auto
    have "k \<le> 6" using utf8_mbtowc_count [OF d] by simp
    moreover have "utf8_mbstowcs s = wc # utf8_mbstowcs (drop (nat k) s)"
      using wc d k by (subst utf8_mbstowcs.simps) simp
    ultimately have "s = utf8_wcstombs sg (utf8_mbstowcs s) @ rest"
      using k e r(1) append_take_drop_id [of "nat k" s] by (simp add: utf8_wctomb_def Let_def)
    with r(2) show ?thesis by blast
  qed
qed

section \<open>Properties\<close>

text \<open>C15: The two UTF-8 conversions of the core library are inverse to each other: a wide string of
  units between 1 and 0x7fffffff is decoded from its encoding unchanged, six-byte sequences included,
  and what a string of any bytes is decoded to is encoded as a prefix of it, which ends where the
  string ends, at a NUL, or at bytes that are not a UTF-8 sequence.\<close>

theorem core_utf8_round_trip:
  assumes "utf8_units ws"
  shows "utf8_mbstowcs (utf8_wcstombs sg ws) = ws \<and>
    (\<exists>rest. s = utf8_wcstombs sg (utf8_mbstowcs s) @ rest \<and> utf8_stops rest)"
  using mbstowcs_wcstombs [OF assms] mbstowcs_prefix by blast

lemma core_utf8_round_trip_witness:
  "utf8_mbstowcs (utf8_wcstombs False [0x4E2D, 0x41, 0x7FFFFFFF]) = [0x4E2D, 0x41, 0x7FFFFFFF]"
  using core_utf8_round_trip [of "[0x4E2D, 0x41, 0x7FFFFFFF]" False "[]"] by (simp add: utf8_units_def)

end
