(* ===== verification/Core_Holder.thy ===== *)
theory Core_Holder
  imports Core_Utf8
begin

text \<open>
  The buffer of a transaction, class \<^verbatim>\<open>TransactionHolder\<close> of \<^verbatim>\<open>src/scim_transaction.cpp\<close>, and the
  conversions between integers and bytes in little-endian order of \<^verbatim>\<open>src/scim_utility.h\<close>. A cell of
  the buffer that was never written is \<^term>\<open>None\<close>; writing outside the buffer and using the value of
  such a cell are undefined, copying it is not. Allocation always succeeds; the reference count is not
  modelled, and \<^verbatim>\<open>size_t\<close> has 64 bits, so that no sum of sizes wraps.
\<close>

section \<open>Integers as bytes\<close>

definition scim_uint32tobytes :: "32 word \<Rightarrow> bytes" where
  "scim_uint32tobytes n =
     [ucast (n AND 0xFF), ucast (drop_bit 8 n AND 0xFF), ucast (drop_bit 16 n AND 0xFF),
      ucast (drop_bit 24 n AND 0xFF)]"

definition scim_bytestouint32 :: "bytes \<Rightarrow> 32 word" where
  "scim_bytestouint32 bs =
     ucast (bs ! 0) OR push_bit 8 (ucast (bs ! 1)) OR push_bit 16 (ucast (bs ! 2))
       OR push_bit 24 (ucast (bs ! 3))"

definition scim_uint16tobytes :: "16 word \<Rightarrow> bytes" where
  "scim_uint16tobytes n = [ucast (n AND 0xFF), ucast (drop_bit 8 n AND 0xFF)]"

definition scim_bytestouint16 :: "bytes \<Rightarrow> 16 word" where
  "scim_bytestouint16 bs = ucast (bs ! 0) OR push_bit 8 (ucast (bs ! 1))"

lemma length_uint_bytes [simp]:
  "length (scim_uint32tobytes n) = 4" "length (scim_uint16tobytes m) = 2"
  by (simp_all add: scim_uint32tobytes_def scim_uint16tobytes_def)

lemma bit_0xFF_int: "bit (0xFF :: int) k \<longleftrightarrow> k < 8"
proof -
  have "(0xFF :: int) = mask 8" by (simp add: mask_eq_exp_minus_1)
  then show ?thesis by (simp only: bit_mask_iff) simp
qed

lemma bytes_uint32 [simp]: "scim_bytestouint32 (scim_uint32tobytes n @ rest) = n"
proof (rule bit_word_eqI)
  fix k assume "k < LENGTH(32)"
  then show "bit (scim_bytestouint32 (scim_uint32tobytes n @ rest)) k \<longleftrightarrow> bit n k"
    by (cases "k < 8"; cases "k < 16"; cases "k < 24")
      (auto simp: scim_bytestouint32_def scim_uint32tobytes_def bit_or_iff bit_and_iff bit_push_bit_iff
        bit_ucast_iff bit_drop_bit_eq bit_0xFF_int not_less less_diff_conv2)
qed

lemma bytes_uint16 [simp]: "scim_bytestouint16 (scim_uint16tobytes n @ rest) = n"
proof (rule bit_word_eqI)
  fix k assume "k < LENGTH(16)"
  then show "bit (scim_bytestouint16 (scim_uint16tobytes n @ rest)) k \<longleftrightarrow> bit n k"
    by (auto simp: scim_bytestouint16_def scim_uint16tobytes_def bit_or_iff bit_and_iff bit_push_bit_iff
        bit_ucast_iff bit_drop_bit_eq bit_0xFF_int)
qed

lemmas bytes_uint [simp] = bytes_uint32 [of _ "[]", simplified] bytes_uint16 [of _ "[]", simplified]

section \<open>The buffer\<close>

record TransactionHolder =
  m_buffer_size :: nat
  m_write_pos :: nat
  m_bytes :: "8 word option list"

definition SCIM_TRANS_MIN_BUFSIZE :: nat where
  "SCIM_TRANS_MIN_BUFSIZE = 512"

definition SCIM_TRANS_MAX_BUFSIZE :: int where
  "SCIM_TRANS_MAX_BUFSIZE = 1048576 * 16"

definition SCIM_TRANS_MAGIC :: "32 word" where
  "SCIM_TRANS_MAGIC = 0x4d494353"

definition SCIM_TRANS_HEADER_SIZE :: nat where
  "SCIM_TRANS_HEADER_SIZE = 4 * 4"

definition new_TransactionHolder :: "nat \<Rightarrow> TransactionHolder" where
  "new_TransactionHolder bufsize =
     \<lparr>m_buffer_size = max SCIM_TRANS_MIN_BUFSIZE bufsize, m_write_pos = SCIM_TRANS_HEADER_SIZE,
      m_bytes = replicate (max SCIM_TRANS_MIN_BUFSIZE bufsize) None\<rparr>"

definition holder_valid :: "TransactionHolder \<Rightarrow> bool" where
  "holder_valid h \<longleftrightarrow> m_buffer_size h \<noteq> 0"

text \<open>\<^verbatim>\<open>realloc\<close> keeps the cells there were; the new ones are not written.\<close>

definition request_buffer_size :: "nat \<Rightarrow> TransactionHolder \<Rightarrow> TransactionHolder" where
  "request_buffer_size request h =
     (if m_write_pos h + request \<ge> m_buffer_size h then
        let bufsize = max SCIM_TRANS_MIN_BUFSIZE (request + 1) + m_buffer_size h in
        h\<lparr>m_bytes := m_bytes h @ replicate (bufsize - m_buffer_size h) None, m_buffer_size := bufsize\<rparr>
      else h)"

text \<open>Cells written from position \<open>p\<close> on, and cells read there: as they are (\<^verbatim>\<open>memcpy\<close>), or for
  their values.\<close>

definition store_cells :: "nat \<Rightarrow> 8 word option list \<Rightarrow> TransactionHolder \<Rightarrow> TransactionHolder run" where
  "store_cells p cs h =
     (if p + length cs \<le> length (m_bytes h)
      then Done (h\<lparr>m_bytes := take p (m_bytes h) @ cs @ drop (p + length cs) (m_bytes h)\<rparr>)
      else Undefined)"

definition copy_cells :: "nat \<Rightarrow> nat \<Rightarrow> TransactionHolder \<Rightarrow> 8 word option list run" where
  "copy_cells p n h =
     (if p + n \<le> length (m_bytes h) then Done (take n (drop p (m_bytes h))) else Undefined)"

definition read_bytes :: "nat \<Rightarrow> nat \<Rightarrow> TransactionHolder \<Rightarrow> bytes run" where
  "read_bytes p n h =
     run_bind (copy_cells p n h) (\<lambda>cs. if None \<in> set cs then Undefined else Done (map the cs))"

text \<open>Writing at \<^verbatim>\<open>m_write_pos\<close> and counting it up.\<close>

definition put_cells :: "8 word option list \<Rightarrow> TransactionHolder \<Rightarrow> TransactionHolder run" where
  "put_cells cs h =
     run_bind (store_cells (m_write_pos h) cs h) (\<lambda>h'. Done (h'\<lparr>m_write_pos := m_write_pos h' + length cs\<rparr>))"

abbreviation put_bytes :: "bytes \<Rightarrow> TransactionHolder \<Rightarrow> TransactionHolder run" where
  "put_bytes bs \<equiv> put_cells (map Some bs)"

definition checksum_step :: "8 word \<Rightarrow> 32 word \<Rightarrow> 32 word" where
  "checksum_step b acc = (let s = acc + ucast b in push_bit 1 s OR drop_bit 31 s)"

definition calc_checksum :: "TransactionHolder \<Rightarrow> 32 word run" where
  "calc_checksum h =
     run_bind (read_bytes SCIM_TRANS_HEADER_SIZE (m_write_pos h - SCIM_TRANS_HEADER_SIZE) h)
       (\<lambda>bs. Done (fold checksum_step bs 0))"

section \<open>What is in the buffer\<close>

definition cells :: "TransactionHolder \<Rightarrow> 8 word option list" where
  "cells h = take (m_write_pos h - 16) (drop 16 (m_bytes h))"

definition holder_inv :: "TransactionHolder \<Rightarrow> bool" where
  "holder_inv h \<longleftrightarrow> length (m_bytes h) = m_buffer_size h \<and> 0 < m_buffer_size h \<and>
     16 \<le> m_write_pos h \<and> m_write_pos h \<le> m_buffer_size h"

lemma length_cells [simp]: "holder_inv h \<Longrightarrow> length (cells h) = m_write_pos h - 16"
  by (auto simp: cells_def holder_inv_def)

lemma write_pos_cells: "holder_inv h \<Longrightarrow> m_write_pos h = 16 + length (cells h)"
  by (simp add: holder_inv_def)

lemma new_holder [simp]: "holder_inv (new_TransactionHolder n)" "cells (new_TransactionHolder n) = []"
  by (auto simp: holder_inv_def cells_def new_TransactionHolder_def SCIM_TRANS_MIN_BUFSIZE_def
      SCIM_TRANS_HEADER_SIZE_def)

text \<open>\<open>writes m e f\<close>: when there is room for \<open>m\<close> cells, \<open>f\<close> stays inside the buffer and appends
  exactly the cells \<open>e\<close>.\<close>

definition writes :: "nat \<Rightarrow> 8 word option list \<Rightarrow> (TransactionHolder \<Rightarrow> TransactionHolder run) \<Rightarrow> bool" where
  "writes m e f \<longleftrightarrow>
     (\<forall>h. holder_inv h \<and> m_write_pos h + m \<le> m_buffer_size h \<longrightarrow>
       (\<exists>h'. f h = Done h' \<and> holder_inv h' \<and> cells h' = cells h @ e \<and> m_buffer_size h \<le> m_buffer_size h'))"

named_theorems writing \<open>composition of writes\<close>

lemma writesD:
  "writes m e f \<Longrightarrow> holder_inv h \<Longrightarrow> m_write_pos h + m \<le> m_buffer_size h \<Longrightarrow>
   \<exists>h'. f h = Done h' \<and> holder_inv h' \<and> cells h' = cells h @ e \<and> m_buffer_size h \<le> m_buffer_size h' \<and>
     m_write_pos h' = m_write_pos h + length e"
proof -
  assume f: "writes m e f" and h: "holder_inv h" "m_write_pos h + m \<le> m_buffer_size h"
  then obtain h' where h': "f h = Done h'" "holder_inv h'" "cells h' = cells h @ e" "m_buffer_size h \<le> m_buffer_size h'"
    unfolding writes_def by blast
  then have "m_write_pos h' = m_write_pos h + length e"
    using write_pos_cells [OF h(1)] write_pos_cells [OF h'(2)] by simp
  with h' show ?thesis by blast
qed

lemma writes_mono: "writes m e f \<Longrightarrow> m \<le> m' \<Longrightarrow> writes m' e f"
  unfolding writes_def by (meson add_le_cancel_left order_trans)

lemma take_drop_take: "a \<le> b \<Longrightarrow> drop a (take b xs) = take (b - a) (drop a xs)"
  by (simp add: drop_take)

lemma writes_put_cells: "writes (length e) e (put_cells e)"
proof (unfold writes_def, intro allI impI)
  fix h assume h: "holder_inv h \<and> m_write_pos h + length e \<le> m_buffer_size h"
  let ?h = "h\<lparr>m_bytes := take (m_write_pos h) (m_bytes h) @ e @ drop (m_write_pos h + length e) (m_bytes h),
      m_write_pos := m_write_pos h + length e\<rparr>"
  have m: "min (m_buffer_size h - 16) (m_write_pos h - 16) = m_write_pos h - 16"
    using h by (auto simp: holder_inv_def)
  have "put_cells e h = Done ?h"
    using h by (simp add: put_cells_def store_cells_def holder_inv_def)
  moreover have "cells ?h = cells h @ e"
    using h by (simp add: cells_def holder_inv_def take_drop_take m)
  ultimately show "\<exists>h'. put_cells e h = Done h' \<and> holder_inv h' \<and> cells h' = cells h @ e \<and>
      m_buffer_size h \<le> m_buffer_size h'"
    using h by (intro exI [of _ ?h]) (simp add: holder_inv_def)
qed

lemma writes_put_bytes [writing]: "writes (length bs) (map Some bs) (put_bytes bs)"
  using writes_put_cells [of "map Some bs"] by simp

lemma request_inv:
  "holder_inv h \<Longrightarrow> holder_inv (request_buffer_size n h) \<and> cells (request_buffer_size n h) = cells h \<and>
   m_write_pos (request_buffer_size n h) = m_write_pos h \<and>
   m_write_pos h + n < m_buffer_size (request_buffer_size n h) \<and>
   m_buffer_size h \<le> m_buffer_size (request_buffer_size n h)"
  by (auto simp: request_buffer_size_def holder_inv_def cells_def Let_def)

lemma writes_request: "writes m e f \<Longrightarrow> m \<le> n \<Longrightarrow> writes 0 e (\<lambda>h. f (request_buffer_size n h))"
proof (unfold writes_def [of 0], intro allI impI)
  fix h assume f: "writes m e f" "m \<le> n" and h: "holder_inv h \<and> m_write_pos h + 0 \<le> m_buffer_size h"
  from request_inv [of h n] h f(2)
  have r: "holder_inv (request_buffer_size n h)" "cells (request_buffer_size n h) = cells h"
    "m_write_pos (request_buffer_size n h) + m \<le> m_buffer_size (request_buffer_size n h)"
    "m_buffer_size h \<le> m_buffer_size (request_buffer_size n h)" by simp_all
  from writesD [OF f(1) r(1,3)] r(2,4)
  show "\<exists>h'. f (request_buffer_size n h) = Done h' \<and> holder_inv h' \<and> cells h' = cells h @ e \<and>
      m_buffer_size h \<le> m_buffer_size h'"
    by (metis order_trans)
qed

lemma writes_bind [writing]:
  assumes "writes m1 e1 f" "writes m2 e2 g" "m1 \<le> m" "m2 = 0 \<or> length e1 + m2 \<le> m" "e = e1 @ e2"
  shows "writes m e (\<lambda>h. run_bind (f h) g)"
proof (unfold writes_def, intro allI impI)
  fix h assume h: "holder_inv h \<and> m_write_pos h + m \<le> m_buffer_size h"
  with writesD [OF assms(1), of h] assms(3) obtain h1 where
    h1: "f h = Done h1" "holder_inv h1" "cells h1 = cells h @ e1" "m_buffer_size h \<le> m_buffer_size h1"
      "m_write_pos h1 = m_write_pos h + length e1" by auto
  have "m_write_pos h1 \<le> m_buffer_size h1" using h1(2) by (simp add: holder_inv_def)
  then have "m_write_pos h1 + m2 \<le> m_buffer_size h1" using h h1(4,5) assms(4) by auto
  from writesD [OF assms(2) h1(2) this] h1 assms(5)
  show "\<exists>h'. run_bind (f h) g = Done h' \<and> holder_inv h' \<and> cells h' = cells h @ e \<and>
      m_buffer_size h \<le> m_buffer_size h'" by auto
qed

text \<open>The pattern of every \<^verbatim>\<open>put_data\<close>: room for the item is requested, then its type is written.\<close>

lemma writes_item [writing]:
  assumes "writes m2 e2 g" "m2 = 0 \<or> length bs + m2 \<le> n" "length bs \<le> n" "e = map Some bs @ e2"
  shows "writes 0 e (\<lambda>h. run_bind (put_bytes bs (request_buffer_size n h)) g)"
  using writes_request [OF writes_bind [OF writes_put_bytes [of bs] assms(1) assms(3) _ assms(4)], of n] assms(2)
  by simp

lemma writes_Done [writing]: "writes 0 [] Done"
  by (simp add: writes_def)

end
