(* ===== verification/Core_Lookup_Table.thy ===== *)
theory Core_Lookup_Table
  imports Core_Utf8
begin

text \<open>
  The lookup tables of \<^verbatim>\<open>src/scim_lookup_table.cpp\<close>: a list of candidates shown page by page with a
  cursor. \<^verbatim>\<open>LookupTable\<close> pages over candidates it does not hold: \<^verbatim>\<open>number_of_candidates\<close> is virtual,
  and its operations take the number as a parameter \<open>n\<close>, a \<^verbatim>\<open>uint32\<close>. \<^verbatim>\<open>CommonLookupTable\<close> is a record
  extension with the storage: all candidates in one vector, all attributes in another, and for each
  the vector of the places where one begins. An \<^verbatim>\<open>int\<close> is an integer; where the code converts one to
  \<^verbatim>\<open>uint32\<close> (in every comparison with the number of candidates) the conversion is written out. With
  \<open>page_inv\<close> no sum leaves the \<^verbatim>\<open>int\<close> range.
\<close>

section \<open>Data\<close>

text \<open>An \<^verbatim>\<open>AttributeType\<close> is kept as its underlying number.\<close>

record Attribute =
  m_start :: "32 word"
  m_length :: "32 word"
  m_type :: "32 word"
  m_value :: "32 word"

record LookupTable =
  m_page_history :: "int list"
  m_page_size :: int
  m_current_page_start :: int
  m_cursor_pos :: int
  m_cursor_visible :: bool
  m_page_size_fixed :: bool
  m_candidate_labels :: "WideString list"

record CommonLookupTable = LookupTable +
  m_buffer :: "32 word list"
  m_index :: "32 word list"
  m_attributes :: "Attribute list"
  m_attrs_index :: "32 word list"

definition SCIM_LOOKUP_TABLE_MAX_PAGESIZE :: int where
  "SCIM_LOOKUP_TABLE_MAX_PAGESIZE = 16"

definition to_uint32 :: "int \<Rightarrow> int" where
  "to_uint32 i = i mod 4294967296"

section \<open>Paging\<close>

definition set_candidate_labels :: "WideString list \<Rightarrow> 'a LookupTable_scheme \<Rightarrow> 'a LookupTable_scheme" where
  "set_candidate_labels labels t = (if labels \<noteq> [] then t\<lparr>m_candidate_labels := labels\<rparr> else t)"

definition get_current_page_size :: "int \<Rightarrow> 'a LookupTable_scheme \<Rightarrow> int" where
  "get_current_page_size n t = min (to_uint32 (m_page_size t)) (to_uint32 (n - m_current_page_start t))"

definition get_cursor_pos_in_current_page :: "'a LookupTable_scheme \<Rightarrow> int" where
  "get_cursor_pos_in_current_page t = m_cursor_pos t - m_current_page_start t"

definition set_page_size :: "int \<Rightarrow> int \<Rightarrow> 'a LookupTable_scheme \<Rightarrow> 'a LookupTable_scheme" where
  "set_page_size n page_size t =
     (if 0 < page_size \<and> page_size \<le> SCIM_LOOKUP_TABLE_MAX_PAGESIZE then
        let t1 = t\<lparr>m_page_size := page_size\<rparr>;
            t2 = (if m_cursor_pos t1 \<ge> m_current_page_start t1 + get_current_page_size n t1
                  then t1\<lparr>m_cursor_pos := m_current_page_start t1 + get_current_page_size n t1 - 1\<rparr>
                  else t1) in
        if m_cursor_pos t2 < 0 then t2\<lparr>m_cursor_pos := 0\<rparr> else t2
      else t)"

text \<open>The last statement of \<^verbatim>\<open>page_up\<close> and \<^verbatim>\<open>page_down\<close>.\<close>

definition keep_cursor_in_page :: "int \<Rightarrow> 'a LookupTable_scheme \<Rightarrow> 'a LookupTable_scheme" where
  "keep_cursor_in_page n t =
     (if m_cursor_pos t < m_current_page_start t then t\<lparr>m_cursor_pos := m_current_page_start t\<rparr>
      else if m_cursor_pos t \<ge> m_current_page_start t + get_current_page_size n t
      then t\<lparr>m_cursor_pos := m_current_page_start t + get_current_page_size n t - 1\<rparr>
      else t)"

definition page_up :: "int \<Rightarrow> 'a LookupTable_scheme \<Rightarrow> bool \<times> 'a LookupTable_scheme" where
  "page_up n t =
     (if m_current_page_start t \<le> 0 then (False, t)
      else
        let t1 = (if m_page_history t \<noteq> []
                  then t\<lparr>m_page_size := last (m_page_history t), m_page_history := butlast (m_page_history t)\<rparr>
                  else t);
            t2 = t1\<lparr>m_current_page_start :=
                      (if m_current_page_start t1 \<ge> m_page_size t1
                       then m_current_page_start t1 - m_page_size t1 else 0)\<rparr>;
            t3 = t2\<lparr>m_cursor_pos :=
                      (if m_cursor_pos t2 \<ge> m_page_size t2 then m_cursor_pos t2 - m_page_size t2 else 0)\<rparr> in
        (True, keep_cursor_in_page n t3))"

definition page_down :: "int \<Rightarrow> 'a LookupTable_scheme \<Rightarrow> bool \<times> 'a LookupTable_scheme" where
  "page_down n t =
     (if to_uint32 (m_current_page_start t + m_page_size t) \<ge> n then (False, t)
      else
        let t1 = t\<lparr>m_current_page_start := m_current_page_start t + m_page_size t,
                   m_page_history := m_page_history t @ [m_page_size t]\<rparr>;
            t2 = t1\<lparr>m_cursor_pos := m_cursor_pos t1 + m_page_size t1\<rparr> in
        (True, keep_cursor_in_page n t2))"

definition cursor_up :: "int \<Rightarrow> 'a LookupTable_scheme \<Rightarrow> bool \<times> 'a LookupTable_scheme" where
  "cursor_up n t =
     (if m_cursor_pos t \<le> 0 then (False, t)
      else
        let t1 = t\<lparr>m_cursor_visible := True, m_cursor_pos := m_cursor_pos t - 1\<rparr> in
        if m_cursor_pos t1 < m_current_page_start t1
        then let t2 = snd (page_up n t1) in
             (True, t2\<lparr>m_cursor_pos := m_current_page_start t2 + get_current_page_size n t2 - 1\<rparr>)
        else (True, t1))"

definition cursor_down :: "int \<Rightarrow> 'a LookupTable_scheme \<Rightarrow> bool \<times> 'a LookupTable_scheme" where
  "cursor_down n t =
     (if to_uint32 (m_cursor_pos t + 1) \<ge> n then (False, t)
      else
        let t1 = t\<lparr>m_cursor_visible := True, m_cursor_pos := m_cursor_pos t + 1\<rparr> in
        if m_cursor_pos t1 \<ge> m_current_page_start t1 + get_current_page_size n t1
        then let t2 = snd (page_down n t1) in (True, t2\<lparr>m_cursor_pos := m_current_page_start t2\<rparr>)
        else (True, t1))"

definition show_cursor :: "bool \<Rightarrow> 'a LookupTable_scheme \<Rightarrow> 'a LookupTable_scheme" where
  "show_cursor show t = t\<lparr>m_cursor_visible := show\<rparr>"

definition fix_page_size :: "bool \<Rightarrow> 'a LookupTable_scheme \<Rightarrow> 'a LookupTable_scheme" where
  "fix_page_size fixed t = t\<lparr>m_page_size_fixed := fixed\<rparr>"

text \<open>The two loops of \<^verbatim>\<open>set_cursor_pos\<close> may run for ever on a table whose pages and cursor do not
  match; then the result is \<^term>\<open>None\<close>.\<close>

partial_function (option) cursor_up_to ::
  "int \<Rightarrow> int \<Rightarrow> 'a LookupTable_scheme \<Rightarrow> 'a LookupTable_scheme option" where
  "cursor_up_to n pos t = (if pos < m_cursor_pos t then cursor_up_to n pos (snd (cursor_up n t)) else Some t)"

partial_function (option) cursor_down_to ::
  "int \<Rightarrow> int \<Rightarrow> 'a LookupTable_scheme \<Rightarrow> 'a LookupTable_scheme option" where
  "cursor_down_to n pos t = (if pos > m_cursor_pos t then cursor_down_to n pos (snd (cursor_down n t)) else Some t)"

definition set_cursor_pos :: "int \<Rightarrow> int \<Rightarrow> 'a LookupTable_scheme \<Rightarrow> 'a LookupTable_scheme option" where
  "set_cursor_pos n pos t =
     (if pos < 0 \<or> to_uint32 pos \<ge> n then Some t
      else
        let t1 = t\<lparr>m_cursor_visible := True\<rparr> in
        if pos \<ge> m_current_page_start t1 \<and> pos < m_current_page_start t1 + get_current_page_size n t1
        then Some (t1\<lparr>m_cursor_pos := pos\<rparr>)
        else if pos < m_cursor_pos t1 then cursor_up_to n pos t1
        else if pos > m_cursor_pos t1 then cursor_down_to n pos t1
        else Some t1)"

definition set_cursor_pos_in_current_page :: "int \<Rightarrow> int \<Rightarrow> 'a LookupTable_scheme \<Rightarrow> 'a LookupTable_scheme" where
  "set_cursor_pos_in_current_page n pos t =
     (if pos < 0 \<or> pos \<ge> get_current_page_size n t then t
      else t\<lparr>m_cursor_visible := True, m_cursor_pos := pos + m_current_page_start t\<rparr>)"

definition get_candidate_label :: "int \<Rightarrow> int \<Rightarrow> 'a LookupTable_scheme \<Rightarrow> WideString" where
  "get_candidate_label n page_index t =
     (if page_index \<ge> 0 \<and> page_index < get_current_page_size n t \<and>
         page_index < int (length (m_candidate_labels t))
      then m_candidate_labels t ! nat page_index else [])"

text \<open>\<^verbatim>\<open>LookupTable::clear\<close>.\<close>

definition clear_pages :: "'a LookupTable_scheme \<Rightarrow> 'a LookupTable_scheme" where
  "clear_pages t = t\<lparr>m_current_page_start := 0, m_cursor_pos := 0, m_page_history := []\<rparr>"

section \<open>Candidates\<close>

text \<open>The labels \<^verbatim>\<open>1\<close> to \<^verbatim>\<open>9\<close> and \<^verbatim>\<open>0\<close>.\<close>

definition default_labels :: "WideString list" where
  "default_labels =
     map (\<lambda>i. utf8_mbstowcs [byte_of_char CHR ''1'' + of_nat i]) [0..<9] @ [utf8_mbstowcs [byte_of_char CHR ''0'']]"

text \<open>The constructors: with labels, and with the default labels.\<close>

definition new_CommonLookupTable :: "int \<Rightarrow> WideString list \<Rightarrow> CommonLookupTable" where
  "new_CommonLookupTable page_size labels =
     set_candidate_labels labels
       \<lparr>m_page_history = [],
        m_page_size = (if page_size \<le> 0 \<or> page_size > SCIM_LOOKUP_TABLE_MAX_PAGESIZE
                       then SCIM_LOOKUP_TABLE_MAX_PAGESIZE else page_size),
        m_current_page_start = 0, m_cursor_pos = 0, m_cursor_visible = False, m_page_size_fixed = False,
        m_candidate_labels = [], m_buffer = [], m_index = [], m_attributes = [], m_attrs_index = []\<rparr>"

definition labelled_CommonLookupTable :: "int \<Rightarrow> CommonLookupTable" where
  "labelled_CommonLookupTable page_size = new_CommonLookupTable page_size default_labels"

definition number_of_candidates :: "CommonLookupTable \<Rightarrow> int" where
  "number_of_candidates t = to_uint32 (int (length (m_index t)))"

definition append_candidate :: "WideString \<Rightarrow> Attribute list \<Rightarrow> CommonLookupTable \<Rightarrow> bool \<times> CommonLookupTable" where
  "append_candidate cand attrs t =
     (if length cand = 0 then (False, t)
      else
        let t1 = t\<lparr>m_index := m_index t @ [of_nat (length (m_buffer t))]\<rparr>;
            t2 = t1\<lparr>m_buffer := m_buffer t1 @ cand\<rparr>;
            t3 = t2\<lparr>m_attrs_index := m_attrs_index t2 @ [of_nat (length (m_attributes t2))]\<rparr> in
        (True, if attrs \<noteq> [] then t3\<lparr>m_attributes := m_attributes t3 @ attrs\<rparr> else t3))"

definition append_candidate_char :: "32 word \<Rightarrow> Attribute list \<Rightarrow> CommonLookupTable \<Rightarrow> bool \<times> CommonLookupTable" where
  "append_candidate_char cand attrs t =
     (if cand = 0 then (False, t)
      else
        let t1 = t\<lparr>m_index := m_index t @ [of_nat (length (m_buffer t))]\<rparr>;
            t2 = t1\<lparr>m_buffer := m_buffer t1 @ [cand]\<rparr>;
            t3 = t2\<lparr>m_attrs_index := m_attrs_index t2 @ [of_nat (length (m_attributes t2))]\<rparr> in
        (True, if attrs \<noteq> [] then t3\<lparr>m_attributes := m_attributes t3 @ attrs\<rparr> else t3))"

text \<open>Copying the cells from one iterator to another is undefined unless they are in order and inside
  the vector; so is an index outside a vector.\<close>

definition iterator_range :: "'b list \<Rightarrow> nat \<Rightarrow> nat \<Rightarrow> 'b list run" where
  "iterator_range xs a b = (if a \<le> b \<and> b \<le> length xs then Done (take (b - a) (drop a xs)) else Undefined)"

definition vector_at :: "'b list \<Rightarrow> int \<Rightarrow> 'b run" where
  "vector_at xs i = (if 0 \<le> i \<and> i < int (length xs) then Done (xs ! nat i) else Undefined)"

definition get_candidate :: "int \<Rightarrow> CommonLookupTable \<Rightarrow> WideString run" where
  "get_candidate index t =
     (if index < 0 \<or> to_uint32 index \<ge> number_of_candidates t then Done []
      else
        run_bind (vector_at (m_index t) index) (\<lambda>start.
        run_bind (if to_uint32 index < to_uint32 (number_of_candidates t - 1)
                  then run_bind (vector_at (m_index t) (index + 1)) (\<lambda>i. Done (unat i))
                  else Done (length (m_buffer t))) (\<lambda>end.
        iterator_range (m_buffer t) (unat start) end)))"

definition get_attributes :: "int \<Rightarrow> CommonLookupTable \<Rightarrow> Attribute list run" where
  "get_attributes index t =
     (if index < 0 \<or> to_uint32 index \<ge> number_of_candidates t then Done []
      else
        run_bind (vector_at (m_attrs_index t) index) (\<lambda>start.
        run_bind (if to_uint32 index < to_uint32 (number_of_candidates t - 1)
                  then run_bind (vector_at (m_attrs_index t) (index + 1)) (\<lambda>i. Done (unat i))
                  else Done (length (m_attributes t))) (\<lambda>end.
        if unat start < end then iterator_range (m_attributes t) (unat start) end else Done [])))"

definition get_candidate_in_current_page :: "int \<Rightarrow> CommonLookupTable \<Rightarrow> WideString run" where
  "get_candidate_in_current_page page_index t =
     (if page_index \<ge> 0 \<and> page_index < get_current_page_size (number_of_candidates t) t
      then get_candidate (page_index + m_current_page_start t) t else Done [])"

definition get_attributes_in_current_page :: "int \<Rightarrow> CommonLookupTable \<Rightarrow> Attribute list run" where
  "get_attributes_in_current_page page_index t =
     (if page_index \<ge> 0 \<and> page_index < get_current_page_size (number_of_candidates t) t
      then get_attributes (page_index + m_current_page_start t) t else Done [])"

definition clear_table :: "CommonLookupTable \<Rightarrow> CommonLookupTable" where
  "clear_table t = (clear_pages t)\<lparr>m_buffer := [], m_index := [], m_attributes := [], m_attrs_index := []\<rparr>"

section \<open>The invariant of paging\<close>

text \<open>The number of candidates leaves room for one page below the largest \<^verbatim>\<open>int\<close>. The page starts
  where the pages in the history end, and the cursor is in the page.\<close>

definition page_inv :: "int \<Rightarrow> 'a LookupTable_scheme \<Rightarrow> bool" where
  "page_inv n t \<longleftrightarrow>
     0 \<le> n \<and> n \<le> 2147483631 \<and> 1 \<le> m_page_size t \<and> m_page_size t \<le> 16 \<and>
     list_all (\<lambda>s. 1 \<le> s \<and> s \<le> 16) (m_page_history t) \<and>
     m_current_page_start t = sum_list (m_page_history t) \<and>
     m_current_page_start t \<le> m_cursor_pos t \<and>
     (if n = 0 then m_page_history t = [] \<and> m_cursor_pos t = 0
      else m_cursor_pos t < n \<and> m_cursor_pos t < m_current_page_start t + m_page_size t)"

lemma sum_history_nonneg: "list_all (\<lambda>s. 1 \<le> s \<and> s \<le> 16) h \<Longrightarrow> 0 \<le> sum_list (h :: int list)"
  by (induction h) auto

lemma page_inv_start: "page_inv n t \<Longrightarrow> 0 \<le> m_current_page_start t"
  by (auto simp: page_inv_def intro: sum_history_nonneg)

lemma page_inv_history:
  "page_inv n t \<Longrightarrow> 0 < m_current_page_start t \<Longrightarrow>
   \<exists>h s. m_page_history t = h @ [s] \<and> 1 \<le> s \<and> s \<le> 16 \<and> m_current_page_start t = sum_list h + s \<and>
     0 \<le> sum_list h \<and> list_all (\<lambda>s. 1 \<le> s \<and> s \<le> 16) h"
  by (cases "m_page_history t" rule: rev_cases) (auto simp: page_inv_def sum_history_nonneg)

lemma current_page_size:
  "0 \<le> m_current_page_start t \<Longrightarrow> m_current_page_start t \<le> n \<Longrightarrow> n \<le> 2147483631 \<Longrightarrow>
   1 \<le> m_page_size t \<Longrightarrow> m_page_size t \<le> 16 \<Longrightarrow>
   get_current_page_size n t = min (m_page_size t) (n - m_current_page_start t)"
  by (simp add: get_current_page_size_def to_uint32_def)

lemma page_inv_page_size:
  "page_inv n t \<Longrightarrow> get_current_page_size n t = min (m_page_size t) (n - m_current_page_start t)"
  by (rule current_page_size)
    (auto simp: page_inv_def sum_history_nonneg split: if_splits)

lemma page_inv_more_candidates:
  "page_inv n t \<Longrightarrow> n \<le> m \<Longrightarrow> m \<le> 2147483631 \<Longrightarrow> page_inv m t"
  by (auto simp: page_inv_def split: if_splits)

lemma page_inv_cong:
  "m_page_history t = m_page_history u \<Longrightarrow> m_page_size t = m_page_size u \<Longrightarrow>
   m_current_page_start t = m_current_page_start u \<Longrightarrow> m_cursor_pos t = m_cursor_pos u \<Longrightarrow>
   page_inv n t \<longleftrightarrow> page_inv n u"
  by (simp add: page_inv_def)

lemma page_inv_view [simp]:
  "page_inv n (t\<lparr>m_cursor_visible := v\<rparr>) \<longleftrightarrow> page_inv n t"
  "page_inv n (show_cursor v t) \<longleftrightarrow> page_inv n t"
  "page_inv n (fix_page_size v t) \<longleftrightarrow> page_inv n t"
  "page_inv n (set_candidate_labels ls t) \<longleftrightarrow> page_inv n t"
  by (simp_all add: page_inv_def show_cursor_def fix_page_size_def set_candidate_labels_def)

lemma page_size_view [simp]:
  "get_current_page_size n (t\<lparr>m_cursor_visible := v\<rparr>) = get_current_page_size n t"
  "get_current_page_size n (t\<lparr>m_cursor_pos := p\<rparr>) = get_current_page_size n t"
  by (simp_all add: get_current_page_size_def)

text \<open>Paging never touches the storage of a derived class.\<close>

lemma keep_cursor_more [simp]: "LookupTable.more (keep_cursor_in_page n t) = LookupTable.more t"
  by (simp add: keep_cursor_in_page_def)

lemma paging_more [simp]:
  "LookupTable.more (set_candidate_labels ls t) = LookupTable.more t"
  "LookupTable.more (set_page_size n k t) = LookupTable.more t"
  "LookupTable.more (snd (page_up n t)) = LookupTable.more t"
  "LookupTable.more (snd (page_down n t)) = LookupTable.more t"
  "LookupTable.more (show_cursor v t) = LookupTable.more t"
  "LookupTable.more (fix_page_size v t) = LookupTable.more t"
  "LookupTable.more (set_cursor_pos_in_current_page n p t) = LookupTable.more t"
  "LookupTable.more (clear_pages t) = LookupTable.more t"
  by (simp_all add: set_candidate_labels_def set_page_size_def page_up_def page_down_def show_cursor_def
      fix_page_size_def set_cursor_pos_in_current_page_def clear_pages_def Let_def)

lemma cursor_more [simp]:
  "LookupTable.more (snd (cursor_up n t)) = LookupTable.more t"
  "LookupTable.more (snd (cursor_down n t)) = LookupTable.more t"
  by (simp_all add: cursor_up_def cursor_down_def Let_def)

text \<open>Turning pages.\<close>

lemma page_down_inv:
  assumes "page_inv n t"
  shows "page_inv n (snd (page_down n t)) \<and>
    fst (page_down n t) = (m_current_page_start t + m_page_size t < n) \<and>
    (fst (page_down n t) \<longrightarrow>
       m_current_page_start (snd (page_down n t)) = m_current_page_start t + m_page_size t \<and>
       m_page_history (snd (page_down n t)) = m_page_history t @ [m_page_size t] \<and>
       m_page_size (snd (page_down n t)) = m_page_size t)"
proof -
  have s: "0 \<le> sum_list (m_page_history t)" "1 \<le> m_page_size t" "m_page_size t \<le> 16" "n \<le> 2147483631"
    "sum_list (m_page_history t) \<le> n"
    using assms page_inv_start [OF assms] by (auto simp: page_inv_def sum_history_nonneg split: if_splits)
  then have u: "to_uint32 (sum_list (m_page_history t) + m_page_size t) = sum_list (m_page_history t) + m_page_size t"
    by (simp add: to_uint32_def)
  have z: "get_current_page_size n t' = min (m_page_size t) (n - (sum_list (m_page_history t) + m_page_size t))"
    if "m_page_size t' = m_page_size t" "m_current_page_start t' = sum_list (m_page_history t) + m_page_size t"
      "\<not> sum_list (m_page_history t) + m_page_size t \<ge> n" for t' :: "'a LookupTable_scheme"
    using that s by (subst current_page_size) auto
  show ?thesis
    using assms s by (auto simp: page_down_def Let_def u keep_cursor_in_page_def z page_inv_def split: if_splits)
qed

lemma page_up_inv:
  assumes "page_inv n t"
  shows "page_inv n (snd (page_up n t)) \<and> fst (page_up n t) = (0 < m_current_page_start t) \<and>
    (fst (page_up n t) \<longrightarrow>
       m_page_size (snd (page_up n t)) = last (m_page_history t) \<and>
       m_page_history (snd (page_up n t)) = butlast (m_page_history t) \<and>
       m_current_page_start (snd (page_up n t)) + last (m_page_history t) = m_current_page_start t)"
proof (cases "0 < m_current_page_start t")
  case True
  from page_inv_history [OF assms True] obtain h s where h: "m_page_history t = h @ [s]" "1 \<le> s" "s \<le> 16"
    "m_current_page_start t = sum_list h + s" "0 \<le> sum_list h" "list_all (\<lambda>s. 1 \<le> s \<and> s \<le> 16) h"
    by blast
  have n: "m_current_page_start t \<le> n" "n \<le> 2147483631" using assms h
    by (auto simp: page_inv_def split: if_splits)
  have z: "get_current_page_size n t' = s"
    if "m_page_size t' = s" "m_current_page_start t' = sum_list h" for t' :: "'a LookupTable_scheme"
    using that h n by (subst current_page_size) auto
  show ?thesis
    using assms True h n by (auto simp: page_up_def Let_def keep_cursor_in_page_def z page_inv_def split: if_splits)
qed (use assms in \<open>simp add: page_up_def\<close>)

text \<open>The cursor moves by one, whatever pages it crosses.\<close>

lemma cursor_up_inv:
  assumes "page_inv n t"
  shows "page_inv n (snd (cursor_up n t)) \<and> fst (cursor_up n t) = (0 < m_cursor_pos t) \<and>
    m_cursor_pos (snd (cursor_up n t)) = (if 0 < m_cursor_pos t then m_cursor_pos t - 1 else m_cursor_pos t)"
proof (cases "0 < m_cursor_pos t \<and> m_cursor_pos t \<le> m_current_page_start t")
  case True
  let ?t1 = "t\<lparr>m_cursor_visible := True, m_cursor_pos := m_cursor_pos t - 1\<rparr>"
  have c: "m_cursor_pos t = m_current_page_start t" using True assms by (simp add: page_inv_def)
  with True have "0 < m_current_page_start t" by simp
  from page_inv_history [OF assms this] obtain h s where h: "m_page_history t = h @ [s]" "1 \<le> s" "s \<le> 16"
    "m_current_page_start t = sum_list h + s" "0 \<le> sum_list h" "list_all (\<lambda>s. 1 \<le> s \<and> s \<le> 16) h"
    by blast
  have n: "m_current_page_start t < n" "n \<le> 2147483631" using assms h c
    by (auto simp: page_inv_def split: if_splits)
  have z: "get_current_page_size n t' = s"
    if "m_page_size t' = s" "m_current_page_start t' = sum_list h" for t' :: "'a LookupTable_scheme"
    using that h n by (subst current_page_size) auto
  show ?thesis
    using assms True h n c
    by (auto simp: cursor_up_def page_up_def Let_def keep_cursor_in_page_def z page_inv_def split: if_splits)
next
  case False
  with assms page_inv_start [OF assms] show ?thesis
    by (auto simp: cursor_up_def page_inv_def Let_def split: if_splits)
qed

lemma cursor_down_inv:
  assumes "page_inv n t"
  shows "page_inv n (snd (cursor_down n t)) \<and> fst (cursor_down n t) = (m_cursor_pos t + 1 < n) \<and>
    m_cursor_pos (snd (cursor_down n t)) = (if m_cursor_pos t + 1 < n then m_cursor_pos t + 1 else m_cursor_pos t)"
proof -
  have s: "0 \<le> sum_list (m_page_history t)" "1 \<le> m_page_size t" "m_page_size t \<le> 16" "n \<le> 2147483631"
    "sum_list (m_page_history t) \<le> n" "0 \<le> m_cursor_pos t" "m_cursor_pos t \<le> n"
    using assms page_inv_start [OF assms] by (auto simp: page_inv_def dest: sum_history_nonneg split: if_splits)
  then have u: "to_uint32 (m_cursor_pos t + 1) = m_cursor_pos t + 1"
    "to_uint32 (sum_list (m_page_history t) + m_page_size t) = sum_list (m_page_history t) + m_page_size t"
    by (simp_all add: to_uint32_def)
  have z: "get_current_page_size n t' = min (m_page_size t) (n - sum_list (m_page_history t))"
    if "m_page_size t' = m_page_size t" "m_current_page_start t' = sum_list (m_page_history t)"
    for t' :: "'a LookupTable_scheme"
    using that s by (subst current_page_size) auto
  have z': "get_current_page_size n t' = min (m_page_size t) (n - (sum_list (m_page_history t) + m_page_size t))"
    if "m_page_size t' = m_page_size t" "m_current_page_start t' = sum_list (m_page_history t) + m_page_size t"
      "\<not> sum_list (m_page_history t) + m_page_size t \<ge> n" for t' :: "'a LookupTable_scheme"
    using that s by (subst current_page_size) auto
  show ?thesis
    using assms s by (auto simp: cursor_down_def page_down_def Let_def u keep_cursor_in_page_def z z' page_inv_def
      split: if_splits)
qed

lemma set_page_size_inv: "page_inv n t \<Longrightarrow> page_inv n (set_page_size n k t)"
proof (cases "0 < k \<and> k \<le> 16")
  case True
  assume p: "page_inv n t"
  have "get_current_page_size n t' = min k (n - m_current_page_start t)"
    if "m_page_size t' = k" "m_current_page_start t' = m_current_page_start t" for t' :: "'a LookupTable_scheme"
    using that p True page_inv_start [OF p]
    by (subst current_page_size) (auto simp: page_inv_def split: if_splits)
  with p True page_inv_start [OF p] show ?thesis
    by (auto simp: set_page_size_def SCIM_LOOKUP_TABLE_MAX_PAGESIZE_def Let_def page_inv_def split: if_splits)
qed (auto simp: set_page_size_def SCIM_LOOKUP_TABLE_MAX_PAGESIZE_def)

lemma set_cursor_pos_in_current_page_inv:
  "page_inv n t \<Longrightarrow> page_inv n (set_cursor_pos_in_current_page n pos t)"
  by (auto simp: set_cursor_pos_in_current_page_def page_inv_page_size) (auto simp: page_inv_def split: if_splits)

lemma cursor_up_to_reaches:
  "page_inv n t \<Longrightarrow> 0 \<le> pos \<Longrightarrow> pos \<le> m_cursor_pos t \<Longrightarrow>
   \<exists>t'. cursor_up_to n pos t = Some t' \<and> page_inv n t' \<and> m_cursor_pos t' = pos \<and>
     LookupTable.more t' = LookupTable.more t"
proof (induction "nat (m_cursor_pos t - pos)" arbitrary: t)
  case 0
  then show ?case by (subst cursor_up_to.simps) auto
next
  case (Suc k)
  then have "pos < m_cursor_pos t" by auto
  moreover have "k = nat (m_cursor_pos (snd (cursor_up n t)) - pos)"
    using Suc.hyps(2) Suc.prems cursor_up_inv [OF Suc.prems(1)] calculation by auto
  ultimately show ?case
    using Suc.hyps(1) [of "snd (cursor_up n t)"] Suc.prems cursor_up_inv [OF Suc.prems(1)]
    by (subst cursor_up_to.simps) auto
qed

lemma cursor_down_to_reaches:
  "page_inv n t \<Longrightarrow> pos < n \<Longrightarrow> m_cursor_pos t \<le> pos \<Longrightarrow>
   \<exists>t'. cursor_down_to n pos t = Some t' \<and> page_inv n t' \<and> m_cursor_pos t' = pos \<and>
     LookupTable.more t' = LookupTable.more t"
proof (induction "nat (pos - m_cursor_pos t)" arbitrary: t)
  case 0
  then show ?case by (subst cursor_down_to.simps) auto
next
  case (Suc k)
  then have "pos > m_cursor_pos t" by auto
  moreover have "k = nat (pos - m_cursor_pos (snd (cursor_down n t)))"
    using Suc.hyps(2) Suc.prems cursor_down_inv [OF Suc.prems(1)] calculation by auto
  ultimately show ?case
    using Suc.hyps(1) [of "snd (cursor_down n t)"] Suc.prems cursor_down_inv [OF Suc.prems(1)]
    by (subst cursor_down_to.simps) auto
qed

lemma set_cursor_pos_reaches:
  assumes "page_inv n t" "- 2147483648 \<le> pos" "pos < 2147483648"
  shows "\<exists>t'. set_cursor_pos n pos t = Some t' \<and> page_inv n t' \<and>
    m_cursor_pos t' = (if 0 \<le> pos \<and> pos < n then pos else m_cursor_pos t) \<and>
    LookupTable.more t' = LookupTable.more t"
proof (cases "0 \<le> pos \<and> pos < n")
  case False
  with assms show ?thesis by (auto simp: set_cursor_pos_def to_uint32_def)
next
  case True
  let ?t1 = "t\<lparr>m_cursor_visible := True\<rparr>"
  have u: "to_uint32 pos = pos" using True assms by (simp add: to_uint32_def)
  have i: "page_inv n ?t1" using assms by simp
  consider "pos \<ge> m_current_page_start t" "pos < m_current_page_start t + get_current_page_size n t"
    | "\<not> (pos \<ge> m_current_page_start t \<and> pos < m_current_page_start t + get_current_page_size n t)" "pos < m_cursor_pos t"
    | "\<not> (pos \<ge> m_current_page_start t \<and> pos < m_current_page_start t + get_current_page_size n t)" "pos > m_cursor_pos t"
    | "\<not> (pos \<ge> m_current_page_start t \<and> pos < m_current_page_start t + get_current_page_size n t)" "pos = m_cursor_pos t"
    by linarith
  then show ?thesis
  proof cases
    case 1
    then have "page_inv n (?t1\<lparr>m_cursor_pos := pos\<rparr>)"
      using assms True by (simp add: page_inv_page_size) (auto simp: page_inv_def split: if_splits)
    with 1 True u show ?thesis by (simp add: set_cursor_pos_def Let_def)
  next
    case 2
    with True u cursor_up_to_reaches [OF i, of pos] show ?thesis by (auto simp: set_cursor_pos_def Let_def)
  next
    case 3
    with True u cursor_down_to_reaches [OF i, of pos] show ?thesis by (auto simp: set_cursor_pos_def Let_def)
  next
    case 4
    with True u i show ?thesis by (auto simp: set_cursor_pos_def Let_def)
  qed
qed

lemma clear_pages_inv: "page_inv n t \<Longrightarrow> page_inv m (clear_pages t) \<longleftrightarrow> 0 \<le> m \<and> m \<le> 2147483631"
  by (auto simp: clear_pages_def page_inv_def)

section \<open>Storage\<close>

text \<open>
  The contract of a store of entries: \<open>holds es t\<close> says that \<open>t\<close> represents the list \<open>es\<close>; adding
  appends, reading an index gives the entry, and what fits still fits without its last entries.
\<close>

locale entry_store =
  fixes holds :: "'e list \<Rightarrow> 't \<Rightarrow> bool" and add :: "'e \<Rightarrow> 't \<Rightarrow> 't" and get :: "int \<Rightarrow> 't \<Rightarrow> 'e run"
    and fits :: "'e list \<Rightarrow> bool"
  assumes holds_add: "holds es t \<Longrightarrow> fits (es @ [e]) \<Longrightarrow> holds (es @ [e]) (add e t)"
    and get_held: "holds es t \<Longrightarrow> i < length es \<Longrightarrow> get (int i) t = Done (es ! i)"
    and fits_prefix: "fits (es @ es') \<Longrightarrow> fits es"
begin

lemma holds_fold: "holds es t \<Longrightarrow> fits (es @ es') \<Longrightarrow> holds (es @ es') (fold add es' t)"
proof (induction es' arbitrary: es t)
  case (Cons e es')
  then have "fits ((es @ [e]) @ es')" by simp
  from Cons.IH [OF holds_add [OF Cons.prems(1) fits_prefix [OF this]] this] show ?case by simp
qed simp

lemma get_fold:
  "holds es t \<Longrightarrow> fits (es @ es') \<Longrightarrow> i < length es' \<Longrightarrow>
   get (int (length es + i)) (fold add es' t) = Done (es' ! i)"
  using get_held [OF holds_fold, of es t es' "length es + i"] by simp

lemma held_unique: "holds es t \<Longrightarrow> holds es' t \<Longrightarrow> length es = length es' \<Longrightarrow> es = es'"
  by (rule nth_equalityI) (auto, metis get_held run.inject)

end

text \<open>The entries of a \<^verbatim>\<open>CommonLookupTable\<close>: a candidate and its attributes. The vectors of places are
  the running sums of the lengths.\<close>

type_synonym entry = "WideString \<times> Attribute list"

fun places :: "nat \<Rightarrow> 'b list list \<Rightarrow> 32 word list" where
  "places k [] = []"
| "places k (xs # xss) = of_nat k # places (k + length xs) xss"

definition fits :: "entry list \<Rightarrow> bool" where
  "fits es \<longleftrightarrow> list_all (\<lambda>e. fst e \<noteq> []) es \<and> length (concat (map fst es)) \<le> 2147483631 \<and>
     length (concat (map snd es)) < 4294967296"

definition stores :: "entry list \<Rightarrow> CommonLookupTable \<Rightarrow> bool" where
  "stores es t \<longleftrightarrow> fits es \<and>
     m_buffer t = concat (map fst es) \<and> m_index t = places 0 (map fst es) \<and>
     m_attributes t = concat (map snd es) \<and> m_attrs_index t = places 0 (map snd es)"

lemma stores_cong: "LookupTable.more t = LookupTable.more u \<Longrightarrow> stores es t \<longleftrightarrow> stores es u"
  by (cases t; cases u) (simp add: stores_def)

lemma length_places [simp]: "length (places k xss) = length xss"
  by (induction xss arbitrary: k) auto

lemma places_append: "places k (xss @ [xs]) = places k xss @ [of_nat (k + length (concat xss))]"
  by (induction xss arbitrary: k) (auto simp: add.assoc)

lemma places_nth:
  "i < length xss \<Longrightarrow> k + length (concat xss) < 4294967296 \<Longrightarrow>
   unat (places k xss ! i) = k + length (concat (take i xss))"
proof (induction xss arbitrary: k i)
  case (Cons xs xss)
  show ?case
  proof (cases i)
    case 0
    with Cons.prems show ?thesis by (simp add: unat_of_nat take_bit_nat_eq_self)
  next
    case (Suc j)
    with Cons.prems Cons.IH [of j "k + length xs"] show ?thesis by simp
  qed
qed simp

lemma slice_concat:
  "i < length xss \<Longrightarrow>
   take (length (xss ! i)) (drop (length (concat (take i xss))) (concat xss)) = xss ! i"
proof (induction xss arbitrary: i)
  case (Cons xs xss)
  then show ?case by (cases i) auto
qed simp

lemma concat_take_le: "length (concat (take i xss)) \<le> length (concat xss)"
  by (metis append_take_drop_id concat_append length_append le_add1)

lemma concat_take_Suc: "i < length xss \<Longrightarrow>
   length (concat (take (Suc i) xss)) = length (concat (take i xss)) + length (xss ! i)"
  by (simp add: take_Suc_conv_app_nth)

lemma fits_count: "fits es \<Longrightarrow> length es \<le> length (concat (map fst es))"
  unfolding fits_def
proof (elim conjE, thin_tac "_ \<le> (_ :: nat)", thin_tac "_ < (_ :: nat)", induction es)
  case (Cons e es)
  then show ?case by (cases "fst e") auto
qed simp

lemma fits_bound: "fits es \<Longrightarrow> length es \<le> 2147483631"
  using fits_count [of es] by (simp add: fits_def)

lemma stores_count: "stores es t \<Longrightarrow> number_of_candidates t = int (length es)"
  using fits_bound [of es] by (simp add: stores_def number_of_candidates_def to_uint32_def)

text \<open>Reading both vectors is one slice.\<close>

lemma read_slice:
  assumes "i < length xss" "length xss \<le> 2147483631" "length (concat xss) < 4294967296"
  shows "vector_at (places 0 xss) (int i) = Done (places 0 xss ! i)"
    "(if to_uint32 (int i) < to_uint32 (int (length xss) - 1)
      then run_bind (vector_at (places 0 xss) (int i + 1)) (\<lambda>i. Done (unat i))
      else Done (length (concat xss))) = Done (unat (places 0 xss ! i) + length (xss ! i))"
    "iterator_range (concat xss) (unat (places 0 xss ! i)) (unat (places 0 xss ! i) + length (xss ! i)) = Done (xss ! i)"
proof -
  have p: "unat (places 0 xss ! j) = length (concat (take j xss))" if "j < length xss" for j
    using places_nth [OF that, of 0] assms(3) by simp
  have l: "length (concat (take i xss)) + length (xss ! i) \<le> length (concat xss)"
    using concat_take_Suc [OF assms(1)] concat_take_le [of "Suc i" xss] by simp
  show "vector_at (places 0 xss) (int i) = Done (places 0 xss ! i)"
    using assms by (simp add: vector_at_def)
  show "iterator_range (concat xss) (unat (places 0 xss ! i)) (unat (places 0 xss ! i) + length (xss ! i)) = Done (xss ! i)"
    using l slice_concat [OF assms(1)] by (simp add: p assms(1) iterator_range_def)
  have u: "to_uint32 (int i) = int i" "to_uint32 (int (length xss) - 1) = int (length xss) - 1"
    using assms by (auto simp: to_uint32_def intro!: mod_pos_pos_trivial)
  show "(if to_uint32 (int i) < to_uint32 (int (length xss) - 1)
      then run_bind (vector_at (places 0 xss) (int i + 1)) (\<lambda>i. Done (unat i))
      else Done (length (concat xss))) = Done (unat (places 0 xss ! i) + length (xss ! i))"
  proof (cases "Suc i < length xss")
    case True
    moreover have "vector_at (places 0 xss) (int i + 1) = Done (places 0 xss ! Suc i)"
      using True by (simp add: vector_at_def nat_add_distrib)
    ultimately show ?thesis
      using u p [OF True] p [OF assms(1)] concat_take_Suc [OF assms(1)] by simp
  next
    case False
    then have "Suc i = length xss" using assms by simp
    then have "length (concat xss) = length (concat (take i xss)) + length (xss ! i)"
      using concat_take_Suc [OF assms(1)] by simp
    with False u p [OF assms(1)] show ?thesis by simp
  qed
qed

lemma get_candidate_stores:
  assumes "stores es t" "i < length es"
  shows "get_candidate (int i) t = Done (fst (es ! i))"
proof -
  have f: "i < length (map fst es)" "length (map fst es) \<le> 2147483631" "length (concat (map fst es)) < 4294967296"
    using assms fits_bound [of es] by (auto simp: stores_def fits_def)
  have t: "m_buffer t = concat (map fst es)" "m_index t = places 0 (map fst es)"
    "number_of_candidates t = int (length (map fst es))"
    using assms(1) stores_count [OF assms(1)] by (simp_all add: stores_def)
  have "\<not> (int i < 0 \<or> to_uint32 (int i) \<ge> int (length (map fst es)))"
    using f by (simp add: to_uint32_def)
  then show ?thesis
    unfolding get_candidate_def t by (simp only: if_False read_slice [OF f] run_bind.simps) (simp add: assms(2))
qed

lemma get_attributes_stores:
  assumes "stores es t" "i < length es"
  shows "get_attributes (int i) t = Done (snd (es ! i))"
proof -
  have f: "i < length (map snd es)" "length (map snd es) \<le> 2147483631" "length (concat (map snd es)) < 4294967296"
    using assms fits_bound [of es] by (auto simp: stores_def fits_def)
  have t: "m_attributes t = concat (map snd es)" "m_attrs_index t = places 0 (map snd es)"
    "number_of_candidates t = int (length (map snd es))"
    using assms(1) stores_count [OF assms(1)] by (simp_all add: stores_def)
  have "\<not> (int i < 0 \<or> to_uint32 (int i) \<ge> int (length (map snd es)))"
    using f by (simp add: to_uint32_def)
  then show ?thesis
    unfolding get_attributes_def t
    by (simp only: if_False read_slice [OF f] run_bind.simps) (simp add: assms(2))
qed

text \<open>The operations as the store sees them.\<close>

definition add_entry :: "entry \<Rightarrow> CommonLookupTable \<Rightarrow> CommonLookupTable" where
  "add_entry e t = snd (append_candidate (fst e) (snd e) t)"

definition get_entry :: "int \<Rightarrow> CommonLookupTable \<Rightarrow> entry run" where
  "get_entry i t = run_bind (get_candidate i t) (\<lambda>c. run_bind (get_attributes i t) (\<lambda>a. Done (c, a)))"

lemma fits_append: "fits (es @ es') \<Longrightarrow> fits es"
  by (simp add: fits_def)

interpretation common: entry_store stores add_entry get_entry fits
proof
  show "stores (es @ [e]) (add_entry e t)" if "stores es t" "fits (es @ [e])" for es t e
    using that by (simp add: stores_def add_entry_def append_candidate_def places_append Let_def fits_def)
  show "get_entry (int i) t = Done (es ! i)" if "stores es t" "i < length es" for es t i
    using get_candidate_stores [OF that] get_attributes_stores [OF that] by (simp add: get_entry_def)
  show "fits (es @ es') \<Longrightarrow> fits es" for es es' by (rule fits_append)
qed

lemma append_candidate_char_eq:
  "c \<noteq> 0 \<Longrightarrow> append_candidate_char c as t = append_candidate [c] as t"
  by (simp add: append_candidate_char_def append_candidate_def Let_def)

section \<open>The states of a table\<close>

text \<open>\<open>table_state es t\<close>: \<open>t\<close> is a table some sequence of operations leads to, and \<open>es\<close> is the list of
  the entries appended to it since it was made or cleared.\<close>

inductive table_state :: "entry list \<Rightarrow> CommonLookupTable \<Rightarrow> bool" where
  made: "table_state [] (new_CommonLookupTable k ls)"
| append: "table_state es t \<Longrightarrow> fits (es @ [(c, as)]) \<Longrightarrow>
    table_state (es @ [(c, as)]) (snd (append_candidate c as t))"
| append_char: "table_state es t \<Longrightarrow> c \<noteq> 0 \<Longrightarrow> fits (es @ [([c], as)]) \<Longrightarrow>
    table_state (es @ [([c], as)]) (snd (append_candidate_char c as t))"
| append_empty: "table_state es t \<Longrightarrow> table_state es (snd (append_candidate [] as t))"
| append_null: "table_state es t \<Longrightarrow> table_state es (snd (append_candidate_char 0 as t))"
| cleared: "table_state es t \<Longrightarrow> table_state [] (clear_table t)"
| new_labels: "table_state es t \<Longrightarrow> table_state es (set_candidate_labels ls t)"
| page_size: "table_state es t \<Longrightarrow> table_state es (set_page_size (number_of_candidates t) k t)"
| page_up: "table_state es t \<Longrightarrow> table_state es (snd (page_up (number_of_candidates t) t))"
| page_down: "table_state es t \<Longrightarrow> table_state es (snd (page_down (number_of_candidates t) t))"
| cursor_up: "table_state es t \<Longrightarrow> table_state es (snd (cursor_up (number_of_candidates t) t))"
| cursor_down: "table_state es t \<Longrightarrow> table_state es (snd (cursor_down (number_of_candidates t) t))"
| cursor: "table_state es t \<Longrightarrow> - 2147483648 \<le> p \<Longrightarrow> p < 2147483648 \<Longrightarrow>
    set_cursor_pos (number_of_candidates t) p t = Some t' \<Longrightarrow> table_state es t'"
| cursor_in_page: "table_state es t \<Longrightarrow>
    table_state es (set_cursor_pos_in_current_page (number_of_candidates t) p t)"
| cursor_shown: "table_state es t \<Longrightarrow> table_state es (show_cursor v t)"
| fix_size: "table_state es t \<Longrightarrow> table_state es (fix_page_size v t)"

definition table_inv :: "entry list \<Rightarrow> CommonLookupTable \<Rightarrow> bool" where
  "table_inv es t \<longleftrightarrow> stores es t \<and> page_inv (int (length es)) t"

lemma table_inv_count: "table_inv es t \<Longrightarrow> number_of_candidates t = int (length es)"
  by (simp add: table_inv_def stores_count)

lemma table_inv_page:
  "table_inv es t \<Longrightarrow> LookupTable.more t' = LookupTable.more t \<Longrightarrow> page_inv (int (length es)) t' \<Longrightarrow>
   table_inv es t'"
  using stores_cong [of t' t] by (simp add: table_inv_def)

lemma new_table_inv: "table_inv [] (new_CommonLookupTable k ls)"
  by (auto simp: table_inv_def stores_def fits_def page_inv_def new_CommonLookupTable_def
      set_candidate_labels_def SCIM_LOOKUP_TABLE_MAX_PAGESIZE_def)

lemma append_page_inv:
  assumes "page_inv n t" "n \<le> m" "m \<le> 2147483631"
  shows "page_inv m (snd (append_candidate c as t))"
proof -
  have "page_inv m t" using page_inv_more_candidates [OF assms] .
  then show ?thesis by (auto simp: append_candidate_def Let_def page_inv_def)
qed

lemma append_table_inv:
  assumes "table_inv es t" "fits (es @ [(c, as)])"
  shows "table_inv (es @ [(c, as)]) (snd (append_candidate c as t))"
proof -
  have "stores (es @ [(c, as)]) (snd (append_candidate c as t))"
    using common.holds_add [of es t "(c, as)"] assms by (simp add: table_inv_def add_entry_def)
  with assms append_page_inv [of "int (length es)" t "int (length (es @ [(c, as)]))" c as]
    fits_bound [OF assms(2)]
  show ?thesis by (simp add: table_inv_def)
qed

lemma clear_table_inv: "table_inv es t \<Longrightarrow> table_inv [] (clear_table t)"
  using clear_pages_inv [of "int (length es)" t 0]
  by (auto simp: table_inv_def clear_table_def stores_def fits_def page_inv_def clear_pages_def)

lemma table_state_inv: "table_state es t \<Longrightarrow> table_inv es t"
proof (induction rule: table_state.induct)
  case (append_char es t c as)
  then show ?case using append_table_inv [of es t "[c]" as] by (simp add: append_candidate_char_eq)
next
  case (append_empty es t as)
  then show ?case by (simp add: append_candidate_def)
next
  case (append_null es t as)
  then show ?case by (simp add: append_candidate_char_def)
next
  case (cursor es t p t')
  then have "page_inv (int (length es)) t" by (simp add: table_inv_def)
  from set_cursor_pos_reaches [OF this cursor.hyps(2,3)] cursor show ?case
    by (auto simp: table_inv_count intro: table_inv_page)
next
  case (page_size es t k)
  then show ?case
    by (intro table_inv_page [OF page_size.IH]) (simp_all add: table_inv_count set_page_size_inv table_inv_def)
next
  case (page_up es t)
  then show ?case
    by (intro table_inv_page [OF page_up.IH]) (simp_all add: table_inv_count page_up_inv table_inv_def)
next
  case (page_down es t)
  then show ?case
    by (intro table_inv_page [OF page_down.IH]) (simp_all add: table_inv_count page_down_inv table_inv_def)
next
  case (cursor_up es t)
  then show ?case
    by (intro table_inv_page [OF cursor_up.IH]) (simp_all add: table_inv_count cursor_up_inv table_inv_def)
next
  case (cursor_down es t)
  then show ?case
    by (intro table_inv_page [OF cursor_down.IH]) (simp_all add: table_inv_count cursor_down_inv table_inv_def)
next
  case (cursor_in_page es t p)
  then show ?case
    by (intro table_inv_page [OF cursor_in_page.IH])
      (simp_all add: table_inv_count set_cursor_pos_in_current_page_inv table_inv_def)
next
  case (new_labels es t ls)
  then show ?case by (intro table_inv_page [OF new_labels.IH]) (simp_all add: table_inv_def)
next
  case (cursor_shown es t v)
  then show ?case by (intro table_inv_page [OF cursor_shown.IH]) (simp_all add: table_inv_def)
next
  case (fix_size es t v)
  then show ?case by (intro table_inv_page [OF fix_size.IH]) (simp_all add: table_inv_def)
qed (simp_all add: new_table_inv append_table_inv clear_table_inv)

text \<open>The states are a store of entries too.\<close>

interpretation states: entry_store table_state add_entry get_entry fits
proof
  show "table_state (es @ [e]) (add_entry e t)" if "table_state es t" "fits (es @ [e])" for es t e
    using that table_state.append [of es t "fst e" "snd e"] by (simp add: add_entry_def)
  show "get_entry (int i) t = Done (es ! i)" if "table_state es t" "i < length es" for es t i
    using common.get_held [OF _ that(2)] table_state_inv [OF that(1)] by (simp add: table_inv_def)
  show "fits (es @ es') \<Longrightarrow> fits es" for es es' by (rule fits_append)
qed

section \<open>Properties\<close>

text \<open>C12: Whatever operations have been called on a lookup table, in whatever order, it represents
  the list of the entries appended to it since it was made or cleared: the number of candidates is
  the length of that list, and every index gives the candidate and the attributes appended at that
  place, although both are slices of two vectors shared by all of them.\<close>

theorem lookup_table_represents:
  assumes "table_state es t"
  shows "number_of_candidates t = int (length es) \<and>
    (\<forall>i < length es. get_candidate (int i) t = Done (fst (es ! i)) \<and>
       get_attributes (int i) t = Done (snd (es ! i)))"
  using table_state_inv [OF assms]
  by (simp add: table_inv_def stores_count get_candidate_stores get_attributes_stores)

text \<open>C14: In every state that the operations of a lookup table lead to, the page starts where the
  pages turned before it end, the cursor is inside the current page, which is inside the table, and
  every position of the current page shows the candidate at that place of the table.\<close>

theorem cursor_in_current_page:
  assumes "table_state es t" "es \<noteq> []"
  shows "m_current_page_start t = sum_list (m_page_history t) \<and> 0 \<le> m_current_page_start t \<and>
    0 \<le> get_cursor_pos_in_current_page t \<and>
    get_cursor_pos_in_current_page t < get_current_page_size (number_of_candidates t) t \<and>
    m_current_page_start t + get_current_page_size (number_of_candidates t) t \<le> int (length es) \<and>
    (\<forall>k. 0 \<le> k \<and> k < get_current_page_size (number_of_candidates t) t \<longrightarrow>
       get_candidate_in_current_page k t = Done (fst (es ! nat (m_current_page_start t + k))))"
proof -
  note inv = table_state_inv [OF assms(1)]
  then have p: "page_inv (int (length es)) t" and s: "stores es t" by (simp_all add: table_inv_def)
  note z = page_inv_page_size [OF p] and start = page_inv_start [OF p]
  have le: "m_current_page_start t + get_current_page_size (int (length es)) t \<le> int (length es)"
    using z by simp
  have "get_candidate_in_current_page k t = Done (fst (es ! nat (m_current_page_start t + k)))"
    if "0 \<le> k" "k < get_current_page_size (int (length es)) t" for k
  proof -
    have "nat (m_current_page_start t + k) < length es" using that le start by linarith
    from get_candidate_stores [OF s this] that start show ?thesis
      by (simp add: get_candidate_in_current_page_def table_inv_count [OF inv] add.commute)
  qed
  with p z start le assms(2) show ?thesis
    by (simp add: table_inv_count [OF inv] get_cursor_pos_in_current_page_def) (simp add: page_inv_def)
qed

text \<open>Setting the cursor position returns, although it may turn any number of pages of different
  sizes: afterwards the cursor is where it was asked to be if that is a place of the table, and is
  otherwise where it was, and the candidates are the same.\<close>

theorem set_cursor_pos_correct:
  assumes "table_state es t" "- 2147483648 \<le> pos" "pos < 2147483648"
  shows "\<exists>t'. set_cursor_pos (number_of_candidates t) pos t = Some t' \<and> table_state es t' \<and>
    m_cursor_pos t' = (if 0 \<le> pos \<and> pos < int (length es) then pos else m_cursor_pos t)"
proof -
  note inv = table_state_inv [OF assms(1)]
  then have "page_inv (number_of_candidates t) t" by (simp add: table_inv_count) (simp add: table_inv_def)
  from set_cursor_pos_reaches [OF this assms(2,3)] obtain t' where
    t': "set_cursor_pos (number_of_candidates t) pos t = Some t'"
      "m_cursor_pos t' = (if 0 \<le> pos \<and> pos < number_of_candidates t then pos else m_cursor_pos t)"
    by blast
  from table_state.cursor [OF assms t'(1)] t' show ?thesis by (simp add: table_inv_count [OF inv])
qed

text \<open>Turning a page down and up again shows the page that was shown before, with its size, even
  when pages differ in size; moving the cursor down and up again puts it where it was, across the
  boundary of two pages too.\<close>

theorem page_turns_back:
  assumes "table_state es t"
  shows "let n = number_of_candidates t; d = page_down n t; u = page_up n (snd d);
             cd = cursor_down n t; cu = cursor_up n (snd cd) in
    fst d = (m_current_page_start t + m_page_size t < int (length es)) \<and>
    (fst d \<longrightarrow> fst u \<and> m_current_page_start (snd u) = m_current_page_start t \<and>
       m_page_size (snd u) = m_page_size t \<and> m_page_history (snd u) = m_page_history t) \<and>
    fst cd = (m_cursor_pos t + 1 < int (length es)) \<and>
    (fst cd \<longrightarrow> fst cu \<and> m_cursor_pos (snd cu) = m_cursor_pos t)"
proof -
  let ?n = "int (length es)"
  note inv = table_state_inv [OF assms]
  then have p: "page_inv ?n t" by (simp add: table_inv_def)
  note d = page_down_inv [OF p] and cd = cursor_down_inv [OF p]
  note u = page_up_inv [of ?n "snd (page_down ?n t)"] and cu = cursor_up_inv [of ?n "snd (cursor_down ?n t)"]
  have "0 \<le> m_cursor_pos t" using p page_inv_start [OF p] by (simp add: page_inv_def)
  moreover have "0 < m_current_page_start t + m_page_size t"
    using p page_inv_start [OF p] by (simp add: page_inv_def)
  ultimately show ?thesis
    using d u cd cu by (auto simp: Let_def table_inv_count [OF inv])
qed

text \<open>A table of three candidates with pages of two, first with the cursor on the first candidate,
  then on the last.\<close>

definition demo_entries :: "entry list" where
  "demo_entries = [([0x4E2D], []), ([0x6587, 0x5B57], [\<lparr>m_start = 0, m_length = 1, m_type = 1, m_value = 2\<rparr>]),
     ([0x56FD], [])]"

definition demo_filled :: CommonLookupTable where
  "demo_filled = fold add_entry demo_entries (labelled_CommonLookupTable 2)"

definition demo_table :: CommonLookupTable where
  "demo_table = snd (cursor_down 3 (snd (cursor_down 3 demo_filled)))"

lemma demo_table_count:
  "number_of_candidates demo_filled = 3" "number_of_candidates (snd (cursor_down 3 demo_filled)) = 3"
  by code_simp+

lemma demo_filled_state: "table_state demo_entries demo_filled"
  using states.holds_fold [of "[]" "labelled_CommonLookupTable 2" demo_entries] table_state.made
  by (simp add: demo_filled_def labelled_CommonLookupTable_def) (simp add: demo_entries_def fits_def)

lemma demo_table_state: "table_state demo_entries demo_table"
  using table_state.cursor_down [OF table_state.cursor_down [OF demo_filled_state]]
  by (simp add: demo_table_def demo_table_count)

lemma lookup_table_represents_witness:
  "number_of_candidates demo_table = 3 \<and> get_candidate 1 demo_table = Done [0x6587, 0x5B57]"
proof -
  have "1 < length demo_entries" "fst (demo_entries ! 1) = [0x6587, 0x5B57]" "length demo_entries = 3"
    by (simp_all add: demo_entries_def)
  with lookup_table_represents [OF demo_table_state] show ?thesis by fastforce
qed

lemma cursor_in_current_page_witness:
  "m_current_page_start demo_table = 2 \<and> get_candidate_in_current_page 0 demo_table = Done [0x56FD]"
proof -
  have s: "m_current_page_start demo_table = 2" "get_current_page_size (number_of_candidates demo_table) demo_table = 1"
    by code_simp+
  with cursor_in_current_page [OF demo_table_state] show ?thesis by (simp add: demo_entries_def)
qed

end
