(* ===== verification/Core_Put.thy ===== *)
theory Core_Put
  imports Core_Holder Core_Lookup_Table
begin

text \<open>
  Putting data into a transaction: the functions \<^verbatim>\<open>put_command\<close> and \<^verbatim>\<open>put_data\<close> of
  \<^verbatim>\<open>src/scim_transaction.cpp\<close>, and the classes \<^verbatim>\<open>KeyEvent\<close> (its data) and \<^verbatim>\<open>Property\<close>. Each item is a
  byte for its type followed by its contents. For each function a lemma says that it stays inside the
  buffer and appends exactly the encoding of its argument (\<open>writes\<close>).
\<close>

section \<open>Data\<close>

record KeyEvent =
  key_code :: "32 word"
  key_mask :: "16 word"
  key_layout :: "16 word"

record Property =
  m_key :: bytes
  m_label :: bytes
  m_icon :: bytes
  m_tip :: bytes
  m_state :: "16 word"

definition SCIM_PROPERTY_ACTIVE :: "16 word" where
  "SCIM_PROPERTY_ACTIVE = 0x01"

definition SCIM_PROPERTY_VISIBLE :: "16 word" where
  "SCIM_PROPERTY_VISIBLE = 0x02"

definition empty_property :: Property where
  "empty_property = \<lparr>m_key = [], m_label = [], m_icon = [], m_tip = [], m_state = 0\<rparr>"

definition new_property :: "bytes \<Rightarrow> bytes \<Rightarrow> bytes \<Rightarrow> bytes \<Rightarrow> Property" where
  "new_property key label icon tip =
     \<lparr>m_key = key, m_label = label, m_icon = icon, m_tip = tip,
      m_state = SCIM_PROPERTY_VISIBLE OR SCIM_PROPERTY_ACTIVE\<rparr>"

definition property_visible :: "Property \<Rightarrow> bool" where
  "property_visible p \<longleftrightarrow> m_state p AND SCIM_PROPERTY_VISIBLE \<noteq> 0"

definition property_active :: "Property \<Rightarrow> bool" where
  "property_active p \<longleftrightarrow> m_state p AND SCIM_PROPERTY_ACTIVE \<noteq> 0"

definition set_active :: "bool \<Rightarrow> Property \<Rightarrow> Property" where
  "set_active active p =
     (if active then p\<lparr>m_state := m_state p OR SCIM_PROPERTY_ACTIVE\<rparr>
      else p\<lparr>m_state := m_state p AND NOT SCIM_PROPERTY_ACTIVE\<rparr>)"

definition show_property :: "bool \<Rightarrow> Property \<Rightarrow> Property" where
  "show_property visible p =
     (if visible then p\<lparr>m_state := m_state p OR SCIM_PROPERTY_VISIBLE\<rparr>
      else p\<lparr>m_state := m_state p AND NOT SCIM_PROPERTY_VISIBLE\<rparr>)"

text \<open>The codes of \<^verbatim>\<open>TransactionDataType\<close>.\<close>

definition SCIM_TRANS_DATA_UNKNOWN :: "8 word" where "SCIM_TRANS_DATA_UNKNOWN = 0"
definition SCIM_TRANS_DATA_COMMAND :: "8 word" where "SCIM_TRANS_DATA_COMMAND = 1"
definition SCIM_TRANS_DATA_RAW :: "8 word" where "SCIM_TRANS_DATA_RAW = 2"
definition SCIM_TRANS_DATA_UINT32 :: "8 word" where "SCIM_TRANS_DATA_UINT32 = 3"
definition SCIM_TRANS_DATA_STRING :: "8 word" where "SCIM_TRANS_DATA_STRING = 4"
definition SCIM_TRANS_DATA_WSTRING :: "8 word" where "SCIM_TRANS_DATA_WSTRING = 5"
definition SCIM_TRANS_DATA_KEYEVENT :: "8 word" where "SCIM_TRANS_DATA_KEYEVENT = 6"
definition SCIM_TRANS_DATA_ATTRIBUTE_LIST :: "8 word" where "SCIM_TRANS_DATA_ATTRIBUTE_LIST = 7"
definition SCIM_TRANS_DATA_LOOKUP_TABLE :: "8 word" where "SCIM_TRANS_DATA_LOOKUP_TABLE = 8"
definition SCIM_TRANS_DATA_PROPERTY :: "8 word" where "SCIM_TRANS_DATA_PROPERTY = 9"
definition SCIM_TRANS_DATA_PROPERTY_LIST :: "8 word" where "SCIM_TRANS_DATA_PROPERTY_LIST = 10"
definition SCIM_TRANS_DATA_VECTOR_UINT32 :: "8 word" where "SCIM_TRANS_DATA_VECTOR_UINT32 = 11"
definition SCIM_TRANS_DATA_VECTOR_STRING :: "8 word" where "SCIM_TRANS_DATA_VECTOR_STRING = 12"
definition SCIM_TRANS_DATA_VECTOR_WSTRING :: "8 word" where "SCIM_TRANS_DATA_VECTOR_WSTRING = 13"
definition SCIM_TRANS_DATA_TRANSACTION :: "8 word" where "SCIM_TRANS_DATA_TRANSACTION = 14"

lemmas data_type_defs = SCIM_TRANS_DATA_UNKNOWN_def SCIM_TRANS_DATA_COMMAND_def SCIM_TRANS_DATA_RAW_def
  SCIM_TRANS_DATA_UINT32_def SCIM_TRANS_DATA_STRING_def SCIM_TRANS_DATA_WSTRING_def
  SCIM_TRANS_DATA_KEYEVENT_def SCIM_TRANS_DATA_ATTRIBUTE_LIST_def SCIM_TRANS_DATA_LOOKUP_TABLE_def
  SCIM_TRANS_DATA_PROPERTY_def SCIM_TRANS_DATA_PROPERTY_LIST_def SCIM_TRANS_DATA_VECTOR_UINT32_def
  SCIM_TRANS_DATA_VECTOR_STRING_def SCIM_TRANS_DATA_VECTOR_WSTRING_def SCIM_TRANS_DATA_TRANSACTION_def

section \<open>Writing\<close>

text \<open>A loop that puts one value after another.\<close>

fun put_each :: "('v \<Rightarrow> TransactionHolder \<Rightarrow> TransactionHolder run) \<Rightarrow> 'v list \<Rightarrow>
    TransactionHolder \<Rightarrow> TransactionHolder run" where
  "put_each put [] h = Done h"
| "put_each put (v # vs) h = run_bind (put v h) (put_each put vs)"

definition put_command :: "int \<Rightarrow> TransactionHolder \<Rightarrow> TransactionHolder run" where
  "put_command type h =
     run_bind (put_bytes [SCIM_TRANS_DATA_COMMAND] (request_buffer_size (1 + 4) h))
       (put_bytes (scim_uint32tobytes (word_of_int type)))"

definition put_uint32 :: "32 word \<Rightarrow> TransactionHolder \<Rightarrow> TransactionHolder run" where
  "put_uint32 val h =
     run_bind (put_bytes [SCIM_TRANS_DATA_UINT32] (request_buffer_size (1 + 4) h))
       (put_bytes (scim_uint32tobytes val))"

definition put_string :: "bytes \<Rightarrow> TransactionHolder \<Rightarrow> TransactionHolder run" where
  "put_string str h =
     run_bind (put_bytes [SCIM_TRANS_DATA_STRING] (request_buffer_size (1 + length str + 4) h)) (\<lambda>h.
     run_bind (put_bytes (scim_uint32tobytes (of_nat (length str))) h) (put_bytes str))"

definition put_wstring :: "bool \<Rightarrow> WideString \<Rightarrow> TransactionHolder \<Rightarrow> TransactionHolder run" where
  "put_wstring sg str h =
     (let mbs = utf8_wcstombs sg str in
      run_bind (put_bytes [SCIM_TRANS_DATA_WSTRING] (request_buffer_size (1 + length mbs + 4) h)) (\<lambda>h.
      run_bind (put_bytes (scim_uint32tobytes (of_nat (length mbs))) h) (put_bytes mbs)))"

definition put_key_event :: "KeyEvent \<Rightarrow> TransactionHolder \<Rightarrow> TransactionHolder run" where
  "put_key_event key h =
     run_bind (put_bytes [SCIM_TRANS_DATA_KEYEVENT] (request_buffer_size (1 + 4 + 2 * 2) h)) (\<lambda>h.
     run_bind (put_bytes (scim_uint32tobytes (key_code key)) h) (\<lambda>h.
     run_bind (put_bytes (scim_uint16tobytes (key_mask key)) h)
       (put_bytes (scim_uint16tobytes (key_layout key)))))"

text \<open>The body of the loop over the attributes.\<close>

definition put_attribute :: "Attribute \<Rightarrow> TransactionHolder \<Rightarrow> TransactionHolder run" where
  "put_attribute a h =
     run_bind (put_bytes [ucast (m_type a)] h) (\<lambda>h.
     run_bind (put_bytes (scim_uint32tobytes (m_value a)) h) (\<lambda>h.
     run_bind (put_bytes (scim_uint32tobytes (m_start a)) h)
       (put_bytes (scim_uint32tobytes (m_length a)))))"

definition put_attribute_list :: "Attribute list \<Rightarrow> TransactionHolder \<Rightarrow> TransactionHolder run" where
  "put_attribute_list attrs h =
     run_bind (put_bytes [SCIM_TRANS_DATA_ATTRIBUTE_LIST]
                (request_buffer_size (length attrs * (4 * 3 + 1) + 4 + 1) h)) (\<lambda>h.
     run_bind (put_bytes (scim_uint32tobytes (of_nat (length attrs))) h)
       (put_each put_attribute attrs))"

definition put_property :: "Property \<Rightarrow> TransactionHolder \<Rightarrow> TransactionHolder run" where
  "put_property p h =
     (let request = length (m_key p) + length (m_label p) + length (m_icon p) + length (m_tip p)
                      + (4 + 1) * 4 + 3 in
      run_bind (put_bytes [SCIM_TRANS_DATA_PROPERTY] (request_buffer_size request h)) (\<lambda>h.
      run_bind (put_string (m_key p) h) (\<lambda>h.
      run_bind (put_string (m_label p) h) (\<lambda>h.
      run_bind (put_string (m_icon p) h) (\<lambda>h.
      run_bind (put_string (m_tip p) h) (\<lambda>h.
      run_bind (put_bytes [of_bool (property_visible p)] h)
        (put_bytes [of_bool (property_active p)])))))))"

text \<open>A vector whose elements are put as items of their own.\<close>

definition put_vector :: "8 word \<Rightarrow> ('v \<Rightarrow> TransactionHolder \<Rightarrow> TransactionHolder run) \<Rightarrow>
    'v list \<Rightarrow> TransactionHolder \<Rightarrow> TransactionHolder run" where
  "put_vector type put vec h =
     run_bind (put_bytes [type] (request_buffer_size (4 + 1) h)) (\<lambda>h.
     run_bind (put_bytes (scim_uint32tobytes (of_nat (length vec))) h) (put_each put vec))"

definition put_property_list :: "Property list \<Rightarrow> TransactionHolder \<Rightarrow> TransactionHolder run" where
  "put_property_list = put_vector SCIM_TRANS_DATA_PROPERTY_LIST put_property"

definition put_vector_string :: "bytes list \<Rightarrow> TransactionHolder \<Rightarrow> TransactionHolder run" where
  "put_vector_string = put_vector SCIM_TRANS_DATA_VECTOR_STRING put_string"

definition put_vector_wstring :: "bool \<Rightarrow> WideString list \<Rightarrow> TransactionHolder \<Rightarrow> TransactionHolder run" where
  "put_vector_wstring sg = put_vector SCIM_TRANS_DATA_VECTOR_WSTRING (put_wstring sg)"

definition put_vector_uint32 :: "32 word list \<Rightarrow> TransactionHolder \<Rightarrow> TransactionHolder run" where
  "put_vector_uint32 vec h =
     run_bind (put_bytes [SCIM_TRANS_DATA_VECTOR_UINT32] (request_buffer_size (length vec * 4 + 4 + 1) h)) (\<lambda>h.
     run_bind (put_bytes (scim_uint32tobytes (of_nat (length vec))) h)
       (put_each (\<lambda>w. put_bytes (scim_uint32tobytes w)) vec))"

definition table_stat :: "CommonLookupTable \<Rightarrow> 8 word" where
  "table_stat table =
     (if m_current_page_start table \<noteq> 0 then 1 else 0) OR
     (if to_uint32 (m_current_page_start table + get_current_page_size (number_of_candidates table) table)
           < number_of_candidates table then 2 else 0) OR
     (if m_cursor_visible table then 4 else 0) OR
     (if m_page_size_fixed table then 8 else 0)"

definition put_lookup_table :: "bool \<Rightarrow> CommonLookupTable \<Rightarrow> TransactionHolder \<Rightarrow> TransactionHolder run" where
  "put_lookup_table sg table h =
     (let n = number_of_candidates table; size = get_current_page_size n table in
      run_bind (put_bytes [SCIM_TRANS_DATA_LOOKUP_TABLE] (request_buffer_size 4 h)) (\<lambda>h.
      run_bind (put_bytes [table_stat table] h) (\<lambda>h.
      run_bind (put_bytes [word_of_int size] h) (\<lambda>h.
      run_bind (put_bytes [word_of_int (get_cursor_pos_in_current_page table)] h) (\<lambda>h.
      run_bind (put_each (\<lambda>i. put_wstring sg (get_candidate_label n i table)) [0..size - 1] h)
        (put_each (\<lambda>i h.
           run_bind (get_candidate_in_current_page i table) (\<lambda>c.
           run_bind (put_wstring sg c h) (\<lambda>h.
           run_bind (get_attributes_in_current_page i table) (\<lambda>attrs.
           put_attribute_list attrs h)))) [0..size - 1]))))))"

text \<open>\<^verbatim>\<open>raw\<close> is \<^verbatim>\<open>NULL\<close> or points to \<^verbatim>\<open>bufsize\<close> bytes.\<close>

definition put_raw :: "bytes option \<Rightarrow> TransactionHolder \<Rightarrow> TransactionHolder run" where
  "put_raw raw h =
     (case raw of None \<Rightarrow> Done h
      | Some bs \<Rightarrow>
          if length bs = 0 then Done h
          else
            run_bind (put_bytes [SCIM_TRANS_DATA_RAW] (request_buffer_size (length bs + 4 + 1) h)) (\<lambda>h.
            run_bind (put_bytes (scim_uint32tobytes (of_nat (length bs))) h) (put_bytes bs)))"

text \<open>The buffer of another transaction, its header included.\<close>

definition put_transaction :: "TransactionHolder \<Rightarrow> TransactionHolder \<Rightarrow> TransactionHolder run" where
  "put_transaction other h =
     (if \<not> holder_valid other then Done h
      else
        run_bind (put_bytes [SCIM_TRANS_DATA_TRANSACTION] (request_buffer_size (m_write_pos other + 4 + 1) h)) (\<lambda>h.
        run_bind (put_bytes (scim_uint32tobytes (of_nat (m_write_pos other))) h) (\<lambda>h.
        run_bind (copy_cells 0 (m_write_pos other) other) (\<lambda>cs. put_cells cs h))))"

section \<open>What is written\<close>

definition enc_string :: "8 word \<Rightarrow> bytes \<Rightarrow> bytes" where
  "enc_string type s = type # scim_uint32tobytes (of_nat (length s)) @ s"

definition enc_key_event :: "KeyEvent \<Rightarrow> bytes" where
  "enc_key_event key = SCIM_TRANS_DATA_KEYEVENT # scim_uint32tobytes (key_code key)
     @ scim_uint16tobytes (key_mask key) @ scim_uint16tobytes (key_layout key)"

definition enc_attribute :: "Attribute \<Rightarrow> bytes" where
  "enc_attribute a = ucast (m_type a) # scim_uint32tobytes (m_value a) @ scim_uint32tobytes (m_start a)
     @ scim_uint32tobytes (m_length a)"

definition enc_vector :: "8 word \<Rightarrow> ('v \<Rightarrow> bytes) \<Rightarrow> 'v list \<Rightarrow> bytes" where
  "enc_vector type enc vs = type # scim_uint32tobytes (of_nat (length vs)) @ concat (map enc vs)"

definition enc_property :: "Property \<Rightarrow> bytes" where
  "enc_property p = SCIM_TRANS_DATA_PROPERTY # enc_string SCIM_TRANS_DATA_STRING (m_key p)
     @ enc_string SCIM_TRANS_DATA_STRING (m_label p) @ enc_string SCIM_TRANS_DATA_STRING (m_icon p)
     @ enc_string SCIM_TRANS_DATA_STRING (m_tip p) @ [of_bool (property_visible p), of_bool (property_active p)]"

abbreviation enc_attribute_list :: "Attribute list \<Rightarrow> bytes" where
  "enc_attribute_list \<equiv> enc_vector SCIM_TRANS_DATA_ATTRIBUTE_LIST enc_attribute"

lemma writes_each:
  "(\<And>v. v \<in> set vs \<Longrightarrow> writes 0 (enc v) (put v)) \<Longrightarrow> writes 0 (concat (map enc vs)) (put_each put vs)"
proof (induction vs)
  case Nil
  have "put_each put [] = Done" by (simp add: fun_eq_iff)
  then show ?case by (simp add: writes_Done)
next
  case (Cons v vs)
  have "put_each put (v # vs) = (\<lambda>h. run_bind (put v h) (put_each put vs))" by (simp add: fun_eq_iff)
  with Cons show ?case by (auto intro: writes_bind)
qed

text \<open>The cells of a fixed number of bytes need not be requested one by one.\<close>

lemma writes_each_fixed:
  "(\<And>v. writes k (enc v) (put v) \<and> length (enc v) = k) \<Longrightarrow>
   writes (length vs * k) (concat (map enc vs)) (put_each put vs)"
proof (induction vs)
  case Nil
  have "put_each put [] = Done" by (simp add: fun_eq_iff)
  then show ?case by (simp add: writes_Done)
next
  case (Cons v vs)
  have "put_each put (v # vs) = (\<lambda>h. run_bind (put v h) (put_each put vs))" by (simp add: fun_eq_iff)
  with Cons show ?case by (auto intro!: writes_bind [of k "enc v" _ "length vs * k"])
qed

lemma writes_put_command:
  "writes 0 (map Some (SCIM_TRANS_DATA_COMMAND # scim_uint32tobytes (word_of_int v))) (put_command v)"
  unfolding put_command_def [abs_def] by (rule writes_item [OF writes_put_bytes]) simp_all

lemma writes_put_uint32: "writes 0 (map Some (SCIM_TRANS_DATA_UINT32 # scim_uint32tobytes v)) (put_uint32 v)"
  unfolding put_uint32_def [abs_def] by (rule writes_item [OF writes_put_bytes]) simp_all

lemma writes_put_string: "writes 0 (map Some (enc_string SCIM_TRANS_DATA_STRING s)) (put_string s)"
  unfolding put_string_def [abs_def]
  by (rule writes_item [OF writes_bind [OF writes_put_bytes writes_put_bytes, where m = "4 + length s"]])
    (simp_all add: enc_string_def)

lemma writes_put_wstring:
  "writes 0 (map Some (enc_string SCIM_TRANS_DATA_WSTRING (utf8_wcstombs sg ws))) (put_wstring sg ws)"
  unfolding put_wstring_def [abs_def] Let_def
  by (rule writes_item [OF writes_bind [OF writes_put_bytes writes_put_bytes, where m = "4 + length (utf8_wcstombs sg ws)"]])
    (simp_all add: enc_string_def)

lemma writes_put_key_event: "writes 0 (map Some (enc_key_event k)) (put_key_event k)"
  unfolding put_key_event_def [abs_def]
  by (rule writes_item [OF writes_bind [OF writes_put_bytes writes_bind [OF writes_put_bytes writes_put_bytes, where m = 4], where m = 8]])
    (simp_all add: enc_key_event_def)

lemma writes_put_attribute: "writes 13 (map Some (enc_attribute a)) (put_attribute a)"
  unfolding put_attribute_def [abs_def]
  by (rule writes_bind [OF writes_put_bytes writes_bind [OF writes_put_bytes
        writes_bind [OF writes_put_bytes writes_put_bytes, where m = 8], where m = 12]])
    (simp_all add: enc_attribute_def)

lemma length_enc_attribute [simp]: "length (enc_attribute a) = 13"
  by (simp add: enc_attribute_def)

lemma writes_put_attribute_list: "writes 0 (map Some (enc_attribute_list as)) (put_attribute_list as)"
proof -
  have "writes (length as * 13) (concat (map (\<lambda>a. map Some (enc_attribute a)) as)) (put_each put_attribute as)"
    by (rule writes_each_fixed) (simp add: writes_put_attribute)
  note w = this
  show ?thesis
    unfolding put_attribute_list_def [abs_def]
    by (rule writes_item [OF writes_bind [OF writes_put_bytes w, where m = "4 + length as * 13"]])
      (simp_all add: enc_vector_def map_concat comp_def)
qed

lemma writes_put_property: "writes 0 (map Some (enc_property p)) (put_property p)"
proof -
  let ?n = "length (m_key p) + length (m_label p) + length (m_icon p) + length (m_tip p)"
  have s: "length (enc_string ty s) = 5 + length s" for ty s by (simp add: enc_string_def)
  show ?thesis
    unfolding put_property_def [abs_def] Let_def
    by (rule writes_item [OF writes_bind [OF writes_put_string writes_bind [OF writes_put_string
          writes_bind [OF writes_put_string writes_bind [OF writes_put_string
          writes_bind [OF writes_put_bytes writes_put_bytes, where m = 2],
          where m = "7 + length (m_tip p)"], where m = "12 + length (m_tip p) + length (m_icon p)"],
          where m = "17 + length (m_tip p) + length (m_icon p) + length (m_label p)"], where m = "22 + ?n"]])
      (simp_all add: enc_property_def s)
qed

lemma writes_put_vector:
  "(\<And>v. v \<in> set vs \<Longrightarrow> writes 0 (map Some (enc v)) (put v)) \<Longrightarrow>
   writes 0 (map Some (enc_vector ty enc vs)) (put_vector ty put vs)"
proof -
  assume "\<And>v. v \<in> set vs \<Longrightarrow> writes 0 (map Some (enc v)) (put v)"
  then have "writes 0 (concat (map (\<lambda>v. map Some (enc v)) vs)) (put_each put vs)"
    by (rule writes_each)
  note w = this
  show ?thesis
    unfolding put_vector_def [abs_def]
    by (rule writes_item [OF writes_bind [OF writes_put_bytes w, where m = 4]])
      (simp_all add: enc_vector_def map_concat comp_def)
qed

lemma writes_put_vector_uint32:
  "writes 0 (map Some (enc_vector SCIM_TRANS_DATA_VECTOR_UINT32 scim_uint32tobytes vs)) (put_vector_uint32 vs)"
proof -
  have "writes (length vs * 4) (concat (map (\<lambda>w. map Some (scim_uint32tobytes w)) vs))
      (put_each (\<lambda>w. put_bytes (scim_uint32tobytes w)) vs)"
    by (rule writes_each_fixed) (use writes_put_bytes [of "scim_uint32tobytes _"] in simp)
  note w = this
  show ?thesis
    unfolding put_vector_uint32_def [abs_def]
    by (rule writes_item [OF writes_bind [OF writes_put_bytes w, where m = "4 + length vs * 4"]])
      (simp_all add: enc_vector_def map_concat comp_def)
qed

lemma writes_put_raw:
  assumes "bs \<noteq> []"
  shows "writes 0 (map Some (enc_string SCIM_TRANS_DATA_RAW bs)) (put_raw (Some bs))"
proof -
  have "length bs \<noteq> 0" using assms by simp
  then show ?thesis
    unfolding put_raw_def [abs_def] option.case
    by (simp only: if_False) (rule writes_item [OF writes_bind [OF writes_put_bytes writes_put_bytes,
        where m = "4 + length bs"]], simp_all add: enc_string_def)
qed

lemma writes_put_transaction:
  assumes "holder_inv t"
  shows "writes 0 (map Some (SCIM_TRANS_DATA_TRANSACTION # scim_uint32tobytes (of_nat (m_write_pos t)))
      @ take (m_write_pos t) (m_bytes t)) (put_transaction t)"
proof -
  have c: "copy_cells 0 (m_write_pos t) t = Done (take (m_write_pos t) (m_bytes t))"
    and l: "length (take (m_write_pos t) (m_bytes t)) = m_write_pos t" and v: "holder_valid t"
    using assms by (auto simp: copy_cells_def holder_inv_def holder_valid_def)
  show ?thesis
    unfolding put_transaction_def [abs_def]
    by (simp only: c run_bind.simps v not_True_eq_False if_False,
        rule writes_item [OF writes_bind [OF writes_put_bytes writes_put_cells, where m = "4 + m_write_pos t"]])
      (use l in simp_all)
qed

end
