(* ===== verification/Core_Get.thy ===== *)
theory Core_Get
  imports Core_Put
begin

text \<open>
  Getting data out of a transaction: the functions \<^verbatim>\<open>get_command\<close>, \<^verbatim>\<open>get_data\<close> and \<^verbatim>\<open>skip_data\<close> of
  \<^verbatim>\<open>TransactionReader\<close> in \<^verbatim>\<open>src/scim_transaction.cpp\<close>. A reader is a position in the buffer of a
  holder. Each function takes the holder, the position and the old value of its out parameter, and
  returns its result, the new position and the new value. A reader without a holder, for which every
  function returns false, is not modelled.
\<close>

type_synonym 'v getter = "TransactionHolder \<Rightarrow> nat \<Rightarrow> 'v \<Rightarrow> (bool \<times> nat \<times> 'v) run"

text \<open>A \<^verbatim>\<open>Transaction\<close> is a holder with the position of its own reader.\<close>

record Transaction =
  m_holder :: TransactionHolder
  m_read_pos :: nat

definition new_Transaction :: "nat \<Rightarrow> Transaction" where
  "new_Transaction bufsize = \<lparr>m_holder = new_TransactionHolder bufsize, m_read_pos = SCIM_TRANS_HEADER_SIZE\<rparr>"

definition clear_transaction :: "Transaction \<Rightarrow> Transaction" where
  "clear_transaction t =
     t\<lparr>m_holder := (m_holder t)\<lparr>m_write_pos := SCIM_TRANS_HEADER_SIZE\<rparr>, m_read_pos := SCIM_TRANS_HEADER_SIZE\<rparr>"

definition read_byte :: "nat \<Rightarrow> TransactionHolder \<Rightarrow> 8 word run" where
  "read_byte p h = run_bind (read_bytes p 1 h) (\<lambda>bs. Done (bs ! 0))"

definition read_uint32 :: "nat \<Rightarrow> TransactionHolder \<Rightarrow> 32 word run" where
  "read_uint32 p h = run_bind (read_bytes p 4 h) (\<lambda>bs. Done (scim_bytestouint32 bs))"

definition read_uint16 :: "nat \<Rightarrow> TransactionHolder \<Rightarrow> 16 word run" where
  "read_uint16 p h = run_bind (read_bytes p 2 h) (\<lambda>bs. Done (scim_bytestouint16 bs))"

definition get_data_type :: "TransactionHolder \<Rightarrow> nat \<Rightarrow> 8 word run" where
  "get_data_type h pos =
     (if \<not> holder_valid h \<or> m_write_pos h \<le> pos then Done SCIM_TRANS_DATA_UNKNOWN else read_byte pos h)"

text \<open>The condition every function begins with.\<close>

definition if_type :: "8 word \<Rightarrow> 'v getter \<Rightarrow> 'v getter" where
  "if_type type body h pos v =
     (if holder_valid h \<and> m_write_pos h > pos
      then run_bind (read_byte pos h) (\<lambda>b. if b = type then body h pos v else Done (False, pos, v))
      else Done (False, pos, v))"

definition get_command :: "int getter" where
  "get_command = if_type SCIM_TRANS_DATA_COMMAND (\<lambda>h pos type.
     if m_write_pos h < pos + 4 + 1 then Done (False, pos, type)
     else run_bind (read_uint32 (pos + 1) h) (\<lambda>n. Done (True, pos + 1 + 4, sint n)))"

definition get_uint32 :: "32 word getter" where
  "get_uint32 = if_type SCIM_TRANS_DATA_UINT32 (\<lambda>h pos val.
     if m_write_pos h < pos + 4 + 1 then Done (False, pos, val)
     else run_bind (read_uint32 (pos + 1) h) (\<lambda>n. Done (True, pos + 1 + 4, n)))"

definition get_string :: "bytes getter" where
  "get_string = if_type SCIM_TRANS_DATA_STRING (\<lambda>h pos str.
     if m_write_pos h < pos + 4 + 1 then Done (False, pos, str)
     else run_bind (read_uint32 (pos + 1) h) (\<lambda>len.
       if m_write_pos h < pos + 1 + 4 + unat len then Done (False, pos, str)
       else run_bind (read_bytes (pos + 1 + 4) (unat len) h) (\<lambda>s.
         Done (True, pos + 1 + 4 + unat len, s))))"

definition get_wstring :: "WideString getter" where
  "get_wstring = if_type SCIM_TRANS_DATA_WSTRING (\<lambda>h pos str.
     if m_write_pos h < pos + 4 + 1 then Done (False, pos, str)
     else run_bind (read_uint32 (pos + 1) h) (\<lambda>len.
       if m_write_pos h < pos + 1 + 4 + unat len then Done (False, pos, str)
       else run_bind (read_bytes (pos + 1 + 4) (unat len) h) (\<lambda>mbs.
         Done (True, pos + 1 + 4 + unat len, utf8_mbstowcs mbs))))"

definition get_key_event :: "KeyEvent getter" where
  "get_key_event = if_type SCIM_TRANS_DATA_KEYEVENT (\<lambda>h pos key.
     if m_write_pos h < pos + 4 * 2 + 1 then Done (False, pos, key)
     else
       run_bind (read_uint32 (pos + 1) h) (\<lambda>code.
       run_bind (read_uint16 (pos + 1 + 4) h) (\<lambda>mask.
       run_bind (read_uint16 (pos + 1 + 4 + 2) h) (\<lambda>layout.
       Done (True, pos + 1 + 4 + 2 + 2, \<lparr>key_code = code, key_mask = mask, key_layout = layout\<rparr>)))))"

fun get_attributes_loop :: "nat \<Rightarrow> TransactionHolder \<Rightarrow> nat \<Rightarrow> Attribute list \<Rightarrow> (nat \<times> Attribute list) run" where
  "get_attributes_loop 0 h pos attrs = Done (pos, attrs)"
| "get_attributes_loop (Suc k) h pos attrs =
     run_bind (read_byte pos h) (\<lambda>type.
     run_bind (read_uint32 (pos + 1) h) (\<lambda>value.
     run_bind (read_uint32 (pos + 1 + 4) h) (\<lambda>start.
     run_bind (read_uint32 (pos + 1 + 4 + 4) h) (\<lambda>len.
     get_attributes_loop k h (pos + 1 + 4 + 4 + 4)
       (attrs @ [\<lparr>m_start = start, m_length = len, m_type = ucast type, m_value = value\<rparr>])))))"

definition get_attribute_list :: "Attribute list getter" where
  "get_attribute_list = if_type SCIM_TRANS_DATA_ATTRIBUTE_LIST (\<lambda>h pos attrs.
     if m_write_pos h < pos + 4 + 1 then Done (False, pos, [])
     else run_bind (read_uint32 (pos + 1) h) (\<lambda>num.
       if m_write_pos h < pos + 1 + 4 + (4 * 3 + 1) * unat num then Done (False, pos, [])
       else run_bind (get_attributes_loop (unat num) h (pos + 1 + 4) []) (\<lambda>(q, attrs).
         Done (True, q, attrs))))"

definition get_property :: "Property getter" where
  "get_property = if_type SCIM_TRANS_DATA_PROPERTY (\<lambda>h pos p.
     if m_write_pos h < pos + 4 * 4 + 3 then Done (False, pos, p)
     else
       run_bind (get_string h (pos + 1) []) (\<lambda>(ok, q, str).
       if \<not> ok then Done (False, pos, p) else
       let p = p\<lparr>m_key := str\<rparr> in
       run_bind (get_string h q str) (\<lambda>(ok, q, str).
       if \<not> ok then Done (False, pos, p) else
       let p = p\<lparr>m_label := str\<rparr> in
       run_bind (get_string h q str) (\<lambda>(ok, q, str).
       if \<not> ok then Done (False, pos, p) else
       let p = p\<lparr>m_icon := str\<rparr> in
       run_bind (get_string h q str) (\<lambda>(ok, q, str).
       if \<not> ok then Done (False, pos, p) else
       let p = p\<lparr>m_tip := str\<rparr> in
       if m_write_pos h < q + 2 then Done (False, pos, p)
       else
         run_bind (read_byte q h) (\<lambda>visible.
         let p = show_property (visible \<noteq> 0) p in
         run_bind (read_byte (q + 1) h) (\<lambda>active.
         Done (True, q + 1 + 1, set_active (active \<noteq> 0) p))))))))"

text \<open>The loop of the vectors, with the variable \<open>x\<close> that each element is read into.\<close>

fun get_each :: "'v getter \<Rightarrow> nat \<Rightarrow> TransactionHolder \<Rightarrow> nat \<Rightarrow> 'v \<Rightarrow> 'v list \<Rightarrow> (bool \<times> nat \<times> 'v list) run" where
  "get_each get 0 h pos x vec = Done (True, pos, vec)"
| "get_each get (Suc k) h pos x vec =
     run_bind (get h pos x) (\<lambda>(ok, pos, x).
     if ok then get_each get k h pos x (vec @ [x]) else Done (False, pos, vec))"

definition get_vector :: "8 word \<Rightarrow> 'v getter \<Rightarrow> 'v \<Rightarrow> 'v list getter" where
  "get_vector type get x = if_type type (\<lambda>h pos vec.
     if m_write_pos h < pos + 4 + 1 then Done (False, pos, vec)
     else run_bind (read_uint32 (pos + 1) h) (\<lambda>num.
       run_bind (get_each get (unat num) h (pos + 1 + 4) x []) (\<lambda>(ok, q, vec).
       if ok then Done (True, q, vec) else Done (False, pos, vec))))"

definition get_property_list :: "Property list getter" where
  "get_property_list = get_vector SCIM_TRANS_DATA_PROPERTY_LIST get_property empty_property"

definition get_vector_string :: "bytes list getter" where
  "get_vector_string = get_vector SCIM_TRANS_DATA_VECTOR_STRING get_string []"

definition get_vector_wstring :: "WideString list getter" where
  "get_vector_wstring = get_vector SCIM_TRANS_DATA_VECTOR_WSTRING get_wstring []"

fun get_uint32_loop :: "nat \<Rightarrow> TransactionHolder \<Rightarrow> nat \<Rightarrow> 32 word list \<Rightarrow> (nat \<times> 32 word list) run" where
  "get_uint32_loop 0 h pos vec = Done (pos, vec)"
| "get_uint32_loop (Suc k) h pos vec =
     run_bind (read_uint32 pos h) (\<lambda>n. get_uint32_loop k h (pos + 4) (vec @ [n]))"

definition get_vector_uint32 :: "32 word list getter" where
  "get_vector_uint32 = if_type SCIM_TRANS_DATA_VECTOR_UINT32 (\<lambda>h pos vec.
     if m_write_pos h < pos + 4 + 1 then Done (False, pos, vec)
     else run_bind (read_uint32 (pos + 1) h) (\<lambda>num.
       if m_write_pos h < pos + 1 + 4 + 4 * unat num then Done (False, pos, vec)
       else run_bind (get_uint32_loop (unat num) h (pos + 1 + 4) []) (\<lambda>(q, vec). Done (True, q, vec))))"

text \<open>\<open>want\<close> tells whether \<^verbatim>\<open>raw\<close> is not \<^verbatim>\<open>NULL\<close>; the out parameters are \<^verbatim>\<open>*raw\<close>, \<^term>\<open>None\<close> while it
  points nowhere, and \<^verbatim>\<open>bufsize\<close>.\<close>

definition get_raw :: "bool \<Rightarrow> (8 word option list option \<times> nat) getter" where
  "get_raw want = if_type SCIM_TRANS_DATA_RAW (\<lambda>h pos (raw, bufsize).
     if m_write_pos h < pos + 4 + 1 then Done (False, pos, (raw, bufsize))
     else run_bind (read_uint32 (pos + 1) h) (\<lambda>n.
       let bufsize = unat n in
       if bufsize = 0 \<or> m_write_pos h < pos + 1 + 4 + bufsize then Done (False, pos, (raw, bufsize))
       else if want
       then run_bind (copy_cells (pos + 1 + 4) bufsize h) (\<lambda>cs.
         Done (True, pos + 1 + 4 + bufsize, (Some cs, bufsize)))
       else Done (True, pos + 1 + 4 + bufsize, (raw, bufsize))))"

definition get_transaction :: "Transaction getter" where
  "get_transaction h pos other =
     (if \<not> holder_valid (m_holder other) then Done (False, pos, other)
      else if_type SCIM_TRANS_DATA_TRANSACTION (\<lambda>h pos other.
        if m_write_pos h < pos + 4 + 1 then Done (False, pos, other)
        else run_bind (read_uint32 (pos + 1) h) (\<lambda>n.
          let len = unat n in
          if m_write_pos h < pos + 1 + 4 + len then Done (False, pos, other)
          else
            run_bind (copy_cells (pos + 1 + 4) len h) (\<lambda>cs.
            run_bind (store_cells 0 cs (request_buffer_size len (m_holder other))) (\<lambda>g.
            Done (True, pos + 1 + 4 + len,
                  other\<lparr>m_holder := g\<lparr>m_write_pos := len\<rparr>, m_read_pos := SCIM_TRANS_HEADER_SIZE\<rparr>))))) h pos other)"

fun get_candidates :: "nat \<Rightarrow> CommonLookupTable getter" where
  "get_candidates 0 h pos table = Done (True, pos, table)"
| "get_candidates (Suc k) h pos table =
     run_bind (get_wstring h pos []) (\<lambda>(ok, q, wstr).
     if \<not> ok then Done (False, q, table)
     else run_bind (get_attribute_list h q []) (\<lambda>(ok, q, attrs).
       if ok then get_candidates k h q (snd (append_candidate wstr attrs table))
       else Done (False, q, table)))"

text \<open>What is done with the table after the candidates of the page have been read.\<close>

definition finish_table :: "8 word \<Rightarrow> int \<Rightarrow> int \<Rightarrow> CommonLookupTable \<Rightarrow> CommonLookupTable" where
  "finish_table stat page_size cursor_pos table =
     (let t1 = (if stat AND 2 \<noteq> 0 then snd (append_candidate_char 0x3400 [] table) else table);
          n = number_of_candidates t1;
          t2 = (if stat AND 1 \<noteq> 0
                then set_page_size n page_size (snd (page_down n (set_page_size n 1 t1))) else t1);
          t3 = set_cursor_pos_in_current_page n cursor_pos t2 in
      fix_page_size (stat AND 8 \<noteq> 0) (show_cursor (stat AND 4 \<noteq> 0) t3))"

definition get_lookup_table :: "CommonLookupTable getter" where
  "get_lookup_table = if_type SCIM_TRANS_DATA_LOOKUP_TABLE (\<lambda>h pos table.
     if m_write_pos h < pos + 4 then Done (False, pos, table)
     else
       let t0 = clear_table table in
       run_bind (read_byte (pos + 1) h) (\<lambda>stat.
       run_bind (read_byte (pos + 1 + 1) h) (\<lambda>page_size.
       run_bind (read_byte (pos + 1 + 1 + 1) h) (\<lambda>cursor_pos.
       if uint page_size > SCIM_LOOKUP_TABLE_MAX_PAGESIZE \<or>
          (uint cursor_pos \<ge> uint page_size \<and> uint page_size > 0)
       then Done (False, pos, t0)
       else
         let t1 = set_page_size (number_of_candidates t0) (uint page_size) t0 in
         run_bind (get_each get_wstring (unat page_size) h (pos + 1 + 1 + 1 + 1) [] []) (\<lambda>(ok, q, labels).
         if \<not> ok then Done (False, pos, t1)
         else
           let t2 = set_candidate_labels labels t1;
               t3 = (if stat AND 1 \<noteq> 0 then snd (append_candidate_char 0x3400 [] t2) else t2) in
           run_bind (get_candidates (unat page_size) h q t3) (\<lambda>(ok, q, t4).
           if \<not> ok then Done (False, pos, t4)
           else Done (True, q, finish_table stat (uint page_size) (uint cursor_pos) t4)))))))"

text \<open>The values that \<^verbatim>\<open>skip_data\<close> reads are thrown away.\<close>

definition skipped :: "(bool \<times> nat \<times> 'v) run \<Rightarrow> (bool \<times> nat) run" where
  "skipped r = run_bind r (\<lambda>(ok, pos, v). Done (ok, pos))"

definition skip_data :: "TransactionHolder \<Rightarrow> nat \<Rightarrow> (bool \<times> nat) run" where
  "skip_data h pos =
     (if holder_valid h \<and> m_write_pos h > pos then
        run_bind (read_byte pos h) (\<lambda>b.
        if b = SCIM_TRANS_DATA_COMMAND then skipped (get_command h pos 0)
        else if b = SCIM_TRANS_DATA_UINT32 then skipped (get_uint32 h pos 0)
        else if b = SCIM_TRANS_DATA_STRING then skipped (get_string h pos [])
        else if b = SCIM_TRANS_DATA_WSTRING then skipped (get_wstring h pos [])
        else if b = SCIM_TRANS_DATA_KEYEVENT
        then skipped (get_key_event h pos \<lparr>key_code = 0, key_mask = 0, key_layout = 0\<rparr>)
        else if b = SCIM_TRANS_DATA_ATTRIBUTE_LIST then skipped (get_attribute_list h pos [])
        else if b = SCIM_TRANS_DATA_PROPERTY then skipped (get_property h pos empty_property)
        else if b = SCIM_TRANS_DATA_PROPERTY_LIST then skipped (get_property_list h pos [])
        else if b = SCIM_TRANS_DATA_LOOKUP_TABLE then skipped (get_lookup_table h pos (labelled_CommonLookupTable 10))
        else if b = SCIM_TRANS_DATA_VECTOR_UINT32 then skipped (get_vector_uint32 h pos [])
        else if b = SCIM_TRANS_DATA_VECTOR_STRING then skipped (get_vector_string h pos [])
        else if b = SCIM_TRANS_DATA_VECTOR_WSTRING then skipped (get_vector_wstring h pos [])
        else if b = SCIM_TRANS_DATA_RAW then skipped (get_raw False h pos (None, 0))
        else if b = SCIM_TRANS_DATA_TRANSACTION then
          (if m_write_pos h < pos + 4 + 1 then Done (False, pos)
           else run_bind (read_uint32 (pos + 1) h) (\<lambda>len.
             if m_write_pos h < pos + unat len + 4 + 1 then Done (False, pos)
             else Done (True, pos + (unat len + 4 + 1))))
        else Done (False, pos))
      else Done (False, pos))"

end
