(* ===== verification/Core_Format.thy ===== *)
theory Core_Format
  imports Core_Get
begin

text \<open>
  The formats of the items of a transaction. The contract of a type of data is the locale
  \<open>data_format\<close>: putting a value appends its encoding, getting at the encoding of a value gives the
  value and moves behind it, and getting anywhere stays inside what was written and moves only when it
  succeeds. \<open>ok\<close> are the values that can be sent, \<open>out\<close> the old values of the out parameter that do
  not show in the result. Every pair of functions of \<open>Core_Put\<close> and \<open>Core_Get\<close> but the lookup tables is an
  interpretation.
\<close>

section \<open>What lies ahead of a reader\<close>

definition ahead :: "TransactionHolder \<Rightarrow> nat \<Rightarrow> 8 word option list \<Rightarrow> bool" where
  "ahead h pos cs \<longleftrightarrow> holder_inv h \<and> 16 \<le> pos \<and> pos \<le> m_write_pos h \<and> drop (pos - 16) (cells h) = cs"

lemma ahead_write_pos: "ahead h pos cs \<Longrightarrow> m_write_pos h = pos + length cs"
proof -
  assume a: "ahead h pos cs"
  then have "length cs = length (drop (pos - 16) (cells h))" by (simp add: ahead_def)
  also have "\<dots> = length (cells h) - (pos - 16)" by simp
  finally show ?thesis using a by (simp add: ahead_def)
qed

lemma ahead_valid: "ahead h pos cs \<Longrightarrow> holder_valid h"
  by (simp add: ahead_def holder_inv_def holder_valid_def)

lemma ahead_append: "ahead h pos (xs @ cs) \<Longrightarrow> n = length xs \<Longrightarrow> ahead h (pos + n) cs"
proof -
  assume a: "ahead h pos (xs @ cs)" and n: "n = length xs"
  then have "drop n (drop (pos - 16) (cells h)) = cs" by (simp add: ahead_def)
  then show ?thesis using a n ahead_write_pos [OF a] by (simp add: ahead_def add.commute)
qed

lemma ahead_Cons: "ahead h pos (c # cs) \<Longrightarrow> ahead h (pos + 1) cs"
  using ahead_append [of h pos "[c]" cs] by simp

lemma ahead_bytes: "ahead h pos (xs @ cs) \<Longrightarrow> take (length xs) (drop pos (m_bytes h)) = xs"
proof -
  assume a: "ahead h pos (xs @ cs)"
  have "xs = take (length xs) (drop (pos - 16) (cells h))" using a by (simp add: ahead_def)
  also have "\<dots> = take (length xs) (drop pos (m_bytes h))"
    using a ahead_write_pos [OF a] by (simp add: ahead_def cells_def take_drop_take min_def drop_take)
  finally show ?thesis by simp
qed

lemma ahead_copy: "ahead h pos (xs @ cs) \<Longrightarrow> n = length xs \<Longrightarrow> copy_cells pos n h = Done xs"
proof -
  assume a: "ahead h pos (xs @ cs)" and n: "n = length xs"
  have "m_write_pos h \<le> length (m_bytes h)" using a by (simp add: ahead_def holder_inv_def)
  then have "pos + n \<le> length (m_bytes h)" using ahead_write_pos [OF a] n by simp
  then show ?thesis using ahead_bytes [OF a] n by (simp add: copy_cells_def)
qed

lemma ahead_read: "ahead h pos (map Some bs @ cs) \<Longrightarrow> n = length bs \<Longrightarrow> read_bytes pos n h = Done bs"
proof -
  assume "ahead h pos (map Some bs @ cs)" "n = length bs"
  then have "copy_cells pos n h = Done (map Some bs)" by (intro ahead_copy) simp_all
  moreover have "None \<notin> set (map Some bs)" by auto
  moreover have "map the (map Some bs) = bs" by (simp add: map_idI)
  ultimately show ?thesis by (simp only: read_bytes_def run_bind.simps if_False)
qed

lemma ahead_read_byte: "ahead h pos (Some b # cs) \<Longrightarrow> read_byte pos h = Done b"
  using ahead_read [of h pos "[b]" cs 1] by (simp add: read_byte_def)

lemma ahead_read_uint32: "ahead h pos (map Some (scim_uint32tobytes n) @ cs) \<Longrightarrow> read_uint32 pos h = Done n"
  using ahead_read [of h pos "scim_uint32tobytes n" cs 4] by (simp add: read_uint32_def)

lemma ahead_read_uint16: "ahead h pos (map Some (scim_uint16tobytes n) @ cs) \<Longrightarrow> read_uint16 pos h = Done n"
  using ahead_read [of h pos "scim_uint16tobytes n" cs 2] by (simp add: read_uint16_def)

text \<open>Reading where there is something written.\<close>

lemma ahead_split:
  "ahead h pos cs \<Longrightarrow> None \<notin> set cs \<Longrightarrow> k + n \<le> length cs \<Longrightarrow>
   \<exists>bs. read_bytes (pos + k) n h = Done bs \<and> length bs = n"
proof -
  assume a: "ahead h pos cs" "None \<notin> set cs" "k + n \<le> length cs"
  define bs where "bs = map the (take n (drop k cs))"
  have s: "set (take n (drop k cs)) \<subseteq> set cs" by (meson order_trans set_drop_subset set_take_subset)
  have c: "Some (the c) = c" if "c \<in> set (take n (drop k cs))" for c
  proof -
    from s that have "c \<in> set cs" by (rule subsetD)
    then have "c \<noteq> None" using a(2) by - (rule notI, simp)
    then show ?thesis by simp
  qed
  have n: "map Some bs = take n (drop k cs)"
    unfolding bs_def map_map comp_def using c by (rule map_idI)
  have l: "length bs = n" using a(3) by (simp add: bs_def)
  have "ahead h pos (take k cs @ drop k cs)" using a(1) by simp
  from ahead_append [OF this, of k] a(3) have "ahead h (pos + k) (drop k cs)" by simp
  then have "ahead h (pos + k) (map Some bs @ drop n (drop k cs))" by (simp only: n append_take_drop_id)
  from ahead_read [OF this l [symmetric]] l show ?thesis by blast
qed

lemma ahead_byte: "ahead h pos cs \<Longrightarrow> None \<notin> set cs \<Longrightarrow> k < length cs \<Longrightarrow> \<exists>b. read_byte (pos + k) h = Done b"
  using ahead_split [of h pos cs k 1] by (auto simp: read_byte_def)

lemma ahead_uint32: "ahead h pos cs \<Longrightarrow> None \<notin> set cs \<Longrightarrow> k + 4 \<le> length cs \<Longrightarrow> \<exists>n. read_uint32 (pos + k) h = Done n"
  using ahead_split [of h pos cs k 4] by (auto simp: read_uint32_def)

lemma ahead_uint16: "ahead h pos cs \<Longrightarrow> None \<notin> set cs \<Longrightarrow> k + 2 \<le> length cs \<Longrightarrow> \<exists>n. read_uint16 (pos + k) h = Done n"
  using ahead_split [of h pos cs k 2] by (auto simp: read_uint16_def)

lemma ahead_drop: "ahead h pos cs \<Longrightarrow> k \<le> length cs \<Longrightarrow> ahead h (pos + k) (drop k cs)"
  using ahead_append [of h pos "take k cs" "drop k cs" k] by simp

section \<open>The contract\<close>

text \<open>A result at position \<open>pos\<close> with \<open>n\<close> cells ahead: the position moves if and only if the call
  succeeds, and not past the cells.\<close>

definition safe_result :: "nat \<Rightarrow> nat \<Rightarrow> (bool \<times> nat \<times> 'v) run \<Rightarrow> bool" where
  "safe_result n pos r \<longleftrightarrow> (\<exists>ok k x. r = Done (ok, pos + k, x) \<and> k \<le> n \<and> (ok \<longleftrightarrow> 0 < k))"

definition reads_safely :: "'v getter \<Rightarrow> bool" where
  "reads_safely get \<longleftrightarrow>
     (\<forall>h pos cs x. ahead h pos cs \<and> None \<notin> set cs \<longrightarrow> safe_result (length cs) pos (get h pos x))"

lemma reads_safelyD:
  "reads_safely get \<Longrightarrow> ahead h pos cs \<Longrightarrow> None \<notin> set cs \<Longrightarrow>
   \<exists>ok k x'. get h pos x = Done (ok, pos + k, x') \<and> k \<le> length cs \<and> (ok \<longleftrightarrow> 0 < k)"
  by (simp add: reads_safely_def safe_result_def)

lemma safe_fail: "safe_result n pos (Done (False, pos, x))"
  unfolding safe_result_def by (intro exI [of _ False] exI [of _ 0] exI [of _ x]) simp

lemma safe_success: "p = pos + k \<Longrightarrow> 0 < k \<Longrightarrow> k \<le> n \<Longrightarrow> safe_result n pos (Done (True, p, x))"
  unfolding safe_result_def by (intro exI [of _ True] exI [of _ k] exI [of _ x]) simp

lemma safe_guard:
  assumes "ahead h pos cs" "b = pos + n" "n \<le> length cs \<Longrightarrow> safe_result (length cs) pos r"
  shows "safe_result (length cs) pos (if m_write_pos h < b then Done (False, pos, x) else r)"
proof (cases "m_write_pos h < b")
  case True
  then show ?thesis by (simp add: safe_fail)
next
  case False
  with assms ahead_write_pos [OF assms(1)] show ?thesis by simp
qed

lemma safe_byte:
  assumes "ahead h pos cs" "None \<notin> set cs" "p = pos + k" "k < length cs" "\<And>b. safe_result m pos (f b)"
  shows "safe_result m pos (run_bind (read_byte p h) f)"
  using ahead_byte [OF assms(1,2,4)] assms(3,5) by auto

lemma safe_uint32:
  assumes "ahead h pos cs" "None \<notin> set cs" "p = pos + k" "k + 4 \<le> length cs" "\<And>n. safe_result m pos (f n)"
  shows "safe_result m pos (run_bind (read_uint32 p h) f)"
  using ahead_uint32 [OF assms(1,2,4)] assms(3,5) by auto

lemma safe_uint16:
  assumes "ahead h pos cs" "None \<notin> set cs" "p = pos + k" "k + 2 \<le> length cs" "\<And>n. safe_result m pos (f n)"
  shows "safe_result m pos (run_bind (read_uint16 p h) f)"
  using ahead_uint16 [OF assms(1,2,4)] assms(3,5) by auto

lemma safe_bytes:
  assumes "ahead h pos cs" "None \<notin> set cs" "p = pos + k" "k + n \<le> length cs" "\<And>bs. safe_result m pos (f bs)"
  shows "safe_result m pos (run_bind (read_bytes p n h) f)"
  using ahead_split [OF assms(1,2,4)] assms(3,5) by auto

text \<open>What a body may rely on: there is a byte where it begins.\<close>

lemma if_type_safe:
  assumes "\<And>h pos cs x. ahead h pos cs \<Longrightarrow> None \<notin> set cs \<Longrightarrow> 0 < length cs \<Longrightarrow>
    safe_result (length cs) pos (body h pos x)"
  shows "reads_safely (if_type ty body)"
  unfolding reads_safely_def
proof (intro allI impI, elim conjE)
  fix h pos cs x
  assume a: "ahead h pos cs" "None \<notin> set cs"
  show "safe_result (length cs) pos (if_type ty body h pos x)"
  proof (cases "cs = []")
    case True
    then show ?thesis using ahead_write_pos [OF a(1)] by (simp add: if_type_def safe_fail)
  next
    case False
    from ahead_byte [OF a, of 0] False obtain b where "read_byte pos h = Done b" by auto
    then show ?thesis using assms [OF a, of x] False by (auto simp: if_type_def safe_fail)
  qed
qed

lemma if_type_eq:
  "ahead h pos (Some ty # cs) \<Longrightarrow> if_type ty body h pos x = body h pos x"
  using ahead_read_byte [of h pos ty cs] ahead_write_pos [of h pos "Some ty # cs"] ahead_valid
  by (simp add: if_type_def)

locale data_format =
  fixes put :: "'v \<Rightarrow> TransactionHolder \<Rightarrow> TransactionHolder run" and get :: "'v getter"
    and enc :: "'v \<Rightarrow> bytes" and ok :: "'v \<Rightarrow> bool" and out :: "'v \<Rightarrow> bool"
  assumes put_writes: "ok v \<Longrightarrow> writes 0 (map Some (enc v)) (put v)"
    and ok_out: "ok v \<Longrightarrow> out v"
    and get_enc: "ok v \<Longrightarrow> out x \<Longrightarrow> ahead h pos (map Some (enc v) @ cs) \<Longrightarrow>
      get h pos x = Done (True, pos + length (enc v), v)"
    and get_safe: "reads_safely get"
begin

lemma put_get:
  assumes "holder_inv h" "ok v" "out x"
  shows "\<exists>h'. put v h = Done h' \<and> holder_inv h' \<and> get h' (m_write_pos h) x = Done (True, m_write_pos h', v)"
proof -
  have "m_write_pos h + 0 \<le> m_buffer_size h" using assms(1) by (simp add: holder_inv_def)
  from writesD [OF put_writes [OF assms(2)] assms(1) this] obtain h' where
    h': "put v h = Done h'" "holder_inv h'" "cells h' = cells h @ map Some (enc v)"
      "m_write_pos h' = m_write_pos h + length (enc v)" by auto
  then have "ahead h' (m_write_pos h) (map Some (enc v) @ [])"
    using assms(1) length_cells [OF assms(1)] by (simp add: ahead_def holder_inv_def)
  from get_enc [OF assms(2,3) this] h' show ?thesis by simp
qed

lemma get_each_enc:
  "list_all ok vs \<Longrightarrow> out x \<Longrightarrow> ahead h pos (map Some (concat (map enc vs)) @ cs) \<Longrightarrow>
   get_each get (length vs) h pos x acc = Done (True, pos + length (concat (map enc vs)), acc @ vs)"
proof (induction vs arbitrary: pos x acc)
  case (Cons v vs)
  from Cons.prems(3) have a: "ahead h pos (map Some (enc v) @ map Some (concat (map enc vs)) @ cs)" by simp
  have ok: "ok v" "list_all ok vs" using Cons.prems(1) by simp_all
  from ahead_append [OF a, of "length (enc v)"] have b: "ahead h (pos + length (enc v)) (map Some (concat (map enc vs)) @ cs)"
    by simp
  from get_enc [OF ok(1) Cons.prems(2) a] Cons.IH [OF ok(2) ok_out [OF ok(1)] b, of "acc @ [v]"]
  show ?case by (simp add: add.assoc)
qed simp

end

section \<open>Getting is safe\<close>

lemma get_command_safe: "reads_safely get_command"
  unfolding get_command_def
  by (rule if_type_safe)
    (intro safe_guard [where n = 5] safe_uint32 [where k = 1] safe_success [where k = 5]; assumption?; simp)

lemma get_uint32_safe: "reads_safely get_uint32"
  unfolding get_uint32_def
  by (rule if_type_safe)
    (intro safe_guard [where n = 5] safe_uint32 [where k = 1] safe_success [where k = 5]; assumption?; simp)

lemma get_key_event_safe: "reads_safely get_key_event"
  unfolding get_key_event_def
  by (rule if_type_safe, rule safe_guard [where n = 9], assumption, simp, rule safe_uint32 [where k = 1],
      assumption, assumption, simp, simp, rule safe_uint16 [where k = 5], assumption, assumption, simp, simp,
      rule safe_uint16 [where k = 7]; assumption?; simp add: safe_success [where k = 9])

lemma get_string_safe: "reads_safely get_string"
  unfolding get_string_def
proof (rule if_type_safe, rule safe_guard [where n = 5], assumption, simp, rule safe_uint32 [where k = 1])
  fix h pos cs x and len :: "32 word"
  assume a: "ahead h pos cs" "None \<notin> set cs"
  show "safe_result (length cs) pos (if m_write_pos h < pos + 1 + 4 + unat len then Done (False, pos, x)
      else run_bind (read_bytes (pos + 1 + 4) (unat len) h) (\<lambda>s. Done (True, pos + 1 + 4 + unat len, s)))"
    by (rule safe_guard [OF a(1), where n = "5 + unat len"], simp, rule safe_bytes [OF a, where k = 5])
      (simp_all add: safe_success [where k = "5 + unat len"])
qed simp_all

lemma get_wstring_safe: "reads_safely get_wstring"
  unfolding get_wstring_def
proof (rule if_type_safe, rule safe_guard [where n = 5], assumption, simp, rule safe_uint32 [where k = 1])
  fix h pos cs x and len :: "32 word"
  assume a: "ahead h pos cs" "None \<notin> set cs"
  show "safe_result (length cs) pos (if m_write_pos h < pos + 1 + 4 + unat len then Done (False, pos, x)
      else run_bind (read_bytes (pos + 1 + 4) (unat len) h) (\<lambda>mbs. Done (True, pos + 1 + 4 + unat len, utf8_mbstowcs mbs)))"
    by (rule safe_guard [OF a(1), where n = "5 + unat len"], simp, rule safe_bytes [OF a, where k = 5])
      (simp_all add: safe_success [where k = "5 + unat len"])
qed simp_all

text \<open>A call inside a call: it begins \<open>k\<close> cells further on.\<close>

lemma safe_call:
  assumes "reads_safely g" "ahead h pos cs" "None \<notin> set cs" "p = pos + k" "k \<le> length cs"
    and "\<And>ok j y. k + j \<le> length cs \<Longrightarrow> ok = (0 < j) \<Longrightarrow> safe_result m pos (f (ok, pos + (k + j), y))"
  shows "safe_result m pos (run_bind (g h p x) f)"
proof -
  have "None \<notin> set (drop k cs)" using assms(3) by (meson in_set_dropD)
  from reads_safelyD [OF assms(1) ahead_drop [OF assms(2,5)] this, of x] obtain ok j y where
    "g h (pos + k) x = Done (ok, pos + k + j, y)" "j \<le> length cs - k" "ok = (0 < j)" by auto
  with assms(4,5) assms(6) [of j ok y] show ?thesis by (simp add: add.assoc)
qed

lemma safe_step:
  assumes "reads_safely g" "ahead h pos cs" "None \<notin> set cs" "p = pos + k" "k \<le> length cs"
    and "\<And>j y. k + j \<le> length cs \<Longrightarrow> safe_result m pos (f (pos + (k + j)) y)"
  shows "safe_result m pos (run_bind (g h p x) (\<lambda>(ok, q, y). if \<not> ok then Done (False, pos, z) else f q y))"
  by (rule safe_call [OF assms(1-5)]) (simp add: assms(6) safe_fail)

lemma get_property_safe: "reads_safely get_property"
  unfolding get_property_def Let_def
proof (rule if_type_safe, rule safe_guard [where n = 19], assumption, simp)
  fix h pos cs and p :: Property
  assume a: "ahead h pos cs" "None \<notin> set cs" "19 \<le> length cs"
  note step = safe_step [OF get_string_safe a(1,2)]
  have flags: "safe_result (length cs) pos (if m_write_pos h < pos + k + 2 then Done (False, pos, p)
       else run_bind (read_byte (pos + k) h) (\<lambda>visible. run_bind (read_byte (pos + k + 1) h) (\<lambda>active.
         Done (True, pos + k + 1 + 1, set_active (active \<noteq> 0) (show_property (visible \<noteq> 0) p)))))"
    for k p
    by (rule safe_guard [OF a(1), where n = "k + 2"], simp, rule safe_byte [OF a(1,2) refl], simp,
        rule safe_byte [OF a(1,2), where k = "k + 1"]) (simp_all add: safe_success [where k = "k + 2"])
  show "safe_result (length cs) pos (
       run_bind (get_string h (pos + 1) []) (\<lambda>(ok, q, s1).
       if \<not> ok then Done (False, pos, p) else
       run_bind (get_string h q s1) (\<lambda>(ok, q, s2).
       if \<not> ok then Done (False, pos, p\<lparr>m_key := s1\<rparr>) else
       run_bind (get_string h q s2) (\<lambda>(ok, q, s3).
       if \<not> ok then Done (False, pos, p\<lparr>m_key := s1, m_label := s2\<rparr>) else
       run_bind (get_string h q s3) (\<lambda>(ok, q, s4).
       if \<not> ok then Done (False, pos, p\<lparr>m_key := s1, m_label := s2, m_icon := s3\<rparr>) else
       if m_write_pos h < q + 2
       then Done (False, pos, p\<lparr>m_key := s1, m_label := s2, m_icon := s3, m_tip := s4\<rparr>)
       else run_bind (read_byte q h) (\<lambda>visible. run_bind (read_byte (q + 1) h) (\<lambda>active.
         Done (True, q + 1 + 1, set_active (active \<noteq> 0) (show_property (visible \<noteq> 0)
           (p\<lparr>m_key := s1, m_label := s2, m_icon := s3, m_tip := s4\<rparr>))))))))))"
    using a(3) by (intro step [OF refl] flags) simp_all
qed

text \<open>Loops over a fixed number of bytes.\<close>

lemma get_attributes_loop_safe:
  "ahead h pos cs \<Longrightarrow> None \<notin> set cs \<Longrightarrow> 13 * n \<le> length cs \<Longrightarrow>
   \<exists>as. get_attributes_loop n h pos acc = Done (pos + 13 * n, as)"
proof (induction n arbitrary: pos cs acc)
  case (Suc n)
  note a = Suc.prems
  have len: "0 < length cs" using a(3) by (cases cs) simp_all
  obtain b where b: "read_byte pos h = Done b" using ahead_byte [OF a(1,2), of 0] len by auto
  obtain v1 v2 v3 where v: "read_uint32 (pos + 1) h = Done v1" "read_uint32 (pos + 5) h = Done v2"
      "read_uint32 (pos + 9) h = Done v3"
    using ahead_uint32 [OF a(1,2), of 1] ahead_uint32 [OF a(1,2), of 5] ahead_uint32 [OF a(1,2), of 9] a(3)
    by auto
  have "None \<notin> set (drop 13 cs)" using a(2) by (meson in_set_dropD)
  moreover have "13 \<le> length cs" "13 * n \<le> length (drop 13 cs)" using a(3) by auto
  ultimately have ih: "\<exists>as. get_attributes_loop n h (pos + 13) acc = Done (pos + 13 + 13 * n, as)" for acc
    using Suc.IH [OF ahead_drop [OF a(1)]] by blast
  from b v ih [of "acc @ [\<lparr>m_start = v2, m_length = v3, m_type = ucast b, m_value = v1\<rparr>]"]
  show ?case by (simp add: ac_simps)
qed simp

lemma get_attribute_list_safe: "reads_safely get_attribute_list"
  unfolding get_attribute_list_def
proof (rule if_type_safe, rule safe_guard [where n = 5], assumption, simp, rule safe_uint32 [where k = 1])
  fix h pos cs and x :: "Attribute list" and num :: "32 word"
  assume a: "ahead h pos cs" "None \<notin> set cs" "5 \<le> length cs"
  show "safe_result (length cs) pos (if m_write_pos h < pos + 1 + 4 + (4 * 3 + 1) * unat num then Done (False, pos, [])
      else run_bind (get_attributes_loop (unat num) h (pos + 1 + 4) []) (\<lambda>(q, attrs). Done (True, q, attrs)))"
  proof (rule safe_guard [OF a(1), where n = "5 + 13 * unat num"])
    assume l: "5 + 13 * unat num \<le> length cs"
    have "None \<notin> set (drop 5 cs)" using a(2) by (meson in_set_dropD)
    moreover have "13 * unat num \<le> length (drop 5 cs)" using l unfolding length_drop by linarith
    ultimately
    obtain as where "get_attributes_loop (unat num) h (pos + 5) [] = Done (pos + 5 + 13 * unat num, as)"
      using get_attributes_loop_safe [OF ahead_drop [OF a(1,3)]] by blast
    with l show "safe_result (length cs) pos
      (run_bind (get_attributes_loop (unat num) h (pos + 1 + 4) []) (\<lambda>(q, attrs). Done (True, q, attrs)))"
      by (simp add: safe_success [where k = "5 + 13 * unat num"] add.commute)
  qed simp
qed simp_all

lemma get_uint32_loop_safe:
  "ahead h pos cs \<Longrightarrow> None \<notin> set cs \<Longrightarrow> 4 * n \<le> length cs \<Longrightarrow>
   \<exists>vs. get_uint32_loop n h pos acc = Done (pos + 4 * n, vs)"
proof (induction n arbitrary: pos cs acc)
  case (Suc n)
  note a = Suc.prems
  obtain v where v: "read_uint32 pos h = Done v" using ahead_uint32 [OF a(1,2), of 0] a(3) by auto
  have "None \<notin> set (drop 4 cs)" using a(2) by (meson in_set_dropD)
  moreover have "4 \<le> length cs" "4 * n \<le> length (drop 4 cs)" using a(3) by auto
  ultimately have ih: "\<exists>vs. get_uint32_loop n h (pos + 4) acc = Done (pos + 4 + 4 * n, vs)" for acc
    using Suc.IH [OF ahead_drop [OF a(1)]] by blast
  from v ih [of "acc @ [v]"] show ?case by (simp add: ac_simps)
qed simp

lemma get_vector_uint32_safe: "reads_safely get_vector_uint32"
  unfolding get_vector_uint32_def
proof (rule if_type_safe, rule safe_guard [where n = 5], assumption, simp, rule safe_uint32 [where k = 1])
  fix h pos cs and x :: "32 word list" and num :: "32 word"
  assume a: "ahead h pos cs" "None \<notin> set cs" "5 \<le> length cs"
  show "safe_result (length cs) pos (if m_write_pos h < pos + 1 + 4 + 4 * unat num then Done (False, pos, x)
      else run_bind (get_uint32_loop (unat num) h (pos + 1 + 4) []) (\<lambda>(q, vec). Done (True, q, vec)))"
  proof (rule safe_guard [OF a(1), where n = "5 + 4 * unat num"])
    assume l: "5 + 4 * unat num \<le> length cs"
    have "None \<notin> set (drop 5 cs)" using a(2) by (meson in_set_dropD)
    moreover have "4 * unat num \<le> length (drop 5 cs)" using l unfolding length_drop by linarith
    ultimately
    obtain vs where "get_uint32_loop (unat num) h (pos + 5) [] = Done (pos + 5 + 4 * unat num, vs)"
      using get_uint32_loop_safe [OF ahead_drop [OF a(1,3)]] by blast
    with l show "safe_result (length cs) pos
      (run_bind (get_uint32_loop (unat num) h (pos + 1 + 4) []) (\<lambda>(q, vec). Done (True, q, vec)))"
      by (simp add: safe_success [where k = "5 + 4 * unat num"] add.commute)
  qed simp
qed simp_all

text \<open>A vector whose elements are read safely.\<close>

lemma get_each_safe:
  assumes "reads_safely get"
  shows "ahead h pos cs \<Longrightarrow> None \<notin> set cs \<Longrightarrow>
    \<exists>ok k vs. get_each get n h pos x acc = Done (ok, pos + k, vs) \<and> k \<le> length cs"
proof (induction n arbitrary: pos cs x acc)
  case 0
  then show ?case by (intro exI [of _ True] exI [of _ 0]) simp
next
  case (Suc n)
  from reads_safelyD [OF assms Suc.prems] obtain ok k x' where
    g: "get h pos x = Done (ok, pos + k, x')" "k \<le> length cs" by blast
  show ?case
  proof (cases ok)
    case True
    have "None \<notin> set (drop k cs)" using Suc.prems(2) by (meson in_set_dropD)
    from Suc.IH [OF ahead_drop [OF Suc.prems(1) g(2)] this, of x' "acc @ [x']"] obtain ok' k' vs where
      "get_each get n h (pos + k) x' (acc @ [x']) = Done (ok', pos + k + k', vs)" "k' \<le> length cs - k" by auto
    with g True show ?thesis by (intro exI [of _ ok'] exI [of _ "k + k'"] exI [of _ vs]) (simp add: add.assoc)
  next
    case False
    with g show ?thesis by (intro exI [of _ False] exI [of _ k] exI [of _ acc]) simp
  qed
qed

lemma safe_each:
  assumes "reads_safely get" "ahead h pos cs" "None \<notin> set cs" "p = pos + k" "k \<le> length cs"
    and "\<And>ok j vs. k + j \<le> length cs \<Longrightarrow> safe_result m pos (f (ok, pos + (k + j), vs))"
  shows "safe_result m pos (run_bind (get_each get n h p x acc) f)"
proof -
  have "None \<notin> set (drop k cs)" using assms(3) by (meson in_set_dropD)
  from get_each_safe [OF assms(1) ahead_drop [OF assms(2,5)] this, of n x acc] obtain ok j vs where
    "get_each get n h (pos + k) x acc = Done (ok, pos + k + j, vs)" "j \<le> length cs - k" by auto
  with assms(4,5) assms(6) [of j ok vs] show ?thesis by (simp add: add.assoc)
qed

lemma get_vector_safe: "reads_safely get \<Longrightarrow> reads_safely (get_vector ty get x0)"
  unfolding get_vector_def
proof (rule if_type_safe, rule safe_guard [where n = 5], assumption, simp, rule safe_uint32 [where k = 1])
  fix h pos cs and x and num :: "32 word"
  assume g: "reads_safely get" and a: "ahead h pos cs" "None \<notin> set cs" "5 \<le> length cs"
  show "safe_result (length cs) pos (run_bind (get_each get (unat num) h (pos + 1 + 4) x0 [])
      (\<lambda>(ok, q, vec). if ok then Done (True, q, vec) else Done (False, pos, vec)))"
    by (rule safe_each [OF g a(1,2), where k = 5]) (use a(3) in \<open>auto intro: safe_fail safe_success\<close>)
qed simp_all

lemma get_raw_safe: "reads_safely (get_raw want)"
  unfolding get_raw_def Let_def
proof (rule if_type_safe)
  fix h pos cs and x :: "8 word option list option \<times> nat"
  assume a: "ahead h pos cs" "None \<notin> set cs"
  obtain raw size where x: "x = (raw, size)" by fastforce
  have copy: "\<exists>bs. copy_cells (pos + 1 + 4) n h = Done bs" if "5 + n \<le> length cs" for n
    using ahead_split [OF a, of 5 n] that by (auto simp: read_bytes_def add.commute)
  have body: "safe_result (length cs) pos
      (if n = 0 \<or> m_write_pos h < pos + 1 + 4 + n then Done (False, pos, raw, n)
       else if want then run_bind (copy_cells (pos + 1 + 4) n h) (\<lambda>cs. Done (True, pos + 1 + 4 + n, Some cs, n))
       else Done (True, pos + 1 + 4 + n, raw, n))" for n
  proof (cases "n = 0 \<or> m_write_pos h < pos + 1 + 4 + n")
    case False
    then have l: "5 + n \<le> length cs" using ahead_write_pos [OF a(1)] by simp
    from copy [OF l] l False show ?thesis by (auto intro!: safe_success [where k = "5 + n"])
  qed (simp add: safe_fail)
  show "safe_result (length cs) pos (case x of (raw, bufsize) \<Rightarrow>
       if m_write_pos h < pos + 4 + 1 then Done (False, pos, raw, bufsize)
       else run_bind (read_uint32 (pos + 1) h) (\<lambda>n.
         if unat n = 0 \<or> m_write_pos h < pos + 1 + 4 + unat n then Done (False, pos, raw, unat n)
         else if want then run_bind (copy_cells (pos + 1 + 4) (unat n) h) (\<lambda>cs. Done (True, pos + 1 + 4 + unat n, Some cs, unat n))
         else Done (True, pos + 1 + 4 + unat n, raw, unat n)))"
    unfolding x prod.case
    by (rule safe_guard [OF a(1), where n = 5], simp, rule safe_uint32 [OF a, where k = 1])
      (use body in simp_all)
qed


text \<open>Lookup tables, and transactions inside transactions: the other transaction has to have a
  buffer of the size it says.\<close>

lemma get_candidates_safe:
  "ahead h pos cs \<Longrightarrow> None \<notin> set cs \<Longrightarrow> \<exists>ok k t'. get_candidates n h pos t = Done (ok, pos + k, t') \<and> k \<le> length cs"
proof (induction n arbitrary: pos cs t)
  case 0
  then show ?case by (intro exI [of _ True] exI [of _ 0]) simp
next
  case (Suc n)
  note a = Suc.prems
  from reads_safelyD [OF get_wstring_safe a, of "[]"] obtain ok1 k1 c where
    c: "get_wstring h pos [] = Done (ok1, pos + k1, c)" "k1 \<le> length cs" by blast
  have n1: "None \<notin> set (drop k1 cs)" using a(2) by (meson in_set_dropD)
  from reads_safelyD [OF get_attribute_list_safe ahead_drop [OF a(1) c(2)] n1, of "[]"] obtain ok2 k2 as where
    as: "get_attribute_list h (pos + k1) [] = Done (ok2, pos + k1 + k2, as)" "k2 \<le> length cs - k1" by auto
  have le: "k1 + k2 \<le> length cs" using c(2) as(2) by simp
  have n2: "None \<notin> set (drop (k1 + k2) cs)" using a(2) by (meson in_set_dropD)
  from Suc.IH [OF ahead_drop [OF a(1) le] n2, of "snd (append_candidate c as t)"] obtain ok3 k3 t' where
    "get_candidates n h (pos + (k1 + k2)) (snd (append_candidate c as t)) = Done (ok3, pos + (k1 + k2) + k3, t')"
    "k3 \<le> length cs - (k1 + k2)" by auto
  then have rest: "get_candidates n h (pos + k1 + k2) (snd (append_candidate c as t)) = Done (ok3, pos + (k1 + k2 + k3), t')"
    "k1 + k2 + k3 \<le> length cs" using le by (simp_all add: add.assoc)
  show ?case
  proof (cases "ok1 \<and> ok2")
    case True
    then have "get_candidates (Suc n) h pos t = Done (ok3, pos + (k1 + k2 + k3), t')"
      using c(1) as(1) rest(1) by simp
    with rest(2) show ?thesis by blast
  next
    case False
    then have "get_candidates (Suc n) h pos t = Done (False, pos + (if ok1 then k1 + k2 else k1), t)"
      using c(1) as(1) by (auto simp: add.assoc)
    with le c(2) show ?thesis by (metis (full_types))
  qed
qed

lemma get_lookup_table_safe: "reads_safely get_lookup_table"
  unfolding get_lookup_table_def Let_def
proof (rule if_type_safe, rule safe_guard [where n = 4], assumption, simp, rule safe_byte [where k = 1])
  fix h pos cs x and stat :: "8 word"
  assume a: "ahead h pos cs" "None \<notin> set cs" "4 \<le> length cs"
  have table: "safe_result (length cs) pos (run_bind (get_candidates n h (pos + k) t) (\<lambda>(ok, q, t').
      if \<not> ok then Done (False, pos, t') else Done (True, q, f t')))"
    if "4 \<le> k" "k \<le> length cs" for n k t f
  proof -
    have "None \<notin> set (drop k cs)" using a(2) by (meson in_set_dropD)
    from get_candidates_safe [OF ahead_drop [OF a(1) that(2)] this, of n t] obtain ok j t' where
      "get_candidates n h (pos + k) t = Done (ok, pos + k + j, t')" "j \<le> length cs - k" by auto
    with that show ?thesis by (auto intro!: safe_fail safe_success [where k = "k + j"])
  qed
  note each = safe_each [OF get_wstring_safe a(1,2), where k = 4]
  show "safe_result (length cs) pos (run_bind (read_byte (pos + 1 + 1) h) (\<lambda>page_size.
       run_bind (read_byte (pos + 1 + 1 + 1) h) (\<lambda>cursor_pos.
       if uint page_size > SCIM_LOOKUP_TABLE_MAX_PAGESIZE \<or>
          (uint cursor_pos \<ge> uint page_size \<and> uint page_size > 0)
       then Done (False, pos, clear_table x)
       else run_bind (get_each get_wstring (unat page_size) h (pos + 1 + 1 + 1 + 1) [] []) (\<lambda>(ok, q, labels).
         if \<not> ok then Done (False, pos, set_page_size (number_of_candidates (clear_table x)) (uint page_size) (clear_table x))
         else run_bind (get_candidates (unat page_size) h q
             (if stat AND 1 \<noteq> 0
              then snd (append_candidate_char 0x3400 [] (set_candidate_labels labels
                (set_page_size (number_of_candidates (clear_table x)) (uint page_size) (clear_table x))))
              else set_candidate_labels labels
                (set_page_size (number_of_candidates (clear_table x)) (uint page_size) (clear_table x)))) (\<lambda>(ok, q, t4).
           if \<not> ok then Done (False, pos, t4)
           else Done (True, q, finish_table stat (uint page_size) (uint cursor_pos) t4))))))"
    using a(3) by (intro safe_byte [OF a(1,2), where k = 2] safe_byte [OF a(1,2), where k = 3])
      (auto intro!: safe_fail each table simp: add.commute)
qed auto

lemma get_transaction_safe:
  assumes a: "ahead h pos cs" "None \<notin> set cs"
    and other: "length (m_bytes (m_holder other)) = m_buffer_size (m_holder other)"
  shows "safe_result (length cs) pos (get_transaction h pos other)"
proof -
  let ?body = "\<lambda>h pos other. if m_write_pos h < pos + 4 + 1 then Done (False, pos, other)
      else run_bind (read_uint32 (pos + 1) h) (\<lambda>n.
        if m_write_pos h < pos + 1 + 4 + unat n then Done (False, pos, other)
        else run_bind (copy_cells (pos + 1 + 4) (unat n) h) (\<lambda>cs.
          run_bind (store_cells 0 cs (request_buffer_size (unat n) (m_holder other))) (\<lambda>g.
          Done (True, pos + 1 + 4 + unat n,
            other\<lparr>m_holder := g\<lparr>m_write_pos := unat n\<rparr>, m_read_pos := SCIM_TRANS_HEADER_SIZE\<rparr>))))"
  have copy: "\<exists>xs. copy_cells (pos + 1 + 4) n h = Done xs \<and> length xs = n" if "5 + n \<le> length cs" for n
    using ahead_split [OF a, of 5 n] that by (auto simp: read_bytes_def add.commute split: if_splits)
  have store: "\<exists>g. store_cells 0 xs (request_buffer_size (length xs) (m_holder other)) = Done g" for xs
    using other by (auto simp: store_cells_def request_buffer_size_def Let_def)
  have "safe_result (length cs) pos (?body h pos other)"
  proof (rule safe_guard [OF a(1), where n = 5], simp, rule safe_uint32 [OF a, where k = 1], simp, simp)
    fix n :: "32 word"
    show "safe_result (length cs) pos (if m_write_pos h < pos + 1 + 4 + unat n then Done (False, pos, other)
        else run_bind (copy_cells (pos + 1 + 4) (unat n) h) (\<lambda>cs.
          run_bind (store_cells 0 cs (request_buffer_size (unat n) (m_holder other))) (\<lambda>g.
          Done (True, pos + 1 + 4 + unat n,
            other\<lparr>m_holder := g\<lparr>m_write_pos := unat n\<rparr>, m_read_pos := SCIM_TRANS_HEADER_SIZE\<rparr>))))"
    proof (rule safe_guard [OF a(1), where n = "5 + unat n"], simp)
      assume l: "5 + unat n \<le> length cs"
      from copy [OF l] obtain xs where xs: "copy_cells (pos + 1 + 4) (unat n) h = Done xs" "length xs = unat n" by blast
      from store [of xs] obtain g where
        "store_cells 0 xs (request_buffer_size (unat n) (m_holder other)) = Done g" using xs(2) by auto
      with xs(1) l show "safe_result (length cs) pos (run_bind (copy_cells (pos + 1 + 4) (unat n) h) (\<lambda>cs.
          run_bind (store_cells 0 cs (request_buffer_size (unat n) (m_holder other))) (\<lambda>g.
          Done (True, pos + 1 + 4 + unat n,
            other\<lparr>m_holder := g\<lparr>m_write_pos := unat n\<rparr>, m_read_pos := SCIM_TRANS_HEADER_SIZE\<rparr>))))"
        by (simp only: run_bind.simps) (rule safe_success [where k = "5 + unat n"], simp_all)
    qed
  qed
  moreover have "if_type SCIM_TRANS_DATA_TRANSACTION ?body h pos other =
      (if cs \<noteq> [] \<and> read_byte pos h = Done SCIM_TRANS_DATA_TRANSACTION then ?body h pos other else Done (False, pos, other))"
    using ahead_byte [OF a, of 0] ahead_valid [OF a(1)] ahead_write_pos [OF a(1)]
    by (cases "cs = []") (auto simp only: if_type_def simp_thms if_True if_False, auto)
  ultimately show ?thesis
    unfolding get_transaction_def Let_def by (simp only: safe_fail split: if_split) simp
qed

end
