(* ===== verification/Core_Items.thy ===== *)
theory Core_Items
  imports Core_Format
begin

text \<open>
  Every pair of a \<^verbatim>\<open>put_data\<close> and a \<^verbatim>\<open>get_data\<close> is a format (\<open>data_format\<close>), and transactions of any
  items are read back as they were written.
\<close>

section \<open>Getting what was put\<close>

lemma bytes_eq: "map Some (b # bs) @ cs = Some b # map Some bs @ cs"
  by simp

text \<open>An item that begins with a type and a number.\<close>

lemma ahead_header:
  assumes "ahead h pos (map Some (ty # scim_uint32tobytes n @ bs) @ cs)"
  shows "if_type ty body h pos x = body h pos x" "read_uint32 (pos + 1) h = Done n"
    "ahead h (pos + 1 + 4) (map Some bs @ cs)" "m_write_pos h = pos + (5 + length bs + length cs)"
proof -
  have a: "ahead h pos (Some ty # map Some (scim_uint32tobytes n) @ map Some bs @ cs)" using assms by simp
  show "if_type ty body h pos x = body h pos x" using if_type_eq [OF a] .
  note b = ahead_Cons [OF a]
  show "read_uint32 (pos + 1) h = Done n" using ahead_read_uint32 [OF b] .
  show "ahead h (pos + 1 + 4) (map Some bs @ cs)" using ahead_append [OF b, of 4] by simp
  show "m_write_pos h = pos + (5 + length bs + length cs)" using ahead_write_pos [OF a] by simp
qed

text \<open>Vectors of data that has a format have one.\<close>

lemma unat_length: "length s < 4294967296 \<Longrightarrow> unat (of_nat (length s) :: 32 word) = length s"
  by (simp add: unat_of_nat take_bit_nat_eq_self)

context data_format
begin

lemma vector_enc:
  assumes "list_all ok vs" "length vs < 4294967296" "out x0"
    and "ahead h pos (map Some (enc_vector ty enc vs) @ cs)"
  shows "get_vector ty get x0 h pos x = Done (True, pos + length (enc_vector ty enc vs), vs)"
proof -
  note a = ahead_header [OF assms(4) [unfolded enc_vector_def]]
  show ?thesis
    unfolding get_vector_def a(1)
    using a(2,4) get_each_enc [OF assms(1,3) a(3)] unat_length [OF assms(2)] by (simp add: enc_vector_def)
qed

lemma vector_format:
  assumes "out x0"
  shows "data_format (put_vector ty put) (get_vector ty get x0) (enc_vector ty enc)
    (\<lambda>vs. list_all ok vs \<and> length vs < 4294967296) (\<lambda>_. True)"
proof
  show "writes 0 (map Some (enc_vector ty enc vs)) (put_vector ty put vs)"
    if "list_all ok vs \<and> length vs < 4294967296" for vs
    using that put_writes by (intro writes_put_vector) (auto simp: list_all_iff)
  show "get_vector ty get x0 h pos x = Done (True, pos + length (enc_vector ty enc vs), vs)"
    if "list_all ok vs \<and> length vs < 4294967296" "True" "ahead h pos (map Some (enc_vector ty enc vs) @ cs)"
    for vs x h pos cs
    using that vector_enc [of vs x0] assms by blast
  show "reads_safely (get_vector ty get x0)" by (rule get_vector_safe [OF get_safe])
qed simp

end

lemma get_command_enc:
  assumes "- 2147483648 \<le> v" "v < 2147483648"
    and "ahead h pos (map Some (SCIM_TRANS_DATA_COMMAND # scim_uint32tobytes (word_of_int v)) @ cs)"
  shows "get_command h pos x = Done (True, pos + 5, v)"
proof -
  note a = ahead_header [of h pos SCIM_TRANS_DATA_COMMAND "word_of_int v" "[]" cs, simplified append_Nil2, OF assms(3)]
  have "sint (word_of_int v :: 32 word) = v" using sint_word_of_int_range assms by simp
  then show ?thesis unfolding get_command_def a(1) using a(2,4) by simp
qed

lemma get_uint32_enc:
  assumes "ahead h pos (map Some (SCIM_TRANS_DATA_UINT32 # scim_uint32tobytes v) @ cs)"
  shows "get_uint32 h pos x = Done (True, pos + 5, v)"
proof -
  note a = ahead_header [of h pos SCIM_TRANS_DATA_UINT32 v "[]" cs, simplified append_Nil2, OF assms]
  show ?thesis unfolding get_uint32_def a(1) using a(2,4) by simp
qed

lemma length_enc_string [simp]: "length (enc_string ty s) = 5 + length s"
  by (simp add: enc_string_def)

lemma get_string_enc:
  assumes "length s < 4294967296" "ahead h pos (map Some (enc_string SCIM_TRANS_DATA_STRING s) @ cs)"
  shows "get_string h pos x = Done (True, pos + length (enc_string SCIM_TRANS_DATA_STRING s), s)"
proof -
  note a = ahead_header [OF assms(2) [unfolded enc_string_def]]
  have "read_bytes (pos + 1 + 4) (length s) h = Done s" using ahead_read [OF a(3)] by simp
  then show ?thesis unfolding get_string_def a(1) using a(2,4) unat_length [OF assms(1)] by simp
qed

lemma get_wstring_enc:
  assumes "utf8_units ws" "length (utf8_wcstombs sg ws) < 4294967296"
    and "ahead h pos (map Some (enc_string SCIM_TRANS_DATA_WSTRING (utf8_wcstombs sg ws)) @ cs)"
  shows "get_wstring h pos x = Done (True, pos + length (enc_string SCIM_TRANS_DATA_WSTRING (utf8_wcstombs sg ws)), ws)"
proof -
  note a = ahead_header [OF assms(3) [unfolded enc_string_def]]
  have "read_bytes (pos + 1 + 4) (length (utf8_wcstombs sg ws)) h = Done (utf8_wcstombs sg ws)"
    using ahead_read [OF a(3)] by simp
  then show ?thesis
    unfolding get_wstring_def a(1) using a(2,4) unat_length [OF assms(2)] mbstowcs_wcstombs [OF assms(1)] by simp
qed

lemma get_raw_enc:
  assumes "bs \<noteq> []" "length bs < 4294967296" "ahead h pos (map Some (enc_string SCIM_TRANS_DATA_RAW bs) @ cs)"
  shows "get_raw True h pos x = Done (True, pos + length (enc_string SCIM_TRANS_DATA_RAW bs), (Some (map Some bs), length bs))"
proof -
  note a = ahead_header [OF assms(3) [unfolded enc_string_def]]
  have "copy_cells (pos + 1 + 4) (length bs) h = Done (map Some bs)" using ahead_copy [OF a(3)] by simp
  then show ?thesis
    unfolding get_raw_def a(1) using a(2,4) unat_length [OF assms(2)] assms(1) by (cases x) (simp add: Let_def)
qed

lemma get_key_event_enc:
  assumes "ahead h pos (map Some (enc_key_event k) @ cs)"
  shows "get_key_event h pos x = Done (True, pos + 9, k)"
proof -
  note a = ahead_header [OF assms [unfolded enc_key_event_def]]
  from a(3) have b: "ahead h (pos + 1 + 4) (map Some (scim_uint16tobytes (key_mask k))
      @ map Some (scim_uint16tobytes (key_layout k)) @ cs)" by simp
  have c: "ahead h (pos + 1 + 4 + 2) (map Some (scim_uint16tobytes (key_layout k)) @ cs)"
    using ahead_append [OF b, of 2] by simp
  show ?thesis
    unfolding get_key_event_def a(1)
    using a(2,4) ahead_read_uint16 [OF b] ahead_read_uint16 [OF c] by simp
qed


lemma ucast_type: "(t :: 32 word) < 256 \<Longrightarrow> ucast (ucast t :: 8 word) = t"
proof -
  assume "t < 256"
  then have t: "uint t < 256" by (simp add: word_less_def)
  have "uint (ucast t :: 8 word) = uint t"
    using t by (simp only: unsigned_ucast_eq) (simp add: take_bit_int_eq_self)
  then have "uint (ucast (ucast t :: 8 word) :: 32 word) = uint t"
    using t by (subst unsigned_ucast_eq) (simp only:, simp add: take_bit_int_eq_self)
  then show ?thesis by (simp only: word_uint_eq_iff)
qed

lemma get_attributes_loop_enc:
  "list_all (\<lambda>a. m_type a < 256) as \<Longrightarrow> ahead h pos (map Some (concat (map enc_attribute as)) @ cs) \<Longrightarrow>
   get_attributes_loop (length as) h pos acc = Done (pos + 13 * length as, acc @ as)"
proof (induction as arbitrary: pos acc)
  case (Cons a as)
  from Cons.prems(2) have b: "ahead h pos (Some (ucast (m_type a)) # map Some (scim_uint32tobytes (m_value a))
      @ map Some (scim_uint32tobytes (m_start a)) @ map Some (scim_uint32tobytes (m_length a))
      @ map Some (concat (map enc_attribute as)) @ cs)"
    by (simp add: enc_attribute_def [of a])
  note b1 = ahead_Cons [OF b]
  have b2: "ahead h (pos + 1 + 4) (map Some (scim_uint32tobytes (m_start a)) @ map Some (scim_uint32tobytes (m_length a))
      @ map Some (concat (map enc_attribute as)) @ cs)" using ahead_append [OF b1, of 4] by simp
  have b3: "ahead h (pos + 1 + 4 + 4) (map Some (scim_uint32tobytes (m_length a))
      @ map Some (concat (map enc_attribute as)) @ cs)" using ahead_append [OF b2, of 4] by simp
  have b4: "ahead h (pos + 1 + 4 + 4 + 4) (map Some (concat (map enc_attribute as)) @ cs)"
    using ahead_append [OF b3, of 4] by simp
  have "m_type a < 256" "list_all (\<lambda>a. m_type a < 256) as" using Cons.prems(1) by simp_all
  with Cons.IH [OF _ b4] ucast_type [of "m_type a"] show ?case
    using ahead_read_byte [OF b] ahead_read_uint32 [OF b1] ahead_read_uint32 [OF b2] ahead_read_uint32 [OF b3]
    by (simp add: ac_simps)
qed simp

lemma length_enc_attributes: "length (concat (map enc_attribute as)) = 13 * length as"
  by (induction as) simp_all

lemma get_attribute_list_enc:
  assumes "list_all (\<lambda>a. m_type a < 256) as" "length as < 4294967296"
    and "ahead h pos (map Some (enc_attribute_list as) @ cs)"
  shows "get_attribute_list h pos x = Done (True, pos + length (enc_attribute_list as), as)"
proof -
  note a = ahead_header [OF assms(3) [unfolded enc_vector_def]]
  show ?thesis
    unfolding get_attribute_list_def a(1)
    using a(2,4) get_attributes_loop_enc [OF assms(1) a(3)] unat_length [OF assms(2)]
    by (simp add: enc_vector_def length_enc_attributes ac_simps)
qed

lemma get_uint32_loop_enc:
  "ahead h pos (map Some (concat (map scim_uint32tobytes vs)) @ cs) \<Longrightarrow>
   get_uint32_loop (length vs) h pos acc = Done (pos + 4 * length vs, acc @ vs)"
proof (induction vs arbitrary: pos acc)
  case (Cons v vs)
  from Cons.prems have a: "ahead h pos (map Some (scim_uint32tobytes v) @ map Some (concat (map scim_uint32tobytes vs)) @ cs)"
    by simp
  have "ahead h (pos + 4) (map Some (concat (map scim_uint32tobytes vs)) @ cs)"
    using ahead_append [OF a, of 4] by simp
  from Cons.IH [OF this] ahead_read_uint32 [OF a] show ?case by (simp add: ac_simps)
qed simp

lemma length_enc_uint32s: "length (concat (map scim_uint32tobytes vs)) = 4 * length vs"
  by (induction vs) simp_all

lemma get_vector_uint32_enc:
  assumes "length vs < 4294967296"
    and "ahead h pos (map Some (enc_vector SCIM_TRANS_DATA_VECTOR_UINT32 scim_uint32tobytes vs) @ cs)"
  shows "get_vector_uint32 h pos x
    = Done (True, pos + length (enc_vector SCIM_TRANS_DATA_VECTOR_UINT32 scim_uint32tobytes vs), vs)"
proof -
  note a = ahead_header [OF assms(2) [unfolded enc_vector_def]]
  show ?thesis
    unfolding get_vector_uint32_def a(1)
    using a(2,4) get_uint32_loop_enc [OF a(3)] unat_length [OF assms(1)]
    by (simp add: enc_vector_def length_enc_uint32s ac_simps)
qed


text \<open>A property has two bits of state, and both are sent.\<close>

definition sendable_property :: "Property \<Rightarrow> bool" where
  "sendable_property p \<longleftrightarrow> m_state p < 4 \<and> length (m_key p) < 4294967296 \<and> length (m_label p) < 4294967296 \<and>
     length (m_icon p) < 4294967296 \<and> length (m_tip p) < 4294967296"

lemma two_bits: "(s :: 16 word) < 4 \<Longrightarrow> s = 0 \<or> s = 1 \<or> s = 2 \<or> s = 3"
proof -
  assume "s < 4"
  then have "unat s < 4" by (simp add: word_less_nat_alt)
  then have "unat s = 0 \<or> unat s = 1 \<or> unat s = 2 \<or> unat s = 3" by linarith
  then show ?thesis by (auto simp: word_unat_eq_iff)
qed

lemma property_rebuilt:
  assumes "m_state p < 4" "m_state x < 4"
  shows "set_active (property_active p) (show_property (property_visible p)
    (x\<lparr>m_key := m_key p, m_label := m_label p, m_icon := m_icon p, m_tip := m_tip p\<rparr>)) = p"
  using two_bits [OF assms(1)] two_bits [OF assms(2)]
  by (cases p; cases x) (auto simp: set_active_def show_property_def property_active_def property_visible_def
      SCIM_PROPERTY_ACTIVE_def SCIM_PROPERTY_VISIBLE_def)

lemma get_property_enc:
  assumes p: "sendable_property p" and x: "m_state x < 4"
    and a: "ahead h pos (map Some (enc_property p) @ cs)"
  shows "get_property h pos x = Done (True, pos + length (enc_property p), p)"
proof -
  let ?S = "enc_string SCIM_TRANS_DATA_STRING"
  let ?flags = "[of_bool (property_visible p), of_bool (property_active p)] :: bytes"
  from a have a0: "ahead h pos (Some SCIM_TRANS_DATA_PROPERTY # map Some (?S (m_key p)) @ map Some (?S (m_label p))
      @ map Some (?S (m_icon p)) @ map Some (?S (m_tip p)) @ map Some ?flags @ cs)"
    by (simp add: enc_property_def)
  let ?q1 = "pos + 1" and ?q2 = "pos + 1 + (5 + length (m_key p))"
  let ?q3 = "?q2 + (5 + length (m_label p))" let ?q4 = "?q3 + (5 + length (m_icon p))"
  let ?q5 = "?q4 + (5 + length (m_tip p))"
  note a1 = ahead_Cons [OF a0]
  note a2 = ahead_append [OF a1, of "5 + length (m_key p)", simplified length_map length_enc_string, OF refl]
  note a3 = ahead_append [OF a2, of "5 + length (m_label p)", simplified length_map length_enc_string, OF refl]
  note a4 = ahead_append [OF a3, of "5 + length (m_icon p)", simplified length_map length_enc_string, OF refl]
  note a5 = ahead_append [OF a4, of "5 + length (m_tip p)", simplified length_map length_enc_string, OF refl]
  have l: "length (m_key p) < 4294967296" "length (m_label p) < 4294967296" "length (m_icon p) < 4294967296"
    "length (m_tip p) < 4294967296" and s: "m_state p < 4" using p by (simp_all add: sendable_property_def)
  note get = get_string_enc [OF l(1) a1, unfolded length_enc_string] get_string_enc [OF l(2) a2, unfolded length_enc_string]
    get_string_enc [OF l(3) a3, unfolded length_enc_string] get_string_enc [OF l(4) a4, unfolded length_enc_string]
  from a5 have f: "ahead h ?q5 (Some (of_bool (property_visible p)) # Some (of_bool (property_active p)) # cs)" by simp
  note flags = ahead_read_byte [OF f] ahead_read_byte [OF ahead_Cons [OF f]]
  have w: "\<not> m_write_pos h < pos + 4 * 4 + 3" "\<not> m_write_pos h < ?q5 + 2"
    using ahead_write_pos [OF a0] ahead_write_pos [OF f] by simp_all
  have b: "(of_bool B \<noteq> (0 :: 8 word)) = B" for B by simp
  have "get_property h pos x = Done (True, ?q5 + 1 + 1, p)"
    unfolding get_property_def if_type_eq [OF a0] Let_def
    by (simp only: w if_False get run_bind.simps prod.case not_True_eq_False flags b
        property_rebuilt [OF s x])
  then show ?thesis by (simp add: enc_property_def)
qed


section \<open>The formats\<close>

interpretation command_data: data_format put_command get_command
  "\<lambda>v. SCIM_TRANS_DATA_COMMAND # scim_uint32tobytes (word_of_int v)"
  "\<lambda>v. - 2147483648 \<le> v \<and> v < 2147483648" "\<lambda>_. True"
  by unfold_locales (simp_all add: writes_put_command get_command_enc get_command_safe del: list.map)

interpretation uint32_data: data_format put_uint32 get_uint32
  "\<lambda>v. SCIM_TRANS_DATA_UINT32 # scim_uint32tobytes v" "\<lambda>_. True" "\<lambda>_. True"
  by unfold_locales (simp_all add: writes_put_uint32 get_uint32_enc get_uint32_safe del: list.map)

interpretation string_data: data_format put_string get_string "enc_string SCIM_TRANS_DATA_STRING"
  "\<lambda>s. length s < 4294967296" "\<lambda>_. True"
  by unfold_locales (simp_all only: writes_put_string get_string_enc get_string_safe)

interpretation wstring_data: data_format "put_wstring sg" get_wstring
  "\<lambda>ws. enc_string SCIM_TRANS_DATA_WSTRING (utf8_wcstombs sg ws)"
  "\<lambda>ws. utf8_units ws \<and> length (utf8_wcstombs sg ws) < 4294967296" "\<lambda>_. True" for sg
  by unfold_locales (simp_all only: writes_put_wstring get_wstring_enc get_wstring_safe)

interpretation key_data: data_format put_key_event get_key_event enc_key_event "\<lambda>_. True" "\<lambda>_. True"
  by unfold_locales (simp_all add: writes_put_key_event get_key_event_enc get_key_event_safe enc_key_event_def [THEN arg_cong [where f = length]])

interpretation attributes_data: data_format put_attribute_list get_attribute_list enc_attribute_list
  "\<lambda>as. list_all (\<lambda>a. m_type a < 256) as \<and> length as < 4294967296" "\<lambda>_. True"
  by unfold_locales (simp_all only: writes_put_attribute_list get_attribute_list_enc get_attribute_list_safe)

interpretation property_data: data_format put_property get_property enc_property
  sendable_property "\<lambda>p. m_state p < 4"
  by unfold_locales (simp_all only: writes_put_property get_property_enc get_property_safe, simp add: sendable_property_def)

interpretation uint32s_data: data_format put_vector_uint32 get_vector_uint32
  "enc_vector SCIM_TRANS_DATA_VECTOR_UINT32 scim_uint32tobytes" "\<lambda>vs. length vs < 4294967296" "\<lambda>_. True"
  by unfold_locales (simp_all only: writes_put_vector_uint32 get_vector_uint32_enc get_vector_uint32_safe)

interpretation properties_data: data_format put_property_list get_property_list
  "enc_vector SCIM_TRANS_DATA_PROPERTY_LIST enc_property"
  "\<lambda>ps. list_all sendable_property ps \<and> length ps < 4294967296" "\<lambda>_. True"
  unfolding put_property_list_def get_property_list_def
  by (rule property_data.vector_format) (simp add: empty_property_def)

interpretation strings_data: data_format put_vector_string get_vector_string
  "enc_vector SCIM_TRANS_DATA_VECTOR_STRING (enc_string SCIM_TRANS_DATA_STRING)"
  "\<lambda>ss. list_all (\<lambda>s. length s < 4294967296) ss \<and> length ss < 4294967296" "\<lambda>_. True"
  unfolding put_vector_string_def get_vector_string_def
  by (rule string_data.vector_format) simp

interpretation wstrings_data: data_format "put_vector_wstring sg" get_vector_wstring
  "enc_vector SCIM_TRANS_DATA_VECTOR_WSTRING (\<lambda>ws. enc_string SCIM_TRANS_DATA_WSTRING (utf8_wcstombs sg ws))"
  "\<lambda>wss. list_all (\<lambda>ws. utf8_units ws \<and> length (utf8_wcstombs sg ws) < 4294967296) wss \<and> length wss < 4294967296"
  "\<lambda>_. True" for sg
  unfolding put_vector_wstring_def get_vector_wstring_def
  by (rule wstring_data.vector_format) simp


section \<open>Transactions of items\<close>

text \<open>An item of any of these kinds, how it is put, and how a reader that knows its kind gets it.\<close>

datatype item =
  Command int | Uint32 "32 word" | String bytes | Wide_String WideString | Key_Event KeyEvent
| Attributes "Attribute list" | Properties "Property list" | A_Property Property | Raw bytes
| Uint32s "32 word list" | Strings "bytes list" | Wide_Strings "WideString list"

primrec put_item :: "bool \<Rightarrow> item \<Rightarrow> TransactionHolder \<Rightarrow> TransactionHolder run" where
  "put_item sg (Command v) = put_command v"
| "put_item sg (Uint32 v) = put_uint32 v"
| "put_item sg (String v) = put_string v"
| "put_item sg (Wide_String v) = put_wstring sg v"
| "put_item sg (Key_Event v) = put_key_event v"
| "put_item sg (Attributes v) = put_attribute_list v"
| "put_item sg (Properties v) = put_property_list v"
| "put_item sg (A_Property v) = put_property v"
| "put_item sg (Raw v) = put_raw (Some v)"
| "put_item sg (Uint32s v) = put_vector_uint32 v"
| "put_item sg (Strings v) = put_vector_string v"
| "put_item sg (Wide_Strings v) = put_vector_wstring sg v"

definition got :: "('v \<Rightarrow> item) \<Rightarrow> (bool \<times> nat \<times> 'v) run \<Rightarrow> (bool \<times> nat \<times> item) run" where
  "got f r = run_bind r (\<lambda>(ok, pos, v). Done (ok, pos, f v))"

primrec get_like :: "item \<Rightarrow> TransactionHolder \<Rightarrow> nat \<Rightarrow> (bool \<times> nat \<times> item) run" where
  "get_like (Command _) h pos = got Command (get_command h pos 0)"
| "get_like (Uint32 _) h pos = got Uint32 (get_uint32 h pos 0)"
| "get_like (String _) h pos = got String (get_string h pos [])"
| "get_like (Wide_String _) h pos = got Wide_String (get_wstring h pos [])"
| "get_like (Key_Event _) h pos = got Key_Event (get_key_event h pos \<lparr>key_code = 0, key_mask = 0, key_layout = 0\<rparr>)"
| "get_like (Attributes _) h pos = got Attributes (get_attribute_list h pos [])"
| "get_like (Properties _) h pos = got Properties (get_property_list h pos [])"
| "get_like (A_Property _) h pos = got A_Property (get_property h pos empty_property)"
| "get_like (Raw _) h pos = got (\<lambda>(raw, size). Raw (map the (the raw))) (get_raw True h pos (None, 0))"
| "get_like (Uint32s _) h pos = got Uint32s (get_vector_uint32 h pos [])"
| "get_like (Strings _) h pos = got Strings (get_vector_string h pos [])"
| "get_like (Wide_Strings _) h pos = got Wide_Strings (get_vector_wstring h pos [])"

fun get_items :: "item list \<Rightarrow> TransactionHolder \<Rightarrow> nat \<Rightarrow> (bool \<times> nat \<times> item list) run" where
  "get_items [] h pos = Done (True, pos, [])"
| "get_items (i # is) h pos =
     run_bind (get_like i h pos) (\<lambda>(ok, q, v).
     if ok then run_bind (get_items is h q) (\<lambda>(ok, r, vs). Done (ok, r, v # vs)) else Done (False, q, []))"

text \<open>The items that can be sent: numbers of 32 bits, lengths below \<open>2 ^ 32\<close>, strings in UTF-8.\<close>

primrec sendable :: "bool \<Rightarrow> item \<Rightarrow> bool" where
  "sendable sg (Command v) \<longleftrightarrow> - 2147483648 \<le> v \<and> v < 2147483648"
| "sendable sg (Uint32 v) \<longleftrightarrow> True"
| "sendable sg (String v) \<longleftrightarrow> length v < 4294967296"
| "sendable sg (Wide_String v) \<longleftrightarrow> utf8_units v \<and> length (utf8_wcstombs sg v) < 4294967296"
| "sendable sg (Key_Event v) \<longleftrightarrow> True"
| "sendable sg (Attributes v) \<longleftrightarrow> list_all (\<lambda>a. m_type a < 256) v \<and> length v < 4294967296"
| "sendable sg (Properties v) \<longleftrightarrow> list_all sendable_property v \<and> length v < 4294967296"
| "sendable sg (A_Property v) \<longleftrightarrow> sendable_property v"
| "sendable sg (Raw v) \<longleftrightarrow> v \<noteq> [] \<and> length v < 4294967296"
| "sendable sg (Uint32s v) \<longleftrightarrow> length v < 4294967296"
| "sendable sg (Strings v) \<longleftrightarrow> list_all (\<lambda>s. length s < 4294967296) v \<and> length v < 4294967296"
| "sendable sg (Wide_Strings v) \<longleftrightarrow>
     list_all (\<lambda>ws. utf8_units ws \<and> length (utf8_wcstombs sg ws) < 4294967296) v \<and> length v < 4294967296"

primrec enc_item :: "bool \<Rightarrow> item \<Rightarrow> bytes" where
  "enc_item sg (Command v) = SCIM_TRANS_DATA_COMMAND # scim_uint32tobytes (word_of_int v)"
| "enc_item sg (Uint32 v) = SCIM_TRANS_DATA_UINT32 # scim_uint32tobytes v"
| "enc_item sg (String v) = enc_string SCIM_TRANS_DATA_STRING v"
| "enc_item sg (Wide_String v) = enc_string SCIM_TRANS_DATA_WSTRING (utf8_wcstombs sg v)"
| "enc_item sg (Key_Event v) = enc_key_event v"
| "enc_item sg (Attributes v) = enc_attribute_list v"
| "enc_item sg (Properties v) = enc_vector SCIM_TRANS_DATA_PROPERTY_LIST enc_property v"
| "enc_item sg (A_Property v) = enc_property v"
| "enc_item sg (Raw v) = enc_string SCIM_TRANS_DATA_RAW v"
| "enc_item sg (Uint32s v) = enc_vector SCIM_TRANS_DATA_VECTOR_UINT32 scim_uint32tobytes v"
| "enc_item sg (Strings v) = enc_vector SCIM_TRANS_DATA_VECTOR_STRING (enc_string SCIM_TRANS_DATA_STRING) v"
| "enc_item sg (Wide_Strings v) =
     enc_vector SCIM_TRANS_DATA_VECTOR_WSTRING (\<lambda>ws. enc_string SCIM_TRANS_DATA_WSTRING (utf8_wcstombs sg ws)) v"

lemmas format_puts = command_data.put_writes uint32_data.put_writes string_data.put_writes
  wstring_data.put_writes key_data.put_writes attributes_data.put_writes properties_data.put_writes
  property_data.put_writes uint32s_data.put_writes strings_data.put_writes wstrings_data.put_writes

lemma put_item_writes: "sendable sg i \<Longrightarrow> writes 0 (map Some (enc_item sg i)) (put_item sg i)"
proof (cases i)
  case (Raw v)
  assume "sendable sg i"
  with Raw have "v \<noteq> []" by simp
  from writes_put_raw [OF this] Raw show ?thesis by (simp only: put_item.simps enc_item.simps)
qed (simp_all only: put_item.simps enc_item.simps sendable.simps format_puts)

lemma got_Done: "r = Done (ok, pos, v) \<Longrightarrow> got f r = Done (ok, pos, f v)"
  by (simp add: got_def)

lemma get_like_enc:
  assumes "sendable sg i" "ahead h pos (map Some (enc_item sg i) @ cs)"
  shows "get_like i h pos = Done (True, pos + length (enc_item sg i), i)"
proof (cases i)
  case (Raw v)
  with assms have v: "v \<noteq> []" "length v < 4294967296"
    "ahead h pos (map Some (enc_string SCIM_TRANS_DATA_RAW v) @ cs)" by (auto simp only: sendable.simps enc_item.simps)
  have "map the (map Some v) = v" by (simp add: map_idI)
  with got_Done [OF get_raw_enc [OF v], of "\<lambda>(raw, size). Raw (map the (the raw))"] show ?thesis
    by (simp only: Raw get_like.simps enc_item.simps prod.case option.sel)
next
  case (A_Property v)
  have "m_state empty_property < 4" by (simp add: empty_property_def)
  then show ?thesis using assms A_Property got_Done [OF property_data.get_enc]
    by (simp only: get_like.simps enc_item.simps sendable.simps)
next
  case (Wide_String v)
  then show ?thesis using assms got_Done [OF wstring_data.get_enc [where sg = sg]]
    by (simp only: get_like.simps enc_item.simps sendable.simps)
next
  case (Wide_Strings v)
  then show ?thesis using assms got_Done [OF wstrings_data.get_enc [where sg = sg]]
    by (simp only: get_like.simps enc_item.simps sendable.simps)
qed (use assms in \<open>simp_all only: get_like.simps enc_item.simps sendable.simps
      got_Done [OF command_data.get_enc] got_Done [OF uint32_data.get_enc] got_Done [OF string_data.get_enc]
      got_Done [OF key_data.get_enc] got_Done [OF attributes_data.get_enc] got_Done [OF properties_data.get_enc]
      got_Done [OF uint32s_data.get_enc] got_Done [OF strings_data.get_enc]\<close>)

lemma get_items_enc:
  "list_all (sendable sg) is \<Longrightarrow> ahead h pos (map Some (concat (map (enc_item sg) is)) @ cs) \<Longrightarrow>
   get_items is h pos = Done (True, pos + length (concat (map (enc_item sg) is)), is)"
proof (induction "is" arbitrary: pos)
  case (Cons i "is")
  from Cons.prems(2) have a: "ahead h pos (map Some (enc_item sg i) @ map Some (concat (map (enc_item sg) is)) @ cs)"
    by simp
  have i: "sendable sg i" "list_all (sendable sg) is" using Cons.prems(1) by simp_all
  from ahead_append [OF a, of "length (enc_item sg i)"]
  have b: "ahead h (pos + length (enc_item sg i)) (map Some (concat (map (enc_item sg) is)) @ cs)" by simp
  from get_like_enc [OF i(1) a] Cons.IH [OF i(2) b] show ?case by (simp add: add.assoc)
qed simp

text \<open>What a writer leaves behind: the cells of all items, in order.\<close>

lemma put_items_cells:
  assumes "list_all (sendable sg) is" "holder_inv h"
  shows "\<exists>h'. put_each (put_item sg) is h = Done h' \<and> holder_inv h' \<and>
    cells h' = cells h @ map Some (concat (map (enc_item sg) is))"
proof -
  have "writes 0 (concat (map (\<lambda>i. map Some (enc_item sg i)) is)) (put_each (put_item sg) is)"
    using assms(1) put_item_writes by (intro writes_each) (auto simp: list_all_iff)
  moreover have "m_write_pos h + 0 \<le> m_buffer_size h" using assms(2) by (simp add: holder_inv_def)
  ultimately show ?thesis
    using writesD [of 0 "concat (map (\<lambda>i. map Some (enc_item sg i)) is)" "put_each (put_item sg) is" h] assms(2)
    by (auto simp: map_concat comp_def)
qed


section \<open>Skipping\<close>

lemma skipped_Done: "r = Done (ok, pos, v) \<Longrightarrow> skipped r = Done (ok, pos)"
  by (simp add: skipped_def)

lemma skipped_safe: "safe_result n pos r \<Longrightarrow> \<exists>ok k. skipped r = Done (ok, pos + k) \<and> k \<le> n \<and> (ok \<longleftrightarrow> 0 < k)"
  by (auto simp: safe_result_def skipped_def)

text \<open>The type of an item decides which function skips it.\<close>

lemma get_raw_False: "get_raw True h pos x = Done (True, q, y) \<Longrightarrow> \<exists>z. get_raw False h pos x = Done (True, q, z)"
  by (cases x) (auto simp: get_raw_def if_type_def Let_def split: if_splits)

lemma skip_data_Done:
  assumes "ahead h pos (Some b # cs)"
  shows "skip_data h pos = (if b = SCIM_TRANS_DATA_COMMAND then skipped (get_command h pos 0)
        else if b = SCIM_TRANS_DATA_UINT32 then skipped (get_uint32 h pos 0)
        else if b = SCIM_TRANS_DATA_STRING then skipped (get_string h pos [])
        else if b = SCIM_TRANS_DATA_WSTRING then skipped (get_wstring h pos [])
        else if b = SCIM_TRANS_DATA_KEYEVENT
        then skipped (get_key_event h pos \<lparr>key_code = 0, key_mask = 0, key_layout = 0\<rparr>)
        else if b = SCIM_TRANS_DATA_ATTRIBUTE_LIST then skipped (get_attribute_list h pos [])
        else if b = SCIM_TRANS_DATA_PROPERTY then skipped (get_property h pos empty_property)
        else if b = SCIM_TRANS_DATA_PROPERTY_LIST then skipped (get_property_list h pos [])
        else if b = SCIM_TRANS_DATA_LOOKUP_TABLE then skipped (get_lookup_table h pos (labelled_CommonLookupTable 10))
        else if b = SCIM_TRANS_DATA_VECTOR_UINT32 then skipped (get_vector_uint32 h pos [])
        else if b = SCIM_TRANS_DATA_VECTOR_STRING then skipped (get_vector_string h pos [])
        else if b = SCIM_TRANS_DATA_VECTOR_WSTRING then skipped (get_vector_wstring h pos [])
        else if b = SCIM_TRANS_DATA_RAW then skipped (get_raw False h pos (None, 0))
        else if b = SCIM_TRANS_DATA_TRANSACTION then
          (if m_write_pos h < pos + 4 + 1 then Done (False, pos)
           else run_bind (read_uint32 (pos + 1) h) (\<lambda>len.
             if m_write_pos h < pos + unat len + 4 + 1 then Done (False, pos)
             else Done (True, pos + (unat len + 4 + 1))))
        else Done (False, pos))"
  unfolding skip_data_def
  using ahead_write_pos [OF assms] ahead_valid [OF assms] ahead_read_byte [OF assms] by simp

lemma skip_item:
  assumes i: "sendable sg i" and a: "ahead h pos (map Some (enc_item sg i) @ cs)"
  shows "skip_data h pos = Done (True, pos + length (enc_item sg i))"
proof -
  obtain b bs where b: "enc_item sg i = b # bs"
    by (cases i) (simp_all add: enc_string_def enc_vector_def enc_key_event_def enc_property_def)
  with a have ab: "ahead h pos (Some b # map Some bs @ cs)" by simp
  note s = skip_data_Done [OF ab]
  note g = get_like_enc [OF i a]
  show ?thesis
  proof (cases i)
    case (Raw v)
    then have bt: "b = SCIM_TRANS_DATA_RAW" using b by (simp add: enc_string_def)
    from i Raw have v: "v \<noteq> []" "length v < 4294967296" by simp_all
    from get_raw_False [OF get_raw_enc [OF v a [unfolded Raw enc_item.simps]]]
    obtain z where z: "get_raw False h pos (None, 0) = Done (True, pos + length (enc_string SCIM_TRANS_DATA_RAW v), z)"
      by blast
    show ?thesis unfolding s bt using skipped_Done [OF z] Raw by (simp add: data_type_defs)
  qed (use b g in \<open>auto simp: s data_type_defs enc_string_def enc_vector_def enc_key_event_def enc_property_def
      got_def skipped_def\<close>)
qed


lemma skip_data_safe:
  assumes a: "ahead h pos cs" "None \<notin> set cs"
  shows "\<exists>ok k. skip_data h pos = Done (ok, pos + k) \<and> k \<le> length cs \<and> (ok \<longleftrightarrow> 0 < k)"
proof (cases cs)
  case Nil
  then show ?thesis
    using ahead_write_pos [OF a(1)] by (intro exI [of _ False] exI [of _ 0]) (simp add: skip_data_def)
next
  case (Cons c cs')
  then obtain b where c: "cs = Some b # cs'" using a(2) by (cases c) auto
  define good where "good r \<longleftrightarrow> (\<exists>ok k. r = Done (ok, pos + k) \<and> k \<le> length cs \<and> (ok \<longleftrightarrow> 0 < k))"
    for r :: "(bool \<times> nat) run"
  have safe: "good (skipped (get h pos x))" if "reads_safely get" for get :: "'v getter" and x
    using that a skipped_safe [of "length cs" pos "get h pos x"] by (simp add: reads_safely_def good_def)
  have unknown: "good (Done (False, pos))"
    unfolding good_def by (intro exI [of _ False] exI [of _ 0]) simp
  have branch: "good (if c then r else r')" if "good r" "good r'" for c r r'
    using that by simp
  have inner: "good (if m_write_pos h < pos + 4 + 1 then Done (False, pos)
           else run_bind (read_uint32 (pos + 1) h) (\<lambda>len.
             if m_write_pos h < pos + unat len + 4 + 1 then Done (False, pos)
             else Done (True, pos + (unat len + 4 + 1))))"
  proof (cases "m_write_pos h < pos + 4 + 1")
    case True
    with unknown show ?thesis by simp
  next
    case False
    note w = ahead_write_pos [OF a(1)]
    from False w have "1 + 4 \<le> length cs" by simp
    from ahead_uint32 [OF a this] obtain n where n: "read_uint32 (pos + 1) h = Done n" by blast
    show ?thesis
    proof (cases "m_write_pos h < pos + unat n + 4 + 1")
      case True
      with False n unknown show ?thesis by simp
    next
      case no: False
      with False n w show ?thesis unfolding good_def by (intro exI [of _ True] exI [of _ "unat n + 4 + 1"]) simp
    qed
  qed
  have "ahead h pos (Some b # cs')" using a(1) c by simp
  note s = skip_data_Done [OF this]
  have "good (skip_data h pos)"
    unfolding s
    by (rule inner unknown safe [OF get_command_safe] safe [OF get_uint32_safe] safe [OF get_string_safe]
        safe [OF get_wstring_safe] safe [OF get_key_event_safe] safe [OF get_attribute_list_safe]
        safe [OF get_property_safe] safe [OF properties_data.get_safe] safe [OF get_lookup_table_safe]
        safe [OF get_vector_uint32_safe] safe [OF strings_data.get_safe] safe [OF wstrings_data.get_safe]
        safe [OF get_raw_safe] | rule branch)+
  then show ?thesis by (simp add: good_def)
qed

section \<open>Transactions inside transactions\<close>

lemma get_transaction_enc:
  assumes t: "holder_inv t" "m_write_pos t < 4294967296"
    and other: "length (m_bytes (m_holder other)) = m_buffer_size (m_holder other)" "0 < m_buffer_size (m_holder other)"
    and a: "ahead h pos (map Some (SCIM_TRANS_DATA_TRANSACTION # scim_uint32tobytes (of_nat (m_write_pos t)))
      @ take (m_write_pos t) (m_bytes t) @ cs)"
  shows "\<exists>g. get_transaction h pos other = Done (True, pos + 5 + m_write_pos t, \<lparr>m_holder = g, m_read_pos = 16\<rparr>) \<and>
    holder_inv g \<and> m_write_pos g = m_write_pos t \<and> cells g = cells t"
proof -
  let ?n = "m_write_pos t" and ?h = "request_buffer_size (m_write_pos t) (m_holder other)"
  have l: "length (take ?n (m_bytes t)) = ?n" using t(1) by (auto simp: holder_inv_def)
  have b: "ahead h pos (map Some (SCIM_TRANS_DATA_TRANSACTION # scim_uint32tobytes (of_nat ?n) @ [])
      @ take ?n (m_bytes t) @ cs)" using a by simp
  note hd = ahead_header [OF b]
  have c: "copy_cells (pos + 1 + 4) ?n h = Done (take ?n (m_bytes t))"
    using ahead_copy [of h "pos + 1 + 4" "take ?n (m_bytes t)" cs] hd(3) l by simp
  have u: "unat (of_nat ?n :: 32 word) = ?n" using t(2) by (simp add: unat_of_nat take_bit_nat_eq_self)
  have size: "?n \<le> length (m_bytes ?h)" "length (m_bytes ?h) = m_buffer_size ?h" "0 < m_buffer_size ?h"
    using other by (auto simp: request_buffer_size_def Let_def)
  define g where "g = ?h\<lparr>m_bytes := take ?n (m_bytes t) @ drop ?n (m_bytes ?h), m_write_pos := ?n\<rparr>"
  have st: "store_cells 0 (take ?n (m_bytes t)) ?h = Done (?h\<lparr>m_bytes := take ?n (m_bytes t) @ drop ?n (m_bytes ?h)\<rparr>)"
    using size l by (simp add: store_cells_def)
  have "get_transaction h pos other = Done (True, pos + 5 + ?n, \<lparr>m_holder = g, m_read_pos = 16\<rparr>)"
    unfolding get_transaction_def hd(1) Let_def
    using hd(2,4) l c u st other(2)
    by (cases other) (simp add: holder_valid_def g_def SCIM_TRANS_HEADER_SIZE_def ac_simps)
  moreover have "holder_inv g" using size l t(1) by (simp add: g_def holder_inv_def)
  moreover have "cells g = cells t"
    using l t(1) by (simp add: g_def cells_def take_drop_take [symmetric] holder_inv_def flip: drop_take)
  ultimately show ?thesis by (intro exI [of _ g]) (simp add: g_def)
qed


section \<open>Properties\<close>

text \<open>Skipping one item after another.\<close>

fun skip_items :: "nat \<Rightarrow> TransactionHolder \<Rightarrow> nat \<Rightarrow> (bool \<times> nat) run" where
  "skip_items 0 h pos = Done (True, pos)"
| "skip_items (Suc n) h pos =
     run_bind (skip_data h pos) (\<lambda>(ok, q). if ok then skip_items n h q else Done (False, q))"

lemma skip_items_enc:
  "list_all (sendable sg) is \<Longrightarrow> ahead h pos (map Some (concat (map (enc_item sg) is)) @ cs) \<Longrightarrow>
   skip_items (length is) h pos = Done (True, pos + length (concat (map (enc_item sg) is)))"
proof (induction "is" arbitrary: pos)
  case (Cons i "is")
  from Cons.prems(2) have a: "ahead h pos (map Some (enc_item sg i) @ map Some (concat (map (enc_item sg) is)) @ cs)"
    by simp
  have i: "sendable sg i" "list_all (sendable sg) is" using Cons.prems(1) by simp_all
  from ahead_append [OF a, of "length (enc_item sg i)"]
  have b: "ahead h (pos + length (enc_item sg i)) (map Some (concat (map (enc_item sg) is)) @ cs)" by simp
  from skip_item [OF i(1) a] Cons.IH [OF i(2) b] show ?case by (simp add: add.assoc)
qed simp

text \<open>C11: Whatever items are put into a transaction, in whatever order, behind whatever it holds
  already: all of them are written inside the buffer, which grows as it has to, a reader that asks for
  their kinds gets the items back as they were and ends where the writing ended, and so does a reader
  that skips them without knowing their kinds.\<close>

theorem transaction_items_round_trip:
  assumes "list_all (sendable sg) is" "holder_inv h"
  shows "\<exists>h'. put_each (put_item sg) is h = Done h' \<and> holder_inv h' \<and>
    take (length (cells h)) (cells h') = cells h \<and>
    get_items is h' (m_write_pos h) = Done (True, m_write_pos h', is) \<and>
    skip_items (length is) h' (m_write_pos h) = Done (True, m_write_pos h')"
proof -
  from put_items_cells [OF assms] obtain h' where h': "put_each (put_item sg) is h = Done h'" "holder_inv h'"
    "cells h' = cells h @ map Some (concat (map (enc_item sg) is))" by blast
  have a: "ahead h' (m_write_pos h) (map Some (concat (map (enc_item sg) is)) @ [])"
    using h' write_pos_cells [OF assms(2)] write_pos_cells [OF h'(2)] by (simp add: ahead_def)
  have "m_write_pos h' = m_write_pos h + length (concat (map (enc_item sg) is))"
    using ahead_write_pos [OF a] by simp
  with h' get_items_enc [OF assms(1) a] skip_items_enc [OF assms(1) a] show ?thesis by auto
qed

text \<open>C13: Whatever bytes were received, every function that gets data stays inside what was written,
  returns, moves behind what it read when it succeeds and leaves the reader where it was when it fails:
  lengths and numbers of elements that lie are noticed before anything is read.\<close>

theorem reads_stay_inside:
  assumes "ahead h pos cs" "None \<notin> set cs"
    and "length (m_bytes (m_holder other)) = m_buffer_size (m_holder other)"
  shows "safe_result (length cs) pos (get_command h pos x1) \<and> safe_result (length cs) pos (get_uint32 h pos x2) \<and>
    safe_result (length cs) pos (get_string h pos x3) \<and> safe_result (length cs) pos (get_wstring h pos x4) \<and>
    safe_result (length cs) pos (get_key_event h pos x5) \<and> safe_result (length cs) pos (get_attribute_list h pos x6) \<and>
    safe_result (length cs) pos (get_property h pos x7) \<and> safe_result (length cs) pos (get_property_list h pos x8) \<and>
    safe_result (length cs) pos (get_lookup_table h pos x9) \<and> safe_result (length cs) pos (get_vector_uint32 h pos x10) \<and>
    safe_result (length cs) pos (get_vector_string h pos x11) \<and> safe_result (length cs) pos (get_vector_wstring h pos x12) \<and>
    safe_result (length cs) pos (get_raw want h pos x13) \<and> safe_result (length cs) pos (get_transaction h pos other) \<and>
    (\<exists>ok k. skip_data h pos = Done (ok, pos + k) \<and> k \<le> length cs \<and> (ok \<longleftrightarrow> 0 < k))"
proof -
  have s: "safe_result (length cs) pos (get h pos x)" if "reads_safely get" for get :: "'v getter" and x
    using that assms(1,2) by (simp add: reads_safely_def)
  show ?thesis
    by (intro conjI s [OF get_command_safe] s [OF get_uint32_safe] s [OF get_string_safe]
        s [OF get_wstring_safe] s [OF get_key_event_safe] s [OF get_attribute_list_safe]
        s [OF get_property_safe] s [OF properties_data.get_safe] s [OF get_lookup_table_safe]
        s [OF get_vector_uint32_safe] s [OF strings_data.get_safe] s [OF wstrings_data.get_safe]
        s [OF get_raw_safe]
        get_transaction_safe [OF assms] skip_data_safe [OF assms(1,2)])
qed

text \<open>A transaction put into another comes out of it with the same contents, whatever the
  transaction it is read into held before.\<close>

theorem nested_transaction_round_trip:
  assumes "holder_inv t" "m_write_pos t < 4294967296" "holder_inv h" "holder_inv (m_holder other)"
  shows "\<exists>h' g. put_transaction t h = Done h' \<and> holder_inv h' \<and>
    get_transaction h' (m_write_pos h) other = Done (True, m_write_pos h', \<lparr>m_holder = g, m_read_pos = 16\<rparr>) \<and>
    holder_inv g \<and> cells g = cells t"
proof -
  let ?n = "m_write_pos t"
  let ?e = "map Some (SCIM_TRANS_DATA_TRANSACTION # scim_uint32tobytes (of_nat ?n)) @ take ?n (m_bytes t)"
  have "m_write_pos h + 0 \<le> m_buffer_size h" using assms(3) by (simp add: holder_inv_def)
  from writesD [OF writes_put_transaction [OF assms(1)] assms(3) this] obtain h' where
    h': "put_transaction t h = Done h'" "holder_inv h'" "cells h' = cells h @ ?e"
      "m_write_pos h' = m_write_pos h + length ?e" by blast
  have a: "ahead h' (m_write_pos h) (map Some (SCIM_TRANS_DATA_TRANSACTION # scim_uint32tobytes (of_nat ?n))
      @ take ?n (m_bytes t) @ [])"
    using h' write_pos_cells [OF assms(3)] by (simp add: ahead_def)
  have other: "length (m_bytes (m_holder other)) = m_buffer_size (m_holder other)" "0 < m_buffer_size (m_holder other)"
    using assms(4) by (simp_all add: holder_inv_def)
  have "length ?e = 5 + ?n" using assms(1) by (simp add: holder_inv_def)
  with get_transaction_enc [OF assms(1,2) other a] h' show ?thesis by (auto simp: add.assoc)
qed

text \<open>A transaction may be received inside another whose length is shorter than the header every
  buffer begins with. It is accepted, and what is put into it afterwards is not read back, because
  readers begin behind the header.\<close>

theorem short_transaction_accepted:
  assumes "ahead h pos (map Some (SCIM_TRANS_DATA_TRANSACTION # scim_uint32tobytes 0) @ cs)"
    and "holder_inv (m_holder other)"
  shows "\<exists>g g'. get_transaction h pos other = Done (True, pos + 5, \<lparr>m_holder = g, m_read_pos = 16\<rparr>) \<and>
    m_write_pos g = 0 \<and> put_uint32 v g = Done g' \<and> get_uint32 g' 16 x = Done (False, 16, x)"
proof -
  have "ahead h pos (map Some (SCIM_TRANS_DATA_TRANSACTION # scim_uint32tobytes 0 @ []) @ cs)" using assms(1) by simp
  note hd = ahead_header [OF this]
  have c: "copy_cells (pos + 1 + 4) 0 h = Done []"
    using hd(3) by (intro ahead_copy [where cs = "map Some [] @ cs"]) simp_all
  define r where "r = request_buffer_size 0 (m_holder other)"
  have r: "length (m_bytes r) = m_buffer_size r" "0 < m_buffer_size r"
    using assms(2) by (auto simp: r_def request_buffer_size_def holder_inv_def Let_def)
  define g where "g = r\<lparr>m_write_pos := 0\<rparr>"
  have "get_transaction h pos other = Done (True, pos + 5, \<lparr>m_holder = g, m_read_pos = 16\<rparr>)"
    unfolding get_transaction_def hd(1) Let_def
    using hd(2,4) c assms(2)
    by (cases other) (simp add: holder_valid_def holder_inv_def g_def r_def store_cells_def SCIM_TRANS_HEADER_SIZE_def)
  moreover obtain g' where "put_uint32 v g = Done g'" "m_write_pos g' = 5"
  proof -
    define q where "q = request_buffer_size 5 g"
    have q: "m_write_pos q = 0" "5 \<le> length (m_bytes q)"
      using r by (auto simp: q_def request_buffer_size_def g_def Let_def)
    have put: "\<exists>k'. put_bytes bs k = Done k' \<and> m_write_pos k' = m_write_pos k + length bs \<and>
        length (m_bytes k') = length (m_bytes k)" if "m_write_pos k + length bs \<le> length (m_bytes k)" for bs k
      using that by (simp add: put_cells_def store_cells_def)
    from put [of q "[SCIM_TRANS_DATA_UINT32]"] q obtain q1 where
      q1: "put_bytes [SCIM_TRANS_DATA_UINT32] q = Done q1" "m_write_pos q1 = 1" "5 \<le> length (m_bytes q1)" by auto
    from put [of q1 "scim_uint32tobytes v"] q1 obtain q2 where
      "put_bytes (scim_uint32tobytes v) q1 = Done q2" "m_write_pos q2 = 5" by auto
    with q1(1) that [of q2] show thesis by (simp add: put_uint32_def q_def)
  qed
  ultimately show ?thesis
    by (intro exI [of _ g] exI [of _ g']) (simp add: g_def get_uint32_def if_type_def)
qed


text \<open>A transaction of one item of every kind.\<close>

definition demo_items :: "item list" where
  "demo_items =
     [Command 3, Command (- 1), Uint32 0xFFFFFFFF, String [0x41, 0, 0x42], Wide_String [0x4E2D, 0x6587],
      Key_Event \<lparr>key_code = 0xFF0D, key_mask = 0x8001, key_layout = 2\<rparr>,
      Attributes [\<lparr>m_start = 0, m_length = 1, m_type = 1, m_value = 2\<rparr>],
      A_Property (show_property False (new_property [0x2F, 0x61] [0x4C] [] [0x54])),
      Properties [new_property [0x61] [] [] [], empty_property], Raw [1, 2, 3], Uint32s [], Uint32s [7, 8],
      Strings [[], [0x41]], Wide_Strings [[0x5B57], []]]"

lemma short_wcstombs: "length ws < 700000000 \<Longrightarrow> length (utf8_wcstombs sg ws) < 4294967296"
  using length_wcstombs [of sg ws] by linarith

lemma demo_items_sendable: "list_all (sendable False) demo_items"
  by (simp add: demo_items_def sendable_property_def show_property_def new_property_def empty_property_def
      utf8_units_def short_wcstombs SCIM_PROPERTY_VISIBLE_def SCIM_PROPERTY_ACTIVE_def
      del: utf8_wcstombs.simps)

lemma transaction_items_round_trip_witness:
  "\<exists>h'. put_each (put_item False) demo_items (new_TransactionHolder 0) = Done h' \<and>
    get_items demo_items h' 16 = Done (True, m_write_pos h', demo_items)"
  using transaction_items_round_trip [OF demo_items_sendable new_holder(1) [of 0]]
  by (auto simp: new_TransactionHolder_def SCIM_TRANS_HEADER_SIZE_def)

text \<open>A string whose length lies.\<close>

definition demo_lie :: TransactionHolder where
  "demo_lie = \<lparr>m_buffer_size = 32, m_write_pos = 22,
     m_bytes = replicate 16 None @ map Some [4, 0xFF, 0xFF, 0xFF, 0x7F, 0x41] @ replicate 10 None\<rparr>"

lemma demo_lie_ahead: "ahead demo_lie 16 (map Some [4, 0xFF, 0xFF, 0xFF, 0x7F, 0x41])"
  by (simp add: demo_lie_def ahead_def holder_inv_def cells_def)

lemma reads_stay_inside_witness:
  "safe_result 6 16 (get_string demo_lie 16 []) \<and> get_string demo_lie 16 [] = Done (False, 16, [])"
proof -
  have "length (m_bytes (m_holder (new_Transaction 0))) = m_buffer_size (m_holder (new_Transaction 0))"
    by (simp add: new_Transaction_def new_TransactionHolder_def)
  from reads_stay_inside [OF demo_lie_ahead _ this]
  have "safe_result 6 16 (get_string demo_lie 16 [])" by (simp add: eval_nat_numeral)
  moreover have "get_string demo_lie 16 [] = Done (False, 16, [])"
    by (simp add: get_string_def if_type_def demo_lie_def holder_valid_def read_byte_def read_uint32_def
        read_bytes_def copy_cells_def scim_bytestouint32_def SCIM_TRANS_DATA_STRING_def push_bit_eq_mult)
  ultimately show ?thesis ..
qed

definition demo_short :: TransactionHolder where
  "demo_short = \<lparr>m_buffer_size = 32, m_write_pos = 21,
     m_bytes = replicate 16 None @ map Some [14, 0, 0, 0, 0] @ replicate 11 None\<rparr>"

end
