(* ===== verification/Core_Strings.thy ===== *)
theory Core_Strings
  imports Core_Utf8
begin

text \<open>
  Lists written as one string and characters of half and full width: \<^verbatim>\<open>scim_split_string_list\<close>,
  \<^verbatim>\<open>scim_combine_string_list\<close>, \<^verbatim>\<open>scim_wchar_to_full_width\<close> and \<^verbatim>\<open>scim_wchar_to_half_width\<close> of
  \<^verbatim>\<open>src/scim_utility.cpp\<close>.
\<close>

section \<open>Lists as strings\<close>

text \<open>\<open>s\<close> is what is left of the string; the loop ends where it does.\<close>

function split_loop :: "8 word \<Rightarrow> bytes \<Rightarrow> bytes list" where
  "split_loop delim s =
     (if s = [] then []
      else
        let temp = takeWhile (\<lambda>c. c \<noteq> delim) s; ed = dropWhile (\<lambda>c. c \<noteq> delim) s in
        temp # (if ed = [] then [] else split_loop delim (tl ed)))"
  by pat_completeness auto

termination
proof (relation "measure (length \<circ> snd)", goal_cases)
  case (2 delim s temp ed)
  then have "length (tl ed) < length ed" "length ed \<le> length s" using length_dropWhile_le by auto
  then show ?case by simp
qed simp

declare split_loop.simps [simp del]

definition scim_split_string_list :: "bytes \<Rightarrow> 8 word \<Rightarrow> bytes list \<times> int" where
  "scim_split_string_list str delim = (let vec = split_loop delim str in (vec, int (length vec)))"

fun scim_combine_string_list :: "bytes list \<Rightarrow> 8 word \<Rightarrow> bytes" where
  "scim_combine_string_list [] delim = []"
| "scim_combine_string_list (s # vec) delim =
     s @ (if vec \<noteq> [] then delim # scim_combine_string_list vec delim else [])"

lemma split_loop_word:
  "delim \<notin> set s \<Longrightarrow> split_loop delim s = (if s = [] then [] else [s])"
  by (subst split_loop.simps) (auto simp: Let_def takeWhile_eq_all_conv dropWhile_eq_Nil_conv)

lemma split_loop_append:
  assumes "delim \<notin> set s"
  shows "split_loop delim (s @ delim # t) = s # split_loop delim t"
proof -
  have "takeWhile (\<lambda>c. c \<noteq> delim) (s @ delim # t) = s" "dropWhile (\<lambda>c. c \<noteq> delim) (s @ delim # t) = delim # t"
    using assms by (auto simp: takeWhile_append dropWhile_append)
  then show ?thesis by (subst split_loop.simps) (simp add: Let_def)
qed

text \<open>Only an empty string at the end is lost.\<close>

definition without_last_empty :: "'a list list \<Rightarrow> 'a list list" where
  "without_last_empty vec = (if vec \<noteq> [] \<and> last vec = [] then butlast vec else vec)"

lemma split_combine:
  "list_all (\<lambda>s. delim \<notin> set s) vec \<Longrightarrow>
   split_loop delim (scim_combine_string_list vec delim) = without_last_empty vec"
proof (induction vec)
  case Nil
  then show ?case by (simp add: split_loop.simps without_last_empty_def)
next
  case (Cons s vec)
  then show ?case
    by (cases "vec = []") (auto simp: split_loop_word split_loop_append without_last_empty_def)
qed

lemma split_words:
  "list_all (\<lambda>s. s \<noteq> [] \<and> delim \<notin> set s) vec \<Longrightarrow>
   fst (scim_split_string_list (scim_combine_string_list vec delim) delim) = vec"
  by (auto simp: scim_split_string_list_def Let_def split_combine list_all_iff without_last_empty_def)

lemma combine_snoc:
  "scim_combine_string_list (ss @ [s]) d = (if ss = [] then s else scim_combine_string_list ss d @ d # s)"
  by (induction ss) auto

lemma combine_Nil: "list_all (\<lambda>s. s \<noteq> []) ss \<Longrightarrow> scim_combine_string_list ss d = [] \<longleftrightarrow> ss = []"
  by (cases ss) auto

lemma combined_chars:
  "list_all (\<lambda>s. c \<notin> set s) ss \<Longrightarrow> c \<noteq> d \<Longrightarrow> c \<notin> set (scim_combine_string_list ss d)"
  by (induction ss) auto

lemma split_loop_Nil [simp]: "split_loop delim [] = []"
  by (simp add: split_loop.simps)

lemma split_loop_not_Nil [simp]: "split_loop delim s = [] \<longleftrightarrow> s = []"
  by (subst split_loop.simps) (simp add: Let_def)

lemma combine_split_loop:
  "scim_combine_string_list (split_loop delim s) delim = (if s \<noteq> [] \<and> last s = delim then butlast s else s)"
proof (induction s rule: length_induct)
  case (1 s)
  show ?case
  proof (cases "delim \<in> set s")
    case True
    then obtain t r where s: "s = t @ delim # r" "delim \<notin> set t" by (metis split_list_first)
    with 1 have "scim_combine_string_list (split_loop delim r) delim = (if r \<noteq> [] \<and> last r = delim then butlast r else r)"
      by simp
    with s split_loop_append [OF s(2), of r] show ?thesis by (auto simp: butlast_append)
  next
    case False
    then have "s \<noteq> [] \<Longrightarrow> last s \<noteq> delim" by (metis last_in_set)
    with False split_loop_word [OF False] show ?thesis by simp
  qed
qed

lemma split_loop_words: "list_all (\<lambda>t. delim \<notin> set t) (split_loop delim s)"
proof (induction s rule: length_induct)
  case (1 s)
  show ?case
  proof (cases "delim \<in> set s")
    case True
    then obtain t r where s: "s = t @ delim # r" "delim \<notin> set t" by (metis split_list_first)
    with 1 have "list_all (\<lambda>t. delim \<notin> set t) (split_loop delim r)" by simp
    with s split_loop_append [OF s(2), of r] show ?thesis by simp
  qed (simp add: split_loop_word)
qed

text \<open>Lists and strings. A list of strings without the delimiter is split from the string it is
  combined into, except that an empty string at its end is lost; and what a string is split into holds
  no delimiter and is combined to it, without the delimiter it may end with.\<close>

theorem lists_round_trip:
  assumes "list_all (\<lambda>s. delim \<notin> set s) vec"
  shows "scim_split_string_list (scim_combine_string_list vec delim) delim
      = (without_last_empty vec, int (length (without_last_empty vec))) \<and>
    list_all (\<lambda>t. delim \<notin> set t) (fst (scim_split_string_list str delim)) \<and>
    scim_combine_string_list (fst (scim_split_string_list str delim)) delim
      = (if str \<noteq> [] \<and> last str = delim then butlast str else str)"
  by (simp add: scim_split_string_list_def Let_def split_combine [OF assms] combine_split_loop split_loop_words)

section \<open>Half and full width\<close>

text \<open>The entries are the first character of half width, the first of full width and their number; the
  last entry ends the table. The comparisons of a signed \<^verbatim>\<open>ucs4_t\<close> give the same results.\<close>

type_synonym width_entry = "32 word \<times> 32 word \<times> 32 word"

definition half_full_table :: "width_entry list" where
  "half_full_table =
     [(0x20, 0x3000, 1), (0x21, 0xFF01, 0x5E), (0xA2, 0xFFE0, 2), (0xA5, 0xFFE5, 1),
      (0xA6, 0xFFE4, 1), (0xAC, 0xFFE2, 1), (0xAF, 0xFFE3, 1), (0x20A9, 0xFFE6, 1),
      (0xFF61, 0x3002, 1), (0xFF62, 0x300C, 2), (0xFF64, 0x3001, 1), (0xFF65, 0x30FB, 1),
      (0xFF66, 0x30F2, 1), (0xFF67, 0x30A1, 1), (0xFF68, 0x30A3, 1), (0xFF69, 0x30A5, 1),
      (0xFF6A, 0x30A7, 1), (0xFF6B, 0x30A9, 1), (0xFF6C, 0x30E3, 1), (0xFF6D, 0x30E5, 1),
      (0xFF6E, 0x30E7, 1), (0xFF6F, 0x30C3, 1), (0xFF70, 0x30FC, 1), (0xFF71, 0x30A2, 1),
      (0xFF72, 0x30A4, 1), (0xFF73, 0x30A6, 1), (0xFF74, 0x30A8, 1), (0xFF75, 0x30AA, 2),
      (0xFF77, 0x30AD, 1), (0xFF78, 0x30AF, 1), (0xFF79, 0x30B1, 1), (0xFF7A, 0x30B3, 1),
      (0xFF7B, 0x30B5, 1), (0xFF7C, 0x30B7, 1), (0xFF7D, 0x30B9, 1), (0xFF7E, 0x30BB, 1),
      (0xFF7F, 0x30BD, 1), (0xFF80, 0x30BF, 1), (0xFF81, 0x30C1, 1), (0xFF82, 0x30C4, 1),
      (0xFF83, 0x30C6, 1), (0xFF84, 0x30C8, 1), (0xFF85, 0x30CA, 6), (0xFF8B, 0x30D2, 1),
      (0xFF8C, 0x30D5, 1), (0xFF8D, 0x30D8, 1), (0xFF8E, 0x30DB, 1), (0xFF8F, 0x30DE, 5),
      (0xFF94, 0x30E4, 1), (0xFF95, 0x30E6, 1), (0xFF96, 0x30E8, 6), (0xFF9C, 0x30EF, 1),
      (0xFF9D, 0x30F3, 1), (0xFFA0, 0x3164, 1), (0xFFA1, 0x3131, 30), (0xFFC2, 0x314F, 6),
      (0xFFCA, 0x3155, 6), (0xFFD2, 0x315B, 9), (0xFFE9, 0x2190, 4), (0xFFED, 0x25A0, 1),
      (0xFFEE, 0x25CB, 1), (0, 0, 0)]"

fun full_width_loop :: "width_entry list \<Rightarrow> 32 word \<Rightarrow> 32 word" where
  "full_width_loop [] code = code"
| "full_width_loop ((half, full, num) # table) code =
     (if num = 0 then code
      else if code \<ge> half \<and> code < half + num then full + (code - half)
      else full_width_loop table code)"

fun half_width_loop :: "width_entry list \<Rightarrow> 32 word \<Rightarrow> 32 word" where
  "half_width_loop [] code = code"
| "half_width_loop ((half, full, num) # table) code =
     (if num = 0 then code
      else if code \<ge> full \<and> code < full + num then half + (code - full)
      else half_width_loop table code)"

definition scim_wchar_to_full_width :: "32 word \<Rightarrow> 32 word" where
  "scim_wchar_to_full_width code = full_width_loop half_full_table code"

definition scim_wchar_to_half_width :: "32 word \<Rightarrow> 32 word" where
  "scim_wchar_to_half_width code = half_width_loop half_full_table code"


text \<open>What a search in a table of disjoint ranges finds.\<close>

definition range_of :: "32 word \<Rightarrow> 32 word \<Rightarrow> 32 word set" where
  "range_of a n = {c. a \<le> c \<and> c < a + n}"

definition apart :: "32 word \<Rightarrow> 32 word \<Rightarrow> 32 word \<Rightarrow> 32 word \<Rightarrow> bool" where
  "apart a n b m \<longleftrightarrow> a + n \<le> b \<or> b + m \<le> a"

fun regular :: "width_entry list \<Rightarrow> bool" where
  "regular [] \<longleftrightarrow> True"
| "regular ((h, f, n) # t) \<longleftrightarrow>
     h < h + n \<and> f < f + n \<and> list_all (\<lambda>(h', f', n'). apart h n h' n' \<and> apart f n f' n') t \<and> regular t"

lemma half_full_table_regular: "regular (butlast half_full_table)"
  by code_simp

lemma half_full_table_end: "half_full_table = butlast half_full_table @ [(0, 0, 0)]"
  by (simp add: half_full_table_def)

lemma apart_ranges: "apart a n b m \<Longrightarrow> c \<in> range_of a n \<Longrightarrow> c \<notin> range_of b m"
  by (auto simp: apart_def range_of_def)

lemma full_width_found:
  "regular t \<Longrightarrow> (h, f, n) \<in> set t \<Longrightarrow> c \<in> range_of h n \<Longrightarrow> full_width_loop (t @ e) c = f + (c - h)"
proof (induction t rule: regular.induct)
  case (2 h' f' n' t)
  have n: "n' \<noteq> 0" using 2(2) by auto
  show ?case
  proof (cases "(h, f, n) = (h', f', n')")
    case True
    with 2(4) n show ?thesis by (simp add: range_of_def)
  next
    case False
    with 2(2,3) have m: "(h, f, n) \<in> set t" and "apart h' n' h n" by (auto simp: list_all_iff)
    then have "c \<notin> range_of h' n'" using 2(4) apart_ranges by blast
    then have "\<not> (h' \<le> c \<and> c < h' + n')" by (simp add: range_of_def)
    with 2(1) [OF _ m 2(4)] 2(2) n show ?thesis by auto
  qed
qed simp

lemma full_width_not_found:
  "regular t \<Longrightarrow> \<forall>(h, f, n) \<in> set t. c \<notin> range_of h n \<Longrightarrow> full_width_loop (t @ [(0, 0, 0)]) c = c"
  by (induction t rule: regular.induct) (auto simp: range_of_def)

definition swap_entry :: "width_entry \<Rightarrow> width_entry" where
  "swap_entry = (\<lambda>(h, f, n). (f, h, n))"

lemma half_width_swap: "half_width_loop t c = full_width_loop (map swap_entry t) c"
  by (induction t c rule: half_width_loop.induct) (simp_all add: swap_entry_def)

lemma regular_swap: "regular t \<Longrightarrow> regular (map swap_entry t)"
  by (induction t rule: regular.induct) (auto simp: swap_entry_def list_all_iff)

lemma range_moves:
  assumes "c \<in> range_of a n" "b < b + n"
  shows "b + (c - a) \<in> range_of b n" "b + (c - a) - b = c - a" "a + (b + (c - a) - b) = c"
proof -
  show "b + (c - a) \<in> range_of b n"
    using assms uint_lt2p [of b] uint_lt2p [of n] uint_lt2p [of c] uint_lt2p [of a]
    unfolding range_of_def word_le_def word_less_def uint_plus_if' uint_sub_if' mem_Collect_eq
    by (auto split: if_splits)
qed simp_all

text \<open>The characters of half width and those of full width that the table knows.\<close>

definition half_width :: "32 word \<Rightarrow> bool" where
  "half_width c \<longleftrightarrow> list_ex (\<lambda>(h, f, n). h \<le> c \<and> c < h + n) half_full_table"

definition full_width :: "32 word \<Rightarrow> bool" where
  "full_width c \<longleftrightarrow> list_ex (\<lambda>(h, f, n). f \<le> c \<and> c < f + n) half_full_table"

lemma half_width_eq: "half_width c \<longleftrightarrow> (\<exists>(h, f, n) \<in> set (butlast half_full_table). c \<in> range_of h n)"
  unfolding half_width_def by (subst half_full_table_end) (auto simp: range_of_def list_ex_iff)

lemma full_width_eq: "full_width c \<longleftrightarrow> (\<exists>(h, f, n) \<in> set (butlast half_full_table). c \<in> range_of f n)"
  unfolding full_width_def by (subst half_full_table_end) (auto simp: range_of_def list_ex_iff)

lemma to_full_width:
  "(h, f, n) \<in> set (butlast half_full_table) \<Longrightarrow> c \<in> range_of h n \<Longrightarrow> scim_wchar_to_full_width c = f + (c - h)"
  unfolding scim_wchar_to_full_width_def
  by (subst half_full_table_end) (rule full_width_found [OF half_full_table_regular])

lemma to_half_width:
  assumes "(h, f, n) \<in> set (butlast half_full_table)" "c \<in> range_of f n"
  shows "scim_wchar_to_half_width c = h + (c - f)"
proof -
  have "(f, h, n) \<in> set (map swap_entry (butlast half_full_table))"
    using imageI [OF assms(1), of swap_entry] by (simp add: swap_entry_def)
  from full_width_found [OF regular_swap [OF half_full_table_regular] this assms(2)] show ?thesis
    unfolding scim_wchar_to_half_width_def half_width_swap
    by (subst half_full_table_end) simp
qed

lemma regular_entry: "regular t \<Longrightarrow> (h, f, n) \<in> set t \<Longrightarrow> h < h + n \<and> f < f + n"
  by (induction t rule: regular.induct) auto

text \<open>Half and full width are inverse to each other on the characters of the table, and every other
  character is left as it is.\<close>

theorem width_round_trip:
  "(half_width c \<longrightarrow> full_width (scim_wchar_to_full_width c) \<and>
     scim_wchar_to_half_width (scim_wchar_to_full_width c) = c) \<and>
   (full_width c \<longrightarrow> half_width (scim_wchar_to_half_width c) \<and>
     scim_wchar_to_full_width (scim_wchar_to_half_width c) = c) \<and>
   (\<not> half_width c \<longrightarrow> scim_wchar_to_full_width c = c) \<and>
   (\<not> full_width c \<longrightarrow> scim_wchar_to_half_width c = c)"
proof (intro conjI impI)
  assume "half_width c"
  then obtain h f n where e: "(h, f, n) \<in> set (butlast half_full_table)" "c \<in> range_of h n"
    unfolding half_width_eq by auto
  note m = range_moves [OF e(2), of f, OF conjunct2 [OF regular_entry [OF half_full_table_regular e(1)]]]
  show "full_width (scim_wchar_to_full_width c)"
    unfolding full_width_eq to_full_width [OF e] using e(1) m(1) by auto
  show "scim_wchar_to_half_width (scim_wchar_to_full_width c) = c"
    unfolding to_full_width [OF e] to_half_width [OF e(1) m(1)] by (rule m(3))
next
  assume "full_width c"
  then obtain h f n where e: "(h, f, n) \<in> set (butlast half_full_table)" "c \<in> range_of f n"
    unfolding full_width_eq by auto
  note m = range_moves [OF e(2), of h, OF conjunct1 [OF regular_entry [OF half_full_table_regular e(1)]]]
  show "half_width (scim_wchar_to_half_width c)"
    unfolding half_width_eq to_half_width [OF e] using e(1) m(1) by auto
  show "scim_wchar_to_full_width (scim_wchar_to_half_width c) = c"
    unfolding to_half_width [OF e] to_full_width [OF e(1) m(1)] by (rule m(3))
next
  assume "\<not> half_width c"
  then show "scim_wchar_to_full_width c = c"
    unfolding half_width_eq scim_wchar_to_full_width_def
    by (subst half_full_table_end) (rule full_width_not_found [OF half_full_table_regular], auto)
next
  assume "\<not> full_width c"
  then have "\<forall>(h, f, n) \<in> set (map swap_entry (butlast half_full_table)). c \<notin> range_of h n"
    unfolding full_width_eq by (auto simp: swap_entry_def)
  from full_width_not_found [OF regular_swap [OF half_full_table_regular] this]
  show "scim_wchar_to_half_width c = c"
    unfolding scim_wchar_to_half_width_def half_width_swap
    by (subst half_full_table_end) (simp add: swap_entry_def)
qed


end
