(* ===== verification/Core_Address.thy ===== *)
theory Core_Address
  imports Core_Strings
begin

text \<open>
  Addresses of sockets, class \<^verbatim>\<open>SocketAddress::SocketAddressImpl\<close> of \<^verbatim>\<open>src/scim_socket.cpp\<close>, and the name of
  the user that local addresses end with. A \<^verbatim>\<open>sockaddr_un\<close> is its path as a C string, a \<^verbatim>\<open>sockaddr_in\<close> is
  the address and the port in the order of the host. The environment and the password database are
  arguments; the name service is a parameter, a function that gives zero for an unknown host. Copies of
  addresses are deep and so not modelled.
\<close>

datatype SocketFamily = SCIM_SOCKET_UNKNOWN | SCIM_SOCKET_LOCAL | SCIM_SOCKET_INET

datatype sockaddr = Sockaddr_un bytes | Sockaddr_in "32 word" "16 word"

record SocketAddress =
  m_data :: "sockaddr option"
  a_family :: SocketFamily
  a_address :: bytes

definition empty_address :: SocketAddress where
  "empty_address = \<lparr>m_data = None, a_family = SCIM_SOCKET_UNKNOWN, a_address = []\<rparr>"

definition address_valid :: "SocketAddress \<Rightarrow> bool" where
  "address_valid a \<longleftrightarrow>
     length (a_address a) \<noteq> 0 \<and> m_data a \<noteq> None \<and> (a_family a = SCIM_SOCKET_LOCAL \<or> a_family a = SCIM_SOCKET_INET)"

text \<open>\<^verbatim>\<open>SUN_LEN\<close> counts the two bytes of the family and the path.\<close>

definition get_data_length :: "SocketAddress \<Rightarrow> nat" where
  "get_data_length a =
     (case (a_family a, m_data a) of
        (SCIM_SOCKET_LOCAL, Some (Sockaddr_un path)) \<Rightarrow> 2 + length path
      | (SCIM_SOCKET_INET, Some _) \<Rightarrow> 16
      | _ \<Rightarrow> 0)"

section \<open>Users\<close>

abbreviation bytes_of :: "string \<Rightarrow> bytes" where
  "bytes_of s \<equiv> map byte_of_char s"

text \<open>The buffer of \<^verbatim>\<open>snprintf\<close> has ten bytes, one of which is the NUL.\<close>

definition scim_get_user_name ::
  "bytes option \<Rightarrow> bytes option \<Rightarrow> bytes option \<Rightarrow> 32 word \<Rightarrow> bytes" where
  "scim_get_user_name scim_user pw_name user uid =
     (case scim_user of
        Some (c # cs) \<Rightarrow> c # cs
      | _ \<Rightarrow> (case pw_name of
          Some name \<Rightarrow> name
        | None \<Rightarrow> (case user of
            Some name \<Rightarrow> name
          | None \<Rightarrow> take 9 (bytes_of (printf_u (unat uid))))))"

section \<open>Setting an address\<close>

text \<open>\<^verbatim>\<open>atoi\<close> on a C string; an overflow of the \<^verbatim>\<open>int\<close> is not modelled.\<close>

definition is_digit :: "8 word \<Rightarrow> bool" where
  "is_digit c \<longleftrightarrow> 0x30 \<le> c \<and> c \<le> 0x39"

definition atoi :: "bytes \<Rightarrow> int" where
  "atoi s =
     (let t = dropWhile (\<lambda>c. c = 0x20 \<or> 9 \<le> c \<and> c \<le> 13) s;
          digits = (\<lambda>u. fold (\<lambda>c n. 10 * n + (uint c - 0x30)) (takeWhile is_digit u) 0) in
      case t of
        c # u \<Rightarrow> if c = 0x2D then - digits u else if c = 0x2B then digits u else digits t
      | [] \<Rightarrow> 0)"

text \<open>\<^verbatim>\<open>strncpy\<close> into the 108 bytes of \<^verbatim>\<open>sun_path\<close>, the last of which is then set to NUL.\<close>

definition copy_path :: "bytes \<Rightarrow> bytes" where
  "copy_path real_addr = take 107 (takeWhile (\<lambda>c. c \<noteq> 0) real_addr)"

definition set_address :: "(bytes \<Rightarrow> 32 word) \<Rightarrow> bytes \<Rightarrow> bytes \<Rightarrow> SocketAddress \<Rightarrow> bool \<times> SocketAddress" where
  "set_address gethostname user addr a =
     (let varlist = fst (scim_split_string_list addr (byte_of_char CHR '':'')) in
      if length varlist < 2 then (False, a)
      else
        let new =
          (if varlist ! 0 = bytes_of ''local'' \<or> varlist ! 0 = bytes_of ''unix'' \<or> varlist ! 0 = bytes_of ''file'' then
             let real_addr = drop (length (varlist ! 0) + 1) addr @ bytes_of ''-'' @ user in
             Some (Sockaddr_un (copy_path real_addr), SCIM_SOCKET_LOCAL)
           else if (varlist ! 0 = bytes_of ''tcp'' \<or> varlist ! 0 = bytes_of ''inet'') \<and> length varlist = 3 then
             let sin_addr = gethostname (varlist ! 1) in
             if sin_addr \<noteq> 0 then Some (Sockaddr_in sin_addr (word_of_int (atoi (varlist ! 2))), SCIM_SOCKET_INET)
             else None
           else None) in
        case new of
          Some (new_data, new_family) \<Rightarrow>
            (let a1 = \<lparr>m_data = Some new_data, a_family = new_family, a_address = addr\<rparr> in (address_valid a1, a1))
        | None \<Rightarrow> (False, a))"

text \<open>The constructor with an address.\<close>

definition new_SocketAddress :: "(bytes \<Rightarrow> 32 word) \<Rightarrow> bytes \<Rightarrow> bytes \<Rightarrow> SocketAddress" where
  "new_SocketAddress gethostname user addr =
     (if addr \<noteq> [] then snd (set_address gethostname user addr empty_address) else empty_address)"

section \<open>Properties\<close>

lemma split_loop_head:
  assumes "delim \<notin> set s"
  shows "length (split_loop delim (s @ delim # t)) = Suc (length (split_loop delim t))"
    "split_loop delim (s @ delim # t) ! 0 = s"
  by (simp_all add: split_loop_append [OF assms])

text \<open>An address \<^verbatim>\<open>local:path\<close> becomes a path that fits \<^verbatim>\<open>sun_path\<close> with its NUL: the path, a dash and
  the name of the user, as far as they fit. Two users get different paths when those fit, and the same
  path when the path alone does not.\<close>

theorem local_address_fits:
  assumes "path \<noteq> []" "0 \<notin> set path" "0 \<notin> set user" "0 \<notin> set user'"
  shows "let addr = bytes_of ''local:'' @ path; (ok, a) = set_address gethostname user addr old;
             (ok', a') = set_address gethostname user' addr old in
    ok \<and> address_valid a \<and> a_family a = SCIM_SOCKET_LOCAL \<and> a_address a = addr \<and>
    get_data_length a \<le> 2 + 107 \<and>
    m_data a = Some (Sockaddr_un (take 107 (path @ bytes_of ''-'' @ user))) \<and>
    (length path + 1 + length user \<le> 107 \<and> length path + 1 + length user' \<le> 107 \<and> m_data a = m_data a' \<longrightarrow> user = user') \<and>
    (107 \<le> length path \<longrightarrow> m_data a = m_data a')"
proof -
  let ?addr = "bytes_of ''local:'' @ path" and ?d = "byte_of_char CHR '':''"
  have d: "?d \<notin> set (bytes_of ''local'')" by (simp add: byte_of_char_def)
  have addr: "?addr = bytes_of ''local'' @ ?d # path" by simp
  have split: "length (split_loop ?d ?addr) = Suc (length (split_loop ?d path))"
    "split_loop ?d ?addr ! 0 = bytes_of ''local''"
    unfolding addr using split_loop_head [OF d] by simp_all
  have two: "\<not> length (split_loop ?d ?addr) < 2" using split(1) assms(1) by (cases "split_loop ?d path") auto
  have set: "set_address gethostname u ?addr old =
      (True, \<lparr>m_data = Some (Sockaddr_un (take 107 (path @ bytes_of ''-'' @ u))), a_family = SCIM_SOCKET_LOCAL,
        a_address = ?addr\<rparr>)" if u: "0 \<notin> set u" for u
  proof -
    have whole: "takeWhile (\<lambda>c. c \<noteq> 0) u = u" using u by (auto simp: takeWhile_eq_all_conv)
    have "takeWhile (\<lambda>c. c \<noteq> 0) (path @ v) = path @ takeWhile (\<lambda>c. c \<noteq> 0) v" for v
      using assms(2) by (intro takeWhile_append2) auto
    then have path: "copy_path (drop (length (bytes_of ''local'') + 1) ?addr @ bytes_of ''-'' @ u)
        = take 107 (path @ bytes_of ''-'' @ u)"
      by (simp add: copy_path_def byte_of_char_def whole)
    show ?thesis
      unfolding set_address_def scim_split_string_list_def Let_def fst_conv if_not_P [OF two] split(2) path
      by (simp add: address_valid_def)
  qed
  show ?thesis
    unfolding Let_def set [OF assms(3)] set [OF assms(4)]
    by (auto simp: address_valid_def get_data_length_def)
qed


end
