(* ===== verification/Core_Socket.thy ===== *)
theory Core_Socket
  imports Core_Items Core_Address "HOL-Library.Signed_Division"
begin

text \<open>
  Reading, writing and waiting on a socket: class \<^verbatim>\<open>Socket::SocketImpl\<close> of \<^verbatim>\<open>src/scim_socket.cpp\<close>. The
  kernel is a record: \<^verbatim>\<open>errno\<close>, a clock, scripts of the answers of \<^verbatim>\<open>select\<close>, \<^verbatim>\<open>read\<close> and \<^verbatim>\<open>write\<close>,
  the bytes that arrive and the bytes that were taken. A call on an exhausted script blocks. Times are
  integers, whose overflow is not modelled; neither are the signal handler of \<^verbatim>\<open>SIGPIPE\<close> and descriptors
  past \<^verbatim>\<open>FD_SETSIZE\<close>.
\<close>

section \<open>The kernel\<close>

definition EINTR :: int where "EINTR = 4"
definition EBADF :: int where "EBADF = 9"
definition EBUSY :: int where "EBUSY = 16"
definition EINVAL :: int where "EINVAL = 22"

text \<open>\<^verbatim>\<open>Select_ready\<close>: a number above zero is returned; \<^verbatim>\<open>Select_timeout\<close>: zero. \<open>Read_bytes n\<close>: at most
  \<open>n\<close> bytes are given, and none, the end of the stream, when there are none. \<open>Write_bytes n\<close>: at most
  \<open>n\<close> bytes are taken. Errors come with the number they set.\<close>

datatype select_answer = Select_ready | Select_timeout | Select_error int
datatype read_answer = Read_bytes nat | Read_error int
datatype write_answer = Write_bytes nat | Write_error int

type_synonym timeval = "int \<times> int"

record kernel =
  errno :: int
  clock :: "nat \<Rightarrow> timeval"
  ticks :: nat
  selects :: "select_answer list"
  reads :: "read_answer list"
  takes :: "write_answer list"
  arriving :: bytes
  taken :: bytes

definition gettimeofday :: "kernel \<Rightarrow> timeval \<times> kernel" where
  "gettimeofday k = (clock k (ticks k), k\<lparr>ticks := ticks k + 1\<rparr>)"

section \<open>The socket\<close>

record SocketImpl =
  m_id :: int
  m_err :: int
  m_binded :: bool
  m_no_close :: bool
  m_family :: SocketFamily
  m_address :: SocketAddress

definition new_SocketImpl :: "int \<Rightarrow> SocketImpl" where
  "new_SocketImpl i =
     \<lparr>m_id = i, m_err = 0, m_binded = False, m_no_close = True, m_family = SCIM_SOCKET_UNKNOWN,
      m_address = empty_address\<rparr>"

definition socket_valid :: "SocketImpl \<Rightarrow> bool" where
  "socket_valid s \<longleftrightarrow> m_id s \<ge> 0"

text \<open>Waiting for data. The timeout is changed through a pointer.\<close>

definition elapsed :: "timeval \<Rightarrow> timeval \<Rightarrow> int" where
  "elapsed begin_tv cur_tv = (fst cur_tv - fst begin_tv) * 1000 + (snd cur_tv - snd begin_tv) sdiv 1000"

definition time_left :: "timeval \<Rightarrow> int \<Rightarrow> kernel \<Rightarrow> int \<times> kernel" where
  "time_left begin_tv timeout k =
     (if timeout > 0 then
        let (cur_tv, k1) = gettimeofday k; t = timeout - elapsed begin_tv cur_tv in
        (if t > 0 then t else 0, k1)
      else (timeout, k))"

lemma time_left_kernel [simp]:
  "selects (snd (time_left b t k)) = selects k" "errno (snd (time_left b t k)) = errno k"
  "reads (snd (time_left b t k)) = reads k" "arriving (snd (time_left b t k)) = arriving k"
  "takes (snd (time_left b t k)) = takes k" "taken (snd (time_left b t k)) = taken k"
  by (simp_all add: time_left_def gettimeofday_def Let_def)

function wait_loop :: "timeval \<Rightarrow> int \<Rightarrow> SocketImpl \<Rightarrow> kernel \<Rightarrow> (int \<times> int \<times> SocketImpl \<times> kernel) run" where
  "wait_loop begin_tv timeout s k =
     (case selects k of [] \<Rightarrow> Blocks
      | a # as \<Rightarrow>
        (let k1 = k\<lparr>selects := as, errno := (case a of Select_error e \<Rightarrow> e | _ \<Rightarrow> errno k)\<rparr>;
             left = time_left begin_tv timeout k1 in
         case a of
           Select_ready \<Rightarrow> Done (1, fst left, s, snd left)
         | Select_timeout \<Rightarrow>
             if fst left = 0 then Done (0, fst left, s, snd left)
             else wait_loop begin_tv (fst left) s (snd left)
         | Select_error e \<Rightarrow>
             if errno (snd left) = EINTR then wait_loop begin_tv (fst left) s (snd left)
             else Done (- 1, fst left, s\<lparr>m_err := errno (snd left)\<rparr>, snd left)))"
  by pat_completeness auto

termination by (relation "measure (\<lambda>(_, _, _, k). length (selects k))") auto

declare wait_loop.simps [simp del]

definition wait_for_data_internal :: "int \<Rightarrow> SocketImpl \<Rightarrow> kernel \<Rightarrow> (int \<times> int \<times> SocketImpl \<times> kernel) run" where
  "wait_for_data_internal timeout s k =
     (let (begin_tv, k1) = (if timeout \<ge> 0 then gettimeofday k else ((0, 0), k)) in
      wait_loop begin_tv timeout (s\<lparr>m_err := 0\<rparr>) k1)"

definition wait_for_data :: "int \<Rightarrow> SocketImpl \<Rightarrow> kernel \<Rightarrow> (int \<times> SocketImpl \<times> kernel) run" where
  "wait_for_data timeout s k =
     (if m_id s < 0 then Done (- 1, s\<lparr>m_err := EBADF\<rparr>, k)
      else run_bind (wait_for_data_internal timeout s k) (\<lambda>(ret, _, s1, k1). Done (ret, s1, k1)))"

text \<open>Reading: the result, the bytes stored in the buffer, and the states. An error of \<^verbatim>\<open>read\<close> is noted,
  but it does not end the loop.\<close>

function read_loop :: "nat \<Rightarrow> SocketImpl \<Rightarrow> kernel \<Rightarrow> (int \<times> bytes \<times> SocketImpl \<times> kernel) run" where
  "read_loop want s k =
     (case reads k of [] \<Rightarrow> Blocks
      | Read_bytes n # rs \<Rightarrow>
          (let bs = take (min n want) (arriving k) in
           Done (int (length bs), bs, s, k\<lparr>reads := rs, arriving := drop (length bs) (arriving k)\<rparr>))
      | Read_error e # rs \<Rightarrow>
          (let k1 = k\<lparr>reads := rs, errno := e\<rparr> in
           if errno k1 = EINTR then read_loop want s k1
           else read_loop want (s\<lparr>m_err := errno k1\<rparr>) k1))"
  by pat_completeness auto

termination by (relation "measure (\<lambda>(_, _, k). length (reads k))") auto

declare read_loop.simps [simp del]

definition socket_read :: "nat \<Rightarrow> SocketImpl \<Rightarrow> kernel \<Rightarrow> (int \<times> bytes \<times> SocketImpl \<times> kernel) run" where
  "socket_read want s k =
     (if want = 0 then Done (- 1, [], s\<lparr>m_err := EINVAL\<rparr>, k)
      else if m_id s < 0 then Done (- 1, [], s\<lparr>m_err := EBADF\<rparr>, k)
      else read_loop want (s\<lparr>m_err := 0\<rparr>) k)"

text \<open>\<open>stored\<close> is what the buffer holds already; its length is \<^verbatim>\<open>nbytes\<close>.\<close>

function read_timeout_loop ::
  "nat \<Rightarrow> int \<Rightarrow> bytes \<Rightarrow> SocketImpl \<Rightarrow> kernel \<Rightarrow> (int \<times> bytes \<times> SocketImpl \<times> kernel) run" where
  "read_timeout_loop want timeout stored s k =
     (if want = 0 then Done (int (length stored), stored, s, k)
      else run_bind (wait_for_data_internal timeout s k) (\<lambda>(ret, timeout, s, k).
        if ret < 0 then Done (ret, stored, s, k)
        else if ret = 0 then Done (int (length stored), stored, s, k)
        else run_bind (socket_read want s k) (\<lambda>(ret, bs, s, k).
          if ret < 0 then Done (ret, stored @ bs, s, k)
          else if ret = 0 then Done (int (length stored), stored @ bs, s, k)
          else read_timeout_loop (want - nat ret) timeout (stored @ bs) s k)))"
  by pat_completeness auto

termination by (relation "measure fst") auto

declare read_timeout_loop.simps [simp del]

definition read_with_timeout :: "nat \<Rightarrow> int \<Rightarrow> SocketImpl \<Rightarrow> kernel \<Rightarrow> (int \<times> bytes \<times> SocketImpl \<times> kernel) run" where
  "read_with_timeout want timeout s k =
     (if want = 0 then Done (- 1, [], s\<lparr>m_err := EINVAL\<rparr>, k)
      else if m_id s < 0 then Done (- 1, [], s\<lparr>m_err := EBADF\<rparr>, k)
      else if timeout < 0 then socket_read want s k
      else read_timeout_loop want timeout [] s k)"

text \<open>Writing: \<open>ret\<close> is what the last call of \<^verbatim>\<open>write\<close> returned.\<close>

function write_loop :: "bytes \<Rightarrow> int \<Rightarrow> kernel \<Rightarrow> (int \<times> kernel) run" where
  "write_loop cbuf ret k =
     (if cbuf = [] then Done (ret, k)
      else case takes k of [] \<Rightarrow> Blocks
      | Write_bytes n # ws \<Rightarrow>
          (let m = min n (length cbuf); k1 = k\<lparr>takes := ws, taken := taken k @ take m cbuf\<rparr> in
           if m > 0 then write_loop (drop m cbuf) (int m) k1
           else if errno k1 = EINTR then write_loop cbuf 0 k1
           else Done (0, k1))
      | Write_error e # ws \<Rightarrow>
          (let k1 = k\<lparr>takes := ws, errno := e\<rparr> in
           if errno k1 = EINTR then write_loop cbuf (- 1) k1 else Done (- 1, k1)))"
  by pat_completeness auto

termination by (relation "measure (\<lambda>(_, _, k). length (takes k))") auto

declare write_loop.simps [simp del]

definition socket_write :: "bytes \<Rightarrow> SocketImpl \<Rightarrow> kernel \<Rightarrow> (int \<times> SocketImpl \<times> kernel) run" where
  "socket_write buf s k =
     (if buf = [] then Done (- 1, s\<lparr>m_err := EINVAL\<rparr>, k)
      else if m_id s < 0 then Done (- 1, s\<lparr>m_err := EBADF\<rparr>, k)
      else run_bind (write_loop buf (- 1) k) (\<lambda>(ret, k1). Done (ret, s\<lparr>m_err := errno k1\<rparr>, k1)))"


section \<open>Writing\<close>

lemma write_loop_end [simp]: "write_loop [] ret k = Done (ret, k)"
  by (simp add: write_loop.simps)

lemma write_loop_bytes:
  "cbuf \<noteq> [] \<Longrightarrow> takes k = Write_bytes n # ws \<Longrightarrow> 0 < n \<Longrightarrow>
   write_loop cbuf ret k
     = write_loop (drop n cbuf) (int (min n (length cbuf))) (k\<lparr>takes := ws, taken := taken k @ take n cbuf\<rparr>)"
  by (subst write_loop.simps) (auto simp: Let_def min_def)

lemma write_loop_nothing:
  "cbuf \<noteq> [] \<Longrightarrow> takes k = Write_bytes 0 # ws \<Longrightarrow>
   write_loop cbuf ret k = (if errno k = EINTR then write_loop cbuf 0 (k\<lparr>takes := ws\<rparr>) else Done (0, k\<lparr>takes := ws\<rparr>))"
  by (subst write_loop.simps) (simp add: Let_def)

lemma write_loop_error:
  "cbuf \<noteq> [] \<Longrightarrow> takes k = Write_error e # ws \<Longrightarrow>
   write_loop cbuf ret k = (if e = EINTR then write_loop cbuf (- 1) (k\<lparr>takes := ws, errno := e\<rparr>)
     else Done (- 1, k\<lparr>takes := ws, errno := e\<rparr>))"
  by (subst write_loop.simps) (simp add: Let_def)

text \<open>Whatever the kernel answers, a beginning of the bytes is taken, and the result is positive only
  when all of them are.\<close>

lemma write_loop_takes:
  "write_loop cbuf ret k = Done (r, k') \<Longrightarrow>
   \<exists>m \<le> length cbuf. taken k' = taken k @ take m cbuf \<and> (m < length cbuf \<longrightarrow> r \<le> 0) \<and>
     (cbuf \<noteq> [] \<and> m = length cbuf \<longrightarrow> 0 < r)"
proof (induction "takes k" arbitrary: cbuf ret k)
  case Nil
  then show ?case by (cases "cbuf = []") (auto simp: write_loop.simps [of cbuf ret k])
next
  case (Cons w ws)
  note w = Cons.hyps(2) [symmetric]
  show ?case
  proof (cases "cbuf = []")
    case c: False
    show ?thesis
    proof (cases "\<exists>n > 0. w = Write_bytes n")
      case True
      then obtain n where n: "w = Write_bytes n" "0 < n" by blast
      let ?k = "k\<lparr>takes := ws, taken := taken k @ take n cbuf\<rparr>"
      have r: "write_loop (drop n cbuf) (int (min n (length cbuf))) ?k = Done (r, k')"
        using Cons.prems write_loop_bytes [OF c _ n(2), of k ws ret] w n by simp
      obtain m where "m \<le> length cbuf - n" "taken k' = taken k @ take n cbuf @ take m (drop n cbuf)"
        "m < length cbuf - n \<longrightarrow> r \<le> 0" "drop n cbuf \<noteq> [] \<and> m = length cbuf - n \<longrightarrow> 0 < r"
        using Cons.hyps(1) [of ?k, OF _ r] by auto
      moreover have "length cbuf \<le> n \<longrightarrow> 0 < r" using r c n(2) by auto
      ultimately show ?thesis
        by (cases "length cbuf \<le> n") (force, intro exI [of _ "n + m"], auto simp: take_add)
    next
      case False
      then consider "w = Write_bytes 0" | e where "w = Write_error e"
        by (metis bot_nat_0.not_eq_extremum write_answer.exhaust)
      then show ?thesis
      proof cases
        case 1
        with Cons.prems write_loop_nothing [OF c, of k ws ret] w Cons.hyps(1) [of "k\<lparr>takes := ws\<rparr>" cbuf 0] c
        show ?thesis by (auto split: if_splits)
      next
        case 2
        with Cons.prems write_loop_error [OF c, of k e ws ret] w
          Cons.hyps(1) [of "k\<lparr>takes := ws, errno := e\<rparr>" cbuf "- 1"] c
        show ?thesis by (auto split: if_splits)
      qed
    qed
  qed (use Cons.prems in simp)
qed

text \<open>The sizes of the pieces that a script takes.\<close>

fun pieces :: "write_answer list \<Rightarrow> nat list" where
  "pieces [] = []"
| "pieces (Write_bytes n # ws) = n # pieces ws"
| "pieces (Write_error e # ws) = pieces ws"

definition takes_all :: "write_answer list \<Rightarrow> nat \<Rightarrow> bool" where
  "takes_all ws n \<longleftrightarrow> list_all (\<lambda>w. w \<noteq> Write_bytes 0 \<and> (\<forall>e. w = Write_error e \<longrightarrow> e = EINTR)) ws \<and>
     sum_list (pieces ws) = n \<and> ws \<noteq> [] \<and> (\<exists>m. last ws = Write_bytes m)"

lemma pieces_last: "ws \<noteq> [] \<Longrightarrow> last ws = Write_bytes m \<Longrightarrow> pieces ws \<noteq> []"
  by (induction ws rule: pieces.induct) (auto split: if_splits)

lemma write_loop_pieces:
  "takes_all ws (length cbuf) \<Longrightarrow> takes k = ws @ rest \<Longrightarrow>
   \<exists>k'. write_loop cbuf ret k = Done (int (last (pieces ws)), k') \<and> taken k' = taken k @ cbuf \<and> takes k' = rest"
proof (induction ws arbitrary: cbuf ret k)
  case (Cons w ws)
  have last: "pieces ws \<noteq> [] \<and> last (pieces (w # ws)) = last (pieces ws)" if "ws \<noteq> []"
    using Cons.prems(1) that pieces_last [of ws] by (cases w) (auto simp: takes_all_def)
  show ?case
  proof (cases w)
    case (Write_bytes n)
    have n: "0 < n" "n + sum_list (pieces ws) = length cbuf"
      using Cons.prems(1) Write_bytes by (auto simp: takes_all_def)
    then have c: "cbuf \<noteq> []" "min n (length cbuf) = n" by auto
    let ?k = "k\<lparr>takes := ws @ rest, taken := taken k @ take n cbuf\<rparr>"
    have step: "write_loop cbuf ret k = write_loop (drop n cbuf) (int n) ?k"
      using write_loop_bytes [OF c(1) _ n(1), of k "ws @ rest" ret] c(2) Cons.prems(2) Write_bytes by simp
    show ?thesis
    proof (cases "ws = []")
      case True
      then show ?thesis using step n Write_bytes by simp
    next
      case False
      have "takes_all ws (length (drop n cbuf))"
        using Cons.prems(1) False n by (auto simp: takes_all_def)
      from Cons.IH [OF this, of ?k "int n"] step last [OF False] n show ?thesis
        by auto
    qed
  next
    case (Write_error e)
    then have e: "e = EINTR" "ws \<noteq> []" using Cons.prems(1) by (auto simp: takes_all_def)
    have "takes_all ws (length cbuf)" using Cons.prems(1) e Write_error by (auto simp: takes_all_def)
    moreover have "0 < length cbuf"
    proof -
      from last [OF e(2)] obtain n ns where "pieces ws = n # ns" by (cases "pieces ws") auto
      moreover have "0 \<notin> set (pieces ws)" if "list_all (\<lambda>w. w \<noteq> Write_bytes 0 \<and> Q w) ws" for Q
        using that by (induction ws rule: pieces.induct) auto
      ultimately show ?thesis using \<open>takes_all ws (length cbuf)\<close> by (fastforce simp: takes_all_def)
    qed
    ultimately show ?thesis
      using Cons.IH [of cbuf "k\<lparr>takes := ws @ rest, errno := e\<rparr>" "- 1"] Cons.prems(2) Write_error e last [OF e(2)]
        write_loop_error [of cbuf k e "ws @ rest" ret] by auto
  qed
qed (simp add: takes_all_def)

section \<open>Reading\<close>

text \<open>What a call leaves of the socket and of the kernel: \<open>bs\<close> is read from what arrives.\<close>

definition no_select_error :: "kernel \<Rightarrow> bool" where
  "no_select_error k \<longleftrightarrow> list_all (\<lambda>a. case a of Select_error e \<Rightarrow> e = EINTR | _ \<Rightarrow> True) (selects k)"

definition reads_on :: "SocketImpl \<Rightarrow> kernel \<Rightarrow> bytes \<Rightarrow> SocketImpl \<Rightarrow> kernel \<Rightarrow> bool" where
  "reads_on s k bs s' k' \<longleftrightarrow> m_id s' = m_id s \<and> arriving k = bs @ arriving k' \<and>
     (no_select_error k \<longrightarrow> no_select_error k')"

lemma reads_on_trans: "reads_on s k bs s1 k1 \<Longrightarrow> reads_on s1 k1 cs s2 k2 \<Longrightarrow> reads_on s k (bs @ cs) s2 k2"
  by (auto simp: reads_on_def)

lemma reads_on_err [simp]: "reads_on (s\<lparr>m_err := e\<rparr>) k bs s' k' = reads_on s k bs s' k'"
  by (simp add: reads_on_def)

lemma read_loop_reads:
  "safe_with (\<lambda>(ret, bs, s', k'). ret = int (length bs) \<and> length bs \<le> want \<and> reads_on s k bs s' k')
     (read_loop want s k)"
proof (induction "reads k" arbitrary: s k)
  case Nil
  then show ?case by (simp add: read_loop.simps)
next
  case (Cons r rs)
  note r = Cons.hyps(2) [symmetric]
  show ?case
  proof (cases r)
    case (Read_bytes n)
    have "arriving k = take (min n want) (arriving k) @ drop (length (take (min n want) (arriving k))) (arriving k)"
      by (metis append_eq_conv_conj append_take_drop_id)
    with r Read_bytes show ?thesis
      by (subst read_loop.simps) (simp add: Let_def reads_on_def no_select_error_def)
  next
    case (Read_error e)
    let ?s = "if e = EINTR then s else s\<lparr>m_err := e\<rparr>" and ?k = "k\<lparr>reads := rs, errno := e\<rparr>"
    have "read_loop want s k = read_loop want ?s ?k"
      using r Read_error by (subst read_loop.simps) (simp add: Let_def)
    with Cons.hyps(1) [of ?k ?s] show ?thesis
      by (auto simp: reads_on_def no_select_error_def split: if_splits elim!: safe_with_mono)
  qed
qed

lemma socket_read_reads:
  assumes "0 < want" "0 \<le> m_id s"
  shows "safe_with (\<lambda>(ret, bs, s', k'). ret = int (length bs) \<and> length bs \<le> want \<and> reads_on s k bs s' k')
     (socket_read want s k)"
  using read_loop_reads [of want "s\<lparr>m_err := 0\<rparr>" k] assms by (simp add: socket_read_def)

lemma no_select_error_time [simp]: "no_select_error (snd (time_left b t k)) = no_select_error k"
  by (simp add: no_select_error_def)

lemma wait_loop_reads:
  "safe_with (\<lambda>(ret, t, s', k'). ret \<in> {- 1, 0, 1} \<and> (no_select_error k \<longrightarrow> ret \<noteq> - 1) \<and> reads_on s k [] s' k')
     (wait_loop b t s k)"
proof (induction "selects k" arbitrary: t s k)
  case Nil
  then show ?case by (simp add: wait_loop.simps)
next
  case (Cons a as)
  note a = Cons.hyps(2) [symmetric]
  let ?k1 = "k\<lparr>selects := as, errno := (case a of Select_error e \<Rightarrow> e | _ \<Rightarrow> errno k)\<rparr>"
  let ?k = "snd (time_left b t ?k1)" and ?t = "fst (time_left b t ?k1)"
  have on: "reads_on s k [] s ?k" using a by (simp add: reads_on_def no_select_error_def)
  have "safe_with (\<lambda>(ret, t, s', k'). ret \<in> {- 1, 0, 1} \<and> (no_select_error ?k \<longrightarrow> ret \<noteq> - 1) \<and> reads_on s ?k [] s' k')
     (wait_loop b ?t s ?k)" using Cons.hyps(1) [of ?k] by simp
  then have rec: "safe_with (\<lambda>(ret, t, s', k'). ret \<in> {- 1, 0, 1} \<and> (no_select_error k \<longrightarrow> ret \<noteq> - 1) \<and> reads_on s k [] s' k')
     (wait_loop b ?t s ?k)"
    using on by (elim safe_with_mono) (auto simp: reads_on_def)
  show ?case
    using rec on a
    by (subst wait_loop.simps) (cases a; auto simp: Let_def reads_on_def no_select_error_def)
qed

lemma wait_for_data_reads:
  "safe_with (\<lambda>(ret, t, s', k'). ret \<in> {- 1, 0, 1} \<and> (no_select_error k \<longrightarrow> ret \<noteq> - 1) \<and> reads_on s k [] s' k')
     (wait_for_data_internal t s k)"
  using wait_loop_reads [of "k\<lparr>ticks := ticks k + 1\<rparr>" "s\<lparr>m_err := 0\<rparr>" "clock k (ticks k)" t]
    wait_loop_reads [of k "s\<lparr>m_err := 0\<rparr>" "(0, 0)" t]
  by (simp add: wait_for_data_internal_def gettimeofday_def no_select_error_def reads_on_def)

text \<open>What reading with a timeout guarantees: the result is the number of bytes read, or it is \<open>-1\<close> after
  an error of \<^verbatim>\<open>select\<close>.\<close>

definition read_result :: "nat \<Rightarrow> SocketImpl \<Rightarrow> kernel \<Rightarrow> bytes \<Rightarrow> int \<times> bytes \<times> SocketImpl \<times> kernel \<Rightarrow> bool" where
  "read_result want s k stored = (\<lambda>(ret, bs, s', k').
     (\<exists>cs. bs = stored @ cs \<and> length cs \<le> want \<and> reads_on s k cs s' k') \<and>
     (ret = int (length bs) \<or> ret = - 1 \<and> \<not> no_select_error k))"

lemma read_timeout_loop_reads:
  "0 \<le> m_id s \<Longrightarrow> safe_with (read_result want s k stored) (read_timeout_loop want t stored s k)"
proof (induction want arbitrary: t stored s k rule: less_induct)
  case (less want)
  show ?case
  proof (cases "want = 0")
    case False
    have read: "safe_with (read_result want s k stored)
        (run_bind (socket_read want s1 k1) (\<lambda>(ret, bs, s, k).
          if ret < 0 then Done (ret, stored @ bs, s, k)
          else if ret = 0 then Done (int (length stored), stored @ bs, s, k)
          else read_timeout_loop (want - nat ret) t1 (stored @ bs) s k))"
      if on: "reads_on s k [] s1 k1" for s1 k1 t1
    proof -
      have id: "0 \<le> m_id s1" using on less.prems by (simp add: reads_on_def)
      show ?thesis
      proof (rule safe_with_bind [OF socket_read_reads], goal_cases)
        case (3 x)
        then obtain bs s2 k2 where x: "x = (int (length bs), bs, s2, k2)" "length bs \<le> want" "reads_on s1 k1 bs s2 k2"
          by (cases x) auto
        from reads_on_trans [OF on x(3)] have on2: "reads_on s k bs s2 k2" by simp
        show ?case
        proof (cases "bs = []")
          case True
          with x on2 show ?thesis by (auto simp: read_result_def)
        next
          case ne: False
          have "0 \<le> m_id s2" using on2 less.prems by (simp add: reads_on_def)
          with less.IH [of "want - length bs" s2 k2 "stored @ bs" t1] ne False
          have "safe_with (read_result (want - length bs) s2 k2 (stored @ bs))
              (read_timeout_loop (want - length bs) t1 (stored @ bs) s2 k2)" by simp
          then have "safe_with (read_result want s k stored)
              (read_timeout_loop (want - length bs) t1 (stored @ bs) s2 k2)"
          proof (rule safe_with_mono, goal_cases)
            case (1 y)
            then obtain ret cs s3 k3 where y: "y = (ret, stored @ bs @ cs, s3, k3)" "length cs \<le> want - length bs"
              "reads_on s2 k2 cs s3 k3"
              "ret = int (length (stored @ bs @ cs)) \<or> ret = - 1 \<and> \<not> no_select_error k2"
              by (cases y) (auto simp: read_result_def)
            with reads_on_trans [OF on2 y(3)] x(2) on2 show ?case
              by (auto simp: read_result_def reads_on_def)
          qed
          with x ne show ?thesis by simp
        qed
      qed (use False id in simp_all)
    qed
    have "safe_with (read_result want s k stored)
      (run_bind (wait_for_data_internal t s k) (\<lambda>(ret, timeout, s, k).
        if ret < 0 then Done (ret, stored, s, k)
        else if ret = 0 then Done (int (length stored), stored, s, k)
        else run_bind (socket_read want s k) (\<lambda>(ret, bs, s, k).
          if ret < 0 then Done (ret, stored @ bs, s, k)
          else if ret = 0 then Done (int (length stored), stored @ bs, s, k)
          else read_timeout_loop (want - nat ret) timeout (stored @ bs) s k)))"
    proof (rule safe_with_bind [OF wait_for_data_reads], goal_cases)
      case (1 x)
      then obtain ret t1 s1 k1 where x: "x = (ret, t1, s1, k1)" "ret \<in> {- 1, 0, 1}"
        "no_select_error k \<longrightarrow> ret \<noteq> - 1" "reads_on s k [] s1 k1" by (cases x) auto
      with read [OF x(4), of t1] show ?case by (auto simp: read_result_def)
    qed
    with False show ?thesis by (subst read_timeout_loop.simps) simp
  qed (simp add: read_timeout_loop.simps read_result_def reads_on_def)
qed

lemma read_with_timeout_reads:
  assumes "0 < want" "0 \<le> m_id s"
  shows "safe_with (read_result want s k []) (read_with_timeout want t s k)"
  using assms read_timeout_loop_reads [OF assms(2), of want k "[]" t] socket_read_reads [OF assms, of k]
  by (auto simp: read_with_timeout_def read_result_def elim!: safe_with_mono)

section \<open>A kernel that serves a reader\<close>

text \<open>Every wait ends with data, every read gives at least a byte, calls may be interrupted, and the
  scripts last for \<open>n\<close> bytes.\<close>

definition ready :: "nat \<Rightarrow> select_answer list \<Rightarrow> bool" where
  "ready n as \<longleftrightarrow> list_all (\<lambda>a. a = Select_ready \<or> a = Select_error EINTR) as \<and> n \<le> count_list as Select_ready"

definition delivers :: "nat \<Rightarrow> read_answer list \<Rightarrow> bool" where
  "delivers n rs \<longleftrightarrow> list_all (\<lambda>r. r \<noteq> Read_bytes 0 \<and> (\<forall>e. r = Read_error e \<longrightarrow> e = EINTR)) rs \<and>
     n + count_list rs (Read_error EINTR) \<le> length rs"

lemma ready_mono: "ready n as \<Longrightarrow> m \<le> n \<Longrightarrow> ready m as"
  by (simp add: ready_def)

lemma delivers_mono: "delivers n rs \<Longrightarrow> m \<le> n \<Longrightarrow> delivers m rs"
  by (simp add: delivers_def)

lemma wait_loop_ready:
  "ready (Suc n) (selects k) \<Longrightarrow>
   \<exists>t' k'. wait_loop b t s k = Done (1, t', s, k') \<and> ready n (selects k') \<and> reads k' = reads k \<and>
     arriving k' = arriving k \<and> (0 \<le> t \<longrightarrow> 0 \<le> t')"
proof (induction "selects k" arbitrary: t k)
  case Nil
  then show ?case by (simp add: ready_def flip: Nil.hyps)
next
  case (Cons a as)
  note a = Cons.hyps(2) [symmetric]
  have le: "0 \<le> t \<longrightarrow> 0 \<le> fst (time_left b t k1)" for k1
    by (simp add: time_left_def Let_def split: prod.split)
  show ?case
  proof (cases "a = Select_ready")
    case True
    with a Cons.prems le show ?thesis
      by (subst wait_loop.simps) (auto simp: Let_def ready_def)
  next
    case False
    with a Cons.prems have e: "a = Select_error EINTR" "ready (Suc n) as" by (auto simp: ready_def)
    let ?k1 = "k\<lparr>selects := as, errno := EINTR\<rparr>"
    have "wait_loop b t s k = wait_loop b (fst (time_left b t ?k1)) s (snd (time_left b t ?k1))"
      using a e by (subst wait_loop.simps) (simp add: Let_def)
    with Cons.hyps(1) [of "snd (time_left b t ?k1)" "fst (time_left b t ?k1)"] e(2) le [of ?k1]
    show ?thesis by auto
  qed
qed

lemma wait_ready:
  "ready (Suc n) (selects k) \<Longrightarrow>
   \<exists>t' s' k'. wait_for_data_internal t s k = Done (1, t', s', k') \<and> m_id s' = m_id s \<and> ready n (selects k') \<and>
     reads k' = reads k \<and> arriving k' = arriving k \<and> (0 \<le> t \<longrightarrow> 0 \<le> t')"
  using wait_loop_ready [of n "k\<lparr>ticks := ticks k + 1\<rparr>" "clock k (ticks k)" t "s\<lparr>m_err := 0\<rparr>"]
    wait_loop_ready [of n k "(0, 0)" t "s\<lparr>m_err := 0\<rparr>"]
  by (auto simp: wait_for_data_internal_def gettimeofday_def)

lemma read_loop_delivers:
  "delivers (Suc n) (reads k) \<Longrightarrow> 0 < want \<Longrightarrow> arriving k \<noteq> [] \<Longrightarrow>
   \<exists>m s' k'. read_loop want s k = Done (int m, take m (arriving k), s', k') \<and> 0 < m \<and> m \<le> want \<and>
     m \<le> length (arriving k) \<and> m_id s' = m_id s \<and> delivers n (reads k') \<and> selects k' = selects k \<and>
     arriving k' = drop m (arriving k)"
proof (induction "reads k" arbitrary: s k)
  case Nil
  then show ?case by (simp add: delivers_def flip: Nil.hyps)
next
  case (Cons r rs)
  note r = Cons.hyps(2) [symmetric]
  show ?case
  proof (cases r)
    case (Read_bytes m)
    let ?m = "min (min m want) (length (arriving k))"
    have m: "0 < m" using r Read_bytes Cons.prems(1) by (auto simp: delivers_def)
    then have "0 < ?m" using Cons.prems by auto
    moreover have "delivers n rs" using r Read_bytes Cons.prems(1) by (auto simp: delivers_def)
    moreover have "take (min m want) (arriving k) = take ?m (arriving k)" by (auto simp: min_def)
    then have "read_loop want s k = Done (int ?m, take ?m (arriving k), s, k\<lparr>reads := rs, arriving := drop ?m (arriving k)\<rparr>)"
      using r Read_bytes by (subst read_loop.simps) (simp add: Let_def min.commute)
    ultimately show ?thesis by (intro exI [of _ ?m]) auto
  next
    case (Read_error e)
    then have e: "e = EINTR" "delivers (Suc n) rs" using r Cons.prems(1) by (auto simp: delivers_def)
    have "read_loop want s k = read_loop want s (k\<lparr>reads := rs, errno := e\<rparr>)"
      using r Read_error e by (subst read_loop.simps) (simp add: Let_def)
    with Cons.hyps(1) [of "k\<lparr>reads := rs, errno := e\<rparr>" s] e Cons.prems show ?thesis by auto
  qed
qed

lemma socket_read_delivers:
  "delivers (Suc n) (reads k) \<Longrightarrow> 0 < want \<Longrightarrow> 0 \<le> m_id s \<Longrightarrow> arriving k \<noteq> [] \<Longrightarrow>
   \<exists>m s' k'. socket_read want s k = Done (int m, take m (arriving k), s', k') \<and> 0 < m \<and> m \<le> want \<and>
     m \<le> length (arriving k) \<and> m_id s' = m_id s \<and> delivers n (reads k') \<and> selects k' = selects k \<and>
     arriving k' = drop m (arriving k)"
  using read_loop_delivers [of n k want "s\<lparr>m_err := 0\<rparr>"] by (auto simp: socket_read_def)

lemma read_timeout_loop_served:
  "ready (want + n) (selects k) \<Longrightarrow> delivers (want + n) (reads k) \<Longrightarrow> want \<le> length (arriving k) \<Longrightarrow>
   0 \<le> m_id s \<Longrightarrow>
   \<exists>s' k'. read_timeout_loop want t stored s k
       = Done (int (length stored + want), stored @ take want (arriving k), s', k') \<and>
     m_id s' = m_id s \<and> ready n (selects k') \<and> delivers n (reads k') \<and> arriving k' = drop want (arriving k)"
proof (induction want arbitrary: t stored s k rule: less_induct)
  case (less want)
  show ?case
  proof (cases "want = 0")
    case True
    with less.prems show ?thesis by (simp add: read_timeout_loop.simps)
  next
    case False
    then obtain w where w: "want = Suc w" by (cases want) auto
    from wait_ready [of "w + n" k t s] less.prems(1) w obtain t1 s1 k1 where
      wait: "wait_for_data_internal t s k = Done (1, t1, s1, k1)" "m_id s1 = m_id s" "ready (w + n) (selects k1)"
        "reads k1 = reads k" "arriving k1 = arriving k" by auto
    have "arriving k1 \<noteq> []" using less.prems(3) False wait(5) by auto
    with socket_read_delivers [of "w + n" k1 want s1] wait less.prems w obtain m s2 k2 where
      read: "socket_read want s1 k1 = Done (int m, take m (arriving k), s2, k2)" "0 < m" "m \<le> want"
        "m \<le> length (arriving k)" "m_id s2 = m_id s" "delivers (w + n) (reads k2)" "selects k2 = selects k1"
        "arriving k2 = drop m (arriving k)" by auto
    have step: "read_timeout_loop want t stored s k
        = read_timeout_loop (want - m) t1 (stored @ take m (arriving k)) s2 k2"
      using wait(1) read(1,2) False by (subst read_timeout_loop.simps) simp
    have le: "want - m + n \<le> w + n" "want - m < want" using read(2) w by simp_all
    have "ready (want - m + n) (selects k2)" "delivers (want - m + n) (reads k2)"
      using ready_mono [OF wait(3) le(1)] delivers_mono [OF read(6) le(1)] read(7) by simp_all
    moreover have "want - m \<le> length (arriving k2)" "0 \<le> m_id s2" using less.prems(3,4) read(5,8) by simp_all
    ultimately obtain s3 k3 where
      rec: "read_timeout_loop (want - m) t1 (stored @ take m (arriving k)) s2 k2
          = Done (int (length (stored @ take m (arriving k)) + (want - m)),
              (stored @ take m (arriving k)) @ take (want - m) (arriving k2), s3, k3)"
        "m_id s3 = m_id s2" "ready n (selects k3)" "delivers n (reads k3)" "arriving k3 = drop (want - m) (arriving k2)"
      using less.IH [OF le(2), of k2 s2 t1 "stored @ take m (arriving k)"] by metis
    have "take want (arriving k) = take m (arriving k) @ take (want - m) (drop m (arriving k))"
      using read(3) by (metis le_add_diff_inverse take_add)
    with rec step read show ?thesis by simp
  qed
qed

lemma read_with_timeout_served:
  assumes "ready (want + n) (selects k)" "delivers (want + n) (reads k)" "want \<le> length (arriving k)"
    and "0 \<le> m_id s" "0 < want" "0 \<le> t"
  shows "\<exists>s' k'. read_with_timeout want t s k = Done (int want, take want (arriving k), s', k') \<and>
    m_id s' = m_id s \<and> ready n (selects k') \<and> delivers n (reads k') \<and> arriving k' = drop want (arriving k)"
  using read_timeout_loop_served [OF assms(1-4), of t "[]"] assms(4-6) by (auto simp: read_with_timeout_def)

lemma write_loop_defined: "write_loop cbuf ret k \<noteq> Undefined"
proof (induction "takes k" arbitrary: cbuf ret k)
  case Nil
  then show ?case by (cases "cbuf = []") (simp_all add: write_loop.simps [of cbuf ret k])
next
  case (Cons w ws)
  note w = Cons.hyps(2) [symmetric]
  show ?case
  proof (cases "cbuf = []")
    case c: False
    show ?thesis
    proof (cases w)
      case (Write_bytes n)
      with write_loop_bytes [OF c, of k n ws ret] write_loop_nothing [OF c, of k ws ret] Cons.hyps(1) w
      show ?thesis by (cases "n = 0") simp_all
    next
      case (Write_error e)
      with write_loop_error [OF c, of k e ws ret] Cons.hyps(1) w show ?thesis by simp
    qed
  qed simp
qed

lemma pieces_positive: "takes_all ws n \<Longrightarrow> 0 \<notin> set (pieces ws)"
proof -
  have "list_all (\<lambda>w. w \<noteq> Write_bytes 0 \<and> Q w) ws \<Longrightarrow> 0 \<notin> set (pieces ws)" for Q
    by (induction ws rule: pieces.induct) auto
  then show "takes_all ws n \<Longrightarrow> 0 \<notin> set (pieces ws)" by (auto simp: takes_all_def)
qed

text \<open>The last piece is all of them only when it is the only one.\<close>

lemma takes_all_pieces:
  assumes "takes_all ws n"
  shows "last (pieces ws) = n \<longleftrightarrow> length (pieces ws) = 1"
proof -
  have ne: "pieces ws \<noteq> []" using assms pieces_last by (auto simp: takes_all_def)
  then have split: "pieces ws = butlast (pieces ws) @ [last (pieces ws)]" by simp
  then have "sum_list (pieces ws) = sum_list (butlast (pieces ws)) + last (pieces ws)"
    by (metis add.right_neutral sum_list.Cons sum_list.Nil sum_list_append)
  moreover have "sum_list (butlast (pieces ws)) = 0 \<longleftrightarrow> butlast (pieces ws) = []"
    using pieces_positive [OF assms] by (auto simp: dest: in_set_butlastD) (metis in_set_butlastD last_in_set)
  moreover have "butlast (pieces ws) = [] \<longleftrightarrow> length (pieces ws) = 1"
    using split ne by (metis One_nat_def append_Nil length_Cons length_butlast list.size(3) diff_Suc_1 length_0_conv)
  ultimately show ?thesis using assms by (auto simp: takes_all_def)
qed

end
