(* ===== verification/Core_Transfer.thy ===== *)
theory Core_Transfer
  imports Core_Socket
begin

text \<open>
  Sending a transaction and receiving it: \<^verbatim>\<open>write_to_socket\<close>, \<^verbatim>\<open>read_from_socket\<close>, \<^verbatim>\<open>write_to_buffer\<close> and
  \<^verbatim>\<open>read_from_buffer\<close> of \<^verbatim>\<open>src/scim_transaction.cpp\<close>. A message is a header of four numbers (signature,
  magic number, size and checksum) and the contents of the buffer. The conversions between \<^verbatim>\<open>size_t\<close>
  (64 bits), \<^verbatim>\<open>uint32\<close> and \<^verbatim>\<open>int\<close> are written out.
\<close>

section \<open>Sending\<close>

definition to_int :: "nat \<Rightarrow> int" where
  "to_int n = sint (of_nat n :: 32 word)"

text \<open>\<^verbatim>\<open>m_write_pos - SCIM_TRANS_HEADER_SIZE\<close> as a \<^verbatim>\<open>uint32\<close>.\<close>

definition body_size :: "TransactionHolder \<Rightarrow> 32 word" where
  "body_size h = word_of_int (int (m_write_pos h) - int SCIM_TRANS_HEADER_SIZE)"

definition store_header :: "32 word \<Rightarrow> TransactionHolder \<Rightarrow> TransactionHolder run" where
  "store_header signature h =
     run_bind (store_cells 0 (map Some (scim_uint32tobytes signature)) h) (\<lambda>h.
     run_bind (store_cells 4 (map Some (scim_uint32tobytes SCIM_TRANS_MAGIC)) h) (\<lambda>h.
     run_bind (store_cells 8 (map Some (scim_uint32tobytes (body_size h))) h) (\<lambda>h.
     run_bind (calc_checksum h) (\<lambda>checksum.
     store_cells 12 (map Some (scim_uint32tobytes checksum)) h))))"

definition write_to_socket ::
  "SocketImpl \<Rightarrow> 32 word \<Rightarrow> TransactionHolder \<Rightarrow> kernel \<Rightarrow> (bool \<times> TransactionHolder \<times> SocketImpl \<times> kernel) run" where
  "write_to_socket s signature h k =
     (if socket_valid s \<and> holder_valid h then
        run_bind (store_header signature h) (\<lambda>h.
        run_bind (read_bytes 0 (m_write_pos h) h) (\<lambda>buf.
        run_bind (socket_write buf s k) (\<lambda>(ret, s, k).
          Done (ret = to_int (m_write_pos h), h, s, k))))
      else Done (False, h, s, k))"

section \<open>Receiving\<close>

text \<open>The local buffer, whose bytes are not written at first.\<close>

definition fill :: "bytes \<Rightarrow> 8 word option list \<Rightarrow> 8 word option list" where
  "fill bs buf = map Some bs @ drop (length bs) buf"

definition buf_uint32 :: "nat \<Rightarrow> 8 word option list \<Rightarrow> 32 word run" where
  "buf_uint32 p buf =
     (let cs = take 4 (drop p buf) in
      if length cs < 4 \<or> None \<in> set cs then Undefined else Done (scim_bytestouint32 (map the cs)))"

text \<open>\<^verbatim>\<open>nbytes < n\<close> compares an \<^verbatim>\<open>int\<close> with a \<^verbatim>\<open>size_t\<close>, so that a negative number counts as large.\<close>

definition fewer :: "int \<Rightarrow> nat \<Rightarrow> bool" where
  "fewer nbytes n \<longleftrightarrow> nbytes mod 2 ^ 64 < int n"

text \<open>One number read into the beginning of the buffer; \<^term>\<open>None\<close> when there were fewer bytes.\<close>

definition receive_uint32 :: "int \<Rightarrow> 8 word option list \<Rightarrow> SocketImpl \<Rightarrow> kernel \<Rightarrow>
    (32 word option \<times> 8 word option list \<times> SocketImpl \<times> kernel) run" where
  "receive_uint32 timeout buf s k =
     run_bind (read_with_timeout 4 timeout s k) (\<lambda>(nbytes, bs, s, k).
     let buf = fill bs buf in
     if fewer nbytes 4 then Done (None, buf, s, k)
     else run_bind (buf_uint32 0 buf) (\<lambda>n. Done (Some n, buf, s, k)))"

function receive_body :: "nat \<Rightarrow> int \<Rightarrow> TransactionHolder \<Rightarrow> SocketImpl \<Rightarrow> kernel \<Rightarrow>
    (bool \<times> TransactionHolder \<times> SocketImpl \<times> kernel) run" where
  "receive_body n timeout h s k =
     (if n = 0 then Done (True, h, s, k)
      else run_bind (read_with_timeout n timeout s k) (\<lambda>(nbytes, bs, s, k).
        run_bind (store_cells (m_write_pos h) (map Some bs) h) (\<lambda>h.
        if nbytes \<le> 0 then Done (False, h\<lparr>m_write_pos := SCIM_TRANS_HEADER_SIZE\<rparr>, s, k)
        else receive_body (n - nat nbytes) timeout (h\<lparr>m_write_pos := m_write_pos h + nat nbytes\<rparr>) s k)))"
  by pat_completeness auto

termination by (relation "measure fst") auto

declare receive_body.simps [simp del]

text \<open>From the checksum and the size on, and from the size on.\<close>

definition receive_contents :: "int \<Rightarrow> 32 word \<Rightarrow> int \<Rightarrow> Transaction \<Rightarrow> SocketImpl \<Rightarrow> kernel \<Rightarrow>
    (bool \<times> Transaction \<times> SocketImpl \<times> kernel) run" where
  "receive_contents n checksum timeout t s k =
     (if n \<le> 0 \<or> n > SCIM_TRANS_MAX_BUFSIZE then Done (False, t, s, k)
      else
        let t1 = clear_transaction t in
        run_bind (receive_body (nat n) timeout (request_buffer_size (nat n) (m_holder t1)) s k) (\<lambda>(ok, h, s, k).
        if \<not> ok then Done (False, t1\<lparr>m_holder := h\<rparr>, s, k)
        else run_bind (calc_checksum h) (\<lambda>sum.
          if checksum \<noteq> sum
          then Done (False, t1\<lparr>m_holder := h\<lparr>m_write_pos := SCIM_TRANS_HEADER_SIZE\<rparr>\<rparr>, s, k)
          else Done (True, t1\<lparr>m_holder := h\<rparr>, s, k))))"

definition receive_checked :: "int \<Rightarrow> int \<Rightarrow> 8 word option list \<Rightarrow> Transaction \<Rightarrow> SocketImpl \<Rightarrow> kernel \<Rightarrow>
    (bool \<times> Transaction \<times> SocketImpl \<times> kernel) run" where
  "receive_checked n timeout buf t s k =
     run_bind (receive_uint32 timeout buf s k) (\<lambda>(checksum, _, s, k).
     case checksum of None \<Rightarrow> Done (False, t, s, k)
     | Some checksum \<Rightarrow> receive_contents n checksum timeout t s k)"

definition read_from_socket :: "SocketImpl \<Rightarrow> int \<Rightarrow> Transaction \<Rightarrow> kernel \<Rightarrow>
    (bool \<times> Transaction \<times> SocketImpl \<times> kernel) run" where
  "read_from_socket s timeout t k =
     (if socket_valid s \<and> holder_valid (m_holder t) then
        run_bind (read_with_timeout 8 timeout s k) (\<lambda>(nbytes, bs, s, k).
        let buf = fill bs (replicate 8 None) in
        if fewer nbytes 8 then Done (False, t, s, k)
        else run_bind (buf_uint32 0 buf) (\<lambda>sign1. run_bind (buf_uint32 4 buf) (\<lambda>sign2.
          if sign1 \<noteq> SCIM_TRANS_MAGIC \<and> sign2 \<noteq> SCIM_TRANS_MAGIC then Done (False, t, s, k)
          else run_bind (if sign2 = SCIM_TRANS_MAGIC then receive_uint32 timeout buf s k
                         else Done (Some sign2, buf, s, k)) (\<lambda>(n, buf, s, k).
            case n of None \<Rightarrow> Done (False, t, s, k)
            | Some n \<Rightarrow> receive_checked (sint n) timeout buf t s k))))
      else Done (False, t, s, k))"

section \<open>Buffers\<close>

text \<open>A buffer of \<open>bufsize\<close> cells is given; \<open>None\<close> stands for the null pointer.\<close>

definition write_to_buffer :: "8 word option list option \<Rightarrow> TransactionHolder \<Rightarrow>
    (bool \<times> 8 word option list option) run" where
  "write_to_buffer buf h =
     (case buf of None \<Rightarrow> Done (False, buf)
      | Some cbuf \<Rightarrow>
          if holder_valid h \<and> length cbuf \<ge> m_write_pos h then
            run_bind (copy_cells 0 (m_write_pos h) h) (\<lambda>cs.
            let cbuf = cs @ drop (m_write_pos h) cbuf in
            if length cbuf < 16 then Undefined
            else run_bind (calc_checksum h) (\<lambda>checksum.
              Done (True, Some (map Some (scim_uint32tobytes 0 @ scim_uint32tobytes SCIM_TRANS_MAGIC @
                scim_uint32tobytes (body_size h) @ scim_uint32tobytes checksum) @ drop 16 cbuf))))
          else Done (False, buf))"

text \<open>The size in the header is compared with \<^verbatim>\<open>bufsize - SCIM_TRANS_HEADER_SIZE\<close>, a \<^verbatim>\<open>size_t\<close>, and the
  size to copy is a \<^verbatim>\<open>uint32\<close>.\<close>

definition copy_from_buffer :: "8 word option list \<Rightarrow> Transaction \<Rightarrow> (bool \<times> Transaction) run" where
  "copy_from_buffer cbuf t =
     run_bind (buf_uint32 8 cbuf) (\<lambda>n.
     if uint n \<le> (int (length cbuf) - int SCIM_TRANS_HEADER_SIZE) mod 2 ^ 64 then
       let m = unat (n + of_nat SCIM_TRANS_HEADER_SIZE); h = m_holder t in
       run_bind (buf_uint32 12 cbuf) (\<lambda>checksum.
       let h = (if m_buffer_size h < m then request_buffer_size (m - m_buffer_size h) h else h) in
       if length cbuf < m then Undefined
       else run_bind (store_cells 0 (take m cbuf) h) (\<lambda>h.
         let h = h\<lparr>m_write_pos := SCIM_TRANS_HEADER_SIZE\<rparr> in
         run_bind (calc_checksum h) (\<lambda>sum. Done (checksum = sum, t\<lparr>m_holder := h\<rparr>))))
     else Done (False, t))"

definition read_from_buffer :: "8 word option list option \<Rightarrow> Transaction \<Rightarrow> (bool \<times> Transaction) run" where
  "read_from_buffer buf t =
     (case buf of None \<Rightarrow> Done (False, t)
      | Some cbuf \<Rightarrow>
          if \<not> holder_valid (m_holder t) then Done (False, t)
          else run_bind (buf_uint32 0 cbuf) (\<lambda>sign. if sign \<noteq> 0 then Done (False, t)
            else run_bind (buf_uint32 4 cbuf) (\<lambda>magic. if magic \<noteq> SCIM_TRANS_MAGIC then Done (False, t)
            else copy_from_buffer cbuf t)))"


section \<open>The message\<close>

definition checksum :: "bytes \<Rightarrow> 32 word" where
  "checksum body = fold checksum_step body 0"

definition message_header :: "32 word \<Rightarrow> bytes \<Rightarrow> bytes" where
  "message_header signature body =
     scim_uint32tobytes signature @ scim_uint32tobytes SCIM_TRANS_MAGIC @
     scim_uint32tobytes (of_nat (length body)) @ scim_uint32tobytes (checksum body)"

definition message_of :: "32 word \<Rightarrow> bytes \<Rightarrow> bytes" where
  "message_of signature body = message_header signature body @ body"

lemma length_uint32tobytes [simp]: "length (scim_uint32tobytes n) = 4"
  by (simp add: scim_uint32tobytes_def)

lemma length_header [simp]: "length (message_header signature body) = 16"
  by (simp add: message_header_def)

lemma length_message [simp]: "length (message_of signature body) = 16 + length body"
  by (simp add: message_of_def)

lemma None_map_Some [simp]: "None \<notin> set (map Some bs)"
  by auto

lemma calc_checksum_cells:
  "holder_inv h \<Longrightarrow> cells h = map Some body \<Longrightarrow> calc_checksum h = Done (checksum body)"
  by (simp add: calc_checksum_def read_bytes_def copy_cells_def holder_inv_def cells_def
      SCIM_TRANS_HEADER_SIZE_def checksum_def comp_def)

lemma store_in_header:
  assumes "holder_inv h" "p + length cs \<le> 16"
  shows "\<exists>h'. store_cells p cs h = Done h' \<and> holder_inv h' \<and> cells h' = cells h \<and> m_write_pos h' = m_write_pos h \<and>
    m_bytes h' = take p (m_bytes h) @ cs @ drop (p + length cs) (m_bytes h)"
proof -
  have l: "p + length cs \<le> length (m_bytes h)" using assms by (simp add: holder_inv_def)
  have "drop 16 (take p (m_bytes h) @ cs @ drop (p + length cs) (m_bytes h)) = drop 16 (m_bytes h)"
    using assms(2) l by simp
  with l assms(1) show ?thesis by (simp add: store_cells_def holder_inv_def cells_def)
qed

lemma store_header_message:
  assumes h: "holder_inv h" "cells h = map Some body"
  shows "\<exists>h'. store_header signature h = Done h' \<and> holder_inv h' \<and> cells h' = cells h \<and>
    m_write_pos h' = m_write_pos h \<and> read_bytes 0 (m_write_pos h') h' = Done (message_of signature body)"
proof -
  let ?sig = "map Some (scim_uint32tobytes signature)" and ?mag = "map Some (scim_uint32tobytes SCIM_TRANS_MAGIC)"
  let ?siz = "map Some (scim_uint32tobytes (of_nat (length body)))"
  let ?sum = "map Some (scim_uint32tobytes (checksum body))"
  have wp: "m_write_pos h = 16 + length body" using write_pos_cells [OF h(1)] h(2) by simp
  from store_in_header [OF h(1), of 0 ?sig] obtain h1 where
    h1: "store_cells 0 ?sig h = Done h1" "holder_inv h1" "cells h1 = cells h" "m_write_pos h1 = m_write_pos h"
      "m_bytes h1 = ?sig @ drop 4 (m_bytes h)" by auto
  from store_in_header [OF h1(2), of 4 ?mag] h1(3-5) obtain h2 where
    h2: "store_cells 4 ?mag h1 = Done h2" "holder_inv h2" "cells h2 = cells h" "m_write_pos h2 = m_write_pos h"
      "m_bytes h2 = ?sig @ ?mag @ drop 8 (m_bytes h)" by auto
  from store_in_header [OF h2(2), of 8 ?siz] h2(3-5) obtain h3 where
    h3: "store_cells 8 ?siz h2 = Done h3" "holder_inv h3" "cells h3 = cells h" "m_write_pos h3 = m_write_pos h"
      "m_bytes h3 = ?sig @ ?mag @ ?siz @ drop 12 (m_bytes h)" by auto
  from store_in_header [OF h3(2), of 12 ?sum] h3(3-5) obtain h4 where
    h4: "store_cells 12 ?sum h3 = Done h4" "holder_inv h4" "cells h4 = cells h" "m_write_pos h4 = m_write_pos h"
      "m_bytes h4 = ?sig @ ?mag @ ?siz @ ?sum @ drop 16 (m_bytes h)" by auto
  have size: "body_size h2 = of_nat (length body)"
    by (simp add: body_size_def h2(4) wp SCIM_TRANS_HEADER_SIZE_def)
  have sum: "calc_checksum h3 = Done (checksum body)"
    using calc_checksum_cells [OF h3(2)] h3(3) h(2) by simp
  have stored: "store_header signature h = Done h4"
    unfolding store_header_def by (simp only: h1(1) h2(1) size h3(1) sum h4(1) run_bind.simps)
  have "take (length body) (drop 16 (m_bytes h)) = map Some body" using h(2) wp by (simp add: cells_def)
  then have "take (m_write_pos h4) (m_bytes h4) = map Some (message_of signature body)"
    by (simp add: h4(4,5) wp message_of_def message_header_def)
  moreover have "m_write_pos h4 \<le> length (m_bytes h4)" using h4(2) by (simp add: holder_inv_def)
  ultimately have "read_bytes 0 (m_write_pos h4) h4 = Done (message_of signature body)"
    by (simp add: read_bytes_def copy_cells_def comp_def)
  with stored h4 show ?thesis by auto
qed

lemma write_to_socket_eq:
  assumes h: "holder_inv h" "cells h = map Some body" and s: "0 \<le> m_id s"
  obtains h' where "holder_inv h'" "cells h' = cells h" "m_write_pos h' = m_write_pos h"
    "write_to_socket s signature h k =
      run_bind (socket_write (message_of signature body) s k)
        (\<lambda>(ret, s, k). Done (ret = to_int (16 + length body), h', s, k))"
proof -
  from store_header_message [OF h, of signature] obtain h' where h':
    "store_header signature h = Done h'" "holder_inv h'" "cells h' = cells h" "m_write_pos h' = m_write_pos h"
    "read_bytes 0 (m_write_pos h') h' = Done (message_of signature body)" by blast
  have v: "socket_valid s" "holder_valid h"
    using s h(1) by (simp_all add: socket_valid_def holder_valid_def holder_inv_def)
  have "m_write_pos h' = 16 + length body" using write_pos_cells [OF h'(2)] h'(3) h(2) by simp
  with h' v have "write_to_socket s signature h k =
      run_bind (socket_write (message_of signature body) s k)
        (\<lambda>(ret, s, k). Done (ret = to_int (16 + length body), h', s, k))"
    by (simp add: write_to_socket_def)
  with h' that show thesis by blast
qed

lemma to_int_small: "n < 2147483648 \<Longrightarrow> to_int n = int n"
  using sint_word_of_int_range [of "int n"] by (simp add: to_int_def)

lemma message_not_empty [simp]: "message_of signature body \<noteq> []"
  by (metis length_message add_eq_0_iff_both_eq_0 list.size(3) zero_neq_numeral)

lemma socket_write_pieces:
  assumes "buf \<noteq> []" "0 \<le> m_id s" "takes_all ws (length buf)" "takes k = ws @ rest"
  shows "\<exists>s' k'. socket_write buf s k = Done (int (last (pieces ws)), s', k') \<and> m_id s' = m_id s \<and>
    taken k' = taken k @ buf \<and> takes k' = rest"
  using write_loop_pieces [OF assms(3,4), of "- 1"] assms(1,2) by (auto simp: socket_write_def)

section \<open>Receiving the message\<close>

lemma fewer_small [simp]: "n < 4294967296 \<Longrightarrow> fewer (int n) m \<longleftrightarrow> n < m"
  by (simp add: fewer_def)

lemma buf_uint32_fill [simp]: "buf_uint32 0 (fill (scim_uint32tobytes n) buf) = Done n"
  by (simp add: buf_uint32_def fill_def comp_def)



text \<open>A transaction that is cleared and has room asked for.\<close>

lemma request_after_clear:
  assumes "holder_inv (m_holder t)"
  shows "holder_inv (request_buffer_size n (m_holder (clear_transaction t)))"
    "cells (request_buffer_size n (m_holder (clear_transaction t))) = []"
    "m_write_pos (request_buffer_size n (m_holder (clear_transaction t))) + n
       \<le> m_buffer_size (request_buffer_size n (m_holder (clear_transaction t)))"
  using assms
  by (auto simp: request_buffer_size_def clear_transaction_def holder_inv_def cells_def SCIM_TRANS_HEADER_SIZE_def
      SCIM_TRANS_MIN_BUFSIZE_def Let_def)



section \<open>Receiving from any kernel\<close>

lemma uint32_bytes: "length bs = 4 \<Longrightarrow> scim_uint32tobytes (scim_bytestouint32 bs) = bs"
proof -
  assume "length bs = 4"
  then obtain a b c d where bs: "bs = [a, b, c, d]"
    by (auto simp: numeral_eq_Suc length_Suc_conv)
  have out: "\<not> bit x n" if "8 \<le> n" for x :: "8 word" and n
    using that bit_imp_le_length [of x n] by auto
  let ?w = "scim_bytestouint32 bs"
  note bits = scim_bytestouint32_def bit_ucast_iff bit_and_iff bit_or_iff bit_drop_bit_eq bit_push_bit_iff bit_0xFF_int
  have "ucast (?w AND 0xFF) = a"
    by (rule bit_word_eqI) (simp add: bs bits out)
  moreover have "ucast (drop_bit 8 ?w AND 0xFF) = b"
    by (rule bit_word_eqI) (simp add: bs bits out)
  moreover have "ucast (drop_bit 16 ?w AND 0xFF) = c"
    by (rule bit_word_eqI) (simp add: bs bits out)
  moreover have "ucast (drop_bit 24 ?w AND 0xFF) = d"
    by (rule bit_word_eqI) (simp add: bs bits out)
  ultimately show ?thesis by (simp add: scim_uint32tobytes_def bs)
qed

lemma buf_uint32_reads:
  "length bs = 4 \<Longrightarrow> buf_uint32 0 (fill bs buf) = Done (scim_bytestouint32 bs)"
  by (simp add: buf_uint32_def fill_def comp_def)

lemma receive_uint32_reads:
  assumes "0 \<le> m_id s" "no_select_error k"
  shows "safe_with (\<lambda>(n, _, s', k'). \<exists>bs. reads_on s k bs s' k' \<and> (\<forall>w. n = Some w \<longrightarrow> bs = scim_uint32tobytes w))
    (receive_uint32 timeout buf s k)"
  unfolding receive_uint32_def
proof (rule safe_with_bind [OF read_with_timeout_reads [OF _ assms(1)]], simp, goal_cases)
  case (1 x)
  then obtain bs s1 k1 where x: "x = (int (length bs), bs, s1, k1)" "length bs \<le> 4" "reads_on s k bs s1 k1"
    using assms(2) by (cases x) (auto simp: read_result_def)
  show ?case
  proof (cases "length bs < 4")
    case True
    with x show ?thesis by auto
  next
    case False
    with x have "length bs = 4" by simp
    with x buf_uint32_reads [OF this, of buf] uint32_bytes [OF this] show ?thesis by (auto simp: fewer_def Let_def)
  qed
qed

lemma receive_body_reads:
  "0 \<le> m_id s \<Longrightarrow> no_select_error k \<Longrightarrow> holder_inv h \<Longrightarrow> m_write_pos h + n \<le> m_buffer_size h \<Longrightarrow>
   safe_with (\<lambda>(ok, h', s', k'). holder_inv h' \<and>
       (if ok then \<exists>bs. reads_on s k bs s' k' \<and> length bs = n \<and> cells h' = cells h @ map Some bs else cells h' = []))
     (receive_body n timeout h s k)"
proof (induction n arbitrary: h s k rule: less_induct)
  case (less n)
  show ?case
  proof (cases "n = 0")
    case True
    with less.prems show ?thesis by (simp add: receive_body.simps reads_on_def)
  next
    case False
    then have "0 < n" by simp
    have "safe_with (\<lambda>(ok, h', s', k'). holder_inv h' \<and>
       (if ok then \<exists>bs. reads_on s k bs s' k' \<and> length bs = n \<and> cells h' = cells h @ map Some bs else cells h' = []))
     (run_bind (read_with_timeout n timeout s k) (\<lambda>(nbytes, bs, s, k).
        run_bind (store_cells (m_write_pos h) (map Some bs) h) (\<lambda>h.
        if nbytes \<le> 0 then Done (False, h\<lparr>m_write_pos := SCIM_TRANS_HEADER_SIZE\<rparr>, s, k)
        else receive_body (n - nat nbytes) timeout (h\<lparr>m_write_pos := m_write_pos h + nat nbytes\<rparr>) s k)))"
    proof (rule safe_with_bind [OF read_with_timeout_reads [OF \<open>0 < n\<close> less.prems(1)]], goal_cases)
      case (1 x)
      then obtain bs s1 k1 where x: "x = (int (length bs), bs, s1, k1)" "length bs \<le> n" "reads_on s k bs s1 k1"
        using less.prems(2) by (cases x) (auto simp: read_result_def)
      have id: "0 \<le> m_id s1" "no_select_error k1" using x(3) less.prems by (simp_all add: reads_on_def)
      have "m_write_pos h + length (map Some bs) \<le> m_buffer_size h" using less.prems(4) x(2) by simp
      from writesD [OF writes_put_cells less.prems(3) this] obtain h' where
        h': "put_bytes bs h = Done h'" "holder_inv h'" "cells h' = cells h @ map Some bs"
          "m_buffer_size h \<le> m_buffer_size h'" "m_write_pos h' = m_write_pos h + length bs" by auto
      then obtain h1 where h1: "store_cells (m_write_pos h) (map Some bs) h = Done h1"
        "h' = h1\<lparr>m_write_pos := m_write_pos h1 + length bs\<rparr>" by (auto simp: put_cells_def)
      show ?case
      proof (cases "bs = []")
        case True
        with h1(2) h'(2) have "holder_inv (h1\<lparr>m_write_pos := 16\<rparr>)" "cells (h1\<lparr>m_write_pos := 16\<rparr>) = []"
          by (simp_all add: holder_inv_def cells_def)
        with x h1 True show ?thesis by (simp add: SCIM_TRANS_HEADER_SIZE_def)
      next
        case ne: False
        have "m_write_pos h' + (n - length bs) \<le> m_buffer_size h'" using h'(4,5) less.prems(4) x(2) by simp
        from less.IH [OF _ id h'(2) this] ne False
        have "safe_with (\<lambda>(ok, h2, s', k'). holder_inv h2 \<and>
            (if ok then \<exists>cs. reads_on s1 k1 cs s' k' \<and> length cs = n - length bs \<and> cells h2 = cells h' @ map Some cs
             else cells h2 = [])) (receive_body (n - length bs) timeout h' s1 k1)" by simp
        then have "safe_with (\<lambda>(ok, h2, s', k'). holder_inv h2 \<and>
            (if ok then \<exists>bs. reads_on s k bs s' k' \<and> length bs = n \<and> cells h2 = cells h @ map Some bs
             else cells h2 = [])) (receive_body (n - length bs) timeout h' s1 k1)"
        proof (rule safe_with_mono, goal_cases)
          case (1 y)
          obtain ok h2 s' k' where y: "y = (ok, h2, s', k')" by (cases y)
          show ?case
          proof (cases ok)
            case True
            with 1(2) y obtain cs where cs: "reads_on s1 k1 cs s' k'" "length cs = n - length bs"
              "cells h2 = cells h' @ map Some cs" "holder_inv h2" by auto
            with reads_on_trans [OF x(3) cs(1)] y True h'(3) x(2) show ?thesis
              by (auto intro!: exI [of _ "bs @ cs"])
          qed (use 1(2) y in simp)
        qed
        with x h1 h' ne show ?thesis by simp
      qed
    qed
    with False show ?thesis by (subst receive_body.simps) simp
  qed
qed

lemma receive_contents_reads:
  assumes "0 \<le> m_id s" "no_select_error k" "holder_inv (m_holder t)"
  shows "safe_with (\<lambda>(ok, t', s', k'). holder_inv (m_holder t') \<and>
      (if ok then \<exists>body. reads_on s k body s' k' \<and> body \<noteq> [] \<and> length body \<le> 16777216 \<and> n = int (length body) \<and>
         c = checksum body \<and> cells (m_holder t') = map Some body \<and> m_read_pos t' = 16
       else t' = t \<or> cells (m_holder t') = []))
    (receive_contents n c timeout t s k)"
proof (cases "n \<le> 0 \<or> n > SCIM_TRANS_MAX_BUFSIZE")
  case True
  with assms(3) show ?thesis by (simp add: receive_contents_def)
next
  case False
  then have n: "0 < n" "n \<le> 16777216" by (auto simp: SCIM_TRANS_MAX_BUFSIZE_def)
  let ?h = "request_buffer_size (nat n) (m_holder (clear_transaction t))"
  note h = request_after_clear [OF assms(3), of "nat n"]
  note body = receive_body_reads [OF assms(1,2) h(1,3), of timeout]
  show ?thesis
    unfolding receive_contents_def Let_def if_not_P [OF False]
  proof (rule safe_with_bind [OF body], goal_cases)
    case (1 x)
    obtain ok h' s' k' where x: "x = (ok, h', s', k')" by (cases x)
    show ?case
    proof (cases ok)
      case True
      with 1(2) x h(2) obtain bs where bs: "reads_on s k bs s' k'" "length bs = nat n" "cells h' = map Some bs"
        "holder_inv h'" by auto
      have "holder_inv (h'\<lparr>m_write_pos := 16\<rparr>)" "cells (h'\<lparr>m_write_pos := 16\<rparr>) = []"
        using bs(4) by (simp_all add: holder_inv_def cells_def)
      with True x bs n calc_checksum_cells [OF bs(4,3)] show ?thesis
        by (auto simp: clear_transaction_def SCIM_TRANS_HEADER_SIZE_def intro!: exI [of _ bs])
    qed (use 1(2) x in simp)
  qed
qed

lemma receive_checked_reads:
  assumes "0 \<le> m_id s" "no_select_error k" "holder_inv (m_holder t)"
  shows "safe_with (\<lambda>(ok, t', s', k'). holder_inv (m_holder t') \<and>
      (if ok then \<exists>body. reads_on s k (scim_uint32tobytes (checksum body) @ body) s' k' \<and> body \<noteq> [] \<and>
         length body \<le> 16777216 \<and> n = int (length body) \<and>
         cells (m_holder t') = map Some body \<and> m_read_pos t' = 16
       else t' = t \<or> cells (m_holder t') = []))
    (receive_checked n timeout buf t s k)"
  unfolding receive_checked_def
proof (rule safe_with_bind [OF receive_uint32_reads [OF assms(1,2)]], goal_cases)
  case (1 x)
  obtain c buf' s1 k1 where x: "x = (c, buf', s1, k1)" by (cases x)
  with 1(2) obtain bs where bs: "reads_on s k bs s1 k1" "\<forall>w. c = Some w \<longrightarrow> bs = scim_uint32tobytes w" by auto
  then have s1: "0 \<le> m_id s1" "no_select_error k1" using assms by (simp_all add: reads_on_def)
  show ?case
  proof (cases c)
    case (Some w)
    have "safe_with (\<lambda>(ok, t', s', k'). holder_inv (m_holder t') \<and>
      (if ok then \<exists>body. reads_on s k (scim_uint32tobytes (checksum body) @ body) s' k' \<and> body \<noteq> [] \<and>
         length body \<le> 16777216 \<and> n = int (length body) \<and>
         cells (m_holder t') = map Some body \<and> m_read_pos t' = 16
       else t' = t \<or> cells (m_holder t') = []))
      (receive_contents n w timeout t s1 k1)"
      by (rule safe_with_mono [OF receive_contents_reads [OF s1 assms(3)]])
        (use bs Some in \<open>auto intro: reads_on_trans split: if_splits\<close>)
    with x Some show ?thesis by simp
  qed (use x assms(3) in simp)
qed

section \<open>The checksum\<close>






section \<open>Properties\<close>

lemma enc_item_not_empty [simp]: "enc_item sg i \<noteq> []"
  by (cases i) (simp_all add: enc_string_def enc_vector_def enc_key_event_def enc_property_def)


text \<open>The header of a message: as it is written, or without a signature.\<close>

definition accepted :: "bytes \<Rightarrow> bytes \<Rightarrow> bool" where
  "accepted header body \<longleftrightarrow> body \<noteq> [] \<and> length body \<le> 16777216 \<and>
     (\<exists>signature. header = message_header signature body \<or>
        header = scim_uint32tobytes SCIM_TRANS_MAGIC @ scim_uint32tobytes (of_nat (length body)) @
          scim_uint32tobytes (checksum body))"

text \<open>What \<^verbatim>\<open>write_to_socket\<close> reports. Whatever the kernel answers, what it takes is a beginning of the
  message, and success is reported only when it took all of it. But the converse fails: \<^verbatim>\<open>Socket::write\<close>
  returns what the last call of \<^verbatim>\<open>write\<close> returned, so that a message the kernel takes in more than one
  piece is sent as a whole and reported as a failure.\<close>

theorem write_reports:
  assumes h: "holder_inv h" "cells h = map Some body" and s: "0 \<le> m_id s" and n: "16 + length body < 2147483648"
  shows "safe_with (\<lambda>(ok, _, _, k'). \<exists>m \<le> 16 + length body. taken k' = taken k @ take m (message_of signature body) \<and>
      (ok \<longrightarrow> m = 16 + length body)) (write_to_socket s signature h k) \<and>
    (takes_all ws (16 + length body) \<and> takes k = ws @ rest \<longrightarrow>
      (\<exists>h' s' k'. write_to_socket s signature h k = Done (length (pieces ws) = 1, h', s', k') \<and>
        taken k' = taken k @ message_of signature body))"
proof
  let ?buf = "message_of signature body"
  obtain h' where wr: "write_to_socket s signature h k =
      run_bind (socket_write ?buf s k) (\<lambda>(ret, s, k). Done (ret = to_int (16 + length body), h', s, k))"
    using write_to_socket_eq [OF h s, of signature k] by metis
  have total: "to_int (16 + length body) = int (16 + length body)" using n by (rule to_int_small)
  show "safe_with (\<lambda>(ok, _, _, k'). \<exists>m \<le> 16 + length body. taken k' = taken k @ take m ?buf \<and>
      (ok \<longrightarrow> m = 16 + length body)) (write_to_socket s signature h k)"
  proof (cases "write_loop ?buf (- 1) k")
    case (Done x)
    obtain ret k1 where x: "x = (ret, k1)" by (cases x)
    from write_loop_takes [OF Done [unfolded x]] obtain m where
      "m \<le> 16 + length body" "taken k1 = taken k @ take m ?buf" "m < 16 + length body \<longrightarrow> ret \<le> 0" by auto
    with Done x wr total s show ?thesis by (auto simp: socket_write_def intro!: exI [of _ m])
  qed (use wr s in \<open>auto simp: socket_write_def write_loop_defined\<close>)
  show "takes_all ws (16 + length body) \<and> takes k = ws @ rest \<longrightarrow>
    (\<exists>h' s' k'. write_to_socket s signature h k = Done (length (pieces ws) = 1, h', s', k') \<and>
      taken k' = taken k @ ?buf)"
  proof
    assume t: "takes_all ws (16 + length body) \<and> takes k = ws @ rest"
    then obtain s' k' where "socket_write ?buf s k = Done (int (last (pieces ws)), s', k')" "taken k' = taken k @ ?buf"
      using socket_write_pieces [OF message_not_empty s, of ws signature body k rest] by auto
    moreover have "last (pieces ws) = 16 + length body \<longleftrightarrow> length (pieces ws) = 1"
      using takes_all_pieces [of ws "16 + length body"] t by blast
    ultimately show "\<exists>h' s' k'. write_to_socket s signature h k = Done (length (pieces ws) = 1, h', s', k') \<and>
      taken k' = taken k @ ?buf" using wr total by auto
  qed
qed

text \<open>C10: Whatever arrives, as long as waiting does not fail, \<^verbatim>\<open>read_from_socket\<close> stays inside its buffers.
  When it succeeds, it has read a header with the magic number, a size and a checksum, and the
  transaction holds what arrived behind it, of that size and that checksum; when it fails, the
  transaction is as it was or empty.\<close>

theorem received_is_what_arrived:
  assumes "0 \<le> m_id s" "holder_inv (m_holder t)" "no_select_error k"
  shows "safe_with (\<lambda>(ok, t', s', k'). holder_inv (m_holder t') \<and>
      (if ok then \<exists>header body. accepted header body \<and> arriving k = header @ body @ arriving k' \<and>
         cells (m_holder t') = map Some body \<and> m_read_pos t' = 16
       else t' = t \<or> cells (m_holder t') = []))
    (read_from_socket s timeout t k)"
proof -
  have v: "socket_valid s" "holder_valid (m_holder t)"
    using assms by (simp_all add: socket_valid_def holder_valid_def holder_inv_def)
  show ?thesis
    unfolding read_from_socket_def if_P [OF conjI [OF v]]
  proof (rule safe_with_bind [OF read_with_timeout_reads [OF _ assms(1)]], simp, goal_cases)
    case (1 x)
    then obtain n1 bs s1 k1 where x: "x = (int n1, bs, s1, k1)" "length bs = n1" "n1 \<le> 8" "reads_on s k bs s1 k1"
      using assms(3) by (cases x) (auto simp: read_result_def)
    show ?case
    proof (cases "n1 < 8")
      case True
      with x assms(2) show ?thesis by (simp add: Let_def)
    next
      case False
      with x have n1: "n1 = 8" "length bs = 8" by simp_all
      have "length (take 4 bs) = 4" "length (drop 4 bs) = 4" using n1 by simp_all
      then obtain w1 w2 where "take 4 bs = scim_uint32tobytes w1" "drop 4 bs = scim_uint32tobytes w2"
        by (metis uint32_bytes)
      then have bs: "bs = scim_uint32tobytes w1 @ scim_uint32tobytes w2" by (metis append_take_drop_id)
      define buf where "buf = fill bs (replicate 8 None)"
      have buf: "buf_uint32 0 buf = Done w1" "buf_uint32 4 buf = Done w2"
        using n1 by (simp_all add: buf_def fill_def buf_uint32_def comp_def bs)
      have k1: "0 \<le> m_id s1" "no_select_error k1" "arriving k = bs @ arriving k1"
        using x(4) assms by (simp_all add: reads_on_def)
      have word: "n = of_nat m" if "sint n = int m" for n :: "32 word" and m
        using arg_cong [OF that, of "of_int :: int \<Rightarrow> 32 word"] by simp
      have rest: "safe_with (\<lambda>(ok, t', s', k'). holder_inv (m_holder t') \<and>
          (if ok then \<exists>header body. accepted header body \<and> arriving k = header @ body @ arriving k' \<and>
             cells (m_holder t') = map Some body \<and> m_read_pos t' = 16
           else t' = t \<or> cells (m_holder t') = []))
        (receive_checked (sint n) timeout buf' t s2 k2)"
        if on: "reads_on s k cs s2 k2" and
          hd: "\<And>body. sint n = int (length body) \<Longrightarrow> body \<noteq> [] \<Longrightarrow> length body \<le> 16777216 \<Longrightarrow>
            accepted (cs @ scim_uint32tobytes (checksum body)) body" for n cs buf' s2 k2
      proof (rule safe_with_mono [OF receive_checked_reads [OF _ _ assms(2)]], goal_cases)
        case (3 y)
        obtain ok t' s' k' where y: "y = (ok, t', s', k')" by (cases y)
        show ?case
        proof (cases ok)
          case True
          with 3(2) y obtain body where body: "reads_on s2 k2 (scim_uint32tobytes (checksum body) @ body) s' k'"
            "body \<noteq> []" "length body \<le> 16777216" "sint n = int (length body)" "holder_inv (m_holder t')"
            "cells (m_holder t') = map Some body" "m_read_pos t' = 16" by auto
          from reads_on_trans [OF on body(1)] have "arriving k = (cs @ scim_uint32tobytes (checksum body)) @ body @ arriving k'"
            by (simp add: reads_on_def)
          with hd [OF body(4,2,3)] body True y show ?thesis by auto
        qed (use 3(2) y in auto)
      qed (use on assms in \<open>simp_all add: reads_on_def\<close>)
      consider "w2 = SCIM_TRANS_MAGIC" | "w2 \<noteq> SCIM_TRANS_MAGIC" "w1 = SCIM_TRANS_MAGIC"
        | "w1 \<noteq> SCIM_TRANS_MAGIC" "w2 \<noteq> SCIM_TRANS_MAGIC" by blast
      then show ?thesis
      proof cases
        case magic: 1
        have "safe_with (\<lambda>(ok, t', s', k'). holder_inv (m_holder t') \<and>
            (if ok then \<exists>header body. accepted header body \<and> arriving k = header @ body @ arriving k' \<and>
               cells (m_holder t') = map Some body \<and> m_read_pos t' = 16
             else t' = t \<or> cells (m_holder t') = []))
          (run_bind (receive_uint32 timeout buf s1 k1) (\<lambda>(n, buf, s, k).
            case n of None \<Rightarrow> Done (False, t, s, k) | Some n \<Rightarrow> receive_checked (sint n) timeout buf t s k))"
        proof (rule safe_with_bind [OF receive_uint32_reads [OF k1(1,2)]], goal_cases)
          case (1 y)
          obtain n buf2 s2 k2 where y: "y = (n, buf2, s2, k2)" by (cases y)
          with 1(2) obtain cs where cs: "reads_on s1 k1 cs s2 k2" "\<forall>w. n = Some w \<longrightarrow> cs = scim_uint32tobytes w" by auto
          show ?case
          proof (cases n)
            case (Some w)
            have "accepted ((bs @ cs) @ scim_uint32tobytes (checksum body)) body"
              if "sint w = int (length body)" "body \<noteq> []" "length body \<le> 16777216" for body
              using that word [OF that(1)] cs(2) Some by (auto simp: accepted_def message_header_def bs magic)
            with rest [OF reads_on_trans [OF x(4) cs(1)], of w buf2] y Some show ?thesis by simp
          qed (use y assms(2) in simp)
        qed
        with magic x(1) n1 buf show ?thesis by (simp add: fewer_def Let_def flip: buf_def)
      next
        case 2
        have "accepted (bs @ scim_uint32tobytes (checksum body)) body"
          if "sint w2 = int (length body)" "body \<noteq> []" "length body \<le> 16777216" for body
          using that word [OF that(1)] by (simp add: accepted_def bs 2)
        with rest [OF x(4), of w2 buf] 2 x(1) n1 buf show ?thesis by (simp add: fewer_def Let_def flip: buf_def)
      next
        case 3
        with x(1) n1 buf assms(2) show ?thesis by (simp add: fewer_def Let_def flip: buf_def)
      qed
    qed
  qed
qed


text \<open>C19: What the code does about errors of the kernel. A wait that fails makes \<^verbatim>\<open>read_with_timeout\<close>
  return \<open>-1\<close>, which the comparison with a \<^verbatim>\<open>size_t\<close> takes for a large number: the header is then read
  from memory that was never written. A \<^verbatim>\<open>read\<close> that fails is called again, without end when it goes on
  failing.\<close>

theorem socket_errors_mishandled:
  assumes "e \<noteq> EINTR" "0 \<le> m_id s" "0 < want"
  shows "(selects k = Select_error e # as \<and> 0 \<le> timeout \<and> holder_inv (m_holder t) \<longrightarrow>
      read_from_socket s timeout t k = Undefined) \<and>
    (reads k = replicate n (Read_error e) \<longrightarrow> socket_read want s k = Blocks)"
proof (intro conjI impI)
  assume a: "selects k = Select_error e # as \<and> 0 \<le> timeout \<and> holder_inv (m_holder t)"
  have "\<exists>t' s' k'. wait_loop b timeout s1 k1 = Done (- 1, t', s', k')" if "selects k1 = Select_error e # as" for b s1 k1
    using that assms(1) by (subst wait_loop.simps) (simp add: Let_def)
  with a have "\<exists>t' s' k'. wait_for_data_internal timeout s k = Done (- 1, t', s', k')"
    by (simp add: wait_for_data_internal_def gettimeofday_def)
  then obtain t1 s' k' where "wait_for_data_internal timeout s k = Done (- 1, t1, s', k')" by blast
  then have "read_with_timeout 8 timeout s k = Done (- 1, [], s', k')"
    using a assms(2) by (simp add: read_with_timeout_def read_timeout_loop.simps [of 8])
  then show "read_from_socket s timeout t k = Undefined"
    using a assms(2)
    by (simp add: read_from_socket_def socket_valid_def holder_valid_def holder_inv_def fewer_def fill_def buf_uint32_def)
next
  have loop: "read_loop want s1 k1 = Blocks" if "reads k1 = replicate n (Read_error e)" for s1 k1
    using that
  proof (induction n arbitrary: s1 k1)
    case (Suc n)
    then show ?case using assms(1) by (subst read_loop.simps) (simp add: Let_def)
  qed (simp add: read_loop.simps)
  assume "reads k = replicate n (Read_error e)"
  with loop assms show "socket_read want s k = Blocks" by (simp add: socket_read_def)
qed

lemma unat_of_nat_len: "n < 4294967296 \<Longrightarrow> unat (of_nat n :: 32 word) = n"
  by (simp add: unat_of_nat take_bit_nat_eq_self)

lemma write_to_buffer_message:
  assumes h: "holder_inv h" "cells h = map Some body" and l: "16 + length body \<le> length cbuf"
  shows "write_to_buffer (Some cbuf) h = Done (True, Some (map Some (message_of 0 body) @ drop (16 + length body) cbuf))"
proof -
  have wp: "m_write_pos h = 16 + length body" using write_pos_cells [OF h(1)] h(2) by simp
  have c: "drop 16 (take (16 + length body) (m_bytes h)) = map Some body"
    using h(2) by (simp add: drop_take cells_def wp)
  have le: "16 + length body \<le> length (m_bytes h)" using h(1) wp by (simp add: holder_inv_def)
  have "body_size h = of_nat (length body)" by (simp add: body_size_def wp SCIM_TRANS_HEADER_SIZE_def)
  with calc_checksum_cells [OF h] wp c le l h(1) show ?thesis
    by (simp add: write_to_buffer_def holder_valid_def holder_inv_def copy_cells_def Let_def
        message_of_def message_header_def)
qed

text \<open>The pair \<^verbatim>\<open>write_to_buffer\<close> and \<^verbatim>\<open>read_from_buffer\<close>. What is written is the message; but the reader
  sets its position to the end of the header before it computes the checksum: it accepts the message only
  when its checksum is zero, and holds nothing then either. When the message is longer than the buffer
  of the reader, the room asked for is what is missing of the buffer, as if the buffer were full: while
  it is not, nothing is allocated and the message is copied past the end.\<close>

theorem read_from_buffer_loses:
  assumes h: "holder_inv h" "cells h = map Some body" and l: "16 + length body \<le> length cbuf" "length cbuf < 2 ^ 32"
    and t: "holder_inv (m_holder t)"
  shows "\<exists>buf. write_to_buffer (Some cbuf) h = Done (True, Some buf) \<and>
      take (16 + length body) buf = map Some (message_of 0 body) \<and>
      (16 + length body \<le> m_buffer_size (m_holder t) \<longrightarrow>
        (\<exists>t'. read_from_buffer (Some buf) t = Done (checksum body = 0, t') \<and> cells (m_holder t') = [])) \<and>
      (m_buffer_size (m_holder t) < 16 + length body \<and>
         m_write_pos (m_holder t) + (16 + length body) < 2 * m_buffer_size (m_holder t) \<longrightarrow>
        read_from_buffer (Some buf) t = Undefined)"
proof -
  let ?n = "16 + length body"
  let ?buf = "map Some (message_of 0 body) @ drop ?n cbuf"
  have uint: "buf_uint32 p (xs @ map Some (scim_uint32tobytes w) @ ys) = Done w" if "length xs = p" for p xs w ys
    using that by (simp add: buf_uint32_def comp_def)
  have buf: "?buf = map Some (scim_uint32tobytes 0) @ map Some (scim_uint32tobytes SCIM_TRANS_MAGIC) @
      map Some (scim_uint32tobytes (of_nat (length body))) @ map Some (scim_uint32tobytes (checksum body)) @
      map Some body @ drop ?n cbuf"
    by (simp add: message_of_def message_header_def)
  have words: "buf_uint32 0 ?buf = Done 0" "buf_uint32 4 ?buf = Done SCIM_TRANS_MAGIC"
    "buf_uint32 8 ?buf = Done (of_nat (length body))" "buf_uint32 12 ?buf = Done (checksum body)"
    unfolding buf
    using uint [of "[]" 0] uint [of "map Some (scim_uint32tobytes 0)" 4]
      uint [of "map Some (scim_uint32tobytes 0) @ map Some (scim_uint32tobytes SCIM_TRANS_MAGIC)" 8]
      uint [of "map Some (scim_uint32tobytes 0) @ map Some (scim_uint32tobytes SCIM_TRANS_MAGIC) @
        map Some (scim_uint32tobytes (of_nat (length body)))" 12] by simp_all
  have len: "length ?buf = length cbuf" using l(1) by simp
  have n: "?n < 4294967296" "length body < 4294967296" using l by simp_all
  have word: "of_nat (length body) + of_nat SCIM_TRANS_HEADER_SIZE = (of_nat ?n :: 32 word)"
    by (simp add: SCIM_TRANS_HEADER_SIZE_def)
  have small: "uint (of_nat (length body) :: 32 word) = int (length body)"
    "unat (of_nat (length body) + of_nat SCIM_TRANS_HEADER_SIZE :: 32 word) = ?n"
    using n(2) unat_of_nat_len [OF n(1)] unfolding word
    by (simp_all only: unsigned_of_nat, simp_all add: take_bit_nat_eq_self)
  have size: "int (length body) \<le> (int (length ?buf) - int SCIM_TRANS_HEADER_SIZE) mod 2 ^ 64"
    using l len by (simp add: SCIM_TRANS_HEADER_SIZE_def)
  define g where "g = (if m_buffer_size (m_holder t) < ?n
    then request_buffer_size (?n - m_buffer_size (m_holder t)) (m_holder t) else m_holder t)"
  have valid: "holder_valid (m_holder t)" using t by (simp add: holder_valid_def holder_inv_def)
  have read: "read_from_buffer (Some ?buf) t = run_bind (store_cells 0 (take ?n ?buf) g) (\<lambda>h.
      let h = h\<lparr>m_write_pos := 16\<rparr> in
      run_bind (calc_checksum h) (\<lambda>sum. Done (checksum body = sum, t\<lparr>m_holder := h\<rparr>)))"
  proof -
    have "read_from_buffer (Some ?buf) t = copy_from_buffer ?buf t"
      using valid words(1,2) by (simp only: read_from_buffer_def option.case if_False not_not run_bind.simps) simp
    also have "\<dots> = run_bind (store_cells 0 (take ?n ?buf) g) (\<lambda>h.
        let h = h\<lparr>m_write_pos := SCIM_TRANS_HEADER_SIZE\<rparr> in
        run_bind (calc_checksum h) (\<lambda>sum. Done (checksum body = sum, t\<lparr>m_holder := h\<rparr>)))"
      unfolding copy_from_buffer_def words(3,4) run_bind.simps small Let_def g_def
      using size l(1) len by (simp only: not_less [symmetric] if_False if_True not_False_eq_True)
    finally show ?thesis by (simp add: SCIM_TRANS_HEADER_SIZE_def)
  qed
  have bytes: "length (m_bytes (m_holder t)) = m_buffer_size (m_holder t)" using t by (simp add: holder_inv_def)
  have fits: "\<exists>t'. read_from_buffer (Some ?buf) t = Done (checksum body = 0, t') \<and> cells (m_holder t') = []"
    if le: "?n \<le> m_buffer_size (m_holder t)"
  proof -
    define h1 where "h1 = (m_holder t)\<lparr>m_bytes := take ?n ?buf @ drop ?n (m_bytes (m_holder t)), m_write_pos := 16\<rparr>"
    have "holder_inv h1" "cells h1 = map Some []"
      using le bytes l(1) t by (simp_all add: h1_def holder_inv_def cells_def)
    moreover from calc_checksum_cells [OF this] have "calc_checksum h1 = Done 0" by (simp add: checksum_def)
    moreover have "read_from_buffer (Some ?buf) t =
        run_bind (calc_checksum h1) (\<lambda>sum. Done (checksum body = sum, t\<lparr>m_holder := h1\<rparr>))"
      unfolding read using le bytes l(1) by (simp add: g_def store_cells_def h1_def Let_def)
    ultimately show ?thesis by auto
  qed
  have over: "read_from_buffer (Some ?buf) t = Undefined"
    if "m_buffer_size (m_holder t) < ?n" "m_write_pos (m_holder t) + ?n < 2 * m_buffer_size (m_holder t)"
  proof -
    have "g = m_holder t" using that by (simp add: g_def request_buffer_size_def)
    with that(1) bytes l(1) show ?thesis unfolding read by (simp add: store_cells_def)
  qed
  have "take ?n ?buf = map Some (message_of 0 body)" by simp
  with write_to_buffer_message [OF h l(1)] fits over show ?thesis by blast
qed

section \<open>Concrete transfers\<close>




definition demo_reader :: kernel where
  "demo_reader = \<lparr>errno = 0, clock = (\<lambda>_. (0, 0)), ticks = 0, selects = Select_error EINTR # replicate 32 Select_ready,
     reads = replicate 32 (Read_bytes 1), takes = [], arriving = [], taken = []\<rparr>"







lemma received_is_what_arrived_witness:
  "safe_with (\<lambda>(ok, t', _, k'). ok \<longrightarrow> cells (m_holder t') \<noteq> [])
     (read_from_socket (new_SocketImpl 6) 1000 (new_Transaction 0) demo_reader)"
proof -
  have "0 \<le> m_id (new_SocketImpl 6)" "holder_inv (m_holder (new_Transaction 0))" "no_select_error demo_reader"
    by (simp_all add: new_SocketImpl_def new_Transaction_def no_select_error_def demo_reader_def list_all_iff)
  from safe_with_mono [OF received_is_what_arrived [OF this, of 1000]] show ?thesis
    by (rule safe_with_mono) (auto simp: accepted_def)
qed


lemma socket_errors_mishandled_witness:
  "read_from_socket (new_SocketImpl 6) 1000 (new_Transaction 0) (demo_reader\<lparr>selects := [Select_error EBADF]\<rparr>) = Undefined \<and>
   socket_read 8 (new_SocketImpl 6) (demo_reader\<lparr>reads := replicate 100 (Read_error EBADF)\<rparr>) = Blocks"
proof -
  have e: "EBADF \<noteq> EINTR" "0 \<le> m_id (new_SocketImpl 6)" "holder_inv (m_holder (new_Transaction 0))"
    by (simp_all add: EBADF_def EINTR_def new_SocketImpl_def new_Transaction_def)
  from socket_errors_mishandled [OF e(1,2), of 8 "demo_reader\<lparr>selects := [Select_error EBADF]\<rparr>" "[]" 1000 "new_Transaction 0" 0]
    socket_errors_mishandled [OF e(1,2), of 8 "demo_reader\<lparr>reads := replicate 100 (Read_error EBADF)\<rparr>" "[]" 1000
      "new_Transaction 0" 100] e(3)
  show ?thesis by simp
qed

end
