(* ===== verification/Core_Server.thy ===== *)
theory Core_Server
  imports Core_Socket
begin

text \<open>
  The life of a socket and the server of sockets: the remaining functions of \<^verbatim>\<open>Socket::SocketImpl\<close> and
  class \<^verbatim>\<open>SocketServer\<close> of \<^verbatim>\<open>src/scim_socket.cpp\<close>. The answers of the kernel to single calls are
  arguments. The kernel of the server knows the open descriptors and has scripts for \<^verbatim>\<open>select\<close> and
  \<^verbatim>\<open>accept\<close>; an answer that no kernel gives, a descriptor in use, stops it like an exhausted script. The
  slots connected to the signals are a parameter: a function that answers a signal by calls of the server.
\<close>

section \<open>The life of a socket\<close>

text \<open>Closing gives the descriptors closed and the path unlinked.\<close>

definition socket_close :: "SocketImpl \<Rightarrow> SocketImpl \<times> int list \<times> bytes option" where
  "socket_close s =
     (if m_id s < 0 then (s, [], None)
      else
        (\<lparr>m_id = - 1, m_err = 0, m_binded = False, m_no_close = False, m_family = SCIM_SOCKET_UNKNOWN,
          m_address = empty_address\<rparr>,
         if \<not> m_no_close s then [m_id s] else [],
         if \<not> m_no_close s \<and> m_binded s \<and> m_family s = SCIM_SOCKET_LOCAL
         then (case m_data (m_address s) of Some (Sockaddr_un path) \<Rightarrow> Some path | _ \<Rightarrow> None) else None))"

text \<open>\<open>ret\<close> and \<open>err\<close> are the answer of the system call and the error number it leaves.\<close>

definition socket_create :: "SocketFamily \<Rightarrow> int \<Rightarrow> int \<Rightarrow> SocketImpl \<Rightarrow> bool \<times> SocketImpl \<times> int list" where
  "socket_create family ret err s =
     (if family = SCIM_SOCKET_UNKNOWN then (False, s\<lparr>m_err := EINVAL\<rparr>, [])
      else if ret > 0 then
        let (s1, fds, _) = (if m_id s \<ge> 0 then socket_close s else (s, [], None)) in
        (True, s1\<lparr>m_no_close := False, m_binded := False, m_err := 0, m_family := family, m_id := ret\<rparr>, fds)
      else (ret \<ge> 0, s\<lparr>m_err := err\<rparr>, []))"

definition socket_connect :: "SocketAddress \<Rightarrow> int \<Rightarrow> int \<Rightarrow> SocketImpl \<Rightarrow> bool \<times> SocketImpl" where
  "socket_connect addr ret err s =
     (let s1 = s\<lparr>m_err := EBADF\<rparr> in
      if m_binded s1 then (False, s1)
      else if address_valid addr \<and> m_id s1 \<ge> 0 \<and> m_family s1 = a_family addr then
        (if ret = 0 then (True, s1\<lparr>m_address := addr, m_err := 0\<rparr>) else (False, s1\<lparr>m_err := err\<rparr>))
      else (False, s1))"

text \<open>What \<^verbatim>\<open>bind\<close> finds in the file system: whether the path exists, whether a server answers there,
  whether it is a socket, and whether it can be unlinked. \<^verbatim>\<open>exit\<close> never returns.\<close>

record bind_world =
  path_exists :: bool
  server_answers :: bool
  is_socket :: bool
  unlink_works :: bool

definition socket_bind :: "SocketAddress \<Rightarrow> bind_world \<Rightarrow> int \<Rightarrow> int \<Rightarrow> SocketImpl \<Rightarrow> (bool \<times> SocketImpl) run" where
  "socket_bind addr w ret err s =
     (let s1 = s\<lparr>m_err := EBADF\<rparr> in
      if m_binded s1 then Done (False, s1)
      else if address_valid addr \<and> m_id s1 \<ge> 0 \<and> m_family s1 = a_family addr then
        (if m_family s1 = SCIM_SOCKET_LOCAL \<and> path_exists w \<and>
            (server_answers w \<or> \<not> is_socket w \<or> \<not> unlink_works w) then Blocks
         else if ret = 0 then Done (True, s1\<lparr>m_address := addr, m_binded := True, m_err := 0\<rparr>)
         else Done (False, s1\<lparr>m_err := err\<rparr>))
      else Done (False, s1))"

text \<open>The \<^verbatim>\<open>-1\<close> that \<^verbatim>\<open>listen\<close> returns for a closed socket is true as a \<^verbatim>\<open>bool\<close>.\<close>

definition socket_listen :: "int \<Rightarrow> int \<Rightarrow> SocketImpl \<Rightarrow> bool \<times> SocketImpl" where
  "socket_listen ret err s =
     (if m_id s < 0 then (True, s\<lparr>m_err := EBADF\<rparr>)
      else if ret = - 1 then (False, s\<lparr>m_err := err\<rparr>) else (True, s\<lparr>m_err := 0\<rparr>))"

definition socket_accept :: "int \<Rightarrow> int \<Rightarrow> SocketImpl \<Rightarrow> int \<times> SocketImpl" where
  "socket_accept ret err s =
     (if m_id s < 0 then (- 1, s\<lparr>m_err := EBADF\<rparr>)
      else if m_family s = SCIM_SOCKET_UNKNOWN then (- 1, s\<lparr>m_err := 0\<rparr>)
      else (ret, s\<lparr>m_err := (if ret < 0 then err else 0)\<rparr>))"

section \<open>The client\<close>

record SocketClient =
  client_socket :: SocketImpl
  m_connected :: bool

definition new_SocketClient :: SocketClient where
  "new_SocketClient = \<lparr>client_socket = new_SocketImpl (- 1), m_connected = False\<rparr>"

definition is_connected :: "SocketClient \<Rightarrow> bool" where
  "is_connected c \<longleftrightarrow> socket_valid (client_socket c) \<and> m_connected c"

definition client_close :: "SocketClient \<Rightarrow> SocketClient \<times> int list" where
  "client_close c =
     (let (s, fds, _) = socket_close (client_socket c) in (c\<lparr>client_socket := s, m_connected := False\<rparr>, fds))"

definition client_connect :: "SocketAddress \<Rightarrow> int \<times> int \<Rightarrow> int \<times> int \<Rightarrow> SocketClient \<Rightarrow> bool \<times> SocketClient \<times> int list" where
  "client_connect address socket_ret connect_ret c =
     (let (c, fds) = (if m_connected c then client_close c else (c, []));
          (ok1, s, fds1) = socket_create (a_family address) (fst socket_ret) (snd socket_ret) (client_socket c);
          (ok2, s) = (if ok1 then socket_connect address (fst connect_ret) (snd connect_ret) s else (False, s)) in
      if ok2 then (True, c\<lparr>client_socket := s, m_connected := True\<rparr>, fds @ fds1)
      else let (c, fds2) = client_close (c\<lparr>client_socket := s\<rparr>) in (False, c, fds @ fds1 @ fds2))"

text \<open>\<open>connect\<close> reports what \<open>is_connected\<close> tells afterwards, and leaves no descriptor behind.\<close>

lemma client_connect_result:
  assumes "client_connect address (fd, e) cr c = (ok, c', fds)" "socket_valid (client_socket c) \<longleftrightarrow> m_connected c"
  shows "is_connected c' \<longleftrightarrow> ok" "socket_valid (client_socket c') \<longleftrightarrow> m_connected c'"
    "0 < fd \<Longrightarrow> a_family address \<noteq> SCIM_SOCKET_UNKNOWN \<Longrightarrow> ok \<or> fd \<in> set fds"
  using assms
  by (auto simp: client_connect_def client_close_def socket_close_def socket_create_def socket_connect_def
      is_connected_def socket_valid_def Let_def split: if_splits)

section \<open>The server\<close>

definition SCIM_SOCKET_SERVER_MAX_CLIENTS :: int where
  "SCIM_SOCKET_SERVER_MAX_CLIENTS = 256"

text \<open>\<^verbatim>\<open>fd_set\<close> holds the descriptors below \<^verbatim>\<open>FD_SETSIZE\<close>; others must not be put in or asked for.\<close>

definition FD_SETSIZE :: int where
  "FD_SETSIZE = 1024"

definition in_fd_set :: "int \<Rightarrow> bool" where
  "in_fd_set fd \<longleftrightarrow> 0 \<le> fd \<and> fd < FD_SETSIZE"

record SocketServer =
  server_socket :: SocketImpl
  active_fds :: "int set"
  max_fd :: int
  err :: int
  running :: bool
  created :: bool
  num_clients :: int
  max_clients :: int
  ext_fds :: "int list"

datatype select_round = Select_failed int | Select_sets "int set" "int set"

record fd_kernel =
  opened :: "int set"
  closed :: "int list"
  rounds :: "select_round list"
  accepts :: "(int \<times> int) list"

definition close_fd :: "int \<Rightarrow> fd_kernel \<Rightarrow> fd_kernel" where
  "close_fd fd k = k\<lparr>opened := opened k - {fd}, closed := closed k @ [fd]\<rparr>"

definition new_SocketServer :: "int \<Rightarrow> SocketServer" where
  "new_SocketServer mc =
     \<lparr>server_socket = new_SocketImpl (- 1), active_fds = {}, max_fd = 0, err = 0, running = False, created = False,
      num_clients = 0, max_clients = min mc SCIM_SOCKET_SERVER_MAX_CLIENTS, ext_fds = []\<rparr>"

text \<open>\<^verbatim>\<open>Socket::create\<close>, \<^verbatim>\<open>bind\<close> and \<^verbatim>\<open>listen\<close> with the answers to their system calls.\<close>

definition server_create :: "SocketAddress \<Rightarrow> int \<times> int \<Rightarrow> bind_world \<Rightarrow> int \<times> int \<Rightarrow> int \<times> int \<Rightarrow>
    SocketServer \<Rightarrow> fd_kernel \<Rightarrow> (bool \<times> SocketServer \<times> fd_kernel) run" where
  "server_create address socket_ret w bind_ret listen_ret srv k =
     (let srv = srv\<lparr>err := EBUSY\<rparr> in
      if created srv then Done (False, srv, k)
      else if a_family address = SCIM_SOCKET_UNKNOWN then Done (False, srv\<lparr>err := EBADF\<rparr>, k)
      else
        let (ok1, s1, fds) = socket_create (a_family address) (fst socket_ret) (snd socket_ret) (server_socket srv);
            k = fold close_fd fds (k\<lparr>opened := opened k \<union> (if fst socket_ret \<ge> 0 then {fst socket_ret} else {})\<rparr>) in
        run_bind (if ok1 then socket_bind address w (fst bind_ret) (snd bind_ret) s1 else Done (False, s1)) (\<lambda>(ok2, s2).
        let (ok3, s3) = (if ok2 then socket_listen (fst listen_ret) (snd listen_ret) s2 else (False, s2)) in
        if ok3 then
          (if \<not> in_fd_set (m_id s3) then Undefined
           else Done (True, srv\<lparr>server_socket := s3, created := True, max_fd := m_id s3, active_fds := {m_id s3},
             err := 0\<rparr>, k))
        else
          let (s4, fds, _) = socket_close s3 in
          Done (False, srv\<lparr>server_socket := s4, err := m_err s3\<rparr>, fold close_fd fds k)))"

definition server_shutdown :: "SocketServer \<Rightarrow> fd_kernel \<Rightarrow> SocketServer \<times> fd_kernel" where
  "server_shutdown srv k =
     (if created srv then
        let srv = srv\<lparr>running := False, active_fds := active_fds srv - set (ext_fds srv)\<rparr>;
            clients = filter (\<lambda>i. i \<in> active_fds srv \<and> i \<noteq> m_id (server_socket srv)) [0..max_fd srv];
            (s, fds, _) = socket_close (server_socket srv) in
        (srv\<lparr>max_fd := 0, created := False, err := 0, num_clients := 0, ext_fds := [], active_fds := {},
           server_socket := s\<rparr>, fold close_fd fds (fold close_fd clients k))
      else (srv, k))"

definition close_connection :: "int \<Rightarrow> SocketServer \<Rightarrow> fd_kernel \<Rightarrow> (bool \<times> SocketServer \<times> fd_kernel) run" where
  "close_connection fd srv k =
     (if created srv \<and> running srv \<and> fd > 0 then
        if \<not> in_fd_set fd then Undefined
        else if fd \<in> active_fds srv then
          Done (True, srv\<lparr>num_clients := num_clients srv - 1, active_fds := active_fds srv - {fd},
            ext_fds := remove1 fd (ext_fds srv)\<rparr>, close_fd fd k)
        else Done (False, srv, k)
      else Done (False, srv, k))"

definition set_max_clients :: "int \<Rightarrow> SocketServer \<Rightarrow> SocketServer" where
  "set_max_clients mc srv = (if mc < SCIM_SOCKET_SERVER_MAX_CLIENTS then srv\<lparr>max_clients := mc\<rparr> else srv)"

text \<open>\<^verbatim>\<open>wait_for_data (0)\<close> fails on a descriptor that is not open.\<close>

definition insert_external_socket :: "int \<Rightarrow> SocketServer \<Rightarrow> fd_kernel \<Rightarrow> (bool \<times> SocketServer) run" where
  "insert_external_socket fd srv k =
     (if created srv \<and> fd \<ge> 0 \<and> fd \<in> opened k \<and> num_clients srv < max_clients srv then
        if \<not> in_fd_set fd then Undefined
        else if fd \<notin> active_fds srv then
          Done (True, srv\<lparr>num_clients := num_clients srv + 1, active_fds := insert fd (active_fds srv),
            max_fd := max (max_fd srv) fd, ext_fds := ext_fds srv @ [fd]\<rparr>)
        else Done (False, srv)
      else Done (False, srv))"

definition remove_external_socket :: "int \<Rightarrow> SocketServer \<Rightarrow> (bool \<times> SocketServer) run" where
  "remove_external_socket fd srv =
     (if created srv then
        if \<not> in_fd_set fd then Undefined
        else if fd \<in> active_fds srv then
          Done (True, srv\<lparr>num_clients := num_clients srv - 1, active_fds := active_fds srv - {fd},
            ext_fds := remove1 fd (ext_fds srv)\<rparr>)
        else Done (False, srv)
      else Done (False, srv))"

section \<open>Running\<close>

datatype signal = Accept_signal | Receive_signal | Exception_signal

datatype server_call =
  Close_connection int | Shutdown | Insert_external int | Remove_external int | Set_max_clients int

type_synonym 'u slots = "signal \<Rightarrow> int \<Rightarrow> 'u \<Rightarrow> server_call list \<times> 'u"

primrec call_server :: "server_call \<Rightarrow> SocketServer \<Rightarrow> fd_kernel \<Rightarrow> (SocketServer \<times> fd_kernel) run" where
  "call_server (Close_connection fd) srv k = run_bind (close_connection fd srv k) (\<lambda>(_, srv, k). Done (srv, k))"
| "call_server Shutdown srv k = Done (server_shutdown srv k)"
| "call_server (Insert_external fd) srv k = run_bind (insert_external_socket fd srv k) (\<lambda>(_, srv). Done (srv, k))"
| "call_server (Remove_external fd) srv k = run_bind (remove_external_socket fd srv) (\<lambda>(_, srv). Done (srv, k))"
| "call_server (Set_max_clients mc) srv k = Done (set_max_clients mc srv, k)"

fun server_calls :: "server_call list \<Rightarrow> SocketServer \<Rightarrow> fd_kernel \<Rightarrow> (SocketServer \<times> fd_kernel) run" where
  "server_calls [] srv k = Done (srv, k)"
| "server_calls (c # cs) srv k = run_bind (call_server c srv k) (\<lambda>(srv, k). server_calls cs srv k)"

definition emit :: "'u slots \<Rightarrow> signal \<Rightarrow> int \<Rightarrow> 'u \<Rightarrow> SocketServer \<Rightarrow> fd_kernel \<Rightarrow> ('u \<times> SocketServer \<times> fd_kernel) run" where
  "emit slots sig fd u srv k =
     (let (calls, u) = slots sig fd u in run_bind (server_calls calls srv k) (\<lambda>(srv, k). Done (u, srv, k)))"

text \<open>A new connection; the first component is false when the server has to return.\<close>

definition accept_client :: "'u slots \<Rightarrow> 'u \<Rightarrow> SocketServer \<Rightarrow> fd_kernel \<Rightarrow>
    (bool \<times> 'u \<times> SocketServer \<times> fd_kernel) run" where
  "accept_client slots u srv k =
     (case accepts k of [] \<Rightarrow> Blocks
      | (ret, e) # as \<Rightarrow>
         let k = k\<lparr>accepts := as\<rparr>; (client, s) = socket_accept ret e (server_socket srv);
             srv = srv\<lparr>server_socket := s\<rparr> in
         if client < 0 then Done (False, u, srv\<lparr>err := m_err s, running := False\<rparr>, k)
         else if client \<in> opened k then Blocks
         else if max_clients srv > 0 \<and> num_clients srv \<ge> max_clients srv
         then Done (True, u, srv, k\<lparr>closed := closed k @ [client]\<rparr>)
         else if \<not> in_fd_set client then Undefined
         else
           run_bind (emit slots Accept_signal client u
             (srv\<lparr>num_clients := num_clients srv + 1, active_fds := insert client (active_fds srv),
                max_fd := max (max_fd srv) client\<rparr>) (k\<lparr>opened := insert client (opened k)\<rparr>))
             (\<lambda>(u, srv, k). Done (True, u, srv, k)))"

text \<open>The loop over the descriptors. The result is what \<^verbatim>\<open>run\<close> returns, or \<^term>\<open>None\<close> for another round.\<close>

function scan_fds :: "'u slots \<Rightarrow> int \<Rightarrow> int set \<Rightarrow> int set \<Rightarrow> 'u \<Rightarrow> SocketServer \<Rightarrow> fd_kernel \<Rightarrow>
    (bool option \<times> 'u \<times> SocketServer \<times> fd_kernel) run" where
  "scan_fds slots i read_fds exception_fds u srv k =
     (if i \<ge> max_fd srv + 1 then Done (if running srv then None else Some True, u, srv, k)
      else if i \<ge> FD_SETSIZE then Undefined
      else
        run_bind (if i \<in> read_fds then
                    if i = m_id (server_socket srv) then accept_client slots u srv k
                    else run_bind (emit slots Receive_signal i u srv k) (\<lambda>(u, srv, k). Done (True, u, srv, k))
                  else Done (True, u, srv, k)) (\<lambda>(go_on, u, srv, k).
        if \<not> go_on then Done (Some False, u, srv, k)
        else if i \<in> exception_fds \<and> i = m_id (server_socket srv)
        then let (srv, k) = server_shutdown srv k in Done (Some True, u, srv, k)
        else
          run_bind (if i \<in> exception_fds then emit slots Exception_signal i u srv k else Done (u, srv, k)) (\<lambda>(u, srv, k).
          if \<not> running srv then Done (Some True, u, srv, k)
          else scan_fds slots (i + 1) read_fds exception_fds u srv k)))"
  by pat_completeness auto

termination by (relation "measure (\<lambda>(_, i, _). nat (FD_SETSIZE - i))") auto

declare scan_fds.simps [simp del]

fun run_rounds :: "'u slots \<Rightarrow> select_round list \<Rightarrow> 'u \<Rightarrow> SocketServer \<Rightarrow> fd_kernel \<Rightarrow>
    (bool \<times> 'u \<times> SocketServer \<times> fd_kernel) run" where
  "run_rounds slots [] u srv k = Blocks"
| "run_rounds slots (Select_failed e # rs) u srv k = Done (False, u, srv\<lparr>err := e, running := False\<rparr>, k)"
| "run_rounds slots (Select_sets r x # rs) u srv k =
     run_bind (scan_fds slots 0 (r \<inter> active_fds srv) (x \<inter> active_fds srv) u srv k) (\<lambda>(ret, u, srv, k).
     case ret of Some b \<Rightarrow> Done (b, u, srv, k) | None \<Rightarrow> run_rounds slots rs u srv k)"

definition server_run :: "'u slots \<Rightarrow> 'u \<Rightarrow> SocketServer \<Rightarrow> fd_kernel \<Rightarrow>
    (bool \<times> 'u \<times> SocketServer \<times> fd_kernel) run" where
  "server_run slots u srv k =
     (if created srv \<and> \<not> running srv then run_rounds slots (rounds k) u (srv\<lparr>running := True, err := 0\<rparr>) k
      else Done (False, u, srv\<lparr>err := EBADF\<rparr>, k))"

section \<open>The invariant\<close>

text \<open>\<open>own\<close> is the descriptor of the server. With \<open>fixed\<close>, the maximal number of clients is not changed
  while the server runs.\<close>

definition server_inv :: "bool \<Rightarrow> int \<Rightarrow> SocketServer \<Rightarrow> fd_kernel \<Rightarrow> bool" where
  "server_inv fixed own srv k \<longleftrightarrow>
     (if created srv then
        m_id (server_socket srv) = own \<and> own \<in> active_fds srv \<and> (\<forall>fd \<in> active_fds srv. 0 \<le> fd \<and> fd \<le> max_fd srv) \<and>
        max_fd srv < FD_SETSIZE \<and> finite (active_fds srv) \<and> active_fds srv \<subseteq> opened k \<and>
        num_clients srv = int (card (active_fds srv - {own})) \<and>
        distinct (ext_fds srv) \<and> set (ext_fds srv) \<subseteq> active_fds srv - {own} \<and>
        (fixed \<and> 0 < max_clients srv \<longrightarrow> num_clients srv \<le> max_clients srv)
      else \<not> running srv \<and> active_fds srv = {} \<and> num_clients srv = 0 \<and> ext_fds srv = [])"

primrec polite_call :: "bool \<Rightarrow> int \<Rightarrow> server_call \<Rightarrow> bool" where
  "polite_call fixed own (Close_connection fd) \<longleftrightarrow> fd \<noteq> own \<and> fd < FD_SETSIZE"
| "polite_call fixed own Shutdown \<longleftrightarrow> True"
| "polite_call fixed own (Insert_external fd) \<longleftrightarrow> fd < FD_SETSIZE"
| "polite_call fixed own (Remove_external fd) \<longleftrightarrow> fd \<noteq> own \<and> in_fd_set fd"
| "polite_call fixed own (Set_max_clients mc) \<longleftrightarrow> \<not> fixed"

definition polite :: "bool \<Rightarrow> int \<Rightarrow> 'u slots \<Rightarrow> bool" where
  "polite fixed own slots \<longleftrightarrow> (\<forall>sig fd u. list_all (polite_call fixed own) (fst (slots sig fd u)))"

lemma server_inv_running [simp]:
  "created srv \<Longrightarrow> server_inv fixed own (srv\<lparr>running := b\<rparr>) k = server_inv fixed own srv k"
  "server_inv fixed own (srv\<lparr>err := e\<rparr>) k = server_inv fixed own srv k"
  by (simp_all add: server_inv_def)

lemma server_inv_kernel: "opened k' = opened k \<Longrightarrow> server_inv fixed own srv k' = server_inv fixed own srv k"
  by (simp only: server_inv_def)

lemma running_created: "server_inv fixed own srv k \<Longrightarrow> running srv \<Longrightarrow> created srv"
  by (auto simp: server_inv_def split: if_splits)

text \<open>Taking a descriptor of a client out, and putting one in.\<close>

lemma server_inv_remove:
  assumes "server_inv fixed own srv k" "created srv" "fd \<in> active_fds srv" "fd \<noteq> own"
    and "opened k - {fd} \<subseteq> opened k'"
  shows "server_inv fixed own (srv\<lparr>num_clients := num_clients srv - 1, active_fds := active_fds srv - {fd},
      ext_fds := remove1 fd (ext_fds srv)\<rparr>) k'"
proof -
  let ?A = "active_fds srv - {own}"
  have fin: "finite ?A" and fd: "fd \<in> ?A" using assms by (auto simp: server_inv_def)
  have "active_fds srv - {fd} - {own} = ?A - {fd}" by auto
  moreover have "card (?A - {fd}) = card ?A - 1" "0 < card ?A"
    using fin fd card_gt_0_iff by (auto simp: card_Diff_singleton)
  ultimately have "int (card (active_fds srv - {fd} - {own})) = num_clients srv - 1"
    using assms(1,2) by (simp add: server_inv_def)
  with assms show ?thesis
    by (auto simp: server_inv_def set_remove1_eq)
qed

lemma server_inv_insert:
  assumes "server_inv fixed own srv k" "created srv" "fd \<notin> active_fds srv" "in_fd_set fd" "fd \<in> opened k'"
    and "opened k \<subseteq> opened k'" "fixed \<and> 0 < max_clients srv \<longrightarrow> num_clients srv < max_clients srv"
    and "ext = ext_fds srv \<or> ext = ext_fds srv @ [fd]"
  shows "server_inv fixed own (srv\<lparr>num_clients := num_clients srv + 1, active_fds := insert fd (active_fds srv),
      max_fd := max (max_fd srv) fd, ext_fds := ext\<rparr>) k'"
proof -
  have own: "fd \<noteq> own" "finite (active_fds srv - {own})" using assms(1-3) by (auto simp: server_inv_def)
  then have "insert fd (active_fds srv) - {own} = insert fd (active_fds srv - {own})" by auto
  then have "int (card (insert fd (active_fds srv) - {own})) = num_clients srv + 1"
    using own assms(1-3) by (simp add: server_inv_def)
  note card = this
  have i: "m_id (server_socket srv) = own" "own \<in> active_fds srv" "\<forall>fd \<in> active_fds srv. 0 \<le> fd \<and> fd \<le> max_fd srv"
    "max_fd srv < FD_SETSIZE" "finite (active_fds srv)" "active_fds srv \<subseteq> opened k" "distinct (ext_fds srv)"
    "set (ext_fds srv) \<subseteq> active_fds srv - {own}"
    using assms(1,2) by (simp_all add: server_inv_def)
  have "0 \<le> fd" "fd < FD_SETSIZE" using assms(4) by (simp_all add: in_fd_set_def)
  moreover have "distinct ext" "set ext \<subseteq> insert fd (active_fds srv) - {own}"
    using assms(3,8) i(7,8) own(1) by auto
  moreover have "\<forall>x \<in> insert fd (active_fds srv). 0 \<le> x \<and> x \<le> max (max_fd srv) fd"
    using i(3) calculation(1) by auto
  moreover have "insert fd (active_fds srv) \<subseteq> opened k'" using i(6) assms(5,6) by auto
  moreover have "fixed \<and> 0 < max_clients srv \<longrightarrow> num_clients srv + 1 \<le> max_clients srv" using assms(7) by auto
  ultimately show ?thesis
    using assms(2) i(1,2,4,5) card unfolding server_inv_def by simp
qed

lemma shutdown_fields:
  assumes "created srv"
  shows "\<not> created (fst (server_shutdown srv k))" "\<not> running (fst (server_shutdown srv k))"
    "active_fds (fst (server_shutdown srv k)) = {}" "num_clients (fst (server_shutdown srv k)) = 0"
    "ext_fds (fst (server_shutdown srv k)) = []"
  using assms by (simp_all add: server_shutdown_def Let_def case_prod_unfold)

lemma server_inv_shutdown:
  "server_inv fixed own srv k \<Longrightarrow> server_inv fixed own (fst (server_shutdown srv k)) (snd (server_shutdown srv k))"
proof (cases "created srv")
  case True
  then show ?thesis by (simp only: server_inv_def shutdown_fields if_False simp_thms)
next
  case False
  moreover assume "server_inv fixed own srv k"
  ultimately show ?thesis by (simp add: server_shutdown_def)
qed

lemma close_fd_accepts [simp]: "accepts (fold close_fd fds k) = accepts k"
  by (induction fds arbitrary: k) (simp_all add: close_fd_def)

lemma shutdown_accepts [simp]: "accepts (snd (server_shutdown srv k)) = accepts k"
  by (simp add: server_shutdown_def Let_def case_prod_unfold)

lemma call_server_inv:
  assumes "server_inv fixed own srv k" "polite_call fixed own c"
  shows "safe_with (\<lambda>(srv', k'). server_inv fixed own srv' k' \<and> accepts k' = accepts k) (call_server c srv k)"
proof (cases c)
  case (Close_connection fd)
  have "server_inv fixed own (srv\<lparr>num_clients := num_clients srv - 1, active_fds := active_fds srv - {fd},
      ext_fds := remove1 fd (ext_fds srv)\<rparr>) (close_fd fd k)" if "created srv" "fd \<in> active_fds srv"
    using assms that Close_connection by (intro server_inv_remove) (auto simp: close_fd_def)
  with assms Close_connection show ?thesis
    by (auto simp: close_connection_def in_fd_set_def close_fd_def)
next
  case Shutdown
  have "server_inv fixed own (fst (server_shutdown srv k)) (snd (server_shutdown srv k))"
    using assms(1) by (simp add: server_inv_shutdown)
  then show ?thesis using Shutdown by (simp add: case_prod_unfold)
next
  case (Insert_external fd)
  have "server_inv fixed own (srv\<lparr>num_clients := num_clients srv + 1, active_fds := insert fd (active_fds srv),
      max_fd := max (max_fd srv) fd, ext_fds := ext_fds srv @ [fd]\<rparr>) k"
    if "created srv" "fd \<notin> active_fds srv" "0 \<le> fd" "fd \<in> opened k" "num_clients srv < max_clients srv"
    using assms that Insert_external by (intro server_inv_insert [where k = k]) (auto simp: in_fd_set_def)
  with assms Insert_external show ?thesis
    by (auto simp: insert_external_socket_def in_fd_set_def ac_simps)
next
  case (Remove_external fd)
  have "server_inv fixed own (srv\<lparr>num_clients := num_clients srv - 1, active_fds := active_fds srv - {fd},
      ext_fds := remove1 fd (ext_fds srv)\<rparr>) k" if "created srv" "fd \<in> active_fds srv"
    using assms that Remove_external by (intro server_inv_remove) auto
  with assms Remove_external show ?thesis
    by (auto simp: remove_external_socket_def)
next
  case (Set_max_clients mc)
  with assms show ?thesis by (auto simp: server_inv_def set_max_clients_def)
qed

lemma server_calls_inv:
  "server_inv fixed own srv k \<Longrightarrow> list_all (polite_call fixed own) cs \<Longrightarrow>
   safe_with (\<lambda>(srv', k'). server_inv fixed own srv' k' \<and> accepts k' = accepts k) (server_calls cs srv k)"
proof (induction cs arbitrary: srv k)
  case (Cons c cs)
  have "polite_call fixed own c" "list_all (polite_call fixed own) cs" using Cons.prems(2) by simp_all
  from Cons.IH [OF _ this(2)] show ?case
    unfolding server_calls.simps
    by (intro safe_with_bind [OF call_server_inv [OF Cons.prems(1) \<open>polite_call fixed own c\<close>]]) fastforce
qed simp

lemma emit_inv:
  assumes "server_inv fixed own srv k" "polite fixed own slots"
  shows "safe_with (\<lambda>(_, srv', k'). server_inv fixed own srv' k' \<and> accepts k' = accepts k) (emit slots sig fd u srv k)"
proof -
  obtain cs u' where e: "slots sig fd u = (cs, u')" by (cases "slots sig fd u")
  have "list_all (polite_call fixed own) cs" using assms(2) e unfolding polite_def by (metis fst_conv)
  from safe_with_bind [OF server_calls_inv [OF assms(1) this]] show ?thesis
    unfolding emit_def e Let_def prod.case by fastforce
qed


lemma accept_m_id [simp]: "m_id (snd (socket_accept ret e s)) = m_id s"
  by (simp add: socket_accept_def)

lemma server_inv_socket:
  "m_id s = m_id (server_socket srv) \<Longrightarrow>
   server_inv fixed own (srv\<lparr>server_socket := s\<rparr>) k = server_inv fixed own srv k"
  by (simp add: server_inv_def)

definition small_fds :: "fd_kernel \<Rightarrow> bool" where
  "small_fds k \<longleftrightarrow> list_all (\<lambda>(fd, _). fd < FD_SETSIZE) (accepts k)"

lemma accept_client_inv:
  assumes inv: "server_inv fixed own srv k" and c: "created srv" and p: "polite fixed own slots" and f: "small_fds k"
  shows "safe_with (\<lambda>(_, _, srv', k'). server_inv fixed own srv' k' \<and> small_fds k') (accept_client slots u srv k)"
proof (cases "accepts k")
  case Nil
  then show ?thesis by (simp add: accept_client_def)
next
  case (Cons a as)
  obtain ret e where a: "a = (ret, e)" by (cases a)
  obtain client s where s: "socket_accept ret e (server_socket srv) = (client, s)"
    by (cases "socket_accept ret e (server_socket srv)")
  let ?k = "k\<lparr>accepts := as\<rparr>" and ?srv = "srv\<lparr>server_socket := s\<rparr>"
  have small: "small_fds ?k" "ret < FD_SETSIZE" using f Cons a by (simp_all add: small_fds_def)
  then have client: "client < FD_SETSIZE" using s by (auto simp: socket_accept_def FD_SETSIZE_def split: if_splits)
  have "m_id s = m_id (server_socket srv)" using accept_m_id [of ret e "server_socket srv"] s by simp
  with inv have inv1: "server_inv fixed own ?srv ?k" by (simp add: server_inv_socket server_inv_kernel [of ?k k])
  have err: "server_inv fixed own (?srv\<lparr>err := m_err s, running := False\<rparr>) ?k"
    using inv1 c by simp
  have full: "server_inv fixed own ?srv (?k\<lparr>closed := closed k @ [client]\<rparr>)"
    using inv1 by (simp add: server_inv_kernel [of "?k\<lparr>closed := closed k @ [client]\<rparr>" ?k])
  let ?srv' = "?srv\<lparr>num_clients := num_clients srv + 1, active_fds := insert client (active_fds srv),
      max_fd := max (max_fd srv) client\<rparr>" and ?k' = "?k\<lparr>opened := insert client (opened k)\<rparr>"
  have new: "server_inv fixed own ?srv' ?k'"
    if "0 \<le> client" "client \<notin> opened k" "\<not> (0 < max_clients srv \<and> max_clients srv \<le> num_clients srv)"
  proof -
    have "active_fds ?srv \<subseteq> opened ?k" using inv1 c by (simp add: server_inv_def)
    then have "client \<notin> active_fds ?srv" "opened ?k \<subseteq> opened ?k'" using that(2) by auto
    with that client server_inv_insert [OF inv1, of client ?k' "ext_fds srv"] c show ?thesis
      by (simp add: in_fd_set_def not_le)
  qed
  have "safe_with (\<lambda>(_, _, srv', k'). server_inv fixed own srv' k' \<and> small_fds k')
      (run_bind (emit slots Accept_signal client u ?srv' ?k') (\<lambda>(u, srv, k). Done (True, u, srv, k)))"
    if "0 \<le> client" "client \<notin> opened k" "\<not> (0 < max_clients srv \<and> max_clients srv \<le> num_clients srv)"
    by (rule safe_with_bind [OF emit_inv [OF new [OF that] p]]) (use small in \<open>auto simp: small_fds_def\<close>)
  with err full small client show ?thesis
    unfolding accept_client_def Cons list.case a prod.case Let_def s
    by (simp add: in_fd_set_def) (simp add: small_fds_def)
qed

lemma scan_fds_inv:
  "server_inv fixed own srv k \<Longrightarrow> running srv \<Longrightarrow> polite fixed own slots \<Longrightarrow> small_fds k \<Longrightarrow>
   safe_with (\<lambda>(ret, _, srv', k'). server_inv fixed own srv' k' \<and> small_fds k' \<and> (ret = None \<longrightarrow> running srv'))
     (scan_fds slots i r x u srv k)"
proof (induction "nat (FD_SETSIZE - i)" arbitrary: i u srv k rule: less_induct)
  case less
  note c = running_created [OF less.prems(1,2)]
  show ?case
  proof (cases "i \<ge> max_fd srv + 1")
    case True
    with less.prems show ?thesis by (simp add: scan_fds.simps)
  next
    case False
    have "max_fd srv < FD_SETSIZE" using less.prems(1) c by (simp add: server_inv_def)
    with False have i: "\<not> i \<ge> FD_SETSIZE" by simp
    let ?P = "\<lambda>(_ :: bool, _ :: 'a, srv', k'). server_inv fixed own srv' k' \<and> small_fds k'"
    let ?Q = "\<lambda>(ret :: bool option, _ :: 'a, srv', k'). server_inv fixed own srv' k' \<and> small_fds k' \<and> (ret = None \<longrightarrow> running srv')"
    have first: "safe_with ?P (if i \<in> r then
                    if i = m_id (server_socket srv) then accept_client slots u srv k
                    else run_bind (emit slots Receive_signal i u srv k) (\<lambda>(u, srv, k). Done (True, u, srv, k))
                  else Done (True, u, srv, k))"
      using accept_client_inv [OF less.prems(1) c less.prems(3,4), of u] less.prems(1,4)
        safe_with_bind [OF emit_inv [OF less.prems(1,3), of Receive_signal i u], of ?P "\<lambda>(u, srv, k). Done (True, u, srv, k)"]
      by (auto simp: small_fds_def)
    have rest: "safe_with ?Q (run_bind (if i \<in> x then emit slots Exception_signal i u1 srv1 k1 else Done (u1, srv1, k1))
        (\<lambda>(u, srv, k). if \<not> running srv then Done (Some True, u, srv, k)
          else scan_fds slots (i + 1) r x u srv k))"
      if inv1: "server_inv fixed own srv1 k1" "small_fds k1" for u1 srv1 k1
    proof -
      have "safe_with (\<lambda>(_, srv', k'). server_inv fixed own srv' k' \<and> small_fds k')
          (if i \<in> x then emit slots Exception_signal i u1 srv1 k1 else Done (u1, srv1, k1))"
        using emit_inv [OF inv1(1) less.prems(3), of Exception_signal i u1] inv1
        by (auto simp: small_fds_def elim!: safe_with_mono)
      then show ?thesis
      proof (rule safe_with_bind, goal_cases)
        case (1 y)
        obtain u2 srv2 k2 where y: "y = (u2, srv2, k2)" by (cases y)
        show ?case
        proof (cases "running srv2")
          case True
          with 1(2) y less.hyps [of "i + 1" srv2 k2] less.prems(3) i show ?thesis by (simp add: FD_SETSIZE_def)
        qed (use 1(2) y in simp)
      qed
    qed
    show ?thesis
      unfolding scan_fds.simps [of slots i] if_not_P [OF False] if_not_P [OF i]
    proof (rule safe_with_bind [OF first], goal_cases)
      case (1 y)
      obtain go_on u1 srv1 k1 where y: "y = (go_on, u1, srv1, k1)" by (cases y)
      with 1(2) have inv1: "server_inv fixed own srv1 k1" "small_fds k1" by simp_all
      have down: "server_inv fixed own (fst (server_shutdown srv1 k1)) (snd (server_shutdown srv1 k1))"
        "small_fds (snd (server_shutdown srv1 k1))"
        using inv1 server_inv_shutdown by (simp_all add: small_fds_def)
      consider "\<not> go_on" | "go_on" "i \<in> x \<and> i = m_id (server_socket srv1)"
        | "go_on" "\<not> (i \<in> x \<and> i = m_id (server_socket srv1))" by blast
      then show ?case
      proof cases
        case 1
        with y inv1 show ?thesis by simp
      next
        case 2
        then have "\<not> \<not> go_on" by simp
        with down show ?thesis
          unfolding y prod.case if_not_P [OF \<open>\<not> \<not> go_on\<close>] if_P [OF 2(2)] by (simp add: case_prod_unfold)
      next
        case 3
        then have "\<not> \<not> go_on" by simp
        from rest [OF inv1] show ?thesis
          unfolding y prod.case if_not_P [OF \<open>\<not> \<not> go_on\<close>] if_not_P [OF 3(2)] .
      qed
    qed
  qed
qed

lemma run_rounds_inv:
  "server_inv fixed own srv k \<Longrightarrow> running srv \<Longrightarrow> polite fixed own slots \<Longrightarrow> small_fds k \<Longrightarrow>
   safe_with (\<lambda>(_, _, srv', k'). server_inv fixed own srv' k') (run_rounds slots rs u srv k)"
proof (induction slots rs u srv k rule: run_rounds.induct)
  case (2 slots e rs u srv k)
  then show ?case using running_created [OF 2(1,2)] by simp
next
  case (3 slots r x rs u srv k)
  show ?case unfolding run_rounds.simps
  proof (rule safe_with_bind [OF scan_fds_inv [OF 3(2-5)]], goal_cases)
    case (1 y)
    obtain ret u1 srv1 k1 where y: "y = (ret, u1, srv1, k1)" by (cases y)
    with 1 3(1) [OF 1(1), of ret "(u1, srv1, k1)" u1 "(srv1, k1)" srv1 k1] 3(4) show ?case
      by (cases ret) simp_all
  qed
qed simp


lemma socket_bind_keeps:
  "socket_bind addr w r e s = Done (b, s') \<Longrightarrow> m_id s' = m_id s \<and> m_no_close s' = m_no_close s \<and> (b \<longrightarrow> 0 \<le> m_id s)"
  by (auto simp: socket_bind_def Let_def split: if_splits)

lemma socket_listen_keeps: "socket_listen r e s = (b, s') \<Longrightarrow> m_id s' = m_id s \<and> m_no_close s' = m_no_close s"
  by (auto simp: socket_listen_def split: if_splits)

lemma server_create_inv:
  assumes "server_create address sr w br lr (new_SocketServer mc) k = Done (True, srv, k')"
  shows "server_inv True (m_id (server_socket srv)) srv k' \<and> 0 < m_id (server_socket srv) \<and> created srv \<and>
    \<not> running srv \<and> \<not> m_no_close (server_socket srv)"
proof -
  obtain ok1 s1 fds where c: "socket_create (a_family address) (fst sr) (snd sr) (new_SocketImpl (- 1)) = (ok1, s1, fds)"
    by (metis prod_cases3)
  then have s1: "fds = []" "0 \<le> m_id s1 \<longrightarrow> 0 < m_id s1 \<and> m_id s1 = fst sr \<and> \<not> m_no_close s1"
    by (auto simp: socket_create_def new_SocketImpl_def Let_def split: if_splits)
  define k1 where "k1 = k\<lparr>opened := opened k \<union> (if fst sr \<ge> 0 then {fst sr} else {})\<rparr>"
  from assms c s1(1) obtain ok2 s2 where b:
    "(if ok1 then socket_bind address w (fst br) (snd br) s1 else Done (False, s1)) = Done (ok2, s2)"
    by (auto simp: server_create_def new_SocketServer_def Let_def split: if_splits)
  obtain ok3 s3 where l: "(if ok2 then socket_listen (fst lr) (snd lr) s2 else (False, s2)) = (ok3, s3)"
    by (metis surj_pair)
  have ok: "ok3" "in_fd_set (m_id s3)" and srv: "srv = new_SocketServer mc\<lparr>err := EBUSY, server_socket := s3, created := True,
      max_fd := m_id s3, active_fds := {m_id s3}, err := 0\<rparr>" "k' = k1"
    using assms c s1(1) b l
    by (auto simp: server_create_def new_SocketServer_def Let_def k1_def split: if_splits prod.splits)
  have "ok2" using l ok by (auto split: if_splits)
  with b have "ok1" "socket_bind address w (fst br) (snd br) s1 = Done (True, s2)" by (auto split: if_splits)
  with socket_bind_keeps [of address w "fst br" "snd br" s1 True s2] socket_listen_keeps [of "fst lr" "snd lr" s2 ok3 s3]
    l \<open>ok2\<close> s1(2) have "m_id s3 = fst sr" "0 < fst sr" "\<not> m_no_close s3" by auto
  with ok srv show ?thesis
    by (simp add: server_inv_def new_SocketServer_def in_fd_set_def k1_def)
qed

section \<open>Properties\<close>

text \<open>C16: in every state that a server comes to while it runs, whatever \<^verbatim>\<open>select\<close> reports, the number of clients is
  the number of descriptors watched besides its own, all of which are open and within reach of the loop, the external
  sockets are among them, and, unless the slots may change it (\<open>fixed\<close> is false), the maximum is kept. The slots may call
  every operation of the server, except that they neither close nor remove the socket of the server itself, and all
  descriptors, those accepted (\<open>small_fds\<close>) and those that the slots name (\<open>polite\<close>), fit an \<^verbatim>\<open>fd_set\<close>: with a larger
  one \<^verbatim>\<open>FD_SET\<close> writes past the set.\<close>

theorem server_counts_clients:
  assumes "server_inv fixed own srv k" "polite fixed own slots" "small_fds k"
  shows "safe_with (\<lambda>(_, _, srv', k'). server_inv fixed own srv' k') (server_run slots u srv k)"
proof (cases "created srv \<and> \<not> running srv")
  case True
  with assms(1) have "server_inv fixed own (srv\<lparr>running := True, err := 0\<rparr>) k" by simp
  from run_rounds_inv [OF this _ assms(2,3)] True show ?thesis by (simp add: server_run_def)
next
  case False
  with assms(1) show ?thesis by (auto simp: server_run_def)
qed

lemma closed_fold [simp]: "closed (fold close_fd fds k) = closed k @ fds"
  by (induction fds arbitrary: k) (simp_all add: close_fd_def)

lemma opened_fold [simp]: "opened (fold close_fd fds k) = opened k - set fds"
  by (induction fds arbitrary: k) (auto simp: close_fd_def)

text \<open>C17: Shutting a server down closes every client it has accepted, each once, and its own socket, but no
  external socket, and leaves a server that can be created again.\<close>

theorem shutdown_closes_clients:
  assumes "server_inv fixed own srv k" "created srv" "\<not> m_no_close (server_socket srv)" "0 \<le> own"
  shows "let (srv', k') = server_shutdown srv k; clients = active_fds srv - {own} - set (ext_fds srv) in
    (\<exists>fds. closed k' = closed k @ fds @ [own] \<and> set fds = clients \<and> distinct fds) \<and>
    opened k' = opened k - clients - {own} \<and> set (ext_fds srv) \<subseteq> opened k' \<and>
    \<not> created srv' \<and> \<not> running srv' \<and> active_fds srv' = {} \<and> num_clients srv' = 0"
proof -
  let ?fds = "filter (\<lambda>i. i \<in> active_fds srv - set (ext_fds srv) \<and> i \<noteq> own) [0..max_fd srv]"
  have i: "m_id (server_socket srv) = own" "\<forall>fd \<in> active_fds srv. 0 \<le> fd \<and> fd \<le> max_fd srv"
    "active_fds srv \<subseteq> opened k" "set (ext_fds srv) \<subseteq> active_fds srv - {own}"
    using assms(1,2) by (simp_all add: server_inv_def)
  have set: "set ?fds = active_fds srv - {own} - set (ext_fds srv)" using i(2) by auto
  have c: "fst (snd (socket_close (server_socket srv))) = [own]"
    using assms(3,4) i(1) by (simp add: socket_close_def)
  let ?r = "server_shutdown srv k"
  have k': "snd ?r = fold close_fd [own] (fold close_fd ?fds k)"
    using assms(2) c i(1) by (simp add: server_shutdown_def Let_def case_prod_unfold)
  have "closed (snd ?r) = closed k @ ?fds @ [own]" unfolding k' closed_fold by simp
  moreover have "opened (snd ?r) = opened k - (active_fds srv - {own} - set (ext_fds srv)) - {own}"
    unfolding k' opened_fold set by simp
  moreover have "distinct ?fds" by simp
  moreover have "set (ext_fds srv) \<subseteq> opened k - (active_fds srv - {own} - set (ext_fds srv)) - {own}"
    using i(3,4) by auto
  ultimately show ?thesis
    using set shutdown_fields [OF assms(2), of k] unfolding Let_def case_prod_unfold by blast
qed

text \<open>Slots that note every signal, and close \<open>b\<close> when something is received from \<open>a\<close>.\<close>

definition closing_slots :: "int \<Rightarrow> int \<Rightarrow> (signal \<times> int) list slots" where
  "closing_slots a b sig fd u =
     (if sig = Receive_signal \<and> fd = a then [Close_connection b] else [], u @ [(sig, fd)])"

lemma scan_skips:
  "running srv \<Longrightarrow> i \<le> j \<Longrightarrow> j \<le> max_fd srv + 1 \<Longrightarrow> max_fd srv < FD_SETSIZE \<Longrightarrow> \<forall>l \<in> {i..<j}. l \<notin> r \<and> l \<notin> x \<Longrightarrow>
   scan_fds slots i r x u srv k = scan_fds slots j r x u srv k"
proof (induction "nat (j - i)" arbitrary: i)
  case (Suc n)
  then have i: "i < j" "i \<notin> r" "i \<notin> x" by auto
  then have "scan_fds slots i r x u srv k = scan_fds slots (i + 1) r x u srv k"
    using Suc.prems(1,3,4) by (subst scan_fds.simps) simp
  also have "\<dots> = scan_fds slots j r x u srv k"
    using Suc.hyps(2) i by (intro Suc.hyps(1)) (use Suc.prems in auto)
  finally show ?case .
qed simp

text \<open>A client that a slot closes while the loop goes over the descriptors still gets its signal: the
  loop looks at the set that \<^verbatim>\<open>select\<close> reported and not at the descriptors that are left. The slot is
  called for a descriptor that is closed, or even in use for another connection.\<close>

theorem closed_client_gets_signal:
  assumes "server_inv fixed own srv k" "created srv" "running srv" "a \<in> active_fds srv" "b \<in> active_fds srv"
    and "0 < a" "a < b" "a \<noteq> own" "b \<noteq> own"
  shows "\<exists>srv' k'. scan_fds (closing_slots a b) 0 {a, b} {} u srv k
      = Done (None, u @ [(Receive_signal, a), (Receive_signal, b)], srv', k') \<and>
    closed k' = closed k @ [b] \<and> b \<notin> active_fds srv'"
proof -
  have i: "m_id (server_socket srv) = own" "b \<le> max_fd srv" "max_fd srv < FD_SETSIZE"
    using assms(1,2,5) by (simp_all add: server_inv_def)
  define srv1 where "srv1 = srv\<lparr>num_clients := num_clients srv - 1, active_fds := active_fds srv - {b},
    ext_fds := remove1 b (ext_fds srv)\<rparr>"
  define u1 where "u1 = u @ [(Receive_signal, a)]"
  let ?scan = "scan_fds (closing_slots a b)"
  have "?scan 0 {a, b} {} u srv k = ?scan a {a, b} {} u srv k"
    using assms(3,6,7) i(2,3) by (intro scan_skips) auto
  also have "\<dots> = ?scan (a + 1) {a, b} {} u1 srv1 (close_fd b k)"
  proof -
    have "close_connection b srv k = Done (True, srv1, close_fd b k)"
      using assms(2,3,5,6,7) i(2,3) by (simp add: close_connection_def in_fd_set_def srv1_def)
    then have "emit (closing_slots a b) Receive_signal a u srv k = Done (u1, srv1, close_fd b k)"
      by (simp add: emit_def closing_slots_def u1_def)
    moreover have "running srv1" using assms(3) by (simp add: srv1_def)
    ultimately show ?thesis
      using assms(7,8) i by (subst scan_fds.simps) simp
  qed
  also have "\<dots> = ?scan b {a, b} {} u1 srv1 (close_fd b k)"
    using assms(3,7) i(2,3) by (intro scan_skips) (auto simp: srv1_def)
  also have "\<dots> = ?scan (b + 1) {a, b} {} (u1 @ [(Receive_signal, b)]) srv1 (close_fd b k)"
  proof -
    have "emit (closing_slots a b) Receive_signal b u1 srv1 (close_fd b k)
        = Done (u1 @ [(Receive_signal, b)], srv1, close_fd b k)"
      using assms(7) by (simp add: emit_def closing_slots_def)
    moreover have "running srv1" "m_id (server_socket srv1) = own" "max_fd srv1 = max_fd srv"
      using assms(3) i(1) by (simp_all add: srv1_def)
    ultimately show ?thesis using assms(9) i(2,3) by (subst scan_fds.simps) simp
  qed
  also have "\<dots> = ?scan (max_fd srv + 1) {a, b} {} (u1 @ [(Receive_signal, b)]) srv1 (close_fd b k)"
    using assms(3,7) i(2,3) by (intro scan_skips) (auto simp: srv1_def)
  also have "\<dots> = Done (None, u1 @ [(Receive_signal, b)], srv1, close_fd b k)"
    using assms(3) by (simp add: scan_fds.simps [of _ "max_fd srv + 1"] srv1_def)
  finally show ?thesis by (auto simp: u1_def srv1_def close_fd_def)
qed


text \<open>A server on descriptor 5 with a client on 7 and an external socket on 9.\<close>

definition demo_server :: SocketServer where
  "demo_server = \<lparr>server_socket = \<lparr>m_id = 5, m_err = 0, m_binded = True, m_no_close = False,
       m_family = SCIM_SOCKET_LOCAL, m_address = empty_address\<rparr>,
     active_fds = {5, 7, 9}, max_fd = 9, err = 0, running = False, created = True, num_clients = 2,
     max_clients = - 1, ext_fds = [9]\<rparr>"

definition demo_fds :: fd_kernel where
  "demo_fds = \<lparr>opened = {0, 1, 2, 5, 7, 9}, closed = [], rounds = [Select_sets {5, 7} {}, Select_failed 9],
     accepts = [(8, 0)]\<rparr>"

lemma demo_server_inv: "server_inv True 5 demo_server demo_fds"
  by (simp add: server_inv_def demo_server_def demo_fds_def FD_SETSIZE_def)

lemma closing_slots_polite: "b \<noteq> own \<Longrightarrow> b < FD_SETSIZE \<Longrightarrow> polite True own (closing_slots a b)"
  by (simp add: polite_def closing_slots_def)

lemma server_counts_clients_witness:
  "safe_with (\<lambda>(_, _, srv', k'). server_inv True 5 srv' k') (server_run (closing_slots 7 9) [] demo_server demo_fds)"
  by (rule server_counts_clients [OF demo_server_inv])
    (simp_all add: closing_slots_polite FD_SETSIZE_def small_fds_def demo_fds_def)

lemma shutdown_closes_clients_witness: "closed (snd (server_shutdown demo_server demo_fds)) = [7, 5]"
proof -
  have c: "created demo_server" "\<not> m_no_close (server_socket demo_server)" "(0 :: int) \<le> 5"
    "active_fds demo_server - {5} - set (ext_fds demo_server) = {7}" "closed demo_fds = []"
    by (auto simp: demo_server_def demo_fds_def)
  from shutdown_closes_clients [OF demo_server_inv c(1-3)] obtain fds where
    "closed (snd (server_shutdown demo_server demo_fds)) = fds @ [5]" "set fds = {7}" "distinct fds"
    unfolding Let_def case_prod_unfold c(4,5) by auto
  moreover from this(2,3) have "fds = [7]" by (cases fds; cases "tl fds") auto
  ultimately show ?thesis by simp
qed

end
