(* ===== verification/Core_Config_File.thy ===== *)
theory Core_Config_File
  imports Core_Address "HOL-Library.List_Lexorder"
begin

text \<open>
  What the two stores of configuration share: the maps from strings to strings (\<^verbatim>\<open>std::map\<close> as an
  association list in the order of its keys), the lines of their files, and numbers as text. The code is
  that of \<^verbatim>\<open>modules/Config/scim_simple_config.cpp\<close>, which \<^verbatim>\<open>src/scim_global_config.cpp\<close> repeats.
\<close>

section \<open>Maps\<close>

text \<open>The interface of a map: what is found after an insertion and a removal, and that a map is
  determined by what is found in it.\<close>

locale dictionary =
  fixes wf :: "'m \<Rightarrow> bool" and find :: "'m \<Rightarrow> 'k \<Rightarrow> 'v option"
    and put :: "'k \<Rightarrow> 'v \<Rightarrow> 'm \<Rightarrow> 'm" and erase :: "'k \<Rightarrow> 'm \<Rightarrow> 'm"
  assumes find_put: "wf m \<Longrightarrow> find (put k v m) = (find m)(k \<mapsto> v)"
    and find_erase: "wf m \<Longrightarrow> find (erase k m) = (find m)(k := None)"
    and wf_put: "wf m \<Longrightarrow> wf (put k v m)"
    and wf_erase: "wf m \<Longrightarrow> wf (erase k m)"
    and find_inject: "wf m \<Longrightarrow> wf m' \<Longrightarrow> find m = find m' \<Longrightarrow> m = m'"
begin

lemma wf_put_all: "wf m \<Longrightarrow> wf (fold (\<lambda>(k, v). put k v) kvs m)"
  by (induction kvs arbitrary: m) (auto simp: wf_put)

lemma find_put_all: "wf m \<Longrightarrow> find (fold (\<lambda>(k, v). put k v) kvs m) = find m ++ map_of (rev kvs)"
  by (induction kvs arbitrary: m) (auto simp: wf_put find_put map_add_def fun_eq_iff split: option.splits)

lemma wf_erase_all: "wf m \<Longrightarrow> wf (fold erase ks m)"
  by (induction ks arbitrary: m) (auto simp: wf_erase)

lemma find_erase_all: "wf m \<Longrightarrow> find (fold erase ks m) = (\<lambda>k. if k \<in> set ks then None else find m k)"
  by (induction ks arbitrary: m) (auto simp: wf_erase find_erase fun_eq_iff)

end

fun map_put :: "'k::linorder \<Rightarrow> 'v \<Rightarrow> ('k \<times> 'v) list \<Rightarrow> ('k \<times> 'v) list" where
  "map_put k v [] = [(k, v)]"
| "map_put k v ((k', v') # m) =
     (if k < k' then (k, v) # (k', v') # m
      else if k = k' then (k, v) # m
      else (k', v') # map_put k v m)"

fun map_erase :: "'k::linorder \<Rightarrow> ('k \<times> 'v) list \<Rightarrow> ('k \<times> 'v) list" where
  "map_erase k [] = []"
| "map_erase k ((k', v') # m) = (if k = k' then m else (k', v') # map_erase k m)"

definition map_wf :: "('k::linorder \<times> 'v) list \<Rightarrow> bool" where
  "map_wf m \<longleftrightarrow> sorted_wrt (<) (map fst m)"

lemma map_wf_Nil [simp]: "map_wf []"
  by (simp add: map_wf_def)

lemma map_wf_Cons: "map_wf ((k, v) # m) \<longleftrightarrow> (\<forall>k' \<in> fst ` set m. k < k') \<and> map_wf m"
  by (auto simp: map_wf_def)

lemma keys_map_put: "fst ` set (map_put k v m) = insert k (fst ` set m)"
  by (induction k v m rule: map_put.induct) auto

lemma set_map_erase: "e \<in> set (map_erase k m) \<Longrightarrow> e \<in> set m"
  by (induction k m rule: map_erase.induct) (auto split: if_splits)

lemma map_of_below: "\<forall>k' \<in> fst ` set m. k < k' \<Longrightarrow> map_of m (k :: 'k::linorder) = None"
  by (force simp: map_of_eq_None_iff)

interpretation std_map: dictionary map_wf map_of map_put map_erase
proof
  fix m :: "('k::linorder \<times> 'v) list" and k :: 'k and v :: 'v
  show "map_of (map_put k v m) = (map_of m)(k \<mapsto> v)"
    by (induction k v m rule: map_put.induct) (auto simp: fun_eq_iff)
  show "map_wf m \<Longrightarrow> map_of (map_erase k m) = (map_of m)(k := None)"
    by (induction k m rule: map_erase.induct) (auto simp: fun_eq_iff map_wf_Cons map_of_below)
  show "map_wf m \<Longrightarrow> map_wf (map_put k v m)"
    by (induction k v m rule: map_put.induct) (auto simp: map_wf_Cons keys_map_put)
  show "map_wf m \<Longrightarrow> map_wf (map_erase k m)"
    by (induction k m rule: map_erase.induct) (auto simp: map_wf_Cons dest: set_map_erase)
next
  fix m m' :: "('k::linorder \<times> 'v) list"
  show "map_wf m \<Longrightarrow> map_wf m' \<Longrightarrow> map_of m = map_of m' \<Longrightarrow> m = m'"
  proof (induction m arbitrary: m')
    case Nil
    then show ?case by (cases m') (auto simp: fun_eq_iff split: if_splits)
  next
    case (Cons e m)
    obtain k v where e: "e = (k, v)" by (cases e)
    have "map_of m' k = Some v" using Cons.prems(3) e by (metis map_of_Cons_code(2))
    then have "m' \<noteq> []" by auto
    then obtain k' v' n where m': "m' = (k', v') # n" by (metis list.exhaust surj_pair)
    have below: "map_of n k' = None" "map_of m k = None" "k < k' \<Longrightarrow> map_of n k = None" "k' < k \<Longrightarrow> map_of m k' = None"
      using Cons.prems(1,2) unfolding e m' by (auto intro!: map_of_below simp: map_wf_Cons dest: order.strict_trans)
    have "k = k'"
    proof (rule ccontr)
      assume "k \<noteq> k'"
      then consider "k < k'" | "k' < k" by fastforce
      then show False using fun_cong [OF Cons.prems(3), of k] fun_cong [OF Cons.prems(3), of k'] below \<open>k \<noteq> k'\<close>
        by cases (auto simp: e m' split: if_splits)
    qed
    with Cons.prems(3) have "v = v'" unfolding e m' by (auto simp: fun_eq_iff split: if_splits)
    have "map_of m = map_of n"
    proof
      fix x show "map_of m x = map_of n x"
        using fun_cong [OF Cons.prems(3), of x] below \<open>k = k'\<close> by (cases "x = k") (auto simp: e m')
    qed
    with Cons show ?case using \<open>k = k'\<close> \<open>v = v'\<close> by (simp add: e m' map_wf_Cons)
  qed
qed

type_synonym repository = "(bytes \<times> bytes) list"

section \<open>Lines\<close>

abbreviation NEWLINE :: "8 word" where "NEWLINE \<equiv> 0x0A"

definition blank :: "8 word \<Rightarrow> bool" where
  "blank c \<longleftrightarrow> c = 0x20 \<or> c = 0x09 \<or> c = NEWLINE \<or> c = 0x0B"

definition c_string :: "bytes \<Rightarrow> bytes" where
  "c_string s = takeWhile (\<lambda>c. c \<noteq> 0) s"

definition trim_blank :: "bytes \<Rightarrow> bytes" where
  "trim_blank str = rev (dropWhile blank (rev (dropWhile blank str)))"

definition get_param_portion :: "bytes \<Rightarrow> bytes" where
  "get_param_portion str = takeWhile (\<lambda>c. \<not> (blank c \<or> c = 0x3D)) str"

definition get_value_portion :: "bytes \<Rightarrow> bytes" where
  "get_value_portion str =
     (let begin = dropWhile (\<lambda>c. c \<noteq> 0x3D) str in
      if begin = [] \<or> length begin = 1 then [] else trim_blank (tl begin))"

text \<open>\<^verbatim>\<open>std::istream::getline (buf, n)\<close>: a line of fewer than \<open>n\<close> bytes with its end, the rest of a file
  without one, or the first \<open>n - 1\<close> bytes of a longer line. In the last case the stream has failed
  without being at its end.\<close>

datatype getline_result = Line bytes bytes | At_eof bytes | Too_long bytes

definition getline :: "nat \<Rightarrow> bytes \<Rightarrow> getline_result" where
  "getline n is =
     (let line = takeWhile (\<lambda>c. c \<noteq> NEWLINE) is; rest = dropWhile (\<lambda>c. c \<noteq> NEWLINE) is in
      if length line \<ge> n then Too_long (take (n - 1) is)
      else if rest = [] then At_eof line
      else Line line (tl rest))"

lemma getline_shorter: "getline n is = Line l rest \<Longrightarrow> length rest < length is"
  using length_dropWhile_le [of "\<lambda>c. c \<noteq> NEWLINE" "is"]
  by (cases "dropWhile (\<lambda>c. c \<noteq> NEWLINE) is") (auto simp: getline_def Let_def split: if_splits)

lemma getline_line: "NEWLINE \<notin> set l \<Longrightarrow> length l < n \<Longrightarrow> getline n (l @ NEWLINE # rest) = Line l rest"
  by (auto simp: getline_def Let_def takeWhile_append dropWhile_append)

lemma getline_Nil: "0 < n \<Longrightarrow> getline n [] = At_eof []"
  by (simp add: getline_def)

definition is_entry :: "bytes \<Rightarrow> bool" where
  "is_entry normalized_line \<longleftrightarrow>
     normalized_line \<noteq> [] \<and> hd normalized_line \<noteq> 0x23 \<and> 0x3D \<in> set normalized_line \<and> hd normalized_line \<noteq> 0x3D"

text \<open>One line of a file of the form \<open>key = value\<close>.\<close>

definition entry_line :: "bytes \<Rightarrow> bytes \<Rightarrow> bytes" where
  "entry_line key value = key @ [0x20, 0x3D, 0x20] @ value @ [NEWLINE]"

definition save_config :: "repository \<Rightarrow> bytes" where
  "save_config config = concat (map (\<lambda>(key, value). entry_line key value) config)"

text \<open>The entries that a file can hold.\<close>

definition savable :: "nat \<Rightarrow> bytes \<Rightarrow> bytes \<Rightarrow> bool" where
  "savable n k v \<longleftrightarrow>
     k \<noteq> [] \<and> hd k \<noteq> 0x23 \<and> (\<forall>c \<in> set k. \<not> blank c \<and> c \<noteq> 0x3D \<and> c \<noteq> 0) \<and>
     (\<forall>c \<in> set v. c \<noteq> 0 \<and> c \<noteq> NEWLINE) \<and> (v \<noteq> [] \<longrightarrow> \<not> blank (hd v) \<and> \<not> blank (last v)) \<and>
     length k + 3 + length v < n"

lemma trim_blank_id: "s \<noteq> [] \<Longrightarrow> \<not> blank (hd s) \<Longrightarrow> \<not> blank (last s) \<Longrightarrow> trim_blank s = s"
  by (cases s) (auto simp: trim_blank_def hd_rev [symmetric] simp del: hd_rev, metis dropWhile_eq_self_iff hd_rev rev_rev_ident rev.simps(2) last.simps)

lemma trim_blank_Nil [simp]: "trim_blank [] = []"
  by (simp add: trim_blank_def)

lemma trim_blank_Cons: "blank c \<Longrightarrow> trim_blank (c # s) = trim_blank s"
  by (simp add: trim_blank_def)

lemma trim_blank_snoc: "blank c \<Longrightarrow> trim_blank (s @ [c]) = trim_blank s"
proof (cases "\<forall>x \<in> set s. blank x")
  case True
  then have "dropWhile blank s = []" by simp
  moreover assume "blank c"
  moreover have "dropWhile blank (s @ [c]) = dropWhile blank [c]" using True by (intro dropWhile_append2) auto
  ultimately show ?thesis by (simp add: trim_blank_def del: dropWhile_eq_Nil_conv)
qed (auto simp: trim_blank_def dropWhile_append1)

lemma blank_simps [simp]: "blank 0x20" "blank NEWLINE" "\<not> blank 0x3D"
  by (simp_all add: blank_def)

text \<open>What a saved line is read as.\<close>

lemma saved_line:
  assumes "savable n k v"
  defines "line \<equiv> trim_blank (c_string (k @ [0x20, 0x3D, 0x20] @ v))"
  shows "is_entry line" "get_param_portion line = k" "get_value_portion line = v"
proof -
  note s = assms(1) [unfolded savable_def]
  have k: "\<forall>c \<in> set k. \<not> (blank c \<or> c = 0x3D)" "\<forall>c \<in> set k. c \<noteq> 0x3D" "k \<noteq> []" "\<not> blank (hd k)" "hd k \<noteq> 0x3D"
    using s by auto
  have "c_string (k @ [0x20, 0x3D, 0x20] @ v) = k @ [0x20, 0x3D, 0x20] @ v"
    unfolding c_string_def using s by (auto simp: takeWhile_eq_all_conv)
  then have line: "line = k @ [0x20, 0x3D] @ (if v = [] then [] else 0x20 # v)"
  proof (cases "v = []")
    case True
    have "trim_blank ((k @ [0x20, 0x3D]) @ [0x20]) = k @ [0x20, 0x3D]"
      unfolding trim_blank_snoc [OF blank_simps(1)] using k by (intro trim_blank_id) auto
    with True \<open>c_string _ = _\<close> show ?thesis by (simp add: line_def)
  next
    case False
    then have "trim_blank (k @ [0x20, 0x3D, 0x20] @ v) = k @ [0x20, 0x3D, 0x20] @ v"
      using k s by (intro trim_blank_id) auto
    with False \<open>c_string _ = _\<close> show ?thesis by (simp add: line_def)
  qed
  show "is_entry line" using k s by (auto simp: line is_entry_def)
  show "get_param_portion line = k"
    unfolding get_param_portion_def line using k(1) by (simp add: takeWhile_append2)
  have "dropWhile (\<lambda>c. c \<noteq> 0x3D) line = [0x3D] @ (if v = [] then [] else 0x20 # v)"
    unfolding line using k(2) by (simp add: dropWhile_append2)
  then show "get_value_portion line = v"
    using s by (auto simp: get_value_portion_def trim_blank_Cons trim_blank_id)
qed

lemma getline_saved:
  assumes "savable n k v"
  shows "getline n (entry_line k v @ rest) = Line (k @ [0x20, 0x3D, 0x20] @ v) rest"
proof -
  have "NEWLINE \<notin> set (k @ [0x20, 0x3D, 0x20] @ v)" "length (k @ [0x20, 0x3D, 0x20] @ v) < n"
    using assms by (auto simp: savable_def)
  from getline_line [OF this, of rest] show ?thesis by (simp add: entry_line_def)
qed

section \<open>Numbers\<close>

text \<open>\<^verbatim>\<open>strtol\<close> with the base 10 on a C string, as far as the digits go and limited to \<^verbatim>\<open>long\<close>.\<close>

definition strtol10 :: "bytes \<Rightarrow> int" where
  "strtol10 s = max (- (2 ^ 63)) (min (2 ^ 63 - 1) (atoi (c_string s)))"

definition int_of_long :: "int \<Rightarrow> int" where
  "int_of_long l = sint (word_of_int l :: 32 word)"

end
