(* ===== verification/Core_Simple_Config.thy ===== *)
theory Core_Simple_Config
  imports Core_Config_File
begin

text \<open>
  Class \<^verbatim>\<open>SimpleConfig\<close> of \<^verbatim>\<open>modules/Config/scim_simple_config.cpp\<close>: values that were written are kept
  beside those read from the files of the user and of the system until they are flushed. The contents of
  the two files are the state \<open>disk\<close>; the clock, and whether the directory and the file of the user can be
  written, are arguments. The names of the files are never empty. The signal of \<^verbatim>\<open>reload\<close> is not modelled;
  the conversions of floating point numbers are parameters.
\<close>

definition SCIM_MAX_CONFIG_LINE_LENGTH :: nat where
  "SCIM_MAX_CONFIG_LINE_LENGTH = 16384"

definition SCIM_CONFIG_UPDATE_TIMESTAMP :: bytes where
  "SCIM_CONFIG_UPDATE_TIMESTAMP = bytes_of ''/UpdateTimeStamp''"

type_synonym timestamp = "int \<times> int"

record SimpleConfig =
  m_config :: repository
  m_new_config :: repository
  m_erased_keys :: "bytes list"
  m_update_timestamp :: timestamp
  m_need_reload :: bool

record disk =
  user_file :: "bytes option"
  system_file :: "bytes option"

section \<open>Reading\<close>

definition find_value :: "bytes \<Rightarrow> SimpleConfig \<Rightarrow> bytes option" where
  "find_value key c =
     (case map_of (m_new_config c) key of None \<Rightarrow> map_of (m_config c) key | Some v \<Rightarrow> Some v)"

definition find_text :: "bytes \<Rightarrow> SimpleConfig \<Rightarrow> bytes option" where
  "find_text key c =
     (let i = map_of (m_new_config c) key;
          j = (if i = None \<or> i = Some [] then map_of (m_config c) key else i) in
      if j = Some [] then None else j)"

text \<open>\<open>old\<close> is what the variable of the caller holds; it is left alone for an empty key.\<close>

definition read_string :: "bytes \<Rightarrow> bytes \<Rightarrow> SimpleConfig \<Rightarrow> bool \<times> bytes" where
  "read_string key old c =
     (if key = [] then (False, old) else case find_value key c of Some v \<Rightarrow> (True, v) | None \<Rightarrow> (False, []))"

definition read_int :: "bytes \<Rightarrow> int \<Rightarrow> SimpleConfig \<Rightarrow> bool \<times> int" where
  "read_int key old c =
     (if key = [] then (False, old)
      else case find_text key c of Some v \<Rightarrow> (True, int_of_long (strtol10 v)) | None \<Rightarrow> (False, 0))"

definition read_double :: "(bytes \<Rightarrow> 'd) \<Rightarrow> 'd \<Rightarrow> bytes \<Rightarrow> 'd \<Rightarrow> SimpleConfig \<Rightarrow> bool \<times> 'd" where
  "read_double strtod zero key old c =
     (if key = [] then (False, old)
      else case find_text key c of Some v \<Rightarrow> (True, strtod (c_string v)) | None \<Rightarrow> (False, zero))"

definition read_bool :: "bytes \<Rightarrow> bool \<Rightarrow> SimpleConfig \<Rightarrow> bool \<times> bool" where
  "read_bool key old c =
     (if key = [] then (False, old)
      else case find_text key c of
        Some v \<Rightarrow>
          (if v \<in> {bytes_of ''true'', bytes_of ''TRUE'', bytes_of ''True'', bytes_of ''1''} then (True, True)
           else if v \<in> {bytes_of ''false'', bytes_of ''FALSE'', bytes_of ''False'', bytes_of ''0''} then (True, False)
           else (False, False))
      | None \<Rightarrow> (False, False))"

abbreviation COMMA :: "8 word" where "COMMA \<equiv> 0x2C"

definition read_string_list :: "bytes \<Rightarrow> bytes list \<Rightarrow> SimpleConfig \<Rightarrow> bool \<times> bytes list" where
  "read_string_list key old c =
     (if key = [] then (False, old)
      else case find_value key c of Some v \<Rightarrow> (True, fst (scim_split_string_list v COMMA)) | None \<Rightarrow> (False, []))"

definition read_int_list :: "bytes \<Rightarrow> int list \<Rightarrow> SimpleConfig \<Rightarrow> bool \<times> int list" where
  "read_int_list key old c =
     (if key = [] then (False, old)
      else case find_value key c of
        Some v \<Rightarrow> (True, map (\<lambda>j. int_of_long (strtol10 j)) (fst (scim_split_string_list v COMMA)))
      | None \<Rightarrow> (False, []))"

section \<open>Writing\<close>

definition remove_key_from_erased_list :: "bytes \<Rightarrow> SimpleConfig \<Rightarrow> SimpleConfig" where
  "remove_key_from_erased_list key c = c\<lparr>m_erased_keys := remove1 key (m_erased_keys c)\<rparr>"

definition write_string :: "bytes \<Rightarrow> bytes \<Rightarrow> SimpleConfig \<Rightarrow> bool \<times> SimpleConfig" where
  "write_string key value c =
     (if key = [] then (False, c)
      else
        let c = remove_key_from_erased_list key (c\<lparr>m_new_config := map_put key value (m_new_config c)\<rparr>) in
        (True, c\<lparr>m_need_reload := True\<rparr>))"

text \<open>The other functions differ in the text that they make of the value.\<close>

definition write_int :: "bytes \<Rightarrow> int \<Rightarrow> SimpleConfig \<Rightarrow> bool \<times> SimpleConfig" where
  "write_int key value c = write_string key (bytes_of (printf_d value)) c"

definition write_double :: "('d \<Rightarrow> bytes) \<Rightarrow> bytes \<Rightarrow> 'd \<Rightarrow> SimpleConfig \<Rightarrow> bool \<times> SimpleConfig" where
  "write_double printf_lf key value c = write_string key (take 254 (printf_lf value)) c"

definition write_bool :: "bytes \<Rightarrow> bool \<Rightarrow> SimpleConfig \<Rightarrow> bool \<times> SimpleConfig" where
  "write_bool key value c = write_string key (bytes_of (if value then ''true'' else ''false'')) c"

definition write_string_list :: "bytes \<Rightarrow> bytes list \<Rightarrow> SimpleConfig \<Rightarrow> bool \<times> SimpleConfig" where
  "write_string_list key value c = write_string key (scim_combine_string_list value COMMA) c"

definition write_int_list :: "bytes \<Rightarrow> int list \<Rightarrow> SimpleConfig \<Rightarrow> bool \<times> SimpleConfig" where
  "write_int_list key value c =
     write_string key (scim_combine_string_list (map (\<lambda>i. bytes_of (printf_d i)) value) COMMA) c"

definition erase_key :: "bytes \<Rightarrow> SimpleConfig \<Rightarrow> bool \<times> SimpleConfig" where
  "erase_key key c =
     (let ok = (map_of (m_new_config c) key \<noteq> None \<or> map_of (m_config c) key \<noteq> None) in
      (ok, c\<lparr>m_new_config := map_erase key (m_new_config c), m_config := map_erase key (m_config c),
        m_erased_keys := m_erased_keys c @ (if ok \<and> key \<notin> set (m_erased_keys c) then [key] else []),
        m_need_reload := True\<rparr>))"

section \<open>Files\<close>

definition parse_line :: "bytes \<Rightarrow> repository \<Rightarrow> repository" where
  "parse_line conf_line config =
     (let normalized_line = trim_blank (c_string conf_line) in
      if is_entry normalized_line then
        let param = get_param_portion normalized_line in
        if map_of config param \<noteq> None then config
        else map_put param (get_value_portion normalized_line) config
      else config)"

text \<open>After a line that is too long the stream has failed but is not at its end: the loop goes on for ever.\<close>

function parse_config :: "bytes \<Rightarrow> repository \<Rightarrow> repository run" where
  "parse_config is config =
     (case getline SCIM_MAX_CONFIG_LINE_LENGTH is of
        Line conf_line rest \<Rightarrow> parse_config rest (parse_line conf_line config)
      | At_eof _ \<Rightarrow> Done config
      | Too_long _ \<Rightarrow> Blocks)"
  by pat_completeness auto

termination by (relation "measure (\<lambda>(is, _). length is)") (auto dest: getline_shorter)

declare parse_config.simps [simp del]

definition parse_file :: "bytes option \<Rightarrow> repository \<Rightarrow> repository run" where
  "parse_file file config = (case file of Some is \<Rightarrow> parse_config is config | None \<Rightarrow> Done config)"

definition later :: "timestamp \<Rightarrow> timestamp \<Rightarrow> bool" where
  "later t u \<longleftrightarrow> fst t < fst u \<or> fst t = fst u \<and> snd t < snd u"

text \<open>\<^verbatim>\<open>load_all_config\<close> at the time \<open>now\<close>.\<close>

definition load_all_config :: "disk \<Rightarrow> timestamp \<Rightarrow> SimpleConfig \<Rightarrow> (bool \<times> SimpleConfig) run" where
  "load_all_config d now c =
     run_bind (parse_file (user_file d) []) (\<lambda>config.
     run_bind (parse_file (system_file d) config) (\<lambda>config.
     if m_config c = [] \<or> m_update_timestamp c = (0, 0) then
       Done (True, c\<lparr>m_config := config, m_update_timestamp := now\<rparr>)
     else
       case map_of config SCIM_CONFIG_UPDATE_TIMESTAMP of
         None \<Rightarrow> Done (False, c)
       | Some v \<Rightarrow>
           (let strs = fst (scim_split_string_list v 0x3A) in
            if length strs = 2 then
              let t = (strtol10 (strs ! 0), strtol10 (strs ! 1)) in
              if later (m_update_timestamp c) t then Done (True, c\<lparr>m_config := config, m_update_timestamp := t\<rparr>)
              else Done (False, c)
            else Done (False, c))))"

definition new_SimpleConfig :: "disk \<Rightarrow> timestamp \<Rightarrow> SimpleConfig run" where
  "new_SimpleConfig d now =
     run_bind (load_all_config d now
       \<lparr>m_config = [], m_new_config = [], m_erased_keys = [], m_update_timestamp = (0, 0), m_need_reload = False\<rparr>)
     (\<lambda>(_, c). Done c)"

definition reload :: "disk \<Rightarrow> timestamp \<Rightarrow> SimpleConfig \<Rightarrow> (bool \<times> SimpleConfig) run" where
  "reload d now c =
     run_bind (load_all_config d now c) (\<lambda>(loaded, c).
     let c = (if loaded then c\<lparr>m_new_config := [], m_erased_keys := [], m_need_reload := True\<rparr> else c) in
     if m_need_reload c then Done (True, c\<lparr>m_need_reload := False\<rparr>) else Done (False, c))"

definition timestamp_text :: "timestamp \<Rightarrow> bytes" where
  "timestamp_text t =
     bytes_of (printf_u (nat (fst t mod 2 ^ 64))) @ bytes_of '':'' @ bytes_of (printf_u (nat (snd t mod 2 ^ 64)))"

text \<open>The entries of \<^verbatim>\<open>flush\<close>: those loaded, with the new ones, without the erased ones, and the time.\<close>

definition merged :: "SimpleConfig \<Rightarrow> timestamp \<Rightarrow> repository" where
  "merged c now =
     map_put SCIM_CONFIG_UPDATE_TIMESTAMP (timestamp_text now)
       (fold map_erase (m_erased_keys c) (fold (\<lambda>(k, v). map_put k v) (m_new_config c) (m_config c)))"

definition flush :: "bool \<Rightarrow> bool \<Rightarrow> timestamp \<Rightarrow> disk \<Rightarrow> SimpleConfig \<Rightarrow> (bool \<times> SimpleConfig \<times> disk) run" where
  "flush dir_usable file_opens now d c =
     (if m_new_config c = [] \<and> m_erased_keys c = [] then Done (True, c, d)
      else if \<not> dir_usable then Done (False, c, d)
      else
        run_bind (load_all_config d now c) (\<lambda>(_, c).
        let c = c\<lparr>m_config := merged c now, m_new_config := [], m_erased_keys := [], m_update_timestamp := now\<rparr> in
        if \<not> file_opens then Done (False, c, d)
        else Done (True, c, d\<lparr>user_file := Some (save_config (m_config c))\<rparr>)))"

end
