(* ===== verification/Core_Config_Laws.thy ===== *)
theory Core_Config_Laws
  imports Core_Simple_Config
begin

text \<open>The properties of \<^verbatim>\<open>SimpleConfig\<close>.\<close>

section \<open>Numbers as text\<close>

lemma digit_byte: "d < 10 \<Longrightarrow> is_digit (byte_of_char (char_of_digit d)) \<and> uint (byte_of_char (char_of_digit d)) = 48 + int d"
proof -
  assume "d < 10"
  then have "d \<in> {0, 1, 2, 3, 4, 5, 6, 7, 8, 9}" by auto
  then show ?thesis by (auto simp: byte_of_char_def char_of_digit_def is_digit_def)
qed

lemma digit_bytes_printf_u: "list_all is_digit (bytes_of (printf_u n))"
proof (induction n rule: printf_u.induct)
  case (1 n)
  then show ?case using digit_byte by (subst printf_u.simps) simp
qed

definition digits_value :: "bytes \<Rightarrow> int" where
  "digits_value u = fold (\<lambda>c n. 10 * n + (uint c - 0x30)) u 0"

lemma digits_value_printf_u: "digits_value (bytes_of (printf_u n)) = int n"
proof (induction n rule: printf_u.induct)
  case (1 n)
  have d: "uint (byte_of_char (char_of_digit m)) - 0x30 = int m" if "m < 10" for m
    using that by (simp add: digit_byte)
  show ?case
  proof (cases "n < 10")
    case True
    then show ?thesis using d by (subst printf_u.simps) (simp add: digits_value_def)
  next
    case False
    then have "digits_value (bytes_of (printf_u n)) = 10 * int (n div 10) + int (n mod 10)"
      using 1 d by (subst printf_u.simps) (simp add: digits_value_def)
    then show ?thesis using div_mult_mod_eq [of n 10] by linarith
  qed
qed

lemma takeWhile_digits: "list_all is_digit u \<Longrightarrow> takeWhile is_digit u = u"
  by (simp add: takeWhile_eq_all_conv list_all_iff)

lemma atoi_digits: "list_all is_digit u \<Longrightarrow> u \<noteq> [] \<Longrightarrow> atoi u = digits_value u"
proof -
  assume u: "list_all is_digit u" "u \<noteq> []"
  then obtain c t where c: "u = c # t" "is_digit c" by (cases u) auto
  then have "0x30 \<le> uint c" "uint c \<le> 0x39" by (simp_all add: is_digit_def word_le_def)
  then have "dropWhile (\<lambda>c. c = 0x20 \<or> 9 \<le> c \<and> c \<le> 13) u = u" "c \<noteq> 0x2D" "c \<noteq> 0x2B"
    unfolding c(1) by (auto simp: word_le_def)
  then show ?thesis
    unfolding atoi_def Let_def digits_value_def using takeWhile_digits [OF u(1)] by (simp add: c(1))
qed

lemma atoi_minus: "list_all is_digit u \<Longrightarrow> atoi (0x2D # u) = - digits_value u"
  by (simp add: atoi_def digits_value_def takeWhile_digits)

lemma c_string_digits: "list_all is_digit u \<Longrightarrow> c_string u = u"
  by (auto simp: c_string_def takeWhile_eq_all_conv list_all_iff is_digit_def)

lemma strtol10_printf_u: "int n < 2 ^ 63 \<Longrightarrow> strtol10 (bytes_of (printf_u n)) = int n"
  using digit_bytes_printf_u [of n]
  by (simp add: strtol10_def c_string_digits atoi_digits digits_value_printf_u)

lemma int_of_long_printf_d:
  assumes "- (2 ^ 31) \<le> i" "i < 2 ^ 31"
  shows "int_of_long (strtol10 (bytes_of (printf_d i))) = i"
proof -
  have m: "byte_of_char CHR ''-'' = 0x2D" by (simp add: byte_of_char_def)
  have "c_string (bytes_of (printf_d i)) = bytes_of (printf_d i)"
    using c_string_digits [OF digit_bytes_printf_u] by (simp add: printf_d_def m) (simp add: c_string_def)
  moreover have "atoi (bytes_of (printf_d i)) = i"
    using digit_bytes_printf_u
    by (auto simp: printf_d_def m atoi_minus atoi_digits digits_value_printf_u)
  ultimately have "strtol10 (bytes_of (printf_d i)) = i" using assms by (simp add: strtol10_def)
  then show ?thesis using assms by (simp add: int_of_long_def sint_word_of_int_range)
qed

lemma printf_d_text:
  "bytes_of (printf_d i) \<noteq> []" "\<forall>c \<in> set (bytes_of (printf_d i)). is_digit c \<or> c = 0x2D"
  using digit_bytes_printf_u
  by (auto simp: printf_d_def list_all_iff byte_of_char_def)

section \<open>The configuration as a map\<close>

definition view :: "SimpleConfig \<Rightarrow> bytes \<Rightarrow> bytes option" where
  "view c = map_of (m_config c) ++ map_of (m_new_config c)"

definition config_inv :: "SimpleConfig \<Rightarrow> bool" where
  "config_inv c \<longleftrightarrow>
     map_wf (m_config c) \<and> map_wf (m_new_config c) \<and> distinct (m_erased_keys c) \<and>
     (\<forall>k \<in> set (m_erased_keys c). view c k = None)"

lemma find_value_view: "find_value key c = view c key"
  by (simp add: find_value_def view_def map_add_def)

lemma find_text_view: "find_text key c = (case view c key of Some [] \<Rightarrow>
    (case map_of (m_config c) key of Some [] \<Rightarrow> None | r \<Rightarrow> r) | r \<Rightarrow> r)"
  by (auto simp: find_text_def view_def map_add_def Let_def split: option.splits list.splits)

lemma view_None: "view c k = None \<longleftrightarrow> map_of (m_config c) k = None \<and> map_of (m_new_config c) k = None"
  by (auto simp: view_def map_add_def split: option.splits)

lemma write_string_view:
  assumes "config_inv c" "key \<noteq> []"
  shows "view (snd (write_string key v c)) = (view c)(key \<mapsto> v)" "config_inv (snd (write_string key v c))"
    "fst (write_string key v c)"
proof -
  have v: "view (snd (write_string key v c)) = (view c)(key \<mapsto> v)"
    using assms by (auto simp: write_string_def remove_key_from_erased_list_def view_def config_inv_def Let_def
      std_map.find_put map_add_def fun_eq_iff)
  then show "view (snd (write_string key v c)) = (view c)(key \<mapsto> v)" .
  show "config_inv (snd (write_string key v c))"
    using assms unfolding config_inv_def v
    by (auto simp: write_string_def remove_key_from_erased_list_def Let_def std_map.wf_put)
  show "fst (write_string key v c)" using assms(2) by (simp add: write_string_def)
qed

lemma erase_key_view:
  assumes "config_inv c"
  shows "view (snd (erase_key key c)) = (view c)(key := None)" "config_inv (snd (erase_key key c))"
    "fst (erase_key key c) \<longleftrightarrow> view c key \<noteq> None"
proof -
  have v: "view (snd (erase_key key c)) = (view c)(key := None)"
    using assms
    by (auto simp: erase_key_def view_def config_inv_def Let_def std_map.find_erase map_add_def fun_eq_iff
      split: option.splits)
  then show "view (snd (erase_key key c)) = (view c)(key := None)" .
  show "config_inv (snd (erase_key key c))"
    using assms unfolding config_inv_def v by (auto simp: erase_key_def Let_def std_map.wf_erase)
  show "fst (erase_key key c) \<longleftrightarrow> view c key \<noteq> None" by (auto simp: erase_key_def view_None Let_def)
qed

text \<open>C25: A configuration is a map: a string is read as it was written last, a write changes nothing else, an
  erased key is not found any more, and the erased keys that are remembered are keys without a value.\<close>

theorem config_is_map:
  assumes "config_inv c" "key \<noteq> []"
  shows "read_string key old c = (case view c key of Some v \<Rightarrow> (True, v) | None \<Rightarrow> (False, [])) \<and>
    (let (ok, c') = write_string key v c in ok \<and> view c' = (view c)(key \<mapsto> v) \<and> config_inv c') \<and>
    (let (ok, c') = erase_key key c in ok = (view c key \<noteq> None) \<and> view c' = (view c)(key := None) \<and> config_inv c')"
  using assms(2)
  by (simp add: read_string_def find_value_view case_prod_unfold write_string_view [OF assms]
      erase_key_view [OF assms(1)])

lemma find_text_write:
  "config_inv c \<Longrightarrow> key \<noteq> [] \<Longrightarrow> t \<noteq> [] \<Longrightarrow> find_text key (snd (write_string key t c)) = Some t"
  by (simp add: find_text_view write_string_view split: list.splits)

lemma find_value_write:
  "config_inv c \<Longrightarrow> key \<noteq> [] \<Longrightarrow> find_value key (snd (write_string key t c)) = Some t"
  by (simp add: find_value_view write_string_view)

lemma without_last_id: "list_all (\<lambda>s. s \<noteq> []) vec \<Longrightarrow> without_last_empty vec = vec"
  by (auto simp: without_last_empty_def list_all_iff)

lemma split_list:
  "list_all (\<lambda>s. COMMA \<notin> set s) vec \<Longrightarrow>
   fst (scim_split_string_list (scim_combine_string_list vec COMMA) COMMA) = without_last_empty vec"
  by (simp add: scim_split_string_list_def Let_def split_combine)

text \<open>Numbers, truth values and lists are read as they were written. Of a list of strings only an empty
  string at its end is lost, if no string holds a comma.\<close>

theorem values_read_back:
  assumes "config_inv c" "key \<noteq> []" "- (2 ^ 31) \<le> i" "i < 2 ^ 31"
    and "list_all (\<lambda>s. COMMA \<notin> set s) strings" "list_all (\<lambda>i. - (2 ^ 31) \<le> i \<and> i < 2 ^ 31) ints"
  shows "read_int key old_i (snd (write_int key i c)) = (True, i) \<and>
    read_bool key old_b (snd (write_bool key b c)) = (True, b) \<and>
    read_string_list key old_s (snd (write_string_list key strings c)) = (True, without_last_empty strings) \<and>
    read_int_list key old_is (snd (write_int_list key ints c)) = (True, ints)"
proof (intro conjI)
  show "read_int key old_i (snd (write_int key i c)) = (True, i)"
    using assms printf_d_text(1) by (simp add: read_int_def write_int_def find_text_write int_of_long_printf_d)
  have ne: "bytes_of (if b then ''true'' else ''false'') \<noteq> []" by simp
  show "read_bool key old_b (snd (write_bool key b c)) = (True, b)"
    unfolding read_bool_def write_bool_def find_text_write [OF assms(1,2) ne] using assms(2)
    by (simp add: byte_of_char_def)
  show "read_string_list key old_s (snd (write_string_list key strings c)) = (True, without_last_empty strings)"
    using assms by (simp add: read_string_list_def write_string_list_def find_value_write split_list)
  let ?t = "map (\<lambda>i. bytes_of (printf_d i)) ints"
  have "list_all (\<lambda>s. COMMA \<notin> set s) ?t" "list_all (\<lambda>s. s \<noteq> []) ?t"
    using printf_d_text by (fastforce simp: list_all_iff is_digit_def)+
  then have "fst (scim_split_string_list (scim_combine_string_list ?t COMMA) COMMA) = ?t"
    by (simp add: split_list without_last_id)
  moreover have "map (\<lambda>j. int_of_long (strtol10 j)) ?t = ints"
    using assms(6) by (auto simp: list_all_iff int_of_long_printf_d intro: map_idI)
  ultimately show "read_int_list key old_is (snd (write_int_list key ints c)) = (True, ints)"
    using assms(1,2) by (simp add: read_int_list_def write_int_list_def find_value_write)
qed

section \<open>Files\<close>

text \<open>The entries of a file, in its order; the first one with a key counts. The rest behind the last line
  end is not an entry.\<close>

definition line_entry :: "bytes \<Rightarrow> (bytes \<times> bytes) list" where
  "line_entry conf_line =
     (let l = trim_blank (c_string conf_line) in
      if is_entry l then [(get_param_portion l, get_value_portion l)] else [])"

function file_entries :: "nat \<Rightarrow> bytes \<Rightarrow> (bytes \<times> bytes) list" where
  "file_entries n is =
     (case getline n is of Line conf_line rest \<Rightarrow> line_entry conf_line @ file_entries n rest | _ \<Rightarrow> [])"
  by pat_completeness auto

termination by (relation "measure (\<lambda>(_, is). length is)") (auto dest: getline_shorter)

declare file_entries.simps [simp del]

text \<open>Every line, the last one too, fits the buffer.\<close>

definition short_lines :: "nat \<Rightarrow> bytes \<Rightarrow> bool" where
  "short_lines n is \<longleftrightarrow> list_all (\<lambda>l. length l < n) (split_loop NEWLINE is)"

lemma short_lines_Nil [simp]: "short_lines n []"
  by (simp add: short_lines_def)

lemma short_lines_step:
  assumes "0 < n"
  shows "short_lines n is \<longleftrightarrow>
    (case getline n is of Line _ rest \<Rightarrow> short_lines n rest | At_eof _ \<Rightarrow> True | Too_long _ \<Rightarrow> False)"
proof (cases "is = []")
  case True
  with assms show ?thesis by (simp add: getline_Nil)
next
  case False
  let ?w = "takeWhile (\<lambda>c. c \<noteq> NEWLINE) is" and ?d = "dropWhile (\<lambda>c. c \<noteq> NEWLINE) is"
  have "split_loop NEWLINE is = ?w # (if ?d = [] then [] else split_loop NEWLINE (tl ?d))"
    using False by (subst split_loop.simps) (simp add: Let_def)
  then show ?thesis by (auto simp: short_lines_def getline_def Let_def)
qed

lemma parse_line_find:
  "map_wf config \<Longrightarrow> map_of (parse_line l config) = map_of (line_entry l) ++ map_of config"
  by (auto simp: parse_line_def line_entry_def Let_def std_map.find_put fun_eq_iff map_add_def split: option.splits)

lemma parse_line_wf: "map_wf config \<Longrightarrow> map_wf (parse_line l config)"
  by (simp add: parse_line_def Let_def std_map.wf_put)

lemma parse_config_entries:
  "short_lines SCIM_MAX_CONFIG_LINE_LENGTH is \<Longrightarrow> map_wf config \<Longrightarrow>
   \<exists>m. parse_config is config = Done m \<and> map_wf m \<and>
     map_of m = map_of (file_entries SCIM_MAX_CONFIG_LINE_LENGTH is) ++ map_of config"
proof (induction "is" config rule: parse_config.induct)
  case (1 "is" config)
  have pos: "0 < SCIM_MAX_CONFIG_LINE_LENGTH" by (simp add: SCIM_MAX_CONFIG_LINE_LENGTH_def)
  show ?case
  proof (cases "getline SCIM_MAX_CONFIG_LINE_LENGTH is")
    case (Line l rest)
    with 1 short_lines_step [OF pos, of "is"] obtain m where
      m: "parse_config rest (parse_line l config) = Done m" "map_wf m"
        "map_of m = map_of (file_entries SCIM_MAX_CONFIG_LINE_LENGTH rest) ++ map_of (parse_line l config)"
      by (auto simp: parse_line_wf)
    with Line 1(3) show ?thesis
      by (subst parse_config.simps, subst file_entries.simps) (simp add: parse_line_find)
  next
    case (At_eof l)
    with 1(3) show ?thesis by (subst parse_config.simps, subst file_entries.simps) simp
  next
    case (Too_long l)
    with 1(2) short_lines_step [OF pos, of "is"] show ?thesis by simp
  qed
qed

lemma parse_config_long: "\<not> short_lines SCIM_MAX_CONFIG_LINE_LENGTH is \<Longrightarrow> parse_config is config = Blocks"
proof (induction "is" config rule: parse_config.induct)
  case (1 "is" config)
  have pos: "0 < SCIM_MAX_CONFIG_LINE_LENGTH" by (simp add: SCIM_MAX_CONFIG_LINE_LENGTH_def)
  with 1 short_lines_step [OF pos, of "is"] show ?case
    by (subst parse_config.simps) (auto split: getline_result.splits)
qed

text \<open>C29: Reading a file returns exactly if every line is shorter than the buffer of 16384 bytes; one longer
  line, in the file of the user or of the system, and the loop never ends. A file that is read adds the
  entries of its complete lines; a key that is there already, and the first of two lines, prevails.\<close>

theorem parse_config_returns:
  assumes "map_wf config"
  shows "if short_lines SCIM_MAX_CONFIG_LINE_LENGTH is
    then \<exists>m. parse_config is config = Done m \<and> map_wf m \<and>
      map_of m = map_of (file_entries SCIM_MAX_CONFIG_LINE_LENGTH is) ++ map_of config
    else parse_config is config = Blocks"
  using parse_config_entries [OF _ assms] parse_config_long by simp

lemma file_entries_saved:
  "list_all (\<lambda>(k, v). savable n k v) config \<Longrightarrow>
   file_entries n (save_config config) = config \<and> short_lines n (save_config config)"
proof (induction config)
  case Nil
  then show ?case by (subst file_entries.simps) (simp add: save_config_def getline_def)
next
  case (Cons e config)
  obtain k v where e: "e = (k, v)" by (cases e)
  with Cons.prems have s: "savable n k v" by simp
  then have n: "0 < n" by (simp add: savable_def)
  have "save_config (e # config) = entry_line k v @ save_config config" by (simp add: e save_config_def)
  then have g: "getline n (save_config (e # config)) = Line (k @ [0x20, 0x3D, 0x20] @ v) (save_config config)"
    using getline_saved [OF s] by simp
  have "line_entry (k @ [0x20, 0x3D, 0x20] @ v) = [(k, v)]"
    using saved_line [OF s] by (simp add: line_entry_def Let_def)
  with Cons g e short_lines_step [OF n, of "save_config (e # config)"] show ?case
    by (subst file_entries.simps) simp
qed

text \<open>C28: A configuration whose keys hold no blank and no equals sign and do not start with a number sign, and
  whose values hold no line end and neither start nor end with a blank, is read from its file as it was
  saved.\<close>

theorem saved_config_read:
  assumes "map_wf config" "list_all (\<lambda>(k, v). savable SCIM_MAX_CONFIG_LINE_LENGTH k v) config"
  shows "parse_config (save_config config) [] = Done config"
proof -
  from file_entries_saved [OF assms(2)] parse_config_entries [OF _ map_wf_Nil, of "save_config config"] obtain m where
    "parse_config (save_config config) [] = Done m" "map_wf m" "map_of m = map_of config" by auto
  with std_map.find_inject [OF _ assms(1)] show ?thesis by auto
qed

end
