(* ===== verification/Core_Config_Flush.thy ===== *)
theory Core_Config_Flush
  imports Core_Config_Laws
begin

text \<open>What \<^verbatim>\<open>SimpleConfig::flush\<close> leaves on the disk.\<close>

abbreviation entries :: "bytes \<Rightarrow> (bytes \<times> bytes) list" where
  "entries \<equiv> file_entries SCIM_MAX_CONFIG_LINE_LENGTH"

definition file_values :: "bytes option \<Rightarrow> bytes \<Rightarrow> bytes option" where
  "file_values file = (case file of Some is \<Rightarrow> map_of (entries is) | None \<Rightarrow> Map.empty)"

definition disk_values :: "disk \<Rightarrow> bytes \<Rightarrow> bytes option" where
  "disk_values d = file_values (system_file d) ++ file_values (user_file d)"

definition readable :: "bytes option \<Rightarrow> bool" where
  "readable file \<longleftrightarrow> (case file of Some is \<Rightarrow> short_lines SCIM_MAX_CONFIG_LINE_LENGTH is | None \<Rightarrow> True)"

definition time_of :: "bytes option \<Rightarrow> timestamp option" where
  "time_of value =
     (case value of
        Some v \<Rightarrow>
          (let strs = fst (scim_split_string_list v 0x3A) in
           if length strs = 2 then Some (strtol10 (strs ! 0), strtol10 (strs ! 1)) else None)
      | None \<Rightarrow> None)"

text \<open>Whether \<^verbatim>\<open>load_all_config\<close> takes what the files hold.\<close>

definition takes_disk :: "disk \<Rightarrow> SimpleConfig \<Rightarrow> bool" where
  "takes_disk d c \<longleftrightarrow> m_config c = [] \<or> m_update_timestamp c = (0, 0) \<or>
     (\<exists>t. time_of (disk_values d SCIM_CONFIG_UPDATE_TIMESTAMP) = Some t \<and> later (m_update_timestamp c) t)"

lemma parse_file_values:
  assumes "readable file" "map_wf config"
  shows "\<exists>m. parse_file file config = Done m \<and> map_wf m \<and> map_of m = file_values file ++ map_of config"
  using assms parse_config_entries [of _ config]
  by (auto simp: readable_def parse_file_def file_values_def split: option.splits)

lemma load_all_config_result:
  assumes "readable (user_file d)" "readable (system_file d)" "map_wf (m_config c)"
  shows "\<exists>m t. load_all_config d now c = Done (takes_disk d c, c\<lparr>m_config := m, m_update_timestamp := t\<rparr>) \<and>
    map_wf m \<and> map_of m = (if takes_disk d c then disk_values d else map_of (m_config c))"
proof -
  from parse_file_values [OF assms(1) map_wf_Nil] obtain u where
    u: "parse_file (user_file d) [] = Done u" "map_wf u" "map_of u = file_values (user_file d)" by auto
  from parse_file_values [OF assms(2) u(2)] obtain m where
    m: "parse_file (system_file d) u = Done m" "map_wf m" "map_of m = disk_values d"
    by (auto simp: u(3) disk_values_def)
  have load: "load_all_config d now c =
      (if m_config c = [] \<or> m_update_timestamp c = (0, 0) then
         Done (True, c\<lparr>m_config := m, m_update_timestamp := now\<rparr>)
       else case time_of (map_of m SCIM_CONFIG_UPDATE_TIMESTAMP) of
         Some t \<Rightarrow> if later (m_update_timestamp c) t then Done (True, c\<lparr>m_config := m, m_update_timestamp := t\<rparr>)
           else Done (False, c)
       | None \<Rightarrow> Done (False, c))"
    by (simp add: load_all_config_def u(1) m(1) time_of_def Let_def split: option.split)
  have same: "c = c\<lparr>m_config := m_config c, m_update_timestamp := m_update_timestamp c\<rparr>" by simp
  show ?thesis
  proof (cases "takes_disk d c")
    case True
    then consider "m_config c = [] \<or> m_update_timestamp c = (0, 0)"
      | t where "\<not> (m_config c = [] \<or> m_update_timestamp c = (0, 0))"
          "time_of (map_of m SCIM_CONFIG_UPDATE_TIMESTAMP) = Some t" "later (m_update_timestamp c) t"
      unfolding takes_disk_def m(3) by blast
    then have "\<exists>t. load_all_config d now c = Done (True, c\<lparr>m_config := m, m_update_timestamp := t\<rparr>)"
      unfolding load by cases (simp_all only: if_True if_False option.case, blast+)
    with True m(2,3) show ?thesis by auto
  next
    case False
    then have "load_all_config d now c = Done (False, c)"
      unfolding load takes_disk_def by (auto simp: m(3) split: option.splits)
    with False assms(3) same show ?thesis by metis
  qed
qed

text \<open>What is saved, as a map.\<close>

definition saved_values :: "disk \<Rightarrow> SimpleConfig \<Rightarrow> timestamp \<Rightarrow> bytes \<Rightarrow> bytes option" where
  "saved_values d c now =
     (\<lambda>k. if k \<in> set (m_erased_keys c) then None
          else ((if takes_disk d c then disk_values d else map_of (m_config c)) ++ map_of (m_new_config c)) k)
     (SCIM_CONFIG_UPDATE_TIMESTAMP \<mapsto> timestamp_text now)"

definition all_savable :: "(bytes \<Rightarrow> bytes option) \<Rightarrow> bool" where
  "all_savable values \<longleftrightarrow> (\<forall>k v. values k = Some v \<longrightarrow> savable SCIM_MAX_CONFIG_LINE_LENGTH k v)"

lemma map_of_rev_wf: "map_wf m \<Longrightarrow> map_of (rev m) = map_of m"
  by (subst map_of_inject_set) (simp_all add: map_wf_def strict_sorted_iff rev_map [symmetric])

lemma merged_values:
  assumes "map_wf (m_config c)" "map_wf (m_new_config c)"
  shows "map_wf (merged c now) \<and> map_of (merged c now) =
    (\<lambda>k. if k \<in> set (m_erased_keys c) then None else (map_of (m_config c) ++ map_of (m_new_config c)) k)
    (SCIM_CONFIG_UPDATE_TIMESTAMP \<mapsto> timestamp_text now)"
proof -
  let ?m = "fold (\<lambda>(k, v). map_put k v) (m_new_config c) (m_config c)"
  have m: "map_wf ?m" by (rule std_map.wf_put_all [OF assms(1)])
  have "map_of ?m = map_of (m_config c) ++ map_of (m_new_config c)"
    unfolding std_map.find_put_all [OF assms(1)] map_of_rev_wf [OF assms(2)] ..
  with std_map.wf_erase_all [OF m] show ?thesis
    unfolding merged_def std_map.find_put [OF std_map.wf_erase_all [OF m]] std_map.find_erase_all [OF m]
    by (simp only: std_map.wf_put simp_thms)
qed

lemma flush_result:
  assumes "config_inv c" "readable (user_file d)" "readable (system_file d)"
    and "m_new_config c \<noteq> [] \<or> m_erased_keys c \<noteq> []"
  shows "\<exists>c'. flush True file_opens now d c =
      Done (file_opens, c', if file_opens then d\<lparr>user_file := Some (save_config (m_config c'))\<rparr> else d) \<and>
    map_wf (m_config c') \<and> map_of (m_config c') = saved_values d c now \<and>
    m_new_config c' = [] \<and> m_erased_keys c' = [] \<and> m_update_timestamp c' = now"
proof -
  from assms(1) load_all_config_result [OF assms(2,3)] obtain m t where
    l: "load_all_config d now c = Done (takes_disk d c, c\<lparr>m_config := m, m_update_timestamp := t\<rparr>)" "map_wf m"
      "map_of m = (if takes_disk d c then disk_values d else map_of (m_config c))"
    unfolding config_inv_def by blast
  have "map_wf (m_new_config c)" using assms(1) by (simp add: config_inv_def)
  with l(2,3) merged_values [of "c\<lparr>m_config := m, m_update_timestamp := t\<rparr>" now] show ?thesis
    using assms(4) by (auto simp: flush_def l(1) Let_def saved_values_def)
qed

lemma saved_file:
  assumes "map_wf m" "all_savable (map_of m)"
  shows "file_values (Some (save_config m)) = map_of m" "readable (Some (save_config m))"
proof -
  have "distinct (map fst m)" using assms(1) by (simp add: map_wf_def strict_sorted_iff)
  then have "list_all (\<lambda>(k, v). savable SCIM_MAX_CONFIG_LINE_LENGTH k v) m"
    using assms(2) by (auto simp: all_savable_def list_all_iff)
  from file_entries_saved [OF this] show "file_values (Some (save_config m)) = map_of m"
    "readable (Some (save_config m))"
    by (simp_all add: file_values_def readable_def)
qed

lemma new_config_view:
  assumes "readable (user_file d)" "readable (system_file d)"
  shows "\<exists>c. new_SimpleConfig d now = Done c \<and> view c = disk_values d \<and> config_inv c \<and> m_update_timestamp c = now"
proof -
  let ?c = "\<lparr>m_config = [], m_new_config = [], m_erased_keys = [], m_update_timestamp = (0, 0), m_need_reload = False\<rparr>"
  from parse_file_values [OF assms(1) map_wf_Nil] obtain u where
    u: "parse_file (user_file d) [] = Done u" "map_wf u" "map_of u = file_values (user_file d)" by auto
  from parse_file_values [OF assms(2) u(2)] obtain m where
    m: "parse_file (system_file d) u = Done m" "map_wf m" "map_of m = disk_values d"
    by (auto simp: u(3) disk_values_def)
  show ?thesis
    by (simp add: new_SimpleConfig_def load_all_config_def u(1) m view_def config_inv_def)
qed

text \<open>C26: What a configuration has written is there after it was flushed: another configuration that is
  opened then reads every value that was written, for an erased key what the file of the system says, and
  otherwise what the flushing one has taken from the files, if they were newer, or has kept.\<close>

theorem flush_persists:
  assumes "config_inv c" "readable (user_file d)" "readable (system_file d)"
    and "m_new_config c \<noteq> [] \<or> m_erased_keys c \<noteq> []" "all_savable (saved_values d c now)"
  shows "\<exists>c' d' c2. flush True True now d c = Done (True, c', d') \<and> new_SimpleConfig d' later_on = Done c2 \<and>
    config_inv c' \<and> view c' = saved_values d c now \<and>
    (\<forall>k. k \<noteq> SCIM_CONFIG_UPDATE_TIMESTAMP \<longrightarrow>
      view c2 k =
        (if k \<in> set (m_erased_keys c) then file_values (system_file d) k
         else case map_of (m_new_config c) k of Some v \<Rightarrow> Some v
         | None \<Rightarrow> (file_values (system_file d) ++
             (if takes_disk d c then disk_values d else map_of (m_config c))) k))"
proof -
  from flush_result [OF assms(1-4), of True now] obtain c' where
    c': "flush True True now d c = Done (True, c', d\<lparr>user_file := Some (save_config (m_config c'))\<rparr>)"
      "map_wf (m_config c')" "map_of (m_config c') = saved_values d c now" "m_new_config c' = []" "m_erased_keys c' = []"
    by auto
  let ?d = "d\<lparr>user_file := Some (save_config (m_config c'))\<rparr>"
  have f: "file_values (user_file ?d) = saved_values d c now" "readable (user_file ?d)"
    using saved_file [OF c'(2)] assms(5) by (simp_all add: c'(3))
  from new_config_view [OF f(2), of later_on] assms(3) obtain c2 where
    "new_SimpleConfig ?d later_on = Done c2" "view c2 = disk_values ?d"
    by (auto simp: readable_def)
  moreover have "disk_values ?d = file_values (system_file d) ++ saved_values d c now"
    using f(1) by (simp add: disk_values_def)
  moreover have "config_inv c'" "view c' = saved_values d c now"
    using c'(2-5) by (simp_all add: config_inv_def view_def)
  moreover have "map_of (m_new_config c) k = None" if "k \<in> set (m_erased_keys c)" for k
    using assms(1) that by (simp add: config_inv_def view_None)
  ultimately show ?thesis
    using c'(1) by (auto simp: saved_values_def map_add_def split: option.splits)
qed

lemma time_of_text:
  assumes "0 \<le> fst t" "fst t < 2 ^ 63" "0 \<le> snd t" "snd t < 2 ^ 63"
  shows "time_of (Some (timestamp_text t)) = Some t"
proof -
  let ?s = "bytes_of (printf_u (nat (fst t)))" and ?u = "bytes_of (printf_u (nat (snd t)))"
  have m: "fst t mod 2 ^ 64 = fst t" "snd t mod 2 ^ 64 = snd t" using assms by simp_all
  have d: "(0x3A :: 8 word) \<notin> set ?s" "(0x3A :: 8 word) \<notin> set ?u"
    using digit_bytes_printf_u [of "nat (fst t)"] digit_bytes_printf_u [of "nat (snd t)"]
    by (auto simp: list_all_iff is_digit_def simp del: set_map)
  have c: "bytes_of '':'' = [0x3A]" by (simp add: byte_of_char_def)
  have "timestamp_text t = ?s @ 0x3A # ?u" unfolding timestamp_text_def m c by simp
  then have "split_loop 0x3A (timestamp_text t) = [?s, ?u]"
    using split_loop_append [OF d(1), of ?u] split_loop_word [OF d(2)] by simp
  then show ?thesis
    using assms by (simp add: time_of_def scim_split_string_list_def Let_def strtol10_printf_u)
qed

text \<open>C27: Two processes that have opened the configuration both keep what they write: when one flushes after the
  other, and has loaded before the other's flush, the files hold its own changes and the other's.\<close>

theorem flushes_merge:
  assumes "config_inv a" "config_inv b" "readable (user_file d)" "readable (system_file d)"
    and "m_new_config a \<noteq> [] \<or> m_erased_keys a \<noteq> []" "m_new_config b \<noteq> [] \<or> m_erased_keys b \<noteq> []"
    and "later (m_update_timestamp a) tb" "0 \<le> fst tb" "fst tb < 2 ^ 63" "0 \<le> snd tb" "snd tb < 2 ^ 63"
    and "all_savable (saved_values d b tb)" "all_savable (file_values (system_file d))"
    and "all_savable (map_of (m_new_config a))" "savable SCIM_MAX_CONFIG_LINE_LENGTH SCIM_CONFIG_UPDATE_TIMESTAMP (timestamp_text ta)"
  shows "\<exists>b' d1 a' d2 c. flush True True tb d b = Done (True, b', d1) \<and> flush True True ta d1 a = Done (True, a', d2) \<and>
    new_SimpleConfig d2 later_on = Done c \<and>
    (\<forall>k. k \<noteq> SCIM_CONFIG_UPDATE_TIMESTAMP \<longrightarrow>
      view c k =
        (if k \<in> set (m_erased_keys a) then file_values (system_file d) k
         else case map_of (m_new_config a) k of Some v \<Rightarrow> Some v
         | None \<Rightarrow> (file_values (system_file d) ++ saved_values d b tb) k))"
proof -
  from flush_result [OF assms(2-4,6), of True tb] obtain b' where
    b': "flush True True tb d b = Done (True, b', d\<lparr>user_file := Some (save_config (m_config b'))\<rparr>)"
      "map_wf (m_config b')" "map_of (m_config b') = saved_values d b tb" by auto
  define d1 where "d1 = d\<lparr>user_file := Some (save_config (m_config b'))\<rparr>"
  have f: "file_values (user_file d1) = saved_values d b tb" "readable (user_file d1)" "system_file d1 = system_file d"
    using saved_file [OF b'(2)] assms(12) by (simp_all add: b'(3) d1_def)
  have dv: "disk_values d1 = file_values (system_file d) ++ saved_values d b tb" by (simp add: disk_values_def f)
  have "disk_values d1 SCIM_CONFIG_UPDATE_TIMESTAMP = Some (timestamp_text tb)" by (simp add: dv saved_values_def)
  then have takes: "takes_disk d1 a" using time_of_text [OF assms(8-11)] assms(7) by (simp add: takes_disk_def)
  have sv: "saved_values d1 a ta = (\<lambda>k. if k \<in> set (m_erased_keys a) then None
      else (disk_values d1 ++ map_of (m_new_config a)) k)(SCIM_CONFIG_UPDATE_TIMESTAMP \<mapsto> timestamp_text ta)"
    by (simp add: saved_values_def takes)
  have "all_savable (saved_values d1 a ta)"
    using assms(12-15) unfolding sv dv all_savable_def
    by (auto simp: map_add_def split: if_splits option.splits)
  from flush_persists [OF assms(1) f(2) _ assms(5) this, of later_on, unfolded f(3), OF assms(4)] obtain a' d2 c where
    "flush True True ta d1 a = Done (True, a', d2)" "new_SimpleConfig d2 later_on = Done c"
    "\<forall>k. k \<noteq> SCIM_CONFIG_UPDATE_TIMESTAMP \<longrightarrow>
      view c k = (if k \<in> set (m_erased_keys a) then file_values (system_file d) k
         else case map_of (m_new_config a) k of Some v \<Rightarrow> Some v
         | None \<Rightarrow> (file_values (system_file d) ++ disk_values d1) k)"
    unfolding if_P [OF takes] by blast
  moreover have "file_values (system_file d) ++ disk_values d1 = file_values (system_file d) ++ saved_values d b tb"
    by (simp add: dv map_add_def fun_eq_iff split: option.splits)
  ultimately show ?thesis using b'(1) unfolding d1_def [symmetric] by metis
qed

text \<open>When the file cannot be opened, \<^verbatim>\<open>flush\<close> reports a failure but forgets that there was something to
  write: the next call reports success and writes nothing, while the values are still read as if they were
  saved.\<close>

theorem failed_flush_forgets:
  assumes "config_inv c" "readable (user_file d)" "readable (system_file d)"
    and "m_new_config c \<noteq> [] \<or> m_erased_keys c \<noteq> []"
  shows "\<exists>c'. flush True False now d c = Done (False, c', d) \<and> view c' = saved_values d c now \<and>
    flush True True after d c' = Done (True, c', d)"
proof -
  from flush_result [OF assms, of False now] obtain c' where
    "flush True False now d c = Done (False, c', d)" "map_of (m_config c') = saved_values d c now"
    "m_new_config c' = []" "m_erased_keys c' = []" by auto
  then show ?thesis by (simp add: view_def flush_def)
qed

section \<open>Examples\<close>

definition key_a :: bytes where "key_a = bytes_of ''/a''"
definition key_b :: bytes where "key_b = bytes_of ''/b''"

definition demo_config :: "bytes \<Rightarrow> SimpleConfig" where
  "demo_config key = \<lparr>m_config = [(key_a, bytes_of ''1'')], m_new_config = [(key, bytes_of ''x y'')],
     m_erased_keys = [], m_update_timestamp = (5, 0), m_need_reload = True\<rparr>"

definition no_files :: disk where
  "no_files = \<lparr>user_file = None, system_file = None\<rparr>"

lemma demo_config_inv: "config_inv (demo_config key)"
  by (simp add: config_inv_def demo_config_def map_wf_Cons)

lemma demo_simps [simp]:
  "m_new_config (demo_config key) = [(key, bytes_of ''x y'')]" "m_erased_keys (demo_config key) = []"
  "m_update_timestamp (demo_config key) = (5, 0)" "readable None"
  "user_file no_files = None" "system_file no_files = None" "file_values None = Map.empty"
  by (simp_all add: demo_config_def no_files_def readable_def file_values_def)

lemma savable_demo:
  "savable SCIM_MAX_CONFIG_LINE_LENGTH key_a (bytes_of ''1'')"
  "savable SCIM_MAX_CONFIG_LINE_LENGTH key_a (bytes_of ''x y'')"
  "savable SCIM_MAX_CONFIG_LINE_LENGTH key_b (bytes_of ''x y'')"
  "savable SCIM_MAX_CONFIG_LINE_LENGTH SCIM_CONFIG_UPDATE_TIMESTAMP (timestamp_text (7, 3))"
  "savable SCIM_MAX_CONFIG_LINE_LENGTH SCIM_CONFIG_UPDATE_TIMESTAMP (timestamp_text (8, 0))"
  by (simp_all add: savable_def key_a_def key_b_def byte_of_char_def blank_def SCIM_MAX_CONFIG_LINE_LENGTH_def
      SCIM_CONFIG_UPDATE_TIMESTAMP_def timestamp_text_def printf_u.simps char_of_digit_def)

lemmas savable_demo_map = savable_demo [simplified list.map]

lemma demo_all_savable: "all_savable (saved_values no_files (demo_config key_b) (7, 3))"
  unfolding all_savable_def saved_values_def
  by (auto simp: savable_demo_map takes_disk_def disk_values_def time_of_def map_add_def demo_config_def
      split: if_splits option.splits)

lemma demo_keys: "key_a \<noteq> SCIM_CONFIG_UPDATE_TIMESTAMP" "key_b \<noteq> SCIM_CONFIG_UPDATE_TIMESTAMP" "key_a \<noteq> key_b"
  "key_b \<noteq> []"
  by (simp_all add: key_a_def key_b_def SCIM_CONFIG_UPDATE_TIMESTAMP_def byte_of_char_def)

lemma config_is_map_witness: "read_string key_b [] (demo_config key_b) = (True, bytes_of ''x y'')"
  using config_is_map [OF demo_config_inv demo_keys(4), of "[]" key_b] by (simp add: view_def)

lemma parse_config_returns_witness: "\<exists>m. parse_config [] [] = Done m \<and> map_of m = Map.empty"
  using parse_config_returns [OF map_wf_Nil, of "[]"]
  by (auto simp: file_entries.simps getline_def SCIM_MAX_CONFIG_LINE_LENGTH_def)

lemma saved_config_read_witness:
  "parse_config (save_config [(key_b, bytes_of ''x y'')]) [] = Done [(key_b, bytes_of ''x y'')]"
  by (rule saved_config_read) (simp_all add: map_wf_Cons savable_demo_map)

lemma flush_persists_witness:
  "\<exists>c' d' c2. flush True True (7, 3) no_files (demo_config key_b) = Done (True, c', d') \<and>
     new_SimpleConfig d' (9, 0) = Done c2 \<and> view c2 key_b = Some (bytes_of ''x y'')"
proof -
  have "readable (user_file no_files)" "readable (system_file no_files)"
    "m_new_config (demo_config key_b) \<noteq> [] \<or> m_erased_keys (demo_config key_b) \<noteq> []" by simp_all
  from flush_persists [OF demo_config_inv this demo_all_savable, of "(9, 0)"] demo_keys(2) show ?thesis
    by fastforce
qed

lemma flushes_merge_witness:
  "\<exists>b' d1 a' d2 c. flush True True (7, 3) no_files (demo_config key_b) = Done (True, b', d1) \<and>
     flush True True (8, 0) d1 (demo_config key_a) = Done (True, a', d2) \<and> new_SimpleConfig d2 (9, 0) = Done c \<and>
     view c key_a = Some (bytes_of ''x y'') \<and> view c key_b = Some (bytes_of ''x y'')"
proof -
  have h: "readable (user_file no_files)" "readable (system_file no_files)"
    "m_new_config (demo_config key_a) \<noteq> [] \<or> m_erased_keys (demo_config key_a) \<noteq> []"
    "m_new_config (demo_config key_b) \<noteq> [] \<or> m_erased_keys (demo_config key_b) \<noteq> []"
    "later (m_update_timestamp (demo_config key_a)) (7, 3)"
    "all_savable (file_values (system_file no_files))" "all_savable (map_of (m_new_config (demo_config key_a)))"
    by (simp_all add: later_def all_savable_def savable_demo_map)
  have b: "saved_values no_files (demo_config key_b) (7, 3) key_b = Some (bytes_of ''x y'')"
    using demo_keys by (simp add: saved_values_def)
  from flushes_merge [OF demo_config_inv demo_config_inv h(1-5) _ _ _ _ demo_all_savable h(6,7) savable_demo(5), of "(9, 0)"]
  show ?thesis using demo_keys b by fastforce
qed

lemma failed_flush_forgets_witness:
  "\<exists>c'. flush True False (7, 3) no_files (demo_config key_b) = Done (False, c', no_files) \<and>
     flush True True (8, 0) no_files c' = Done (True, c', no_files)"
proof -
  have "readable (user_file no_files)" "readable (system_file no_files)"
    "m_new_config (demo_config key_b) \<noteq> [] \<or> m_erased_keys (demo_config key_b) \<noteq> []" by simp_all
  from failed_flush_forgets [OF demo_config_inv this, of "(7, 3)" "(8, 0)"] show ?thesis by blast
qed

end
