(* ===== verification/Core_Global_Config.thy ===== *)
theory Core_Global_Config
  imports Core_Config_Flush
begin

text \<open>
  The global configuration, \<^verbatim>\<open>src/scim_global_config.cpp\<close>: a repository that is read from the files of the
  system and of the user when it is used first, with the keys that were updated or erased since. The
  contents of the files are the state \<open>disk\<close> of \<^verbatim>\<open>Core_Simple_Config\<close>.
\<close>

record GlobalConfigRepository =
  sys :: repository
  usr :: repository
  updated :: repository
  initialized :: bool

definition new_GlobalConfigRepository :: GlobalConfigRepository where
  "new_GlobalConfigRepository = \<lparr>sys = [], usr = [], updated = [], initialized = False\<rparr>"

definition conf_line_size :: nat where
  "conf_line_size = 10000"

definition UPDATED :: bytes where
  "UPDATED = bytes_of ''updated''"

definition ERASED :: bytes where
  "ERASED = bytes_of ''erased''"

lemma marks_differ [simp]: "ERASED \<noteq> UPDATED" "UPDATED \<noteq> ERASED"
  by (simp_all add: UPDATED_def ERASED_def byte_of_char_def)

section \<open>Files\<close>

definition global_value_portion :: "bytes \<Rightarrow> bytes" where
  "global_value_portion str = trim_blank (tl (dropWhile (\<lambda>c. c \<noteq> 0x3D) str))"

definition global_parse_line :: "bytes \<Rightarrow> repository \<Rightarrow> repository" where
  "global_parse_line conf_line repo =
     (let normalized_line = trim_blank (c_string conf_line) in
      if is_entry normalized_line
      then map_put (get_param_portion normalized_line) (global_value_portion normalized_line) repo
      else repo)"

text \<open>Here the rest behind the last line end is read as well.\<close>

function global_parse_config :: "bytes \<Rightarrow> repository \<Rightarrow> repository run" where
  "global_parse_config is repo =
     (case getline conf_line_size is of
        Line conf_line rest \<Rightarrow> global_parse_config rest (global_parse_line conf_line repo)
      | At_eof conf_line \<Rightarrow> Done (global_parse_line conf_line repo)
      | Too_long _ \<Rightarrow> Blocks)"
  by pat_completeness auto

termination by (relation "measure (\<lambda>(is, _). length is)") (auto dest: getline_shorter)

declare global_parse_config.simps [simp del]

definition global_parse_file :: "bytes option \<Rightarrow> repository run" where
  "global_parse_file file = (case file of Some is \<Rightarrow> global_parse_config is [] | None \<Rightarrow> Done [])"

definition initialize_config :: "disk \<Rightarrow> GlobalConfigRepository \<Rightarrow> GlobalConfigRepository run" where
  "initialize_config d r =
     run_bind (global_parse_file (system_file d)) (\<lambda>s.
     run_bind (global_parse_file (user_file d)) (\<lambda>u.
     Done (r\<lparr>sys := s, usr := u,
       initialized := initialized r \<or> system_file d \<noteq> None \<or> user_file d \<noteq> None\<rparr>)))"

definition ensure_initialized :: "disk \<Rightarrow> GlobalConfigRepository \<Rightarrow> GlobalConfigRepository run" where
  "ensure_initialized d r = (if \<not> initialized r then initialize_config d r else Done r)"

section \<open>Reading\<close>

definition global_find :: "bytes \<Rightarrow> GlobalConfigRepository \<Rightarrow> bytes option" where
  "global_find key r = (case map_of (usr r) key of None \<Rightarrow> map_of (sys r) key | Some v \<Rightarrow> Some v)"

text \<open>The functions differ in what they make of a text that is there; \<open>of_text\<close> gives None for the
  default.\<close>

definition global_read_with :: "(bytes \<Rightarrow> 'v option) \<Rightarrow> disk \<Rightarrow> bytes \<Rightarrow> 'v \<Rightarrow> GlobalConfigRepository \<Rightarrow>
    ('v \<times> GlobalConfigRepository) run" where
  "global_read_with of_text d key defVal r =
     run_bind (ensure_initialized d r) (\<lambda>r.
     Done
      (if initialized r then
         case global_find key r of
           Some v \<Rightarrow> (case of_text v of Some x \<Rightarrow> x | None \<Rightarrow> defVal)
         | None \<Rightarrow> defVal
       else defVal, r))"

definition global_read_string where
  "global_read_string = global_read_with (\<lambda>v. Some v)"

definition global_read_int :: "disk \<Rightarrow> bytes \<Rightarrow> int \<Rightarrow> GlobalConfigRepository \<Rightarrow> (int \<times> GlobalConfigRepository) run" where
  "global_read_int = global_read_with (\<lambda>v. if v \<noteq> [] then Some (int_of_long (strtol10 v)) else None)"

definition global_read_bool :: "disk \<Rightarrow> bytes \<Rightarrow> bool \<Rightarrow> GlobalConfigRepository \<Rightarrow> (bool \<times> GlobalConfigRepository) run" where
  "global_read_bool = global_read_with (\<lambda>v.
     if v \<in> {bytes_of ''true'', bytes_of ''TRUE'', bytes_of ''True'', bytes_of ''1''} then Some True
     else if v \<in> {bytes_of ''false'', bytes_of ''FALSE'', bytes_of ''False'', bytes_of ''0''} then Some False
     else None)"

definition global_read_double :: "(bytes \<Rightarrow> 'd) \<Rightarrow> disk \<Rightarrow> bytes \<Rightarrow> 'd \<Rightarrow> GlobalConfigRepository \<Rightarrow> ('d \<times> GlobalConfigRepository) run" where
  "global_read_double strtod = global_read_with (\<lambda>v. if v \<noteq> [] then Some (strtod (c_string v)) else None)"

definition global_read_string_list :: "disk \<Rightarrow> bytes \<Rightarrow> bytes list \<Rightarrow> GlobalConfigRepository \<Rightarrow>
    (bytes list \<times> GlobalConfigRepository) run" where
  "global_read_string_list =
     global_read_with (\<lambda>v. if v \<noteq> [] then Some (fst (scim_split_string_list v COMMA)) else None)"

definition global_read_int_list :: "disk \<Rightarrow> bytes \<Rightarrow> int list \<Rightarrow> GlobalConfigRepository \<Rightarrow>
    (int list \<times> GlobalConfigRepository) run" where
  "global_read_int_list = global_read_with (\<lambda>v.
     if v \<noteq> [] then Some (map (\<lambda>i. int_of_long (strtol10 i)) (fst (scim_split_string_list v COMMA))) else None)"

section \<open>Writing\<close>

definition global_write_string :: "disk \<Rightarrow> bytes \<Rightarrow> bytes \<Rightarrow> GlobalConfigRepository \<Rightarrow> GlobalConfigRepository run" where
  "global_write_string d key val r =
     run_bind (ensure_initialized d r) (\<lambda>r.
     Done (if initialized r \<and> key \<noteq> []
       then r\<lparr>usr := map_put key val (usr r), updated := map_put key UPDATED (updated r)\<rparr> else r))"

definition global_write_int :: "disk \<Rightarrow> bytes \<Rightarrow> int \<Rightarrow> GlobalConfigRepository \<Rightarrow> GlobalConfigRepository run" where
  "global_write_int d key val = global_write_string d key (bytes_of (printf_d val))"

definition global_write_bool :: "disk \<Rightarrow> bytes \<Rightarrow> bool \<Rightarrow> GlobalConfigRepository \<Rightarrow> GlobalConfigRepository run" where
  "global_write_bool d key val = global_write_string d key (bytes_of (if val then ''true'' else ''false''))"

definition global_write_double :: "('d \<Rightarrow> bytes) \<Rightarrow> disk \<Rightarrow> bytes \<Rightarrow> 'd \<Rightarrow> GlobalConfigRepository \<Rightarrow> GlobalConfigRepository run" where
  "global_write_double printf_lf d key val = global_write_string d key (take 79 (printf_lf val))"

definition global_write_string_list :: "disk \<Rightarrow> bytes \<Rightarrow> bytes list \<Rightarrow> GlobalConfigRepository \<Rightarrow> GlobalConfigRepository run" where
  "global_write_string_list d key val = global_write_string d key (scim_combine_string_list val COMMA)"

definition global_write_int_list :: "disk \<Rightarrow> bytes \<Rightarrow> int list \<Rightarrow> GlobalConfigRepository \<Rightarrow> GlobalConfigRepository run" where
  "global_write_int_list d key val =
     global_write_string d key (scim_combine_string_list (map (\<lambda>i. bytes_of (printf_d i)) val) COMMA)"

definition global_reset :: "disk \<Rightarrow> bytes \<Rightarrow> GlobalConfigRepository \<Rightarrow> GlobalConfigRepository run" where
  "global_reset d key r =
     run_bind (ensure_initialized d r) (\<lambda>r.
     Done (if initialized r \<and> key \<noteq> []
       then r\<lparr>usr := map_erase key (usr r), updated := map_put key ERASED (updated r)\<rparr> else r))"

text \<open>What \<^verbatim>\<open>scim_global_config_flush\<close> makes of the values of the user's file. \<^verbatim>\<open>operator[]\<close> gives an empty
  string for a key that is not there.\<close>

definition merge_updated :: "repository \<Rightarrow> bytes \<times> bytes \<Rightarrow> repository \<Rightarrow> repository" where
  "merge_updated backup_usr = (\<lambda>(key, what) u.
     if what = UPDATED then map_put key (case map_of backup_usr key of Some v \<Rightarrow> v | None \<Rightarrow> []) u
     else if what = ERASED then map_erase key u
     else u)"

definition global_flush :: "bool \<Rightarrow> bool \<Rightarrow> disk \<Rightarrow> GlobalConfigRepository \<Rightarrow> (bool \<times> GlobalConfigRepository \<times> disk) run" where
  "global_flush dir_usable file_opens d r =
     (if \<not> initialized r then Done (False, r, d)
      else if updated r = [] then Done (True, r, d)
      else if \<not> dir_usable then Done (False, r, d)
      else
        let backup_usr = usr r in
        run_bind (initialize_config d r) (\<lambda>r.
        let r = r\<lparr>usr := fold (merge_updated backup_usr) (updated r) (usr r)\<rparr> in
        if file_opens then Done (True, r\<lparr>updated := []\<rparr>, d\<lparr>user_file := Some (save_config (usr r))\<rparr>)
        else Done (False, r, d)))"

section \<open>Properties\<close>

definition global_view :: "GlobalConfigRepository \<Rightarrow> bytes \<Rightarrow> bytes option" where
  "global_view r = map_of (sys r) ++ map_of (usr r)"

text \<open>The keys that are marked, with the values that they have in the repository.\<close>

definition global_inv :: "GlobalConfigRepository \<Rightarrow> bool" where
  "global_inv r \<longleftrightarrow>
     map_wf (sys r) \<and> map_wf (usr r) \<and> map_wf (updated r) \<and>
     (\<forall>k w. map_of (updated r) k = Some w \<longrightarrow>
       (w = UPDATED \<and> map_of (usr r) k \<noteq> None) \<or> (w = ERASED \<and> map_of (usr r) k = None))"

function global_entries :: "bytes \<Rightarrow> (bytes \<times> bytes) list" where
  "global_entries is =
     (case getline conf_line_size is of
        Line conf_line rest \<Rightarrow> line_entry conf_line @ global_entries rest
      | At_eof conf_line \<Rightarrow> line_entry conf_line
      | Too_long _ \<Rightarrow> [])"
  by pat_completeness auto

termination by (relation "measure length") (auto dest: getline_shorter)

declare global_entries.simps [simp del]

definition global_values :: "bytes option \<Rightarrow> bytes \<Rightarrow> bytes option" where
  "global_values file = (case file of Some is \<Rightarrow> map_of (rev (global_entries is)) | None \<Rightarrow> Map.empty)"

definition global_readable :: "bytes option \<Rightarrow> bool" where
  "global_readable file \<longleftrightarrow> (case file of Some is \<Rightarrow> short_lines conf_line_size is | None \<Rightarrow> True)"

lemma value_portions: "is_entry l \<Longrightarrow> global_value_portion l = get_value_portion l"
  by (cases "dropWhile (\<lambda>c. c \<noteq> 0x3D) l")
    (auto simp: global_value_portion_def get_value_portion_def is_entry_def Let_def)

lemma global_parse_line_find:
  "map_wf repo \<Longrightarrow> map_of (global_parse_line l repo) = map_of repo ++ map_of (rev (line_entry l)) \<and>
     map_wf (global_parse_line l repo)"
  by (auto simp: global_parse_line_def line_entry_def Let_def std_map.find_put std_map.wf_put value_portions
      map_add_def fun_eq_iff split: option.splits)

lemma global_parse_config_entries:
  "map_wf repo \<Longrightarrow> if short_lines conf_line_size is
     then \<exists>m. global_parse_config is repo = Done m \<and> map_wf m \<and> map_of m = map_of repo ++ map_of (rev (global_entries is))
     else global_parse_config is repo = Blocks"
proof (induction "is" repo rule: global_parse_config.induct)
  case (1 "is" repo)
  have pos: "0 < conf_line_size" by (simp add: conf_line_size_def)
  show ?case
  proof (cases "getline conf_line_size is")
    case (Line l rest)
    have wf: "map_wf (global_parse_line l repo)"
      and find: "map_of (global_parse_line l repo) = map_of repo ++ map_of (rev (line_entry l))"
      using global_parse_line_find [OF 1(2)] by simp_all
    show ?thesis
      using 1(1) [OF Line wf] short_lines_step [OF pos, of "is"] Line
      by (subst global_parse_config.simps, subst (2) global_parse_config.simps, subst global_entries.simps)
        (auto simp: find)
  next
    case (At_eof l)
    then show ?thesis
      using short_lines_step [OF pos, of "is"] global_parse_line_find [OF 1(2), of l]
      by (subst global_parse_config.simps, subst (2) global_parse_config.simps, subst global_entries.simps) simp
  next
    case (Too_long l)
    then show ?thesis
      using short_lines_step [OF pos, of "is"]
      by (subst global_parse_config.simps, subst (2) global_parse_config.simps) simp
  qed
qed

lemma global_parse_file_values:
  assumes "global_readable file"
  shows "\<exists>m. global_parse_file file = Done m \<and> map_wf m \<and> map_of m = global_values file"
proof (cases "file")
  case (Some x)
  with assms global_parse_config_entries [OF map_wf_Nil, of x] show ?thesis
    by (simp add: global_readable_def global_parse_file_def global_values_def)
qed (simp add: global_parse_file_def global_values_def)

lemma initialize_config_result:
  assumes "global_readable (system_file d)" "global_readable (user_file d)"
  shows "\<exists>s u. initialize_config d r = Done (r\<lparr>sys := s, usr := u,
      initialized := initialized r \<or> system_file d \<noteq> None \<or> user_file d \<noteq> None\<rparr>) \<and>
    map_wf s \<and> map_wf u \<and> map_of s = global_values (system_file d) \<and> map_of u = global_values (user_file d)"
  using global_parse_file_values [OF assms(1)] global_parse_file_values [OF assms(2)]
  by (auto simp: initialize_config_def)

lemma global_entries_saved:
  "list_all (\<lambda>(k, v). savable conf_line_size k v) config \<Longrightarrow>
   global_entries (save_config config) = config \<and> short_lines conf_line_size (save_config config)"
proof (induction config)
  case Nil
  then show ?case
    by (subst global_entries.simps)
      (simp add: save_config_def getline_def conf_line_size_def line_entry_def c_string_def is_entry_def)
next
  case (Cons e config)
  obtain k v where e: "e = (k, v)" by (cases e)
  with Cons.prems have s: "savable conf_line_size k v" by simp
  have n: "0 < conf_line_size" by (simp add: conf_line_size_def)
  have "save_config (e # config) = entry_line k v @ save_config config" by (simp add: e save_config_def)
  then have g: "getline conf_line_size (save_config (e # config)) = Line (k @ [0x20, 0x3D, 0x20] @ v) (save_config config)"
    using getline_saved [OF s] by simp
  have "line_entry (k @ [0x20, 0x3D, 0x20] @ v) = [(k, v)]"
    using saved_line [OF s] by (simp add: line_entry_def Let_def)
  with Cons g e short_lines_step [OF n, of "save_config (e # config)"] show ?case
    by (subst global_entries.simps) simp
qed

lemma merge_updated_values:
  assumes "distinct (map fst us)" "\<forall>w \<in> snd ` set us. w = UPDATED \<or> w = ERASED"
    and "map_wf u"
  shows "map_wf (fold (merge_updated b) us u) \<and> map_of (fold (merge_updated b) us u) =
    (\<lambda>k. case map_of us k of None \<Rightarrow> map_of u k
       | Some w \<Rightarrow> if w = UPDATED then Some (case map_of b k of Some v \<Rightarrow> v | None \<Rightarrow> []) else None)"
  using assms
proof (induction us arbitrary: u)
  case (Cons e us)
  obtain k w where e: "e = (k, w)" by (cases e)
  let ?u = "merge_updated b (k, w) u"
  have wf: "map_wf ?u" using Cons.prems(3) by (simp add: merge_updated_def std_map.wf_put std_map.wf_erase)
  have w: "w = UPDATED \<or> w = ERASED" using Cons.prems(2) e by simp
  have "map_of ?u = (map_of u)(k := if w = UPDATED
      then Some (case map_of b k of Some v \<Rightarrow> v | None \<Rightarrow> []) else None)"
    using w Cons.prems(3) unfolding merge_updated_def prod.case
    by (elim disjE) (simp_all add: std_map.find_put std_map.find_erase)
  moreover have "map_of us k = None" using Cons.prems(1) e by (force simp: map_of_eq_None_iff)
  moreover from Cons wf have "map_wf (fold (merge_updated b) us ?u) \<and> map_of (fold (merge_updated b) us ?u) =
    (\<lambda>k. case map_of us k of None \<Rightarrow> map_of ?u k
       | Some w \<Rightarrow> if w = UPDATED then Some (case map_of b k of Some v \<Rightarrow> v | None \<Rightarrow> []) else None)"
    by simp
  ultimately show ?case
    by (simp add: e fun_eq_iff del: fun_upd_apply split: option.split) (auto simp: fun_upd_def)
qed simp

text \<open>The values of the user's file after a flush.\<close>

definition flushed_values :: "disk \<Rightarrow> GlobalConfigRepository \<Rightarrow> bytes \<Rightarrow> bytes option" where
  "flushed_values d r = (\<lambda>k. if map_of (updated r) k = None then global_values (user_file d) k else map_of (usr r) k)"

lemma global_flush_result:
  assumes "global_inv r" "initialized r" "updated r \<noteq> []" "global_readable (system_file d)" "global_readable (user_file d)"
  shows "\<exists>s u. global_flush True file_opens d r =
      Done (file_opens, r\<lparr>sys := s, usr := u, updated := if file_opens then [] else updated r\<rparr>,
        if file_opens then d\<lparr>user_file := Some (save_config u)\<rparr> else d) \<and>
    map_wf s \<and> map_wf u \<and> map_of s = global_values (system_file d) \<and> map_of u = flushed_values d r"
proof -
  from initialize_config_result [OF assms(4,5), of r] obtain s u where
    i: "initialize_config d r = Done (r\<lparr>sys := s, usr := u,
      initialized := initialized r \<or> system_file d \<noteq> None \<or> user_file d \<noteq> None\<rparr>)" "map_wf s" "map_wf u"
      "map_of s = global_values (system_file d)" "map_of u = global_values (user_file d)" by blast
  have same: "r\<lparr>sys := s, usr := u, initialized := initialized r \<or> system_file d \<noteq> None \<or> user_file d \<noteq> None\<rparr>
      = r\<lparr>sys := s, usr := u\<rparr>"
    using assms(2) by (cases r) simp
  let ?u = "fold (merge_updated (usr r)) (updated r) u"
  have d: "distinct (map fst (updated r))" using assms(1) by (simp add: global_inv_def map_wf_def strict_sorted_iff)
  have w: "\<forall>w \<in> snd ` set (updated r). w = UPDATED \<or> w = ERASED"
    using assms(1) d unfolding global_inv_def by (force simp: map_of_is_SomeI)
  note m = merge_updated_values [OF d w i(3), of "usr r"]
  have "map_of ?u = flushed_values d r"
  proof
    fix k show "map_of ?u k = flushed_values d r k"
    proof (cases "map_of (updated r) k")
      case None
      then show ?thesis using m by (simp add: flushed_values_def i(5))
    next
      case (Some w)
      with assms(1) have "w = UPDATED \<and> map_of (usr r) k \<noteq> None \<or> w = ERASED \<and> map_of (usr r) k = None"
        unfolding global_inv_def by blast
      with Some m show ?thesis by (auto simp: flushed_values_def)
    qed
  qed
  with m i show ?thesis
    using assms(2,3) by (intro exI [of _ s] exI [of _ ?u]) (auto simp: global_flush_def Let_def same)
qed

text \<open>The global configuration as a map: a written value is found, a key that is reset has the value of the
  file of the system, all other keys keep theirs, and the marks of \<^verbatim>\<open>updated\<close> and \<^verbatim>\<open>erased\<close> stay those of
  keys that the user's values have and have not.\<close>

theorem global_config_is_map:
  assumes "global_inv r" "initialized r" "key \<noteq> []"
  shows "\<exists>w e. global_write_string d key val r = Done w \<and> global_reset d key r = Done e \<and>
    global_inv w \<and> global_view w = (global_view r)(key \<mapsto> val) \<and>
    global_inv e \<and> global_view e = (global_view r)(key := map_of (sys r) key)"
proof (intro exI conjI)
  let ?w = "r\<lparr>usr := map_put key val (usr r), updated := map_put key UPDATED (updated r)\<rparr>"
  let ?e = "r\<lparr>usr := map_erase key (usr r), updated := map_put key ERASED (updated r)\<rparr>"
  have wf: "map_wf (usr r)" "map_wf (updated r)" using assms(1) by (simp_all add: global_inv_def)
  show "global_write_string d key val r = Done ?w" "global_reset d key r = Done ?e"
    using assms(2,3) by (simp_all add: global_write_string_def global_reset_def ensure_initialized_def)
  show "global_inv ?w" "global_inv ?e"
    using assms(1) by (auto simp: global_inv_def std_map.wf_put std_map.wf_erase std_map.find_put std_map.find_erase)
  show "global_view ?w = (global_view r)(key \<mapsto> val)"
    using wf by (simp add: global_view_def std_map.find_put)
  show "global_view ?e = (global_view r)(key := map_of (sys r) key)"
    using wf by (auto simp: global_view_def std_map.find_erase map_add_def fun_eq_iff split: option.splits)
qed

lemma global_saved_file:
  assumes "map_wf u" "\<forall>k v. map_of u k = Some v \<longrightarrow> savable conf_line_size k v"
  shows "global_values (Some (save_config u)) = map_of u" "global_readable (Some (save_config u))"
proof -
  have "distinct (map fst u)" using assms(1) by (simp add: map_wf_def strict_sorted_iff)
  then have "list_all (\<lambda>(k, v). savable conf_line_size k v) u" using assms(2) by (auto simp: list_all_iff)
  from global_entries_saved [OF this] show "global_values (Some (save_config u)) = map_of u"
    "global_readable (Some (save_config u))"
    using map_of_rev_wf [OF assms(1)] by (simp_all add: global_values_def global_readable_def)
qed

text \<open>C30: A flush of the global configuration writes what was updated, drops what was reset and keeps all else
  that the file of the user holds by then, whoever wrote it; a process that starts afterwards reads just
  that. A flush that cannot open the file loses nothing: the next one writes the same file.\<close>

theorem global_flush_keeps:
  assumes "global_inv r" "initialized r" "updated r \<noteq> []"
    and "global_readable (system_file d)" "global_readable (user_file d)"
    and "\<forall>k v. flushed_values d r k = Some v \<longrightarrow> savable conf_line_size k v"
  shows "\<exists>r' d' r2. global_flush True True d r = Done (True, r', d') \<and>
    ensure_initialized d' new_GlobalConfigRepository = Done r2 \<and> initialized r2 \<and>
    global_view r2 = global_values (system_file d) ++ flushed_values d r \<and>
    (\<exists>failed r''. global_flush True False d r = Done (False, failed, d) \<and>
       global_flush True True d failed = Done (True, r'', d'))"
proof -
  from global_flush_result [OF assms(1-5), of True] obtain s u where
    f: "global_flush True True d r = Done (True, r\<lparr>sys := s, usr := u, updated := []\<rparr>, d\<lparr>user_file := Some (save_config u)\<rparr>)"
      "map_wf u" "map_of u = flushed_values d r" by auto
  let ?d = "d\<lparr>user_file := Some (save_config u)\<rparr>"
  have sf: "global_values (user_file ?d) = flushed_values d r" "global_readable (user_file ?d)"
    using global_saved_file [OF f(2)] assms(6) by (simp_all add: f(3))
  from initialize_config_result [of ?d new_GlobalConfigRepository] assms(4) sf obtain s2 u2 where
    i: "initialize_config ?d new_GlobalConfigRepository
        = Done (new_GlobalConfigRepository\<lparr>sys := s2, usr := u2, initialized := True\<rparr>)"
      "map_of s2 = global_values (system_file d)" "map_of u2 = flushed_values d r"
    by (auto simp: global_readable_def)
  from global_flush_result [OF assms(1-5), of False] obtain s3 u3 where
    g: "global_flush True False d r = Done (False, r\<lparr>sys := s3, usr := u3, updated := updated r\<rparr>, d)"
      "map_wf s3" "map_wf u3" "map_of u3 = flushed_values d r" by auto
  let ?r = "r\<lparr>sys := s3, usr := u3, updated := updated r\<rparr>"
  have inv: "global_inv ?r"
    using assms(1) g(2-4) by (auto simp: global_inv_def flushed_values_def)
  have same: "flushed_values d ?r = flushed_values d r" by (simp add: flushed_values_def g(4) fun_eq_iff)
  from global_flush_result [OF inv _ _ assms(4,5), of True] assms(2,3) obtain s4 u4 where
    h: "global_flush True True d ?r = Done (True, ?r\<lparr>sys := s4, usr := u4, updated := []\<rparr>, d\<lparr>user_file := Some (save_config u4)\<rparr>)"
      "map_wf u4" "map_of u4 = flushed_values d ?r" by auto
  have "u4 = u" using std_map.find_inject [OF h(2) f(2)] unfolding h(3) f(3) same by simp
  with f(1) g(1) h(1) i show ?thesis
    by (fastforce simp: ensure_initialized_def new_GlobalConfigRepository_def global_view_def)
qed

text \<open>While neither of the files exists, the global configuration cannot be used: a write is lost without
  notice, a read afterwards gives the default, and there is nothing to flush.\<close>

theorem global_write_lost:
  assumes "\<not> initialized r" "updated r = []" "user_file d = None" "system_file d = None"
  shows "\<exists>r'. global_write_string d key val r = Done r' \<and> \<not> initialized r' \<and>
    (\<exists>r''. global_read_string d key defVal r' = Done (defVal, r'')) \<and>
    global_flush True True d r' = Done (False, r', d)"
  using assms
  by (auto simp: global_write_string_def global_read_string_def global_read_with_def ensure_initialized_def
      initialize_config_def global_parse_file_def global_flush_def)

definition demo_global :: GlobalConfigRepository where
  "demo_global = \<lparr>sys = [(key_a, bytes_of ''1'')], usr = [(key_b, bytes_of ''2'')],
     updated = [(key_b, UPDATED)], initialized = True\<rparr>"

lemma demo_global_inv: "global_inv demo_global" "initialized demo_global" "updated demo_global \<noteq> []"
  by (auto simp: global_inv_def demo_global_def map_wf_Cons)

lemma global_config_is_map_witness:
  "\<exists>e. global_reset no_files key_a demo_global = Done e \<and> global_view e key_a = Some (bytes_of ''1'')"
proof -
  have "key_a \<noteq> []" by (simp add: key_a_def)
  from global_config_is_map [OF demo_global_inv(1,2) this, of no_files "[]"] obtain e where
    "global_reset no_files key_a demo_global = Done e"
    "global_view e = (global_view demo_global)(key_a := map_of (sys demo_global) key_a)" by blast
  then show ?thesis by (simp add: demo_global_def)
qed

lemma global_flush_keeps_witness:
  "\<exists>r' d' r2. global_flush True True no_files demo_global = Done (True, r', d') \<and>
     ensure_initialized d' new_GlobalConfigRepository = Done r2 \<and> global_view r2 key_b = Some (bytes_of ''2'')"
proof -
  have "global_readable None" by (simp add: global_readable_def)
  then have h: "global_readable (system_file no_files)" "global_readable (user_file no_files)" by simp_all
  have v: "flushed_values no_files demo_global = [key_b \<mapsto> bytes_of ''2'']"
    by (auto simp: flushed_values_def demo_global_def global_values_def fun_eq_iff)
  have "\<forall>k v. flushed_values no_files demo_global k = Some v \<longrightarrow> savable conf_line_size k v"
    unfolding v by (auto simp: savable_def key_b_def byte_of_char_def blank_def conf_line_size_def)
  from global_flush_keeps [OF demo_global_inv h this] show ?thesis by (fastforce simp: v)
qed

lemma global_write_lost_witness:
  "\<exists>r'. global_write_string no_files key_a [] new_GlobalConfigRepository = Done r' \<and>
     global_flush True True no_files r' = Done (False, r', no_files)"
proof -
  have "\<not> initialized new_GlobalConfigRepository" "updated new_GlobalConfigRepository = []"
    by (simp_all add: new_GlobalConfigRepository_def)
  from global_write_lost [OF this, of no_files key_a "[]" "[]"] show ?thesis by auto
qed

end
