(* ===== verification/Core_Key_Order.thy ===== *)
theory Core_Key_Order
  imports Core_Key_Tables "HOL-Library.List_Lexorder" "HOL-Library.Char_ord"
begin

text \<open>
    What the searches in the tables of \<open>Core_Key_Tables\<close> rely on, checked by evaluation part by
    part: the
  order of each table, that both tables of names hold the same entries, and what no name contains.
\<close>

text \<open>The order of characters and strings in a form that is evaluated fast.\<close>

fun bits_below :: "bool list \<Rightarrow> bool list \<Rightarrow> bool" where
  "bits_below (a # as) (b # bs) \<longleftrightarrow> (if a = b then bits_below as bs else b)"
| "bits_below _ _ \<longleftrightarrow> False"

fun char_below :: "char \<Rightarrow> char \<Rightarrow> bool" where
  "char_below (Char a0 a1 a2 a3 a4 a5 a6 a7) (Char b0 b1 b2 b3 b4 b5 b6 b7) \<longleftrightarrow>
     bits_below [a7, a6, a5, a4, a3, a2, a1, a0] [b7, b6, b5, b4, b3, b2, b1, b0]"

fun below :: "string \<Rightarrow> string \<Rightarrow> bool" where
  "below s [] \<longleftrightarrow> False"
| "below [] (d # t) \<longleftrightarrow> True"
| "below (c # s) (d # t) \<longleftrightarrow> (if c = d then below s t else char_below c d)"

lemma bit_step:
  "of_bool a + 2 * x < of_bool b + 2 * y \<longleftrightarrow> x < y \<or> x = y \<and> \<not> a \<and> b"
  "of_bool a + 2 * x = of_bool b + 2 * y \<longleftrightarrow> a = b \<and> x = (y :: nat)"
  by (auto simp: of_bool_def) presburger+

lemma bits_below_snoc:
    "length as = length bs \<Longrightarrow> bits_below (as @ [a]) (bs @ [b]) \<longleftrightarrow>
    bits_below as bs \<or> as = bs \<and> \<not> a \<and> b"
  by (induction as bs rule: list_induct2) auto

lemma bits_below_horner:
  "length as = length bs \<Longrightarrow>
   (horner_sum of_bool 2 as = (horner_sum of_bool 2 bs :: nat) \<longleftrightarrow> as = bs) \<and>
      (bits_below (rev as) (rev bs) \<longleftrightarrow> horner_sum of_bool 2 as < (horner_sum of_bool 2 bs
    :: nat))"
  by (induction as bs rule: list_induct2) (auto simp: bit_step bits_below_snoc)

lemma char_below: "char_below c d \<longleftrightarrow> c < d"
proof (cases c; cases d)
  fix a0 a1 a2 a3 a4 a5 a6 a7 b0 b1 b2 b3 b4 b5 b6 b7
  assume "c = Char a0 a1 a2 a3 a4 a5 a6 a7" "d = Char b0 b1 b2 b3 b4 b5 b6 b7"
  then show ?thesis
    using bits_below_horner [of "[a0, a1, a2, a3, a4, a5, a6, a7]" "[b0, b1, b2, b3, b4, b5, b6, b7]"]
    by (simp add: less_char_def of_char_Char del: bits_below.simps horner_sum_simps)
qed

lemma below: "below s t \<longleftrightarrow> s < t"
  by (induction s t rule: below.induct) (auto simp: char_below)

text \<open>A name can stand in a list of keys, and is taken neither for a number nor for a modifier.\<close>

definition modifier_words :: "string list" where
    "modifier_words = [''Shift'', ''CapsLock'', ''Control'', ''Alt'', ''Meta'', ''Super'', ''Hyper'',
    ''NumLock'',
     ''QuirkKanaRo'', ''KeyRelease'']"

definition plain_name :: "string \<Rightarrow> bool" where
    "plain_name s \<longleftrightarrow> s \<noteq> [] \<and> list_all (\<lambda>c. c \<noteq> CHR ''+''
    \<and> c \<noteq> CHR '','' \<and> c \<noteq> CHR 0x00) s \<and>
     take 2 s \<noteq> ''0x'' \<and> s \<noteq> ''VoidSymbol'' \<and> s \<notin> set modifier_words"

definition code_part :: "key_name list \<Rightarrow> bool" where
  "code_part t \<longleftrightarrow> successively (\<lambda>a b. fst a \<le> fst b) t"

definition name_part :: "key_name list \<Rightarrow> bool" where
    "name_part t \<longleftrightarrow> successively (\<lambda>a b. below (snd a) (snd b)) t \<and> list_all
    (\<lambda>a. plain_name (snd a)) t"

text \<open>The entries of the table in the order of the names.\<close>

definition named :: "key_name \<Rightarrow> bool" where
  "named e \<longleftrightarrow> e \<in> set keys_by_name"

lemma code_part_1: "code_part keys_by_code_1"
  by code_simp

lemma code_part_2: "code_part keys_by_code_2"
  by code_simp

lemma code_part_3: "code_part keys_by_code_3"
  by code_simp

lemma code_part_4: "code_part keys_by_code_4"
  by code_simp

lemma code_part_5: "code_part keys_by_code_5"
  by code_simp

lemma code_part_6: "code_part keys_by_code_6"
  by code_simp

lemma code_part_7: "code_part keys_by_code_7"
  by code_simp

lemma code_part_8: "code_part keys_by_code_8"
  by code_simp

lemma code_part_9: "code_part keys_by_code_9"
  by code_simp

lemma name_part_1: "name_part keys_by_name_1"
  by code_simp

lemma named_part_1: "list_all named keys_by_name_1"
  by (simp add: list_all_iff named_def keys_by_name_def)

lemmas named_1 = named_part_1 [unfolded keys_by_name_1_def list.pred_inject]

lemma name_part_2: "name_part keys_by_name_2"
  by code_simp

lemma named_part_2: "list_all named keys_by_name_2"
  by (simp add: list_all_iff named_def keys_by_name_def)

lemmas named_2 = named_part_2 [unfolded keys_by_name_2_def list.pred_inject]

lemma name_part_3: "name_part keys_by_name_3"
  by code_simp

lemma named_part_3: "list_all named keys_by_name_3"
  by (simp add: list_all_iff named_def keys_by_name_def)

lemmas named_3 = named_part_3 [unfolded keys_by_name_3_def list.pred_inject]

lemma name_part_4: "name_part keys_by_name_4"
  by code_simp

lemma named_part_4: "list_all named keys_by_name_4"
  by (simp add: list_all_iff named_def keys_by_name_def)

lemmas named_4 = named_part_4 [unfolded keys_by_name_4_def list.pred_inject]

lemma name_part_5: "name_part keys_by_name_5"
  by code_simp

lemma named_part_5: "list_all named keys_by_name_5"
  by (simp add: list_all_iff named_def keys_by_name_def)

lemmas named_5 = named_part_5 [unfolded keys_by_name_5_def list.pred_inject]

lemma name_part_6: "name_part keys_by_name_6"
  by code_simp

lemma named_part_6: "list_all named keys_by_name_6"
  by (simp add: list_all_iff named_def keys_by_name_def)

lemmas named_6 = named_part_6 [unfolded keys_by_name_6_def list.pred_inject]

lemma name_part_7: "name_part keys_by_name_7"
  by code_simp

lemma named_part_7: "list_all named keys_by_name_7"
  by (simp add: list_all_iff named_def keys_by_name_def)

lemmas named_7 = named_part_7 [unfolded keys_by_name_7_def list.pred_inject]

lemma name_part_8: "name_part keys_by_name_8"
  by code_simp

lemma named_part_8: "list_all named keys_by_name_8"
  by (simp add: list_all_iff named_def keys_by_name_def)

lemmas named_8 = named_part_8 [unfolded keys_by_name_8_def list.pred_inject]

lemma name_part_9: "name_part keys_by_name_9"
  by code_simp

lemma named_part_9: "list_all named keys_by_name_9"
  by (simp add: list_all_iff named_def keys_by_name_def)

lemmas named_9 = named_part_9 [unfolded keys_by_name_9_def list.pred_inject]

lemma code_named: "list_all named keys_by_code"
    unfolding keys_by_code_def keys_by_code_1_def keys_by_code_2_def keys_by_code_3_def keys_by_code_4_def
    keys_by_code_5_def keys_by_code_6_def keys_by_code_7_def keys_by_code_8_def keys_by_code_9_def
    list.pred_inject append.simps
  by (simp only: named_1 named_2 named_3 named_4 named_5 named_6 named_7 named_8 named_9 simp_thms)

lemma code_ends:
  "fst (last keys_by_code_1) \<le> fst (hd keys_by_code_2) \<and>
   fst (last keys_by_code_2) \<le> fst (hd keys_by_code_3) \<and>
   fst (last keys_by_code_3) \<le> fst (hd keys_by_code_4) \<and>
   fst (last keys_by_code_4) \<le> fst (hd keys_by_code_5) \<and>
   fst (last keys_by_code_5) \<le> fst (hd keys_by_code_6) \<and>
   fst (last keys_by_code_6) \<le> fst (hd keys_by_code_7) \<and>
   fst (last keys_by_code_7) \<le> fst (hd keys_by_code_8) \<and>
   fst (last keys_by_code_8) \<le> fst (hd keys_by_code_9)"
  by code_simp

lemma name_ends:
  "below (snd (last keys_by_name_1)) (snd (hd keys_by_name_2)) \<and>
   below (snd (last keys_by_name_2)) (snd (hd keys_by_name_3)) \<and>
   below (snd (last keys_by_name_3)) (snd (hd keys_by_name_4)) \<and>
   below (snd (last keys_by_name_4)) (snd (hd keys_by_name_5)) \<and>
   below (snd (last keys_by_name_5)) (snd (hd keys_by_name_6)) \<and>
   below (snd (last keys_by_name_6)) (snd (hd keys_by_name_7)) \<and>
   below (snd (last keys_by_name_7)) (snd (hd keys_by_name_8)) \<and>
   below (snd (last keys_by_name_8)) (snd (hd keys_by_name_9))"
  by code_simp

lemma unicode_part_1: "successively (\<lambda>a b. fst a < fst b) key_to_unicode_1"
  by code_simp

lemma unicode_part_2: "successively (\<lambda>a b. fst a < fst b) key_to_unicode_2"
  by code_simp

lemma unicode_part_3: "successively (\<lambda>a b. fst a < fst b) key_to_unicode_3"
  by code_simp

lemma unicode_part_4: "successively (\<lambda>a b. fst a < fst b) key_to_unicode_4"
  by code_simp

lemma unicode_part_5: "successively (\<lambda>a b. fst a < fst b) key_to_unicode_5"
  by code_simp

lemma unicode_part_6: "successively (\<lambda>a b. fst a < fst b) key_to_unicode_6"
  by code_simp

lemma unicode_ends:
  "fst (last key_to_unicode_1) < fst (hd key_to_unicode_2) \<and>
   fst (last key_to_unicode_2) < fst (hd key_to_unicode_3) \<and>
   fst (last key_to_unicode_3) < fst (hd key_to_unicode_4) \<and>
   fst (last key_to_unicode_4) < fst (hd key_to_unicode_5) \<and>
   fst (last key_to_unicode_5) < fst (hd key_to_unicode_6)"
  by code_simp

section \<open>The tables as wholes\<close>

lemma parts_not_empty:
    "keys_by_code_1 \<noteq> []" "keys_by_code_2 \<noteq> []" "keys_by_code_3 \<noteq> []" "keys_by_code_4
    \<noteq> []" "keys_by_code_5 \<noteq> []" "keys_by_code_6 \<noteq> []" "keys_by_code_7 \<noteq> []"
    "keys_by_code_8 \<noteq> []" "keys_by_code_9 \<noteq> []" "keys_by_name_1 \<noteq> []" "keys_by_name_2
    \<noteq> []" "keys_by_name_3 \<noteq> []" "keys_by_name_4 \<noteq> []" "keys_by_name_5 \<noteq> []"
    "keys_by_name_6 \<noteq> []" "keys_by_name_7 \<noteq> []" "keys_by_name_8 \<noteq> []" "keys_by_name_9
    \<noteq> []" "key_to_unicode_1 \<noteq> []" "key_to_unicode_2 \<noteq> []" "key_to_unicode_3 \<noteq>
    []" "key_to_unicode_4 \<noteq> []" "key_to_unicode_5 \<noteq> []" "key_to_unicode_6 \<noteq> []"
    by (simp_all add: keys_by_code_1_def keys_by_code_2_def keys_by_code_3_def keys_by_code_4_def
    keys_by_code_5_def keys_by_code_6_def keys_by_code_7_def keys_by_code_8_def keys_by_code_9_def
    keys_by_name_1_def keys_by_name_2_def keys_by_name_3_def keys_by_name_4_def keys_by_name_5_def
    keys_by_name_6_def keys_by_name_7_def keys_by_name_8_def keys_by_name_9_def key_to_unicode_1_def
    key_to_unicode_2_def key_to_unicode_3_def key_to_unicode_4_def key_to_unicode_5_def
    key_to_unicode_6_def)

lemma keys_by_code_sorted: "sorted_wrt (\<lambda>a b. fst a \<le> fst b) keys_by_code"
proof -
  have "successively (\<lambda>a b. fst a \<le> fst b) keys_by_code"
    unfolding keys_by_code_def
        using code_ends code_part_1 code_part_2 code_part_3 code_part_4 code_part_5 code_part_6 code_part_7
    code_part_8 code_part_9
    by (simp add: code_part_def successively_append_iff parts_not_empty)
  then show ?thesis by (subst (asm) successively_conv_sorted_wrt) (auto simp: transp_def)
qed

lemma keys_by_name_sorted: "sorted_wrt (\<lambda>a b. snd a < snd b) keys_by_name"
proof -
  have "successively (\<lambda>a b. snd a < snd b) keys_by_name"
    unfolding keys_by_name_def
        using name_ends name_part_1 name_part_2 name_part_3 name_part_4 name_part_5 name_part_6 name_part_7
    name_part_8 name_part_9
    by (simp add: name_part_def successively_append_iff parts_not_empty below)
  then show ?thesis by (subst (asm) successively_conv_sorted_wrt) (auto simp: transp_def)
qed

lemma key_to_unicode_sorted: "sorted_wrt (\<lambda>a b. fst a < fst b) key_to_unicode"
proof -
  have "successively (\<lambda>a b. fst a < fst b) key_to_unicode"
    unfolding key_to_unicode_def
        using unicode_ends unicode_part_1 unicode_part_2 unicode_part_3 unicode_part_4 unicode_part_5
    unicode_part_6
    by (simp add: successively_append_iff parts_not_empty)
  then show ?thesis by (subst (asm) successively_conv_sorted_wrt) (auto simp: transp_def)
qed

lemma keys_by_code_named: "set keys_by_code \<subseteq> set keys_by_name"
  using code_named by (auto simp: list_all_iff named_def)

lemma keys_by_name_plain: "e \<in> set keys_by_name \<Longrightarrow> plain_name (snd e)"
  unfolding keys_by_name_def
    using name_part_1 name_part_2 name_part_3 name_part_4 name_part_5 name_part_6 name_part_7 name_part_8
    name_part_9
  by (auto simp: name_part_def list_all_iff)

end
