(* ===== verification/Core_Key_String.thy ===== *)
theory Core_Key_String
  imports Core_Key_Order Core_Put Core_Config_File
begin

text \<open>
  Key events as strings, characters and lists: \<^verbatim>\<open>src/scim_event.cpp\<close>. The tables are those of
  \<open>Core_Key_Tables\<close>; keyboard layouts are in \<open>Core_Key_Layout\<close>.
\<close>

section \<open>Searching in tables\<close>

text \<open>\<^verbatim>\<open>std::lower_bound\<close>: the position of the first element that is not less than the one searched. The
  table has to be ordered, which \<open>Core_Key_Order\<close> shows of each.\<close>

definition lower_bound :: "('a \<Rightarrow> bool) \<Rightarrow> 'a list \<Rightarrow> nat" where
  "lower_bound lt table = length (takeWhile lt table)"

lemma lower_bound_found:
  assumes "sorted_wrt (\<lambda>a b. f a \<le> f b) table" "(k :: 'k::linorder) \<in> f ` set table"
  shows "lower_bound (\<lambda>a. f a < k) table < length table" "f (table ! lower_bound (\<lambda>a. f a < k) table) = k"
proof -
  obtain i where i: "i < length table" "f (table ! i) = k" using assms(2) by (auto simp: in_set_conv_nth)
  let ?j = "lower_bound (\<lambda>a. f a < k) table"
  have "?j \<le> i"
  proof (rule ccontr)
    assume "\<not> ?j \<le> i"
    then have "f (table ! i) < k"
      unfolding lower_bound_def using nth_mem set_takeWhileD takeWhile_nth by (metis not_le_imp_less)
    with i(2) show False by simp
  qed
  with i(1) show j: "?j < length table" by simp
  then have "\<not> f (table ! ?j) < k" unfolding lower_bound_def by (rule nth_length_takeWhile)
  moreover have "f (table ! ?j) \<le> f (table ! i)"
    using assms(1) \<open>?j \<le> i\<close> i(1) by (metis order_refl le_neq_implies_less sorted_wrt_nth_less)
  ultimately show "f (table ! ?j) = k" using i(2) by simp
qed

lemma lower_bound_entry:
  "sorted_wrt (\<lambda>a b. f a \<le> f b) table \<Longrightarrow>
   lower_bound (\<lambda>a. f a < (k :: 'k::linorder)) table < length table \<and> f (table ! lower_bound (\<lambda>a. f a < k) table) = k
     \<longleftrightarrow> k \<in> f ` set table"
  using lower_bound_found [of f table k] nth_mem by (metis imageI)

lemma strictly_sorted: "sorted_wrt (\<lambda>a b. f a < (f b :: 'k::linorder)) t \<Longrightarrow> sorted_wrt (\<lambda>a b. f a \<le> f b) t"
  by (induction t) (auto simp: less_imp_le)

lemma sorted_unique:
  assumes "sorted_wrt (\<lambda>a b. f a < (f b :: 'k::linorder)) t" "a \<in> set t" "b \<in> set t" "f a = f b"
  shows "a = b"
proof -
  have "sorted_wrt (<) (map f t)" using assms(1) by (simp add: sorted_wrt_map)
  then have "inj_on f (set t)" by (simp add: strict_sorted_iff distinct_map)
  with assms(2-4) show ?thesis by (simp add: inj_on_def)
qed

section \<open>Characters\<close>

definition get_ascii_code :: "KeyEvent \<Rightarrow> 8 word" where
  "get_ascii_code key =
     (let code = key_code key in
      if code \<ge> 0x20 \<and> code \<le> 0x7E then ucast code
      else if code \<ge> 0xFFB0 \<and> code \<le> 0xFFB9 then ucast (code - 0xFFB0 + 0x30)
      else if code = 0xFF0D then 0x0D
      else if code = 0xFF0A then 0x0A
      else if code = 0xFF09 then 0x09
      else if code = 0xFF08 then 0x08
      else if code = 0xFF1B then 0x1B
      else 0)"

definition get_unicode_code :: "KeyEvent \<Rightarrow> 32 word" where
  "get_unicode_code key =
     (let code = key_code key in
      if code \<ge> 0x20 \<and> code \<le> 0x7E \<or> code \<ge> 0xA0 \<and> code \<le> 0xFF then code
      else if code AND 0xFF000000 = 0x01000000 then code AND 0x00FFFFFF
      else if code > 0xFFFF then 0
      else
        let it = lower_bound (\<lambda>p. fst p < (ucast code :: 16 word)) key_to_unicode in
        if it \<noteq> length key_to_unicode \<and> fst (key_to_unicode ! it) = ucast code
        then ucast (snd (key_to_unicode ! it))
        else 0)"

section \<open>Key events as strings\<close>

definition SCIM_KEY_VoidSymbol :: "32 word" where
  "SCIM_KEY_VoidSymbol = 0xFFFFFF"

definition key_mask_names :: "key_name list" where
  "key_mask_names =
     [(0x0001, ''Shift''), (0x0002, ''CapsLock''), (0x0004, ''Control''), (0x0008, ''Alt''), (0x0010, ''Meta''),
      (0x0020, ''Super''), (0x0040, ''Hyper''), (0x0080, ''NumLock''), (0x4000, ''QuirkKanaRo''),
      (0x8000, ''KeyRelease'')]"

abbreviation PLUS :: "8 word" where "PLUS \<equiv> 0x2B"

text \<open>The loop over the masks; a mask with a bit of an earlier one is skipped.\<close>

fun mask_string :: "key_name list \<Rightarrow> 16 word \<Rightarrow> 16 word \<Rightarrow> bytes \<Rightarrow> bytes" where
  "mask_string [] kmask mask_skip maskstr = maskstr"
| "mask_string ((value, name) # names) kmask mask_skip maskstr =
     mask_string names kmask (mask_skip OR value)
       (if value AND kmask \<noteq> 0 \<and> value AND mask_skip = 0
        then if maskstr \<noteq> [] then maskstr @ [PLUS] @ bytes_of name else maskstr @ bytes_of name
        else maskstr)"

text \<open>\<^verbatim>\<open>%0wx\<close> of \<^verbatim>\<open>snprintf\<close>.\<close>

definition hex_char :: "nat \<Rightarrow> 8 word" where
  "hex_char d = word_of_nat (if d < 10 then 0x30 + d else 0x57 + d)"

fun hex_digits :: "nat \<Rightarrow> bytes" where
  "hex_digits n = (if n < 16 then [hex_char n] else hex_digits (n div 16) @ [hex_char (n mod 16)])"

declare hex_digits.simps [simp del]

definition printf_x :: "nat \<Rightarrow> nat \<Rightarrow> bytes" where
  "printf_x width n = replicate (width - length (hex_digits n)) 0x30 @ hex_digits n"

definition code_string :: "32 word \<Rightarrow> bytes" where
  "code_string code =
     (let codestr =
        (if code = 0xFFFFFF then bytes_of ''VoidSymbol''
         else if code \<le> 0xFFFF then
           let it = lower_bound (\<lambda>p. fst p < (ucast code :: 16 word)) keys_by_code in
           if it \<noteq> length keys_by_code \<and> ucast (fst (keys_by_code ! it)) = code
           then bytes_of (snd (keys_by_code ! it)) else []
         else []) in
      if codestr = [] \<and> code \<noteq> 0
      then bytes_of ''0x'' @ printf_x (if code \<le> 0xFFFF then 4 else 6) (unat code)
      else codestr)"

definition get_key_string :: "KeyEvent \<Rightarrow> bytes" where
  "get_key_string key =
     (let maskstr = mask_string key_mask_names (key_mask key) 0 []; codestr = code_string (key_code key) in
      if maskstr \<noteq> [] \<and> codestr \<noteq> [] then maskstr @ [PLUS] @ codestr
      else if maskstr \<noteq> [] then maskstr
      else codestr)"

definition scim_key_to_string :: "KeyEvent \<Rightarrow> bool \<times> bytes" where
  "scim_key_to_string key = (let str = get_key_string key in (length str \<noteq> 0, str))"

section \<open>Strings as key events\<close>

text \<open>\<^verbatim>\<open>strtol\<close> with the base 16 on a C string, limited to \<^verbatim>\<open>long\<close>.\<close>

definition hex_char_value :: "8 word \<Rightarrow> int option" where
  "hex_char_value c =
     (if 0x30 \<le> c \<and> c \<le> 0x39 then Some (uint c - 0x30)
      else if 0x41 \<le> c \<and> c \<le> 0x46 then Some (uint c - 0x37)
      else if 0x61 \<le> c \<and> c \<le> 0x66 then Some (uint c - 0x57)
      else None)"

fun hex_number :: "bytes \<Rightarrow> int \<Rightarrow> int" where
  "hex_number [] n = n"
| "hex_number (c # s) n = (case hex_char_value c of Some d \<Rightarrow> hex_number s (16 * n + d) | None \<Rightarrow> n)"

definition skip_0x :: "bytes \<Rightarrow> bytes" where
  "skip_0x s =
     (if length s > 2 \<and> s ! 0 = 0x30 \<and> (s ! 1 = 0x78 \<or> s ! 1 = 0x58) \<and> hex_char_value (s ! 2) \<noteq> None
      then drop 2 s else s)"

definition strtol16 :: "bytes \<Rightarrow> int" where
  "strtol16 s =
     (let t = dropWhile (\<lambda>c. c = 0x20 \<or> 9 \<le> c \<and> c \<le> 13) s;
          n = (case t of
            c # u \<Rightarrow> if c = 0x2D then - hex_number (skip_0x u) 0
              else if c = 0x2B then hex_number (skip_0x u) 0 else hex_number (skip_0x t) 0
          | [] \<Rightarrow> 0) in
      max (- (2 ^ 63)) (min (2 ^ 63 - 1) n))"

text \<open>The loop over the parts of the string. When no name of the table is equal to or behind the part,
  the name compared with \<open>VoidSymbol\<close> is read behind the end of the table.\<close>

fun key_parts :: "bytes list \<Rightarrow> KeyEvent \<Rightarrow> KeyEvent run" where
  "key_parts [] key = Done key"
| "key_parts (it # list) key =
     (case find (\<lambda>(value, name). it = bytes_of name) key_mask_names of
        Some (value, name) \<Rightarrow> key_parts list (key\<lparr>key_mask := key_mask key OR value\<rparr>)
      | None \<Rightarrow>
          (let p = lower_bound (\<lambda>e. bytes_of (snd e) < c_string it) keys_by_name in
           if p \<noteq> length keys_by_name \<and> bytes_of (snd (keys_by_name ! p)) = c_string it then
             key_parts list (key\<lparr>key_code := ucast (fst (keys_by_name ! p))\<rparr>)
           else if length it \<ge> 6 \<and> it ! 0 = 0x30 \<and> (it ! 1 = 0x78 \<or> it ! 1 = 0x58) then
             key_parts list (key\<lparr>key_code := word_of_int (strtol16 (drop 2 (c_string it)))\<rparr>)
           else if p = length keys_by_name then Undefined
           else if snd (keys_by_name ! p) = ''VoidSymbol'' then
             key_parts list (key\<lparr>key_code := SCIM_KEY_VoidSymbol\<rparr>)
           else key_parts list key))"

definition scim_string_to_key :: "KeyEvent \<Rightarrow> bytes \<Rightarrow> (bool \<times> KeyEvent) run" where
  "scim_string_to_key key str =
     run_bind (key_parts (fst (scim_split_string_list str PLUS)) (key\<lparr>key_code := 0, key_mask := 0\<rparr>))
       (\<lambda>key. Done (key_code key \<noteq> 0, key))"

section \<open>Lists of key events\<close>

abbreviation KEY_COMMA :: "8 word" where "KEY_COMMA \<equiv> 0x2C"

definition scim_key_list_to_string :: "KeyEvent list \<Rightarrow> bool \<times> bytes" where
  "scim_key_list_to_string keylist =
     (let strlist = map snd (filter fst (map scim_key_to_string keylist));
          str = scim_combine_string_list strlist KEY_COMMA in
      (length str \<noteq> 0, str))"

definition no_key :: KeyEvent where
  "no_key = \<lparr>key_code = 0, key_mask = 0, key_layout = 0\<rparr>"

fun strings_to_keys :: "bytes list \<Rightarrow> KeyEvent list \<Rightarrow> KeyEvent list run" where
  "strings_to_keys [] keylist = Done keylist"
| "strings_to_keys (it # strlist) keylist =
     run_bind (scim_string_to_key no_key it) (\<lambda>(ok, key).
     strings_to_keys strlist (if ok then keylist @ [key] else keylist))"

definition scim_string_to_key_list :: "bytes \<Rightarrow> (bool \<times> KeyEvent list) run" where
  "scim_string_to_key_list str =
     run_bind (strings_to_keys (fst (scim_split_string_list str KEY_COMMA)) [])
       (\<lambda>keylist. Done (length keylist > 0, keylist))"

end
