(* ===== verification/Core_Key_Laws.thy ===== *)
theory Core_Key_Laws
  imports Core_Key_String
begin

text \<open>The properties of key events as strings.\<close>

section \<open>Names\<close>

lemma byte_of_char_less: "byte_of_char c < byte_of_char d \<longleftrightarrow> c < d"
proof -
  have "unat (byte_of_char x) = of_char x" for x
    by (simp add: byte_of_char_def unat_of_nat)
  then show ?thesis by (simp add: word_less_nat_alt less_char_def)
qed

lemma bytes_of_inject: "bytes_of s = bytes_of t \<longleftrightarrow> s = t"
  using inj_mapI [of byte_of_char] char_of_byte_of_char by (metis map_char_of_byte_of_char)

lemma byte_of_char_inject: "byte_of_char c = byte_of_char d \<longleftrightarrow> c = d"
  using char_of_byte_of_char by metis

lemma bytes_of_less: "bytes_of s < bytes_of t \<longleftrightarrow> s < t"
proof (induction s arbitrary: t)
  case Nil
  then show ?case by (cases t) simp_all
next
  case (Cons c s)
  then show ?case by (cases t) (simp_all add: byte_of_char_less byte_of_char_inject)
qed

lemma name_found:
  assumes "(c, n) \<in> set keys_by_name"
  defines "p \<equiv> lower_bound (\<lambda>e. bytes_of (snd e) < bytes_of n) keys_by_name"
  shows "p < length keys_by_name" "keys_by_name ! p = (c, n)"
proof -
  note sorted = strictly_sorted [OF keys_by_name_sorted]
  have n: "n \<in> snd ` set keys_by_name" using assms(1) by force
  from lower_bound_found [OF sorted n] show p: "p < length keys_by_name"
    unfolding p_def bytes_of_less by simp
  have "snd (keys_by_name ! p) = n" using lower_bound_found [OF sorted n] unfolding p_def bytes_of_less by simp
  with p show "keys_by_name ! p = (c, n)"
    using sorted_unique [OF keys_by_name_sorted _ assms(1)] by simp
qed

lemma modifier_words: "snd ` set key_mask_names = set modifier_words"
  by (simp add: key_mask_names_def modifier_words_def)

lemma find_modifier_all:
  "list_all (\<lambda>e. find (\<lambda>e'. snd e = snd e') key_mask_names = Some e) key_mask_names"
  by code_simp

lemma find_modifier:
  assumes "(v, n) \<in> set key_mask_names"
  shows "find (\<lambda>(value, name). bytes_of n = bytes_of name) key_mask_names = Some (v, n)"
proof -
  have eq: "(\<lambda>(value, name). bytes_of n = bytes_of name) = (\<lambda>e' :: key_name. snd (v, n) = snd e')"
    by (auto simp: bytes_of_inject fun_eq_iff)
  show ?thesis
    unfolding eq using find_modifier_all assms unfolding list_all_iff by blast
qed

lemma find_no_modifier:
  "s \<notin> bytes_of ` set modifier_words \<Longrightarrow> find (\<lambda>(value, name). s = bytes_of name) key_mask_names = None"
  unfolding find_None_iff modifier_words [symmetric] by force

lemma plain_nameD:
  assumes "plain_name n"
  shows "n \<noteq> []" "PLUS \<notin> set (bytes_of n)" "KEY_COMMA \<notin> set (bytes_of n)" "c_string (bytes_of n) = bytes_of n"
    "take 2 n \<noteq> ''0x''" "n \<noteq> ''VoidSymbol''" "bytes_of n \<notin> bytes_of ` set modifier_words"
proof -
  have c: "\<forall>c \<in> set n. c \<noteq> CHR ''+'' \<and> c \<noteq> CHR '','' \<and> c \<noteq> CHR 0x00"
    using assms by (simp add: plain_name_def list_all_iff)
  have b: "byte_of_char CHR ''+'' = PLUS" "byte_of_char CHR '','' = KEY_COMMA" "byte_of_char CHR 0x00 = 0"
    by (simp_all add: byte_of_char_def)
  have "byte_of_char d \<notin> set (bytes_of n)" if "d \<notin> set n" for d
    using that by (auto simp: byte_of_char_inject)
  from this [of "CHR ''+''"] this [of "CHR '',''"] this [of "CHR 0x00"] c
  have "PLUS \<notin> set (bytes_of n)" "KEY_COMMA \<notin> set (bytes_of n)" "0 \<notin> set (bytes_of n)"
    unfolding b by blast+
  then show "PLUS \<notin> set (bytes_of n)" "KEY_COMMA \<notin> set (bytes_of n)" "c_string (bytes_of n) = bytes_of n"
    unfolding c_string_def takeWhile_eq_all_conv by blast+
  show "n \<noteq> []" "take 2 n \<noteq> ''0x''" "n \<noteq> ''VoidSymbol''" using assms by (simp_all add: plain_name_def)
  have "n \<notin> set modifier_words" using assms by (simp add: plain_name_def List.member_iff)
  then show "bytes_of n \<notin> bytes_of ` set modifier_words" unfolding image_iff bytes_of_inject by blast
qed

lemma key_parts_name:
  assumes "(c, n) \<in> set keys_by_name"
  shows "key_parts (bytes_of n # list) key = key_parts list (key\<lparr>key_code := ucast c\<rparr>)"
proof -
  note plain = plain_nameD [OF keys_by_name_plain [OF assms, simplified]]
  show ?thesis
    using name_found [OF assms] by (simp add: find_no_modifier [OF plain(7)] plain(4) Let_def)
qed

lemma key_parts_modifier:
  "(v, n) \<in> set key_mask_names \<Longrightarrow>
   key_parts (bytes_of n # list) key = key_parts list (key\<lparr>key_mask := key_mask key OR v\<rparr>)"
  using find_modifier [of v n] by simp

section \<open>Numbers\<close>

lemma hex_char_value_all: "list_all (\<lambda>d. hex_char_value (hex_char d) = Some (int d)) [0..<16]"
  by code_simp

lemma hex_char_value_digit: "d < 16 \<Longrightarrow> hex_char_value (hex_char d) = Some (int d)"
  using hex_char_value_all by (simp only: list_all_iff set_upt atLeastLessThan_iff) simp

lemma hex_number_digits: "hex_number (hex_digits n @ s) 0 = hex_number s (int n)"
proof (induction n arbitrary: s rule: hex_digits.induct)
  case (1 n)
  show ?case
  proof (cases "n < 16")
    case True
    then show ?thesis by (subst hex_digits.simps) (simp add: hex_char_value_digit)
  next
    case False
    then have "hex_number (hex_digits n @ s) 0 = hex_number s (16 * int (n div 16) + int (n mod 16))"
      using 1 by (subst hex_digits.simps) (simp add: hex_char_value_digit)
    moreover have "16 * int (n div 16) + int (n mod 16) = int n" using div_mult_mod_eq [of n 16] by linarith
    ultimately show ?thesis by simp
  qed
qed

lemma hex_number_zeros: "hex_number (replicate k 0x30 @ s) 0 = hex_number s 0"
  by (induction k) (simp_all add: hex_char_value_def)

lemma is_hex_digits: "\<forall>c \<in> set (hex_digits n). hex_char_value c \<noteq> None"
  by (induction n rule: hex_digits.induct) (subst hex_digits.simps, auto simp: hex_char_value_digit)

lemma is_hex_printf_x: "\<forall>c \<in> set (printf_x w n). hex_char_value c \<noteq> None"
proof -
  have "hex_char_value 0x30 = Some 0" by (simp add: hex_char_value_def)
  then show ?thesis using is_hex_digits [of n] by (auto simp: printf_x_def)
qed

lemma hex_digits_Nil [simp]: "hex_digits n \<noteq> []"
  by (subst hex_digits.simps) simp

lemma hex_char_value_chars:
  "hex_char_value c \<noteq> None \<Longrightarrow>
   c \<noteq> 0 \<and> c \<noteq> 0x20 \<and> \<not> (9 \<le> c \<and> c \<le> 13) \<and> c \<noteq> 0x2B \<and> c \<noteq> 0x2D \<and> c \<noteq> 0x2C \<and> c \<noteq> 0x78 \<and> c \<noteq> 0x58"
  by (auto simp: hex_char_value_def word_le_def split: if_splits)

lemma strtol16_printf_x:
  assumes "int n < 2 ^ 63"
  shows "strtol16 (printf_x w n) = int n"
proof -
  obtain c s where s: "printf_x w n = c # s" by (cases "printf_x w n") (auto simp: printf_x_def)
  have h: "\<forall>x \<in> set (c # s). hex_char_value x \<noteq> None" using is_hex_printf_x [of w n] by (simp add: s)
  have "skip_0x (c # s) = c # s"
    using h hex_char_value_chars by (cases s) (auto simp: skip_0x_def)
  moreover have "hex_number (c # s) 0 = int n"
    using hex_number_zeros hex_number_digits [of n "[]"] by (simp flip: s add: printf_x_def)
  moreover have "dropWhile (\<lambda>c. c = 0x20 \<or> 9 \<le> c \<and> c \<le> 13) (c # s) = c # s" "c \<noteq> 0x2D" "c \<noteq> 0x2B"
    using hex_char_value_chars [of c] h by auto
  ultimately show ?thesis
    using assms unfolding strtol16_def s Let_def by (simp del: dropWhile.simps)
qed

section \<open>Round trips\<close>

lemma key_string_chars:
  "n \<in> set modifier_words \<Longrightarrow> bytes_of n \<noteq> [] \<and> PLUS \<notin> set (bytes_of n) \<and> KEY_COMMA \<notin> set (bytes_of n)"
  by (auto simp: modifier_words_def byte_of_char_def)

lemma mask_name_chars:
  assumes "e \<in> set key_mask_names"
  shows "bytes_of (snd e) \<noteq> [] \<and> PLUS \<notin> set (bytes_of (snd e)) \<and> KEY_COMMA \<notin> set (bytes_of (snd e))"
  by (rule key_string_chars) (use assms modifier_words in blast)

text \<open>The parts of the string of a key event.\<close>

definition mask_parts :: "16 word \<Rightarrow> key_name list" where
  "mask_parts m = filter (\<lambda>e. fst e AND m \<noteq> 0) key_mask_names"

definition key_string_parts :: "KeyEvent \<Rightarrow> bytes list" where
  "key_string_parts key =
     map (\<lambda>e. bytes_of (snd e)) (mask_parts (key_mask key)) @ (if key_code key = 0 then [] else [code_string (key_code key)])"

fun disjoint_masks :: "key_name list \<Rightarrow> 16 word \<Rightarrow> bool" where
  "disjoint_masks [] skip \<longleftrightarrow> True"
| "disjoint_masks ((v, n) # names) skip \<longleftrightarrow> v AND skip = 0 \<and> bytes_of n \<noteq> [] \<and> disjoint_masks names (skip OR v)"

lemma mask_string_parts:
  "disjoint_masks names skip \<Longrightarrow> list_all (\<lambda>s. s \<noteq> []) ss \<Longrightarrow>
   mask_string names m skip (scim_combine_string_list ss PLUS)
     = scim_combine_string_list (ss @ map (\<lambda>e. bytes_of (snd e)) (filter (\<lambda>e. fst e AND m \<noteq> 0) names)) PLUS"
proof (induction names arbitrary: skip ss)
  case (Cons e names)
  obtain v n where e: "e = (v, n)" by (cases e)
  with Cons.prems have d: "v AND skip = 0" "bytes_of n \<noteq> []" "disjoint_masks names (skip OR v)" by simp_all
  show ?case
  proof (cases "v AND m = 0")
    case True
    then show ?thesis using Cons.IH [OF d(3) Cons.prems(2)] by (simp add: e)
  next
    case False
    have "list_all (\<lambda>s. s \<noteq> []) (ss @ [bytes_of n])" using Cons.prems(2) d(2) by simp
    note IH = Cons.IH [OF d(3) this]
    have "(let s = scim_combine_string_list ss PLUS in if s \<noteq> [] then s @ [PLUS] @ bytes_of n else s @ bytes_of n)
        = scim_combine_string_list (ss @ [bytes_of n]) PLUS"
      using combine_Nil [OF Cons.prems(2)] by (cases "ss = []") (simp_all add: combine_snoc Let_def)
    then have "mask_string (e # names) m skip (scim_combine_string_list ss PLUS)
        = mask_string names m (skip OR v) (scim_combine_string_list (ss @ [bytes_of n]) PLUS)"
      using False d(1) by (simp add: e Let_def)
    also have "\<dots> = scim_combine_string_list (ss @ map (\<lambda>e. bytes_of (snd e)) (filter (\<lambda>e. fst e AND m \<noteq> 0) (e # names))) PLUS"
      using IH False by (simp add: e)
    finally show ?thesis .
  qed
qed simp

lemma disjoint_key_masks: "disjoint_masks key_mask_names 0"
  by (simp add: key_mask_names_def)

lemma first_code: "fst (keys_by_code ! 0) = 0x20"
  by (simp add: keys_by_code_def keys_by_code_1_def)

lemma code_string_cases:
  "code \<noteq> 0 \<Longrightarrow> code \<noteq> 0xFFFFFF \<Longrightarrow>
   (\<exists>c n. (c, n) \<in> set keys_by_name \<and> code_string code = bytes_of n \<and> ucast c = code) \<or>
   (\<exists>w. 4 \<le> w \<and> code_string code = [0x30, 0x78] @ printf_x w (unat code))"
proof -
  assume c: "code \<noteq> 0" "code \<noteq> 0xFFFFFF"
  let ?it = "lower_bound (\<lambda>p. fst p < (ucast code :: 16 word)) keys_by_code"
  have x: "bytes_of ''0x'' = [0x30, 0x78]" by (simp add: byte_of_char_def)
  show ?thesis
  proof (cases "code \<le> 0xFFFF \<and> ?it \<noteq> length keys_by_code \<and> ucast (fst (keys_by_code ! ?it)) = code")
    case True
    then have "?it < length keys_by_code"
      by (simp add: lower_bound_def length_takeWhile_le le_neq_implies_less)
    then have m: "keys_by_code ! ?it \<in> set keys_by_name" using keys_by_code_named by auto
    then have "snd (keys_by_code ! ?it) \<noteq> []" using plain_nameD(1) [OF keys_by_name_plain] by blast
    then have "code_string code = bytes_of (snd (keys_by_code ! ?it))"
      using True c(2) by (simp add: code_string_def Let_def)
    with True m show ?thesis by (metis prod.collapse)
  next
    case False
    then have "code_string code = [0x30, 0x78] @ printf_x (if code \<le> 0xFFFF then 4 else 6) (unat code)"
      using c unfolding code_string_def Let_def x by auto
    then show ?thesis by (intro disjI2 exI [of _ "if code \<le> 0xFFFF then 4 else 6"]) simp
  qed
qed

lemma modifier_not_0x: "n \<in> set modifier_words \<Longrightarrow> take 2 n \<noteq> ''0x''"
  by (auto simp: modifier_words_def)

lemma byte_of_0x: "bytes_of ''0x'' = [0x30, 0x78]" by (simp add: byte_of_char_def)

lemma code_string_void: "code_string 0xFFFFFF = bytes_of ''VoidSymbol''"
  by (simp add: code_string_def)

lemma code_string_chars:
  assumes "code \<noteq> 0"
  shows "code_string code \<noteq> [] \<and> PLUS \<notin> set (code_string code) \<and> KEY_COMMA \<notin> set (code_string code)"
proof (cases "code = 0xFFFFFF")
  case True
  then show ?thesis by (simp add: code_string_void byte_of_char_def)
next
  case False
  then show ?thesis
    using code_string_cases [OF assms False]
  proof (elim disjE exE conjE)
    fix c n assume e: "(c, n) \<in> set keys_by_name" "code_string code = bytes_of n"
    then show ?thesis using plain_nameD [OF keys_by_name_plain [OF e(1), simplified]] by simp
  next
    fix w assume "code_string code = [0x30, 0x78] @ printf_x w (unat code)"
    then show ?thesis using is_hex_printf_x [of w "unat code"] hex_char_value_chars by auto
  qed
qed

lemma code_string_0: "code_string 0 = []"
proof -
  have "takeWhile (\<lambda>p. False) t = []" for t :: "key_name list" by (cases t) simp_all
  then have "lower_bound (\<lambda>p. fst p < (0 :: 16 word)) keys_by_code = 0" by (simp add: lower_bound_def)
  then show ?thesis by (simp add: code_string_def Let_def first_code)
qed

lemma key_string_parts_ok:
  "list_all (\<lambda>s. s \<noteq> [] \<and> PLUS \<notin> set s \<and> KEY_COMMA \<notin> set s) (key_string_parts key)"
proof -
  have "list_all (\<lambda>s. s \<noteq> [] \<and> PLUS \<notin> set s \<and> KEY_COMMA \<notin> set s) (map (\<lambda>e. bytes_of (snd e)) (mask_parts m))" for m
    using mask_name_chars unfolding list_all_iff mask_parts_def by simp
  then show ?thesis
    using code_string_chars by (simp add: key_string_parts_def)
qed

lemma get_key_string_parts:
  "get_key_string key = scim_combine_string_list (key_string_parts key) PLUS"
proof -
  let ?ms = "map (\<lambda>e. bytes_of (snd e)) (mask_parts (key_mask key))"
  have ne: "list_all (\<lambda>s. s \<noteq> []) ?ms"
    using mask_name_chars unfolding list_all_iff mask_parts_def by simp
  have m: "mask_string key_mask_names (key_mask key) 0 [] = scim_combine_string_list ?ms PLUS"
    using mask_string_parts [OF disjoint_key_masks, of "[]"] by (simp add: mask_parts_def)
  show ?thesis
  proof (cases "key_code key = 0")
    case True
    then show ?thesis by (simp add: get_key_string_def m code_string_0 key_string_parts_def Let_def)
  next
    case False
    then show ?thesis
      using combine_Nil [OF ne] code_string_chars [OF False] by (simp add: get_key_string_def m key_string_parts_def combine_snoc Let_def)
  qed
qed

text \<open>The masks of the string are those of the key event that have a name.\<close>

lemma named_masks:
  "\<forall>e \<in> set es. \<exists>k. fst e = (2 :: 16 word) ^ k \<Longrightarrow>
   foldl (OR) a (map fst (filter (\<lambda>e. fst e AND m \<noteq> 0) es)) = a OR m AND foldr (OR) (map fst es) 0"
proof (induction es arbitrary: a)
  case (Cons e es)
  then obtain k where k: "fst e = 2 ^ k" by auto
  have "fst e AND m = (if bit m k then fst e else 0)"
    by (rule bit_word_eqI) (auto simp: k bit_simps)
  moreover have "\<forall>e \<in> set es. \<exists>k. fst e = 2 ^ k" using Cons.prems by simp
  note IH = Cons.IH [OF this]
  ultimately show ?case
    by (auto simp: IH bit.conj_disj_distrib and.commute or.assoc)
qed simp

lemma key_mask_bits: "\<forall>e \<in> set key_mask_names. \<exists>k. fst e = 2 ^ k"
proof -
  have "list_all (\<lambda>e. fst e \<in> (\<lambda>k. 2 ^ k) ` set [0..<16]) key_mask_names" by code_simp
  then show ?thesis unfolding list_all_iff by blast
qed

lemma named_key_masks: "foldl (OR) 0 (map fst (mask_parts m)) = m AND 0xC0FF"
proof -
  have "foldr (OR) (map fst key_mask_names) 0 = 0xC0FF" by (simp add: key_mask_names_def)
  then show ?thesis using named_masks [OF key_mask_bits] by (simp add: mask_parts_def)
qed

lemma key_parts_masks:
  "set es \<subseteq> set key_mask_names \<Longrightarrow>
   key_parts (map (\<lambda>e. bytes_of (snd e)) es @ list) key
     = key_parts list (key\<lparr>key_mask := foldl (OR) (key_mask key) (map fst es)\<rparr>)"
proof (induction es arbitrary: key)
  case (Cons e es)
  then have "(fst e, snd e) \<in> set key_mask_names" "set es \<subseteq> set key_mask_names" by simp_all
  then show ?case using key_parts_modifier [of "fst e" "snd e"] Cons.IH by (simp del: key_parts.simps)
qed simp

lemma length_takeWhile_all: "length (takeWhile P t) = length t \<longleftrightarrow> (\<forall>x \<in> set t. P x)"
  by (induction t) auto

lemma last_branches:
  "(p = l \<longleftrightarrow> \<not> e) \<Longrightarrow> (p \<noteq> l \<Longrightarrow> \<not> v) \<Longrightarrow>
   (if number then x else if p = l then u else if v then y else z) = (if number then x else if e then z else u)"
  by auto

text \<open>A part that is none of the names of the tables.\<close>

lemma key_parts_unknown:
  assumes "it \<notin> bytes_of ` set modifier_words" "c_string it \<notin> bytes_of ` snd ` set keys_by_name"
  shows "key_parts (it # list) key =
    (if length it \<ge> 6 \<and> it ! 0 = 0x30 \<and> (it ! 1 = 0x78 \<or> it ! 1 = 0x58) then
       key_parts list (key\<lparr>key_code := word_of_int (strtol16 (drop 2 (c_string it)))\<rparr>)
     else if \<exists>e \<in> set keys_by_name. c_string it < bytes_of (snd e) then key_parts list key
     else Undefined)"
proof -
  let ?p = "lower_bound (\<lambda>e. bytes_of (snd e) < c_string it) keys_by_name"
  have le: "?p \<le> length keys_by_name" by (simp add: lower_bound_def length_takeWhile_le)
  have n: "\<not> (?p \<noteq> length keys_by_name \<and> bytes_of (snd (keys_by_name ! ?p)) = c_string it)"
  proof
    assume "?p \<noteq> length keys_by_name \<and> bytes_of (snd (keys_by_name ! ?p)) = c_string it"
    then have "?p < length keys_by_name" and e: "bytes_of (snd (keys_by_name ! ?p)) = c_string it" using le by simp_all
    then have "keys_by_name ! ?p \<in> set keys_by_name" by simp
    then have "bytes_of (snd (keys_by_name ! ?p)) \<in> bytes_of ` snd ` set keys_by_name" by (intro imageI)
    with e assms(2) show False by metis
  qed
  have v: "snd (keys_by_name ! ?p) \<noteq> ''VoidSymbol''" if "?p \<noteq> length keys_by_name"
  proof -
    have "keys_by_name ! ?p \<in> set keys_by_name" using that le by simp
    then show ?thesis using keys_by_name_plain plain_nameD(6) by blast
  qed
  have ne: "bytes_of (snd e) < c_string it \<longleftrightarrow> \<not> c_string it < bytes_of (snd e)" if "e \<in> set keys_by_name" for e
  proof -
    have "bytes_of (snd e) \<in> bytes_of ` snd ` set keys_by_name" using that by (intro imageI)
    then have "bytes_of (snd e) \<noteq> c_string it" using assms(2) by metis
    then show ?thesis by (simp add: not_less_iff_gr_or_eq)
  qed
  have "?p = length keys_by_name \<longleftrightarrow> (\<forall>e \<in> set keys_by_name. bytes_of (snd e) < c_string it)"
    unfolding lower_bound_def by (rule length_takeWhile_all)
  also have "\<dots> \<longleftrightarrow> \<not> (\<exists>e \<in> set keys_by_name. c_string it < bytes_of (snd e))"
    using ne by blast
  finally have last: "?p = length keys_by_name \<longleftrightarrow> \<not> (\<exists>e \<in> set keys_by_name. c_string it < bytes_of (snd e))" .
  show ?thesis
    unfolding key_parts.simps find_no_modifier [OF assms(1)] Let_def option.case if_not_P [OF n]
    by (rule last_branches [OF last v])
qed

lemma key_parts_code:
  assumes "code \<noteq> 0" "code \<noteq> 0xFFFFFF"
  shows "key_parts [code_string code] key = Done (key\<lparr>key_code := code\<rparr>)"
  using code_string_cases [OF assms]
proof (elim disjE exE conjE)
  fix c n assume e: "(c, n) \<in> set keys_by_name" "code_string code = bytes_of n" "ucast c = code"
  then show ?thesis using key_parts_name [OF e(1), of "[]"] by simp
next
  fix w assume w: "4 \<le> (w :: nat)" and s: "code_string code = [0x30, 0x78] @ printf_x w (unat code)"
  let ?x = "printf_x w (unat code)"
  have len: "length ?x \<ge> 4" using w by (simp add: printf_x_def)
  have no0: "0 \<notin> set ?x" using is_hex_printf_x [of w "unat code"] hex_char_value_chars by blast
  then have c: "c_string ([0x30, 0x78] @ ?x) = [0x30, 0x78] @ ?x"
    unfolding c_string_def takeWhile_eq_all_conv by auto
  have "[0x30, 0x78] @ ?x \<noteq> bytes_of n" if "take 2 n \<noteq> ''0x''" for n
  proof
    assume "[0x30, 0x78] @ ?x = bytes_of n"
    then have "take 2 (bytes_of n) = bytes_of ''0x''" by (metis append_eq_conv_conj byte_of_0x length_Cons list.size(3) numeral_2_eq_2)
    then have "bytes_of (take 2 n) = bytes_of ''0x''" by (simp only: take_map)
    with that show False unfolding bytes_of_inject by simp
  qed
  note no_name = this
  have k: "c_string ([0x30, 0x78] @ ?x) \<notin> bytes_of ` snd ` set keys_by_name"
    unfolding c using no_name plain_nameD(5) [OF keys_by_name_plain] by blast
  have m: "[0x30, 0x78] @ ?x \<notin> bytes_of ` set modifier_words"
    using no_name modifier_not_0x by blast
  have "unat code < 2 ^ 32" using unsigned_less [of code] by simp
  then have "unat code < 2 ^ 63" by (rule less_trans) simp
  then have "int (unat code) < 2 ^ 63" by (metis of_nat_less_iff of_nat_numeral of_nat_power)
  then have "word_of_int (strtol16 (drop 2 ([0x30, 0x78] @ ?x))) = code" by (simp add: strtol16_printf_x)
  then show ?thesis unfolding s key_parts_unknown [OF m k] c using len by simp
qed

text \<open>What is read from the string of a key event.\<close>

lemma string_to_key_parts:
  "scim_string_to_key old (get_key_string key) =
   run_bind (key_parts (if key_code key = 0 then [] else [code_string (key_code key)])
       (old\<lparr>key_code := 0, key_mask := key_mask key AND 0xC0FF\<rparr>))
     (\<lambda>key. Done (key_code key \<noteq> 0, key))"
proof -
  let ?c = "if key_code key = 0 then [] else [code_string (key_code key)]"
  have "list_all (\<lambda>s. s \<noteq> [] \<and> PLUS \<notin> set s) (key_string_parts key)"
    using key_string_parts_ok [of key] by (simp add: list_all_iff)
  then have "scim_string_to_key old (get_key_string key) =
      run_bind (key_parts (key_string_parts key) (old\<lparr>key_code := 0, key_mask := 0\<rparr>)) (\<lambda>key. Done (key_code key \<noteq> 0, key))"
    by (simp add: scim_string_to_key_def get_key_string_parts split_words)
  also have "key_parts (key_string_parts key) (old\<lparr>key_code := 0, key_mask := 0\<rparr>)
      = key_parts ?c (old\<lparr>key_code := 0, key_mask := key_mask key AND 0xC0FF\<rparr>)"
    unfolding key_string_parts_def
    by (subst key_parts_masks) (auto simp: mask_parts_def named_key_masks [unfolded mask_parts_def])
  finally show ?thesis .
qed

lemma void_symbol_part: "key_parts [bytes_of ''VoidSymbol''] key = Done key"
proof -
  have c: "c_string (bytes_of ''VoidSymbol'') = bytes_of ''VoidSymbol''"
    by (simp add: c_string_def byte_of_char_def)
  have m: "bytes_of ''VoidSymbol'' \<notin> bytes_of ` set modifier_words"
    unfolding image_iff bytes_of_inject by (simp add: modifier_words_def)
  have n: "c_string (bytes_of ''VoidSymbol'') \<notin> bytes_of ` snd ` set keys_by_name"
    unfolding c using keys_by_name_plain plain_nameD(6) bytes_of_inject by (metis imageE)
  have "(0x61, ''a'') \<in> set keys_by_name_6" by (simp add: keys_by_name_6_def)
  then have "(0x61, ''a'') \<in> set keys_by_name" by (simp add: keys_by_name_def)
  moreover have "bytes_of ''VoidSymbol'' < bytes_of ''a''" unfolding bytes_of_less by simp
  ultimately have "\<exists>e \<in> set keys_by_name. c_string (bytes_of ''VoidSymbol'') < bytes_of (snd e)"
    unfolding c by force
  then show ?thesis unfolding key_parts_unknown [OF m n] by (simp add: byte_of_char_def)
qed

text \<open>C31: A key event is read from its string as it was, except for its layout, which the string does not
  hold, and for the masks without a name. The key event \<open>VoidSymbol\<close> is the exception: its
  string is read as no key at all.\<close>

theorem key_string_round_trip:
  "scim_string_to_key old (get_key_string key) =
   (let code = (if key_code key = SCIM_KEY_VoidSymbol then 0 else key_code key) in
    Done (code \<noteq> 0, old\<lparr>key_code := code, key_mask := key_mask key AND 0xC0FF\<rparr>))"
proof (cases "key_code key = 0 \<or> key_code key = 0xFFFFFF")
  case True
  then show ?thesis
    by (auto simp: string_to_key_parts SCIM_KEY_VoidSymbol_def code_string_void void_symbol_part simp del: list.map key_parts.simps(2))
next
  case False
  then show ?thesis
    using key_parts_code by (simp add: string_to_key_parts SCIM_KEY_VoidSymbol_def del: key_parts.simps)
qed

text \<open>The key events that their string describes but for the layout.\<close>

definition named_key :: "KeyEvent \<Rightarrow> bool" where
  "named_key key \<longleftrightarrow> key_code key \<noteq> 0 \<and> key_code key \<noteq> SCIM_KEY_VoidSymbol \<and> key_mask key AND 0xC0FF = key_mask key"

definition without_layout :: "KeyEvent \<Rightarrow> KeyEvent" where
  "without_layout key = key\<lparr>key_layout := 0\<rparr>"

lemma string_to_key:
  "named_key key \<Longrightarrow> scim_string_to_key no_key (get_key_string key) = Done (True, without_layout key)"
  by (cases key) (simp add: string_to_key_parts key_parts_code no_key_def named_key_def without_layout_def
      SCIM_KEY_VoidSymbol_def del: key_parts.simps)

lemma key_string_not_Nil: "key_code key \<noteq> 0 \<Longrightarrow> get_key_string key \<noteq> []"
  unfolding get_key_string_parts using key_string_parts_ok [of key]
  by (subst combine_Nil) (auto simp: list_all_iff key_string_parts_def)

lemma strings_to_keys_append:
  "list_all (\<lambda>key. scim_string_to_key no_key (get_key_string key) = Done (True, f key)) ks \<Longrightarrow>
   strings_to_keys (map get_key_string ks) keylist = Done (keylist @ map f ks)"
  by (induction ks arbitrary: keylist) simp_all

lemma key_list_string:
  assumes "list_all named_key ks"
  shows "scim_key_list_to_string ks = (ks \<noteq> [], scim_combine_string_list (map get_key_string ks) KEY_COMMA)"
proof -
  have ne: "list_all (\<lambda>s. s \<noteq> []) (map get_key_string ks)"
    using assms key_string_not_Nil by (simp add: list_all_iff named_key_def)
  then have "filter fst (map scim_key_to_string ks) = map scim_key_to_string ks"
    by (simp add: filter_id_conv scim_key_to_string_def Let_def list_all_iff)
  then show ?thesis
    using combine_Nil [OF ne] by (simp add: scim_key_list_to_string_def Let_def scim_key_to_string_def comp_def)
qed

lemma key_list_read:
  assumes "list_all named_key ks"
  shows "scim_string_to_key_list (snd (scim_key_list_to_string ks)) = Done (ks \<noteq> [], map without_layout ks)"
proof -
  have "KEY_COMMA \<notin> set (get_key_string key)" for key
    unfolding get_key_string_parts using key_string_parts_ok [of key]
    by (intro combined_chars) (auto simp: list_all_iff)
  then have "list_all (\<lambda>s. s \<noteq> [] \<and> KEY_COMMA \<notin> set s) (map get_key_string ks)"
    using assms key_string_not_Nil by (simp add: list_all_iff named_key_def)
  moreover have "list_all (\<lambda>key. scim_string_to_key no_key (get_key_string key) = Done (True, without_layout key)) ks"
    using assms string_to_key by (simp add: list_all_iff)
  ultimately show ?thesis
    unfolding key_list_string [OF assms] by (simp add: scim_string_to_key_list_def split_words strings_to_keys_append)
qed

text \<open>A list of key events with a code and with masks that have a name is read from the string it is written
  to, except for the layouts.\<close>

theorem key_list_round_trip:
  assumes "list_all named_key ks"
  shows "scim_string_to_key_list (snd (scim_key_list_to_string ks)) = Done (ks \<noteq> [], map without_layout ks)"
  using key_list_read [OF assms] .

text \<open>C32: A word that is neither a modifier, nor the name of a key, nor starts like a number is read as no key, when the
  table has a name behind it; otherwise the comparison with \<open>VoidSymbol\<close> reads behind the end of the table.\<close>

theorem unknown_word:
  assumes "PLUS \<notin> set word" "word \<noteq> []"
    "word \<notin> bytes_of ` snd ` set key_mask_names" "c_string word \<notin> bytes_of ` snd ` set keys_by_name"
    "length word < 6 \<or> take 1 word \<noteq> bytes_of ''0''"
  shows "scim_string_to_key key word =
    (if \<exists>(c, n) \<in> set keys_by_name. c_string word < bytes_of n then Done (False, key\<lparr>key_code := 0, key_mask := 0\<rparr>)
     else Undefined)"
proof -
  have s: "fst (scim_split_string_list word PLUS) = [word]"
    using split_words [of PLUS "[word]"] assms(1,2) by simp
  have m: "word \<notin> bytes_of ` set modifier_words" using assms(3) unfolding modifier_words .
  have z: "\<not> (length word \<ge> 6 \<and> word ! 0 = 0x30 \<and> X)" for X
    using assms(5) by (cases word) (auto simp: byte_of_char_def take_Suc)
  have e: "(\<exists>e \<in> set keys_by_name. c_string word < bytes_of (snd e)) \<longleftrightarrow> (\<exists>(c, n) \<in> set keys_by_name. c_string word < bytes_of n)"
    by (auto simp: Bex_def)
  show ?thesis
    unfolding scim_string_to_key_def s key_parts_unknown [OF m assms(4)] e if_not_P [OF z] by simp
qed

section \<open>Characters of key events\<close>

text \<open>C33: The character of a key event is its code for Latin 1 and for the codes that hold a
  character; else it is what the table has for the code, which the search by halves finds as a search through
  the table does.\<close>

theorem get_unicode_code_table:
  "get_unicode_code key =
    (let code = key_code key in
     if 0x20 \<le> code \<and> code \<le> 0x7E \<or> 0xA0 \<le> code \<and> code \<le> 0xFF then code
     else if code AND 0xFF000000 = 0x01000000 then code AND 0xFFFFFF
     else if code \<le> 0xFFFF then
       case map_of key_to_unicode (ucast code) of Some u \<Rightarrow> ucast u | None \<Rightarrow> 0
     else 0)"
proof -
  have d: "distinct (map fst key_to_unicode)"
    using key_to_unicode_sorted by (simp add: sorted_wrt_map [symmetric] strict_sorted_iff)
  let ?c = "ucast (key_code key) :: 16 word"
  let ?it = "lower_bound (\<lambda>p. fst p < ?c) key_to_unicode"
  have le: "?it \<le> length key_to_unicode" by (simp add: lower_bound_def length_takeWhile_le)
  note found = lower_bound_entry [OF strictly_sorted [OF key_to_unicode_sorted], of ?c]
  have "(if ?it \<noteq> length key_to_unicode \<and> fst (key_to_unicode ! ?it) = ?c then ucast (snd (key_to_unicode ! ?it)) else (0 :: 32 word))
      = (case map_of key_to_unicode ?c of Some u \<Rightarrow> ucast u | None \<Rightarrow> 0)"
  proof (cases "?c \<in> fst ` set key_to_unicode")
    case True
    with found have i: "?it < length key_to_unicode" "fst (key_to_unicode ! ?it) = ?c" by auto
    then have "map_of key_to_unicode ?c = Some (snd (key_to_unicode ! ?it))"
      using d nth_mem by (metis map_of_eq_Some_iff prod.collapse)
    with i show ?thesis by simp
  next
    case False
    then have "map_of key_to_unicode ?c = None" by (simp add: map_of_eq_None_iff)
    with False found le show ?thesis by auto
  qed
  then show ?thesis by (auto simp: get_unicode_code_def Let_def not_le)
qed

section \<open>Witnesses\<close>

lemma last_name: "keys_by_name \<noteq> [] \<and> snd (last keys_by_name) = ''zcaron''"
  by (simp add: keys_by_name_def keys_by_name_9_def)

lemma names_before_last: "e \<in> set keys_by_name \<Longrightarrow> snd e \<le> ''zcaron''"
proof -
  assume "e \<in> set keys_by_name"
  then obtain i where i: "i < length keys_by_name" "keys_by_name ! i = e" by (auto simp: in_set_conv_nth)
  have "snd (keys_by_name ! i) \<le> snd (keys_by_name ! (length keys_by_name - 1))"
    using sorted_wrt_nth_less [OF strictly_sorted [OF keys_by_name_sorted], of i "length keys_by_name - 1"] i(1)
    by (cases "i = length keys_by_name - 1") simp_all
  with i(2) last_name show ?thesis by (metis last_conv_nth)
qed

lemma unnamed_bytes:
  assumes "CHR '','' \<in> set s \<or> ''zcaron'' < s"
  shows "bytes_of s \<notin> bytes_of ` snd ` set keys_by_name"
proof -
  have "s \<notin> snd ` set keys_by_name"
  proof
    assume "s \<in> snd ` set keys_by_name"
    then obtain e where e: "e \<in> set keys_by_name" "s = snd e" by blast
    with assms names_before_last [OF e(1)] keys_by_name_plain [OF e(1)] show False
      unfolding plain_name_def list_all_iff by (metis not_less)
  qed
  then show ?thesis unfolding image_iff bytes_of_inject by blast
qed

lemma unknown_word_witness:
  "scim_string_to_key no_key (bytes_of '','') = Done (False, no_key) \<and> scim_string_to_key no_key (bytes_of ''~'') = Undefined"
proof -
  have "(0x61, ''a'') \<in> set keys_by_name_6" by (simp add: keys_by_name_6_def)
  then have "(0x61, ''a'') \<in> set keys_by_name" by (simp add: keys_by_name_def)
  moreover have "bytes_of '','' < bytes_of ''a''" unfolding bytes_of_less by simp
  ultimately have before: "\<exists>(c, n) \<in> set keys_by_name. bytes_of '','' < bytes_of n" by blast
  have after: "\<not> (\<exists>(c, n) \<in> set keys_by_name. bytes_of ''~'' < bytes_of n)"
  proof -
    have last: "''zcaron'' < ''~''" by simp
    have "n < ''~''" if "(c, n) \<in> set keys_by_name" for c n
      using names_before_last [OF that, unfolded snd_conv] last by (rule order.strict_trans1)
    then show ?thesis unfolding bytes_of_less by fastforce
  qed
  have c: "c_string (bytes_of '','') = bytes_of '',''" "c_string (bytes_of ''~'') = bytes_of ''~''"
    by (simp_all add: c_string_def byte_of_char_def)
  have m: "bytes_of s \<notin> bytes_of ` snd ` set key_mask_names" if "s \<notin> set modifier_words" for s
    using that unfolding modifier_words image_iff bytes_of_inject by blast
  have w: "PLUS \<notin> set (bytes_of s) \<and> bytes_of s \<noteq> [] \<and> length (bytes_of s) < 6" if "s = '','' \<or> s = ''~''" for s
    using that by (auto simp: byte_of_char_def)
  have k: "no_key\<lparr>key_code := 0, key_mask := 0\<rparr> = no_key" by (simp add: no_key_def)
  have comma: "scim_string_to_key no_key (bytes_of '','') = Done (False, no_key)"
    using unknown_word [of "bytes_of '',''" no_key] w [of "'',''"] m [of "'',''"] unnamed_bytes [of "'',''"]
    unfolding c if_P [OF before] k by (simp only: modifier_words_def) simp
  have tilde: "scim_string_to_key no_key (bytes_of ''~'') = Undefined"
    using unknown_word [of "bytes_of ''~''" no_key] w [of "''~''"] m [of "''~''"] unnamed_bytes [of "''~''"]
    unfolding c if_not_P [OF after] by (simp only: modifier_words_def) simp
  from comma tilde show ?thesis by (rule conjI)
qed

end
