(* ===== verification/Core_Hotkey.thy ===== *)
theory Core_Hotkey
  imports Core_Key_Laws Core_Config_Laws
begin

text \<open>
  Hotkeys: \<^verbatim>\<open>src/scim_hotkey.cpp\<close>, with the reads of \<^verbatim>\<open>src/scim_config_base.cpp\<close> that have a default.

  A configuration that may be null is an option.
\<close>

section \<open>Values with a default\<close>

definition value_or :: "'v \<Rightarrow> bool \<times> 'v \<Rightarrow> 'v" where
  "value_or defVal r = (if fst r then snd r else defVal)"

definition read_string_or :: "bytes \<Rightarrow> bytes \<Rightarrow> SimpleConfig \<Rightarrow> bytes" where
  "read_string_or key defVal c = value_or defVal (read_string key [] c)"

definition read_int_or :: "bytes \<Rightarrow> int \<Rightarrow> SimpleConfig \<Rightarrow> int" where
  "read_int_or key defVal c = value_or defVal (read_int key 0 c)"

definition read_bool_or :: "bytes \<Rightarrow> bool \<Rightarrow> SimpleConfig \<Rightarrow> bool" where
  "read_bool_or key defVal c = value_or defVal (read_bool key False c)"

definition read_double_or :: "(bytes \<Rightarrow> 'd) \<Rightarrow> 'd \<Rightarrow> bytes \<Rightarrow> 'd \<Rightarrow> SimpleConfig \<Rightarrow> 'd" where
  "read_double_or strtod zero key defVal c = value_or defVal (read_double strtod zero key zero c)"

definition read_string_list_or :: "bytes \<Rightarrow> bytes list \<Rightarrow> SimpleConfig \<Rightarrow> bytes list" where
  "read_string_list_or key defVal c = value_or defVal (read_string_list key [] c)"

definition read_int_list_or :: "bytes \<Rightarrow> int list \<Rightarrow> SimpleConfig \<Rightarrow> int list" where
  "read_int_list_or key defVal c = value_or defVal (read_int_list key [] c)"

section \<open>HotkeyMatcher\<close>

text \<open>What key events are compared by: \<^verbatim>\<open>operator ==\<close> and \<^verbatim>\<open>operator <\<close> ignore the layout. A hotkey keeps the layout
  with which it was added first.\<close>

datatype event_key = Key_Id (id_code: "32 word") (id_mask: "16 word")

definition key_id :: "KeyEvent \<Rightarrow> event_key" where
  "key_id key = Key_Id (key_code key) (key_mask key)"

definition key_less :: "event_key \<Rightarrow> event_key \<Rightarrow> bool" where
  "key_less a b \<longleftrightarrow> id_code a < id_code b \<or> (id_code a = id_code b \<and> id_mask a < id_mask b)"

instantiation event_key :: linorder
begin

definition less_event_key :: "event_key \<Rightarrow> event_key \<Rightarrow> bool" where
  "a < b \<longleftrightarrow> key_less a b"

definition less_eq_event_key :: "event_key \<Rightarrow> event_key \<Rightarrow> bool" where
  "a \<le> b \<longleftrightarrow> key_less a b \<or> a = b"

instance
proof
  fix x y z :: event_key
  note defs = less_event_key_def less_eq_event_key_def key_less_def
  show "(x < y) = (x \<le> y \<and> \<not> y \<le> x)" by (auto simp: defs)
  show "x \<le> x" by (simp add: defs)
  show "x \<le> y \<Longrightarrow> y \<le> z \<Longrightarrow> x \<le> z" by (auto simp: defs)
  show "x \<le> y \<Longrightarrow> y \<le> x \<Longrightarrow> x = y" by (auto simp: defs)
  show "x \<le> y \<or> y \<le> x" by (cases x; cases y) (auto simp: defs)
qed

end

type_synonym HotkeyRepository = "(event_key \<times> 16 word \<times> int) list"

abbreviation SCIM_KEY_ReleaseMask :: "16 word" where "SCIM_KEY_ReleaseMask \<equiv> 0x8000"

record HotkeyMatcher =
  m_hotkeys :: HotkeyRepository
  m_prev_code :: "32 word"
  m_matched :: bool
  m_result :: int

definition new_HotkeyMatcher :: HotkeyMatcher where
  "new_HotkeyMatcher = \<lparr>m_hotkeys = [], m_prev_code = 0, m_matched = False, m_result = -1\<rparr>"

definition key_empty :: "KeyEvent \<Rightarrow> bool" where
  "key_empty key \<longleftrightarrow> key_mask key = 0 \<and> key_code key = 0"

definition put_hotkey :: "KeyEvent \<Rightarrow> int \<Rightarrow> HotkeyRepository \<Rightarrow> HotkeyRepository" where
  "put_hotkey key n hotkeys =
     (let k = key_id key in
      case map_of hotkeys k of
        Some (layout, _) \<Rightarrow> map_put k (layout, n) hotkeys
      | None \<Rightarrow> map_put k (key_layout key, n) hotkeys)"

definition add_hotkey :: "KeyEvent \<Rightarrow> int \<Rightarrow> HotkeyMatcher \<Rightarrow> HotkeyMatcher" where
  "add_hotkey key n m = (if \<not> key_empty key then m\<lparr>m_hotkeys := put_hotkey key n (m_hotkeys m)\<rparr> else m)"

definition add_hotkeys :: "KeyEvent list \<Rightarrow> int \<Rightarrow> HotkeyMatcher \<Rightarrow> HotkeyMatcher" where
  "add_hotkeys keys n m = fold (\<lambda>key. add_hotkey key n) keys m"

definition hotkey_event :: "event_key \<times> 16 word \<times> int \<Rightarrow> KeyEvent" where
  "hotkey_event it = \<lparr>key_code = id_code (fst it), key_mask = id_mask (fst it), key_layout = fst (snd it)\<rparr>"

definition get_all_hotkeys :: "HotkeyMatcher \<Rightarrow> KeyEvent list \<times> int list" where
  "get_all_hotkeys m = (map hotkey_event (m_hotkeys m), map (\<lambda>it. snd (snd it)) (m_hotkeys m))"

definition find_hotkeys :: "int \<Rightarrow> HotkeyMatcher \<Rightarrow> KeyEvent list" where
  "find_hotkeys n m = map hotkey_event (filter (\<lambda>it. snd (snd it) = n) (m_hotkeys m))"

definition push_key_event :: "KeyEvent \<Rightarrow> HotkeyMatcher \<Rightarrow> HotkeyMatcher" where
  "push_key_event key m =
     (case map_of (m_hotkeys m) (key_id key) of
        Some (_, n) \<Rightarrow>
          if key_mask key AND SCIM_KEY_ReleaseMask = 0 \<or> m_prev_code m = key_code key
          then m\<lparr>m_matched := True, m_result := n\<rparr>
          else m\<lparr>m_matched := False, m_result := -1\<rparr>
      | None \<Rightarrow> m\<lparr>m_matched := False, m_result := -1\<rparr>)\<lparr>m_prev_code := key_code key\<rparr>"

definition reset_matcher :: "HotkeyMatcher \<Rightarrow> HotkeyMatcher" where
  "reset_matcher m = m\<lparr>m_prev_code := 0, m_matched := False, m_result := -1\<rparr>"

definition clear_matcher :: "HotkeyMatcher \<Rightarrow> HotkeyMatcher" where
  "clear_matcher m = reset_matcher (m\<lparr>m_hotkeys := []\<rparr>)"

section \<open>IMEngineHotkeyMatcher\<close>

definition SCIM_CONFIG_HOTKEYS_IMENGINE :: bytes where
  "SCIM_CONFIG_HOTKEYS_IMENGINE = bytes_of ''/Hotkeys/IMEngine''"

definition SCIM_CONFIG_HOTKEYS_IMENGINE_LIST :: bytes where
  "SCIM_CONFIG_HOTKEYS_IMENGINE_LIST = bytes_of ''/Hotkeys/IMEngine/List''"

definition imengine_path :: "bytes \<Rightarrow> bytes" where
  "imengine_path uuid = SCIM_CONFIG_HOTKEYS_IMENGINE @ bytes_of ''/'' @ uuid"

record IMEngineHotkeyMatcher =
  im_matcher :: HotkeyMatcher
  m_uuids :: "bytes list"

definition new_IMEngineHotkeyMatcher :: IMEngineHotkeyMatcher where
  "new_IMEngineHotkeyMatcher = \<lparr>im_matcher = new_HotkeyMatcher, m_uuids = []\<rparr>"

definition imengine_clear :: "IMEngineHotkeyMatcher \<Rightarrow> IMEngineHotkeyMatcher" where
  "imengine_clear m = m\<lparr>im_matcher := clear_matcher (im_matcher m), m_uuids := []\<rparr>"

fun load_uuids :: "bytes list \<Rightarrow> SimpleConfig \<Rightarrow> IMEngineHotkeyMatcher \<Rightarrow> IMEngineHotkeyMatcher run" where
  "load_uuids [] c m = Done m"
| "load_uuids (uit # uuids) c m =
     run_bind (scim_string_to_key_list (read_string_or (imengine_path uit) [] c)) (\<lambda>(ok, keys).
     load_uuids uuids c
       (if ok then m\<lparr>im_matcher := add_hotkeys keys (int (length (m_uuids m))) (im_matcher m), m_uuids := m_uuids m @ [uit]\<rparr>
        else m))"

definition imengine_load_hotkeys :: "SimpleConfig option \<Rightarrow> IMEngineHotkeyMatcher \<Rightarrow> IMEngineHotkeyMatcher run" where
  "imengine_load_hotkeys config m =
     (let m = imengine_clear m in
      case config of
        None \<Rightarrow> Done m
      | Some c \<Rightarrow>
          let uuids = fst (scim_split_string_list (read_string_or SCIM_CONFIG_HOTKEYS_IMENGINE_LIST [] c) COMMA) in
          load_uuids (remdups_adj (sort uuids)) c m)"

fun save_uuids :: "nat list \<Rightarrow> IMEngineHotkeyMatcher \<Rightarrow> bytes list \<Rightarrow> SimpleConfig \<Rightarrow> bytes list \<times> SimpleConfig" where
  "save_uuids [] m uuids c = (uuids, c)"
| "save_uuids (i # is) m uuids c =
     (let keys = find_hotkeys (int i) (im_matcher m); (ok, keystr) = scim_key_list_to_string keys in
      if length keys > 0 \<and> ok
      then save_uuids is m (uuids @ [m_uuids m ! i]) (snd (write_string (imengine_path (m_uuids m ! i)) keystr c))
      else save_uuids is m uuids c)"

definition imengine_save_hotkeys :: "IMEngineHotkeyMatcher \<Rightarrow> SimpleConfig option \<Rightarrow> SimpleConfig option" where
  "imengine_save_hotkeys m config =
     (case config of
        None \<Rightarrow> None
      | Some c \<Rightarrow>
          if m_uuids m = [] then Some c
          else
            let (uuids, c) = save_uuids [0..<length (m_uuids m)] m [] c in
            Some (snd (write_string SCIM_CONFIG_HOTKEYS_IMENGINE_LIST (scim_combine_string_list uuids COMMA) c)))"

text \<open>The place of a uuid, at the end of the list if it is new.\<close>

definition find_uuid :: "bytes \<Rightarrow> bytes list \<Rightarrow> nat" where
  "find_uuid uuid uuids = length (takeWhile (\<lambda>u. u \<noteq> uuid) uuids)"

definition with_uuid :: "bytes \<Rightarrow> bytes list \<Rightarrow> bytes list" where
  "with_uuid uuid uuids = (if find_uuid uuid uuids = length uuids then uuids @ [uuid] else uuids)"

definition imengine_add_hotkey :: "KeyEvent \<Rightarrow> bytes \<Rightarrow> IMEngineHotkeyMatcher \<Rightarrow> IMEngineHotkeyMatcher" where
  "imengine_add_hotkey key uuid m =
     (if key_empty key \<or> uuid = [] then m
      else m\<lparr>im_matcher := add_hotkey key (int (find_uuid uuid (m_uuids m))) (im_matcher m),
             m_uuids := with_uuid uuid (m_uuids m)\<rparr>)"

definition imengine_add_hotkeys :: "KeyEvent list \<Rightarrow> bytes \<Rightarrow> IMEngineHotkeyMatcher \<Rightarrow> IMEngineHotkeyMatcher" where
  "imengine_add_hotkeys keys uuid m =
     (if keys = [] \<or> uuid = [] then m
      else m\<lparr>im_matcher := add_hotkeys keys (int (find_uuid uuid (m_uuids m))) (im_matcher m),
             m_uuids := with_uuid uuid (m_uuids m)\<rparr>)"

definition imengine_find_hotkeys :: "bytes \<Rightarrow> IMEngineHotkeyMatcher \<Rightarrow> KeyEvent list" where
  "imengine_find_hotkeys uuid m =
     (let i = find_uuid uuid (m_uuids m) in
      if i < length (m_uuids m) then find_hotkeys (int i) (im_matcher m) else [])"

definition imengine_get_all_hotkeys :: "IMEngineHotkeyMatcher \<Rightarrow> KeyEvent list \<times> bytes list" where
  "imengine_get_all_hotkeys m =
     (let (keys, ids) = get_all_hotkeys (im_matcher m) in (keys, map (\<lambda>n. m_uuids m ! nat n) ids))"

definition imengine_push_key_event :: "KeyEvent \<Rightarrow> IMEngineHotkeyMatcher \<Rightarrow> IMEngineHotkeyMatcher" where
  "imengine_push_key_event key m = m\<lparr>im_matcher := push_key_event key (im_matcher m)\<rparr>"

definition imengine_reset :: "IMEngineHotkeyMatcher \<Rightarrow> IMEngineHotkeyMatcher" where
  "imengine_reset m = m\<lparr>im_matcher := reset_matcher (im_matcher m)\<rparr>"

definition imengine_match_result :: "IMEngineHotkeyMatcher \<Rightarrow> bytes" where
  "imengine_match_result m =
     (let n = m_result (im_matcher m) in
      if n \<ge> 0 \<and> n < int (length (m_uuids m)) then m_uuids m ! nat n else [])"

section \<open>FrontEndHotkeyMatcher\<close>

definition SCIM_FRONTEND_HOTKEY_NOOP :: int where "SCIM_FRONTEND_HOTKEY_NOOP = 0"
definition SCIM_FRONTEND_HOTKEY_TRIGGER :: int where "SCIM_FRONTEND_HOTKEY_TRIGGER = 1"
definition SCIM_FRONTEND_HOTKEY_ON :: int where "SCIM_FRONTEND_HOTKEY_ON = 2"
definition SCIM_FRONTEND_HOTKEY_OFF :: int where "SCIM_FRONTEND_HOTKEY_OFF = 3"
definition SCIM_FRONTEND_HOTKEY_NEXT_FACTORY :: int where "SCIM_FRONTEND_HOTKEY_NEXT_FACTORY = 4"
definition SCIM_FRONTEND_HOTKEY_PREVIOUS_FACTORY :: int where "SCIM_FRONTEND_HOTKEY_PREVIOUS_FACTORY = 5"
definition SCIM_FRONTEND_HOTKEY_SHOW_FACTORY_MENU :: int where "SCIM_FRONTEND_HOTKEY_SHOW_FACTORY_MENU = 6"

text \<open>The null pointers at both ends of the tables are empty strings; they are never used.\<close>

definition frontend_hotkey_config_paths :: "bytes list" where
  "frontend_hotkey_config_paths = map bytes_of
     [[], ''/Hotkeys/FrontEnd/Trigger'', ''/Hotkeys/FrontEnd/On'', ''/Hotkeys/FrontEnd/Off'',
      ''/Hotkeys/FrontEnd/NextFactory'', ''/Hotkeys/FrontEnd/PreviousFactory'',
      ''/Hotkeys/FrontEnd/ShowFactoryMenu'', []]"

definition frontend_hotkey_defaults :: "bytes list" where
  "frontend_hotkey_defaults = map bytes_of
     [[], ''Control+space'', '''', '''',
      ''Control+Alt+Down,Control+Shift+Shift_L+KeyRelease,Control+Shift+Shift_R+KeyRelease'',
      ''Control+Alt+Up,Control+Shift+Control_L+KeyRelease,Control+Shift+Control_R+KeyRelease'',
      ''Control+Alt+Right'', []]"

fun load_actions :: "int list \<Rightarrow> SimpleConfig \<Rightarrow> HotkeyMatcher \<Rightarrow> HotkeyMatcher run" where
  "load_actions [] c m = Done m"
| "load_actions (i # is) c m =
     run_bind (scim_string_to_key_list
       (read_string_or (frontend_hotkey_config_paths ! nat i) (frontend_hotkey_defaults ! nat i) c)) (\<lambda>(ok, keys).
     load_actions is c (if ok then add_hotkeys keys i m else m))"

definition frontend_load_hotkeys :: "SimpleConfig option \<Rightarrow> HotkeyMatcher \<Rightarrow> HotkeyMatcher run" where
  "frontend_load_hotkeys config m =
     (let m = clear_matcher m in
      case config of
        None \<Rightarrow> Done m
      | Some c \<Rightarrow> load_actions (rev [SCIM_FRONTEND_HOTKEY_TRIGGER..SCIM_FRONTEND_HOTKEY_SHOW_FACTORY_MENU]) c m)"

fun save_actions :: "int list \<Rightarrow> HotkeyMatcher \<Rightarrow> SimpleConfig \<Rightarrow> SimpleConfig" where
  "save_actions [] m c = c"
| "save_actions (i # is) m c =
     (let keys = find_hotkeys i m; (ok, keystr) = scim_key_list_to_string keys in
      save_actions is m
        (if length keys > 0 \<and> ok then snd (write_string (frontend_hotkey_config_paths ! nat i) keystr c) else c))"

definition frontend_save_hotkeys :: "HotkeyMatcher \<Rightarrow> SimpleConfig option \<Rightarrow> SimpleConfig option" where
  "frontend_save_hotkeys m config =
     map_option (save_actions [SCIM_FRONTEND_HOTKEY_TRIGGER..SCIM_FRONTEND_HOTKEY_SHOW_FACTORY_MENU] m) config"

definition is_action :: "int \<Rightarrow> bool" where
  "is_action i \<longleftrightarrow> i \<ge> SCIM_FRONTEND_HOTKEY_TRIGGER \<and> i \<le> SCIM_FRONTEND_HOTKEY_SHOW_FACTORY_MENU"

definition frontend_add_hotkey :: "KeyEvent \<Rightarrow> int \<Rightarrow> HotkeyMatcher \<Rightarrow> HotkeyMatcher" where
  "frontend_add_hotkey key action m = (if key_empty key \<or> \<not> is_action action then m else add_hotkey key action m)"

definition frontend_add_hotkeys :: "KeyEvent list \<Rightarrow> int \<Rightarrow> HotkeyMatcher \<Rightarrow> HotkeyMatcher" where
  "frontend_add_hotkeys keys action m = (if keys = [] \<or> \<not> is_action action then m else add_hotkeys keys action m)"

definition frontend_match_result :: "HotkeyMatcher \<Rightarrow> int" where
  "frontend_match_result m =
     (let n = m_result m in if is_action n then n else SCIM_FRONTEND_HOTKEY_NOOP)"

end
