(* ===== verification/Core_Hotkey_Laws.thy ===== *)
theory Core_Hotkey_Laws
  imports Core_Hotkey
begin

text \<open>The properties of hotkeys and of their way through a configuration.\<close>

section \<open>Hotkeys as a map\<close>

abbreviation no_id :: event_key where "no_id \<equiv> Key_Id 0 0"

definition hotkey_of :: "HotkeyMatcher \<Rightarrow> event_key \<Rightarrow> int option" where
  "hotkey_of m k = map_option snd (map_of (m_hotkeys m) k)"

definition matcher_inv :: "HotkeyMatcher \<Rightarrow> bool" where
  "matcher_inv m \<longleftrightarrow> map_wf (m_hotkeys m) \<and> hotkey_of m no_id = None"

lemma key_empty_id: "key_empty key \<longleftrightarrow> key_id key = no_id"
  by (auto simp: key_empty_def key_id_def)

lemma put_hotkey_map:
  assumes "map_wf hotkeys"
  shows "map_wf (put_hotkey key i hotkeys)"
    "map_option snd (map_of (put_hotkey key i hotkeys) k)
      = (if k = key_id key then Some i else map_option snd (map_of hotkeys k))"
  using assms
  by (auto simp: put_hotkey_def key_id_def Let_def std_map.wf_put std_map.find_put split: option.splits)

lemma hotkey_of_add_hotkey:
  assumes "matcher_inv m"
  shows "matcher_inv (add_hotkey key i m)"
    "hotkey_of (add_hotkey key i m) = (if key_empty key then hotkey_of m else (hotkey_of m)(key_id key \<mapsto> i))"
proof -
  note wf = assms [unfolded matcher_inv_def, THEN conjunct1]
  show h: "hotkey_of (add_hotkey key i m) = (if key_empty key then hotkey_of m else (hotkey_of m)(key_id key \<mapsto> i))"
    by (auto simp: hotkey_of_def add_hotkey_def put_hotkey_map [OF wf] fun_eq_iff)
  have "map_wf (m_hotkeys (add_hotkey key i m))" using wf by (simp add: add_hotkey_def put_hotkey_map [OF wf])
  then show "matcher_inv (add_hotkey key i m)"
    unfolding matcher_inv_def h using assms by (auto simp: matcher_inv_def key_empty_id)
qed

lemma hotkey_of_add_hotkeys:
  assumes "matcher_inv m"
  shows "matcher_inv (add_hotkeys keys i m) \<and>
    hotkey_of (add_hotkeys keys i m)
      = (\<lambda>k. if k \<in> key_id ` set keys \<and> k \<noteq> no_id then Some i else hotkey_of m k)"
  using assms
proof (induction keys arbitrary: m)
  case (Cons key keys)
  then show ?case
    using hotkey_of_add_hotkey [OF Cons.prems, of key i]
    by (auto simp: add_hotkeys_def key_empty_id fun_eq_iff)
qed (simp add: add_hotkeys_def)

lemma map_wf_entry: "map_wf m \<Longrightarrow> map_of m k = Some v \<longleftrightarrow> (k, v) \<in> set m"
  by (simp add: map_wf_def strict_sorted_iff map_of_eq_Some_iff)

lemma hotkey_of_Some: "map_wf (m_hotkeys m) \<Longrightarrow> hotkey_of m k = Some i \<longleftrightarrow> (\<exists>l. (k, l, i) \<in> set (m_hotkeys m))"
  by (force simp: hotkey_of_def map_wf_entry)

lemma find_hotkeys_ids:
  "matcher_inv m \<Longrightarrow> key_id ` set (find_hotkeys i m) = {k. hotkey_of m k = Some i}"
  by (auto simp: matcher_inv_def hotkey_of_Some find_hotkeys_def hotkey_event_def key_id_def image_iff)

lemma hotkey_of_clear [simp]: "hotkey_of (clear_matcher m) = Map.empty" "matcher_inv (clear_matcher m)"
  by (simp_all add: hotkey_of_def clear_matcher_def reset_matcher_def matcher_inv_def fun_eq_iff)

lemma hotkeys_push [simp]: "m_hotkeys (push_key_event key m) = m_hotkeys m"
  by (simp add: push_key_event_def split: option.splits prod.splits)

lemma hotkey_of_push [simp]: "hotkey_of (push_key_event key m) = hotkey_of m"
  by (simp add: hotkey_of_def fun_eq_iff)

lemma hotkey_of_reset [simp]: "hotkey_of (reset_matcher m) = hotkey_of m"
  by (simp add: hotkey_of_def reset_matcher_def fun_eq_iff)

section \<open>Matching\<close>

definition released :: "KeyEvent \<Rightarrow> bool" where
  "released key \<longleftrightarrow> key_mask key AND SCIM_KEY_ReleaseMask \<noteq> 0"

lemma hotkey_of_push_all [simp]: "hotkey_of (fold push_key_event ks m) = hotkey_of m"
  by (induction ks arbitrary: m) simp_all

lemma prev_code_push_all:
  "m_prev_code (fold push_key_event ks m) = (if ks = [] then m_prev_code m else key_code (last ks))"
proof (induction ks arbitrary: m)
  case (Cons key ks)
  have "m_prev_code (push_key_event key m) = key_code key" by (simp add: push_key_event_def)
  with Cons show ?case by simp
qed simp

lemma push_result:
  "(m_matched (push_key_event key m), m_result (push_key_event key m)) =
     (case hotkey_of m (key_id key) of
        Some i \<Rightarrow> if released key \<and> m_prev_code m \<noteq> key_code key then (False, -1) else (True, i)
      | None \<Rightarrow> (False, -1))"
  by (auto simp: push_key_event_def hotkey_of_def released_def split: option.splits prod.splits)

text \<open>C34: After any key events the last one is matched exactly if it is a hotkey and, when it is a release, directly
  follows an event of the same key; the result is the last number that the hotkey was given, or -1.\<close>

theorem hotkey_matched:
  "let m' = fold push_key_event (ks @ [key]) (reset_matcher m);
       before = (if ks = [] then 0 else key_code (last ks)) in
   (m_matched m', m_result m') =
     (case hotkey_of m (key_id key) of
        Some i \<Rightarrow> if released key \<and> before \<noteq> key_code key then (False, -1) else (True, i)
      | None \<Rightarrow> (False, -1))"
proof -
  let ?m = "fold push_key_event ks (reset_matcher m)"
  have h: "hotkey_of ?m = hotkey_of m" and b: "m_prev_code ?m = (if ks = [] then 0 else key_code (last ks))"
    by simp (simp add: prev_code_push_all reset_matcher_def)
  show ?thesis using push_result [of key ?m] unfolding h b by (simp add: Let_def)
qed

section \<open>Hotkeys of input method engines\<close>

definition imengine_inv :: "IMEngineHotkeyMatcher \<Rightarrow> bool" where
  "imengine_inv m \<longleftrightarrow> matcher_inv (im_matcher m) \<and> distinct (m_uuids m) \<and> [] \<notin> set (m_uuids m) \<and>
     (\<forall>k i. hotkey_of (im_matcher m) k = Some i \<longrightarrow> 0 \<le> i \<and> i < int (length (m_uuids m)))"

definition uuid_of :: "IMEngineHotkeyMatcher \<Rightarrow> event_key \<Rightarrow> bytes option" where
  "uuid_of m k = map_option (\<lambda>i. m_uuids m ! nat i) (hotkey_of (im_matcher m) k)"

lemma find_uuid_with:
  "find_uuid uuid uuids < length (with_uuid uuid uuids)" "with_uuid uuid uuids ! find_uuid uuid uuids = uuid"
  "\<exists>us. with_uuid uuid uuids = uuids @ us \<and> set us \<subseteq> {uuid}" "distinct uuids \<Longrightarrow> distinct (with_uuid uuid uuids)"
proof -
  have le: "find_uuid uuid uuids \<le> length uuids" by (simp add: find_uuid_def length_takeWhile_le)
  have new: "find_uuid uuid uuids = length uuids \<longleftrightarrow> uuid \<notin> set uuids"
    by (auto simp: find_uuid_def length_takeWhile_all)
  have "uuids ! find_uuid uuid uuids = uuid" if "find_uuid uuid uuids < length uuids"
    using nth_length_takeWhile [of "\<lambda>u. u \<noteq> uuid" uuids] that by (simp add: find_uuid_def)
  with le new show "find_uuid uuid uuids < length (with_uuid uuid uuids)"
    "with_uuid uuid uuids ! find_uuid uuid uuids = uuid"
    "\<exists>us. with_uuid uuid uuids = uuids @ us \<and> set us \<subseteq> {uuid}" "distinct uuids \<Longrightarrow> distinct (with_uuid uuid uuids)"
    by (auto simp: with_uuid_def nth_append)
qed

lemma imengine_range:
  assumes "imengine_inv m" "hotkey_of (im_matcher m) k = Some i"
  shows "0 \<le> i" "i < int (length (m_uuids m))" "nat i < length (m_uuids m)"
proof -
  have "0 \<le> i \<and> i < int (length (m_uuids m))" using assms by (simp add: imengine_inv_def)
  then show "0 \<le> i" "i < int (length (m_uuids m))" "nat i < length (m_uuids m)" by auto
qed

lemma uuid_of_number:
  assumes "imengine_inv m" "i < length (m_uuids m)"
  shows "uuid_of m k = Some (m_uuids m ! i) \<longleftrightarrow> hotkey_of (im_matcher m) k = Some (int i)"
proof
  assume "uuid_of m k = Some (m_uuids m ! i)"
  then obtain j where j: "hotkey_of (im_matcher m) k = Some j" "m_uuids m ! nat j = m_uuids m ! i"
    by (auto simp: uuid_of_def)
  note r = imengine_range [OF assms(1) j(1)]
  have "nat j = i" using assms j(2) r(3) by (simp add: imengine_inv_def nth_eq_iff_index_eq)
  with j(1) r(1) show "hotkey_of (im_matcher m) k = Some (int i)" by auto
qed (simp add: uuid_of_def)

text \<open>Adding hotkeys under a number, of a uuid that may be new.\<close>

lemma uuid_of_add:
  fixes keys :: "KeyEvent list" and uuid :: bytes
  assumes "imengine_inv m" "uuid \<noteq> []"
  defines "m' \<equiv> m\<lparr>im_matcher := add_hotkeys keys (int (find_uuid uuid (m_uuids m))) (im_matcher m),
    m_uuids := with_uuid uuid (m_uuids m)\<rparr>"
  shows "imengine_inv m'"
    "uuid_of m' = (\<lambda>k. if k \<in> key_id ` set keys \<and> k \<noteq> no_id then Some uuid else uuid_of m k)"
proof -
  note inv = assms(1) [unfolded imengine_inv_def]
  let ?i = "find_uuid uuid (m_uuids m)" and ?us = "with_uuid uuid (m_uuids m)"
  note add = hotkey_of_add_hotkeys [OF conjunct1 [OF inv], of keys "int ?i"]
  note with_us = find_uuid_with [where uuid = uuid and uuids = "m_uuids m"]
  obtain us where us: "?us = m_uuids m @ us" "set us \<subseteq> {uuid}" using with_us(3) by blast
  have "0 \<le> j \<and> j < int (length ?us)" if j: "hotkey_of (add_hotkeys keys (int ?i) (im_matcher m)) k = Some j" for k j
  proof (cases "hotkey_of (im_matcher m) k = Some j")
    case True
    then show ?thesis using imengine_range [OF assms(1)] us(1) by fastforce
  next
    case False
    then have "j = int ?i" using j add by (auto split: if_splits)
    then show ?thesis using with_us(1) by simp
  qed
  moreover have "[] \<notin> set ?us" using inv us assms(2) by auto
  ultimately show "imengine_inv m'"
    using inv add with_us(4) unfolding imengine_inv_def m'_def by simp
  show "uuid_of m' = (\<lambda>k. if k \<in> key_id ` set keys \<and> k \<noteq> no_id then Some uuid else uuid_of m k)"
  proof
    fix k
    have "map_option (\<lambda>i. ?us ! nat i) (hotkey_of (im_matcher m) k) = uuid_of m k"
      using imengine_range(3) [OF assms(1), of k]
      by (cases "hotkey_of (im_matcher m) k") (simp_all add: uuid_of_def us nth_append)
    moreover have "uuid_of m' k = map_option (\<lambda>i. ?us ! nat i) (hotkey_of (add_hotkeys keys (int ?i) (im_matcher m)) k)"
      by (simp add: uuid_of_def m'_def)
    ultimately show "uuid_of m' k = (if k \<in> key_id ` set keys \<and> k \<noteq> no_id then Some uuid else uuid_of m k)"
      using add with_us(2) by simp
  qed
qed

lemma singleton_hotkey:
  "add_hotkey key i m = add_hotkeys [key] i m"
  by (simp add: add_hotkeys_def)

lemma imengine_add_hotkey_eq: "imengine_add_hotkey key uuid m = (if key_empty key then m else imengine_add_hotkeys [key] uuid m)"
  by (simp add: imengine_add_hotkey_def imengine_add_hotkeys_def singleton_hotkey)

lemma imengine_add:
  assumes "imengine_inv m"
  shows "imengine_inv (imengine_add_hotkeys keys uuid m) \<and>
    uuid_of (imengine_add_hotkeys keys uuid m)
      = (\<lambda>k. if uuid \<noteq> [] \<and> k \<in> key_id ` set keys \<and> k \<noteq> no_id then Some uuid else uuid_of m k)"
proof (cases "keys = [] \<or> uuid = []")
  case True
  then show ?thesis using assms by (auto simp: imengine_add_hotkeys_def)
next
  case False
  then show ?thesis using uuid_of_add [OF assms, of uuid keys] by (simp add: imengine_add_hotkeys_def)
qed

lemma imengine_find:
  assumes "imengine_inv m"
  shows "key_id ` set (imengine_find_hotkeys uuid m) = {k. uuid_of m k = Some uuid}"
proof -
  note inv = assms [unfolded imengine_inv_def]
  let ?i = "find_uuid uuid (m_uuids m)"
  show ?thesis
  proof (cases "uuid \<in> set (m_uuids m)")
    case True
    then have w: "with_uuid uuid (m_uuids m) = m_uuids m"
      by (simp add: with_uuid_def find_uuid_def length_takeWhile_all)
    have i: "?i < length (m_uuids m)" "m_uuids m ! ?i = uuid"
      using find_uuid_with(1,2) [where uuid = uuid and uuids = "m_uuids m"] by (simp_all add: w)
    have "uuid_of m k = Some uuid \<longleftrightarrow> hotkey_of (im_matcher m) k = Some (int ?i)" for k
      using uuid_of_number [OF assms i(1)] by (simp add: i(2))
    then show ?thesis
      using i(1) inv by (simp add: imengine_find_hotkeys_def Let_def find_hotkeys_ids)
  next
    case False
    then have "?i = length (m_uuids m)" by (auto simp: find_uuid_def length_takeWhile_all)
    moreover have "uuid_of m k \<noteq> Some uuid" for k
    proof
      assume "uuid_of m k = Some uuid"
      then obtain i where "hotkey_of (im_matcher m) k = Some i" "m_uuids m ! nat i = uuid" by (auto simp: uuid_of_def)
      moreover from this(1) have "nat i < length (m_uuids m)" by (rule imengine_range [OF assms])
      ultimately show False using False nth_mem by blast
    qed
    ultimately show ?thesis by (simp add: imengine_find_hotkeys_def Let_def)
  qed
qed

lemma imengine_push:
  "imengine_inv m \<Longrightarrow> imengine_inv (imengine_push_key_event key m)"
  "uuid_of (imengine_push_key_event key m) = uuid_of m"
  by (simp_all add: imengine_inv_def uuid_of_def fun_eq_iff imengine_push_key_event_def matcher_inv_def)

text \<open>C35: The matcher of input method engines is a map from hotkeys to uuids: hotkeys that are added get the uuid and no
  others change, the hotkeys of a uuid are those that it was given last, pressing one gives its uuid, and the
  numbers of the hotkeys are places of the list of uuids, which has no duplicates.\<close>

theorem imengine_hotkeys_map:
  assumes "imengine_inv m"
  shows "imengine_inv (imengine_add_hotkeys keys uuid m) \<and> imengine_inv (imengine_push_key_event key m) \<and>
    uuid_of (imengine_add_hotkeys keys uuid m)
      = (\<lambda>k. if uuid \<noteq> [] \<and> k \<in> key_id ` set keys - {no_id} then Some uuid else uuid_of m k) \<and>
    key_id ` set (imengine_find_hotkeys uuid m) = {k. uuid_of m k = Some uuid} \<and>
    uuid_of (imengine_push_key_event key m) = uuid_of m \<and>
    imengine_match_result (imengine_push_key_event key m)
      = (if released key \<and> m_prev_code (im_matcher m) \<noteq> key_code key then []
         else case uuid_of m (key_id key) of Some u \<Rightarrow> u | None \<Rightarrow> [])"
proof -
  have "imengine_match_result (imengine_push_key_event key m)
      = (if released key \<and> m_prev_code (im_matcher m) \<noteq> key_code key then []
         else case uuid_of m (key_id key) of Some u \<Rightarrow> u | None \<Rightarrow> [])"
    using assms
    by (auto simp: imengine_match_result_def imengine_push_key_event_def push_key_event_def uuid_of_def hotkey_of_def
        key_id_def released_def imengine_inv_def Let_def split: option.splits prod.splits)
  with imengine_add [OF assms, of keys uuid] imengine_find [OF assms, of uuid] imengine_push [where m = m and key = key] assms
  show ?thesis by auto
qed

section \<open>Hotkeys in a configuration\<close>

lemma read_string_or_view: "key \<noteq> [] \<Longrightarrow> read_string_or key d c = (case view c key of Some v \<Rightarrow> v | None \<Rightarrow> d)"
  by (simp add: read_string_or_def value_or_def read_string_def find_value_view split: option.splits)

definition named_id :: "event_key \<Rightarrow> bool" where
  "named_id k \<longleftrightarrow> id_code k \<noteq> 0 \<and> id_code k \<noteq> SCIM_KEY_VoidSymbol \<and> id_mask k AND 0xC0FF = id_mask k"

text \<open>The hotkeys can be written.\<close>

definition named_hotkeys :: "HotkeyMatcher \<Rightarrow> bool" where
  "named_hotkeys m \<longleftrightarrow> (\<forall>k. hotkey_of m k \<noteq> None \<longrightarrow> named_id k)"

lemma find_hotkeys_named:
  assumes "matcher_inv m" "named_hotkeys m"
  shows "list_all named_key (find_hotkeys i m)"
proof -
  have "named_id (key_id key)" if "key \<in> set (find_hotkeys i m)" for key
  proof -
    have "hotkey_of m (key_id key) = Some i" using find_hotkeys_ids [OF assms(1), of i] that by blast
    with assms(2) show ?thesis by (simp add: named_hotkeys_def)
  qed
  then show ?thesis by (simp add: list_all_iff named_id_def named_key_def key_id_def)
qed

text \<open>The string of the hotkeys with a number, and what is read from it.\<close>

definition hotkey_string :: "HotkeyMatcher \<Rightarrow> int \<Rightarrow> bytes" where
  "hotkey_string m i = snd (scim_key_list_to_string (find_hotkeys i m))"

lemma hotkey_string_ok:
  "matcher_inv m \<Longrightarrow> named_hotkeys m \<Longrightarrow> fst (scim_key_list_to_string (find_hotkeys i m)) \<longleftrightarrow> find_hotkeys i m \<noteq> []"
  using key_list_string [OF find_hotkeys_named] by simp

lemma hotkey_string_read:
  assumes "matcher_inv m" "named_hotkeys m"
  shows "scim_string_to_key_list (hotkey_string m i)
    = Done (find_hotkeys i m \<noteq> [], map without_layout (find_hotkeys i m))"
  unfolding hotkey_string_def by (rule key_list_read [OF find_hotkeys_named [OF assms]])

lemma read_ids:
  "matcher_inv m \<Longrightarrow> key_id ` set (map without_layout (find_hotkeys i m)) = {k. hotkey_of m k = Some i}"
proof -
  have "key_id (without_layout key) = key_id key" for key by (simp add: key_id_def without_layout_def)
  moreover assume "matcher_inv m"
  ultimately show ?thesis using find_hotkeys_ids [of m i] by (simp add: image_image)
qed

lemma find_hotkeys_Nil: "matcher_inv m \<Longrightarrow> find_hotkeys i m = [] \<longleftrightarrow> (\<forall>k. hotkey_of m k \<noteq> Some i)"
  using find_hotkeys_ids [of m i] by auto

subsection \<open>Actions of front ends\<close>

abbreviation action_path :: "int \<Rightarrow> bytes" where "action_path i \<equiv> frontend_hotkey_config_paths ! nat i"
abbreviation action_default :: "int \<Rightarrow> bytes" where "action_default i \<equiv> frontend_hotkey_defaults ! nat i"

lemma actions: "is_action i \<longleftrightarrow> i \<in> {1, 2, 3, 4, 5, 6}"
  by (auto simp: is_action_def SCIM_FRONTEND_HOTKEY_TRIGGER_def SCIM_FRONTEND_HOTKEY_SHOW_FACTORY_MENU_def)

lemma all_actions: "set [SCIM_FRONTEND_HOTKEY_TRIGGER..SCIM_FRONTEND_HOTKEY_SHOW_FACTORY_MENU] = Collect is_action"
  by (auto simp: is_action_def)

lemma action_paths:
  "is_action i \<Longrightarrow> action_path i \<noteq> []" "is_action i \<Longrightarrow> is_action j \<Longrightarrow> action_path i = action_path j \<Longrightarrow> i = j"
  unfolding actions frontend_hotkey_config_paths_def by (auto simp: byte_of_char_inject)

lemma save_actions_view:
  assumes "matcher_inv m" "named_hotkeys m"
  shows "config_inv c \<Longrightarrow> \<forall>i \<in> set is. is_action i \<Longrightarrow>
    config_inv (save_actions is m c) \<and>
    (\<forall>i \<in> set is. find_hotkeys i m \<noteq> [] \<longrightarrow> view (save_actions is m c) (action_path i) = Some (hotkey_string m i)) \<and>
    (\<forall>p. (\<forall>i \<in> set is. find_hotkeys i m \<noteq> [] \<longrightarrow> p \<noteq> action_path i) \<longrightarrow> view (save_actions is m c) p = view c p)"
proof (induction "is" arbitrary: c)
  case (Cons i "is")
  let ?c = "if find_hotkeys i m \<noteq> [] then snd (write_string (action_path i) (hotkey_string m i) c) else c"
  have i: "is_action i" using Cons.prems by simp
  note w = write_string_view [OF Cons.prems(1) action_paths(1) [OF i], of "hotkey_string m i"]
  have c: "config_inv ?c" "view ?c = (if find_hotkeys i m \<noteq> [] then (view c)(action_path i \<mapsto> hotkey_string m i) else view c)"
    using w Cons.prems(1) by simp_all
  have s: "save_actions (i # is) m c = save_actions is m ?c"
    using hotkey_string_ok [OF assms, of i] by (simp add: Let_def case_prod_unfold hotkey_string_def)
  have "\<forall>i \<in> set is. is_action i" using Cons.prems(2) by simp
  note IH = Cons.IH [OF c(1) this]
  have other: "view (save_actions is m ?c) (action_path i) = Some (hotkey_string m i)" if "find_hotkeys i m \<noteq> []"
  proof (cases "i \<in> set is")
    case False
    then have "\<forall>j \<in> set is. find_hotkeys j m \<noteq> [] \<longrightarrow> action_path i \<noteq> action_path j"
      using action_paths(2) [OF i] Cons.prems(2) by auto
    then have "view (save_actions is m ?c) (action_path i) = view ?c (action_path i)" using IH by blast
    then show ?thesis using that unfolding c(2) by simp
  qed (use IH that in blast)
  show ?case
    unfolding s using IH other by (auto simp: c(2))
qed simp

lemma add_no_hotkeys [simp]: "add_hotkeys [] i m = m"
  by (simp add: add_hotkeys_def)

lemma load_actions_fold:
  "\<forall>i \<in> set is. scim_string_to_key_list (read_string_or (action_path i) (action_default i) c) = Done (ks i \<noteq> [], ks i) \<Longrightarrow>
   load_actions is c m = Done (fold (\<lambda>i. add_hotkeys (ks i) i) is m)"
proof (induction "is" arbitrary: m)
  case (Cons i "is")
  then show ?case by (cases "ks i = []") simp_all
qed simp

lemma fold_add_hotkeys:
  assumes "k \<noteq> no_id"
  shows "matcher_inv m \<Longrightarrow>
    matcher_inv (fold (\<lambda>i. add_hotkeys (ks i) i) (rev acts) m) \<and>
    hotkey_of (fold (\<lambda>i. add_hotkeys (ks i) i) (rev acts) m) k
      = (case List.find (\<lambda>i. k \<in> key_id ` set (ks i)) acts of Some i \<Rightarrow> Some i | None \<Rightarrow> hotkey_of m k)"
proof (induction acts)
  case (Cons i acts)
  let ?m = "fold (\<lambda>i. add_hotkeys (ks i) i) (rev acts) m"
  from Cons have IH: "matcher_inv ?m" "hotkey_of ?m k =
      (case List.find (\<lambda>i. k \<in> key_id ` set (ks i)) acts of Some i \<Rightarrow> Some i | None \<Rightarrow> hotkey_of m k)" by blast+
  from hotkey_of_add_hotkeys [OF IH(1), of "ks i" i] assms IH(2) show ?case by simp
qed simp

lemma find_itself: "i \<in> set xs \<Longrightarrow> List.find (\<lambda>j. i = j) xs = Some i"
  by (induction xs) auto

text \<open>C37: the hotkeys of front ends in a configuration. When every hotkey stands for an action and has a name, an
  action that has hotkeys is saved and is loaded with them. An action without hotkeys is not saved, so that it is loaded
  with what the configuration held for it before, or its defaults (\<open>old\<close>): hotkeys that were removed come back.
  Of several actions with the same hotkey the first one gets it, also when it has it from the configuration alone. So the
  hotkeys loaded are those saved if the configuration holds none for the actions without hotkeys.\<close>

theorem frontend_hotkeys_round_trip:
  assumes "matcher_inv m" "named_hotkeys m" "\<forall>k i. hotkey_of m k = Some i \<longrightarrow> is_action i" "config_inv c"
    and "\<forall>i. is_action i \<longrightarrow> find_hotkeys i m = [] \<longrightarrow>
      scim_string_to_key_list (read_string_or (frontend_hotkey_config_paths ! nat i) (frontend_hotkey_defaults ! nat i) c) =
        Done (old i \<noteq> [], old i)"
  shows "\<exists>m'. frontend_load_hotkeys (frontend_save_hotkeys m (Some c)) m0 = Done m' \<and>
    (\<forall>k. k \<noteq> Key_Id 0 0 \<longrightarrow> hotkey_of m' k =
      List.find (\<lambda>i. if find_hotkeys i m = [] then k \<in> key_id ` set (old i) else hotkey_of m k = Some i)
        [SCIM_FRONTEND_HOTKEY_TRIGGER..SCIM_FRONTEND_HOTKEY_SHOW_FACTORY_MENU]) \<and>
    ((\<forall>i. is_action i \<longrightarrow> find_hotkeys i m = [] \<longrightarrow> old i = []) \<longrightarrow> hotkey_of m' = hotkey_of m)"
proof -
  let ?is = "[SCIM_FRONTEND_HOTKEY_TRIGGER..SCIM_FRONTEND_HOTKEY_SHOW_FACTORY_MENU]"
  let ?c = "save_actions ?is m c"
  let ?ks = "\<lambda>i. if find_hotkeys i m = [] then old i else map without_layout (find_hotkeys i m)"
  let ?m' = "fold (\<lambda>i. add_hotkeys (?ks i) i) (rev ?is) (clear_matcher m0)"
  let ?P = "\<lambda>k i. if find_hotkeys i m = [] then k \<in> key_id ` set (old i) else hotkey_of m k = Some i"
  have acts: "\<forall>i \<in> set ?is. is_action i" unfolding all_actions by simp
  note saved = save_actions_view [OF assms(1,2,4) acts]
  have "scim_string_to_key_list (read_string_or (action_path i) (action_default i) ?c) = Done (?ks i \<noteq> [], ?ks i)"
    if i: "is_action i" for i
  proof (cases "find_hotkeys i m = []")
    case True
    have "\<forall>j \<in> set ?is. find_hotkeys j m \<noteq> [] \<longrightarrow> action_path i \<noteq> action_path j"
      using action_paths(2) [OF i] acts True by metis
    then have "view ?c (action_path i) = view c (action_path i)" using saved by blast
    then have "read_string_or (action_path i) (action_default i) ?c = read_string_or (action_path i) (action_default i) c"
      by (simp add: read_string_or_view action_paths(1) [OF i])
    with assms(5) i True show ?thesis by simp
  next
    case False
    then have "view ?c (action_path i) = Some (hotkey_string m i)" using saved i unfolding all_actions by blast
    with False show ?thesis
      using hotkey_string_read [OF assms(1,2), of i] by (simp add: read_string_or_view action_paths(1) [OF i])
  qed
  then have load: "load_actions (rev ?is) ?c (clear_matcher m0) = Done ?m'"
    using acts by (intro load_actions_fold) simp
  have P: "(k \<in> key_id ` set (?ks i)) = ?P k i" for k i
    using read_ids [OF assms(1), of i] by (auto simp del: set_map)
  have found: "hotkey_of ?m' k = List.find (?P k) ?is" if "k \<noteq> no_id" for k
    using fold_add_hotkeys [OF that hotkey_of_clear(2) [of m0], where ks = ?ks and acts = ?is] unfolding P
    by (simp split: option.split)
  moreover have "hotkey_of ?m' = hotkey_of m" if none: "\<forall>i. is_action i \<longrightarrow> find_hotkeys i m = [] \<longrightarrow> old i = []"
  proof
    fix k
    show "hotkey_of ?m' k = hotkey_of m k"
    proof (cases "k = no_id")
      case True
      have "matcher_inv ?m'" using fold_add_hotkeys [of "Key_Id 1 0", OF _ hotkey_of_clear(2) [of m0], where ks = ?ks and acts = ?is]
        by simp
      with True assms(1) show ?thesis by (simp add: matcher_inv_def)
    next
      case False
      have "?P k i \<longleftrightarrow> hotkey_of m k = Some i" if "i \<in> set ?is" for i
        using none acts that find_hotkeys_Nil [OF assms(1), of i] by auto
      then have "List.find (?P k) ?is = List.find (\<lambda>i. hotkey_of m k = Some i) ?is" by (intro find_cong) simp_all
      also have "\<dots> = hotkey_of m k"
      proof (cases "hotkey_of m k")
        case (Some i)
        with assms(3) have "i \<in> set ?is" unfolding all_actions by blast
        then have "List.find (\<lambda>j. i = j) ?is = Some i" by (rule find_itself)
        with Some show ?thesis by simp
      qed (simp add: find_None_iff)
      finally show ?thesis using found [OF False] by simp
    qed
  qed
  ultimately show ?thesis using load by (simp add: frontend_load_hotkeys_def frontend_save_hotkeys_def)
qed

lemma remdups_adj_sorted_distinct: "sorted s \<Longrightarrow> distinct (remdups_adj (s :: 'a::linorder list))"
  by (induction s rule: remdups_adj.induct) (auto simp: less_le)

subsection \<open>Input method engines\<close>

lemma imengine_paths:
  "imengine_path u \<noteq> []" "imengine_path u = imengine_path v \<longleftrightarrow> u = v"
  "imengine_path u = SCIM_CONFIG_HOTKEYS_IMENGINE_LIST \<longleftrightarrow> u = bytes_of ''List''"
  "SCIM_CONFIG_HOTKEYS_IMENGINE_LIST \<noteq> []"
  by (auto simp: imengine_path_def SCIM_CONFIG_HOTKEYS_IMENGINE_def SCIM_CONFIG_HOTKEYS_IMENGINE_LIST_def)

lemma save_uuids_view:
  assumes "matcher_inv (im_matcher m)" "named_hotkeys (im_matcher m)" "distinct (m_uuids m)"
  defines "saves \<equiv> \<lambda>i. find_hotkeys (int i) (im_matcher m) \<noteq> []"
  shows "config_inv c \<Longrightarrow> distinct is \<Longrightarrow> \<forall>i \<in> set is. i < length (m_uuids m) \<Longrightarrow>
    fst (save_uuids is m us c) = us @ map (\<lambda>i. m_uuids m ! i) (filter saves is) \<and>
    config_inv (snd (save_uuids is m us c)) \<and>
    (\<forall>i \<in> set is. saves i \<longrightarrow>
      view (snd (save_uuids is m us c)) (imengine_path (m_uuids m ! i)) = Some (hotkey_string (im_matcher m) (int i))) \<and>
    (\<forall>p. (\<forall>i \<in> set is. p \<noteq> imengine_path (m_uuids m ! i)) \<longrightarrow> view (snd (save_uuids is m us c)) p = view c p)"
proof (induction "is" arbitrary: us c)
  case (Cons i "is")
  let ?u = "m_uuids m ! i" and ?s = "hotkey_string (im_matcher m) (int i)"
  let ?c = "if saves i then snd (write_string (imengine_path ?u) ?s c) else c"
  let ?us = "if saves i then us @ [?u] else us"
  note w = write_string_view [OF Cons.prems(1) imengine_paths(1) [of ?u], of ?s]
  have c: "config_inv ?c" "view ?c = (if saves i then (view c)(imengine_path ?u \<mapsto> ?s) else view c)"
    using w Cons.prems(1) by simp_all
  have s: "save_uuids (i # is) m us c = save_uuids is m ?us ?c"
    using hotkey_string_ok [OF assms(1,2), of "int i"]
    by (simp add: Let_def case_prod_unfold hotkey_string_def saves_def)
  have d: "distinct is" "\<forall>i \<in> set is. i < length (m_uuids m)" using Cons.prems(2,3) by simp_all
  note IH = Cons.IH [OF c(1) d, of ?us]
  have "\<forall>j \<in> set is. imengine_path ?u \<noteq> imengine_path (m_uuids m ! j)"
    using Cons.prems(2,3) assms(3) by (auto simp: imengine_paths nth_eq_iff_index_eq)
  then have "view (snd (save_uuids is m ?us ?c)) (imengine_path ?u) = view ?c (imengine_path ?u)" using IH by blast
  with IH show ?case unfolding s by (auto simp: c(2))
qed simp

lemma load_uuids_map:
  assumes "U no_id = None"
  shows "imengine_inv m \<Longrightarrow> distinct (m_uuids m @ us) \<Longrightarrow> [] \<notin> set us \<Longrightarrow>
    \<forall>u \<in> set us. scim_string_to_key_list (read_string_or (imengine_path u) [] c) = Done (True, ks u) \<and>
      key_id ` set (ks u) = {k. U k = Some u} \<Longrightarrow>
    \<exists>m'. load_uuids us c m = Done m' \<and> imengine_inv m' \<and>
      uuid_of m' = (\<lambda>k. case U k of Some u \<Rightarrow> if u \<in> set us then Some u else uuid_of m k | None \<Rightarrow> uuid_of m k)"
proof (induction us arbitrary: m)
  case Nil
  then show ?case by (auto split: option.splits)
next
  case (Cons u us)
  have n: "find_uuid u (m_uuids m) = length (m_uuids m)"
    using Cons.prems(2) by (auto simp: find_uuid_def length_takeWhile_all)
  then have w: "with_uuid u (m_uuids m) = m_uuids m @ [u]" by (simp add: with_uuid_def)
  let ?m = "m\<lparr>im_matcher := add_hotkeys (ks u) (int (length (m_uuids m))) (im_matcher m), m_uuids := m_uuids m @ [u]\<rparr>"
  have "u \<noteq> []" using Cons.prems(3) by auto
  note add = uuid_of_add [OF Cons.prems(1) this, of "ks u", unfolded n w]
  have "distinct (m_uuids ?m @ us)" "[] \<notin> set us" using Cons.prems(2,3) by auto
  moreover have "\<forall>u \<in> set us. scim_string_to_key_list (read_string_or (imengine_path u) [] c) = Done (True, ks u) \<and>
      key_id ` set (ks u) = {k. U k = Some u}" using Cons.prems(4) by simp
  ultimately obtain m' where m': "load_uuids us c ?m = Done m'" "imengine_inv m'"
    "uuid_of m' = (\<lambda>k. case U k of Some u \<Rightarrow> if u \<in> set us then Some u else uuid_of ?m k | None \<Rightarrow> uuid_of ?m k)"
    using Cons.IH [OF add(1)] by blast
  have "uuid_of m' = (\<lambda>k. case U k of Some v \<Rightarrow> if v \<in> set (u # us) then Some v else uuid_of m k | None \<Rightarrow> uuid_of m k)"
    unfolding m'(3) add(2) using Cons.prems(4) assms by (auto simp: fun_eq_iff split: option.splits)
  then show ?case using m'(1,2) Cons.prems(4) by auto
qed

text \<open>C36: the hotkeys of input method engines in a configuration, if every one has a name and no uuid holds a comma or is
  the word List, under which the list of the uuids is kept. When the matcher knows an engine, those loaded after they were
  saved are the same, under the same uuids; when it knows none, saving leaves the configuration as it was, with the
  hotkeys that it held before.\<close>

theorem imengine_hotkeys_round_trip:
  assumes "imengine_inv m" "named_hotkeys (im_matcher m)" "config_inv c"
    "\<forall>u \<in> set (m_uuids m). COMMA \<notin> set u \<and> u \<noteq> bytes_of ''List''"
  shows "if m_uuids m = [] then imengine_save_hotkeys m (Some c) = Some c
    else \<exists>m'. imengine_load_hotkeys (imengine_save_hotkeys m (Some c)) m0 = Done m' \<and> imengine_inv m' \<and>
      uuid_of m' = uuid_of m"
proof (cases "m_uuids m = []")
  case False
  note inv = assms(1) [unfolded imengine_inv_def]
  let ?is = "[0..<length (m_uuids m)]" and ?saves = "\<lambda>i. find_hotkeys (int i) (im_matcher m) \<noteq> []"
  let ?us = "fst (save_uuids ?is m [] c)" and ?c = "snd (save_uuids ?is m [] c)"
  let ?C = "snd (write_string SCIM_CONFIG_HOTKEYS_IMENGINE_LIST (scim_combine_string_list ?us COMMA) ?c)"
  let ?ks = "\<lambda>u. map without_layout (imengine_find_hotkeys u m)"
  have mi: "matcher_inv (im_matcher m)" and d: "distinct (m_uuids m)" using inv by simp_all
  have "distinct ?is" "\<forall>i \<in> set ?is. i < length (m_uuids m)" by simp_all
  note saved = save_uuids_view [OF mi assms(2) d assms(3) this, of "[]"]
  have us: "?us = map (\<lambda>i. m_uuids m ! i) (filter ?saves ?is)" using saved by simp
  then have us_sub: "set ?us \<subseteq> set (m_uuids m)" by auto
  note w = write_string_view [OF _ imengine_paths(4), of ?c "scim_combine_string_list ?us COMMA"]
  have V: "view ?C = (view ?c)(SCIM_CONFIG_HOTKEYS_IMENGINE_LIST \<mapsto> scim_combine_string_list ?us COMMA)"
    using w saved by blast
  have "list_all (\<lambda>s. s \<noteq> [] \<and> COMMA \<notin> set s) ?us"
    using us_sub assms(4) inv by (auto simp: list_all_iff)
  then have list: "fst (scim_split_string_list (read_string_or SCIM_CONFIG_HOTKEYS_IMENGINE_LIST [] ?C) COMMA) = ?us"
    by (simp add: read_string_or_view imengine_paths(4) V split_words)
  have uuids: "u \<in> set ?us \<longleftrightarrow> (\<exists>k. uuid_of m k = Some u)" for u
  proof
    assume "u \<in> set ?us"
    then obtain i where i: "i < length (m_uuids m)" "u = m_uuids m ! i" "?saves i" by (auto simp: us)
    then show "\<exists>k. uuid_of m k = Some u" using uuid_of_number [OF assms(1)] find_hotkeys_Nil [OF mi] by metis
  next
    assume "\<exists>k. uuid_of m k = Some u"
    then obtain k j where j: "hotkey_of (im_matcher m) k = Some j" "u = m_uuids m ! nat j" by (auto simp: uuid_of_def)
    then have "0 \<le> j" "nat j < length (m_uuids m)" using imengine_range [OF assms(1)] by blast+
    moreover from this j have "?saves (nat j)" using find_hotkeys_Nil [OF mi] by auto
    ultimately show "u \<in> set ?us" unfolding us j(2) by auto
  qed
  have read: "scim_string_to_key_list (read_string_or (imengine_path u) [] ?C) = Done (True, ?ks u) \<and>
      key_id ` set (?ks u) = {k. uuid_of m k = Some u}" if u: "u \<in> set ?us" for u
  proof -
    obtain i where i: "i < length (m_uuids m)" "u = m_uuids m ! i" "?saves i" using u by (auto simp: us)
    have "find_uuid u (m_uuids m) = i"
    proof -
      have "with_uuid u (m_uuids m) = m_uuids m"
        using i by (auto simp: with_uuid_def find_uuid_def length_takeWhile_all)
      then show ?thesis
        using find_uuid_with(1,2) [where uuid = u and uuids = "m_uuids m"] i d by (simp add: nth_eq_iff_index_eq)
    qed
    then have f: "imengine_find_hotkeys u m = find_hotkeys (int i) (im_matcher m)"
      using i(1) by (simp add: imengine_find_hotkeys_def)
    have "view ?c (imengine_path u) = Some (hotkey_string (im_matcher m) (int i))" using saved i by auto
    moreover have "imengine_path u \<noteq> SCIM_CONFIG_HOTKEYS_IMENGINE_LIST"
      using assms(4) us_sub u by (auto simp: imengine_paths)
    ultimately have "read_string_or (imengine_path u) [] ?C = hotkey_string (im_matcher m) (int i)"
      by (simp add: read_string_or_view imengine_paths(1) V)
    then show ?thesis
      using hotkey_string_read [OF mi assms(2), of "int i"] i(3) read_ids [OF mi, of "int i"]
      unfolding f by (simp add: i(2) uuid_of_number [OF assms(1) i(1)] del: set_map)
  qed
  have sorted_us: "set (remdups_adj (sort ?us)) = set ?us" "distinct (remdups_adj (sort ?us))"
    by (simp_all add: remdups_adj_sorted_distinct)
  have clear: "imengine_inv (imengine_clear m0)" "m_uuids (imengine_clear m0) = []" "uuid_of (imengine_clear m0) = Map.empty"
    by (simp_all add: imengine_clear_def imengine_inv_def uuid_of_def fun_eq_iff)
  have U0: "uuid_of m no_id = None" using mi by (simp add: uuid_of_def matcher_inv_def)
  let ?S = "remdups_adj (sort ?us)"
  have "distinct (m_uuids (imengine_clear m0) @ ?S)" using sorted_us(2) clear(2) by simp
  moreover have "[] \<notin> set ?S" unfolding sorted_us(1) using us_sub inv by auto
  moreover have "\<forall>u \<in> set ?S. scim_string_to_key_list (read_string_or (imengine_path u) [] ?C) = Done (True, ?ks u) \<and>
      key_id ` set (?ks u) = {k. uuid_of m k = Some u}"
    unfolding sorted_us(1) using read by blast
  ultimately obtain m' where m': "load_uuids ?S ?C (imengine_clear m0) = Done m'" "imengine_inv m'"
    "uuid_of m' = (\<lambda>k. case uuid_of m k of Some u \<Rightarrow> if u \<in> set ?us then Some u else None | None \<Rightarrow> None)"
    using load_uuids_map [of "uuid_of m" "imengine_clear m0" ?S ?C ?ks, OF U0 clear(1)]
    unfolding clear(3) sorted_us(1) by blast
  have "uuid_of m' = uuid_of m" unfolding m'(3) using uuids by (auto simp: fun_eq_iff split: option.splits)
  moreover have "imengine_save_hotkeys m (Some c) = Some ?C"
    using False by (simp add: imengine_save_hotkeys_def case_prod_unfold Let_def)
  ultimately show ?thesis using m' list False by (auto simp: imengine_load_hotkeys_def Let_def)
qed (simp add: imengine_save_hotkeys_def)

section \<open>Witnesses\<close>

definition control_space :: KeyEvent where
  "control_space = \<lparr>key_code = 0x20, key_mask = 4, key_layout = 0\<rparr>"

definition demo_imengine :: IMEngineHotkeyMatcher where
  "demo_imengine = imengine_add_hotkey control_space (bytes_of ''u1'') new_IMEngineHotkeyMatcher"

definition demo_frontend :: HotkeyMatcher where
  "demo_frontend = frontend_add_hotkey control_space SCIM_FRONTEND_HOTKEY_OFF new_HotkeyMatcher"

definition empty_config :: SimpleConfig where
  "empty_config = \<lparr>m_config = [], m_new_config = [], m_erased_keys = [], m_update_timestamp = (0, 0), m_need_reload = False\<rparr>"

lemma new_matcher [simp]: "matcher_inv new_HotkeyMatcher" "hotkey_of new_HotkeyMatcher = Map.empty"
  by (simp_all add: matcher_inv_def hotkey_of_def new_HotkeyMatcher_def fun_eq_iff)

lemma empty_config_inv [simp]: "config_inv empty_config" "view empty_config = Map.empty"
  by (simp_all add: config_inv_def empty_config_def view_def)

lemma new_imengine [simp]: "imengine_inv new_IMEngineHotkeyMatcher" "uuid_of new_IMEngineHotkeyMatcher = Map.empty"
  by (simp_all add: imengine_inv_def new_IMEngineHotkeyMatcher_def uuid_of_def fun_eq_iff)

lemma control_space_id: "key_id control_space = Key_Id 0x20 4" "\<not> key_empty control_space" "named_id (Key_Id 0x20 4)"
  by (simp_all add: key_id_def control_space_def key_empty_def named_id_def SCIM_KEY_VoidSymbol_def)

lemma demo_imengine:
  "imengine_inv demo_imengine" "uuid_of demo_imengine = [Key_Id 0x20 4 \<mapsto> bytes_of ''u1'']"
  "m_uuids demo_imengine = [bytes_of ''u1'']" "hotkey_of (im_matcher demo_imengine) = [Key_Id 0x20 4 \<mapsto> 0]"
proof -
  note add = imengine_add [OF new_imengine(1), of "[control_space]" "bytes_of ''u1''"]
  show "imengine_inv demo_imengine" "uuid_of demo_imengine = [Key_Id 0x20 4 \<mapsto> bytes_of ''u1'']"
    using add by (auto simp: demo_imengine_def imengine_add_hotkey_eq control_space_id fun_eq_iff)
  show "m_uuids demo_imengine = [bytes_of ''u1'']" "hotkey_of (im_matcher demo_imengine) = [Key_Id 0x20 4 \<mapsto> 0]"
    by (simp_all add: demo_imengine_def imengine_add_hotkey_def control_space_id new_IMEngineHotkeyMatcher_def
        find_uuid_def with_uuid_def hotkey_of_add_hotkey)
qed

lemma imengine_hotkeys_map_witness:
  "imengine_match_result (imengine_push_key_event control_space demo_imengine) = bytes_of ''u1'' \<and>
   uuid_of (imengine_add_hotkeys [control_space] (bytes_of ''u2'') demo_imengine) (Key_Id 0x20 4) = Some (bytes_of ''u2'')"
proof -
  have "\<not> released control_space" by (simp add: released_def control_space_def)
  then show ?thesis
    using imengine_hotkeys_map [OF demo_imengine(1), of "[control_space]" "bytes_of ''u2''" control_space]
    by (simp add: demo_imengine control_space_id)
qed

lemma imengine_hotkeys_round_trip_witness:
  "\<exists>m'. imengine_load_hotkeys (imengine_save_hotkeys demo_imengine (Some empty_config)) new_IMEngineHotkeyMatcher = Done m' \<and>
     imengine_inv m' \<and> uuid_of m' = [Key_Id 0x20 4 \<mapsto> bytes_of ''u1'']"
proof -
  have "named_hotkeys (im_matcher demo_imengine)"
    using control_space_id(3) by (simp add: named_hotkeys_def demo_imengine)
  moreover have "COMMA \<notin> set (bytes_of ''u1'') \<and> bytes_of ''u1'' \<noteq> bytes_of ''List''"
    by (simp add: byte_of_char_def)
  ultimately show ?thesis
    using imengine_hotkeys_round_trip [OF demo_imengine(1) _ empty_config_inv(1), of new_IMEngineHotkeyMatcher]
    by (simp add: demo_imengine)
qed

lemma demo_frontend: "matcher_inv demo_frontend" "hotkey_of demo_frontend = [Key_Id 0x20 4 \<mapsto> 3]" "named_hotkeys demo_frontend"
proof -
  show h: "hotkey_of demo_frontend = [Key_Id 0x20 4 \<mapsto> 3]" and "matcher_inv demo_frontend"
    using hotkey_of_add_hotkey [OF new_matcher(1), of control_space SCIM_FRONTEND_HOTKEY_OFF]
    by (simp_all add: demo_frontend_def frontend_add_hotkey_def control_space_id is_action_def
        SCIM_FRONTEND_HOTKEY_TRIGGER_def SCIM_FRONTEND_HOTKEY_SHOW_FACTORY_MENU_def SCIM_FRONTEND_HOTKEY_OFF_def)
  show "named_hotkeys demo_frontend" using control_space_id(3) by (simp add: named_hotkeys_def h)
qed

text \<open>A configuration that names no hotkeys for the actions that have defaults.\<close>

definition no_hotkeys_config :: SimpleConfig where
  "no_hotkeys_config = fold (\<lambda>i c. snd (write_string (frontend_hotkey_config_paths ! nat i) [] c)) [1..6] empty_config"

lemma no_hotkeys_config:
  "config_inv no_hotkeys_config" "is_action i \<Longrightarrow> read_string_or (action_path i) d no_hotkeys_config = []"
proof -
  have all: "config_inv c \<Longrightarrow> \<forall>i \<in> set is. is_action i \<Longrightarrow>
      config_inv (fold (\<lambda>i c. snd (write_string (action_path i) [] c)) is c) \<and>
      (\<forall>i. i \<in> set is \<or> view c (action_path i) = Some [] \<longrightarrow>
        view (fold (\<lambda>i c. snd (write_string (action_path i) [] c)) is c) (action_path i) = Some [])" for "is" c
    by (induction "is" arbitrary: c) (simp_all add: write_string_view action_paths(1))
  have "\<forall>i \<in> set [1..6]. is_action i" by (auto simp: actions)
  note all = all [OF empty_config_inv(1) this, folded no_hotkeys_config_def]
  show "config_inv no_hotkeys_config" using all by blast
  assume i: "is_action i"
  then have "i \<in> set [1..6]" by (auto simp: actions)
  with all have "view no_hotkeys_config (action_path i) = Some []" by blast
  then show "read_string_or (action_path i) d no_hotkeys_config = []" by (simp add: read_string_or_view action_paths(1) [OF i])
qed

text \<open>One that names the hotkey of the demonstration for another action, which has lost it since.\<close>

definition trigger_config :: SimpleConfig where
  "trigger_config = snd (write_string (frontend_hotkey_config_paths ! nat SCIM_FRONTEND_HOTKEY_TRIGGER)
     (snd (scim_key_list_to_string [control_space])) no_hotkeys_config)"

lemma trigger_config:
  "config_inv trigger_config" "is_action i \<Longrightarrow> scim_string_to_key_list (read_string_or (action_path i) d trigger_config) =
     Done (i = SCIM_FRONTEND_HOTKEY_TRIGGER, if i = SCIM_FRONTEND_HOTKEY_TRIGGER then [control_space] else [])"
proof -
  have t: "is_action SCIM_FRONTEND_HOTKEY_TRIGGER" by (simp add: actions SCIM_FRONTEND_HOTKEY_TRIGGER_def)
  note w = write_string_view [OF no_hotkeys_config(1) action_paths(1) [OF t], folded trigger_config_def]
  show "config_inv trigger_config" using w by (simp add: trigger_config_def)
  have r: "scim_string_to_key_list (snd (scim_key_list_to_string [control_space])) = Done (True, [control_space])"
    using key_list_read [of "[control_space]"]
    by (simp add: named_key_def control_space_def without_layout_def SCIM_KEY_VoidSymbol_def)
  assume i: "is_action i"
  have v: "view trigger_config = (view no_hotkeys_config)
      (action_path SCIM_FRONTEND_HOTKEY_TRIGGER \<mapsto> snd (scim_key_list_to_string [control_space]))"
    using w by (simp add: trigger_config_def)
  show "scim_string_to_key_list (read_string_or (action_path i) d trigger_config) =
     Done (i = SCIM_FRONTEND_HOTKEY_TRIGGER, if i = SCIM_FRONTEND_HOTKEY_TRIGGER then [control_space] else [])"
  proof (cases "i = SCIM_FRONTEND_HOTKEY_TRIGGER")
    case True
    with r show ?thesis by (simp add: read_string_or_view action_paths(1) [OF t] v)
  next
    case False
    with action_paths(2) [OF i t] have "action_path i \<noteq> action_path SCIM_FRONTEND_HOTKEY_TRIGGER" by blast
    with no_hotkeys_config(2) [OF i, of d] False show ?thesis
      by (simp add: read_string_or_view action_paths(1) [OF i] v scim_string_to_key_list_def scim_split_string_list_def)
  qed
qed

lemma frontend_hotkeys_round_trip_witness:
  "(\<exists>m'. frontend_load_hotkeys (frontend_save_hotkeys demo_frontend (Some no_hotkeys_config)) new_HotkeyMatcher = Done m' \<and>
     hotkey_of m' = [Key_Id 0x20 4 \<mapsto> SCIM_FRONTEND_HOTKEY_OFF]) \<and>
   (\<exists>m'. frontend_load_hotkeys (frontend_save_hotkeys demo_frontend (Some trigger_config)) new_HotkeyMatcher = Done m' \<and>
     hotkey_of m' (Key_Id 0x20 4) = Some SCIM_FRONTEND_HOTKEY_TRIGGER)"
proof -
  have acts: "\<forall>k i. hotkey_of demo_frontend k = Some i \<longrightarrow> is_action i" by (simp add: demo_frontend(2) actions)
  let ?old = "\<lambda>i. if i = SCIM_FRONTEND_HOTKEY_TRIGGER then [control_space] else []"
  have ne: "Key_Id 0x20 4 \<noteq> Key_Id 0 0" by simp
  note rt = frontend_hotkeys_round_trip [OF demo_frontend(1,3) acts]
  have "find_hotkeys 1 demo_frontend = []"
    using find_hotkeys_Nil [OF demo_frontend(1)] by (simp add: demo_frontend(2))
  moreover from rt [OF no_hotkeys_config(1), of "\<lambda>_. []" new_HotkeyMatcher] no_hotkeys_config(2) obtain m1 where
    "frontend_load_hotkeys (frontend_save_hotkeys demo_frontend (Some no_hotkeys_config)) new_HotkeyMatcher = Done m1"
    "hotkey_of m1 = hotkey_of demo_frontend"
    by (auto simp: scim_string_to_key_list_def scim_split_string_list_def)
  moreover have "\<forall>i. is_action i \<longrightarrow> find_hotkeys i demo_frontend = [] \<longrightarrow>
      scim_string_to_key_list (read_string_or (action_path i) (action_default i) trigger_config) = Done (?old i \<noteq> [], ?old i)"
    using trigger_config(2) by simp
  from rt [OF trigger_config(1) this, of new_HotkeyMatcher] ne obtain m2 where
    "frontend_load_hotkeys (frontend_save_hotkeys demo_frontend (Some trigger_config)) new_HotkeyMatcher = Done m2"
    "hotkey_of m2 (Key_Id 0x20 4) =
      List.find (\<lambda>i. if find_hotkeys i demo_frontend = []
          then Key_Id 0x20 4 \<in> key_id ` set (?old i)
          else hotkey_of demo_frontend (Key_Id 0x20 4) = Some i)
        [SCIM_FRONTEND_HOTKEY_TRIGGER..SCIM_FRONTEND_HOTKEY_SHOW_FACTORY_MENU]" by blast
  moreover have "[SCIM_FRONTEND_HOTKEY_TRIGGER..SCIM_FRONTEND_HOTKEY_SHOW_FACTORY_MENU] = [1, 2, 3, 4, 5, 6]"
    by (simp add: SCIM_FRONTEND_HOTKEY_TRIGGER_def SCIM_FRONTEND_HOTKEY_SHOW_FACTORY_MENU_def upto_rec1)
  ultimately show ?thesis
    by (simp add: demo_frontend(2) control_space_id SCIM_FRONTEND_HOTKEY_TRIGGER_def SCIM_FRONTEND_HOTKEY_OFF_def)
qed

end
