(* ===== verification/Core_Compose_Table.thy ===== *)
theory Core_Compose_Table
  imports Core_Strings
begin

text \<open>
  The compose sequences of \<^verbatim>\<open>src/scim_compose_key_data.h\<close>: five keys, padded with zeros, and the character
  that they compose, as the constants of the initializer. Each part holds at most 150 lines.
\<close>

type_synonym compose_row = "int list \<times> int"

definition compose_rows_1 :: "compose_row list" where
  "compose_rows_1 =
   [([0x1E9F, 0x41, 0, 0, 0], 0xC3), ([0x1E9F, 0x45, 0, 0, 0], 0x1EBC), ([0x1E9F, 0x49, 0, 0, 0], 0x128),
    ([0x1E9F, 0x4E, 0, 0, 0], 0xD1), ([0x1E9F, 0x4F, 0, 0, 0], 0xD5), ([0x1E9F, 0x55, 0, 0, 0], 0x168),
    ([0x1E9F, 0x56, 0, 0, 0], 0x1E7C), ([0x1E9F, 0x59, 0, 0, 0], 0x1EF8), ([0x1E9F, 0x61, 0, 0, 0], 0xE3),
    ([0x1E9F, 0x65, 0, 0, 0], 0x1EBD), ([0x1E9F, 0x69, 0, 0, 0], 0x129), ([0x1E9F, 0x6E, 0, 0, 0], 0xF1),
    ([0x1E9F, 0x6F, 0, 0, 0], 0xF5), ([0x1E9F, 0x75, 0, 0, 0], 0x169), ([0x1E9F, 0x76, 0, 0, 0], 0x1E7D),
    ([0x1E9F, 0x79, 0, 0, 0], 0x1EF9), ([0x1E9F, 0xC2, 0, 0, 0], 0x1EAA), ([0x1E9F, 0xCA, 0, 0, 0], 0x1EC4),
    ([0x1E9F, 0xD4, 0, 0, 0], 0x1ED6), ([0x1E9F, 0xE2, 0, 0, 0], 0x1EAB), ([0x1E9F, 0xEA, 0, 0, 0], 0x1EC5),
    ([0x1E9F, 0xF4, 0, 0, 0], 0x1ED7), ([0x1E9F, 0x1C3, 0, 0, 0], 0x1EB4), ([0x1E9F, 0x1E3, 0, 0, 0], 0x1EB5),
    ([0x1E9F, 0x1EFA, 0, 0, 0], 0x1EE0), ([0x1E9F, 0x1EFB, 0, 0, 0], 0x1EE1),
    ([0x1E9F, 0x1EFC, 0, 0, 0], 0x1EEE), ([0x1E9F, 0x1EFD, 0, 0, 0], 0x1EEF),
    ([0x1E9F, 0xFE52, 0x41, 0, 0], 0x1EAA), ([0x1E9F, 0xFE52, 0x45, 0, 0], 0x1EC4),
    ([0x1E9F, 0xFE52, 0x4F, 0, 0], 0x1ED6), ([0x1E9F, 0xFE52, 0x61, 0, 0], 0x1EAB),
    ([0x1E9F, 0xFE52, 0x65, 0, 0], 0x1EC5), ([0x1E9F, 0xFE52, 0x6F, 0, 0], 0x1ED7),
    ([0x1E9F, 0xFE55, 0x41, 0, 0], 0x1EB4), ([0x1E9F, 0xFE55, 0x61, 0, 0], 0x1EB5),
    ([0x1E9F, 0xFE62, 0x4F, 0, 0], 0x1EE0), ([0x1E9F, 0xFE62, 0x55, 0, 0], 0x1EEE),
    ([0x1E9F, 0xFE62, 0x6F, 0, 0], 0x1EE1), ([0x1E9F, 0xFE62, 0x75, 0, 0], 0x1EEF),
    ([0x1E9F, 0xFF20, 0x2B, 0x4F, 0], 0x1EE0), ([0x1E9F, 0xFF20, 0x2B, 0x55, 0], 0x1EEE),
    ([0x1E9F, 0xFF20, 0x2B, 0x6F, 0], 0x1EE1), ([0x1E9F, 0xFF20, 0x2B, 0x75, 0], 0x1EEF),
    ([0x1E9F, 0xFF20, 0x55, 0x41, 0], 0x1EB4), ([0x1E9F, 0xFF20, 0x55, 0x61, 0], 0x1EB5),
    ([0x1E9F, 0xFF20, 0x5E, 0x41, 0], 0x1EAA), ([0x1E9F, 0xFF20, 0x5E, 0x45, 0], 0x1EC4),
    ([0x1E9F, 0xFF20, 0x5E, 0x4F, 0], 0x1ED6), ([0x1E9F, 0xFF20, 0x5E, 0x61, 0], 0x1EAB),
    ([0x1E9F, 0xFF20, 0x5E, 0x65, 0], 0x1EC5), ([0x1E9F, 0xFF20, 0x5E, 0x6F, 0], 0x1ED7),
    ([0x1E9F, 0xFF20, 0x62, 0x41, 0], 0x1EB4), ([0x1E9F, 0xFF20, 0x62, 0x61, 0], 0x1EB5),
    ([0x1EF2, 0x41, 0, 0, 0], 0xC0), ([0x1EF2, 0x45, 0, 0, 0], 0xC8), ([0x1EF2, 0x49, 0, 0, 0], 0xCC),
    ([0x1EF2, 0x4E, 0, 0, 0], 0x1F8), ([0x1EF2, 0x4F, 0, 0, 0], 0xD2), ([0x1EF2, 0x55, 0, 0, 0], 0xD9),
    ([0x1EF2, 0x57, 0, 0, 0], 0x1E80), ([0x1EF2, 0x59, 0, 0, 0], 0x1EF2), ([0x1EF2, 0x61, 0, 0, 0], 0xE0),
    ([0x1EF2, 0x65, 0, 0, 0], 0xE8), ([0x1EF2, 0x69, 0, 0, 0], 0xEC), ([0x1EF2, 0x6E, 0, 0, 0], 0x1F9),
    ([0x1EF2, 0x6F, 0, 0, 0], 0xF2), ([0x1EF2, 0x75, 0, 0, 0], 0xF9), ([0x1EF2, 0x77, 0, 0, 0], 0x1E81),
    ([0x1EF2, 0x79, 0, 0, 0], 0x1EF3), ([0x1EF2, 0xC2, 0, 0, 0], 0x1EA6), ([0x1EF2, 0xCA, 0, 0, 0], 0x1EC0),
    ([0x1EF2, 0xD4, 0, 0, 0], 0x1ED2), ([0x1EF2, 0xDC, 0, 0, 0], 0x1DB), ([0x1EF2, 0xE2, 0, 0, 0], 0x1EA7),
    ([0x1EF2, 0xEA, 0, 0, 0], 0x1EC1), ([0x1EF2, 0xF4, 0, 0, 0], 0x1ED3), ([0x1EF2, 0xFC, 0, 0, 0], 0x1DC),
    ([0x1EF2, 0x1C3, 0, 0, 0], 0x1EB0), ([0x1EF2, 0x1E3, 0, 0, 0], 0x1EB1), ([0x1EF2, 0x3AA, 0, 0, 0], 0x1E14),
    ([0x1EF2, 0x3BA, 0, 0, 0], 0x1E15), ([0x1EF2, 0x3D2, 0, 0, 0], 0x1E50), ([0x1EF2, 0x3F2, 0, 0, 0], 0x1E51),
    ([0x1EF2, 0x6C5, 0, 0, 0], 0x450), ([0x1EF2, 0x6C9, 0, 0, 0], 0x45D), ([0x1EF2, 0x6E5, 0, 0, 0], 0x400),
    ([0x1EF2, 0x6E9, 0, 0, 0], 0x40D), ([0x1EF2, 0x7B5, 0, 0, 0], 0x1FD2), ([0x1EF2, 0x7B9, 0, 0, 0], 0x1FE2),
    ([0x1EF2, 0x7C1, 0, 0, 0], 0x1FBA), ([0x1EF2, 0x7C5, 0, 0, 0], 0x1FC8), ([0x1EF2, 0x7C7, 0, 0, 0], 0x1FCA),
    ([0x1EF2, 0x7C9, 0, 0, 0], 0x1FDA), ([0x1EF2, 0x7CF, 0, 0, 0], 0x1FF8), ([0x1EF2, 0x7D5, 0, 0, 0], 0x1FEA),
    ([0x1EF2, 0x7D9, 0, 0, 0], 0x1FFA), ([0x1EF2, 0x7E1, 0, 0, 0], 0x1F70), ([0x1EF2, 0x7E5, 0, 0, 0], 0x1F72),
    ([0x1EF2, 0x7E7, 0, 0, 0], 0x1F74), ([0x1EF2, 0x7E9, 0, 0, 0], 0x1F76), ([0x1EF2, 0x7EF, 0, 0, 0], 0x1F78),
    ([0x1EF2, 0x7F5, 0, 0, 0], 0x1F7A), ([0x1EF2, 0x7F9, 0, 0, 0], 0x1F7C),
    ([0x1EF2, 0x1EFA, 0, 0, 0], 0x1EDC), ([0x1EF2, 0x1EFB, 0, 0, 0], 0x1EDD),
    ([0x1EF2, 0x1EFC, 0, 0, 0], 0x1EEA), ([0x1EF2, 0x1EFD, 0, 0, 0], 0x1EEB),
    ([0x1EF2, 0xFE52, 0x41, 0, 0], 0x1EA6), ([0x1EF2, 0xFE52, 0x45, 0, 0], 0x1EC0),
    ([0x1EF2, 0xFE52, 0x4F, 0, 0], 0x1ED2), ([0x1EF2, 0xFE52, 0x61, 0, 0], 0x1EA7),
    ([0x1EF2, 0xFE52, 0x65, 0, 0], 0x1EC1), ([0x1EF2, 0xFE52, 0x6F, 0, 0], 0x1ED3),
    ([0x1EF2, 0xFE54, 0x45, 0, 0], 0x1E14), ([0x1EF2, 0xFE54, 0x4F, 0, 0], 0x1E50),
    ([0x1EF2, 0xFE54, 0x65, 0, 0], 0x1E15), ([0x1EF2, 0xFE54, 0x6F, 0, 0], 0x1E51),
    ([0x1EF2, 0xFE55, 0x41, 0, 0], 0x1EB0), ([0x1EF2, 0xFE55, 0x61, 0, 0], 0x1EB1),
    ([0x1EF2, 0xFE57, 0x55, 0, 0], 0x1DB), ([0x1EF2, 0xFE57, 0x75, 0, 0], 0x1DC),
    ([0x1EF2, 0xFE57, 0x7E9, 0, 0], 0x1FD2), ([0x1EF2, 0xFE57, 0x7F5, 0, 0], 0x1FE2),
    ([0x1EF2, 0xFE62, 0x4F, 0, 0], 0x1EDC), ([0x1EF2, 0xFE62, 0x55, 0, 0], 0x1EEA),
    ([0x1EF2, 0xFE62, 0x6F, 0, 0], 0x1EDD), ([0x1EF2, 0xFE62, 0x75, 0, 0], 0x1EEB),
    ([0x1EF2, 0xFF20, 0x22, 0x55, 0], 0x1DB), ([0x1EF2, 0xFF20, 0x22, 0x75, 0], 0x1DC),
    ([0x1EF2, 0xFF20, 0x22, 0x7E9, 0], 0x1FD2), ([0x1EF2, 0xFF20, 0x22, 0x7F5, 0], 0x1FE2),
    ([0x1EF2, 0xFF20, 0x28, 0x7C1, 0], 0x1F0B), ([0x1EF2, 0xFF20, 0x28, 0x7C5, 0], 0x1F1B),
    ([0x1EF2, 0xFF20, 0x28, 0x7C7, 0], 0x1F2B), ([0x1EF2, 0xFF20, 0x28, 0x7C9, 0], 0x1F3B),
    ([0x1EF2, 0xFF20, 0x28, 0x7CF, 0], 0x1F4B), ([0x1EF2, 0xFF20, 0x28, 0x7D5, 0], 0x1F5B),
    ([0x1EF2, 0xFF20, 0x28, 0x7D9, 0], 0x1F6B), ([0x1EF2, 0xFF20, 0x28, 0x7E1, 0], 0x1F03),
    ([0x1EF2, 0xFF20, 0x28, 0x7E5, 0], 0x1F13), ([0x1EF2, 0xFF20, 0x28, 0x7E7, 0], 0x1F23),
    ([0x1EF2, 0xFF20, 0x28, 0x7E9, 0], 0x1F33), ([0x1EF2, 0xFF20, 0x28, 0x7EF, 0], 0x1F43),
    ([0x1EF2, 0xFF20, 0x28, 0x7F5, 0], 0x1F53), ([0x1EF2, 0xFF20, 0x28, 0x7F9, 0], 0x1F63),
    ([0x1EF2, 0xFF20, 0x29, 0x7C1, 0], 0x1F0A), ([0x1EF2, 0xFF20, 0x29, 0x7C5, 0], 0x1F1A)]"

definition compose_rows_2 :: "compose_row list" where
  "compose_rows_2 =
   [([0x1EF2, 0xFF20, 0x29, 0x7C7, 0], 0x1F2A), ([0x1EF2, 0xFF20, 0x29, 0x7C9, 0], 0x1F3A),
    ([0x1EF2, 0xFF20, 0x29, 0x7CF, 0], 0x1F4A), ([0x1EF2, 0xFF20, 0x29, 0x7D9, 0], 0x1F6A),
    ([0x1EF2, 0xFF20, 0x29, 0x7E1, 0], 0x1F02), ([0x1EF2, 0xFF20, 0x29, 0x7E5, 0], 0x1F12),
    ([0x1EF2, 0xFF20, 0x29, 0x7E7, 0], 0x1F22), ([0x1EF2, 0xFF20, 0x29, 0x7E9, 0], 0x1F32),
    ([0x1EF2, 0xFF20, 0x29, 0x7EF, 0], 0x1F42), ([0x1EF2, 0xFF20, 0x29, 0x7F5, 0], 0x1F52),
    ([0x1EF2, 0xFF20, 0x29, 0x7F9, 0], 0x1F62), ([0x1EF2, 0xFF20, 0x2B, 0x4F, 0], 0x1EDC),
    ([0x1EF2, 0xFF20, 0x2B, 0x55, 0], 0x1EEA), ([0x1EF2, 0xFF20, 0x2B, 0x6F, 0], 0x1EDD),
    ([0x1EF2, 0xFF20, 0x2B, 0x75, 0], 0x1EEB), ([0x1EF2, 0xFF20, 0x55, 0x41, 0], 0x1EB0),
    ([0x1EF2, 0xFF20, 0x55, 0x61, 0], 0x1EB1), ([0x1EF2, 0xFF20, 0x5E, 0x41, 0], 0x1EA6),
    ([0x1EF2, 0xFF20, 0x5E, 0x45, 0], 0x1EC0), ([0x1EF2, 0xFF20, 0x5E, 0x4F, 0], 0x1ED2),
    ([0x1EF2, 0xFF20, 0x5E, 0x61, 0], 0x1EA7), ([0x1EF2, 0xFF20, 0x5E, 0x65, 0], 0x1EC1),
    ([0x1EF2, 0xFF20, 0x5E, 0x6F, 0], 0x1ED3), ([0x1EF2, 0xFF20, 0x5F, 0x45, 0], 0x1E14),
    ([0x1EF2, 0xFF20, 0x5F, 0x4F, 0], 0x1E50), ([0x1EF2, 0xFF20, 0x5F, 0x65, 0], 0x1E15),
    ([0x1EF2, 0xFF20, 0x5F, 0x6F, 0], 0x1E51), ([0x1EF2, 0xFF20, 0x62, 0x41, 0], 0x1EB0),
    ([0x1EF2, 0xFF20, 0x62, 0x61, 0], 0x1EB1), ([0x1EF2, 0xFF20, 0xAF, 0x45, 0], 0x1E14),
    ([0x1EF2, 0xFF20, 0xAF, 0x4F, 0], 0x1E50), ([0x1EF2, 0xFF20, 0xAF, 0x65, 0], 0x1E15),
    ([0x1EF2, 0xFF20, 0xAF, 0x6F, 0], 0x1E51), ([0x1EF2, 0x1000313, 0x7C1, 0, 0], 0x1F0A),
    ([0x1EF2, 0x1000313, 0x7C5, 0, 0], 0x1F1A), ([0x1EF2, 0x1000313, 0x7C7, 0, 0], 0x1F2A),
    ([0x1EF2, 0x1000313, 0x7C9, 0, 0], 0x1F3A), ([0x1EF2, 0x1000313, 0x7CF, 0, 0], 0x1F4A),
    ([0x1EF2, 0x1000313, 0x7D9, 0, 0], 0x1F6A), ([0x1EF2, 0x1000313, 0x7E1, 0, 0], 0x1F02),
    ([0x1EF2, 0x1000313, 0x7E5, 0, 0], 0x1F12), ([0x1EF2, 0x1000313, 0x7E7, 0, 0], 0x1F22),
    ([0x1EF2, 0x1000313, 0x7E9, 0, 0], 0x1F32), ([0x1EF2, 0x1000313, 0x7EF, 0, 0], 0x1F42),
    ([0x1EF2, 0x1000313, 0x7F5, 0, 0], 0x1F52), ([0x1EF2, 0x1000313, 0x7F9, 0, 0], 0x1F62),
    ([0x1EF2, 0x1000314, 0x7C1, 0, 0], 0x1F0B), ([0x1EF2, 0x1000314, 0x7C5, 0, 0], 0x1F1B),
    ([0x1EF2, 0x1000314, 0x7C7, 0, 0], 0x1F2B), ([0x1EF2, 0x1000314, 0x7C9, 0, 0], 0x1F3B),
    ([0x1EF2, 0x1000314, 0x7CF, 0, 0], 0x1F4B), ([0x1EF2, 0x1000314, 0x7D5, 0, 0], 0x1F5B),
    ([0x1EF2, 0x1000314, 0x7D9, 0, 0], 0x1F6B), ([0x1EF2, 0x1000314, 0x7E1, 0, 0], 0x1F03),
    ([0x1EF2, 0x1000314, 0x7E5, 0, 0], 0x1F13), ([0x1EF2, 0x1000314, 0x7E7, 0, 0], 0x1F23),
    ([0x1EF2, 0x1000314, 0x7E9, 0, 0], 0x1F33), ([0x1EF2, 0x1000314, 0x7EF, 0, 0], 0x1F43),
    ([0x1EF2, 0x1000314, 0x7F5, 0, 0], 0x1F53), ([0x1EF2, 0x1000314, 0x7F9, 0, 0], 0x1F63),
    ([0x1EF2, 0x1001F00, 0, 0, 0], 0x1F02), ([0x1EF2, 0x1001F01, 0, 0, 0], 0x1F03),
    ([0x1EF2, 0x1001F08, 0, 0, 0], 0x1F0A), ([0x1EF2, 0x1001F09, 0, 0, 0], 0x1F0B),
    ([0x1EF2, 0x1001F10, 0, 0, 0], 0x1F12), ([0x1EF2, 0x1001F11, 0, 0, 0], 0x1F13),
    ([0x1EF2, 0x1001F18, 0, 0, 0], 0x1F1A), ([0x1EF2, 0x1001F19, 0, 0, 0], 0x1F1B),
    ([0x1EF2, 0x1001F20, 0, 0, 0], 0x1F22), ([0x1EF2, 0x1001F21, 0, 0, 0], 0x1F23),
    ([0x1EF2, 0x1001F28, 0, 0, 0], 0x1F2A), ([0x1EF2, 0x1001F29, 0, 0, 0], 0x1F2B),
    ([0x1EF2, 0x1001F30, 0, 0, 0], 0x1F32), ([0x1EF2, 0x1001F31, 0, 0, 0], 0x1F33),
    ([0x1EF2, 0x1001F38, 0, 0, 0], 0x1F3A), ([0x1EF2, 0x1001F39, 0, 0, 0], 0x1F3B),
    ([0x1EF2, 0x1001F40, 0, 0, 0], 0x1F42), ([0x1EF2, 0x1001F41, 0, 0, 0], 0x1F43),
    ([0x1EF2, 0x1001F48, 0, 0, 0], 0x1F4A), ([0x1EF2, 0x1001F49, 0, 0, 0], 0x1F4B),
    ([0x1EF2, 0x1001F50, 0, 0, 0], 0x1F52), ([0x1EF2, 0x1001F51, 0, 0, 0], 0x1F53),
    ([0x1EF2, 0x1001F59, 0, 0, 0], 0x1F5B), ([0x1EF2, 0x1001F60, 0, 0, 0], 0x1F62),
    ([0x1EF2, 0x1001F61, 0, 0, 0], 0x1F63), ([0x1EF2, 0x1001F68, 0, 0, 0], 0x1F6A),
    ([0x1EF2, 0x1001F69, 0, 0, 0], 0x1F6B), ([0x1EF3, 0x41, 0, 0, 0], 0xC1), ([0x1EF3, 0x43, 0, 0, 0], 0x106),
    ([0x1EF3, 0x45, 0, 0, 0], 0xC9), ([0x1EF3, 0x47, 0, 0, 0], 0x1F4), ([0x1EF3, 0x49, 0, 0, 0], 0xCD),
    ([0x1EF3, 0x4B, 0, 0, 0], 0x1E30), ([0x1EF3, 0x4C, 0, 0, 0], 0x139), ([0x1EF3, 0x4D, 0, 0, 0], 0x1E3E),
    ([0x1EF3, 0x4E, 0, 0, 0], 0x143), ([0x1EF3, 0x4F, 0, 0, 0], 0xD3), ([0x1EF3, 0x50, 0, 0, 0], 0x1E54),
    ([0x1EF3, 0x52, 0, 0, 0], 0x154), ([0x1EF3, 0x53, 0, 0, 0], 0x15A), ([0x1EF3, 0x55, 0, 0, 0], 0xDA),
    ([0x1EF3, 0x57, 0, 0, 0], 0x1E82), ([0x1EF3, 0x59, 0, 0, 0], 0xDD), ([0x1EF3, 0x5A, 0, 0, 0], 0x179),
    ([0x1EF3, 0x61, 0, 0, 0], 0xE1), ([0x1EF3, 0x63, 0, 0, 0], 0x107), ([0x1EF3, 0x65, 0, 0, 0], 0xE9),
    ([0x1EF3, 0x67, 0, 0, 0], 0x1F5), ([0x1EF3, 0x69, 0, 0, 0], 0xED), ([0x1EF3, 0x6B, 0, 0, 0], 0x1E31),
    ([0x1EF3, 0x6C, 0, 0, 0], 0x13A), ([0x1EF3, 0x6D, 0, 0, 0], 0x1E3F), ([0x1EF3, 0x6E, 0, 0, 0], 0x144),
    ([0x1EF3, 0x6F, 0, 0, 0], 0xF3), ([0x1EF3, 0x70, 0, 0, 0], 0x1E55), ([0x1EF3, 0x72, 0, 0, 0], 0x155),
    ([0x1EF3, 0x73, 0, 0, 0], 0x15B), ([0x1EF3, 0x75, 0, 0, 0], 0xFA), ([0x1EF3, 0x77, 0, 0, 0], 0x1E83),
    ([0x1EF3, 0x79, 0, 0, 0], 0xFD), ([0x1EF3, 0x7A, 0, 0, 0], 0x17A), ([0x1EF3, 0xC2, 0, 0, 0], 0x1EA4),
    ([0x1EF3, 0xC5, 0, 0, 0], 0x1FA), ([0x1EF3, 0xC6, 0, 0, 0], 0x1FC), ([0x1EF3, 0xC7, 0, 0, 0], 0x1E08),
    ([0x1EF3, 0xCA, 0, 0, 0], 0x1EBE), ([0x1EF3, 0xCF, 0, 0, 0], 0x1E2E), ([0x1EF3, 0xD4, 0, 0, 0], 0x1ED0),
    ([0x1EF3, 0xD5, 0, 0, 0], 0x1E4C), ([0x1EF3, 0xD8, 0, 0, 0], 0x1FE), ([0x1EF3, 0xDC, 0, 0, 0], 0x1D7),
    ([0x1EF3, 0xE2, 0, 0, 0], 0x1EA5), ([0x1EF3, 0xE5, 0, 0, 0], 0x1FB), ([0x1EF3, 0xE6, 0, 0, 0], 0x1FD),
    ([0x1EF3, 0xE7, 0, 0, 0], 0x1E09), ([0x1EF3, 0xEA, 0, 0, 0], 0x1EBF), ([0x1EF3, 0xEF, 0, 0, 0], 0x1E2F),
    ([0x1EF3, 0xF4, 0, 0, 0], 0x1ED1), ([0x1EF3, 0xF5, 0, 0, 0], 0x1E4D), ([0x1EF3, 0xF8, 0, 0, 0], 0x1FF),
    ([0x1EF3, 0xFC, 0, 0, 0], 0x1D8), ([0x1EF3, 0x1C3, 0, 0, 0], 0x1EAE), ([0x1EF3, 0x1E3, 0, 0, 0], 0x1EAF),
    ([0x1EF3, 0x3AA, 0, 0, 0], 0x1E16), ([0x1EF3, 0x3BA, 0, 0, 0], 0x1E17), ([0x1EF3, 0x3D2, 0, 0, 0], 0x1E52),
    ([0x1EF3, 0x3DD, 0, 0, 0], 0x1E78), ([0x1EF3, 0x3F2, 0, 0, 0], 0x1E53)]"

definition compose_rows_3 :: "compose_row list" where
  "compose_rows_3 =
   [([0x1EF3, 0x3FD, 0, 0, 0], 0x1E79), ([0x1EF3, 0x6C7, 0, 0, 0], 0x453), ([0x1EF3, 0x6CB, 0, 0, 0], 0x45C),
    ([0x1EF3, 0x6E7, 0, 0, 0], 0x403), ([0x1EF3, 0x6EB, 0, 0, 0], 0x40C), ([0x1EF3, 0x7B5, 0, 0, 0], 0x390),
    ([0x1EF3, 0x7B9, 0, 0, 0], 0x3B0), ([0x1EF3, 0x7C1, 0, 0, 0], 0x386), ([0x1EF3, 0x7C5, 0, 0, 0], 0x388),
    ([0x1EF3, 0x7C7, 0, 0, 0], 0x389), ([0x1EF3, 0x7C9, 0, 0, 0], 0x38A), ([0x1EF3, 0x7CF, 0, 0, 0], 0x38C),
    ([0x1EF3, 0x7D5, 0, 0, 0], 0x38E), ([0x1EF3, 0x7D9, 0, 0, 0], 0x38F), ([0x1EF3, 0x7E1, 0, 0, 0], 0x3AC),
    ([0x1EF3, 0x7E5, 0, 0, 0], 0x3AD), ([0x1EF3, 0x7E7, 0, 0, 0], 0x3AE), ([0x1EF3, 0x7E9, 0, 0, 0], 0x3AF),
    ([0x1EF3, 0x7EF, 0, 0, 0], 0x3CC), ([0x1EF3, 0x7F5, 0, 0, 0], 0x3CD), ([0x1EF3, 0x7F9, 0, 0, 0], 0x3CE),
    ([0x1EF3, 0x1E9F, 0x4F, 0, 0], 0x1E4C), ([0x1EF3, 0x1E9F, 0x55, 0, 0], 0x1E78),
    ([0x1EF3, 0x1E9F, 0x6F, 0, 0], 0x1E4D), ([0x1EF3, 0x1E9F, 0x75, 0, 0], 0x1E79),
    ([0x1EF3, 0x1EFA, 0, 0, 0], 0x1EDA), ([0x1EF3, 0x1EFB, 0, 0, 0], 0x1EDB),
    ([0x1EF3, 0x1EFC, 0, 0, 0], 0x1EE8), ([0x1EF3, 0x1EFD, 0, 0, 0], 0x1EE9),
    ([0x1EF3, 0xFE52, 0x41, 0, 0], 0x1EA4), ([0x1EF3, 0xFE52, 0x45, 0, 0], 0x1EBE),
    ([0x1EF3, 0xFE52, 0x4F, 0, 0], 0x1ED0), ([0x1EF3, 0xFE52, 0x61, 0, 0], 0x1EA5),
    ([0x1EF3, 0xFE52, 0x65, 0, 0], 0x1EBF), ([0x1EF3, 0xFE52, 0x6F, 0, 0], 0x1ED1),
    ([0x1EF3, 0xFE53, 0x4F, 0, 0], 0x1E4C), ([0x1EF3, 0xFE53, 0x55, 0, 0], 0x1E78),
    ([0x1EF3, 0xFE53, 0x6F, 0, 0], 0x1E4D), ([0x1EF3, 0xFE53, 0x75, 0, 0], 0x1E79),
    ([0x1EF3, 0xFE54, 0x45, 0, 0], 0x1E16), ([0x1EF3, 0xFE54, 0x4F, 0, 0], 0x1E52),
    ([0x1EF3, 0xFE54, 0x65, 0, 0], 0x1E17), ([0x1EF3, 0xFE54, 0x6F, 0, 0], 0x1E53),
    ([0x1EF3, 0xFE55, 0x41, 0, 0], 0x1EAE), ([0x1EF3, 0xFE55, 0x61, 0, 0], 0x1EAF),
    ([0x1EF3, 0xFE57, 0x49, 0, 0], 0x1E2E), ([0x1EF3, 0xFE57, 0x55, 0, 0], 0x1D7),
    ([0x1EF3, 0xFE57, 0x69, 0, 0], 0x1E2F), ([0x1EF3, 0xFE57, 0x75, 0, 0], 0x1D8),
    ([0x1EF3, 0xFE57, 0x7E9, 0, 0], 0x390), ([0x1EF3, 0xFE57, 0x7F5, 0, 0], 0x3B0),
    ([0x1EF3, 0xFE58, 0x41, 0, 0], 0x1FA), ([0x1EF3, 0xFE58, 0x61, 0, 0], 0x1FB),
    ([0x1EF3, 0xFE5B, 0x43, 0, 0], 0x1E08), ([0x1EF3, 0xFE5B, 0x63, 0, 0], 0x1E09),
    ([0x1EF3, 0xFE62, 0x4F, 0, 0], 0x1EDA), ([0x1EF3, 0xFE62, 0x55, 0, 0], 0x1EE8),
    ([0x1EF3, 0xFE62, 0x6F, 0, 0], 0x1EDB), ([0x1EF3, 0xFE62, 0x75, 0, 0], 0x1EE9),
    ([0x1EF3, 0xFF20, 0x22, 0x49, 0], 0x1E2E), ([0x1EF3, 0xFF20, 0x22, 0x55, 0], 0x1D7),
    ([0x1EF3, 0xFF20, 0x22, 0x69, 0], 0x1E2F), ([0x1EF3, 0xFF20, 0x22, 0x75, 0], 0x1D8),
    ([0x1EF3, 0xFF20, 0x22, 0x7E9, 0], 0x390), ([0x1EF3, 0xFF20, 0x22, 0x7F5, 0], 0x3B0),
    ([0x1EF3, 0xFF20, 0x28, 0x7C1, 0], 0x1F0D), ([0x1EF3, 0xFF20, 0x28, 0x7C5, 0], 0x1F1D),
    ([0x1EF3, 0xFF20, 0x28, 0x7C7, 0], 0x1F2D), ([0x1EF3, 0xFF20, 0x28, 0x7C9, 0], 0x1F3D),
    ([0x1EF3, 0xFF20, 0x28, 0x7CF, 0], 0x1F4D), ([0x1EF3, 0xFF20, 0x28, 0x7D5, 0], 0x1F5D),
    ([0x1EF3, 0xFF20, 0x28, 0x7D9, 0], 0x1F6D), ([0x1EF3, 0xFF20, 0x28, 0x7E1, 0], 0x1F05),
    ([0x1EF3, 0xFF20, 0x28, 0x7E5, 0], 0x1F15), ([0x1EF3, 0xFF20, 0x28, 0x7E7, 0], 0x1F25),
    ([0x1EF3, 0xFF20, 0x28, 0x7E9, 0], 0x1F35), ([0x1EF3, 0xFF20, 0x28, 0x7EF, 0], 0x1F45),
    ([0x1EF3, 0xFF20, 0x28, 0x7F5, 0], 0x1F55), ([0x1EF3, 0xFF20, 0x28, 0x7F9, 0], 0x1F65),
    ([0x1EF3, 0xFF20, 0x29, 0x7C1, 0], 0x1F0C), ([0x1EF3, 0xFF20, 0x29, 0x7C5, 0], 0x1F1C),
    ([0x1EF3, 0xFF20, 0x29, 0x7C7, 0], 0x1F2C), ([0x1EF3, 0xFF20, 0x29, 0x7C9, 0], 0x1F3C),
    ([0x1EF3, 0xFF20, 0x29, 0x7CF, 0], 0x1F4C), ([0x1EF3, 0xFF20, 0x29, 0x7D9, 0], 0x1F6C),
    ([0x1EF3, 0xFF20, 0x29, 0x7E1, 0], 0x1F04), ([0x1EF3, 0xFF20, 0x29, 0x7E5, 0], 0x1F14),
    ([0x1EF3, 0xFF20, 0x29, 0x7E7, 0], 0x1F24), ([0x1EF3, 0xFF20, 0x29, 0x7E9, 0], 0x1F34),
    ([0x1EF3, 0xFF20, 0x29, 0x7EF, 0], 0x1F44), ([0x1EF3, 0xFF20, 0x29, 0x7F5, 0], 0x1F54),
    ([0x1EF3, 0xFF20, 0x29, 0x7F9, 0], 0x1F64), ([0x1EF3, 0xFF20, 0x2B, 0x4F, 0], 0x1EDA),
    ([0x1EF3, 0xFF20, 0x2B, 0x55, 0], 0x1EE8), ([0x1EF3, 0xFF20, 0x2B, 0x6F, 0], 0x1EDB),
    ([0x1EF3, 0xFF20, 0x2B, 0x75, 0], 0x1EE9), ([0x1EF3, 0xFF20, 0x2C, 0x43, 0], 0x1E08),
    ([0x1EF3, 0xFF20, 0x2C, 0x63, 0], 0x1E09), ([0x1EF3, 0xFF20, 0x2F, 0x4F, 0], 0x1FE),
    ([0x1EF3, 0xFF20, 0x2F, 0x6F, 0], 0x1FF), ([0x1EF3, 0xFF20, 0x55, 0x41, 0], 0x1EAE),
    ([0x1EF3, 0xFF20, 0x55, 0x61, 0], 0x1EAF), ([0x1EF3, 0xFF20, 0x5E, 0x41, 0], 0x1EA4),
    ([0x1EF3, 0xFF20, 0x5E, 0x45, 0], 0x1EBE), ([0x1EF3, 0xFF20, 0x5E, 0x4F, 0], 0x1ED0),
    ([0x1EF3, 0xFF20, 0x5E, 0x61, 0], 0x1EA5), ([0x1EF3, 0xFF20, 0x5E, 0x65, 0], 0x1EBF),
    ([0x1EF3, 0xFF20, 0x5E, 0x6F, 0], 0x1ED1), ([0x1EF3, 0xFF20, 0x5F, 0x45, 0], 0x1E16),
    ([0x1EF3, 0xFF20, 0x5F, 0x4F, 0], 0x1E52), ([0x1EF3, 0xFF20, 0x5F, 0x65, 0], 0x1E17),
    ([0x1EF3, 0xFF20, 0x5F, 0x6F, 0], 0x1E53), ([0x1EF3, 0xFF20, 0x62, 0x41, 0], 0x1EAE),
    ([0x1EF3, 0xFF20, 0x62, 0x61, 0], 0x1EAF), ([0x1EF3, 0xFF20, 0x6F, 0x41, 0], 0x1FA),
    ([0x1EF3, 0xFF20, 0x6F, 0x61, 0], 0x1FB), ([0x1EF3, 0xFF20, 0x7E, 0x4F, 0], 0x1E4C),
    ([0x1EF3, 0xFF20, 0x7E, 0x55, 0], 0x1E78), ([0x1EF3, 0xFF20, 0x7E, 0x6F, 0], 0x1E4D),
    ([0x1EF3, 0xFF20, 0x7E, 0x75, 0], 0x1E79), ([0x1EF3, 0xFF20, 0xAF, 0x45, 0], 0x1E16),
    ([0x1EF3, 0xFF20, 0xAF, 0x4F, 0], 0x1E52), ([0x1EF3, 0xFF20, 0xAF, 0x65, 0], 0x1E17),
    ([0x1EF3, 0xFF20, 0xAF, 0x6F, 0], 0x1E53), ([0x1EF3, 0xFF20, 0xFFAF, 0x4F, 0], 0x1FE),
    ([0x1EF3, 0xFF20, 0xFFAF, 0x6F, 0], 0x1FF), ([0x1EF3, 0x1000313, 0x7C1, 0, 0], 0x1F0C),
    ([0x1EF3, 0x1000313, 0x7C5, 0, 0], 0x1F1C), ([0x1EF3, 0x1000313, 0x7C7, 0, 0], 0x1F2C),
    ([0x1EF3, 0x1000313, 0x7C9, 0, 0], 0x1F3C), ([0x1EF3, 0x1000313, 0x7CF, 0, 0], 0x1F4C),
    ([0x1EF3, 0x1000313, 0x7D9, 0, 0], 0x1F6C), ([0x1EF3, 0x1000313, 0x7E1, 0, 0], 0x1F04),
    ([0x1EF3, 0x1000313, 0x7E5, 0, 0], 0x1F14), ([0x1EF3, 0x1000313, 0x7E7, 0, 0], 0x1F24),
    ([0x1EF3, 0x1000313, 0x7E9, 0, 0], 0x1F34), ([0x1EF3, 0x1000313, 0x7EF, 0, 0], 0x1F44),
    ([0x1EF3, 0x1000313, 0x7F5, 0, 0], 0x1F54), ([0x1EF3, 0x1000313, 0x7F9, 0, 0], 0x1F64),
    ([0x1EF3, 0x1000314, 0x7C1, 0, 0], 0x1F0D), ([0x1EF3, 0x1000314, 0x7C5, 0, 0], 0x1F1D),
    ([0x1EF3, 0x1000314, 0x7C7, 0, 0], 0x1F2D), ([0x1EF3, 0x1000314, 0x7C9, 0, 0], 0x1F3D),
    ([0x1EF3, 0x1000314, 0x7CF, 0, 0], 0x1F4D), ([0x1EF3, 0x1000314, 0x7D5, 0, 0], 0x1F5D),
    ([0x1EF3, 0x1000314, 0x7D9, 0, 0], 0x1F6D), ([0x1EF3, 0x1000314, 0x7E1, 0, 0], 0x1F05),
    ([0x1EF3, 0x1000314, 0x7E5, 0, 0], 0x1F15)]"

definition compose_rows_4 :: "compose_row list" where
  "compose_rows_4 =
   [([0x1EF3, 0x1000314, 0x7E7, 0, 0], 0x1F25), ([0x1EF3, 0x1000314, 0x7E9, 0, 0], 0x1F35),
    ([0x1EF3, 0x1000314, 0x7EF, 0, 0], 0x1F45), ([0x1EF3, 0x1000314, 0x7F5, 0, 0], 0x1F55),
    ([0x1EF3, 0x1000314, 0x7F9, 0, 0], 0x1F65), ([0x1EF3, 0x1001F00, 0, 0, 0], 0x1F04),
    ([0x1EF3, 0x1001F01, 0, 0, 0], 0x1F05), ([0x1EF3, 0x1001F08, 0, 0, 0], 0x1F0C),
    ([0x1EF3, 0x1001F09, 0, 0, 0], 0x1F0D), ([0x1EF3, 0x1001F10, 0, 0, 0], 0x1F14),
    ([0x1EF3, 0x1001F11, 0, 0, 0], 0x1F15), ([0x1EF3, 0x1001F18, 0, 0, 0], 0x1F1C),
    ([0x1EF3, 0x1001F19, 0, 0, 0], 0x1F1D), ([0x1EF3, 0x1001F20, 0, 0, 0], 0x1F24),
    ([0x1EF3, 0x1001F21, 0, 0, 0], 0x1F25), ([0x1EF3, 0x1001F28, 0, 0, 0], 0x1F2C),
    ([0x1EF3, 0x1001F29, 0, 0, 0], 0x1F2D), ([0x1EF3, 0x1001F30, 0, 0, 0], 0x1F34),
    ([0x1EF3, 0x1001F31, 0, 0, 0], 0x1F35), ([0x1EF3, 0x1001F38, 0, 0, 0], 0x1F3C),
    ([0x1EF3, 0x1001F39, 0, 0, 0], 0x1F3D), ([0x1EF3, 0x1001F40, 0, 0, 0], 0x1F44),
    ([0x1EF3, 0x1001F41, 0, 0, 0], 0x1F45), ([0x1EF3, 0x1001F48, 0, 0, 0], 0x1F4C),
    ([0x1EF3, 0x1001F49, 0, 0, 0], 0x1F4D), ([0x1EF3, 0x1001F50, 0, 0, 0], 0x1F54),
    ([0x1EF3, 0x1001F51, 0, 0, 0], 0x1F55), ([0x1EF3, 0x1001F59, 0, 0, 0], 0x1F5D),
    ([0x1EF3, 0x1001F60, 0, 0, 0], 0x1F64), ([0x1EF3, 0x1001F61, 0, 0, 0], 0x1F65),
    ([0x1EF3, 0x1001F68, 0, 0, 0], 0x1F6C), ([0x1EF3, 0x1001F69, 0, 0, 0], 0x1F6D),
    ([0x1EFE, 0x41, 0, 0, 0], 0x1EA2), ([0x1EFE, 0x45, 0, 0, 0], 0x1EBA), ([0x1EFE, 0x49, 0, 0, 0], 0x1EC8),
    ([0x1EFE, 0x4F, 0, 0, 0], 0x1ECE), ([0x1EFE, 0x55, 0, 0, 0], 0x1EE6), ([0x1EFE, 0x59, 0, 0, 0], 0x1EF6),
    ([0x1EFE, 0x61, 0, 0, 0], 0x1EA3), ([0x1EFE, 0x65, 0, 0, 0], 0x1EBB), ([0x1EFE, 0x69, 0, 0, 0], 0x1EC9),
    ([0x1EFE, 0x6F, 0, 0, 0], 0x1ECF), ([0x1EFE, 0x75, 0, 0, 0], 0x1EE7), ([0x1EFE, 0x79, 0, 0, 0], 0x1EF7),
    ([0x1EFE, 0xC2, 0, 0, 0], 0x1EA8), ([0x1EFE, 0xCA, 0, 0, 0], 0x1EC2), ([0x1EFE, 0xD4, 0, 0, 0], 0x1ED4),
    ([0x1EFE, 0xE2, 0, 0, 0], 0x1EA9), ([0x1EFE, 0xEA, 0, 0, 0], 0x1EC3), ([0x1EFE, 0xF4, 0, 0, 0], 0x1ED5),
    ([0x1EFE, 0x1C3, 0, 0, 0], 0x1EB2), ([0x1EFE, 0x1E3, 0, 0, 0], 0x1EB3),
    ([0x1EFE, 0x1EFA, 0, 0, 0], 0x1EDE), ([0x1EFE, 0x1EFB, 0, 0, 0], 0x1EDF),
    ([0x1EFE, 0x1EFC, 0, 0, 0], 0x1EEC), ([0x1EFE, 0x1EFD, 0, 0, 0], 0x1EED),
    ([0x1EFE, 0xFE52, 0x41, 0, 0], 0x1EA8), ([0x1EFE, 0xFE52, 0x45, 0, 0], 0x1EC2),
    ([0x1EFE, 0xFE52, 0x4F, 0, 0], 0x1ED4), ([0x1EFE, 0xFE52, 0x61, 0, 0], 0x1EA9),
    ([0x1EFE, 0xFE52, 0x65, 0, 0], 0x1EC3), ([0x1EFE, 0xFE52, 0x6F, 0, 0], 0x1ED5),
    ([0x1EFE, 0xFE55, 0x41, 0, 0], 0x1EB2), ([0x1EFE, 0xFE55, 0x61, 0, 0], 0x1EB3),
    ([0x1EFE, 0xFE62, 0x4F, 0, 0], 0x1EDE), ([0x1EFE, 0xFE62, 0x55, 0, 0], 0x1EEC),
    ([0x1EFE, 0xFE62, 0x6F, 0, 0], 0x1EDF), ([0x1EFE, 0xFE62, 0x75, 0, 0], 0x1EED),
    ([0x1EFE, 0xFF20, 0x2B, 0x4F, 0], 0x1EDE), ([0x1EFE, 0xFF20, 0x2B, 0x55, 0], 0x1EEC),
    ([0x1EFE, 0xFF20, 0x2B, 0x6F, 0], 0x1EDF), ([0x1EFE, 0xFF20, 0x2B, 0x75, 0], 0x1EED),
    ([0x1EFE, 0xFF20, 0x55, 0x41, 0], 0x1EB2), ([0x1EFE, 0xFF20, 0x55, 0x61, 0], 0x1EB3),
    ([0x1EFE, 0xFF20, 0x5E, 0x41, 0], 0x1EA8), ([0x1EFE, 0xFF20, 0x5E, 0x45, 0], 0x1EC2),
    ([0x1EFE, 0xFF20, 0x5E, 0x4F, 0], 0x1ED4), ([0x1EFE, 0xFF20, 0x5E, 0x61, 0], 0x1EA9),
    ([0x1EFE, 0xFF20, 0x5E, 0x65, 0], 0x1EC3), ([0x1EFE, 0xFF20, 0x5E, 0x6F, 0], 0x1ED5),
    ([0x1EFE, 0xFF20, 0x62, 0x41, 0], 0x1EB2), ([0x1EFE, 0xFF20, 0x62, 0x61, 0], 0x1EB3),
    ([0x1EFF, 0x41, 0, 0, 0], 0x1EA0), ([0x1EFF, 0x42, 0, 0, 0], 0x1E04), ([0x1EFF, 0x44, 0, 0, 0], 0x1E0C),
    ([0x1EFF, 0x45, 0, 0, 0], 0x1EB8), ([0x1EFF, 0x48, 0, 0, 0], 0x1E24), ([0x1EFF, 0x49, 0, 0, 0], 0x1ECA),
    ([0x1EFF, 0x4B, 0, 0, 0], 0x1E32), ([0x1EFF, 0x4C, 0, 0, 0], 0x1E36), ([0x1EFF, 0x4D, 0, 0, 0], 0x1E42),
    ([0x1EFF, 0x4E, 0, 0, 0], 0x1E46), ([0x1EFF, 0x4F, 0, 0, 0], 0x1ECC), ([0x1EFF, 0x52, 0, 0, 0], 0x1E5A),
    ([0x1EFF, 0x53, 0, 0, 0], 0x1E62), ([0x1EFF, 0x54, 0, 0, 0], 0x1E6C), ([0x1EFF, 0x55, 0, 0, 0], 0x1EE4),
    ([0x1EFF, 0x56, 0, 0, 0], 0x1E7E), ([0x1EFF, 0x57, 0, 0, 0], 0x1E88), ([0x1EFF, 0x59, 0, 0, 0], 0x1EF4),
    ([0x1EFF, 0x5A, 0, 0, 0], 0x1E92), ([0x1EFF, 0x61, 0, 0, 0], 0x1EA1), ([0x1EFF, 0x62, 0, 0, 0], 0x1E05),
    ([0x1EFF, 0x64, 0, 0, 0], 0x1E0D), ([0x1EFF, 0x65, 0, 0, 0], 0x1EB9), ([0x1EFF, 0x68, 0, 0, 0], 0x1E25),
    ([0x1EFF, 0x69, 0, 0, 0], 0x1ECB), ([0x1EFF, 0x6B, 0, 0, 0], 0x1E33), ([0x1EFF, 0x6C, 0, 0, 0], 0x1E37),
    ([0x1EFF, 0x6D, 0, 0, 0], 0x1E43), ([0x1EFF, 0x6E, 0, 0, 0], 0x1E47), ([0x1EFF, 0x6F, 0, 0, 0], 0x1ECD),
    ([0x1EFF, 0x72, 0, 0, 0], 0x1E5B), ([0x1EFF, 0x73, 0, 0, 0], 0x1E63), ([0x1EFF, 0x74, 0, 0, 0], 0x1E6D),
    ([0x1EFF, 0x75, 0, 0, 0], 0x1EE5), ([0x1EFF, 0x76, 0, 0, 0], 0x1E7F), ([0x1EFF, 0x77, 0, 0, 0], 0x1E89),
    ([0x1EFF, 0x79, 0, 0, 0], 0x1EF5), ([0x1EFF, 0x7A, 0, 0, 0], 0x1E93), ([0x1EFF, 0x1EFA, 0, 0, 0], 0x1EE2),
    ([0x1EFF, 0x1EFB, 0, 0, 0], 0x1EE3), ([0x1EFF, 0x1EFC, 0, 0, 0], 0x1EF0),
    ([0x1EFF, 0x1EFD, 0, 0, 0], 0x1EF1), ([0x1EFF, 0xFE62, 0x4F, 0, 0], 0x1EE2),
    ([0x1EFF, 0xFE62, 0x55, 0, 0], 0x1EF0), ([0x1EFF, 0xFE62, 0x6F, 0, 0], 0x1EE3),
    ([0x1EFF, 0xFE62, 0x75, 0, 0], 0x1EF1), ([0x1EFF, 0xFF20, 0x2B, 0x4F, 0], 0x1EE2),
    ([0x1EFF, 0xFF20, 0x2B, 0x55, 0], 0x1EF0), ([0x1EFF, 0xFF20, 0x2B, 0x6F, 0], 0x1EE3),
    ([0x1EFF, 0xFF20, 0x2B, 0x75, 0], 0x1EF1), ([0xFE50, 0x20, 0, 0, 0], 0x60),
    ([0xFE50, 0x41, 0, 0, 0], 0xC0), ([0xFE50, 0x45, 0, 0, 0], 0xC8), ([0xFE50, 0x49, 0, 0, 0], 0xCC),
    ([0xFE50, 0x4E, 0, 0, 0], 0x1F8), ([0xFE50, 0x4F, 0, 0, 0], 0xD2), ([0xFE50, 0x55, 0, 0, 0], 0xD9),
    ([0xFE50, 0x57, 0, 0, 0], 0x1E80), ([0xFE50, 0x59, 0, 0, 0], 0x1EF2), ([0xFE50, 0x60, 0, 0, 0], 0x60),
    ([0xFE50, 0x61, 0, 0, 0], 0xE0), ([0xFE50, 0x65, 0, 0, 0], 0xE8), ([0xFE50, 0x69, 0, 0, 0], 0xEC),
    ([0xFE50, 0x6E, 0, 0, 0], 0x1F9), ([0xFE50, 0x6F, 0, 0, 0], 0xF2), ([0xFE50, 0x75, 0, 0, 0], 0xF9)]"

definition compose_rows_5 :: "compose_row list" where
  "compose_rows_5 =
   [([0xFE50, 0x77, 0, 0, 0], 0x1E81), ([0xFE50, 0x79, 0, 0, 0], 0x1EF3), ([0xFE50, 0xC2, 0, 0, 0], 0x1EA6),
    ([0xFE50, 0xCA, 0, 0, 0], 0x1EC0), ([0xFE50, 0xD4, 0, 0, 0], 0x1ED2), ([0xFE50, 0xDC, 0, 0, 0], 0x1DB),
    ([0xFE50, 0xE2, 0, 0, 0], 0x1EA7), ([0xFE50, 0xEA, 0, 0, 0], 0x1EC1), ([0xFE50, 0xF4, 0, 0, 0], 0x1ED3),
    ([0xFE50, 0xFC, 0, 0, 0], 0x1DC), ([0xFE50, 0x1C3, 0, 0, 0], 0x1EB0), ([0xFE50, 0x1E3, 0, 0, 0], 0x1EB1),
    ([0xFE50, 0x3AA, 0, 0, 0], 0x1E14), ([0xFE50, 0x3BA, 0, 0, 0], 0x1E15), ([0xFE50, 0x3D2, 0, 0, 0], 0x1E50),
    ([0xFE50, 0x3F2, 0, 0, 0], 0x1E51), ([0xFE50, 0x6C5, 0, 0, 0], 0x450), ([0xFE50, 0x6C9, 0, 0, 0], 0x45D),
    ([0xFE50, 0x6E5, 0, 0, 0], 0x400), ([0xFE50, 0x6E9, 0, 0, 0], 0x40D), ([0xFE50, 0x7B5, 0, 0, 0], 0x1FD2),
    ([0xFE50, 0x7B9, 0, 0, 0], 0x1FE2), ([0xFE50, 0x7C1, 0, 0, 0], 0x1FBA), ([0xFE50, 0x7C5, 0, 0, 0], 0x1FC8),
    ([0xFE50, 0x7C7, 0, 0, 0], 0x1FCA), ([0xFE50, 0x7C9, 0, 0, 0], 0x1FDA), ([0xFE50, 0x7CF, 0, 0, 0], 0x1FF8),
    ([0xFE50, 0x7D5, 0, 0, 0], 0x1FEA), ([0xFE50, 0x7D9, 0, 0, 0], 0x1FFA), ([0xFE50, 0x7E1, 0, 0, 0], 0x1F70),
    ([0xFE50, 0x7E5, 0, 0, 0], 0x1F72), ([0xFE50, 0x7E7, 0, 0, 0], 0x1F74), ([0xFE50, 0x7E9, 0, 0, 0], 0x1F76),
    ([0xFE50, 0x7EF, 0, 0, 0], 0x1F78), ([0xFE50, 0x7F5, 0, 0, 0], 0x1F7A), ([0xFE50, 0x7F9, 0, 0, 0], 0x1F7C),
    ([0xFE50, 0x1EFA, 0, 0, 0], 0x1EDC), ([0xFE50, 0x1EFB, 0, 0, 0], 0x1EDD),
    ([0xFE50, 0x1EFC, 0, 0, 0], 0x1EEA), ([0xFE50, 0x1EFD, 0, 0, 0], 0x1EEB),
    ([0xFE50, 0xFE50, 0, 0, 0], 0x60), ([0xFE50, 0xFE52, 0x41, 0, 0], 0x1EA6),
    ([0xFE50, 0xFE52, 0x45, 0, 0], 0x1EC0), ([0xFE50, 0xFE52, 0x4F, 0, 0], 0x1ED2),
    ([0xFE50, 0xFE52, 0x61, 0, 0], 0x1EA7), ([0xFE50, 0xFE52, 0x65, 0, 0], 0x1EC1),
    ([0xFE50, 0xFE52, 0x6F, 0, 0], 0x1ED3), ([0xFE50, 0xFE54, 0x45, 0, 0], 0x1E14),
    ([0xFE50, 0xFE54, 0x4F, 0, 0], 0x1E50), ([0xFE50, 0xFE54, 0x65, 0, 0], 0x1E15),
    ([0xFE50, 0xFE54, 0x6F, 0, 0], 0x1E51), ([0xFE50, 0xFE55, 0x41, 0, 0], 0x1EB0),
    ([0xFE50, 0xFE55, 0x61, 0, 0], 0x1EB1), ([0xFE50, 0xFE57, 0x55, 0, 0], 0x1DB),
    ([0xFE50, 0xFE57, 0x75, 0, 0], 0x1DC), ([0xFE50, 0xFE57, 0x7E9, 0, 0], 0x1FD2),
    ([0xFE50, 0xFE57, 0x7F5, 0, 0], 0x1FE2), ([0xFE50, 0xFE62, 0x4F, 0, 0], 0x1EDC),
    ([0xFE50, 0xFE62, 0x55, 0, 0], 0x1EEA), ([0xFE50, 0xFE62, 0x6F, 0, 0], 0x1EDD),
    ([0xFE50, 0xFE62, 0x75, 0, 0], 0x1EEB), ([0xFE50, 0xFF20, 0x22, 0x55, 0], 0x1DB),
    ([0xFE50, 0xFF20, 0x22, 0x75, 0], 0x1DC), ([0xFE50, 0xFF20, 0x22, 0x7E9, 0], 0x1FD2),
    ([0xFE50, 0xFF20, 0x22, 0x7F5, 0], 0x1FE2), ([0xFE50, 0xFF20, 0x28, 0x7C1, 0], 0x1F0B),
    ([0xFE50, 0xFF20, 0x28, 0x7C5, 0], 0x1F1B), ([0xFE50, 0xFF20, 0x28, 0x7C7, 0], 0x1F2B),
    ([0xFE50, 0xFF20, 0x28, 0x7C9, 0], 0x1F3B), ([0xFE50, 0xFF20, 0x28, 0x7CF, 0], 0x1F4B),
    ([0xFE50, 0xFF20, 0x28, 0x7D5, 0], 0x1F5B), ([0xFE50, 0xFF20, 0x28, 0x7D9, 0], 0x1F6B),
    ([0xFE50, 0xFF20, 0x28, 0x7E1, 0], 0x1F03), ([0xFE50, 0xFF20, 0x28, 0x7E5, 0], 0x1F13),
    ([0xFE50, 0xFF20, 0x28, 0x7E7, 0], 0x1F23), ([0xFE50, 0xFF20, 0x28, 0x7E9, 0], 0x1F33),
    ([0xFE50, 0xFF20, 0x28, 0x7EF, 0], 0x1F43), ([0xFE50, 0xFF20, 0x28, 0x7F5, 0], 0x1F53),
    ([0xFE50, 0xFF20, 0x28, 0x7F9, 0], 0x1F63), ([0xFE50, 0xFF20, 0x29, 0x7C1, 0], 0x1F0A),
    ([0xFE50, 0xFF20, 0x29, 0x7C5, 0], 0x1F1A), ([0xFE50, 0xFF20, 0x29, 0x7C7, 0], 0x1F2A),
    ([0xFE50, 0xFF20, 0x29, 0x7C9, 0], 0x1F3A), ([0xFE50, 0xFF20, 0x29, 0x7CF, 0], 0x1F4A),
    ([0xFE50, 0xFF20, 0x29, 0x7D9, 0], 0x1F6A), ([0xFE50, 0xFF20, 0x29, 0x7E1, 0], 0x1F02),
    ([0xFE50, 0xFF20, 0x29, 0x7E5, 0], 0x1F12), ([0xFE50, 0xFF20, 0x29, 0x7E7, 0], 0x1F22),
    ([0xFE50, 0xFF20, 0x29, 0x7E9, 0], 0x1F32), ([0xFE50, 0xFF20, 0x29, 0x7EF, 0], 0x1F42),
    ([0xFE50, 0xFF20, 0x29, 0x7F5, 0], 0x1F52), ([0xFE50, 0xFF20, 0x29, 0x7F9, 0], 0x1F62),
    ([0xFE50, 0xFF20, 0x2B, 0x4F, 0], 0x1EDC), ([0xFE50, 0xFF20, 0x2B, 0x55, 0], 0x1EEA),
    ([0xFE50, 0xFF20, 0x2B, 0x6F, 0], 0x1EDD), ([0xFE50, 0xFF20, 0x2B, 0x75, 0], 0x1EEB),
    ([0xFE50, 0xFF20, 0x55, 0x41, 0], 0x1EB0), ([0xFE50, 0xFF20, 0x55, 0x61, 0], 0x1EB1),
    ([0xFE50, 0xFF20, 0x5E, 0x41, 0], 0x1EA6), ([0xFE50, 0xFF20, 0x5E, 0x45, 0], 0x1EC0),
    ([0xFE50, 0xFF20, 0x5E, 0x4F, 0], 0x1ED2), ([0xFE50, 0xFF20, 0x5E, 0x61, 0], 0x1EA7),
    ([0xFE50, 0xFF20, 0x5E, 0x65, 0], 0x1EC1), ([0xFE50, 0xFF20, 0x5E, 0x6F, 0], 0x1ED3),
    ([0xFE50, 0xFF20, 0x5F, 0x45, 0], 0x1E14), ([0xFE50, 0xFF20, 0x5F, 0x4F, 0], 0x1E50),
    ([0xFE50, 0xFF20, 0x5F, 0x65, 0], 0x1E15), ([0xFE50, 0xFF20, 0x5F, 0x6F, 0], 0x1E51),
    ([0xFE50, 0xFF20, 0x62, 0x41, 0], 0x1EB0), ([0xFE50, 0xFF20, 0x62, 0x61, 0], 0x1EB1),
    ([0xFE50, 0xFF20, 0xAF, 0x45, 0], 0x1E14), ([0xFE50, 0xFF20, 0xAF, 0x4F, 0], 0x1E50),
    ([0xFE50, 0xFF20, 0xAF, 0x65, 0], 0x1E15), ([0xFE50, 0xFF20, 0xAF, 0x6F, 0], 0x1E51),
    ([0xFE50, 0x10001A0, 0, 0, 0], 0x1EDC), ([0xFE50, 0x10001A1, 0, 0, 0], 0x1EDD),
    ([0xFE50, 0x10001AF, 0, 0, 0], 0x1EEA), ([0xFE50, 0x10001B0, 0, 0, 0], 0x1EEB),
    ([0xFE50, 0x1000313, 0x7C1, 0, 0], 0x1F0A), ([0xFE50, 0x1000313, 0x7C5, 0, 0], 0x1F1A),
    ([0xFE50, 0x1000313, 0x7C7, 0, 0], 0x1F2A), ([0xFE50, 0x1000313, 0x7C9, 0, 0], 0x1F3A),
    ([0xFE50, 0x1000313, 0x7CF, 0, 0], 0x1F4A), ([0xFE50, 0x1000313, 0x7D9, 0, 0], 0x1F6A),
    ([0xFE50, 0x1000313, 0x7E1, 0, 0], 0x1F02), ([0xFE50, 0x1000313, 0x7E5, 0, 0], 0x1F12),
    ([0xFE50, 0x1000313, 0x7E7, 0, 0], 0x1F22), ([0xFE50, 0x1000313, 0x7E9, 0, 0], 0x1F32),
    ([0xFE50, 0x1000313, 0x7EF, 0, 0], 0x1F42), ([0xFE50, 0x1000313, 0x7F5, 0, 0], 0x1F52),
    ([0xFE50, 0x1000313, 0x7F9, 0, 0], 0x1F62), ([0xFE50, 0x1000314, 0x7C1, 0, 0], 0x1F0B),
    ([0xFE50, 0x1000314, 0x7C5, 0, 0], 0x1F1B), ([0xFE50, 0x1000314, 0x7C7, 0, 0], 0x1F2B),
    ([0xFE50, 0x1000314, 0x7C9, 0, 0], 0x1F3B), ([0xFE50, 0x1000314, 0x7CF, 0, 0], 0x1F4B),
    ([0xFE50, 0x1000314, 0x7D5, 0, 0], 0x1F5B), ([0xFE50, 0x1000314, 0x7D9, 0, 0], 0x1F6B),
    ([0xFE50, 0x1000314, 0x7E1, 0, 0], 0x1F03), ([0xFE50, 0x1000314, 0x7E5, 0, 0], 0x1F13),
    ([0xFE50, 0x1000314, 0x7E7, 0, 0], 0x1F23), ([0xFE50, 0x1000314, 0x7E9, 0, 0], 0x1F33),
    ([0xFE50, 0x1000314, 0x7EF, 0, 0], 0x1F43), ([0xFE50, 0x1000314, 0x7F5, 0, 0], 0x1F53),
    ([0xFE50, 0x1000314, 0x7F9, 0, 0], 0x1F63), ([0xFE50, 0x1001F00, 0, 0, 0], 0x1F02),
    ([0xFE50, 0x1001F01, 0, 0, 0], 0x1F03), ([0xFE50, 0x1001F08, 0, 0, 0], 0x1F0A)]"

definition compose_rows_6 :: "compose_row list" where
  "compose_rows_6 =
   [([0xFE50, 0x1001F09, 0, 0, 0], 0x1F0B), ([0xFE50, 0x1001F10, 0, 0, 0], 0x1F12),
    ([0xFE50, 0x1001F11, 0, 0, 0], 0x1F13), ([0xFE50, 0x1001F18, 0, 0, 0], 0x1F1A),
    ([0xFE50, 0x1001F19, 0, 0, 0], 0x1F1B), ([0xFE50, 0x1001F20, 0, 0, 0], 0x1F22),
    ([0xFE50, 0x1001F21, 0, 0, 0], 0x1F23), ([0xFE50, 0x1001F28, 0, 0, 0], 0x1F2A),
    ([0xFE50, 0x1001F29, 0, 0, 0], 0x1F2B), ([0xFE50, 0x1001F30, 0, 0, 0], 0x1F32),
    ([0xFE50, 0x1001F31, 0, 0, 0], 0x1F33), ([0xFE50, 0x1001F38, 0, 0, 0], 0x1F3A),
    ([0xFE50, 0x1001F39, 0, 0, 0], 0x1F3B), ([0xFE50, 0x1001F40, 0, 0, 0], 0x1F42),
    ([0xFE50, 0x1001F41, 0, 0, 0], 0x1F43), ([0xFE50, 0x1001F48, 0, 0, 0], 0x1F4A),
    ([0xFE50, 0x1001F49, 0, 0, 0], 0x1F4B), ([0xFE50, 0x1001F50, 0, 0, 0], 0x1F52),
    ([0xFE50, 0x1001F51, 0, 0, 0], 0x1F53), ([0xFE50, 0x1001F59, 0, 0, 0], 0x1F5B),
    ([0xFE50, 0x1001F60, 0, 0, 0], 0x1F62), ([0xFE50, 0x1001F61, 0, 0, 0], 0x1F63),
    ([0xFE50, 0x1001F68, 0, 0, 0], 0x1F6A), ([0xFE50, 0x1001F69, 0, 0, 0], 0x1F6B),
    ([0xFE51, 0x20, 0, 0, 0], 0x27), ([0xFE51, 0x27, 0, 0, 0], 0xB4), ([0xFE51, 0x41, 0, 0, 0], 0xC1),
    ([0xFE51, 0x43, 0, 0, 0], 0x106), ([0xFE51, 0x45, 0, 0, 0], 0xC9), ([0xFE51, 0x47, 0, 0, 0], 0x1F4),
    ([0xFE51, 0x49, 0, 0, 0], 0xCD), ([0xFE51, 0x4B, 0, 0, 0], 0x1E30), ([0xFE51, 0x4C, 0, 0, 0], 0x139),
    ([0xFE51, 0x4D, 0, 0, 0], 0x1E3E), ([0xFE51, 0x4E, 0, 0, 0], 0x143), ([0xFE51, 0x4F, 0, 0, 0], 0xD3),
    ([0xFE51, 0x50, 0, 0, 0], 0x1E54), ([0xFE51, 0x52, 0, 0, 0], 0x154), ([0xFE51, 0x53, 0, 0, 0], 0x15A),
    ([0xFE51, 0x55, 0, 0, 0], 0xDA), ([0xFE51, 0x57, 0, 0, 0], 0x1E82), ([0xFE51, 0x59, 0, 0, 0], 0xDD),
    ([0xFE51, 0x5A, 0, 0, 0], 0x179), ([0xFE51, 0x61, 0, 0, 0], 0xE1), ([0xFE51, 0x63, 0, 0, 0], 0x107),
    ([0xFE51, 0x65, 0, 0, 0], 0xE9), ([0xFE51, 0x67, 0, 0, 0], 0x1F5), ([0xFE51, 0x69, 0, 0, 0], 0xED),
    ([0xFE51, 0x6B, 0, 0, 0], 0x1E31), ([0xFE51, 0x6C, 0, 0, 0], 0x13A), ([0xFE51, 0x6D, 0, 0, 0], 0x1E3F),
    ([0xFE51, 0x6E, 0, 0, 0], 0x144), ([0xFE51, 0x6F, 0, 0, 0], 0xF3), ([0xFE51, 0x70, 0, 0, 0], 0x1E55),
    ([0xFE51, 0x72, 0, 0, 0], 0x155), ([0xFE51, 0x73, 0, 0, 0], 0x15B), ([0xFE51, 0x75, 0, 0, 0], 0xFA),
    ([0xFE51, 0x77, 0, 0, 0], 0x1E83), ([0xFE51, 0x79, 0, 0, 0], 0xFD), ([0xFE51, 0x7A, 0, 0, 0], 0x17A),
    ([0xFE51, 0xB4, 0, 0, 0], 0xB4), ([0xFE51, 0xC2, 0, 0, 0], 0x1EA4), ([0xFE51, 0xC5, 0, 0, 0], 0x1FA),
    ([0xFE51, 0xC6, 0, 0, 0], 0x1FC), ([0xFE51, 0xC7, 0, 0, 0], 0x1E08), ([0xFE51, 0xCA, 0, 0, 0], 0x1EBE),
    ([0xFE51, 0xCF, 0, 0, 0], 0x1E2E), ([0xFE51, 0xD4, 0, 0, 0], 0x1ED0), ([0xFE51, 0xD5, 0, 0, 0], 0x1E4C),
    ([0xFE51, 0xD8, 0, 0, 0], 0x1FE), ([0xFE51, 0xDC, 0, 0, 0], 0x1D7), ([0xFE51, 0xE2, 0, 0, 0], 0x1EA5),
    ([0xFE51, 0xE5, 0, 0, 0], 0x1FB), ([0xFE51, 0xE6, 0, 0, 0], 0x1FD), ([0xFE51, 0xE7, 0, 0, 0], 0x1E09),
    ([0xFE51, 0xEA, 0, 0, 0], 0x1EBF), ([0xFE51, 0xEF, 0, 0, 0], 0x1E2F), ([0xFE51, 0xF4, 0, 0, 0], 0x1ED1),
    ([0xFE51, 0xF5, 0, 0, 0], 0x1E4D), ([0xFE51, 0xF8, 0, 0, 0], 0x1FF), ([0xFE51, 0xFC, 0, 0, 0], 0x1D8),
    ([0xFE51, 0x1C3, 0, 0, 0], 0x1EAE), ([0xFE51, 0x1E3, 0, 0, 0], 0x1EAF), ([0xFE51, 0x3AA, 0, 0, 0], 0x1E16),
    ([0xFE51, 0x3BA, 0, 0, 0], 0x1E17), ([0xFE51, 0x3D2, 0, 0, 0], 0x1E52), ([0xFE51, 0x3DD, 0, 0, 0], 0x1E78),
    ([0xFE51, 0x3F2, 0, 0, 0], 0x1E53), ([0xFE51, 0x3FD, 0, 0, 0], 0x1E79), ([0xFE51, 0x6C7, 0, 0, 0], 0x453),
    ([0xFE51, 0x6CB, 0, 0, 0], 0x45C), ([0xFE51, 0x6E7, 0, 0, 0], 0x403), ([0xFE51, 0x6EB, 0, 0, 0], 0x40C),
    ([0xFE51, 0x7B5, 0, 0, 0], 0x390), ([0xFE51, 0x7B9, 0, 0, 0], 0x3B0), ([0xFE51, 0x7C1, 0, 0, 0], 0x386),
    ([0xFE51, 0x7C5, 0, 0, 0], 0x388), ([0xFE51, 0x7C7, 0, 0, 0], 0x389), ([0xFE51, 0x7C9, 0, 0, 0], 0x38A),
    ([0xFE51, 0x7CF, 0, 0, 0], 0x38C), ([0xFE51, 0x7D5, 0, 0, 0], 0x38E), ([0xFE51, 0x7D9, 0, 0, 0], 0x38F),
    ([0xFE51, 0x7E1, 0, 0, 0], 0x3AC), ([0xFE51, 0x7E5, 0, 0, 0], 0x3AD), ([0xFE51, 0x7E7, 0, 0, 0], 0x3AE),
    ([0xFE51, 0x7E9, 0, 0, 0], 0x3AF), ([0xFE51, 0x7EF, 0, 0, 0], 0x3CC), ([0xFE51, 0x7F5, 0, 0, 0], 0x3CD),
    ([0xFE51, 0x7F9, 0, 0, 0], 0x3CE), ([0xFE51, 0x1E9F, 0x4F, 0, 0], 0x1E4C),
    ([0xFE51, 0x1E9F, 0x55, 0, 0], 0x1E78), ([0xFE51, 0x1E9F, 0x6F, 0, 0], 0x1E4D),
    ([0xFE51, 0x1E9F, 0x75, 0, 0], 0x1E79), ([0xFE51, 0x1EFA, 0, 0, 0], 0x1EDA),
    ([0xFE51, 0x1EFB, 0, 0, 0], 0x1EDB), ([0xFE51, 0x1EFC, 0, 0, 0], 0x1EE8),
    ([0xFE51, 0x1EFD, 0, 0, 0], 0x1EE9), ([0xFE51, 0xFE51, 0, 0, 0], 0xB4),
    ([0xFE51, 0xFE52, 0x41, 0, 0], 0x1EA4), ([0xFE51, 0xFE52, 0x45, 0, 0], 0x1EBE),
    ([0xFE51, 0xFE52, 0x4F, 0, 0], 0x1ED0), ([0xFE51, 0xFE52, 0x61, 0, 0], 0x1EA5),
    ([0xFE51, 0xFE52, 0x65, 0, 0], 0x1EBF), ([0xFE51, 0xFE52, 0x6F, 0, 0], 0x1ED1),
    ([0xFE51, 0xFE53, 0x4F, 0, 0], 0x1E4C), ([0xFE51, 0xFE53, 0x55, 0, 0], 0x1E78),
    ([0xFE51, 0xFE53, 0x6F, 0, 0], 0x1E4D), ([0xFE51, 0xFE53, 0x75, 0, 0], 0x1E79),
    ([0xFE51, 0xFE54, 0x45, 0, 0], 0x1E16), ([0xFE51, 0xFE54, 0x4F, 0, 0], 0x1E52),
    ([0xFE51, 0xFE54, 0x65, 0, 0], 0x1E17), ([0xFE51, 0xFE54, 0x6F, 0, 0], 0x1E53),
    ([0xFE51, 0xFE55, 0x41, 0, 0], 0x1EAE), ([0xFE51, 0xFE55, 0x61, 0, 0], 0x1EAF),
    ([0xFE51, 0xFE57, 0x20, 0, 0], 0x385), ([0xFE51, 0xFE57, 0x49, 0, 0], 0x1E2E),
    ([0xFE51, 0xFE57, 0x55, 0, 0], 0x1D7), ([0xFE51, 0xFE57, 0x69, 0, 0], 0x1E2F),
    ([0xFE51, 0xFE57, 0x75, 0, 0], 0x1D8), ([0xFE51, 0xFE57, 0x7E9, 0, 0], 0x390),
    ([0xFE51, 0xFE57, 0x7F5, 0, 0], 0x3B0), ([0xFE51, 0xFE58, 0x41, 0, 0], 0x1FA),
    ([0xFE51, 0xFE58, 0x61, 0, 0], 0x1FB), ([0xFE51, 0xFE5B, 0x43, 0, 0], 0x1E08),
    ([0xFE51, 0xFE5B, 0x63, 0, 0], 0x1E09), ([0xFE51, 0xFE62, 0x4F, 0, 0], 0x1EDA),
    ([0xFE51, 0xFE62, 0x55, 0, 0], 0x1EE8), ([0xFE51, 0xFE62, 0x6F, 0, 0], 0x1EDB)]"

definition compose_rows_7 :: "compose_row list" where
  "compose_rows_7 =
   [([0xFE51, 0xFE62, 0x75, 0, 0], 0x1EE9), ([0xFE51, 0xFF20, 0x22, 0x49, 0], 0x1E2E),
    ([0xFE51, 0xFF20, 0x22, 0x55, 0], 0x1D7), ([0xFE51, 0xFF20, 0x22, 0x69, 0], 0x1E2F),
    ([0xFE51, 0xFF20, 0x22, 0x75, 0], 0x1D8), ([0xFE51, 0xFF20, 0x22, 0x7E9, 0], 0x390),
    ([0xFE51, 0xFF20, 0x22, 0x7F5, 0], 0x3B0), ([0xFE51, 0xFF20, 0x28, 0x7C1, 0], 0x1F0D),
    ([0xFE51, 0xFF20, 0x28, 0x7C5, 0], 0x1F1D), ([0xFE51, 0xFF20, 0x28, 0x7C7, 0], 0x1F2D),
    ([0xFE51, 0xFF20, 0x28, 0x7C9, 0], 0x1F3D), ([0xFE51, 0xFF20, 0x28, 0x7CF, 0], 0x1F4D),
    ([0xFE51, 0xFF20, 0x28, 0x7D5, 0], 0x1F5D), ([0xFE51, 0xFF20, 0x28, 0x7D9, 0], 0x1F6D),
    ([0xFE51, 0xFF20, 0x28, 0x7E1, 0], 0x1F05), ([0xFE51, 0xFF20, 0x28, 0x7E5, 0], 0x1F15),
    ([0xFE51, 0xFF20, 0x28, 0x7E7, 0], 0x1F25), ([0xFE51, 0xFF20, 0x28, 0x7E9, 0], 0x1F35),
    ([0xFE51, 0xFF20, 0x28, 0x7EF, 0], 0x1F45), ([0xFE51, 0xFF20, 0x28, 0x7F5, 0], 0x1F55),
    ([0xFE51, 0xFF20, 0x28, 0x7F9, 0], 0x1F65), ([0xFE51, 0xFF20, 0x29, 0x7C1, 0], 0x1F0C),
    ([0xFE51, 0xFF20, 0x29, 0x7C5, 0], 0x1F1C), ([0xFE51, 0xFF20, 0x29, 0x7C7, 0], 0x1F2C),
    ([0xFE51, 0xFF20, 0x29, 0x7C9, 0], 0x1F3C), ([0xFE51, 0xFF20, 0x29, 0x7CF, 0], 0x1F4C),
    ([0xFE51, 0xFF20, 0x29, 0x7D9, 0], 0x1F6C), ([0xFE51, 0xFF20, 0x29, 0x7E1, 0], 0x1F04),
    ([0xFE51, 0xFF20, 0x29, 0x7E5, 0], 0x1F14), ([0xFE51, 0xFF20, 0x29, 0x7E7, 0], 0x1F24),
    ([0xFE51, 0xFF20, 0x29, 0x7E9, 0], 0x1F34), ([0xFE51, 0xFF20, 0x29, 0x7EF, 0], 0x1F44),
    ([0xFE51, 0xFF20, 0x29, 0x7F5, 0], 0x1F54), ([0xFE51, 0xFF20, 0x29, 0x7F9, 0], 0x1F64),
    ([0xFE51, 0xFF20, 0x2B, 0x4F, 0], 0x1EDA), ([0xFE51, 0xFF20, 0x2B, 0x55, 0], 0x1EE8),
    ([0xFE51, 0xFF20, 0x2B, 0x6F, 0], 0x1EDB), ([0xFE51, 0xFF20, 0x2B, 0x75, 0], 0x1EE9),
    ([0xFE51, 0xFF20, 0x2C, 0x43, 0], 0x1E08), ([0xFE51, 0xFF20, 0x2C, 0x63, 0], 0x1E09),
    ([0xFE51, 0xFF20, 0x2F, 0x4F, 0], 0x1FE), ([0xFE51, 0xFF20, 0x2F, 0x6F, 0], 0x1FF),
    ([0xFE51, 0xFF20, 0x55, 0x41, 0], 0x1EAE), ([0xFE51, 0xFF20, 0x55, 0x61, 0], 0x1EAF),
    ([0xFE51, 0xFF20, 0x5E, 0x41, 0], 0x1EA4), ([0xFE51, 0xFF20, 0x5E, 0x45, 0], 0x1EBE),
    ([0xFE51, 0xFF20, 0x5E, 0x4F, 0], 0x1ED0), ([0xFE51, 0xFF20, 0x5E, 0x61, 0], 0x1EA5),
    ([0xFE51, 0xFF20, 0x5E, 0x65, 0], 0x1EBF), ([0xFE51, 0xFF20, 0x5E, 0x6F, 0], 0x1ED1),
    ([0xFE51, 0xFF20, 0x5F, 0x45, 0], 0x1E16), ([0xFE51, 0xFF20, 0x5F, 0x4F, 0], 0x1E52),
    ([0xFE51, 0xFF20, 0x5F, 0x65, 0], 0x1E17), ([0xFE51, 0xFF20, 0x5F, 0x6F, 0], 0x1E53),
    ([0xFE51, 0xFF20, 0x62, 0x41, 0], 0x1EAE), ([0xFE51, 0xFF20, 0x62, 0x61, 0], 0x1EAF),
    ([0xFE51, 0xFF20, 0x6F, 0x41, 0], 0x1FA), ([0xFE51, 0xFF20, 0x6F, 0x61, 0], 0x1FB),
    ([0xFE51, 0xFF20, 0x7E, 0x4F, 0], 0x1E4C), ([0xFE51, 0xFF20, 0x7E, 0x55, 0], 0x1E78),
    ([0xFE51, 0xFF20, 0x7E, 0x6F, 0], 0x1E4D), ([0xFE51, 0xFF20, 0x7E, 0x75, 0], 0x1E79),
    ([0xFE51, 0xFF20, 0xAF, 0x45, 0], 0x1E16), ([0xFE51, 0xFF20, 0xAF, 0x4F, 0], 0x1E52),
    ([0xFE51, 0xFF20, 0xAF, 0x65, 0], 0x1E17), ([0xFE51, 0xFF20, 0xAF, 0x6F, 0], 0x1E53),
    ([0xFE51, 0xFF20, 0xFFAF, 0x4F, 0], 0x1FE), ([0xFE51, 0xFF20, 0xFFAF, 0x6F, 0], 0x1FF),
    ([0xFE51, 0x10001A0, 0, 0, 0], 0x1EDA), ([0xFE51, 0x10001A1, 0, 0, 0], 0x1EDB),
    ([0xFE51, 0x10001AF, 0, 0, 0], 0x1EE8), ([0xFE51, 0x10001B0, 0, 0, 0], 0x1EE9),
    ([0xFE51, 0x1000313, 0x7C1, 0, 0], 0x1F0C), ([0xFE51, 0x1000313, 0x7C5, 0, 0], 0x1F1C),
    ([0xFE51, 0x1000313, 0x7C7, 0, 0], 0x1F2C), ([0xFE51, 0x1000313, 0x7C9, 0, 0], 0x1F3C),
    ([0xFE51, 0x1000313, 0x7CF, 0, 0], 0x1F4C), ([0xFE51, 0x1000313, 0x7D9, 0, 0], 0x1F6C),
    ([0xFE51, 0x1000313, 0x7E1, 0, 0], 0x1F04), ([0xFE51, 0x1000313, 0x7E5, 0, 0], 0x1F14),
    ([0xFE51, 0x1000313, 0x7E7, 0, 0], 0x1F24), ([0xFE51, 0x1000313, 0x7E9, 0, 0], 0x1F34),
    ([0xFE51, 0x1000313, 0x7EF, 0, 0], 0x1F44), ([0xFE51, 0x1000313, 0x7F5, 0, 0], 0x1F54),
    ([0xFE51, 0x1000313, 0x7F9, 0, 0], 0x1F64), ([0xFE51, 0x1000314, 0x7C1, 0, 0], 0x1F0D),
    ([0xFE51, 0x1000314, 0x7C5, 0, 0], 0x1F1D), ([0xFE51, 0x1000314, 0x7C7, 0, 0], 0x1F2D),
    ([0xFE51, 0x1000314, 0x7C9, 0, 0], 0x1F3D), ([0xFE51, 0x1000314, 0x7CF, 0, 0], 0x1F4D),
    ([0xFE51, 0x1000314, 0x7D5, 0, 0], 0x1F5D), ([0xFE51, 0x1000314, 0x7D9, 0, 0], 0x1F6D),
    ([0xFE51, 0x1000314, 0x7E1, 0, 0], 0x1F05), ([0xFE51, 0x1000314, 0x7E5, 0, 0], 0x1F15),
    ([0xFE51, 0x1000314, 0x7E7, 0, 0], 0x1F25), ([0xFE51, 0x1000314, 0x7E9, 0, 0], 0x1F35),
    ([0xFE51, 0x1000314, 0x7EF, 0, 0], 0x1F45), ([0xFE51, 0x1000314, 0x7F5, 0, 0], 0x1F55),
    ([0xFE51, 0x1000314, 0x7F9, 0, 0], 0x1F65), ([0xFE51, 0x1001F00, 0, 0, 0], 0x1F04),
    ([0xFE51, 0x1001F01, 0, 0, 0], 0x1F05), ([0xFE51, 0x1001F08, 0, 0, 0], 0x1F0C),
    ([0xFE51, 0x1001F09, 0, 0, 0], 0x1F0D), ([0xFE51, 0x1001F10, 0, 0, 0], 0x1F14),
    ([0xFE51, 0x1001F11, 0, 0, 0], 0x1F15), ([0xFE51, 0x1001F18, 0, 0, 0], 0x1F1C),
    ([0xFE51, 0x1001F19, 0, 0, 0], 0x1F1D), ([0xFE51, 0x1001F20, 0, 0, 0], 0x1F24),
    ([0xFE51, 0x1001F21, 0, 0, 0], 0x1F25), ([0xFE51, 0x1001F28, 0, 0, 0], 0x1F2C),
    ([0xFE51, 0x1001F29, 0, 0, 0], 0x1F2D), ([0xFE51, 0x1001F30, 0, 0, 0], 0x1F34),
    ([0xFE51, 0x1001F31, 0, 0, 0], 0x1F35), ([0xFE51, 0x1001F38, 0, 0, 0], 0x1F3C),
    ([0xFE51, 0x1001F39, 0, 0, 0], 0x1F3D), ([0xFE51, 0x1001F40, 0, 0, 0], 0x1F44),
    ([0xFE51, 0x1001F41, 0, 0, 0], 0x1F45), ([0xFE51, 0x1001F48, 0, 0, 0], 0x1F4C),
    ([0xFE51, 0x1001F49, 0, 0, 0], 0x1F4D), ([0xFE51, 0x1001F50, 0, 0, 0], 0x1F54),
    ([0xFE51, 0x1001F51, 0, 0, 0], 0x1F55), ([0xFE51, 0x1001F59, 0, 0, 0], 0x1F5D),
    ([0xFE51, 0x1001F60, 0, 0, 0], 0x1F64), ([0xFE51, 0x1001F61, 0, 0, 0], 0x1F65),
    ([0xFE51, 0x1001F68, 0, 0, 0], 0x1F6C), ([0xFE51, 0x1001F69, 0, 0, 0], 0x1F6D),
    ([0xFE52, 0x20, 0, 0, 0], 0x5E), ([0xFE52, 0x28, 0, 0, 0], 0x207D), ([0xFE52, 0x29, 0, 0, 0], 0x207E),
    ([0xFE52, 0x2B, 0, 0, 0], 0x207A), ([0xFE52, 0x2D, 0, 0, 0], 0xAF), ([0xFE52, 0x2E, 0, 0, 0], 0xB7),
    ([0xFE52, 0x2F, 0, 0, 0], 0x7C), ([0xFE52, 0x30, 0, 0, 0], 0x2070), ([0xFE52, 0x31, 0, 0, 0], 0xB9),
    ([0xFE52, 0x32, 0, 0, 0], 0xB2), ([0xFE52, 0x33, 0, 0, 0], 0xB3), ([0xFE52, 0x34, 0, 0, 0], 0x2074),
    ([0xFE52, 0x35, 0, 0, 0], 0x2075), ([0xFE52, 0x36, 0, 0, 0], 0x2076), ([0xFE52, 0x37, 0, 0, 0], 0x2077),
    ([0xFE52, 0x38, 0, 0, 0], 0x2078), ([0xFE52, 0x39, 0, 0, 0], 0x2079), ([0xFE52, 0x3D, 0, 0, 0], 0x207C),
    ([0xFE52, 0x41, 0, 0, 0], 0xC2), ([0xFE52, 0x43, 0, 0, 0], 0x108), ([0xFE52, 0x45, 0, 0, 0], 0xCA),
    ([0xFE52, 0x47, 0, 0, 0], 0x11C)]"

definition compose_rows_8 :: "compose_row list" where
  "compose_rows_8 =
   [([0xFE52, 0x48, 0, 0, 0], 0x124), ([0xFE52, 0x49, 0, 0, 0], 0xCE), ([0xFE52, 0x4A, 0, 0, 0], 0x134),
    ([0xFE52, 0x4F, 0, 0, 0], 0xD4), ([0xFE52, 0x53, 0, 0, 0], 0x15C), ([0xFE52, 0x55, 0, 0, 0], 0xDB),
    ([0xFE52, 0x57, 0, 0, 0], 0x174), ([0xFE52, 0x59, 0, 0, 0], 0x176), ([0xFE52, 0x5A, 0, 0, 0], 0x1E90),
    ([0xFE52, 0x5E, 0, 0, 0], 0x5E), ([0xFE52, 0x5F, 0, 0, 0], 0xAF), ([0xFE52, 0x61, 0, 0, 0], 0xE2),
    ([0xFE52, 0x63, 0, 0, 0], 0x109), ([0xFE52, 0x65, 0, 0, 0], 0xEA), ([0xFE52, 0x67, 0, 0, 0], 0x11D),
    ([0xFE52, 0x68, 0, 0, 0], 0x125), ([0xFE52, 0x69, 0, 0, 0], 0xEE), ([0xFE52, 0x6A, 0, 0, 0], 0x135),
    ([0xFE52, 0x6F, 0, 0, 0], 0xF4), ([0xFE52, 0x73, 0, 0, 0], 0x15D), ([0xFE52, 0x75, 0, 0, 0], 0xFB),
    ([0xFE52, 0x77, 0, 0, 0], 0x175), ([0xFE52, 0x79, 0, 0, 0], 0x177), ([0xFE52, 0x7A, 0, 0, 0], 0x1E91),
    ([0xFE52, 0x1EFF, 0x41, 0, 0], 0x1EAC), ([0xFE52, 0x1EFF, 0x45, 0, 0], 0x1EC6),
    ([0xFE52, 0x1EFF, 0x4F, 0, 0], 0x1ED8), ([0xFE52, 0x1EFF, 0x61, 0, 0], 0x1EAD),
    ([0xFE52, 0x1EFF, 0x65, 0, 0], 0x1EC7), ([0xFE52, 0x1EFF, 0x6F, 0, 0], 0x1ED9),
    ([0xFE52, 0xFE52, 0, 0, 0], 0x5E), ([0xFE52, 0xFE60, 0x41, 0, 0], 0x1EAC),
    ([0xFE52, 0xFE60, 0x45, 0, 0], 0x1EC6), ([0xFE52, 0xFE60, 0x4F, 0, 0], 0x1ED8),
    ([0xFE52, 0xFE60, 0x61, 0, 0], 0x1EAD), ([0xFE52, 0xFE60, 0x65, 0, 0], 0x1EC7),
    ([0xFE52, 0xFE60, 0x6F, 0, 0], 0x1ED9), ([0xFE52, 0xFF20, 0x21, 0x41, 0], 0x1EAC),
    ([0xFE52, 0xFF20, 0x21, 0x45, 0], 0x1EC6), ([0xFE52, 0xFF20, 0x21, 0x4F, 0], 0x1ED8),
    ([0xFE52, 0xFF20, 0x21, 0x61, 0], 0x1EAD), ([0xFE52, 0xFF20, 0x21, 0x65, 0], 0x1EC7),
    ([0xFE52, 0xFF20, 0x21, 0x6F, 0], 0x1ED9), ([0xFE52, 0xFF20, 0x53, 0x4D, 0], 0x2120),
    ([0xFE52, 0xFF20, 0x54, 0x4D, 0], 0x2122), ([0xFE52, 0xFF20, 0x5F, 0x61, 0], 0xAA),
    ([0xFE52, 0xFF20, 0x5F, 0x68, 0], 0x2B0), ([0xFE52, 0xFF20, 0x5F, 0x69, 0], 0x2071),
    ([0xFE52, 0xFF20, 0x5F, 0x6A, 0], 0x2B2), ([0xFE52, 0xFF20, 0x5F, 0x6C, 0], 0x2E1),
    ([0xFE52, 0xFF20, 0x5F, 0x6E, 0], 0x207F), ([0xFE52, 0xFF20, 0x5F, 0x6F, 0], 0xBA),
    ([0xFE52, 0xFF20, 0x5F, 0x72, 0], 0x2B3), ([0xFE52, 0xFF20, 0x5F, 0x73, 0], 0x2E2),
    ([0xFE52, 0xFF20, 0x5F, 0x77, 0], 0x2B7), ([0xFE52, 0xFF20, 0x5F, 0x78, 0], 0x2E3),
    ([0xFE52, 0xFF20, 0x5F, 0x79, 0], 0x2B8), ([0xFE52, 0xFF20, 0x5F, 0x1000263, 0], 0x2E0),
    ([0xFE52, 0xFF20, 0x5F, 0x1000266, 0], 0x2B1), ([0xFE52, 0xFF20, 0x5F, 0x1000279, 0], 0x2B4),
    ([0xFE52, 0xFF20, 0x5F, 0x100027B, 0], 0x2B5), ([0xFE52, 0xFF20, 0x5F, 0x1000281, 0], 0x2B6),
    ([0xFE52, 0xFF20, 0x5F, 0x1000295, 0], 0x2E4), ([0xFE52, 0xFF20, 0xBC6, 0x61, 0], 0xAA),
    ([0xFE52, 0xFF20, 0xBC6, 0x68, 0], 0x2B0), ([0xFE52, 0xFF20, 0xBC6, 0x69, 0], 0x2071),
    ([0xFE52, 0xFF20, 0xBC6, 0x6A, 0], 0x2B2), ([0xFE52, 0xFF20, 0xBC6, 0x6C, 0], 0x2E1),
    ([0xFE52, 0xFF20, 0xBC6, 0x6E, 0], 0x207F), ([0xFE52, 0xFF20, 0xBC6, 0x6F, 0], 0xBA),
    ([0xFE52, 0xFF20, 0xBC6, 0x72, 0], 0x2B3), ([0xFE52, 0xFF20, 0xBC6, 0x73, 0], 0x2E2),
    ([0xFE52, 0xFF20, 0xBC6, 0x77, 0], 0x2B7), ([0xFE52, 0xFF20, 0xBC6, 0x78, 0], 0x2E3),
    ([0xFE52, 0xFF20, 0xBC6, 0x79, 0], 0x2B8), ([0xFE52, 0xFF20, 0xBC6, 0x1000263, 0], 0x2E0),
    ([0xFE52, 0xFF20, 0xBC6, 0x1000266, 0], 0x2B1), ([0xFE52, 0xFF20, 0xBC6, 0x1000279, 0], 0x2B4),
    ([0xFE52, 0xFF20, 0xBC6, 0x100027B, 0], 0x2B5), ([0xFE52, 0xFF20, 0xBC6, 0x1000281, 0], 0x2B6),
    ([0xFE52, 0xFF20, 0xBC6, 0x1000295, 0], 0x2E4), ([0xFE52, 0xFF80, 0, 0, 0], 0xB2),
    ([0xFE52, 0xFFAB, 0, 0, 0], 0x207A), ([0xFE52, 0xFFB0, 0, 0, 0], 0x2070),
    ([0xFE52, 0xFFB1, 0, 0, 0], 0xB9), ([0xFE52, 0xFFB2, 0, 0, 0], 0xB2), ([0xFE52, 0xFFB3, 0, 0, 0], 0xB3),
    ([0xFE52, 0xFFB4, 0, 0, 0], 0x2074), ([0xFE52, 0xFFB5, 0, 0, 0], 0x2075),
    ([0xFE52, 0xFFB6, 0, 0, 0], 0x2076), ([0xFE52, 0xFFB7, 0, 0, 0], 0x2077),
    ([0xFE52, 0xFFB8, 0, 0, 0], 0x2078), ([0xFE52, 0xFFB9, 0, 0, 0], 0x2079),
    ([0xFE52, 0xFFBD, 0, 0, 0], 0x207C), ([0xFE52, 0x1001EA0, 0, 0, 0], 0x1EAC),
    ([0xFE52, 0x1001EA1, 0, 0, 0], 0x1EAD), ([0xFE52, 0x1001EB8, 0, 0, 0], 0x1EC6),
    ([0xFE52, 0x1001EB9, 0, 0, 0], 0x1EC7), ([0xFE52, 0x1001ECC, 0, 0, 0], 0x1ED8),
    ([0xFE52, 0x1001ECD, 0, 0, 0], 0x1ED9), ([0xFE52, 0x1002212, 0, 0, 0], 0x207B),
    ([0xFE52, 0x1004E00, 0, 0, 0], 0x3192), ([0xFE52, 0x1004E01, 0, 0, 0], 0x319C),
    ([0xFE52, 0x1004E09, 0, 0, 0], 0x3194), ([0xFE52, 0x1004E0A, 0, 0, 0], 0x3196),
    ([0xFE52, 0x1004E0B, 0, 0, 0], 0x3198), ([0xFE52, 0x1004E19, 0, 0, 0], 0x319B),
    ([0xFE52, 0x1004E2D, 0, 0, 0], 0x3197), ([0xFE52, 0x1004E59, 0, 0, 0], 0x319A),
    ([0xFE52, 0x1004E8C, 0, 0, 0], 0x3193), ([0xFE52, 0x1004EBA, 0, 0, 0], 0x319F),
    ([0xFE52, 0x10056DB, 0, 0, 0], 0x3195), ([0xFE52, 0x1005730, 0, 0, 0], 0x319E),
    ([0xFE52, 0x1005929, 0, 0, 0], 0x319D), ([0xFE52, 0x1007532, 0, 0, 0], 0x3199),
    ([0xFE53, 0x20, 0, 0, 0], 0x7E), ([0xFE53, 0x41, 0, 0, 0], 0xC3), ([0xFE53, 0x45, 0, 0, 0], 0x1EBC),
    ([0xFE53, 0x49, 0, 0, 0], 0x128), ([0xFE53, 0x4E, 0, 0, 0], 0xD1), ([0xFE53, 0x4F, 0, 0, 0], 0xD5),
    ([0xFE53, 0x55, 0, 0, 0], 0x168), ([0xFE53, 0x56, 0, 0, 0], 0x1E7C), ([0xFE53, 0x59, 0, 0, 0], 0x1EF8),
    ([0xFE53, 0x61, 0, 0, 0], 0xE3), ([0xFE53, 0x65, 0, 0, 0], 0x1EBD), ([0xFE53, 0x69, 0, 0, 0], 0x129),
    ([0xFE53, 0x6E, 0, 0, 0], 0xF1), ([0xFE53, 0x6F, 0, 0, 0], 0xF5), ([0xFE53, 0x75, 0, 0, 0], 0x169),
    ([0xFE53, 0x76, 0, 0, 0], 0x1E7D), ([0xFE53, 0x79, 0, 0, 0], 0x1EF9), ([0xFE53, 0x7E, 0, 0, 0], 0x7E),
    ([0xFE53, 0xC2, 0, 0, 0], 0x1EAA), ([0xFE53, 0xCA, 0, 0, 0], 0x1EC4), ([0xFE53, 0xD4, 0, 0, 0], 0x1ED6),
    ([0xFE53, 0xE2, 0, 0, 0], 0x1EAB), ([0xFE53, 0xEA, 0, 0, 0], 0x1EC5), ([0xFE53, 0xF4, 0, 0, 0], 0x1ED7),
    ([0xFE53, 0x1C3, 0, 0, 0], 0x1EB4), ([0xFE53, 0x1E3, 0, 0, 0], 0x1EB5), ([0xFE53, 0x7B5, 0, 0, 0], 0x1FD7),
    ([0xFE53, 0x7B9, 0, 0, 0], 0x1FE7), ([0xFE53, 0x7E1, 0, 0, 0], 0x1FB6), ([0xFE53, 0x7E7, 0, 0, 0], 0x1FC6),
    ([0xFE53, 0x7E9, 0, 0, 0], 0x1FD6), ([0xFE53, 0x7F5, 0, 0, 0], 0x1FE6), ([0xFE53, 0x7F9, 0, 0, 0], 0x1FF6)]"

definition compose_rows_9 :: "compose_row list" where
  "compose_rows_9 =
   [([0xFE53, 0x1EFA, 0, 0, 0], 0x1EE0), ([0xFE53, 0x1EFB, 0, 0, 0], 0x1EE1),
    ([0xFE53, 0x1EFC, 0, 0, 0], 0x1EEE), ([0xFE53, 0x1EFD, 0, 0, 0], 0x1EEF),
    ([0xFE53, 0xFE52, 0x41, 0, 0], 0x1EAA), ([0xFE53, 0xFE52, 0x45, 0, 0], 0x1EC4),
    ([0xFE53, 0xFE52, 0x4F, 0, 0], 0x1ED6), ([0xFE53, 0xFE52, 0x61, 0, 0], 0x1EAB),
    ([0xFE53, 0xFE52, 0x65, 0, 0], 0x1EC5), ([0xFE53, 0xFE52, 0x6F, 0, 0], 0x1ED7),
    ([0xFE53, 0xFE53, 0, 0, 0], 0x7E), ([0xFE53, 0xFE55, 0x41, 0, 0], 0x1EB4),
    ([0xFE53, 0xFE55, 0x61, 0, 0], 0x1EB5), ([0xFE53, 0xFE57, 0x7E9, 0, 0], 0x1FD7),
    ([0xFE53, 0xFE57, 0x7F5, 0, 0], 0x1FE7), ([0xFE53, 0xFE62, 0x4F, 0, 0], 0x1EE0),
    ([0xFE53, 0xFE62, 0x55, 0, 0], 0x1EEE), ([0xFE53, 0xFE62, 0x6F, 0, 0], 0x1EE1),
    ([0xFE53, 0xFE62, 0x75, 0, 0], 0x1EEF), ([0xFE53, 0xFF20, 0x22, 0x7E9, 0], 0x1FD7),
    ([0xFE53, 0xFF20, 0x22, 0x7F5, 0], 0x1FE7), ([0xFE53, 0xFF20, 0x28, 0x7C1, 0], 0x1F0F),
    ([0xFE53, 0xFF20, 0x28, 0x7C7, 0], 0x1F2F), ([0xFE53, 0xFF20, 0x28, 0x7C9, 0], 0x1F3F),
    ([0xFE53, 0xFF20, 0x28, 0x7D5, 0], 0x1F5F), ([0xFE53, 0xFF20, 0x28, 0x7D9, 0], 0x1F6F),
    ([0xFE53, 0xFF20, 0x28, 0x7E1, 0], 0x1F07), ([0xFE53, 0xFF20, 0x28, 0x7E7, 0], 0x1F27),
    ([0xFE53, 0xFF20, 0x28, 0x7E9, 0], 0x1F37), ([0xFE53, 0xFF20, 0x28, 0x7F5, 0], 0x1F57),
    ([0xFE53, 0xFF20, 0x28, 0x7F9, 0], 0x1F67), ([0xFE53, 0xFF20, 0x29, 0x7C1, 0], 0x1F0E),
    ([0xFE53, 0xFF20, 0x29, 0x7C7, 0], 0x1F2E), ([0xFE53, 0xFF20, 0x29, 0x7C9, 0], 0x1F3E),
    ([0xFE53, 0xFF20, 0x29, 0x7D9, 0], 0x1F6E), ([0xFE53, 0xFF20, 0x29, 0x7E1, 0], 0x1F06),
    ([0xFE53, 0xFF20, 0x29, 0x7E7, 0], 0x1F26), ([0xFE53, 0xFF20, 0x29, 0x7E9, 0], 0x1F36),
    ([0xFE53, 0xFF20, 0x29, 0x7F5, 0], 0x1F56), ([0xFE53, 0xFF20, 0x29, 0x7F9, 0], 0x1F66),
    ([0xFE53, 0xFF20, 0x2B, 0x4F, 0], 0x1EE0), ([0xFE53, 0xFF20, 0x2B, 0x55, 0], 0x1EEE),
    ([0xFE53, 0xFF20, 0x2B, 0x6F, 0], 0x1EE1), ([0xFE53, 0xFF20, 0x2B, 0x75, 0], 0x1EEF),
    ([0xFE53, 0xFF20, 0x55, 0x41, 0], 0x1EB4), ([0xFE53, 0xFF20, 0x55, 0x61, 0], 0x1EB5),
    ([0xFE53, 0xFF20, 0x5E, 0x41, 0], 0x1EAA), ([0xFE53, 0xFF20, 0x5E, 0x45, 0], 0x1EC4),
    ([0xFE53, 0xFF20, 0x5E, 0x4F, 0], 0x1ED6), ([0xFE53, 0xFF20, 0x5E, 0x61, 0], 0x1EAB),
    ([0xFE53, 0xFF20, 0x5E, 0x65, 0], 0x1EC5), ([0xFE53, 0xFF20, 0x5E, 0x6F, 0], 0x1ED7),
    ([0xFE53, 0xFF20, 0x62, 0x41, 0], 0x1EB4), ([0xFE53, 0xFF20, 0x62, 0x61, 0], 0x1EB5),
    ([0xFE53, 0x10001A0, 0, 0, 0], 0x1EE0), ([0xFE53, 0x10001A1, 0, 0, 0], 0x1EE1),
    ([0xFE53, 0x10001AF, 0, 0, 0], 0x1EEE), ([0xFE53, 0x10001B0, 0, 0, 0], 0x1EEF),
    ([0xFE53, 0x1000313, 0x7C1, 0, 0], 0x1F0E), ([0xFE53, 0x1000313, 0x7C7, 0, 0], 0x1F2E),
    ([0xFE53, 0x1000313, 0x7C9, 0, 0], 0x1F3E), ([0xFE53, 0x1000313, 0x7D9, 0, 0], 0x1F6E),
    ([0xFE53, 0x1000313, 0x7E1, 0, 0], 0x1F06), ([0xFE53, 0x1000313, 0x7E7, 0, 0], 0x1F26),
    ([0xFE53, 0x1000313, 0x7E9, 0, 0], 0x1F36), ([0xFE53, 0x1000313, 0x7F5, 0, 0], 0x1F56),
    ([0xFE53, 0x1000313, 0x7F9, 0, 0], 0x1F66), ([0xFE53, 0x1000314, 0x7C1, 0, 0], 0x1F0F),
    ([0xFE53, 0x1000314, 0x7C7, 0, 0], 0x1F2F), ([0xFE53, 0x1000314, 0x7C9, 0, 0], 0x1F3F),
    ([0xFE53, 0x1000314, 0x7D5, 0, 0], 0x1F5F), ([0xFE53, 0x1000314, 0x7D9, 0, 0], 0x1F6F),
    ([0xFE53, 0x1000314, 0x7E1, 0, 0], 0x1F07), ([0xFE53, 0x1000314, 0x7E7, 0, 0], 0x1F27),
    ([0xFE53, 0x1000314, 0x7E9, 0, 0], 0x1F37), ([0xFE53, 0x1000314, 0x7F5, 0, 0], 0x1F57),
    ([0xFE53, 0x1000314, 0x7F9, 0, 0], 0x1F67), ([0xFE53, 0x1001F00, 0, 0, 0], 0x1F06),
    ([0xFE53, 0x1001F01, 0, 0, 0], 0x1F07), ([0xFE53, 0x1001F08, 0, 0, 0], 0x1F0E),
    ([0xFE53, 0x1001F09, 0, 0, 0], 0x1F0F), ([0xFE53, 0x1001F20, 0, 0, 0], 0x1F26),
    ([0xFE53, 0x1001F21, 0, 0, 0], 0x1F27), ([0xFE53, 0x1001F28, 0, 0, 0], 0x1F2E),
    ([0xFE53, 0x1001F29, 0, 0, 0], 0x1F2F), ([0xFE53, 0x1001F30, 0, 0, 0], 0x1F36),
    ([0xFE53, 0x1001F31, 0, 0, 0], 0x1F37), ([0xFE53, 0x1001F38, 0, 0, 0], 0x1F3E),
    ([0xFE53, 0x1001F39, 0, 0, 0], 0x1F3F), ([0xFE53, 0x1001F50, 0, 0, 0], 0x1F56),
    ([0xFE53, 0x1001F51, 0, 0, 0], 0x1F57), ([0xFE53, 0x1001F59, 0, 0, 0], 0x1F5F),
    ([0xFE53, 0x1001F60, 0, 0, 0], 0x1F66), ([0xFE53, 0x1001F61, 0, 0, 0], 0x1F67),
    ([0xFE53, 0x1001F68, 0, 0, 0], 0x1F6E), ([0xFE53, 0x1001F69, 0, 0, 0], 0x1F6F),
    ([0xFE54, 0x20, 0, 0, 0], 0xAF), ([0xFE54, 0x41, 0, 0, 0], 0x100), ([0xFE54, 0x45, 0, 0, 0], 0x112),
    ([0xFE54, 0x47, 0, 0, 0], 0x1E20), ([0xFE54, 0x49, 0, 0, 0], 0x12A), ([0xFE54, 0x4F, 0, 0, 0], 0x14C),
    ([0xFE54, 0x55, 0, 0, 0], 0x16A), ([0xFE54, 0x59, 0, 0, 0], 0x232), ([0xFE54, 0x61, 0, 0, 0], 0x101),
    ([0xFE54, 0x65, 0, 0, 0], 0x113), ([0xFE54, 0x67, 0, 0, 0], 0x1E21), ([0xFE54, 0x69, 0, 0, 0], 0x12B),
    ([0xFE54, 0x6F, 0, 0, 0], 0x14D), ([0xFE54, 0x75, 0, 0, 0], 0x16B), ([0xFE54, 0x79, 0, 0, 0], 0x233),
    ([0xFE54, 0xAF, 0, 0, 0], 0xAF), ([0xFE54, 0xC4, 0, 0, 0], 0x1DE), ([0xFE54, 0xC6, 0, 0, 0], 0x1E2),
    ([0xFE54, 0xD5, 0, 0, 0], 0x22C), ([0xFE54, 0xD6, 0, 0, 0], 0x22A), ([0xFE54, 0xDC, 0, 0, 0], 0x1D5),
    ([0xFE54, 0xE4, 0, 0, 0], 0x1DF), ([0xFE54, 0xE6, 0, 0, 0], 0x1E3), ([0xFE54, 0xF5, 0, 0, 0], 0x22D),
    ([0xFE54, 0xF6, 0, 0, 0], 0x22B), ([0xFE54, 0xFC, 0, 0, 0], 0x1D6), ([0xFE54, 0x6C9, 0, 0, 0], 0x4E3),
    ([0xFE54, 0x6D5, 0, 0, 0], 0x4EF), ([0xFE54, 0x6E9, 0, 0, 0], 0x4E2), ([0xFE54, 0x6F5, 0, 0, 0], 0x4EE),
    ([0xFE54, 0x7C1, 0, 0, 0], 0x1FB9), ([0xFE54, 0x7C9, 0, 0, 0], 0x1FD9), ([0xFE54, 0x7D5, 0, 0, 0], 0x1FE9),
    ([0xFE54, 0x7E1, 0, 0, 0], 0x1FB1), ([0xFE54, 0x7E9, 0, 0, 0], 0x1FD1), ([0xFE54, 0x7F5, 0, 0, 0], 0x1FE1),
    ([0xFE54, 0x1E9F, 0x4F, 0, 0], 0x22C), ([0xFE54, 0x1E9F, 0x6F, 0, 0], 0x22D),
    ([0xFE54, 0x1EFF, 0x4C, 0, 0], 0x1E38), ([0xFE54, 0x1EFF, 0x52, 0, 0], 0x1E5C),
    ([0xFE54, 0x1EFF, 0x6C, 0, 0], 0x1E39), ([0xFE54, 0x1EFF, 0x72, 0, 0], 0x1E5D),
    ([0xFE54, 0xFE53, 0x4F, 0, 0], 0x22C), ([0xFE54, 0xFE53, 0x6F, 0, 0], 0x22D),
    ([0xFE54, 0xFE54, 0, 0, 0], 0xAF), ([0xFE54, 0xFE56, 0x41, 0, 0], 0x1E0),
    ([0xFE54, 0xFE56, 0x4F, 0, 0], 0x230), ([0xFE54, 0xFE56, 0x61, 0, 0], 0x1E1),
    ([0xFE54, 0xFE56, 0x6F, 0, 0], 0x231), ([0xFE54, 0xFE57, 0x41, 0, 0], 0x1DE),
    ([0xFE54, 0xFE57, 0x4F, 0, 0], 0x22A), ([0xFE54, 0xFE57, 0x55, 0, 0], 0x1D5)]"

definition compose_rows_10 :: "compose_row list" where
  "compose_rows_10 =
   [([0xFE54, 0xFE57, 0x61, 0, 0], 0x1DF), ([0xFE54, 0xFE57, 0x6F, 0, 0], 0x22B),
    ([0xFE54, 0xFE57, 0x75, 0, 0], 0x1D6), ([0xFE54, 0xFE5C, 0x4F, 0, 0], 0x1EC),
    ([0xFE54, 0xFE5C, 0x6F, 0, 0], 0x1ED), ([0xFE54, 0xFE60, 0x4C, 0, 0], 0x1E38),
    ([0xFE54, 0xFE60, 0x52, 0, 0], 0x1E5C), ([0xFE54, 0xFE60, 0x6C, 0, 0], 0x1E39),
    ([0xFE54, 0xFE60, 0x72, 0, 0], 0x1E5D), ([0xFE54, 0xFF20, 0x21, 0x4C, 0], 0x1E38),
    ([0xFE54, 0xFF20, 0x21, 0x52, 0], 0x1E5C), ([0xFE54, 0xFF20, 0x21, 0x6C, 0], 0x1E39),
    ([0xFE54, 0xFF20, 0x21, 0x72, 0], 0x1E5D), ([0xFE54, 0xFF20, 0x22, 0x41, 0], 0x1DE),
    ([0xFE54, 0xFF20, 0x22, 0x4F, 0], 0x22A), ([0xFE54, 0xFF20, 0x22, 0x55, 0], 0x1D5),
    ([0xFE54, 0xFF20, 0x22, 0x61, 0], 0x1DF), ([0xFE54, 0xFF20, 0x22, 0x6F, 0], 0x22B),
    ([0xFE54, 0xFF20, 0x22, 0x75, 0], 0x1D6), ([0xFE54, 0xFF20, 0x2E, 0x41, 0], 0x1E0),
    ([0xFE54, 0xFF20, 0x2E, 0x4F, 0], 0x230), ([0xFE54, 0xFF20, 0x2E, 0x61, 0], 0x1E1),
    ([0xFE54, 0xFF20, 0x2E, 0x6F, 0], 0x231), ([0xFE54, 0xFF20, 0x3B, 0x4F, 0], 0x1EC),
    ([0xFE54, 0xFF20, 0x3B, 0x6F, 0], 0x1ED), ([0xFE54, 0xFF20, 0x7E, 0x4F, 0], 0x22C),
    ([0xFE54, 0xFF20, 0x7E, 0x6F, 0], 0x22D), ([0xFE54, 0x10001EA, 0, 0, 0], 0x1EC),
    ([0xFE54, 0x10001EB, 0, 0, 0], 0x1ED), ([0xFE54, 0x1000226, 0, 0, 0], 0x1E0),
    ([0xFE54, 0x1000227, 0, 0, 0], 0x1E1), ([0xFE54, 0x100022E, 0, 0, 0], 0x230),
    ([0xFE54, 0x100022F, 0, 0, 0], 0x231), ([0xFE54, 0x1001E36, 0, 0, 0], 0x1E38),
    ([0xFE54, 0x1001E37, 0, 0, 0], 0x1E39), ([0xFE54, 0x1001E5A, 0, 0, 0], 0x1E5C),
    ([0xFE54, 0x1001E5B, 0, 0, 0], 0x1E5D), ([0xFE55, 0x20, 0, 0, 0], 0x2D8), ([0xFE55, 0x41, 0, 0, 0], 0x102),
    ([0xFE55, 0x45, 0, 0, 0], 0x114), ([0xFE55, 0x47, 0, 0, 0], 0x11E), ([0xFE55, 0x49, 0, 0, 0], 0x12C),
    ([0xFE55, 0x4F, 0, 0, 0], 0x14E), ([0xFE55, 0x55, 0, 0, 0], 0x16C), ([0xFE55, 0x61, 0, 0, 0], 0x103),
    ([0xFE55, 0x65, 0, 0, 0], 0x115), ([0xFE55, 0x67, 0, 0, 0], 0x11F), ([0xFE55, 0x69, 0, 0, 0], 0x12D),
    ([0xFE55, 0x6F, 0, 0, 0], 0x14F), ([0xFE55, 0x75, 0, 0, 0], 0x16D), ([0xFE55, 0x6C1, 0, 0, 0], 0x4D1),
    ([0xFE55, 0x6C5, 0, 0, 0], 0x4D7), ([0xFE55, 0x6C9, 0, 0, 0], 0x439), ([0xFE55, 0x6D5, 0, 0, 0], 0x45E),
    ([0xFE55, 0x6D6, 0, 0, 0], 0x4C2), ([0xFE55, 0x6E1, 0, 0, 0], 0x4D0), ([0xFE55, 0x6E5, 0, 0, 0], 0x4D6),
    ([0xFE55, 0x6E9, 0, 0, 0], 0x419), ([0xFE55, 0x6F5, 0, 0, 0], 0x40E), ([0xFE55, 0x6F6, 0, 0, 0], 0x4C1),
    ([0xFE55, 0x7C1, 0, 0, 0], 0x1FB8), ([0xFE55, 0x7C9, 0, 0, 0], 0x1FD8), ([0xFE55, 0x7D5, 0, 0, 0], 0x1FE8),
    ([0xFE55, 0x7E1, 0, 0, 0], 0x1FB0), ([0xFE55, 0x7E9, 0, 0, 0], 0x1FD0), ([0xFE55, 0x7F5, 0, 0, 0], 0x1FE0),
    ([0xFE55, 0x1EFF, 0x41, 0, 0], 0x1EB6), ([0xFE55, 0x1EFF, 0x61, 0, 0], 0x1EB7),
    ([0xFE55, 0xFE55, 0, 0, 0], 0x2D8), ([0xFE55, 0xFE5B, 0x45, 0, 0], 0x1E1C),
    ([0xFE55, 0xFE5B, 0x65, 0, 0], 0x1E1D), ([0xFE55, 0xFE60, 0x41, 0, 0], 0x1EB6),
    ([0xFE55, 0xFE60, 0x61, 0, 0], 0x1EB7), ([0xFE55, 0xFF20, 0x21, 0x41, 0], 0x1EB6),
    ([0xFE55, 0xFF20, 0x21, 0x61, 0], 0x1EB7), ([0xFE55, 0xFF20, 0x2C, 0x45, 0], 0x1E1C),
    ([0xFE55, 0xFF20, 0x2C, 0x65, 0], 0x1E1D), ([0xFE55, 0x1000228, 0, 0, 0], 0x1E1C),
    ([0xFE55, 0x1000229, 0, 0, 0], 0x1E1D), ([0xFE55, 0x1001EA0, 0, 0, 0], 0x1EB6),
    ([0xFE55, 0x1001EA1, 0, 0, 0], 0x1EB7), ([0xFE56, 0x20, 0, 0, 0], 0x2D9), ([0xFE56, 0x41, 0, 0, 0], 0x226),
    ([0xFE56, 0x42, 0, 0, 0], 0x1E02), ([0xFE56, 0x43, 0, 0, 0], 0x10A), ([0xFE56, 0x44, 0, 0, 0], 0x1E0A),
    ([0xFE56, 0x45, 0, 0, 0], 0x116), ([0xFE56, 0x46, 0, 0, 0], 0x1E1E), ([0xFE56, 0x47, 0, 0, 0], 0x120),
    ([0xFE56, 0x48, 0, 0, 0], 0x1E22), ([0xFE56, 0x49, 0, 0, 0], 0x130), ([0xFE56, 0x4D, 0, 0, 0], 0x1E40),
    ([0xFE56, 0x4E, 0, 0, 0], 0x1E44), ([0xFE56, 0x4F, 0, 0, 0], 0x22E), ([0xFE56, 0x50, 0, 0, 0], 0x1E56),
    ([0xFE56, 0x52, 0, 0, 0], 0x1E58), ([0xFE56, 0x53, 0, 0, 0], 0x1E60), ([0xFE56, 0x54, 0, 0, 0], 0x1E6A),
    ([0xFE56, 0x57, 0, 0, 0], 0x1E86), ([0xFE56, 0x58, 0, 0, 0], 0x1E8A), ([0xFE56, 0x59, 0, 0, 0], 0x1E8E),
    ([0xFE56, 0x5A, 0, 0, 0], 0x17B), ([0xFE56, 0x61, 0, 0, 0], 0x227), ([0xFE56, 0x62, 0, 0, 0], 0x1E03),
    ([0xFE56, 0x63, 0, 0, 0], 0x10B), ([0xFE56, 0x64, 0, 0, 0], 0x1E0B), ([0xFE56, 0x65, 0, 0, 0], 0x117),
    ([0xFE56, 0x66, 0, 0, 0], 0x1E1F), ([0xFE56, 0x67, 0, 0, 0], 0x121), ([0xFE56, 0x68, 0, 0, 0], 0x1E23),
    ([0xFE56, 0x69, 0, 0, 0], 0x131), ([0xFE56, 0x6D, 0, 0, 0], 0x1E41), ([0xFE56, 0x6E, 0, 0, 0], 0x1E45),
    ([0xFE56, 0x6F, 0, 0, 0], 0x22F), ([0xFE56, 0x70, 0, 0, 0], 0x1E57), ([0xFE56, 0x72, 0, 0, 0], 0x1E59),
    ([0xFE56, 0x73, 0, 0, 0], 0x1E61), ([0xFE56, 0x74, 0, 0, 0], 0x1E6B), ([0xFE56, 0x77, 0, 0, 0], 0x1E87),
    ([0xFE56, 0x78, 0, 0, 0], 0x1E8B), ([0xFE56, 0x79, 0, 0, 0], 0x1E8F), ([0xFE56, 0x7A, 0, 0, 0], 0x17C),
    ([0xFE56, 0x1A6, 0, 0, 0], 0x1E64), ([0xFE56, 0x1A9, 0, 0, 0], 0x1E66), ([0xFE56, 0x1B6, 0, 0, 0], 0x1E65),
    ([0xFE56, 0x1B9, 0, 0, 0], 0x1E67), ([0xFE56, 0x1FF, 0, 0, 0], 0x2D9),
    ([0xFE56, 0x1EF3, 0x53, 0, 0], 0x1E64), ([0xFE56, 0x1EF3, 0x73, 0, 0], 0x1E65),
    ([0xFE56, 0x1EFF, 0x53, 0, 0], 0x1E68), ([0xFE56, 0x1EFF, 0x73, 0, 0], 0x1E69),
    ([0xFE56, 0xFE51, 0x53, 0, 0], 0x1E64), ([0xFE56, 0xFE51, 0x73, 0, 0], 0x1E65),
    ([0xFE56, 0xFE56, 0, 0, 0], 0x2D9), ([0xFE56, 0xFE5A, 0x53, 0, 0], 0x1E66),
    ([0xFE56, 0xFE5A, 0x73, 0, 0], 0x1E67), ([0xFE56, 0xFE60, 0x53, 0, 0], 0x1E68),
    ([0xFE56, 0xFE60, 0x73, 0, 0], 0x1E69), ([0xFE56, 0xFF20, 0x21, 0x53, 0], 0x1E68),
    ([0xFE56, 0xFF20, 0x21, 0x73, 0], 0x1E69), ([0xFE56, 0xFF20, 0x27, 0x53, 0], 0x1E64),
    ([0xFE56, 0xFF20, 0x27, 0x73, 0], 0x1E65), ([0xFE56, 0xFF20, 0x63, 0x53, 0], 0x1E66),
    ([0xFE56, 0xFF20, 0x63, 0x73, 0], 0x1E67), ([0xFE56, 0xFF20, 0xB4, 0x53, 0], 0x1E64),
    ([0xFE56, 0xFF20, 0xB4, 0x73, 0], 0x1E65), ([0xFE56, 0x100017F, 0, 0, 0], 0x1E9B),
    ([0xFE56, 0x1001E62, 0, 0, 0], 0x1E68)]"

definition compose_rows_11 :: "compose_row list" where
  "compose_rows_11 =
   [([0xFE56, 0x1001E63, 0, 0, 0], 0x1E69), ([0xFE57, 0x20, 0, 0, 0], 0x22), ([0xFE57, 0x22, 0, 0, 0], 0xA8),
    ([0xFE57, 0x27, 0, 0, 0], 0x344), ([0xFE57, 0x41, 0, 0, 0], 0xC4), ([0xFE57, 0x45, 0, 0, 0], 0xCB),
    ([0xFE57, 0x48, 0, 0, 0], 0x1E26), ([0xFE57, 0x49, 0, 0, 0], 0xCF), ([0xFE57, 0x4F, 0, 0, 0], 0xD6),
    ([0xFE57, 0x55, 0, 0, 0], 0xDC), ([0xFE57, 0x57, 0, 0, 0], 0x1E84), ([0xFE57, 0x58, 0, 0, 0], 0x1E8C),
    ([0xFE57, 0x59, 0, 0, 0], 0x178), ([0xFE57, 0x61, 0, 0, 0], 0xE4), ([0xFE57, 0x65, 0, 0, 0], 0xEB),
    ([0xFE57, 0x68, 0, 0, 0], 0x1E27), ([0xFE57, 0x69, 0, 0, 0], 0xEF), ([0xFE57, 0x6F, 0, 0, 0], 0xF6),
    ([0xFE57, 0x74, 0, 0, 0], 0x1E97), ([0xFE57, 0x75, 0, 0, 0], 0xFC), ([0xFE57, 0x77, 0, 0, 0], 0x1E85),
    ([0xFE57, 0x78, 0, 0, 0], 0x1E8D), ([0xFE57, 0x79, 0, 0, 0], 0xFF), ([0xFE57, 0xA8, 0, 0, 0], 0xA8),
    ([0xFE57, 0xB4, 0, 0, 0], 0x344), ([0xFE57, 0xD5, 0, 0, 0], 0x1E4E), ([0xFE57, 0xF5, 0, 0, 0], 0x1E4F),
    ([0xFE57, 0x3DE, 0, 0, 0], 0x1E7A), ([0xFE57, 0x3FE, 0, 0, 0], 0x1E7B), ([0xFE57, 0x6A6, 0, 0, 0], 0x457),
    ([0xFE57, 0x6B6, 0, 0, 0], 0x407), ([0xFE57, 0x6C1, 0, 0, 0], 0x4D3), ([0xFE57, 0x6C5, 0, 0, 0], 0x451),
    ([0xFE57, 0x6C9, 0, 0, 0], 0x4E5), ([0xFE57, 0x6CF, 0, 0, 0], 0x4E7), ([0xFE57, 0x6D5, 0, 0, 0], 0x4F1),
    ([0xFE57, 0x6D6, 0, 0, 0], 0x4DD), ([0xFE57, 0x6D9, 0, 0, 0], 0x4F9), ([0xFE57, 0x6DA, 0, 0, 0], 0x4DF),
    ([0xFE57, 0x6DC, 0, 0, 0], 0x4ED), ([0xFE57, 0x6DE, 0, 0, 0], 0x4F5), ([0xFE57, 0x6E1, 0, 0, 0], 0x4D2),
    ([0xFE57, 0x6E5, 0, 0, 0], 0x401), ([0xFE57, 0x6E9, 0, 0, 0], 0x4E4), ([0xFE57, 0x6EF, 0, 0, 0], 0x4E6),
    ([0xFE57, 0x6F5, 0, 0, 0], 0x4F0), ([0xFE57, 0x6F6, 0, 0, 0], 0x4DC), ([0xFE57, 0x6F9, 0, 0, 0], 0x4F8),
    ([0xFE57, 0x6FA, 0, 0, 0], 0x4DE), ([0xFE57, 0x6FC, 0, 0, 0], 0x4EC), ([0xFE57, 0x6FE, 0, 0, 0], 0x4F4),
    ([0xFE57, 0x7C9, 0, 0, 0], 0x3AA), ([0xFE57, 0x7D5, 0, 0, 0], 0x3AB), ([0xFE57, 0x7E9, 0, 0, 0], 0x3CA),
    ([0xFE57, 0x7F5, 0, 0, 0], 0x3CB), ([0xFE57, 0x1E9F, 0x4F, 0, 0], 0x1E4E),
    ([0xFE57, 0x1E9F, 0x6F, 0, 0], 0x1E4F), ([0xFE57, 0xFE51, 0x20, 0, 0], 0x385),
    ([0xFE57, 0xFE51, 0x7E9, 0, 0], 0x390), ([0xFE57, 0xFE51, 0x7F5, 0, 0], 0x3B0),
    ([0xFE57, 0xFE53, 0x4F, 0, 0], 0x1E4E), ([0xFE57, 0xFE53, 0x6F, 0, 0], 0x1E4F),
    ([0xFE57, 0xFE54, 0x55, 0, 0], 0x1E7A), ([0xFE57, 0xFE54, 0x75, 0, 0], 0x1E7B),
    ([0xFE57, 0xFE57, 0, 0, 0], 0xA8), ([0xFE57, 0xFF20, 0x5F, 0x55, 0], 0x1E7A),
    ([0xFE57, 0xFF20, 0x5F, 0x75, 0], 0x1E7B), ([0xFE57, 0xFF20, 0x7E, 0x4F, 0], 0x1E4E),
    ([0xFE57, 0xFF20, 0x7E, 0x6F, 0], 0x1E4F), ([0xFE57, 0xFF20, 0xAF, 0x55, 0], 0x1E7A),
    ([0xFE57, 0xFF20, 0xAF, 0x75, 0], 0x1E7B), ([0xFE57, 0x10004D8, 0, 0, 0], 0x4DA),
    ([0xFE57, 0x10004D9, 0, 0, 0], 0x4DB), ([0xFE57, 0x10004E8, 0, 0, 0], 0x4EA),
    ([0xFE57, 0x10004E9, 0, 0, 0], 0x4EB), ([0xFE58, 0x20, 0, 0, 0], 0x2DA), ([0xFE58, 0x41, 0, 0, 0], 0xC5),
    ([0xFE58, 0x55, 0, 0, 0], 0x16E), ([0xFE58, 0x61, 0, 0, 0], 0xE5), ([0xFE58, 0x75, 0, 0, 0], 0x16F),
    ([0xFE58, 0x77, 0, 0, 0], 0x1E98), ([0xFE58, 0x79, 0, 0, 0], 0x1E99), ([0xFE58, 0xFE58, 0, 0, 0], 0xB0),
    ([0xFE59, 0x20, 0, 0, 0], 0x2DD), ([0xFE59, 0x4F, 0, 0, 0], 0x150), ([0xFE59, 0x55, 0, 0, 0], 0x170),
    ([0xFE59, 0x6F, 0, 0, 0], 0x151), ([0xFE59, 0x75, 0, 0, 0], 0x171), ([0xFE59, 0x6D5, 0, 0, 0], 0x4F3),
    ([0xFE59, 0x6F5, 0, 0, 0], 0x4F2), ([0xFE59, 0xFE59, 0, 0, 0], 0x2DD), ([0xFE5A, 0x20, 0, 0, 0], 0x2C7),
    ([0xFE5A, 0x41, 0, 0, 0], 0x1CD), ([0xFE5A, 0x43, 0, 0, 0], 0x10C), ([0xFE5A, 0x44, 0, 0, 0], 0x10E),
    ([0xFE5A, 0x45, 0, 0, 0], 0x11A), ([0xFE5A, 0x47, 0, 0, 0], 0x1E6), ([0xFE5A, 0x48, 0, 0, 0], 0x21E),
    ([0xFE5A, 0x49, 0, 0, 0], 0x1CF), ([0xFE5A, 0x4B, 0, 0, 0], 0x1E8), ([0xFE5A, 0x4C, 0, 0, 0], 0x13D),
    ([0xFE5A, 0x4E, 0, 0, 0], 0x147), ([0xFE5A, 0x4F, 0, 0, 0], 0x1D1), ([0xFE5A, 0x52, 0, 0, 0], 0x158),
    ([0xFE5A, 0x53, 0, 0, 0], 0x160), ([0xFE5A, 0x54, 0, 0, 0], 0x164), ([0xFE5A, 0x55, 0, 0, 0], 0x1D3),
    ([0xFE5A, 0x5A, 0, 0, 0], 0x17D), ([0xFE5A, 0x61, 0, 0, 0], 0x1CE), ([0xFE5A, 0x63, 0, 0, 0], 0x10D),
    ([0xFE5A, 0x64, 0, 0, 0], 0x10F), ([0xFE5A, 0x65, 0, 0, 0], 0x11B), ([0xFE5A, 0x67, 0, 0, 0], 0x1E7),
    ([0xFE5A, 0x68, 0, 0, 0], 0x21F), ([0xFE5A, 0x69, 0, 0, 0], 0x1D0), ([0xFE5A, 0x6A, 0, 0, 0], 0x1F0),
    ([0xFE5A, 0x6B, 0, 0, 0], 0x1E9), ([0xFE5A, 0x6C, 0, 0, 0], 0x13E), ([0xFE5A, 0x6E, 0, 0, 0], 0x148),
    ([0xFE5A, 0x6F, 0, 0, 0], 0x1D2), ([0xFE5A, 0x72, 0, 0, 0], 0x159), ([0xFE5A, 0x73, 0, 0, 0], 0x161),
    ([0xFE5A, 0x74, 0, 0, 0], 0x165), ([0xFE5A, 0x75, 0, 0, 0], 0x1D4), ([0xFE5A, 0x7A, 0, 0, 0], 0x17E),
    ([0xFE5A, 0xDC, 0, 0, 0], 0x1D9), ([0xFE5A, 0xFC, 0, 0, 0], 0x1DA), ([0xFE5A, 0x1B7, 0, 0, 0], 0x2C7),
    ([0xFE5A, 0xFE57, 0x55, 0, 0], 0x1D9), ([0xFE5A, 0xFE57, 0x75, 0, 0], 0x1DA),
    ([0xFE5A, 0xFE5A, 0, 0, 0], 0x2C7), ([0xFE5A, 0xFF20, 0x22, 0x55, 0], 0x1D9),
    ([0xFE5A, 0xFF20, 0x22, 0x75, 0], 0x1DA), ([0xFE5A, 0x10001B7, 0, 0, 0], 0x1EE),
    ([0xFE5A, 0x1000292, 0, 0, 0], 0x1EF), ([0xFE5B, 0x20, 0, 0, 0], 0xB8), ([0xFE5B, 0x2C, 0, 0, 0], 0xB8),
    ([0xFE5B, 0x2D, 0, 0, 0], 0xAC), ([0xFE5B, 0x43, 0, 0, 0], 0xC7), ([0xFE5B, 0x44, 0, 0, 0], 0x1E10),
    ([0xFE5B, 0x45, 0, 0, 0], 0x228), ([0xFE5B, 0x47, 0, 0, 0], 0x122), ([0xFE5B, 0x48, 0, 0, 0], 0x1E28),
    ([0xFE5B, 0x4B, 0, 0, 0], 0x136), ([0xFE5B, 0x4C, 0, 0, 0], 0x13B), ([0xFE5B, 0x4E, 0, 0, 0], 0x145),
    ([0xFE5B, 0x52, 0, 0, 0], 0x156), ([0xFE5B, 0x53, 0, 0, 0], 0x15E)]"

definition compose_rows_12 :: "compose_row list" where
  "compose_rows_12 =
   [([0xFE5B, 0x54, 0, 0, 0], 0x162), ([0xFE5B, 0x63, 0, 0, 0], 0xE7), ([0xFE5B, 0x64, 0, 0, 0], 0x1E11),
    ([0xFE5B, 0x65, 0, 0, 0], 0x229), ([0xFE5B, 0x67, 0, 0, 0], 0x123), ([0xFE5B, 0x68, 0, 0, 0], 0x1E29),
    ([0xFE5B, 0x6B, 0, 0, 0], 0x137), ([0xFE5B, 0x6C, 0, 0, 0], 0x13C), ([0xFE5B, 0x6E, 0, 0, 0], 0x146),
    ([0xFE5B, 0x72, 0, 0, 0], 0x157), ([0xFE5B, 0x73, 0, 0, 0], 0x15F), ([0xFE5B, 0x74, 0, 0, 0], 0x163),
    ([0xFE5B, 0xB8, 0, 0, 0], 0xB8), ([0xFE5B, 0xFE5B, 0, 0, 0], 0xB8), ([0xFE5C, 0x20, 0, 0, 0], 0x2DB),
    ([0xFE5C, 0x41, 0, 0, 0], 0x104), ([0xFE5C, 0x45, 0, 0, 0], 0x118), ([0xFE5C, 0x49, 0, 0, 0], 0x12E),
    ([0xFE5C, 0x4F, 0, 0, 0], 0x1EA), ([0xFE5C, 0x55, 0, 0, 0], 0x172), ([0xFE5C, 0x61, 0, 0, 0], 0x105),
    ([0xFE5C, 0x65, 0, 0, 0], 0x119), ([0xFE5C, 0x69, 0, 0, 0], 0x12F), ([0xFE5C, 0x6F, 0, 0, 0], 0x1EB),
    ([0xFE5C, 0x75, 0, 0, 0], 0x173), ([0xFE5C, 0x1B2, 0, 0, 0], 0x2DB), ([0xFE5C, 0xFE5C, 0, 0, 0], 0x2DB),
    ([0xFE5D, 0x7B1, 0, 0, 0], 0x1FB4), ([0xFE5D, 0x7B3, 0, 0, 0], 0x1FC4), ([0xFE5D, 0x7BB, 0, 0, 0], 0x1FF4),
    ([0xFE5D, 0x7C1, 0, 0, 0], 0x1FBC), ([0xFE5D, 0x7C7, 0, 0, 0], 0x1FCC), ([0xFE5D, 0x7D9, 0, 0, 0], 0x1FFC),
    ([0xFE5D, 0x7E1, 0, 0, 0], 0x1FB3), ([0xFE5D, 0x7E7, 0, 0, 0], 0x1FC3), ([0xFE5D, 0x7F9, 0, 0, 0], 0x1FF3),
    ([0xFE5D, 0x1EF2, 0x7E1, 0, 0], 0x1FB2), ([0xFE5D, 0x1EF2, 0x7E7, 0, 0], 0x1FC2),
    ([0xFE5D, 0x1EF2, 0x7F9, 0, 0], 0x1FF2), ([0xFE5D, 0x1EF2, 0xFF20, 0x28, 0x7C1], 0x1F8B),
    ([0xFE5D, 0x1EF2, 0xFF20, 0x28, 0x7C7], 0x1F9B), ([0xFE5D, 0x1EF2, 0xFF20, 0x28, 0x7D9], 0x1FAB),
    ([0xFE5D, 0x1EF2, 0xFF20, 0x28, 0x7E1], 0x1F83), ([0xFE5D, 0x1EF2, 0xFF20, 0x28, 0x7E7], 0x1F93),
    ([0xFE5D, 0x1EF2, 0xFF20, 0x28, 0x7F9], 0x1FA3), ([0xFE5D, 0x1EF2, 0xFF20, 0x29, 0x7C1], 0x1F8A),
    ([0xFE5D, 0x1EF2, 0xFF20, 0x29, 0x7C7], 0x1F9A), ([0xFE5D, 0x1EF2, 0xFF20, 0x29, 0x7D9], 0x1FAA),
    ([0xFE5D, 0x1EF2, 0xFF20, 0x29, 0x7E1], 0x1F82), ([0xFE5D, 0x1EF2, 0xFF20, 0x29, 0x7E7], 0x1F92),
    ([0xFE5D, 0x1EF2, 0xFF20, 0x29, 0x7F9], 0x1FA2), ([0xFE5D, 0x1EF2, 0x1000313, 0x7C1, 0], 0x1F8A),
    ([0xFE5D, 0x1EF2, 0x1000313, 0x7C7, 0], 0x1F9A), ([0xFE5D, 0x1EF2, 0x1000313, 0x7D9, 0], 0x1FAA),
    ([0xFE5D, 0x1EF2, 0x1000313, 0x7E1, 0], 0x1F82), ([0xFE5D, 0x1EF2, 0x1000313, 0x7E7, 0], 0x1F92),
    ([0xFE5D, 0x1EF2, 0x1000313, 0x7F9, 0], 0x1FA2), ([0xFE5D, 0x1EF2, 0x1000314, 0x7C1, 0], 0x1F8B),
    ([0xFE5D, 0x1EF2, 0x1000314, 0x7C7, 0], 0x1F9B), ([0xFE5D, 0x1EF2, 0x1000314, 0x7D9, 0], 0x1FAB),
    ([0xFE5D, 0x1EF2, 0x1000314, 0x7E1, 0], 0x1F83), ([0xFE5D, 0x1EF2, 0x1000314, 0x7E7, 0], 0x1F93),
    ([0xFE5D, 0x1EF2, 0x1000314, 0x7F9, 0], 0x1FA3), ([0xFE5D, 0x1EF2, 0x1001F00, 0, 0], 0x1F82),
    ([0xFE5D, 0x1EF2, 0x1001F01, 0, 0], 0x1F83), ([0xFE5D, 0x1EF2, 0x1001F08, 0, 0], 0x1F8A),
    ([0xFE5D, 0x1EF2, 0x1001F09, 0, 0], 0x1F8B), ([0xFE5D, 0x1EF2, 0x1001F20, 0, 0], 0x1F92),
    ([0xFE5D, 0x1EF2, 0x1001F21, 0, 0], 0x1F93), ([0xFE5D, 0x1EF2, 0x1001F28, 0, 0], 0x1F9A),
    ([0xFE5D, 0x1EF2, 0x1001F29, 0, 0], 0x1F9B), ([0xFE5D, 0x1EF2, 0x1001F60, 0, 0], 0x1FA2),
    ([0xFE5D, 0x1EF2, 0x1001F61, 0, 0], 0x1FA3), ([0xFE5D, 0x1EF2, 0x1001F68, 0, 0], 0x1FAA),
    ([0xFE5D, 0x1EF2, 0x1001F69, 0, 0], 0x1FAB), ([0xFE5D, 0x1EF3, 0x7E1, 0, 0], 0x1FB4),
    ([0xFE5D, 0x1EF3, 0x7E7, 0, 0], 0x1FC4), ([0xFE5D, 0x1EF3, 0x7F9, 0, 0], 0x1FF4),
    ([0xFE5D, 0x1EF3, 0xFF20, 0x28, 0x7C1], 0x1F8D), ([0xFE5D, 0x1EF3, 0xFF20, 0x28, 0x7C7], 0x1F9D),
    ([0xFE5D, 0x1EF3, 0xFF20, 0x28, 0x7D9], 0x1FAD), ([0xFE5D, 0x1EF3, 0xFF20, 0x28, 0x7E1], 0x1F85),
    ([0xFE5D, 0x1EF3, 0xFF20, 0x28, 0x7E7], 0x1F95), ([0xFE5D, 0x1EF3, 0xFF20, 0x28, 0x7F9], 0x1FA5),
    ([0xFE5D, 0x1EF3, 0xFF20, 0x29, 0x7C1], 0x1F8C), ([0xFE5D, 0x1EF3, 0xFF20, 0x29, 0x7C7], 0x1F9C),
    ([0xFE5D, 0x1EF3, 0xFF20, 0x29, 0x7D9], 0x1FAC), ([0xFE5D, 0x1EF3, 0xFF20, 0x29, 0x7E1], 0x1F84),
    ([0xFE5D, 0x1EF3, 0xFF20, 0x29, 0x7E7], 0x1F94), ([0xFE5D, 0x1EF3, 0xFF20, 0x29, 0x7F9], 0x1FA4),
    ([0xFE5D, 0x1EF3, 0x1000313, 0x7C1, 0], 0x1F8C), ([0xFE5D, 0x1EF3, 0x1000313, 0x7C7, 0], 0x1F9C),
    ([0xFE5D, 0x1EF3, 0x1000313, 0x7D9, 0], 0x1FAC), ([0xFE5D, 0x1EF3, 0x1000313, 0x7E1, 0], 0x1F84),
    ([0xFE5D, 0x1EF3, 0x1000313, 0x7E7, 0], 0x1F94), ([0xFE5D, 0x1EF3, 0x1000313, 0x7F9, 0], 0x1FA4),
    ([0xFE5D, 0x1EF3, 0x1000314, 0x7C1, 0], 0x1F8D), ([0xFE5D, 0x1EF3, 0x1000314, 0x7C7, 0], 0x1F9D),
    ([0xFE5D, 0x1EF3, 0x1000314, 0x7D9, 0], 0x1FAD), ([0xFE5D, 0x1EF3, 0x1000314, 0x7E1, 0], 0x1F85),
    ([0xFE5D, 0x1EF3, 0x1000314, 0x7E7, 0], 0x1F95), ([0xFE5D, 0x1EF3, 0x1000314, 0x7F9, 0], 0x1FA5),
    ([0xFE5D, 0x1EF3, 0x1001F00, 0, 0], 0x1F84), ([0xFE5D, 0x1EF3, 0x1001F01, 0, 0], 0x1F85),
    ([0xFE5D, 0x1EF3, 0x1001F08, 0, 0], 0x1F8C), ([0xFE5D, 0x1EF3, 0x1001F09, 0, 0], 0x1F8D),
    ([0xFE5D, 0x1EF3, 0x1001F20, 0, 0], 0x1F94), ([0xFE5D, 0x1EF3, 0x1001F21, 0, 0], 0x1F95),
    ([0xFE5D, 0x1EF3, 0x1001F28, 0, 0], 0x1F9C), ([0xFE5D, 0x1EF3, 0x1001F29, 0, 0], 0x1F9D),
    ([0xFE5D, 0x1EF3, 0x1001F60, 0, 0], 0x1FA4), ([0xFE5D, 0x1EF3, 0x1001F61, 0, 0], 0x1FA5),
    ([0xFE5D, 0x1EF3, 0x1001F68, 0, 0], 0x1FAC), ([0xFE5D, 0x1EF3, 0x1001F69, 0, 0], 0x1FAD),
    ([0xFE5D, 0xFE50, 0x7E1, 0, 0], 0x1FB2), ([0xFE5D, 0xFE50, 0x7E7, 0, 0], 0x1FC2),
    ([0xFE5D, 0xFE50, 0x7F9, 0, 0], 0x1FF2), ([0xFE5D, 0xFE50, 0xFF20, 0x28, 0x7C1], 0x1F8B),
    ([0xFE5D, 0xFE50, 0xFF20, 0x28, 0x7C7], 0x1F9B), ([0xFE5D, 0xFE50, 0xFF20, 0x28, 0x7D9], 0x1FAB),
    ([0xFE5D, 0xFE50, 0xFF20, 0x28, 0x7E1], 0x1F83), ([0xFE5D, 0xFE50, 0xFF20, 0x28, 0x7E7], 0x1F93),
    ([0xFE5D, 0xFE50, 0xFF20, 0x28, 0x7F9], 0x1FA3), ([0xFE5D, 0xFE50, 0xFF20, 0x29, 0x7C1], 0x1F8A),
    ([0xFE5D, 0xFE50, 0xFF20, 0x29, 0x7C7], 0x1F9A), ([0xFE5D, 0xFE50, 0xFF20, 0x29, 0x7D9], 0x1FAA),
    ([0xFE5D, 0xFE50, 0xFF20, 0x29, 0x7E1], 0x1F82), ([0xFE5D, 0xFE50, 0xFF20, 0x29, 0x7E7], 0x1F92),
    ([0xFE5D, 0xFE50, 0xFF20, 0x29, 0x7F9], 0x1FA2), ([0xFE5D, 0xFE50, 0x1000313, 0x7C1, 0], 0x1F8A),
    ([0xFE5D, 0xFE50, 0x1000313, 0x7C7, 0], 0x1F9A), ([0xFE5D, 0xFE50, 0x1000313, 0x7D9, 0], 0x1FAA),
    ([0xFE5D, 0xFE50, 0x1000313, 0x7E1, 0], 0x1F82), ([0xFE5D, 0xFE50, 0x1000313, 0x7E7, 0], 0x1F92),
    ([0xFE5D, 0xFE50, 0x1000313, 0x7F9, 0], 0x1FA2), ([0xFE5D, 0xFE50, 0x1000314, 0x7C1, 0], 0x1F8B),
    ([0xFE5D, 0xFE50, 0x1000314, 0x7C7, 0], 0x1F9B), ([0xFE5D, 0xFE50, 0x1000314, 0x7D9, 0], 0x1FAB),
    ([0xFE5D, 0xFE50, 0x1000314, 0x7E1, 0], 0x1F83), ([0xFE5D, 0xFE50, 0x1000314, 0x7E7, 0], 0x1F93),
    ([0xFE5D, 0xFE50, 0x1000314, 0x7F9, 0], 0x1FA3), ([0xFE5D, 0xFE50, 0x1001F00, 0, 0], 0x1F82),
    ([0xFE5D, 0xFE50, 0x1001F01, 0, 0], 0x1F83), ([0xFE5D, 0xFE50, 0x1001F08, 0, 0], 0x1F8A),
    ([0xFE5D, 0xFE50, 0x1001F09, 0, 0], 0x1F8B), ([0xFE5D, 0xFE50, 0x1001F20, 0, 0], 0x1F92),
    ([0xFE5D, 0xFE50, 0x1001F21, 0, 0], 0x1F93), ([0xFE5D, 0xFE50, 0x1001F28, 0, 0], 0x1F9A)]"

definition compose_rows_13 :: "compose_row list" where
  "compose_rows_13 =
   [([0xFE5D, 0xFE50, 0x1001F29, 0, 0], 0x1F9B), ([0xFE5D, 0xFE50, 0x1001F60, 0, 0], 0x1FA2),
    ([0xFE5D, 0xFE50, 0x1001F61, 0, 0], 0x1FA3), ([0xFE5D, 0xFE50, 0x1001F68, 0, 0], 0x1FAA),
    ([0xFE5D, 0xFE50, 0x1001F69, 0, 0], 0x1FAB), ([0xFE5D, 0xFE51, 0x7E1, 0, 0], 0x1FB4),
    ([0xFE5D, 0xFE51, 0x7E7, 0, 0], 0x1FC4), ([0xFE5D, 0xFE51, 0x7F9, 0, 0], 0x1FF4),
    ([0xFE5D, 0xFE51, 0xFF20, 0x28, 0x7C1], 0x1F8D), ([0xFE5D, 0xFE51, 0xFF20, 0x28, 0x7C7], 0x1F9D),
    ([0xFE5D, 0xFE51, 0xFF20, 0x28, 0x7D9], 0x1FAD), ([0xFE5D, 0xFE51, 0xFF20, 0x28, 0x7E1], 0x1F85),
    ([0xFE5D, 0xFE51, 0xFF20, 0x28, 0x7E7], 0x1F95), ([0xFE5D, 0xFE51, 0xFF20, 0x28, 0x7F9], 0x1FA5),
    ([0xFE5D, 0xFE51, 0xFF20, 0x29, 0x7C1], 0x1F8C), ([0xFE5D, 0xFE51, 0xFF20, 0x29, 0x7C7], 0x1F9C),
    ([0xFE5D, 0xFE51, 0xFF20, 0x29, 0x7D9], 0x1FAC), ([0xFE5D, 0xFE51, 0xFF20, 0x29, 0x7E1], 0x1F84),
    ([0xFE5D, 0xFE51, 0xFF20, 0x29, 0x7E7], 0x1F94), ([0xFE5D, 0xFE51, 0xFF20, 0x29, 0x7F9], 0x1FA4),
    ([0xFE5D, 0xFE51, 0x1000313, 0x7C1, 0], 0x1F8C), ([0xFE5D, 0xFE51, 0x1000313, 0x7C7, 0], 0x1F9C),
    ([0xFE5D, 0xFE51, 0x1000313, 0x7D9, 0], 0x1FAC), ([0xFE5D, 0xFE51, 0x1000313, 0x7E1, 0], 0x1F84),
    ([0xFE5D, 0xFE51, 0x1000313, 0x7E7, 0], 0x1F94), ([0xFE5D, 0xFE51, 0x1000313, 0x7F9, 0], 0x1FA4),
    ([0xFE5D, 0xFE51, 0x1000314, 0x7C1, 0], 0x1F8D), ([0xFE5D, 0xFE51, 0x1000314, 0x7C7, 0], 0x1F9D),
    ([0xFE5D, 0xFE51, 0x1000314, 0x7D9, 0], 0x1FAD), ([0xFE5D, 0xFE51, 0x1000314, 0x7E1, 0], 0x1F85),
    ([0xFE5D, 0xFE51, 0x1000314, 0x7E7, 0], 0x1F95), ([0xFE5D, 0xFE51, 0x1000314, 0x7F9, 0], 0x1FA5),
    ([0xFE5D, 0xFE51, 0x1001F00, 0, 0], 0x1F84), ([0xFE5D, 0xFE51, 0x1001F01, 0, 0], 0x1F85),
    ([0xFE5D, 0xFE51, 0x1001F08, 0, 0], 0x1F8C), ([0xFE5D, 0xFE51, 0x1001F09, 0, 0], 0x1F8D),
    ([0xFE5D, 0xFE51, 0x1001F20, 0, 0], 0x1F94), ([0xFE5D, 0xFE51, 0x1001F21, 0, 0], 0x1F95),
    ([0xFE5D, 0xFE51, 0x1001F28, 0, 0], 0x1F9C), ([0xFE5D, 0xFE51, 0x1001F29, 0, 0], 0x1F9D),
    ([0xFE5D, 0xFE51, 0x1001F60, 0, 0], 0x1FA4), ([0xFE5D, 0xFE51, 0x1001F61, 0, 0], 0x1FA5),
    ([0xFE5D, 0xFE51, 0x1001F68, 0, 0], 0x1FAC), ([0xFE5D, 0xFE51, 0x1001F69, 0, 0], 0x1FAD),
    ([0xFE5D, 0xFE53, 0x7E1, 0, 0], 0x1FB7), ([0xFE5D, 0xFE53, 0x7E7, 0, 0], 0x1FC7),
    ([0xFE5D, 0xFE53, 0x7F9, 0, 0], 0x1FF7), ([0xFE5D, 0xFE53, 0xFF20, 0x28, 0x7C1], 0x1F8F),
    ([0xFE5D, 0xFE53, 0xFF20, 0x28, 0x7C7], 0x1F9F), ([0xFE5D, 0xFE53, 0xFF20, 0x28, 0x7D9], 0x1FAF),
    ([0xFE5D, 0xFE53, 0xFF20, 0x28, 0x7E1], 0x1F87), ([0xFE5D, 0xFE53, 0xFF20, 0x28, 0x7E7], 0x1F97),
    ([0xFE5D, 0xFE53, 0xFF20, 0x28, 0x7F9], 0x1FA7), ([0xFE5D, 0xFE53, 0xFF20, 0x29, 0x7C1], 0x1F8E),
    ([0xFE5D, 0xFE53, 0xFF20, 0x29, 0x7C7], 0x1F9E), ([0xFE5D, 0xFE53, 0xFF20, 0x29, 0x7D9], 0x1FAE),
    ([0xFE5D, 0xFE53, 0xFF20, 0x29, 0x7E1], 0x1F86), ([0xFE5D, 0xFE53, 0xFF20, 0x29, 0x7E7], 0x1F96),
    ([0xFE5D, 0xFE53, 0xFF20, 0x29, 0x7F9], 0x1FA6), ([0xFE5D, 0xFE53, 0x1000313, 0x7C1, 0], 0x1F8E),
    ([0xFE5D, 0xFE53, 0x1000313, 0x7C7, 0], 0x1F9E), ([0xFE5D, 0xFE53, 0x1000313, 0x7D9, 0], 0x1FAE),
    ([0xFE5D, 0xFE53, 0x1000313, 0x7E1, 0], 0x1F86), ([0xFE5D, 0xFE53, 0x1000313, 0x7E7, 0], 0x1F96),
    ([0xFE5D, 0xFE53, 0x1000313, 0x7F9, 0], 0x1FA6), ([0xFE5D, 0xFE53, 0x1000314, 0x7C1, 0], 0x1F8F),
    ([0xFE5D, 0xFE53, 0x1000314, 0x7C7, 0], 0x1F9F), ([0xFE5D, 0xFE53, 0x1000314, 0x7D9, 0], 0x1FAF),
    ([0xFE5D, 0xFE53, 0x1000314, 0x7E1, 0], 0x1F87), ([0xFE5D, 0xFE53, 0x1000314, 0x7E7, 0], 0x1F97),
    ([0xFE5D, 0xFE53, 0x1000314, 0x7F9, 0], 0x1FA7), ([0xFE5D, 0xFE53, 0x1001F00, 0, 0], 0x1F86),
    ([0xFE5D, 0xFE53, 0x1001F01, 0, 0], 0x1F87), ([0xFE5D, 0xFE53, 0x1001F08, 0, 0], 0x1F8E),
    ([0xFE5D, 0xFE53, 0x1001F09, 0, 0], 0x1F8F), ([0xFE5D, 0xFE53, 0x1001F20, 0, 0], 0x1F96),
    ([0xFE5D, 0xFE53, 0x1001F21, 0, 0], 0x1F97), ([0xFE5D, 0xFE53, 0x1001F28, 0, 0], 0x1F9E),
    ([0xFE5D, 0xFE53, 0x1001F29, 0, 0], 0x1F9F), ([0xFE5D, 0xFE53, 0x1001F60, 0, 0], 0x1FA6),
    ([0xFE5D, 0xFE53, 0x1001F61, 0, 0], 0x1FA7), ([0xFE5D, 0xFE53, 0x1001F68, 0, 0], 0x1FAE),
    ([0xFE5D, 0xFE53, 0x1001F69, 0, 0], 0x1FAF), ([0xFE5D, 0xFE5D, 0, 0, 0], 0x37A),
    ([0xFE5D, 0xFF20, 0x27, 0x28, 0x7C1], 0x1F8D), ([0xFE5D, 0xFF20, 0x27, 0x28, 0x7C7], 0x1F9D),
    ([0xFE5D, 0xFF20, 0x27, 0x28, 0x7D9], 0x1FAD), ([0xFE5D, 0xFF20, 0x27, 0x28, 0x7E1], 0x1F85),
    ([0xFE5D, 0xFF20, 0x27, 0x28, 0x7E7], 0x1F95), ([0xFE5D, 0xFF20, 0x27, 0x28, 0x7F9], 0x1FA5),
    ([0xFE5D, 0xFF20, 0x27, 0x29, 0x7C1], 0x1F8C), ([0xFE5D, 0xFF20, 0x27, 0x29, 0x7C7], 0x1F9C),
    ([0xFE5D, 0xFF20, 0x27, 0x29, 0x7D9], 0x1FAC), ([0xFE5D, 0xFF20, 0x27, 0x29, 0x7E1], 0x1F84),
    ([0xFE5D, 0xFF20, 0x27, 0x29, 0x7E7], 0x1F94), ([0xFE5D, 0xFF20, 0x27, 0x29, 0x7F9], 0x1FA4),
    ([0xFE5D, 0xFF20, 0x27, 0x7E1, 0], 0x1FB4), ([0xFE5D, 0xFF20, 0x27, 0x7E7, 0], 0x1FC4),
    ([0xFE5D, 0xFF20, 0x27, 0x7F9, 0], 0x1FF4), ([0xFE5D, 0xFF20, 0x27, 0x1000313, 0x7C1], 0x1F8C),
    ([0xFE5D, 0xFF20, 0x27, 0x1000313, 0x7C7], 0x1F9C), ([0xFE5D, 0xFF20, 0x27, 0x1000313, 0x7D9], 0x1FAC),
    ([0xFE5D, 0xFF20, 0x27, 0x1000313, 0x7E1], 0x1F84), ([0xFE5D, 0xFF20, 0x27, 0x1000313, 0x7E7], 0x1F94),
    ([0xFE5D, 0xFF20, 0x27, 0x1000313, 0x7F9], 0x1FA4), ([0xFE5D, 0xFF20, 0x27, 0x1000314, 0x7C1], 0x1F8D),
    ([0xFE5D, 0xFF20, 0x27, 0x1000314, 0x7C7], 0x1F9D), ([0xFE5D, 0xFF20, 0x27, 0x1000314, 0x7D9], 0x1FAD),
    ([0xFE5D, 0xFF20, 0x27, 0x1000314, 0x7E1], 0x1F85), ([0xFE5D, 0xFF20, 0x27, 0x1000314, 0x7E7], 0x1F95),
    ([0xFE5D, 0xFF20, 0x27, 0x1000314, 0x7F9], 0x1FA5), ([0xFE5D, 0xFF20, 0x27, 0x1001F00, 0], 0x1F84),
    ([0xFE5D, 0xFF20, 0x27, 0x1001F01, 0], 0x1F85), ([0xFE5D, 0xFF20, 0x27, 0x1001F08, 0], 0x1F8C),
    ([0xFE5D, 0xFF20, 0x27, 0x1001F09, 0], 0x1F8D), ([0xFE5D, 0xFF20, 0x27, 0x1001F20, 0], 0x1F94),
    ([0xFE5D, 0xFF20, 0x27, 0x1001F21, 0], 0x1F95), ([0xFE5D, 0xFF20, 0x27, 0x1001F28, 0], 0x1F9C),
    ([0xFE5D, 0xFF20, 0x27, 0x1001F29, 0], 0x1F9D), ([0xFE5D, 0xFF20, 0x27, 0x1001F60, 0], 0x1FA4),
    ([0xFE5D, 0xFF20, 0x27, 0x1001F61, 0], 0x1FA5), ([0xFE5D, 0xFF20, 0x27, 0x1001F68, 0], 0x1FAC),
    ([0xFE5D, 0xFF20, 0x27, 0x1001F69, 0], 0x1FAD), ([0xFE5D, 0xFF20, 0x28, 0x7C1, 0], 0x1F89),
    ([0xFE5D, 0xFF20, 0x28, 0x7C7, 0], 0x1F99), ([0xFE5D, 0xFF20, 0x28, 0x7D9, 0], 0x1FA9),
    ([0xFE5D, 0xFF20, 0x28, 0x7E1, 0], 0x1F81), ([0xFE5D, 0xFF20, 0x28, 0x7E7, 0], 0x1F91),
    ([0xFE5D, 0xFF20, 0x28, 0x7F9, 0], 0x1FA1), ([0xFE5D, 0xFF20, 0x29, 0x7C1, 0], 0x1F88),
    ([0xFE5D, 0xFF20, 0x29, 0x7C7, 0], 0x1F98), ([0xFE5D, 0xFF20, 0x29, 0x7D9, 0], 0x1FA8),
    ([0xFE5D, 0xFF20, 0x29, 0x7E1, 0], 0x1F80), ([0xFE5D, 0xFF20, 0x29, 0x7E7, 0], 0x1F90),
    ([0xFE5D, 0xFF20, 0x29, 0x7F9, 0], 0x1FA0), ([0xFE5D, 0xFF20, 0x60, 0x28, 0x7C1], 0x1F8B),
    ([0xFE5D, 0xFF20, 0x60, 0x28, 0x7C7], 0x1F9B), ([0xFE5D, 0xFF20, 0x60, 0x28, 0x7D9], 0x1FAB),
    ([0xFE5D, 0xFF20, 0x60, 0x28, 0x7E1], 0x1F83), ([0xFE5D, 0xFF20, 0x60, 0x28, 0x7E7], 0x1F93),
    ([0xFE5D, 0xFF20, 0x60, 0x28, 0x7F9], 0x1FA3), ([0xFE5D, 0xFF20, 0x60, 0x29, 0x7C1], 0x1F8A),
    ([0xFE5D, 0xFF20, 0x60, 0x29, 0x7C7], 0x1F9A), ([0xFE5D, 0xFF20, 0x60, 0x29, 0x7D9], 0x1FAA),
    ([0xFE5D, 0xFF20, 0x60, 0x29, 0x7E1], 0x1F82), ([0xFE5D, 0xFF20, 0x60, 0x29, 0x7E7], 0x1F92),
    ([0xFE5D, 0xFF20, 0x60, 0x29, 0x7F9], 0x1FA2), ([0xFE5D, 0xFF20, 0x60, 0x7E1, 0], 0x1FB2)]"

definition compose_rows_14 :: "compose_row list" where
  "compose_rows_14 =
   [([0xFE5D, 0xFF20, 0x60, 0x7E7, 0], 0x1FC2), ([0xFE5D, 0xFF20, 0x60, 0x7F9, 0], 0x1FF2),
    ([0xFE5D, 0xFF20, 0x60, 0x1000313, 0x7C1], 0x1F8A), ([0xFE5D, 0xFF20, 0x60, 0x1000313, 0x7C7], 0x1F9A),
    ([0xFE5D, 0xFF20, 0x60, 0x1000313, 0x7D9], 0x1FAA), ([0xFE5D, 0xFF20, 0x60, 0x1000313, 0x7E1], 0x1F82),
    ([0xFE5D, 0xFF20, 0x60, 0x1000313, 0x7E7], 0x1F92), ([0xFE5D, 0xFF20, 0x60, 0x1000313, 0x7F9], 0x1FA2),
    ([0xFE5D, 0xFF20, 0x60, 0x1000314, 0x7C1], 0x1F8B), ([0xFE5D, 0xFF20, 0x60, 0x1000314, 0x7C7], 0x1F9B),
    ([0xFE5D, 0xFF20, 0x60, 0x1000314, 0x7D9], 0x1FAB), ([0xFE5D, 0xFF20, 0x60, 0x1000314, 0x7E1], 0x1F83),
    ([0xFE5D, 0xFF20, 0x60, 0x1000314, 0x7E7], 0x1F93), ([0xFE5D, 0xFF20, 0x60, 0x1000314, 0x7F9], 0x1FA3),
    ([0xFE5D, 0xFF20, 0x60, 0x1001F00, 0], 0x1F82), ([0xFE5D, 0xFF20, 0x60, 0x1001F01, 0], 0x1F83),
    ([0xFE5D, 0xFF20, 0x60, 0x1001F08, 0], 0x1F8A), ([0xFE5D, 0xFF20, 0x60, 0x1001F09, 0], 0x1F8B),
    ([0xFE5D, 0xFF20, 0x60, 0x1001F20, 0], 0x1F92), ([0xFE5D, 0xFF20, 0x60, 0x1001F21, 0], 0x1F93),
    ([0xFE5D, 0xFF20, 0x60, 0x1001F28, 0], 0x1F9A), ([0xFE5D, 0xFF20, 0x60, 0x1001F29, 0], 0x1F9B),
    ([0xFE5D, 0xFF20, 0x60, 0x1001F60, 0], 0x1FA2), ([0xFE5D, 0xFF20, 0x60, 0x1001F61, 0], 0x1FA3),
    ([0xFE5D, 0xFF20, 0x60, 0x1001F68, 0], 0x1FAA), ([0xFE5D, 0xFF20, 0x60, 0x1001F69, 0], 0x1FAB),
    ([0xFE5D, 0xFF20, 0x7E, 0x28, 0x7C1], 0x1F8F), ([0xFE5D, 0xFF20, 0x7E, 0x28, 0x7C7], 0x1F9F),
    ([0xFE5D, 0xFF20, 0x7E, 0x28, 0x7D9], 0x1FAF), ([0xFE5D, 0xFF20, 0x7E, 0x28, 0x7E1], 0x1F87),
    ([0xFE5D, 0xFF20, 0x7E, 0x28, 0x7E7], 0x1F97), ([0xFE5D, 0xFF20, 0x7E, 0x28, 0x7F9], 0x1FA7),
    ([0xFE5D, 0xFF20, 0x7E, 0x29, 0x7C1], 0x1F8E), ([0xFE5D, 0xFF20, 0x7E, 0x29, 0x7C7], 0x1F9E),
    ([0xFE5D, 0xFF20, 0x7E, 0x29, 0x7D9], 0x1FAE), ([0xFE5D, 0xFF20, 0x7E, 0x29, 0x7E1], 0x1F86),
    ([0xFE5D, 0xFF20, 0x7E, 0x29, 0x7E7], 0x1F96), ([0xFE5D, 0xFF20, 0x7E, 0x29, 0x7F9], 0x1FA6),
    ([0xFE5D, 0xFF20, 0x7E, 0x7E1, 0], 0x1FB7), ([0xFE5D, 0xFF20, 0x7E, 0x7E7, 0], 0x1FC7),
    ([0xFE5D, 0xFF20, 0x7E, 0x7F9, 0], 0x1FF7), ([0xFE5D, 0xFF20, 0x7E, 0x1000313, 0x7C1], 0x1F8E),
    ([0xFE5D, 0xFF20, 0x7E, 0x1000313, 0x7C7], 0x1F9E), ([0xFE5D, 0xFF20, 0x7E, 0x1000313, 0x7D9], 0x1FAE),
    ([0xFE5D, 0xFF20, 0x7E, 0x1000313, 0x7E1], 0x1F86), ([0xFE5D, 0xFF20, 0x7E, 0x1000313, 0x7E7], 0x1F96),
    ([0xFE5D, 0xFF20, 0x7E, 0x1000313, 0x7F9], 0x1FA6), ([0xFE5D, 0xFF20, 0x7E, 0x1000314, 0x7C1], 0x1F8F),
    ([0xFE5D, 0xFF20, 0x7E, 0x1000314, 0x7C7], 0x1F9F), ([0xFE5D, 0xFF20, 0x7E, 0x1000314, 0x7D9], 0x1FAF),
    ([0xFE5D, 0xFF20, 0x7E, 0x1000314, 0x7E1], 0x1F87), ([0xFE5D, 0xFF20, 0x7E, 0x1000314, 0x7E7], 0x1F97),
    ([0xFE5D, 0xFF20, 0x7E, 0x1000314, 0x7F9], 0x1FA7), ([0xFE5D, 0xFF20, 0x7E, 0x1001F00, 0], 0x1F86),
    ([0xFE5D, 0xFF20, 0x7E, 0x1001F01, 0], 0x1F87), ([0xFE5D, 0xFF20, 0x7E, 0x1001F08, 0], 0x1F8E),
    ([0xFE5D, 0xFF20, 0x7E, 0x1001F09, 0], 0x1F8F), ([0xFE5D, 0xFF20, 0x7E, 0x1001F20, 0], 0x1F96),
    ([0xFE5D, 0xFF20, 0x7E, 0x1001F21, 0], 0x1F97), ([0xFE5D, 0xFF20, 0x7E, 0x1001F28, 0], 0x1F9E),
    ([0xFE5D, 0xFF20, 0x7E, 0x1001F29, 0], 0x1F9F), ([0xFE5D, 0xFF20, 0x7E, 0x1001F60, 0], 0x1FA6),
    ([0xFE5D, 0xFF20, 0x7E, 0x1001F61, 0], 0x1FA7), ([0xFE5D, 0xFF20, 0x7E, 0x1001F68, 0], 0x1FAE),
    ([0xFE5D, 0xFF20, 0x7E, 0x1001F69, 0], 0x1FAF), ([0xFE5D, 0xFF20, 0xB4, 0x28, 0x7C1], 0x1F8D),
    ([0xFE5D, 0xFF20, 0xB4, 0x28, 0x7C7], 0x1F9D), ([0xFE5D, 0xFF20, 0xB4, 0x28, 0x7D9], 0x1FAD),
    ([0xFE5D, 0xFF20, 0xB4, 0x28, 0x7E1], 0x1F85), ([0xFE5D, 0xFF20, 0xB4, 0x28, 0x7E7], 0x1F95),
    ([0xFE5D, 0xFF20, 0xB4, 0x28, 0x7F9], 0x1FA5), ([0xFE5D, 0xFF20, 0xB4, 0x29, 0x7C1], 0x1F8C),
    ([0xFE5D, 0xFF20, 0xB4, 0x29, 0x7C7], 0x1F9C), ([0xFE5D, 0xFF20, 0xB4, 0x29, 0x7D9], 0x1FAC),
    ([0xFE5D, 0xFF20, 0xB4, 0x29, 0x7E1], 0x1F84), ([0xFE5D, 0xFF20, 0xB4, 0x29, 0x7E7], 0x1F94),
    ([0xFE5D, 0xFF20, 0xB4, 0x29, 0x7F9], 0x1FA4), ([0xFE5D, 0xFF20, 0xB4, 0x7E1, 0], 0x1FB4),
    ([0xFE5D, 0xFF20, 0xB4, 0x7E7, 0], 0x1FC4), ([0xFE5D, 0xFF20, 0xB4, 0x7F9, 0], 0x1FF4),
    ([0xFE5D, 0xFF20, 0xB4, 0x1000313, 0x7C1], 0x1F8C), ([0xFE5D, 0xFF20, 0xB4, 0x1000313, 0x7C7], 0x1F9C),
    ([0xFE5D, 0xFF20, 0xB4, 0x1000313, 0x7D9], 0x1FAC), ([0xFE5D, 0xFF20, 0xB4, 0x1000313, 0x7E1], 0x1F84),
    ([0xFE5D, 0xFF20, 0xB4, 0x1000313, 0x7E7], 0x1F94), ([0xFE5D, 0xFF20, 0xB4, 0x1000313, 0x7F9], 0x1FA4),
    ([0xFE5D, 0xFF20, 0xB4, 0x1000314, 0x7C1], 0x1F8D), ([0xFE5D, 0xFF20, 0xB4, 0x1000314, 0x7C7], 0x1F9D),
    ([0xFE5D, 0xFF20, 0xB4, 0x1000314, 0x7D9], 0x1FAD), ([0xFE5D, 0xFF20, 0xB4, 0x1000314, 0x7E1], 0x1F85),
    ([0xFE5D, 0xFF20, 0xB4, 0x1000314, 0x7E7], 0x1F95), ([0xFE5D, 0xFF20, 0xB4, 0x1000314, 0x7F9], 0x1FA5),
    ([0xFE5D, 0xFF20, 0xB4, 0x1001F00, 0], 0x1F84), ([0xFE5D, 0xFF20, 0xB4, 0x1001F01, 0], 0x1F85),
    ([0xFE5D, 0xFF20, 0xB4, 0x1001F08, 0], 0x1F8C), ([0xFE5D, 0xFF20, 0xB4, 0x1001F09, 0], 0x1F8D),
    ([0xFE5D, 0xFF20, 0xB4, 0x1001F20, 0], 0x1F94), ([0xFE5D, 0xFF20, 0xB4, 0x1001F21, 0], 0x1F95),
    ([0xFE5D, 0xFF20, 0xB4, 0x1001F28, 0], 0x1F9C), ([0xFE5D, 0xFF20, 0xB4, 0x1001F29, 0], 0x1F9D),
    ([0xFE5D, 0xFF20, 0xB4, 0x1001F60, 0], 0x1FA4), ([0xFE5D, 0xFF20, 0xB4, 0x1001F61, 0], 0x1FA5),
    ([0xFE5D, 0xFF20, 0xB4, 0x1001F68, 0], 0x1FAC), ([0xFE5D, 0xFF20, 0xB4, 0x1001F69, 0], 0x1FAD),
    ([0xFE5D, 0x1000313, 0x7C1, 0, 0], 0x1F88), ([0xFE5D, 0x1000313, 0x7C7, 0, 0], 0x1F98),
    ([0xFE5D, 0x1000313, 0x7D9, 0, 0], 0x1FA8), ([0xFE5D, 0x1000313, 0x7E1, 0, 0], 0x1F80),
    ([0xFE5D, 0x1000313, 0x7E7, 0, 0], 0x1F90), ([0xFE5D, 0x1000313, 0x7F9, 0, 0], 0x1FA0),
    ([0xFE5D, 0x1000314, 0x7C1, 0, 0], 0x1F89), ([0xFE5D, 0x1000314, 0x7C7, 0, 0], 0x1F99),
    ([0xFE5D, 0x1000314, 0x7D9, 0, 0], 0x1FA9), ([0xFE5D, 0x1000314, 0x7E1, 0, 0], 0x1F81),
    ([0xFE5D, 0x1000314, 0x7E7, 0, 0], 0x1F91), ([0xFE5D, 0x1000314, 0x7F9, 0, 0], 0x1FA1),
    ([0xFE5D, 0x1000342, 0x7E1, 0, 0], 0x1FB7), ([0xFE5D, 0x1000342, 0x7E7, 0, 0], 0x1FC7),
    ([0xFE5D, 0x1000342, 0x7F9, 0, 0], 0x1FF7), ([0xFE5D, 0x1000342, 0xFF20, 0x28, 0x7C1], 0x1F8F),
    ([0xFE5D, 0x1000342, 0xFF20, 0x28, 0x7C7], 0x1F9F), ([0xFE5D, 0x1000342, 0xFF20, 0x28, 0x7D9], 0x1FAF),
    ([0xFE5D, 0x1000342, 0xFF20, 0x28, 0x7E1], 0x1F87), ([0xFE5D, 0x1000342, 0xFF20, 0x28, 0x7E7], 0x1F97),
    ([0xFE5D, 0x1000342, 0xFF20, 0x28, 0x7F9], 0x1FA7), ([0xFE5D, 0x1000342, 0xFF20, 0x29, 0x7C1], 0x1F8E),
    ([0xFE5D, 0x1000342, 0xFF20, 0x29, 0x7C7], 0x1F9E), ([0xFE5D, 0x1000342, 0xFF20, 0x29, 0x7D9], 0x1FAE),
    ([0xFE5D, 0x1000342, 0xFF20, 0x29, 0x7E1], 0x1F86), ([0xFE5D, 0x1000342, 0xFF20, 0x29, 0x7E7], 0x1F96),
    ([0xFE5D, 0x1000342, 0xFF20, 0x29, 0x7F9], 0x1FA6), ([0xFE5D, 0x1000342, 0x1000313, 0x7C1, 0], 0x1F8E),
    ([0xFE5D, 0x1000342, 0x1000313, 0x7C7, 0], 0x1F9E), ([0xFE5D, 0x1000342, 0x1000313, 0x7D9, 0], 0x1FAE),
    ([0xFE5D, 0x1000342, 0x1000313, 0x7E1, 0], 0x1F86), ([0xFE5D, 0x1000342, 0x1000313, 0x7E7, 0], 0x1F96),
    ([0xFE5D, 0x1000342, 0x1000313, 0x7F9, 0], 0x1FA6), ([0xFE5D, 0x1000342, 0x1000314, 0x7C1, 0], 0x1F8F),
    ([0xFE5D, 0x1000342, 0x1000314, 0x7C7, 0], 0x1F9F), ([0xFE5D, 0x1000342, 0x1000314, 0x7D9, 0], 0x1FAF),
    ([0xFE5D, 0x1000342, 0x1000314, 0x7E1, 0], 0x1F87), ([0xFE5D, 0x1000342, 0x1000314, 0x7E7, 0], 0x1F97),
    ([0xFE5D, 0x1000342, 0x1000314, 0x7F9, 0], 0x1FA7), ([0xFE5D, 0x1000342, 0x1001F00, 0, 0], 0x1F86),
    ([0xFE5D, 0x1000342, 0x1001F01, 0, 0], 0x1F87), ([0xFE5D, 0x1000342, 0x1001F08, 0, 0], 0x1F8E),
    ([0xFE5D, 0x1000342, 0x1001F09, 0, 0], 0x1F8F), ([0xFE5D, 0x1000342, 0x1001F20, 0, 0], 0x1F96)]"

definition compose_rows_15 :: "compose_row list" where
  "compose_rows_15 =
   [([0xFE5D, 0x1000342, 0x1001F21, 0, 0], 0x1F97), ([0xFE5D, 0x1000342, 0x1001F28, 0, 0], 0x1F9E),
    ([0xFE5D, 0x1000342, 0x1001F29, 0, 0], 0x1F9F), ([0xFE5D, 0x1000342, 0x1001F60, 0, 0], 0x1FA6),
    ([0xFE5D, 0x1000342, 0x1001F61, 0, 0], 0x1FA7), ([0xFE5D, 0x1000342, 0x1001F68, 0, 0], 0x1FAE),
    ([0xFE5D, 0x1000342, 0x1001F69, 0, 0], 0x1FAF), ([0xFE5D, 0x1001F00, 0, 0, 0], 0x1F80),
    ([0xFE5D, 0x1001F01, 0, 0, 0], 0x1F81), ([0xFE5D, 0x1001F02, 0, 0, 0], 0x1F82),
    ([0xFE5D, 0x1001F03, 0, 0, 0], 0x1F83), ([0xFE5D, 0x1001F04, 0, 0, 0], 0x1F84),
    ([0xFE5D, 0x1001F05, 0, 0, 0], 0x1F85), ([0xFE5D, 0x1001F06, 0, 0, 0], 0x1F86),
    ([0xFE5D, 0x1001F07, 0, 0, 0], 0x1F87), ([0xFE5D, 0x1001F08, 0, 0, 0], 0x1F88),
    ([0xFE5D, 0x1001F09, 0, 0, 0], 0x1F89), ([0xFE5D, 0x1001F0A, 0, 0, 0], 0x1F8A),
    ([0xFE5D, 0x1001F0B, 0, 0, 0], 0x1F8B), ([0xFE5D, 0x1001F0C, 0, 0, 0], 0x1F8C),
    ([0xFE5D, 0x1001F0D, 0, 0, 0], 0x1F8D), ([0xFE5D, 0x1001F0E, 0, 0, 0], 0x1F8E),
    ([0xFE5D, 0x1001F0F, 0, 0, 0], 0x1F8F), ([0xFE5D, 0x1001F20, 0, 0, 0], 0x1F90),
    ([0xFE5D, 0x1001F21, 0, 0, 0], 0x1F91), ([0xFE5D, 0x1001F22, 0, 0, 0], 0x1F92),
    ([0xFE5D, 0x1001F23, 0, 0, 0], 0x1F93), ([0xFE5D, 0x1001F24, 0, 0, 0], 0x1F94),
    ([0xFE5D, 0x1001F25, 0, 0, 0], 0x1F95), ([0xFE5D, 0x1001F26, 0, 0, 0], 0x1F96),
    ([0xFE5D, 0x1001F27, 0, 0, 0], 0x1F97), ([0xFE5D, 0x1001F28, 0, 0, 0], 0x1F98),
    ([0xFE5D, 0x1001F29, 0, 0, 0], 0x1F99), ([0xFE5D, 0x1001F2A, 0, 0, 0], 0x1F9A),
    ([0xFE5D, 0x1001F2B, 0, 0, 0], 0x1F9B), ([0xFE5D, 0x1001F2C, 0, 0, 0], 0x1F9C),
    ([0xFE5D, 0x1001F2D, 0, 0, 0], 0x1F9D), ([0xFE5D, 0x1001F2E, 0, 0, 0], 0x1F9E),
    ([0xFE5D, 0x1001F2F, 0, 0, 0], 0x1F9F), ([0xFE5D, 0x1001F60, 0, 0, 0], 0x1FA0),
    ([0xFE5D, 0x1001F61, 0, 0, 0], 0x1FA1), ([0xFE5D, 0x1001F62, 0, 0, 0], 0x1FA2),
    ([0xFE5D, 0x1001F63, 0, 0, 0], 0x1FA3), ([0xFE5D, 0x1001F64, 0, 0, 0], 0x1FA4),
    ([0xFE5D, 0x1001F65, 0, 0, 0], 0x1FA5), ([0xFE5D, 0x1001F66, 0, 0, 0], 0x1FA6),
    ([0xFE5D, 0x1001F67, 0, 0, 0], 0x1FA7), ([0xFE5D, 0x1001F68, 0, 0, 0], 0x1FA8),
    ([0xFE5D, 0x1001F69, 0, 0, 0], 0x1FA9), ([0xFE5D, 0x1001F6A, 0, 0, 0], 0x1FAA),
    ([0xFE5D, 0x1001F6B, 0, 0, 0], 0x1FAB), ([0xFE5D, 0x1001F6C, 0, 0, 0], 0x1FAC),
    ([0xFE5D, 0x1001F6D, 0, 0, 0], 0x1FAD), ([0xFE5D, 0x1001F6E, 0, 0, 0], 0x1FAE),
    ([0xFE5D, 0x1001F6F, 0, 0, 0], 0x1FAF), ([0xFE5D, 0x1001F70, 0, 0, 0], 0x1FB2),
    ([0xFE5D, 0x1001F74, 0, 0, 0], 0x1FC2), ([0xFE5D, 0x1001F7C, 0, 0, 0], 0x1FF2),
    ([0xFE5D, 0x1001FB6, 0, 0, 0], 0x1FB7), ([0xFE5D, 0x1001FC6, 0, 0, 0], 0x1FC7),
    ([0xFE5D, 0x1001FF6, 0, 0, 0], 0x1FF7), ([0xFE5E, 0x4A6, 0, 0, 0], 0x30FA),
    ([0xFE5E, 0x4B3, 0, 0, 0], 0x30F4), ([0xFE5E, 0x4B6, 0, 0, 0], 0x30AC), ([0xFE5E, 0x4B7, 0, 0, 0], 0x30AE),
    ([0xFE5E, 0x4B8, 0, 0, 0], 0x30B0), ([0xFE5E, 0x4B9, 0, 0, 0], 0x30B2), ([0xFE5E, 0x4BA, 0, 0, 0], 0x30B4),
    ([0xFE5E, 0x4BB, 0, 0, 0], 0x30B6), ([0xFE5E, 0x4BC, 0, 0, 0], 0x30B8), ([0xFE5E, 0x4BD, 0, 0, 0], 0x30BA),
    ([0xFE5E, 0x4BE, 0, 0, 0], 0x30BC), ([0xFE5E, 0x4BF, 0, 0, 0], 0x30BE), ([0xFE5E, 0x4C0, 0, 0, 0], 0x30C0),
    ([0xFE5E, 0x4C1, 0, 0, 0], 0x30C2), ([0xFE5E, 0x4C2, 0, 0, 0], 0x30C5), ([0xFE5E, 0x4C3, 0, 0, 0], 0x30C7),
    ([0xFE5E, 0x4C4, 0, 0, 0], 0x30C9), ([0xFE5E, 0x4CA, 0, 0, 0], 0x30D0), ([0xFE5E, 0x4CB, 0, 0, 0], 0x30D3),
    ([0xFE5E, 0x4CC, 0, 0, 0], 0x30D6), ([0xFE5E, 0x4CD, 0, 0, 0], 0x30D9), ([0xFE5E, 0x4CE, 0, 0, 0], 0x30DC),
    ([0xFE5E, 0x4DC, 0, 0, 0], 0x30F7), ([0xFE5E, 0x1003046, 0, 0, 0], 0x3094),
    ([0xFE5E, 0x100304B, 0, 0, 0], 0x304C), ([0xFE5E, 0x100304D, 0, 0, 0], 0x304E),
    ([0xFE5E, 0x100304F, 0, 0, 0], 0x3050), ([0xFE5E, 0x1003051, 0, 0, 0], 0x3052),
    ([0xFE5E, 0x1003053, 0, 0, 0], 0x3054), ([0xFE5E, 0x1003055, 0, 0, 0], 0x3056),
    ([0xFE5E, 0x1003057, 0, 0, 0], 0x3058), ([0xFE5E, 0x1003059, 0, 0, 0], 0x305A),
    ([0xFE5E, 0x100305B, 0, 0, 0], 0x305C), ([0xFE5E, 0x100305D, 0, 0, 0], 0x305E),
    ([0xFE5E, 0x100305F, 0, 0, 0], 0x3060), ([0xFE5E, 0x1003061, 0, 0, 0], 0x3062),
    ([0xFE5E, 0x1003064, 0, 0, 0], 0x3065), ([0xFE5E, 0x1003066, 0, 0, 0], 0x3067),
    ([0xFE5E, 0x1003068, 0, 0, 0], 0x3069), ([0xFE5E, 0x100306F, 0, 0, 0], 0x3070),
    ([0xFE5E, 0x1003072, 0, 0, 0], 0x3073), ([0xFE5E, 0x1003075, 0, 0, 0], 0x3076),
    ([0xFE5E, 0x1003078, 0, 0, 0], 0x3079), ([0xFE5E, 0x100307B, 0, 0, 0], 0x307C),
    ([0xFE5E, 0x100309D, 0, 0, 0], 0x309E), ([0xFE5E, 0x10030F0, 0, 0, 0], 0x30F8),
    ([0xFE5E, 0x10030F1, 0, 0, 0], 0x30F9), ([0xFE5E, 0x10030FD, 0, 0, 0], 0x30FE),
    ([0xFE5F, 0x4CA, 0, 0, 0], 0x30D1), ([0xFE5F, 0x4CB, 0, 0, 0], 0x30D4), ([0xFE5F, 0x4CC, 0, 0, 0], 0x30D7),
    ([0xFE5F, 0x4CD, 0, 0, 0], 0x30DA), ([0xFE5F, 0x4CE, 0, 0, 0], 0x30DD),
    ([0xFE5F, 0x100306F, 0, 0, 0], 0x3071), ([0xFE5F, 0x1003072, 0, 0, 0], 0x3074),
    ([0xFE5F, 0x1003075, 0, 0, 0], 0x3077), ([0xFE5F, 0x1003078, 0, 0, 0], 0x307A),
    ([0xFE5F, 0x100307B, 0, 0, 0], 0x307D), ([0xFE60, 0x41, 0, 0, 0], 0x1EA0),
    ([0xFE60, 0x42, 0, 0, 0], 0x1E04), ([0xFE60, 0x44, 0, 0, 0], 0x1E0C), ([0xFE60, 0x45, 0, 0, 0], 0x1EB8),
    ([0xFE60, 0x48, 0, 0, 0], 0x1E24), ([0xFE60, 0x49, 0, 0, 0], 0x1ECA), ([0xFE60, 0x4B, 0, 0, 0], 0x1E32),
    ([0xFE60, 0x4C, 0, 0, 0], 0x1E36), ([0xFE60, 0x4D, 0, 0, 0], 0x1E42), ([0xFE60, 0x4E, 0, 0, 0], 0x1E46),
    ([0xFE60, 0x4F, 0, 0, 0], 0x1ECC), ([0xFE60, 0x52, 0, 0, 0], 0x1E5A), ([0xFE60, 0x53, 0, 0, 0], 0x1E62),
    ([0xFE60, 0x54, 0, 0, 0], 0x1E6C), ([0xFE60, 0x55, 0, 0, 0], 0x1EE4), ([0xFE60, 0x56, 0, 0, 0], 0x1E7E),
    ([0xFE60, 0x57, 0, 0, 0], 0x1E88), ([0xFE60, 0x59, 0, 0, 0], 0x1EF4), ([0xFE60, 0x5A, 0, 0, 0], 0x1E92),
    ([0xFE60, 0x61, 0, 0, 0], 0x1EA1), ([0xFE60, 0x62, 0, 0, 0], 0x1E05), ([0xFE60, 0x64, 0, 0, 0], 0x1E0D),
    ([0xFE60, 0x65, 0, 0, 0], 0x1EB9), ([0xFE60, 0x68, 0, 0, 0], 0x1E25), ([0xFE60, 0x69, 0, 0, 0], 0x1ECB),
    ([0xFE60, 0x6B, 0, 0, 0], 0x1E33), ([0xFE60, 0x6C, 0, 0, 0], 0x1E37), ([0xFE60, 0x6D, 0, 0, 0], 0x1E43),
    ([0xFE60, 0x6E, 0, 0, 0], 0x1E47)]"

definition compose_rows_16 :: "compose_row list" where
  "compose_rows_16 =
   [([0xFE60, 0x6F, 0, 0, 0], 0x1ECD), ([0xFE60, 0x72, 0, 0, 0], 0x1E5B), ([0xFE60, 0x73, 0, 0, 0], 0x1E63),
    ([0xFE60, 0x74, 0, 0, 0], 0x1E6D), ([0xFE60, 0x75, 0, 0, 0], 0x1EE5), ([0xFE60, 0x76, 0, 0, 0], 0x1E7F),
    ([0xFE60, 0x77, 0, 0, 0], 0x1E89), ([0xFE60, 0x79, 0, 0, 0], 0x1EF5), ([0xFE60, 0x7A, 0, 0, 0], 0x1E93),
    ([0xFE60, 0xC2, 0, 0, 0], 0x1EAC), ([0xFE60, 0xCA, 0, 0, 0], 0x1EC6), ([0xFE60, 0xD4, 0, 0, 0], 0x1ED8),
    ([0xFE60, 0xE2, 0, 0, 0], 0x1EAD), ([0xFE60, 0xEA, 0, 0, 0], 0x1EC7), ([0xFE60, 0xF4, 0, 0, 0], 0x1ED9),
    ([0xFE60, 0x1C3, 0, 0, 0], 0x1EB6), ([0xFE60, 0x1E3, 0, 0, 0], 0x1EB7),
    ([0xFE60, 0x1EFA, 0, 0, 0], 0x1EE2), ([0xFE60, 0x1EFB, 0, 0, 0], 0x1EE3),
    ([0xFE60, 0x1EFC, 0, 0, 0], 0x1EF0), ([0xFE60, 0x1EFD, 0, 0, 0], 0x1EF1),
    ([0xFE60, 0xFE62, 0x4F, 0, 0], 0x1EE2), ([0xFE60, 0xFE62, 0x55, 0, 0], 0x1EF0),
    ([0xFE60, 0xFE62, 0x6F, 0, 0], 0x1EE3), ([0xFE60, 0xFE62, 0x75, 0, 0], 0x1EF1),
    ([0xFE60, 0xFF20, 0x2B, 0x4F, 0], 0x1EE2), ([0xFE60, 0xFF20, 0x2B, 0x55, 0], 0x1EF0),
    ([0xFE60, 0xFF20, 0x2B, 0x6F, 0], 0x1EE3), ([0xFE60, 0xFF20, 0x2B, 0x75, 0], 0x1EF1),
    ([0xFE60, 0x10001A0, 0, 0, 0], 0x1EE2), ([0xFE60, 0x10001A1, 0, 0, 0], 0x1EE3),
    ([0xFE60, 0x10001AF, 0, 0, 0], 0x1EF0), ([0xFE60, 0x10001B0, 0, 0, 0], 0x1EF1),
    ([0xFE61, 0x41, 0, 0, 0], 0x1EA2), ([0xFE61, 0x45, 0, 0, 0], 0x1EBA), ([0xFE61, 0x49, 0, 0, 0], 0x1EC8),
    ([0xFE61, 0x4F, 0, 0, 0], 0x1ECE), ([0xFE61, 0x55, 0, 0, 0], 0x1EE6), ([0xFE61, 0x59, 0, 0, 0], 0x1EF6),
    ([0xFE61, 0x61, 0, 0, 0], 0x1EA3), ([0xFE61, 0x65, 0, 0, 0], 0x1EBB), ([0xFE61, 0x69, 0, 0, 0], 0x1EC9),
    ([0xFE61, 0x6F, 0, 0, 0], 0x1ECF), ([0xFE61, 0x75, 0, 0, 0], 0x1EE7), ([0xFE61, 0x79, 0, 0, 0], 0x1EF7),
    ([0xFE61, 0xC2, 0, 0, 0], 0x1EA8), ([0xFE61, 0xCA, 0, 0, 0], 0x1EC2), ([0xFE61, 0xD4, 0, 0, 0], 0x1ED4),
    ([0xFE61, 0xE2, 0, 0, 0], 0x1EA9), ([0xFE61, 0xEA, 0, 0, 0], 0x1EC3), ([0xFE61, 0xF4, 0, 0, 0], 0x1ED5),
    ([0xFE61, 0x1C3, 0, 0, 0], 0x1EB2), ([0xFE61, 0x1E3, 0, 0, 0], 0x1EB3),
    ([0xFE61, 0x1EFA, 0, 0, 0], 0x1EDE), ([0xFE61, 0x1EFB, 0, 0, 0], 0x1EDF),
    ([0xFE61, 0x1EFC, 0, 0, 0], 0x1EEC), ([0xFE61, 0x1EFD, 0, 0, 0], 0x1EED),
    ([0xFE61, 0xFE52, 0x41, 0, 0], 0x1EA8), ([0xFE61, 0xFE52, 0x45, 0, 0], 0x1EC2),
    ([0xFE61, 0xFE52, 0x4F, 0, 0], 0x1ED4), ([0xFE61, 0xFE52, 0x61, 0, 0], 0x1EA9),
    ([0xFE61, 0xFE52, 0x65, 0, 0], 0x1EC3), ([0xFE61, 0xFE52, 0x6F, 0, 0], 0x1ED5),
    ([0xFE61, 0xFE55, 0x41, 0, 0], 0x1EB2), ([0xFE61, 0xFE55, 0x61, 0, 0], 0x1EB3),
    ([0xFE61, 0xFE62, 0x4F, 0, 0], 0x1EDE), ([0xFE61, 0xFE62, 0x55, 0, 0], 0x1EEC),
    ([0xFE61, 0xFE62, 0x6F, 0, 0], 0x1EDF), ([0xFE61, 0xFE62, 0x75, 0, 0], 0x1EED),
    ([0xFE61, 0xFF20, 0x2B, 0x4F, 0], 0x1EDE), ([0xFE61, 0xFF20, 0x2B, 0x55, 0], 0x1EEC),
    ([0xFE61, 0xFF20, 0x2B, 0x6F, 0], 0x1EDF), ([0xFE61, 0xFF20, 0x2B, 0x75, 0], 0x1EED),
    ([0xFE61, 0xFF20, 0x55, 0x41, 0], 0x1EB2), ([0xFE61, 0xFF20, 0x55, 0x61, 0], 0x1EB3),
    ([0xFE61, 0xFF20, 0x5E, 0x41, 0], 0x1EA8), ([0xFE61, 0xFF20, 0x5E, 0x45, 0], 0x1EC2),
    ([0xFE61, 0xFF20, 0x5E, 0x4F, 0], 0x1ED4), ([0xFE61, 0xFF20, 0x5E, 0x61, 0], 0x1EA9),
    ([0xFE61, 0xFF20, 0x5E, 0x65, 0], 0x1EC3), ([0xFE61, 0xFF20, 0x5E, 0x6F, 0], 0x1ED5),
    ([0xFE61, 0xFF20, 0x62, 0x41, 0], 0x1EB2), ([0xFE61, 0xFF20, 0x62, 0x61, 0], 0x1EB3),
    ([0xFE61, 0x10001A0, 0, 0, 0], 0x1EDE), ([0xFE61, 0x10001A1, 0, 0, 0], 0x1EDF),
    ([0xFE61, 0x10001AF, 0, 0, 0], 0x1EEC), ([0xFE61, 0x10001B0, 0, 0, 0], 0x1EED),
    ([0xFE62, 0x4F, 0, 0, 0], 0x1A0), ([0xFE62, 0x55, 0, 0, 0], 0x1AF), ([0xFE62, 0x6F, 0, 0, 0], 0x1A1),
    ([0xFE62, 0x75, 0, 0, 0], 0x1B0), ([0xFF20, 0x20, 0x20, 0, 0], 0xA0), ([0xFF20, 0x20, 0x27, 0, 0], 0x27),
    ([0xFF20, 0x20, 0x28, 0, 0], 0x2D8), ([0xFF20, 0x20, 0x2C, 0, 0], 0xB8),
    ([0xFF20, 0x20, 0x2D, 0, 0], 0x7E), ([0xFF20, 0x20, 0x2E, 0, 0], 0x2008),
    ([0xFF20, 0x20, 0x3C, 0, 0], 0x2C7), ([0xFF20, 0x20, 0x3E, 0, 0], 0x5E),
    ([0xFF20, 0x20, 0x5E, 0, 0], 0x5E), ([0xFF20, 0x20, 0x60, 0, 0], 0x60), ([0xFF20, 0x20, 0x7E, 0, 0], 0x7E),
    ([0xFF20, 0x21, 0x21, 0, 0], 0xA1), ([0xFF20, 0x21, 0x2B, 0x4F, 0], 0x1EE2),
    ([0xFF20, 0x21, 0x2B, 0x55, 0], 0x1EF0), ([0xFF20, 0x21, 0x2B, 0x6F, 0], 0x1EE3),
    ([0xFF20, 0x21, 0x2B, 0x75, 0], 0x1EF1), ([0xFF20, 0x21, 0x41, 0, 0], 0x1EA0),
    ([0xFF20, 0x21, 0x42, 0, 0], 0x1E04), ([0xFF20, 0x21, 0x44, 0, 0], 0x1E0C),
    ([0xFF20, 0x21, 0x45, 0, 0], 0x1EB8), ([0xFF20, 0x21, 0x48, 0, 0], 0x1E24),
    ([0xFF20, 0x21, 0x49, 0, 0], 0x1ECA), ([0xFF20, 0x21, 0x4B, 0, 0], 0x1E32),
    ([0xFF20, 0x21, 0x4C, 0, 0], 0x1E36), ([0xFF20, 0x21, 0x4D, 0, 0], 0x1E42),
    ([0xFF20, 0x21, 0x4E, 0, 0], 0x1E46), ([0xFF20, 0x21, 0x4F, 0, 0], 0x1ECC),
    ([0xFF20, 0x21, 0x50, 0, 0], 0xB6), ([0xFF20, 0x21, 0x52, 0, 0], 0x1E5A),
    ([0xFF20, 0x21, 0x53, 0, 0], 0x1E62), ([0xFF20, 0x21, 0x54, 0, 0], 0x1E6C),
    ([0xFF20, 0x21, 0x55, 0, 0], 0x1EE4), ([0xFF20, 0x21, 0x56, 0, 0], 0x1E7E),
    ([0xFF20, 0x21, 0x57, 0, 0], 0x1E88), ([0xFF20, 0x21, 0x59, 0, 0], 0x1EF4),
    ([0xFF20, 0x21, 0x5A, 0, 0], 0x1E92), ([0xFF20, 0x21, 0x5E, 0, 0], 0xA6),
    ([0xFF20, 0x21, 0x61, 0, 0], 0x1EA1), ([0xFF20, 0x21, 0x62, 0, 0], 0x1E05),
    ([0xFF20, 0x21, 0x64, 0, 0], 0x1E0D), ([0xFF20, 0x21, 0x65, 0, 0], 0x1EB9),
    ([0xFF20, 0x21, 0x68, 0, 0], 0x1E25), ([0xFF20, 0x21, 0x69, 0, 0], 0x1ECB),
    ([0xFF20, 0x21, 0x6B, 0, 0], 0x1E33), ([0xFF20, 0x21, 0x6C, 0, 0], 0x1E37),
    ([0xFF20, 0x21, 0x6D, 0, 0], 0x1E43), ([0xFF20, 0x21, 0x6E, 0, 0], 0x1E47),
    ([0xFF20, 0x21, 0x6F, 0, 0], 0x1ECD), ([0xFF20, 0x21, 0x70, 0, 0], 0xB6),
    ([0xFF20, 0x21, 0x72, 0, 0], 0x1E5B), ([0xFF20, 0x21, 0x73, 0, 0], 0x1E63),
    ([0xFF20, 0x21, 0x74, 0, 0], 0x1E6D), ([0xFF20, 0x21, 0x75, 0, 0], 0x1EE5),
    ([0xFF20, 0x21, 0x76, 0, 0], 0x1E7F), ([0xFF20, 0x21, 0x77, 0, 0], 0x1E89),
    ([0xFF20, 0x21, 0x79, 0, 0], 0x1EF5), ([0xFF20, 0x21, 0x7A, 0, 0], 0x1E93)]"

definition compose_rows_17 :: "compose_row list" where
  "compose_rows_17 =
   [([0xFF20, 0x21, 0x1EFA, 0, 0], 0x1EE2), ([0xFF20, 0x21, 0x1EFB, 0, 0], 0x1EE3),
    ([0xFF20, 0x21, 0x1EFC, 0, 0], 0x1EF0), ([0xFF20, 0x21, 0x1EFD, 0, 0], 0x1EF1),
    ([0xFF20, 0x21, 0xFE62, 0x4F, 0], 0x1EE2), ([0xFF20, 0x21, 0xFE62, 0x55, 0], 0x1EF0),
    ([0xFF20, 0x21, 0xFE62, 0x6F, 0], 0x1EE3), ([0xFF20, 0x21, 0xFE62, 0x75, 0], 0x1EF1),
    ([0xFF20, 0x22, 0x22, 0, 0], 0xA8), ([0xFF20, 0x22, 0x27, 0, 0], 0x344),
    ([0xFF20, 0x22, 0x27, 0x20, 0], 0x385), ([0xFF20, 0x22, 0x27, 0x7E9, 0], 0x390),
    ([0xFF20, 0x22, 0x27, 0x7F5, 0], 0x3B0), ([0xFF20, 0x22, 0x2C, 0, 0], 0x201E),
    ([0xFF20, 0x22, 0x2F, 0, 0], 0x301E), ([0xFF20, 0x22, 0x3C, 0, 0], 0x201C),
    ([0xFF20, 0x22, 0x3E, 0, 0], 0x201D), ([0xFF20, 0x22, 0x41, 0, 0], 0xC4),
    ([0xFF20, 0x22, 0x45, 0, 0], 0xCB), ([0xFF20, 0x22, 0x48, 0, 0], 0x1E26),
    ([0xFF20, 0x22, 0x49, 0, 0], 0xCF), ([0xFF20, 0x22, 0x4F, 0, 0], 0xD6), ([0xFF20, 0x22, 0x55, 0, 0], 0xDC),
    ([0xFF20, 0x22, 0x57, 0, 0], 0x1E84), ([0xFF20, 0x22, 0x58, 0, 0], 0x1E8C),
    ([0xFF20, 0x22, 0x59, 0, 0], 0x178), ([0xFF20, 0x22, 0x5C, 0, 0], 0x301D),
    ([0xFF20, 0x22, 0x5F, 0x55, 0], 0x1E7A), ([0xFF20, 0x22, 0x5F, 0x75, 0], 0x1E7B),
    ([0xFF20, 0x22, 0x61, 0, 0], 0xE4), ([0xFF20, 0x22, 0x65, 0, 0], 0xEB),
    ([0xFF20, 0x22, 0x68, 0, 0], 0x1E27), ([0xFF20, 0x22, 0x69, 0, 0], 0xEF),
    ([0xFF20, 0x22, 0x6F, 0, 0], 0xF6), ([0xFF20, 0x22, 0x74, 0, 0], 0x1E97),
    ([0xFF20, 0x22, 0x75, 0, 0], 0xFC), ([0xFF20, 0x22, 0x77, 0, 0], 0x1E85),
    ([0xFF20, 0x22, 0x78, 0, 0], 0x1E8D), ([0xFF20, 0x22, 0x79, 0, 0], 0xFF),
    ([0xFF20, 0x22, 0x7E, 0x4F, 0], 0x1E4E), ([0xFF20, 0x22, 0x7E, 0x6F, 0], 0x1E4F),
    ([0xFF20, 0x22, 0xAF, 0x55, 0], 0x1E7A), ([0xFF20, 0x22, 0xAF, 0x75, 0], 0x1E7B),
    ([0xFF20, 0x22, 0xB4, 0, 0], 0x344), ([0xFF20, 0x22, 0xD5, 0, 0], 0x1E4E),
    ([0xFF20, 0x22, 0xF5, 0, 0], 0x1E4F), ([0xFF20, 0x22, 0x3DE, 0, 0], 0x1E7A),
    ([0xFF20, 0x22, 0x3FE, 0, 0], 0x1E7B), ([0xFF20, 0x22, 0x6A6, 0, 0], 0x457),
    ([0xFF20, 0x22, 0x6B6, 0, 0], 0x407), ([0xFF20, 0x22, 0x6C1, 0, 0], 0x4D3),
    ([0xFF20, 0x22, 0x6C5, 0, 0], 0x451), ([0xFF20, 0x22, 0x6C9, 0, 0], 0x4E5),
    ([0xFF20, 0x22, 0x6CF, 0, 0], 0x4E7), ([0xFF20, 0x22, 0x6D5, 0, 0], 0x4F1),
    ([0xFF20, 0x22, 0x6D6, 0, 0], 0x4DD), ([0xFF20, 0x22, 0x6D9, 0, 0], 0x4F9),
    ([0xFF20, 0x22, 0x6DA, 0, 0], 0x4DF), ([0xFF20, 0x22, 0x6DC, 0, 0], 0x4ED),
    ([0xFF20, 0x22, 0x6DE, 0, 0], 0x4F5), ([0xFF20, 0x22, 0x6E1, 0, 0], 0x4D2),
    ([0xFF20, 0x22, 0x6E5, 0, 0], 0x401), ([0xFF20, 0x22, 0x6E9, 0, 0], 0x4E4),
    ([0xFF20, 0x22, 0x6EF, 0, 0], 0x4E6), ([0xFF20, 0x22, 0x6F5, 0, 0], 0x4F0),
    ([0xFF20, 0x22, 0x6F6, 0, 0], 0x4DC), ([0xFF20, 0x22, 0x6F9, 0, 0], 0x4F8),
    ([0xFF20, 0x22, 0x6FA, 0, 0], 0x4DE), ([0xFF20, 0x22, 0x6FC, 0, 0], 0x4EC),
    ([0xFF20, 0x22, 0x6FE, 0, 0], 0x4F4), ([0xFF20, 0x22, 0x7C9, 0, 0], 0x3AA),
    ([0xFF20, 0x22, 0x7D5, 0, 0], 0x3AB), ([0xFF20, 0x22, 0x7E9, 0, 0], 0x3CA),
    ([0xFF20, 0x22, 0x7F5, 0, 0], 0x3CB), ([0xFF20, 0x22, 0x1E9F, 0x4F, 0], 0x1E4E),
    ([0xFF20, 0x22, 0x1E9F, 0x6F, 0], 0x1E4F), ([0xFF20, 0x22, 0x1EF3, 0, 0], 0x344),
    ([0xFF20, 0x22, 0xFE51, 0, 0], 0x344), ([0xFF20, 0x22, 0xFE53, 0x4F, 0], 0x1E4E),
    ([0xFF20, 0x22, 0xFE53, 0x6F, 0], 0x1E4F), ([0xFF20, 0x22, 0xFE54, 0x55, 0], 0x1E7A),
    ([0xFF20, 0x22, 0xFE54, 0x75, 0], 0x1E7B), ([0xFF20, 0x22, 0x10003D2, 0, 0], 0x3D4),
    ([0xFF20, 0x22, 0x10004D8, 0, 0], 0x4DA), ([0xFF20, 0x22, 0x10004D9, 0, 0], 0x4DB),
    ([0xFF20, 0x22, 0x10004E8, 0, 0], 0x4EA), ([0xFF20, 0x22, 0x10004E9, 0, 0], 0x4EB),
    ([0xFF20, 0x23, 0x23, 0, 0], 0x266F), ([0xFF20, 0x23, 0x62, 0, 0], 0x266D),
    ([0xFF20, 0x23, 0x66, 0, 0], 0x266E), ([0xFF20, 0x25, 0x6F, 0, 0], 0x2030),
    ([0xFF20, 0x27, 0x20, 0, 0], 0x27), ([0xFF20, 0x27, 0x22, 0x20, 0], 0x385),
    ([0xFF20, 0x27, 0x22, 0x49, 0], 0x1E2E), ([0xFF20, 0x27, 0x22, 0x55, 0], 0x1D7),
    ([0xFF20, 0x27, 0x22, 0x69, 0], 0x1E2F), ([0xFF20, 0x27, 0x22, 0x75, 0], 0x1D8),
    ([0xFF20, 0x27, 0x22, 0x7E9, 0], 0x390), ([0xFF20, 0x27, 0x22, 0x7F5, 0], 0x3B0),
    ([0xFF20, 0x27, 0x27, 0, 0], 0xB4), ([0xFF20, 0x27, 0x28, 0x7C1, 0], 0x1F0D),
    ([0xFF20, 0x27, 0x28, 0x7C5, 0], 0x1F1D), ([0xFF20, 0x27, 0x28, 0x7C7, 0], 0x1F2D),
    ([0xFF20, 0x27, 0x28, 0x7C9, 0], 0x1F3D), ([0xFF20, 0x27, 0x28, 0x7CF, 0], 0x1F4D),
    ([0xFF20, 0x27, 0x28, 0x7D5, 0], 0x1F5D), ([0xFF20, 0x27, 0x28, 0x7D9, 0], 0x1F6D),
    ([0xFF20, 0x27, 0x28, 0x7E1, 0], 0x1F05), ([0xFF20, 0x27, 0x28, 0x7E5, 0], 0x1F15),
    ([0xFF20, 0x27, 0x28, 0x7E7, 0], 0x1F25), ([0xFF20, 0x27, 0x28, 0x7E9, 0], 0x1F35),
    ([0xFF20, 0x27, 0x28, 0x7EF, 0], 0x1F45), ([0xFF20, 0x27, 0x28, 0x7F5, 0], 0x1F55),
    ([0xFF20, 0x27, 0x28, 0x7F9, 0], 0x1F65), ([0xFF20, 0x27, 0x29, 0x7C1, 0], 0x1F0C),
    ([0xFF20, 0x27, 0x29, 0x7C5, 0], 0x1F1C), ([0xFF20, 0x27, 0x29, 0x7C7, 0], 0x1F2C),
    ([0xFF20, 0x27, 0x29, 0x7C9, 0], 0x1F3C), ([0xFF20, 0x27, 0x29, 0x7CF, 0], 0x1F4C),
    ([0xFF20, 0x27, 0x29, 0x7D9, 0], 0x1F6C), ([0xFF20, 0x27, 0x29, 0x7E1, 0], 0x1F04),
    ([0xFF20, 0x27, 0x29, 0x7E5, 0], 0x1F14), ([0xFF20, 0x27, 0x29, 0x7E7, 0], 0x1F24),
    ([0xFF20, 0x27, 0x29, 0x7E9, 0], 0x1F34), ([0xFF20, 0x27, 0x29, 0x7EF, 0], 0x1F44),
    ([0xFF20, 0x27, 0x29, 0x7F5, 0], 0x1F54), ([0xFF20, 0x27, 0x29, 0x7F9, 0], 0x1F64),
    ([0xFF20, 0x27, 0x2B, 0x4F, 0], 0x1EDA), ([0xFF20, 0x27, 0x2B, 0x55, 0], 0x1EE8),
    ([0xFF20, 0x27, 0x2B, 0x6F, 0], 0x1EDB), ([0xFF20, 0x27, 0x2B, 0x75, 0], 0x1EE9),
    ([0xFF20, 0x27, 0x2C, 0, 0], 0x201A), ([0xFF20, 0x27, 0x2C, 0x43, 0], 0x1E08),
    ([0xFF20, 0x27, 0x2C, 0x63, 0], 0x1E09), ([0xFF20, 0x27, 0x2F, 0x4F, 0], 0x1FE),
    ([0xFF20, 0x27, 0x2F, 0x6F, 0], 0x1FF), ([0xFF20, 0x27, 0x3C, 0, 0], 0x2018),
    ([0xFF20, 0x27, 0x3E, 0, 0], 0x2019), ([0xFF20, 0x27, 0x41, 0, 0], 0xC1),
    ([0xFF20, 0x27, 0x43, 0, 0], 0x106), ([0xFF20, 0x27, 0x45, 0, 0], 0xC9),
    ([0xFF20, 0x27, 0x47, 0, 0], 0x1F4), ([0xFF20, 0x27, 0x49, 0, 0], 0xCD),
    ([0xFF20, 0x27, 0x4B, 0, 0], 0x1E30), ([0xFF20, 0x27, 0x4C, 0, 0], 0x139),
    ([0xFF20, 0x27, 0x4D, 0, 0], 0x1E3E), ([0xFF20, 0x27, 0x4E, 0, 0], 0x143),
    ([0xFF20, 0x27, 0x4F, 0, 0], 0xD3)]"

definition compose_rows_18 :: "compose_row list" where
  "compose_rows_18 =
   [([0xFF20, 0x27, 0x50, 0, 0], 0x1E54), ([0xFF20, 0x27, 0x52, 0, 0], 0x154),
    ([0xFF20, 0x27, 0x53, 0, 0], 0x15A), ([0xFF20, 0x27, 0x55, 0, 0], 0xDA),
    ([0xFF20, 0x27, 0x55, 0x41, 0], 0x1EAE), ([0xFF20, 0x27, 0x55, 0x61, 0], 0x1EAF),
    ([0xFF20, 0x27, 0x57, 0, 0], 0x1E82), ([0xFF20, 0x27, 0x59, 0, 0], 0xDD),
    ([0xFF20, 0x27, 0x5A, 0, 0], 0x179), ([0xFF20, 0x27, 0x5E, 0x41, 0], 0x1EA4),
    ([0xFF20, 0x27, 0x5E, 0x45, 0], 0x1EBE), ([0xFF20, 0x27, 0x5E, 0x4F, 0], 0x1ED0),
    ([0xFF20, 0x27, 0x5E, 0x61, 0], 0x1EA5), ([0xFF20, 0x27, 0x5E, 0x65, 0], 0x1EBF),
    ([0xFF20, 0x27, 0x5E, 0x6F, 0], 0x1ED1), ([0xFF20, 0x27, 0x5F, 0x45, 0], 0x1E16),
    ([0xFF20, 0x27, 0x5F, 0x4F, 0], 0x1E52), ([0xFF20, 0x27, 0x5F, 0x65, 0], 0x1E17),
    ([0xFF20, 0x27, 0x5F, 0x6F, 0], 0x1E53), ([0xFF20, 0x27, 0x61, 0, 0], 0xE1),
    ([0xFF20, 0x27, 0x62, 0x41, 0], 0x1EAE), ([0xFF20, 0x27, 0x62, 0x61, 0], 0x1EAF),
    ([0xFF20, 0x27, 0x63, 0, 0], 0x107), ([0xFF20, 0x27, 0x65, 0, 0], 0xE9),
    ([0xFF20, 0x27, 0x67, 0, 0], 0x1F5), ([0xFF20, 0x27, 0x69, 0, 0], 0xED),
    ([0xFF20, 0x27, 0x6B, 0, 0], 0x1E31), ([0xFF20, 0x27, 0x6C, 0, 0], 0x13A),
    ([0xFF20, 0x27, 0x6D, 0, 0], 0x1E3F), ([0xFF20, 0x27, 0x6E, 0, 0], 0x144),
    ([0xFF20, 0x27, 0x6F, 0, 0], 0xF3), ([0xFF20, 0x27, 0x70, 0, 0], 0x1E55),
    ([0xFF20, 0x27, 0x72, 0, 0], 0x155), ([0xFF20, 0x27, 0x73, 0, 0], 0x15B),
    ([0xFF20, 0x27, 0x75, 0, 0], 0xFA), ([0xFF20, 0x27, 0x77, 0, 0], 0x1E83),
    ([0xFF20, 0x27, 0x79, 0, 0], 0xFD), ([0xFF20, 0x27, 0x7A, 0, 0], 0x17A),
    ([0xFF20, 0x27, 0x7E, 0x4F, 0], 0x1E4C), ([0xFF20, 0x27, 0x7E, 0x55, 0], 0x1E78),
    ([0xFF20, 0x27, 0x7E, 0x6F, 0], 0x1E4D), ([0xFF20, 0x27, 0x7E, 0x75, 0], 0x1E79),
    ([0xFF20, 0x27, 0xAF, 0x45, 0], 0x1E16), ([0xFF20, 0x27, 0xAF, 0x4F, 0], 0x1E52),
    ([0xFF20, 0x27, 0xAF, 0x65, 0], 0x1E17), ([0xFF20, 0x27, 0xAF, 0x6F, 0], 0x1E53),
    ([0xFF20, 0x27, 0xC2, 0, 0], 0x1EA4), ([0xFF20, 0x27, 0xC5, 0, 0], 0x1FA),
    ([0xFF20, 0x27, 0xC6, 0, 0], 0x1FC), ([0xFF20, 0x27, 0xC7, 0, 0], 0x1E08),
    ([0xFF20, 0x27, 0xCA, 0, 0], 0x1EBE), ([0xFF20, 0x27, 0xCF, 0, 0], 0x1E2E),
    ([0xFF20, 0x27, 0xD4, 0, 0], 0x1ED0), ([0xFF20, 0x27, 0xD5, 0, 0], 0x1E4C),
    ([0xFF20, 0x27, 0xD8, 0, 0], 0x1FE), ([0xFF20, 0x27, 0xDC, 0, 0], 0x1D7),
    ([0xFF20, 0x27, 0xE2, 0, 0], 0x1EA5), ([0xFF20, 0x27, 0xE5, 0, 0], 0x1FB),
    ([0xFF20, 0x27, 0xE6, 0, 0], 0x1FD), ([0xFF20, 0x27, 0xE7, 0, 0], 0x1E09),
    ([0xFF20, 0x27, 0xEA, 0, 0], 0x1EBF), ([0xFF20, 0x27, 0xEF, 0, 0], 0x1E2F),
    ([0xFF20, 0x27, 0xF4, 0, 0], 0x1ED1), ([0xFF20, 0x27, 0xF5, 0, 0], 0x1E4D),
    ([0xFF20, 0x27, 0xF8, 0, 0], 0x1FF), ([0xFF20, 0x27, 0xFC, 0, 0], 0x1D8),
    ([0xFF20, 0x27, 0x1C3, 0, 0], 0x1EAE), ([0xFF20, 0x27, 0x1E3, 0, 0], 0x1EAF),
    ([0xFF20, 0x27, 0x3AA, 0, 0], 0x1E16), ([0xFF20, 0x27, 0x3BA, 0, 0], 0x1E17),
    ([0xFF20, 0x27, 0x3D2, 0, 0], 0x1E52), ([0xFF20, 0x27, 0x3DD, 0, 0], 0x1E78),
    ([0xFF20, 0x27, 0x3F2, 0, 0], 0x1E53), ([0xFF20, 0x27, 0x3FD, 0, 0], 0x1E79),
    ([0xFF20, 0x27, 0x6C7, 0, 0], 0x453), ([0xFF20, 0x27, 0x6CB, 0, 0], 0x45C),
    ([0xFF20, 0x27, 0x6E7, 0, 0], 0x403), ([0xFF20, 0x27, 0x6EB, 0, 0], 0x40C),
    ([0xFF20, 0x27, 0x7B5, 0, 0], 0x390), ([0xFF20, 0x27, 0x7B9, 0, 0], 0x3B0),
    ([0xFF20, 0x27, 0x7C1, 0, 0], 0x386), ([0xFF20, 0x27, 0x7C5, 0, 0], 0x388),
    ([0xFF20, 0x27, 0x7C7, 0, 0], 0x389), ([0xFF20, 0x27, 0x7C9, 0, 0], 0x38A),
    ([0xFF20, 0x27, 0x7CF, 0, 0], 0x38C), ([0xFF20, 0x27, 0x7D5, 0, 0], 0x38E),
    ([0xFF20, 0x27, 0x7D9, 0, 0], 0x38F), ([0xFF20, 0x27, 0x7E1, 0, 0], 0x3AC),
    ([0xFF20, 0x27, 0x7E5, 0, 0], 0x3AD), ([0xFF20, 0x27, 0x7E7, 0, 0], 0x3AE),
    ([0xFF20, 0x27, 0x7E9, 0, 0], 0x3AF), ([0xFF20, 0x27, 0x7EF, 0, 0], 0x3CC),
    ([0xFF20, 0x27, 0x7F5, 0, 0], 0x3CD), ([0xFF20, 0x27, 0x7F9, 0, 0], 0x3CE),
    ([0xFF20, 0x27, 0x1E9F, 0x4F, 0], 0x1E4C), ([0xFF20, 0x27, 0x1E9F, 0x55, 0], 0x1E78),
    ([0xFF20, 0x27, 0x1E9F, 0x6F, 0], 0x1E4D), ([0xFF20, 0x27, 0x1E9F, 0x75, 0], 0x1E79),
    ([0xFF20, 0x27, 0x1EFA, 0, 0], 0x1EDA), ([0xFF20, 0x27, 0x1EFB, 0, 0], 0x1EDB),
    ([0xFF20, 0x27, 0x1EFC, 0, 0], 0x1EE8), ([0xFF20, 0x27, 0x1EFD, 0, 0], 0x1EE9),
    ([0xFF20, 0x27, 0xFE52, 0x41, 0], 0x1EA4), ([0xFF20, 0x27, 0xFE52, 0x45, 0], 0x1EBE),
    ([0xFF20, 0x27, 0xFE52, 0x4F, 0], 0x1ED0), ([0xFF20, 0x27, 0xFE52, 0x61, 0], 0x1EA5),
    ([0xFF20, 0x27, 0xFE52, 0x65, 0], 0x1EBF), ([0xFF20, 0x27, 0xFE52, 0x6F, 0], 0x1ED1),
    ([0xFF20, 0x27, 0xFE53, 0x4F, 0], 0x1E4C), ([0xFF20, 0x27, 0xFE53, 0x55, 0], 0x1E78),
    ([0xFF20, 0x27, 0xFE53, 0x6F, 0], 0x1E4D), ([0xFF20, 0x27, 0xFE53, 0x75, 0], 0x1E79),
    ([0xFF20, 0x27, 0xFE54, 0x45, 0], 0x1E16), ([0xFF20, 0x27, 0xFE54, 0x4F, 0], 0x1E52),
    ([0xFF20, 0x27, 0xFE54, 0x65, 0], 0x1E17), ([0xFF20, 0x27, 0xFE54, 0x6F, 0], 0x1E53),
    ([0xFF20, 0x27, 0xFE55, 0x41, 0], 0x1EAE), ([0xFF20, 0x27, 0xFE55, 0x61, 0], 0x1EAF),
    ([0xFF20, 0x27, 0xFE57, 0x49, 0], 0x1E2E), ([0xFF20, 0x27, 0xFE57, 0x55, 0], 0x1D7),
    ([0xFF20, 0x27, 0xFE57, 0x69, 0], 0x1E2F), ([0xFF20, 0x27, 0xFE57, 0x75, 0], 0x1D8),
    ([0xFF20, 0x27, 0xFE57, 0x7E9, 0], 0x390), ([0xFF20, 0x27, 0xFE57, 0x7F5, 0], 0x3B0),
    ([0xFF20, 0x27, 0xFE58, 0x41, 0], 0x1FA), ([0xFF20, 0x27, 0xFE58, 0x61, 0], 0x1FB),
    ([0xFF20, 0x27, 0xFE5B, 0x43, 0], 0x1E08), ([0xFF20, 0x27, 0xFE5B, 0x63, 0], 0x1E09),
    ([0xFF20, 0x27, 0xFE62, 0x4F, 0], 0x1EDA), ([0xFF20, 0x27, 0xFE62, 0x55, 0], 0x1EE8),
    ([0xFF20, 0x27, 0xFE62, 0x6F, 0], 0x1EDB), ([0xFF20, 0x27, 0xFE62, 0x75, 0], 0x1EE9),
    ([0xFF20, 0x27, 0xFFAF, 0x4F, 0], 0x1FE), ([0xFF20, 0x27, 0xFFAF, 0x6F, 0], 0x1FF),
    ([0xFF20, 0x27, 0x1000313, 0x7C1, 0], 0x1F0C), ([0xFF20, 0x27, 0x1000313, 0x7C5, 0], 0x1F1C),
    ([0xFF20, 0x27, 0x1000313, 0x7C7, 0], 0x1F2C), ([0xFF20, 0x27, 0x1000313, 0x7C9, 0], 0x1F3C),
    ([0xFF20, 0x27, 0x1000313, 0x7CF, 0], 0x1F4C), ([0xFF20, 0x27, 0x1000313, 0x7D9, 0], 0x1F6C),
    ([0xFF20, 0x27, 0x1000313, 0x7E1, 0], 0x1F04), ([0xFF20, 0x27, 0x1000313, 0x7E5, 0], 0x1F14),
    ([0xFF20, 0x27, 0x1000313, 0x7E7, 0], 0x1F24), ([0xFF20, 0x27, 0x1000313, 0x7E9, 0], 0x1F34),
    ([0xFF20, 0x27, 0x1000313, 0x7EF, 0], 0x1F44), ([0xFF20, 0x27, 0x1000313, 0x7F5, 0], 0x1F54),
    ([0xFF20, 0x27, 0x1000313, 0x7F9, 0], 0x1F64), ([0xFF20, 0x27, 0x1000314, 0x7C1, 0], 0x1F0D)]"

definition compose_rows_19 :: "compose_row list" where
  "compose_rows_19 =
   [([0xFF20, 0x27, 0x1000314, 0x7C5, 0], 0x1F1D), ([0xFF20, 0x27, 0x1000314, 0x7C7, 0], 0x1F2D),
    ([0xFF20, 0x27, 0x1000314, 0x7C9, 0], 0x1F3D), ([0xFF20, 0x27, 0x1000314, 0x7CF, 0], 0x1F4D),
    ([0xFF20, 0x27, 0x1000314, 0x7D5, 0], 0x1F5D), ([0xFF20, 0x27, 0x1000314, 0x7D9, 0], 0x1F6D),
    ([0xFF20, 0x27, 0x1000314, 0x7E1, 0], 0x1F05), ([0xFF20, 0x27, 0x1000314, 0x7E5, 0], 0x1F15),
    ([0xFF20, 0x27, 0x1000314, 0x7E7, 0], 0x1F25), ([0xFF20, 0x27, 0x1000314, 0x7E9, 0], 0x1F35),
    ([0xFF20, 0x27, 0x1000314, 0x7EF, 0], 0x1F45), ([0xFF20, 0x27, 0x1000314, 0x7F5, 0], 0x1F55),
    ([0xFF20, 0x27, 0x1000314, 0x7F9, 0], 0x1F65), ([0xFF20, 0x27, 0x10003D2, 0, 0], 0x3D3),
    ([0xFF20, 0x27, 0x1001F00, 0, 0], 0x1F04), ([0xFF20, 0x27, 0x1001F01, 0, 0], 0x1F05),
    ([0xFF20, 0x27, 0x1001F08, 0, 0], 0x1F0C), ([0xFF20, 0x27, 0x1001F09, 0, 0], 0x1F0D),
    ([0xFF20, 0x27, 0x1001F10, 0, 0], 0x1F14), ([0xFF20, 0x27, 0x1001F11, 0, 0], 0x1F15),
    ([0xFF20, 0x27, 0x1001F18, 0, 0], 0x1F1C), ([0xFF20, 0x27, 0x1001F19, 0, 0], 0x1F1D),
    ([0xFF20, 0x27, 0x1001F20, 0, 0], 0x1F24), ([0xFF20, 0x27, 0x1001F21, 0, 0], 0x1F25),
    ([0xFF20, 0x27, 0x1001F28, 0, 0], 0x1F2C), ([0xFF20, 0x27, 0x1001F29, 0, 0], 0x1F2D),
    ([0xFF20, 0x27, 0x1001F30, 0, 0], 0x1F34), ([0xFF20, 0x27, 0x1001F31, 0, 0], 0x1F35),
    ([0xFF20, 0x27, 0x1001F38, 0, 0], 0x1F3C), ([0xFF20, 0x27, 0x1001F39, 0, 0], 0x1F3D),
    ([0xFF20, 0x27, 0x1001F40, 0, 0], 0x1F44), ([0xFF20, 0x27, 0x1001F41, 0, 0], 0x1F45),
    ([0xFF20, 0x27, 0x1001F48, 0, 0], 0x1F4C), ([0xFF20, 0x27, 0x1001F49, 0, 0], 0x1F4D),
    ([0xFF20, 0x27, 0x1001F50, 0, 0], 0x1F54), ([0xFF20, 0x27, 0x1001F51, 0, 0], 0x1F55),
    ([0xFF20, 0x27, 0x1001F59, 0, 0], 0x1F5D), ([0xFF20, 0x27, 0x1001F60, 0, 0], 0x1F64),
    ([0xFF20, 0x27, 0x1001F61, 0, 0], 0x1F65), ([0xFF20, 0x27, 0x1001F68, 0, 0], 0x1F6C),
    ([0xFF20, 0x27, 0x1001F69, 0, 0], 0x1F6D), ([0xFF20, 0x28, 0x20, 0, 0], 0x2D8),
    ([0xFF20, 0x28, 0x28, 0, 0], 0x5B), ([0xFF20, 0x28, 0x2D, 0, 0], 0x7B),
    ([0xFF20, 0x28, 0x30, 0x29, 0], 0x24EA), ([0xFF20, 0x28, 0x31, 0x29, 0], 0x2460),
    ([0xFF20, 0x28, 0x31, 0x30, 0x29], 0x2469), ([0xFF20, 0x28, 0x31, 0x31, 0x29], 0x246A),
    ([0xFF20, 0x28, 0x31, 0x32, 0x29], 0x246B), ([0xFF20, 0x28, 0x31, 0x33, 0x29], 0x246C),
    ([0xFF20, 0x28, 0x31, 0x34, 0x29], 0x246D), ([0xFF20, 0x28, 0x31, 0x35, 0x29], 0x246E),
    ([0xFF20, 0x28, 0x31, 0x36, 0x29], 0x246F), ([0xFF20, 0x28, 0x31, 0x37, 0x29], 0x2470),
    ([0xFF20, 0x28, 0x31, 0x38, 0x29], 0x2471), ([0xFF20, 0x28, 0x31, 0x39, 0x29], 0x2472),
    ([0xFF20, 0x28, 0x31, 0xFF80, 0x29], 0x246B), ([0xFF20, 0x28, 0x31, 0xFFB0, 0x29], 0x2469),
    ([0xFF20, 0x28, 0x31, 0xFFB1, 0x29], 0x246A), ([0xFF20, 0x28, 0x31, 0xFFB2, 0x29], 0x246B),
    ([0xFF20, 0x28, 0x31, 0xFFB3, 0x29], 0x246C), ([0xFF20, 0x28, 0x31, 0xFFB4, 0x29], 0x246D),
    ([0xFF20, 0x28, 0x31, 0xFFB5, 0x29], 0x246E), ([0xFF20, 0x28, 0x31, 0xFFB6, 0x29], 0x246F),
    ([0xFF20, 0x28, 0x31, 0xFFB7, 0x29], 0x2470), ([0xFF20, 0x28, 0x31, 0xFFB8, 0x29], 0x2471),
    ([0xFF20, 0x28, 0x31, 0xFFB9, 0x29], 0x2472), ([0xFF20, 0x28, 0x32, 0x29, 0], 0x2461),
    ([0xFF20, 0x28, 0x32, 0x30, 0x29], 0x2473), ([0xFF20, 0x28, 0x32, 0x31, 0x29], 0x3251),
    ([0xFF20, 0x28, 0x32, 0x32, 0x29], 0x3252), ([0xFF20, 0x28, 0x32, 0x33, 0x29], 0x3253),
    ([0xFF20, 0x28, 0x32, 0x34, 0x29], 0x3254), ([0xFF20, 0x28, 0x32, 0x35, 0x29], 0x3255),
    ([0xFF20, 0x28, 0x32, 0x36, 0x29], 0x3256), ([0xFF20, 0x28, 0x32, 0x37, 0x29], 0x3257),
    ([0xFF20, 0x28, 0x32, 0x38, 0x29], 0x3258), ([0xFF20, 0x28, 0x32, 0x39, 0x29], 0x3259),
    ([0xFF20, 0x28, 0x32, 0xFF80, 0x29], 0x3252), ([0xFF20, 0x28, 0x32, 0xFFB0, 0x29], 0x2473),
    ([0xFF20, 0x28, 0x32, 0xFFB1, 0x29], 0x3251), ([0xFF20, 0x28, 0x32, 0xFFB2, 0x29], 0x3252),
    ([0xFF20, 0x28, 0x32, 0xFFB3, 0x29], 0x3253), ([0xFF20, 0x28, 0x32, 0xFFB4, 0x29], 0x3254),
    ([0xFF20, 0x28, 0x32, 0xFFB5, 0x29], 0x3255), ([0xFF20, 0x28, 0x32, 0xFFB6, 0x29], 0x3256),
    ([0xFF20, 0x28, 0x32, 0xFFB7, 0x29], 0x3257), ([0xFF20, 0x28, 0x32, 0xFFB8, 0x29], 0x3258),
    ([0xFF20, 0x28, 0x32, 0xFFB9, 0x29], 0x3259), ([0xFF20, 0x28, 0x33, 0x29, 0], 0x2462),
    ([0xFF20, 0x28, 0x33, 0x30, 0x29], 0x325A), ([0xFF20, 0x28, 0x33, 0x31, 0x29], 0x325B),
    ([0xFF20, 0x28, 0x33, 0x32, 0x29], 0x325C), ([0xFF20, 0x28, 0x33, 0x33, 0x29], 0x325D),
    ([0xFF20, 0x28, 0x33, 0x34, 0x29], 0x325E), ([0xFF20, 0x28, 0x33, 0x35, 0x29], 0x325F),
    ([0xFF20, 0x28, 0x33, 0x36, 0x29], 0x32B1), ([0xFF20, 0x28, 0x33, 0x37, 0x29], 0x32B2),
    ([0xFF20, 0x28, 0x33, 0x38, 0x29], 0x32B3), ([0xFF20, 0x28, 0x33, 0x39, 0x29], 0x32B4),
    ([0xFF20, 0x28, 0x33, 0xFF80, 0x29], 0x325C), ([0xFF20, 0x28, 0x33, 0xFFB0, 0x29], 0x325A),
    ([0xFF20, 0x28, 0x33, 0xFFB1, 0x29], 0x325B), ([0xFF20, 0x28, 0x33, 0xFFB2, 0x29], 0x325C),
    ([0xFF20, 0x28, 0x33, 0xFFB3, 0x29], 0x325D), ([0xFF20, 0x28, 0x33, 0xFFB4, 0x29], 0x325E),
    ([0xFF20, 0x28, 0x33, 0xFFB5, 0x29], 0x325F), ([0xFF20, 0x28, 0x33, 0xFFB6, 0x29], 0x32B1),
    ([0xFF20, 0x28, 0x33, 0xFFB7, 0x29], 0x32B2), ([0xFF20, 0x28, 0x33, 0xFFB8, 0x29], 0x32B3),
    ([0xFF20, 0x28, 0x33, 0xFFB9, 0x29], 0x32B4), ([0xFF20, 0x28, 0x34, 0x29, 0], 0x2463),
    ([0xFF20, 0x28, 0x34, 0x30, 0x29], 0x32B5), ([0xFF20, 0x28, 0x34, 0x31, 0x29], 0x32B6),
    ([0xFF20, 0x28, 0x34, 0x32, 0x29], 0x32B7), ([0xFF20, 0x28, 0x34, 0x33, 0x29], 0x32B8),
    ([0xFF20, 0x28, 0x34, 0x34, 0x29], 0x32B9), ([0xFF20, 0x28, 0x34, 0x35, 0x29], 0x32BA),
    ([0xFF20, 0x28, 0x34, 0x36, 0x29], 0x32BB), ([0xFF20, 0x28, 0x34, 0x37, 0x29], 0x32BC),
    ([0xFF20, 0x28, 0x34, 0x38, 0x29], 0x32BD), ([0xFF20, 0x28, 0x34, 0x39, 0x29], 0x32BE),
    ([0xFF20, 0x28, 0x34, 0xFF80, 0x29], 0x32B7), ([0xFF20, 0x28, 0x34, 0xFFB0, 0x29], 0x32B5),
    ([0xFF20, 0x28, 0x34, 0xFFB1, 0x29], 0x32B6), ([0xFF20, 0x28, 0x34, 0xFFB2, 0x29], 0x32B7),
    ([0xFF20, 0x28, 0x34, 0xFFB3, 0x29], 0x32B8), ([0xFF20, 0x28, 0x34, 0xFFB4, 0x29], 0x32B9),
    ([0xFF20, 0x28, 0x34, 0xFFB5, 0x29], 0x32BA), ([0xFF20, 0x28, 0x34, 0xFFB6, 0x29], 0x32BB),
    ([0xFF20, 0x28, 0x34, 0xFFB7, 0x29], 0x32BC), ([0xFF20, 0x28, 0x34, 0xFFB8, 0x29], 0x32BD),
    ([0xFF20, 0x28, 0x34, 0xFFB9, 0x29], 0x32BE), ([0xFF20, 0x28, 0x35, 0x29, 0], 0x2464),
    ([0xFF20, 0x28, 0x35, 0x30, 0x29], 0x32BF), ([0xFF20, 0x28, 0x35, 0xFFB0, 0x29], 0x32BF),
    ([0xFF20, 0x28, 0x36, 0x29, 0], 0x2465), ([0xFF20, 0x28, 0x37, 0x29, 0], 0x2466),
    ([0xFF20, 0x28, 0x38, 0x29, 0], 0x2467), ([0xFF20, 0x28, 0x39, 0x29, 0], 0x2468),
    ([0xFF20, 0x28, 0x41, 0, 0], 0x102), ([0xFF20, 0x28, 0x41, 0x29, 0], 0x24B6),
    ([0xFF20, 0x28, 0x42, 0x29, 0], 0x24B7), ([0xFF20, 0x28, 0x43, 0x29, 0], 0x24B8),
    ([0xFF20, 0x28, 0x44, 0x29, 0], 0x24B9), ([0xFF20, 0x28, 0x45, 0x29, 0], 0x24BA),
    ([0xFF20, 0x28, 0x46, 0x29, 0], 0x24BB), ([0xFF20, 0x28, 0x47, 0, 0], 0x11E)]"

definition compose_rows_20 :: "compose_row list" where
  "compose_rows_20 =
   [([0xFF20, 0x28, 0x47, 0x29, 0], 0x24BC), ([0xFF20, 0x28, 0x48, 0x29, 0], 0x24BD),
    ([0xFF20, 0x28, 0x49, 0x29, 0], 0x24BE), ([0xFF20, 0x28, 0x4A, 0x29, 0], 0x24BF),
    ([0xFF20, 0x28, 0x4B, 0x29, 0], 0x24C0), ([0xFF20, 0x28, 0x4C, 0x29, 0], 0x24C1),
    ([0xFF20, 0x28, 0x4D, 0x29, 0], 0x24C2), ([0xFF20, 0x28, 0x4E, 0x29, 0], 0x24C3),
    ([0xFF20, 0x28, 0x4F, 0x29, 0], 0x24C4), ([0xFF20, 0x28, 0x50, 0x29, 0], 0x24C5),
    ([0xFF20, 0x28, 0x51, 0x29, 0], 0x24C6), ([0xFF20, 0x28, 0x52, 0x29, 0], 0x24C7),
    ([0xFF20, 0x28, 0x53, 0x29, 0], 0x24C8), ([0xFF20, 0x28, 0x54, 0x29, 0], 0x24C9),
    ([0xFF20, 0x28, 0x55, 0x29, 0], 0x24CA), ([0xFF20, 0x28, 0x56, 0x29, 0], 0x24CB),
    ([0xFF20, 0x28, 0x57, 0x29, 0], 0x24CC), ([0xFF20, 0x28, 0x58, 0x29, 0], 0x24CD),
    ([0xFF20, 0x28, 0x59, 0x29, 0], 0x24CE), ([0xFF20, 0x28, 0x5A, 0x29, 0], 0x24CF),
    ([0xFF20, 0x28, 0x61, 0, 0], 0x103), ([0xFF20, 0x28, 0x61, 0x29, 0], 0x24D0),
    ([0xFF20, 0x28, 0x62, 0x29, 0], 0x24D1), ([0xFF20, 0x28, 0x63, 0, 0], 0xA9),
    ([0xFF20, 0x28, 0x63, 0x29, 0], 0x24D2), ([0xFF20, 0x28, 0x64, 0x29, 0], 0x24D3),
    ([0xFF20, 0x28, 0x65, 0x29, 0], 0x24D4), ([0xFF20, 0x28, 0x66, 0x29, 0], 0x24D5),
    ([0xFF20, 0x28, 0x67, 0, 0], 0x11F), ([0xFF20, 0x28, 0x67, 0x29, 0], 0x24D6),
    ([0xFF20, 0x28, 0x68, 0x29, 0], 0x24D7), ([0xFF20, 0x28, 0x69, 0x29, 0], 0x24D8),
    ([0xFF20, 0x28, 0x6A, 0x29, 0], 0x24D9), ([0xFF20, 0x28, 0x6B, 0x29, 0], 0x24DA),
    ([0xFF20, 0x28, 0x6C, 0x29, 0], 0x24DB), ([0xFF20, 0x28, 0x6D, 0x29, 0], 0x24DC),
    ([0xFF20, 0x28, 0x6E, 0x29, 0], 0x24DD), ([0xFF20, 0x28, 0x6F, 0x29, 0], 0x24DE),
    ([0xFF20, 0x28, 0x70, 0x29, 0], 0x24DF), ([0xFF20, 0x28, 0x71, 0x29, 0], 0x24E0),
    ([0xFF20, 0x28, 0x72, 0, 0], 0xAE), ([0xFF20, 0x28, 0x72, 0x29, 0], 0x24E1),
    ([0xFF20, 0x28, 0x73, 0x29, 0], 0x24E2), ([0xFF20, 0x28, 0x74, 0x29, 0], 0x24E3),
    ([0xFF20, 0x28, 0x75, 0x29, 0], 0x24E4), ([0xFF20, 0x28, 0x76, 0x29, 0], 0x24E5),
    ([0xFF20, 0x28, 0x77, 0x29, 0], 0x24E6), ([0xFF20, 0x28, 0x78, 0x29, 0], 0x24E7),
    ([0xFF20, 0x28, 0x79, 0x29, 0], 0x24E8), ([0xFF20, 0x28, 0x7A, 0x29, 0], 0x24E9),
    ([0xFF20, 0x28, 0x4A6, 0x29, 0], 0x32FE), ([0xFF20, 0x28, 0x4B1, 0x29, 0], 0x32D0),
    ([0xFF20, 0x28, 0x4B2, 0x29, 0], 0x32D1), ([0xFF20, 0x28, 0x4B3, 0x29, 0], 0x32D2),
    ([0xFF20, 0x28, 0x4B4, 0x29, 0], 0x32D3), ([0xFF20, 0x28, 0x4B5, 0x29, 0], 0x32D4),
    ([0xFF20, 0x28, 0x4B6, 0x29, 0], 0x32D5), ([0xFF20, 0x28, 0x4B7, 0x29, 0], 0x32D6),
    ([0xFF20, 0x28, 0x4B8, 0x29, 0], 0x32D7), ([0xFF20, 0x28, 0x4B9, 0x29, 0], 0x32D8),
    ([0xFF20, 0x28, 0x4BA, 0x29, 0], 0x32D9), ([0xFF20, 0x28, 0x4BB, 0x29, 0], 0x32DA),
    ([0xFF20, 0x28, 0x4BC, 0x29, 0], 0x32DB), ([0xFF20, 0x28, 0x4BD, 0x29, 0], 0x32DC),
    ([0xFF20, 0x28, 0x4BE, 0x29, 0], 0x32DD), ([0xFF20, 0x28, 0x4BF, 0x29, 0], 0x32DE),
    ([0xFF20, 0x28, 0x4C0, 0x29, 0], 0x32DF), ([0xFF20, 0x28, 0x4C1, 0x29, 0], 0x32E0),
    ([0xFF20, 0x28, 0x4C2, 0x29, 0], 0x32E1), ([0xFF20, 0x28, 0x4C3, 0x29, 0], 0x32E2),
    ([0xFF20, 0x28, 0x4C4, 0x29, 0], 0x32E3), ([0xFF20, 0x28, 0x4C5, 0x29, 0], 0x32E4),
    ([0xFF20, 0x28, 0x4C6, 0x29, 0], 0x32E5), ([0xFF20, 0x28, 0x4C7, 0x29, 0], 0x32E6),
    ([0xFF20, 0x28, 0x4C8, 0x29, 0], 0x32E7), ([0xFF20, 0x28, 0x4C9, 0x29, 0], 0x32E8),
    ([0xFF20, 0x28, 0x4CA, 0x29, 0], 0x32E9), ([0xFF20, 0x28, 0x4CB, 0x29, 0], 0x32EA),
    ([0xFF20, 0x28, 0x4CC, 0x29, 0], 0x32EB), ([0xFF20, 0x28, 0x4CD, 0x29, 0], 0x32EC),
    ([0xFF20, 0x28, 0x4CE, 0x29, 0], 0x32ED), ([0xFF20, 0x28, 0x4CF, 0x29, 0], 0x32EE),
    ([0xFF20, 0x28, 0x4D0, 0x29, 0], 0x32EF), ([0xFF20, 0x28, 0x4D1, 0x29, 0], 0x32F0),
    ([0xFF20, 0x28, 0x4D2, 0x29, 0], 0x32F1), ([0xFF20, 0x28, 0x4D3, 0x29, 0], 0x32F2),
    ([0xFF20, 0x28, 0x4D4, 0x29, 0], 0x32F3), ([0xFF20, 0x28, 0x4D5, 0x29, 0], 0x32F4),
    ([0xFF20, 0x28, 0x4D6, 0x29, 0], 0x32F5), ([0xFF20, 0x28, 0x4D7, 0x29, 0], 0x32F6),
    ([0xFF20, 0x28, 0x4D8, 0x29, 0], 0x32F7), ([0xFF20, 0x28, 0x4D9, 0x29, 0], 0x32F8),
    ([0xFF20, 0x28, 0x4DA, 0x29, 0], 0x32F9), ([0xFF20, 0x28, 0x4DB, 0x29, 0], 0x32FA),
    ([0xFF20, 0x28, 0x4DC, 0x29, 0], 0x32FB), ([0xFF20, 0x28, 0x7C1, 0, 0], 0x1F09),
    ([0xFF20, 0x28, 0x7C5, 0, 0], 0x1F19), ([0xFF20, 0x28, 0x7C7, 0, 0], 0x1F29),
    ([0xFF20, 0x28, 0x7C9, 0, 0], 0x1F39), ([0xFF20, 0x28, 0x7CF, 0, 0], 0x1F49),
    ([0xFF20, 0x28, 0x7D1, 0, 0], 0x1FEC), ([0xFF20, 0x28, 0x7D5, 0, 0], 0x1F59),
    ([0xFF20, 0x28, 0x7D9, 0, 0], 0x1F69), ([0xFF20, 0x28, 0x7E1, 0, 0], 0x1F01),
    ([0xFF20, 0x28, 0x7E5, 0, 0], 0x1F11), ([0xFF20, 0x28, 0x7E7, 0, 0], 0x1F21),
    ([0xFF20, 0x28, 0x7E9, 0, 0], 0x1F31), ([0xFF20, 0x28, 0x7EF, 0, 0], 0x1F41),
    ([0xFF20, 0x28, 0x7F1, 0, 0], 0x1FE5), ([0xFF20, 0x28, 0x7F5, 0, 0], 0x1F51),
    ([0xFF20, 0x28, 0x7F9, 0, 0], 0x1F61), ([0xFF20, 0x28, 0xFF80, 0x29, 0], 0x2461),
    ([0xFF20, 0x28, 0xFF80, 0x30, 0x29], 0x2473), ([0xFF20, 0x28, 0xFF80, 0x31, 0x29], 0x3251),
    ([0xFF20, 0x28, 0xFF80, 0x32, 0x29], 0x3252), ([0xFF20, 0x28, 0xFF80, 0x33, 0x29], 0x3253),
    ([0xFF20, 0x28, 0xFF80, 0x34, 0x29], 0x3254), ([0xFF20, 0x28, 0xFF80, 0x35, 0x29], 0x3255),
    ([0xFF20, 0x28, 0xFF80, 0x36, 0x29], 0x3256), ([0xFF20, 0x28, 0xFF80, 0x37, 0x29], 0x3257),
    ([0xFF20, 0x28, 0xFF80, 0x38, 0x29], 0x3258), ([0xFF20, 0x28, 0xFF80, 0x39, 0x29], 0x3259),
    ([0xFF20, 0x28, 0xFF80, 0xFF80, 0x29], 0x3252), ([0xFF20, 0x28, 0xFF80, 0xFFB0, 0x29], 0x2473),
    ([0xFF20, 0x28, 0xFF80, 0xFFB1, 0x29], 0x3251), ([0xFF20, 0x28, 0xFF80, 0xFFB2, 0x29], 0x3252),
    ([0xFF20, 0x28, 0xFF80, 0xFFB3, 0x29], 0x3253), ([0xFF20, 0x28, 0xFF80, 0xFFB4, 0x29], 0x3254),
    ([0xFF20, 0x28, 0xFF80, 0xFFB5, 0x29], 0x3255), ([0xFF20, 0x28, 0xFF80, 0xFFB6, 0x29], 0x3256),
    ([0xFF20, 0x28, 0xFF80, 0xFFB7, 0x29], 0x3257), ([0xFF20, 0x28, 0xFF80, 0xFFB8, 0x29], 0x3258),
    ([0xFF20, 0x28, 0xFF80, 0xFFB9, 0x29], 0x3259), ([0xFF20, 0x28, 0xFFB0, 0x29, 0], 0x24EA),
    ([0xFF20, 0x28, 0xFFB1, 0x29, 0], 0x2460), ([0xFF20, 0x28, 0xFFB1, 0x30, 0x29], 0x2469),
    ([0xFF20, 0x28, 0xFFB1, 0x31, 0x29], 0x246A), ([0xFF20, 0x28, 0xFFB1, 0x32, 0x29], 0x246B),
    ([0xFF20, 0x28, 0xFFB1, 0x33, 0x29], 0x246C), ([0xFF20, 0x28, 0xFFB1, 0x34, 0x29], 0x246D),
    ([0xFF20, 0x28, 0xFFB1, 0x35, 0x29], 0x246E), ([0xFF20, 0x28, 0xFFB1, 0x36, 0x29], 0x246F),
    ([0xFF20, 0x28, 0xFFB1, 0x37, 0x29], 0x2470), ([0xFF20, 0x28, 0xFFB1, 0x38, 0x29], 0x2471),
    ([0xFF20, 0x28, 0xFFB1, 0x39, 0x29], 0x2472), ([0xFF20, 0x28, 0xFFB1, 0xFF80, 0x29], 0x246B),
    ([0xFF20, 0x28, 0xFFB1, 0xFFB0, 0x29], 0x2469), ([0xFF20, 0x28, 0xFFB1, 0xFFB1, 0x29], 0x246A)]"

definition compose_rows_21 :: "compose_row list" where
  "compose_rows_21 =
   [([0xFF20, 0x28, 0xFFB1, 0xFFB2, 0x29], 0x246B), ([0xFF20, 0x28, 0xFFB1, 0xFFB3, 0x29], 0x246C),
    ([0xFF20, 0x28, 0xFFB1, 0xFFB4, 0x29], 0x246D), ([0xFF20, 0x28, 0xFFB1, 0xFFB5, 0x29], 0x246E),
    ([0xFF20, 0x28, 0xFFB1, 0xFFB6, 0x29], 0x246F), ([0xFF20, 0x28, 0xFFB1, 0xFFB7, 0x29], 0x2470),
    ([0xFF20, 0x28, 0xFFB1, 0xFFB8, 0x29], 0x2471), ([0xFF20, 0x28, 0xFFB1, 0xFFB9, 0x29], 0x2472),
    ([0xFF20, 0x28, 0xFFB2, 0x29, 0], 0x2461), ([0xFF20, 0x28, 0xFFB2, 0x30, 0x29], 0x2473),
    ([0xFF20, 0x28, 0xFFB2, 0x31, 0x29], 0x3251), ([0xFF20, 0x28, 0xFFB2, 0x32, 0x29], 0x3252),
    ([0xFF20, 0x28, 0xFFB2, 0x33, 0x29], 0x3253), ([0xFF20, 0x28, 0xFFB2, 0x34, 0x29], 0x3254),
    ([0xFF20, 0x28, 0xFFB2, 0x35, 0x29], 0x3255), ([0xFF20, 0x28, 0xFFB2, 0x36, 0x29], 0x3256),
    ([0xFF20, 0x28, 0xFFB2, 0x37, 0x29], 0x3257), ([0xFF20, 0x28, 0xFFB2, 0x38, 0x29], 0x3258),
    ([0xFF20, 0x28, 0xFFB2, 0x39, 0x29], 0x3259), ([0xFF20, 0x28, 0xFFB2, 0xFF80, 0x29], 0x3252),
    ([0xFF20, 0x28, 0xFFB2, 0xFFB0, 0x29], 0x2473), ([0xFF20, 0x28, 0xFFB2, 0xFFB1, 0x29], 0x3251),
    ([0xFF20, 0x28, 0xFFB2, 0xFFB2, 0x29], 0x3252), ([0xFF20, 0x28, 0xFFB2, 0xFFB3, 0x29], 0x3253),
    ([0xFF20, 0x28, 0xFFB2, 0xFFB4, 0x29], 0x3254), ([0xFF20, 0x28, 0xFFB2, 0xFFB5, 0x29], 0x3255),
    ([0xFF20, 0x28, 0xFFB2, 0xFFB6, 0x29], 0x3256), ([0xFF20, 0x28, 0xFFB2, 0xFFB7, 0x29], 0x3257),
    ([0xFF20, 0x28, 0xFFB2, 0xFFB8, 0x29], 0x3258), ([0xFF20, 0x28, 0xFFB2, 0xFFB9, 0x29], 0x3259),
    ([0xFF20, 0x28, 0xFFB3, 0x29, 0], 0x2462), ([0xFF20, 0x28, 0xFFB3, 0x30, 0x29], 0x325A),
    ([0xFF20, 0x28, 0xFFB3, 0x31, 0x29], 0x325B), ([0xFF20, 0x28, 0xFFB3, 0x32, 0x29], 0x325C),
    ([0xFF20, 0x28, 0xFFB3, 0x33, 0x29], 0x325D), ([0xFF20, 0x28, 0xFFB3, 0x34, 0x29], 0x325E),
    ([0xFF20, 0x28, 0xFFB3, 0x35, 0x29], 0x325F), ([0xFF20, 0x28, 0xFFB3, 0x36, 0x29], 0x32B1),
    ([0xFF20, 0x28, 0xFFB3, 0x37, 0x29], 0x32B2), ([0xFF20, 0x28, 0xFFB3, 0x38, 0x29], 0x32B3),
    ([0xFF20, 0x28, 0xFFB3, 0x39, 0x29], 0x32B4), ([0xFF20, 0x28, 0xFFB3, 0xFF80, 0x29], 0x325C),
    ([0xFF20, 0x28, 0xFFB3, 0xFFB0, 0x29], 0x325A), ([0xFF20, 0x28, 0xFFB3, 0xFFB1, 0x29], 0x325B),
    ([0xFF20, 0x28, 0xFFB3, 0xFFB2, 0x29], 0x325C), ([0xFF20, 0x28, 0xFFB3, 0xFFB3, 0x29], 0x325D),
    ([0xFF20, 0x28, 0xFFB3, 0xFFB4, 0x29], 0x325E), ([0xFF20, 0x28, 0xFFB3, 0xFFB5, 0x29], 0x325F),
    ([0xFF20, 0x28, 0xFFB3, 0xFFB6, 0x29], 0x32B1), ([0xFF20, 0x28, 0xFFB3, 0xFFB7, 0x29], 0x32B2),
    ([0xFF20, 0x28, 0xFFB3, 0xFFB8, 0x29], 0x32B3), ([0xFF20, 0x28, 0xFFB3, 0xFFB9, 0x29], 0x32B4),
    ([0xFF20, 0x28, 0xFFB4, 0x29, 0], 0x2463), ([0xFF20, 0x28, 0xFFB4, 0x30, 0x29], 0x32B5),
    ([0xFF20, 0x28, 0xFFB4, 0x31, 0x29], 0x32B6), ([0xFF20, 0x28, 0xFFB4, 0x32, 0x29], 0x32B7),
    ([0xFF20, 0x28, 0xFFB4, 0x33, 0x29], 0x32B8), ([0xFF20, 0x28, 0xFFB4, 0x34, 0x29], 0x32B9),
    ([0xFF20, 0x28, 0xFFB4, 0x35, 0x29], 0x32BA), ([0xFF20, 0x28, 0xFFB4, 0x36, 0x29], 0x32BB),
    ([0xFF20, 0x28, 0xFFB4, 0x37, 0x29], 0x32BC), ([0xFF20, 0x28, 0xFFB4, 0x38, 0x29], 0x32BD),
    ([0xFF20, 0x28, 0xFFB4, 0x39, 0x29], 0x32BE), ([0xFF20, 0x28, 0xFFB4, 0xFF80, 0x29], 0x32B7),
    ([0xFF20, 0x28, 0xFFB4, 0xFFB0, 0x29], 0x32B5), ([0xFF20, 0x28, 0xFFB4, 0xFFB1, 0x29], 0x32B6),
    ([0xFF20, 0x28, 0xFFB4, 0xFFB2, 0x29], 0x32B7), ([0xFF20, 0x28, 0xFFB4, 0xFFB3, 0x29], 0x32B8),
    ([0xFF20, 0x28, 0xFFB4, 0xFFB4, 0x29], 0x32B9), ([0xFF20, 0x28, 0xFFB4, 0xFFB5, 0x29], 0x32BA),
    ([0xFF20, 0x28, 0xFFB4, 0xFFB6, 0x29], 0x32BB), ([0xFF20, 0x28, 0xFFB4, 0xFFB7, 0x29], 0x32BC),
    ([0xFF20, 0x28, 0xFFB4, 0xFFB8, 0x29], 0x32BD), ([0xFF20, 0x28, 0xFFB4, 0xFFB9, 0x29], 0x32BE),
    ([0xFF20, 0x28, 0xFFB5, 0x29, 0], 0x2464), ([0xFF20, 0x28, 0xFFB5, 0x30, 0x29], 0x32BF),
    ([0xFF20, 0x28, 0xFFB5, 0xFFB0, 0x29], 0x32BF), ([0xFF20, 0x28, 0xFFB6, 0x29, 0], 0x2465),
    ([0xFF20, 0x28, 0xFFB7, 0x29, 0], 0x2466), ([0xFF20, 0x28, 0xFFB8, 0x29, 0], 0x2467),
    ([0xFF20, 0x28, 0xFFB9, 0x29, 0], 0x2468), ([0xFF20, 0x28, 0x1001100, 0x29, 0], 0x3260),
    ([0xFF20, 0x28, 0x1001100, 0x1001161, 0x29], 0x326E), ([0xFF20, 0x28, 0x1001102, 0x29, 0], 0x3261),
    ([0xFF20, 0x28, 0x1001102, 0x1001161, 0x29], 0x326F), ([0xFF20, 0x28, 0x1001103, 0x29, 0], 0x3262),
    ([0xFF20, 0x28, 0x1001103, 0x1001161, 0x29], 0x3270), ([0xFF20, 0x28, 0x1001105, 0x29, 0], 0x3263),
    ([0xFF20, 0x28, 0x1001105, 0x1001161, 0x29], 0x3271), ([0xFF20, 0x28, 0x1001106, 0x29, 0], 0x3264),
    ([0xFF20, 0x28, 0x1001106, 0x1001161, 0x29], 0x3272), ([0xFF20, 0x28, 0x1001107, 0x29, 0], 0x3265),
    ([0xFF20, 0x28, 0x1001107, 0x1001161, 0x29], 0x3273), ([0xFF20, 0x28, 0x1001109, 0x29, 0], 0x3266),
    ([0xFF20, 0x28, 0x1001109, 0x1001161, 0x29], 0x3274), ([0xFF20, 0x28, 0x100110B, 0x29, 0], 0x3267),
    ([0xFF20, 0x28, 0x100110B, 0x1001161, 0x29], 0x3275), ([0xFF20, 0x28, 0x100110C, 0x29, 0], 0x3268),
    ([0xFF20, 0x28, 0x100110C, 0x1001161, 0x29], 0x3276), ([0xFF20, 0x28, 0x100110E, 0x29, 0], 0x3269),
    ([0xFF20, 0x28, 0x100110E, 0x1001161, 0x29], 0x3277), ([0xFF20, 0x28, 0x100110F, 0x29, 0], 0x326A),
    ([0xFF20, 0x28, 0x100110F, 0x1001161, 0x29], 0x3278), ([0xFF20, 0x28, 0x1001110, 0x29, 0], 0x326B),
    ([0xFF20, 0x28, 0x1001110, 0x1001161, 0x29], 0x3279), ([0xFF20, 0x28, 0x1001111, 0x29, 0], 0x326C),
    ([0xFF20, 0x28, 0x1001111, 0x1001161, 0x29], 0x327A), ([0xFF20, 0x28, 0x1001112, 0x29, 0], 0x326D),
    ([0xFF20, 0x28, 0x1001112, 0x1001161, 0x29], 0x327B), ([0xFF20, 0x28, 0x10030F0, 0x29, 0], 0x32FC),
    ([0xFF20, 0x28, 0x10030F1, 0x29, 0], 0x32FD), ([0xFF20, 0x28, 0x1004E00, 0x29, 0], 0x3280),
    ([0xFF20, 0x28, 0x1004E03, 0x29, 0], 0x3286), ([0xFF20, 0x28, 0x1004E09, 0x29, 0], 0x3282),
    ([0xFF20, 0x28, 0x1004E0A, 0x29, 0], 0x32A4), ([0xFF20, 0x28, 0x1004E0B, 0x29, 0], 0x32A6),
    ([0xFF20, 0x28, 0x1004E2D, 0x29, 0], 0x32A5), ([0xFF20, 0x28, 0x1004E5D, 0x29, 0], 0x3288),
    ([0xFF20, 0x28, 0x1004E8C, 0x29, 0], 0x3281), ([0xFF20, 0x28, 0x1004E94, 0x29, 0], 0x3284),
    ([0xFF20, 0x28, 0x1004F01, 0x29, 0], 0x32AD), ([0xFF20, 0x28, 0x1004F11, 0x29, 0], 0x32A1),
    ([0xFF20, 0x28, 0x100512A, 0x29, 0], 0x329D), ([0xFF20, 0x28, 0x100516B, 0x29, 0], 0x3287),
    ([0xFF20, 0x28, 0x100516D, 0x29, 0], 0x3285), ([0xFF20, 0x28, 0x1005199, 0x29, 0], 0x32A2),
    ([0xFF20, 0x28, 0x10052B4, 0x29, 0], 0x3298), ([0xFF20, 0x28, 0x100533B, 0x29, 0], 0x32A9),
    ([0xFF20, 0x28, 0x1005341, 0x29, 0], 0x3289), ([0xFF20, 0x28, 0x1005354, 0x29, 0], 0x32AF),
    ([0xFF20, 0x28, 0x1005370, 0x29, 0], 0x329E), ([0xFF20, 0x28, 0x10053F3, 0x29, 0], 0x32A8),
    ([0xFF20, 0x28, 0x100540D, 0x29, 0], 0x3294), ([0xFF20, 0x28, 0x10056DB, 0x29, 0], 0x3283),
    ([0xFF20, 0x28, 0x100571F, 0x29, 0], 0x328F), ([0xFF20, 0x28, 0x100591C, 0x29, 0], 0x32B0),
    ([0xFF20, 0x28, 0x1005973, 0x29, 0], 0x329B), ([0xFF20, 0x28, 0x1005B66, 0x29, 0], 0x32AB),
    ([0xFF20, 0x28, 0x1005B97, 0x29, 0], 0x32AA), ([0xFF20, 0x28, 0x1005DE6, 0x29, 0], 0x32A7),
    ([0xFF20, 0x28, 0x10065E5, 0x29, 0], 0x3290), ([0xFF20, 0x28, 0x1006708, 0x29, 0], 0x328A),
    ([0xFF20, 0x28, 0x1006709, 0x29, 0], 0x3292), ([0xFF20, 0x28, 0x1006728, 0x29, 0], 0x328D),
    ([0xFF20, 0x28, 0x100682A, 0x29, 0], 0x3291), ([0xFF20, 0x28, 0x1006B63, 0x29, 0], 0x32A3),
    ([0xFF20, 0x28, 0x1006C34, 0x29, 0], 0x328C), ([0xFF20, 0x28, 0x1006CE8, 0x29, 0], 0x329F)]"

definition compose_rows_22 :: "compose_row list" where
  "compose_rows_22 =
   [([0xFF20, 0x28, 0x100706B, 0x29, 0], 0x328B), ([0xFF20, 0x28, 0x1007279, 0x29, 0], 0x3295),
    ([0xFF20, 0x28, 0x1007537, 0x29, 0], 0x329A), ([0xFF20, 0x28, 0x10076E3, 0x29, 0], 0x32AC),
    ([0xFF20, 0x28, 0x100793E, 0x29, 0], 0x3293), ([0xFF20, 0x28, 0x100795D, 0x29, 0], 0x3297),
    ([0xFF20, 0x28, 0x10079D8, 0x29, 0], 0x3299), ([0xFF20, 0x28, 0x1008CA1, 0x29, 0], 0x3296),
    ([0xFF20, 0x28, 0x1008CC7, 0x29, 0], 0x32AE), ([0xFF20, 0x28, 0x1009069, 0x29, 0], 0x329C),
    ([0xFF20, 0x28, 0x10091D1, 0x29, 0], 0x328E), ([0xFF20, 0x28, 0x1009805, 0x29, 0], 0x32A0),
    ([0xFF20, 0x29, 0x29, 0, 0], 0x5D), ([0xFF20, 0x29, 0x2D, 0, 0], 0x7D),
    ([0xFF20, 0x29, 0x7C1, 0, 0], 0x1F08), ([0xFF20, 0x29, 0x7C5, 0, 0], 0x1F18),
    ([0xFF20, 0x29, 0x7C7, 0, 0], 0x1F28), ([0xFF20, 0x29, 0x7C9, 0, 0], 0x1F38),
    ([0xFF20, 0x29, 0x7CF, 0, 0], 0x1F48), ([0xFF20, 0x29, 0x7D9, 0, 0], 0x1F68),
    ([0xFF20, 0x29, 0x7E1, 0, 0], 0x1F00), ([0xFF20, 0x29, 0x7E5, 0, 0], 0x1F10),
    ([0xFF20, 0x29, 0x7E7, 0, 0], 0x1F20), ([0xFF20, 0x29, 0x7E9, 0, 0], 0x1F30),
    ([0xFF20, 0x29, 0x7EF, 0, 0], 0x1F40), ([0xFF20, 0x29, 0x7F1, 0, 0], 0x1FE4),
    ([0xFF20, 0x29, 0x7F5, 0, 0], 0x1F50), ([0xFF20, 0x29, 0x7F9, 0, 0], 0x1F60),
    ([0xFF20, 0x2A, 0x30, 0, 0], 0xB0), ([0xFF20, 0x2A, 0x41, 0, 0], 0xC5),
    ([0xFF20, 0x2A, 0x55, 0, 0], 0x16E), ([0xFF20, 0x2A, 0x61, 0, 0], 0xE5),
    ([0xFF20, 0x2A, 0x75, 0, 0], 0x16F), ([0xFF20, 0x2B, 0x2B, 0, 0], 0x23),
    ([0xFF20, 0x2B, 0x2D, 0, 0], 0xB1), ([0xFF20, 0x2B, 0x4F, 0, 0], 0x1A0),
    ([0xFF20, 0x2B, 0x55, 0, 0], 0x1AF), ([0xFF20, 0x2B, 0x6F, 0, 0], 0x1A1),
    ([0xFF20, 0x2B, 0x75, 0, 0], 0x1B0), ([0xFF20, 0x2C, 0x20, 0, 0], 0xB8),
    ([0xFF20, 0x2C, 0x22, 0, 0], 0x201E), ([0xFF20, 0x2C, 0x27, 0, 0], 0x201A),
    ([0xFF20, 0x2C, 0x2C, 0, 0], 0xB8), ([0xFF20, 0x2C, 0x2D, 0, 0], 0xAC),
    ([0xFF20, 0x2C, 0x41, 0, 0], 0x104), ([0xFF20, 0x2C, 0x43, 0, 0], 0xC7),
    ([0xFF20, 0x2C, 0x44, 0, 0], 0x1E10), ([0xFF20, 0x2C, 0x45, 0, 0], 0x228),
    ([0xFF20, 0x2C, 0x47, 0, 0], 0x122), ([0xFF20, 0x2C, 0x48, 0, 0], 0x1E28),
    ([0xFF20, 0x2C, 0x49, 0, 0], 0x12E), ([0xFF20, 0x2C, 0x4B, 0, 0], 0x136),
    ([0xFF20, 0x2C, 0x4C, 0, 0], 0x13B), ([0xFF20, 0x2C, 0x4E, 0, 0], 0x145),
    ([0xFF20, 0x2C, 0x52, 0, 0], 0x156), ([0xFF20, 0x2C, 0x53, 0, 0], 0x15E),
    ([0xFF20, 0x2C, 0x54, 0, 0], 0x162), ([0xFF20, 0x2C, 0x55, 0, 0], 0x172),
    ([0xFF20, 0x2C, 0x61, 0, 0], 0x105), ([0xFF20, 0x2C, 0x63, 0, 0], 0xE7),
    ([0xFF20, 0x2C, 0x64, 0, 0], 0x1E11), ([0xFF20, 0x2C, 0x65, 0, 0], 0x229),
    ([0xFF20, 0x2C, 0x67, 0, 0], 0x123), ([0xFF20, 0x2C, 0x68, 0, 0], 0x1E29),
    ([0xFF20, 0x2C, 0x69, 0, 0], 0x12F), ([0xFF20, 0x2C, 0x6B, 0, 0], 0x137),
    ([0xFF20, 0x2C, 0x6C, 0, 0], 0x13C), ([0xFF20, 0x2C, 0x6E, 0, 0], 0x146),
    ([0xFF20, 0x2C, 0x72, 0, 0], 0x157), ([0xFF20, 0x2C, 0x73, 0, 0], 0x15F),
    ([0xFF20, 0x2C, 0x74, 0, 0], 0x163), ([0xFF20, 0x2C, 0x75, 0, 0], 0x173),
    ([0xFF20, 0x2D, 0x20, 0, 0], 0x7E), ([0xFF20, 0x2D, 0x28, 0, 0], 0x7B), ([0xFF20, 0x2D, 0x29, 0, 0], 0x7D),
    ([0xFF20, 0x2D, 0x2B, 0, 0], 0xB1), ([0xFF20, 0x2D, 0x2C, 0, 0], 0xAC),
    ([0xFF20, 0x2D, 0x2D, 0x20, 0], 0xAD), ([0xFF20, 0x2D, 0x2D, 0x2D, 0], 0x2014),
    ([0xFF20, 0x2D, 0x2D, 0x2E, 0], 0x2013), ([0xFF20, 0x2D, 0x3A, 0, 0], 0xF7),
    ([0xFF20, 0x2D, 0x41, 0, 0], 0x100), ([0xFF20, 0x2D, 0x44, 0, 0], 0x110),
    ([0xFF20, 0x2D, 0x45, 0, 0], 0x112), ([0xFF20, 0x2D, 0x49, 0, 0], 0x12A),
    ([0xFF20, 0x2D, 0x4C, 0, 0], 0xA3), ([0xFF20, 0x2D, 0x4E, 0, 0], 0xD1),
    ([0xFF20, 0x2D, 0x4F, 0, 0], 0x14C), ([0xFF20, 0x2D, 0x55, 0, 0], 0x16A),
    ([0xFF20, 0x2D, 0x59, 0, 0], 0xA5), ([0xFF20, 0x2D, 0x5E, 0, 0], 0xAF),
    ([0xFF20, 0x2D, 0x61, 0, 0], 0x101), ([0xFF20, 0x2D, 0x64, 0, 0], 0x111),
    ([0xFF20, 0x2D, 0x65, 0, 0], 0x113), ([0xFF20, 0x2D, 0x69, 0, 0], 0x12B),
    ([0xFF20, 0x2D, 0x6C, 0, 0], 0xA3), ([0xFF20, 0x2D, 0x6E, 0, 0], 0xF1),
    ([0xFF20, 0x2D, 0x6F, 0, 0], 0x14D), ([0xFF20, 0x2D, 0x75, 0, 0], 0x16B),
    ([0xFF20, 0x2D, 0x79, 0, 0], 0xA5), ([0xFF20, 0x2E, 0x21, 0x53, 0], 0x1E68),
    ([0xFF20, 0x2E, 0x21, 0x73, 0], 0x1E69), ([0xFF20, 0x2E, 0x27, 0x53, 0], 0x1E64),
    ([0xFF20, 0x2E, 0x27, 0x73, 0], 0x1E65), ([0xFF20, 0x2E, 0x2E, 0, 0], 0xB7),
    ([0xFF20, 0x2E, 0x3C, 0, 0], 0x2039), ([0xFF20, 0x2E, 0x3E, 0, 0], 0x203A),
    ([0xFF20, 0x2E, 0x41, 0, 0], 0x226), ([0xFF20, 0x2E, 0x42, 0, 0], 0x1E02),
    ([0xFF20, 0x2E, 0x43, 0, 0], 0x10A), ([0xFF20, 0x2E, 0x44, 0, 0], 0x1E0A),
    ([0xFF20, 0x2E, 0x45, 0, 0], 0x116), ([0xFF20, 0x2E, 0x46, 0, 0], 0x1E1E),
    ([0xFF20, 0x2E, 0x47, 0, 0], 0x120), ([0xFF20, 0x2E, 0x48, 0, 0], 0x1E22),
    ([0xFF20, 0x2E, 0x49, 0, 0], 0x130), ([0xFF20, 0x2E, 0x4D, 0, 0], 0x1E40),
    ([0xFF20, 0x2E, 0x4E, 0, 0], 0x1E44), ([0xFF20, 0x2E, 0x4F, 0, 0], 0x22E),
    ([0xFF20, 0x2E, 0x50, 0, 0], 0x1E56), ([0xFF20, 0x2E, 0x52, 0, 0], 0x1E58),
    ([0xFF20, 0x2E, 0x53, 0, 0], 0x1E60), ([0xFF20, 0x2E, 0x54, 0, 0], 0x1E6A),
    ([0xFF20, 0x2E, 0x57, 0, 0], 0x1E86), ([0xFF20, 0x2E, 0x58, 0, 0], 0x1E8A),
    ([0xFF20, 0x2E, 0x59, 0, 0], 0x1E8E), ([0xFF20, 0x2E, 0x5A, 0, 0], 0x17B),
    ([0xFF20, 0x2E, 0x5E, 0, 0], 0xB7), ([0xFF20, 0x2E, 0x61, 0, 0], 0x227),
    ([0xFF20, 0x2E, 0x62, 0, 0], 0x1E03), ([0xFF20, 0x2E, 0x63, 0, 0], 0x10B),
    ([0xFF20, 0x2E, 0x63, 0x53, 0], 0x1E66), ([0xFF20, 0x2E, 0x63, 0x73, 0], 0x1E67),
    ([0xFF20, 0x2E, 0x64, 0, 0], 0x1E0B), ([0xFF20, 0x2E, 0x65, 0, 0], 0x117),
    ([0xFF20, 0x2E, 0x66, 0, 0], 0x1E1F), ([0xFF20, 0x2E, 0x67, 0, 0], 0x121),
    ([0xFF20, 0x2E, 0x68, 0, 0], 0x1E23), ([0xFF20, 0x2E, 0x69, 0, 0], 0x131),
    ([0xFF20, 0x2E, 0x6D, 0, 0], 0x1E41), ([0xFF20, 0x2E, 0x6E, 0, 0], 0x1E45),
    ([0xFF20, 0x2E, 0x6F, 0, 0], 0x22F), ([0xFF20, 0x2E, 0x70, 0, 0], 0x1E57),
    ([0xFF20, 0x2E, 0x72, 0, 0], 0x1E59), ([0xFF20, 0x2E, 0x73, 0, 0], 0x1E61),
    ([0xFF20, 0x2E, 0x74, 0, 0], 0x1E6B), ([0xFF20, 0x2E, 0x77, 0, 0], 0x1E87),
    ([0xFF20, 0x2E, 0x78, 0, 0], 0x1E8B)]"

definition compose_rows_23 :: "compose_row list" where
  "compose_rows_23 =
   [([0xFF20, 0x2E, 0x79, 0, 0], 0x1E8F), ([0xFF20, 0x2E, 0x7A, 0, 0], 0x17C),
    ([0xFF20, 0x2E, 0xB4, 0x53, 0], 0x1E64), ([0xFF20, 0x2E, 0xB4, 0x73, 0], 0x1E65),
    ([0xFF20, 0x2E, 0x1A6, 0, 0], 0x1E64), ([0xFF20, 0x2E, 0x1A9, 0, 0], 0x1E66),
    ([0xFF20, 0x2E, 0x1B6, 0, 0], 0x1E65), ([0xFF20, 0x2E, 0x1B9, 0, 0], 0x1E67),
    ([0xFF20, 0x2E, 0x1EF3, 0x53, 0], 0x1E64), ([0xFF20, 0x2E, 0x1EF3, 0x73, 0], 0x1E65),
    ([0xFF20, 0x2E, 0x1EFF, 0x53, 0], 0x1E68), ([0xFF20, 0x2E, 0x1EFF, 0x73, 0], 0x1E69),
    ([0xFF20, 0x2E, 0xFE51, 0x53, 0], 0x1E64), ([0xFF20, 0x2E, 0xFE51, 0x73, 0], 0x1E65),
    ([0xFF20, 0x2E, 0xFE5A, 0x53, 0], 0x1E66), ([0xFF20, 0x2E, 0xFE5A, 0x73, 0], 0x1E67),
    ([0xFF20, 0x2E, 0xFE60, 0x53, 0], 0x1E68), ([0xFF20, 0x2E, 0xFE60, 0x73, 0], 0x1E69),
    ([0xFF20, 0x2E, 0x100017F, 0, 0], 0x1E9B), ([0xFF20, 0x2E, 0x1001E62, 0, 0], 0x1E68),
    ([0xFF20, 0x2E, 0x1001E63, 0, 0], 0x1E69), ([0xFF20, 0x2F, 0x2F, 0, 0], 0x5C),
    ([0xFF20, 0x2F, 0x3C, 0, 0], 0x5C), ([0xFF20, 0x2F, 0x43, 0, 0], 0x20A1),
    ([0xFF20, 0x2F, 0x44, 0, 0], 0x110), ([0xFF20, 0x2F, 0x47, 0, 0], 0x1E4),
    ([0xFF20, 0x2F, 0x48, 0, 0], 0x126), ([0xFF20, 0x2F, 0x49, 0, 0], 0x197),
    ([0xFF20, 0x2F, 0x4C, 0, 0], 0x141), ([0xFF20, 0x2F, 0x4F, 0, 0], 0xD8),
    ([0xFF20, 0x2F, 0x54, 0, 0], 0x166), ([0xFF20, 0x2F, 0x55, 0, 0], 0xB5),
    ([0xFF20, 0x2F, 0x5A, 0, 0], 0x1B5), ([0xFF20, 0x2F, 0x5E, 0, 0], 0x7C),
    ([0xFF20, 0x2F, 0x62, 0, 0], 0x180), ([0xFF20, 0x2F, 0x63, 0, 0], 0xA2),
    ([0xFF20, 0x2F, 0x64, 0, 0], 0x111), ([0xFF20, 0x2F, 0x67, 0, 0], 0x1E5),
    ([0xFF20, 0x2F, 0x68, 0, 0], 0x127), ([0xFF20, 0x2F, 0x69, 0, 0], 0x268),
    ([0xFF20, 0x2F, 0x6C, 0, 0], 0x142), ([0xFF20, 0x2F, 0x6D, 0, 0], 0x20A5),
    ([0xFF20, 0x2F, 0x6F, 0, 0], 0xF8), ([0xFF20, 0x2F, 0x74, 0, 0], 0x167),
    ([0xFF20, 0x2F, 0x75, 0, 0], 0xB5), ([0xFF20, 0x2F, 0x7A, 0, 0], 0x1B6),
    ([0xFF20, 0x2F, 0x6C7, 0, 0], 0x493), ([0xFF20, 0x2F, 0x6CB, 0, 0], 0x49F),
    ([0xFF20, 0x2F, 0x6E7, 0, 0], 0x492), ([0xFF20, 0x2F, 0x6EB, 0, 0], 0x49E),
    ([0xFF20, 0x2F, 0x8FB, 0, 0], 0x219A), ([0xFF20, 0x2F, 0x8FD, 0, 0], 0x219B),
    ([0xFF20, 0x2F, 0x1000294, 0, 0], 0x2A1), ([0xFF20, 0x2F, 0x10004AE, 0, 0], 0x4B0),
    ([0xFF20, 0x2F, 0x10004AF, 0, 0], 0x4B1), ([0xFF20, 0x2F, 0x1002194, 0, 0], 0x21AE),
    ([0xFF20, 0x30, 0x2A, 0, 0], 0xB0), ([0xFF20, 0x30, 0x43, 0, 0], 0xA9), ([0xFF20, 0x30, 0x53, 0, 0], 0xA7),
    ([0xFF20, 0x30, 0x58, 0, 0], 0xA4), ([0xFF20, 0x30, 0x5E, 0, 0], 0xB0), ([0xFF20, 0x30, 0x63, 0, 0], 0xA9),
    ([0xFF20, 0x30, 0x73, 0, 0], 0xA7), ([0xFF20, 0x30, 0x78, 0, 0], 0xA4), ([0xFF20, 0x31, 0x32, 0, 0], 0xBD),
    ([0xFF20, 0x31, 0x34, 0, 0], 0xBC), ([0xFF20, 0x31, 0x53, 0, 0], 0xB9), ([0xFF20, 0x31, 0x5E, 0, 0], 0xB9),
    ([0xFF20, 0x31, 0x73, 0, 0], 0xB9), ([0xFF20, 0x32, 0x53, 0, 0], 0xB2), ([0xFF20, 0x32, 0x5E, 0, 0], 0xB2),
    ([0xFF20, 0x32, 0x73, 0, 0], 0xB2), ([0xFF20, 0x33, 0x34, 0, 0], 0xBE), ([0xFF20, 0x33, 0x53, 0, 0], 0xB3),
    ([0xFF20, 0x33, 0x5E, 0, 0], 0xB3), ([0xFF20, 0x33, 0x73, 0, 0], 0xB3), ([0xFF20, 0x3A, 0x2D, 0, 0], 0xF7),
    ([0xFF20, 0x3B, 0x41, 0, 0], 0x104), ([0xFF20, 0x3B, 0x45, 0, 0], 0x118),
    ([0xFF20, 0x3B, 0x49, 0, 0], 0x12E), ([0xFF20, 0x3B, 0x4F, 0, 0], 0x1EA),
    ([0xFF20, 0x3B, 0x55, 0, 0], 0x172), ([0xFF20, 0x3B, 0x61, 0, 0], 0x105),
    ([0xFF20, 0x3B, 0x65, 0, 0], 0x119), ([0xFF20, 0x3B, 0x69, 0, 0], 0x12F),
    ([0xFF20, 0x3B, 0x6F, 0, 0], 0x1EB), ([0xFF20, 0x3B, 0x75, 0, 0], 0x173),
    ([0xFF20, 0x3C, 0x20, 0, 0], 0x2C7), ([0xFF20, 0x3C, 0x22, 0, 0], 0x201C),
    ([0xFF20, 0x3C, 0x27, 0, 0], 0x2018), ([0xFF20, 0x3C, 0x2F, 0, 0], 0x5C),
    ([0xFF20, 0x3C, 0x3C, 0, 0], 0xAB), ([0xFF20, 0x3C, 0x43, 0, 0], 0x10C),
    ([0xFF20, 0x3C, 0x44, 0, 0], 0x10E), ([0xFF20, 0x3C, 0x45, 0, 0], 0x11A),
    ([0xFF20, 0x3C, 0x4C, 0, 0], 0x13D), ([0xFF20, 0x3C, 0x4E, 0, 0], 0x147),
    ([0xFF20, 0x3C, 0x52, 0, 0], 0x158), ([0xFF20, 0x3C, 0x53, 0, 0], 0x160),
    ([0xFF20, 0x3C, 0x54, 0, 0], 0x164), ([0xFF20, 0x3C, 0x5A, 0, 0], 0x17D),
    ([0xFF20, 0x3C, 0x63, 0, 0], 0x10D), ([0xFF20, 0x3C, 0x64, 0, 0], 0x10F),
    ([0xFF20, 0x3C, 0x65, 0, 0], 0x11B), ([0xFF20, 0x3C, 0x6C, 0, 0], 0x13E),
    ([0xFF20, 0x3C, 0x6E, 0, 0], 0x148), ([0xFF20, 0x3C, 0x72, 0, 0], 0x159),
    ([0xFF20, 0x3C, 0x73, 0, 0], 0x161), ([0xFF20, 0x3C, 0x74, 0, 0], 0x165),
    ([0xFF20, 0x3C, 0x7A, 0, 0], 0x17E), ([0xFF20, 0x3C, 0x1000338, 0, 0], 0x226E),
    ([0xFF20, 0x3D, 0x43, 0, 0], 0x20AC), ([0xFF20, 0x3D, 0x45, 0, 0], 0x20AC),
    ([0xFF20, 0x3D, 0x4C, 0, 0], 0x20A4), ([0xFF20, 0x3D, 0x4E, 0, 0], 0x20A6),
    ([0xFF20, 0x3D, 0x4F, 0, 0], 0x150), ([0xFF20, 0x3D, 0x55, 0, 0], 0x170),
    ([0xFF20, 0x3D, 0x57, 0, 0], 0x20A9), ([0xFF20, 0x3D, 0x59, 0, 0], 0xA5),
    ([0xFF20, 0x3D, 0x63, 0, 0], 0x20AC), ([0xFF20, 0x3D, 0x65, 0, 0], 0x20AC),
    ([0xFF20, 0x3D, 0x6C, 0, 0], 0xA3), ([0xFF20, 0x3D, 0x6F, 0, 0], 0x151),
    ([0xFF20, 0x3D, 0x75, 0, 0], 0x171), ([0xFF20, 0x3D, 0x79, 0, 0], 0xA5),
    ([0xFF20, 0x3D, 0x6D5, 0, 0], 0x4F3), ([0xFF20, 0x3D, 0x6F5, 0, 0], 0x4F2),
    ([0xFF20, 0x3D, 0x1000338, 0, 0], 0x2260), ([0xFF20, 0x3E, 0x20, 0, 0], 0x5E),
    ([0xFF20, 0x3E, 0x22, 0, 0], 0x201D), ([0xFF20, 0x3E, 0x27, 0, 0], 0x2019),
    ([0xFF20, 0x3E, 0x3E, 0, 0], 0xBB), ([0xFF20, 0x3E, 0x41, 0, 0], 0xC2), ([0xFF20, 0x3E, 0x45, 0, 0], 0xCA),
    ([0xFF20, 0x3E, 0x49, 0, 0], 0xCE), ([0xFF20, 0x3E, 0x4F, 0, 0], 0xD4), ([0xFF20, 0x3E, 0x55, 0, 0], 0xDB),
    ([0xFF20, 0x3E, 0x61, 0, 0], 0xE2), ([0xFF20, 0x3E, 0x65, 0, 0], 0xEA), ([0xFF20, 0x3E, 0x69, 0, 0], 0xEE),
    ([0xFF20, 0x3E, 0x6F, 0, 0], 0xF4), ([0xFF20, 0x3E, 0x75, 0, 0], 0xFB),
    ([0xFF20, 0x3E, 0x1000338, 0, 0], 0x226F), ([0xFF20, 0x3F, 0x2B, 0x4F, 0], 0x1EDE),
    ([0xFF20, 0x3F, 0x2B, 0x55, 0], 0x1EEC), ([0xFF20, 0x3F, 0x2B, 0x6F, 0], 0x1EDF),
    ([0xFF20, 0x3F, 0x2B, 0x75, 0], 0x1EED), ([0xFF20, 0x3F, 0x3F, 0, 0], 0xBF)]"

definition compose_rows_24 :: "compose_row list" where
  "compose_rows_24 =
   [([0xFF20, 0x3F, 0x41, 0, 0], 0x1EA2), ([0xFF20, 0x3F, 0x45, 0, 0], 0x1EBA),
    ([0xFF20, 0x3F, 0x49, 0, 0], 0x1EC8), ([0xFF20, 0x3F, 0x4F, 0, 0], 0x1ECE),
    ([0xFF20, 0x3F, 0x55, 0, 0], 0x1EE6), ([0xFF20, 0x3F, 0x55, 0x41, 0], 0x1EB2),
    ([0xFF20, 0x3F, 0x55, 0x61, 0], 0x1EB3), ([0xFF20, 0x3F, 0x59, 0, 0], 0x1EF6),
    ([0xFF20, 0x3F, 0x5E, 0x41, 0], 0x1EA8), ([0xFF20, 0x3F, 0x5E, 0x45, 0], 0x1EC2),
    ([0xFF20, 0x3F, 0x5E, 0x4F, 0], 0x1ED4), ([0xFF20, 0x3F, 0x5E, 0x61, 0], 0x1EA9),
    ([0xFF20, 0x3F, 0x5E, 0x65, 0], 0x1EC3), ([0xFF20, 0x3F, 0x5E, 0x6F, 0], 0x1ED5),
    ([0xFF20, 0x3F, 0x61, 0, 0], 0x1EA3), ([0xFF20, 0x3F, 0x62, 0x41, 0], 0x1EB2),
    ([0xFF20, 0x3F, 0x62, 0x61, 0], 0x1EB3), ([0xFF20, 0x3F, 0x65, 0, 0], 0x1EBB),
    ([0xFF20, 0x3F, 0x69, 0, 0], 0x1EC9), ([0xFF20, 0x3F, 0x6F, 0, 0], 0x1ECF),
    ([0xFF20, 0x3F, 0x75, 0, 0], 0x1EE7), ([0xFF20, 0x3F, 0x79, 0, 0], 0x1EF7),
    ([0xFF20, 0x3F, 0xC2, 0, 0], 0x1EA8), ([0xFF20, 0x3F, 0xCA, 0, 0], 0x1EC2),
    ([0xFF20, 0x3F, 0xD4, 0, 0], 0x1ED4), ([0xFF20, 0x3F, 0xE2, 0, 0], 0x1EA9),
    ([0xFF20, 0x3F, 0xEA, 0, 0], 0x1EC3), ([0xFF20, 0x3F, 0xF4, 0, 0], 0x1ED5),
    ([0xFF20, 0x3F, 0x1C3, 0, 0], 0x1EB2), ([0xFF20, 0x3F, 0x1E3, 0, 0], 0x1EB3),
    ([0xFF20, 0x3F, 0x1EFA, 0, 0], 0x1EDE), ([0xFF20, 0x3F, 0x1EFB, 0, 0], 0x1EDF),
    ([0xFF20, 0x3F, 0x1EFC, 0, 0], 0x1EEC), ([0xFF20, 0x3F, 0x1EFD, 0, 0], 0x1EED),
    ([0xFF20, 0x3F, 0xFE52, 0x41, 0], 0x1EA8), ([0xFF20, 0x3F, 0xFE52, 0x45, 0], 0x1EC2),
    ([0xFF20, 0x3F, 0xFE52, 0x4F, 0], 0x1ED4), ([0xFF20, 0x3F, 0xFE52, 0x61, 0], 0x1EA9),
    ([0xFF20, 0x3F, 0xFE52, 0x65, 0], 0x1EC3), ([0xFF20, 0x3F, 0xFE52, 0x6F, 0], 0x1ED5),
    ([0xFF20, 0x3F, 0xFE55, 0x41, 0], 0x1EB2), ([0xFF20, 0x3F, 0xFE55, 0x61, 0], 0x1EB3),
    ([0xFF20, 0x3F, 0xFE62, 0x4F, 0], 0x1EDE), ([0xFF20, 0x3F, 0xFE62, 0x55, 0], 0x1EEC),
    ([0xFF20, 0x3F, 0xFE62, 0x6F, 0], 0x1EDF), ([0xFF20, 0x3F, 0xFE62, 0x75, 0], 0x1EED),
    ([0xFF20, 0x41, 0x22, 0, 0], 0xC4), ([0xFF20, 0x41, 0x27, 0, 0], 0xC1),
    ([0xFF20, 0x41, 0x28, 0, 0], 0x102), ([0xFF20, 0x41, 0x2A, 0, 0], 0xC5),
    ([0xFF20, 0x41, 0x2C, 0, 0], 0x104), ([0xFF20, 0x41, 0x2D, 0, 0], 0x100),
    ([0xFF20, 0x41, 0x3E, 0, 0], 0xC2), ([0xFF20, 0x41, 0x41, 0, 0], 0xC5), ([0xFF20, 0x41, 0x45, 0, 0], 0xC6),
    ([0xFF20, 0x41, 0x54, 0, 0], 0x40), ([0xFF20, 0x41, 0x5E, 0, 0], 0xC2), ([0xFF20, 0x41, 0x5F, 0, 0], 0xAA),
    ([0xFF20, 0x41, 0x60, 0, 0], 0xC0), ([0xFF20, 0x41, 0x7E, 0, 0], 0xC3), ([0xFF20, 0x41, 0xA8, 0, 0], 0xC4),
    ([0xFF20, 0x41, 0xB4, 0, 0], 0xC1), ([0xFF20, 0x42, 0x2E, 0, 0], 0x1E02),
    ([0xFF20, 0x43, 0x27, 0, 0], 0x106), ([0xFF20, 0x43, 0x2C, 0, 0], 0xC7),
    ([0xFF20, 0x43, 0x2E, 0, 0], 0x10A), ([0xFF20, 0x43, 0x2F, 0, 0], 0xA2),
    ([0xFF20, 0x43, 0x30, 0, 0], 0xA9), ([0xFF20, 0x43, 0x3C, 0, 0], 0x10C),
    ([0xFF20, 0x43, 0x3D, 0, 0], 0x20AC), ([0xFF20, 0x43, 0x45, 0, 0], 0x20A0),
    ([0xFF20, 0x43, 0x4F, 0, 0], 0xA9), ([0xFF20, 0x43, 0x6F, 0, 0], 0xA9),
    ([0xFF20, 0x43, 0x72, 0, 0], 0x20A2), ([0xFF20, 0x43, 0x7C, 0, 0], 0xA2),
    ([0xFF20, 0x44, 0x2D, 0, 0], 0x110), ([0xFF20, 0x44, 0x2E, 0, 0], 0x1E0A),
    ([0xFF20, 0x44, 0x3C, 0, 0], 0x10E), ([0xFF20, 0x44, 0x48, 0, 0], 0xD0),
    ([0xFF20, 0x45, 0x22, 0, 0], 0xCB), ([0xFF20, 0x45, 0x27, 0, 0], 0xC9),
    ([0xFF20, 0x45, 0x2C, 0, 0], 0x118), ([0xFF20, 0x45, 0x2D, 0, 0], 0x112),
    ([0xFF20, 0x45, 0x2E, 0, 0], 0x116), ([0xFF20, 0x45, 0x3C, 0, 0], 0x11A),
    ([0xFF20, 0x45, 0x3D, 0, 0], 0x20AC), ([0xFF20, 0x45, 0x3E, 0, 0], 0xCA),
    ([0xFF20, 0x45, 0x5E, 0, 0], 0xCA), ([0xFF20, 0x45, 0x5F, 0, 0], 0x112),
    ([0xFF20, 0x45, 0x60, 0, 0], 0xC8), ([0xFF20, 0x45, 0xA8, 0, 0], 0xCB), ([0xFF20, 0x45, 0xB4, 0, 0], 0xC9),
    ([0xFF20, 0x46, 0x2E, 0, 0], 0x1E1E), ([0xFF20, 0x46, 0x72, 0, 0], 0x20A3),
    ([0xFF20, 0x47, 0x28, 0, 0], 0x11E), ([0xFF20, 0x47, 0x2C, 0, 0], 0x122),
    ([0xFF20, 0x47, 0x2E, 0, 0], 0x120), ([0xFF20, 0x47, 0x55, 0, 0], 0x11E),
    ([0xFF20, 0x47, 0x1A2, 0, 0], 0x11E), ([0xFF20, 0x49, 0x22, 0, 0], 0xCF),
    ([0xFF20, 0x49, 0x27, 0, 0], 0xCD), ([0xFF20, 0x49, 0x2C, 0, 0], 0x12E),
    ([0xFF20, 0x49, 0x2D, 0, 0], 0x12A), ([0xFF20, 0x49, 0x2E, 0, 0], 0x130),
    ([0xFF20, 0x49, 0x3E, 0, 0], 0xCE), ([0xFF20, 0x49, 0x5E, 0, 0], 0xCE),
    ([0xFF20, 0x49, 0x5F, 0, 0], 0x12A), ([0xFF20, 0x49, 0x60, 0, 0], 0xCC),
    ([0xFF20, 0x49, 0x7E, 0, 0], 0x128), ([0xFF20, 0x49, 0xA8, 0, 0], 0xCF),
    ([0xFF20, 0x49, 0xB4, 0, 0], 0xCD), ([0xFF20, 0x4B, 0x2C, 0, 0], 0x136),
    ([0xFF20, 0x4C, 0x27, 0, 0], 0x139), ([0xFF20, 0x4C, 0x2C, 0, 0], 0x13B),
    ([0xFF20, 0x4C, 0x2D, 0, 0], 0xA3), ([0xFF20, 0x4C, 0x3C, 0, 0], 0x13D),
    ([0xFF20, 0x4C, 0x3D, 0, 0], 0x20A4), ([0xFF20, 0x4C, 0x56, 0, 0], 0x7C),
    ([0xFF20, 0x4D, 0x2E, 0, 0], 0x1E40), ([0xFF20, 0x4E, 0x27, 0, 0], 0x143),
    ([0xFF20, 0x4E, 0x2C, 0, 0], 0x145), ([0xFF20, 0x4E, 0x2D, 0, 0], 0xD1),
    ([0xFF20, 0x4E, 0x3C, 0, 0], 0x147), ([0xFF20, 0x4E, 0x3D, 0, 0], 0x20A6),
    ([0xFF20, 0x4E, 0x47, 0, 0], 0x14A), ([0xFF20, 0x4E, 0x7E, 0, 0], 0xD1),
    ([0xFF20, 0x4F, 0x22, 0, 0], 0xD6), ([0xFF20, 0x4F, 0x27, 0, 0], 0xD3),
    ([0xFF20, 0x4F, 0x2D, 0, 0], 0x14C), ([0xFF20, 0x4F, 0x2F, 0, 0], 0xD8),
    ([0xFF20, 0x4F, 0x3E, 0, 0], 0xD4), ([0xFF20, 0x4F, 0x43, 0, 0], 0xA9),
    ([0xFF20, 0x4F, 0x45, 0, 0], 0x152), ([0xFF20, 0x4F, 0x52, 0, 0], 0xAE),
    ([0xFF20, 0x4F, 0x53, 0, 0], 0xA7), ([0xFF20, 0x4F, 0x58, 0, 0], 0xA4), ([0xFF20, 0x4F, 0x5E, 0, 0], 0xD4),
    ([0xFF20, 0x4F, 0x5F, 0, 0], 0xBA), ([0xFF20, 0x4F, 0x60, 0, 0], 0xD2), ([0xFF20, 0x4F, 0x63, 0, 0], 0xA9),
    ([0xFF20, 0x4F, 0x72, 0, 0], 0xAE), ([0xFF20, 0x4F, 0x78, 0, 0], 0xA4), ([0xFF20, 0x4F, 0x7E, 0, 0], 0xD5),
    ([0xFF20, 0x4F, 0xA8, 0, 0], 0xD6), ([0xFF20, 0x4F, 0xB4, 0, 0], 0xD3), ([0xFF20, 0x50, 0x21, 0, 0], 0xB6),
    ([0xFF20, 0x50, 0x2E, 0, 0], 0x1E56), ([0xFF20, 0x50, 0x50, 0, 0], 0xB6)]"

definition compose_rows_25 :: "compose_row list" where
  "compose_rows_25 =
   [([0xFF20, 0x50, 0x74, 0, 0], 0x20A7), ([0xFF20, 0x52, 0x27, 0, 0], 0x154),
    ([0xFF20, 0x52, 0x2C, 0, 0], 0x156), ([0xFF20, 0x52, 0x3C, 0, 0], 0x158),
    ([0xFF20, 0x52, 0x4F, 0, 0], 0xAE), ([0xFF20, 0x52, 0x73, 0, 0], 0x20A8),
    ([0xFF20, 0x53, 0x21, 0, 0], 0xA7), ([0xFF20, 0x53, 0x27, 0, 0], 0x15A),
    ([0xFF20, 0x53, 0x2C, 0, 0], 0x15E), ([0xFF20, 0x53, 0x2E, 0, 0], 0x1E60),
    ([0xFF20, 0x53, 0x30, 0, 0], 0xA7), ([0xFF20, 0x53, 0x31, 0, 0], 0xB9), ([0xFF20, 0x53, 0x32, 0, 0], 0xB2),
    ([0xFF20, 0x53, 0x33, 0, 0], 0xB3), ([0xFF20, 0x53, 0x3C, 0, 0], 0x160),
    ([0xFF20, 0x53, 0x4F, 0, 0], 0xA7), ([0xFF20, 0x53, 0xB8, 0, 0], 0x15E),
    ([0xFF20, 0x54, 0x2D, 0, 0], 0x166), ([0xFF20, 0x54, 0x2E, 0, 0], 0x1E6A),
    ([0xFF20, 0x54, 0x2F, 0, 0], 0x166), ([0xFF20, 0x54, 0x3C, 0, 0], 0x164),
    ([0xFF20, 0x54, 0x48, 0, 0], 0xDE), ([0xFF20, 0x55, 0x21, 0x41, 0], 0x1EB6),
    ([0xFF20, 0x55, 0x21, 0x61, 0], 0x1EB7), ([0xFF20, 0x55, 0x22, 0, 0], 0xDC),
    ([0xFF20, 0x55, 0x27, 0, 0], 0xDA), ([0xFF20, 0x55, 0x2A, 0, 0], 0x16E),
    ([0xFF20, 0x55, 0x2C, 0, 0], 0x172), ([0xFF20, 0x55, 0x2C, 0x45, 0], 0x1E1C),
    ([0xFF20, 0x55, 0x2C, 0x65, 0], 0x1E1D), ([0xFF20, 0x55, 0x2D, 0, 0], 0x16B),
    ([0xFF20, 0x55, 0x2F, 0, 0], 0xB5), ([0xFF20, 0x55, 0x3E, 0, 0], 0xDB),
    ([0xFF20, 0x55, 0x41, 0, 0], 0x102), ([0xFF20, 0x55, 0x45, 0, 0], 0x114),
    ([0xFF20, 0x55, 0x47, 0, 0], 0x11E), ([0xFF20, 0x55, 0x49, 0, 0], 0x12C),
    ([0xFF20, 0x55, 0x4F, 0, 0], 0x14E), ([0xFF20, 0x55, 0x55, 0, 0], 0x16C),
    ([0xFF20, 0x55, 0x5E, 0, 0], 0xDB), ([0xFF20, 0x55, 0x5F, 0, 0], 0x16B),
    ([0xFF20, 0x55, 0x60, 0, 0], 0xD9), ([0xFF20, 0x55, 0x61, 0, 0], 0x103),
    ([0xFF20, 0x55, 0x65, 0, 0], 0x115), ([0xFF20, 0x55, 0x67, 0, 0], 0x11F),
    ([0xFF20, 0x55, 0x69, 0, 0], 0x12D), ([0xFF20, 0x55, 0x6F, 0, 0], 0x14F),
    ([0xFF20, 0x55, 0x75, 0, 0], 0x16D), ([0xFF20, 0x55, 0x7E, 0, 0], 0x168),
    ([0xFF20, 0x55, 0xA8, 0, 0], 0xDC), ([0xFF20, 0x55, 0xB4, 0, 0], 0xDA),
    ([0xFF20, 0x55, 0x6C1, 0, 0], 0x4D1), ([0xFF20, 0x55, 0x6C5, 0, 0], 0x4D7),
    ([0xFF20, 0x55, 0x6C9, 0, 0], 0x439), ([0xFF20, 0x55, 0x6D5, 0, 0], 0x45E),
    ([0xFF20, 0x55, 0x6D6, 0, 0], 0x4C2), ([0xFF20, 0x55, 0x6E1, 0, 0], 0x4D0),
    ([0xFF20, 0x55, 0x6E5, 0, 0], 0x4D6), ([0xFF20, 0x55, 0x6E9, 0, 0], 0x419),
    ([0xFF20, 0x55, 0x6F5, 0, 0], 0x40E), ([0xFF20, 0x55, 0x6F6, 0, 0], 0x4C1),
    ([0xFF20, 0x55, 0x7C1, 0, 0], 0x1FB8), ([0xFF20, 0x55, 0x7C9, 0, 0], 0x1FD8),
    ([0xFF20, 0x55, 0x7D5, 0, 0], 0x1FE8), ([0xFF20, 0x55, 0x7E1, 0, 0], 0x1FB0),
    ([0xFF20, 0x55, 0x7E9, 0, 0], 0x1FD0), ([0xFF20, 0x55, 0x7F5, 0, 0], 0x1FE0),
    ([0xFF20, 0x55, 0x1EFF, 0x41, 0], 0x1EB6), ([0xFF20, 0x55, 0x1EFF, 0x61, 0], 0x1EB7),
    ([0xFF20, 0x55, 0xFE5B, 0x45, 0], 0x1E1C), ([0xFF20, 0x55, 0xFE5B, 0x65, 0], 0x1E1D),
    ([0xFF20, 0x55, 0xFE60, 0x41, 0], 0x1EB6), ([0xFF20, 0x55, 0xFE60, 0x61, 0], 0x1EB7),
    ([0xFF20, 0x55, 0x1000228, 0, 0], 0x1E1C), ([0xFF20, 0x55, 0x1000229, 0, 0], 0x1E1D),
    ([0xFF20, 0x55, 0x1001EA0, 0, 0], 0x1EB6), ([0xFF20, 0x55, 0x1001EA1, 0, 0], 0x1EB7),
    ([0xFF20, 0x56, 0x4C, 0, 0], 0x7C), ([0xFF20, 0x57, 0x3D, 0, 0], 0x20A9),
    ([0xFF20, 0x57, 0x5E, 0, 0], 0x174), ([0xFF20, 0x58, 0x30, 0, 0], 0xA4),
    ([0xFF20, 0x58, 0x4F, 0, 0], 0xA4), ([0xFF20, 0x58, 0x6F, 0, 0], 0xA4),
    ([0xFF20, 0x59, 0x22, 0, 0], 0x178), ([0xFF20, 0x59, 0x27, 0, 0], 0xDD),
    ([0xFF20, 0x59, 0x2D, 0, 0], 0xA5), ([0xFF20, 0x59, 0x3D, 0, 0], 0xA5),
    ([0xFF20, 0x59, 0x5E, 0, 0], 0x176), ([0xFF20, 0x59, 0xA8, 0, 0], 0x178),
    ([0xFF20, 0x59, 0xB4, 0, 0], 0xDD), ([0xFF20, 0x5A, 0x27, 0, 0], 0x179),
    ([0xFF20, 0x5A, 0x2E, 0, 0], 0x17B), ([0xFF20, 0x5A, 0x3C, 0, 0], 0x17D),
    ([0xFF20, 0x5E, 0x20, 0, 0], 0x5E), ([0xFF20, 0x5E, 0x21, 0x41, 0], 0x1EAC),
    ([0xFF20, 0x5E, 0x21, 0x45, 0], 0x1EC6), ([0xFF20, 0x5E, 0x21, 0x4F, 0], 0x1ED8),
    ([0xFF20, 0x5E, 0x21, 0x61, 0], 0x1EAD), ([0xFF20, 0x5E, 0x21, 0x65, 0], 0x1EC7),
    ([0xFF20, 0x5E, 0x21, 0x6F, 0], 0x1ED9), ([0xFF20, 0x5E, 0x28, 0, 0], 0x207D),
    ([0xFF20, 0x5E, 0x29, 0, 0], 0x207E), ([0xFF20, 0x5E, 0x2B, 0, 0], 0x207A),
    ([0xFF20, 0x5E, 0x2D, 0, 0], 0xAF), ([0xFF20, 0x5E, 0x2E, 0, 0], 0xB7), ([0xFF20, 0x5E, 0x2F, 0, 0], 0x7C),
    ([0xFF20, 0x5E, 0x30, 0, 0], 0x2070), ([0xFF20, 0x5E, 0x31, 0, 0], 0xB9),
    ([0xFF20, 0x5E, 0x32, 0, 0], 0xB2), ([0xFF20, 0x5E, 0x33, 0, 0], 0xB3),
    ([0xFF20, 0x5E, 0x34, 0, 0], 0x2074), ([0xFF20, 0x5E, 0x35, 0, 0], 0x2075),
    ([0xFF20, 0x5E, 0x36, 0, 0], 0x2076), ([0xFF20, 0x5E, 0x37, 0, 0], 0x2077),
    ([0xFF20, 0x5E, 0x38, 0, 0], 0x2078), ([0xFF20, 0x5E, 0x39, 0, 0], 0x2079),
    ([0xFF20, 0x5E, 0x3D, 0, 0], 0x207C), ([0xFF20, 0x5E, 0x41, 0, 0], 0xC2),
    ([0xFF20, 0x5E, 0x43, 0, 0], 0x108), ([0xFF20, 0x5E, 0x45, 0, 0], 0xCA),
    ([0xFF20, 0x5E, 0x47, 0, 0], 0x11C), ([0xFF20, 0x5E, 0x48, 0, 0], 0x124),
    ([0xFF20, 0x5E, 0x49, 0, 0], 0xCE), ([0xFF20, 0x5E, 0x4A, 0, 0], 0x134),
    ([0xFF20, 0x5E, 0x4F, 0, 0], 0xD4), ([0xFF20, 0x5E, 0x53, 0, 0], 0x15C),
    ([0xFF20, 0x5E, 0x53, 0x4D, 0], 0x2120), ([0xFF20, 0x5E, 0x54, 0x4D, 0], 0x2122),
    ([0xFF20, 0x5E, 0x55, 0, 0], 0xDB), ([0xFF20, 0x5E, 0x57, 0, 0], 0x174),
    ([0xFF20, 0x5E, 0x59, 0, 0], 0x176), ([0xFF20, 0x5E, 0x5A, 0, 0], 0x1E90),
    ([0xFF20, 0x5E, 0x5F, 0, 0], 0xAF), ([0xFF20, 0x5E, 0x5F, 0x61, 0], 0xAA),
    ([0xFF20, 0x5E, 0x5F, 0x68, 0], 0x2B0), ([0xFF20, 0x5E, 0x5F, 0x69, 0], 0x2071),
    ([0xFF20, 0x5E, 0x5F, 0x6A, 0], 0x2B2), ([0xFF20, 0x5E, 0x5F, 0x6C, 0], 0x2E1),
    ([0xFF20, 0x5E, 0x5F, 0x6E, 0], 0x207F), ([0xFF20, 0x5E, 0x5F, 0x6F, 0], 0xBA),
    ([0xFF20, 0x5E, 0x5F, 0x72, 0], 0x2B3), ([0xFF20, 0x5E, 0x5F, 0x73, 0], 0x2E2),
    ([0xFF20, 0x5E, 0x5F, 0x77, 0], 0x2B7), ([0xFF20, 0x5E, 0x5F, 0x78, 0], 0x2E3),
    ([0xFF20, 0x5E, 0x5F, 0x79, 0], 0x2B8), ([0xFF20, 0x5E, 0x5F, 0x1000263, 0], 0x2E0),
    ([0xFF20, 0x5E, 0x5F, 0x1000266, 0], 0x2B1), ([0xFF20, 0x5E, 0x5F, 0x1000279, 0], 0x2B4)]"

definition compose_rows_26 :: "compose_row list" where
  "compose_rows_26 =
   [([0xFF20, 0x5E, 0x5F, 0x100027B, 0], 0x2B5), ([0xFF20, 0x5E, 0x5F, 0x1000281, 0], 0x2B6),
    ([0xFF20, 0x5E, 0x5F, 0x1000295, 0], 0x2E4), ([0xFF20, 0x5E, 0x61, 0, 0], 0xE2),
    ([0xFF20, 0x5E, 0x63, 0, 0], 0x109), ([0xFF20, 0x5E, 0x65, 0, 0], 0xEA),
    ([0xFF20, 0x5E, 0x67, 0, 0], 0x11D), ([0xFF20, 0x5E, 0x68, 0, 0], 0x125),
    ([0xFF20, 0x5E, 0x69, 0, 0], 0xEE), ([0xFF20, 0x5E, 0x6A, 0, 0], 0x135),
    ([0xFF20, 0x5E, 0x6F, 0, 0], 0xF4), ([0xFF20, 0x5E, 0x73, 0, 0], 0x15D),
    ([0xFF20, 0x5E, 0x75, 0, 0], 0xFB), ([0xFF20, 0x5E, 0x77, 0, 0], 0x175),
    ([0xFF20, 0x5E, 0x79, 0, 0], 0x177), ([0xFF20, 0x5E, 0x7A, 0, 0], 0x1E91),
    ([0xFF20, 0x5E, 0xBC6, 0x61, 0], 0xAA), ([0xFF20, 0x5E, 0xBC6, 0x68, 0], 0x2B0),
    ([0xFF20, 0x5E, 0xBC6, 0x69, 0], 0x2071), ([0xFF20, 0x5E, 0xBC6, 0x6A, 0], 0x2B2),
    ([0xFF20, 0x5E, 0xBC6, 0x6C, 0], 0x2E1), ([0xFF20, 0x5E, 0xBC6, 0x6E, 0], 0x207F),
    ([0xFF20, 0x5E, 0xBC6, 0x6F, 0], 0xBA), ([0xFF20, 0x5E, 0xBC6, 0x72, 0], 0x2B3),
    ([0xFF20, 0x5E, 0xBC6, 0x73, 0], 0x2E2), ([0xFF20, 0x5E, 0xBC6, 0x77, 0], 0x2B7),
    ([0xFF20, 0x5E, 0xBC6, 0x78, 0], 0x2E3), ([0xFF20, 0x5E, 0xBC6, 0x79, 0], 0x2B8),
    ([0xFF20, 0x5E, 0xBC6, 0x1000263, 0], 0x2E0), ([0xFF20, 0x5E, 0xBC6, 0x1000266, 0], 0x2B1),
    ([0xFF20, 0x5E, 0xBC6, 0x1000279, 0], 0x2B4), ([0xFF20, 0x5E, 0xBC6, 0x100027B, 0], 0x2B5),
    ([0xFF20, 0x5E, 0xBC6, 0x1000281, 0], 0x2B6), ([0xFF20, 0x5E, 0xBC6, 0x1000295, 0], 0x2E4),
    ([0xFF20, 0x5E, 0x1EFF, 0x41, 0], 0x1EAC), ([0xFF20, 0x5E, 0x1EFF, 0x45, 0], 0x1EC6),
    ([0xFF20, 0x5E, 0x1EFF, 0x4F, 0], 0x1ED8), ([0xFF20, 0x5E, 0x1EFF, 0x61, 0], 0x1EAD),
    ([0xFF20, 0x5E, 0x1EFF, 0x65, 0], 0x1EC7), ([0xFF20, 0x5E, 0x1EFF, 0x6F, 0], 0x1ED9),
    ([0xFF20, 0x5E, 0xFE60, 0x41, 0], 0x1EAC), ([0xFF20, 0x5E, 0xFE60, 0x45, 0], 0x1EC6),
    ([0xFF20, 0x5E, 0xFE60, 0x4F, 0], 0x1ED8), ([0xFF20, 0x5E, 0xFE60, 0x61, 0], 0x1EAD),
    ([0xFF20, 0x5E, 0xFE60, 0x65, 0], 0x1EC7), ([0xFF20, 0x5E, 0xFE60, 0x6F, 0], 0x1ED9),
    ([0xFF20, 0x5E, 0xFF80, 0, 0], 0xB2), ([0xFF20, 0x5E, 0xFFAB, 0, 0], 0x207A),
    ([0xFF20, 0x5E, 0xFFB0, 0, 0], 0x2070), ([0xFF20, 0x5E, 0xFFB1, 0, 0], 0xB9),
    ([0xFF20, 0x5E, 0xFFB2, 0, 0], 0xB2), ([0xFF20, 0x5E, 0xFFB3, 0, 0], 0xB3),
    ([0xFF20, 0x5E, 0xFFB4, 0, 0], 0x2074), ([0xFF20, 0x5E, 0xFFB5, 0, 0], 0x2075),
    ([0xFF20, 0x5E, 0xFFB6, 0, 0], 0x2076), ([0xFF20, 0x5E, 0xFFB7, 0, 0], 0x2077),
    ([0xFF20, 0x5E, 0xFFB8, 0, 0], 0x2078), ([0xFF20, 0x5E, 0xFFB9, 0, 0], 0x2079),
    ([0xFF20, 0x5E, 0xFFBD, 0, 0], 0x207C), ([0xFF20, 0x5E, 0x1001EA0, 0, 0], 0x1EAC),
    ([0xFF20, 0x5E, 0x1001EA1, 0, 0], 0x1EAD), ([0xFF20, 0x5E, 0x1001EB8, 0, 0], 0x1EC6),
    ([0xFF20, 0x5E, 0x1001EB9, 0, 0], 0x1EC7), ([0xFF20, 0x5E, 0x1001ECC, 0, 0], 0x1ED8),
    ([0xFF20, 0x5E, 0x1001ECD, 0, 0], 0x1ED9), ([0xFF20, 0x5E, 0x1002212, 0, 0], 0x207B),
    ([0xFF20, 0x5E, 0x1004E00, 0, 0], 0x3192), ([0xFF20, 0x5E, 0x1004E01, 0, 0], 0x319C),
    ([0xFF20, 0x5E, 0x1004E09, 0, 0], 0x3194), ([0xFF20, 0x5E, 0x1004E0A, 0, 0], 0x3196),
    ([0xFF20, 0x5E, 0x1004E0B, 0, 0], 0x3198), ([0xFF20, 0x5E, 0x1004E19, 0, 0], 0x319B),
    ([0xFF20, 0x5E, 0x1004E2D, 0, 0], 0x3197), ([0xFF20, 0x5E, 0x1004E59, 0, 0], 0x319A),
    ([0xFF20, 0x5E, 0x1004E8C, 0, 0], 0x3193), ([0xFF20, 0x5E, 0x1004EBA, 0, 0], 0x319F),
    ([0xFF20, 0x5E, 0x10056DB, 0, 0], 0x3195), ([0xFF20, 0x5E, 0x1005730, 0, 0], 0x319E),
    ([0xFF20, 0x5E, 0x1005929, 0, 0], 0x319D), ([0xFF20, 0x5E, 0x1007532, 0, 0], 0x3199),
    ([0xFF20, 0x5F, 0x21, 0x4C, 0], 0x1E38), ([0xFF20, 0x5F, 0x21, 0x52, 0], 0x1E5C),
    ([0xFF20, 0x5F, 0x21, 0x6C, 0], 0x1E39), ([0xFF20, 0x5F, 0x21, 0x72, 0], 0x1E5D),
    ([0xFF20, 0x5F, 0x22, 0x41, 0], 0x1DE), ([0xFF20, 0x5F, 0x22, 0x4F, 0], 0x22A),
    ([0xFF20, 0x5F, 0x22, 0x55, 0], 0x1D5), ([0xFF20, 0x5F, 0x22, 0x61, 0], 0x1DF),
    ([0xFF20, 0x5F, 0x22, 0x6F, 0], 0x22B), ([0xFF20, 0x5F, 0x22, 0x75, 0], 0x1D6),
    ([0xFF20, 0x5F, 0x28, 0, 0], 0x208D), ([0xFF20, 0x5F, 0x29, 0, 0], 0x208E),
    ([0xFF20, 0x5F, 0x2B, 0, 0], 0x208A), ([0xFF20, 0x5F, 0x2E, 0x41, 0], 0x1E0),
    ([0xFF20, 0x5F, 0x2E, 0x4F, 0], 0x230), ([0xFF20, 0x5F, 0x2E, 0x61, 0], 0x1E1),
    ([0xFF20, 0x5F, 0x2E, 0x6F, 0], 0x231), ([0xFF20, 0x5F, 0x30, 0, 0], 0x2080),
    ([0xFF20, 0x5F, 0x31, 0, 0], 0x2081), ([0xFF20, 0x5F, 0x32, 0, 0], 0x2082),
    ([0xFF20, 0x5F, 0x33, 0, 0], 0x2083), ([0xFF20, 0x5F, 0x34, 0, 0], 0x2084),
    ([0xFF20, 0x5F, 0x35, 0, 0], 0x2085), ([0xFF20, 0x5F, 0x36, 0, 0], 0x2086),
    ([0xFF20, 0x5F, 0x37, 0, 0], 0x2087), ([0xFF20, 0x5F, 0x38, 0, 0], 0x2088),
    ([0xFF20, 0x5F, 0x39, 0, 0], 0x2089), ([0xFF20, 0x5F, 0x3B, 0x4F, 0], 0x1EC),
    ([0xFF20, 0x5F, 0x3B, 0x6F, 0], 0x1ED), ([0xFF20, 0x5F, 0x3D, 0, 0], 0x208C),
    ([0xFF20, 0x5F, 0x41, 0, 0], 0xAA), ([0xFF20, 0x5F, 0x45, 0, 0], 0x112),
    ([0xFF20, 0x5F, 0x47, 0, 0], 0x1E20), ([0xFF20, 0x5F, 0x49, 0, 0], 0x12A),
    ([0xFF20, 0x5F, 0x4F, 0, 0], 0xBA), ([0xFF20, 0x5F, 0x55, 0, 0], 0x16A),
    ([0xFF20, 0x5F, 0x59, 0, 0], 0x232), ([0xFF20, 0x5F, 0x5E, 0, 0], 0xAF),
    ([0xFF20, 0x5F, 0x5F, 0, 0], 0xAF), ([0xFF20, 0x5F, 0x61, 0, 0], 0x101),
    ([0xFF20, 0x5F, 0x65, 0, 0], 0x113), ([0xFF20, 0x5F, 0x67, 0, 0], 0x1E21),
    ([0xFF20, 0x5F, 0x69, 0, 0], 0x12B), ([0xFF20, 0x5F, 0x6F, 0, 0], 0x14D),
    ([0xFF20, 0x5F, 0x75, 0, 0], 0x16B), ([0xFF20, 0x5F, 0x79, 0, 0], 0x233),
    ([0xFF20, 0x5F, 0x7E, 0x4F, 0], 0x22C), ([0xFF20, 0x5F, 0x7E, 0x6F, 0], 0x22D),
    ([0xFF20, 0x5F, 0xC4, 0, 0], 0x1DE), ([0xFF20, 0x5F, 0xC6, 0, 0], 0x1E2),
    ([0xFF20, 0x5F, 0xD5, 0, 0], 0x22C), ([0xFF20, 0x5F, 0xD6, 0, 0], 0x22A),
    ([0xFF20, 0x5F, 0xDC, 0, 0], 0x1D5), ([0xFF20, 0x5F, 0xE4, 0, 0], 0x1DF),
    ([0xFF20, 0x5F, 0xE6, 0, 0], 0x1E3), ([0xFF20, 0x5F, 0xF5, 0, 0], 0x22D),
    ([0xFF20, 0x5F, 0xF6, 0, 0], 0x22B), ([0xFF20, 0x5F, 0xFC, 0, 0], 0x1D6),
    ([0xFF20, 0x5F, 0x6C9, 0, 0], 0x4E3), ([0xFF20, 0x5F, 0x6D5, 0, 0], 0x4EF),
    ([0xFF20, 0x5F, 0x6E9, 0, 0], 0x4E2), ([0xFF20, 0x5F, 0x6F5, 0, 0], 0x4EE),
    ([0xFF20, 0x5F, 0x7C1, 0, 0], 0x1FB9), ([0xFF20, 0x5F, 0x7C9, 0, 0], 0x1FD9),
    ([0xFF20, 0x5F, 0x7D5, 0, 0], 0x1FE9), ([0xFF20, 0x5F, 0x7E1, 0, 0], 0x1FB1),
    ([0xFF20, 0x5F, 0x7E9, 0, 0], 0x1FD1), ([0xFF20, 0x5F, 0x7F5, 0, 0], 0x1FE1)]"

definition compose_rows_27 :: "compose_row list" where
  "compose_rows_27 =
   [([0xFF20, 0x5F, 0x1E9F, 0x4F, 0], 0x22C), ([0xFF20, 0x5F, 0x1E9F, 0x6F, 0], 0x22D),
    ([0xFF20, 0x5F, 0x1EFF, 0x4C, 0], 0x1E38), ([0xFF20, 0x5F, 0x1EFF, 0x52, 0], 0x1E5C),
    ([0xFF20, 0x5F, 0x1EFF, 0x6C, 0], 0x1E39), ([0xFF20, 0x5F, 0x1EFF, 0x72, 0], 0x1E5D),
    ([0xFF20, 0x5F, 0xFE53, 0x4F, 0], 0x22C), ([0xFF20, 0x5F, 0xFE53, 0x6F, 0], 0x22D),
    ([0xFF20, 0x5F, 0xFE56, 0x41, 0], 0x1E0), ([0xFF20, 0x5F, 0xFE56, 0x4F, 0], 0x230),
    ([0xFF20, 0x5F, 0xFE56, 0x61, 0], 0x1E1), ([0xFF20, 0x5F, 0xFE56, 0x6F, 0], 0x231),
    ([0xFF20, 0x5F, 0xFE57, 0x41, 0], 0x1DE), ([0xFF20, 0x5F, 0xFE57, 0x4F, 0], 0x22A),
    ([0xFF20, 0x5F, 0xFE57, 0x55, 0], 0x1D5), ([0xFF20, 0x5F, 0xFE57, 0x61, 0], 0x1DF),
    ([0xFF20, 0x5F, 0xFE57, 0x6F, 0], 0x22B), ([0xFF20, 0x5F, 0xFE57, 0x75, 0], 0x1D6),
    ([0xFF20, 0x5F, 0xFE5C, 0x4F, 0], 0x1EC), ([0xFF20, 0x5F, 0xFE5C, 0x6F, 0], 0x1ED),
    ([0xFF20, 0x5F, 0xFE60, 0x4C, 0], 0x1E38), ([0xFF20, 0x5F, 0xFE60, 0x52, 0], 0x1E5C),
    ([0xFF20, 0x5F, 0xFE60, 0x6C, 0], 0x1E39), ([0xFF20, 0x5F, 0xFE60, 0x72, 0], 0x1E5D),
    ([0xFF20, 0x5F, 0xFF80, 0, 0], 0x2082), ([0xFF20, 0x5F, 0xFFAB, 0, 0], 0x208A),
    ([0xFF20, 0x5F, 0xFFB0, 0, 0], 0x2080), ([0xFF20, 0x5F, 0xFFB1, 0, 0], 0x2081),
    ([0xFF20, 0x5F, 0xFFB2, 0, 0], 0x2082), ([0xFF20, 0x5F, 0xFFB3, 0, 0], 0x2083),
    ([0xFF20, 0x5F, 0xFFB4, 0, 0], 0x2084), ([0xFF20, 0x5F, 0xFFB5, 0, 0], 0x2085),
    ([0xFF20, 0x5F, 0xFFB6, 0, 0], 0x2086), ([0xFF20, 0x5F, 0xFFB7, 0, 0], 0x2087),
    ([0xFF20, 0x5F, 0xFFB8, 0, 0], 0x2088), ([0xFF20, 0x5F, 0xFFB9, 0, 0], 0x2089),
    ([0xFF20, 0x5F, 0xFFBD, 0, 0], 0x208C), ([0xFF20, 0x5F, 0x10001EA, 0, 0], 0x1EC),
    ([0xFF20, 0x5F, 0x10001EB, 0, 0], 0x1ED), ([0xFF20, 0x5F, 0x1000226, 0, 0], 0x1E0),
    ([0xFF20, 0x5F, 0x1000227, 0, 0], 0x1E1), ([0xFF20, 0x5F, 0x100022E, 0, 0], 0x230),
    ([0xFF20, 0x5F, 0x100022F, 0, 0], 0x231), ([0xFF20, 0x5F, 0x1001E36, 0, 0], 0x1E38),
    ([0xFF20, 0x5F, 0x1001E37, 0, 0], 0x1E39), ([0xFF20, 0x5F, 0x1001E5A, 0, 0], 0x1E5C),
    ([0xFF20, 0x5F, 0x1001E5B, 0, 0], 0x1E5D), ([0xFF20, 0x5F, 0x1002212, 0, 0], 0x208B),
    ([0xFF20, 0x60, 0x20, 0, 0], 0x60), ([0xFF20, 0x60, 0x22, 0x55, 0], 0x1DB),
    ([0xFF20, 0x60, 0x22, 0x75, 0], 0x1DC), ([0xFF20, 0x60, 0x22, 0x7E9, 0], 0x1FD2),
    ([0xFF20, 0x60, 0x22, 0x7F5, 0], 0x1FE2), ([0xFF20, 0x60, 0x28, 0x7C1, 0], 0x1F0B),
    ([0xFF20, 0x60, 0x28, 0x7C5, 0], 0x1F1B), ([0xFF20, 0x60, 0x28, 0x7C7, 0], 0x1F2B),
    ([0xFF20, 0x60, 0x28, 0x7C9, 0], 0x1F3B), ([0xFF20, 0x60, 0x28, 0x7CF, 0], 0x1F4B),
    ([0xFF20, 0x60, 0x28, 0x7D5, 0], 0x1F5B), ([0xFF20, 0x60, 0x28, 0x7D9, 0], 0x1F6B),
    ([0xFF20, 0x60, 0x28, 0x7E1, 0], 0x1F03), ([0xFF20, 0x60, 0x28, 0x7E5, 0], 0x1F13),
    ([0xFF20, 0x60, 0x28, 0x7E7, 0], 0x1F23), ([0xFF20, 0x60, 0x28, 0x7E9, 0], 0x1F33),
    ([0xFF20, 0x60, 0x28, 0x7EF, 0], 0x1F43), ([0xFF20, 0x60, 0x28, 0x7F5, 0], 0x1F53),
    ([0xFF20, 0x60, 0x28, 0x7F9, 0], 0x1F63), ([0xFF20, 0x60, 0x29, 0x7C1, 0], 0x1F0A),
    ([0xFF20, 0x60, 0x29, 0x7C5, 0], 0x1F1A), ([0xFF20, 0x60, 0x29, 0x7C7, 0], 0x1F2A),
    ([0xFF20, 0x60, 0x29, 0x7C9, 0], 0x1F3A), ([0xFF20, 0x60, 0x29, 0x7CF, 0], 0x1F4A),
    ([0xFF20, 0x60, 0x29, 0x7D9, 0], 0x1F6A), ([0xFF20, 0x60, 0x29, 0x7E1, 0], 0x1F02),
    ([0xFF20, 0x60, 0x29, 0x7E5, 0], 0x1F12), ([0xFF20, 0x60, 0x29, 0x7E7, 0], 0x1F22),
    ([0xFF20, 0x60, 0x29, 0x7E9, 0], 0x1F32), ([0xFF20, 0x60, 0x29, 0x7EF, 0], 0x1F42),
    ([0xFF20, 0x60, 0x29, 0x7F5, 0], 0x1F52), ([0xFF20, 0x60, 0x29, 0x7F9, 0], 0x1F62),
    ([0xFF20, 0x60, 0x2B, 0x4F, 0], 0x1EDC), ([0xFF20, 0x60, 0x2B, 0x55, 0], 0x1EEA),
    ([0xFF20, 0x60, 0x2B, 0x6F, 0], 0x1EDD), ([0xFF20, 0x60, 0x2B, 0x75, 0], 0x1EEB),
    ([0xFF20, 0x60, 0x41, 0, 0], 0xC0), ([0xFF20, 0x60, 0x45, 0, 0], 0xC8), ([0xFF20, 0x60, 0x49, 0, 0], 0xCC),
    ([0xFF20, 0x60, 0x4E, 0, 0], 0x1F8), ([0xFF20, 0x60, 0x4F, 0, 0], 0xD2),
    ([0xFF20, 0x60, 0x55, 0, 0], 0xD9), ([0xFF20, 0x60, 0x55, 0x41, 0], 0x1EB0),
    ([0xFF20, 0x60, 0x55, 0x61, 0], 0x1EB1), ([0xFF20, 0x60, 0x57, 0, 0], 0x1E80),
    ([0xFF20, 0x60, 0x59, 0, 0], 0x1EF2), ([0xFF20, 0x60, 0x5E, 0x41, 0], 0x1EA6),
    ([0xFF20, 0x60, 0x5E, 0x45, 0], 0x1EC0), ([0xFF20, 0x60, 0x5E, 0x4F, 0], 0x1ED2),
    ([0xFF20, 0x60, 0x5E, 0x61, 0], 0x1EA7), ([0xFF20, 0x60, 0x5E, 0x65, 0], 0x1EC1),
    ([0xFF20, 0x60, 0x5E, 0x6F, 0], 0x1ED3), ([0xFF20, 0x60, 0x5F, 0x45, 0], 0x1E14),
    ([0xFF20, 0x60, 0x5F, 0x4F, 0], 0x1E50), ([0xFF20, 0x60, 0x5F, 0x65, 0], 0x1E15),
    ([0xFF20, 0x60, 0x5F, 0x6F, 0], 0x1E51), ([0xFF20, 0x60, 0x61, 0, 0], 0xE0),
    ([0xFF20, 0x60, 0x62, 0x41, 0], 0x1EB0), ([0xFF20, 0x60, 0x62, 0x61, 0], 0x1EB1),
    ([0xFF20, 0x60, 0x65, 0, 0], 0xE8), ([0xFF20, 0x60, 0x69, 0, 0], 0xEC),
    ([0xFF20, 0x60, 0x6E, 0, 0], 0x1F9), ([0xFF20, 0x60, 0x6F, 0, 0], 0xF2),
    ([0xFF20, 0x60, 0x75, 0, 0], 0xF9), ([0xFF20, 0x60, 0x77, 0, 0], 0x1E81),
    ([0xFF20, 0x60, 0x79, 0, 0], 0x1EF3), ([0xFF20, 0x60, 0xAF, 0x45, 0], 0x1E14),
    ([0xFF20, 0x60, 0xAF, 0x4F, 0], 0x1E50), ([0xFF20, 0x60, 0xAF, 0x65, 0], 0x1E15),
    ([0xFF20, 0x60, 0xAF, 0x6F, 0], 0x1E51), ([0xFF20, 0x60, 0xC2, 0, 0], 0x1EA6),
    ([0xFF20, 0x60, 0xCA, 0, 0], 0x1EC0), ([0xFF20, 0x60, 0xD4, 0, 0], 0x1ED2),
    ([0xFF20, 0x60, 0xDC, 0, 0], 0x1DB), ([0xFF20, 0x60, 0xE2, 0, 0], 0x1EA7),
    ([0xFF20, 0x60, 0xEA, 0, 0], 0x1EC1), ([0xFF20, 0x60, 0xF4, 0, 0], 0x1ED3),
    ([0xFF20, 0x60, 0xFC, 0, 0], 0x1DC), ([0xFF20, 0x60, 0x1C3, 0, 0], 0x1EB0),
    ([0xFF20, 0x60, 0x1E3, 0, 0], 0x1EB1), ([0xFF20, 0x60, 0x3AA, 0, 0], 0x1E14),
    ([0xFF20, 0x60, 0x3BA, 0, 0], 0x1E15), ([0xFF20, 0x60, 0x3D2, 0, 0], 0x1E50),
    ([0xFF20, 0x60, 0x3F2, 0, 0], 0x1E51), ([0xFF20, 0x60, 0x6C5, 0, 0], 0x450),
    ([0xFF20, 0x60, 0x6C9, 0, 0], 0x45D), ([0xFF20, 0x60, 0x6E5, 0, 0], 0x400),
    ([0xFF20, 0x60, 0x6E9, 0, 0], 0x40D), ([0xFF20, 0x60, 0x7B5, 0, 0], 0x1FD2),
    ([0xFF20, 0x60, 0x7B9, 0, 0], 0x1FE2), ([0xFF20, 0x60, 0x7C1, 0, 0], 0x1FBA),
    ([0xFF20, 0x60, 0x7C5, 0, 0], 0x1FC8), ([0xFF20, 0x60, 0x7C7, 0, 0], 0x1FCA),
    ([0xFF20, 0x60, 0x7C9, 0, 0], 0x1FDA), ([0xFF20, 0x60, 0x7CF, 0, 0], 0x1FF8),
    ([0xFF20, 0x60, 0x7D5, 0, 0], 0x1FEA), ([0xFF20, 0x60, 0x7D9, 0, 0], 0x1FFA),
    ([0xFF20, 0x60, 0x7E1, 0, 0], 0x1F70), ([0xFF20, 0x60, 0x7E5, 0, 0], 0x1F72),
    ([0xFF20, 0x60, 0x7E7, 0, 0], 0x1F74)]"

definition compose_rows_28 :: "compose_row list" where
  "compose_rows_28 =
   [([0xFF20, 0x60, 0x7E9, 0, 0], 0x1F76), ([0xFF20, 0x60, 0x7EF, 0, 0], 0x1F78),
    ([0xFF20, 0x60, 0x7F5, 0, 0], 0x1F7A), ([0xFF20, 0x60, 0x7F9, 0, 0], 0x1F7C),
    ([0xFF20, 0x60, 0x1EFA, 0, 0], 0x1EDC), ([0xFF20, 0x60, 0x1EFB, 0, 0], 0x1EDD),
    ([0xFF20, 0x60, 0x1EFC, 0, 0], 0x1EEA), ([0xFF20, 0x60, 0x1EFD, 0, 0], 0x1EEB),
    ([0xFF20, 0x60, 0xFE52, 0x41, 0], 0x1EA6), ([0xFF20, 0x60, 0xFE52, 0x45, 0], 0x1EC0),
    ([0xFF20, 0x60, 0xFE52, 0x4F, 0], 0x1ED2), ([0xFF20, 0x60, 0xFE52, 0x61, 0], 0x1EA7),
    ([0xFF20, 0x60, 0xFE52, 0x65, 0], 0x1EC1), ([0xFF20, 0x60, 0xFE52, 0x6F, 0], 0x1ED3),
    ([0xFF20, 0x60, 0xFE54, 0x45, 0], 0x1E14), ([0xFF20, 0x60, 0xFE54, 0x4F, 0], 0x1E50),
    ([0xFF20, 0x60, 0xFE54, 0x65, 0], 0x1E15), ([0xFF20, 0x60, 0xFE54, 0x6F, 0], 0x1E51),
    ([0xFF20, 0x60, 0xFE55, 0x41, 0], 0x1EB0), ([0xFF20, 0x60, 0xFE55, 0x61, 0], 0x1EB1),
    ([0xFF20, 0x60, 0xFE57, 0x55, 0], 0x1DB), ([0xFF20, 0x60, 0xFE57, 0x75, 0], 0x1DC),
    ([0xFF20, 0x60, 0xFE57, 0x7E9, 0], 0x1FD2), ([0xFF20, 0x60, 0xFE57, 0x7F5, 0], 0x1FE2),
    ([0xFF20, 0x60, 0xFE62, 0x4F, 0], 0x1EDC), ([0xFF20, 0x60, 0xFE62, 0x55, 0], 0x1EEA),
    ([0xFF20, 0x60, 0xFE62, 0x6F, 0], 0x1EDD), ([0xFF20, 0x60, 0xFE62, 0x75, 0], 0x1EEB),
    ([0xFF20, 0x60, 0x1000313, 0x7C1, 0], 0x1F0A), ([0xFF20, 0x60, 0x1000313, 0x7C5, 0], 0x1F1A),
    ([0xFF20, 0x60, 0x1000313, 0x7C7, 0], 0x1F2A), ([0xFF20, 0x60, 0x1000313, 0x7C9, 0], 0x1F3A),
    ([0xFF20, 0x60, 0x1000313, 0x7CF, 0], 0x1F4A), ([0xFF20, 0x60, 0x1000313, 0x7D9, 0], 0x1F6A),
    ([0xFF20, 0x60, 0x1000313, 0x7E1, 0], 0x1F02), ([0xFF20, 0x60, 0x1000313, 0x7E5, 0], 0x1F12),
    ([0xFF20, 0x60, 0x1000313, 0x7E7, 0], 0x1F22), ([0xFF20, 0x60, 0x1000313, 0x7E9, 0], 0x1F32),
    ([0xFF20, 0x60, 0x1000313, 0x7EF, 0], 0x1F42), ([0xFF20, 0x60, 0x1000313, 0x7F5, 0], 0x1F52),
    ([0xFF20, 0x60, 0x1000313, 0x7F9, 0], 0x1F62), ([0xFF20, 0x60, 0x1000314, 0x7C1, 0], 0x1F0B),
    ([0xFF20, 0x60, 0x1000314, 0x7C5, 0], 0x1F1B), ([0xFF20, 0x60, 0x1000314, 0x7C7, 0], 0x1F2B),
    ([0xFF20, 0x60, 0x1000314, 0x7C9, 0], 0x1F3B), ([0xFF20, 0x60, 0x1000314, 0x7CF, 0], 0x1F4B),
    ([0xFF20, 0x60, 0x1000314, 0x7D5, 0], 0x1F5B), ([0xFF20, 0x60, 0x1000314, 0x7D9, 0], 0x1F6B),
    ([0xFF20, 0x60, 0x1000314, 0x7E1, 0], 0x1F03), ([0xFF20, 0x60, 0x1000314, 0x7E5, 0], 0x1F13),
    ([0xFF20, 0x60, 0x1000314, 0x7E7, 0], 0x1F23), ([0xFF20, 0x60, 0x1000314, 0x7E9, 0], 0x1F33),
    ([0xFF20, 0x60, 0x1000314, 0x7EF, 0], 0x1F43), ([0xFF20, 0x60, 0x1000314, 0x7F5, 0], 0x1F53),
    ([0xFF20, 0x60, 0x1000314, 0x7F9, 0], 0x1F63), ([0xFF20, 0x60, 0x1001F00, 0, 0], 0x1F02),
    ([0xFF20, 0x60, 0x1001F01, 0, 0], 0x1F03), ([0xFF20, 0x60, 0x1001F08, 0, 0], 0x1F0A),
    ([0xFF20, 0x60, 0x1001F09, 0, 0], 0x1F0B), ([0xFF20, 0x60, 0x1001F10, 0, 0], 0x1F12),
    ([0xFF20, 0x60, 0x1001F11, 0, 0], 0x1F13), ([0xFF20, 0x60, 0x1001F18, 0, 0], 0x1F1A),
    ([0xFF20, 0x60, 0x1001F19, 0, 0], 0x1F1B), ([0xFF20, 0x60, 0x1001F20, 0, 0], 0x1F22),
    ([0xFF20, 0x60, 0x1001F21, 0, 0], 0x1F23), ([0xFF20, 0x60, 0x1001F28, 0, 0], 0x1F2A),
    ([0xFF20, 0x60, 0x1001F29, 0, 0], 0x1F2B), ([0xFF20, 0x60, 0x1001F30, 0, 0], 0x1F32),
    ([0xFF20, 0x60, 0x1001F31, 0, 0], 0x1F33), ([0xFF20, 0x60, 0x1001F38, 0, 0], 0x1F3A),
    ([0xFF20, 0x60, 0x1001F39, 0, 0], 0x1F3B), ([0xFF20, 0x60, 0x1001F40, 0, 0], 0x1F42),
    ([0xFF20, 0x60, 0x1001F41, 0, 0], 0x1F43), ([0xFF20, 0x60, 0x1001F48, 0, 0], 0x1F4A),
    ([0xFF20, 0x60, 0x1001F49, 0, 0], 0x1F4B), ([0xFF20, 0x60, 0x1001F50, 0, 0], 0x1F52),
    ([0xFF20, 0x60, 0x1001F51, 0, 0], 0x1F53), ([0xFF20, 0x60, 0x1001F59, 0, 0], 0x1F5B),
    ([0xFF20, 0x60, 0x1001F60, 0, 0], 0x1F62), ([0xFF20, 0x60, 0x1001F61, 0, 0], 0x1F63),
    ([0xFF20, 0x60, 0x1001F68, 0, 0], 0x1F6A), ([0xFF20, 0x60, 0x1001F69, 0, 0], 0x1F6B),
    ([0xFF20, 0x61, 0x22, 0, 0], 0xE4), ([0xFF20, 0x61, 0x27, 0, 0], 0xE1),
    ([0xFF20, 0x61, 0x28, 0, 0], 0x103), ([0xFF20, 0x61, 0x2A, 0, 0], 0xE5),
    ([0xFF20, 0x61, 0x2C, 0, 0], 0x105), ([0xFF20, 0x61, 0x2D, 0, 0], 0x101),
    ([0xFF20, 0x61, 0x3E, 0, 0], 0xE2), ([0xFF20, 0x61, 0x5E, 0, 0], 0xE2), ([0xFF20, 0x61, 0x5F, 0, 0], 0xAA),
    ([0xFF20, 0x61, 0x60, 0, 0], 0xE0), ([0xFF20, 0x61, 0x61, 0, 0], 0xE5), ([0xFF20, 0x61, 0x65, 0, 0], 0xE6),
    ([0xFF20, 0x61, 0x7E, 0, 0], 0xE3), ([0xFF20, 0x61, 0xA8, 0, 0], 0xE4), ([0xFF20, 0x61, 0xB4, 0, 0], 0xE1),
    ([0xFF20, 0x62, 0x21, 0x41, 0], 0x1EB6), ([0xFF20, 0x62, 0x21, 0x61, 0], 0x1EB7),
    ([0xFF20, 0x62, 0x2C, 0x45, 0], 0x1E1C), ([0xFF20, 0x62, 0x2C, 0x65, 0], 0x1E1D),
    ([0xFF20, 0x62, 0x2E, 0, 0], 0x1E03), ([0xFF20, 0x62, 0x41, 0, 0], 0x102),
    ([0xFF20, 0x62, 0x45, 0, 0], 0x114), ([0xFF20, 0x62, 0x47, 0, 0], 0x11E),
    ([0xFF20, 0x62, 0x49, 0, 0], 0x12C), ([0xFF20, 0x62, 0x4F, 0, 0], 0x14E),
    ([0xFF20, 0x62, 0x55, 0, 0], 0x16C), ([0xFF20, 0x62, 0x61, 0, 0], 0x103),
    ([0xFF20, 0x62, 0x65, 0, 0], 0x115), ([0xFF20, 0x62, 0x67, 0, 0], 0x11F),
    ([0xFF20, 0x62, 0x69, 0, 0], 0x12D), ([0xFF20, 0x62, 0x6F, 0, 0], 0x14F),
    ([0xFF20, 0x62, 0x75, 0, 0], 0x16D), ([0xFF20, 0x62, 0x6C1, 0, 0], 0x4D1),
    ([0xFF20, 0x62, 0x6C5, 0, 0], 0x4D7), ([0xFF20, 0x62, 0x6C9, 0, 0], 0x439),
    ([0xFF20, 0x62, 0x6D5, 0, 0], 0x45E), ([0xFF20, 0x62, 0x6D6, 0, 0], 0x4C2),
    ([0xFF20, 0x62, 0x6E1, 0, 0], 0x4D0), ([0xFF20, 0x62, 0x6E5, 0, 0], 0x4D6),
    ([0xFF20, 0x62, 0x6E9, 0, 0], 0x419), ([0xFF20, 0x62, 0x6F5, 0, 0], 0x40E),
    ([0xFF20, 0x62, 0x6F6, 0, 0], 0x4C1), ([0xFF20, 0x62, 0x7C1, 0, 0], 0x1FB8),
    ([0xFF20, 0x62, 0x7C9, 0, 0], 0x1FD8), ([0xFF20, 0x62, 0x7D5, 0, 0], 0x1FE8),
    ([0xFF20, 0x62, 0x7E1, 0, 0], 0x1FB0), ([0xFF20, 0x62, 0x7E9, 0, 0], 0x1FD0),
    ([0xFF20, 0x62, 0x7F5, 0, 0], 0x1FE0), ([0xFF20, 0x62, 0x1EFF, 0x41, 0], 0x1EB6),
    ([0xFF20, 0x62, 0x1EFF, 0x61, 0], 0x1EB7), ([0xFF20, 0x62, 0xFE5B, 0x45, 0], 0x1E1C),
    ([0xFF20, 0x62, 0xFE5B, 0x65, 0], 0x1E1D), ([0xFF20, 0x62, 0xFE60, 0x41, 0], 0x1EB6),
    ([0xFF20, 0x62, 0xFE60, 0x61, 0], 0x1EB7), ([0xFF20, 0x62, 0x1000228, 0, 0], 0x1E1C),
    ([0xFF20, 0x62, 0x1000229, 0, 0], 0x1E1D), ([0xFF20, 0x62, 0x1001EA0, 0, 0], 0x1EB6),
    ([0xFF20, 0x62, 0x1001EA1, 0, 0], 0x1EB7), ([0xFF20, 0x63, 0x22, 0x55, 0], 0x1D9),
    ([0xFF20, 0x63, 0x22, 0x75, 0], 0x1DA), ([0xFF20, 0x63, 0x27, 0, 0], 0x107),
    ([0xFF20, 0x63, 0x2C, 0, 0], 0xE7), ([0xFF20, 0x63, 0x2E, 0, 0], 0x10B),
    ([0xFF20, 0x63, 0x2F, 0, 0], 0xA2), ([0xFF20, 0x63, 0x30, 0, 0], 0xA9), ([0xFF20, 0x63, 0x3C, 0, 0], 0x10D)]"

definition compose_rows_29 :: "compose_row list" where
  "compose_rows_29 =
   [([0xFF20, 0x63, 0x3D, 0, 0], 0x20AC), ([0xFF20, 0x63, 0x41, 0, 0], 0x1CD),
    ([0xFF20, 0x63, 0x43, 0, 0], 0x10C), ([0xFF20, 0x63, 0x44, 0, 0], 0x10E),
    ([0xFF20, 0x63, 0x45, 0, 0], 0x11A), ([0xFF20, 0x63, 0x47, 0, 0], 0x1E6),
    ([0xFF20, 0x63, 0x48, 0, 0], 0x21E), ([0xFF20, 0x63, 0x49, 0, 0], 0x1CF),
    ([0xFF20, 0x63, 0x4B, 0, 0], 0x1E8), ([0xFF20, 0x63, 0x4C, 0, 0], 0x13D),
    ([0xFF20, 0x63, 0x4E, 0, 0], 0x147), ([0xFF20, 0x63, 0x4F, 0, 0], 0x1D1),
    ([0xFF20, 0x63, 0x52, 0, 0], 0x158), ([0xFF20, 0x63, 0x53, 0, 0], 0x160),
    ([0xFF20, 0x63, 0x54, 0, 0], 0x164), ([0xFF20, 0x63, 0x55, 0, 0], 0x1D3),
    ([0xFF20, 0x63, 0x5A, 0, 0], 0x17D), ([0xFF20, 0x63, 0x61, 0, 0], 0x1CE),
    ([0xFF20, 0x63, 0x63, 0, 0], 0x10D), ([0xFF20, 0x63, 0x64, 0, 0], 0x10F),
    ([0xFF20, 0x63, 0x65, 0, 0], 0x11B), ([0xFF20, 0x63, 0x67, 0, 0], 0x1E7),
    ([0xFF20, 0x63, 0x68, 0, 0], 0x21F), ([0xFF20, 0x63, 0x69, 0, 0], 0x1D0),
    ([0xFF20, 0x63, 0x6A, 0, 0], 0x1F0), ([0xFF20, 0x63, 0x6B, 0, 0], 0x1E9),
    ([0xFF20, 0x63, 0x6C, 0, 0], 0x13E), ([0xFF20, 0x63, 0x6E, 0, 0], 0x148),
    ([0xFF20, 0x63, 0x6F, 0, 0], 0x1D2), ([0xFF20, 0x63, 0x72, 0, 0], 0x159),
    ([0xFF20, 0x63, 0x73, 0, 0], 0x161), ([0xFF20, 0x63, 0x74, 0, 0], 0x165),
    ([0xFF20, 0x63, 0x75, 0, 0], 0x1D4), ([0xFF20, 0x63, 0x7A, 0, 0], 0x17E),
    ([0xFF20, 0x63, 0x7C, 0, 0], 0xA2), ([0xFF20, 0x63, 0xDC, 0, 0], 0x1D9),
    ([0xFF20, 0x63, 0xFC, 0, 0], 0x1DA), ([0xFF20, 0x63, 0xFE57, 0x55, 0], 0x1D9),
    ([0xFF20, 0x63, 0xFE57, 0x75, 0], 0x1DA), ([0xFF20, 0x63, 0x10001B7, 0, 0], 0x1EE),
    ([0xFF20, 0x63, 0x1000292, 0, 0], 0x1EF), ([0xFF20, 0x64, 0x2D, 0, 0], 0x20AB),
    ([0xFF20, 0x64, 0x2E, 0, 0], 0x1E0B), ([0xFF20, 0x64, 0x3C, 0, 0], 0x10F),
    ([0xFF20, 0x64, 0x68, 0, 0], 0xF0), ([0xFF20, 0x65, 0x22, 0, 0], 0xEB), ([0xFF20, 0x65, 0x27, 0, 0], 0xE9),
    ([0xFF20, 0x65, 0x2C, 0, 0], 0x119), ([0xFF20, 0x65, 0x2D, 0, 0], 0x113),
    ([0xFF20, 0x65, 0x2E, 0, 0], 0x117), ([0xFF20, 0x65, 0x3C, 0, 0], 0x11B),
    ([0xFF20, 0x65, 0x3D, 0, 0], 0x20AC), ([0xFF20, 0x65, 0x3E, 0, 0], 0xEA),
    ([0xFF20, 0x65, 0x5E, 0, 0], 0xEA), ([0xFF20, 0x65, 0x5F, 0, 0], 0x113),
    ([0xFF20, 0x65, 0x60, 0, 0], 0xE8), ([0xFF20, 0x65, 0x65, 0, 0], 0x259),
    ([0xFF20, 0x65, 0xA8, 0, 0], 0xEB), ([0xFF20, 0x65, 0xB4, 0, 0], 0xE9),
    ([0xFF20, 0x66, 0x2E, 0, 0], 0x1E1F), ([0xFF20, 0x66, 0x53, 0, 0], 0x17F),
    ([0xFF20, 0x66, 0x73, 0, 0], 0x17F), ([0xFF20, 0x67, 0x28, 0, 0], 0x11F),
    ([0xFF20, 0x67, 0x2C, 0, 0], 0x123), ([0xFF20, 0x67, 0x2E, 0, 0], 0x121),
    ([0xFF20, 0x67, 0x55, 0, 0], 0x11F), ([0xFF20, 0x67, 0x1A2, 0, 0], 0x11F),
    ([0xFF20, 0x69, 0x22, 0, 0], 0xEF), ([0xFF20, 0x69, 0x27, 0, 0], 0xED),
    ([0xFF20, 0x69, 0x2C, 0, 0], 0x12F), ([0xFF20, 0x69, 0x2D, 0, 0], 0x12B),
    ([0xFF20, 0x69, 0x2E, 0, 0], 0x131), ([0xFF20, 0x69, 0x3E, 0, 0], 0xEE),
    ([0xFF20, 0x69, 0x5E, 0, 0], 0xEE), ([0xFF20, 0x69, 0x5F, 0, 0], 0x12B),
    ([0xFF20, 0x69, 0x60, 0, 0], 0xEC), ([0xFF20, 0x69, 0x7E, 0, 0], 0x129),
    ([0xFF20, 0x69, 0xA8, 0, 0], 0xEF), ([0xFF20, 0x69, 0xB4, 0, 0], 0xED),
    ([0xFF20, 0x6B, 0x2C, 0, 0], 0x137), ([0xFF20, 0x6B, 0x6B, 0, 0], 0x138),
    ([0xFF20, 0x6C, 0x27, 0, 0], 0x13A), ([0xFF20, 0x6C, 0x2C, 0, 0], 0x13C),
    ([0xFF20, 0x6C, 0x2D, 0, 0], 0xA3), ([0xFF20, 0x6C, 0x3C, 0, 0], 0x13E),
    ([0xFF20, 0x6C, 0x3D, 0, 0], 0xA3), ([0xFF20, 0x6C, 0x76, 0, 0], 0x7C),
    ([0xFF20, 0x6D, 0x2E, 0, 0], 0x1E41), ([0xFF20, 0x6D, 0x2F, 0, 0], 0x20A5),
    ([0xFF20, 0x6D, 0x75, 0, 0], 0xB5), ([0xFF20, 0x6E, 0x27, 0, 0], 0x144),
    ([0xFF20, 0x6E, 0x2C, 0, 0], 0x146), ([0xFF20, 0x6E, 0x2D, 0, 0], 0xF1),
    ([0xFF20, 0x6E, 0x3C, 0, 0], 0x148), ([0xFF20, 0x6E, 0x67, 0, 0], 0x14B),
    ([0xFF20, 0x6E, 0x7E, 0, 0], 0xF1), ([0xFF20, 0x6F, 0x22, 0, 0], 0xF6), ([0xFF20, 0x6F, 0x27, 0, 0], 0xF3),
    ([0xFF20, 0x6F, 0x27, 0x41, 0], 0x1FA), ([0xFF20, 0x6F, 0x27, 0x61, 0], 0x1FB),
    ([0xFF20, 0x6F, 0x2D, 0, 0], 0x14D), ([0xFF20, 0x6F, 0x2F, 0, 0], 0xF8),
    ([0xFF20, 0x6F, 0x3E, 0, 0], 0xF4), ([0xFF20, 0x6F, 0x41, 0, 0], 0xC5), ([0xFF20, 0x6F, 0x43, 0, 0], 0xA9),
    ([0xFF20, 0x6F, 0x52, 0, 0], 0xAE), ([0xFF20, 0x6F, 0x55, 0, 0], 0x16E),
    ([0xFF20, 0x6F, 0x58, 0, 0], 0xA4), ([0xFF20, 0x6F, 0x5E, 0, 0], 0xF4), ([0xFF20, 0x6F, 0x5F, 0, 0], 0xBA),
    ([0xFF20, 0x6F, 0x60, 0, 0], 0xF2), ([0xFF20, 0x6F, 0x61, 0, 0], 0xE5), ([0xFF20, 0x6F, 0x63, 0, 0], 0xA9),
    ([0xFF20, 0x6F, 0x65, 0, 0], 0x153), ([0xFF20, 0x6F, 0x6F, 0, 0], 0xB0),
    ([0xFF20, 0x6F, 0x72, 0, 0], 0xAE), ([0xFF20, 0x6F, 0x73, 0, 0], 0xA7),
    ([0xFF20, 0x6F, 0x75, 0, 0], 0x16F), ([0xFF20, 0x6F, 0x77, 0, 0], 0x1E98),
    ([0xFF20, 0x6F, 0x78, 0, 0], 0xA4), ([0xFF20, 0x6F, 0x79, 0, 0], 0x1E99),
    ([0xFF20, 0x6F, 0x7E, 0, 0], 0xF5), ([0xFF20, 0x6F, 0xA8, 0, 0], 0xF6), ([0xFF20, 0x6F, 0xB4, 0, 0], 0xF3),
    ([0xFF20, 0x70, 0x21, 0, 0], 0xB6), ([0xFF20, 0x70, 0x2E, 0, 0], 0x1E57),
    ([0xFF20, 0x72, 0x27, 0, 0], 0x155), ([0xFF20, 0x72, 0x2C, 0, 0], 0x157),
    ([0xFF20, 0x72, 0x3C, 0, 0], 0x159), ([0xFF20, 0x73, 0x21, 0, 0], 0xA7),
    ([0xFF20, 0x73, 0x27, 0, 0], 0x15B), ([0xFF20, 0x73, 0x2C, 0, 0], 0x15F),
    ([0xFF20, 0x73, 0x2E, 0, 0], 0x1E61), ([0xFF20, 0x73, 0x30, 0, 0], 0xA7),
    ([0xFF20, 0x73, 0x31, 0, 0], 0xB9), ([0xFF20, 0x73, 0x32, 0, 0], 0xB2), ([0xFF20, 0x73, 0x33, 0, 0], 0xB3),
    ([0xFF20, 0x73, 0x3C, 0, 0], 0x161), ([0xFF20, 0x73, 0x6F, 0, 0], 0xA7),
    ([0xFF20, 0x73, 0x73, 0, 0], 0xDF), ([0xFF20, 0x73, 0xB8, 0, 0], 0x15F),
    ([0xFF20, 0x74, 0x2D, 0, 0], 0x167), ([0xFF20, 0x74, 0x2E, 0, 0], 0x1E6B),
    ([0xFF20, 0x74, 0x2F, 0, 0], 0x167), ([0xFF20, 0x74, 0x3C, 0, 0], 0x165),
    ([0xFF20, 0x74, 0x68, 0, 0], 0xFE), ([0xFF20, 0x75, 0x22, 0, 0], 0xFC), ([0xFF20, 0x75, 0x27, 0, 0], 0xFA)]"

definition compose_rows_30 :: "compose_row list" where
  "compose_rows_30 =
   [([0xFF20, 0x75, 0x2A, 0, 0], 0x16F), ([0xFF20, 0x75, 0x2C, 0, 0], 0x173),
    ([0xFF20, 0x75, 0x2D, 0, 0], 0x16B), ([0xFF20, 0x75, 0x2F, 0, 0], 0xB5),
    ([0xFF20, 0x75, 0x3E, 0, 0], 0xFB), ([0xFF20, 0x75, 0x5E, 0, 0], 0xFB),
    ([0xFF20, 0x75, 0x5F, 0, 0], 0x16B), ([0xFF20, 0x75, 0x60, 0, 0], 0xF9),
    ([0xFF20, 0x75, 0x7E, 0, 0], 0x169), ([0xFF20, 0x75, 0xA8, 0, 0], 0xFC),
    ([0xFF20, 0x75, 0xB4, 0, 0], 0xFA), ([0xFF20, 0x76, 0x5A, 0, 0], 0x17D),
    ([0xFF20, 0x76, 0x6C, 0, 0], 0x7C), ([0xFF20, 0x76, 0x7A, 0, 0], 0x17E),
    ([0xFF20, 0x77, 0x5E, 0, 0], 0x175), ([0xFF20, 0x78, 0x30, 0, 0], 0xA4),
    ([0xFF20, 0x78, 0x4F, 0, 0], 0xA4), ([0xFF20, 0x78, 0x6F, 0, 0], 0xA4), ([0xFF20, 0x78, 0x78, 0, 0], 0xD7),
    ([0xFF20, 0x79, 0x22, 0, 0], 0xFF), ([0xFF20, 0x79, 0x27, 0, 0], 0xFD), ([0xFF20, 0x79, 0x2D, 0, 0], 0xA5),
    ([0xFF20, 0x79, 0x3D, 0, 0], 0xA5), ([0xFF20, 0x79, 0x5E, 0, 0], 0x177),
    ([0xFF20, 0x79, 0xA8, 0, 0], 0xFF), ([0xFF20, 0x79, 0xB4, 0, 0], 0xFD),
    ([0xFF20, 0x7A, 0x27, 0, 0], 0x17A), ([0xFF20, 0x7A, 0x2E, 0, 0], 0x17C),
    ([0xFF20, 0x7A, 0x3C, 0, 0], 0x17E), ([0xFF20, 0x7C, 0x43, 0, 0], 0xA2),
    ([0xFF20, 0x7C, 0x63, 0, 0], 0xA2), ([0xFF20, 0x7E, 0x20, 0, 0], 0x7E),
    ([0xFF20, 0x7E, 0x22, 0x7E9, 0], 0x1FD7), ([0xFF20, 0x7E, 0x22, 0x7F5, 0], 0x1FE7),
    ([0xFF20, 0x7E, 0x28, 0x7C1, 0], 0x1F0F), ([0xFF20, 0x7E, 0x28, 0x7C7, 0], 0x1F2F),
    ([0xFF20, 0x7E, 0x28, 0x7C9, 0], 0x1F3F), ([0xFF20, 0x7E, 0x28, 0x7D5, 0], 0x1F5F),
    ([0xFF20, 0x7E, 0x28, 0x7D9, 0], 0x1F6F), ([0xFF20, 0x7E, 0x28, 0x7E1, 0], 0x1F07),
    ([0xFF20, 0x7E, 0x28, 0x7E7, 0], 0x1F27), ([0xFF20, 0x7E, 0x28, 0x7E9, 0], 0x1F37),
    ([0xFF20, 0x7E, 0x28, 0x7F5, 0], 0x1F57), ([0xFF20, 0x7E, 0x28, 0x7F9, 0], 0x1F67),
    ([0xFF20, 0x7E, 0x29, 0x7C1, 0], 0x1F0E), ([0xFF20, 0x7E, 0x29, 0x7C7, 0], 0x1F2E),
    ([0xFF20, 0x7E, 0x29, 0x7C9, 0], 0x1F3E), ([0xFF20, 0x7E, 0x29, 0x7D9, 0], 0x1F6E),
    ([0xFF20, 0x7E, 0x29, 0x7E1, 0], 0x1F06), ([0xFF20, 0x7E, 0x29, 0x7E7, 0], 0x1F26),
    ([0xFF20, 0x7E, 0x29, 0x7E9, 0], 0x1F36), ([0xFF20, 0x7E, 0x29, 0x7F5, 0], 0x1F56),
    ([0xFF20, 0x7E, 0x29, 0x7F9, 0], 0x1F66), ([0xFF20, 0x7E, 0x2B, 0x4F, 0], 0x1EE0),
    ([0xFF20, 0x7E, 0x2B, 0x55, 0], 0x1EEE), ([0xFF20, 0x7E, 0x2B, 0x6F, 0], 0x1EE1),
    ([0xFF20, 0x7E, 0x2B, 0x75, 0], 0x1EEF), ([0xFF20, 0x7E, 0x41, 0, 0], 0xC3),
    ([0xFF20, 0x7E, 0x45, 0, 0], 0x1EBC), ([0xFF20, 0x7E, 0x49, 0, 0], 0x128),
    ([0xFF20, 0x7E, 0x4E, 0, 0], 0xD1), ([0xFF20, 0x7E, 0x4F, 0, 0], 0xD5),
    ([0xFF20, 0x7E, 0x55, 0, 0], 0x168), ([0xFF20, 0x7E, 0x55, 0x41, 0], 0x1EB4),
    ([0xFF20, 0x7E, 0x55, 0x61, 0], 0x1EB5), ([0xFF20, 0x7E, 0x56, 0, 0], 0x1E7C),
    ([0xFF20, 0x7E, 0x59, 0, 0], 0x1EF8), ([0xFF20, 0x7E, 0x5E, 0x41, 0], 0x1EAA),
    ([0xFF20, 0x7E, 0x5E, 0x45, 0], 0x1EC4), ([0xFF20, 0x7E, 0x5E, 0x4F, 0], 0x1ED6),
    ([0xFF20, 0x7E, 0x5E, 0x61, 0], 0x1EAB), ([0xFF20, 0x7E, 0x5E, 0x65, 0], 0x1EC5),
    ([0xFF20, 0x7E, 0x5E, 0x6F, 0], 0x1ED7), ([0xFF20, 0x7E, 0x61, 0, 0], 0xE3),
    ([0xFF20, 0x7E, 0x62, 0x41, 0], 0x1EB4), ([0xFF20, 0x7E, 0x62, 0x61, 0], 0x1EB5),
    ([0xFF20, 0x7E, 0x65, 0, 0], 0x1EBD), ([0xFF20, 0x7E, 0x69, 0, 0], 0x129),
    ([0xFF20, 0x7E, 0x6E, 0, 0], 0xF1), ([0xFF20, 0x7E, 0x6F, 0, 0], 0xF5),
    ([0xFF20, 0x7E, 0x75, 0, 0], 0x169), ([0xFF20, 0x7E, 0x76, 0, 0], 0x1E7D),
    ([0xFF20, 0x7E, 0x79, 0, 0], 0x1EF9), ([0xFF20, 0x7E, 0xC2, 0, 0], 0x1EAA),
    ([0xFF20, 0x7E, 0xCA, 0, 0], 0x1EC4), ([0xFF20, 0x7E, 0xD4, 0, 0], 0x1ED6),
    ([0xFF20, 0x7E, 0xE2, 0, 0], 0x1EAB), ([0xFF20, 0x7E, 0xEA, 0, 0], 0x1EC5),
    ([0xFF20, 0x7E, 0xF4, 0, 0], 0x1ED7), ([0xFF20, 0x7E, 0x1C3, 0, 0], 0x1EB4),
    ([0xFF20, 0x7E, 0x1E3, 0, 0], 0x1EB5), ([0xFF20, 0x7E, 0x7B5, 0, 0], 0x1FD7),
    ([0xFF20, 0x7E, 0x7B9, 0, 0], 0x1FE7), ([0xFF20, 0x7E, 0x7E1, 0, 0], 0x1FB6),
    ([0xFF20, 0x7E, 0x7E7, 0, 0], 0x1FC6), ([0xFF20, 0x7E, 0x7E9, 0, 0], 0x1FD6),
    ([0xFF20, 0x7E, 0x7F5, 0, 0], 0x1FE6), ([0xFF20, 0x7E, 0x7F9, 0, 0], 0x1FF6),
    ([0xFF20, 0x7E, 0x1EFA, 0, 0], 0x1EE0), ([0xFF20, 0x7E, 0x1EFB, 0, 0], 0x1EE1),
    ([0xFF20, 0x7E, 0x1EFC, 0, 0], 0x1EEE), ([0xFF20, 0x7E, 0x1EFD, 0, 0], 0x1EEF),
    ([0xFF20, 0x7E, 0xFE52, 0x41, 0], 0x1EAA), ([0xFF20, 0x7E, 0xFE52, 0x45, 0], 0x1EC4),
    ([0xFF20, 0x7E, 0xFE52, 0x4F, 0], 0x1ED6), ([0xFF20, 0x7E, 0xFE52, 0x61, 0], 0x1EAB),
    ([0xFF20, 0x7E, 0xFE52, 0x65, 0], 0x1EC5), ([0xFF20, 0x7E, 0xFE52, 0x6F, 0], 0x1ED7),
    ([0xFF20, 0x7E, 0xFE55, 0x41, 0], 0x1EB4), ([0xFF20, 0x7E, 0xFE55, 0x61, 0], 0x1EB5),
    ([0xFF20, 0x7E, 0xFE57, 0x7E9, 0], 0x1FD7), ([0xFF20, 0x7E, 0xFE57, 0x7F5, 0], 0x1FE7),
    ([0xFF20, 0x7E, 0xFE62, 0x4F, 0], 0x1EE0), ([0xFF20, 0x7E, 0xFE62, 0x55, 0], 0x1EEE),
    ([0xFF20, 0x7E, 0xFE62, 0x6F, 0], 0x1EE1), ([0xFF20, 0x7E, 0xFE62, 0x75, 0], 0x1EEF),
    ([0xFF20, 0x7E, 0x1000313, 0x7C1, 0], 0x1F0E), ([0xFF20, 0x7E, 0x1000313, 0x7C7, 0], 0x1F2E),
    ([0xFF20, 0x7E, 0x1000313, 0x7C9, 0], 0x1F3E), ([0xFF20, 0x7E, 0x1000313, 0x7D9, 0], 0x1F6E),
    ([0xFF20, 0x7E, 0x1000313, 0x7E1, 0], 0x1F06), ([0xFF20, 0x7E, 0x1000313, 0x7E7, 0], 0x1F26),
    ([0xFF20, 0x7E, 0x1000313, 0x7E9, 0], 0x1F36), ([0xFF20, 0x7E, 0x1000313, 0x7F5, 0], 0x1F56),
    ([0xFF20, 0x7E, 0x1000313, 0x7F9, 0], 0x1F66), ([0xFF20, 0x7E, 0x1000314, 0x7C1, 0], 0x1F0F),
    ([0xFF20, 0x7E, 0x1000314, 0x7C7, 0], 0x1F2F), ([0xFF20, 0x7E, 0x1000314, 0x7C9, 0], 0x1F3F),
    ([0xFF20, 0x7E, 0x1000314, 0x7D5, 0], 0x1F5F), ([0xFF20, 0x7E, 0x1000314, 0x7D9, 0], 0x1F6F),
    ([0xFF20, 0x7E, 0x1000314, 0x7E1, 0], 0x1F07), ([0xFF20, 0x7E, 0x1000314, 0x7E7, 0], 0x1F27),
    ([0xFF20, 0x7E, 0x1000314, 0x7E9, 0], 0x1F37), ([0xFF20, 0x7E, 0x1000314, 0x7F5, 0], 0x1F57),
    ([0xFF20, 0x7E, 0x1000314, 0x7F9, 0], 0x1F67), ([0xFF20, 0x7E, 0x1001F00, 0, 0], 0x1F06),
    ([0xFF20, 0x7E, 0x1001F01, 0, 0], 0x1F07), ([0xFF20, 0x7E, 0x1001F08, 0, 0], 0x1F0E),
    ([0xFF20, 0x7E, 0x1001F09, 0, 0], 0x1F0F), ([0xFF20, 0x7E, 0x1001F20, 0, 0], 0x1F26),
    ([0xFF20, 0x7E, 0x1001F21, 0, 0], 0x1F27), ([0xFF20, 0x7E, 0x1001F28, 0, 0], 0x1F2E),
    ([0xFF20, 0x7E, 0x1001F29, 0, 0], 0x1F2F), ([0xFF20, 0x7E, 0x1001F30, 0, 0], 0x1F36),
    ([0xFF20, 0x7E, 0x1001F31, 0, 0], 0x1F37), ([0xFF20, 0x7E, 0x1001F38, 0, 0], 0x1F3E),
    ([0xFF20, 0x7E, 0x1001F39, 0, 0], 0x1F3F), ([0xFF20, 0x7E, 0x1001F50, 0, 0], 0x1F56)]"

definition compose_rows_31 :: "compose_row list" where
  "compose_rows_31 =
   [([0xFF20, 0x7E, 0x1001F51, 0, 0], 0x1F57), ([0xFF20, 0x7E, 0x1001F59, 0, 0], 0x1F5F),
    ([0xFF20, 0x7E, 0x1001F60, 0, 0], 0x1F66), ([0xFF20, 0x7E, 0x1001F61, 0, 0], 0x1F67),
    ([0xFF20, 0x7E, 0x1001F68, 0, 0], 0x1F6E), ([0xFF20, 0x7E, 0x1001F69, 0, 0], 0x1F6F),
    ([0xFF20, 0xA8, 0x27, 0, 0], 0x385), ([0xFF20, 0xA8, 0x41, 0, 0], 0xC4),
    ([0xFF20, 0xA8, 0x45, 0, 0], 0xCB), ([0xFF20, 0xA8, 0x49, 0, 0], 0xCF), ([0xFF20, 0xA8, 0x4F, 0, 0], 0xD6),
    ([0xFF20, 0xA8, 0x55, 0, 0], 0xDC), ([0xFF20, 0xA8, 0x59, 0, 0], 0x178),
    ([0xFF20, 0xA8, 0x60, 0, 0], 0x1FED), ([0xFF20, 0xA8, 0x61, 0, 0], 0xE4),
    ([0xFF20, 0xA8, 0x65, 0, 0], 0xEB), ([0xFF20, 0xA8, 0x69, 0, 0], 0xEF), ([0xFF20, 0xA8, 0x6F, 0, 0], 0xF6),
    ([0xFF20, 0xA8, 0x75, 0, 0], 0xFC), ([0xFF20, 0xA8, 0x79, 0, 0], 0xFF),
    ([0xFF20, 0xA8, 0x7E, 0, 0], 0x1FC1), ([0xFF20, 0xA8, 0xB4, 0, 0], 0x385),
    ([0xFF20, 0xA8, 0x1EF2, 0, 0], 0x1FED), ([0xFF20, 0xA8, 0x1EF3, 0, 0], 0x385),
    ([0xFF20, 0xA8, 0xFE50, 0, 0], 0x1FED), ([0xFF20, 0xA8, 0xFE51, 0, 0], 0x385),
    ([0xFF20, 0xA8, 0xFE53, 0, 0], 0x1FC1), ([0xFF20, 0xA8, 0x1000342, 0, 0], 0x1FC1),
    ([0xFF20, 0xAF, 0x21, 0x4C, 0], 0x1E38), ([0xFF20, 0xAF, 0x21, 0x52, 0], 0x1E5C),
    ([0xFF20, 0xAF, 0x21, 0x6C, 0], 0x1E39), ([0xFF20, 0xAF, 0x21, 0x72, 0], 0x1E5D),
    ([0xFF20, 0xAF, 0x22, 0x41, 0], 0x1DE), ([0xFF20, 0xAF, 0x22, 0x4F, 0], 0x22A),
    ([0xFF20, 0xAF, 0x22, 0x55, 0], 0x1D5), ([0xFF20, 0xAF, 0x22, 0x61, 0], 0x1DF),
    ([0xFF20, 0xAF, 0x22, 0x6F, 0], 0x22B), ([0xFF20, 0xAF, 0x22, 0x75, 0], 0x1D6),
    ([0xFF20, 0xAF, 0x2E, 0x41, 0], 0x1E0), ([0xFF20, 0xAF, 0x2E, 0x4F, 0], 0x230),
    ([0xFF20, 0xAF, 0x2E, 0x61, 0], 0x1E1), ([0xFF20, 0xAF, 0x2E, 0x6F, 0], 0x231),
    ([0xFF20, 0xAF, 0x3B, 0x4F, 0], 0x1EC), ([0xFF20, 0xAF, 0x3B, 0x6F, 0], 0x1ED),
    ([0xFF20, 0xAF, 0x41, 0, 0], 0x100), ([0xFF20, 0xAF, 0x45, 0, 0], 0x112),
    ([0xFF20, 0xAF, 0x47, 0, 0], 0x1E20), ([0xFF20, 0xAF, 0x49, 0, 0], 0x12A),
    ([0xFF20, 0xAF, 0x4F, 0, 0], 0x14C), ([0xFF20, 0xAF, 0x55, 0, 0], 0x16A),
    ([0xFF20, 0xAF, 0x59, 0, 0], 0x232), ([0xFF20, 0xAF, 0x61, 0, 0], 0x101),
    ([0xFF20, 0xAF, 0x65, 0, 0], 0x113), ([0xFF20, 0xAF, 0x67, 0, 0], 0x1E21),
    ([0xFF20, 0xAF, 0x69, 0, 0], 0x12B), ([0xFF20, 0xAF, 0x6F, 0, 0], 0x14D),
    ([0xFF20, 0xAF, 0x75, 0, 0], 0x16B), ([0xFF20, 0xAF, 0x79, 0, 0], 0x233),
    ([0xFF20, 0xAF, 0x7E, 0x4F, 0], 0x22C), ([0xFF20, 0xAF, 0x7E, 0x6F, 0], 0x22D),
    ([0xFF20, 0xAF, 0xC4, 0, 0], 0x1DE), ([0xFF20, 0xAF, 0xC6, 0, 0], 0x1E2),
    ([0xFF20, 0xAF, 0xD5, 0, 0], 0x22C), ([0xFF20, 0xAF, 0xD6, 0, 0], 0x22A),
    ([0xFF20, 0xAF, 0xDC, 0, 0], 0x1D5), ([0xFF20, 0xAF, 0xE4, 0, 0], 0x1DF),
    ([0xFF20, 0xAF, 0xE6, 0, 0], 0x1E3), ([0xFF20, 0xAF, 0xF5, 0, 0], 0x22D),
    ([0xFF20, 0xAF, 0xF6, 0, 0], 0x22B), ([0xFF20, 0xAF, 0xFC, 0, 0], 0x1D6),
    ([0xFF20, 0xAF, 0x6C9, 0, 0], 0x4E3), ([0xFF20, 0xAF, 0x6D5, 0, 0], 0x4EF),
    ([0xFF20, 0xAF, 0x6E9, 0, 0], 0x4E2), ([0xFF20, 0xAF, 0x6F5, 0, 0], 0x4EE),
    ([0xFF20, 0xAF, 0x7C1, 0, 0], 0x1FB9), ([0xFF20, 0xAF, 0x7C9, 0, 0], 0x1FD9),
    ([0xFF20, 0xAF, 0x7D5, 0, 0], 0x1FE9), ([0xFF20, 0xAF, 0x7E1, 0, 0], 0x1FB1),
    ([0xFF20, 0xAF, 0x7E9, 0, 0], 0x1FD1), ([0xFF20, 0xAF, 0x7F5, 0, 0], 0x1FE1),
    ([0xFF20, 0xAF, 0x1E9F, 0x4F, 0], 0x22C), ([0xFF20, 0xAF, 0x1E9F, 0x6F, 0], 0x22D),
    ([0xFF20, 0xAF, 0x1EFF, 0x4C, 0], 0x1E38), ([0xFF20, 0xAF, 0x1EFF, 0x52, 0], 0x1E5C),
    ([0xFF20, 0xAF, 0x1EFF, 0x6C, 0], 0x1E39), ([0xFF20, 0xAF, 0x1EFF, 0x72, 0], 0x1E5D),
    ([0xFF20, 0xAF, 0xFE53, 0x4F, 0], 0x22C), ([0xFF20, 0xAF, 0xFE53, 0x6F, 0], 0x22D),
    ([0xFF20, 0xAF, 0xFE56, 0x41, 0], 0x1E0), ([0xFF20, 0xAF, 0xFE56, 0x4F, 0], 0x230),
    ([0xFF20, 0xAF, 0xFE56, 0x61, 0], 0x1E1), ([0xFF20, 0xAF, 0xFE56, 0x6F, 0], 0x231),
    ([0xFF20, 0xAF, 0xFE57, 0x41, 0], 0x1DE), ([0xFF20, 0xAF, 0xFE57, 0x4F, 0], 0x22A),
    ([0xFF20, 0xAF, 0xFE57, 0x55, 0], 0x1D5), ([0xFF20, 0xAF, 0xFE57, 0x61, 0], 0x1DF),
    ([0xFF20, 0xAF, 0xFE57, 0x6F, 0], 0x22B), ([0xFF20, 0xAF, 0xFE57, 0x75, 0], 0x1D6),
    ([0xFF20, 0xAF, 0xFE5C, 0x4F, 0], 0x1EC), ([0xFF20, 0xAF, 0xFE5C, 0x6F, 0], 0x1ED),
    ([0xFF20, 0xAF, 0xFE60, 0x4C, 0], 0x1E38), ([0xFF20, 0xAF, 0xFE60, 0x52, 0], 0x1E5C),
    ([0xFF20, 0xAF, 0xFE60, 0x6C, 0], 0x1E39), ([0xFF20, 0xAF, 0xFE60, 0x72, 0], 0x1E5D),
    ([0xFF20, 0xAF, 0x10001EA, 0, 0], 0x1EC), ([0xFF20, 0xAF, 0x10001EB, 0, 0], 0x1ED),
    ([0xFF20, 0xAF, 0x1000226, 0, 0], 0x1E0), ([0xFF20, 0xAF, 0x1000227, 0, 0], 0x1E1),
    ([0xFF20, 0xAF, 0x100022E, 0, 0], 0x230), ([0xFF20, 0xAF, 0x100022F, 0, 0], 0x231),
    ([0xFF20, 0xAF, 0x1001E36, 0, 0], 0x1E38), ([0xFF20, 0xAF, 0x1001E37, 0, 0], 0x1E39),
    ([0xFF20, 0xAF, 0x1001E5A, 0, 0], 0x1E5C), ([0xFF20, 0xAF, 0x1001E5B, 0, 0], 0x1E5D),
    ([0xFF20, 0xB4, 0x22, 0x49, 0], 0x1E2E), ([0xFF20, 0xB4, 0x22, 0x55, 0], 0x1D7),
    ([0xFF20, 0xB4, 0x22, 0x69, 0], 0x1E2F), ([0xFF20, 0xB4, 0x22, 0x75, 0], 0x1D8),
    ([0xFF20, 0xB4, 0x22, 0x7E9, 0], 0x390), ([0xFF20, 0xB4, 0x22, 0x7F5, 0], 0x3B0),
    ([0xFF20, 0xB4, 0x28, 0x7C1, 0], 0x1F0D), ([0xFF20, 0xB4, 0x28, 0x7C5, 0], 0x1F1D),
    ([0xFF20, 0xB4, 0x28, 0x7C7, 0], 0x1F2D), ([0xFF20, 0xB4, 0x28, 0x7C9, 0], 0x1F3D),
    ([0xFF20, 0xB4, 0x28, 0x7CF, 0], 0x1F4D), ([0xFF20, 0xB4, 0x28, 0x7D5, 0], 0x1F5D),
    ([0xFF20, 0xB4, 0x28, 0x7D9, 0], 0x1F6D), ([0xFF20, 0xB4, 0x28, 0x7E1, 0], 0x1F05),
    ([0xFF20, 0xB4, 0x28, 0x7E5, 0], 0x1F15), ([0xFF20, 0xB4, 0x28, 0x7E7, 0], 0x1F25),
    ([0xFF20, 0xB4, 0x28, 0x7E9, 0], 0x1F35), ([0xFF20, 0xB4, 0x28, 0x7EF, 0], 0x1F45),
    ([0xFF20, 0xB4, 0x28, 0x7F5, 0], 0x1F55), ([0xFF20, 0xB4, 0x28, 0x7F9, 0], 0x1F65),
    ([0xFF20, 0xB4, 0x29, 0x7C1, 0], 0x1F0C), ([0xFF20, 0xB4, 0x29, 0x7C5, 0], 0x1F1C),
    ([0xFF20, 0xB4, 0x29, 0x7C7, 0], 0x1F2C), ([0xFF20, 0xB4, 0x29, 0x7C9, 0], 0x1F3C),
    ([0xFF20, 0xB4, 0x29, 0x7CF, 0], 0x1F4C), ([0xFF20, 0xB4, 0x29, 0x7D9, 0], 0x1F6C),
    ([0xFF20, 0xB4, 0x29, 0x7E1, 0], 0x1F04), ([0xFF20, 0xB4, 0x29, 0x7E5, 0], 0x1F14),
    ([0xFF20, 0xB4, 0x29, 0x7E7, 0], 0x1F24), ([0xFF20, 0xB4, 0x29, 0x7E9, 0], 0x1F34),
    ([0xFF20, 0xB4, 0x29, 0x7EF, 0], 0x1F44), ([0xFF20, 0xB4, 0x29, 0x7F5, 0], 0x1F54),
    ([0xFF20, 0xB4, 0x29, 0x7F9, 0], 0x1F64), ([0xFF20, 0xB4, 0x2B, 0x4F, 0], 0x1EDA)]"

definition compose_rows_32 :: "compose_row list" where
  "compose_rows_32 =
   [([0xFF20, 0xB4, 0x2B, 0x55, 0], 0x1EE8), ([0xFF20, 0xB4, 0x2B, 0x6F, 0], 0x1EDB),
    ([0xFF20, 0xB4, 0x2B, 0x75, 0], 0x1EE9), ([0xFF20, 0xB4, 0x2C, 0x43, 0], 0x1E08),
    ([0xFF20, 0xB4, 0x2C, 0x63, 0], 0x1E09), ([0xFF20, 0xB4, 0x2F, 0x4F, 0], 0x1FE),
    ([0xFF20, 0xB4, 0x2F, 0x6F, 0], 0x1FF), ([0xFF20, 0xB4, 0x41, 0, 0], 0xC1),
    ([0xFF20, 0xB4, 0x43, 0, 0], 0x106), ([0xFF20, 0xB4, 0x45, 0, 0], 0xC9),
    ([0xFF20, 0xB4, 0x47, 0, 0], 0x1F4), ([0xFF20, 0xB4, 0x49, 0, 0], 0xCD),
    ([0xFF20, 0xB4, 0x4B, 0, 0], 0x1E30), ([0xFF20, 0xB4, 0x4C, 0, 0], 0x139),
    ([0xFF20, 0xB4, 0x4D, 0, 0], 0x1E3E), ([0xFF20, 0xB4, 0x4E, 0, 0], 0x143),
    ([0xFF20, 0xB4, 0x4F, 0, 0], 0xD3), ([0xFF20, 0xB4, 0x50, 0, 0], 0x1E54),
    ([0xFF20, 0xB4, 0x52, 0, 0], 0x154), ([0xFF20, 0xB4, 0x53, 0, 0], 0x15A),
    ([0xFF20, 0xB4, 0x55, 0, 0], 0xDA), ([0xFF20, 0xB4, 0x55, 0x41, 0], 0x1EAE),
    ([0xFF20, 0xB4, 0x55, 0x61, 0], 0x1EAF), ([0xFF20, 0xB4, 0x57, 0, 0], 0x1E82),
    ([0xFF20, 0xB4, 0x59, 0, 0], 0xDD), ([0xFF20, 0xB4, 0x5A, 0, 0], 0x179),
    ([0xFF20, 0xB4, 0x5E, 0x41, 0], 0x1EA4), ([0xFF20, 0xB4, 0x5E, 0x45, 0], 0x1EBE),
    ([0xFF20, 0xB4, 0x5E, 0x4F, 0], 0x1ED0), ([0xFF20, 0xB4, 0x5E, 0x61, 0], 0x1EA5),
    ([0xFF20, 0xB4, 0x5E, 0x65, 0], 0x1EBF), ([0xFF20, 0xB4, 0x5E, 0x6F, 0], 0x1ED1),
    ([0xFF20, 0xB4, 0x5F, 0x45, 0], 0x1E16), ([0xFF20, 0xB4, 0x5F, 0x4F, 0], 0x1E52),
    ([0xFF20, 0xB4, 0x5F, 0x65, 0], 0x1E17), ([0xFF20, 0xB4, 0x5F, 0x6F, 0], 0x1E53),
    ([0xFF20, 0xB4, 0x61, 0, 0], 0xE1), ([0xFF20, 0xB4, 0x62, 0x41, 0], 0x1EAE),
    ([0xFF20, 0xB4, 0x62, 0x61, 0], 0x1EAF), ([0xFF20, 0xB4, 0x63, 0, 0], 0x107),
    ([0xFF20, 0xB4, 0x65, 0, 0], 0xE9), ([0xFF20, 0xB4, 0x67, 0, 0], 0x1F5),
    ([0xFF20, 0xB4, 0x69, 0, 0], 0xED), ([0xFF20, 0xB4, 0x6B, 0, 0], 0x1E31),
    ([0xFF20, 0xB4, 0x6C, 0, 0], 0x13A), ([0xFF20, 0xB4, 0x6D, 0, 0], 0x1E3F),
    ([0xFF20, 0xB4, 0x6E, 0, 0], 0x144), ([0xFF20, 0xB4, 0x6F, 0, 0], 0xF3),
    ([0xFF20, 0xB4, 0x6F, 0x41, 0], 0x1FA), ([0xFF20, 0xB4, 0x6F, 0x61, 0], 0x1FB),
    ([0xFF20, 0xB4, 0x70, 0, 0], 0x1E55), ([0xFF20, 0xB4, 0x72, 0, 0], 0x155),
    ([0xFF20, 0xB4, 0x73, 0, 0], 0x15B), ([0xFF20, 0xB4, 0x75, 0, 0], 0xFA),
    ([0xFF20, 0xB4, 0x77, 0, 0], 0x1E83), ([0xFF20, 0xB4, 0x79, 0, 0], 0xFD),
    ([0xFF20, 0xB4, 0x7A, 0, 0], 0x17A), ([0xFF20, 0xB4, 0x7E, 0x4F, 0], 0x1E4C),
    ([0xFF20, 0xB4, 0x7E, 0x55, 0], 0x1E78), ([0xFF20, 0xB4, 0x7E, 0x6F, 0], 0x1E4D),
    ([0xFF20, 0xB4, 0x7E, 0x75, 0], 0x1E79), ([0xFF20, 0xB4, 0xAF, 0x45, 0], 0x1E16),
    ([0xFF20, 0xB4, 0xAF, 0x4F, 0], 0x1E52), ([0xFF20, 0xB4, 0xAF, 0x65, 0], 0x1E17),
    ([0xFF20, 0xB4, 0xAF, 0x6F, 0], 0x1E53), ([0xFF20, 0xB4, 0xC2, 0, 0], 0x1EA4),
    ([0xFF20, 0xB4, 0xC5, 0, 0], 0x1FA), ([0xFF20, 0xB4, 0xC6, 0, 0], 0x1FC),
    ([0xFF20, 0xB4, 0xC7, 0, 0], 0x1E08), ([0xFF20, 0xB4, 0xCA, 0, 0], 0x1EBE),
    ([0xFF20, 0xB4, 0xCF, 0, 0], 0x1E2E), ([0xFF20, 0xB4, 0xD4, 0, 0], 0x1ED0),
    ([0xFF20, 0xB4, 0xD5, 0, 0], 0x1E4C), ([0xFF20, 0xB4, 0xD8, 0, 0], 0x1FE),
    ([0xFF20, 0xB4, 0xDC, 0, 0], 0x1D7), ([0xFF20, 0xB4, 0xE2, 0, 0], 0x1EA5),
    ([0xFF20, 0xB4, 0xE5, 0, 0], 0x1FB), ([0xFF20, 0xB4, 0xE6, 0, 0], 0x1FD),
    ([0xFF20, 0xB4, 0xE7, 0, 0], 0x1E09), ([0xFF20, 0xB4, 0xEA, 0, 0], 0x1EBF),
    ([0xFF20, 0xB4, 0xEF, 0, 0], 0x1E2F), ([0xFF20, 0xB4, 0xF4, 0, 0], 0x1ED1),
    ([0xFF20, 0xB4, 0xF5, 0, 0], 0x1E4D), ([0xFF20, 0xB4, 0xF8, 0, 0], 0x1FF),
    ([0xFF20, 0xB4, 0xFC, 0, 0], 0x1D8), ([0xFF20, 0xB4, 0x1C3, 0, 0], 0x1EAE),
    ([0xFF20, 0xB4, 0x1E3, 0, 0], 0x1EAF), ([0xFF20, 0xB4, 0x3AA, 0, 0], 0x1E16),
    ([0xFF20, 0xB4, 0x3BA, 0, 0], 0x1E17), ([0xFF20, 0xB4, 0x3D2, 0, 0], 0x1E52),
    ([0xFF20, 0xB4, 0x3DD, 0, 0], 0x1E78), ([0xFF20, 0xB4, 0x3F2, 0, 0], 0x1E53),
    ([0xFF20, 0xB4, 0x3FD, 0, 0], 0x1E79), ([0xFF20, 0xB4, 0x6C7, 0, 0], 0x453),
    ([0xFF20, 0xB4, 0x6CB, 0, 0], 0x45C), ([0xFF20, 0xB4, 0x6E7, 0, 0], 0x403),
    ([0xFF20, 0xB4, 0x6EB, 0, 0], 0x40C), ([0xFF20, 0xB4, 0x7B5, 0, 0], 0x390),
    ([0xFF20, 0xB4, 0x7B9, 0, 0], 0x3B0), ([0xFF20, 0xB4, 0x7C1, 0, 0], 0x386),
    ([0xFF20, 0xB4, 0x7C5, 0, 0], 0x388), ([0xFF20, 0xB4, 0x7C7, 0, 0], 0x389),
    ([0xFF20, 0xB4, 0x7C9, 0, 0], 0x38A), ([0xFF20, 0xB4, 0x7CF, 0, 0], 0x38C),
    ([0xFF20, 0xB4, 0x7D5, 0, 0], 0x38E), ([0xFF20, 0xB4, 0x7D9, 0, 0], 0x38F),
    ([0xFF20, 0xB4, 0x7E1, 0, 0], 0x3AC), ([0xFF20, 0xB4, 0x7E5, 0, 0], 0x3AD),
    ([0xFF20, 0xB4, 0x7E7, 0, 0], 0x3AE), ([0xFF20, 0xB4, 0x7E9, 0, 0], 0x3AF),
    ([0xFF20, 0xB4, 0x7EF, 0, 0], 0x3CC), ([0xFF20, 0xB4, 0x7F5, 0, 0], 0x3CD),
    ([0xFF20, 0xB4, 0x7F9, 0, 0], 0x3CE), ([0xFF20, 0xB4, 0x1E9F, 0x4F, 0], 0x1E4C),
    ([0xFF20, 0xB4, 0x1E9F, 0x55, 0], 0x1E78), ([0xFF20, 0xB4, 0x1E9F, 0x6F, 0], 0x1E4D),
    ([0xFF20, 0xB4, 0x1E9F, 0x75, 0], 0x1E79), ([0xFF20, 0xB4, 0x1EFA, 0, 0], 0x1EDA),
    ([0xFF20, 0xB4, 0x1EFB, 0, 0], 0x1EDB), ([0xFF20, 0xB4, 0x1EFC, 0, 0], 0x1EE8),
    ([0xFF20, 0xB4, 0x1EFD, 0, 0], 0x1EE9), ([0xFF20, 0xB4, 0xFE52, 0x41, 0], 0x1EA4),
    ([0xFF20, 0xB4, 0xFE52, 0x45, 0], 0x1EBE), ([0xFF20, 0xB4, 0xFE52, 0x4F, 0], 0x1ED0),
    ([0xFF20, 0xB4, 0xFE52, 0x61, 0], 0x1EA5), ([0xFF20, 0xB4, 0xFE52, 0x65, 0], 0x1EBF),
    ([0xFF20, 0xB4, 0xFE52, 0x6F, 0], 0x1ED1), ([0xFF20, 0xB4, 0xFE53, 0x4F, 0], 0x1E4C),
    ([0xFF20, 0xB4, 0xFE53, 0x55, 0], 0x1E78), ([0xFF20, 0xB4, 0xFE53, 0x6F, 0], 0x1E4D),
    ([0xFF20, 0xB4, 0xFE53, 0x75, 0], 0x1E79), ([0xFF20, 0xB4, 0xFE54, 0x45, 0], 0x1E16),
    ([0xFF20, 0xB4, 0xFE54, 0x4F, 0], 0x1E52), ([0xFF20, 0xB4, 0xFE54, 0x65, 0], 0x1E17),
    ([0xFF20, 0xB4, 0xFE54, 0x6F, 0], 0x1E53), ([0xFF20, 0xB4, 0xFE55, 0x41, 0], 0x1EAE),
    ([0xFF20, 0xB4, 0xFE55, 0x61, 0], 0x1EAF), ([0xFF20, 0xB4, 0xFE57, 0x49, 0], 0x1E2E),
    ([0xFF20, 0xB4, 0xFE57, 0x55, 0], 0x1D7), ([0xFF20, 0xB4, 0xFE57, 0x69, 0], 0x1E2F),
    ([0xFF20, 0xB4, 0xFE57, 0x75, 0], 0x1D8), ([0xFF20, 0xB4, 0xFE57, 0x7E9, 0], 0x390),
    ([0xFF20, 0xB4, 0xFE57, 0x7F5, 0], 0x3B0), ([0xFF20, 0xB4, 0xFE58, 0x41, 0], 0x1FA),
    ([0xFF20, 0xB4, 0xFE58, 0x61, 0], 0x1FB), ([0xFF20, 0xB4, 0xFE5B, 0x43, 0], 0x1E08),
    ([0xFF20, 0xB4, 0xFE5B, 0x63, 0], 0x1E09), ([0xFF20, 0xB4, 0xFE62, 0x4F, 0], 0x1EDA)]"

definition compose_rows_33 :: "compose_row list" where
  "compose_rows_33 =
   [([0xFF20, 0xB4, 0xFE62, 0x55, 0], 0x1EE8), ([0xFF20, 0xB4, 0xFE62, 0x6F, 0], 0x1EDB),
    ([0xFF20, 0xB4, 0xFE62, 0x75, 0], 0x1EE9), ([0xFF20, 0xB4, 0xFFAF, 0x4F, 0], 0x1FE),
    ([0xFF20, 0xB4, 0xFFAF, 0x6F, 0], 0x1FF), ([0xFF20, 0xB4, 0x1000313, 0x7C1, 0], 0x1F0C),
    ([0xFF20, 0xB4, 0x1000313, 0x7C5, 0], 0x1F1C), ([0xFF20, 0xB4, 0x1000313, 0x7C7, 0], 0x1F2C),
    ([0xFF20, 0xB4, 0x1000313, 0x7C9, 0], 0x1F3C), ([0xFF20, 0xB4, 0x1000313, 0x7CF, 0], 0x1F4C),
    ([0xFF20, 0xB4, 0x1000313, 0x7D9, 0], 0x1F6C), ([0xFF20, 0xB4, 0x1000313, 0x7E1, 0], 0x1F04),
    ([0xFF20, 0xB4, 0x1000313, 0x7E5, 0], 0x1F14), ([0xFF20, 0xB4, 0x1000313, 0x7E7, 0], 0x1F24),
    ([0xFF20, 0xB4, 0x1000313, 0x7E9, 0], 0x1F34), ([0xFF20, 0xB4, 0x1000313, 0x7EF, 0], 0x1F44),
    ([0xFF20, 0xB4, 0x1000313, 0x7F5, 0], 0x1F54), ([0xFF20, 0xB4, 0x1000313, 0x7F9, 0], 0x1F64),
    ([0xFF20, 0xB4, 0x1000314, 0x7C1, 0], 0x1F0D), ([0xFF20, 0xB4, 0x1000314, 0x7C5, 0], 0x1F1D),
    ([0xFF20, 0xB4, 0x1000314, 0x7C7, 0], 0x1F2D), ([0xFF20, 0xB4, 0x1000314, 0x7C9, 0], 0x1F3D),
    ([0xFF20, 0xB4, 0x1000314, 0x7CF, 0], 0x1F4D), ([0xFF20, 0xB4, 0x1000314, 0x7D5, 0], 0x1F5D),
    ([0xFF20, 0xB4, 0x1000314, 0x7D9, 0], 0x1F6D), ([0xFF20, 0xB4, 0x1000314, 0x7E1, 0], 0x1F05),
    ([0xFF20, 0xB4, 0x1000314, 0x7E5, 0], 0x1F15), ([0xFF20, 0xB4, 0x1000314, 0x7E7, 0], 0x1F25),
    ([0xFF20, 0xB4, 0x1000314, 0x7E9, 0], 0x1F35), ([0xFF20, 0xB4, 0x1000314, 0x7EF, 0], 0x1F45),
    ([0xFF20, 0xB4, 0x1000314, 0x7F5, 0], 0x1F55), ([0xFF20, 0xB4, 0x1000314, 0x7F9, 0], 0x1F65),
    ([0xFF20, 0xB4, 0x10003D2, 0, 0], 0x3D3), ([0xFF20, 0xB4, 0x1001F00, 0, 0], 0x1F04),
    ([0xFF20, 0xB4, 0x1001F01, 0, 0], 0x1F05), ([0xFF20, 0xB4, 0x1001F08, 0, 0], 0x1F0C),
    ([0xFF20, 0xB4, 0x1001F09, 0, 0], 0x1F0D), ([0xFF20, 0xB4, 0x1001F10, 0, 0], 0x1F14),
    ([0xFF20, 0xB4, 0x1001F11, 0, 0], 0x1F15), ([0xFF20, 0xB4, 0x1001F18, 0, 0], 0x1F1C),
    ([0xFF20, 0xB4, 0x1001F19, 0, 0], 0x1F1D), ([0xFF20, 0xB4, 0x1001F20, 0, 0], 0x1F24),
    ([0xFF20, 0xB4, 0x1001F21, 0, 0], 0x1F25), ([0xFF20, 0xB4, 0x1001F28, 0, 0], 0x1F2C),
    ([0xFF20, 0xB4, 0x1001F29, 0, 0], 0x1F2D), ([0xFF20, 0xB4, 0x1001F30, 0, 0], 0x1F34),
    ([0xFF20, 0xB4, 0x1001F31, 0, 0], 0x1F35), ([0xFF20, 0xB4, 0x1001F38, 0, 0], 0x1F3C),
    ([0xFF20, 0xB4, 0x1001F39, 0, 0], 0x1F3D), ([0xFF20, 0xB4, 0x1001F40, 0, 0], 0x1F44),
    ([0xFF20, 0xB4, 0x1001F41, 0, 0], 0x1F45), ([0xFF20, 0xB4, 0x1001F48, 0, 0], 0x1F4C),
    ([0xFF20, 0xB4, 0x1001F49, 0, 0], 0x1F4D), ([0xFF20, 0xB4, 0x1001F50, 0, 0], 0x1F54),
    ([0xFF20, 0xB4, 0x1001F51, 0, 0], 0x1F55), ([0xFF20, 0xB4, 0x1001F59, 0, 0], 0x1F5D),
    ([0xFF20, 0xB4, 0x1001F60, 0, 0], 0x1F64), ([0xFF20, 0xB4, 0x1001F61, 0, 0], 0x1F65),
    ([0xFF20, 0xB4, 0x1001F68, 0, 0], 0x1F6C), ([0xFF20, 0xB4, 0x1001F69, 0, 0], 0x1F6D),
    ([0xFF20, 0xB8, 0x53, 0, 0], 0x15E), ([0xFF20, 0xB8, 0x73, 0, 0], 0x15F),
    ([0xFF20, 0x1A2, 0x47, 0, 0], 0x11E), ([0xFF20, 0x1A2, 0x67, 0, 0], 0x11F),
    ([0xFF20, 0x7C1, 0x27, 0, 0], 0x386), ([0xFF20, 0x7C5, 0x27, 0, 0], 0x388),
    ([0xFF20, 0x7C7, 0x27, 0, 0], 0x389), ([0xFF20, 0x7C9, 0x22, 0, 0], 0x3AA),
    ([0xFF20, 0x7C9, 0x27, 0, 0], 0x38A), ([0xFF20, 0x7CF, 0x27, 0, 0], 0x38C),
    ([0xFF20, 0x7D5, 0x22, 0, 0], 0x3AB), ([0xFF20, 0x7D5, 0x27, 0, 0], 0x38E),
    ([0xFF20, 0x7D9, 0x27, 0, 0], 0x38F), ([0xFF20, 0x7E1, 0x27, 0, 0], 0x3AC),
    ([0xFF20, 0x7E5, 0x27, 0, 0], 0x3AD), ([0xFF20, 0x7E7, 0x27, 0, 0], 0x3AE),
    ([0xFF20, 0x7E9, 0x22, 0, 0], 0x3CA), ([0xFF20, 0x7E9, 0x27, 0, 0], 0x3AF),
    ([0xFF20, 0x7E9, 0x27, 0x28, 0x7C1], 0x1F8D), ([0xFF20, 0x7E9, 0x27, 0x28, 0x7C7], 0x1F9D),
    ([0xFF20, 0x7E9, 0x27, 0x28, 0x7D9], 0x1FAD), ([0xFF20, 0x7E9, 0x27, 0x28, 0x7E1], 0x1F85),
    ([0xFF20, 0x7E9, 0x27, 0x28, 0x7E7], 0x1F95), ([0xFF20, 0x7E9, 0x27, 0x28, 0x7F9], 0x1FA5),
    ([0xFF20, 0x7E9, 0x27, 0x29, 0x7C1], 0x1F8C), ([0xFF20, 0x7E9, 0x27, 0x29, 0x7C7], 0x1F9C),
    ([0xFF20, 0x7E9, 0x27, 0x29, 0x7D9], 0x1FAC), ([0xFF20, 0x7E9, 0x27, 0x29, 0x7E1], 0x1F84),
    ([0xFF20, 0x7E9, 0x27, 0x29, 0x7E7], 0x1F94), ([0xFF20, 0x7E9, 0x27, 0x29, 0x7F9], 0x1FA4),
    ([0xFF20, 0x7E9, 0x27, 0x7E1, 0], 0x1FB4), ([0xFF20, 0x7E9, 0x27, 0x7E7, 0], 0x1FC4),
    ([0xFF20, 0x7E9, 0x27, 0x7F9, 0], 0x1FF4), ([0xFF20, 0x7E9, 0x27, 0x1000313, 0x7C1], 0x1F8C),
    ([0xFF20, 0x7E9, 0x27, 0x1000313, 0x7C7], 0x1F9C), ([0xFF20, 0x7E9, 0x27, 0x1000313, 0x7D9], 0x1FAC),
    ([0xFF20, 0x7E9, 0x27, 0x1000313, 0x7E1], 0x1F84), ([0xFF20, 0x7E9, 0x27, 0x1000313, 0x7E7], 0x1F94),
    ([0xFF20, 0x7E9, 0x27, 0x1000313, 0x7F9], 0x1FA4), ([0xFF20, 0x7E9, 0x27, 0x1000314, 0x7C1], 0x1F8D),
    ([0xFF20, 0x7E9, 0x27, 0x1000314, 0x7C7], 0x1F9D), ([0xFF20, 0x7E9, 0x27, 0x1000314, 0x7D9], 0x1FAD),
    ([0xFF20, 0x7E9, 0x27, 0x1000314, 0x7E1], 0x1F85), ([0xFF20, 0x7E9, 0x27, 0x1000314, 0x7E7], 0x1F95),
    ([0xFF20, 0x7E9, 0x27, 0x1000314, 0x7F9], 0x1FA5), ([0xFF20, 0x7E9, 0x27, 0x1001F00, 0], 0x1F84),
    ([0xFF20, 0x7E9, 0x27, 0x1001F01, 0], 0x1F85), ([0xFF20, 0x7E9, 0x27, 0x1001F08, 0], 0x1F8C),
    ([0xFF20, 0x7E9, 0x27, 0x1001F09, 0], 0x1F8D), ([0xFF20, 0x7E9, 0x27, 0x1001F20, 0], 0x1F94),
    ([0xFF20, 0x7E9, 0x27, 0x1001F21, 0], 0x1F95), ([0xFF20, 0x7E9, 0x27, 0x1001F28, 0], 0x1F9C),
    ([0xFF20, 0x7E9, 0x27, 0x1001F29, 0], 0x1F9D), ([0xFF20, 0x7E9, 0x27, 0x1001F60, 0], 0x1FA4),
    ([0xFF20, 0x7E9, 0x27, 0x1001F61, 0], 0x1FA5), ([0xFF20, 0x7E9, 0x27, 0x1001F68, 0], 0x1FAC),
    ([0xFF20, 0x7E9, 0x27, 0x1001F69, 0], 0x1FAD), ([0xFF20, 0x7E9, 0x28, 0x7C1, 0], 0x1F89),
    ([0xFF20, 0x7E9, 0x28, 0x7C7, 0], 0x1F99), ([0xFF20, 0x7E9, 0x28, 0x7D9, 0], 0x1FA9),
    ([0xFF20, 0x7E9, 0x28, 0x7E1, 0], 0x1F81), ([0xFF20, 0x7E9, 0x28, 0x7E7, 0], 0x1F91),
    ([0xFF20, 0x7E9, 0x28, 0x7F9, 0], 0x1FA1), ([0xFF20, 0x7E9, 0x29, 0x7C1, 0], 0x1F88),
    ([0xFF20, 0x7E9, 0x29, 0x7C7, 0], 0x1F98), ([0xFF20, 0x7E9, 0x29, 0x7D9, 0], 0x1FA8),
    ([0xFF20, 0x7E9, 0x29, 0x7E1, 0], 0x1F80), ([0xFF20, 0x7E9, 0x29, 0x7E7, 0], 0x1F90),
    ([0xFF20, 0x7E9, 0x29, 0x7F9, 0], 0x1FA0), ([0xFF20, 0x7E9, 0x60, 0x28, 0x7C1], 0x1F8B),
    ([0xFF20, 0x7E9, 0x60, 0x28, 0x7C7], 0x1F9B), ([0xFF20, 0x7E9, 0x60, 0x28, 0x7D9], 0x1FAB),
    ([0xFF20, 0x7E9, 0x60, 0x28, 0x7E1], 0x1F83), ([0xFF20, 0x7E9, 0x60, 0x28, 0x7E7], 0x1F93),
    ([0xFF20, 0x7E9, 0x60, 0x28, 0x7F9], 0x1FA3), ([0xFF20, 0x7E9, 0x60, 0x29, 0x7C1], 0x1F8A),
    ([0xFF20, 0x7E9, 0x60, 0x29, 0x7C7], 0x1F9A), ([0xFF20, 0x7E9, 0x60, 0x29, 0x7D9], 0x1FAA),
    ([0xFF20, 0x7E9, 0x60, 0x29, 0x7E1], 0x1F82), ([0xFF20, 0x7E9, 0x60, 0x29, 0x7E7], 0x1F92),
    ([0xFF20, 0x7E9, 0x60, 0x29, 0x7F9], 0x1FA2), ([0xFF20, 0x7E9, 0x60, 0x7E1, 0], 0x1FB2),
    ([0xFF20, 0x7E9, 0x60, 0x7E7, 0], 0x1FC2), ([0xFF20, 0x7E9, 0x60, 0x7F9, 0], 0x1FF2),
    ([0xFF20, 0x7E9, 0x60, 0x1000313, 0x7C1], 0x1F8A), ([0xFF20, 0x7E9, 0x60, 0x1000313, 0x7C7], 0x1F9A),
    ([0xFF20, 0x7E9, 0x60, 0x1000313, 0x7D9], 0x1FAA), ([0xFF20, 0x7E9, 0x60, 0x1000313, 0x7E1], 0x1F82)]"

definition compose_rows_34 :: "compose_row list" where
  "compose_rows_34 =
   [([0xFF20, 0x7E9, 0x60, 0x1000313, 0x7E7], 0x1F92), ([0xFF20, 0x7E9, 0x60, 0x1000313, 0x7F9], 0x1FA2),
    ([0xFF20, 0x7E9, 0x60, 0x1000314, 0x7C1], 0x1F8B), ([0xFF20, 0x7E9, 0x60, 0x1000314, 0x7C7], 0x1F9B),
    ([0xFF20, 0x7E9, 0x60, 0x1000314, 0x7D9], 0x1FAB), ([0xFF20, 0x7E9, 0x60, 0x1000314, 0x7E1], 0x1F83),
    ([0xFF20, 0x7E9, 0x60, 0x1000314, 0x7E7], 0x1F93), ([0xFF20, 0x7E9, 0x60, 0x1000314, 0x7F9], 0x1FA3),
    ([0xFF20, 0x7E9, 0x60, 0x1001F00, 0], 0x1F82), ([0xFF20, 0x7E9, 0x60, 0x1001F01, 0], 0x1F83),
    ([0xFF20, 0x7E9, 0x60, 0x1001F08, 0], 0x1F8A), ([0xFF20, 0x7E9, 0x60, 0x1001F09, 0], 0x1F8B),
    ([0xFF20, 0x7E9, 0x60, 0x1001F20, 0], 0x1F92), ([0xFF20, 0x7E9, 0x60, 0x1001F21, 0], 0x1F93),
    ([0xFF20, 0x7E9, 0x60, 0x1001F28, 0], 0x1F9A), ([0xFF20, 0x7E9, 0x60, 0x1001F29, 0], 0x1F9B),
    ([0xFF20, 0x7E9, 0x60, 0x1001F60, 0], 0x1FA2), ([0xFF20, 0x7E9, 0x60, 0x1001F61, 0], 0x1FA3),
    ([0xFF20, 0x7E9, 0x60, 0x1001F68, 0], 0x1FAA), ([0xFF20, 0x7E9, 0x60, 0x1001F69, 0], 0x1FAB),
    ([0xFF20, 0x7E9, 0x7E, 0x28, 0x7C1], 0x1F8F), ([0xFF20, 0x7E9, 0x7E, 0x28, 0x7C7], 0x1F9F),
    ([0xFF20, 0x7E9, 0x7E, 0x28, 0x7D9], 0x1FAF), ([0xFF20, 0x7E9, 0x7E, 0x28, 0x7E1], 0x1F87),
    ([0xFF20, 0x7E9, 0x7E, 0x28, 0x7E7], 0x1F97), ([0xFF20, 0x7E9, 0x7E, 0x28, 0x7F9], 0x1FA7),
    ([0xFF20, 0x7E9, 0x7E, 0x29, 0x7C1], 0x1F8E), ([0xFF20, 0x7E9, 0x7E, 0x29, 0x7C7], 0x1F9E),
    ([0xFF20, 0x7E9, 0x7E, 0x29, 0x7D9], 0x1FAE), ([0xFF20, 0x7E9, 0x7E, 0x29, 0x7E1], 0x1F86),
    ([0xFF20, 0x7E9, 0x7E, 0x29, 0x7E7], 0x1F96), ([0xFF20, 0x7E9, 0x7E, 0x29, 0x7F9], 0x1FA6),
    ([0xFF20, 0x7E9, 0x7E, 0x7E1, 0], 0x1FB7), ([0xFF20, 0x7E9, 0x7E, 0x7E7, 0], 0x1FC7),
    ([0xFF20, 0x7E9, 0x7E, 0x7F9, 0], 0x1FF7), ([0xFF20, 0x7E9, 0x7E, 0x1000313, 0x7C1], 0x1F8E),
    ([0xFF20, 0x7E9, 0x7E, 0x1000313, 0x7C7], 0x1F9E), ([0xFF20, 0x7E9, 0x7E, 0x1000313, 0x7D9], 0x1FAE),
    ([0xFF20, 0x7E9, 0x7E, 0x1000313, 0x7E1], 0x1F86), ([0xFF20, 0x7E9, 0x7E, 0x1000313, 0x7E7], 0x1F96),
    ([0xFF20, 0x7E9, 0x7E, 0x1000313, 0x7F9], 0x1FA6), ([0xFF20, 0x7E9, 0x7E, 0x1000314, 0x7C1], 0x1F8F),
    ([0xFF20, 0x7E9, 0x7E, 0x1000314, 0x7C7], 0x1F9F), ([0xFF20, 0x7E9, 0x7E, 0x1000314, 0x7D9], 0x1FAF),
    ([0xFF20, 0x7E9, 0x7E, 0x1000314, 0x7E1], 0x1F87), ([0xFF20, 0x7E9, 0x7E, 0x1000314, 0x7E7], 0x1F97),
    ([0xFF20, 0x7E9, 0x7E, 0x1000314, 0x7F9], 0x1FA7), ([0xFF20, 0x7E9, 0x7E, 0x1001F00, 0], 0x1F86),
    ([0xFF20, 0x7E9, 0x7E, 0x1001F01, 0], 0x1F87), ([0xFF20, 0x7E9, 0x7E, 0x1001F08, 0], 0x1F8E),
    ([0xFF20, 0x7E9, 0x7E, 0x1001F09, 0], 0x1F8F), ([0xFF20, 0x7E9, 0x7E, 0x1001F20, 0], 0x1F96),
    ([0xFF20, 0x7E9, 0x7E, 0x1001F21, 0], 0x1F97), ([0xFF20, 0x7E9, 0x7E, 0x1001F28, 0], 0x1F9E),
    ([0xFF20, 0x7E9, 0x7E, 0x1001F29, 0], 0x1F9F), ([0xFF20, 0x7E9, 0x7E, 0x1001F60, 0], 0x1FA6),
    ([0xFF20, 0x7E9, 0x7E, 0x1001F61, 0], 0x1FA7), ([0xFF20, 0x7E9, 0x7E, 0x1001F68, 0], 0x1FAE),
    ([0xFF20, 0x7E9, 0x7E, 0x1001F69, 0], 0x1FAF), ([0xFF20, 0x7E9, 0xB4, 0x28, 0x7C1], 0x1F8D),
    ([0xFF20, 0x7E9, 0xB4, 0x28, 0x7C7], 0x1F9D), ([0xFF20, 0x7E9, 0xB4, 0x28, 0x7D9], 0x1FAD),
    ([0xFF20, 0x7E9, 0xB4, 0x28, 0x7E1], 0x1F85), ([0xFF20, 0x7E9, 0xB4, 0x28, 0x7E7], 0x1F95),
    ([0xFF20, 0x7E9, 0xB4, 0x28, 0x7F9], 0x1FA5), ([0xFF20, 0x7E9, 0xB4, 0x29, 0x7C1], 0x1F8C),
    ([0xFF20, 0x7E9, 0xB4, 0x29, 0x7C7], 0x1F9C), ([0xFF20, 0x7E9, 0xB4, 0x29, 0x7D9], 0x1FAC),
    ([0xFF20, 0x7E9, 0xB4, 0x29, 0x7E1], 0x1F84), ([0xFF20, 0x7E9, 0xB4, 0x29, 0x7E7], 0x1F94),
    ([0xFF20, 0x7E9, 0xB4, 0x29, 0x7F9], 0x1FA4), ([0xFF20, 0x7E9, 0xB4, 0x7E1, 0], 0x1FB4),
    ([0xFF20, 0x7E9, 0xB4, 0x7E7, 0], 0x1FC4), ([0xFF20, 0x7E9, 0xB4, 0x7F9, 0], 0x1FF4),
    ([0xFF20, 0x7E9, 0xB4, 0x1000313, 0x7C1], 0x1F8C), ([0xFF20, 0x7E9, 0xB4, 0x1000313, 0x7C7], 0x1F9C),
    ([0xFF20, 0x7E9, 0xB4, 0x1000313, 0x7D9], 0x1FAC), ([0xFF20, 0x7E9, 0xB4, 0x1000313, 0x7E1], 0x1F84),
    ([0xFF20, 0x7E9, 0xB4, 0x1000313, 0x7E7], 0x1F94), ([0xFF20, 0x7E9, 0xB4, 0x1000313, 0x7F9], 0x1FA4),
    ([0xFF20, 0x7E9, 0xB4, 0x1000314, 0x7C1], 0x1F8D), ([0xFF20, 0x7E9, 0xB4, 0x1000314, 0x7C7], 0x1F9D),
    ([0xFF20, 0x7E9, 0xB4, 0x1000314, 0x7D9], 0x1FAD), ([0xFF20, 0x7E9, 0xB4, 0x1000314, 0x7E1], 0x1F85),
    ([0xFF20, 0x7E9, 0xB4, 0x1000314, 0x7E7], 0x1F95), ([0xFF20, 0x7E9, 0xB4, 0x1000314, 0x7F9], 0x1FA5),
    ([0xFF20, 0x7E9, 0xB4, 0x1001F00, 0], 0x1F84), ([0xFF20, 0x7E9, 0xB4, 0x1001F01, 0], 0x1F85),
    ([0xFF20, 0x7E9, 0xB4, 0x1001F08, 0], 0x1F8C), ([0xFF20, 0x7E9, 0xB4, 0x1001F09, 0], 0x1F8D),
    ([0xFF20, 0x7E9, 0xB4, 0x1001F20, 0], 0x1F94), ([0xFF20, 0x7E9, 0xB4, 0x1001F21, 0], 0x1F95),
    ([0xFF20, 0x7E9, 0xB4, 0x1001F28, 0], 0x1F9C), ([0xFF20, 0x7E9, 0xB4, 0x1001F29, 0], 0x1F9D),
    ([0xFF20, 0x7E9, 0xB4, 0x1001F60, 0], 0x1FA4), ([0xFF20, 0x7E9, 0xB4, 0x1001F61, 0], 0x1FA5),
    ([0xFF20, 0x7E9, 0xB4, 0x1001F68, 0], 0x1FAC), ([0xFF20, 0x7E9, 0xB4, 0x1001F69, 0], 0x1FAD),
    ([0xFF20, 0x7E9, 0x7B1, 0, 0], 0x1FB4), ([0xFF20, 0x7E9, 0x7B3, 0, 0], 0x1FC4),
    ([0xFF20, 0x7E9, 0x7BB, 0, 0], 0x1FF4), ([0xFF20, 0x7E9, 0x7C1, 0, 0], 0x1FBC),
    ([0xFF20, 0x7E9, 0x7C7, 0, 0], 0x1FCC), ([0xFF20, 0x7E9, 0x7D9, 0, 0], 0x1FFC),
    ([0xFF20, 0x7E9, 0x7E1, 0, 0], 0x1FB3), ([0xFF20, 0x7E9, 0x7E7, 0, 0], 0x1FC3),
    ([0xFF20, 0x7E9, 0x7F9, 0, 0], 0x1FF3), ([0xFF20, 0x7E9, 0x1EF2, 0x28, 0x7C1], 0x1F8B),
    ([0xFF20, 0x7E9, 0x1EF2, 0x28, 0x7C7], 0x1F9B), ([0xFF20, 0x7E9, 0x1EF2, 0x28, 0x7D9], 0x1FAB),
    ([0xFF20, 0x7E9, 0x1EF2, 0x28, 0x7E1], 0x1F83), ([0xFF20, 0x7E9, 0x1EF2, 0x28, 0x7E7], 0x1F93),
    ([0xFF20, 0x7E9, 0x1EF2, 0x28, 0x7F9], 0x1FA3), ([0xFF20, 0x7E9, 0x1EF2, 0x29, 0x7C1], 0x1F8A),
    ([0xFF20, 0x7E9, 0x1EF2, 0x29, 0x7C7], 0x1F9A), ([0xFF20, 0x7E9, 0x1EF2, 0x29, 0x7D9], 0x1FAA),
    ([0xFF20, 0x7E9, 0x1EF2, 0x29, 0x7E1], 0x1F82), ([0xFF20, 0x7E9, 0x1EF2, 0x29, 0x7E7], 0x1F92),
    ([0xFF20, 0x7E9, 0x1EF2, 0x29, 0x7F9], 0x1FA2), ([0xFF20, 0x7E9, 0x1EF2, 0x7E1, 0], 0x1FB2),
    ([0xFF20, 0x7E9, 0x1EF2, 0x7E7, 0], 0x1FC2), ([0xFF20, 0x7E9, 0x1EF2, 0x7F9, 0], 0x1FF2),
    ([0xFF20, 0x7E9, 0x1EF2, 0x1000313, 0x7C1], 0x1F8A), ([0xFF20, 0x7E9, 0x1EF2, 0x1000313, 0x7C7], 0x1F9A),
    ([0xFF20, 0x7E9, 0x1EF2, 0x1000313, 0x7D9], 0x1FAA), ([0xFF20, 0x7E9, 0x1EF2, 0x1000313, 0x7E1], 0x1F82),
    ([0xFF20, 0x7E9, 0x1EF2, 0x1000313, 0x7E7], 0x1F92), ([0xFF20, 0x7E9, 0x1EF2, 0x1000313, 0x7F9], 0x1FA2),
    ([0xFF20, 0x7E9, 0x1EF2, 0x1000314, 0x7C1], 0x1F8B), ([0xFF20, 0x7E9, 0x1EF2, 0x1000314, 0x7C7], 0x1F9B),
    ([0xFF20, 0x7E9, 0x1EF2, 0x1000314, 0x7D9], 0x1FAB), ([0xFF20, 0x7E9, 0x1EF2, 0x1000314, 0x7E1], 0x1F83),
    ([0xFF20, 0x7E9, 0x1EF2, 0x1000314, 0x7E7], 0x1F93), ([0xFF20, 0x7E9, 0x1EF2, 0x1000314, 0x7F9], 0x1FA3),
    ([0xFF20, 0x7E9, 0x1EF2, 0x1001F00, 0], 0x1F82), ([0xFF20, 0x7E9, 0x1EF2, 0x1001F01, 0], 0x1F83),
    ([0xFF20, 0x7E9, 0x1EF2, 0x1001F08, 0], 0x1F8A), ([0xFF20, 0x7E9, 0x1EF2, 0x1001F09, 0], 0x1F8B),
    ([0xFF20, 0x7E9, 0x1EF2, 0x1001F20, 0], 0x1F92), ([0xFF20, 0x7E9, 0x1EF2, 0x1001F21, 0], 0x1F93),
    ([0xFF20, 0x7E9, 0x1EF2, 0x1001F28, 0], 0x1F9A), ([0xFF20, 0x7E9, 0x1EF2, 0x1001F29, 0], 0x1F9B),
    ([0xFF20, 0x7E9, 0x1EF2, 0x1001F60, 0], 0x1FA2), ([0xFF20, 0x7E9, 0x1EF2, 0x1001F61, 0], 0x1FA3),
    ([0xFF20, 0x7E9, 0x1EF2, 0x1001F68, 0], 0x1FAA), ([0xFF20, 0x7E9, 0x1EF2, 0x1001F69, 0], 0x1FAB),
    ([0xFF20, 0x7E9, 0x1EF3, 0x28, 0x7C1], 0x1F8D), ([0xFF20, 0x7E9, 0x1EF3, 0x28, 0x7C7], 0x1F9D)]"

definition compose_rows_35 :: "compose_row list" where
  "compose_rows_35 =
   [([0xFF20, 0x7E9, 0x1EF3, 0x28, 0x7D9], 0x1FAD), ([0xFF20, 0x7E9, 0x1EF3, 0x28, 0x7E1], 0x1F85),
    ([0xFF20, 0x7E9, 0x1EF3, 0x28, 0x7E7], 0x1F95), ([0xFF20, 0x7E9, 0x1EF3, 0x28, 0x7F9], 0x1FA5),
    ([0xFF20, 0x7E9, 0x1EF3, 0x29, 0x7C1], 0x1F8C), ([0xFF20, 0x7E9, 0x1EF3, 0x29, 0x7C7], 0x1F9C),
    ([0xFF20, 0x7E9, 0x1EF3, 0x29, 0x7D9], 0x1FAC), ([0xFF20, 0x7E9, 0x1EF3, 0x29, 0x7E1], 0x1F84),
    ([0xFF20, 0x7E9, 0x1EF3, 0x29, 0x7E7], 0x1F94), ([0xFF20, 0x7E9, 0x1EF3, 0x29, 0x7F9], 0x1FA4),
    ([0xFF20, 0x7E9, 0x1EF3, 0x7E1, 0], 0x1FB4), ([0xFF20, 0x7E9, 0x1EF3, 0x7E7, 0], 0x1FC4),
    ([0xFF20, 0x7E9, 0x1EF3, 0x7F9, 0], 0x1FF4), ([0xFF20, 0x7E9, 0x1EF3, 0x1000313, 0x7C1], 0x1F8C),
    ([0xFF20, 0x7E9, 0x1EF3, 0x1000313, 0x7C7], 0x1F9C), ([0xFF20, 0x7E9, 0x1EF3, 0x1000313, 0x7D9], 0x1FAC),
    ([0xFF20, 0x7E9, 0x1EF3, 0x1000313, 0x7E1], 0x1F84), ([0xFF20, 0x7E9, 0x1EF3, 0x1000313, 0x7E7], 0x1F94),
    ([0xFF20, 0x7E9, 0x1EF3, 0x1000313, 0x7F9], 0x1FA4), ([0xFF20, 0x7E9, 0x1EF3, 0x1000314, 0x7C1], 0x1F8D),
    ([0xFF20, 0x7E9, 0x1EF3, 0x1000314, 0x7C7], 0x1F9D), ([0xFF20, 0x7E9, 0x1EF3, 0x1000314, 0x7D9], 0x1FAD),
    ([0xFF20, 0x7E9, 0x1EF3, 0x1000314, 0x7E1], 0x1F85), ([0xFF20, 0x7E9, 0x1EF3, 0x1000314, 0x7E7], 0x1F95),
    ([0xFF20, 0x7E9, 0x1EF3, 0x1000314, 0x7F9], 0x1FA5), ([0xFF20, 0x7E9, 0x1EF3, 0x1001F00, 0], 0x1F84),
    ([0xFF20, 0x7E9, 0x1EF3, 0x1001F01, 0], 0x1F85), ([0xFF20, 0x7E9, 0x1EF3, 0x1001F08, 0], 0x1F8C),
    ([0xFF20, 0x7E9, 0x1EF3, 0x1001F09, 0], 0x1F8D), ([0xFF20, 0x7E9, 0x1EF3, 0x1001F20, 0], 0x1F94),
    ([0xFF20, 0x7E9, 0x1EF3, 0x1001F21, 0], 0x1F95), ([0xFF20, 0x7E9, 0x1EF3, 0x1001F28, 0], 0x1F9C),
    ([0xFF20, 0x7E9, 0x1EF3, 0x1001F29, 0], 0x1F9D), ([0xFF20, 0x7E9, 0x1EF3, 0x1001F60, 0], 0x1FA4),
    ([0xFF20, 0x7E9, 0x1EF3, 0x1001F61, 0], 0x1FA5), ([0xFF20, 0x7E9, 0x1EF3, 0x1001F68, 0], 0x1FAC),
    ([0xFF20, 0x7E9, 0x1EF3, 0x1001F69, 0], 0x1FAD), ([0xFF20, 0x7E9, 0xFE50, 0x28, 0x7C1], 0x1F8B),
    ([0xFF20, 0x7E9, 0xFE50, 0x28, 0x7C7], 0x1F9B), ([0xFF20, 0x7E9, 0xFE50, 0x28, 0x7D9], 0x1FAB),
    ([0xFF20, 0x7E9, 0xFE50, 0x28, 0x7E1], 0x1F83), ([0xFF20, 0x7E9, 0xFE50, 0x28, 0x7E7], 0x1F93),
    ([0xFF20, 0x7E9, 0xFE50, 0x28, 0x7F9], 0x1FA3), ([0xFF20, 0x7E9, 0xFE50, 0x29, 0x7C1], 0x1F8A),
    ([0xFF20, 0x7E9, 0xFE50, 0x29, 0x7C7], 0x1F9A), ([0xFF20, 0x7E9, 0xFE50, 0x29, 0x7D9], 0x1FAA),
    ([0xFF20, 0x7E9, 0xFE50, 0x29, 0x7E1], 0x1F82), ([0xFF20, 0x7E9, 0xFE50, 0x29, 0x7E7], 0x1F92),
    ([0xFF20, 0x7E9, 0xFE50, 0x29, 0x7F9], 0x1FA2), ([0xFF20, 0x7E9, 0xFE50, 0x7E1, 0], 0x1FB2),
    ([0xFF20, 0x7E9, 0xFE50, 0x7E7, 0], 0x1FC2), ([0xFF20, 0x7E9, 0xFE50, 0x7F9, 0], 0x1FF2),
    ([0xFF20, 0x7E9, 0xFE50, 0x1000313, 0x7C1], 0x1F8A), ([0xFF20, 0x7E9, 0xFE50, 0x1000313, 0x7C7], 0x1F9A),
    ([0xFF20, 0x7E9, 0xFE50, 0x1000313, 0x7D9], 0x1FAA), ([0xFF20, 0x7E9, 0xFE50, 0x1000313, 0x7E1], 0x1F82),
    ([0xFF20, 0x7E9, 0xFE50, 0x1000313, 0x7E7], 0x1F92), ([0xFF20, 0x7E9, 0xFE50, 0x1000313, 0x7F9], 0x1FA2),
    ([0xFF20, 0x7E9, 0xFE50, 0x1000314, 0x7C1], 0x1F8B), ([0xFF20, 0x7E9, 0xFE50, 0x1000314, 0x7C7], 0x1F9B),
    ([0xFF20, 0x7E9, 0xFE50, 0x1000314, 0x7D9], 0x1FAB), ([0xFF20, 0x7E9, 0xFE50, 0x1000314, 0x7E1], 0x1F83),
    ([0xFF20, 0x7E9, 0xFE50, 0x1000314, 0x7E7], 0x1F93), ([0xFF20, 0x7E9, 0xFE50, 0x1000314, 0x7F9], 0x1FA3),
    ([0xFF20, 0x7E9, 0xFE50, 0x1001F00, 0], 0x1F82), ([0xFF20, 0x7E9, 0xFE50, 0x1001F01, 0], 0x1F83),
    ([0xFF20, 0x7E9, 0xFE50, 0x1001F08, 0], 0x1F8A), ([0xFF20, 0x7E9, 0xFE50, 0x1001F09, 0], 0x1F8B),
    ([0xFF20, 0x7E9, 0xFE50, 0x1001F20, 0], 0x1F92), ([0xFF20, 0x7E9, 0xFE50, 0x1001F21, 0], 0x1F93),
    ([0xFF20, 0x7E9, 0xFE50, 0x1001F28, 0], 0x1F9A), ([0xFF20, 0x7E9, 0xFE50, 0x1001F29, 0], 0x1F9B),
    ([0xFF20, 0x7E9, 0xFE50, 0x1001F60, 0], 0x1FA2), ([0xFF20, 0x7E9, 0xFE50, 0x1001F61, 0], 0x1FA3),
    ([0xFF20, 0x7E9, 0xFE50, 0x1001F68, 0], 0x1FAA), ([0xFF20, 0x7E9, 0xFE50, 0x1001F69, 0], 0x1FAB),
    ([0xFF20, 0x7E9, 0xFE51, 0x28, 0x7C1], 0x1F8D), ([0xFF20, 0x7E9, 0xFE51, 0x28, 0x7C7], 0x1F9D),
    ([0xFF20, 0x7E9, 0xFE51, 0x28, 0x7D9], 0x1FAD), ([0xFF20, 0x7E9, 0xFE51, 0x28, 0x7E1], 0x1F85),
    ([0xFF20, 0x7E9, 0xFE51, 0x28, 0x7E7], 0x1F95), ([0xFF20, 0x7E9, 0xFE51, 0x28, 0x7F9], 0x1FA5),
    ([0xFF20, 0x7E9, 0xFE51, 0x29, 0x7C1], 0x1F8C), ([0xFF20, 0x7E9, 0xFE51, 0x29, 0x7C7], 0x1F9C),
    ([0xFF20, 0x7E9, 0xFE51, 0x29, 0x7D9], 0x1FAC), ([0xFF20, 0x7E9, 0xFE51, 0x29, 0x7E1], 0x1F84),
    ([0xFF20, 0x7E9, 0xFE51, 0x29, 0x7E7], 0x1F94), ([0xFF20, 0x7E9, 0xFE51, 0x29, 0x7F9], 0x1FA4),
    ([0xFF20, 0x7E9, 0xFE51, 0x7E1, 0], 0x1FB4), ([0xFF20, 0x7E9, 0xFE51, 0x7E7, 0], 0x1FC4),
    ([0xFF20, 0x7E9, 0xFE51, 0x7F9, 0], 0x1FF4), ([0xFF20, 0x7E9, 0xFE51, 0x1000313, 0x7C1], 0x1F8C),
    ([0xFF20, 0x7E9, 0xFE51, 0x1000313, 0x7C7], 0x1F9C), ([0xFF20, 0x7E9, 0xFE51, 0x1000313, 0x7D9], 0x1FAC),
    ([0xFF20, 0x7E9, 0xFE51, 0x1000313, 0x7E1], 0x1F84), ([0xFF20, 0x7E9, 0xFE51, 0x1000313, 0x7E7], 0x1F94),
    ([0xFF20, 0x7E9, 0xFE51, 0x1000313, 0x7F9], 0x1FA4), ([0xFF20, 0x7E9, 0xFE51, 0x1000314, 0x7C1], 0x1F8D),
    ([0xFF20, 0x7E9, 0xFE51, 0x1000314, 0x7C7], 0x1F9D), ([0xFF20, 0x7E9, 0xFE51, 0x1000314, 0x7D9], 0x1FAD),
    ([0xFF20, 0x7E9, 0xFE51, 0x1000314, 0x7E1], 0x1F85), ([0xFF20, 0x7E9, 0xFE51, 0x1000314, 0x7E7], 0x1F95),
    ([0xFF20, 0x7E9, 0xFE51, 0x1000314, 0x7F9], 0x1FA5), ([0xFF20, 0x7E9, 0xFE51, 0x1001F00, 0], 0x1F84),
    ([0xFF20, 0x7E9, 0xFE51, 0x1001F01, 0], 0x1F85), ([0xFF20, 0x7E9, 0xFE51, 0x1001F08, 0], 0x1F8C),
    ([0xFF20, 0x7E9, 0xFE51, 0x1001F09, 0], 0x1F8D), ([0xFF20, 0x7E9, 0xFE51, 0x1001F20, 0], 0x1F94),
    ([0xFF20, 0x7E9, 0xFE51, 0x1001F21, 0], 0x1F95), ([0xFF20, 0x7E9, 0xFE51, 0x1001F28, 0], 0x1F9C),
    ([0xFF20, 0x7E9, 0xFE51, 0x1001F29, 0], 0x1F9D), ([0xFF20, 0x7E9, 0xFE51, 0x1001F60, 0], 0x1FA4),
    ([0xFF20, 0x7E9, 0xFE51, 0x1001F61, 0], 0x1FA5), ([0xFF20, 0x7E9, 0xFE51, 0x1001F68, 0], 0x1FAC),
    ([0xFF20, 0x7E9, 0xFE51, 0x1001F69, 0], 0x1FAD), ([0xFF20, 0x7E9, 0xFE53, 0x28, 0x7C1], 0x1F8F),
    ([0xFF20, 0x7E9, 0xFE53, 0x28, 0x7C7], 0x1F9F), ([0xFF20, 0x7E9, 0xFE53, 0x28, 0x7D9], 0x1FAF),
    ([0xFF20, 0x7E9, 0xFE53, 0x28, 0x7E1], 0x1F87), ([0xFF20, 0x7E9, 0xFE53, 0x28, 0x7E7], 0x1F97),
    ([0xFF20, 0x7E9, 0xFE53, 0x28, 0x7F9], 0x1FA7), ([0xFF20, 0x7E9, 0xFE53, 0x29, 0x7C1], 0x1F8E),
    ([0xFF20, 0x7E9, 0xFE53, 0x29, 0x7C7], 0x1F9E), ([0xFF20, 0x7E9, 0xFE53, 0x29, 0x7D9], 0x1FAE),
    ([0xFF20, 0x7E9, 0xFE53, 0x29, 0x7E1], 0x1F86), ([0xFF20, 0x7E9, 0xFE53, 0x29, 0x7E7], 0x1F96),
    ([0xFF20, 0x7E9, 0xFE53, 0x29, 0x7F9], 0x1FA6), ([0xFF20, 0x7E9, 0xFE53, 0x7E1, 0], 0x1FB7),
    ([0xFF20, 0x7E9, 0xFE53, 0x7E7, 0], 0x1FC7), ([0xFF20, 0x7E9, 0xFE53, 0x7F9, 0], 0x1FF7),
    ([0xFF20, 0x7E9, 0xFE53, 0x1000313, 0x7C1], 0x1F8E), ([0xFF20, 0x7E9, 0xFE53, 0x1000313, 0x7C7], 0x1F9E),
    ([0xFF20, 0x7E9, 0xFE53, 0x1000313, 0x7D9], 0x1FAE), ([0xFF20, 0x7E9, 0xFE53, 0x1000313, 0x7E1], 0x1F86),
    ([0xFF20, 0x7E9, 0xFE53, 0x1000313, 0x7E7], 0x1F96), ([0xFF20, 0x7E9, 0xFE53, 0x1000313, 0x7F9], 0x1FA6),
    ([0xFF20, 0x7E9, 0xFE53, 0x1000314, 0x7C1], 0x1F8F), ([0xFF20, 0x7E9, 0xFE53, 0x1000314, 0x7C7], 0x1F9F),
    ([0xFF20, 0x7E9, 0xFE53, 0x1000314, 0x7D9], 0x1FAF), ([0xFF20, 0x7E9, 0xFE53, 0x1000314, 0x7E1], 0x1F87),
    ([0xFF20, 0x7E9, 0xFE53, 0x1000314, 0x7E7], 0x1F97), ([0xFF20, 0x7E9, 0xFE53, 0x1000314, 0x7F9], 0x1FA7),
    ([0xFF20, 0x7E9, 0xFE53, 0x1001F00, 0], 0x1F86), ([0xFF20, 0x7E9, 0xFE53, 0x1001F01, 0], 0x1F87),
    ([0xFF20, 0x7E9, 0xFE53, 0x1001F08, 0], 0x1F8E), ([0xFF20, 0x7E9, 0xFE53, 0x1001F09, 0], 0x1F8F),
    ([0xFF20, 0x7E9, 0xFE53, 0x1001F20, 0], 0x1F96), ([0xFF20, 0x7E9, 0xFE53, 0x1001F21, 0], 0x1F97)]"

definition compose_rows_36 :: "compose_row list" where
  "compose_rows_36 =
   [([0xFF20, 0x7E9, 0xFE53, 0x1001F28, 0], 0x1F9E), ([0xFF20, 0x7E9, 0xFE53, 0x1001F29, 0], 0x1F9F),
    ([0xFF20, 0x7E9, 0xFE53, 0x1001F60, 0], 0x1FA6), ([0xFF20, 0x7E9, 0xFE53, 0x1001F61, 0], 0x1FA7),
    ([0xFF20, 0x7E9, 0xFE53, 0x1001F68, 0], 0x1FAE), ([0xFF20, 0x7E9, 0xFE53, 0x1001F69, 0], 0x1FAF),
    ([0xFF20, 0x7E9, 0x1000313, 0x7C1, 0], 0x1F88), ([0xFF20, 0x7E9, 0x1000313, 0x7C7, 0], 0x1F98),
    ([0xFF20, 0x7E9, 0x1000313, 0x7D9, 0], 0x1FA8), ([0xFF20, 0x7E9, 0x1000313, 0x7E1, 0], 0x1F80),
    ([0xFF20, 0x7E9, 0x1000313, 0x7E7, 0], 0x1F90), ([0xFF20, 0x7E9, 0x1000313, 0x7F9, 0], 0x1FA0),
    ([0xFF20, 0x7E9, 0x1000314, 0x7C1, 0], 0x1F89), ([0xFF20, 0x7E9, 0x1000314, 0x7C7, 0], 0x1F99),
    ([0xFF20, 0x7E9, 0x1000314, 0x7D9, 0], 0x1FA9), ([0xFF20, 0x7E9, 0x1000314, 0x7E1, 0], 0x1F81),
    ([0xFF20, 0x7E9, 0x1000314, 0x7E7, 0], 0x1F91), ([0xFF20, 0x7E9, 0x1000314, 0x7F9, 0], 0x1FA1),
    ([0xFF20, 0x7E9, 0x1000342, 0x28, 0x7C1], 0x1F8F), ([0xFF20, 0x7E9, 0x1000342, 0x28, 0x7C7], 0x1F9F),
    ([0xFF20, 0x7E9, 0x1000342, 0x28, 0x7D9], 0x1FAF), ([0xFF20, 0x7E9, 0x1000342, 0x28, 0x7E1], 0x1F87),
    ([0xFF20, 0x7E9, 0x1000342, 0x28, 0x7E7], 0x1F97), ([0xFF20, 0x7E9, 0x1000342, 0x28, 0x7F9], 0x1FA7),
    ([0xFF20, 0x7E9, 0x1000342, 0x29, 0x7C1], 0x1F8E), ([0xFF20, 0x7E9, 0x1000342, 0x29, 0x7C7], 0x1F9E),
    ([0xFF20, 0x7E9, 0x1000342, 0x29, 0x7D9], 0x1FAE), ([0xFF20, 0x7E9, 0x1000342, 0x29, 0x7E1], 0x1F86),
    ([0xFF20, 0x7E9, 0x1000342, 0x29, 0x7E7], 0x1F96), ([0xFF20, 0x7E9, 0x1000342, 0x29, 0x7F9], 0x1FA6),
    ([0xFF20, 0x7E9, 0x1000342, 0x7E1, 0], 0x1FB7), ([0xFF20, 0x7E9, 0x1000342, 0x7E7, 0], 0x1FC7),
    ([0xFF20, 0x7E9, 0x1000342, 0x7F9, 0], 0x1FF7), ([0xFF20, 0x7E9, 0x1000342, 0x1000313, 0x7C1], 0x1F8E),
    ([0xFF20, 0x7E9, 0x1000342, 0x1000313, 0x7C7], 0x1F9E),
    ([0xFF20, 0x7E9, 0x1000342, 0x1000313, 0x7D9], 0x1FAE),
    ([0xFF20, 0x7E9, 0x1000342, 0x1000313, 0x7E1], 0x1F86),
    ([0xFF20, 0x7E9, 0x1000342, 0x1000313, 0x7E7], 0x1F96),
    ([0xFF20, 0x7E9, 0x1000342, 0x1000313, 0x7F9], 0x1FA6),
    ([0xFF20, 0x7E9, 0x1000342, 0x1000314, 0x7C1], 0x1F8F),
    ([0xFF20, 0x7E9, 0x1000342, 0x1000314, 0x7C7], 0x1F9F),
    ([0xFF20, 0x7E9, 0x1000342, 0x1000314, 0x7D9], 0x1FAF),
    ([0xFF20, 0x7E9, 0x1000342, 0x1000314, 0x7E1], 0x1F87),
    ([0xFF20, 0x7E9, 0x1000342, 0x1000314, 0x7E7], 0x1F97),
    ([0xFF20, 0x7E9, 0x1000342, 0x1000314, 0x7F9], 0x1FA7), ([0xFF20, 0x7E9, 0x1000342, 0x1001F00, 0], 0x1F86),
    ([0xFF20, 0x7E9, 0x1000342, 0x1001F01, 0], 0x1F87), ([0xFF20, 0x7E9, 0x1000342, 0x1001F08, 0], 0x1F8E),
    ([0xFF20, 0x7E9, 0x1000342, 0x1001F09, 0], 0x1F8F), ([0xFF20, 0x7E9, 0x1000342, 0x1001F20, 0], 0x1F96),
    ([0xFF20, 0x7E9, 0x1000342, 0x1001F21, 0], 0x1F97), ([0xFF20, 0x7E9, 0x1000342, 0x1001F28, 0], 0x1F9E),
    ([0xFF20, 0x7E9, 0x1000342, 0x1001F29, 0], 0x1F9F), ([0xFF20, 0x7E9, 0x1000342, 0x1001F60, 0], 0x1FA6),
    ([0xFF20, 0x7E9, 0x1000342, 0x1001F61, 0], 0x1FA7), ([0xFF20, 0x7E9, 0x1000342, 0x1001F68, 0], 0x1FAE),
    ([0xFF20, 0x7E9, 0x1000342, 0x1001F69, 0], 0x1FAF), ([0xFF20, 0x7E9, 0x1001F00, 0, 0], 0x1F80),
    ([0xFF20, 0x7E9, 0x1001F01, 0, 0], 0x1F81), ([0xFF20, 0x7E9, 0x1001F02, 0, 0], 0x1F82),
    ([0xFF20, 0x7E9, 0x1001F03, 0, 0], 0x1F83), ([0xFF20, 0x7E9, 0x1001F04, 0, 0], 0x1F84),
    ([0xFF20, 0x7E9, 0x1001F05, 0, 0], 0x1F85), ([0xFF20, 0x7E9, 0x1001F06, 0, 0], 0x1F86),
    ([0xFF20, 0x7E9, 0x1001F07, 0, 0], 0x1F87), ([0xFF20, 0x7E9, 0x1001F08, 0, 0], 0x1F88),
    ([0xFF20, 0x7E9, 0x1001F09, 0, 0], 0x1F89), ([0xFF20, 0x7E9, 0x1001F0A, 0, 0], 0x1F8A),
    ([0xFF20, 0x7E9, 0x1001F0B, 0, 0], 0x1F8B), ([0xFF20, 0x7E9, 0x1001F0C, 0, 0], 0x1F8C),
    ([0xFF20, 0x7E9, 0x1001F0D, 0, 0], 0x1F8D), ([0xFF20, 0x7E9, 0x1001F0E, 0, 0], 0x1F8E),
    ([0xFF20, 0x7E9, 0x1001F0F, 0, 0], 0x1F8F), ([0xFF20, 0x7E9, 0x1001F20, 0, 0], 0x1F90),
    ([0xFF20, 0x7E9, 0x1001F21, 0, 0], 0x1F91), ([0xFF20, 0x7E9, 0x1001F22, 0, 0], 0x1F92),
    ([0xFF20, 0x7E9, 0x1001F23, 0, 0], 0x1F93), ([0xFF20, 0x7E9, 0x1001F24, 0, 0], 0x1F94),
    ([0xFF20, 0x7E9, 0x1001F25, 0, 0], 0x1F95), ([0xFF20, 0x7E9, 0x1001F26, 0, 0], 0x1F96),
    ([0xFF20, 0x7E9, 0x1001F27, 0, 0], 0x1F97), ([0xFF20, 0x7E9, 0x1001F28, 0, 0], 0x1F98),
    ([0xFF20, 0x7E9, 0x1001F29, 0, 0], 0x1F99), ([0xFF20, 0x7E9, 0x1001F2A, 0, 0], 0x1F9A),
    ([0xFF20, 0x7E9, 0x1001F2B, 0, 0], 0x1F9B), ([0xFF20, 0x7E9, 0x1001F2C, 0, 0], 0x1F9C),
    ([0xFF20, 0x7E9, 0x1001F2D, 0, 0], 0x1F9D), ([0xFF20, 0x7E9, 0x1001F2E, 0, 0], 0x1F9E),
    ([0xFF20, 0x7E9, 0x1001F2F, 0, 0], 0x1F9F), ([0xFF20, 0x7E9, 0x1001F60, 0, 0], 0x1FA0),
    ([0xFF20, 0x7E9, 0x1001F61, 0, 0], 0x1FA1), ([0xFF20, 0x7E9, 0x1001F62, 0, 0], 0x1FA2),
    ([0xFF20, 0x7E9, 0x1001F63, 0, 0], 0x1FA3), ([0xFF20, 0x7E9, 0x1001F64, 0, 0], 0x1FA4),
    ([0xFF20, 0x7E9, 0x1001F65, 0, 0], 0x1FA5), ([0xFF20, 0x7E9, 0x1001F66, 0, 0], 0x1FA6),
    ([0xFF20, 0x7E9, 0x1001F67, 0, 0], 0x1FA7), ([0xFF20, 0x7E9, 0x1001F68, 0, 0], 0x1FA8),
    ([0xFF20, 0x7E9, 0x1001F69, 0, 0], 0x1FA9), ([0xFF20, 0x7E9, 0x1001F6A, 0, 0], 0x1FAA),
    ([0xFF20, 0x7E9, 0x1001F6B, 0, 0], 0x1FAB), ([0xFF20, 0x7E9, 0x1001F6C, 0, 0], 0x1FAC),
    ([0xFF20, 0x7E9, 0x1001F6D, 0, 0], 0x1FAD), ([0xFF20, 0x7E9, 0x1001F6E, 0, 0], 0x1FAE),
    ([0xFF20, 0x7E9, 0x1001F6F, 0, 0], 0x1FAF), ([0xFF20, 0x7E9, 0x1001F70, 0, 0], 0x1FB2),
    ([0xFF20, 0x7E9, 0x1001F74, 0, 0], 0x1FC2), ([0xFF20, 0x7E9, 0x1001F7C, 0, 0], 0x1FF2),
    ([0xFF20, 0x7E9, 0x1001FB6, 0, 0], 0x1FB7), ([0xFF20, 0x7E9, 0x1001FC6, 0, 0], 0x1FC7),
    ([0xFF20, 0x7E9, 0x1001FF6, 0, 0], 0x1FF7), ([0xFF20, 0x7EF, 0x27, 0, 0], 0x3CC),
    ([0xFF20, 0x7F5, 0x22, 0, 0], 0x3CB), ([0xFF20, 0x7F5, 0x27, 0, 0], 0x3CD),
    ([0xFF20, 0x7F9, 0x27, 0, 0], 0x3CE), ([0xFF20, 0x8BC, 0x1000338, 0, 0], 0x2270),
    ([0xFF20, 0x8BE, 0x1000338, 0, 0], 0x2271), ([0xFF20, 0x8C8, 0x1000338, 0, 0], 0x2247),
    ([0xFF20, 0x8CF, 0x1000338, 0, 0], 0x2262), ([0xFF20, 0x8DA, 0x1000338, 0, 0], 0x2284),
    ([0xFF20, 0x8DB, 0x1000338, 0, 0], 0x2285), ([0xFF20, 0xBA3, 0x1000338, 0, 0], 0x226E),
    ([0xFF20, 0xBA6, 0x1000338, 0, 0], 0x226F), ([0xFF20, 0xBC6, 0x28, 0, 0], 0x208D),
    ([0xFF20, 0xBC6, 0x29, 0, 0], 0x208E), ([0xFF20, 0xBC6, 0x2B, 0, 0], 0x208A),
    ([0xFF20, 0xBC6, 0x30, 0, 0], 0x2080), ([0xFF20, 0xBC6, 0x31, 0, 0], 0x2081),
    ([0xFF20, 0xBC6, 0x32, 0, 0], 0x2082), ([0xFF20, 0xBC6, 0x33, 0, 0], 0x2083),
    ([0xFF20, 0xBC6, 0x34, 0, 0], 0x2084), ([0xFF20, 0xBC6, 0x35, 0, 0], 0x2085),
    ([0xFF20, 0xBC6, 0x36, 0, 0], 0x2086), ([0xFF20, 0xBC6, 0x37, 0, 0], 0x2087),
    ([0xFF20, 0xBC6, 0x38, 0, 0], 0x2088), ([0xFF20, 0xBC6, 0x39, 0, 0], 0x2089),
    ([0xFF20, 0xBC6, 0x3D, 0, 0], 0x208C), ([0xFF20, 0xBC6, 0xFF80, 0, 0], 0x2082),
    ([0xFF20, 0xBC6, 0xFFAB, 0, 0], 0x208A), ([0xFF20, 0xBC6, 0xFFB0, 0, 0], 0x2080),
    ([0xFF20, 0xBC6, 0xFFB1, 0, 0], 0x2081), ([0xFF20, 0xBC6, 0xFFB2, 0, 0], 0x2082),
    ([0xFF20, 0xBC6, 0xFFB3, 0, 0], 0x2083), ([0xFF20, 0xBC6, 0xFFB4, 0, 0], 0x2084),
    ([0xFF20, 0xBC6, 0xFFB5, 0, 0], 0x2085), ([0xFF20, 0xBC6, 0xFFB6, 0, 0], 0x2086),
    ([0xFF20, 0xBC6, 0xFFB7, 0, 0], 0x2087), ([0xFF20, 0xBC6, 0xFFB8, 0, 0], 0x2088)]"

definition compose_rows_37 :: "compose_row list" where
  "compose_rows_37 =
   [([0xFF20, 0xBC6, 0xFFB9, 0, 0], 0x2089), ([0xFF20, 0xBC6, 0xFFBD, 0, 0], 0x208C),
    ([0xFF20, 0xBC6, 0x1002212, 0, 0], 0x208B), ([0xFF20, 0xBD8, 0x1000338, 0, 0], 0x2285),
    ([0xFF20, 0xBDA, 0x1000338, 0, 0], 0x2284), ([0xFF20, 0xBFC, 0x1000338, 0, 0], 0x22AC),
    ([0xFF20, 0xFFAF, 0x44, 0, 0], 0x110), ([0xFF20, 0xFFAF, 0x47, 0, 0], 0x1E4),
    ([0xFF20, 0xFFAF, 0x48, 0, 0], 0x126), ([0xFF20, 0xFFAF, 0x49, 0, 0], 0x197),
    ([0xFF20, 0xFFAF, 0x4C, 0, 0], 0x141), ([0xFF20, 0xFFAF, 0x4F, 0, 0], 0xD8),
    ([0xFF20, 0xFFAF, 0x54, 0, 0], 0x166), ([0xFF20, 0xFFAF, 0x5A, 0, 0], 0x1B5),
    ([0xFF20, 0xFFAF, 0x62, 0, 0], 0x180), ([0xFF20, 0xFFAF, 0x64, 0, 0], 0x111),
    ([0xFF20, 0xFFAF, 0x67, 0, 0], 0x1E5), ([0xFF20, 0xFFAF, 0x68, 0, 0], 0x127),
    ([0xFF20, 0xFFAF, 0x69, 0, 0], 0x268), ([0xFF20, 0xFFAF, 0x6C, 0, 0], 0x142),
    ([0xFF20, 0xFFAF, 0x6F, 0, 0], 0xF8), ([0xFF20, 0xFFAF, 0x74, 0, 0], 0x167),
    ([0xFF20, 0xFFAF, 0x7A, 0, 0], 0x1B6), ([0xFF20, 0xFFAF, 0x6C7, 0, 0], 0x493),
    ([0xFF20, 0xFFAF, 0x6CB, 0, 0], 0x49F), ([0xFF20, 0xFFAF, 0x6E7, 0, 0], 0x492),
    ([0xFF20, 0xFFAF, 0x6EB, 0, 0], 0x49E), ([0xFF20, 0xFFAF, 0x8FB, 0, 0], 0x219A),
    ([0xFF20, 0xFFAF, 0x8FD, 0, 0], 0x219B), ([0xFF20, 0xFFAF, 0x1000294, 0, 0], 0x2A1),
    ([0xFF20, 0xFFAF, 0x10004AE, 0, 0], 0x4B0), ([0xFF20, 0xFFAF, 0x10004AF, 0, 0], 0x4B1),
    ([0xFF20, 0xFFAF, 0x1002194, 0, 0], 0x21AE), ([0xFF20, 0xFFBD, 0x1000338, 0, 0], 0x2260),
    ([0xFF20, 0x10005B4, 0xCE9, 0, 0], 0xFB1D), ([0xFF20, 0x10005B7, 0xCE0, 0, 0], 0xFB2E),
    ([0xFF20, 0x10005B7, 0x10005F2, 0, 0], 0xFB1F), ([0xFF20, 0x10005B8, 0xCE0, 0, 0], 0xFB2F),
    ([0xFF20, 0x10005B9, 0xCE5, 0, 0], 0xFB4B), ([0xFF20, 0x10005BC, 0xCE0, 0, 0], 0xFB30),
    ([0xFF20, 0x10005BC, 0xCE1, 0, 0], 0xFB31), ([0xFF20, 0x10005BC, 0xCE2, 0, 0], 0xFB32),
    ([0xFF20, 0x10005BC, 0xCE3, 0, 0], 0xFB33), ([0xFF20, 0x10005BC, 0xCE4, 0, 0], 0xFB34),
    ([0xFF20, 0x10005BC, 0xCE5, 0, 0], 0xFB35), ([0xFF20, 0x10005BC, 0xCE6, 0, 0], 0xFB36),
    ([0xFF20, 0x10005BC, 0xCE8, 0, 0], 0xFB38), ([0xFF20, 0x10005BC, 0xCE9, 0, 0], 0xFB39),
    ([0xFF20, 0x10005BC, 0xCEA, 0, 0], 0xFB3A), ([0xFF20, 0x10005BC, 0xCEB, 0, 0], 0xFB3B),
    ([0xFF20, 0x10005BC, 0xCEC, 0, 0], 0xFB3C), ([0xFF20, 0x10005BC, 0xCEE, 0, 0], 0xFB3E),
    ([0xFF20, 0x10005BC, 0xCF0, 0, 0], 0xFB40), ([0xFF20, 0x10005BC, 0xCF1, 0, 0], 0xFB41),
    ([0xFF20, 0x10005BC, 0xCF3, 0, 0], 0xFB43), ([0xFF20, 0x10005BC, 0xCF4, 0, 0], 0xFB44),
    ([0xFF20, 0x10005BC, 0xCF6, 0, 0], 0xFB46), ([0xFF20, 0x10005BC, 0xCF7, 0, 0], 0xFB47),
    ([0xFF20, 0x10005BC, 0xCF8, 0, 0], 0xFB48), ([0xFF20, 0x10005BC, 0xCF9, 0, 0], 0xFB49),
    ([0xFF20, 0x10005BC, 0xCFA, 0, 0], 0xFB4A), ([0xFF20, 0x10005BF, 0xCE1, 0, 0], 0xFB4C),
    ([0xFF20, 0x10005BF, 0xCEB, 0, 0], 0xFB4D), ([0xFF20, 0x10005BF, 0xCF4, 0, 0], 0xFB4E),
    ([0xFF20, 0x10005C1, 0xCF9, 0, 0], 0xFB2A), ([0xFF20, 0x10005C1, 0x10005BC, 0xCF9, 0], 0xFB2C),
    ([0xFF20, 0x10005C1, 0x100FB49, 0, 0], 0xFB2C), ([0xFF20, 0x10005C2, 0xCF9, 0, 0], 0xFB2B),
    ([0xFF20, 0x10005C2, 0x10005BC, 0xCF9, 0], 0xFB2D), ([0xFF20, 0x10005C2, 0x100FB49, 0, 0], 0xFB2D),
    ([0xFF20, 0x1000653, 0x5C7, 0, 0], 0x622), ([0xFF20, 0x1000654, 0x5C7, 0, 0], 0x623),
    ([0xFF20, 0x1000654, 0x5E8, 0, 0], 0x624), ([0xFF20, 0x1000654, 0x5EA, 0, 0], 0x626),
    ([0xFF20, 0x1000654, 0x10006C1, 0, 0], 0x6C2), ([0xFF20, 0x1000654, 0x10006D2, 0, 0], 0x6D3),
    ([0xFF20, 0x1000654, 0x10006D5, 0, 0], 0x6C0), ([0xFF20, 0x1000655, 0x5C7, 0, 0], 0x625),
    ([0xFF20, 0x100093C, 0x1000915, 0, 0], 0x958), ([0xFF20, 0x100093C, 0x1000916, 0, 0], 0x959),
    ([0xFF20, 0x100093C, 0x1000917, 0, 0], 0x95A), ([0xFF20, 0x100093C, 0x100091C, 0, 0], 0x95B),
    ([0xFF20, 0x100093C, 0x1000921, 0, 0], 0x95C), ([0xFF20, 0x100093C, 0x1000922, 0, 0], 0x95D),
    ([0xFF20, 0x100093C, 0x1000928, 0, 0], 0x929), ([0xFF20, 0x100093C, 0x100092B, 0, 0], 0x95E),
    ([0xFF20, 0x100093C, 0x100092F, 0, 0], 0x95F), ([0xFF20, 0x100093C, 0x1000930, 0, 0], 0x931),
    ([0xFF20, 0x100093C, 0x1000933, 0, 0], 0x934), ([0xFF20, 0x10009BC, 0x10009A1, 0, 0], 0x9DC),
    ([0xFF20, 0x10009BC, 0x10009A2, 0, 0], 0x9DD), ([0xFF20, 0x10009BC, 0x10009AF, 0, 0], 0x9DF),
    ([0xFF20, 0x10009C7, 0x10009BE, 0, 0], 0x9CB), ([0xFF20, 0x10009C7, 0x10009D7, 0, 0], 0x9CC),
    ([0xFF20, 0x1000A3C, 0x1000A16, 0, 0], 0xA59), ([0xFF20, 0x1000A3C, 0x1000A17, 0, 0], 0xA5A),
    ([0xFF20, 0x1000A3C, 0x1000A1C, 0, 0], 0xA5B), ([0xFF20, 0x1000A3C, 0x1000A2B, 0, 0], 0xA5E),
    ([0xFF20, 0x1000A3C, 0x1000A32, 0, 0], 0xA33), ([0xFF20, 0x1000A3C, 0x1000A38, 0, 0], 0xA36),
    ([0xFF20, 0x1000B3C, 0x1000B21, 0, 0], 0xB5C), ([0xFF20, 0x1000B3C, 0x1000B22, 0, 0], 0xB5D),
    ([0xFF20, 0x1000B47, 0x1000B3E, 0, 0], 0xB4B), ([0xFF20, 0x1000B47, 0x1000B56, 0, 0], 0xB48),
    ([0xFF20, 0x1000B47, 0x1000B57, 0, 0], 0xB4C), ([0xFF20, 0x1000BC6, 0x1000BBE, 0, 0], 0xBCA),
    ([0xFF20, 0x1000BC6, 0x1000BD7, 0, 0], 0xBCC), ([0xFF20, 0x1000BC7, 0x1000BBE, 0, 0], 0xBCB),
    ([0xFF20, 0x1000BD7, 0x1000B92, 0, 0], 0xB94), ([0xFF20, 0x1000C46, 0x1000C56, 0, 0], 0xC48),
    ([0xFF20, 0x1000CBF, 0x1000CD5, 0, 0], 0xCC0), ([0xFF20, 0x1000CC6, 0x1000CC2, 0, 0], 0xCCA),
    ([0xFF20, 0x1000CC6, 0x1000CC2, 0x1000CD5, 0], 0xCCB), ([0xFF20, 0x1000CC6, 0x1000CD5, 0, 0], 0xCC7),
    ([0xFF20, 0x1000CC6, 0x1000CD6, 0, 0], 0xCC8), ([0xFF20, 0x1000CCA, 0x1000CD5, 0, 0], 0xCCB),
    ([0xFF20, 0x1000D46, 0x1000D3E, 0, 0], 0xD4A), ([0xFF20, 0x1000D46, 0x1000D57, 0, 0], 0xD4C),
    ([0xFF20, 0x1000D47, 0x1000D3E, 0, 0], 0xD4B), ([0xFF20, 0x1000DD9, 0x1000DCA, 0, 0], 0xDDA),
    ([0xFF20, 0x1000DD9, 0x1000DCF, 0, 0], 0xDDC), ([0xFF20, 0x1000DD9, 0x1000DCF, 0x1000DCA, 0], 0xDDD),
    ([0xFF20, 0x1000DD9, 0x1000DDF, 0, 0], 0xDDE), ([0xFF20, 0x1000DDC, 0x1000DCA, 0, 0], 0xDDD),
    ([0xFF20, 0x1000F71, 0x1000F72, 0, 0], 0xF73), ([0xFF20, 0x1000F71, 0x1000F74, 0, 0], 0xF75),
    ([0xFF20, 0x1000F71, 0x1000F80, 0, 0], 0xF81), ([0xFF20, 0x1000F90, 0x1000FB5, 0, 0], 0xFB9),
    ([0xFF20, 0x1000F92, 0x1000FB7, 0, 0], 0xF93), ([0xFF20, 0x1000F9C, 0x1000FB7, 0, 0], 0xF9D),
    ([0xFF20, 0x1000FA1, 0x1000FB7, 0, 0], 0xFA2), ([0xFF20, 0x1000FA6, 0x1000FB7, 0, 0], 0xFA7),
    ([0xFF20, 0x1000FAB, 0x1000FB7, 0, 0], 0xFAC), ([0xFF20, 0x1000FB2, 0x1000F80, 0, 0], 0xF76),
    ([0xFF20, 0x1000FB3, 0x1000F80, 0, 0], 0xF78), ([0xFF20, 0x1000FB5, 0x1000F40, 0, 0], 0xF69),
    ([0xFF20, 0x1000FB7, 0x1000F42, 0, 0], 0xF43), ([0xFF20, 0x1000FB7, 0x1000F4C, 0, 0], 0xF4D),
    ([0xFF20, 0x1000FB7, 0x1000F51, 0, 0], 0xF52), ([0xFF20, 0x1000FB7, 0x1000F56, 0, 0], 0xF57),
    ([0xFF20, 0x1000FB7, 0x1000F5B, 0, 0], 0xF5C), ([0xFF20, 0x100102E, 0x1001025, 0, 0], 0x1026),
    ([0xFF20, 0x1001100, 0x1001100, 0, 0], 0x1101), ([0xFF20, 0x1001102, 0x1001100, 0, 0], 0x1113),
    ([0xFF20, 0x1001102, 0x1001102, 0, 0], 0x1114), ([0xFF20, 0x1001102, 0x1001103, 0, 0], 0x1115),
    ([0xFF20, 0x1001102, 0x1001107, 0, 0], 0x1116), ([0xFF20, 0x1001103, 0x1001100, 0, 0], 0x1117)]"

definition compose_rows_38 :: "compose_row list" where
  "compose_rows_38 =
   [([0xFF20, 0x1001103, 0x1001103, 0, 0], 0x1104), ([0xFF20, 0x1001105, 0x1001102, 0, 0], 0x1118),
    ([0xFF20, 0x1001105, 0x1001105, 0, 0], 0x1119), ([0xFF20, 0x1001105, 0x100110B, 0, 0], 0x111B),
    ([0xFF20, 0x1001105, 0x1001112, 0, 0], 0x111A), ([0xFF20, 0x1001106, 0x1001107, 0, 0], 0x111C),
    ([0xFF20, 0x1001106, 0x100110B, 0, 0], 0x111D), ([0xFF20, 0x1001107, 0x1001100, 0, 0], 0x111E),
    ([0xFF20, 0x1001107, 0x1001102, 0, 0], 0x111F), ([0xFF20, 0x1001107, 0x1001103, 0, 0], 0x1120),
    ([0xFF20, 0x1001107, 0x1001107, 0, 0], 0x1108), ([0xFF20, 0x1001107, 0x1001107, 0x100110B, 0], 0x112C),
    ([0xFF20, 0x1001107, 0x1001109, 0, 0], 0x1121), ([0xFF20, 0x1001107, 0x1001109, 0x1001100, 0], 0x1122),
    ([0xFF20, 0x1001107, 0x1001109, 0x1001103, 0], 0x1123),
    ([0xFF20, 0x1001107, 0x1001109, 0x1001107, 0], 0x1124),
    ([0xFF20, 0x1001107, 0x1001109, 0x1001109, 0], 0x1125),
    ([0xFF20, 0x1001107, 0x1001109, 0x100110C, 0], 0x1126), ([0xFF20, 0x1001107, 0x100110A, 0, 0], 0x1125),
    ([0xFF20, 0x1001107, 0x100110B, 0, 0], 0x112B), ([0xFF20, 0x1001107, 0x100110C, 0, 0], 0x1127),
    ([0xFF20, 0x1001107, 0x100110E, 0, 0], 0x1128), ([0xFF20, 0x1001107, 0x1001110, 0, 0], 0x1129),
    ([0xFF20, 0x1001107, 0x1001111, 0, 0], 0x112A), ([0xFF20, 0x1001107, 0x100112B, 0, 0], 0x112C),
    ([0xFF20, 0x1001107, 0x100112D, 0, 0], 0x1122), ([0xFF20, 0x1001107, 0x100112F, 0, 0], 0x1123),
    ([0xFF20, 0x1001107, 0x1001132, 0, 0], 0x1124), ([0xFF20, 0x1001107, 0x1001136, 0, 0], 0x1126),
    ([0xFF20, 0x1001108, 0x100110B, 0, 0], 0x112C), ([0xFF20, 0x1001109, 0x1001100, 0, 0], 0x112D),
    ([0xFF20, 0x1001109, 0x1001102, 0, 0], 0x112E), ([0xFF20, 0x1001109, 0x1001103, 0, 0], 0x112F),
    ([0xFF20, 0x1001109, 0x1001105, 0, 0], 0x1130), ([0xFF20, 0x1001109, 0x1001106, 0, 0], 0x1131),
    ([0xFF20, 0x1001109, 0x1001107, 0, 0], 0x1132), ([0xFF20, 0x1001109, 0x1001107, 0x1001100, 0], 0x1133),
    ([0xFF20, 0x1001109, 0x1001109, 0, 0], 0x110A), ([0xFF20, 0x1001109, 0x1001109, 0x1001109, 0], 0x1134),
    ([0xFF20, 0x1001109, 0x100110A, 0, 0], 0x1134), ([0xFF20, 0x1001109, 0x100110B, 0, 0], 0x1135),
    ([0xFF20, 0x1001109, 0x100110C, 0, 0], 0x1136), ([0xFF20, 0x1001109, 0x100110E, 0, 0], 0x1137),
    ([0xFF20, 0x1001109, 0x100110F, 0, 0], 0x1138), ([0xFF20, 0x1001109, 0x1001110, 0, 0], 0x1139),
    ([0xFF20, 0x1001109, 0x1001111, 0, 0], 0x113A), ([0xFF20, 0x1001109, 0x1001112, 0, 0], 0x113B),
    ([0xFF20, 0x1001109, 0x100111E, 0, 0], 0x1133), ([0xFF20, 0x100110A, 0x1001109, 0, 0], 0x1134),
    ([0xFF20, 0x100110B, 0x1001100, 0, 0], 0x1141), ([0xFF20, 0x100110B, 0x1001103, 0, 0], 0x1142),
    ([0xFF20, 0x100110B, 0x1001106, 0, 0], 0x1143), ([0xFF20, 0x100110B, 0x1001107, 0, 0], 0x1144),
    ([0xFF20, 0x100110B, 0x1001109, 0, 0], 0x1145), ([0xFF20, 0x100110B, 0x100110B, 0, 0], 0x1147),
    ([0xFF20, 0x100110B, 0x100110C, 0, 0], 0x1148), ([0xFF20, 0x100110B, 0x100110E, 0, 0], 0x1149),
    ([0xFF20, 0x100110B, 0x1001110, 0, 0], 0x114A), ([0xFF20, 0x100110B, 0x1001111, 0, 0], 0x114B),
    ([0xFF20, 0x100110B, 0x1001140, 0, 0], 0x1146), ([0xFF20, 0x100110C, 0x100110B, 0, 0], 0x114D),
    ([0xFF20, 0x100110C, 0x100110C, 0, 0], 0x110D), ([0xFF20, 0x100110E, 0x100110F, 0, 0], 0x1152),
    ([0xFF20, 0x100110E, 0x1001112, 0, 0], 0x1153), ([0xFF20, 0x1001111, 0x1001107, 0, 0], 0x1156),
    ([0xFF20, 0x1001111, 0x100110B, 0, 0], 0x1157), ([0xFF20, 0x1001112, 0x1001112, 0, 0], 0x1158),
    ([0xFF20, 0x1001121, 0x1001100, 0, 0], 0x1122), ([0xFF20, 0x1001121, 0x1001103, 0, 0], 0x1123),
    ([0xFF20, 0x1001121, 0x1001107, 0, 0], 0x1124), ([0xFF20, 0x1001121, 0x1001109, 0, 0], 0x1125),
    ([0xFF20, 0x1001121, 0x100110C, 0, 0], 0x1126), ([0xFF20, 0x1001132, 0x1001100, 0, 0], 0x1133),
    ([0xFF20, 0x100113C, 0x100113C, 0, 0], 0x113D), ([0xFF20, 0x100113E, 0x100113E, 0, 0], 0x113F),
    ([0xFF20, 0x100114E, 0x100114E, 0, 0], 0x114F), ([0xFF20, 0x1001150, 0x1001150, 0, 0], 0x1151),
    ([0xFF20, 0x1001161, 0x1001169, 0, 0], 0x1176), ([0xFF20, 0x1001161, 0x100116E, 0, 0], 0x1177),
    ([0xFF20, 0x1001161, 0x1001175, 0, 0], 0x1162), ([0xFF20, 0x1001163, 0x1001169, 0, 0], 0x1178),
    ([0xFF20, 0x1001163, 0x100116D, 0, 0], 0x1179), ([0xFF20, 0x1001163, 0x1001175, 0, 0], 0x1164),
    ([0xFF20, 0x1001165, 0x1001169, 0, 0], 0x117A), ([0xFF20, 0x1001165, 0x100116E, 0, 0], 0x117B),
    ([0xFF20, 0x1001165, 0x1001173, 0, 0], 0x117C), ([0xFF20, 0x1001165, 0x1001175, 0, 0], 0x1166),
    ([0xFF20, 0x1001167, 0x1001169, 0, 0], 0x117D), ([0xFF20, 0x1001167, 0x100116E, 0, 0], 0x117E),
    ([0xFF20, 0x1001167, 0x1001175, 0, 0], 0x1168), ([0xFF20, 0x1001169, 0x1001161, 0, 0], 0x116A),
    ([0xFF20, 0x1001169, 0x1001161, 0x1001175, 0], 0x116B), ([0xFF20, 0x1001169, 0x1001162, 0, 0], 0x116B),
    ([0xFF20, 0x1001169, 0x1001165, 0, 0], 0x117F), ([0xFF20, 0x1001169, 0x1001166, 0, 0], 0x1180),
    ([0xFF20, 0x1001169, 0x1001168, 0, 0], 0x1181), ([0xFF20, 0x1001169, 0x1001169, 0, 0], 0x1182),
    ([0xFF20, 0x1001169, 0x100116E, 0, 0], 0x1183), ([0xFF20, 0x1001169, 0x1001175, 0, 0], 0x116C),
    ([0xFF20, 0x100116A, 0x1001175, 0, 0], 0x116B), ([0xFF20, 0x100116D, 0x1001163, 0, 0], 0x1184),
    ([0xFF20, 0x100116D, 0x1001164, 0, 0], 0x1185), ([0xFF20, 0x100116D, 0x1001167, 0, 0], 0x1186),
    ([0xFF20, 0x100116D, 0x1001169, 0, 0], 0x1187), ([0xFF20, 0x100116D, 0x1001175, 0, 0], 0x1188),
    ([0xFF20, 0x100116E, 0x1001161, 0, 0], 0x1189), ([0xFF20, 0x100116E, 0x1001162, 0, 0], 0x118A),
    ([0xFF20, 0x100116E, 0x1001165, 0, 0], 0x116F), ([0xFF20, 0x100116E, 0x1001165, 0x1001173, 0], 0x118B),
    ([0xFF20, 0x100116E, 0x1001165, 0x1001175, 0], 0x1170), ([0xFF20, 0x100116E, 0x1001166, 0, 0], 0x1170),
    ([0xFF20, 0x100116E, 0x1001168, 0, 0], 0x118C), ([0xFF20, 0x100116E, 0x100116E, 0, 0], 0x118D),
    ([0xFF20, 0x100116E, 0x1001175, 0, 0], 0x1171), ([0xFF20, 0x100116E, 0x100117C, 0, 0], 0x118B),
    ([0xFF20, 0x100116F, 0x1001173, 0, 0], 0x118B), ([0xFF20, 0x100116F, 0x1001175, 0, 0], 0x1170),
    ([0xFF20, 0x1001172, 0x1001161, 0, 0], 0x118E), ([0xFF20, 0x1001172, 0x1001165, 0, 0], 0x118F),
    ([0xFF20, 0x1001172, 0x1001166, 0, 0], 0x1190), ([0xFF20, 0x1001172, 0x1001167, 0, 0], 0x1191),
    ([0xFF20, 0x1001172, 0x1001168, 0, 0], 0x1192), ([0xFF20, 0x1001172, 0x100116E, 0, 0], 0x1193),
    ([0xFF20, 0x1001172, 0x1001175, 0, 0], 0x1194), ([0xFF20, 0x1001173, 0x100116E, 0, 0], 0x1195),
    ([0xFF20, 0x1001173, 0x1001173, 0, 0], 0x1196), ([0xFF20, 0x1001173, 0x1001175, 0, 0], 0x1174),
    ([0xFF20, 0x1001174, 0x100116E, 0, 0], 0x1197), ([0xFF20, 0x1001175, 0x1001161, 0, 0], 0x1198),
    ([0xFF20, 0x1001175, 0x1001163, 0, 0], 0x1199), ([0xFF20, 0x1001175, 0x1001169, 0, 0], 0x119A),
    ([0xFF20, 0x1001175, 0x100116E, 0, 0], 0x119B), ([0xFF20, 0x1001175, 0x1001173, 0, 0], 0x119C),
    ([0xFF20, 0x1001175, 0x100119E, 0, 0], 0x119D), ([0xFF20, 0x100119E, 0x1001165, 0, 0], 0x119F),
    ([0xFF20, 0x100119E, 0x100116E, 0, 0], 0x11A0), ([0xFF20, 0x100119E, 0x1001175, 0, 0], 0x11A1),
    ([0xFF20, 0x100119E, 0x100119E, 0, 0], 0x11A2), ([0xFF20, 0x10011A8, 0x10011A8, 0, 0], 0x11A9),
    ([0xFF20, 0x10011A8, 0x10011AF, 0, 0], 0x11C3), ([0xFF20, 0x10011A8, 0x10011BA, 0, 0], 0x11AA),
    ([0xFF20, 0x10011A8, 0x10011BA, 0x10011A8, 0], 0x11C4), ([0xFF20, 0x10011A8, 0x10011E7, 0, 0], 0x11C4),
    ([0xFF20, 0x10011AA, 0x10011A8, 0, 0], 0x11C4), ([0xFF20, 0x10011AB, 0x10011A8, 0, 0], 0x11C5),
    ([0xFF20, 0x10011AB, 0x10011AE, 0, 0], 0x11C6), ([0xFF20, 0x10011AB, 0x10011BA, 0, 0], 0x11C7),
    ([0xFF20, 0x10011AB, 0x10011BD, 0, 0], 0x11AC)]"

definition compose_rows_39 :: "compose_row list" where
  "compose_rows_39 =
   [([0xFF20, 0x10011AB, 0x10011C0, 0, 0], 0x11C9), ([0xFF20, 0x10011AB, 0x10011C2, 0, 0], 0x11AD),
    ([0xFF20, 0x10011AB, 0x10011EB, 0, 0], 0x11C8), ([0xFF20, 0x10011AE, 0x10011A8, 0, 0], 0x11CA),
    ([0xFF20, 0x10011AE, 0x10011AF, 0, 0], 0x11CB), ([0xFF20, 0x10011AF, 0x10011A8, 0, 0], 0x11B0),
    ([0xFF20, 0x10011AF, 0x10011A8, 0x10011BA, 0], 0x11CC), ([0xFF20, 0x10011AF, 0x10011AA, 0, 0], 0x11CC),
    ([0xFF20, 0x10011AF, 0x10011AB, 0, 0], 0x11CD), ([0xFF20, 0x10011AF, 0x10011AE, 0, 0], 0x11CE),
    ([0xFF20, 0x10011AF, 0x10011AE, 0x10011C2, 0], 0x11CF), ([0xFF20, 0x10011AF, 0x10011AF, 0, 0], 0x11D0),
    ([0xFF20, 0x10011AF, 0x10011B7, 0, 0], 0x11B1), ([0xFF20, 0x10011AF, 0x10011B7, 0x10011A8, 0], 0x11D1),
    ([0xFF20, 0x10011AF, 0x10011B7, 0x10011BA, 0], 0x11D2), ([0xFF20, 0x10011AF, 0x10011B8, 0, 0], 0x11B2),
    ([0xFF20, 0x10011AF, 0x10011B8, 0x10011BA, 0], 0x11D3),
    ([0xFF20, 0x10011AF, 0x10011B8, 0x10011BC, 0], 0x11D5),
    ([0xFF20, 0x10011AF, 0x10011B8, 0x10011C2, 0], 0x11D4), ([0xFF20, 0x10011AF, 0x10011B9, 0, 0], 0x11D3),
    ([0xFF20, 0x10011AF, 0x10011BA, 0, 0], 0x11B3), ([0xFF20, 0x10011AF, 0x10011BA, 0x10011BA, 0], 0x11D6),
    ([0xFF20, 0x10011AF, 0x10011BB, 0, 0], 0x11D6), ([0xFF20, 0x10011AF, 0x10011BF, 0, 0], 0x11D8),
    ([0xFF20, 0x10011AF, 0x10011C0, 0, 0], 0x11B4), ([0xFF20, 0x10011AF, 0x10011C1, 0, 0], 0x11B5),
    ([0xFF20, 0x10011AF, 0x10011C2, 0, 0], 0x11B6), ([0xFF20, 0x10011AF, 0x10011DA, 0, 0], 0x11D1),
    ([0xFF20, 0x10011AF, 0x10011DD, 0, 0], 0x11D2), ([0xFF20, 0x10011AF, 0x10011E5, 0, 0], 0x11D4),
    ([0xFF20, 0x10011AF, 0x10011E6, 0, 0], 0x11D5), ([0xFF20, 0x10011AF, 0x10011EB, 0, 0], 0x11D7),
    ([0xFF20, 0x10011AF, 0x10011F9, 0, 0], 0x11D9), ([0xFF20, 0x10011B0, 0x10011BA, 0, 0], 0x11CC),
    ([0xFF20, 0x10011B1, 0x10011A8, 0, 0], 0x11D1), ([0xFF20, 0x10011B1, 0x10011BA, 0, 0], 0x11D2),
    ([0xFF20, 0x10011B2, 0x10011BA, 0, 0], 0x11D3), ([0xFF20, 0x10011B2, 0x10011BC, 0, 0], 0x11D5),
    ([0xFF20, 0x10011B2, 0x10011C2, 0, 0], 0x11D4), ([0xFF20, 0x10011B3, 0x10011BA, 0, 0], 0x11D6),
    ([0xFF20, 0x10011B7, 0x10011A8, 0, 0], 0x11DA), ([0xFF20, 0x10011B7, 0x10011AF, 0, 0], 0x11DB),
    ([0xFF20, 0x10011B7, 0x10011B8, 0, 0], 0x11DC), ([0xFF20, 0x10011B7, 0x10011BA, 0, 0], 0x11DD),
    ([0xFF20, 0x10011B7, 0x10011BA, 0x10011BA, 0], 0x11DE), ([0xFF20, 0x10011B7, 0x10011BB, 0, 0], 0x11DE),
    ([0xFF20, 0x10011B7, 0x10011BC, 0, 0], 0x11E2), ([0xFF20, 0x10011B7, 0x10011BE, 0, 0], 0x11E0),
    ([0xFF20, 0x10011B7, 0x10011C2, 0, 0], 0x11E1), ([0xFF20, 0x10011B7, 0x10011EB, 0, 0], 0x11DF),
    ([0xFF20, 0x10011B8, 0x10011AF, 0, 0], 0x11E3), ([0xFF20, 0x10011B8, 0x10011BA, 0, 0], 0x11B9),
    ([0xFF20, 0x10011B8, 0x10011BC, 0, 0], 0x11E6), ([0xFF20, 0x10011B8, 0x10011C1, 0, 0], 0x11E4),
    ([0xFF20, 0x10011B8, 0x10011C2, 0, 0], 0x11E5), ([0xFF20, 0x10011BA, 0x10011A8, 0, 0], 0x11E7),
    ([0xFF20, 0x10011BA, 0x10011AE, 0, 0], 0x11E8), ([0xFF20, 0x10011BA, 0x10011AF, 0, 0], 0x11E9),
    ([0xFF20, 0x10011BA, 0x10011B8, 0, 0], 0x11EA), ([0xFF20, 0x10011BA, 0x10011BA, 0, 0], 0x11BB),
    ([0xFF20, 0x10011BC, 0x10011A8, 0, 0], 0x11EC), ([0xFF20, 0x10011BC, 0x10011A8, 0x10011A8, 0], 0x11ED),
    ([0xFF20, 0x10011BC, 0x10011A9, 0, 0], 0x11ED), ([0xFF20, 0x10011BC, 0x10011BC, 0, 0], 0x11EE),
    ([0xFF20, 0x10011BC, 0x10011BF, 0, 0], 0x11EF), ([0xFF20, 0x10011C1, 0x10011B8, 0, 0], 0x11F3),
    ([0xFF20, 0x10011C1, 0x10011BC, 0, 0], 0x11F4), ([0xFF20, 0x10011C2, 0x10011AB, 0, 0], 0x11F5),
    ([0xFF20, 0x10011C2, 0x10011AF, 0, 0], 0x11F6), ([0xFF20, 0x10011C2, 0x10011B7, 0, 0], 0x11F7),
    ([0xFF20, 0x10011C2, 0x10011B8, 0, 0], 0x11F8), ([0xFF20, 0x10011CE, 0x10011C2, 0, 0], 0x11CF),
    ([0xFF20, 0x10011DD, 0x10011BA, 0, 0], 0x11DE), ([0xFF20, 0x10011EC, 0x10011A8, 0, 0], 0x11ED),
    ([0xFF20, 0x10011F0, 0x10011BA, 0, 0], 0x11F1), ([0xFF20, 0x10011F0, 0x10011EB, 0, 0], 0x11F2),
    ([0xFF20, 0x1001FBF, 0x27, 0, 0], 0x1FCE), ([0xFF20, 0x1001FBF, 0x60, 0, 0], 0x1FCD),
    ([0xFF20, 0x1001FBF, 0x7E, 0, 0], 0x1FCF), ([0xFF20, 0x1001FBF, 0xB4, 0, 0], 0x1FCE),
    ([0xFF20, 0x1001FBF, 0x1EF2, 0, 0], 0x1FCD), ([0xFF20, 0x1001FBF, 0x1EF3, 0, 0], 0x1FCE),
    ([0xFF20, 0x1001FBF, 0xFE50, 0, 0], 0x1FCD), ([0xFF20, 0x1001FBF, 0xFE51, 0, 0], 0x1FCE),
    ([0xFF20, 0x1001FBF, 0xFE53, 0, 0], 0x1FCF), ([0xFF20, 0x1001FBF, 0x1000342, 0, 0], 0x1FCF),
    ([0xFF20, 0x1001FFE, 0x27, 0, 0], 0x1FDE), ([0xFF20, 0x1001FFE, 0x60, 0, 0], 0x1FDD),
    ([0xFF20, 0x1001FFE, 0x7E, 0, 0], 0x1FDF), ([0xFF20, 0x1001FFE, 0xB4, 0, 0], 0x1FDE),
    ([0xFF20, 0x1001FFE, 0x1EF2, 0, 0], 0x1FDD), ([0xFF20, 0x1001FFE, 0x1EF3, 0, 0], 0x1FDE),
    ([0xFF20, 0x1001FFE, 0xFE50, 0, 0], 0x1FDD), ([0xFF20, 0x1001FFE, 0xFE51, 0, 0], 0x1FDE),
    ([0xFF20, 0x1001FFE, 0xFE53, 0, 0], 0x1FDF), ([0xFF20, 0x1001FFE, 0x1000342, 0, 0], 0x1FDF),
    ([0xFF20, 0x1002203, 0x1000338, 0, 0], 0x2204), ([0xFF20, 0x1002208, 0x1000338, 0, 0], 0x2209),
    ([0xFF20, 0x100220B, 0x1000338, 0, 0], 0x220C), ([0xFF20, 0x1002223, 0x1000338, 0, 0], 0x2224),
    ([0xFF20, 0x1002225, 0x1000338, 0, 0], 0x2226), ([0xFF20, 0x100223C, 0x1000338, 0, 0], 0x2241),
    ([0xFF20, 0x1002243, 0x1000338, 0, 0], 0x2244), ([0xFF20, 0x1002248, 0x1000338, 0, 0], 0x2249),
    ([0xFF20, 0x100224D, 0x1000338, 0, 0], 0x226D), ([0xFF20, 0x1002272, 0x1000338, 0, 0], 0x2274),
    ([0xFF20, 0x1002273, 0x1000338, 0, 0], 0x2275), ([0xFF20, 0x1002276, 0x1000338, 0, 0], 0x2278),
    ([0xFF20, 0x1002277, 0x1000338, 0, 0], 0x2279), ([0xFF20, 0x100227A, 0x1000338, 0, 0], 0x2280),
    ([0xFF20, 0x100227B, 0x1000338, 0, 0], 0x2281), ([0xFF20, 0x100227C, 0x1000338, 0, 0], 0x22E0),
    ([0xFF20, 0x100227D, 0x1000338, 0, 0], 0x22E1), ([0xFF20, 0x1002286, 0x1000338, 0, 0], 0x2288),
    ([0xFF20, 0x1002287, 0x1000338, 0, 0], 0x2289), ([0xFF20, 0x1002291, 0x1000338, 0, 0], 0x22E2),
    ([0xFF20, 0x1002292, 0x1000338, 0, 0], 0x22E3), ([0xFF20, 0x10022A8, 0x1000338, 0, 0], 0x22AD),
    ([0xFF20, 0x10022A9, 0x1000338, 0, 0], 0x22AE), ([0xFF20, 0x10022AB, 0x1000338, 0, 0], 0x22AF),
    ([0xFF20, 0x10022B2, 0x1000338, 0, 0], 0x22EA), ([0xFF20, 0x10022B3, 0x1000338, 0, 0], 0x22EB),
    ([0xFF20, 0x10022B4, 0x1000338, 0, 0], 0x22EC), ([0xFF20, 0x10022B5, 0x1000338, 0, 0], 0x22ED),
    ([0xFF20, 0x1002ADD, 0x1000338, 0, 0], 0x2ADC), ([0x100030F, 0x41, 0, 0, 0], 0x200),
    ([0x100030F, 0x45, 0, 0, 0], 0x204), ([0x100030F, 0x49, 0, 0, 0], 0x208),
    ([0x100030F, 0x4F, 0, 0, 0], 0x20C), ([0x100030F, 0x52, 0, 0, 0], 0x210),
    ([0x100030F, 0x55, 0, 0, 0], 0x214), ([0x100030F, 0x61, 0, 0, 0], 0x201),
    ([0x100030F, 0x65, 0, 0, 0], 0x205), ([0x100030F, 0x69, 0, 0, 0], 0x209),
    ([0x100030F, 0x6F, 0, 0, 0], 0x20D), ([0x100030F, 0x72, 0, 0, 0], 0x211),
    ([0x100030F, 0x75, 0, 0, 0], 0x215), ([0x100030F, 0x1000474, 0, 0, 0], 0x476),
    ([0x100030F, 0x1000475, 0, 0, 0], 0x477), ([0x1000311, 0x41, 0, 0, 0], 0x202),
    ([0x1000311, 0x45, 0, 0, 0], 0x206), ([0x1000311, 0x49, 0, 0, 0], 0x20A),
    ([0x1000311, 0x4F, 0, 0, 0], 0x20E), ([0x1000311, 0x52, 0, 0, 0], 0x212),
    ([0x1000311, 0x55, 0, 0, 0], 0x216), ([0x1000311, 0x61, 0, 0, 0], 0x203),
    ([0x1000311, 0x65, 0, 0, 0], 0x207), ([0x1000311, 0x69, 0, 0, 0], 0x20B)]"

definition compose_rows_40 :: "compose_row list" where
  "compose_rows_40 =
   [([0x1000311, 0x6F, 0, 0, 0], 0x20F), ([0x1000311, 0x72, 0, 0, 0], 0x213),
    ([0x1000311, 0x75, 0, 0, 0], 0x217), ([0x1000313, 0x7C1, 0, 0, 0], 0x1F08),
    ([0x1000313, 0x7C5, 0, 0, 0], 0x1F18), ([0x1000313, 0x7C7, 0, 0, 0], 0x1F28),
    ([0x1000313, 0x7C9, 0, 0, 0], 0x1F38), ([0x1000313, 0x7CF, 0, 0, 0], 0x1F48),
    ([0x1000313, 0x7D9, 0, 0, 0], 0x1F68), ([0x1000313, 0x7E1, 0, 0, 0], 0x1F00),
    ([0x1000313, 0x7E5, 0, 0, 0], 0x1F10), ([0x1000313, 0x7E7, 0, 0, 0], 0x1F20),
    ([0x1000313, 0x7E9, 0, 0, 0], 0x1F30), ([0x1000313, 0x7EF, 0, 0, 0], 0x1F40),
    ([0x1000313, 0x7F1, 0, 0, 0], 0x1FE4), ([0x1000313, 0x7F5, 0, 0, 0], 0x1F50),
    ([0x1000313, 0x7F9, 0, 0, 0], 0x1F60), ([0x1000314, 0x7C1, 0, 0, 0], 0x1F09),
    ([0x1000314, 0x7C5, 0, 0, 0], 0x1F19), ([0x1000314, 0x7C7, 0, 0, 0], 0x1F29),
    ([0x1000314, 0x7C9, 0, 0, 0], 0x1F39), ([0x1000314, 0x7CF, 0, 0, 0], 0x1F49),
    ([0x1000314, 0x7D1, 0, 0, 0], 0x1FEC), ([0x1000314, 0x7D5, 0, 0, 0], 0x1F59),
    ([0x1000314, 0x7D9, 0, 0, 0], 0x1F69), ([0x1000314, 0x7E1, 0, 0, 0], 0x1F01),
    ([0x1000314, 0x7E5, 0, 0, 0], 0x1F11), ([0x1000314, 0x7E7, 0, 0, 0], 0x1F21),
    ([0x1000314, 0x7E9, 0, 0, 0], 0x1F31), ([0x1000314, 0x7EF, 0, 0, 0], 0x1F41),
    ([0x1000314, 0x7F1, 0, 0, 0], 0x1FE5), ([0x1000314, 0x7F5, 0, 0, 0], 0x1F51),
    ([0x1000314, 0x7F9, 0, 0, 0], 0x1F61), ([0x1000324, 0x55, 0, 0, 0], 0x1E72),
    ([0x1000324, 0x75, 0, 0, 0], 0x1E73), ([0x1000325, 0x41, 0, 0, 0], 0x1E00),
    ([0x1000325, 0x61, 0, 0, 0], 0x1E01), ([0x1000326, 0x53, 0, 0, 0], 0x218),
    ([0x1000326, 0x54, 0, 0, 0], 0x21A), ([0x1000326, 0x73, 0, 0, 0], 0x219),
    ([0x1000326, 0x74, 0, 0, 0], 0x21B), ([0x100032D, 0x44, 0, 0, 0], 0x1E12),
    ([0x100032D, 0x45, 0, 0, 0], 0x1E18), ([0x100032D, 0x4C, 0, 0, 0], 0x1E3C),
    ([0x100032D, 0x4E, 0, 0, 0], 0x1E4A), ([0x100032D, 0x54, 0, 0, 0], 0x1E70),
    ([0x100032D, 0x55, 0, 0, 0], 0x1E76), ([0x100032D, 0x64, 0, 0, 0], 0x1E13),
    ([0x100032D, 0x65, 0, 0, 0], 0x1E19), ([0x100032D, 0x6C, 0, 0, 0], 0x1E3D),
    ([0x100032D, 0x6E, 0, 0, 0], 0x1E4B), ([0x100032D, 0x74, 0, 0, 0], 0x1E71),
    ([0x100032D, 0x75, 0, 0, 0], 0x1E77), ([0x100032E, 0x48, 0, 0, 0], 0x1E2A),
    ([0x100032E, 0x68, 0, 0, 0], 0x1E2B), ([0x1000330, 0x45, 0, 0, 0], 0x1E1A),
    ([0x1000330, 0x49, 0, 0, 0], 0x1E2C), ([0x1000330, 0x55, 0, 0, 0], 0x1E74),
    ([0x1000330, 0x65, 0, 0, 0], 0x1E1B), ([0x1000330, 0x69, 0, 0, 0], 0x1E2D),
    ([0x1000330, 0x75, 0, 0, 0], 0x1E75), ([0x1000331, 0x42, 0, 0, 0], 0x1E06),
    ([0x1000331, 0x44, 0, 0, 0], 0x1E0E), ([0x1000331, 0x4B, 0, 0, 0], 0x1E34),
    ([0x1000331, 0x4C, 0, 0, 0], 0x1E3A), ([0x1000331, 0x4E, 0, 0, 0], 0x1E48),
    ([0x1000331, 0x52, 0, 0, 0], 0x1E5E), ([0x1000331, 0x54, 0, 0, 0], 0x1E6E),
    ([0x1000331, 0x5A, 0, 0, 0], 0x1E94), ([0x1000331, 0x62, 0, 0, 0], 0x1E07),
    ([0x1000331, 0x64, 0, 0, 0], 0x1E0F), ([0x1000331, 0x68, 0, 0, 0], 0x1E96),
    ([0x1000331, 0x6B, 0, 0, 0], 0x1E35), ([0x1000331, 0x6C, 0, 0, 0], 0x1E3B),
    ([0x1000331, 0x6E, 0, 0, 0], 0x1E49), ([0x1000331, 0x72, 0, 0, 0], 0x1E5F),
    ([0x1000331, 0x74, 0, 0, 0], 0x1E6F), ([0x1000331, 0x7A, 0, 0, 0], 0x1E95),
    ([0x1000342, 0x7B5, 0, 0, 0], 0x1FD7), ([0x1000342, 0x7B9, 0, 0, 0], 0x1FE7),
    ([0x1000342, 0x7E1, 0, 0, 0], 0x1FB6), ([0x1000342, 0x7E7, 0, 0, 0], 0x1FC6),
    ([0x1000342, 0x7E9, 0, 0, 0], 0x1FD6), ([0x1000342, 0x7F5, 0, 0, 0], 0x1FE6),
    ([0x1000342, 0x7F9, 0, 0, 0], 0x1FF6), ([0x1000342, 0xFE57, 0x7E9, 0, 0], 0x1FD7),
    ([0x1000342, 0xFE57, 0x7F5, 0, 0], 0x1FE7), ([0x1000342, 0xFF20, 0x22, 0x7E9, 0], 0x1FD7),
    ([0x1000342, 0xFF20, 0x22, 0x7F5, 0], 0x1FE7), ([0x1000342, 0xFF20, 0x28, 0x7C1, 0], 0x1F0F),
    ([0x1000342, 0xFF20, 0x28, 0x7C7, 0], 0x1F2F), ([0x1000342, 0xFF20, 0x28, 0x7C9, 0], 0x1F3F),
    ([0x1000342, 0xFF20, 0x28, 0x7D5, 0], 0x1F5F), ([0x1000342, 0xFF20, 0x28, 0x7D9, 0], 0x1F6F),
    ([0x1000342, 0xFF20, 0x28, 0x7E1, 0], 0x1F07), ([0x1000342, 0xFF20, 0x28, 0x7E7, 0], 0x1F27),
    ([0x1000342, 0xFF20, 0x28, 0x7E9, 0], 0x1F37), ([0x1000342, 0xFF20, 0x28, 0x7F5, 0], 0x1F57),
    ([0x1000342, 0xFF20, 0x28, 0x7F9, 0], 0x1F67), ([0x1000342, 0xFF20, 0x29, 0x7C1, 0], 0x1F0E),
    ([0x1000342, 0xFF20, 0x29, 0x7C7, 0], 0x1F2E), ([0x1000342, 0xFF20, 0x29, 0x7C9, 0], 0x1F3E),
    ([0x1000342, 0xFF20, 0x29, 0x7D9, 0], 0x1F6E), ([0x1000342, 0xFF20, 0x29, 0x7E1, 0], 0x1F06),
    ([0x1000342, 0xFF20, 0x29, 0x7E7, 0], 0x1F26), ([0x1000342, 0xFF20, 0x29, 0x7E9, 0], 0x1F36),
    ([0x1000342, 0xFF20, 0x29, 0x7F5, 0], 0x1F56), ([0x1000342, 0xFF20, 0x29, 0x7F9, 0], 0x1F66),
    ([0x1000342, 0x1000313, 0x7C1, 0, 0], 0x1F0E), ([0x1000342, 0x1000313, 0x7C7, 0, 0], 0x1F2E),
    ([0x1000342, 0x1000313, 0x7C9, 0, 0], 0x1F3E), ([0x1000342, 0x1000313, 0x7D9, 0, 0], 0x1F6E),
    ([0x1000342, 0x1000313, 0x7E1, 0, 0], 0x1F06), ([0x1000342, 0x1000313, 0x7E7, 0, 0], 0x1F26),
    ([0x1000342, 0x1000313, 0x7E9, 0, 0], 0x1F36), ([0x1000342, 0x1000313, 0x7F5, 0, 0], 0x1F56),
    ([0x1000342, 0x1000313, 0x7F9, 0, 0], 0x1F66), ([0x1000342, 0x1000314, 0x7C1, 0, 0], 0x1F0F),
    ([0x1000342, 0x1000314, 0x7C7, 0, 0], 0x1F2F), ([0x1000342, 0x1000314, 0x7C9, 0, 0], 0x1F3F),
    ([0x1000342, 0x1000314, 0x7D5, 0, 0], 0x1F5F), ([0x1000342, 0x1000314, 0x7D9, 0, 0], 0x1F6F),
    ([0x1000342, 0x1000314, 0x7E1, 0, 0], 0x1F07), ([0x1000342, 0x1000314, 0x7E7, 0, 0], 0x1F27),
    ([0x1000342, 0x1000314, 0x7E9, 0, 0], 0x1F37), ([0x1000342, 0x1000314, 0x7F5, 0, 0], 0x1F57),
    ([0x1000342, 0x1000314, 0x7F9, 0, 0], 0x1F67), ([0x1000342, 0x1001F00, 0, 0, 0], 0x1F06),
    ([0x1000342, 0x1001F01, 0, 0, 0], 0x1F07), ([0x1000342, 0x1001F08, 0, 0, 0], 0x1F0E),
    ([0x1000342, 0x1001F09, 0, 0, 0], 0x1F0F), ([0x1000342, 0x1001F20, 0, 0, 0], 0x1F26),
    ([0x1000342, 0x1001F21, 0, 0, 0], 0x1F27), ([0x1000342, 0x1001F28, 0, 0, 0], 0x1F2E),
    ([0x1000342, 0x1001F29, 0, 0, 0], 0x1F2F), ([0x1000342, 0x1001F30, 0, 0, 0], 0x1F36),
    ([0x1000342, 0x1001F31, 0, 0, 0], 0x1F37), ([0x1000342, 0x1001F38, 0, 0, 0], 0x1F3E),
    ([0x1000342, 0x1001F39, 0, 0, 0], 0x1F3F), ([0x1000342, 0x1001F50, 0, 0, 0], 0x1F56),
    ([0x1000342, 0x1001F51, 0, 0, 0], 0x1F57), ([0x1000342, 0x1001F59, 0, 0, 0], 0x1F5F),
    ([0x1000342, 0x1001F60, 0, 0, 0], 0x1F66), ([0x1000342, 0x1001F61, 0, 0, 0], 0x1F67),
    ([0x1000342, 0x1001F68, 0, 0, 0], 0x1F6E), ([0x1000342, 0x1001F69, 0, 0, 0], 0x1F6F)]"

definition compose_rows :: "compose_row list" where
  "compose_rows =
     compose_rows_1 @ compose_rows_2 @ compose_rows_3 @ compose_rows_4 @ compose_rows_5 @
     compose_rows_6 @ compose_rows_7 @ compose_rows_8 @ compose_rows_9 @ compose_rows_10 @
     compose_rows_11 @ compose_rows_12 @ compose_rows_13 @ compose_rows_14 @ compose_rows_15 @
     compose_rows_16 @ compose_rows_17 @ compose_rows_18 @ compose_rows_19 @ compose_rows_20 @
     compose_rows_21 @ compose_rows_22 @ compose_rows_23 @ compose_rows_24 @ compose_rows_25 @
     compose_rows_26 @ compose_rows_27 @ compose_rows_28 @ compose_rows_29 @ compose_rows_30 @
     compose_rows_31 @ compose_rows_32 @ compose_rows_33 @ compose_rows_34 @ compose_rows_35 @
     compose_rows_36 @ compose_rows_37 @ compose_rows_38 @ compose_rows_39 @ compose_rows_40"

end
