(* ===== verification/Core_Compose_Order.thy ===== *)
theory Core_Compose_Order
  imports Core_Compose_Table
begin

text \<open>
  The order of the compose sequences and what keys they hold, checked by evaluation part by part.
\<close>

fun row_less :: "int list \<Rightarrow> int list \<Rightarrow> bool" where
  "row_less (a # as) (b # bs) \<longleftrightarrow> (if a < b then True else if a > b then False else row_less as bs)"
| "row_less _ _ \<longleftrightarrow> False"

text \<open>A key that is 32 bits wide, not zero, and no modifier in its lower 16 bits.\<close>

definition row_key :: "int \<Rightarrow> bool" where
  "row_key k \<longleftrightarrow>
     (if k < 0xFE03 then 0 < k
      else if k \<le> 0xFFFF then 0xFE03 < k \<and> (k < 0xFF7E \<or> 0xFF7E < k \<and> k < 0xFFE1 \<or> 0xFFEE < k)
      else 0x1000000 \<le> k \<and> k < 0x100FE03)"

text \<open>Two keys at least, and zeros behind them.\<close>

fun row_keys :: "int list \<Rightarrow> bool" where
  "row_keys [a, b, c, d, e] \<longleftrightarrow>
     row_key a \<and> row_key b \<and>
     (if c = 0 then d = 0 \<and> e = 0
      else row_key c \<and> (if d = 0 then e = 0 else row_key d \<and> (if e = 0 then True else row_key e)))"
| "row_keys _ \<longleftrightarrow> False"

definition row_part :: "compose_row list \<Rightarrow> bool" where
  "row_part t \<longleftrightarrow> successively (\<lambda>a b. row_less (fst a) (fst b)) t \<and> list_all (\<lambda>a. row_keys (fst a)) t"

text \<open>Each part is checked together with the first row of the next one.\<close>

definition starts :: "compose_row \<Rightarrow> compose_row list \<Rightarrow> bool" where
  "starts y t \<longleftrightarrow> t \<noteq> [] \<and> hd t = y \<and> row_part t"

lemma part_last: "t = y # ys \<Longrightarrow> row_part t \<Longrightarrow> starts y t"
  by (simp add: starts_def)

lemma part_join:
  assumes "t = x # xs" "row_part (t @ [y])" "starts y ys"
  shows "starts x (t @ ys)"
proof -
  have "t \<noteq> []" "hd t = x" using assms(1) by simp_all
  with assms(2,3) show ?thesis
    by (cases ys) (auto simp: starts_def row_part_def successively_append_iff)
qed

lemma row_part_1: "row_part (compose_rows_1 @ [([0x1EF2, 0xFF20, 0x29, 0x7C7, 0], 0x1F2A)])"
  by code_simp

lemma row_part_2: "row_part (compose_rows_2 @ [([0x1EF3, 0x3FD, 0, 0, 0], 0x1E79)])"
  by code_simp

lemma row_part_3: "row_part (compose_rows_3 @ [([0x1EF3, 0x1000314, 0x7E7, 0, 0], 0x1F25)])"
  by code_simp

lemma row_part_4: "row_part (compose_rows_4 @ [([0xFE50, 0x77, 0, 0, 0], 0x1E81)])"
  by code_simp

lemma row_part_5: "row_part (compose_rows_5 @ [([0xFE50, 0x1001F09, 0, 0, 0], 0x1F0B)])"
  by code_simp

lemma row_part_6: "row_part (compose_rows_6 @ [([0xFE51, 0xFE62, 0x75, 0, 0], 0x1EE9)])"
  by code_simp

lemma row_part_7: "row_part (compose_rows_7 @ [([0xFE52, 0x48, 0, 0, 0], 0x124)])"
  by code_simp

lemma row_part_8: "row_part (compose_rows_8 @ [([0xFE53, 0x1EFA, 0, 0, 0], 0x1EE0)])"
  by code_simp

lemma row_part_9: "row_part (compose_rows_9 @ [([0xFE54, 0xFE57, 0x61, 0, 0], 0x1DF)])"
  by code_simp

lemma row_part_10: "row_part (compose_rows_10 @ [([0xFE56, 0x1001E63, 0, 0, 0], 0x1E69)])"
  by code_simp

lemma row_part_11: "row_part (compose_rows_11 @ [([0xFE5B, 0x54, 0, 0, 0], 0x162)])"
  by code_simp

lemma row_part_12: "row_part (compose_rows_12 @ [([0xFE5D, 0xFE50, 0x1001F29, 0, 0], 0x1F9B)])"
  by code_simp

lemma row_part_13: "row_part (compose_rows_13 @ [([0xFE5D, 0xFF20, 0x60, 0x7E7, 0], 0x1FC2)])"
  by code_simp

lemma row_part_14: "row_part (compose_rows_14 @ [([0xFE5D, 0x1000342, 0x1001F21, 0, 0], 0x1F97)])"
  by code_simp

lemma row_part_15: "row_part (compose_rows_15 @ [([0xFE60, 0x6F, 0, 0, 0], 0x1ECD)])"
  by code_simp

lemma row_part_16: "row_part (compose_rows_16 @ [([0xFF20, 0x21, 0x1EFA, 0, 0], 0x1EE2)])"
  by code_simp

lemma row_part_17: "row_part (compose_rows_17 @ [([0xFF20, 0x27, 0x50, 0, 0], 0x1E54)])"
  by code_simp

lemma row_part_18: "row_part (compose_rows_18 @ [([0xFF20, 0x27, 0x1000314, 0x7C5, 0], 0x1F1D)])"
  by code_simp

lemma row_part_19: "row_part (compose_rows_19 @ [([0xFF20, 0x28, 0x47, 0x29, 0], 0x24BC)])"
  by code_simp

lemma row_part_20: "row_part (compose_rows_20 @ [([0xFF20, 0x28, 0xFFB1, 0xFFB2, 0x29], 0x246B)])"
  by code_simp

lemma row_part_21: "row_part (compose_rows_21 @ [([0xFF20, 0x28, 0x100706B, 0x29, 0], 0x328B)])"
  by code_simp

lemma row_part_22: "row_part (compose_rows_22 @ [([0xFF20, 0x2E, 0x79, 0, 0], 0x1E8F)])"
  by code_simp

lemma row_part_23: "row_part (compose_rows_23 @ [([0xFF20, 0x3F, 0x41, 0, 0], 0x1EA2)])"
  by code_simp

lemma row_part_24: "row_part (compose_rows_24 @ [([0xFF20, 0x50, 0x74, 0, 0], 0x20A7)])"
  by code_simp

lemma row_part_25: "row_part (compose_rows_25 @ [([0xFF20, 0x5E, 0x5F, 0x100027B, 0], 0x2B5)])"
  by code_simp

lemma row_part_26: "row_part (compose_rows_26 @ [([0xFF20, 0x5F, 0x1E9F, 0x4F, 0], 0x22C)])"
  by code_simp

lemma row_part_27: "row_part (compose_rows_27 @ [([0xFF20, 0x60, 0x7E9, 0, 0], 0x1F76)])"
  by code_simp

lemma row_part_28: "row_part (compose_rows_28 @ [([0xFF20, 0x63, 0x3D, 0, 0], 0x20AC)])"
  by code_simp

lemma row_part_29: "row_part (compose_rows_29 @ [([0xFF20, 0x75, 0x2A, 0, 0], 0x16F)])"
  by code_simp

lemma row_part_30: "row_part (compose_rows_30 @ [([0xFF20, 0x7E, 0x1001F51, 0, 0], 0x1F57)])"
  by code_simp

lemma row_part_31: "row_part (compose_rows_31 @ [([0xFF20, 0xB4, 0x2B, 0x55, 0], 0x1EE8)])"
  by code_simp

lemma row_part_32: "row_part (compose_rows_32 @ [([0xFF20, 0xB4, 0xFE62, 0x55, 0], 0x1EE8)])"
  by code_simp

lemma row_part_33: "row_part (compose_rows_33 @ [([0xFF20, 0x7E9, 0x60, 0x1000313, 0x7E7], 0x1F92)])"
  by code_simp

lemma row_part_34: "row_part (compose_rows_34 @ [([0xFF20, 0x7E9, 0x1EF3, 0x28, 0x7D9], 0x1FAD)])"
  by code_simp

lemma row_part_35: "row_part (compose_rows_35 @ [([0xFF20, 0x7E9, 0xFE53, 0x1001F28, 0], 0x1F9E)])"
  by code_simp

lemma row_part_36: "row_part (compose_rows_36 @ [([0xFF20, 0xBC6, 0xFFB9, 0, 0], 0x2089)])"
  by code_simp

lemma row_part_37: "row_part (compose_rows_37 @ [([0xFF20, 0x1001103, 0x1001103, 0, 0], 0x1104)])"
  by code_simp

lemma row_part_38: "row_part (compose_rows_38 @ [([0xFF20, 0x10011AB, 0x10011C0, 0, 0], 0x11C9)])"
  by code_simp

lemma row_part_39: "row_part (compose_rows_39 @ [([0x1000311, 0x6F, 0, 0, 0], 0x20F)])"
  by code_simp

lemma row_part_40: "row_part compose_rows_40"
  by code_simp

lemma row_less_trans: "row_less a b \<Longrightarrow> row_less b c \<Longrightarrow> row_less a c"
proof (induction a b arbitrary: c rule: row_less.induct)
  case (1 a as b bs)
  then show ?case by (cases c) (auto split: if_splits)
qed simp_all

lemma rows_checked: "row_part compose_rows"
proof -
  note last = part_last [OF compose_rows_40_def row_part_40]
  note join_39 = part_join [OF compose_rows_39_def row_part_39 last]
  note join_38 = part_join [OF compose_rows_38_def row_part_38 join_39]
  note join_37 = part_join [OF compose_rows_37_def row_part_37 join_38]
  note join_36 = part_join [OF compose_rows_36_def row_part_36 join_37]
  note join_35 = part_join [OF compose_rows_35_def row_part_35 join_36]
  note join_34 = part_join [OF compose_rows_34_def row_part_34 join_35]
  note join_33 = part_join [OF compose_rows_33_def row_part_33 join_34]
  note join_32 = part_join [OF compose_rows_32_def row_part_32 join_33]
  note join_31 = part_join [OF compose_rows_31_def row_part_31 join_32]
  note join_30 = part_join [OF compose_rows_30_def row_part_30 join_31]
  note join_29 = part_join [OF compose_rows_29_def row_part_29 join_30]
  note join_28 = part_join [OF compose_rows_28_def row_part_28 join_29]
  note join_27 = part_join [OF compose_rows_27_def row_part_27 join_28]
  note join_26 = part_join [OF compose_rows_26_def row_part_26 join_27]
  note join_25 = part_join [OF compose_rows_25_def row_part_25 join_26]
  note join_24 = part_join [OF compose_rows_24_def row_part_24 join_25]
  note join_23 = part_join [OF compose_rows_23_def row_part_23 join_24]
  note join_22 = part_join [OF compose_rows_22_def row_part_22 join_23]
  note join_21 = part_join [OF compose_rows_21_def row_part_21 join_22]
  note join_20 = part_join [OF compose_rows_20_def row_part_20 join_21]
  note join_19 = part_join [OF compose_rows_19_def row_part_19 join_20]
  note join_18 = part_join [OF compose_rows_18_def row_part_18 join_19]
  note join_17 = part_join [OF compose_rows_17_def row_part_17 join_18]
  note join_16 = part_join [OF compose_rows_16_def row_part_16 join_17]
  note join_15 = part_join [OF compose_rows_15_def row_part_15 join_16]
  note join_14 = part_join [OF compose_rows_14_def row_part_14 join_15]
  note join_13 = part_join [OF compose_rows_13_def row_part_13 join_14]
  note join_12 = part_join [OF compose_rows_12_def row_part_12 join_13]
  note join_11 = part_join [OF compose_rows_11_def row_part_11 join_12]
  note join_10 = part_join [OF compose_rows_10_def row_part_10 join_11]
  note join_9 = part_join [OF compose_rows_9_def row_part_9 join_10]
  note join_8 = part_join [OF compose_rows_8_def row_part_8 join_9]
  note join_7 = part_join [OF compose_rows_7_def row_part_7 join_8]
  note join_6 = part_join [OF compose_rows_6_def row_part_6 join_7]
  note join_5 = part_join [OF compose_rows_5_def row_part_5 join_6]
  note join_4 = part_join [OF compose_rows_4_def row_part_4 join_5]
  note join_3 = part_join [OF compose_rows_3_def row_part_3 join_4]
  note join_2 = part_join [OF compose_rows_2_def row_part_2 join_3]
  note join_1 = part_join [OF compose_rows_1_def row_part_1 join_2]
  show ?thesis using join_1 unfolding compose_rows_def starts_def by (elim conjE)
qed

lemma rows_sorted: "sorted_wrt (\<lambda>a b. row_less (fst a) (fst b)) compose_rows"
  using rows_checked row_less_trans
  by (subst successively_conv_sorted_wrt [symmetric]) (auto simp: row_part_def transp_def)

lemma rows_keys: "e \<in> set compose_rows \<Longrightarrow> row_keys (fst e)"
  using rows_checked by (simp add: row_part_def list_all_iff)

end
