(* ===== verification/Core_Compose.thy ===== *)
theory Core_Compose
  imports Core_Compose_Order Core_Hotkey
begin

text \<open>
  The engine that composes characters: \<^verbatim>\<open>src/scim_compose_key.cpp\<close>. What it commits is a list of wide
  strings, each of one character.
\<close>

section \<open>The table\<close>

definition SCIM_MAX_COMPOSE_LEN :: nat where
  "SCIM_MAX_COMPOSE_LEN = 5"

type_synonym ComposeSequence = "32 word list \<times> 32 word"

text \<open>The array initialised with the rows.\<close>

definition compose_seqs :: "ComposeSequence list" where
  "compose_seqs = map (\<lambda>(keys, unicode). (map word_of_int keys, word_of_int unicode)) compose_rows"

fun keys_less :: "32 word list \<Rightarrow> 32 word list \<Rightarrow> bool" where
  "keys_less (a # as) (b # bs) \<longleftrightarrow> (if a < b then True else if a > b then False else keys_less as bs)"
| "keys_less _ _ \<longleftrightarrow> False"

definition less_by_keys :: "32 word list \<Rightarrow> 32 word list \<Rightarrow> bool" where
  "less_by_keys lhs rhs \<longleftrightarrow> keys_less (take SCIM_MAX_COMPOSE_LEN lhs) (take SCIM_MAX_COMPOSE_LEN rhs)"

definition compose_ignores :: "16 word list" where
  "compose_ignores =
     [0xFE03, 0xFF7E, 0xFF7E, 0xFFE1, 0xFFE2, 0xFFE3, 0xFFE4, 0xFFE5, 0xFFE6, 0xFFE7, 0xFFE8, 0xFFE9, 0xFFEA,
      0xFFEB, 0xFFEC, 0xFFED, 0xFFEE]"

definition binary_search :: "'a::linorder list \<Rightarrow> 'a \<Rightarrow> bool" where
  "binary_search t x =
     (let it = lower_bound (\<lambda>a. a < x) t in it \<noteq> length t \<and> \<not> x < t ! it)"

section \<open>The engine\<close>

abbreviation SCIM_KEY_ControlMask :: "16 word" where "SCIM_KEY_ControlMask \<equiv> 0x0004"
abbreviation SCIM_KEY_AltMask :: "16 word" where "SCIM_KEY_AltMask \<equiv> 0x0008"

definition is_key_release :: "KeyEvent \<Rightarrow> bool" where
  "is_key_release key \<longleftrightarrow> key_mask key AND SCIM_KEY_ReleaseMask \<noteq> 0"

definition is_control_down :: "KeyEvent \<Rightarrow> bool" where
  "is_control_down key \<longleftrightarrow> key_mask key AND SCIM_KEY_ControlMask \<noteq> 0"

definition is_alt_down :: "KeyEvent \<Rightarrow> bool" where
  "is_alt_down key \<longleftrightarrow> key_mask key AND SCIM_KEY_AltMask \<noteq> 0"

text \<open>The eight cells of \<^verbatim>\<open>m_compose_buffer\<close> after \<^verbatim>\<open>reset\<close>.\<close>

definition reset_buffer :: "32 word list" where
  "reset_buffer = replicate 8 0"

definition count_compose :: "32 word list \<Rightarrow> nat" where
  "count_compose buf = length (takeWhile (\<lambda>k. k \<noteq> 0) (take SCIM_MAX_COMPOSE_LEN buf))"

text \<open>How many keys of the buffer are equal to those of a sequence, and whether that is all of them.\<close>

fun match_keys :: "32 word list \<Rightarrow> 32 word list \<Rightarrow> nat \<Rightarrow> nat \<times> bool" where
  "match_keys (b # buf) (k # keys) n =
     (if b = 0 then (n, True) else if b \<noteq> k then (n, False) else match_keys buf keys (n + 1))"
| "match_keys _ _ n = (n, True)"

definition process_key_event :: "KeyEvent \<Rightarrow> 32 word list \<Rightarrow> bool \<times> 32 word list \<times> 32 word list" where
  "process_key_event key buf =
     (if is_key_release key then (False, [], buf)
      else if binary_search compose_ignores (ucast (key_code key)) then (False, [], buf)
      else if is_control_down key \<or> is_alt_down key then (False, [], buf)
      else
        let n = count_compose buf;
            (n, buf) = (if n = SCIM_MAX_COMPOSE_LEN then (0, reset_buffer) else (n, buf));
            buf = buf[n := key_code key];
            it = lower_bound (\<lambda>s. less_by_keys (fst s) buf) compose_seqs in
        if it = length compose_seqs then (False, [], reset_buffer)
        else
          let (keys, unicode) = compose_seqs ! it;
              (n, matched) = match_keys (take SCIM_MAX_COMPOSE_LEN buf) keys 0 in
          if \<not> matched then (n \<noteq> 0, [], reset_buffer)
          else if n = SCIM_MAX_COMPOSE_LEN \<or> keys ! n = 0 then (True, [unicode], reset_buffer)
          else (True, [], buf))"

text \<open>A sequence of key events: the answers, what is committed, and the buffer.\<close>

fun process_key_events :: "KeyEvent list \<Rightarrow> 32 word list \<Rightarrow> bool list \<times> 32 word list \<times> 32 word list" where
  "process_key_events [] buf = ([], [], buf)"
| "process_key_events (key # keys) buf =
     (let (r, us, buf) = process_key_event key buf; (rs, us', buf) = process_key_events keys buf in
      (r # rs, us @ us', buf))"

section \<open>The order of the table\<close>

lemma keys_less: "length as = length bs \<Longrightarrow> keys_less as bs \<longleftrightarrow> as < bs"
  by (induction as bs rule: list_induct2) auto

lemma row_keys_length: "row_keys ks \<Longrightarrow> length ks = 5"
  by (induction ks rule: row_keys.induct) simp_all

lemma row_key_range: "row_key k \<Longrightarrow> 0 < k \<and> k < 2 ^ 32"
  by (auto simp: row_key_def split: if_splits)

lemma row_keys_range: "row_keys ks \<Longrightarrow> \<forall>k \<in> set ks. 0 \<le> k \<and> k < 2 ^ 32"
  by (induction ks rule: row_keys.induct) (auto split: if_splits dest!: row_key_range)

lemma word_less_of_int:
  "0 \<le> a \<Longrightarrow> a < 2 ^ 32 \<Longrightarrow> 0 \<le> b \<Longrightarrow> b < 2 ^ 32 \<Longrightarrow> (word_of_int a :: 32 word) < word_of_int b \<longleftrightarrow> a < b"
  by (simp add: word_less_def uint_word_of_int)

lemma row_less_words:
  "length as = length bs \<Longrightarrow> \<forall>k \<in> set as. 0 \<le> k \<and> k < 2 ^ 32 \<Longrightarrow> \<forall>k \<in> set bs. 0 \<le> k \<and> k < 2 ^ 32 \<Longrightarrow>
   row_less as bs \<Longrightarrow> (map word_of_int as :: 32 word list) < map word_of_int bs"
proof (induction as bs rule: list_induct2)
  case (Cons a as b bs)
  then have "(word_of_int a :: 32 word) < word_of_int b \<longleftrightarrow> a < b" by (intro word_less_of_int) auto
  with Cons show ?case by (auto split: if_splits)
qed simp

lemma compose_sorted: "sorted_wrt (\<lambda>a b. fst a < fst b) compose_seqs"
proof -
  have "sorted_wrt (\<lambda>a b. (map word_of_int (fst a) :: 32 word list) < map word_of_int (fst b)) compose_rows"
  proof (rule sorted_wrt_mono_rel [OF _ rows_sorted])
    fix a b assume "a \<in> set compose_rows" "b \<in> set compose_rows" "row_less (fst a) (fst b)"
    then have a: "row_keys (fst a)" and b: "row_keys (fst b)" and less: "row_less (fst a) (fst b)"
      by (auto intro: rows_keys)
    from a b have "length (fst a) = length (fst b)" by (simp add: row_keys_length)
    then show "(map word_of_int (fst a) :: 32 word list) < map word_of_int (fst b)"
      using row_keys_range [OF a] row_keys_range [OF b] less by (rule row_less_words)
  qed
  then show ?thesis by (simp add: compose_seqs_def sorted_wrt_map case_prod_unfold)
qed

end
