(* ===== verification/Core_Compose_Laws.thy ===== *)
theory Core_Compose_Laws
  imports Core_Compose "HOL-Library.Sublist"
begin

text \<open>
  What the compose engine commits and answers. The table is searched in its lexicographic order; that a
  search finds a sequence that begins with the keys typed, whenever there is one, rests on the order alone.
\<close>

section \<open>The order of lists\<close>

lemma take_between:
  "length a = length b \<Longrightarrow> length b = length c \<Longrightarrow> a \<le> b \<Longrightarrow> b \<le> (c :: 'a::linorder list) \<Longrightarrow>
   take n a = take n c \<Longrightarrow> take n b = take n a"
proof (induction a b c arbitrary: n rule: list_induct3)
  case (Cons x xs y ys z zs)
  show ?case
  proof (cases n)
    case (Suc m)
    with Cons.prems(3) have "x = z" "take m xs = take m zs" by simp_all
    moreover from this(1) Cons.prems(1,2) have "x = y" by (auto simp: Cons_le_Cons)
    moreover from this calculation(1) Cons.prems(1,2) have "xs \<le> ys" "ys \<le> zs" by (simp_all add: Cons_le_Cons)
    ultimately show ?thesis using Cons.IH Suc by simp
  qed simp
qed simp

lemma append_le_append: "(p @ a :: 'a::linorder list) \<le> p @ b \<longleftrightarrow> a \<le> b"
  by (induction p) simp_all

lemma zeros_least: "replicate (length r) (0 :: 32 word) \<le> r"
  by (induction r) (auto simp: word_neq_0_conv)

lemma binary_search_mem: "binary_search t x \<Longrightarrow> x \<in> set t"
proof -
  assume found: "binary_search t x"
  let ?j = "lower_bound (\<lambda>a. a < x) t"
  from found have "?j \<noteq> length t" and le: "\<not> x < t ! ?j" by (simp_all add: binary_search_def Let_def)
  then have j: "?j < length t" by (simp add: lower_bound_def length_takeWhile_le le_neq_implies_less)
  then have "\<not> t ! ?j < x" unfolding lower_bound_def by (rule nth_length_takeWhile)
  with le have "t ! ?j = x" by simp
  with j show ?thesis using nth_mem by metis
qed

text \<open>The position is the one of the least element that is not less than the one searched.\<close>

lemma lower_bound_least:
  assumes "sorted_wrt (\<lambda>a b. f a < f b) t" "e \<in> set t" "(k :: 'k::linorder) \<le> f e"
  defines "j \<equiv> lower_bound (\<lambda>a. f a < k) t"
  shows "j < length t" "k \<le> f (t ! j)" "f (t ! j) \<le> f e"
proof -
  from assms(2) obtain i where i: "i < length t" "t ! i = e" by (auto simp: in_set_conv_nth)
  have ji: "j \<le> i"
  proof (rule ccontr)
    assume "\<not> j \<le> i"
    then have "i < length (takeWhile (\<lambda>a. f a < k) t)" by (simp add: j_def lower_bound_def)
    then have "f (t ! i) < k" using set_takeWhileD takeWhile_nth nth_mem by metis
    with i assms(3) show False by simp
  qed
  with i show j: "j < length t" by simp
  then have "\<not> f (t ! j) < k" unfolding j_def lower_bound_def by (rule nth_length_takeWhile)
  then show "k \<le> f (t ! j)" by simp
  from ji i assms(1) show "f (t ! j) \<le> f e"
    by (cases "j = i") (auto simp: sorted_wrt_iff_nth_less order_le_less)
qed

lemma lower_bound_none:
  "lower_bound (\<lambda>a. f a < (k :: 'k::linorder)) t = length t \<longleftrightarrow> (\<forall>e \<in> set t. f e < k)"
  unfolding lower_bound_def by (metis length_takeWhile_all takeWhile_eq_all_conv takeWhile_eq_take take_all_iff order_refl)

section \<open>The sequences\<close>

text \<open>A sequence consists of at least two keys and zeros. No key is one that the engine ignores.\<close>

definition compose_key :: "32 word \<Rightarrow> bool" where
  "compose_key k \<longleftrightarrow> k \<noteq> 0 \<and> \<not> binary_search compose_ignores (ucast k)"

definition padded :: "32 word list \<Rightarrow> 32 word list" where
  "padded ks = ks @ replicate (SCIM_MAX_COMPOSE_LEN - length ks) 0"

definition compose_buffer :: "32 word list \<Rightarrow> 32 word list" where
  "compose_buffer ks = ks @ replicate (8 - length ks) 0"

lemma ucast_key: "(ucast (word_of_int k :: 32 word) :: 16 word) = word_of_int k"
  by transfer (simp add: take_bit_take_bit)

lemma ignored: "x \<in> uint ` set compose_ignores \<Longrightarrow> 0xFE03 \<le> x \<and> \<not> row_key x"
  by (auto simp: compose_ignores_def row_key_def)

lemma compose_key: "row_key k \<Longrightarrow> compose_key (word_of_int k)"
proof -
  assume k: "row_key k"
  have "(word_of_int k :: 32 word) \<noteq> 0"
    using row_key_range [OF k] by (simp add: word_of_int_eq_0_iff dvd_imp_le zdvd_not_zless)
  moreover have "word_of_int k \<notin> set compose_ignores"
  proof
    assume "word_of_int k \<in> set compose_ignores"
    then have "uint (word_of_int k :: 16 word) \<in> uint ` set compose_ignores" by (rule imageI)
    then have "k mod 65536 \<in> uint ` set compose_ignores" by (simp add: uint_word_of_int)
    moreover have "k mod 65536 = k \<or> k mod 65536 < 0xFE03"
    proof (cases "k \<le> 0xFFFF")
      case False
      with k have "0 \<le> k - 0x1000000" "k - 0x1000000 < 0xFE03" by (auto simp: row_key_def split: if_splits)
      moreover have "k mod 65536 = (k - 0x1000000) mod 65536"
        using mod_mult_self1 [of "k - 0x1000000" 256 65536] by simp
      ultimately show ?thesis by simp
    qed (use row_key_range [OF k] in simp)
    ultimately show False using k ignored [of "k mod 65536"] by (metis not_le)
  qed
  ultimately show ?thesis
    unfolding compose_key_def by (metis binary_search_mem ucast_key)
qed

lemma row_keys_padded:
  "row_keys r \<Longrightarrow> \<exists>ks. r = ks @ replicate (5 - length ks) 0 \<and> 2 \<le> length ks \<and> length ks \<le> 5 \<and> (\<forall>k \<in> set ks. row_key k)"
proof (induction r rule: row_keys.induct)
  case (1 a b c d e)
  then show ?case
    by (cases "c = 0"; cases "d = 0"; cases "e = 0")
      (auto intro: exI [of _ "[a, b]"] exI [of _ "[a, b, c]"] exI [of _ "[a, b, c, d]"] exI [of _ "[a, b, c, d, e]"]
        simp: numeral_eq_Suc)
qed simp_all

lemma compose_entry:
  assumes "e \<in> set compose_seqs"
  shows "\<exists>ks. fst e = padded ks \<and> 2 \<le> length ks \<and> length ks \<le> SCIM_MAX_COMPOSE_LEN \<and> (\<forall>k \<in> set ks. compose_key k)"
proof -
  from assms obtain r where r: "r \<in> set compose_rows" "fst e = map word_of_int (fst r)"
    by (auto simp: compose_seqs_def)
  from row_keys_padded [OF rows_keys [OF r(1)]] obtain ks where
    ks: "fst r = ks @ replicate (5 - length ks) 0" "2 \<le> length ks" "length ks \<le> 5" "\<forall>k \<in> set ks. row_key k" by blast
  let ?ks = "map word_of_int ks :: 32 word list"
  from ks(4) have "\<forall>k \<in> set ?ks. compose_key k" by (auto intro: compose_key)
  with ks r(2) show ?thesis
    by (intro exI [of _ ?ks]) (simp add: padded_def SCIM_MAX_COMPOSE_LEN_def)
qed

lemma compose_entry_length: "e \<in> set compose_seqs \<Longrightarrow> length (fst e) = SCIM_MAX_COMPOSE_LEN"
  by (auto dest!: compose_entry simp: padded_def)

lemma compose_functional: "map_of compose_seqs (fst e) = Some (snd e) \<longleftrightarrow> e \<in> set compose_seqs"
proof
  show "map_of compose_seqs (fst e) = Some (snd e) \<Longrightarrow> e \<in> set compose_seqs" using map_of_SomeD by force
  have "distinct (map fst compose_seqs)"
    using compose_sorted by (simp add: sorted_wrt_map strict_sorted_iff [THEN iffD1, THEN conjunct2])
  then show "e \<in> set compose_seqs \<Longrightarrow> map_of compose_seqs (fst e) = Some (snd e)" by simp
qed

lemma padded_length: "length ks \<le> SCIM_MAX_COMPOSE_LEN \<Longrightarrow> length (padded ks) = SCIM_MAX_COMPOSE_LEN"
  by (simp add: padded_def)

lemma take_padded: "take (length ks) (padded ks) = ks"
  by (simp add: padded_def)

lemma buffer_padded: "length ks \<le> SCIM_MAX_COMPOSE_LEN \<Longrightarrow> take SCIM_MAX_COMPOSE_LEN (compose_buffer ks) = padded ks"
  by (simp add: compose_buffer_def padded_def min_def SCIM_MAX_COMPOSE_LEN_def)

text \<open>A sequence that begins with the keys is not less than them.\<close>

lemma prefix_least:
  assumes "length es = SCIM_MAX_COMPOSE_LEN" "prefix ks es"
  shows "padded ks \<le> es"
proof -
  from assms(2) obtain r where r: "es = ks @ r" by (auto elim: prefixE)
  with assms(1) have "replicate (SCIM_MAX_COMPOSE_LEN - length ks) (0 :: 32 word) = replicate (length r) 0" by simp
  with r show ?thesis by (simp add: padded_def append_le_append zeros_least)
qed

lemma prefix_take_iff: "prefix ks es \<longleftrightarrow> take (length ks) es = ks"
  by (metis append_eq_conv_conj prefixE prefixI append_take_drop_id)

lemma match_keys_prefix:
  "0 \<notin> set ks \<Longrightarrow> prefix ks es \<Longrightarrow> match_keys (ks @ replicate m 0) es n = (n + length ks, True)"
proof (induction ks arbitrary: es n)
  case Nil
  then show ?case by (cases m; cases es) simp_all
next
  case (Cons k ks)
  then show ?case by (cases es) auto
qed

lemma match_keys_other:
  "0 \<notin> set ks \<Longrightarrow> \<not> prefix ks es \<Longrightarrow> length ks \<le> length es \<Longrightarrow>
   \<exists>i < length ks. match_keys (ks @ zs) es n = (n + i, False) \<and> (i = 0 \<longleftrightarrow> hd ks \<noteq> hd es)"
proof (induction ks arbitrary: es n)
  case (Cons k ks)
  then obtain e es' where es: "es = e # es'" by (cases es) auto
  show ?case
  proof (cases "k = e")
    case True
    with Cons es obtain i where "i < length ks" "match_keys (ks @ zs) es' (n + 1) = (n + 1 + i, False)" by fastforce
    with True Cons.prems(1) es show ?thesis by (intro exI [of _ "Suc i"]) auto
  next
    case False
    with Cons.prems(1) es show ?thesis by (intro exI [of _ 0]) auto
  qed
qed simp

section \<open>A key\<close>

text \<open>The position that is searched when \<^verbatim>\<open>ks\<close> has been typed: the least sequence that is not less than \<^verbatim>\<open>ks\<close>.\<close>

definition compose_position :: "32 word list \<Rightarrow> nat" where
  "compose_position ks = lower_bound (\<lambda>s. fst s < padded ks) compose_seqs"

lemma less_by_buffer:
  assumes "length ks \<le> SCIM_MAX_COMPOSE_LEN"
  shows "lower_bound (\<lambda>s. less_by_keys (fst s) (compose_buffer ks)) compose_seqs = compose_position ks"
proof -
  have "less_by_keys (fst s) (compose_buffer ks) \<longleftrightarrow> fst s < padded ks" if "s \<in> set compose_seqs" for s
    using assms compose_entry_length [OF that]
    by (simp add: less_by_keys_def buffer_padded keys_less padded_length)
  then show ?thesis unfolding compose_position_def lower_bound_def by (simp cong: takeWhile_cong)
qed

lemma compose_position_end:
  "compose_position ks = length compose_seqs \<longleftrightarrow> (\<forall>e \<in> set compose_seqs. fst e < padded ks)"
  unfolding compose_position_def by (rule lower_bound_none)

lemma compose_position_least:
  assumes "e \<in> set compose_seqs" "padded ks \<le> fst e"
  shows "compose_position ks < length compose_seqs" "padded ks \<le> fst (compose_seqs ! compose_position ks)"
    "fst (compose_seqs ! compose_position ks) \<le> fst e"
  using lower_bound_least [OF compose_sorted assms] unfolding compose_position_def .

lemma compose_position_found:
  assumes "compose_position ks \<noteq> length compose_seqs"
  shows "compose_seqs ! compose_position ks \<in> set compose_seqs"
    "padded ks \<le> fst (compose_seqs ! compose_position ks)"
proof -
  from assms obtain e where "e \<in> set compose_seqs" "padded ks \<le> fst e"
    by (auto simp: compose_position_end not_less)
  note least = compose_position_least [OF this]
  from least(1) show "compose_seqs ! compose_position ks \<in> set compose_seqs" by (rule nth_mem)
  from least(2) show "padded ks \<le> fst (compose_seqs ! compose_position ks)" .
qed

text \<open>Whenever a sequence begins with the keys, the one found does.\<close>

lemma begins_between:
  assumes e: "e \<in> set compose_seqs" "padded ks \<le> fst e" and n: "n \<le> length ks" "take n (fst e) = take n ks"
    and len: "length ks \<le> SCIM_MAX_COMPOSE_LEN"
  shows "take n (fst (compose_seqs ! compose_position ks)) = take n ks"
proof -
  note least = compose_position_least [OF e]
  from n have eq: "take n (padded ks) = take n (fst e)" by (simp add: padded_def)
  have "take n (fst (compose_seqs ! compose_position ks)) = take n (padded ks)"
    using least(2,3) eq
    by (rule take_between [rotated 2])
      (simp_all add: padded_length [OF len] compose_entry_length e(1) nth_mem [OF least(1)])
  with n(1) show ?thesis by (simp add: padded_def)
qed

lemma prefix_found:
  assumes "e \<in> set compose_seqs" "prefix ks (fst e)" "length ks \<le> SCIM_MAX_COMPOSE_LEN"
  shows "compose_position ks \<noteq> length compose_seqs" "prefix ks (fst (compose_seqs ! compose_position ks))"
proof -
  have le: "padded ks \<le> fst e" using prefix_least assms compose_entry_length by blast
  from compose_position_least(1) [OF assms(1) le] show "compose_position ks \<noteq> length compose_seqs" by simp
  from begins_between [OF assms(1) le, of "length ks"] assms(2,3)
  show "prefix ks (fst (compose_seqs ! compose_position ks))" by (simp add: prefix_take_iff)
qed

text \<open>What the engine does once \<^verbatim>\<open>ks\<close> is in the buffer.\<close>

definition compose_result :: "32 word list \<Rightarrow> bool \<times> 32 word list \<times> 32 word list" where
  "compose_result ks =
     (case map_of compose_seqs (padded ks) of
        Some unicode \<Rightarrow> (True, [unicode], reset_buffer)
      | None \<Rightarrow>
          if \<exists>e \<in> set compose_seqs. prefix ks (fst e) then (True, [], compose_buffer ks)
          else (\<exists>e \<in> set compose_seqs. padded ks < fst e \<and> hd (fst e) = hd ks, [], reset_buffer))"

definition compose_look_up :: "32 word list \<Rightarrow> bool \<times> 32 word list \<times> 32 word list" where
  "compose_look_up ks =
     (let it = compose_position ks in
      if it = length compose_seqs then (False, [], reset_buffer)
      else
        let (keys, unicode) = compose_seqs ! it; (n, matched) = match_keys (padded ks) keys 0 in
        if \<not> matched then (n \<noteq> 0, [], reset_buffer)
        else if n = SCIM_MAX_COMPOSE_LEN \<or> keys ! n = 0 then (True, [unicode], reset_buffer)
        else (True, [], compose_buffer ks))"

lemma compose_padded: "e \<in> set compose_seqs \<Longrightarrow> fst e ! n = 0 \<Longrightarrow> n < SCIM_MAX_COMPOSE_LEN \<Longrightarrow> 
  0 \<notin> set ks \<Longrightarrow> length ks = n \<Longrightarrow> prefix ks (fst e) \<Longrightarrow> fst e = padded ks"
proof -
  assume e: "e \<in> set compose_seqs" "fst e ! n = 0" and n: "n < SCIM_MAX_COMPOSE_LEN"
    and ks: "0 \<notin> set ks" "length ks = n" "prefix ks (fst e)"
  from compose_entry [OF e(1)] obtain es where
    es: "fst e = padded es" "length es \<le> SCIM_MAX_COMPOSE_LEN" "\<forall>k \<in> set es. compose_key k" by blast
  have "\<not> n < length es"
  proof
    assume "n < length es"
    with es(1) e(2) have "es ! n = 0" by (simp add: padded_def nth_append)
    with es(3) \<open>n < length es\<close> show False by (auto simp: compose_key_def dest: nth_mem)
  qed
  moreover have "\<not> length es < n"
  proof
    assume less: "length es < n"
    with n es(1) have "fst e ! length es = 0" by (simp add: padded_def nth_append)
    moreover from ks(3) obtain r where "fst e = ks @ r" by (auto elim: prefixE)
    ultimately have "ks ! length es = 0" using less ks(2) by (simp add: nth_append)
    with ks(1,2) less show False using nth_mem by metis
  qed
  ultimately have "length es = n" by simp
  with ks(2,3) es(1) take_padded [of es] have "es = ks" by (simp add: prefix_take_iff)
  with es(1) show ?thesis by simp
qed

lemma compose_look_up:
  assumes ks: "0 \<notin> set ks" "ks \<noteq> []" "length ks \<le> SCIM_MAX_COMPOSE_LEN"
  shows "compose_look_up ks = compose_result ks"
proof (cases "compose_position ks = length compose_seqs")
  case True
  then have "fst e < padded ks" if "e \<in> set compose_seqs" for e using that compose_position_end by blast
  moreover from this have "map_of compose_seqs (padded ks) = None"
    by (force simp: map_of_eq_None_iff)
  moreover have "\<not> prefix ks (fst e)" if "e \<in> set compose_seqs" for e
    using that True prefix_found(1) [OF _ _ ks(3)] by blast
  ultimately show ?thesis
    using True by (simp add: compose_look_up_def compose_result_def less_not_sym cong: bex_cong)
next
  case False
  define e where "e = compose_seqs ! compose_position ks"
  from compose_position_found [OF False] have e: "e \<in> set compose_seqs" "padded ks \<le> fst e"
    unfolding e_def .
  have len: "length (fst e) = SCIM_MAX_COMPOSE_LEN" using e(1) by (rule compose_entry_length)
  have look: "compose_look_up ks =
      (let (n, matched) = match_keys (padded ks) (fst e) 0 in
       if \<not> matched then (n \<noteq> 0, [], reset_buffer)
       else if n = SCIM_MAX_COMPOSE_LEN \<or> fst e ! n = 0 then (True, [snd e], reset_buffer)
       else (True, [], compose_buffer ks))"
    using False by (simp add: compose_look_up_def e_def case_prod_unfold Let_def)
  show ?thesis
  proof (cases "prefix ks (fst e)")
    case True
    then have match: "match_keys (padded ks) (fst e) 0 = (length ks, True)"
      using ks(1) by (simp add: padded_def match_keys_prefix)
    show ?thesis
    proof (cases "fst e = padded ks")
      case eq: True
      with e(1) have "map_of compose_seqs (padded ks) = Some (snd e)" by (simp add: compose_functional flip: eq)
      moreover have "length ks = SCIM_MAX_COMPOSE_LEN \<or> fst e ! length ks = 0"
        using ks(3) eq by (cases "length ks = SCIM_MAX_COMPOSE_LEN") (simp_all add: padded_def nth_append)
      ultimately show ?thesis using look match by (simp add: compose_result_def)
    next
      case other: False
      have "map_of compose_seqs (padded ks) = None"
      proof (rule ccontr)
        assume "map_of compose_seqs (padded ks) \<noteq> None"
        then obtain u where u: "(padded ks, u) \<in> set compose_seqs" by (auto dest: map_of_SomeD)
        from compose_position_least(3) [OF u] have "fst e \<le> padded ks" by (simp add: e_def)
        with e(2) other show False by simp
      qed
      moreover have "length ks \<noteq> SCIM_MAX_COMPOSE_LEN"
        using True other len by (auto simp: prefix_take_iff padded_def)
      moreover from this have "fst e ! length ks \<noteq> 0"
        using compose_padded [OF e(1) _ _ ks(1) refl True] other ks(3) by auto
      ultimately show ?thesis using look match True e(1) by (auto simp: compose_result_def)
    qed
  next
    case other: False
    obtain i where i: "match_keys (padded ks) (fst e) 0 = (i, False)" "i = 0 \<longleftrightarrow> hd ks \<noteq> hd (fst e)"
      using match_keys_other [OF ks(1) other, of _ 0] ks(3) len unfolding padded_def by force
    have "\<not> prefix ks (fst e')" if "e' \<in> set compose_seqs" for e'
      using prefix_found(2) [OF that _ ks(3)] other unfolding e_def by blast
    moreover from this have "map_of compose_seqs (padded ks) = None"
      by (force simp: map_of_eq_None_iff padded_def)
    moreover have "i \<noteq> 0 \<longleftrightarrow> (\<exists>e' \<in> set compose_seqs. padded ks < fst e' \<and> hd (fst e') = hd ks)"
    proof
      assume "i \<noteq> 0"
      moreover have "padded ks \<noteq> fst e" using other by (metis padded_def prefixI)
      ultimately show "\<exists>e' \<in> set compose_seqs. padded ks < fst e' \<and> hd (fst e') = hd ks"
        using e i(2) by (intro bexI [of _ e]) simp_all
    next
      assume "\<exists>e' \<in> set compose_seqs. padded ks < fst e' \<and> hd (fst e') = hd ks"
      then obtain e' where e': "e' \<in> set compose_seqs" "padded ks \<le> fst e'" "hd (fst e') = hd ks" by auto
      have "take 1 (fst e') = take 1 ks"
        using e'(3) ks(2) compose_entry_length [OF e'(1)]
        by (cases ks; cases "fst e'") (simp_all add: SCIM_MAX_COMPOSE_LEN_def)
      with begins_between [OF e'(1,2), of 1] ks(2,3) have "take 1 (fst e) = take 1 ks"
        by (cases ks) (simp_all add: e_def)
      with ks(2) len i(2) show "i \<noteq> 0"
        by (cases ks; cases "fst e") (simp_all add: SCIM_MAX_COMPOSE_LEN_def)
    qed
    ultimately show ?thesis using look i(1) by (auto simp: compose_result_def)
  qed
qed

definition plain_press :: "KeyEvent \<Rightarrow> bool" where
  "plain_press key \<longleftrightarrow> \<not> is_key_release key \<and> \<not> is_control_down key \<and> \<not> is_alt_down key"

lemma compose_buffer_simps [simp]:
  "compose_buffer [] = reset_buffer"
  "0 \<notin> set ks \<Longrightarrow> length ks < SCIM_MAX_COMPOSE_LEN \<Longrightarrow> count_compose (compose_buffer ks) = length ks"
  "length ks < SCIM_MAX_COMPOSE_LEN \<Longrightarrow> (compose_buffer ks)[length ks := k] = compose_buffer (ks @ [k])"
proof -
  show "compose_buffer [] = reset_buffer" by (simp add: compose_buffer_def reset_buffer_def)
  show "count_compose (compose_buffer ks) = length ks" if "0 \<notin> set ks" "length ks < SCIM_MAX_COMPOSE_LEN"
  proof -
    from that(2) have "SCIM_MAX_COMPOSE_LEN - length ks = Suc (SCIM_MAX_COMPOSE_LEN - length ks - 1)" by simp
    moreover have "takeWhile (\<lambda>k. k \<noteq> 0) (ks @ 0 # zs) = ks" for zs using that(1) by (induction ks) auto
    ultimately show ?thesis
      using that(2) by (simp add: count_compose_def buffer_padded padded_def del: Suc_pred)
  qed
  show "(compose_buffer ks)[length ks := k] = compose_buffer (ks @ [k])" if "length ks < SCIM_MAX_COMPOSE_LEN"
  proof -
    from that have "8 - length ks = Suc (7 - length ks)" by (simp add: SCIM_MAX_COMPOSE_LEN_def)
    then show ?thesis by (simp add: compose_buffer_def)
  qed
qed

lemma process_key:
  assumes "plain_press key" "compose_key (key_code key)" "0 \<notin> set ks" "length ks < SCIM_MAX_COMPOSE_LEN"
  shows "process_key_event key (compose_buffer ks) = compose_result (ks @ [key_code key])"
proof -
  let ?ks = "ks @ [key_code key]"
  from assms have len: "length ?ks \<le> SCIM_MAX_COMPOSE_LEN" and ks: "0 \<notin> set ?ks" by (auto simp: compose_key_def)
  have "process_key_event key (compose_buffer ks) = compose_look_up ?ks"
    using assms len
    by (simp add: process_key_event_def compose_look_up_def plain_press_def compose_key_def less_by_buffer
        buffer_padded Let_def case_prod_unfold)
  with compose_look_up [OF ks _ len] show ?thesis by simp
qed

lemma process_ignored:
  "\<not> plain_press key \<or> binary_search compose_ignores (ucast (key_code key)) \<Longrightarrow>
   process_key_event key buf = (False, [], buf)"
  by (auto simp: process_key_event_def plain_press_def)

text \<open>A key that is zero leaves the buffer as it is, or clears it.\<close>

lemma padded_inj: "0 \<notin> set ks \<Longrightarrow> 0 \<notin> set es \<Longrightarrow> padded ks = padded es \<Longrightarrow> ks = es"
proof -
  have zeros: "takeWhile (\<lambda>k. k \<noteq> 0) (replicate m (0 :: 32 word)) = []" for m by (cases m) simp_all
  have "takeWhile (\<lambda>k. k \<noteq> 0) (ks @ replicate m 0) = ks" if "0 \<notin> set ks" for ks :: "32 word list" and m
    using that zeros by (induction ks) auto
  then have *: "takeWhile (\<lambda>k. k \<noteq> 0) (padded ks) = ks" if "0 \<notin> set ks" for ks
    using that by (simp add: padded_def)
  assume "0 \<notin> set ks" "0 \<notin> set es" "padded ks = padded es"
  with * show ?thesis by metis
qed

text \<open>The keys in the buffer: none, or the beginning of a sequence and not a sequence themselves.\<close>

definition compose_typing :: "32 word list \<Rightarrow> bool" where
  "compose_typing ks \<longleftrightarrow>
     0 \<notin> set ks \<and> length ks < SCIM_MAX_COMPOSE_LEN \<and>
     (ks = [] \<or> padded ks \<notin> fst ` set compose_seqs \<and> (\<exists>e \<in> set compose_seqs. prefix ks (fst e)))"

lemma compose_result_buffer:
  assumes ks: "0 \<notin> set ks" "ks \<noteq> []" "length ks \<le> SCIM_MAX_COMPOSE_LEN"
  shows "\<exists>ks'. snd (snd (compose_result ks)) = compose_buffer ks' \<and> compose_typing ks'"
proof -
  have none: "compose_typing []" by (simp add: compose_typing_def SCIM_MAX_COMPOSE_LEN_def)
  show ?thesis
  proof (cases "map_of compose_seqs (padded ks) = None \<and> (\<exists>e \<in> set compose_seqs. prefix ks (fst e))")
    case True
    then obtain e where e: "e \<in> set compose_seqs" "prefix ks (fst e)" and new: "padded ks \<notin> fst ` set compose_seqs"
      by (auto simp: map_of_eq_None_iff)
    have "length ks \<noteq> SCIM_MAX_COMPOSE_LEN"
    proof
      assume "length ks = SCIM_MAX_COMPOSE_LEN"
      with e compose_entry_length [OF e(1)] have "fst e = padded ks" by (simp add: prefix_take_iff padded_def)
      with new e(1) show False by (metis imageI)
    qed
    with True ks new have "compose_typing ks" by (simp add: compose_typing_def)
    with True show ?thesis by (auto simp: compose_result_def)
  next
    case False
    then have "snd (snd (compose_result ks)) = compose_buffer []"
      by (auto simp: compose_result_def split: option.split)
    with none show ?thesis by blast
  qed
qed

lemma process_zero:
  assumes "compose_typing ks" "plain_press key" "key_code key = 0"
  shows "\<exists>ks'. snd (snd (process_key_event key (compose_buffer ks))) = compose_buffer ks' \<and> compose_typing ks'"
proof -
  from assms(1) have ks: "0 \<notin> set ks" "length ks < SCIM_MAX_COMPOSE_LEN" by (simp_all add: compose_typing_def)
  have none: "compose_typing []" by (simp add: compose_typing_def SCIM_MAX_COMPOSE_LEN_def)
  have "compose_buffer (ks @ [0]) = compose_buffer ks"
  proof -
    from ks(2) have "8 - length ks = Suc (7 - length ks)" by (simp add: SCIM_MAX_COMPOSE_LEN_def)
    then show ?thesis by (simp add: compose_buffer_def)
  qed
  then have "snd (snd (process_key_event key (compose_buffer ks))) \<in> {compose_buffer ks, compose_buffer []}"
    using assms(2,3) ks by (auto simp: process_key_event_def Let_def split: prod.split)
  with none assms(1) show ?thesis by (metis empty_iff insert_iff)
qed

lemma process_buffer:
  assumes "compose_typing ks"
  shows "\<exists>ks'. snd (snd (process_key_event key (compose_buffer ks))) = compose_buffer ks' \<and> compose_typing ks'"
proof -
  from assms have ks: "0 \<notin> set ks" "length ks < SCIM_MAX_COMPOSE_LEN" by (simp_all add: compose_typing_def)
  consider "\<not> plain_press key \<or> binary_search compose_ignores (ucast (key_code key))"
    | "plain_press key" "key_code key = 0" | "plain_press key" "compose_key (key_code key)"
    by (auto simp: compose_key_def)
  then show ?thesis
  proof cases
    case 1
    with assms show ?thesis by (auto simp: process_ignored)
  next
    case 2
    with assms show ?thesis by (intro process_zero)
  next
    case 3
    then have "0 \<notin> set (ks @ [key_code key])" using ks by (auto simp: compose_key_def)
    with 3 ks show ?thesis by (simp add: process_key compose_result_buffer)
  qed
qed

lemma process_events_buffer:
  "compose_typing ks \<Longrightarrow>
   \<exists>ks'. snd (snd (process_key_events keys (compose_buffer ks))) = compose_buffer ks' \<and> compose_typing ks'"
proof (induction keys arbitrary: ks)
  case (Cons key keys)
  from process_buffer [OF Cons.prems] obtain ks' where
    ks': "snd (snd (process_key_event key (compose_buffer ks))) = compose_buffer ks'" "compose_typing ks'" by blast
  from Cons.IH [OF ks'(2)] ks'(1) show ?case by (simp add: case_prod_unfold Let_def)
qed auto

section \<open>A sequence\<close>

lemma process_key_events_append:
  "process_key_events (as @ bs) buf =
     (let (r, us, buf) = process_key_events as buf; (r', us', buf) = process_key_events bs buf in (r @ r', us @ us', buf))"
  by (induction as arbitrary: buf) (simp_all add: case_prod_unfold Let_def)

text \<open>Keys that are the beginning of a sequence stay in the buffer while no part of them is a sequence.\<close>

lemma process_beginning:
  assumes "e \<in> set compose_seqs" "prefix (ps @ map key_code keys) (fst e)"
    and "0 \<notin> set ps" "length ps + length keys \<le> SCIM_MAX_COMPOSE_LEN"
    and "\<forall>key \<in> set keys. plain_press key \<and> compose_key (key_code key)"
    and "\<forall>n. 0 < n \<longrightarrow> n \<le> length keys \<longrightarrow> padded (ps @ take n (map key_code keys)) \<notin> fst ` set compose_seqs"
  shows "process_key_events keys (compose_buffer ps) =
     (replicate (length keys) True, [], compose_buffer (ps @ map key_code keys))"
  using assms
proof (induction keys arbitrary: ps)
  case (Cons key keys)
  let ?ks = "ps @ [key_code key]"
  have "map_of compose_seqs (padded ?ks) = None"
    using Cons.prems(6) [rule_format, of "Suc 0"] by (simp add: map_of_eq_None_iff)
  moreover have "prefix ?ks (fst e)"
    using Cons.prems(2) by (auto intro: prefix_order.trans [rotated])
  moreover have "process_key_event key (compose_buffer ps) = compose_result ?ks"
    using Cons.prems by (intro process_key) simp_all
  ultimately have step: "process_key_event key (compose_buffer ps) = (True, [], compose_buffer ?ks)"
    using Cons.prems(1) by (auto simp: compose_result_def)
  have "process_key_events keys (compose_buffer ?ks) =
     (replicate (length keys) True, [], compose_buffer (?ks @ map key_code keys))"
  proof (rule Cons.IH [OF Cons.prems(1)])
    show "\<forall>n. 0 < n \<longrightarrow> n \<le> length keys \<longrightarrow> padded (?ks @ take n (map key_code keys)) \<notin> fst ` set compose_seqs"
    proof (intro allI impI)
      fix n assume "0 < n" "n \<le> length keys"
      with Cons.prems(6) [rule_format, of "Suc n"]
      show "padded (?ks @ take n (map key_code keys)) \<notin> fst ` set compose_seqs" by simp
    qed
  qed (use Cons.prems in \<open>auto simp: compose_key_def\<close>)
  with step show ?case by (simp add: Let_def)
qed simp

lemma compose_entry_keys:
  assumes "(padded ks, unicode) \<in> set compose_seqs" "0 \<notin> set ks"
  shows "2 \<le> length ks" "length ks \<le> SCIM_MAX_COMPOSE_LEN" "\<forall>k \<in> set ks. compose_key k"
proof -
  from compose_entry [OF assms(1)] obtain es where
    es: "padded ks = padded es" "2 \<le> length es" "length es \<le> SCIM_MAX_COMPOSE_LEN" "\<forall>k \<in> set es. compose_key k"
    by auto
  then have "0 \<notin> set es" by (auto simp: compose_key_def)
  with assms(2) es(1) have "ks = es" using padded_inj by blast
  with es(2-4) show "2 \<le> length ks" "length ks \<le> SCIM_MAX_COMPOSE_LEN" "\<forall>k \<in> set ks. compose_key k" by simp_all
qed

lemma one_key_new: "0 \<notin> set [k] \<Longrightarrow> padded [k] \<notin> fst ` set compose_seqs"
  using compose_entry_keys(1) [of "[k]"] by auto

text \<open>C38: what the engine does with a key that it does not ignore while the keys \<^verbatim>\<open>ks\<close> are in the buffer, and how its
  answer differs from what the comments promise. If the keys with the new one are a sequence of the table, its character
  is committed and the buffer is reset; if they are the beginning of one, the key is kept and nothing is committed.
  Otherwise the buffer is reset and nothing is committed. A comment in the loop says that such a key is answered with
  true, to ignore it, unless it is the first key pressed; that is not what the code does. It answers with true exactly if
  some greater sequence of the table has the same first key, so that a key after the first one is also answered with
  false, and forwarded, when the sequence that the search finds has another first key, as in the second half of the
  witness.\<close>

theorem compose_step:
  assumes "plain_press key" "compose_key (key_code key)" "0 \<notin> set ks" "length ks < SCIM_MAX_COMPOSE_LEN"
  shows "process_key_event key (compose_buffer ks) =
     (case map_of compose_seqs (padded (ks @ [key_code key])) of
        Some unicode \<Rightarrow> (True, [unicode], reset_buffer)
      | None \<Rightarrow>
          if \<exists>e \<in> set compose_seqs. prefix (ks @ [key_code key]) (fst e)
          then (True, [], compose_buffer (ks @ [key_code key]))
          else (\<exists>e \<in> set compose_seqs. padded (ks @ [key_code key]) < fst e \<and> hd (fst e) = hd (ks @ [key_code key]),
                [], reset_buffer))"
  using process_key [OF assms] unfolding compose_result_def .

text \<open>C40: whatever keys have come, the buffer holds no key, or less than five of them that begin a sequence of
  the table and are no sequence themselves, with zeros behind; so it is never full.\<close>

theorem compose_buffer_begins:
  "\<exists>ks. snd (snd (process_key_events keys reset_buffer)) = ks @ replicate (8 - length ks) 0 \<and>
     length ks < SCIM_MAX_COMPOSE_LEN \<and> 0 \<notin> set ks \<and>
     (if ks = [] then True
      else padded ks \<notin> fst ` set compose_seqs \<and> (\<exists>e \<in> set compose_seqs. prefix ks (fst e)))"
proof -
  have "compose_typing []" by (simp add: compose_typing_def SCIM_MAX_COMPOSE_LEN_def)
  from process_events_buffer [OF this, of keys] obtain ks where
    "snd (snd (process_key_events keys reset_buffer)) = compose_buffer ks" "compose_typing ks" by auto
  then show ?thesis by (intro exI [of _ ks]) (auto simp: compose_typing_def compose_buffer_def)
qed

text \<open>C39: the keys of a sequence, typed from an empty buffer, are all answered with true and commit its character
  alone, when no shorter sequence of the table begins it; what follows starts from an empty buffer again.\<close>

theorem compose_typed:
  assumes entry: "(padded (map key_code keys), unicode) \<in> set compose_seqs" "0 \<notin> set (map key_code keys)"
    and keys: "\<forall>key \<in> set keys. plain_press key"
    and new: "\<forall>n. 1 < n \<longrightarrow> n < length keys \<longrightarrow> padded (take n (map key_code keys)) \<notin> fst ` set compose_seqs"
  shows "process_key_events (keys @ rest) reset_buffer =
     (let (rs, us, buf) = process_key_events rest reset_buffer in
      (replicate (length keys) True @ rs, unicode # us, buf))"
proof -
  let ?ks = "map key_code keys"
  note len = compose_entry_keys [OF entry]
  from len(1) obtain ps k where k: "keys = ps @ [k]" by (cases keys rule: rev_cases) auto
  have "process_key_events ps (compose_buffer []) = (replicate (length ps) True, [], compose_buffer ([] @ map key_code ps))"
  proof (rule process_beginning [OF entry(1)])
    show "\<forall>n. 0 < n \<longrightarrow> n \<le> length ps \<longrightarrow> padded ([] @ take n (map key_code ps)) \<notin> fst ` set compose_seqs"
    proof (intro allI impI)
      fix n assume n: "0 < n" "n \<le> length ps"
      show "padded ([] @ take n (map key_code ps)) \<notin> fst ` set compose_seqs"
      proof (cases "n = 1")
        case True
        with n k entry(2) obtain p where "take n (map key_code ps) = [p]" "0 \<notin> set [p]" by (cases ps) auto
        with one_key_new show ?thesis by simp
      next
        case False
        with n k new show ?thesis by simp
      qed
    qed
  qed (use k len keys in \<open>auto simp: padded_def\<close>)
  moreover have "process_key_event k (compose_buffer (map key_code ps)) = (True, [unicode], reset_buffer)"
  proof -
    have "process_key_event k (compose_buffer (map key_code ps)) = compose_result (map key_code ps @ [key_code k])"
      using k len keys entry(2) by (intro process_key) auto
    moreover have "map_of compose_seqs (padded (map key_code ps @ [key_code k])) = Some unicode"
      using compose_functional [of "(padded ?ks, unicode)"] entry(1) k by simp
    ultimately show ?thesis by (simp add: compose_result_def)
  qed
  ultimately have "process_key_events keys reset_buffer = (replicate (length keys) True, [unicode], reset_buffer)"
    by (simp add: k process_key_events_append replicate_append_same Let_def)
  then show ?thesis by (simp add: process_key_events_append case_prod_unfold Let_def)
qed

text \<open>Keys between two sequences that stand side by side are no sequence.\<close>

lemma beside:
  assumes "sublist [a, b] compose_seqs" "e \<in> set compose_seqs"
  shows "fst e \<le> fst a \<or> fst b \<le> fst e"
proof -
  from assms(1) obtain xs ys where split: "compose_seqs = xs @ [a, b] @ ys" by (auto simp: sublist_def)
  have "sorted_wrt (\<lambda>a b. fst a < fst b) (xs @ [a, b] @ ys)" using compose_sorted unfolding split .
  then have "\<forall>x \<in> set xs. fst x < fst a" "\<forall>y \<in> set ys. fst b < fst y"
    by (simp_all add: sorted_wrt_append)
  moreover from assms(2) have "e \<in> set xs \<or> e = a \<or> e = b \<or> e \<in> set ys" unfolding split by auto
  ultimately show ?thesis by (elim disjE) (simp_all add: less_imp_le)
qed

lemma beside_new:
  assumes "sublist [a, b] compose_seqs" "fst a < k" "k < fst b"
  shows "k \<notin> fst ` set compose_seqs"
proof
  assume "k \<in> fst ` set compose_seqs"
  then obtain e where e: "e \<in> set compose_seqs" "fst e = k" by auto
  from beside [OF assms(1) e(1)] e(2) assms(2,3) show False by (simp add: not_le [symmetric])
qed

lemma sublist_rows: "sublist r compose_rows \<Longrightarrow>
  sublist (map (\<lambda>(keys, unicode). (map word_of_int keys, word_of_int unicode)) r) compose_seqs"
  unfolding compose_seqs_def by (rule map_mono_sublist)

lemma compose_rows_parts: "sublist compose_rows_1 compose_rows" "sublist compose_rows_17 compose_rows"
proof -
  show "sublist compose_rows_1 compose_rows" unfolding compose_rows_def by simp
  show "sublist compose_rows_17 compose_rows"
    unfolding compose_rows_def append_assoc [symmetric] sublist_def by (metis append_assoc)
qed

lemma rows_1: "sublist [([0x1E9F, 0x1EFD, 0, 0, 0], 0x1EEF), ([0x1E9F, 0xFE52, 0x41, 0, 0], 0x1EAA)] compose_rows_1"
  by (simp add: compose_rows_1_def sublist_Cons_right)

lemma rows_1_end: "sublist [([0x1E9F, 0xFF20, 0x62, 0x61, 0], 0x1EB5), ([0x1EF2, 0x41, 0, 0, 0], 0xC0)] compose_rows_1"
  by (simp add: compose_rows_1_def sublist_Cons_right)

lemma rows_17:
  "sublist [([0xFF20, 0x21, 0xFE62, 0x75, 0], 0x1EF1), ([0xFF20, 0x22, 0x22, 0, 0], 0xA8),
     ([0xFF20, 0x22, 0x27, 0, 0], 0x344), ([0xFF20, 0x22, 0x27, 0x20, 0], 0x385)] compose_rows_17"
  by (simp add: compose_rows_17_def sublist_Cons_right)

lemma seqs_1: "sublist [([0x1E9F, 0x1EFD, 0, 0, 0], 0x1EEF), ([0x1E9F, 0xFE52, 0x41, 0, 0], 0x1EAA)] compose_seqs"
  using sublist_rows [OF sublist_order.order.trans [OF rows_1 compose_rows_parts(1)]] by simp

lemma seqs_1_end: "sublist [([0x1E9F, 0xFF20, 0x62, 0x61, 0], 0x1EB5), ([0x1EF2, 0x41, 0, 0, 0], 0xC0)] compose_seqs"
  using sublist_rows [OF sublist_order.order.trans [OF rows_1_end compose_rows_parts(1)]] by simp

lemma seqs_17:
  "sublist [([0xFF20, 0x21, 0xFE62, 0x75, 0], 0x1EF1), ([0xFF20, 0x22, 0x22, 0, 0], 0xA8),
     ([0xFF20, 0x22, 0x27, 0, 0], 0x344), ([0xFF20, 0x22, 0x27, 0x20, 0], 0x385)] compose_seqs"
  using sublist_rows [OF sublist_order.order.trans [OF rows_17 compose_rows_parts(2)]] by simp

text \<open>No sequence begins with the space.\<close>

lemma compose_first:
  assumes "e \<in> set compose_seqs"
  shows "0x1E9F \<le> hd (fst e)"
proof -
  obtain t where t: "compose_rows = ([0x1E9F, 0x41, 0, 0, 0], 0xC3) # t"
    by (simp add: compose_rows_def compose_rows_1_def)
  obtain ss where ss: "compose_seqs = ([0x1E9F, 0x41, 0, 0, 0], 0xC3) # ss"
    unfolding compose_seqs_def t by simp
  have "sorted_wrt (\<lambda>a b. fst a < fst b) (([0x1E9F, 0x41, 0, 0, 0], 0xC3) # ss)"
    using compose_sorted unfolding ss .
  then have "[0x1E9F, 0x41, 0, 0, 0] \<le> fst e"
    using assms unfolding ss by (cases "e \<in> set ss") (simp_all add: less_imp_le)
  then show ?thesis by (cases "fst e") auto
qed

abbreviation press :: "32 word \<Rightarrow> KeyEvent" where
  "press code \<equiv> \<lparr>key_code = code, key_mask = 0, key_layout = 0\<rparr>"

lemma press_plain: "plain_press (press k)"
  by (simp add: plain_press_def is_key_release_def is_control_down_def is_alt_down_def)

lemma padded_eval: "padded [a] = [a, 0, 0, 0, 0]" "padded [a, b] = [a, b, 0, 0, 0]" "padded [a, b, c] = [a, b, c, 0, 0]"
  "padded [a, b, c, d] = [a, b, c, d, 0]"
  by (simp_all add: padded_def SCIM_MAX_COMPOSE_LEN_def eval_nat_numeral)

lemma compose_key_eval: "compose_key 0x1EFD" "compose_key 0x20" "compose_key 0xFFFE"
  by (simp_all add: compose_key_def binary_search_def lower_bound_def compose_ignores_def)

text \<open>The second key of the witness is greater than every second key after the first one, so that the sequence found
  has another first key.\<close>

lemma mismatch_greater:
  assumes "e \<in> set compose_seqs" "padded [0x1E9F, 0xFFFE] \<le> fst e"
  shows "hd (fst e) \<noteq> 0x1E9F"
proof -
  have "([0x1E9F, 0xFF20, 0x62, 0x61, 0] :: 32 word list) < padded [0x1E9F, 0xFFFE]" by (simp add: padded_eval)
  with assms(2) have "\<not> fst e \<le> [0x1E9F, 0xFF20, 0x62, 0x61, 0]" by (meson less_le_not_le order_trans)
  with beside [OF seqs_1_end assms(1)] have "[0x1EF2, 0x41, 0, 0, 0] \<le> fst e" by simp
  then show ?thesis by (cases "fst e") auto
qed

lemma compose_step_witness:
  "process_key_event (press 0x1EFD) (compose_buffer [0x1E9F]) = (True, [0x1EEF], reset_buffer) \<and>
   process_key_event (press 0xFFFE) (compose_buffer [0x1E9F]) = (False, [], reset_buffer)"
proof
  have "([0x1E9F, 0x1EFD, 0, 0, 0], 0x1EEF) \<in> set compose_seqs" using seqs_1 by (auto dest!: set_mono_sublist)
  then have "map_of compose_seqs (padded ([0x1E9F] @ [0x1EFD])) = Some 0x1EEF"
    using compose_functional [of "([0x1E9F, 0x1EFD, 0, 0, 0], 0x1EEF)"] by (simp add: padded_eval)
  then show "process_key_event (press 0x1EFD) (compose_buffer [0x1E9F]) = (True, [0x1EEF], reset_buffer)"
    using compose_step [of "press 0x1EFD" "[0x1E9F]"]
    by (simp add: press_plain compose_key_eval SCIM_MAX_COMPOSE_LEN_def)
next
  let ?ks = "[0x1E9F, 0xFFFE] :: 32 word list"
  have "\<not> prefix ?ks (fst e)" if "e \<in> set compose_seqs" for e
    using mismatch_greater [OF that] prefix_least [OF compose_entry_length [OF that], of ?ks] by (auto elim!: prefixE)
  moreover have "padded ?ks \<notin> fst ` set compose_seqs"
    using mismatch_greater by (force simp: padded_eval)
  then have "map_of compose_seqs (padded ?ks) = None" by (simp add: map_of_eq_None_iff)
  moreover have "\<not> (padded ?ks < fst e \<and> hd (fst e) = 0x1E9F)" if "e \<in> set compose_seqs" for e
    using mismatch_greater [OF that] by auto
  ultimately show "process_key_event (press 0xFFFE) (compose_buffer [0x1E9F]) = (False, [], reset_buffer)"
    using compose_step [of "press 0xFFFE" "[0x1E9F]"]
    by (auto simp: press_plain compose_key_eval SCIM_MAX_COMPOSE_LEN_def)
qed

lemma process_space: "process_key_events [press 0x20] reset_buffer = ([False], [], reset_buffer)"
proof -
  have first: "hd (fst e) \<noteq> 0x20" if "e \<in> set compose_seqs" for e using compose_first [OF that] by auto
  moreover have "\<not> prefix [0x20] (fst e)" if "e \<in> set compose_seqs" for e
    using first [OF that] by (auto elim!: prefixE)
  moreover have "map_of compose_seqs (padded [0x20]) = None"
    using one_key_new [of "0x20"] by (simp add: map_of_eq_None_iff)
  moreover have "process_key_event (press 0x20) (compose_buffer []) = compose_result ([] @ [key_code (press 0x20)])"
    by (intro process_key) (simp_all add: press_plain compose_key_eval SCIM_MAX_COMPOSE_LEN_def)
  ultimately show ?thesis by (simp add: compose_result_def)
qed

lemma compose_typed_witness:
  "process_key_events (map press [0xFF20, 0x22, 0x27] @ [press 0x20]) reset_buffer =
     ([True, True, True, False], [0x344], reset_buffer)"
proof -
  let ?keys = "map press [0xFF20, 0x22, 0x27]"
  have "([0xFF20, 0x22, 0x27, 0, 0], 0x344) \<in> set compose_seqs" using seqs_17 by (auto dest!: set_mono_sublist)
  moreover have "padded [0xFF20, 0x22] \<notin> fst ` set compose_seqs"
  proof (rule beside_new)
    show "sublist [([0xFF20, 0x21, 0xFE62, 0x75, 0], 0x1EF1), ([0xFF20, 0x22, 0x22, 0, 0], 0xA8)] compose_seqs"
      by (rule sublist_order.order.trans [OF _ seqs_17]) (simp add: sublist_Cons_right)
  qed (simp_all add: padded_eval)
  moreover have "n = 2" if "1 < n" "n < length ?keys" for n :: nat using that by simp
  ultimately have "\<forall>n. 1 < n \<longrightarrow> n < length ?keys \<longrightarrow> padded (take n (map key_code ?keys)) \<notin> fst ` set compose_seqs"
    by (simp add: less_Suc_eq numeral_eq_Suc)
  then have "process_key_events (?keys @ [press 0x20]) reset_buffer =
     (let (rs, us, buf) = process_key_events [press 0x20] reset_buffer in
      (replicate (length ?keys) True @ rs, 0x344 # us, buf))"
    using \<open>([0xFF20, 0x22, 0x27, 0, 0], 0x344) \<in> set compose_seqs\<close>
    by (intro compose_typed) (simp_all add: padded_eval press_plain)
  then show ?thesis unfolding process_space by (simp add: eval_nat_numeral del: process_key_events.simps)
qed

text \<open>The sequence of which those keys are the whole is in the table, and its character is not committed.\<close>

lemma compose_shadowed:
  "(padded (map key_code (map press [0xFF20, 0x22, 0x27, 0x20])), 0x385) \<in> set compose_seqs"
  using seqs_17 by (auto simp: padded_eval dest!: set_mono_sublist)

end
