(* ===== verification/Bridge_Display.thy ===== *)
theory Bridge_Display
  imports Bridge_String
begin

text \<open>
  \<^verbatim>\<open>scim-bridge-display.c\<close>, \<^verbatim>\<open>scim-bridge-path.c\<close> and \<^verbatim>\<open>scim-bridge-client-debug.c\<close>: what the bridge
  takes from the environment. The display is parsed from \<^verbatim>\<open>DISPLAY\<close>, the paths of the socket, the
  lock file and the agent are made from it once and cached, and the debug level is parsed from
  \<^verbatim>\<open>SCIM_BRIDGE_DEBUG_LEVEL\<close>. An environment variable is \<open>None\<close> when it is not set.
\<close>

section \<open>Displays\<close>

record display =
  display_name :: string
  display_number :: int
  screen_number :: int

definition scim_bridge_alloc_display :: display where
  "scim_bridge_alloc_display = \<lparr>display_name = [], display_number = -1, screen_number = -1\<rparr>"

definition scim_bridge_copy_display :: "display option \<Rightarrow> display option \<Rightarrow> display run" where
  "scim_bridge_copy_display dst src =
     (case (dst, src) of
        (Some d, Some s) \<Rightarrow>
          Done (d\<lparr>display_name := display_name s, display_number := display_number s,
                  screen_number := screen_number s\<rparr>)
      | _ \<Rightarrow> Undefined)"

definition scim_bridge_display_equals :: "display \<Rightarrow> display \<Rightarrow> bool" where
  "scim_bridge_display_equals dst src \<longleftrightarrow>
     display_number dst = display_number src \<and> screen_number dst = screen_number src"

text \<open>\<^verbatim>\<open>n * 10 + (index (digits, *c) - digits)\<close>: the product is an \<^verbatim>\<open>int\<close> and must not overflow, the
  sum is a \<^verbatim>\<open>long\<close> that is stored in an \<^verbatim>\<open>int\<close>.\<close>

definition append_digit :: "int \<Rightarrow> nat \<Rightarrow> int run" where
  "append_digit n d =
     (if n * 10 < - 2147483648 \<or> n * 10 > 2147483647 then Undefined
      else Done (sint (word_of_int (n * 10 + int d) :: 32 word)))"

fun after_colon :: "string \<Rightarrow> string option" where
  "after_colon [] = None"
| "after_colon (c # s) = (if c = CHR '':'' then Some s else after_colon s)"

fun read_display_numbers :: "string \<Rightarrow> bool \<Rightarrow> int \<Rightarrow> int \<Rightarrow> (int \<times> int) option run" where
  "read_display_numbers [] reading_display_number dn sn = Done (Some (dn, sn))"
| "read_display_numbers (c # s) reading_display_number dn sn =
     (case digit_of_char c of
        Some d \<Rightarrow>
          if reading_display_number
          then run_bind (append_digit dn d) (\<lambda>dn'. read_display_numbers s True dn' sn)
          else run_bind (append_digit sn d) (\<lambda>sn'. read_display_numbers s False dn sn')
      | None \<Rightarrow>
          if c = CHR ''.'' \<and> reading_display_number then read_display_numbers s False dn sn
          else Done None)"

definition scim_bridge_display_fetch_current ::
  "string option \<Rightarrow> display option \<Rightarrow> (retval \<times> display option) run" where
  "scim_bridge_display_fetch_current env display =
     (case display of None \<Rightarrow> Done (RETVAL_FAILED, None)
      | Some d \<Rightarrow>
          (case env of None \<Rightarrow> Done (RETVAL_FAILED, Some d)
           | Some name \<Rightarrow>
               (case after_colon name of None \<Rightarrow> Done (RETVAL_FAILED, Some d)
                | Some s \<Rightarrow>
                    run_bind (read_display_numbers s True 0 0) (\<lambda>r.
                      case r of None \<Rightarrow> Done (RETVAL_FAILED, Some d)
                      | Some (dn, sn) \<Rightarrow>
                          Done (RETVAL_SUCCEEDED,
                            Some (d\<lparr>display_name := name, display_number := dn,
                                    screen_number := sn\<rparr>))))))"

definition scim_bridge_display_get_name :: "display option \<Rightarrow> string option" where
  "scim_bridge_display_get_name display = map_option display_name display"

definition scim_bridge_display_set_name :: "string option \<Rightarrow> display option \<Rightarrow> display run" where
  "scim_bridge_display_set_name name display =
     (case (display, name) of (Some d, Some s) \<Rightarrow> Done (d\<lparr>display_name := s\<rparr>) | _ \<Rightarrow> Undefined)"

definition scim_bridge_display_get_display_number :: "display option \<Rightarrow> int run" where
  "scim_bridge_display_get_display_number display =
     (case display of None \<Rightarrow> Undefined | Some d \<Rightarrow> Done (display_number d))"

definition scim_bridge_display_set_display_number :: "int \<Rightarrow> display option \<Rightarrow> display run" where
  "scim_bridge_display_set_display_number n display =
     (case display of None \<Rightarrow> Undefined | Some d \<Rightarrow> Done (d\<lparr>display_number := n\<rparr>))"

definition scim_bridge_display_get_screen_number :: "display option \<Rightarrow> int run" where
  "scim_bridge_display_get_screen_number display =
     (case display of None \<Rightarrow> Undefined | Some d \<Rightarrow> Done (screen_number d))"

definition scim_bridge_display_set_screen_number :: "int \<Rightarrow> display option \<Rightarrow> display run" where
  "scim_bridge_display_set_screen_number n display =
     (case display of None \<Rightarrow> Undefined | Some d \<Rightarrow> Done (d\<lparr>screen_number := n\<rparr>))"

section \<open>Paths\<close>

definition COMPAT_VERSION :: string where "COMPAT_VERSION = ''0.3.0''"
definition SOCKET_DIR :: string where "SOCKET_DIR = ''/tmp/''"
definition SOCKET_NAME :: string where "SOCKET_NAME = ''socket''"
definition LOCKFILE_DIR :: string where "LOCKFILE_DIR = ''/tmp/''"
definition LOCKFILE_NAME :: string where "LOCKFILE_NAME = ''lockfile''"
definition AGENT_DIR :: string where "AGENT_DIR = ''''"
definition AGENT_NAME :: string where "AGENT_NAME = ''scim-im-agent''"
definition HOST_NAME :: string where "HOST_NAME = ''localhost''"

record paths =
  lockfile_path :: "string option"
  socket_path :: "string option"
  agent_path :: "string option"

definition no_paths :: paths where
  "no_paths = \<lparr>lockfile_path = None, socket_path = None, agent_path = None\<rparr>"

text \<open>The format \<^verbatim>\<open>%s%s-%s.%s-%d@%s:%d.%d\<close>; \<^verbatim>\<open>%d\<close> prints the user id as a signed integer.\<close>

definition path_of :: "string \<Rightarrow> string \<Rightarrow> 32 word \<Rightarrow> int \<Rightarrow> int \<Rightarrow> string" where
  "path_of dir name uid dn sn =
     dir @ AGENT_NAME @ ''-'' @ COMPAT_VERSION @ ''.'' @ name @ ''-'' @ printf_d (sint uid) @ ''@''
       @ HOST_NAME @ '':'' @ printf_d dn @ ''.'' @ printf_d sn"

definition path_static_initialize :: "string option \<Rightarrow> 32 word \<Rightarrow> paths \<Rightarrow> paths run" where
  "path_static_initialize env uid p =
     run_bind (scim_bridge_display_fetch_current env (Some scim_bridge_alloc_display)) (\<lambda>(rv, d).
     run_bind (scim_bridge_display_get_display_number d) (\<lambda>dn.
     run_bind (scim_bridge_display_get_screen_number d) (\<lambda>sn.
       Done (p\<lparr>lockfile_path := Some (path_of LOCKFILE_DIR LOCKFILE_NAME uid dn sn),
               socket_path := Some (path_of SOCKET_DIR SOCKET_NAME uid dn sn),
               agent_path := Some (AGENT_DIR @ AGENT_NAME)\<rparr>))))"

definition scim_bridge_path_get_lockfile ::
  "string option \<Rightarrow> 32 word \<Rightarrow> paths \<Rightarrow> (string option \<times> paths) run" where
  "scim_bridge_path_get_lockfile env uid p =
     run_bind (if lockfile_path p = None then path_static_initialize env uid p else Done p)
       (\<lambda>p'. Done (lockfile_path p', p'))"

definition scim_bridge_path_get_socket ::
  "string option \<Rightarrow> 32 word \<Rightarrow> paths \<Rightarrow> (string option \<times> paths) run" where
  "scim_bridge_path_get_socket env uid p =
     run_bind (if socket_path p = None then path_static_initialize env uid p else Done p)
       (\<lambda>p'. Done (socket_path p', p'))"

definition scim_bridge_path_get_agent ::
  "string option \<Rightarrow> 32 word \<Rightarrow> paths \<Rightarrow> (string option \<times> paths) run" where
  "scim_bridge_path_get_agent env uid p =
     run_bind (if agent_path p = None then path_static_initialize env uid p else Done p)
       (\<lambda>p'. Done (agent_path p', p'))"

section \<open>The debug level\<close>

definition debug_static_initialize :: "string option \<Rightarrow> int" where
  "debug_static_initialize env =
     (case scim_bridge_string_to_int env of None \<Rightarrow> 0
      | Some debug_level_int \<Rightarrow> if debug_level_int > 10 then 10 else debug_level_int)"

text \<open>The static variable is passed and returned; it is -1 at first.\<close>

definition scim_bridge_debug_get_level :: "string option \<Rightarrow> int \<Rightarrow> int \<times> int" where
  "scim_bridge_debug_get_level env debug_level =
     (let debug_level' = (if debug_level < 0 then debug_static_initialize env else debug_level)
      in (debug_level', debug_level'))"

section \<open>Properties\<close>

lemma after_colon_host: "CHR '':'' \<notin> set host \<Longrightarrow> after_colon (host @ CHR '':'' # s) = Some s"
  by (induction host) auto

lemma sint_word_of_int_32: "0 \<le> k \<Longrightarrow> k \<le> 2147483647 \<Longrightarrow> sint (word_of_int k :: 32 word) = k"
  by (rule sint_word_of_int_range) simp_all

lemma append_digit_value:
  assumes "0 \<le> n" "n * 10 + int d \<le> 2147483647"
  shows "append_digit n d = Done (n * 10 + int d)"
proof -
  have "sint (word_of_int (n * 10 + int d) :: 32 word) = n * 10 + int d"
    using assms by (intro sint_word_of_int_32) simp_all
  then show ?thesis unfolding append_digit_def using assms by simp
qed

lemma digits_value_bound: "dec_value v s = Some n \<Longrightarrow> v \<le> n"
  by (rule dec_value_ge)

lemma read_digits_display:
  "dec_value v s = Some n \<Longrightarrow> n \<le> 2147483647 \<Longrightarrow>
   read_display_numbers (s @ t) True (int v) sn = read_display_numbers t True (int n) sn"
proof (induction v s rule: dec_value.induct)
  case (2 v c s)
  then obtain d where d: "digit_of_char c = Some d" "dec_value (v * 10 + d) s = Some n"
    by (auto split: option.splits)
  have "v * 10 + d \<le> n" by (rule digits_value_bound [OF d(2)])
  then have "append_digit (int v) d = Done (int (v * 10 + d))"
    using "2.prems"(2) by (subst append_digit_value) auto
  with d "2.IH" [OF d(1,2)] "2.prems"(2) show ?case by simp
qed simp

lemma read_digits_screen:
  "dec_value v s = Some n \<Longrightarrow> n \<le> 2147483647 \<Longrightarrow>
   read_display_numbers s False dn (int v) = Done (Some (dn, int n))"
proof (induction v s rule: dec_value.induct)
  case (2 v c s)
  then obtain d where d: "digit_of_char c = Some d" "dec_value (v * 10 + d) s = Some n"
    by (auto split: option.splits)
  have "v * 10 + d \<le> n" by (rule digits_value_bound [OF d(2)])
  then have "append_digit (int v) d = Done (int (v * 10 + d))"
    using "2.prems"(2) by (subst append_digit_value) auto
  with d "2.IH" [OF d(1,2)] "2.prems"(2) show ?case by simp
qed simp

lemma length_printf_u: "n < 10 ^ k \<Longrightarrow> 0 < k \<Longrightarrow> length (printf_u n) \<le> k"
proof (induction k arbitrary: n)
  case (Suc k)
  show ?case
  proof (cases "n < 10")
    case True
    then show ?thesis by (subst printf_u.simps) simp
  next
    case False
    have "n div 10 < 10 ^ k" using Suc.prems(1) by (simp add: less_mult_imp_div_less mult.commute)
    moreover have "0 < k" using False Suc.prems(1) by (cases k) auto
    ultimately show ?thesis using False Suc.IH [of "n div 10"] by (subst printf_u.simps) simp
  qed
qed simp

lemma length_printf_d:
  assumes "- 2147483648 \<le> i" "i \<le> 2147483647"
  shows "length (printf_d i) \<le> 11"
proof -
  have "nat (- i) < 10 ^ 10" "nat i < 10 ^ 10" using assms by simp_all
  from length_printf_u [OF this(1)] length_printf_u [OF this(2)]
  have "length (printf_u (nat (- i))) \<le> 10" "length (printf_u (nat i)) \<le> 10" by simp_all
  then show ?thesis by (simp add: printf_d_def)
qed

lemma sint_32_bounds: "- 2147483648 \<le> sint (w :: 32 word)" "sint (w :: 32 word) \<le> 2147483647"
  using sint_range_size [of w] by (simp_all add: word_size)

lemma append_digit_int:
  "append_digit n d = Done k \<Longrightarrow> - 2147483648 \<le> k \<and> k \<le> 2147483647"
  using sint_32_bounds by (auto simp: append_digit_def split: if_splits)

lemma read_display_numbers_int:
  "read_display_numbers s r dn sn = Done (Some (dn', sn')) \<Longrightarrow>
   - 2147483648 \<le> dn \<and> dn \<le> 2147483647 \<Longrightarrow> - 2147483648 \<le> sn \<and> sn \<le> 2147483647 \<Longrightarrow>
   (- 2147483648 \<le> dn' \<and> dn' \<le> 2147483647) \<and> (- 2147483648 \<le> sn' \<and> sn' \<le> 2147483647)"
  by (induction s r dn sn rule: read_display_numbers.induct)
    (auto split: option.splits if_splits dest: append_digit_int)

definition int_display :: "display \<Rightarrow> bool" where
  "int_display d \<longleftrightarrow> - 2147483648 \<le> display_number d \<and> display_number d \<le> 2147483647 \<and>
     - 2147483648 \<le> screen_number d \<and> screen_number d \<le> 2147483647"

lemma display_fetch_int:
  assumes "scim_bridge_display_fetch_current env (Some d) = Done (rv, d')" "int_display d"
  shows "\<exists>d1. d' = Some d1 \<and> int_display d1"
  using assms read_display_numbers_int [where dn = 0 and sn = 0]
  by (auto simp: scim_bridge_display_fetch_current_def int_display_def split: option.splits)

lemma path_of_bounds:
  assumes "int_display d"
  shows "length (path_of SOCKET_DIR SOCKET_NAME uid (display_number d) (screen_number d)) \<le> 77"
  using assms length_printf_d [OF sint_32_bounds, of uid] length_printf_d [of "display_number d"]
    length_printf_d [of "screen_number d"]
  by (simp add: path_of_def int_display_def SOCKET_DIR_def SOCKET_NAME_def AGENT_NAME_def
      COMPAT_VERSION_def HOST_NAME_def)

lemma path_initialize_socket:
  assumes "path_static_initialize env uid p = Done p'"
  shows "\<exists>s. socket_path p' = Some s \<and> length s \<le> 77"
proof -
  have "int_display scim_bridge_alloc_display"
    by (simp add: int_display_def scim_bridge_alloc_display_def)
  with assms display_fetch_int show ?thesis
    by (fastforce simp: path_static_initialize_def scim_bridge_display_get_display_number_def
        scim_bridge_display_get_screen_number_def intro: path_of_bounds split: option.splits)
qed

text \<open>the usual form of \<^verbatim>\<open>DISPLAY\<close>, a host, a display number and a screen number, is parsed into
  these numbers; without a screen number the screen is 0.\<close>

theorem display_fetch_correct:
  assumes "CHR '':'' \<notin> set host" "dn \<le> 2147483647" "sn \<le> 2147483647"
  shows "scim_bridge_display_fetch_current (Some (host @ '':'' @ printf_u dn @ ''.'' @ printf_u sn)) (Some d) =
      Done (RETVAL_SUCCEEDED, Some (d\<lparr>display_name := host @ '':'' @ printf_u dn @ ''.'' @ printf_u sn,
        display_number := int dn, screen_number := int sn\<rparr>)) \<and>
    scim_bridge_display_fetch_current (Some (host @ '':'' @ printf_u dn)) (Some d) =
      Done (RETVAL_SUCCEEDED, Some (d\<lparr>display_name := host @ '':'' @ printf_u dn,
        display_number := int dn, screen_number := 0\<rparr>))"
  using assms read_digits_display [OF dec_value_printf_u assms(2), of "''.'' @ printf_u sn" 0]
    read_digits_display [OF dec_value_printf_u assms(2), of "[]" 0]
    read_digits_screen [OF dec_value_printf_u assms(3)]
  by (simp add: scim_bridge_display_fetch_current_def after_colon_host digit_of_char_def)

text \<open>the path of the agent's socket, made from any \<^verbatim>\<open>DISPLAY\<close> and any user id, has at most 77
  characters, so the unchecked \<^verbatim>\<open>strcpy\<close> of the client into \<^verbatim>\<open>sun_path\<close> (108 bytes) stays in bounds;
  once made, the path no longer depends on the environment.\<close>

theorem socket_path_fits:
  assumes "scim_bridge_path_get_socket env uid no_paths = Done (path, p)"
  shows "\<exists>s. path = Some s \<and> length s \<le> 77 \<and>
    scim_bridge_path_get_socket env' uid' p = Done (path, p)"
proof -
  from assms obtain p' where "path_static_initialize env uid no_paths = Done p'"
    and p: "path = socket_path p'" "p = p'"
    by (auto simp: scim_bridge_path_get_socket_def no_paths_def)
  from path_initialize_socket [OF this(1)] p show ?thesis
    by (auto simp: scim_bridge_path_get_socket_def)
qed

text \<open>the debug level is at most 10, and when the variable holds a number from 0 to 10 it is that
  number and is not parsed again.\<close>

theorem debug_level_correct:
  "fst (scim_bridge_debug_get_level env (- 1)) \<le> 10 \<and>
   (n \<le> 10 \<longrightarrow>
     scim_bridge_debug_get_level (Some (printf_u n)) (- 1) = (int n, int n) \<and>
     scim_bridge_debug_get_level env (int n) = (int n, int n))"
proof -
  have "int_value (printf_u n) = Some (int n)"
    using int_value_printf_d [of "int n"] by (simp add: printf_d_def)
  then have "n \<le> 10 \<Longrightarrow> scim_bridge_string_to_int (Some (printf_u n)) = Some (int n)"
    by (simp add: string_to_int_iff)
  then show ?thesis
    by (auto simp: scim_bridge_debug_get_level_def debug_static_initialize_def Let_def split: option.splits)
qed

end
