(* ===== verification/Bridge_Message.thy ===== *)
theory Bridge_Message
  imports Bridge_Prelude
begin

text \<open>
  \<^verbatim>\<open>extras/immodules/common/scim-bridge-message.c\<close>: a message is a header and a fixed number of
  arguments, each in a buffer of its own whose capacity is kept beside it. \<^verbatim>\<open>NULL\<close> is \<open>None\<close>, and
  \<^verbatim>\<open>malloc\<close> is taken to succeed, as the code does. The contract of an argument store is the
  locale \<open>argument_store\<close>; filling a fresh message with its arguments is proved once inside it.
\<close>

record message =
  header :: string
  arguments :: "string list"
  argument_capacities :: "nat list"
  argument_count :: nat

definition scim_bridge_alloc_message :: "string option \<Rightarrow> nat \<Rightarrow> message option" where
  "scim_bridge_alloc_message hdr n =
     (case hdr of None \<Rightarrow> None
      | Some h \<Rightarrow> Some \<lparr>header = h, arguments = replicate n [],
          argument_capacities = replicate n 10, argument_count = n\<rparr>)"

definition scim_bridge_message_get_header :: "message \<Rightarrow> string" where
  "scim_bridge_message_get_header message = header message"

definition scim_bridge_message_get_argument_count :: "message \<Rightarrow> nat" where
  "scim_bridge_message_get_argument_count message = argument_count message"

definition scim_bridge_message_get_argument :: "message option \<Rightarrow> nat \<Rightarrow> string option" where
  "scim_bridge_message_get_argument message index =
     (case message of None \<Rightarrow> None
      | Some m \<Rightarrow> if index \<ge> argument_count m then None else Some (arguments m ! index))"

definition scim_bridge_message_set_argument ::
  "message option \<Rightarrow> nat \<Rightarrow> string option \<Rightarrow> retval \<times> message option" where
  "scim_bridge_message_set_argument message index argument =
     (case argument of None \<Rightarrow> (RETVAL_FAILED, message)
      | Some s \<Rightarrow>
          (case message of None \<Rightarrow> (RETVAL_FAILED, message)
           | Some m \<Rightarrow>
               if index \<ge> argument_count m then (RETVAL_FAILED, message)
               else
                 let m' = (if length s > argument_capacities m ! index
                           then m\<lparr>argument_capacities := (argument_capacities m)[index := length s]\<rparr>
                           else m)
                 in (RETVAL_SUCCEEDED, Some (m'\<lparr>arguments := (arguments m')[index := s]\<rparr>))))"

text \<open>The representation: one capacity per argument, and every argument is a C string that fits
  its buffer.\<close>

definition wf_message :: "message \<Rightarrow> bool" where
  "wf_message m \<longleftrightarrow>
     length (arguments m) = argument_count m \<and> length (argument_capacities m) = argument_count m \<and>
     (\<forall>i < argument_count m. length (arguments m ! i) \<le> argument_capacities m ! i) \<and>
     is_cstring (header m) \<and> (\<forall>s \<in> set (arguments m). is_cstring s)"

lemma wf_alloc_message:
  "scim_bridge_alloc_message (Some h) n = Some m \<Longrightarrow> is_cstring h \<Longrightarrow> wf_message m"
  by (auto simp: scim_bridge_alloc_message_def wf_message_def)

lemma wf_set_argument:
  assumes "wf_message m" "is_cstring s"
  shows "\<exists>m'. scim_bridge_message_set_argument (Some m) i (Some s) =
      (if i < argument_count m then RETVAL_SUCCEEDED else RETVAL_FAILED, Some m') \<and>
    wf_message m' \<and> header m' = header m \<and> argument_count m' = argument_count m \<and>
    arguments m' = (arguments m)[i := s]"
proof -
  have "\<And>t. t \<in> set ((arguments m)[i := s]) \<Longrightarrow> is_cstring t"
    using assms set_update_subset_insert [of "arguments m" i s] by (auto simp: wf_message_def)
  then show ?thesis
    using assms by (auto simp: scim_bridge_message_set_argument_def wf_message_def Let_def
        nth_list_update list_update_beyond)
qed

section \<open>The contract of an argument store\<close>

text \<open>What the callers rely on: a store of a fixed number of slots, where a slot holds what was
  last put there. \<open>fill\<close> is how every caller uses it: the slots are set in order, from \<open>k\<close> on.\<close>

locale argument_store =
  fixes inv :: "'m \<Rightarrow> bool" and count :: "'m \<Rightarrow> nat" and get :: "'m \<Rightarrow> nat \<Rightarrow> 'a option"
    and set_arg :: "nat \<Rightarrow> 'a \<Rightarrow> 'm \<Rightarrow> 'm" and valid :: "'a \<Rightarrow> bool"
  assumes inv_set: "inv m \<Longrightarrow> valid a \<Longrightarrow> inv (set_arg i a m)"
    and count_set: "inv m \<Longrightarrow> valid a \<Longrightarrow> count (set_arg i a m) = count m"
    and get_set: "inv m \<Longrightarrow> valid a \<Longrightarrow> i < count m \<Longrightarrow>
      get (set_arg i a m) j = (if i = j then Some a else get m j)"
begin

primrec fill :: "nat \<Rightarrow> 'a list \<Rightarrow> 'm \<Rightarrow> 'm" where
  "fill k [] m = m"
| "fill k (a # as) m = fill (Suc k) as (set_arg k a m)"

lemma fill_inv: "inv m \<Longrightarrow> \<forall>a \<in> set as. valid a \<Longrightarrow> inv (fill k as m) \<and> count (fill k as m) = count m"
  by (induction as arbitrary: k m) (auto simp: inv_set count_set)

lemma get_fill:
  "inv m \<Longrightarrow> \<forall>a \<in> set as. valid a \<Longrightarrow> k + length as \<le> count m \<Longrightarrow>
   get (fill k as m) j =
     (if k \<le> j \<and> j < k + length as then Some (as ! (j - k)) else get m j)"
proof (induction as arbitrary: k m)
  case (Cons a as)
  then show ?case
    using Cons.IH [of "set_arg k a m" "Suc k"]
    by (auto simp: inv_set count_set get_set nth_Cons')
qed auto

end

definition put_argument :: "nat \<Rightarrow> string \<Rightarrow> message \<Rightarrow> message" where
  "put_argument i s m = the (snd (scim_bridge_message_set_argument (Some m) i (Some s)))"

interpretation msg: argument_store wf_message scim_bridge_message_get_argument_count
  "\<lambda>m. scim_bridge_message_get_argument (Some m)" put_argument is_cstring
proof (unfold_locales, goal_cases)
  case (1 m s i)
  with wf_set_argument [OF 1, of i] show ?case by (auto simp: put_argument_def)
next
  case (2 m s i)
  with wf_set_argument [OF 2, of i] show ?case
    by (auto simp: put_argument_def scim_bridge_message_get_argument_count_def)
next
  case (3 m s i j)
  with wf_set_argument [OF 3(1,2), of i] show ?case
    by (auto simp: put_argument_def scim_bridge_message_get_argument_count_def
        scim_bridge_message_get_argument_def wf_message_def)
qed

text \<open>A fresh message filled with arguments, as every sender of the client and the poller do it:
  \<open>alloc_message (header, n)\<close> and then \<open>set_argument (message, j, arg_j)\<close> for each \<open>j\<close>.\<close>

definition make_message :: "string \<Rightarrow> string list \<Rightarrow> message" where
  "make_message h args =
     msg.fill 0 args (the (scim_bridge_alloc_message (Some h) (length args)))"

definition packed :: "string \<Rightarrow> string list \<Rightarrow> message" where
  "packed h args = \<lparr>header = h, arguments = args,
     argument_capacities = map (\<lambda>s. max 10 (length s)) args, argument_count = length args\<rparr>"

lemma put_argument_append:
  "length xs = k \<Longrightarrow>
   put_argument k s \<lparr>header = h, arguments = xs @ [] # ys,
     argument_capacities = cs @ 10 # ds, argument_count = n\<rparr> =
   \<lparr>header = h, arguments = xs @ s # ys, argument_capacities = cs @ max 10 (length s) # ds,
     argument_count = n\<rparr>" if "length cs = k" "k < n"
  using that
  by (auto simp: put_argument_def scim_bridge_message_set_argument_def Let_def nth_append
      list_update_append)

lemma fill_packed:
  "n = length xs + length args \<Longrightarrow>
   msg.fill (length xs) args
     \<lparr>header = h, arguments = xs @ replicate (length args) [],
      argument_capacities = map (\<lambda>s. max 10 (length s)) xs @ replicate (length args) 10,
      argument_count = n\<rparr> = packed h (xs @ args)"
proof (induction args arbitrary: xs)
  case (Cons a args)
  show ?case
    using Cons.IH [of "xs @ [a]"] Cons.prems by (simp add: put_argument_append)
qed (simp add: packed_def)

lemma make_message_packed [simp]: "make_message h args = packed h args"
  using fill_packed [of "length args" "[]" args h]
  by (simp add: make_message_def scim_bridge_alloc_message_def)

lemma packed_simps [simp]:
  "header (packed h args) = h" "arguments (packed h args) = args"
  "argument_count (packed h args) = length args"
  by (simp_all add: packed_def)

lemma wf_packed: "is_cstring h \<Longrightarrow> \<forall>s \<in> set args. is_cstring s \<Longrightarrow> wf_message (packed h args)"
  by (auto simp: wf_message_def packed_def)

lemma get_argument_packed [simp]:
  "scim_bridge_message_get_argument (Some (packed h args)) i =
     (if i < length args then Some (args ! i) else None)"
  by (simp add: scim_bridge_message_get_argument_def)

text \<open>setting an argument of a well-formed message succeeds exactly for the indices below the
  argument count, keeps the message well formed (no argument ever exceeds its buffer), and
  changes nothing but that argument.\<close>

theorem set_argument_correct:
  assumes "wf_message m" "is_cstring s"
  shows "\<exists>m'. scim_bridge_message_set_argument (Some m) i (Some s) =
      (if i < argument_count m then RETVAL_SUCCEEDED else RETVAL_FAILED, Some m') \<and>
    wf_message m' \<and> header m' = header m \<and>
    (\<forall>j. scim_bridge_message_get_argument (Some m') j =
       (if i < argument_count m \<and> i = j then Some s else scim_bridge_message_get_argument (Some m) j))"
proof -
  from wf_set_argument [OF assms, of i] obtain m' where
    m': "scim_bridge_message_set_argument (Some m) i (Some s) =
      (if i < argument_count m then RETVAL_SUCCEEDED else RETVAL_FAILED, Some m')"
    "wf_message m'" "header m' = header m" "argument_count m' = argument_count m"
    "arguments m' = (arguments m)[i := s]" by blast
  then show ?thesis
    using assms(1)
    by (auto simp: scim_bridge_message_get_argument_def wf_message_def nth_list_update)
qed

end
