(* ===== verification/Bridge_Ring.thy ===== *)
theory Bridge_Ring
  imports Bridge_Prelude
begin

text \<open>
  The ring buffers of \<^verbatim>\<open>scim-bridge-messenger.c\<close>: the four fields \<^verbatim>\<open>X_buffer\<close>, \<^verbatim>\<open>X_buffer_offset\<close>,
  \<^verbatim>\<open>X_buffer_size\<close> and \<^verbatim>\<open>X_buffer_capacity\<close> that a messenger has once for sending and once for
  receiving. A cell that was never written is \<open>None\<close>. The abstraction is the list of the bytes
  in the buffer; the contract of a byte queue is the locale \<open>byte_queue\<close>, and the ring implements
  it. Sizes and offsets are natural numbers: a \<^verbatim>\<open>size_t\<close> would wrap only past the size of memory.
\<close>

record ring =
  rbuffer :: "char option list"
  roffset :: nat
  rsize :: nat
  rcapacity :: nat

definition ring_alloc :: "nat \<Rightarrow> ring" where
  "ring_alloc capacity =
     \<lparr>rbuffer = replicate capacity None, roffset = 0, rsize = 0, rcapacity = capacity\<rparr>"

text \<open>\<open>(buffer_offset + buffer_size + k) % buffer_capacity\<close>, and the cell \<open>i\<close> after the offset.\<close>

definition ring_end :: "ring \<Rightarrow> nat \<Rightarrow> nat" where
  "ring_end r k = (roffset r + rsize r + k) mod rcapacity r"

definition ring_cell :: "ring \<Rightarrow> nat \<Rightarrow> char option" where
  "ring_cell r i = rbuffer r ! ((roffset r + i) mod rcapacity r)"

text \<open>A new buffer with \<open>n\<close> more cells: the old one is copied from its offset on, then from its
  start up to the offset.\<close>

definition ring_grow :: "nat \<Rightarrow> ring \<Rightarrow> ring" where
  "ring_grow n r =
     \<lparr>rbuffer = drop (roffset r) (rbuffer r) @ take (roffset r) (rbuffer r) @ replicate n None,
      roffset = 0, rsize = rsize r, rcapacity = rcapacity r + n\<rparr>"

text \<open>The cells after the last one are written one by one, and the size counted up.\<close>

definition ring_store :: "nat \<Rightarrow> char \<Rightarrow> ring \<Rightarrow> ring" where
  "ring_store k c r = r\<lparr>rbuffer := (rbuffer r)[ring_end r k := Some c]\<rparr>"

definition ring_extend :: "nat \<Rightarrow> ring \<Rightarrow> ring" where
  "ring_extend n r = r\<lparr>rsize := rsize r + n\<rparr>"

text \<open>The first \<open>n\<close> cells are given up.\<close>

definition ring_advance :: "nat \<Rightarrow> ring \<Rightarrow> ring" where
  "ring_advance n r =
     r\<lparr>roffset := (roffset r + n) mod rcapacity r, rsize := rsize r - n\<rparr>"

text \<open>The cells between the offset and the end of the buffer that are in use, and the free cells
  that follow the last one in use without wrapping around: what one \<^verbatim>\<open>send\<close> or \<^verbatim>\<open>recv\<close> may use.\<close>

definition ring_write_size :: "ring \<Rightarrow> nat" where
  "ring_write_size r =
     (if roffset r + rsize r > rcapacity r then rcapacity r - roffset r else rsize r)"

definition ring_read_size :: "ring \<Rightarrow> nat" where
  "ring_read_size r =
     (if roffset r + rsize r < rcapacity r then rcapacity r - (roffset r + rsize r)
      else roffset r - (roffset r + rsize r) mod rcapacity r)"

text \<open>\<^verbatim>\<open>recv\<close> stores its bytes in consecutive cells of the buffer.\<close>

definition ring_fill :: "nat \<Rightarrow> string \<Rightarrow> char option list \<Rightarrow> char option list" where
  "ring_fill p cs buffer = take p buffer @ map Some cs @ drop (p + length cs) buffer"

section \<open>Invariant and abstraction\<close>

definition ring_cells :: "ring \<Rightarrow> char option list" where
  "ring_cells r = map (ring_cell r) [0..<rsize r]"

definition ring_inv :: "ring \<Rightarrow> bool" where
  "ring_inv r \<longleftrightarrow> length (rbuffer r) = rcapacity r \<and> 0 < rcapacity r \<and>
     roffset r < rcapacity r \<and> rsize r \<le> rcapacity r \<and> None \<notin> set (ring_cells r)"

definition ring_content :: "ring \<Rightarrow> string" where
  "ring_content r = map the (ring_cells r)"

lemma length_ring_cells [simp]: "length (ring_cells r) = rsize r"
  by (simp add: ring_cells_def)

lemma length_ring_content [simp]: "length (ring_content r) = rsize r"
  by (simp add: ring_content_def)

lemma ring_cells_content: "ring_inv r \<Longrightarrow> ring_cells r = map Some (ring_content r)"
  by (auto simp: ring_inv_def ring_content_def intro!: nth_equalityI)
    (metis length_ring_cells nth_mem option.collapse)

lemma ring_cells_nth: "i < rsize r \<Longrightarrow> ring_cells r ! i = ring_cell r i"
  by (simp add: ring_cells_def)

lemma ring_alloc_inv: "0 < n \<Longrightarrow> ring_inv (ring_alloc n) \<and> ring_content (ring_alloc n) = []"
  by (simp add: ring_inv_def ring_alloc_def ring_content_def ring_cells_def)

lemma mod_less_twice: "b < 2 * n \<Longrightarrow> b mod n = (if b < n then b else b - (n :: nat))"
  by (auto simp: le_mod_geq)

lemma ring_cell_less: "ring_inv r \<Longrightarrow> i < rcapacity r \<Longrightarrow>
    ring_cell r i = (if roffset r + i < rcapacity r then rbuffer r ! (roffset r + i)
                     else rbuffer r ! (roffset r + i - rcapacity r))"
  by (simp add: ring_cell_def ring_inv_def mod_less_twice)

text \<open>Distinct positions of a ring are distinct cells.\<close>

lemma mod_eq_imp_eq:
  assumes "(a + i) mod n = (a + j) mod n" "i < n" "j < n"
  shows "i = (j :: nat)"
proof -
  have "a + i mod n = a + i" "a + j mod n = a + j" using assms by simp_all
  have "i mod n = j mod n" using assms(1) by (simp add: mod_add_left_eq nat_mod_eq_iff)
  then show ?thesis using assms by simp
qed

lemma ring_inv_from_cells:
  "length (rbuffer r) = rcapacity r \<Longrightarrow> roffset r < rcapacity r \<Longrightarrow> rsize r \<le> rcapacity r \<Longrightarrow>
   ring_cells r = map Some cs \<Longrightarrow> ring_inv r \<and> ring_content r = cs"
  by (auto simp: ring_inv_def ring_content_def o_def)

lemma ring_grow_cells:
  assumes "ring_inv r"
  shows "ring_cells (ring_grow n r) = ring_cells r"
proof (rule nth_equalityI)
  fix i assume "i < length (ring_cells (ring_grow n r))"
  then have i: "i < rsize r" by (simp add: ring_grow_def)
  then have i': "i < rcapacity r" using assms by (simp add: ring_inv_def)
  have "ring_cell (ring_grow n r) i = ring_cell r i"
    using assms i' by (auto simp: ring_cell_less) (auto simp: ring_cell_def ring_grow_def ring_inv_def nth_append add.commute)
  with i show "ring_cells (ring_grow n r) ! i = ring_cells r ! i"
    by (simp add: ring_cells_def ring_grow_def)
qed (simp add: ring_grow_def)

lemma ring_grow_correct:
  assumes "ring_inv r"
  shows "ring_inv (ring_grow n r) \<and> ring_content (ring_grow n r) = ring_content r"
  by (rule ring_inv_from_cells)
    (use assms in \<open>simp_all add: ring_grow_cells ring_cells_content\<close>,
     use assms in \<open>simp_all add: ring_grow_def ring_inv_def\<close>)

text \<open>Writing one byte after the last one.\<close>

definition ring_put :: "char \<Rightarrow> ring \<Rightarrow> ring" where
  "ring_put c r = ring_extend 1 (ring_store 0 c r)"

lemma ring_store_two:
  "ring_extend 2 (ring_store 1 d (ring_store 0 c r)) = ring_put d (ring_put c r)"
  by (simp add: ring_put_def ring_extend_def ring_store_def ring_end_def)

lemma ring_put_cells:
  assumes "ring_inv r" "rsize r < rcapacity r"
  shows "ring_cells (ring_put c r) = ring_cells r @ [Some c]"
proof -
  have "ring_cell (ring_put c r) i = (if i = rsize r then Some c else ring_cell r i)"
    if "i \<le> rsize r" for i
    using that assms mod_eq_imp_eq [of "roffset r" i "rcapacity r" "rsize r"]
    by (auto simp: ring_cell_def ring_put_def ring_store_def ring_extend_def ring_end_def
        ring_inv_def nth_list_update)
  then show ?thesis
    by (auto simp: ring_cells_def ring_put_def ring_extend_def ring_store_def)
qed

lemma ring_put_correct:
  assumes "ring_inv r" "rsize r < rcapacity r"
  shows "ring_inv (ring_put c r) \<and> ring_content (ring_put c r) = ring_content r @ [c]"
  by (rule ring_inv_from_cells)
    (use assms in \<open>simp_all add: ring_put_cells ring_cells_content\<close>,
     use assms in \<open>simp_all add: ring_put_def ring_extend_def ring_store_def ring_inv_def\<close>)

lemma ring_advance_cells:
  assumes "n \<le> rsize r"
  shows "ring_cells (ring_advance n r) = drop n (ring_cells r)"
proof (rule nth_equalityI)
  fix i assume "i < length (ring_cells (ring_advance n r))"
  then have "i < rsize r - n" by (simp add: ring_advance_def)
  then show "ring_cells (ring_advance n r) ! i = drop n (ring_cells r) ! i"
    using assms
    by (simp add: ring_cells_def ring_advance_def ring_cell_def mod_add_left_eq add.assoc)
qed (simp add: ring_advance_def)

lemma ring_advance_correct:
  assumes "ring_inv r" "n \<le> rsize r"
  shows "ring_inv (ring_advance n r) \<and> ring_content (ring_advance n r) = drop n (ring_content r)"
  by (rule ring_inv_from_cells)
    (use assms in \<open>simp_all add: ring_advance_cells ring_cells_content drop_map\<close>,
     use assms in \<open>auto simp: ring_advance_def ring_inv_def\<close>)

text \<open>What \<^verbatim>\<open>send\<close> reads are the first bytes of the content, and what it reads has been written.\<close>

lemma ring_write_size_bounds:
  assumes "ring_inv r"
  shows "ring_write_size r \<le> rsize r" "roffset r + ring_write_size r \<le> rcapacity r"
    "0 < rsize r \<Longrightarrow> 0 < ring_write_size r"
  using assms by (auto simp: ring_write_size_def ring_inv_def)

lemma ring_write_cells:
  assumes "ring_inv r" "n \<le> ring_write_size r"
  shows "take n (drop (roffset r) (rbuffer r)) = map Some (take n (ring_content r))"
proof (rule nth_equalityI)
  have b: "roffset r + n \<le> rcapacity r" "n \<le> rsize r"
    using ring_write_size_bounds [OF assms(1)] assms(2) by simp_all
  then show "length (take n (drop (roffset r) (rbuffer r))) = length (map Some (take n (ring_content r)))"
    using assms(1) by (simp add: ring_inv_def)
  fix i assume "i < length (take n (drop (roffset r) (rbuffer r)))"
  then have i: "i < n" by simp
  have "rbuffer r ! (roffset r + i) = ring_cells r ! i"
    using i b ring_cell_less [OF assms(1), of i] by (simp add: ring_cells_nth)
  then show "take n (drop (roffset r) (rbuffer r)) ! i = map Some (take n (ring_content r)) ! i"
    using i b assms(1) by (simp add: ring_cells_content ring_inv_def)
qed

text \<open>What \<^verbatim>\<open>recv\<close> writes lies in free cells, and follows the content.\<close>

lemma ring_read_size_bounds:
  assumes "ring_inv r" "rsize r < rcapacity r"
  shows "0 < ring_read_size r" "ring_end r 0 + ring_read_size r \<le> rcapacity r"
    "rsize r + ring_read_size r \<le> rcapacity r"
  using assms by (auto simp: ring_read_size_def ring_inv_def ring_end_def mod_less_twice)

definition ring_receive :: "string \<Rightarrow> ring \<Rightarrow> ring" where
  "ring_receive cs r =
     ring_extend (length cs) (r\<lparr>rbuffer := ring_fill (ring_end r 0) cs (rbuffer r)\<rparr>)"

lemma nth_ring_fill:
  assumes "p + length cs \<le> length b" "i < length b"
  shows "ring_fill p cs b ! i = (if p \<le> i \<and> i < p + length cs then Some (cs ! (i - p)) else b ! i)"
  using assms by (auto simp: ring_fill_def nth_append min_def)

lemma length_ring_fill: "p + length cs \<le> length b \<Longrightarrow> length (ring_fill p cs b) = length b"
  by (simp add: ring_fill_def)

lemma ring_receive_cells:
  assumes r: "ring_inv r" and f: "rsize r < rcapacity r" and cs: "length cs \<le> ring_read_size r"
  shows "ring_cells (ring_receive cs r) = ring_cells r @ map Some cs"
proof (rule nth_equalityI)
  note b = ring_read_size_bounds [OF r f]
  have p: "ring_end r 0 + length cs \<le> length (rbuffer r)"
    using b cs r by (simp add: ring_inv_def)
  fix i assume "i < length (ring_cells (ring_receive cs r))"
  then have i: "i < rsize r + length cs" by (simp add: ring_receive_def ring_extend_def)
  let ?j = "(roffset r + i) mod rcapacity r"
  have e: "ring_cell (ring_receive cs r) i = ring_fill (ring_end r 0) cs (rbuffer r) ! ?j"
    by (simp add: ring_cell_def ring_receive_def ring_extend_def)
  have j: "?j < length (rbuffer r)" using r by (simp add: ring_inv_def)
  have "ring_end r 0 \<le> ?j \<and> ?j < ring_end r 0 + length cs \<longleftrightarrow> rsize r \<le> i"
    "rsize r \<le> i \<Longrightarrow> ?j - ring_end r 0 = i - rsize r"
    using i b cs r f by (auto simp: ring_end_def ring_inv_def mod_less_twice ring_read_size_def split: if_splits)
  then have "ring_cell (ring_receive cs r) i = (if rsize r \<le> i then Some (cs ! (i - rsize r)) else ring_cell r i)"
    unfolding e nth_ring_fill [OF p j] by (auto simp: ring_cell_def)
  then show "ring_cells (ring_receive cs r) ! i = (ring_cells r @ map Some cs) ! i"
    using i by (auto simp: ring_cells_nth nth_append ring_receive_def ring_extend_def)
qed (simp add: ring_receive_def ring_extend_def)

lemma ring_receive_correct:
  assumes "ring_inv r" "rsize r < rcapacity r" "length cs \<le> ring_read_size r"
  shows "ring_inv (ring_receive cs r) \<and> ring_content (ring_receive cs r) = ring_content r @ cs"
proof (rule ring_inv_from_cells)
  note b = ring_read_size_bounds [OF assms(1,2)]
  show "ring_cells (ring_receive cs r) = map Some (ring_content r @ cs)"
    using assms by (simp add: ring_receive_cells ring_cells_content)
  show "length (rbuffer (ring_receive cs r)) = rcapacity (ring_receive cs r)"
    using b assms by (simp add: ring_receive_def ring_extend_def length_ring_fill ring_inv_def)
  show "roffset (ring_receive cs r) < rcapacity (ring_receive cs r)"
    "rsize (ring_receive cs r) \<le> rcapacity (ring_receive cs r)"
    using b assms by (simp_all add: ring_receive_def ring_extend_def ring_inv_def)
qed

section \<open>The contract of a byte queue\<close>

locale byte_queue =
  fixes inv :: "'q \<Rightarrow> bool" and content :: "'q \<Rightarrow> string" and room :: "'q \<Rightarrow> nat"
    and put :: "char \<Rightarrow> 'q \<Rightarrow> 'q" and advance :: "nat \<Rightarrow> 'q \<Rightarrow> 'q" and grow :: "nat \<Rightarrow> 'q \<Rightarrow> 'q"
  assumes put: "inv q \<Longrightarrow> 0 < room q \<Longrightarrow>
      inv (put c q) \<and> content (put c q) = content q @ [c] \<and> Suc (room (put c q)) = room q"
    and advance: "inv q \<Longrightarrow> n \<le> length (content q) \<Longrightarrow>
      inv (advance n q) \<and> content (advance n q) = drop n (content q) \<and> room (advance n q) = room q + n"
    and grow: "inv q \<Longrightarrow>
      inv (grow n q) \<and> content (grow n q) = content q \<and> room (grow n q) = room q + n"
begin

lemma put_all:
  "inv q \<Longrightarrow> length cs \<le> room q \<Longrightarrow>
   inv (fold put cs q) \<and> content (fold put cs q) = content q @ cs"
proof (induction cs arbitrary: q)
  case (Cons c cs)
  then have "inv (put c q) \<and> content (put c q) = content q @ [c] \<and> Suc (room (put c q)) = room q"
    by (intro put) simp_all
  with Cons show ?case by simp
qed simp

text \<open>Room is made before it is used, by growing whenever \<open>need\<close> asks for it.\<close>

lemma put_after_grow:
  assumes "inv q" "length cs \<le> room q + n"
  shows "inv (fold put cs (grow n q)) \<and> content (fold put cs (grow n q)) = content q @ cs"
  using assms grow [of q n] put_all [of "grow n q" cs] by simp

lemma put_advance_fifo:
  "inv q \<Longrightarrow> length cs \<le> room q \<Longrightarrow> n \<le> length (content q) \<Longrightarrow>
   content (advance n (fold put cs q)) = drop n (content q) @ cs"
  using put_all [of q cs] advance [of "fold put cs q" n] by simp

end

definition ring_room :: "ring \<Rightarrow> nat" where
  "ring_room r = rcapacity r - rsize r"

interpretation rq: byte_queue ring_inv ring_content ring_room ring_put ring_advance ring_grow
proof (unfold_locales, goal_cases)
  case (1 r c)
  then have "rsize r < rcapacity r" by (simp add: ring_room_def)
  with 1 ring_put_correct [of r c] show ?case
    by (auto simp: ring_room_def ring_put_def ring_extend_def ring_store_def)
next
  case (2 r n)
  with ring_advance_correct [of r n] show ?case
    by (auto simp: ring_room_def ring_advance_def ring_inv_def)
next
  case (3 r n)
  with ring_grow_correct [of r n] show ?case
    by (auto simp: ring_room_def ring_grow_def ring_inv_def)
qed

end
