(* ===== verification/Bridge_Messenger.thy ===== *)
theory Bridge_Messenger
  imports Bridge_Message Bridge_Ring
begin

text \<open>
  \<^verbatim>\<open>extras/immodules/common/scim-bridge-messenger.c\<close>: a messenger turns messages into bytes of a
  non-blocking socket and back. The kernel is a script of its answers, one event per \<^verbatim>\<open>select\<close> and
  the transfer that follows it; a \<^verbatim>\<open>select\<close> without a timeout on an exhausted script blocks, one
  with a timeout reports nothing and the transfer answers \<^verbatim>\<open>EAGAIN\<close>. The results that the code
  stores through a pointer are components of the result, so the checks that such a pointer is not
  \<^verbatim>\<open>NULL\<close> have no counterpart. Tracing is not modelled.
\<close>

abbreviation LF :: char where "LF \<equiv> CHR 0x0A"
abbreviation SPACE :: char where "SPACE \<equiv> CHR 0x20"
abbreviation BACKSLASH :: char where "BACKSLASH \<equiv> CHR 0x5C"

record messenger =
  socket_fd :: int
  sending :: ring
  receiving :: ring
  has_received_message :: bool

text \<open>\<^verbatim>\<open>Tx_accept n\<close>: the socket takes at most \<open>n\<close> bytes. \<^verbatim>\<open>Rx_bytes bs\<close>: the bytes \<open>bs\<close> are
  ready; those that do not fit the buffer stay ready. \<open>sent\<close> is what the peer is given.\<close>

datatype tx_event = Tx_select_interrupted | Tx_select_error | Tx_accept nat | Tx_again | Tx_error

datatype rx_event =
  Rx_select_interrupted | Rx_select_error | Rx_bytes string | Rx_closed | Rx_again | Rx_error

record net =
  rx :: "rx_event list"
  tx :: "tx_event list"
  sent :: string

section \<open>Operations\<close>

text \<open>\<open>flags\<close> and \<open>setfl\<close> are the answers of the two calls of \<^verbatim>\<open>fcntl\<close>.\<close>

definition scim_bridge_alloc_messenger :: "int \<Rightarrow> int \<Rightarrow> int \<Rightarrow> messenger option" where
  "scim_bridge_alloc_messenger fd flags setfl =
     (if fd < 0 then None
      else if flags < 0 then None
      else if setfl \<noteq> 0 then None
      else Some \<lparr>socket_fd = fd, sending = ring_alloc 20, receiving = ring_alloc 20,
             has_received_message = False\<rparr>)"

definition scim_bridge_close_messenger :: "messenger option \<Rightarrow> retval \<times> messenger option" where
  "scim_bridge_close_messenger messenger =
     (case messenger of None \<Rightarrow> (RETVAL_FAILED, None)
      | Some m \<Rightarrow> if socket_fd m < 0 then (RETVAL_SUCCEEDED, Some m)
                  else (RETVAL_SUCCEEDED, Some (m\<lparr>socket_fd := -1\<rparr>)))"

definition scim_bridge_messenger_is_closed :: "messenger option \<Rightarrow> bool" where
  "scim_bridge_messenger_is_closed messenger =
     (case messenger of None \<Rightarrow> False | Some m \<Rightarrow> socket_fd m < 0)"

definition scim_bridge_messenger_get_socket_fd :: "messenger option \<Rightarrow> int" where
  "scim_bridge_messenger_get_socket_fd messenger =
     (case messenger of None \<Rightarrow> -1 | Some m \<Rightarrow> socket_fd m)"

definition scim_bridge_messenger_get_sending_buffer_size :: "messenger option \<Rightarrow> int" where
  "scim_bridge_messenger_get_sending_buffer_size messenger =
     (case messenger of None \<Rightarrow> -1 | Some m \<Rightarrow> int (rsize (sending m)))"

definition scim_bridge_messenger_get_receiving_buffer_size :: "messenger option \<Rightarrow> int" where
  "scim_bridge_messenger_get_receiving_buffer_size messenger =
     (case messenger of None \<Rightarrow> -1 | Some m \<Rightarrow> int (rsize (receiving m)))"

subsection \<open>Pushing a message\<close>

definition push_reserve :: "ring \<Rightarrow> ring" where
  "push_reserve r = (if rsize r + 2 \<ge> rcapacity r then ring_grow 20 r else r)"

definition push_char :: "char \<Rightarrow> ring \<Rightarrow> ring" where
  "push_char c r =
     (if c = LF then ring_extend 2 (ring_store 1 CHR ''n'' (ring_store 0 BACKSLASH r))
      else if c = SPACE then ring_extend 2 (ring_store 1 CHR ''s'' (ring_store 0 BACKSLASH r))
      else if c = BACKSLASH then ring_extend 2 (ring_store 1 BACKSLASH (ring_store 0 BACKSLASH r))
      else ring_extend 1 (ring_store 0 c r))"

fun push_string :: "string \<Rightarrow> char \<Rightarrow> ring \<Rightarrow> ring" where
  "push_string [] terminator r = ring_extend 1 (ring_store 0 terminator (push_reserve r))"
| "push_string (c # str) terminator r = push_string str terminator (push_char c (push_reserve r))"

fun push_strings :: "string list \<Rightarrow> ring \<Rightarrow> ring" where
  "push_strings [] r = r"
| "push_strings (str # strs) r =
     push_strings strs (push_string str (if strs = [] then LF else SPACE) r)"

definition message_strings :: "message \<Rightarrow> string list" where
  "message_strings m =
     scim_bridge_message_get_header m #
     map (\<lambda>i. the (scim_bridge_message_get_argument (Some m) i))
       [0..<scim_bridge_message_get_argument_count m]"

definition scim_bridge_messenger_push_message ::
  "messenger option \<Rightarrow> message option \<Rightarrow> retval \<times> messenger option" where
  "scim_bridge_messenger_push_message messenger message =
     (case messenger of None \<Rightarrow> (RETVAL_FAILED, None)
      | Some m \<Rightarrow>
          (case message of None \<Rightarrow> (RETVAL_FAILED, Some m)
           | Some msg \<Rightarrow>
               (RETVAL_SUCCEEDED,
                Some (m\<lparr>sending := push_strings (message_strings msg) (sending m)\<rparr>))))"

subsection \<open>Polling a message\<close>

text \<open>The C string at the start of written memory; without a NUL the reader runs into memory that
  was never written.\<close>

fun read_cstring :: "char list \<Rightarrow> string run" where
  "read_cstring [] = Undefined"
| "read_cstring (c # cs) =
     (if c = NUL then Done [] else run_bind (read_cstring cs) (\<lambda>s. Done (c # s)))"

fun run_map :: "('a \<Rightarrow> 'b run) \<Rightarrow> 'a list \<Rightarrow> 'b list run" where
  "run_map f [] = Done []"
| "run_map f (x # xs) = run_bind (f x) (\<lambda>y. run_bind (run_map f xs) (\<lambda>ys. Done (y # ys)))"

text \<open>
  The loop: \<open>n\<close> is \<^verbatim>\<open>buffer_size\<close> (\<^verbatim>\<open>tmp_buffer\<close> has \<open>n + 1\<close> cells), \<open>cells\<close> the cells from \<open>i\<close>
  on, \<open>tmp\<close> what \<^verbatim>\<open>tmp_buffer\<close> holds, \<open>args\<close> the offsets into it that \<^verbatim>\<open>args\<close> holds, so that
  \<^verbatim>\<open>arg_count + 2\<close> is its length, and \<open>cap\<close> is \<^verbatim>\<open>arg_capacity\<close>. At the newline the header is
  \<^verbatim>\<open>args[0]\<close> and the arguments are \<^verbatim>\<open>args[1]\<close> to \<^verbatim>\<open>args[arg_count]\<close>; the result is the message and
  \<open>i + 1\<close>. \<open>None\<close> is an incomplete message.
\<close>

fun poll_loop ::
  "nat \<Rightarrow> nat \<Rightarrow> char option list \<Rightarrow> bool \<Rightarrow> char list \<Rightarrow> nat \<Rightarrow> nat list \<Rightarrow> (message \<times> nat) option run"
where
  "poll_loop n i [] escaped tmp cap args = Done None"
| "poll_loop n i (None # cells) escaped tmp cap args = Undefined"
| "poll_loop n i (Some c # cells) escaped tmp cap args =
     (let cap' = (if length args \<ge> cap then cap + 10 else cap) in
      if c = BACKSLASH \<and> \<not> escaped then poll_loop n (i + 1) cells True tmp cap' args
      else if length tmp \<ge> n + 1 then Undefined
      else if c = SPACE \<or> c = LF then
        (let tmp' = tmp @ [NUL] in
         if length args \<ge> cap' then Undefined
         else if c = LF then
           run_bind (run_map (\<lambda>p. read_cstring (drop p tmp')) args)
             (\<lambda>strs. Done (Some (make_message (hd strs) (tl strs), i + 1)))
         else poll_loop n (i + 1) cells False tmp' cap' (args @ [i + 1]))
      else
        (let c' = (if escaped then (if c = CHR ''n'' then LF else if c = CHR ''s'' then SPACE else c)
                   else c)
         in poll_loop n (i + 1) cells False (tmp @ [c']) cap' args))"

definition scim_bridge_messenger_poll_message ::
  "messenger option \<Rightarrow> (retval \<times> message option \<times> messenger option) run" where
  "scim_bridge_messenger_poll_message messenger =
     (case messenger of None \<Rightarrow> Done (RETVAL_FAILED, None, None)
      | Some m \<Rightarrow>
          if \<not> has_received_message m then Done (RETVAL_FAILED, None, Some m)
          else
            run_bind (poll_loop (rsize (receiving m)) 0 (ring_cells (receiving m)) False [] 10 [0])
              (\<lambda>r. case r of
                 None \<Rightarrow> Done (RETVAL_FAILED, None, Some (m\<lparr>has_received_message := False\<rparr>))
               | Some (msg, n) \<Rightarrow>
                   Done (RETVAL_SUCCEEDED, Some msg,
                         Some (m\<lparr>receiving := ring_advance n (receiving m)\<rparr>))))"

subsection \<open>Sending and receiving\<close>

definition scim_bridge_messenger_send_message ::
  "messenger option \<Rightarrow> bool \<Rightarrow> net \<Rightarrow> (retval \<times> messenger option \<times> net) run" where
  "scim_bridge_messenger_send_message messenger timeout net =
     (case messenger of None \<Rightarrow> Done (RETVAL_FAILED, None, net)
      | Some m \<Rightarrow>
          let r = sending m; write_size = ring_write_size r in
          if rsize r = 0 then Done (RETVAL_SUCCEEDED, Some m, net)
          else if socket_fd m < 0 then Done (RETVAL_FAILED, Some m, net)
          else
            (case tx net of
               [] \<Rightarrow> if timeout then Done (RETVAL_SUCCEEDED, Some m, net) else Blocks
             | event # events \<Rightarrow>
                 let net' = net\<lparr>tx := events\<rparr> in
                 (case event of
                    Tx_select_interrupted \<Rightarrow> Done (RETVAL_SUCCEEDED, Some m, net')
                  | Tx_select_error \<Rightarrow> Done (RETVAL_FAILED, Some m, net')
                  | Tx_again \<Rightarrow> Done (RETVAL_SUCCEEDED, Some m, net')
                  | Tx_error \<Rightarrow> Done (RETVAL_FAILED, Some m, net')
                  | Tx_accept k \<Rightarrow>
                      let written = min k write_size;
                          bytes = take written (drop (roffset r) (rbuffer r)) in
                      if None \<in> set bytes then Undefined
                      else Done (RETVAL_SUCCEEDED, Some (m\<lparr>sending := ring_advance written r\<rparr>),
                                 net'\<lparr>sent := sent net @ map the bytes\<rparr>))))"

text \<open>The buffer is enlarged before anything else, also when the socket turns out to be closed.\<close>

definition receive_reserve :: "ring \<Rightarrow> ring" where
  "receive_reserve r = (if rsize r + 20 \<ge> rcapacity r then ring_grow 40 r else r)"

text \<open>The bytes just received are searched for a newline, in their cells.\<close>

definition received_newline :: "ring \<Rightarrow> ring \<Rightarrow> nat \<Rightarrow> bool" where
  "received_newline r r' n = list_ex (\<lambda>i. rbuffer r' ! ring_end r i = Some LF) [0..<n]"

definition scim_bridge_messenger_receive_message ::
  "messenger option \<Rightarrow> bool \<Rightarrow> net \<Rightarrow> (retval \<times> messenger option \<times> net) run" where
  "scim_bridge_messenger_receive_message messenger timeout net =
     (case messenger of None \<Rightarrow> Undefined
      | Some m0 \<Rightarrow>
          let r = receive_reserve (receiving m0); m = m0\<lparr>receiving := r\<rparr>;
              read_size = ring_read_size r in
          if socket_fd m < 0 then Done (RETVAL_FAILED, Some m, net)
          else
            (case rx net of
               [] \<Rightarrow> if \<not> timeout then Blocks
                      else if read_size = 0 then Undefined
                      else Done (RETVAL_SUCCEEDED, Some m, net)
             | event # events \<Rightarrow>
                 let net' = net\<lparr>rx := events\<rparr> in
                 (case event of
                    Rx_select_interrupted \<Rightarrow> Done (RETVAL_SUCCEEDED, Some m, net')
                  | Rx_select_error \<Rightarrow> Done (RETVAL_FAILED, Some m, net')
                  | Rx_closed \<Rightarrow>
                      if read_size = 0 then Undefined else Done (RETVAL_FAILED, Some m, net')
                  | Rx_again \<Rightarrow>
                      if read_size = 0 then Undefined else Done (RETVAL_SUCCEEDED, Some m, net')
                  | Rx_error \<Rightarrow>
                      if read_size = 0 then Undefined else Done (RETVAL_FAILED, Some m, net')
                  | Rx_bytes bytes \<Rightarrow>
                      if read_size = 0 then Undefined
                      else if bytes = [] then Done (RETVAL_FAILED, Some m, net')
                      else
                        let got = take read_size bytes; rest = drop read_size bytes;
                            net'' = (if rest = [] then net' else net'\<lparr>rx := Rx_bytes rest # events\<rparr>);
                            r' = ring_receive got r in
                        Done (RETVAL_SUCCEEDED,
                              Some (m\<lparr>receiving := r',
                                has_received_message :=
                                  (has_received_message m \<or> received_newline r r' (length got))\<rparr>),
                              net''))))"

end
