(* ===== verification/Bridge_Wire.thy ===== *)
theory Bridge_Wire
  imports Bridge_Messenger
begin

text \<open>
  The wire format: pushing a message appends its encoding to the sending buffer, and polling takes
  the encoding of a message off the receiving buffer. The poller computes the start of an argument
  from the position in the escaped bytes, not from the position in the unescaped ones: it is right
  only as long as nothing before the last string of the message is escaped (\<open>poll_correct\<close>,
  \<open>poll_after_escape\<close>).
\<close>

section \<open>The encoding\<close>

definition escape_char :: "char \<Rightarrow> string" where
  "escape_char c =
     (if c = LF then [BACKSLASH, CHR ''n''] else if c = SPACE then [BACKSLASH, CHR ''s'']
      else if c = BACKSLASH then [BACKSLASH, BACKSLASH] else [c])"

definition escape :: "string \<Rightarrow> string" where
  "escape s = concat (map escape_char s)"

fun encode_strings :: "string list \<Rightarrow> string" where
  "encode_strings [] = []"
| "encode_strings (s # ss) = escape s @ (if ss = [] then LF else SPACE) # encode_strings ss"

definition encode_message :: "message \<Rightarrow> string" where
  "encode_message m = encode_strings (message_strings m)"

lemma escape_simps [simp]:
  "escape [] = []" "escape (c # s) = escape_char c @ escape s"
  "escape (s @ t) = escape s @ escape t"
  by (simp_all add: escape_def)

lemma message_strings_packed [simp]: "message_strings (packed h args) = h # args"
  by (auto simp: message_strings_def scim_bridge_message_get_header_def
      scim_bridge_message_get_argument_count_def intro: nth_equalityI)

lemma message_strings_wf: "wf_message m \<Longrightarrow> message_strings m = header m # arguments m"
  by (auto simp: message_strings_def scim_bridge_message_get_header_def wf_message_def
      scim_bridge_message_get_argument_count_def scim_bridge_message_get_argument_def
      intro: nth_equalityI)

section \<open>Pushing\<close>

lemma push_reserve_room:
  assumes "ring_inv r"
  shows "ring_inv (push_reserve r) \<and> ring_content (push_reserve r) = ring_content r \<and>
    2 < ring_room (push_reserve r)"
  using assms rq.grow [OF assms, of 20]
  by (auto simp: push_reserve_def ring_room_def ring_inv_def)

lemma push_char_fold: "push_char c r = fold ring_put (escape_char c) r"
  unfolding push_char_def ring_store_two by (simp add: escape_char_def) (simp add: ring_put_def)

lemma push_reserved:
  assumes "ring_inv r" "length cs \<le> 2"
  shows "ring_inv (fold ring_put cs (push_reserve r)) \<and>
    ring_content (fold ring_put cs (push_reserve r)) = ring_content r @ cs"
  using push_reserve_room [OF assms(1)] rq.put_all [of "push_reserve r" cs] assms(2) by simp

lemma length_escape_char: "length (escape_char c) \<le> 2"
  by (simp add: escape_char_def)

lemma push_string_content:
  "ring_inv r \<Longrightarrow> ring_inv (push_string s t r) \<and>
   ring_content (push_string s t r) = ring_content r @ escape s @ [t]"
proof (induction s t r rule: push_string.induct)
  case (1 t r)
  then show ?case using push_reserved [of r "[t]"] by (simp add: ring_put_def)
next
  case (2 c s t r)
  from push_reserved [OF "2.prems" length_escape_char, of c] "2.IH" show ?case
    by (simp add: push_char_fold)
qed

lemma push_strings_content:
  "ring_inv r \<Longrightarrow> ring_inv (push_strings ss r) \<and>
   ring_content (push_strings ss r) = ring_content r @ encode_strings ss"
proof (induction ss arbitrary: r)
  case (Cons s ss)
  from push_string_content [OF Cons.prems, of s "if ss = [] then LF else SPACE"] Cons.IH show ?case
    by simp
qed simp

section \<open>What the poller computes\<close>

text \<open>The scan without the capacities: it does not depend on them.\<close>

fun poll_scan ::
  "nat \<Rightarrow> string \<Rightarrow> bool \<Rightarrow> char list \<Rightarrow> nat list \<Rightarrow> (message \<times> nat) option run" where
  "poll_scan i [] escaped tmp args = Done None"
| "poll_scan i (c # cs) escaped tmp args =
     (if c = BACKSLASH \<and> \<not> escaped then poll_scan (i + 1) cs True tmp args
      else if c = LF then
        run_bind (run_map (\<lambda>p. read_cstring (drop p (tmp @ [NUL]))) args)
          (\<lambda>strs. Done (Some (packed (hd strs) (tl strs), i + 1)))
      else if c = SPACE then poll_scan (i + 1) cs False (tmp @ [NUL]) (args @ [i + 1])
      else poll_scan (i + 1) cs False
        (tmp @ [if escaped then (if c = CHR ''n'' then LF else if c = CHR ''s'' then SPACE else c) else c])
        args)"

lemma poll_loop_scan:
  "length tmp \<le> i \<Longrightarrow> i + length cs \<le> n \<Longrightarrow> length args \<le> cap \<Longrightarrow>
   poll_loop n i (map Some cs) escaped tmp cap args = poll_scan i cs escaped tmp args"
proof (induction cs arbitrary: i escaped tmp cap args)
  case (Cons c cs)
  let ?cap = "if cap \<le> length args then cap + 10 else cap"
  have cap: "length args < ?cap" "length args \<le> ?cap" using Cons.prems by auto
  have tmp: "\<not> n + 1 \<le> length tmp" using Cons.prems by simp
  show ?case
  proof (cases "c = BACKSLASH \<and> \<not> escaped")
    case True
    then show ?thesis using Cons.IH [of tmp "i + 1" args ?cap True] Cons.prems cap by (simp add: Let_def)
  next
    case False
    with Cons.IH [of "tmp @ [NUL]" "i + 1" "args @ [i + 1]" ?cap False]
      Cons.IH [of "tmp @ [x]" "i + 1" args ?cap False for x] Cons.prems cap tmp
    show ?thesis by (auto simp: Let_def)
  qed
qed simp

text \<open>Where the poller takes the strings to start: behind the escaped bytes of those before.\<close>

fun poll_offsets :: "nat \<Rightarrow> string list \<Rightarrow> nat list" where
  "poll_offsets i [] = []"
| "poll_offsets i (s # ss) = i # poll_offsets (i + length (escape s) + 1) ss"

lemma poll_scan_escape:
  "poll_scan i (escape s @ cs) False tmp args =
   poll_scan (i + length (escape s)) cs False (tmp @ s) args"
proof (induction s arbitrary: i tmp)
  case (Cons c s)
  have "poll_scan i (escape_char c @ escape s @ cs) False tmp args =
      poll_scan (i + length (escape_char c)) (escape s @ cs) False (tmp @ [c]) args"
    by (auto simp: escape_char_def)
  with Cons show ?case by (simp add: add.assoc)
qed simp

lemma poll_scan_encoded:
  "ss \<noteq> [] \<Longrightarrow>
   poll_scan i (encode_strings ss @ rest) False tmp (args @ [i]) =
     run_bind (run_map (\<lambda>p. read_cstring (drop p (tmp @ concat (map (\<lambda>s. s @ [NUL]) ss))))
                 (args @ poll_offsets i ss))
       (\<lambda>strs. Done (Some (packed (hd strs) (tl strs), i + length (encode_strings ss))))"
proof (induction ss arbitrary: i tmp args)
  case (Cons s ss)
  show ?case
  proof (cases "ss = []")
    case True
    then show ?thesis by (simp add: poll_scan_escape)
  next
    case False
    let ?i = "i + length (escape s) + 1"
    have "poll_scan i (encode_strings (s # ss) @ rest) False tmp (args @ [i]) =
        poll_scan ?i (encode_strings ss @ rest) False (tmp @ s @ [NUL]) ((args @ [i]) @ [?i])"
      using False by (simp add: poll_scan_escape)
    also have "\<dots> = run_bind (run_map (\<lambda>p. read_cstring (drop p ((tmp @ s @ [NUL]) @
          concat (map (\<lambda>s. s @ [NUL]) ss)))) ((args @ [i]) @ poll_offsets ?i ss))
        (\<lambda>strs. Done (Some (packed (hd strs) (tl strs), ?i + length (encode_strings ss))))"
      by (rule Cons.IH [OF False])
    finally show ?thesis by (simp add: False add.assoc)
  qed
qed simp

lemma read_cstring_append: "is_cstring s \<Longrightarrow> read_cstring (s @ NUL # rest) = Done s"
  by (induction s) auto

lemma read_cstring_no_NUL: "is_cstring s \<Longrightarrow> read_cstring s = Undefined"
  by (induction s) auto

definition unescaped :: "string \<Rightarrow> bool" where
  "unescaped s \<longleftrightarrow> LF \<notin> set s \<and> SPACE \<notin> set s \<and> BACKSLASH \<notin> set s"

lemma escape_unescaped: "unescaped s \<Longrightarrow> escape s = s"
  by (induction s) (auto simp: unescaped_def escape_char_def)

text \<open>Strings of which only the last may need escapes are found where they are.\<close>

lemma run_map_offsets:
  "\<forall>s \<in> set ss. is_cstring s \<Longrightarrow> \<forall>s \<in> set (butlast ss). unescaped s \<Longrightarrow> length tmp = i \<Longrightarrow>
   run_map (\<lambda>p. read_cstring (drop p (tmp @ concat (map (\<lambda>s. s @ [NUL]) ss)))) (poll_offsets i ss) =
   Done ss"
proof (induction ss arbitrary: i tmp)
  case (Cons s ss)
  show ?case
  proof (cases "ss = []")
    case True
    then show ?thesis using Cons.prems by (simp add: read_cstring_append)
  next
    case False
    then have s: "unescaped s" "\<forall>s \<in> set (butlast ss). unescaped s" using Cons.prems(2) by auto
    have "run_map (\<lambda>p. read_cstring (drop p ((tmp @ s @ [NUL]) @ concat (map (\<lambda>s. s @ [NUL]) ss))))
        (poll_offsets (i + length (escape s) + 1) ss) = Done ss"
      by (rule Cons.IH) (use Cons.prems s in \<open>simp_all add: escape_unescaped\<close>)
    then show ?thesis
      using Cons.prems by (simp add: read_cstring_append)
  qed
qed simp

section \<open>The messenger's invariant\<close>

text \<open>Both rings are well formed, and no newline is waiting unless the flag says so: a message
  that has arrived is never overlooked.\<close>

definition messenger_inv :: "messenger \<Rightarrow> bool" where
  "messenger_inv m \<longleftrightarrow> ring_inv (sending m) \<and> ring_inv (receiving m) \<and>
     (\<not> has_received_message m \<longrightarrow> LF \<notin> set (ring_content (receiving m)))"

lemma poll_scan_None: "poll_scan i cs escaped tmp args = Done None \<Longrightarrow> LF \<notin> set cs"
  by (induction i cs escaped tmp args rule: poll_scan.induct) (auto split: if_splits)

lemma poll_scan_length:
  "poll_scan i cs escaped tmp args = Done (Some (msg, n)) \<Longrightarrow> n \<le> i + length cs"
  by (induction i cs escaped tmp args rule: poll_scan.induct) (auto split: if_splits)

lemma poll_loop_messenger:
  "messenger_inv m \<Longrightarrow>
   poll_loop (rsize (receiving m)) 0 (ring_cells (receiving m)) False [] 10 [0] =
   poll_scan 0 (ring_content (receiving m)) False [] [0]"
  by (simp add: messenger_inv_def ring_cells_content poll_loop_scan)

lemma poll_message_inv:
  assumes "messenger_inv m" "scim_bridge_messenger_poll_message (Some m) = Done (rv, msg, m')"
  shows "\<exists>m1. m' = Some m1 \<and> messenger_inv m1"
proof (cases "has_received_message m")
  case True
  from assms True obtain r where
    r: "poll_scan 0 (ring_content (receiving m)) False [] [0] = Done r"
    and m': "(case r of None \<Rightarrow> (RETVAL_FAILED, None, Some (m\<lparr>has_received_message := False\<rparr>))
       | Some (msg, n) \<Rightarrow> (RETVAL_SUCCEEDED, Some msg,
                         Some (m\<lparr>receiving := ring_advance n (receiving m)\<rparr>))) = (rv, msg, m')"
    by (cases "poll_scan 0 (ring_content (receiving m)) False [] [0]")
      (auto simp: scim_bridge_messenger_poll_message_def poll_loop_messenger split: option.splits)
  show ?thesis
  proof (cases r)
    case None
    with r m' assms(1) poll_scan_None [of 0 "ring_content (receiving m)" False "[]" "[0]"]
    show ?thesis by (auto simp: messenger_inv_def)
  next
    case (Some x)
    then obtain msg1 n where x: "r = Some (msg1, n)" by (cases x) auto
    with r poll_scan_length [of 0 "ring_content (receiving m)" False "[]" "[0]"]
    have "n \<le> rsize (receiving m)" by auto
    with x m' assms(1) ring_advance_correct [of "receiving m" n] True
    show ?thesis by (auto simp: messenger_inv_def)
  qed
qed (use assms in \<open>auto simp: scim_bridge_messenger_poll_message_def\<close>)

text \<open>pushing a message on a messenger appends the encoding of the message to the bytes to be
  sent, whatever the state of the ring buffer, and keeps the messenger's invariant.\<close>

theorem push_message_correct:
  assumes "messenger_inv m"
  shows "\<exists>m'. scim_bridge_messenger_push_message (Some m) (Some msg) = (RETVAL_SUCCEEDED, Some m') \<and>
    messenger_inv m' \<and> ring_content (sending m') = ring_content (sending m) @ encode_message msg \<and>
    receiving m' = receiving m \<and> socket_fd m' = socket_fd m"
  using assms push_strings_content [of "sending m" "message_strings msg"]
  by (simp add: scim_bridge_messenger_push_message_def encode_message_def messenger_inv_def)

definition fresh_messenger :: messenger where
  "fresh_messenger = \<lparr>socket_fd = 3, sending = ring_alloc 20, receiving = ring_alloc 20,
     has_received_message = False\<rparr>"

lemma alloc_messenger_inv:
  "scim_bridge_alloc_messenger fd flags setfl = Some m \<Longrightarrow>
   messenger_inv m \<and> ring_content (sending m) = [] \<and> ring_content (receiving m) = [] \<and>
   socket_fd m = fd \<and> 0 \<le> fd"
  using ring_alloc_inv [of 20]
  by (auto simp: scim_bridge_alloc_messenger_def messenger_inv_def split: if_splits)

lemma fresh_messenger_inv: "messenger_inv fresh_messenger"
  using alloc_messenger_inv [of 3 0 0 fresh_messenger]
  by (simp add: scim_bridge_alloc_messenger_def fresh_messenger_def)

text \<open>A messenger whose receiving buffer holds the given bytes.\<close>

definition arrived :: "string \<Rightarrow> messenger" where
  "arrived bytes = fresh_messenger\<lparr>receiving := fold ring_put bytes (ring_grow (length bytes) (ring_alloc 20)),
     has_received_message := True\<rparr>"

lemma arrived_correct:
  "messenger_inv (arrived bytes) \<and> ring_content (receiving (arrived bytes)) = bytes \<and>
   has_received_message (arrived bytes)"
  using rq.put_after_grow [of "ring_alloc 20" bytes "length bytes"] ring_alloc_inv [of 20]
    fresh_messenger_inv
  by (simp add: arrived_def messenger_inv_def)

lemma poll_message_encoded:
  assumes "messenger_inv m" "has_received_message m"
    and "ring_content (receiving m) = encode_strings (h # args) @ rest"
  shows "scim_bridge_messenger_poll_message (Some m) =
    run_bind (run_map (\<lambda>p. read_cstring (drop p (concat (map (\<lambda>s. s @ [NUL]) (h # args)))))
        (poll_offsets 0 (h # args)))
      (\<lambda>strs. Done (RETVAL_SUCCEEDED, Some (packed (hd strs) (tl strs)),
         Some (m\<lparr>receiving := ring_advance (length (encode_strings (h # args))) (receiving m)\<rparr>)))"
proof -
  have "poll_scan 0 (encode_strings (h # args) @ rest) False [] [0] =
      run_bind (run_map (\<lambda>p. read_cstring (drop p (concat (map (\<lambda>s. s @ [NUL]) (h # args)))))
          (poll_offsets 0 (h # args)))
        (\<lambda>strs. Done (Some (packed (hd strs) (tl strs), length (encode_strings (h # args)))))"
    using poll_scan_encoded [of "h # args" 0 rest "[]" "[]"] by simp
  then show ?thesis
    using assms
    by (simp add: scim_bridge_messenger_poll_message_def poll_loop_messenger run_bind_assoc)
qed

lemma poll_rest:
  assumes "messenger_inv m" "has_received_message m" "ring_content (receiving m) = bs @ rest"
  shows "messenger_inv (m\<lparr>receiving := ring_advance (length bs) (receiving m)\<rparr>) \<and>
    ring_content (ring_advance (length bs) (receiving m)) = rest"
  using assms ring_advance_correct [of "receiving m" "length bs"]
  by (auto simp: messenger_inv_def simp flip: length_ring_content)

text \<open>C8: polling a messenger whose received bytes start with the encoding of a message returns that
  message, header and arguments, and leaves exactly the bytes behind it, provided that no string
  of the message but its last contains a space, a newline or a backslash. (What becomes of a message with
  such a string before the last one is \<open>poll_after_escape\<close>.)\<close>

theorem poll_correct:
  assumes "messenger_inv m" "has_received_message m" "wf_message msg"
    and "ring_content (receiving m) = encode_message msg @ rest"
    and "\<forall>s \<in> set (butlast (header msg # arguments msg)). unescaped s"
  shows "\<exists>msg' m'. scim_bridge_messenger_poll_message (Some m) = Done (RETVAL_SUCCEEDED, Some msg', Some m') \<and>
    header msg' = header msg \<and> arguments msg' = arguments msg \<and> wf_message msg' \<and>
    messenger_inv m' \<and> ring_content (receiving m') = rest"
proof -
  let ?ss = "header msg # arguments msg"
  have content: "ring_content (receiving m) = encode_strings ?ss @ rest"
    using assms(3,4) by (simp add: encode_message_def message_strings_wf)
  have "run_map (\<lambda>p. read_cstring (drop p (concat (map (\<lambda>s. s @ [NUL]) ?ss)))) (poll_offsets 0 ?ss) = Done ?ss"
    using run_map_offsets [of ?ss "[]" 0] assms(3,5) by (simp add: wf_message_def)
  then have "scim_bridge_messenger_poll_message (Some m) =
      Done (RETVAL_SUCCEEDED, Some (packed (header msg) (arguments msg)),
        Some (m\<lparr>receiving := ring_advance (length (encode_strings ?ss)) (receiving m)\<rparr>))"
    by (simp only: poll_message_encoded [OF assms(1,2) content] run_bind.simps list.sel)
  moreover have "wf_message (packed (header msg) (arguments msg))"
    using assms(3) by (intro wf_packed) (simp_all add: wf_message_def)
  ultimately show ?thesis using poll_rest [OF assms(1,2) content] by simp
qed

theorem poll_correct_witness:
  "\<exists>msg' m'. scim_bridge_messenger_poll_message (Some (arrived (encode_message (packed ''imcontext_registered'' [''7'']) @ ''x''))) =
      Done (RETVAL_SUCCEEDED, Some msg', Some m') \<and>
    header msg' = header (packed ''imcontext_registered'' [''7'']) \<and>
    arguments msg' = arguments (packed ''imcontext_registered'' [''7'']) \<and> wf_message msg' \<and>
    messenger_inv m' \<and> ring_content (receiving m') = ''x''"
  by (rule poll_correct) (simp_all add: arrived_correct wf_packed unescaped_def)

definition escapes :: "string \<Rightarrow> nat" where
  "escapes s = length (filter (\<lambda>c. c = LF \<or> c = SPACE \<or> c = BACKSLASH) s)"

lemma length_escape: "length (escape s) = length s + escapes s"
  by (induction s) (auto simp: escapes_def escape_char_def)

text \<open>in a message of two arguments whose first has \<open>escapes a\<close> characters that are escaped on the
  wire, the second argument is polled without its first \<open>escapes a\<close> characters; if it is shorter
  than that, the poller reads memory it never wrote. (The start of an argument is computed as
  \<^verbatim>\<open>tmp_buffer + i + 1\<close> from the position in the escaped bytes.)\<close>

theorem poll_after_escape:
  assumes "messenger_inv m" "has_received_message m"
    and "is_cstring h" "is_cstring a" "is_cstring b" "unescaped h"
    and "ring_content (receiving m) = encode_message (packed h [a, b]) @ rest"
  shows "if escapes a \<le> length b
    then \<exists>m'. scim_bridge_messenger_poll_message (Some m) =
      Done (RETVAL_SUCCEEDED, Some (packed h [a, drop (escapes a) b]), Some m')
    else scim_bridge_messenger_poll_message (Some m) = Undefined"
proof -
  have content: "ring_content (receiving m) = encode_strings (h # [a, b]) @ rest"
    using assms(7) by (simp add: encode_message_def)
  let ?tmp = "h @ NUL # a @ NUL # b @ [NUL]"
  have "read_cstring ?tmp = Done h" "read_cstring (drop (length h + 1) ?tmp) = Done a"
    using assms(3,4) by (simp_all add: read_cstring_append)
  moreover have "drop (length h + length (escape a) + 2) ?tmp = drop (escapes a) (b @ [NUL])"
    using drop_drop [of "escapes a" "length h + length a + 2" ?tmp] by (simp add: length_escape)
  moreover have "is_cstring (drop (escapes a) b)"
    using assms(5) set_drop_subset [of "escapes a" b] by (auto simp: is_cstring_def)
  then have "read_cstring (drop (escapes a) (b @ [NUL])) =
      (if escapes a \<le> length b then Done (drop (escapes a) b) else Undefined)"
    by (auto simp: read_cstring_append)
  ultimately show ?thesis
    using poll_message_encoded [OF assms(1,2) content] assms(6)
    by (auto simp: escape_unescaped add.assoc)
qed

end
