(* ===== verification/Bridge_Stream.thy ===== *)
theory Bridge_Stream
  imports Bridge_Wire
begin

text \<open>
  Sending and receiving as stream operations, and the end-to-end behaviour of two messengers joined
  by a socket: no byte is lost, duplicated or reordered whatever the sizes of the transfers, so the
  polled messages are, in order, the pushed ones, if those are messages that the poller understands.
\<close>

section \<open>Conservation of the streams\<close>

text \<open>The bytes that the script of the kernel still holds.\<close>

definition rx_stream :: "rx_event list \<Rightarrow> string" where
  "rx_stream events = concat (map (\<lambda>e. case e of Rx_bytes bs \<Rightarrow> bs | _ \<Rightarrow> []) events)"

lemma rx_stream_simps [simp]:
  "rx_stream [] = []" "rx_stream (Rx_bytes bs # es) = bs @ rx_stream es"
  "rx_stream (Rx_select_interrupted # es) = rx_stream es" "rx_stream (Rx_select_error # es) = rx_stream es"
  "rx_stream (Rx_closed # es) = rx_stream es" "rx_stream (Rx_again # es) = rx_stream es"
  "rx_stream (Rx_error # es) = rx_stream es"
  by (simp_all add: rx_stream_def)

text \<open>What one call of \<^verbatim>\<open>send_message\<close>, and one of \<^verbatim>\<open>receive_message\<close>, does to the messenger and to the
  world: both keep the invariant, and only move bytes from one end of a stream to its other end.\<close>

definition sending_step :: "messenger \<Rightarrow> net \<Rightarrow> messenger \<Rightarrow> net \<Rightarrow> bool" where
  "sending_step m net m' net' \<longleftrightarrow> messenger_inv m' \<and>
     sent net' @ ring_content (sending m') = sent net @ ring_content (sending m) \<and>
     receiving m' = receiving m \<and> has_received_message m' = has_received_message m \<and>
     socket_fd m' = socket_fd m \<and> rx net' = rx net \<and> length (tx net') \<le> length (tx net)"

definition receiving_step :: "messenger \<Rightarrow> net \<Rightarrow> messenger \<Rightarrow> net \<Rightarrow> bool" where
  "receiving_step m net m' net' \<longleftrightarrow> messenger_inv m' \<and>
     ring_content (receiving m') @ rx_stream (rx net') = ring_content (receiving m) @ rx_stream (rx net) \<and>
     sending m' = sending m \<and> socket_fd m' = socket_fd m \<and>
     tx net' = tx net \<and> sent net' = sent net"

lemma sending_advance:
  assumes "messenger_inv m" "k \<le> ring_write_size (sending m)"
  shows "take k (drop (roffset (sending m)) (rbuffer (sending m))) = map Some (take k (ring_content (sending m)))"
    "messenger_inv (m\<lparr>sending := ring_advance k (sending m)\<rparr>)"
    "ring_content (ring_advance k (sending m)) = drop k (ring_content (sending m))"
  using assms ring_write_cells [of "sending m" k] ring_advance_correct [of "sending m" k]
    ring_write_size_bounds(1) [of "sending m"]
  by (auto simp: messenger_inv_def)

lemma send_message_step:
  assumes "messenger_inv m"
  shows "safe_with (\<lambda>(rv, m', net'). \<exists>m1. m' = Some m1 \<and> sending_step m net m1 net')
    (scim_bridge_messenger_send_message (Some m) timeout net)"
proof -
  note adv = sending_advance [OF assms, OF min.cobounded2]
  show ?thesis
    using assms adv
    by (auto simp: scim_bridge_messenger_send_message_def Let_def sending_step_def
        split: list.splits tx_event.splits)
qed

lemma receive_reserve_room:
  assumes "ring_inv r"
  shows "ring_inv (receive_reserve r)" "ring_content (receive_reserve r) = ring_content r"
    "rsize (receive_reserve r) < rcapacity (receive_reserve r)"
  using assms rq.grow [OF assms, of 40]
  by (auto simp: receive_reserve_def ring_inv_def ring_grow_def)

lemma received_newline_iff:
  assumes "ring_inv r" "rsize r < rcapacity r" "length cs \<le> ring_read_size r"
  shows "received_newline r (ring_receive cs r) (length cs) \<longleftrightarrow> LF \<in> set cs"
proof -
  have "rbuffer (ring_receive cs r) ! ring_end r i = Some (cs ! i)" if "i < length cs" for i
  proof -
    let ?r = "ring_receive cs r"
    have "ring_cells ?r ! (rsize r + i) = (ring_cells r @ map Some cs) ! (rsize r + i)"
      by (simp only: ring_receive_cells [OF assms])
    moreover have "ring_cells ?r ! (rsize r + i) = rbuffer ?r ! ring_end r i"
      using that by (simp add: ring_cells_nth ring_receive_def ring_extend_def ring_cell_def
          ring_end_def add.assoc)
    ultimately show ?thesis using that by (simp add: nth_append)
  qed
  then show ?thesis
    by (auto simp: received_newline_def list_ex_iff in_set_conv_nth)
qed

lemma receive_bytes_inv:
  assumes "messenger_inv m" "length cs \<le> ring_read_size (receive_reserve (receiving m))"
  defines "r \<equiv> receive_reserve (receiving m)"
  shows "messenger_inv (m\<lparr>receiving := ring_receive cs r, has_received_message :=
      (has_received_message m \<or> received_newline r (ring_receive cs r) (length cs))\<rparr>)"
    "ring_content (ring_receive cs r) = ring_content (receiving m) @ cs"
proof -
  have "ring_inv (receiving m)" using assms(1) by (simp add: messenger_inv_def)
  from receive_reserve_room [OF this] have r: "ring_inv r" "rsize r < rcapacity r"
    "ring_content r = ring_content (receiving m)" by (simp_all add: r_def)
  show "messenger_inv (m\<lparr>receiving := ring_receive cs r, has_received_message :=
      (has_received_message m \<or> received_newline r (ring_receive cs r) (length cs))\<rparr>)"
    "ring_content (ring_receive cs r) = ring_content (receiving m) @ cs"
    using assms r ring_receive_correct [OF r(1,2), of cs] received_newline_iff [OF r(1,2), of cs]
    by (auto simp: messenger_inv_def)
qed

lemma receive_message_step:
  assumes "messenger_inv m"
  shows "safe_with (\<lambda>(rv, m', net'). \<exists>m1. m' = Some m1 \<and> receiving_step m net m1 net')
    (scim_bridge_messenger_receive_message (Some m) timeout net)"
proof -
  let ?r = "receive_reserve (receiving m)"
  have "ring_inv (receiving m)" using assms by (simp add: messenger_inv_def)
  note r = receive_reserve_room [OF this]
  have m: "messenger_inv (m\<lparr>receiving := ?r\<rparr>)"
    using assms r by (simp add: messenger_inv_def)
  have pos: "0 < ring_read_size ?r" by (rule ring_read_size_bounds [OF r(1,3)])
  have got: "length (take (ring_read_size ?r) bs) \<le> ring_read_size ?r" for bs :: string by simp
  note rec = receive_bytes_inv [OF assms got]
  show ?thesis
    using m pos r(2) rec
    by (auto simp: scim_bridge_messenger_receive_message_def Let_def receiving_step_def
        split: list.splits rx_event.splits)
qed

text \<open>C21: sending never reads memory that was not written, keeps the messenger's invariant, and the
  bytes delivered to the peer followed by the bytes still buffered are the same before and after,
  for every answer of the kernel.\<close>

theorem send_message_conserves:
  assumes "messenger_inv m"
  shows "safe_with (\<lambda>(rv, m', net'). \<exists>m1. m' = Some m1 \<and> messenger_inv m1 \<and>
      sent net' @ ring_content (sending m1) = sent net @ ring_content (sending m) \<and>
      receiving m1 = receiving m)
    (scim_bridge_messenger_send_message (Some m) timeout net)"
  by (rule safe_with_mono [OF send_message_step [OF assms]]) (auto simp: sending_step_def)

theorem send_message_conserves_witness:
  "safe_with (\<lambda>(rv, m', net'). \<exists>m1. m' = Some m1 \<and> messenger_inv m1 \<and>
      sent net' @ ring_content (sending m1) =
        sent \<lparr>rx = [], tx = [Tx_accept 3], sent = []\<rparr> @ ring_content (sending fresh_messenger) \<and>
      receiving m1 = receiving fresh_messenger)
    (scim_bridge_messenger_send_message (Some fresh_messenger) False \<lparr>rx = [], tx = [Tx_accept 3], sent = []\<rparr>)"
  by (rule send_message_conserves) (rule fresh_messenger_inv)

text \<open>receiving never violates the assertion that there is room in the buffer, keeps the
  messenger's invariant (so that \<^verbatim>\<open>has_received_message\<close> is set whenever a newline is waiting), and
  the bytes in the buffer followed by the bytes still with the kernel are the same before and
  after, for every answer of the kernel.\<close>

theorem receive_message_conserves:
  assumes "messenger_inv m"
  shows "safe_with (\<lambda>(rv, m', net'). \<exists>m1. m' = Some m1 \<and> messenger_inv m1 \<and>
      ring_content (receiving m1) @ rx_stream (rx net') = ring_content (receiving m) @ rx_stream (rx net) \<and>
      sending m1 = sending m)
    (scim_bridge_messenger_receive_message (Some m) timeout net)"
  by (rule safe_with_mono [OF receive_message_step [OF assms]]) (auto simp: receiving_step_def)

section \<open>Two messengers joined by a socket\<close>

text \<open>\<open>clean\<close> messages are those the poller understands (\<open>poll_correct\<close>).\<close>

definition clean :: "message \<Rightarrow> bool" where
  "clean msg \<longleftrightarrow> wf_message msg \<and> (\<forall>s \<in> set (butlast (header msg # arguments msg)). unescaped s)"

record link =
  sender :: messenger
  wire :: string
  receiver :: messenger
  pushed :: "message list"
  polled :: "message list"

text \<open>The steps: the sender's program pushes a clean message, the sender's messenger sends under any
  answer of its kernel, the receiver's messenger receives any first part of what is on the wire or
  an event that brings no bytes, and the receiver's program polls.\<close>

inductive link_step :: "link \<Rightarrow> link \<Rightarrow> bool" where
  push: "clean msg \<Longrightarrow>
    scim_bridge_messenger_push_message (Some (sender s)) (Some msg) = (rv, Some m') \<Longrightarrow>
    link_step s (s\<lparr>sender := m', pushed := pushed s @ [msg]\<rparr>)"
| send: "scim_bridge_messenger_send_message (Some (sender s)) timeout
      \<lparr>rx = [], tx = events, sent = wire s\<rparr> = Done (rv, Some m', net') \<Longrightarrow>
    link_step s (s\<lparr>sender := m', wire := sent net'\<rparr>)"
| receive: "wire s = rx_stream events @ rest \<Longrightarrow>
    scim_bridge_messenger_receive_message (Some (receiver s)) timeout
      \<lparr>rx = events, tx = [], sent = []\<rparr> = Done (rv, Some m', net') \<Longrightarrow>
    link_step s (s\<lparr>receiver := m', wire := rx_stream (rx net') @ rest\<rparr>)"
| poll: "scim_bridge_messenger_poll_message (Some (receiver s)) = Done (rv, r, Some m') \<Longrightarrow>
    link_step s (s\<lparr>receiver := m', polled := polled s @ (case r of None \<Rightarrow> [] | Some msg \<Rightarrow> [msg])\<rparr>)"

definition link_init :: "link \<Rightarrow> bool" where
  "link_init s \<longleftrightarrow>
     (\<exists>fd flags setfl. scim_bridge_alloc_messenger fd flags setfl = Some (sender s)) \<and>
     (\<exists>fd flags setfl. scim_bridge_alloc_messenger fd flags setfl = Some (receiver s)) \<and>
     wire s = [] \<and> pushed s = [] \<and> polled s = []"

inductive link_reachable :: "link \<Rightarrow> bool" where
  init: "link_init s \<Longrightarrow> link_reachable s"
| step: "link_reachable s \<Longrightarrow> link_step s s' \<Longrightarrow> link_reachable s'"

definition in_flight :: "link \<Rightarrow> string" where
  "in_flight s = ring_content (receiving (receiver s)) @ wire s @ ring_content (sending (sender s))"

definition link_inv :: "link \<Rightarrow> message list \<Rightarrow> bool" where
  "link_inv s rest \<longleftrightarrow> messenger_inv (sender s) \<and> messenger_inv (receiver s) \<and>
     (\<forall>msg \<in> set rest. clean msg) \<and>
     map message_strings (pushed s) = map message_strings (polled s @ rest) \<and>
     in_flight s = concat (map encode_message rest)"

lemma escape_no_LF: "LF \<notin> set (escape s)"
  by (induction s) (auto simp: escape_char_def)

lemma encode_strings_LF:
  "ss \<noteq> [] \<Longrightarrow> \<exists>bs. encode_strings ss = bs @ [LF] \<and> LF \<notin> set bs"
proof (induction ss)
  case (Cons s ss)
  show ?case
  proof (cases "ss = []")
    case True
    then show ?thesis using escape_no_LF by (intro exI [of _ "escape s"]) simp
  next
    case False
    with Cons.IH obtain bs where "encode_strings ss = bs @ [LF]" "LF \<notin> set bs" by auto
    with False show ?thesis
      using escape_no_LF by (intro exI [of _ "escape s @ SPACE # bs"]) simp
  qed
qed simp

text \<open>Of the bytes in flight, those received so far hold a newline only if they hold the whole
  encoding of the next message.\<close>

lemma prefix_with_LF:
  "xs @ ys = bs @ LF # zs \<Longrightarrow> LF \<notin> set bs \<Longrightarrow> LF \<in> set xs \<Longrightarrow> \<exists>us. xs = (bs @ [LF]) @ us \<and> zs = us @ ys"
  by (auto simp: append_eq_append_conv2 append_eq_Cons_conv Cons_eq_append_conv)

lemma received_whole_message:
  assumes "link_inv s rest" "LF \<in> set (ring_content (receiving (receiver s)))"
  shows "\<exists>msg rest' us. rest = msg # rest' \<and> clean msg \<and>
    ring_content (receiving (receiver s)) = encode_message msg @ us \<and>
    us @ wire s @ ring_content (sending (sender s)) = concat (map encode_message rest')"
proof -
  have "rest \<noteq> []" using assms by (auto simp: link_inv_def in_flight_def)
  then obtain msg rest' where rest: "rest = msg # rest'" by (cases rest) auto
  have "message_strings msg \<noteq> []" by (simp add: message_strings_def)
  then obtain bs where bs: "encode_message msg = bs @ [LF]" "LF \<notin> set bs"
    using encode_strings_LF [of "message_strings msg"] by (auto simp: encode_message_def)
  have "ring_content (receiving (receiver s)) @ (wire s @ ring_content (sending (sender s))) =
      bs @ LF # concat (map encode_message rest')"
    using assms(1) bs(1) by (simp add: link_inv_def in_flight_def rest)
  from prefix_with_LF [OF this bs(2) assms(2)] bs(1) rest assms(1) show ?thesis
    by (auto simp: link_inv_def)
qed

lemma poll_scan_incomplete: "LF \<notin> set cs \<Longrightarrow> poll_scan i cs escaped tmp args = Done None"
  by (induction i cs escaped tmp args rule: poll_scan.induct) auto

text \<open>Polling in a state of the invariant: the next message, or none. \<open>polls_next\<close> says what a poll that returns
  \<open>rv\<close>, \<open>r\<close> and the messenger \<open>m'\<close> has done when \<open>msg\<close> is the next message.\<close>

definition polls_next :: "messenger \<Rightarrow> message \<Rightarrow> retval \<Rightarrow> message option \<Rightarrow> messenger \<Rightarrow> bool" where
  "polls_next m msg rv r m' \<longleftrightarrow> rv = RETVAL_SUCCEEDED \<and>
     (\<exists>msg'. r = Some msg' \<and> message_strings msg' = message_strings msg) \<and>
     ring_content (receiving m) = encode_message msg @ ring_content (receiving m')"

lemma link_poll:
  assumes "link_inv s rest"
  shows "\<exists>rv r m' rest'. scim_bridge_messenger_poll_message (Some (receiver s)) = Done (rv, r, Some m') \<and>
    link_inv (s\<lparr>receiver := m', polled := polled s @ (case r of None \<Rightarrow> [] | Some msg \<Rightarrow> [msg])\<rparr>) rest' \<and>
    (if LF \<in> set (ring_content (receiving (receiver s)))
     then rest \<noteq> [] \<and> polls_next (receiver s) (hd rest) rv r m'
     else r = None \<and> receiving m' = receiving (receiver s))"
proof (cases "LF \<in> set (ring_content (receiving (receiver s)))")
  case True
  have inv: "messenger_inv (receiver s)" using assms by (simp add: link_inv_def)
  then have rec: "has_received_message (receiver s)" using True by (auto simp: messenger_inv_def)
  from received_whole_message [OF assms True] obtain msg rest' us where
    msg: "rest = msg # rest'" "clean msg" "ring_content (receiving (receiver s)) = encode_message msg @ us"
    "us @ wire s @ ring_content (sending (sender s)) = concat (map encode_message rest')" by blast
  from msg(2) have cl: "wf_message msg" "\<forall>s \<in> set (butlast (header msg # arguments msg)). unescaped s"
    by (simp_all add: clean_def)
  have content: "ring_content (receiving (receiver s)) = encode_strings (header msg # arguments msg) @ us"
    using msg(3) cl(1) by (simp add: encode_message_def message_strings_wf)
  let ?m' = "receiver s\<lparr>receiving := ring_advance (length (encode_strings (header msg # arguments msg)))
    (receiving (receiver s))\<rparr>"
  have "scim_bridge_messenger_poll_message (Some (receiver s)) =
      Done (RETVAL_SUCCEEDED, Some (packed (header msg) (arguments msg)), Some ?m')"
    using run_map_offsets [of "header msg # arguments msg" "[]" 0] cl
    by (simp only: poll_message_encoded [OF inv rec content] append_Nil)
      (simp add: wf_message_def)
  moreover have "link_inv (s\<lparr>receiver := ?m', polled := polled s @ [packed (header msg) (arguments msg)]\<rparr>) rest'"
    using assms poll_rest [OF inv rec content] msg cl(1)
    by (simp add: link_inv_def in_flight_def message_strings_wf)
  moreover have "polls_next (receiver s) (hd rest) RETVAL_SUCCEEDED (Some (packed (header msg) (arguments msg))) ?m'"
    using poll_rest [OF inv rec content] msg(1,3) cl(1) by (simp add: polls_next_def message_strings_wf)
  ultimately show ?thesis using True msg(1) by (intro exI) (auto simp: msg(1))
next
  case False
  have inv: "messenger_inv (receiver s)" using assms by (simp add: link_inv_def)
  have "\<exists>rv m'. scim_bridge_messenger_poll_message (Some (receiver s)) = Done (rv, None, Some m') \<and>
      messenger_inv m' \<and> receiving m' = receiving (receiver s)"
    using inv False
    by (auto simp: scim_bridge_messenger_poll_message_def poll_loop_messenger poll_scan_incomplete
        messenger_inv_def)
  with assms False show ?thesis by (force simp: link_inv_def in_flight_def)
qed

lemma link_init_inv: "link_init s \<Longrightarrow> link_inv s []"
  by (auto simp: link_init_def link_inv_def in_flight_def dest!: alloc_messenger_inv)

lemma link_step_inv:
  assumes "link_step s s'" "link_inv s rest"
  shows "\<exists>rest'. link_inv s' rest'"
  using assms(1)
proof cases
  case (push msg rv m')
  have "messenger_inv (sender s)" using assms(2) by (simp add: link_inv_def)
  with push push_strings_content [of "sending (sender s)" "message_strings msg"] assms(2)
  have "link_inv s' (rest @ [msg])"
    by (auto simp: link_inv_def in_flight_def scim_bridge_messenger_push_message_def
        messenger_inv_def encode_message_def)
  then show ?thesis ..
next
  case (send timeout events rv m' net')
  have "messenger_inv (sender s)" using assms(2) by (simp add: link_inv_def)
  from safe_withD [OF send_message_step [OF this] send(2)] send(1) assms(2)
  have "link_inv s' rest"
    by (auto simp: link_inv_def in_flight_def sending_step_def)
  then show ?thesis ..
next
  case (receive events rest1 timeout rv m' net')
  have "messenger_inv (receiver s)" using assms(2) by (simp add: link_inv_def)
  from safe_withD [OF receive_message_step [OF this] receive(3)]
  have st: "messenger_inv m'"
    "ring_content (receiving m') @ rx_stream (rx net') = ring_content (receiving (receiver s)) @ rx_stream events"
    by (auto simp: receiving_step_def)
  have "in_flight s' = in_flight s"
    using arg_cong [OF st(2), of "\<lambda>x. x @ rest1 @ ring_content (sending (sender s))"] receive(1,2)
    by (simp add: in_flight_def)
  with st(1) receive(1) assms(2) have "link_inv s' rest"
    by (simp add: link_inv_def)
  then show ?thesis ..
next
  case (poll rv r m')
  with link_poll [OF assms(2)] show ?thesis by auto
qed

lemma link_reachable_inv: "link_reachable s \<Longrightarrow> \<exists>rest. link_inv s rest"
  by (induction rule: link_reachable.induct) (auto dest: link_init_inv link_step_inv)

text \<open>C1: two messengers joined by a socket are a first-in first-out channel of the messages that the poller
  understands, those in which no string but the last holds a space, a newline or a backslash
  (\<open>clean\<close>; what becomes of other messages is \<open>poll_after_escape\<close>). In every
  state reachable by pushes of such messages, sends, receives and polls, whatever the sizes of the
  transfers and the interruptions, the polled messages are the first of the pushed ones in their
  order, and the bytes in flight encode exactly the others.\<close>

theorem link_fifo:
  assumes "link_reachable s"
  shows "\<exists>rest. map message_strings (pushed s) = map message_strings (polled s @ rest) \<and>
    in_flight s = concat (map encode_message rest)"
  using link_reachable_inv [OF assms] by (auto simp: link_inv_def)

definition demo_message :: message where
  "demo_message = packed ''set_cursor_location'' [''1'', ''20'', ''a b'']"

definition demo_link :: link where
  "demo_link = \<lparr>sender = fresh_messenger, wire = [], receiver = fresh_messenger, pushed = [], polled = []\<rparr>"

lemma demo_link_init: "link_init demo_link"
proof -
  have "scim_bridge_alloc_messenger 3 0 0 = Some fresh_messenger"
    by (simp add: scim_bridge_alloc_messenger_def fresh_messenger_def)
  then show ?thesis by (auto simp: link_init_def demo_link_def)
qed

definition demo_pushed :: link where
  "demo_pushed = demo_link\<lparr>
     sender := the (snd (scim_bridge_messenger_push_message (Some fresh_messenger) (Some demo_message))),
     pushed := [demo_message]\<rparr>"

lemma demo_pushed_reachable: "link_reachable demo_pushed"
proof (rule link_reachable.step [OF link_reachable.init [OF demo_link_init]])
  have "clean demo_message"
    by (simp add: clean_def demo_message_def wf_packed unescaped_def)
  from link_step.push [OF this, of demo_link] show "link_step demo_link demo_pushed"
    by (simp add: demo_pushed_def demo_link_def scim_bridge_messenger_push_message_def)
qed

theorem link_fifo_witness:
  "\<exists>rest. map message_strings (pushed demo_pushed) = map message_strings (polled demo_pushed @ rest) \<and>
    in_flight demo_pushed = concat (map encode_message rest)"
  by (rule link_fifo) (rule demo_pushed_reachable)

text \<open>The message sent whole, and received whole.\<close>

definition demo_sent :: link where
  "demo_sent =
     (case scim_bridge_messenger_send_message (Some (sender demo_pushed)) True \<lparr>rx = [], tx = [Tx_accept 100], sent = []\<rparr> of
        Done (rv, Some m, net) \<Rightarrow> demo_pushed\<lparr>sender := m, wire := sent net\<rparr>
      | _ \<Rightarrow> demo_pushed)"

definition demo_received :: link where
  "demo_received =
     (case scim_bridge_messenger_receive_message (Some (receiver demo_sent)) True
        \<lparr>rx = [Rx_bytes (wire demo_sent)], tx = [], sent = []\<rparr> of
        Done (rv, Some m, net) \<Rightarrow> demo_sent\<lparr>receiver := m, wire := rx_stream (rx net)\<rparr>
      | _ \<Rightarrow> demo_sent)"

lemma demo_sent_reachable: "link_reachable demo_sent"
proof -
  have "wire demo_pushed = []" by (simp add: demo_pushed_def demo_link_def)
  then have "link_step demo_pushed (demo_pushed\<lparr>sender := m, wire := sent net\<rparr>)"
    if "scim_bridge_messenger_send_message (Some (sender demo_pushed)) True \<lparr>rx = [], tx = [Tx_accept 100], sent = []\<rparr> =
      Done (rv, Some m, net)" for rv m net
    using link_step.send [of demo_pushed True "[Tx_accept 100]" rv m net] that by simp
  then show ?thesis
    using demo_pushed_reachable link_reachable.step [OF demo_pushed_reachable]
    by (auto simp: demo_sent_def split: run.split option.split)
qed

lemma demo_received_reachable: "link_reachable demo_received"
proof -
  have "link_step demo_sent (demo_sent\<lparr>receiver := m, wire := rx_stream (rx net)\<rparr>)"
    if "scim_bridge_messenger_receive_message (Some (receiver demo_sent)) True
      \<lparr>rx = [Rx_bytes (wire demo_sent)], tx = [], sent = []\<rparr> = Done (rv, Some m, net)" for rv m net
    using link_step.receive [of demo_sent "[Rx_bytes (wire demo_sent)]" "[]" True rv m net] that by simp
  then show ?thesis
    using demo_sent_reachable link_reachable.step [OF demo_sent_reachable]
    by (auto simp: demo_received_def split: run.split option.split)
qed

lemma demo_received_content:
  "ring_content (receiving (receiver demo_received)) = encode_message demo_message"
  "pushed demo_received = [demo_message]" "polled demo_received = []"
  by code_simp+

lemma encode_message_LF: "LF \<in> set (encode_message msg)"
proof -
  have "message_strings msg \<noteq> []" by (simp add: message_strings_def)
  from encode_strings_LF [OF this] show ?thesis by (auto simp: encode_message_def)
qed

text \<open>C20: in every reachable state of the channel polling returns. When the received bytes hold a newline, with
  which the encoding of a message ends, it succeeds and returns the first pushed message that was not polled yet,
  taking exactly the bytes of its encoding; otherwise it returns no message and takes nothing.\<close>

theorem link_poll_progress:
  assumes "link_reachable s"
  shows "\<exists>rv r m'. scim_bridge_messenger_poll_message (Some (receiver s)) = Done (rv, r, Some m') \<and>
    (if LF \<in> set (ring_content (receiving (receiver s)))
     then length (polled s) < length (pushed s) \<and> rv = RETVAL_SUCCEEDED \<and>
       (\<exists>msg. r = Some msg \<and> message_strings msg = message_strings (pushed s ! length (polled s))) \<and>
       ring_content (receiving (receiver s)) =
         encode_message (pushed s ! length (polled s)) @ ring_content (receiving m')
     else r = None \<and> ring_content (receiving m') = ring_content (receiving (receiver s)))"
proof -
  from link_reachable_inv [OF assms] obtain rest where inv: "link_inv s rest" by blast
  have next_msg: "length (polled s) < length (pushed s) \<and>
      message_strings (pushed s ! length (polled s)) = message_strings (hd rest)" if "rest \<noteq> []"
  proof -
    have eq: "map message_strings (pushed s) = map message_strings (polled s @ rest)"
      using inv by (simp add: link_inv_def)
    from arg_cong [OF eq, of length] that have l: "length (polled s) < length (pushed s)" by (cases rest) simp_all
    with arg_cong [OF eq, of "\<lambda>xs. xs ! length (polled s)"] that show ?thesis
      by (cases rest) (simp_all add: nth_append)
  qed
  from link_poll [OF inv] obtain rv r m' where
    p: "scim_bridge_messenger_poll_message (Some (receiver s)) = Done (rv, r, Some m')"
    "if LF \<in> set (ring_content (receiving (receiver s)))
     then rest \<noteq> [] \<and> polls_next (receiver s) (hd rest) rv r m'
     else r = None \<and> receiving m' = receiving (receiver s)" by blast
  then show ?thesis
    using next_msg by (intro exI [of _ rv] exI [of _ r] exI [of _ m'])
      (auto simp: polls_next_def encode_message_def split: if_splits)
qed

theorem link_poll_progress_witness:
  "\<exists>rv msg m'. scim_bridge_messenger_poll_message (Some (receiver demo_received)) = Done (rv, Some msg, Some m') \<and>
     rv = RETVAL_SUCCEEDED \<and> message_strings msg = message_strings demo_message \<and> ring_content (receiving m') = []"
  using link_poll_progress [OF demo_received_reachable] encode_message_LF [of demo_message]
  by (auto simp: demo_received_content)

end
