(* ===== verification/Bridge_Key_Event.thy ===== *)
theory Bridge_Key_Event
  imports Bridge_Prelude
begin

text \<open>
  \<^verbatim>\<open>extras/immodules/common/scim-bridge-key-event.c\<close>: a key event is a key code, whether the key
  goes down, eight modifiers packed in the bits of one word, and the quirks in another. The getters
  and setters of the modifiers are accessors that do not disturb one another.
\<close>

record key_event =
  pressed :: bool
  code :: "32 word"
  mod_state :: "32 word"
  quirks :: "32 word"

definition SCIM_BRIDGE_MODIFIER_MASK_NULL :: "32 word" where "SCIM_BRIDGE_MODIFIER_MASK_NULL = 0"
definition SCIM_BRIDGE_MODIFIER_MASK_SHIFT :: "32 word" where "SCIM_BRIDGE_MODIFIER_MASK_SHIFT = push_bit 0 1"
definition SCIM_BRIDGE_MODIFIER_MASK_CAPS_LOCK :: "32 word" where "SCIM_BRIDGE_MODIFIER_MASK_CAPS_LOCK = push_bit 1 1"
definition SCIM_BRIDGE_MODIFIER_MASK_CONTROL :: "32 word" where "SCIM_BRIDGE_MODIFIER_MASK_CONTROL = push_bit 2 1"
definition SCIM_BRIDGE_MODIFIER_MASK_ALT :: "32 word" where "SCIM_BRIDGE_MODIFIER_MASK_ALT = push_bit 3 1"
definition SCIM_BRIDGE_MODIFIER_MASK_META :: "32 word" where "SCIM_BRIDGE_MODIFIER_MASK_META = push_bit 4 1"
definition SCIM_BRIDGE_MODIFIER_MASK_SUPER :: "32 word" where "SCIM_BRIDGE_MODIFIER_MASK_SUPER = push_bit 5 1"
definition SCIM_BRIDGE_MODIFIER_MASK_HYPER :: "32 word" where "SCIM_BRIDGE_MODIFIER_MASK_HYPER = push_bit 6 1"
definition SCIM_BRIDGE_MODIFIER_MASK_NUM_LOCK :: "32 word" where "SCIM_BRIDGE_MODIFIER_MASK_NUM_LOCK = push_bit 7 1"

definition SCIM_BRIDGE_KEY_CODE_NullKey :: "32 word" where "SCIM_BRIDGE_KEY_CODE_NullKey = 0"
definition SCIM_BRIDGE_KEY_NO_QUIRK :: "32 word" where "SCIM_BRIDGE_KEY_NO_QUIRK = 0"
definition SCIM_BRIDGE_KEY_QUIRK_KANA_RO :: "32 word" where "SCIM_BRIDGE_KEY_QUIRK_KANA_RO = push_bit 1 1"

definition scim_bridge_alloc_key_event :: key_event where
  "scim_bridge_alloc_key_event =
     \<lparr>pressed = False, code = SCIM_BRIDGE_KEY_CODE_NullKey,
      mod_state = SCIM_BRIDGE_MODIFIER_MASK_NULL, quirks = SCIM_BRIDGE_KEY_NO_QUIRK\<rparr>"

definition scim_bridge_key_event_get_code :: "key_event \<Rightarrow> 32 word" where
  "scim_bridge_key_event_get_code key_event = code key_event"

definition scim_bridge_key_event_set_code :: "32 word \<Rightarrow> key_event \<Rightarrow> key_event" where
  "scim_bridge_key_event_set_code key_code key_event = key_event\<lparr>code := key_code\<rparr>"

definition scim_bridge_key_event_is_pressed :: "key_event \<Rightarrow> bool" where
  "scim_bridge_key_event_is_pressed key_event = pressed key_event"

definition scim_bridge_key_event_set_pressed :: "bool \<Rightarrow> key_event \<Rightarrow> key_event" where
  "scim_bridge_key_event_set_pressed p key_event = key_event\<lparr>pressed := p\<rparr>"

definition scim_bridge_key_event_clear_modifiers :: "key_event \<Rightarrow> key_event" where
  "scim_bridge_key_event_clear_modifiers key_event =
     key_event\<lparr>mod_state := SCIM_BRIDGE_MODIFIER_MASK_NULL\<rparr>"

definition scim_bridge_key_event_is_shift_down :: "key_event \<Rightarrow> bool" where
  "scim_bridge_key_event_is_shift_down key_event \<longleftrightarrow>
     (mod_state key_event AND SCIM_BRIDGE_MODIFIER_MASK_SHIFT) \<noteq> 0"

definition scim_bridge_key_event_set_shift_down :: "bool \<Rightarrow> key_event \<Rightarrow> key_event" where
  "scim_bridge_key_event_set_shift_down down key_event =
     (if down
      then key_event\<lparr>mod_state := mod_state key_event OR SCIM_BRIDGE_MODIFIER_MASK_SHIFT\<rparr>
      else key_event\<lparr>mod_state := mod_state key_event AND NOT SCIM_BRIDGE_MODIFIER_MASK_SHIFT\<rparr>)"

definition scim_bridge_key_event_is_caps_lock_down :: "key_event \<Rightarrow> bool" where
  "scim_bridge_key_event_is_caps_lock_down key_event \<longleftrightarrow>
     (mod_state key_event AND SCIM_BRIDGE_MODIFIER_MASK_CAPS_LOCK) \<noteq> 0"

definition scim_bridge_key_event_set_caps_lock_down :: "bool \<Rightarrow> key_event \<Rightarrow> key_event" where
  "scim_bridge_key_event_set_caps_lock_down down key_event =
     (if down
      then key_event\<lparr>mod_state := mod_state key_event OR SCIM_BRIDGE_MODIFIER_MASK_CAPS_LOCK\<rparr>
      else key_event\<lparr>mod_state := mod_state key_event AND NOT SCIM_BRIDGE_MODIFIER_MASK_CAPS_LOCK\<rparr>)"

definition scim_bridge_key_event_is_control_down :: "key_event \<Rightarrow> bool" where
  "scim_bridge_key_event_is_control_down key_event \<longleftrightarrow>
     (mod_state key_event AND SCIM_BRIDGE_MODIFIER_MASK_CONTROL) \<noteq> 0"

definition scim_bridge_key_event_set_control_down :: "bool \<Rightarrow> key_event \<Rightarrow> key_event" where
  "scim_bridge_key_event_set_control_down down key_event =
     (if down
      then key_event\<lparr>mod_state := mod_state key_event OR SCIM_BRIDGE_MODIFIER_MASK_CONTROL\<rparr>
      else key_event\<lparr>mod_state := mod_state key_event AND NOT SCIM_BRIDGE_MODIFIER_MASK_CONTROL\<rparr>)"

definition scim_bridge_key_event_is_alt_down :: "key_event \<Rightarrow> bool" where
  "scim_bridge_key_event_is_alt_down key_event \<longleftrightarrow>
     (mod_state key_event AND SCIM_BRIDGE_MODIFIER_MASK_ALT) \<noteq> 0"

definition scim_bridge_key_event_set_alt_down :: "bool \<Rightarrow> key_event \<Rightarrow> key_event" where
  "scim_bridge_key_event_set_alt_down down key_event =
     (if down
      then key_event\<lparr>mod_state := mod_state key_event OR SCIM_BRIDGE_MODIFIER_MASK_ALT\<rparr>
      else key_event\<lparr>mod_state := mod_state key_event AND NOT SCIM_BRIDGE_MODIFIER_MASK_ALT\<rparr>)"

definition scim_bridge_key_event_is_meta_down :: "key_event \<Rightarrow> bool" where
  "scim_bridge_key_event_is_meta_down key_event \<longleftrightarrow>
     (mod_state key_event AND SCIM_BRIDGE_MODIFIER_MASK_META) \<noteq> 0"

definition scim_bridge_key_event_set_meta_down :: "bool \<Rightarrow> key_event \<Rightarrow> key_event" where
  "scim_bridge_key_event_set_meta_down down key_event =
     (if down
      then key_event\<lparr>mod_state := mod_state key_event OR SCIM_BRIDGE_MODIFIER_MASK_META\<rparr>
      else key_event\<lparr>mod_state := mod_state key_event AND NOT SCIM_BRIDGE_MODIFIER_MASK_META\<rparr>)"

definition scim_bridge_key_event_is_super_down :: "key_event \<Rightarrow> bool" where
  "scim_bridge_key_event_is_super_down key_event \<longleftrightarrow>
     (mod_state key_event AND SCIM_BRIDGE_MODIFIER_MASK_SUPER) \<noteq> 0"

definition scim_bridge_key_event_set_super_down :: "bool \<Rightarrow> key_event \<Rightarrow> key_event" where
  "scim_bridge_key_event_set_super_down down key_event =
     (if down
      then key_event\<lparr>mod_state := mod_state key_event OR SCIM_BRIDGE_MODIFIER_MASK_SUPER\<rparr>
      else key_event\<lparr>mod_state := mod_state key_event AND NOT SCIM_BRIDGE_MODIFIER_MASK_SUPER\<rparr>)"

definition scim_bridge_key_event_is_hyper_down :: "key_event \<Rightarrow> bool" where
  "scim_bridge_key_event_is_hyper_down key_event \<longleftrightarrow>
     (mod_state key_event AND SCIM_BRIDGE_MODIFIER_MASK_HYPER) \<noteq> 0"

definition scim_bridge_key_event_set_hyper_down :: "bool \<Rightarrow> key_event \<Rightarrow> key_event" where
  "scim_bridge_key_event_set_hyper_down down key_event =
     (if down
      then key_event\<lparr>mod_state := mod_state key_event OR SCIM_BRIDGE_MODIFIER_MASK_HYPER\<rparr>
      else key_event\<lparr>mod_state := mod_state key_event AND NOT SCIM_BRIDGE_MODIFIER_MASK_HYPER\<rparr>)"

definition scim_bridge_key_event_is_num_lock_down :: "key_event \<Rightarrow> bool" where
  "scim_bridge_key_event_is_num_lock_down key_event \<longleftrightarrow>
     (mod_state key_event AND SCIM_BRIDGE_MODIFIER_MASK_NUM_LOCK) \<noteq> 0"

definition scim_bridge_key_event_set_num_lock_down :: "bool \<Rightarrow> key_event \<Rightarrow> key_event" where
  "scim_bridge_key_event_set_num_lock_down down key_event =
     (if down
      then key_event\<lparr>mod_state := mod_state key_event OR SCIM_BRIDGE_MODIFIER_MASK_NUM_LOCK\<rparr>
      else key_event\<lparr>mod_state := mod_state key_event AND NOT SCIM_BRIDGE_MODIFIER_MASK_NUM_LOCK\<rparr>)"

definition scim_bridge_key_event_is_quirk_enabled :: "32 word \<Rightarrow> key_event \<Rightarrow> bool" where
  "scim_bridge_key_event_is_quirk_enabled quirk key_event \<longleftrightarrow> (quirks key_event AND quirk) \<noteq> 0"

definition scim_bridge_key_event_set_quirk_enabled :: "32 word \<Rightarrow> bool \<Rightarrow> key_event \<Rightarrow> key_event" where
  "scim_bridge_key_event_set_quirk_enabled quirk enabled key_event =
     (if enabled then key_event\<lparr>quirks := quirks key_event OR quirk\<rparr>
      else key_event\<lparr>quirks := quirks key_event AND NOT quirk\<rparr>)"

definition scim_bridge_key_event_clear_all_quirks :: "key_event \<Rightarrow> key_event" where
  "scim_bridge_key_event_clear_all_quirks key_event = key_event\<lparr>quirks := SCIM_BRIDGE_KEY_NO_QUIRK\<rparr>"

section \<open>Modifiers are independent\<close>

lemmas modifier_masks =
  SCIM_BRIDGE_MODIFIER_MASK_SHIFT_def
  SCIM_BRIDGE_MODIFIER_MASK_CAPS_LOCK_def
  SCIM_BRIDGE_MODIFIER_MASK_CONTROL_def
  SCIM_BRIDGE_MODIFIER_MASK_ALT_def
  SCIM_BRIDGE_MODIFIER_MASK_META_def
  SCIM_BRIDGE_MODIFIER_MASK_SUPER_def
  SCIM_BRIDGE_MODIFIER_MASK_HYPER_def
  SCIM_BRIDGE_MODIFIER_MASK_NUM_LOCK_def

lemmas modifier_getters =
  scim_bridge_key_event_is_shift_down_def
  scim_bridge_key_event_is_caps_lock_down_def
  scim_bridge_key_event_is_control_down_def
  scim_bridge_key_event_is_alt_down_def
  scim_bridge_key_event_is_meta_down_def
  scim_bridge_key_event_is_super_down_def
  scim_bridge_key_event_is_hyper_down_def
  scim_bridge_key_event_is_num_lock_down_def

lemmas modifier_setters =
  scim_bridge_key_event_set_shift_down_def
  scim_bridge_key_event_set_caps_lock_down_def
  scim_bridge_key_event_set_control_down_def
  scim_bridge_key_event_set_alt_down_def
  scim_bridge_key_event_set_meta_down_def
  scim_bridge_key_event_set_super_down_def
  scim_bridge_key_event_set_hyper_down_def
  scim_bridge_key_event_set_num_lock_down_def

lemma and_push_bit_one: "(w AND push_bit n 1 \<noteq> 0) = (n < 32 \<and> bit (w :: 32 word) n)"
proof
  assume "w AND push_bit n 1 \<noteq> 0"
  then obtain k where "bit (w AND push_bit n 1) k" by (auto simp: bit_eq_iff)
  then show "n < 32 \<and> bit w n" by (auto simp: bit_simps dest: bit_imp_le_length)
next
  assume "n < 32 \<and> bit w n"
  then have "bit (w AND push_bit n 1) n" by (simp add: bit_simps)
  then show "w AND push_bit n 1 \<noteq> 0" by auto
qed

text \<open>A modifier is named by the position of its bit.\<close>

definition bit_down :: "nat \<Rightarrow> key_event \<Rightarrow> bool" where
  "bit_down n k \<longleftrightarrow> bit (mod_state k) n"

definition put_bit :: "nat \<Rightarrow> bool \<Rightarrow> 32 word \<Rightarrow> 32 word" where
  "put_bit n b w = (if b then w OR push_bit n 1 else w AND NOT (push_bit n 1))"

lemma bit_put_bit: "n < 32 \<Longrightarrow> bit (put_bit n b w) m = (if m = n then b else bit w m)"
  by (auto simp: put_bit_def bit_simps dest: bit_imp_le_length)

lemma put_bit_same: "n < 32 \<Longrightarrow> put_bit n b (put_bit n c w) = put_bit n b w"
  by (rule bit_eqI) (simp add: bit_put_bit)

lemma put_bit_commute:
  "n < 32 \<Longrightarrow> m < 32 \<Longrightarrow> n \<noteq> m \<Longrightarrow> put_bit n b (put_bit m c w) = put_bit m c (put_bit n b w)"
  by (rule bit_eqI) (simp add: bit_put_bit)

definition bit_set_down :: "nat \<Rightarrow> bool \<Rightarrow> key_event \<Rightarrow> key_event" where
  "bit_set_down n down k = k\<lparr>mod_state := put_bit n down (mod_state k)\<rparr>"

lemma bit_down_set: "n < 32 \<Longrightarrow> bit_down m (bit_set_down n b k) = (if m = n then b else bit_down m k)"
  by (simp add: bit_down_def bit_set_down_def bit_put_bit)

lemma bit_set_down_same: "n < 32 \<Longrightarrow> bit_set_down n b (bit_set_down n c k) = bit_set_down n b k"
  by (simp add: bit_set_down_def put_bit_same)

lemma bit_set_down_commute:
  "n < 32 \<Longrightarrow> m < 32 \<Longrightarrow> n \<noteq> m \<Longrightarrow>
   bit_set_down n b (bit_set_down m c k) = bit_set_down m c (bit_set_down n b k)"
  by (simp add: bit_set_down_def put_bit_commute)

lemma modifier_bits:
  "scim_bridge_key_event_is_shift_down = bit_down 0"
  "scim_bridge_key_event_set_shift_down = bit_set_down 0"
  "scim_bridge_key_event_is_caps_lock_down = bit_down 1"
  "scim_bridge_key_event_set_caps_lock_down = bit_set_down 1"
  "scim_bridge_key_event_is_control_down = bit_down 2"
  "scim_bridge_key_event_set_control_down = bit_set_down 2"
  "scim_bridge_key_event_is_alt_down = bit_down 3"
  "scim_bridge_key_event_set_alt_down = bit_set_down 3"
  "scim_bridge_key_event_is_meta_down = bit_down 4"
  "scim_bridge_key_event_set_meta_down = bit_set_down 4"
  "scim_bridge_key_event_is_super_down = bit_down 5"
  "scim_bridge_key_event_set_super_down = bit_set_down 5"
  "scim_bridge_key_event_is_hyper_down = bit_down 6"
  "scim_bridge_key_event_set_hyper_down = bit_set_down 6"
  "scim_bridge_key_event_is_num_lock_down = bit_down 7"
  "scim_bridge_key_event_set_num_lock_down = bit_set_down 7"
  by (simp_all only: fun_eq_iff modifier_getters modifier_setters modifier_masks and_push_bit_one
      bit_down_def bit_set_down_def put_bit_def) simp_all

interpretation shift_control: independent_accessors
  scim_bridge_key_event_is_shift_down scim_bridge_key_event_set_shift_down "\<lambda>_. True"
  scim_bridge_key_event_is_control_down scim_bridge_key_event_set_control_down "\<lambda>_. True"
  unfolding modifier_bits
  by unfold_locales (simp_all add: bit_down_set bit_set_down_same,
    rule bit_set_down_commute, simp_all)

interpretation alt_meta: independent_accessors
  scim_bridge_key_event_is_alt_down scim_bridge_key_event_set_alt_down "\<lambda>_. True"
  scim_bridge_key_event_is_meta_down scim_bridge_key_event_set_meta_down "\<lambda>_. True"
  unfolding modifier_bits
  by unfold_locales (simp_all add: bit_down_set bit_set_down_same,
    rule bit_set_down_commute, simp_all)

text \<open>The eight modifiers, each with its getter and its setter.\<close>

datatype modifier = Shift | Caps_Lock | Control | Alt | Meta | Super | Hyper | Num_Lock

fun is_down :: "modifier \<Rightarrow> key_event \<Rightarrow> bool" where
  "is_down Shift = scim_bridge_key_event_is_shift_down"
| "is_down Caps_Lock = scim_bridge_key_event_is_caps_lock_down"
| "is_down Control = scim_bridge_key_event_is_control_down"
| "is_down Alt = scim_bridge_key_event_is_alt_down"
| "is_down Meta = scim_bridge_key_event_is_meta_down"
| "is_down Super = scim_bridge_key_event_is_super_down"
| "is_down Hyper = scim_bridge_key_event_is_hyper_down"
| "is_down Num_Lock = scim_bridge_key_event_is_num_lock_down"

fun set_down :: "modifier \<Rightarrow> bool \<Rightarrow> key_event \<Rightarrow> key_event" where
  "set_down Shift = scim_bridge_key_event_set_shift_down"
| "set_down Caps_Lock = scim_bridge_key_event_set_caps_lock_down"
| "set_down Control = scim_bridge_key_event_set_control_down"
| "set_down Alt = scim_bridge_key_event_set_alt_down"
| "set_down Meta = scim_bridge_key_event_set_meta_down"
| "set_down Super = scim_bridge_key_event_set_super_down"
| "set_down Hyper = scim_bridge_key_event_set_hyper_down"
| "set_down Num_Lock = scim_bridge_key_event_set_num_lock_down"

text \<open>for all eight modifiers, setting one is read back and leaves the other seven, the key code,
  the direction of the key and the quirks as they were; a fresh key event has no modifier down.\<close>

theorem modifiers_independent:
  "is_down m (set_down n b k) = (if m = n then b else is_down m k) \<and>
   code (set_down n b k) = code k \<and> pressed (set_down n b k) = pressed k \<and>
   quirks (set_down n b k) = quirks k \<and> \<not> is_down m scim_bridge_alloc_key_event"
proof (intro conjI)
  show "is_down m (set_down n b k) = (if m = n then b else is_down m k)"
    by (cases m; cases n) (simp_all add: modifier_bits bit_down_set)
  show "code (set_down n b k) = code k" "pressed (set_down n b k) = pressed k"
    "quirks (set_down n b k) = quirks k"
    by (cases n; simp add: modifier_bits bit_set_down_def)+
  show "\<not> is_down m scim_bridge_alloc_key_event"
    by (cases m) (simp_all add: modifier_bits bit_down_def scim_bridge_alloc_key_event_def
        SCIM_BRIDGE_MODIFIER_MASK_NULL_def)
qed

end
