(* ===== verification/Bridge_Attribute.thy ===== *)
theory Bridge_Attribute
  imports Bridge_Prelude
begin

text \<open>
  \<^verbatim>\<open>extras/immodules/common/scim-bridge-attribute.c\<close>: an attribute marks a range of the preedit
  string with a decoration or a colour, which share one word. Colours are three bytes; the setters
  of one component rebuild the word from the other two.
\<close>

datatype attribute_type =
  ATTRIBUTE_NONE | ATTRIBUTE_DECORATE | ATTRIBUTE_FOREGROUND | ATTRIBUTE_BACKGROUND

record attribute =
  attribute_begin :: nat
  attribute_end :: nat
  attribute_type :: attribute_type
  attribute_value :: "32 word"

definition SCIM_BRIDGE_ATTRIBUTE_DECORATE_NONE :: "32 word" where
  "SCIM_BRIDGE_ATTRIBUTE_DECORATE_NONE = 0x1000000"
definition SCIM_BRIDGE_ATTRIBUTE_DECORATE_UNDERLINE :: "32 word" where
  "SCIM_BRIDGE_ATTRIBUTE_DECORATE_UNDERLINE = 0x2000000"
definition SCIM_BRIDGE_ATTRIBUTE_DECORATE_HIGHLIGHT :: "32 word" where
  "SCIM_BRIDGE_ATTRIBUTE_DECORATE_HIGHLIGHT = 0x4000000"
definition SCIM_BRIDGE_ATTRIBUTE_DECORATE_REVERSE :: "32 word" where
  "SCIM_BRIDGE_ATTRIBUTE_DECORATE_REVERSE = 0x8000000"

definition scim_bridge_alloc_attribute :: attribute where
  "scim_bridge_alloc_attribute =
     \<lparr>attribute_begin = 0, attribute_end = 0, attribute_type = ATTRIBUTE_NONE,
      attribute_value = SCIM_BRIDGE_ATTRIBUTE_DECORATE_NONE\<rparr>"

definition scim_bridge_attribute_equals :: "attribute \<Rightarrow> attribute \<Rightarrow> bool" where
  "scim_bridge_attribute_equals atr1 atr2 \<longleftrightarrow>
     attribute_begin atr1 = attribute_begin atr2 \<and> attribute_end atr1 = attribute_end atr2 \<and>
     attribute_type atr1 = attribute_type atr2 \<and> attribute_value atr1 = attribute_value atr2"

definition scim_bridge_attribute_get_type :: "attribute \<Rightarrow> attribute_type" where
  "scim_bridge_attribute_get_type a = attribute_type a"

definition scim_bridge_attribute_set_type :: "attribute_type \<Rightarrow> attribute \<Rightarrow> attribute" where
  "scim_bridge_attribute_set_type t a = a\<lparr>attribute_type := t\<rparr>"

definition scim_bridge_attribute_get_begin :: "attribute \<Rightarrow> nat" where
  "scim_bridge_attribute_get_begin a = attribute_begin a"

definition scim_bridge_attribute_set_begin :: "nat \<Rightarrow> attribute \<Rightarrow> attribute" where
  "scim_bridge_attribute_set_begin n a = a\<lparr>attribute_begin := n\<rparr>"

definition scim_bridge_attribute_get_end :: "attribute \<Rightarrow> nat" where
  "scim_bridge_attribute_get_end a = attribute_end a"

definition scim_bridge_attribute_set_end :: "nat \<Rightarrow> attribute \<Rightarrow> attribute" where
  "scim_bridge_attribute_set_end n a = a\<lparr>attribute_end := n\<rparr>"

definition scim_bridge_attribute_get_value :: "attribute \<Rightarrow> 32 word" where
  "scim_bridge_attribute_get_value a = attribute_value a"

definition scim_bridge_attribute_set_value :: "32 word \<Rightarrow> attribute \<Rightarrow> attribute" where
  "scim_bridge_attribute_set_value v a = a\<lparr>attribute_value := v\<rparr>"

definition scim_bridge_attribute_set_color ::
  "32 word \<Rightarrow> 32 word \<Rightarrow> 32 word \<Rightarrow> attribute \<Rightarrow> attribute" where
  "scim_bridge_attribute_set_color red green blue a =
     a\<lparr>attribute_value :=
        push_bit 16 (red AND 0xFF) OR push_bit 8 (green AND 0xFF) OR push_bit 0 (blue AND 0xFF)\<rparr>"

definition scim_bridge_attribute_get_red :: "attribute \<Rightarrow> 32 word" where
  "scim_bridge_attribute_get_red a = drop_bit 16 (attribute_value a AND 0xFF0000)"

definition scim_bridge_attribute_get_green :: "attribute \<Rightarrow> 32 word" where
  "scim_bridge_attribute_get_green a = drop_bit 8 (attribute_value a AND 0x00FF00)"

definition scim_bridge_attribute_get_blue :: "attribute \<Rightarrow> 32 word" where
  "scim_bridge_attribute_get_blue a = drop_bit 0 (attribute_value a AND 0x0000FF)"

definition scim_bridge_attribute_set_red :: "32 word \<Rightarrow> attribute \<Rightarrow> attribute" where
  "scim_bridge_attribute_set_red red a =
     scim_bridge_attribute_set_color red (scim_bridge_attribute_get_green a)
       (scim_bridge_attribute_get_blue a) a"

definition scim_bridge_attribute_set_green :: "32 word \<Rightarrow> attribute \<Rightarrow> attribute" where
  "scim_bridge_attribute_set_green green a =
     scim_bridge_attribute_set_color (scim_bridge_attribute_get_red a) green
       (scim_bridge_attribute_get_blue a) a"

definition scim_bridge_attribute_set_blue :: "32 word \<Rightarrow> attribute \<Rightarrow> attribute" where
  "scim_bridge_attribute_set_blue blue a =
     scim_bridge_attribute_set_color (scim_bridge_attribute_get_red a)
       (scim_bridge_attribute_get_green a) blue a"

section \<open>Colours\<close>

lemmas color_defs =
  scim_bridge_attribute_set_color_def scim_bridge_attribute_get_red_def
  scim_bridge_attribute_get_green_def scim_bridge_attribute_get_blue_def
  scim_bridge_attribute_set_red_def scim_bridge_attribute_set_green_def
  scim_bridge_attribute_set_blue_def

text \<open>The bits of the masks of one byte.\<close>

lemma bit_0xFF: "bit (0xFF :: int) n \<longleftrightarrow> n < 8"
proof -
  have "(0xFF :: int) = mask 8" by (simp add: mask_eq_exp_minus_1)
  then show ?thesis by (simp only: bit_mask_iff) auto
qed

lemma mask_0xFF00: "(0xFF00 :: int) = push_bit 8 0xFF" "(0xFF0000 :: int) = push_bit 16 0xFF"
  by simp_all

lemma bit_0xFF00: "bit (0xFF00 :: int) n \<longleftrightarrow> 8 \<le> n \<and> n < 16"
  "bit (0xFF0000 :: int) n \<longleftrightarrow> 16 \<le> n \<and> n < 24"
  by (auto simp only: mask_0xFF00 bit_push_bit_iff bit_0xFF) auto

lemmas color_bits = bit_0xFF bit_0xFF00 bit_simps

lemma get_set_color [simp]:
  "scim_bridge_attribute_get_red (scim_bridge_attribute_set_color r g b a) = r AND 0xFF"
  "scim_bridge_attribute_get_green (scim_bridge_attribute_set_color r g b a) = g AND 0xFF"
  "scim_bridge_attribute_get_blue (scim_bridge_attribute_set_color r g b a) = b AND 0xFF"
  by (rule bit_eqI; auto simp: color_defs color_bits)+

lemma color_component_and [simp]:
  "scim_bridge_attribute_get_red a AND 0xFF = scim_bridge_attribute_get_red a"
  "scim_bridge_attribute_get_green a AND 0xFF = scim_bridge_attribute_get_green a"
  "scim_bridge_attribute_get_blue a AND 0xFF = scim_bridge_attribute_get_blue a"
  by (rule bit_eqI; auto simp: color_defs color_bits)+

lemma set_color_set_color [simp]:
  "scim_bridge_attribute_set_color r g b (scim_bridge_attribute_set_color r' g' b' a) =
   scim_bridge_attribute_set_color r g b a"
  by (simp add: scim_bridge_attribute_set_color_def)

lemma set_color_and [simp]:
  "scim_bridge_attribute_set_color (r AND 0xFF) g b a = scim_bridge_attribute_set_color r g b a"
  "scim_bridge_attribute_set_color r (g AND 0xFF) b a = scim_bridge_attribute_set_color r g b a"
  "scim_bridge_attribute_set_color r g (b AND 0xFF) a = scim_bridge_attribute_set_color r g b a"
  by (simp_all add: scim_bridge_attribute_set_color_def and.assoc)

definition one_byte :: "32 word \<Rightarrow> bool" where
  "one_byte v \<longleftrightarrow> v AND 0xFF = v"

interpretation red_green: independent_accessors
  scim_bridge_attribute_get_red scim_bridge_attribute_set_red one_byte
  scim_bridge_attribute_get_green scim_bridge_attribute_set_green one_byte
  by unfold_locales
    (simp_all add: one_byte_def scim_bridge_attribute_set_red_def scim_bridge_attribute_set_green_def)

interpretation green_blue: independent_accessors
  scim_bridge_attribute_get_green scim_bridge_attribute_set_green one_byte
  scim_bridge_attribute_get_blue scim_bridge_attribute_set_blue one_byte
  by unfold_locales
    (simp_all add: one_byte_def scim_bridge_attribute_set_blue_def scim_bridge_attribute_set_green_def)

interpretation range_begin: accessor
  scim_bridge_attribute_get_begin scim_bridge_attribute_set_begin "\<lambda>_. True"
  by unfold_locales
    (simp_all add: scim_bridge_attribute_get_begin_def scim_bridge_attribute_set_begin_def)

text \<open>a colour stored in an attribute is read back component by component, reduced to one byte
  each, and changing one component keeps the other two, whatever the attribute's word was.\<close>

theorem attribute_colors:
  "scim_bridge_attribute_get_red (scim_bridge_attribute_set_color r g b a) = r AND 0xFF \<and>
   scim_bridge_attribute_get_green (scim_bridge_attribute_set_color r g b a) = g AND 0xFF \<and>
   scim_bridge_attribute_get_blue (scim_bridge_attribute_set_color r g b a) = b AND 0xFF \<and>
   scim_bridge_attribute_get_red (scim_bridge_attribute_set_red r a) = r AND 0xFF \<and>
   scim_bridge_attribute_get_green (scim_bridge_attribute_set_red r a) = scim_bridge_attribute_get_green a \<and>
   scim_bridge_attribute_get_blue (scim_bridge_attribute_set_green g a) = scim_bridge_attribute_get_blue a \<and>
   scim_bridge_attribute_get_red (scim_bridge_attribute_set_blue b a) = scim_bridge_attribute_get_red a"
  by (simp add: scim_bridge_attribute_set_red_def scim_bridge_attribute_set_green_def
      scim_bridge_attribute_set_blue_def)

end
