(* ===== verification/Bridge_Constants.thy ===== *)
theory Bridge_Constants
  imports Main
begin

text \<open>
  \<^verbatim>\<open>extras/immodules/common/scim-bridge-message-constant.h\<close>: the strings that the agent and its
  clients exchange. \<open>message_constants\<close> collects their definitions. The dispatcher of the client
  compares headers one after the other, so it matters that those it tests are distinct.
\<close>

definition SCIM_BRIDGE_MESSAGE_SET_PREEDIT_MODE :: string where
  "SCIM_BRIDGE_MESSAGE_SET_PREEDIT_MODE = ''set_preedit_mode''"
definition SCIM_BRIDGE_MESSAGE_PREEDIT_MODE_CHANGED :: string where
  "SCIM_BRIDGE_MESSAGE_PREEDIT_MODE_CHANGED = ''preedit_mode_changed''"
definition SCIM_BRIDGE_MESSAGE_EMBEDDED :: string where
  "SCIM_BRIDGE_MESSAGE_EMBEDDED = ''embedded''"
definition SCIM_BRIDGE_MESSAGE_FLOATING :: string where
  "SCIM_BRIDGE_MESSAGE_FLOATING = ''floating''"
definition SCIM_BRIDGE_MESSAGE_HANGING :: string where
  "SCIM_BRIDGE_MESSAGE_HANGING = ''hanging''"
definition SCIM_BRIDGE_MESSAGE_ANY :: string where
  "SCIM_BRIDGE_MESSAGE_ANY = ''any''"
definition SCIM_BRIDGE_MESSAGE_UPDATE_PREEDIT :: string where
  "SCIM_BRIDGE_MESSAGE_UPDATE_PREEDIT = ''update_preedit''"
definition SCIM_BRIDGE_MESSAGE_PREEDIT_UPDATED :: string where
  "SCIM_BRIDGE_MESSAGE_PREEDIT_UPDATED = ''preedit_updated''"
definition SCIM_BRIDGE_MESSAGE_SET_PREEDIT_STRING :: string where
  "SCIM_BRIDGE_MESSAGE_SET_PREEDIT_STRING = ''set_preedit_string''"
definition SCIM_BRIDGE_MESSAGE_SET_PREEDIT_ATTRIBUTES :: string where
  "SCIM_BRIDGE_MESSAGE_SET_PREEDIT_ATTRIBUTES = ''set_preedit_attributes''"
definition SCIM_BRIDGE_MESSAGE_SET_PREEDIT_CURSOR_POSITION :: string where
  "SCIM_BRIDGE_MESSAGE_SET_PREEDIT_CURSOR_POSITION = ''set_preedit_cursor_position''"
definition SCIM_BRIDGE_MESSAGE_SET_PREEDIT_SHOWN :: string where
  "SCIM_BRIDGE_MESSAGE_SET_PREEDIT_SHOWN = ''set_preedit_shown''"
definition SCIM_BRIDGE_MESSAGE_CHANGE_FOCUS :: string where
  "SCIM_BRIDGE_MESSAGE_CHANGE_FOCUS = ''change_focus''"
definition SCIM_BRIDGE_MESSAGE_FOCUS_CHANGED :: string where
  "SCIM_BRIDGE_MESSAGE_FOCUS_CHANGED = ''focus_changed''"
definition SCIM_BRIDGE_MESSAGE_HANDLE_KEY_EVENT :: string where
  "SCIM_BRIDGE_MESSAGE_HANDLE_KEY_EVENT = ''handle_key_event''"
definition SCIM_BRIDGE_MESSAGE_KEY_EVENT_HANDLED :: string where
  "SCIM_BRIDGE_MESSAGE_KEY_EVENT_HANDLED = ''key_event_handled''"
definition SCIM_BRIDGE_MESSAGE_SET_CURSOR_LOCATION :: string where
  "SCIM_BRIDGE_MESSAGE_SET_CURSOR_LOCATION = ''set_cursor_location''"
definition SCIM_BRIDGE_MESSAGE_CURSOR_LOCATION_CHANGED :: string where
  "SCIM_BRIDGE_MESSAGE_CURSOR_LOCATION_CHANGED = ''cursor_location_changed''"
definition SCIM_BRIDGE_MESSAGE_REGISTER_IMCONTEXT :: string where
  "SCIM_BRIDGE_MESSAGE_REGISTER_IMCONTEXT = ''register_imcontext''"
definition SCIM_BRIDGE_MESSAGE_IMCONTEXT_REGISTERED :: string where
  "SCIM_BRIDGE_MESSAGE_IMCONTEXT_REGISTERED = ''imcontext_registered''"
definition SCIM_BRIDGE_MESSAGE_DEREGISTER_IMCONTEXT :: string where
  "SCIM_BRIDGE_MESSAGE_DEREGISTER_IMCONTEXT = ''deregister_imcontext''"
definition SCIM_BRIDGE_MESSAGE_IMCONTEXT_DEREGISTERED :: string where
  "SCIM_BRIDGE_MESSAGE_IMCONTEXT_DEREGISTERED = ''imcontext_deregister''"
definition SCIM_BRIDGE_MESSAGE_RESET_IMCONTEXT :: string where
  "SCIM_BRIDGE_MESSAGE_RESET_IMCONTEXT = ''reset_imcontext''"
definition SCIM_BRIDGE_MESSAGE_IMCONTEXT_RESETED :: string where
  "SCIM_BRIDGE_MESSAGE_IMCONTEXT_RESETED = ''imcontext_reseted''"
definition SCIM_BRIDGE_MESSAGE_FORWARD_KEY_EVENT :: string where
  "SCIM_BRIDGE_MESSAGE_FORWARD_KEY_EVENT = ''forward_key_event''"
definition SCIM_BRIDGE_MESSAGE_SET_COMMIT_STRING :: string where
  "SCIM_BRIDGE_MESSAGE_SET_COMMIT_STRING = ''set_commit_string''"
definition SCIM_BRIDGE_MESSAGE_COMMIT_STRING :: string where
  "SCIM_BRIDGE_MESSAGE_COMMIT_STRING = ''commit_string''"
definition SCIM_BRIDGE_MESSAGE_STRING_COMMITED :: string where
  "SCIM_BRIDGE_MESSAGE_STRING_COMMITED = ''string_commited''"
definition SCIM_BRIDGE_MESSAGE_BEEP :: string where
  "SCIM_BRIDGE_MESSAGE_BEEP = ''beep''"
definition SCIM_BRIDGE_MESSAGE_GET_SURROUNDING_TEXT :: string where
  "SCIM_BRIDGE_MESSAGE_GET_SURROUNDING_TEXT = ''get_surrounding_text''"
definition SCIM_BRIDGE_MESSAGE_DELETE_SURROUNDING_TEXT :: string where
  "SCIM_BRIDGE_MESSAGE_DELETE_SURROUNDING_TEXT = ''delete_surrounding_text''"
definition SCIM_BRIDGE_MESSAGE_REPLACE_SURROUNDING_TEXT :: string where
  "SCIM_BRIDGE_MESSAGE_REPLACE_SURROUNDING_TEXT = ''replace_surrounding_text''"
definition SCIM_BRIDGE_MESSAGE_SURROUNDING_TEXT_GOTTEN :: string where
  "SCIM_BRIDGE_MESSAGE_SURROUNDING_TEXT_GOTTEN = ''surrounding_text_gotten''"
definition SCIM_BRIDGE_MESSAGE_SURROUNDING_TEXT_DELETED :: string where
  "SCIM_BRIDGE_MESSAGE_SURROUNDING_TEXT_DELETED = ''surrounding_text_deleted''"
definition SCIM_BRIDGE_MESSAGE_SURROUNDING_TEXT_REPLACED :: string where
  "SCIM_BRIDGE_MESSAGE_SURROUNDING_TEXT_REPLACED = ''surrounding_text_replaced''"
definition SCIM_BRIDGE_MESSAGE_IMENGINE_STATUS_CHANGED :: string where
  "SCIM_BRIDGE_MESSAGE_IMENGINE_STATUS_CHANGED = ''imengine_status_changed''"
definition SCIM_BRIDGE_MESSAGE_ENABLE_IMCONTEXT :: string where
  "SCIM_BRIDGE_MESSAGE_ENABLE_IMCONTEXT = ''enable_imcontext''"
definition SCIM_BRIDGE_MESSAGE_ENABLED :: string where
  "SCIM_BRIDGE_MESSAGE_ENABLED = ''enabled''"
definition SCIM_BRIDGE_MESSAGE_DISABLE_IMCONTEXT :: string where
  "SCIM_BRIDGE_MESSAGE_DISABLE_IMCONTEXT = ''disable_imcontext''"
definition SCIM_BRIDGE_MESSAGE_DISABLED :: string where
  "SCIM_BRIDGE_MESSAGE_DISABLED = ''disabled''"
definition SCIM_BRIDGE_MESSAGE_SHIFT :: string where
  "SCIM_BRIDGE_MESSAGE_SHIFT = ''shift''"
definition SCIM_BRIDGE_MESSAGE_CONTROL :: string where
  "SCIM_BRIDGE_MESSAGE_CONTROL = ''control''"
definition SCIM_BRIDGE_MESSAGE_ALT :: string where
  "SCIM_BRIDGE_MESSAGE_ALT = ''alt''"
definition SCIM_BRIDGE_MESSAGE_META :: string where
  "SCIM_BRIDGE_MESSAGE_META = ''meta''"
definition SCIM_BRIDGE_MESSAGE_SUPER :: string where
  "SCIM_BRIDGE_MESSAGE_SUPER = ''super''"
definition SCIM_BRIDGE_MESSAGE_HYPER :: string where
  "SCIM_BRIDGE_MESSAGE_HYPER = ''hyper''"
definition SCIM_BRIDGE_MESSAGE_CAPS_LOCK :: string where
  "SCIM_BRIDGE_MESSAGE_CAPS_LOCK = ''caps_lock''"
definition SCIM_BRIDGE_MESSAGE_NUM_LOCK :: string where
  "SCIM_BRIDGE_MESSAGE_NUM_LOCK = ''num_lock''"
definition SCIM_BRIDGE_MESSAGE_KANA_RO :: string where
  "SCIM_BRIDGE_MESSAGE_KANA_RO = ''kana_ro''"
definition SCIM_BRIDGE_MESSAGE_UNKNOWN :: string where
  "SCIM_BRIDGE_MESSAGE_UNKNOWN = ''unknown''"
definition SCIM_BRIDGE_MESSAGE_TRUE :: string where
  "SCIM_BRIDGE_MESSAGE_TRUE = ''true''"
definition SCIM_BRIDGE_MESSAGE_FALSE :: string where
  "SCIM_BRIDGE_MESSAGE_FALSE = ''false''"
definition SCIM_BRIDGE_MESSAGE_NONE :: string where
  "SCIM_BRIDGE_MESSAGE_NONE = ''none''"
definition SCIM_BRIDGE_MESSAGE_DECORATE :: string where
  "SCIM_BRIDGE_MESSAGE_DECORATE = ''decoreate''"
definition SCIM_BRIDGE_MESSAGE_FOREGROUND :: string where
  "SCIM_BRIDGE_MESSAGE_FOREGROUND = ''foreground''"
definition SCIM_BRIDGE_MESSAGE_BACKGROUND :: string where
  "SCIM_BRIDGE_MESSAGE_BACKGROUND = ''background''"
definition SCIM_BRIDGE_MESSAGE_COLOR :: string where
  "SCIM_BRIDGE_MESSAGE_COLOR = ''#''"
definition SCIM_BRIDGE_MESSAGE_UNDERLINE :: string where
  "SCIM_BRIDGE_MESSAGE_UNDERLINE = ''underline''"
definition SCIM_BRIDGE_MESSAGE_HIGHLIGHT :: string where
  "SCIM_BRIDGE_MESSAGE_HIGHLIGHT = ''highlight''"
definition SCIM_BRIDGE_MESSAGE_REVERSE :: string where
  "SCIM_BRIDGE_MESSAGE_REVERSE = ''reverse''"

lemmas message_constants =
  SCIM_BRIDGE_MESSAGE_SET_PREEDIT_MODE_def
  SCIM_BRIDGE_MESSAGE_PREEDIT_MODE_CHANGED_def
  SCIM_BRIDGE_MESSAGE_EMBEDDED_def
  SCIM_BRIDGE_MESSAGE_FLOATING_def
  SCIM_BRIDGE_MESSAGE_HANGING_def
  SCIM_BRIDGE_MESSAGE_ANY_def
  SCIM_BRIDGE_MESSAGE_UPDATE_PREEDIT_def
  SCIM_BRIDGE_MESSAGE_PREEDIT_UPDATED_def
  SCIM_BRIDGE_MESSAGE_SET_PREEDIT_STRING_def
  SCIM_BRIDGE_MESSAGE_SET_PREEDIT_ATTRIBUTES_def
  SCIM_BRIDGE_MESSAGE_SET_PREEDIT_CURSOR_POSITION_def
  SCIM_BRIDGE_MESSAGE_SET_PREEDIT_SHOWN_def
  SCIM_BRIDGE_MESSAGE_CHANGE_FOCUS_def
  SCIM_BRIDGE_MESSAGE_FOCUS_CHANGED_def
  SCIM_BRIDGE_MESSAGE_HANDLE_KEY_EVENT_def
  SCIM_BRIDGE_MESSAGE_KEY_EVENT_HANDLED_def
  SCIM_BRIDGE_MESSAGE_SET_CURSOR_LOCATION_def
  SCIM_BRIDGE_MESSAGE_CURSOR_LOCATION_CHANGED_def
  SCIM_BRIDGE_MESSAGE_REGISTER_IMCONTEXT_def
  SCIM_BRIDGE_MESSAGE_IMCONTEXT_REGISTERED_def
  SCIM_BRIDGE_MESSAGE_DEREGISTER_IMCONTEXT_def
  SCIM_BRIDGE_MESSAGE_IMCONTEXT_DEREGISTERED_def
  SCIM_BRIDGE_MESSAGE_RESET_IMCONTEXT_def
  SCIM_BRIDGE_MESSAGE_IMCONTEXT_RESETED_def
  SCIM_BRIDGE_MESSAGE_FORWARD_KEY_EVENT_def
  SCIM_BRIDGE_MESSAGE_SET_COMMIT_STRING_def
  SCIM_BRIDGE_MESSAGE_COMMIT_STRING_def
  SCIM_BRIDGE_MESSAGE_STRING_COMMITED_def
  SCIM_BRIDGE_MESSAGE_BEEP_def
  SCIM_BRIDGE_MESSAGE_GET_SURROUNDING_TEXT_def
  SCIM_BRIDGE_MESSAGE_DELETE_SURROUNDING_TEXT_def
  SCIM_BRIDGE_MESSAGE_REPLACE_SURROUNDING_TEXT_def
  SCIM_BRIDGE_MESSAGE_SURROUNDING_TEXT_GOTTEN_def
  SCIM_BRIDGE_MESSAGE_SURROUNDING_TEXT_DELETED_def
  SCIM_BRIDGE_MESSAGE_SURROUNDING_TEXT_REPLACED_def
  SCIM_BRIDGE_MESSAGE_IMENGINE_STATUS_CHANGED_def
  SCIM_BRIDGE_MESSAGE_ENABLE_IMCONTEXT_def
  SCIM_BRIDGE_MESSAGE_ENABLED_def
  SCIM_BRIDGE_MESSAGE_DISABLE_IMCONTEXT_def
  SCIM_BRIDGE_MESSAGE_DISABLED_def
  SCIM_BRIDGE_MESSAGE_SHIFT_def
  SCIM_BRIDGE_MESSAGE_CONTROL_def
  SCIM_BRIDGE_MESSAGE_ALT_def
  SCIM_BRIDGE_MESSAGE_META_def
  SCIM_BRIDGE_MESSAGE_SUPER_def
  SCIM_BRIDGE_MESSAGE_HYPER_def
  SCIM_BRIDGE_MESSAGE_CAPS_LOCK_def
  SCIM_BRIDGE_MESSAGE_NUM_LOCK_def
  SCIM_BRIDGE_MESSAGE_KANA_RO_def
  SCIM_BRIDGE_MESSAGE_UNKNOWN_def
  SCIM_BRIDGE_MESSAGE_TRUE_def
  SCIM_BRIDGE_MESSAGE_FALSE_def
  SCIM_BRIDGE_MESSAGE_NONE_def
  SCIM_BRIDGE_MESSAGE_DECORATE_def
  SCIM_BRIDGE_MESSAGE_FOREGROUND_def
  SCIM_BRIDGE_MESSAGE_BACKGROUND_def
  SCIM_BRIDGE_MESSAGE_COLOR_def
  SCIM_BRIDGE_MESSAGE_UNDERLINE_def
  SCIM_BRIDGE_MESSAGE_HIGHLIGHT_def
  SCIM_BRIDGE_MESSAGE_REVERSE_def

end
