(* ===== verification/Bridge_Client_State.thy ===== *)
theory Bridge_Client_State
  imports Bridge_Stream Bridge_Key_Event Bridge_Attribute Bridge_Constants Bridge_String
begin

text \<open>
  \<^verbatim>\<open>extras/immodules/client-common/scim-bridge-client.c\<close>, the state: the static variables of the
  client, the list of the registered input contexts with its search, and the way messages are
  written out. An input context is the address of its object (\<open>imcontext\<close>); its id is kept by the
  object and read and written through \<^verbatim>\<open>scim_bridge_client_imcontext_get_id\<close> and \<^verbatim>\<open>_set_id\<close>
  (\<open>ids\<close>). What the toolkit does with an input context (\<^verbatim>\<open>scim-bridge-client-imcontext.h\<close>) is a
  parameter: a record of functions on a toolkit state of any type. These functions are taken not to
  call back into the client.
\<close>

type_synonym imcontext = nat

datatype response_status = RESPONSE_PENDING | RESPONSE_SUCCEEDED | RESPONSE_FAILED | RESPONSE_DONE

record response =
  status :: response_status
  response_header :: "string option"
  consumed :: bool
  imcontext_id :: int

record 'g toolkit =
  ui_imengine_status_changed :: "imcontext \<Rightarrow> bool \<Rightarrow> 'g \<Rightarrow> 'g"
  ui_set_commit_string :: "imcontext \<Rightarrow> string \<Rightarrow> 'g \<Rightarrow> 'g"
  ui_commit :: "imcontext \<Rightarrow> 'g \<Rightarrow> 'g"
  ui_set_preedit_shown :: "imcontext \<Rightarrow> bool \<Rightarrow> 'g \<Rightarrow> 'g"
  ui_set_preedit_string :: "imcontext \<Rightarrow> string \<Rightarrow> 'g \<Rightarrow> 'g"
  ui_set_preedit_attributes :: "imcontext \<Rightarrow> attribute list \<Rightarrow> 'g \<Rightarrow> 'g"
  ui_set_preedit_cursor_position :: "imcontext \<Rightarrow> int \<Rightarrow> 'g \<Rightarrow> 'g"
  ui_update_preedit :: "imcontext \<Rightarrow> 'g \<Rightarrow> 'g"
  ui_beep :: "imcontext \<Rightarrow> 'g \<Rightarrow> 'g"
  ui_forward_key_event :: "imcontext \<Rightarrow> key_event \<Rightarrow> 'g \<Rightarrow> 'g"
  ui_get_surrounding_text :: "imcontext \<Rightarrow> int \<Rightarrow> int \<Rightarrow> 'g \<Rightarrow> (string \<times> int) option \<times> 'g"
  ui_delete_surrounding_text :: "imcontext \<Rightarrow> int \<Rightarrow> int \<Rightarrow> 'g \<Rightarrow> bool \<times> 'g"
  ui_replace_surrounding_text :: "imcontext \<Rightarrow> int \<Rightarrow> string option \<Rightarrow> 'g \<Rightarrow> bool \<times> 'g"
  ui_messenger_opened :: "'g \<Rightarrow> 'g"
  ui_messenger_closed :: "'g \<Rightarrow> 'g"

record 'g client =
  initialized :: bool
  client_messenger :: "messenger option"
  kernel :: net
  pending_response :: response
  imcontext_list :: "imcontext list"
  found_imcontext :: "imcontext option"
  list_size :: nat
  ids :: "imcontext \<Rightarrow> int"
  gui :: 'g

text \<open>The program starts with zeroed static variables; \<^verbatim>\<open>RESPONSE_PENDING\<close> is the zero of its
  enumeration.\<close>

definition client_start :: "(imcontext \<Rightarrow> int) \<Rightarrow> 'g \<Rightarrow> 'g client" where
  "client_start ids0 g =
     \<lparr>initialized = False, client_messenger = None, kernel = \<lparr>rx = [], tx = [], sent = []\<rparr>,
      pending_response = \<lparr>status = RESPONSE_PENDING, response_header = None, consumed = False,
        imcontext_id = 0\<rparr>,
      imcontext_list = [], found_imcontext = None, list_size = 0, ids = ids0, gui = g\<rparr>"

definition scim_bridge_client_imcontext_get_id :: "imcontext \<Rightarrow> 'g client \<Rightarrow> int" where
  "scim_bridge_client_imcontext_get_id ic c = ids c ic"

definition scim_bridge_client_imcontext_set_id :: "imcontext \<Rightarrow> int \<Rightarrow> 'g client \<Rightarrow> 'g client" where
  "scim_bridge_client_imcontext_set_id ic i c = c\<lparr>ids := (ids c)(ic := i)\<rparr>"

interpretation imcontext_ids: accessor "scim_bridge_client_imcontext_get_id ic"
    "scim_bridge_client_imcontext_set_id ic" "\<lambda>_. True" for ic
  by unfold_locales
    (simp_all add: scim_bridge_client_imcontext_get_id_def scim_bridge_client_imcontext_set_id_def)

definition set_status :: "response_status \<Rightarrow> 'g client \<Rightarrow> 'g client" where
  "set_status s c = c\<lparr>pending_response := (pending_response c)\<lparr>status := s\<rparr>\<rparr>"

definition set_response_header :: "string option \<Rightarrow> 'g client \<Rightarrow> 'g client" where
  "set_response_header h c = c\<lparr>pending_response := (pending_response c)\<lparr>response_header := h\<rparr>\<rparr>"

definition set_consumed :: "bool \<Rightarrow> 'g client \<Rightarrow> 'g client" where
  "set_consumed b c = c\<lparr>pending_response := (pending_response c)\<lparr>consumed := b\<rparr>\<rparr>"

definition set_imcontext_id :: "int \<Rightarrow> 'g client \<Rightarrow> 'g client" where
  "set_imcontext_id i c = c\<lparr>pending_response := (pending_response c)\<lparr>imcontext_id := i\<rparr>\<rparr>"

lemmas pending_setters =
  set_status_def set_response_header_def set_consumed_def set_imcontext_id_def

section \<open>Finding an input context\<close>

fun find_in_list :: "(imcontext \<Rightarrow> int) \<Rightarrow> int \<Rightarrow> imcontext list \<Rightarrow> imcontext option" where
  "find_in_list f i [] = None"
| "find_in_list f i (x # xs) =
     (if f x > i then None else if f x = i then Some x else find_in_list f i xs)"

text \<open>The input context found last is remembered, and tried first.\<close>

definition scim_bridge_client_find_imcontext :: "int \<Rightarrow> 'g client \<Rightarrow> imcontext option \<times> 'g client" where
  "scim_bridge_client_find_imcontext i c =
     (if i < 0 then (None, c)
      else
        (case found_imcontext c of
           Some x \<Rightarrow>
             if ids c x = i then (Some x, c)
             else (case find_in_list (ids c) i (imcontext_list c) of
                     None \<Rightarrow> (None, c)
                   | Some y \<Rightarrow> (Some y, c\<lparr>found_imcontext := Some y\<rparr>))
         | None \<Rightarrow>
             (case find_in_list (ids c) i (imcontext_list c) of
                None \<Rightarrow> (None, c)
              | Some y \<Rightarrow> (Some y, c\<lparr>found_imcontext := Some y\<rparr>))))"

text \<open>Every handler that concerns an input context looks it up by the id in the message and calls
  the toolkit when it is found; otherwise it only complains.\<close>

definition call_imcontext :: "int \<Rightarrow> (imcontext \<Rightarrow> 'g \<Rightarrow> 'g) \<Rightarrow> 'g client \<Rightarrow> 'g client" where
  "call_imcontext i f c =
     (case scim_bridge_client_find_imcontext i c of
        (None, c') \<Rightarrow> c'
      | (Some x, c') \<Rightarrow> c'\<lparr>gui := f x (gui c')\<rparr>)"

section \<open>Writing messages out\<close>

text \<open>\<^verbatim>\<open>while (get_sending_buffer_size (messenger) > 0) if (send_message (messenger, NULL))\<close> fail.\<close>

lemma send_message_consumes:
  "scim_bridge_messenger_send_message m False net = Done (rv, m', net') \<Longrightarrow> rv = RETVAL_SUCCEEDED \<Longrightarrow>
   0 < scim_bridge_messenger_get_sending_buffer_size m \<Longrightarrow> length (tx net') < length (tx net)"
  by (auto simp: scim_bridge_messenger_send_message_def Let_def
      scim_bridge_messenger_get_sending_buffer_size_def
      split: option.splits if_splits list.splits tx_event.splits)

function flush_messages :: "messenger option \<Rightarrow> net \<Rightarrow> (retval \<times> messenger option \<times> net) run" where
  "flush_messages m net =
     (if 0 < scim_bridge_messenger_get_sending_buffer_size m then
        (case scim_bridge_messenger_send_message m False net of
           Blocks \<Rightarrow> Blocks
         | Undefined \<Rightarrow> Undefined
         | Done (rv, m', net') \<Rightarrow>
             if rv = RETVAL_SUCCEEDED then flush_messages m' net' else Done (RETVAL_FAILED, m', net'))
      else Done (RETVAL_SUCCEEDED, m, net))"
  by pat_completeness auto
termination
  by (relation "measure (\<lambda>(m, net). length (tx net))") (auto dest: send_message_consumes)

declare flush_messages.simps [simp del]

definition push_and_flush :: "message option \<Rightarrow> 'g client \<Rightarrow> (retval \<times> 'g client) run" where
  "push_and_flush message c =
     run_bind (flush_messages
         (snd (scim_bridge_messenger_push_message (client_messenger c) message)) (kernel c))
       (\<lambda>(rv, m, net). Done (rv, c\<lparr>client_messenger := m, kernel := net\<rparr>))"

section \<open>Opening and closing\<close>

definition scim_bridge_client_is_messenger_opened :: "'g client \<Rightarrow> bool" where
  "scim_bridge_client_is_messenger_opened c \<longleftrightarrow> client_messenger c \<noteq> None"

definition scim_bridge_client_is_initialized :: "'g client \<Rightarrow> bool" where
  "scim_bridge_client_is_initialized c = initialized c"

definition scim_bridge_client_get_messenger_fd :: "'g client \<Rightarrow> int" where
  "scim_bridge_client_get_messenger_fd c =
     (if client_messenger c = None then -1
      else scim_bridge_messenger_get_socket_fd (client_messenger c))"

definition forget_ids :: "'g client \<Rightarrow> 'g client" where
  "forget_ids c = fold (\<lambda>x. scim_bridge_client_imcontext_set_id x (-1)) (imcontext_list c) c"

definition scim_bridge_client_close_messenger :: "'g toolkit \<Rightarrow> 'g client \<Rightarrow> retval \<times> 'g client" where
  "scim_bridge_client_close_messenger ui c =
     (if client_messenger c = None then (RETVAL_SUCCEEDED, c)
      else
        let c1 = c\<lparr>client_messenger := None\<rparr>;
            c2 = set_status RESPONSE_DONE (set_imcontext_id (-1) (set_consumed False c1));
            c3 = forget_ids c2
        in (RETVAL_SUCCEEDED, c3\<lparr>gui := ui_messenger_closed ui (gui c3)\<rparr>))"

definition scim_bridge_client_initialize :: "'g client \<Rightarrow> retval \<times> 'g client" where
  "scim_bridge_client_initialize c =
     (if initialized c then (RETVAL_SUCCEEDED, c)
      else (RETVAL_SUCCEEDED,
        c\<lparr>initialized := True, client_messenger := None, imcontext_list := [],
          found_imcontext := None, list_size := 0\<rparr>))"

definition scim_bridge_client_finalize :: "'g toolkit \<Rightarrow> 'g client \<Rightarrow> retval \<times> 'g client" where
  "scim_bridge_client_finalize ui c =
     (if \<not> initialized c then (RETVAL_SUCCEEDED, c)
      else
        let c1 = (if client_messenger c \<noteq> None then snd (scim_bridge_client_close_messenger ui c) else c)
        in (RETVAL_SUCCEEDED,
            c1\<lparr>client_messenger := None, imcontext_list := [], found_imcontext := None,
               list_size := 0, initialized := False\<rparr>))"

text \<open>\<^verbatim>\<open>scim_bridge_client_is_reconnection_enabled\<close>: the two static variables of the function are
  passed and returned; an unreadable value leaves the default.\<close>

definition scim_bridge_client_is_reconnection_enabled ::
  "string option \<Rightarrow> bool \<times> bool \<Rightarrow> bool \<times> (bool \<times> bool)" where
  "scim_bridge_client_is_reconnection_enabled env st =
     (case st of (first_time, reconnection_enabled) \<Rightarrow>
        let enabled' =
          (if first_time then
             (case env of None \<Rightarrow> reconnection_enabled
              | Some s \<Rightarrow>
                  (case scim_bridge_string_to_boolean (Some s) of None \<Rightarrow> reconnection_enabled
                   | Some b \<Rightarrow> b))
           else reconnection_enabled)
        in (enabled', (False, enabled')))"

end
