(* ===== verification/Bridge_Handlers.thy ===== *)
theory Bridge_Handlers
  imports Bridge_Client_State
begin

text \<open>
  \<^verbatim>\<open>scim-bridge-client.c\<close>, the message handlers: one \<^verbatim>\<open>received_message_*\<close> function per message that
  the agent sends. Each parses the arguments, looks the input context up and calls the toolkit, or
  settles the pending response; five of them answer the agent. Complaints are not modelled, except
  one that passes an uninitialised \<^verbatim>\<open>int\<close> where \<^verbatim>\<open>%s\<close> wants a string.
\<close>

abbreviation arg :: "message \<Rightarrow> nat \<Rightarrow> string option" where
  "arg message i \<equiv> scim_bridge_message_get_argument (Some message) i"

section \<open>Settling the pending response\<close>

text \<open>\<^verbatim>\<open>pending_response.status == RESPONSE_PENDING && strcmp (pending_response.header, header) == 0\<close>.\<close>

definition awaits :: "message \<Rightarrow> 'g client \<Rightarrow> bool run" where
  "awaits message c =
     (if status (pending_response c) = RESPONSE_PENDING then
        (case response_header (pending_response c) of
           None \<Rightarrow> Undefined
         | Some h \<Rightarrow> Done (h = scim_bridge_message_get_header message))
      else Done False)"

definition received_message_unknown :: "message \<Rightarrow> 'g client \<Rightarrow> (retval \<times> 'g client) run" where
  "received_message_unknown message c = Done (RETVAL_SUCCEEDED, c)"

definition received_message_preedit_mode_changed :: "message \<Rightarrow> 'g client \<Rightarrow> (retval \<times> 'g client) run" where
  "received_message_preedit_mode_changed message c =
     run_bind (awaits message c) (\<lambda>b.
       Done (RETVAL_SUCCEEDED, if b then set_status RESPONSE_SUCCEEDED c else c))"

definition received_message_imcontext_deregistered :: "message \<Rightarrow> 'g client \<Rightarrow> (retval \<times> 'g client) run" where
  "received_message_imcontext_deregistered message c =
     run_bind (awaits message c) (\<lambda>b.
       Done (RETVAL_SUCCEEDED, if b then set_status RESPONSE_SUCCEEDED c else c))"

definition received_message_imcontext_reseted :: "message \<Rightarrow> 'g client \<Rightarrow> (retval \<times> 'g client) run" where
  "received_message_imcontext_reseted message c =
     run_bind (awaits message c) (\<lambda>b.
       Done (RETVAL_SUCCEEDED, if b then set_status RESPONSE_SUCCEEDED c else c))"

definition received_message_imcontext_enabled :: "message \<Rightarrow> 'g client \<Rightarrow> (retval \<times> 'g client) run" where
  "received_message_imcontext_enabled message c =
     run_bind (awaits message c) (\<lambda>b.
       Done (RETVAL_SUCCEEDED, if b then set_status RESPONSE_SUCCEEDED c else c))"

definition received_message_imcontext_disabled :: "message \<Rightarrow> 'g client \<Rightarrow> (retval \<times> 'g client) run" where
  "received_message_imcontext_disabled message c =
     run_bind (awaits message c) (\<lambda>b.
       Done (RETVAL_SUCCEEDED, if b then set_status RESPONSE_SUCCEEDED c else c))"

definition received_message_focus_changed :: "message \<Rightarrow> 'g client \<Rightarrow> (retval \<times> 'g client) run" where
  "received_message_focus_changed message c =
     run_bind (awaits message c) (\<lambda>b.
       Done (RETVAL_SUCCEEDED, if b then set_status RESPONSE_SUCCEEDED c else c))"

definition received_message_imcontext_registered :: "message \<Rightarrow> 'g client \<Rightarrow> (retval \<times> 'g client) run" where
  "received_message_imcontext_registered message c =
     run_bind (awaits message c) (\<lambda>b.
       Done (RETVAL_SUCCEEDED,
         if b then
           (case scim_bridge_string_to_int (arg message 0) of
              None \<Rightarrow> set_status RESPONSE_FAILED c
            | Some ic_id \<Rightarrow>
                if ic_id < 0 then set_status RESPONSE_FAILED c
                else set_status RESPONSE_SUCCEEDED (set_imcontext_id ic_id c))
         else c))"

definition received_message_key_event_handled :: "message \<Rightarrow> 'g client \<Rightarrow> (retval \<times> 'g client) run" where
  "received_message_key_event_handled message c =
     run_bind (awaits message c) (\<lambda>b.
       Done (RETVAL_SUCCEEDED,
         if b then
           (case scim_bridge_string_to_boolean (arg message 0) of
              None \<Rightarrow> set_status RESPONSE_FAILED c
            | Some k \<Rightarrow> set_status RESPONSE_SUCCEEDED (set_consumed k c))
         else c))"

definition received_message_cursor_location_changed :: "message \<Rightarrow> 'g client \<Rightarrow> (retval \<times> 'g client) run" where
  "received_message_cursor_location_changed message c = Done (RETVAL_SUCCEEDED, c)"

section \<open>Calls of the toolkit\<close>

definition received_message_imengine_status_changed ::
  "'g toolkit \<Rightarrow> message \<Rightarrow> 'g client \<Rightarrow> (retval \<times> 'g client) run" where
  "received_message_imengine_status_changed ui message c =
     (case (scim_bridge_string_to_int (arg message 0), scim_bridge_string_to_boolean (arg message 1)) of
        (Some ic_id, Some enabled) \<Rightarrow>
          Done (RETVAL_SUCCEEDED,
            call_imcontext ic_id (\<lambda>ic. ui_imengine_status_changed ui ic enabled) c)
      | _ \<Rightarrow> Done (RETVAL_SUCCEEDED, c))"

definition received_message_set_commit_string ::
  "'g toolkit \<Rightarrow> message \<Rightarrow> 'g client \<Rightarrow> (retval \<times> 'g client) run" where
  "received_message_set_commit_string ui message c =
     (case scim_bridge_string_to_int (arg message 0) of
        None \<Rightarrow> Done (RETVAL_SUCCEEDED, c)
      | Some ic_id \<Rightarrow>
          let str = (case arg message 1 of None \<Rightarrow> [] | Some s \<Rightarrow> s) in
          Done (RETVAL_SUCCEEDED, call_imcontext ic_id (\<lambda>ic. ui_set_commit_string ui ic str) c))"

definition received_message_set_preedit_shown ::
  "'g toolkit \<Rightarrow> message \<Rightarrow> 'g client \<Rightarrow> (retval \<times> 'g client) run" where
  "received_message_set_preedit_shown ui message c =
     (case (scim_bridge_string_to_int (arg message 0), scim_bridge_string_to_boolean (arg message 1)) of
        (Some ic_id, Some shown) \<Rightarrow>
          Done (RETVAL_SUCCEEDED, call_imcontext ic_id (\<lambda>ic. ui_set_preedit_shown ui ic shown) c)
      | _ \<Rightarrow> Done (RETVAL_SUCCEEDED, c))"

definition received_message_set_preedit_string ::
  "'g toolkit \<Rightarrow> message \<Rightarrow> 'g client \<Rightarrow> (retval \<times> 'g client) run" where
  "received_message_set_preedit_string ui message c =
     (case scim_bridge_string_to_int (arg message 0) of
        None \<Rightarrow> Done (RETVAL_SUCCEEDED, c)
      | Some ic_id \<Rightarrow>
          let str = (case arg message 1 of None \<Rightarrow> [] | Some s \<Rightarrow> s) in
          Done (RETVAL_SUCCEEDED, call_imcontext ic_id (\<lambda>ic. ui_set_preedit_string ui ic str) c))"

text \<open>\<^verbatim>\<open>unsigned int\<close> values are passed to \<^verbatim>\<open>int\<close> parameters of the toolkit.\<close>

definition received_message_set_preedit_cursor_position ::
  "'g toolkit \<Rightarrow> message \<Rightarrow> 'g client \<Rightarrow> (retval \<times> 'g client) run" where
  "received_message_set_preedit_cursor_position ui message c =
     (case (scim_bridge_string_to_int (arg message 0), scim_bridge_string_to_uint (arg message 1)) of
        (Some ic_id, Some position) \<Rightarrow>
          Done (RETVAL_SUCCEEDED,
            call_imcontext ic_id (\<lambda>ic. ui_set_preedit_cursor_position ui ic (sint position)) c)
      | _ \<Rightarrow> Done (RETVAL_SUCCEEDED, c))"

definition received_message_beep ::
  "'g toolkit \<Rightarrow> message \<Rightarrow> 'g client \<Rightarrow> (retval \<times> 'g client) run" where
  "received_message_beep ui message c =
     (case scim_bridge_string_to_int (arg message 0) of
        None \<Rightarrow> Done (RETVAL_SUCCEEDED, c)
      | Some ic_id \<Rightarrow> Done (RETVAL_SUCCEEDED, call_imcontext ic_id (ui_beep ui) c))"

subsection \<open>Preedit attributes\<close>

definition hex_digit :: "char \<Rightarrow> 32 word option" where
  "hex_digit = map_of
     [(CHR ''0'', 0), (CHR ''1'', 1), (CHR ''2'', 2), (CHR ''3'', 3), (CHR ''4'', 4), (CHR ''5'', 5),
      (CHR ''6'', 6), (CHR ''7'', 7), (CHR ''8'', 8), (CHR ''9'', 9),
      (CHR ''a'', 10), (CHR ''A'', 10), (CHR ''b'', 11), (CHR ''B'', 11), (CHR ''c'', 12), (CHR ''C'', 12),
      (CHR ''d'', 13), (CHR ''D'', 13), (CHR ''e'', 14), (CHR ''E'', 14), (CHR ''f'', 15), (CHR ''F'', 15)]"

text \<open>The loop over the six digits. An invalid digit overwrites the value, and the loop goes on.\<close>

fun color_loop :: "string \<Rightarrow> 32 word \<Rightarrow> 32 word" where
  "color_loop [] color_val = color_val"
| "color_loop (c # s) color_val =
     color_loop s
       (case hex_digit c of None \<Rightarrow> 0x1000000 | Some d \<Rightarrow> push_bit 4 color_val + d)"

definition parse_color :: "string \<Rightarrow> 32 word" where
  "parse_color value_str =
     (if take (length SCIM_BRIDGE_MESSAGE_COLOR) value_str = SCIM_BRIDGE_MESSAGE_COLOR then
        let color_str = drop (length SCIM_BRIDGE_MESSAGE_COLOR) value_str in
        if length color_str = 6 then color_loop color_str 0 else 0x1000000
      else 0x1000000)"

definition parse_decoration :: "string \<Rightarrow> attribute \<Rightarrow> attribute" where
  "parse_decoration value_str a =
     (let a1 = scim_bridge_attribute_set_type ATTRIBUTE_DECORATE a in
      if value_str = SCIM_BRIDGE_MESSAGE_HIGHLIGHT
      then scim_bridge_attribute_set_value SCIM_BRIDGE_ATTRIBUTE_DECORATE_HIGHLIGHT a1
      else if value_str = SCIM_BRIDGE_MESSAGE_UNDERLINE
      then scim_bridge_attribute_set_value SCIM_BRIDGE_ATTRIBUTE_DECORATE_UNDERLINE a1
      else if value_str = SCIM_BRIDGE_MESSAGE_REVERSE
      then scim_bridge_attribute_set_value SCIM_BRIDGE_ATTRIBUTE_DECORATE_REVERSE a1
      else scim_bridge_attribute_set_value SCIM_BRIDGE_ATTRIBUTE_DECORATE_NONE
             (scim_bridge_attribute_set_type ATTRIBUTE_NONE a1))"

definition parse_ground :: "string \<Rightarrow> string \<Rightarrow> attribute \<Rightarrow> attribute" where
  "parse_ground type_str value_str a =
     (let a1 = scim_bridge_attribute_set_type
                 (if type_str = SCIM_BRIDGE_MESSAGE_FOREGROUND then ATTRIBUTE_FOREGROUND
                  else ATTRIBUTE_BACKGROUND) a;
          color_val = parse_color value_str in
      if color_val > 0xFFFFFF
      then scim_bridge_attribute_set_value SCIM_BRIDGE_ATTRIBUTE_DECORATE_NONE
             (scim_bridge_attribute_set_type ATTRIBUTE_NONE a1)
      else scim_bridge_attribute_set_color
             (drop_bit 16 (color_val AND 0xFF0000)) (drop_bit 8 (color_val AND 0x00FF00))
             (drop_bit 0 (color_val AND 0x0000FF)) a1)"

text \<open>One round of the loop over the attributes, on the four arguments of the attribute.\<close>

definition parse_attribute ::
  "string option \<Rightarrow> string option \<Rightarrow> string \<Rightarrow> string \<Rightarrow> attribute" where
  "parse_attribute begin_str end_str type_str value_str =
     (let a = scim_bridge_alloc_attribute in
      case (scim_bridge_string_to_uint begin_str, scim_bridge_string_to_uint end_str) of
        (Some b, Some e) \<Rightarrow>
          let a1 = scim_bridge_attribute_set_end (unat e) (scim_bridge_attribute_set_begin (unat b) a) in
          if type_str = SCIM_BRIDGE_MESSAGE_NONE then scim_bridge_attribute_set_type ATTRIBUTE_NONE a1
          else if type_str = SCIM_BRIDGE_MESSAGE_DECORATE then parse_decoration value_str a1
          else if type_str = SCIM_BRIDGE_MESSAGE_FOREGROUND \<or> type_str = SCIM_BRIDGE_MESSAGE_BACKGROUND
          then parse_ground type_str value_str a1
          else a1
      | _ \<Rightarrow>
          scim_bridge_attribute_set_value SCIM_BRIDGE_ATTRIBUTE_DECORATE_NONE
            (scim_bridge_attribute_set_type ATTRIBUTE_NONE
              (scim_bridge_attribute_set_end 0 (scim_bridge_attribute_set_begin 0 a))))"

definition received_message_set_preedit_attributes ::
  "'g toolkit \<Rightarrow> message \<Rightarrow> 'g client \<Rightarrow> (retval \<times> 'g client) run" where
  "received_message_set_preedit_attributes ui message c =
     (case scim_bridge_string_to_int (arg message 0) of
        None \<Rightarrow> Done (RETVAL_SUCCEEDED, c)
      | Some ic_id \<Rightarrow>
          if scim_bridge_message_get_argument_count message mod 4 \<noteq> 1 then Done (RETVAL_SUCCEEDED, c)
          else
            let attribute_count = (scim_bridge_message_get_argument_count message - 1) div 4;
                attributes = map (\<lambda>i. parse_attribute (arg message (i * 4 + 1)) (arg message (i * 4 + 2))
                    (the (arg message (i * 4 + 3))) (the (arg message (i * 4 + 4))))
                  [0..<attribute_count] in
            Done (RETVAL_SUCCEEDED,
              call_imcontext ic_id (\<lambda>ic. ui_set_preedit_attributes ui ic attributes) c))"

subsection \<open>Forwarded key events\<close>

record modifier_flags =
  shift_flag :: bool
  control_flag :: bool
  alt_flag :: bool
  meta_flag :: bool
  super_flag :: bool
  hyper_flag :: bool
  caps_lock_flag :: bool
  num_lock_flag :: bool
  unknown_flag :: bool
  kana_ro_flag :: bool

definition no_modifiers :: modifier_flags where
  "no_modifiers = \<lparr>shift_flag = False, control_flag = False, alt_flag = False, meta_flag = False,
     super_flag = False, hyper_flag = False, caps_lock_flag = False, num_lock_flag = False,
     unknown_flag = False, kana_ro_flag = False\<rparr>"

definition read_modifier :: "string \<Rightarrow> modifier_flags \<Rightarrow> modifier_flags" where
  "read_modifier modifier_str f =
     (if modifier_str = SCIM_BRIDGE_MESSAGE_SHIFT then f\<lparr>shift_flag := True\<rparr>
      else if modifier_str = SCIM_BRIDGE_MESSAGE_CONTROL then f\<lparr>control_flag := True\<rparr>
      else if modifier_str = SCIM_BRIDGE_MESSAGE_ALT then f\<lparr>alt_flag := True\<rparr>
      else if modifier_str = SCIM_BRIDGE_MESSAGE_META then f\<lparr>meta_flag := True\<rparr>
      else if modifier_str = SCIM_BRIDGE_MESSAGE_SUPER then f\<lparr>super_flag := True\<rparr>
      else if modifier_str = SCIM_BRIDGE_MESSAGE_HYPER then f\<lparr>hyper_flag := True\<rparr>
      else if modifier_str = SCIM_BRIDGE_MESSAGE_CAPS_LOCK then f\<lparr>caps_lock_flag := True\<rparr>
      else if modifier_str = SCIM_BRIDGE_MESSAGE_NUM_LOCK then f\<lparr>num_lock_flag := True\<rparr>
      else if modifier_str = SCIM_BRIDGE_MESSAGE_KANA_RO then f\<lparr>kana_ro_flag := True\<rparr>
      else f\<lparr>unknown_flag := True\<rparr>)"

text \<open>The arguments from the fourth on; a message of fewer than three arguments has none.\<close>

definition modifier_arguments :: "message \<Rightarrow> string list" where
  "modifier_arguments message =
     map (\<lambda>i. the (arg message (i + 3))) [0..<scim_bridge_message_get_argument_count message - 3]"

definition forwarded_key_event :: "32 word \<Rightarrow> bool \<Rightarrow> modifier_flags \<Rightarrow> key_event" where
  "forwarded_key_event key_code key_pressed f =
     (let k0 = scim_bridge_alloc_key_event;
          k1 = scim_bridge_key_event_set_code key_code k0;
          k2 = scim_bridge_key_event_set_pressed key_pressed k1;
          k3 = scim_bridge_key_event_set_shift_down (shift_flag f) k2;
          k4 = scim_bridge_key_event_set_control_down (control_flag f) k3;
          k5 = scim_bridge_key_event_set_alt_down (alt_flag f) k4;
          k6 = scim_bridge_key_event_set_meta_down (meta_flag f) k5;
          k7 = scim_bridge_key_event_set_super_down (super_flag f) k6;
          k8 = scim_bridge_key_event_set_hyper_down (hyper_flag f) k7;
          k9 = scim_bridge_key_event_set_caps_lock_down (caps_lock_flag f) k8;
          k10 = scim_bridge_key_event_set_num_lock_down (num_lock_flag f) k9
      in scim_bridge_key_event_set_quirk_enabled SCIM_BRIDGE_KEY_QUIRK_KANA_RO (kana_ro_flag f) k10)"

definition received_message_forward_key_event ::
  "'g toolkit \<Rightarrow> message \<Rightarrow> 'g client \<Rightarrow> (retval \<times> 'g client) run" where
  "received_message_forward_key_event ui message c =
     (let flags = fold read_modifier (modifier_arguments message) no_modifiers in
      case (scim_bridge_string_to_int (arg message 0), scim_bridge_string_to_uint (arg message 1),
            scim_bridge_string_to_boolean (arg message 2)) of
        (Some ic_id, Some key_code, Some key_pressed) \<Rightarrow>
          Done (RETVAL_SUCCEEDED,
            call_imcontext ic_id
              (\<lambda>ic. ui_forward_key_event ui ic (forwarded_key_event key_code key_pressed flags)) c)
      | _ \<Rightarrow> Done (RETVAL_SUCCEEDED, c))"

section \<open>Handlers that answer\<close>

text \<open>The common end: the answer is pushed and sent, unless the messenger is closed.\<close>

definition answer :: "message \<Rightarrow> 'g client \<Rightarrow> (retval \<times> 'g client) run" where
  "answer response c =
     (if \<not> scim_bridge_client_is_messenger_opened c then Done (RETVAL_FAILED, c)
      else push_and_flush (Some response) c)"

definition received_message_commit_string ::
  "'g toolkit \<Rightarrow> message \<Rightarrow> 'g client \<Rightarrow> (retval \<times> 'g client) run" where
  "received_message_commit_string ui message c =
     answer (make_message SCIM_BRIDGE_MESSAGE_STRING_COMMITED [])
       (case scim_bridge_string_to_int (arg message 0) of
          None \<Rightarrow> c
        | Some ic_id \<Rightarrow> call_imcontext ic_id (ui_commit ui) c)"

definition received_message_update_preedit ::
  "'g toolkit \<Rightarrow> message \<Rightarrow> 'g client \<Rightarrow> (retval \<times> 'g client) run" where
  "received_message_update_preedit ui message c =
     answer (make_message SCIM_BRIDGE_MESSAGE_PREEDIT_UPDATED [])
       (case scim_bridge_string_to_int (arg message 0) of
          None \<Rightarrow> c
        | Some ic_id \<Rightarrow> call_imcontext ic_id (ui_update_preedit ui) c)"

text \<open>A call of the toolkit with an answer; \<open>d\<close> is the answer when there is no such input context.\<close>

definition ask_imcontext ::
  "int \<Rightarrow> (imcontext \<Rightarrow> 'g \<Rightarrow> 'a \<times> 'g) \<Rightarrow> 'a \<Rightarrow> 'g client \<Rightarrow> 'a \<times> 'g client" where
  "ask_imcontext i f d c =
     (case scim_bridge_client_find_imcontext i c of
        (None, c') \<Rightarrow> (d, c')
      | (Some x, c') \<Rightarrow> (case f x (gui c') of (a, g) \<Rightarrow> (a, c'\<lparr>gui := g\<rparr>)))"

text \<open>The buffer of \<^verbatim>\<open>cursor_position / 10 + 2\<close> bytes that the code allocates for the number (and does
  not use) has no size when the toolkit's cursor position is -30 or less.\<close>

definition received_message_get_surrounding_text ::
  "'g toolkit \<Rightarrow> message \<Rightarrow> 'g client \<Rightarrow> (retval \<times> 'g client) run" where
  "received_message_get_surrounding_text ui message c =
     (let (r, c') =
        (case (scim_bridge_string_to_int (arg message 0), scim_bridge_string_to_uint (arg message 1),
               scim_bridge_string_to_uint (arg message 2)) of
           (Some ic_id, Some before_max, Some after_max) \<Rightarrow>
             ask_imcontext ic_id
               (\<lambda>ic. ui_get_surrounding_text ui ic (sint before_max) (sint after_max)) None c
         | _ \<Rightarrow> (None, c)) in
      if \<not> scim_bridge_client_is_messenger_opened c' then Done (RETVAL_FAILED, c')
      else
        (case r of
           Some (str, cursor_position) \<Rightarrow>
             if cursor_position \<le> -30 then Undefined
             else answer (make_message SCIM_BRIDGE_MESSAGE_SURROUNDING_TEXT_GOTTEN
               [SCIM_BRIDGE_MESSAGE_TRUE,
                snd (scim_bridge_string_from_uint (word_of_int cursor_position)), str]) c'
         | None \<Rightarrow>
             answer (make_message SCIM_BRIDGE_MESSAGE_SURROUNDING_TEXT_GOTTEN
               [SCIM_BRIDGE_MESSAGE_FALSE, []]) c'))"

definition received_message_delete_surrounding_text ::
  "'g toolkit \<Rightarrow> message \<Rightarrow> 'g client \<Rightarrow> (retval \<times> 'g client) run" where
  "received_message_delete_surrounding_text ui message c =
     (let (succeeded, c') =
        (case (scim_bridge_string_to_int (arg message 0), scim_bridge_string_to_int (arg message 1),
               scim_bridge_string_to_uint (arg message 2)) of
           (Some ic_id, Some offset, Some len) \<Rightarrow>
             ask_imcontext ic_id (\<lambda>ic. ui_delete_surrounding_text ui ic offset (sint len)) False c
         | _ \<Rightarrow> (False, c)) in
      answer (make_message SCIM_BRIDGE_MESSAGE_SURROUNDING_TEXT_DELETED
        [if succeeded then SCIM_BRIDGE_MESSAGE_TRUE else SCIM_BRIDGE_MESSAGE_FALSE]) c')"

text \<open>With invalid arguments the complaint passes the \<^verbatim>\<open>int cursor_position\<close> to \<^verbatim>\<open>%s\<close>.\<close>

definition received_message_replace_surrounding_text ::
  "'g toolkit \<Rightarrow> message \<Rightarrow> 'g client \<Rightarrow> (retval \<times> 'g client) run" where
  "received_message_replace_surrounding_text ui message c =
     (case (scim_bridge_string_to_int (arg message 0), scim_bridge_string_to_int (arg message 1)) of
        (Some ic_id, Some cursor_position) \<Rightarrow>
          let (succeeded, c') = ask_imcontext ic_id
            (\<lambda>ic. ui_replace_surrounding_text ui ic cursor_position (arg message 2)) False c in
          answer (make_message SCIM_BRIDGE_MESSAGE_SURROUNDING_TEXT_REPLACED
            [if succeeded then SCIM_BRIDGE_MESSAGE_TRUE else SCIM_BRIDGE_MESSAGE_FALSE]) c'
      | _ \<Rightarrow> Undefined)"

section \<open>The dispatcher\<close>

definition dispatch_message ::
  "'g toolkit \<Rightarrow> message \<Rightarrow> 'g client \<Rightarrow> (retval \<times> 'g client) run" where
  "dispatch_message ui message c =
     (let h = scim_bridge_message_get_header message in
      if h = SCIM_BRIDGE_MESSAGE_IMENGINE_STATUS_CHANGED
        then received_message_imengine_status_changed ui message c
      else if h = SCIM_BRIDGE_MESSAGE_PREEDIT_MODE_CHANGED
        then received_message_preedit_mode_changed message c
      else if h = SCIM_BRIDGE_MESSAGE_SET_COMMIT_STRING
        then received_message_set_commit_string ui message c
      else if h = SCIM_BRIDGE_MESSAGE_COMMIT_STRING
        then received_message_commit_string ui message c
      else if h = SCIM_BRIDGE_MESSAGE_SET_PREEDIT_SHOWN
        then received_message_set_preedit_shown ui message c
      else if h = SCIM_BRIDGE_MESSAGE_SET_PREEDIT_STRING
        then received_message_set_preedit_string ui message c
      else if h = SCIM_BRIDGE_MESSAGE_SET_PREEDIT_CURSOR_POSITION
        then received_message_set_preedit_cursor_position ui message c
      else if h = SCIM_BRIDGE_MESSAGE_SET_PREEDIT_ATTRIBUTES
        then received_message_set_preedit_attributes ui message c
      else if h = SCIM_BRIDGE_MESSAGE_UPDATE_PREEDIT
        then received_message_update_preedit ui message c
      else if h = SCIM_BRIDGE_MESSAGE_KEY_EVENT_HANDLED
        then received_message_key_event_handled message c
      else if h = SCIM_BRIDGE_MESSAGE_IMCONTEXT_REGISTERED
        then received_message_imcontext_registered message c
      else if h = SCIM_BRIDGE_MESSAGE_IMCONTEXT_DEREGISTERED
        then received_message_imcontext_deregistered message c
      else if h = SCIM_BRIDGE_MESSAGE_IMCONTEXT_RESETED
        then received_message_imcontext_reseted message c
      else if h = SCIM_BRIDGE_MESSAGE_ENABLED
        then received_message_imcontext_enabled message c
      else if h = SCIM_BRIDGE_MESSAGE_DISABLED
        then received_message_imcontext_disabled message c
      else if h = SCIM_BRIDGE_MESSAGE_FORWARD_KEY_EVENT
        then received_message_forward_key_event ui message c
      else if h = SCIM_BRIDGE_MESSAGE_BEEP
        then received_message_beep ui message c
      else if h = SCIM_BRIDGE_MESSAGE_CURSOR_LOCATION_CHANGED
        then received_message_cursor_location_changed message c
      else if h = SCIM_BRIDGE_MESSAGE_FOCUS_CHANGED
        then received_message_focus_changed message c
      else if h = SCIM_BRIDGE_MESSAGE_GET_SURROUNDING_TEXT
        then received_message_get_surrounding_text ui message c
      else if h = SCIM_BRIDGE_MESSAGE_DELETE_SURROUNDING_TEXT
        then received_message_delete_surrounding_text ui message c
      else if h = SCIM_BRIDGE_MESSAGE_REPLACE_SURROUNDING_TEXT
        then received_message_replace_surrounding_text ui message c
      else received_message_unknown message c)"

lemmas plain_handlers =
  received_message_preedit_mode_changed_def
  received_message_imcontext_deregistered_def
  received_message_imcontext_reseted_def
  received_message_imcontext_enabled_def
  received_message_imcontext_disabled_def
  received_message_focus_changed_def
  received_message_imcontext_registered_def
  received_message_key_event_handled_def
  received_message_cursor_location_changed_def
  received_message_unknown_def

lemmas toolkit_handlers =
  received_message_imengine_status_changed_def
  received_message_set_commit_string_def
  received_message_set_preedit_shown_def
  received_message_set_preedit_string_def
  received_message_set_preedit_cursor_position_def
  received_message_set_preedit_attributes_def
  received_message_beep_def
  received_message_forward_key_event_def

lemmas answering_handlers =
  received_message_commit_string_def
  received_message_update_preedit_def
  received_message_get_surrounding_text_def
  received_message_delete_surrounding_text_def
  received_message_replace_surrounding_text_def

end
