(* ===== verification/Bridge_Dispatch.thy ===== *)
theory Bridge_Dispatch
  imports Bridge_Handlers
begin

text \<open>
  \<^verbatim>\<open>scim_bridge_client_read_and_dispatch\<close>: messages are received until one is complete, and all the
  complete ones are dispatched. Its loops terminate because every successful receive takes
  something from the kernel and every successful poll takes bytes from the buffer; that the
  handlers leave the receiving side alone (\<open>dispatch_frame\<close>) is part of the argument.
\<close>

section \<open>What the handlers leave alone\<close>

definition receiving_side :: "messenger \<Rightarrow> ring \<times> bool \<times> int" where
  "receiving_side m = (receiving m, has_received_message m, socket_fd m)"

text \<open>\<open>frame c c'\<close>: from \<open>c\<close> to \<open>c'\<close> nothing was received, and the list of input contexts and their
  ids did not change.\<close>

definition frame :: "'g client \<Rightarrow> 'g client \<Rightarrow> bool" where
  "frame c c' \<longleftrightarrow>
     map_option receiving_side (client_messenger c') = map_option receiving_side (client_messenger c) \<and>
     rx (kernel c') = rx (kernel c) \<and> imcontext_list c' = imcontext_list c \<and>
     list_size c' = list_size c \<and> ids c' = ids c \<and> initialized c' = initialized c"

lemma frame_refl [simp]: "frame c c"
  by (simp add: frame_def)

lemma frame_trans: "frame c c' \<Longrightarrow> frame c' c'' \<Longrightarrow> frame c c''"
  by (simp add: frame_def)

lemma find_imcontext_fields:
  assumes "scim_bridge_client_find_imcontext i c = (r, c')"
  shows
    "client_messenger c' = client_messenger c"
    "kernel c' = kernel c"
    "pending_response c' = pending_response c"
    "imcontext_list c' = imcontext_list c"
    "list_size c' = list_size c"
    "ids c' = ids c"
    "initialized c' = initialized c"
  using assms by (auto simp: scim_bridge_client_find_imcontext_def split: if_splits option.splits)

lemma call_imcontext_fields [simp]:
    "client_messenger (call_imcontext i f c) = client_messenger c"
    "kernel (call_imcontext i f c) = kernel c"
    "pending_response (call_imcontext i f c) = pending_response c"
    "imcontext_list (call_imcontext i f c) = imcontext_list c"
    "list_size (call_imcontext i f c) = list_size c"
    "ids (call_imcontext i f c) = ids c"
    "initialized (call_imcontext i f c) = initialized c"
  by (auto simp: call_imcontext_def find_imcontext_fields split: prod.splits option.splits)

lemma call_imcontext_frame [simp]: "frame c (call_imcontext i f c)"
  by (simp add: frame_def)

lemma ask_imcontext_fields:
  assumes "ask_imcontext i f d c = (r, c')"
  shows
    "client_messenger c' = client_messenger c"
    "kernel c' = kernel c"
    "pending_response c' = pending_response c"
    "imcontext_list c' = imcontext_list c"
    "list_size c' = list_size c"
    "ids c' = ids c"
    "initialized c' = initialized c"
  using assms
  by (auto simp: ask_imcontext_def find_imcontext_fields split: prod.splits option.splits)

lemma ask_imcontext_frame: "ask_imcontext i f d c = (r, c') \<Longrightarrow> frame c c'"
  by (simp add: frame_def ask_imcontext_fields)

lemma pending_frame [simp]:
  "frame c (set_status s c)" "frame c (set_status s (set_imcontext_id i c))"
  "frame c (set_status s (set_consumed b c))"
  by (simp_all add: frame_def pending_setters)

lemma send_message_receiving_side:
  "scim_bridge_messenger_send_message m t net = Done (rv, m', net') \<Longrightarrow>
   map_option receiving_side m' = map_option receiving_side m \<and> rx net' = rx net"
  by (auto simp: scim_bridge_messenger_send_message_def Let_def receiving_side_def
      split: option.splits if_splits list.splits tx_event.splits)

lemma flush_messages_receiving_side:
  "flush_messages m net = Done (rv, m', net') \<Longrightarrow>
   map_option receiving_side m' = map_option receiving_side m \<and> rx net' = rx net"
proof (induction m net rule: flush_messages.induct)
  case (1 m net)
  show ?case
  proof (cases "0 < scim_bridge_messenger_get_sending_buffer_size m")
    case True
    with "1.prems" obtain rv1 m1 net1 where
      s: "scim_bridge_messenger_send_message m False net = Done (rv1, m1, net1)"
      by (subst (asm) flush_messages.simps) (auto split: run.splits)
    with send_message_receiving_side [OF s] "1.IH" [OF True s refl refl] "1.prems" True show ?thesis
      by (subst (asm) flush_messages.simps) (auto split: if_splits)
  next
    case False
    with "1.prems" show ?thesis by (subst (asm) flush_messages.simps) simp
  qed
qed

lemma push_message_receiving_side:
  "map_option receiving_side (snd (scim_bridge_messenger_push_message m msg)) =
   map_option receiving_side m"
  by (simp add: scim_bridge_messenger_push_message_def receiving_side_def split: option.splits)

lemma push_and_flush_frame:
  assumes "push_and_flush msg c = Done (rv, c')"
  shows "frame c c' \<and> pending_response c' = pending_response c \<and> gui c' = gui c \<and>
    found_imcontext c' = found_imcontext c"
  using assms
  by (auto simp: push_and_flush_def frame_def push_message_receiving_side
      dest!: flush_messages_receiving_side)

lemma answer_frame:
  assumes "answer msg c = Done (rv, c')"
  shows "frame c c' \<and> pending_response c' = pending_response c"
  using assms by (auto simp: answer_def split: if_splits dest: push_and_flush_frame)

text \<open>The three groups of handlers.\<close>

definition plain_results :: "message \<Rightarrow> 'g client \<Rightarrow> (retval \<times> 'g client) run set" where
  "plain_results msg c = {received_message_preedit_mode_changed msg c, received_message_imcontext_deregistered msg c,
      received_message_imcontext_reseted msg c, received_message_imcontext_enabled msg c,
      received_message_imcontext_disabled msg c, received_message_focus_changed msg c,
      received_message_imcontext_registered msg c, received_message_key_event_handled msg c,
      received_message_cursor_location_changed msg c, received_message_unknown msg c}"

definition toolkit_results :: "'g toolkit \<Rightarrow> message \<Rightarrow> 'g client \<Rightarrow> (retval \<times> 'g client) run set" where
  "toolkit_results ui msg c = {received_message_imengine_status_changed ui msg c, received_message_set_commit_string ui msg c,
      received_message_set_preedit_shown ui msg c, received_message_set_preedit_string ui msg c,
      received_message_set_preedit_cursor_position ui msg c, received_message_set_preedit_attributes ui msg c,
      received_message_beep ui msg c, received_message_forward_key_event ui msg c}"

definition commit_results :: "'g toolkit \<Rightarrow> message \<Rightarrow> 'g client \<Rightarrow> (retval \<times> 'g client) run set" where
  "commit_results ui msg c = {received_message_commit_string ui msg c, received_message_update_preedit ui msg c}"

lemma plain_handlers_frame:
  assumes "h \<in> plain_results msg c"
    and "h = Done (rv, c')"
  shows "frame c c' \<and> rv = RETVAL_SUCCEEDED"
  using assms by (auto simp: plain_results_def plain_handlers split: if_splits option.splits)

lemma toolkit_handlers_frame:
  assumes "h \<in> toolkit_results ui msg c"
    and "h = Done (rv, c')"
  shows "frame c c' \<and> rv = RETVAL_SUCCEEDED \<and> pending_response c' = pending_response c"
  using assms by (auto simp: toolkit_results_def toolkit_handlers Let_def split: if_splits option.splits)

lemma commit_update_frame:
  assumes "h \<in> commit_results ui msg c"
    and "h = Done (rv, c')"
  shows "frame c c' \<and> pending_response c' = pending_response c"
  using assms frame_trans [OF call_imcontext_frame]
  by (auto simp: commit_results_def received_message_commit_string_def received_message_update_preedit_def
      split: option.splits dest!: answer_frame [OF sym])

lemma get_surrounding_text_frame:
  assumes "received_message_get_surrounding_text ui msg c = Done (rv, c')"
  shows "frame c c' \<and> pending_response c' = pending_response c"
  using assms
  by (auto simp: received_message_get_surrounding_text_def
      split: option.splits if_splits prod.splits
      dest!: answer_frame dest: ask_imcontext_frame ask_imcontext_fields(3) intro: frame_trans)

lemma delete_surrounding_text_frame:
  assumes "received_message_delete_surrounding_text ui msg c = Done (rv, c')"
  shows "frame c c' \<and> pending_response c' = pending_response c"
  using assms
  by (auto simp: received_message_delete_surrounding_text_def
      split: option.splits if_splits prod.splits
      dest!: answer_frame dest: ask_imcontext_frame ask_imcontext_fields(3) intro: frame_trans)

lemma replace_surrounding_text_frame:
  assumes "received_message_replace_surrounding_text ui msg c = Done (rv, c')"
  shows "frame c c' \<and> pending_response c' = pending_response c"
  using assms
  by (auto simp: received_message_replace_surrounding_text_def
      split: option.splits if_splits prod.splits
      dest!: answer_frame dest: ask_imcontext_frame ask_imcontext_fields(3) intro: frame_trans)

lemma if_in: "x \<in> S \<Longrightarrow> y \<in> S \<Longrightarrow> (if b then x else y) \<in> S"
  by simp

lemma dispatch_cases:
  "dispatch_message ui msg c \<in> plain_results msg c \<union> toolkit_results ui msg c \<union> commit_results ui msg c \<union>
     {received_message_get_surrounding_text ui msg c, received_message_delete_surrounding_text ui msg c,
      received_message_replace_surrounding_text ui msg c}"
  unfolding dispatch_message_def Let_def
  by (intro if_in) (simp_all add: plain_results_def toolkit_results_def commit_results_def)

lemma dispatch_frame:
  assumes "dispatch_message ui msg c = Done (rv, c')"
  shows "frame c c'"
  using dispatch_cases [of ui msg c] assms
  by (auto dest: plain_handlers_frame toolkit_handlers_frame commit_update_frame
      get_surrounding_text_frame [OF sym] delete_surrounding_text_frame [OF sym]
      replace_surrounding_text_frame [OF sym])

section \<open>The work that is left\<close>

definition rx_weight :: "rx_event list \<Rightarrow> nat" where
  "rx_weight es = sum_list (map (\<lambda>e. case e of Rx_bytes bs \<Rightarrow> Suc (length bs) | _ \<Rightarrow> 1) es)"

lemma rx_weight_simps [simp]:
  "rx_weight [] = 0" "rx_weight (Rx_bytes bs # es) = Suc (length bs) + rx_weight es"
  "rx_weight (Rx_select_interrupted # es) = Suc (rx_weight es)"
  "rx_weight (Rx_select_error # es) = Suc (rx_weight es)"
  "rx_weight (Rx_closed # es) = Suc (rx_weight es)" "rx_weight (Rx_again # es) = Suc (rx_weight es)"
  "rx_weight (Rx_error # es) = Suc (rx_weight es)"
  by (simp_all add: rx_weight_def)

definition received_size :: "messenger option \<Rightarrow> nat" where
  "received_size m = (case m of None \<Rightarrow> 0 | Some m1 \<Rightarrow> rsize (receiving m1))"

lemma received_size_side:
  "map_option receiving_side m' = map_option receiving_side m \<Longrightarrow> received_size m' = received_size m"
  by (auto simp: received_size_def receiving_side_def split: option.splits)

definition work :: "messenger option \<Rightarrow> net \<Rightarrow> nat" where
  "work m net = 2 * rx_weight (rx net) + received_size m"

lemma receive_reserve_size [simp]: "rsize (receive_reserve r) = rsize r"
  by (simp add: receive_reserve_def ring_grow_def)

lemma ring_receive_size [simp]: "rsize (ring_receive cs r) = rsize r + length cs"
  by (simp add: ring_receive_def ring_extend_def)

lemma receive_bytes_work:
  assumes "scim_bridge_messenger_receive_message (Some m) False (net\<lparr>rx := Rx_bytes bs # es\<rparr>) =
    Done (RETVAL_SUCCEEDED, m', net')"
  shows "rx_weight (rx net') < Suc (length bs) + rx_weight es \<and>
    work m' net' < 2 * (Suc (length bs) + rx_weight es) + rsize (receiving m)"
proof -
  define r n where "r = receive_reserve (receiving m)" and "n = ring_read_size r"
  have r: "rsize r = rsize (receiving m)" by (simp add: r_def)
  have n: "n \<noteq> 0" "bs \<noteq> []" and m': "received_size m' = rsize r + min (length bs) n"
    and net': "rx net' = (if drop n bs = [] then es else Rx_bytes (drop n bs) # es)"
    using assms
    by (simp_all add: scim_bridge_messenger_receive_message_def Let_def received_size_def
        flip: r_def n_def split: if_splits) auto
  show ?thesis
  proof (cases "length bs \<le> n")
    case True
    then show ?thesis using r m' net' n by (simp add: work_def)
  next
    case False
    then show ?thesis using r m' net' n by (simp add: work_def)
  qed
qed

lemma receive_message_work:
  assumes "scim_bridge_messenger_receive_message m False net = Done (RETVAL_SUCCEEDED, m', net')"
  shows "rx_weight (rx net') < rx_weight (rx net) \<and> work m' net' < work m net"
proof (cases m)
  case (Some m1)
  show ?thesis
  proof (cases "rx net")
    case Nil
    with Some assms show ?thesis
      by (simp add: scim_bridge_messenger_receive_message_def Let_def split: if_splits)
  next
    case (Cons e es)
    show ?thesis
    proof (cases e)
      case (Rx_bytes bs)
      have "net = net\<lparr>rx := Rx_bytes bs # es\<rparr>" using Cons Rx_bytes by simp
      with assms Some have "scim_bridge_messenger_receive_message (Some m1) False (net\<lparr>rx := Rx_bytes bs # es\<rparr>) =
        Done (RETVAL_SUCCEEDED, m', net')" by metis
      from receive_bytes_work [OF this] Some Cons Rx_bytes show ?thesis
        by (simp add: work_def received_size_def)
    qed (use Some Cons assms in \<open>auto simp: scim_bridge_messenger_receive_message_def Let_def work_def
          received_size_def split: if_splits\<close>)
  qed
qed (use assms in \<open>simp add: scim_bridge_messenger_receive_message_def\<close>)

lemma poll_loop_consumes:
  "poll_loop n i cells escaped tmp cap args = Done (Some (msg, k)) \<Longrightarrow> i < k \<and> cells \<noteq> []"
proof (induction cells arbitrary: i escaped tmp cap args)
  case (Cons cell cells)
  then obtain c where c: "cell = Some c" by (cases cell) auto
  have IH: "poll_loop n (i + 1) cells escaped' tmp' cap' args' = Done (Some (msg, k)) \<Longrightarrow> i < k"
    for escaped' tmp' cap' args' using Cons.IH by fastforce
  from Cons.prems IH show ?case
    unfolding c poll_loop.simps Let_def by (simp split: if_splits) blast+
qed simp

lemma poll_message_work:
  assumes "scim_bridge_messenger_poll_message m = Done (rv, r, m')"
  shows "(if rv = RETVAL_SUCCEEDED then r \<noteq> None \<and> received_size m' < received_size m
          else received_size m' = received_size m)"
proof (cases m)
  case (Some m1)
  have "ring_cells (receiving m1) \<noteq> [] \<Longrightarrow> 0 < rsize (receiving m1)"
    by (simp add: ring_cells_def)
  with assms Some show ?thesis
    by (auto simp: scim_bridge_messenger_poll_message_def received_size_def ring_advance_def
        dest!: poll_loop_consumes split: if_splits option.splits)
qed (use assms in \<open>simp add: scim_bridge_messenger_poll_message_def received_size_def\<close>)

section \<open>The loops\<close>

text \<open>\<^verbatim>\<open>while (poll_message (messenger, &message)) if (receive_message (messenger, NULL))\<close> fail; the
  result is the message, \<open>None\<close> on failure.\<close>

function receive_until_message ::
  "messenger option \<Rightarrow> net \<Rightarrow> (message option \<times> messenger option \<times> net) run" where
  "receive_until_message m net =
     (case scim_bridge_messenger_poll_message m of
        Blocks \<Rightarrow> Blocks
      | Undefined \<Rightarrow> Undefined
      | Done (rv, msg, m1) \<Rightarrow>
          if rv = RETVAL_SUCCEEDED then Done (msg, m1, net)
          else
            (case scim_bridge_messenger_receive_message m1 False net of
               Blocks \<Rightarrow> Blocks
             | Undefined \<Rightarrow> Undefined
             | Done (rv', m2, net') \<Rightarrow>
                 if rv' = RETVAL_SUCCEEDED then receive_until_message m2 net'
                 else Done (None, m2, net')))"
  by pat_completeness auto
termination
  by (relation "measure (\<lambda>(m, net). rx_weight (rx net))") (auto dest: receive_message_work)

declare receive_until_message.simps [simp del]

text \<open>The loop over the complete messages.\<close>

function dispatch_loop :: "'g toolkit \<Rightarrow> message \<Rightarrow> 'g client \<Rightarrow> (retval \<times> 'g client) run" where
  "dispatch_loop ui message c =
     (case dispatch_message ui message c of
        Blocks \<Rightarrow> Blocks
      | Undefined \<Rightarrow> Undefined
      | Done (rv, c1) \<Rightarrow>
          if rv \<noteq> RETVAL_SUCCEEDED
          then Done (RETVAL_FAILED, snd (scim_bridge_client_close_messenger ui c1))
          else
            (case scim_bridge_messenger_poll_message (client_messenger c1) of
               Blocks \<Rightarrow> Blocks
             | Undefined \<Rightarrow> Undefined
             | Done (rv', nxt, m') \<Rightarrow>
                 let c2 = c1\<lparr>client_messenger := m'\<rparr> in
                 if rv' = RETVAL_SUCCEEDED then dispatch_loop ui (the nxt) c2
                 else Done (RETVAL_SUCCEEDED, c2)))"
  by pat_completeness auto
termination
proof (relation "measure (\<lambda>(ui, message, c). received_size (client_messenger c))", goal_cases)
  case 1
  show ?case by simp
next
  case (2 ui message c p rv c1 q rv' q' nxt m' c2)
  then have "frame c c1" by (auto dest: dispatch_frame)
  then have "received_size (client_messenger c1) = received_size (client_messenger c)"
    by (intro received_size_side) (simp add: frame_def)
  with 2 show ?case by (auto dest: poll_message_work)
qed

declare dispatch_loop.simps [simp del]

definition scim_bridge_client_read_and_dispatch ::
  "'g toolkit \<Rightarrow> 'g client \<Rightarrow> (retval \<times> 'g client) run" where
  "scim_bridge_client_read_and_dispatch ui c =
     (if \<not> initialized c then Done (RETVAL_FAILED, c)
      else if \<not> scim_bridge_client_is_messenger_opened c then Done (RETVAL_FAILED, c)
      else
        run_bind (receive_until_message (client_messenger c) (kernel c)) (\<lambda>(msg, m, net).
          let c1 = c\<lparr>client_messenger := m, kernel := net\<rparr> in
          (case msg of
             None \<Rightarrow> Done (RETVAL_FAILED, snd (scim_bridge_client_close_messenger ui c1))
           | Some message \<Rightarrow> dispatch_loop ui message c1)))"

end
