(* ===== verification/Bridge_Client.thy ===== *)
theory Bridge_Client
  imports Bridge_Dispatch
begin

text \<open>
  \<^verbatim>\<open>scim-bridge-client.c\<close>, the requests: what the toolkit calls. A request sends a message and then
  reads and dispatches until the pending response is settled. The wait terminates because every
  successful round of \<^verbatim>\<open>read_and_dispatch\<close> takes a message out of the script of the kernel
  (\<open>read_and_dispatch_work\<close>); a wait for an answer that never comes blocks.
\<close>

section \<open>Waiting for the response\<close>

lemma receive_until_message_work:
  "receive_until_message m net = Done (Some msg, m', net') \<Longrightarrow> work m' net' < work m net"
proof (induction m net rule: receive_until_message.induct)
  case (1 m net)
  from "1.prems" obtain rv r m1 where p: "scim_bridge_messenger_poll_message m = Done (rv, r, m1)"
    by (subst (asm) receive_until_message.simps) (auto split: run.splits)
  show ?case
  proof (cases "rv = RETVAL_SUCCEEDED")
    case True
    with p "1.prems" poll_message_work [OF p] show ?thesis
      by (subst (asm) receive_until_message.simps) (auto simp: work_def)
  next
    case False
    with p "1.prems" obtain rv' m2 net2 where
      r: "scim_bridge_messenger_receive_message m1 False net = Done (rv', m2, net2)"
      by (subst (asm) receive_until_message.simps) (auto split: run.splits)
    with p False "1.prems" have rv': "rv' = RETVAL_SUCCEEDED"
      and l: "receive_until_message m2 net2 = Done (Some msg, m', net')"
      by (subst (asm) receive_until_message.simps; auto split: if_splits)+
    have "work m' net' < work m2 net2"
      by (rule "1.IH" [OF p refl refl False r refl refl rv' l])
    also have "work m2 net2 < work m1 net"
      using r rv' receive_message_work by blast
    also have "work m1 net = work m net"
      using poll_message_work [OF p] False by (simp add: work_def)
    finally show ?thesis .
  qed
qed

lemma dispatch_frame_work:
  assumes "frame c c'"
  shows "work (client_messenger c') (kernel c') = work (client_messenger c) (kernel c)"
  using assms received_size_side [of "client_messenger c'" "client_messenger c"]
  by (simp add: frame_def work_def)

lemma dispatch_loop_work:
  "dispatch_loop ui msg c = Done (RETVAL_SUCCEEDED, c') \<Longrightarrow>
   work (client_messenger c') (kernel c') \<le> work (client_messenger c) (kernel c)"
proof (induction ui msg c rule: dispatch_loop.induct)
  case (1 ui msg c)
  from "1.prems" obtain c1 where d: "dispatch_message ui msg c = Done (RETVAL_SUCCEEDED, c1)"
    by (subst (asm) dispatch_loop.simps) (auto split: run.splits if_splits)
  with "1.prems" obtain rv r m1 where
    p: "scim_bridge_messenger_poll_message (client_messenger c1) = Done (rv, r, m1)"
    by (subst (asm) dispatch_loop.simps) (auto split: run.splits)
  have w: "work (client_messenger c1) (kernel c1) = work (client_messenger c) (kernel c)"
    by (rule dispatch_frame_work [OF dispatch_frame [OF d]])
  have m1: "work m1 (kernel c1) \<le> work (client_messenger c1) (kernel c1)"
    using poll_message_work [OF p] by (auto simp: work_def split: if_splits)
  show ?case
  proof (cases "rv = RETVAL_SUCCEEDED")
    case True
    with d p "1.prems" have l: "dispatch_loop ui (the r) (c1\<lparr>client_messenger := m1\<rparr>) = Done (RETVAL_SUCCEEDED, c')"
      by (subst (asm) dispatch_loop.simps) (auto simp: Let_def)
    have "\<not> RETVAL_SUCCEEDED \<noteq> RETVAL_SUCCEEDED" by simp
    from "1.IH" [OF d refl this p refl refl refl True l] m1 w show ?thesis by simp
  next
    case False
    with d p "1.prems" m1 w show ?thesis
      by (subst (asm) dispatch_loop.simps) (auto simp: Let_def)
  qed
qed

lemma read_and_dispatch_work:
  assumes "scim_bridge_client_read_and_dispatch ui c = Done (RETVAL_SUCCEEDED, c')"
  shows "work (client_messenger c') (kernel c') < work (client_messenger c) (kernel c)"
  using assms
  by (force simp: scim_bridge_client_read_and_dispatch_def Let_def
      dest: receive_until_message_work dispatch_loop_work split: if_splits option.splits)

text \<open>The request is over: \<^verbatim>\<open>pending_response.header = NULL; pending_response.status = RESPONSE_DONE\<close>.\<close>

definition settle :: "'g client \<Rightarrow> 'g client" where
  "settle c = set_status RESPONSE_DONE (set_response_header None c)"

text \<open>\<^verbatim>\<open>while (pending_response.status == RESPONSE_PENDING) if (read_and_dispatch ())\<close> give up.\<close>

function await_response :: "'g toolkit \<Rightarrow> 'g client \<Rightarrow> (retval \<times> 'g client) run" where
  "await_response ui c =
     (if status (pending_response c) = RESPONSE_PENDING then
        (case scim_bridge_client_read_and_dispatch ui c of
           Blocks \<Rightarrow> Blocks
         | Undefined \<Rightarrow> Undefined
         | Done (rv, c') \<Rightarrow>
             if rv = RETVAL_SUCCEEDED then await_response ui c' else Done (RETVAL_FAILED, settle c'))
      else Done (RETVAL_SUCCEEDED, c))"
  by pat_completeness auto
termination
  by (relation "measure (\<lambda>(ui, c). work (client_messenger c) (kernel c))")
    (auto dest: read_and_dispatch_work)

declare await_response.simps [simp del]

text \<open>Pushing and sending a request; a failure closes the messenger.\<close>

definition send_request :: "'g toolkit \<Rightarrow> message \<Rightarrow> 'g client \<Rightarrow> (retval \<times> 'g client) run" where
  "send_request ui message c =
     run_bind (push_and_flush (Some message) c) (\<lambda>(rv, c').
       if rv \<noteq> RETVAL_SUCCEEDED
       then Done (RETVAL_FAILED, snd (scim_bridge_client_close_messenger ui c'))
       else Done (RETVAL_SUCCEEDED, c'))"

definition expect :: "string \<Rightarrow> 'g client \<Rightarrow> 'g client" where
  "expect h c = set_status RESPONSE_PENDING (set_response_header (Some h) c)"

text \<open>The end of a request that fails unless the response says that it succeeded.\<close>

definition finish_strict :: "'g toolkit \<Rightarrow> 'g client \<Rightarrow> (retval \<times> 'g client) run" where
  "finish_strict ui c =
     run_bind (await_response ui c) (\<lambda>(rv, c').
       if rv \<noteq> RETVAL_SUCCEEDED then Done (RETVAL_FAILED, c')
       else if status (pending_response c') = RESPONSE_SUCCEEDED then Done (RETVAL_SUCCEEDED, settle c')
       else Done (RETVAL_FAILED, settle c'))"

text \<open>The end of a request that succeeds unless the response says that it failed.\<close>

definition finish_lenient :: "'g toolkit \<Rightarrow> 'g client \<Rightarrow> (retval \<times> 'g client) run" where
  "finish_lenient ui c =
     run_bind (await_response ui c) (\<lambda>(rv, c').
       if rv \<noteq> RETVAL_SUCCEEDED then Done (RETVAL_FAILED, c')
       else if status (pending_response c') = RESPONSE_FAILED then Done (RETVAL_FAILED, settle c')
       else Done (RETVAL_SUCCEEDED, settle c'))"

text \<open>An id is printed as an unsigned integer by most requests.\<close>

definition uint_id :: "int \<Rightarrow> string" where
  "uint_id i = snd (scim_bridge_string_from_uint (word_of_int i))"

section \<open>Registering and deregistering\<close>

fun insert_before :: "(imcontext \<Rightarrow> int) \<Rightarrow> imcontext \<Rightarrow> int \<Rightarrow> imcontext list \<Rightarrow> imcontext list option" where
  "insert_before f ic i [] = None"
| "insert_before f ic i (x # xs) =
     (if f x > i then Some (ic # x # xs) else map_option ((#) x) (insert_before f ic i xs))"

definition insert_imcontext :: "imcontext \<Rightarrow> int \<Rightarrow> 'g client \<Rightarrow> 'g client run" where
  "insert_imcontext ic i c =
     (if list_size c \<noteq> 0 \<and> imcontext_list c = [] then Undefined
      else if list_size c = 0 \<or> ids c (last (imcontext_list c)) < i
      then Done (c\<lparr>imcontext_list := imcontext_list c @ [ic], list_size := Suc (list_size c)\<rparr>)
      else (case insert_before (ids c) ic (ids c ic) (imcontext_list c) of
              None \<Rightarrow> Done c
            | Some l \<Rightarrow> Done (c\<lparr>imcontext_list := l, list_size := Suc (list_size c)\<rparr>)))"

definition scim_bridge_client_register_imcontext ::
  "'g toolkit \<Rightarrow> imcontext \<Rightarrow> 'g client \<Rightarrow> (retval \<times> 'g client) run" where
  "scim_bridge_client_register_imcontext ui ic c =
     (if \<not> initialized c then Done (RETVAL_FAILED, c)
      else if \<not> scim_bridge_client_is_messenger_opened c then Done (RETVAL_FAILED, c)
      else if status (pending_response c) \<noteq> RESPONSE_DONE then Done (RETVAL_FAILED, c)
      else if scim_bridge_client_imcontext_get_id ic c \<noteq> -1 then Done (RETVAL_FAILED, c)
      else
        run_bind (send_request ui (make_message SCIM_BRIDGE_MESSAGE_REGISTER_IMCONTEXT []) c) (\<lambda>(rv, c1).
          if rv \<noteq> RETVAL_SUCCEEDED then Done (RETVAL_FAILED, c1)
          else
            run_bind (await_response ui
                (set_status RESPONSE_PENDING (set_imcontext_id (-1)
                  (set_response_header (Some SCIM_BRIDGE_MESSAGE_IMCONTEXT_REGISTERED) c1)))) (\<lambda>(rv', c2).
              if rv' \<noteq> RETVAL_SUCCEEDED then Done (RETVAL_FAILED, c2)
              else if status (pending_response c2) = RESPONSE_FAILED then Done (RETVAL_FAILED, settle c2)
              else
                let i = imcontext_id (pending_response c2) in
                run_bind (insert_imcontext ic i (scim_bridge_client_imcontext_set_id ic i c2)) (\<lambda>c3.
                  Done (RETVAL_SUCCEEDED, settle c3)))))"

text \<open>The search for the element to remove: \<open>None\<close> is the failure at an element with a greater id or
  at the last one. The search of an empty list does not fail.\<close>

fun remove_from_list :: "(imcontext \<Rightarrow> int) \<Rightarrow> int \<Rightarrow> imcontext list \<Rightarrow> imcontext list option" where
  "remove_from_list f i [] = Some []"
| "remove_from_list f i (x # xs) =
     (if f x = i then Some xs
      else if f x > i \<or> xs = [] then None
      else map_option ((#) x) (remove_from_list f i xs))"

definition scim_bridge_client_deregister_imcontext ::
  "'g toolkit \<Rightarrow> imcontext \<Rightarrow> 'g client \<Rightarrow> (retval \<times> 'g client) run" where
  "scim_bridge_client_deregister_imcontext ui ic c =
     (let i = scim_bridge_client_imcontext_get_id ic c in
      if \<not> initialized c then Done (RETVAL_FAILED, c)
      else if \<not> scim_bridge_client_is_messenger_opened c then Done (RETVAL_FAILED, c)
      else if status (pending_response c) \<noteq> RESPONSE_DONE then Done (RETVAL_FAILED, c)
      else
        let c0 = (if found_imcontext c = Some ic then c\<lparr>found_imcontext := None\<rparr> else c) in
        (case remove_from_list (ids c0) i (imcontext_list c0) of
           None \<Rightarrow> Done (RETVAL_FAILED, c0)
         | Some l \<Rightarrow>
             let c1 = (if imcontext_list c0 = [] then c0
                       else scim_bridge_client_imcontext_set_id ic (-1)
                         (c0\<lparr>imcontext_list := l, list_size := list_size c0 - 1\<rparr>)) in
             run_bind (send_request ui
                 (make_message SCIM_BRIDGE_MESSAGE_DEREGISTER_IMCONTEXT [uint_id i]) c1) (\<lambda>(rv, c2).
               if rv \<noteq> RETVAL_SUCCEEDED then Done (RETVAL_FAILED, c2)
               else finish_lenient ui (expect SCIM_BRIDGE_MESSAGE_IMCONTEXT_DEREGISTERED c2))))"

section \<open>The other requests\<close>

definition scim_bridge_client_reset_imcontext ::
  "'g toolkit \<Rightarrow> imcontext \<Rightarrow> 'g client \<Rightarrow> (retval \<times> 'g client) run" where
  "scim_bridge_client_reset_imcontext ui ic c =
     (let i = scim_bridge_client_imcontext_get_id ic c in
      if \<not> initialized c then Done (RETVAL_FAILED, c)
      else if status (pending_response c) \<noteq> RESPONSE_DONE then Done (RETVAL_FAILED, c)
      else if \<not> scim_bridge_client_is_messenger_opened c then Done (RETVAL_FAILED, c)
      else
        run_bind (send_request ui (make_message SCIM_BRIDGE_MESSAGE_RESET_IMCONTEXT [uint_id i]) c)
          (\<lambda>(rv, c1).
            if rv \<noteq> RETVAL_SUCCEEDED then Done (RETVAL_FAILED, c1)
            else finish_strict ui (expect SCIM_BRIDGE_MESSAGE_IMCONTEXT_RESETED c1)))"

definition scim_bridge_client_set_imcontext_enabled ::
  "'g toolkit \<Rightarrow> imcontext \<Rightarrow> bool \<Rightarrow> 'g client \<Rightarrow> (retval \<times> 'g client) run" where
  "scim_bridge_client_set_imcontext_enabled ui ic enabled c =
     (let i = scim_bridge_client_imcontext_get_id ic c in
      if \<not> initialized c then Done (RETVAL_FAILED, c)
      else if status (pending_response c) \<noteq> RESPONSE_DONE then Done (RETVAL_FAILED, c)
      else if \<not> scim_bridge_client_is_messenger_opened c then Done (RETVAL_FAILED, c)
      else
        run_bind (send_request ui
            (make_message (if enabled then SCIM_BRIDGE_MESSAGE_ENABLE_IMCONTEXT
                           else SCIM_BRIDGE_MESSAGE_DISABLE_IMCONTEXT) [uint_id i]) c)
          (\<lambda>(rv, c1).
            if rv \<noteq> RETVAL_SUCCEEDED then Done (RETVAL_FAILED, c1)
            else finish_strict ui
              (expect (if enabled then SCIM_BRIDGE_MESSAGE_ENABLED else SCIM_BRIDGE_MESSAGE_DISABLED) c1)))"

text \<open>The names of the modifiers of a key event, in the order of the code.\<close>

definition modifier_names :: "key_event \<Rightarrow> string list" where
  "modifier_names k =
     (if scim_bridge_key_event_is_shift_down k then [SCIM_BRIDGE_MESSAGE_SHIFT] else []) @
     (if scim_bridge_key_event_is_control_down k then [SCIM_BRIDGE_MESSAGE_CONTROL] else []) @
     (if scim_bridge_key_event_is_alt_down k then [SCIM_BRIDGE_MESSAGE_ALT] else []) @
     (if scim_bridge_key_event_is_meta_down k then [SCIM_BRIDGE_MESSAGE_META] else []) @
     (if scim_bridge_key_event_is_super_down k then [SCIM_BRIDGE_MESSAGE_SUPER] else []) @
     (if scim_bridge_key_event_is_hyper_down k then [SCIM_BRIDGE_MESSAGE_HYPER] else []) @
     (if scim_bridge_key_event_is_caps_lock_down k then [SCIM_BRIDGE_MESSAGE_CAPS_LOCK] else []) @
     (if scim_bridge_key_event_is_num_lock_down k then [SCIM_BRIDGE_MESSAGE_NUM_LOCK] else []) @
     (if scim_bridge_key_event_is_quirk_enabled SCIM_BRIDGE_KEY_QUIRK_KANA_RO k
      then [SCIM_BRIDGE_MESSAGE_KANA_RO] else [])"

definition key_event_message :: "int \<Rightarrow> key_event \<Rightarrow> message" where
  "key_event_message i k =
     make_message SCIM_BRIDGE_MESSAGE_HANDLE_KEY_EVENT
       ([snd (scim_bridge_string_from_int i),
         snd (scim_bridge_string_from_uint (scim_bridge_key_event_get_code k)),
         snd (scim_bridge_string_from_boolean (scim_bridge_key_event_is_pressed k))]
        @ modifier_names k)"

text \<open>The second component is what is stored in \<^verbatim>\<open>*consumed\<close>, if anything.\<close>

definition scim_bridge_client_handle_key_event ::
  "'g toolkit \<Rightarrow> imcontext \<Rightarrow> key_event \<Rightarrow> 'g client \<Rightarrow> (retval \<times> bool option \<times> 'g client) run" where
  "scim_bridge_client_handle_key_event ui ic k c =
     (let i = scim_bridge_client_imcontext_get_id ic c in
      if \<not> initialized c then Done (RETVAL_FAILED, None, c)
      else if \<not> scim_bridge_client_is_messenger_opened c then Done (RETVAL_FAILED, None, c)
      else if status (pending_response c) \<noteq> RESPONSE_DONE then Done (RETVAL_FAILED, None, c)
      else
        let c0 = set_consumed False (expect SCIM_BRIDGE_MESSAGE_KEY_EVENT_HANDLED c) in
        run_bind (send_request ui (key_event_message i k) c0) (\<lambda>(rv, c1).
          if rv \<noteq> RETVAL_SUCCEEDED then Done (RETVAL_FAILED, None, c1)
          else
            run_bind (await_response ui c1) (\<lambda>(rv', c2).
              if rv' \<noteq> RETVAL_SUCCEEDED then Done (RETVAL_FAILED, None, c2)
              else if status (pending_response c2) = RESPONSE_SUCCEEDED
              then Done (RETVAL_SUCCEEDED, Some (consumed (pending_response c2)), settle c2)
              else Done (RETVAL_FAILED, None, settle c2))))"

definition scim_bridge_client_change_focus ::
  "'g toolkit \<Rightarrow> imcontext \<Rightarrow> bool \<Rightarrow> 'g client \<Rightarrow> (retval \<times> 'g client) run" where
  "scim_bridge_client_change_focus ui ic focus_in c =
     (let i = scim_bridge_client_imcontext_get_id ic c in
      if \<not> initialized c then Done (RETVAL_FAILED, c)
      else if \<not> scim_bridge_client_is_messenger_opened c then Done (RETVAL_FAILED, c)
      else if status (pending_response c) \<noteq> RESPONSE_DONE then Done (RETVAL_FAILED, c)
      else
        run_bind (send_request ui
            (make_message SCIM_BRIDGE_MESSAGE_CHANGE_FOCUS
              [uint_id i, snd (scim_bridge_string_from_boolean focus_in)])
            (set_consumed False (expect SCIM_BRIDGE_MESSAGE_FOCUS_CHANGED c)))
          (\<lambda>(rv, c1).
            if rv \<noteq> RETVAL_SUCCEEDED then Done (RETVAL_FAILED, c1) else finish_strict ui c1))"

definition scim_bridge_client_set_cursor_location ::
  "'g toolkit \<Rightarrow> imcontext \<Rightarrow> int \<Rightarrow> int \<Rightarrow> 'g client \<Rightarrow> (retval \<times> 'g client) run" where
  "scim_bridge_client_set_cursor_location ui ic x y c =
     (let i = scim_bridge_client_imcontext_get_id ic c in
      if \<not> initialized c then Done (RETVAL_FAILED, c)
      else if \<not> scim_bridge_client_is_messenger_opened c then Done (RETVAL_FAILED, c)
      else send_request ui
        (make_message SCIM_BRIDGE_MESSAGE_SET_CURSOR_LOCATION
          [uint_id i, snd (scim_bridge_string_from_int x), snd (scim_bridge_string_from_int y)]) c)"

datatype preedit_mode = PREEDIT_FLOATING | PREEDIT_HANGING | PREEDIT_EMBEDDED | PREEDIT_ANY

fun preedit_mode_string :: "preedit_mode \<Rightarrow> string" where
  "preedit_mode_string PREEDIT_FLOATING = SCIM_BRIDGE_MESSAGE_FLOATING"
| "preedit_mode_string PREEDIT_HANGING = SCIM_BRIDGE_MESSAGE_HANGING"
| "preedit_mode_string PREEDIT_EMBEDDED = SCIM_BRIDGE_MESSAGE_EMBEDDED"
| "preedit_mode_string PREEDIT_ANY = SCIM_BRIDGE_MESSAGE_ANY"

definition scim_bridge_client_set_preedit_mode ::
  "'g toolkit \<Rightarrow> imcontext \<Rightarrow> preedit_mode \<Rightarrow> 'g client \<Rightarrow> (retval \<times> 'g client) run" where
  "scim_bridge_client_set_preedit_mode ui ic mode c =
     (let i = scim_bridge_client_imcontext_get_id ic c in
      if \<not> initialized c then Done (RETVAL_FAILED, c)
      else if \<not> scim_bridge_client_is_messenger_opened c then Done (RETVAL_FAILED, c)
      else if status (pending_response c) \<noteq> RESPONSE_DONE then Done (RETVAL_FAILED, c)
      else
        run_bind (send_request ui
            (make_message SCIM_BRIDGE_MESSAGE_SET_PREEDIT_MODE [uint_id i, preedit_mode_string mode]) c)
          (\<lambda>(rv, c1).
            if rv \<noteq> RETVAL_SUCCEEDED then Done (RETVAL_FAILED, c1)
            else finish_lenient ui (expect SCIM_BRIDGE_MESSAGE_PREEDIT_MODE_CHANGED c1)))"

section \<open>Opening the messenger\<close>

text \<open>What the system answers: whether the SCIM binary is found, whether the agent can be launched,
  the descriptor and the result of \<^verbatim>\<open>connect\<close> of each attempt, the two calls of \<^verbatim>\<open>fcntl\<close>, and the
  script of the new connection.\<close>

record connection_env =
  scim_binary :: bool
  launch_succeeds :: bool
  socket_fds :: "nat \<Rightarrow> int"
  connects :: "nat \<Rightarrow> bool"
  fcntl_flags :: int
  fcntl_setfl :: int
  connection :: net

text \<open>The loop of ten attempts, from attempt \<open>i\<close> with \<open>n\<close> left; the result is the descriptor.\<close>

fun connect_loop :: "connection_env \<Rightarrow> nat \<Rightarrow> nat \<Rightarrow> int option" where
  "connect_loop env i 0 = None"
| "connect_loop env i (Suc n) =
     (if socket_fds env i < 0 then None
      else if \<not> connects env i then
        (if i = 5 \<and> \<not> launch_succeeds env then None else connect_loop env (Suc i) n)
      else Some (socket_fds env i))"

text \<open>The input contexts of the old list are registered again; \<open>remaining\<close> is the number of those left.
  On a failure the rest of the old list is appended and all the ids are forgotten.\<close>

fun reregister :: "'g toolkit \<Rightarrow> imcontext list \<Rightarrow> nat \<Rightarrow> 'g client \<Rightarrow> (retval \<times> 'g client) run" where
  "reregister ui [] remaining c = Done (RETVAL_SUCCEEDED, c)"
| "reregister ui (ic # ics) remaining c =
     run_bind (scim_bridge_client_register_imcontext ui ic c) (\<lambda>(rv, c1).
       if rv \<noteq> RETVAL_SUCCEEDED
       then Done (RETVAL_FAILED, forget_ids
              (c1\<lparr>imcontext_list := imcontext_list c1 @ ic # ics, list_size := list_size c1 + remaining\<rparr>))
       else reregister ui ics (remaining - 1) c1)"

definition scim_bridge_client_open_messenger ::
  "'g toolkit \<Rightarrow> connection_env \<Rightarrow> 'g client \<Rightarrow> (retval \<times> 'g client) run" where
  "scim_bridge_client_open_messenger ui env c =
     (if \<not> initialized c then Done (RETVAL_FAILED, c)
      else if client_messenger c \<noteq> None then Done (RETVAL_SUCCEEDED, c)
      else if \<not> scim_binary env then Done (RETVAL_FAILED, c)
      else
        (case connect_loop env 0 10 of
           None \<Rightarrow> Done (RETVAL_FAILED, c)
         | Some fd \<Rightarrow>
             let c1 = c\<lparr>client_messenger := scim_bridge_alloc_messenger fd (fcntl_flags env) (fcntl_setfl env),
                        kernel := connection env,
                        pending_response := \<lparr>status = RESPONSE_DONE, response_header = None,
                          consumed = True, imcontext_id = -1\<rparr>,
                        imcontext_list := [], list_size := 0, found_imcontext := None\<rparr> in
             run_bind (reregister ui (imcontext_list c) (list_size c) c1) (\<lambda>(rv, c2).
               if rv \<noteq> RETVAL_SUCCEEDED then Done (RETVAL_FAILED, c2)
               else Done (RETVAL_SUCCEEDED, c2\<lparr>gui := ui_messenger_opened ui (gui c2)\<rparr>))))"

end
