(* ===== verification/Bridge_Session.thy ===== *)
theory Bridge_Session
  imports Bridge_Client
begin

text \<open>
  The client at work: when the agent's answer arrives, in whatever pieces and between whatever
  interruptions, a request returns what the answer says; and every request that returns leaves no
  response pending.
\<close>

section \<open>Transfers that succeed\<close>

text \<open>Scripts without errors: the peer is slow, interrupted and cuts the bytes at will, but neither
  closes nor breaks the connection.\<close>

definition benign_rx :: "rx_event list \<Rightarrow> bool" where
  "benign_rx es \<longleftrightarrow>
     (\<forall>e \<in> set es. e = Rx_again \<or> e = Rx_select_interrupted \<or> (\<exists>bs. e = Rx_bytes bs \<and> bs \<noteq> []))"

definition benign_tx :: "tx_event list \<Rightarrow> bool" where
  "benign_tx es \<longleftrightarrow> (\<forall>e \<in> set es. e = Tx_again \<or> e = Tx_select_interrupted \<or> (\<exists>k. e = Tx_accept k))"

text \<open>How many times the socket takes at least one byte.\<close>

definition accepts :: "tx_event list \<Rightarrow> nat" where
  "accepts es = length (filter (\<lambda>e. case e of Tx_accept k \<Rightarrow> 0 < k | _ \<Rightarrow> False) es)"

lemma accepts_simps [simp]:
  "accepts [] = 0" "accepts (Tx_accept k # es) = (if 0 < k then Suc (accepts es) else accepts es)"
  "accepts (Tx_again # es) = accepts es" "accepts (Tx_select_interrupted # es) = accepts es"
  by (simp_all add: accepts_def)

lemma benign_simps [simp]:
  "benign_rx []" "benign_rx (Rx_bytes bs # es) \<longleftrightarrow> bs \<noteq> [] \<and> benign_rx es"
  "benign_rx (Rx_again # es) \<longleftrightarrow> benign_rx es" "benign_rx (Rx_select_interrupted # es) \<longleftrightarrow> benign_rx es"
  "\<not> benign_rx (Rx_closed # es)" "\<not> benign_rx (Rx_error # es)" "\<not> benign_rx (Rx_select_error # es)"
  "benign_tx []" "benign_tx (Tx_accept k # fs) \<longleftrightarrow> benign_tx fs"
  "benign_tx (Tx_again # fs) \<longleftrightarrow> benign_tx fs" "benign_tx (Tx_select_interrupted # fs) \<longleftrightarrow> benign_tx fs"
  "\<not> benign_tx (Tx_error # fs)" "\<not> benign_tx (Tx_select_error # fs)"
  by (simp_all add: benign_rx_def benign_tx_def)

text \<open>One send on a benign script.\<close>

lemma send_message_benign:
  assumes "messenger_inv m" "0 \<le> socket_fd m" "0 < rsize (sending m)" "benign_tx (tx net)"
    and "rsize (sending m) \<le> accepts (tx net)"
  shows "\<exists>m' net'. scim_bridge_messenger_send_message (Some m) False net =
      Done (RETVAL_SUCCEEDED, Some m', net') \<and> benign_tx (tx net') \<and>
    rsize (sending m') \<le> accepts (tx net')"
proof (cases "tx net")
  case Nil
  with assms show ?thesis by simp
next
  case (Cons e es)
  show ?thesis
  proof (cases e)
    case (Tx_accept k)
    let ?k = "min k (ring_write_size (sending m))"
    have pos: "0 < ring_write_size (sending m)"
      using assms(1,3) ring_write_size_bounds(3) [of "sending m"] by (simp add: messenger_inv_def)
    have "None \<notin> set (take ?k (drop (roffset (sending m)) (rbuffer (sending m))))"
      using sending_advance(1) [OF assms(1), of ?k] by auto
    moreover have "rsize (sending m) - ?k \<le> accepts es"
      using assms(5) Cons Tx_accept pos by (auto split: if_splits)
    ultimately show ?thesis
      using assms Cons Tx_accept
      by (auto simp: scim_bridge_messenger_send_message_def Let_def ring_advance_def)
  qed (use assms Cons in \<open>auto simp: scim_bridge_messenger_send_message_def Let_def\<close>)
qed

lemma flush_benign:
  "messenger_inv m \<Longrightarrow> 0 \<le> socket_fd m \<Longrightarrow> benign_tx (tx net) \<Longrightarrow>
   rsize (sending m) \<le> accepts (tx net) \<Longrightarrow>
   \<exists>m' net'. flush_messages (Some m) net = Done (RETVAL_SUCCEEDED, Some m', net') \<and>
     messenger_inv m' \<and> receiving_side m' = receiving_side m \<and> rx net' = rx net \<and>
     ring_content (sending m') = [] \<and> sent net' = sent net @ ring_content (sending m)"
proof (induction "length (tx net)" arbitrary: m net rule: less_induct)
  case less
  show ?case
  proof (cases "rsize (sending m) = 0")
    case True
    then have "ring_content (sending m) = []" by (metis length_0_conv length_ring_content)
    with True less.prems show ?thesis
      by (subst flush_messages.simps) (simp add: scim_bridge_messenger_get_sending_buffer_size_def)
  next
    case False
    from send_message_benign [OF less.prems(1,2) _ less.prems(3,4)] False obtain m1 net1 where
      s: "scim_bridge_messenger_send_message (Some m) False net = Done (RETVAL_SUCCEEDED, Some m1, net1)"
      "benign_tx (tx net1)" "rsize (sending m1) \<le> accepts (tx net1)" by auto
    have st: "sending_step m net m1 net1"
      using safe_withD [OF send_message_step [OF less.prems(1)] s(1)] by simp
    have "length (tx net1) < length (tx net)"
      by (rule send_message_consumes [OF s(1)])
        (use False in \<open>simp_all add: scim_bridge_messenger_get_sending_buffer_size_def\<close>)
    from less.hyps [OF this _ _ s(2,3)] st less.prems(2) obtain m' net' where
      "flush_messages (Some m1) net1 = Done (RETVAL_SUCCEEDED, Some m', net')"
      "messenger_inv m'" "receiving_side m' = receiving_side m1" "rx net' = rx net1"
      "ring_content (sending m') = []" "sent net' = sent net1 @ ring_content (sending m1)"
      by (auto simp: sending_step_def)
    with st s(1) False show ?thesis
      by (subst flush_messages.simps)
        (simp add: sending_step_def receiving_side_def scim_bridge_messenger_get_sending_buffer_size_def)
  qed
qed

text \<open>One receive on a benign script.\<close>

lemma receive_message_benign:
  assumes "messenger_inv m" "0 \<le> socket_fd m" "rx net \<noteq> []" "benign_rx (rx net)"
  shows "\<exists>m' net'. scim_bridge_messenger_receive_message (Some m) False net =
      Done (RETVAL_SUCCEEDED, Some m', net') \<and> benign_rx (rx net')"
proof -
  have "ring_inv (receiving m)" using assms(1) by (simp add: messenger_inv_def)
  note r = receive_reserve_room [OF this]
  have pos: "0 < ring_read_size (receive_reserve (receiving m))"
    by (rule ring_read_size_bounds [OF r(1,3)])
  from assms(3) obtain e es where e: "rx net = e # es" by (cases "rx net") auto
  show ?thesis
    using assms e pos
    by (cases e) (auto simp: scim_bridge_messenger_receive_message_def Let_def)
qed

definition clean_strings :: "string list \<Rightarrow> bool" where
  "clean_strings ss \<longleftrightarrow> (\<forall>s \<in> set ss. is_cstring s) \<and> (\<forall>s \<in> set (butlast ss). unescaped s)"

lemma poll_clean:
  assumes "messenger_inv m" "has_received_message m" "clean_strings (h # args)"
    and "ring_content (receiving m) = encode_strings (h # args) @ rest"
  shows "\<exists>m'. scim_bridge_messenger_poll_message (Some m) =
      Done (RETVAL_SUCCEEDED, Some (packed h args), Some m') \<and>
    messenger_inv m' \<and> ring_content (receiving m') = rest \<and> sending m' = sending m \<and>
    socket_fd m' = socket_fd m"
  using run_map_offsets [of "h # args" "[]" 0] assms(3) poll_rest [OF assms(1,2,4)]
  by (simp only: poll_message_encoded [OF assms(1,2,4)] append_Nil)
    (simp add: clean_strings_def)

lemma poll_nothing:
  assumes "messenger_inv m" "LF \<notin> set (ring_content (receiving m))"
  shows "\<exists>m'. scim_bridge_messenger_poll_message (Some m) = Done (RETVAL_FAILED, None, Some m') \<and>
    messenger_inv m' \<and> receiving m' = receiving m \<and> sending m' = sending m \<and> socket_fd m' = socket_fd m"
  using assms
  by (auto simp: scim_bridge_messenger_poll_message_def poll_loop_messenger poll_scan_incomplete
      messenger_inv_def)

lemma receive_until_clean:
  "messenger_inv m \<Longrightarrow> 0 \<le> socket_fd m \<Longrightarrow> benign_rx (rx net) \<Longrightarrow> clean_strings (h # args) \<Longrightarrow>
   ring_content (receiving m) @ rx_stream (rx net) = encode_strings (h # args) @ rest \<Longrightarrow>
   \<exists>m' net'. receive_until_message (Some m) net = Done (Some (packed h args), Some m', net') \<and>
     messenger_inv m' \<and> ring_content (receiving m') @ rx_stream (rx net') = rest \<and>
     sending m' = sending m \<and> socket_fd m' = socket_fd m \<and> benign_rx (rx net') \<and>
     tx net' = tx net \<and> sent net' = sent net"
proof (induction "rx_weight (rx net)" arbitrary: m net rule: less_induct)
  case less
  obtain bs where bs: "encode_strings (h # args) = bs @ [LF]" "LF \<notin> set bs"
    using encode_strings_LF by blast
  show ?case
  proof (cases "LF \<in> set (ring_content (receiving m))")
    case True
    have "ring_content (receiving m) @ rx_stream (rx net) = bs @ LF # rest"
      using less.prems(5) bs(1) by simp
    from prefix_with_LF [OF this bs(2) True] obtain us where
      us: "ring_content (receiving m) = encode_strings (h # args) @ us" "rest = us @ rx_stream (rx net)"
      using bs(1) by auto
    have rec: "has_received_message m" using True less.prems(1) by (auto simp: messenger_inv_def)
    from poll_clean [OF less.prems(1) rec less.prems(4) us(1)] us(2) less.prems(3) show ?thesis
      by (subst receive_until_message.simps) auto
  next
    case False
    have "LF \<in> set (ring_content (receiving m) @ rx_stream (rx net))"
      unfolding less.prems(5) bs(1) by simp
    with False have "rx net \<noteq> []" by auto
    from poll_nothing [OF less.prems(1) False] obtain m1 where
      m1: "scim_bridge_messenger_poll_message (Some m) = Done (RETVAL_FAILED, None, Some m1)"
      "messenger_inv m1" "receiving m1 = receiving m" "sending m1 = sending m" "socket_fd m1 = socket_fd m"
      by auto
    from receive_message_benign [OF m1(2) _ \<open>rx net \<noteq> []\<close> less.prems(3)] m1(5) less.prems(2)
    obtain m2 net2 where
      r: "scim_bridge_messenger_receive_message (Some m1) False net = Done (RETVAL_SUCCEEDED, Some m2, net2)"
      "benign_rx (rx net2)" by auto
    have st: "receiving_step m1 net m2 net2"
      using safe_withD [OF receive_message_step [OF m1(2)] r(1)] by simp
    have "rx_weight (rx net2) < rx_weight (rx net)" using receive_message_work [OF r(1)] by simp
    moreover have "messenger_inv m2" "0 \<le> socket_fd m2"
      "ring_content (receiving m2) @ rx_stream (rx net2) = encode_strings (h # args) @ rest"
      using st m1 less.prems(2) less.prems(5) unfolding receiving_step_def by metis+
    ultimately obtain m' net' where
      "receive_until_message (Some m2) net2 = Done (Some (packed h args), Some m', net')"
      "messenger_inv m'" "ring_content (receiving m') @ rx_stream (rx net') = rest"
      "sending m' = sending m2" "socket_fd m' = socket_fd m2" "benign_rx (rx net')"
      "tx net' = tx net2" "sent net' = sent net2"
      using less.hyps [OF _ _ _ r(2) less.prems(4)] by blast
    with st m1 r(1) show ?thesis
      by (subst receive_until_message.simps) (auto simp: receiving_step_def)
  qed
qed

section \<open>No request leaves a response pending\<close>

text \<open>\<open>if_returns P m\<close>: what the code returns, if it returns, satisfies \<open>P\<close>.\<close>

primrec if_returns :: "('a \<Rightarrow> bool) \<Rightarrow> 'a run \<Rightarrow> bool" where
  "if_returns P (Done x) = P x"
| "if_returns P Blocks = True"
| "if_returns P Undefined = True"

lemma if_returns_bind:
  "if_returns P (run_bind m f) \<longleftrightarrow> if_returns (\<lambda>x. if_returns P (f x)) m"
  by (cases m) auto

lemma if_returns_if [simp]:
  "if_returns P (if b then m else m') = (if b then if_returns P m else if_returns P m')"
  by simp

lemma if_returnsI: "(\<And>x. m = Done x \<Longrightarrow> P x) \<Longrightarrow> if_returns P m"
  by (cases m) auto

lemma if_returns_mono: "if_returns P m \<Longrightarrow> (\<And>x. m = Done x \<Longrightarrow> P x \<Longrightarrow> Q x) \<Longrightarrow> if_returns Q m"
  by (cases m) auto

definition settled :: "'g client \<Rightarrow> bool" where
  "settled c \<longleftrightarrow> status (pending_response c) = RESPONSE_DONE"

lemma settled_settle [simp]: "settled (settle c)"
  by (simp add: settled_def settle_def pending_setters)

lemma forget_ids_fields:
  "client_messenger (fold (\<lambda>x. scim_bridge_client_imcontext_set_id x (-1)) xs c) = client_messenger c"
  "pending_response (fold (\<lambda>x. scim_bridge_client_imcontext_set_id x (-1)) xs c) = pending_response c"
  "imcontext_list (fold (\<lambda>x. scim_bridge_client_imcontext_set_id x (-1)) xs c) = imcontext_list c"
  "list_size (fold (\<lambda>x. scim_bridge_client_imcontext_set_id x (-1)) xs c) = list_size c"
  "initialized (fold (\<lambda>x. scim_bridge_client_imcontext_set_id x (-1)) xs c) = initialized c"
  "found_imcontext (fold (\<lambda>x. scim_bridge_client_imcontext_set_id x (-1)) xs c) = found_imcontext c"
  "ids (fold (\<lambda>x. scim_bridge_client_imcontext_set_id x (-1)) xs c) =
     (\<lambda>y. if y \<in> set xs then -1 else ids c y)"
  by (induction xs arbitrary: c) (auto simp: scim_bridge_client_imcontext_set_id_def fun_eq_iff)

lemma forget_simps [simp]:
  "client_messenger (forget_ids c) = client_messenger c"
  "pending_response (forget_ids c) = pending_response c"
  "imcontext_list (forget_ids c) = imcontext_list c" "list_size (forget_ids c) = list_size c"
  "initialized (forget_ids c) = initialized c" "found_imcontext (forget_ids c) = found_imcontext c"
  "ids (forget_ids c) = (\<lambda>y. if y \<in> set (imcontext_list c) then -1 else ids c y)"
  by (simp_all add: forget_ids_def forget_ids_fields)

lemma close_settles:
  "client_messenger c \<noteq> None \<Longrightarrow> settled (snd (scim_bridge_client_close_messenger ui c))"
  by (auto simp: scim_bridge_client_close_messenger_def Let_def settled_def pending_setters)

lemma push_and_flush_opened:
  "push_and_flush msg c = Done (rv, c') \<Longrightarrow> client_messenger c \<noteq> None \<Longrightarrow> client_messenger c' \<noteq> None"
  using push_and_flush_frame [of msg c rv c'] by (auto simp: frame_def)

lemma send_request_settled:
  assumes "client_messenger c \<noteq> None"
  shows "if_returns (\<lambda>(rv, c'). (rv = RETVAL_SUCCEEDED \<longrightarrow> pending_response c' = pending_response c) \<and>
    (rv \<noteq> RETVAL_SUCCEEDED \<longrightarrow> settled c')) (send_request ui msg c)"
proof (rule if_returnsI)
  fix x assume "send_request ui msg c = Done x"
  then obtain rv c' where p: "push_and_flush (Some msg) c = Done (rv, c')"
    and x: "x = (if rv \<noteq> RETVAL_SUCCEEDED
       then (RETVAL_FAILED, snd (scim_bridge_client_close_messenger ui c')) else (RETVAL_SUCCEEDED, c'))"
    by (auto simp: send_request_def split: if_splits)
  show "case x of (rv, c') \<Rightarrow> (rv = RETVAL_SUCCEEDED \<longrightarrow> pending_response c' = pending_response c) \<and>
      (rv \<noteq> RETVAL_SUCCEEDED \<longrightarrow> settled c')"
    using push_and_flush_frame [OF p] close_settles [OF push_and_flush_opened [OF p assms]]
    by (simp add: x)
qed

lemma await_response_settled:
  "if_returns (\<lambda>(rv, c'). rv \<noteq> RETVAL_SUCCEEDED \<longrightarrow> settled c') (await_response ui c)"
proof (induction ui c rule: await_response.induct)
  case (1 ui c)
  then show ?case
    by (subst await_response.simps) (auto split: run.splits)
qed

text \<open>The two steps that every request is made of.\<close>

lemma send_then:
  assumes "client_messenger c \<noteq> None" "\<And>c'. settled c' \<Longrightarrow> Q (h c')" "\<And>c'. if_returns Q (g c')"
  shows "if_returns Q (run_bind (send_request ui msg c)
    (\<lambda>(rv, c'). if rv \<noteq> RETVAL_SUCCEEDED then Done (h c') else g c'))"
  unfolding if_returns_bind
  by (rule if_returns_mono [OF send_request_settled [OF assms(1)]]) (auto simp: assms(2,3))

lemma await_then:
  assumes "\<And>c'. settled c' \<Longrightarrow> Q (h c')" "\<And>c'. if_returns Q (g c')"
  shows "if_returns Q (run_bind (await_response ui c)
    (\<lambda>(rv, c'). if rv \<noteq> RETVAL_SUCCEEDED then Done (h c') else g c'))"
  unfolding if_returns_bind
  by (rule if_returns_mono [OF await_response_settled]) (auto simp: assms)

lemma finish_settled:
  "if_returns (\<lambda>(rv, c'). settled c') (finish_strict ui c)"
  "if_returns (\<lambda>(rv, c'). settled c') (finish_lenient ui c)"
  unfolding finish_strict_def finish_lenient_def by (rule await_then; simp)+

lemma done_then: "(\<And>x. Q (f x)) \<Longrightarrow> if_returns Q (run_bind m (\<lambda>x. Done (f x)))"
  by (cases m) simp_all

lemmas request_steps = send_then await_then done_then finish_settled

lemma register_settled:
  assumes "settled c"
  shows "if_returns (\<lambda>(rv, c'). settled c') (scim_bridge_client_register_imcontext ui ic c)"
  unfolding scim_bridge_client_register_imcontext_def Let_def if_returns_if
  using assms by (auto simp: scim_bridge_client_is_messenger_opened_def intro!: request_steps)

lemma set_id_settled [simp]: "settled (scim_bridge_client_imcontext_set_id ic i c) = settled c"
  by (simp add: settled_def scim_bridge_client_imcontext_set_id_def)

lemma deregister_settled:
  assumes "settled c"
  shows "if_returns (\<lambda>(rv, c'). settled c') (scim_bridge_client_deregister_imcontext ui ic c)"
  unfolding scim_bridge_client_deregister_imcontext_def Let_def if_returns_if
  using assms
  by (auto simp: scim_bridge_client_is_messenger_opened_def settled_def
      scim_bridge_client_imcontext_set_id_def intro!: request_steps split: option.splits)

lemma handle_key_event_settled:
  assumes "settled c"
  shows "if_returns (\<lambda>(rv, k, c'). settled c') (scim_bridge_client_handle_key_event ui ic k c)"
  unfolding scim_bridge_client_handle_key_event_def Let_def if_returns_if
  using assms
  by (auto simp: scim_bridge_client_is_messenger_opened_def expect_def pending_setters
      intro!: request_steps)

lemma cursor_location_settled:
  assumes "settled c"
  shows "if_returns (\<lambda>(rv, c'). settled c') (scim_bridge_client_set_cursor_location ui ic x y c)"
  unfolding scim_bridge_client_set_cursor_location_def Let_def if_returns_if
  using assms
  by (auto simp: scim_bridge_client_is_messenger_opened_def settled_def
      intro!: if_returns_mono [OF send_request_settled])

lemma other_requests_settled:
  assumes "settled c"
  shows "if_returns (\<lambda>(rv, c'). settled c') (scim_bridge_client_reset_imcontext ui ic c)"
    "if_returns (\<lambda>(rv, c'). settled c') (scim_bridge_client_set_imcontext_enabled ui ic e c)"
    "if_returns (\<lambda>(rv, c'). settled c') (scim_bridge_client_change_focus ui ic e c)"
    "if_returns (\<lambda>(rv, c'). settled c') (scim_bridge_client_set_preedit_mode ui ic mode c)"
  unfolding scim_bridge_client_reset_imcontext_def scim_bridge_client_set_imcontext_enabled_def
    scim_bridge_client_change_focus_def scim_bridge_client_set_preedit_mode_def Let_def if_returns_if
  using assms
  by (auto simp: scim_bridge_client_is_messenger_opened_def expect_def pending_setters
      intro!: request_steps)

lemma reregister_settled:
  "settled c \<Longrightarrow> if_returns (\<lambda>(rv, c'). settled c') (reregister ui ics n c)"
proof (induction ics arbitrary: n c)
  case (Cons ic ics)
  show ?case
    unfolding reregister.simps if_returns_bind
    by (rule if_returns_mono [OF register_settled [OF Cons.prems]])
      (auto simp: Cons.IH, simp add: settled_def)
qed simp

section \<open>An answer that arrives\<close>

definition with_io :: "messenger \<Rightarrow> net \<Rightarrow> 'g client \<Rightarrow> 'g client" where
  "with_io m net c = c\<lparr>client_messenger := Some m, kernel := net\<rparr>"

lemma with_io_simps [simp]:
  "client_messenger (with_io m net c) = Some m" "kernel (with_io m net c) = net"
  "pending_response (with_io m net c) = pending_response c" "initialized (with_io m net c) = initialized c"
  "imcontext_list (with_io m net c) = imcontext_list c" "ids (with_io m net c) = ids c"
  "list_size (with_io m net c) = list_size c" "found_imcontext (with_io m net c) = found_imcontext c"
  "with_io m net (with_io m' net' c) = with_io m net c"
  "(with_io m net c)\<lparr>client_messenger := Some m'\<rparr> = with_io m' net c"
  by (simp_all add: with_io_def)

lemma set_status_with_io [simp]:
  "set_status s (with_io m net c) = with_io m net (set_status s c)"
  "set_consumed b (with_io m net c) = with_io m net (set_consumed b c)"
  "set_imcontext_id i (with_io m net c) = with_io m net (set_imcontext_id i c)"
  "set_response_header h (with_io m net c) = with_io m net (set_response_header h c)"
  by (simp_all add: with_io_def pending_setters)

text \<open>When exactly one message is on its way and its handler settles the response, the wait ends
  with what the handler did.\<close>

lemma await_reply:
  assumes c: "initialized c" "client_messenger c = Some m" "status (pending_response c) = RESPONSE_PENDING"
    and m: "messenger_inv m" "0 \<le> socket_fd m" "benign_rx (rx (kernel c))" "clean_strings (h # args)"
    and bytes: "ring_content (receiving m) @ rx_stream (rx (kernel c)) = encode_strings (h # args)"
    and handler: "\<And>m' net'. dispatch_message ui (packed h args) (with_io m' net' c) =
      Done (RETVAL_SUCCEEDED, with_io m' net' c')"
    and settles: "status (pending_response c') \<noteq> RESPONSE_PENDING"
  shows "\<exists>m' net'. await_response ui c = Done (RETVAL_SUCCEEDED, with_io m' net' c') \<and>
    messenger_inv m' \<and> sending m' = sending m \<and> socket_fd m' = socket_fd m \<and>
    ring_content (receiving m') = [] \<and> sent net' = sent (kernel c) \<and> tx net' = tx (kernel c)"
proof -
  have "ring_content (receiving m) @ rx_stream (rx (kernel c)) = encode_strings (h # args) @ []"
    using bytes by simp
  from receive_until_clean [OF m this] obtain m1 net1 where
    r: "receive_until_message (Some m) (kernel c) = Done (Some (packed h args), Some m1, net1)"
    "messenger_inv m1" "ring_content (receiving m1) = []" "sending m1 = sending m"
    "socket_fd m1 = socket_fd m" "sent net1 = sent (kernel c)" "tx net1 = tx (kernel c)" by auto
  from poll_nothing [OF r(2)] r(3) obtain m2 where
    p: "scim_bridge_messenger_poll_message (Some m1) = Done (RETVAL_FAILED, None, Some m2)"
    "messenger_inv m2" "receiving m2 = receiving m1" "sending m2 = sending m1" "socket_fd m2 = socket_fd m1"
    by auto
  have "dispatch_loop ui (packed h args) (with_io m1 net1 c) = Done (RETVAL_SUCCEEDED, with_io m2 net1 c')"
    by (subst dispatch_loop.simps) (simp add: handler p(1) Let_def)
  then have rd: "scim_bridge_client_read_and_dispatch ui c = Done (RETVAL_SUCCEEDED, with_io m2 net1 c')"
    using c r(1) by (simp add: scim_bridge_client_read_and_dispatch_def
        scim_bridge_client_is_messenger_opened_def flip: with_io_def)
  have "await_response ui (with_io m2 net1 c') = Done (RETVAL_SUCCEEDED, with_io m2 net1 c')"
    using settles by (subst await_response.simps) simp
  then have "await_response ui c = Done (RETVAL_SUCCEEDED, with_io m2 net1 c')"
    using c(3) rd by (subst await_response.simps) simp
  with r p show ?thesis by (intro exI [of _ m2] exI [of _ net1]) simp
qed

text \<open>A client that is ready for a request: open, nothing left to send, and a
  connection that takes what is sent and delivers exactly the bytes \<open>reply\<close>, all without errors.\<close>

definition ready :: "'g client \<Rightarrow> nat \<Rightarrow> string \<Rightarrow> bool" where
  "ready c n reply \<longleftrightarrow> initialized c \<and>
     (\<exists>m. client_messenger c = Some m \<and> messenger_inv m \<and> 0 \<le> socket_fd m \<and>
       ring_content (sending m) = [] \<and> ring_content (receiving m) @ rx_stream (rx (kernel c)) = reply) \<and>
     benign_rx (rx (kernel c)) \<and> benign_tx (tx (kernel c)) \<and> n \<le> accepts (tx (kernel c))"

lemma ready_pending [simp]:
  "ready (set_status s c) n reply = ready c n reply" "ready (set_consumed b c) n reply = ready c n reply"
  "ready (set_response_header h c) n reply = ready c n reply"
  "ready (set_imcontext_id i c) n reply = ready c n reply"
  by (simp_all add: ready_def pending_setters)

lemma ready_messenger:
  assumes "ready c n reply"
  obtains m where "client_messenger c = Some m" "messenger_inv m" "0 \<le> socket_fd m"
    "ring_content (sending m) = []" "ring_content (receiving m) @ rx_stream (rx (kernel c)) = reply"
  using assms by (auto simp: ready_def)

lemma send_request_ready:
  assumes "ready c (length (encode_message msg)) reply"
  shows "\<exists>m' net'. send_request ui msg c = Done (RETVAL_SUCCEEDED, with_io m' net' c) \<and>
    messenger_inv m' \<and> 0 \<le> socket_fd m' \<and> ring_content (sending m') = [] \<and>
    ring_content (receiving m') @ rx_stream (rx net') = reply \<and> benign_rx (rx net') \<and>
    sent net' = sent (kernel c) @ encode_message msg"
proof -
  from assms obtain m where m: "client_messenger c = Some m" "messenger_inv m" "0 \<le> socket_fd m"
    "ring_content (sending m) = []" "ring_content (receiving m) @ rx_stream (rx (kernel c)) = reply"
    by (rule ready_messenger)
  define m1 where "m1 = m\<lparr>sending := push_strings (message_strings msg) (sending m)\<rparr>"
  have push: "scim_bridge_messenger_push_message (Some m) (Some msg) = (RETVAL_SUCCEEDED, Some m1)"
    by (simp add: scim_bridge_messenger_push_message_def m1_def)
  have m1: "messenger_inv m1" "ring_content (sending m1) = encode_message msg"
    "receiving_side m1 = receiving_side m"
    using m(2,4) push_strings_content [of "sending m" "message_strings msg"]
    by (simp_all add: m1_def messenger_inv_def encode_message_def receiving_side_def)
  have "rsize (sending m1) = length (encode_message msg)"
    using length_ring_content [of "sending m1"] m1(2) by simp
  with flush_benign [OF m1(1), of "kernel c"] assms m(3) m1(3) obtain m' net' where
    "flush_messages (Some m1) (kernel c) = Done (RETVAL_SUCCEEDED, Some m', net')"
    "messenger_inv m'" "receiving_side m' = receiving_side m1" "rx net' = rx (kernel c)"
    "ring_content (sending m') = []" "sent net' = sent (kernel c) @ encode_message msg"
    by (auto simp: ready_def receiving_side_def m1(2))
  note io = this
  have "send_request ui msg c = Done (RETVAL_SUCCEEDED, with_io m' net' c)"
    using io(1) m(1) push by (simp add: send_request_def push_and_flush_def with_io_def)
  moreover have "receiving m' = receiving m" "socket_fd m' = socket_fd m"
    using io(3) m1(3) by (simp_all add: receiving_side_def)
  ultimately show ?thesis
    using io m assms by (intro exI [of _ m'] exI [of _ net']) (simp add: ready_def)
qed

end
