(* ===== verification/Bridge_Requests.thy ===== *)
theory Bridge_Requests
  imports Bridge_Session
begin

text \<open>
  The properties of the handlers and of the requests of \<^verbatim>\<open>scim-bridge-client.c\<close>: every message reaches
  its own handler, the colours and key events of messages are read as they were written, a key event
  is answered by what the agent says, and no request that returns leaves a response pending.
\<close>

section \<open>Routing\<close>

text \<open>The headers that the dispatcher tests, in its order.\<close>

definition tested_headers :: "string list" where
  "tested_headers =
    [SCIM_BRIDGE_MESSAGE_IMENGINE_STATUS_CHANGED,
     SCIM_BRIDGE_MESSAGE_PREEDIT_MODE_CHANGED,
     SCIM_BRIDGE_MESSAGE_SET_COMMIT_STRING,
     SCIM_BRIDGE_MESSAGE_COMMIT_STRING,
     SCIM_BRIDGE_MESSAGE_SET_PREEDIT_SHOWN,
     SCIM_BRIDGE_MESSAGE_SET_PREEDIT_STRING,
     SCIM_BRIDGE_MESSAGE_SET_PREEDIT_CURSOR_POSITION,
     SCIM_BRIDGE_MESSAGE_SET_PREEDIT_ATTRIBUTES,
     SCIM_BRIDGE_MESSAGE_UPDATE_PREEDIT,
     SCIM_BRIDGE_MESSAGE_KEY_EVENT_HANDLED,
     SCIM_BRIDGE_MESSAGE_IMCONTEXT_REGISTERED,
     SCIM_BRIDGE_MESSAGE_IMCONTEXT_DEREGISTERED,
     SCIM_BRIDGE_MESSAGE_IMCONTEXT_RESETED,
     SCIM_BRIDGE_MESSAGE_ENABLED,
     SCIM_BRIDGE_MESSAGE_DISABLED,
     SCIM_BRIDGE_MESSAGE_FORWARD_KEY_EVENT,
     SCIM_BRIDGE_MESSAGE_BEEP,
     SCIM_BRIDGE_MESSAGE_CURSOR_LOCATION_CHANGED,
     SCIM_BRIDGE_MESSAGE_FOCUS_CHANGED,
     SCIM_BRIDGE_MESSAGE_GET_SURROUNDING_TEXT,
     SCIM_BRIDGE_MESSAGE_DELETE_SURROUNDING_TEXT,
     SCIM_BRIDGE_MESSAGE_REPLACE_SURROUNDING_TEXT]"

text \<open>The handler of each header.\<close>

lemma dispatch_header:
  "scim_bridge_message_get_header msg = SCIM_BRIDGE_MESSAGE_IMENGINE_STATUS_CHANGED \<Longrightarrow>
     dispatch_message ui msg c = received_message_imengine_status_changed ui msg c"
  "scim_bridge_message_get_header msg = SCIM_BRIDGE_MESSAGE_PREEDIT_MODE_CHANGED \<Longrightarrow>
     dispatch_message ui msg c = received_message_preedit_mode_changed msg c"
  "scim_bridge_message_get_header msg = SCIM_BRIDGE_MESSAGE_SET_COMMIT_STRING \<Longrightarrow>
     dispatch_message ui msg c = received_message_set_commit_string ui msg c"
  "scim_bridge_message_get_header msg = SCIM_BRIDGE_MESSAGE_COMMIT_STRING \<Longrightarrow>
     dispatch_message ui msg c = received_message_commit_string ui msg c"
  "scim_bridge_message_get_header msg = SCIM_BRIDGE_MESSAGE_SET_PREEDIT_SHOWN \<Longrightarrow>
     dispatch_message ui msg c = received_message_set_preedit_shown ui msg c"
  "scim_bridge_message_get_header msg = SCIM_BRIDGE_MESSAGE_SET_PREEDIT_STRING \<Longrightarrow>
     dispatch_message ui msg c = received_message_set_preedit_string ui msg c"
  "scim_bridge_message_get_header msg = SCIM_BRIDGE_MESSAGE_SET_PREEDIT_CURSOR_POSITION \<Longrightarrow>
     dispatch_message ui msg c = received_message_set_preedit_cursor_position ui msg c"
  "scim_bridge_message_get_header msg = SCIM_BRIDGE_MESSAGE_SET_PREEDIT_ATTRIBUTES \<Longrightarrow>
     dispatch_message ui msg c = received_message_set_preedit_attributes ui msg c"
  "scim_bridge_message_get_header msg = SCIM_BRIDGE_MESSAGE_UPDATE_PREEDIT \<Longrightarrow>
     dispatch_message ui msg c = received_message_update_preedit ui msg c"
  "scim_bridge_message_get_header msg = SCIM_BRIDGE_MESSAGE_KEY_EVENT_HANDLED \<Longrightarrow>
     dispatch_message ui msg c = received_message_key_event_handled msg c"
  "scim_bridge_message_get_header msg = SCIM_BRIDGE_MESSAGE_IMCONTEXT_REGISTERED \<Longrightarrow>
     dispatch_message ui msg c = received_message_imcontext_registered msg c"
  "scim_bridge_message_get_header msg = SCIM_BRIDGE_MESSAGE_IMCONTEXT_DEREGISTERED \<Longrightarrow>
     dispatch_message ui msg c = received_message_imcontext_deregistered msg c"
  "scim_bridge_message_get_header msg = SCIM_BRIDGE_MESSAGE_IMCONTEXT_RESETED \<Longrightarrow>
     dispatch_message ui msg c = received_message_imcontext_reseted msg c"
  "scim_bridge_message_get_header msg = SCIM_BRIDGE_MESSAGE_ENABLED \<Longrightarrow>
     dispatch_message ui msg c = received_message_imcontext_enabled msg c"
  "scim_bridge_message_get_header msg = SCIM_BRIDGE_MESSAGE_DISABLED \<Longrightarrow>
     dispatch_message ui msg c = received_message_imcontext_disabled msg c"
  "scim_bridge_message_get_header msg = SCIM_BRIDGE_MESSAGE_FORWARD_KEY_EVENT \<Longrightarrow>
     dispatch_message ui msg c = received_message_forward_key_event ui msg c"
  "scim_bridge_message_get_header msg = SCIM_BRIDGE_MESSAGE_BEEP \<Longrightarrow>
     dispatch_message ui msg c = received_message_beep ui msg c"
  "scim_bridge_message_get_header msg = SCIM_BRIDGE_MESSAGE_CURSOR_LOCATION_CHANGED \<Longrightarrow>
     dispatch_message ui msg c = received_message_cursor_location_changed msg c"
  "scim_bridge_message_get_header msg = SCIM_BRIDGE_MESSAGE_FOCUS_CHANGED \<Longrightarrow>
     dispatch_message ui msg c = received_message_focus_changed msg c"
  "scim_bridge_message_get_header msg = SCIM_BRIDGE_MESSAGE_GET_SURROUNDING_TEXT \<Longrightarrow>
     dispatch_message ui msg c = received_message_get_surrounding_text ui msg c"
  "scim_bridge_message_get_header msg = SCIM_BRIDGE_MESSAGE_DELETE_SURROUNDING_TEXT \<Longrightarrow>
     dispatch_message ui msg c = received_message_delete_surrounding_text ui msg c"
  "scim_bridge_message_get_header msg = SCIM_BRIDGE_MESSAGE_REPLACE_SURROUNDING_TEXT \<Longrightarrow>
     dispatch_message ui msg c = received_message_replace_surrounding_text ui msg c"
  "scim_bridge_message_get_header msg \<notin> set tested_headers \<Longrightarrow>
     dispatch_message ui msg c = Done (RETVAL_SUCCEEDED, c)"
  by (simp_all add: dispatch_message_def Let_def message_constants tested_headers_def received_message_unknown_def)

lemma get_header_packed [simp]: "scim_bridge_message_get_header (packed h args) = h"
  by (simp add: scim_bridge_message_get_header_def)

text \<open>each of the 22 headers of the agent's messages is routed to its own handler, whatever the
  arguments, and a message with any other header changes nothing.\<close>

theorem dispatch_routes:
  "(dispatch_message ui (packed SCIM_BRIDGE_MESSAGE_IMENGINE_STATUS_CHANGED args) c =
       received_message_imengine_status_changed ui (packed SCIM_BRIDGE_MESSAGE_IMENGINE_STATUS_CHANGED args) c \<and>
     dispatch_message ui (packed SCIM_BRIDGE_MESSAGE_PREEDIT_MODE_CHANGED args) c =
       received_message_preedit_mode_changed (packed SCIM_BRIDGE_MESSAGE_PREEDIT_MODE_CHANGED args) c \<and>
     dispatch_message ui (packed SCIM_BRIDGE_MESSAGE_SET_COMMIT_STRING args) c =
       received_message_set_commit_string ui (packed SCIM_BRIDGE_MESSAGE_SET_COMMIT_STRING args) c \<and>
     dispatch_message ui (packed SCIM_BRIDGE_MESSAGE_COMMIT_STRING args) c =
       received_message_commit_string ui (packed SCIM_BRIDGE_MESSAGE_COMMIT_STRING args) c \<and>
     dispatch_message ui (packed SCIM_BRIDGE_MESSAGE_SET_PREEDIT_SHOWN args) c =
       received_message_set_preedit_shown ui (packed SCIM_BRIDGE_MESSAGE_SET_PREEDIT_SHOWN args) c \<and>
     dispatch_message ui (packed SCIM_BRIDGE_MESSAGE_SET_PREEDIT_STRING args) c =
       received_message_set_preedit_string ui (packed SCIM_BRIDGE_MESSAGE_SET_PREEDIT_STRING args) c \<and>
     dispatch_message ui (packed SCIM_BRIDGE_MESSAGE_SET_PREEDIT_CURSOR_POSITION args) c =
       received_message_set_preedit_cursor_position ui (packed SCIM_BRIDGE_MESSAGE_SET_PREEDIT_CURSOR_POSITION args) c \<and>
     dispatch_message ui (packed SCIM_BRIDGE_MESSAGE_SET_PREEDIT_ATTRIBUTES args) c =
       received_message_set_preedit_attributes ui (packed SCIM_BRIDGE_MESSAGE_SET_PREEDIT_ATTRIBUTES args) c \<and>
     dispatch_message ui (packed SCIM_BRIDGE_MESSAGE_UPDATE_PREEDIT args) c =
       received_message_update_preedit ui (packed SCIM_BRIDGE_MESSAGE_UPDATE_PREEDIT args) c \<and>
     dispatch_message ui (packed SCIM_BRIDGE_MESSAGE_KEY_EVENT_HANDLED args) c =
       received_message_key_event_handled (packed SCIM_BRIDGE_MESSAGE_KEY_EVENT_HANDLED args) c \<and>
     dispatch_message ui (packed SCIM_BRIDGE_MESSAGE_IMCONTEXT_REGISTERED args) c =
       received_message_imcontext_registered (packed SCIM_BRIDGE_MESSAGE_IMCONTEXT_REGISTERED args) c \<and>
     dispatch_message ui (packed SCIM_BRIDGE_MESSAGE_IMCONTEXT_DEREGISTERED args) c =
       received_message_imcontext_deregistered (packed SCIM_BRIDGE_MESSAGE_IMCONTEXT_DEREGISTERED args) c \<and>
     dispatch_message ui (packed SCIM_BRIDGE_MESSAGE_IMCONTEXT_RESETED args) c =
       received_message_imcontext_reseted (packed SCIM_BRIDGE_MESSAGE_IMCONTEXT_RESETED args) c \<and>
     dispatch_message ui (packed SCIM_BRIDGE_MESSAGE_ENABLED args) c =
       received_message_imcontext_enabled (packed SCIM_BRIDGE_MESSAGE_ENABLED args) c \<and>
     dispatch_message ui (packed SCIM_BRIDGE_MESSAGE_DISABLED args) c =
       received_message_imcontext_disabled (packed SCIM_BRIDGE_MESSAGE_DISABLED args) c \<and>
     dispatch_message ui (packed SCIM_BRIDGE_MESSAGE_FORWARD_KEY_EVENT args) c =
       received_message_forward_key_event ui (packed SCIM_BRIDGE_MESSAGE_FORWARD_KEY_EVENT args) c \<and>
     dispatch_message ui (packed SCIM_BRIDGE_MESSAGE_BEEP args) c =
       received_message_beep ui (packed SCIM_BRIDGE_MESSAGE_BEEP args) c \<and>
     dispatch_message ui (packed SCIM_BRIDGE_MESSAGE_CURSOR_LOCATION_CHANGED args) c =
       received_message_cursor_location_changed (packed SCIM_BRIDGE_MESSAGE_CURSOR_LOCATION_CHANGED args) c \<and>
     dispatch_message ui (packed SCIM_BRIDGE_MESSAGE_FOCUS_CHANGED args) c =
       received_message_focus_changed (packed SCIM_BRIDGE_MESSAGE_FOCUS_CHANGED args) c \<and>
     dispatch_message ui (packed SCIM_BRIDGE_MESSAGE_GET_SURROUNDING_TEXT args) c =
       received_message_get_surrounding_text ui (packed SCIM_BRIDGE_MESSAGE_GET_SURROUNDING_TEXT args) c \<and>
     dispatch_message ui (packed SCIM_BRIDGE_MESSAGE_DELETE_SURROUNDING_TEXT args) c =
       received_message_delete_surrounding_text ui (packed SCIM_BRIDGE_MESSAGE_DELETE_SURROUNDING_TEXT args) c \<and>
     dispatch_message ui (packed SCIM_BRIDGE_MESSAGE_REPLACE_SURROUNDING_TEXT args) c =
       received_message_replace_surrounding_text ui (packed SCIM_BRIDGE_MESSAGE_REPLACE_SURROUNDING_TEXT args) c) \<and>
   (h \<notin> set tested_headers \<longrightarrow> dispatch_message ui (packed h args) c = Done (RETVAL_SUCCEEDED, c))"
  by (simp add: dispatch_header)

text \<open>A toolkit that does nothing, and a client connected to a socket with the given script.\<close>

definition quiet_toolkit :: "unit toolkit" where
  "quiet_toolkit = \<lparr>ui_imengine_status_changed = (\<lambda>_ _ g. g), ui_set_commit_string = (\<lambda>_ _ g. g),
     ui_commit = (\<lambda>_ g. g), ui_set_preedit_shown = (\<lambda>_ _ g. g), ui_set_preedit_string = (\<lambda>_ _ g. g),
     ui_set_preedit_attributes = (\<lambda>_ _ g. g), ui_set_preedit_cursor_position = (\<lambda>_ _ g. g),
     ui_update_preedit = (\<lambda>_ g. g), ui_beep = (\<lambda>_ g. g), ui_forward_key_event = (\<lambda>_ _ g. g),
     ui_get_surrounding_text = (\<lambda>_ _ _ g. (None, g)), ui_delete_surrounding_text = (\<lambda>_ _ _ g. (False, g)),
     ui_replace_surrounding_text = (\<lambda>_ _ _ g. (False, g)), ui_messenger_opened = (\<lambda>g. g),
     ui_messenger_closed = (\<lambda>g. g)\<rparr>"

definition connected :: "rx_event list \<Rightarrow> tx_event list \<Rightarrow> unit client" where
  "connected rxs txs =
     \<lparr>initialized = True, client_messenger = Some fresh_messenger,
      kernel = \<lparr>rx = rxs, tx = txs, sent = []\<rparr>,
      pending_response = \<lparr>status = RESPONSE_DONE, response_header = None, consumed = True, imcontext_id = -1\<rparr>,
      imcontext_list = [], found_imcontext = None, list_size = 0, ids = (\<lambda>_. -1), gui = ()\<rparr>"

lemma fresh_messenger_fields:
  "ring_content (sending fresh_messenger) = []" "ring_content (receiving fresh_messenger) = []"
  "socket_fd fresh_messenger = 3"
  using ring_alloc_inv [of 20] by (simp_all add: fresh_messenger_def)

lemma connected_ready:
  "benign_rx rxs \<Longrightarrow> benign_tx txs \<Longrightarrow> n \<le> accepts txs \<Longrightarrow> rx_stream rxs = reply \<Longrightarrow>
   ready (connected rxs txs) n reply \<and> settled (connected rxs txs)"
  using fresh_messenger_inv
  by (auto simp: ready_def settled_def connected_def fresh_messenger_fields)

section \<open>Every request settles\<close>

text \<open>C3: every request of the client that returns leaves no response pending, whatever the agent
  sends and however the connection fails, so that the next request is not refused with "another
  command is pending".\<close>

theorem requests_settle:
  assumes "settled c"
  shows "if_returns (\<lambda>(rv, c'). settled c') (scim_bridge_client_register_imcontext ui ic c) \<and>
    if_returns (\<lambda>(rv, c'). settled c') (scim_bridge_client_deregister_imcontext ui ic c) \<and>
    if_returns (\<lambda>(rv, c'). settled c') (scim_bridge_client_reset_imcontext ui ic c) \<and>
    if_returns (\<lambda>(rv, c'). settled c') (scim_bridge_client_set_imcontext_enabled ui ic b c) \<and>
    if_returns (\<lambda>(rv, r, c'). settled c') (scim_bridge_client_handle_key_event ui ic k c) \<and>
    if_returns (\<lambda>(rv, c'). settled c') (scim_bridge_client_change_focus ui ic b c) \<and>
    if_returns (\<lambda>(rv, c'). settled c') (scim_bridge_client_set_cursor_location ui ic x y c) \<and>
    if_returns (\<lambda>(rv, c'). settled c') (scim_bridge_client_set_preedit_mode ui ic mode c)"
  by (intro conjI register_settled deregister_settled other_requests_settled handle_key_event_settled
      cursor_location_settled assms)

theorem requests_settle_witness:
  "if_returns (\<lambda>(rv, c'). settled c')
    (scim_bridge_client_register_imcontext quiet_toolkit 1 (connected [Rx_closed] [Tx_accept 100]))"
  using requests_settle [of "connected [Rx_closed] [Tx_accept 100]" quiet_toolkit 1]
    connected_ready [of "[]" "[]" 0 "[]"]
  by (simp add: settled_def connected_def)

section \<open>Answers\<close>

lemma unescaped_code: "unescaped s \<longleftrightarrow> list_all (\<lambda>c. c \<noteq> LF \<and> c \<noteq> SPACE \<and> c \<noteq> BACKSLASH) s"
  by (auto simp: unescaped_def list_all_iff)

lemma is_cstring_code: "is_cstring s \<longleftrightarrow> list_all (\<lambda>c. c \<noteq> NUL) s"
  by (auto simp: is_cstring_def list_all_iff)

lemma answer_headers_clean:
  "is_cstring s \<Longrightarrow> clean_strings [SCIM_BRIDGE_MESSAGE_KEY_EVENT_HANDLED, s]"
  "is_cstring s \<Longrightarrow> clean_strings [SCIM_BRIDGE_MESSAGE_IMCONTEXT_REGISTERED, s]"
  "clean_strings [SCIM_BRIDGE_MESSAGE_FOCUS_CHANGED]"
  "clean_strings [SCIM_BRIDGE_MESSAGE_IMCONTEXT_RESETED]"
  by (simp_all add: clean_strings_def unescaped_code is_cstring_code message_constants)

text \<open>C2: a key event on a working connection is answered by what the agent says. The message that is
  sent is the one of the key event; when the agent answers with a boolean, in whatever pieces and
  between whatever interruptions it arrives, the request succeeds and \<^verbatim>\<open>*consumed\<close> is that boolean;
  when it answers with anything else, the request fails.\<close>

theorem handle_key_event_answered:
  assumes "settled c" "is_cstring s"
    and "ready c (length (encode_message (key_event_message (ids c ic) k)))
      (encode_strings [SCIM_BRIDGE_MESSAGE_KEY_EVENT_HANDLED, s])"
  shows "\<exists>c'. scim_bridge_client_handle_key_event ui ic k c =
      Done (case scim_bridge_string_to_boolean (Some s) of
              None \<Rightarrow> (RETVAL_FAILED, None, c')
            | Some b \<Rightarrow> (RETVAL_SUCCEEDED, Some b, c')) \<and>
    settled c' \<and> sent (kernel c') = sent (kernel c) @ encode_message (key_event_message (ids c ic) k)"
proof -
  let ?H = SCIM_BRIDGE_MESSAGE_KEY_EVENT_HANDLED
  let ?c0 = "set_consumed False (expect ?H c)"
  have "ready ?c0 (length (encode_message (key_event_message (ids c ic) k))) (encode_strings [?H, s])"
    using assms(3) by (simp add: expect_def)
  from send_request_ready [OF this, of ui] obtain m1 net1 where
    r: "send_request ui (key_event_message (ids c ic) k) ?c0 = Done (RETVAL_SUCCEEDED, with_io m1 net1 ?c0)"
    "messenger_inv m1" "0 \<le> socket_fd m1" "benign_rx (rx net1)"
    "ring_content (receiving m1) @ rx_stream (rx net1) = encode_strings [?H, s]"
    "sent net1 = sent (kernel c) @ encode_message (key_event_message (ids c ic) k)"
    by (auto simp: expect_def pending_setters)
  let ?c1 = "with_io m1 net1 ?c0"
  let ?c2 = "case scim_bridge_string_to_boolean (Some s) of None \<Rightarrow> set_status RESPONSE_FAILED ?c1
    | Some b \<Rightarrow> set_status RESPONSE_SUCCEEDED (set_consumed b ?c1)"
  have handler: "dispatch_message ui (packed ?H [s]) (with_io m' net' ?c1) =
      Done (RETVAL_SUCCEEDED, with_io m' net' ?c2)" for m' net'
    by (simp add: dispatch_header received_message_key_event_handled_def awaits_def expect_def
        pending_setters with_io_def split: option.splits)
  have c1: "initialized ?c1" "client_messenger ?c1 = Some m1"
    "status (pending_response ?c1) = RESPONSE_PENDING" "benign_rx (rx (kernel ?c1))"
    "ring_content (receiving m1) @ rx_stream (rx (kernel ?c1)) = encode_strings [?H, s]"
    using assms(3) r(4,5) by (simp_all add: ready_def expect_def pending_setters)
  have c2: "status (pending_response ?c2) \<noteq> RESPONSE_PENDING"
    by (simp add: pending_setters split: option.splits)
  from await_reply [OF c1(1-3) r(2,3) c1(4) answer_headers_clean(1) [OF assms(2)] c1(5) handler c2]
  obtain m' net' where
    a: "await_response ui ?c1 = Done (RETVAL_SUCCEEDED, with_io m' net' ?c2)" "sent net' = sent (kernel ?c1)"
    by blast
  let ?c' = "settle (with_io m' net' ?c2)"
  have "scim_bridge_client_handle_key_event ui ic k c =
      Done (case scim_bridge_string_to_boolean (Some s) of
              None \<Rightarrow> (RETVAL_FAILED, None, ?c') | Some b \<Rightarrow> (RETVAL_SUCCEEDED, Some b, ?c'))"
    using assms(1,3) r(1) a(1)
    by (auto simp: scim_bridge_client_handle_key_event_def scim_bridge_client_imcontext_get_id_def
        scim_bridge_client_is_messenger_opened_def ready_def settled_def pending_setters
        split: option.splits)
  moreover have "sent (kernel ?c') = sent (kernel c) @ encode_message (key_event_message (ids c ic) k)"
    using a(2) r(6) by (simp add: settle_def pending_setters with_io_def)
  ultimately show ?thesis by (intro exI [of _ ?c']) simp
qed

definition demo_key :: key_event where
  "demo_key = \<lparr>pressed = True, code = 97, mod_state = 5, quirks = 0\<rparr>"

definition demo_reply :: string where
  "demo_reply = encode_strings [SCIM_BRIDGE_MESSAGE_KEY_EVENT_HANDLED, ''TRUE'']"

theorem handle_key_event_answered_witness:
  "\<exists>c'. scim_bridge_client_handle_key_event quiet_toolkit 1 demo_key
      (connected [Rx_bytes (take 5 demo_reply), Rx_again, Rx_bytes (drop 5 demo_reply)]
        (Tx_again # replicate 100 (Tx_accept 7))) = Done (RETVAL_SUCCEEDED, Some True, c') \<and> settled c'"
proof -
  let ?c = "connected [Rx_bytes (take 5 demo_reply), Rx_again, Rx_bytes (drop 5 demo_reply)]
    (Tx_again # replicate 100 (Tx_accept 7))"
  have "take 5 demo_reply \<noteq> [] \<and> drop 5 demo_reply \<noteq> []" by code_simp
  then have "benign_rx [Rx_bytes (take 5 demo_reply), Rx_again, Rx_bytes (drop 5 demo_reply)]"
    by (simp only: benign_simps) simp
  moreover have "benign_tx (Tx_again # replicate 100 (Tx_accept 7))"
    by (simp add: benign_tx_def)
  moreover have "length (encode_message (key_event_message (- 1) demo_key)) \<le>
      accepts (Tx_again # replicate 100 (Tx_accept 7))"
    unfolding key_event_message_def make_message_packed by code_simp
  ultimately have r: "ready ?c (length (encode_message (key_event_message (- 1) demo_key))) demo_reply \<and> settled ?c"
    by (intro connected_ready) simp_all
  have i: "ids ?c 1 = - 1" by (simp add: connected_def)
  have "ready ?c (length (encode_message (key_event_message (ids ?c 1) demo_key)))
      (encode_strings [SCIM_BRIDGE_MESSAGE_KEY_EVENT_HANDLED, ''TRUE''])"
    unfolding i by (fold demo_reply_def) (rule r [THEN conjunct1])
  from handle_key_event_answered [OF r [THEN conjunct2] _ this, of quiet_toolkit]
  obtain c' where "scim_bridge_client_handle_key_event quiet_toolkit 1 demo_key ?c =
      Done (RETVAL_SUCCEEDED, Some True, c')" "settled c'"
    by (auto simp: scim_bridge_string_to_boolean_def is_cstring_code)
  then show ?thesis by blast
qed

section \<open>Colours\<close>

fun hex_value :: "nat \<Rightarrow> string \<Rightarrow> nat option" where
  "hex_value v [] = Some v"
| "hex_value v (c # s) =
     (case hex_digit c of None \<Rightarrow> None | Some d \<Rightarrow> hex_value (v * 16 + unat d) s)"

lemma hex_digit_bound: "hex_digit c = Some d \<Longrightarrow> unat d < 16"
  by (auto simp: hex_digit_def split: if_splits)

lemma hex_value_bound: "hex_value v s = Some n \<Longrightarrow> n < (v + 1) * 16 ^ length s"
proof (induction v s rule: hex_value.induct)
  case (2 v c s)
  then obtain d where d: "hex_digit c = Some d" "hex_value (v * 16 + unat d) s = Some n"
    by (auto split: option.splits)
  have "n < (v * 16 + unat d + 1) * 16 ^ length s" by (rule "2.IH" [OF d])
  also have "\<dots> \<le> (v + 1) * 16 * 16 ^ length s"
    using hex_digit_bound [OF d(1)] by (intro mult_right_mono) simp_all
  finally show ?case by (simp add: algebra_simps)
qed simp

lemma color_loop_affine:
  "hex_value u s = Some n \<Longrightarrow> color_loop s (w + of_nat u) = w * 16 ^ length s + of_nat n"
proof (induction u s arbitrary: w rule: hex_value.induct)
  case (2 u c s)
  then obtain d where d: "hex_digit c = Some d" "hex_value (u * 16 + unat d) s = Some n"
    by (auto split: option.splits)
  have "push_bit 4 (w + of_nat u) + d = w * 16 + of_nat (u * 16 + unat d)"
    by (simp add: push_bit_eq_mult algebra_simps)
  with d "2.IH" [OF d, of "w * 16"] show ?case by (simp add: algebra_simps)
qed simp

lemma color_loop_append: "color_loop (s @ t) v = color_loop t (color_loop s v)"
  by (induction s arbitrary: v) simp_all

lemma parse_color_hash:
  "length s = 6 \<Longrightarrow> parse_color (CHR ''#'' # s) = color_loop s 0"
  by (simp add: parse_color_def SCIM_BRIDGE_MESSAGE_COLOR_def)

lemma unat_color_components:
  assumes "n < 16777216"
  shows "unat (drop_bit 16 ((of_nat n :: 32 word) AND 0xFF0000) AND 0xFF) = n div 65536"
    "unat (drop_bit 8 ((of_nat n :: 32 word) AND 0x00FF00) AND 0xFF) = n div 256 mod 256"
    "unat (drop_bit 0 ((of_nat n :: 32 word) AND 0x0000FF) AND 0xFF) = n mod 256"
proof -
  let ?w = "of_nat n :: 32 word"
  have e: "drop_bit 16 (?w AND 0xFF0000) AND 0xFF = take_bit 8 (drop_bit 16 ?w)"
    "drop_bit 8 (?w AND 0x00FF00) AND 0xFF = take_bit 8 (drop_bit 8 ?w)"
    "drop_bit 0 (?w AND 0x0000FF) AND 0xFF = take_bit 8 (drop_bit 0 ?w)"
    by (rule bit_eqI; auto simp: color_bits)+
  have n: "unat ?w = n" using assms by (simp add: unat_of_nat)
  have "unat (take_bit 8 (drop_bit k ?w)) = n div 2 ^ k mod 256" for k
    using assms by (simp only: unsigned_take_bit_eq unsigned_drop_bit_eq n)
      (simp add: take_bit_eq_mod drop_bit_eq_div)
  from this [of 16] this [of 8] this [of 0]
  show "unat (drop_bit 16 (?w AND 0xFF0000) AND 0xFF) = n div 65536"
    "unat (drop_bit 8 (?w AND 0x00FF00) AND 0xFF) = n div 256 mod 256"
    "unat (drop_bit 0 (?w AND 0x0000FF) AND 0xFF) = n mod 256"
    unfolding e using assms by simp_all
qed

lemma type_set_color [simp]:
  "attribute_type (scim_bridge_attribute_set_color r g b a) = attribute_type a"
  by (simp add: scim_bridge_attribute_set_color_def)

text \<open>a colour of six hexadecimal digits behind the \<^verbatim>\<open>#\<close> is accepted, and the attribute gets the
  type asked for and the three bytes of the number as its components.\<close>

theorem color_read_correctly:
  assumes "length s = 6" "hex_value 0 s = Some n"
    and "ty = SCIM_BRIDGE_MESSAGE_FOREGROUND \<or> ty = SCIM_BRIDGE_MESSAGE_BACKGROUND"
  shows "let a' = parse_ground ty (CHR ''#'' # s) a in
    attribute_type a' = (if ty = SCIM_BRIDGE_MESSAGE_FOREGROUND then ATTRIBUTE_FOREGROUND
                         else ATTRIBUTE_BACKGROUND) \<and>
    unat (scim_bridge_attribute_get_red a') = n div 65536 \<and>
    unat (scim_bridge_attribute_get_green a') = n div 256 mod 256 \<and>
    unat (scim_bridge_attribute_get_blue a') = n mod 256"
proof -
  have n: "n < 16777216" using hex_value_bound [OF assms(2)] assms(1) by simp
  have c: "parse_color (CHR ''#'' # s) = of_nat n"
    using parse_color_hash [OF assms(1)] color_loop_affine [OF assms(2), of 0] by simp
  have "\<not> (of_nat n :: 32 word) > 0xFFFFFF"
    using n by (simp add: word_less_nat_alt unat_of_nat)
  with c unat_color_components [OF n] show ?thesis
    by (simp add: parse_ground_def Let_def scim_bridge_attribute_set_type_def)
qed

text \<open>the check for invalid digits of a colour has a hole: an invalid digit that is followed by at
  least two valid ones goes unnoticed, because the later digits shift the mark of invalidity out of the
  word; the colour is then the number of the digits behind the invalid one.\<close>

theorem invalid_color_accepted:
  assumes "length (pre @ x # suf) = 6" "hex_digit x = None" "2 \<le> length suf"
    and "hex_value 0 suf = Some n"
  shows "parse_color (CHR ''#'' # pre @ x # suf) = of_nat n \<and>
    attribute_type (parse_ground SCIM_BRIDGE_MESSAGE_FOREGROUND (CHR ''#'' # pre @ x # suf) a) =
      ATTRIBUTE_FOREGROUND"
proof -
  have "color_loop (pre @ x # suf) 0 = 0x1000000 * 16 ^ length suf + of_nat n"
    using assms(2) color_loop_affine [OF assms(4), of "0x1000000"] by (simp add: color_loop_append)
  moreover have "length suf = 2 \<or> length suf = 3 \<or> length suf = 4 \<or> length suf = 5"
    using assms(1,3) by auto
  ultimately have c: "parse_color (CHR ''#'' # pre @ x # suf) = of_nat n"
    using parse_color_hash [OF assms(1)] by auto
  have "n < 16 ^ length suf" using hex_value_bound [OF assms(4)] by simp
  also have "\<dots> \<le> 16 ^ 5" using assms(1) by (intro power_increasing) auto
  finally have "\<not> (of_nat n :: 32 word) > 0xFFFFFF"
    by (simp add: word_less_nat_alt unat_of_nat)
  with c show ?thesis by (simp add: parse_ground_def Let_def scim_bridge_attribute_set_type_def)
qed

section \<open>Key events\<close>

lemma read_modifier_if:
  "fold read_modifier (if b then [SCIM_BRIDGE_MESSAGE_SHIFT] else []) f = f\<lparr>shift_flag := b \<or> shift_flag f\<rparr>"
  "fold read_modifier (if b then [SCIM_BRIDGE_MESSAGE_CONTROL] else []) f = f\<lparr>control_flag := b \<or> control_flag f\<rparr>"
  "fold read_modifier (if b then [SCIM_BRIDGE_MESSAGE_ALT] else []) f = f\<lparr>alt_flag := b \<or> alt_flag f\<rparr>"
  "fold read_modifier (if b then [SCIM_BRIDGE_MESSAGE_META] else []) f = f\<lparr>meta_flag := b \<or> meta_flag f\<rparr>"
  "fold read_modifier (if b then [SCIM_BRIDGE_MESSAGE_SUPER] else []) f = f\<lparr>super_flag := b \<or> super_flag f\<rparr>"
  "fold read_modifier (if b then [SCIM_BRIDGE_MESSAGE_HYPER] else []) f = f\<lparr>hyper_flag := b \<or> hyper_flag f\<rparr>"
  "fold read_modifier (if b then [SCIM_BRIDGE_MESSAGE_CAPS_LOCK] else []) f = f\<lparr>caps_lock_flag := b \<or> caps_lock_flag f\<rparr>"
  "fold read_modifier (if b then [SCIM_BRIDGE_MESSAGE_NUM_LOCK] else []) f = f\<lparr>num_lock_flag := b \<or> num_lock_flag f\<rparr>"
  "fold read_modifier (if b then [SCIM_BRIDGE_MESSAGE_KANA_RO] else []) f = f\<lparr>kana_ro_flag := b \<or> kana_ro_flag f\<rparr>"
  by (cases b; simp add: read_modifier_def message_constants)+

lemma read_modifier_names:
  "fold read_modifier (modifier_names k) no_modifiers =
    \<lparr>shift_flag = bit_down 0 k, control_flag = bit_down 2 k, alt_flag = bit_down 3 k,
     meta_flag = bit_down 4 k, super_flag = bit_down 5 k, hyper_flag = bit_down 6 k,
     caps_lock_flag = bit_down 1 k, num_lock_flag = bit_down 7 k, unknown_flag = False,
     kana_ro_flag = scim_bridge_key_event_is_quirk_enabled SCIM_BRIDGE_KEY_QUIRK_KANA_RO k\<rparr>"
  unfolding modifier_names_def modifier_bits fold_append comp_def read_modifier_if no_modifiers_def
  by simp

text \<open>The key events that the protocol can express: the eight modifiers and one quirk.\<close>

definition plain_key :: "key_event \<Rightarrow> bool" where
  "plain_key k \<longleftrightarrow> mod_state k < 256 \<and> (quirks k = 0 \<or> quirks k = SCIM_BRIDGE_KEY_QUIRK_KANA_RO)"


lemma rebuilt_modifiers:
  assumes "w < (256 :: 32 word)"
  shows "put_bit 7 (bit w 7) (put_bit (Suc 0) (bit w (Suc 0)) (put_bit 6 (bit w 6) (put_bit 5 (bit w 5)
    (put_bit 4 (bit w 4) (put_bit 3 (bit w 3) (put_bit 2 (bit w 2) (put_bit 0 (bit w 0) 0))))))) = w"
proof (rule bit_eqI)
  fix n
  have "uint w < 2 ^ 8" using assms by (simp add: word_less_def)
  then have "take_bit 8 (uint w) = uint w" by (simp add: take_bit_eq_mod)
  moreover have "bit (uint w) n" if "bit w n"
    using that bit_imp_le_length [OF that] by (simp add: bit_uint_iff)
  ultimately have "n < 8" if "bit w n" using that by (metis bit_take_bit_iff)
  then have "bit w n \<longleftrightarrow> n < 8 \<and> bit w n" by blast
  moreover have "n < 8 \<longleftrightarrow> n = 0 \<or> n = Suc 0 \<or> n = 2 \<or> n = 3 \<or> n = 4 \<or> n = 5 \<or> n = 6 \<or> n = 7" by auto
  ultimately show "bit (put_bit 7 (bit w 7) (put_bit (Suc 0) (bit w (Suc 0)) (put_bit 6 (bit w 6) (put_bit 5 (bit w 5)
    (put_bit 4 (bit w 4) (put_bit 3 (bit w 3) (put_bit 2 (bit w 2) (put_bit 0 (bit w 0) 0)))))))) n = bit w n"
    by (auto simp: bit_put_bit)
qed

lemma forwarded_key_rebuilt:
  assumes "plain_key k"
  shows "forwarded_key_event (code k) (pressed k) (fold read_modifier (modifier_names k) no_modifiers) = k"
proof -
  have "quirks (scim_bridge_key_event_set_quirk_enabled SCIM_BRIDGE_KEY_QUIRK_KANA_RO
      (scim_bridge_key_event_is_quirk_enabled SCIM_BRIDGE_KEY_QUIRK_KANA_RO k) k') = quirks k"
    if "quirks k' = 0" for k'
    using assms that
    by (auto simp: plain_key_def scim_bridge_key_event_is_quirk_enabled_def
        scim_bridge_key_event_set_quirk_enabled_def SCIM_BRIDGE_KEY_QUIRK_KANA_RO_def)
  moreover have "mod_state (scim_bridge_key_event_set_quirk_enabled q b k') = mod_state k' \<and>
      code (scim_bridge_key_event_set_quirk_enabled q b k') = code k' \<and>
      pressed (scim_bridge_key_event_set_quirk_enabled q b k') = pressed k'" for q b k'
    by (simp add: scim_bridge_key_event_set_quirk_enabled_def)
  ultimately show ?thesis
    using assms rebuilt_modifiers [of "mod_state k"]
    by (intro key_event.equality)
      (simp_all add: read_modifier_names forwarded_key_event_def Let_def plain_key_def modifier_bits
        bit_set_down_def bit_down_def scim_bridge_key_event_set_code_def scim_bridge_key_event_set_pressed_def
        scim_bridge_alloc_key_event_def SCIM_BRIDGE_KEY_NO_QUIRK_def SCIM_BRIDGE_MODIFIER_MASK_NULL_def)
qed

lemma modifier_arguments_packed:
  "modifier_arguments (packed h (x # y # z # args)) = args"
  by (rule nth_equalityI)
    (simp_all add: modifier_arguments_def scim_bridge_message_get_argument_count_def get_argument_packed)

text \<open>the wire form of a key event is faithful. When the arguments that the client writes for a key
  event come back in a message to forward a key event, the toolkit gets exactly that key event, for
  the input context of the same id: code, direction, all eight modifiers and the quirk.\<close>

theorem key_event_round_trip:
  assumes "plain_key k" "- 2147483648 \<le> i" "i \<le> 2147483647"
  shows "received_message_forward_key_event ui
      (packed SCIM_BRIDGE_MESSAGE_FORWARD_KEY_EVENT (arguments (key_event_message i k))) c =
    Done (RETVAL_SUCCEEDED, call_imcontext i (\<lambda>ic. ui_forward_key_event ui ic k) c)"
proof -
  have "arguments (key_event_message i k) =
      snd (scim_bridge_string_from_int i) # snd (scim_bridge_string_from_uint (code k)) #
      snd (scim_bridge_string_from_boolean (pressed k)) # modifier_names k"
    by (simp add: key_event_message_def scim_bridge_key_event_get_code_def scim_bridge_key_event_is_pressed_def)
  then show ?thesis
    using assms int_codec.dec_enc [of i] uint_codec.dec_enc [of "code k"] boolean_codec.dec_enc [of "pressed k"]
    by (simp add: received_message_forward_key_event_def modifier_arguments_packed Let_def
        forwarded_key_rebuilt)
qed

end
