(* ===== verification/Bridge_Registry.thy ===== *)
theory Bridge_Registry
  imports Bridge_Requests
begin

text \<open>
  The registry of the client: the list of the registered input contexts, ordered by id, its cache
  \<^verbatim>\<open>found_imcontext\<close>, and how registering, deregistering, closing and reopening keep it.
\<close>

section \<open>Lists ordered by id\<close>

text \<open>Ids are in strictly ascending order behind those that are forgotten (-1).\<close>

definition id_before :: "int \<Rightarrow> int \<Rightarrow> bool" where
  "id_before i j \<longleftrightarrow> i < j \<or> i = -1 \<and> j = -1"

definition ordered :: "(imcontext \<Rightarrow> int) \<Rightarrow> imcontext list \<Rightarrow> bool" where
  "ordered f xs \<longleftrightarrow> sorted_wrt (\<lambda>x y. id_before (f x) (f y)) xs \<and> (\<forall>x \<in> set xs. -1 \<le> f x)"

lemma ordered_Cons:
  "ordered f (x # xs) \<longleftrightarrow> (\<forall>y \<in> set xs. id_before (f x) (f y)) \<and> -1 \<le> f x \<and> ordered f xs"
  by (auto simp: ordered_def)

lemma ordered_append:
  "ordered f (xs @ ys) \<longleftrightarrow>
     ordered f xs \<and> ordered f ys \<and> (\<forall>x \<in> set xs. \<forall>y \<in> set ys. id_before (f x) (f y))"
  by (auto simp: ordered_def sorted_wrt_append)

lemma ordered_cong: "(\<And>x. x \<in> set xs \<Longrightarrow> f x = g x) \<Longrightarrow> ordered f xs = ordered g xs"
  by (induction xs) (auto simp: ordered_Cons, simp_all add: ordered_def)

lemma ordered_remove1: "ordered f xs \<Longrightarrow> ordered f (remove1 x xs)"
  by (induction xs) (auto simp: ordered_Cons dest: notin_set_remove1)

lemma ordered_unique:
  "ordered f xs \<Longrightarrow> 0 \<le> f x \<Longrightarrow> x \<in> set xs \<Longrightarrow> y \<in> set xs \<Longrightarrow> f x = f y \<Longrightarrow> x = y"
  by (induction xs) (auto simp: ordered_Cons id_before_def)

lemma find_in_list_iff:
  "ordered f xs \<Longrightarrow> 0 \<le> i \<Longrightarrow> find_in_list f i xs = Some x \<longleftrightarrow> x \<in> set xs \<and> f x = i"
  by (induction xs) (auto simp: ordered_Cons id_before_def)

lemma remove_from_list_registered:
  "ordered f xs \<Longrightarrow> 0 \<le> f x \<Longrightarrow> x \<in> set xs \<Longrightarrow> remove_from_list f (f x) xs = Some (remove1 x xs)"
proof (induction xs)
  case (Cons y xs)
  show ?case
  proof (cases "f y = f x")
    case True
    then have "x = y" using ordered_unique [OF Cons.prems(1,2,3), of y] by simp
    then show ?thesis by simp
  next
    case False
    then have x: "x \<in> set xs" "x \<noteq> y" using Cons.prems(3) by auto
    with Cons.prems(1) False have "\<not> f y > f x" by (auto simp: ordered_Cons id_before_def)
    moreover have "xs \<noteq> []" using x by auto
    ultimately show ?thesis
      using Cons.IH Cons.prems x False by (simp add: ordered_Cons)
  qed
qed simp

text \<open>Where a new input context goes.\<close>

definition put_in_order :: "(imcontext \<Rightarrow> int) \<Rightarrow> imcontext \<Rightarrow> int \<Rightarrow> imcontext list \<Rightarrow> imcontext list" where
  "put_in_order f x i xs = takeWhile (\<lambda>y. f y < i) xs @ x # dropWhile (\<lambda>y. f y < i) xs"

lemma set_put_in_order [simp]: "set (put_in_order f x i xs) = insert x (set xs)"
  unfolding put_in_order_def by (metis Un_insert_right list.simps(15) set_append takeWhile_dropWhile_id)

lemma length_put_in_order [simp]: "length (put_in_order f x i xs) = Suc (length xs)"
  unfolding put_in_order_def
  by (metis add_Suc_right length_Cons length_append takeWhile_dropWhile_id)

lemma distinct_put_in_order: "distinct xs \<Longrightarrow> x \<notin> set xs \<Longrightarrow> distinct (put_in_order f x i xs)"
  by (rule card_distinct) (simp add: distinct_card)

lemma insert_before_eq:
  "\<forall>y \<in> set xs. f y \<noteq> i \<Longrightarrow>
   insert_before f x i xs = (if \<forall>y \<in> set xs. f y < i then None else Some (put_in_order f x i xs))"
  by (induction xs) (auto simp: put_in_order_def)

lemma ordered_dropWhile:
  "ordered f xs \<Longrightarrow> 0 \<le> i \<Longrightarrow> y \<in> set (dropWhile (\<lambda>y. f y < i) xs) \<Longrightarrow> i \<le> f y"
  by (induction xs) (auto simp: ordered_Cons id_before_def split: if_splits)

lemma ordered_put_in_order:
  assumes "ordered f xs" "0 \<le> i" "f x = i" "\<forall>y \<in> set xs. f y \<noteq> i"
  shows "ordered f (put_in_order f x i xs)"
proof -
  let ?a = "takeWhile (\<lambda>y. f y < i) xs" and ?b = "dropWhile (\<lambda>y. f y < i) xs"
  have o: "ordered f ?a \<and> ordered f ?b \<and> (\<forall>x \<in> set ?a. \<forall>y \<in> set ?b. id_before (f x) (f y))"
    using assms(1) ordered_append [of f ?a ?b] by simp
  have "\<forall>y \<in> set ?a. id_before (f y) i" by (auto simp: id_before_def dest: set_takeWhileD)
  moreover have "\<forall>y \<in> set ?b. id_before i (f y)"
    using ordered_dropWhile [OF assms(1,2)] assms(4) by (force simp: id_before_def dest: set_dropWhileD)
  ultimately show ?thesis
    using o assms(2,3) unfolding put_in_order_def ordered_append ordered_Cons by auto
qed

lemma all_before_last:
  "ordered f xs \<Longrightarrow> xs \<noteq> [] \<Longrightarrow> 0 \<le> i \<Longrightarrow> f (last xs) < i \<longleftrightarrow> (\<forall>y \<in> set xs. f y < i)"
proof (induction xs)
  case (Cons x xs)
  show ?case
  proof (cases "xs = []")
    case False
    then have "id_before (f x) (f (last xs))" using Cons.prems(1) by (simp add: ordered_Cons)
    then have "f (last xs) < i \<Longrightarrow> f x < i" using Cons.prems(3) by (auto simp: id_before_def)
    moreover have "f (last xs) < i \<longleftrightarrow> (\<forall>y \<in> set xs. f y < i)"
      using False Cons by (simp add: ordered_Cons)
    ultimately show ?thesis using False by auto
  qed simp
qed simp

section \<open>The registry\<close>

definition registry_inv :: "'g client \<Rightarrow> bool" where
  "registry_inv c \<longleftrightarrow>
     list_size c = length (imcontext_list c) \<and> distinct (imcontext_list c) \<and>
     ordered (ids c) (imcontext_list c) \<and>
     (\<forall>x. found_imcontext c = Some x \<longrightarrow> x \<in> set (imcontext_list c))"

text \<open>\<open>registered i c\<close> is the input context of the list whose id is \<open>i\<close>.\<close>

definition registered :: "int \<Rightarrow> 'g client \<Rightarrow> imcontext option" where
  "registered i c = (if i < 0 then None else List.find (\<lambda>x. ids c x = i) (imcontext_list c))"

lemma find_unique:
  "(\<And>x y. x \<in> set xs \<Longrightarrow> y \<in> set xs \<Longrightarrow> P x \<Longrightarrow> P y \<Longrightarrow> x = y) \<Longrightarrow>
   List.find P xs = Some x \<longleftrightarrow> x \<in> set xs \<and> P x"
  by (induction xs) auto

lemma registered_iff:
  assumes "registry_inv c" "0 \<le> i"
  shows "registered i c = Some x \<longleftrightarrow> x \<in> set (imcontext_list c) \<and> ids c x = i"
proof -
  have "ordered (ids c) (imcontext_list c)" using assms(1) by (simp add: registry_inv_def)
  from ordered_unique [OF this] assms(2) show ?thesis
    by (simp add: registered_def find_unique)
qed

lemma registered_eqI:
  assumes "registry_inv c" "registry_inv c'" "0 \<le> i"
    and "\<And>x. x \<in> set (imcontext_list c) \<and> ids c x = i \<longleftrightarrow> x \<in> set (imcontext_list c') \<and> ids c' x = i"
  shows "registered i c' = registered i c"
  using assms registered_iff [OF assms(1,3)] registered_iff [OF assms(2,3)]
  by (metis option.exhaust)

lemma find_imcontext_registered:
  assumes "registry_inv c"
  shows "fst (scim_bridge_client_find_imcontext i c) = registered i c \<and>
    registry_inv (snd (scim_bridge_client_find_imcontext i c))"
proof (cases "i < 0")
  case True
  with assms show ?thesis by (simp add: scim_bridge_client_find_imcontext_def registered_def)
next
  case False
  then have i: "0 \<le> i" by simp
  have o: "ordered (ids c) (imcontext_list c)" using assms by (simp add: registry_inv_def)
  have r: "find_in_list (ids c) i (imcontext_list c) = registered i c"
    using find_in_list_iff [OF o i] registered_iff [OF assms i]
    by (metis option.exhaust)
  have inv: "registry_inv (c\<lparr>found_imcontext := Some y\<rparr>)" if "registered i c = Some y" for y
    using assms registered_iff [OF assms i] that by (simp add: registry_inv_def)
  have cached: "registered i c = Some x" if "found_imcontext c = Some x" "ids c x = i" for x
    using that assms registered_iff [OF assms i] by (simp add: registry_inv_def)
  show ?thesis
    using False r assms inv cached
    by (auto simp: scim_bridge_client_find_imcontext_def split: option.splits)
qed

section \<open>Adding and removing\<close>

text \<open>What registering does to the list once the id is known, and what deregistering does before it
  sends its message; \<open>None\<close> is the failure.\<close>

definition add_imcontext :: "imcontext \<Rightarrow> int \<Rightarrow> 'g client \<Rightarrow> 'g client run" where
  "add_imcontext ic i c = insert_imcontext ic i (scim_bridge_client_imcontext_set_id ic i c)"

definition added :: "imcontext \<Rightarrow> int \<Rightarrow> 'g client \<Rightarrow> 'g client" where
  "added ic i c = c\<lparr>ids := (ids c)(ic := i), list_size := Suc (list_size c),
     imcontext_list := put_in_order (ids c) ic i (imcontext_list c)\<rparr>"

definition removed :: "imcontext \<Rightarrow> 'g client \<Rightarrow> 'g client" where
  "removed ic c = c\<lparr>ids := (ids c)(ic := -1), list_size := list_size c - 1,
     imcontext_list := remove1 ic (imcontext_list c),
     found_imcontext := (if found_imcontext c = Some ic then None else found_imcontext c)\<rparr>"

definition new_entry :: "imcontext \<Rightarrow> int \<Rightarrow> 'g client \<Rightarrow> bool" where
  "new_entry ic i c \<longleftrightarrow> 0 \<le> i \<and> ic \<notin> set (imcontext_list c) \<and> (\<forall>y \<in> set (imcontext_list c). ids c y \<noteq> i)"

lemma put_in_order_cong:
  "(\<And>y. y \<in> set xs \<Longrightarrow> f y = g y) \<Longrightarrow> put_in_order f x i xs = put_in_order g x i xs"
  unfolding put_in_order_def by (metis (mono_tags, lifting) dropWhile_cong takeWhile_cong)

lemma add_imcontext_eq:
  assumes "registry_inv c" "new_entry ic i c"
  shows "add_imcontext ic i c = Done (added ic i c)"
proof -
  let ?f = "(ids c)(ic := i)" and ?xs = "imcontext_list c"
  have eq: "?f y = ids c y" if "y \<in> set ?xs" for y using that assms(2) by (auto simp: new_entry_def)
  then have p: "put_in_order ?f ic i ?xs = put_in_order (ids c) ic i ?xs" by (rule put_in_order_cong)
  have o: "ordered ?f ?xs"
    using assms(1) by (subst ordered_cong [OF eq]) (simp_all add: registry_inv_def)
  have new: "\<forall>y \<in> set ?xs. ?f y \<noteq> i" "0 \<le> i" using assms(2) eq by (auto simp: new_entry_def)
  have last: "put_in_order ?f ic i ?xs = ?xs @ [ic]" if "\<forall>y \<in> set ?xs. ?f y < i"
    using that by (simp add: put_in_order_def)
  show ?thesis
  proof (cases "?xs = []")
    case True
    then show ?thesis using assms(1)
      by (simp add: add_imcontext_def insert_imcontext_def added_def put_in_order_def registry_inv_def
          scim_bridge_client_imcontext_set_id_def)
  next
    case False
    then show ?thesis
      using assms(1) all_before_last [OF o False new(2)] insert_before_eq [OF new(1)] last p
      by (auto simp: add_imcontext_def insert_imcontext_def added_def registry_inv_def
          scim_bridge_client_imcontext_set_id_def simp del: fun_upd_apply simp add: fun_upd_same)
  qed
qed

lemma added_inv:
  assumes "registry_inv c" "new_entry ic i c"
  shows "registry_inv (added ic i c)"
proof -
  let ?f = "(ids c)(ic := i)" and ?xs = "imcontext_list c"
  have eq: "?f y = ids c y" if "y \<in> set ?xs" for y using that assms(2) by (auto simp: new_entry_def)
  then have p: "put_in_order ?f ic i ?xs = put_in_order (ids c) ic i ?xs" by (rule put_in_order_cong)
  have "ordered ?f ?xs"
    using assms(1) by (subst ordered_cong [OF eq]) (simp_all add: registry_inv_def)
  moreover have "\<forall>y \<in> set ?xs. ?f y \<noteq> i" "0 \<le> i" using assms(2) eq by (auto simp: new_entry_def)
  ultimately have "ordered ?f (put_in_order ?f ic i ?xs)"
    by (intro ordered_put_in_order) simp_all
  then show ?thesis
    using assms by (auto simp: registry_inv_def added_def p new_entry_def intro: distinct_put_in_order)
qed

lemma registered_added:
  assumes "registry_inv c" "new_entry ic i c" "0 \<le> j"
  shows "registered j (added ic i c) = (if j = i then Some ic else registered j c)"
proof (cases "j = i")
  case True
  then show ?thesis
    using registered_iff [OF added_inv [OF assms(1,2)] assms(3)] by (simp add: added_def)
next
  case False
  then have "registered j (added ic i c) = registered j c"
    using assms(2) by (intro registered_eqI assms added_inv) (auto simp: added_def new_entry_def)
  with False show ?thesis by simp
qed

lemma removed_inv:
  assumes "registry_inv c"
  shows "ic \<in> set (imcontext_list c) \<Longrightarrow> registry_inv (removed ic c)"
proof -
  assume "ic \<in> set (imcontext_list c)"
  have d: "ic \<notin> set (remove1 ic (imcontext_list c))" using assms by (simp add: registry_inv_def)
  have "ordered ((ids c)(ic := -1)) (remove1 ic (imcontext_list c)) =
      ordered (ids c) (remove1 ic (imcontext_list c))"
    using d by (intro ordered_cong) auto
  then show ?thesis
    using assms \<open>ic \<in> set (imcontext_list c)\<close> ordered_remove1
    by (auto simp: registry_inv_def removed_def length_remove1)
qed

lemma registered_removed:
  assumes "registry_inv c" "ic \<in> set (imcontext_list c)" "0 \<le> j"
  shows "registered j (removed ic c) = (if j = ids c ic then None else registered j c)"
proof (cases "j = ids c ic")
  case True
  have "registered j (removed ic c) \<noteq> Some x" for x
    using registered_iff [OF removed_inv [OF assms(1,2)] assms(3)] assms(1) True assms(2,3)
      ordered_unique [of "ids c" "imcontext_list c" ic x]
    by (auto simp: removed_def registry_inv_def)
  with True show ?thesis by (cases "registered j (removed ic c)") auto
next
  case False
  then have "registered j (removed ic c) = registered j c"
    using assms(1,2,3) by (intro registered_eqI assms removed_inv)
      (auto simp: removed_def registry_inv_def)
  with False show ?thesis by simp
qed

text \<open>The interface that the requests use: an index of input contexts by id.\<close>

locale id_index =
  fixes inv :: "'s \<Rightarrow> bool" and entry :: "int \<Rightarrow> 's \<Rightarrow> 'v option"
    and new :: "'v \<Rightarrow> int \<Rightarrow> 's \<Rightarrow> bool" and insert_at :: "'v \<Rightarrow> int \<Rightarrow> 's \<Rightarrow> 's"
    and delete_of :: "'v \<Rightarrow> 's \<Rightarrow> 's"
  assumes insert_inv: "inv s \<Longrightarrow> new v i s \<Longrightarrow> inv (insert_at v i s)"
    and new_index: "new v i s \<Longrightarrow> 0 \<le> i"
    and entry_insert: "inv s \<Longrightarrow> new v i s \<Longrightarrow> 0 \<le> j \<Longrightarrow>
      entry j (insert_at v i s) = (if j = i then Some v else entry j s)"
    and delete_inv: "inv s \<Longrightarrow> 0 \<le> i \<Longrightarrow> entry i s = Some v \<Longrightarrow> inv (delete_of v s)"
    and entry_delete: "inv s \<Longrightarrow> 0 \<le> i \<Longrightarrow> entry i s = Some v \<Longrightarrow> 0 \<le> j \<Longrightarrow>
      entry j (delete_of v s) = (if j = i then None else entry j s)"
begin

lemma entry_inserted: "inv s \<Longrightarrow> new v i s \<Longrightarrow> entry i (insert_at v i s) = Some v"
  using entry_insert new_index by simp

lemma delete_after_insert:
  assumes "inv s" "new v i s" "entry i s = None" "0 \<le> j"
  shows "entry j (delete_of v (insert_at v i s)) = entry j s"
  using entry_delete [OF insert_inv [OF assms(1,2)] new_index [OF assms(2)] entry_inserted [OF assms(1,2)] assms(4)]
    entry_insert [OF assms(1,2,4)] assms(3) by auto

end

interpretation registry: id_index registry_inv registered new_entry added removed
proof (unfold_locales, goal_cases)
  case (2 v i s)
  then show ?case by (simp add: new_entry_def)
next
  case (4 s i v)
  then show ?case using registered_iff [of s i v] by (simp add: removed_inv)
next
  case (5 s i v j)
  then show ?case using registered_iff [of s i v] registered_removed [of s v j] by simp
qed (simp_all add: added_inv registered_added)

text \<open>C4: the ordered list, searched from the front with an early exit and a cache, is an exact index.
  In every state of the registry the search finds the input context of the list with the id asked
  for, whichever was found before, or nothing if there is none, and keeps the registry; inserting
  at the place the code chooses makes the new input context found and no other one lost.\<close>

theorem find_imcontext_correct:
  assumes "registry_inv c" "0 \<le> j"
  shows "(\<forall>x. fst (scim_bridge_client_find_imcontext j c) = Some x \<longleftrightarrow>
      x \<in> set (imcontext_list c) \<and> ids c x = j) \<and>
    registry_inv (snd (scim_bridge_client_find_imcontext j c)) \<and>
    (new_entry ic i c \<longrightarrow>
      (\<exists>c'. insert_imcontext ic i (scim_bridge_client_imcontext_set_id ic i c) = Done c' \<and> registry_inv c' \<and>
        fst (scim_bridge_client_find_imcontext j c') =
          (if j = i then Some ic else fst (scim_bridge_client_find_imcontext j c))))"
proof -
  have f: "fst (scim_bridge_client_find_imcontext j c') = registered j c'"
    "registry_inv (snd (scim_bridge_client_find_imcontext j c'))" if "registry_inv c'" for c' :: "'a client"
    using find_imcontext_registered [OF that] by simp_all
  show ?thesis
    using f assms registered_iff [OF assms] registry.entry_insert [OF assms(1) _ assms(2)]
      registry.insert_inv [OF assms(1)] add_imcontext_eq [OF assms(1)]
    by (auto simp: add_imcontext_def)
qed

theorem find_imcontext_correct_witness:
  "let c = added 7 4 (client_start (\<lambda>_. -1) ()) in
   (\<forall>x. fst (scim_bridge_client_find_imcontext 4 c) = Some x \<longleftrightarrow>
      x \<in> set (imcontext_list c) \<and> ids c x = 4) \<and>
    registry_inv (snd (scim_bridge_client_find_imcontext 4 c)) \<and>
    (\<exists>c'. insert_imcontext 5 2 (scim_bridge_client_imcontext_set_id 5 2 c) = Done c' \<and> registry_inv c' \<and>
        fst (scim_bridge_client_find_imcontext 4 c') = fst (scim_bridge_client_find_imcontext 4 c))"
proof -
  have "registry_inv (added 7 4 (client_start (\<lambda>_. -1) ()))"
    by (rule registry.insert_inv) (simp_all add: registry_inv_def client_start_def ordered_def new_entry_def)
  moreover have "new_entry 5 2 (added 7 4 (client_start (\<lambda>_. -1) ()))"
    by (simp add: new_entry_def added_def client_start_def)
  ultimately show ?thesis
    using find_imcontext_correct [of "added 7 4 (client_start (\<lambda>_. -1) ())" 4 5 2] by (simp add: Let_def)
qed

end
