(* ===== verification/Bridge_Register.thy ===== *)
theory Bridge_Register
  imports Bridge_Registry
begin

text \<open>
  The registry across whole requests. While a request waits, messages are dispatched that look
  input contexts up; the registry survives all of that, the failures that close the connection
  included, and registering and deregistering change it as they should.
\<close>

section \<open>What every dispatched message preserves\<close>

text \<open>The interface between the loops of the client and its invariants: \<open>P\<close> holds while messages are
  dispatched, \<open>Q\<close> afterwards, also when the connection was closed.\<close>

locale client_invariant =
  fixes ui :: "'g toolkit" and P Q :: "'g client \<Rightarrow> bool"
  assumes dispatch: "P c \<Longrightarrow> dispatch_message ui msg c = Done (rv, c') \<Longrightarrow> P c'"
    and io: "P c \<Longrightarrow> P (c\<lparr>client_messenger := m, kernel := net\<rparr>)"
    and weaken: "P c \<Longrightarrow> Q c"
    and close: "P c \<Longrightarrow> Q (snd (scim_bridge_client_close_messenger ui c))"
    and settle: "Q c \<Longrightarrow> Q (settle c)"
begin

lemma messenger: "P c \<Longrightarrow> P (c\<lparr>client_messenger := m\<rparr>)"
  using io [where c = c and m = m and net = "kernel c"] by simp

lemma loop:
  "ui' = ui \<Longrightarrow> P c \<Longrightarrow>
   if_returns (\<lambda>(rv, c'). (rv = RETVAL_SUCCEEDED \<longrightarrow> P c') \<and> (rv \<noteq> RETVAL_SUCCEEDED \<longrightarrow> Q c')) (dispatch_loop ui' msg c)"
proof (induction ui' msg c rule: dispatch_loop.induct)
  case (1 ui' msg c)
  show ?case
  proof (cases "dispatch_message ui' msg c")
    case (Done x)
    then obtain rv c1 where d: "dispatch_message ui' msg c = Done (rv, c1)" by (cases x) auto
    have c1: "P c1" using dispatch d "1.prems" by blast
    show ?thesis
    proof (cases "rv = RETVAL_SUCCEEDED")
      case True
      show ?thesis
      proof (cases "scim_bridge_messenger_poll_message (client_messenger c1)")
        case (Done y)
        then obtain rv' r m1 where
          p: "scim_bridge_messenger_poll_message (client_messenger c1) = Done (rv', r, m1)" by (cases y) auto
        have c2: "P (c1\<lparr>client_messenger := m1\<rparr>)" by (rule messenger [OF c1])
        have "\<not> rv \<noteq> RETVAL_SUCCEEDED" using True by simp
        note IH = "1.IH" [OF d refl this p refl refl refl _ "1.prems"(1) c2]
        show ?thesis
          using d p True c2 IH weaken [OF c2]
          by (subst dispatch_loop.simps) (auto simp: Let_def)
      qed (use d True in \<open>subst dispatch_loop.simps, simp add: Let_def\<close>)+
    next
      case False
      then show ?thesis using d close [OF c1] "1.prems"(1)
        by (subst dispatch_loop.simps) simp
    qed
  qed (subst dispatch_loop.simps, simp)+
qed

lemma read_and_dispatch:
  assumes "P c"
  shows "if_returns (\<lambda>(rv, c'). (rv = RETVAL_SUCCEEDED \<longrightarrow> P c') \<and> (rv \<noteq> RETVAL_SUCCEEDED \<longrightarrow> Q c'))
    (scim_bridge_client_read_and_dispatch ui c)"
  using loop [OF refl io [OF assms]] close [OF io [OF assms]] weaken [OF assms]
  by (cases "receive_until_message (client_messenger c) (kernel c)")
    (auto simp: scim_bridge_client_read_and_dispatch_def Let_def split: option.splits)

lemma await:
  "ui' = ui \<Longrightarrow> P c \<Longrightarrow>
   if_returns (\<lambda>(rv, c'). (rv = RETVAL_SUCCEEDED \<longrightarrow> P c') \<and> (rv \<noteq> RETVAL_SUCCEEDED \<longrightarrow> Q c')) (await_response ui' c)"
proof (induction ui' c rule: await_response.induct)
  case (1 ui' c)
  show ?case
  proof (cases "scim_bridge_client_read_and_dispatch ui' c")
    case (Done x)
    then obtain rv c1 where r: "scim_bridge_client_read_and_dispatch ui' c = Done (rv, c1)" by (cases x) auto
    have c1: "if rv = RETVAL_SUCCEEDED then P c1 else Q c1"
      using read_and_dispatch [OF "1.prems"(2)] r "1.prems"(1) by simp
    show ?thesis
      using r c1 "1.prems" "1.IH" [OF _ r refl _ "1.prems"(1)] settle [of c1]
      by (subst await_response.simps) (simp split: if_splits)
  qed (use "1.prems" in \<open>subst await_response.simps, simp\<close>)+
qed

lemmas awaited = await [OF refl]

end

section \<open>The registry is kept\<close>

text \<open>\<open>kept c c'\<close>: the list is the same; the ids are the same, or all those of the list are forgotten;
  and the cache is the same or an element of the list.\<close>

definition kept :: "'g client \<Rightarrow> 'g client \<Rightarrow> bool" where
  "kept c c' \<longleftrightarrow> imcontext_list c' = imcontext_list c \<and> list_size c' = list_size c \<and>
     (ids c' = ids c \<or> ids c' = (\<lambda>y. if y \<in> set (imcontext_list c) then -1 else ids c y)) \<and>
     (found_imcontext c' = found_imcontext c \<or>
      (\<exists>x \<in> set (imcontext_list c). found_imcontext c' = Some x))"

lemma kept_refl [simp]: "kept c c"
  by (simp add: kept_def)

lemma kept_trans: "kept c c' \<Longrightarrow> kept c' c'' \<Longrightarrow> kept c c''"
  by (auto simp: kept_def fun_eq_iff)

lemma kept_updates [simp]:
  "kept c (c\<lparr>client_messenger := m\<rparr>)" "kept c (c\<lparr>client_messenger := m, kernel := net\<rparr>)"
  "kept c (c\<lparr>gui := g\<rparr>)" "kept c (set_status s c)" "kept c (set_response_header h c)"
  "kept c (set_consumed b c)" "kept c (set_imcontext_id i c)" "kept c (settle c)" "kept c (expect h' c)"
  by (simp_all add: kept_def pending_setters settle_def expect_def)

lemma kept_pending:
  "kept c c' \<Longrightarrow> kept c (c'\<lparr>client_messenger := m, kernel := net\<rparr>)" "kept c c' \<Longrightarrow> kept c (settle c')"
  "kept c c' \<Longrightarrow> kept c (set_status s c')" "kept c c' \<Longrightarrow> kept c (set_response_header h c')"
  "kept c c' \<Longrightarrow> kept c (set_imcontext_id i c')"
  "kept c c' \<Longrightarrow> kept c (set_consumed b c')" "kept c c' \<Longrightarrow> kept c (c'\<lparr>gui := g\<rparr>)"
  by (auto elim: kept_trans)

lemma ordered_forgotten: "ordered (\<lambda>y. if y \<in> set xs then -1 else f y) xs"
proof -
  have "ordered (\<lambda>_. -1) xs" by (induction xs) (auto simp: ordered_Cons id_before_def, simp add: ordered_def)
  then show ?thesis by (subst ordered_cong [where g = "\<lambda>_. -1"]) simp_all
qed

lemma kept_registry: "registry_inv c \<Longrightarrow> kept c c' \<Longrightarrow> registry_inv c'"
  using ordered_forgotten [of "imcontext_list c" "ids c"] by (auto simp: registry_inv_def kept_def)

lemma find_in_list_mem: "find_in_list f i xs = Some x \<Longrightarrow> x \<in> set xs"
  by (induction xs) (auto split: if_splits)

lemma find_imcontext_kept: "scim_bridge_client_find_imcontext i c = (r, c') \<Longrightarrow> kept c c'"
  by (auto simp: scim_bridge_client_find_imcontext_def kept_def split: if_splits option.splits
      dest: find_in_list_mem [OF sym] find_in_list_mem)

lemma call_imcontext_kept [simp]: "kept c (call_imcontext i f c)"
  by (auto simp: call_imcontext_def split: prod.splits option.splits
      intro: find_imcontext_kept kept_pending)

lemma ask_imcontext_kept: "ask_imcontext i f d c = (r, c') \<Longrightarrow> kept c c'"
  by (auto simp: ask_imcontext_def split: prod.splits option.splits
      intro: find_imcontext_kept kept_pending)

lemma push_and_flush_kept: "push_and_flush msg c = Done (rv, c') \<Longrightarrow> kept c c'"
  using push_and_flush_frame [of msg c rv c'] by (auto simp: frame_def kept_def)

lemma answer_kept: "answer msg c = Done (rv, c') \<Longrightarrow> kept c c'"
  by (auto simp: answer_def split: if_splits dest: push_and_flush_kept)

lemma close_kept: "kept c (snd (scim_bridge_client_close_messenger ui c))"
  by (auto simp: scim_bridge_client_close_messenger_def Let_def kept_def pending_setters fun_eq_iff)

lemma get_surrounding_text_kept:
  assumes "received_message_get_surrounding_text ui msg c = Done (rv, c')"
  shows "kept c c'"
  using assms
  by (auto simp: received_message_get_surrounding_text_def split: option.splits if_splits prod.splits
      dest!: answer_kept dest: ask_imcontext_kept intro: kept_trans)

lemma delete_surrounding_text_kept:
  assumes "received_message_delete_surrounding_text ui msg c = Done (rv, c')"
  shows "kept c c'"
  using assms
  by (auto simp: received_message_delete_surrounding_text_def split: option.splits if_splits prod.splits
      dest!: answer_kept dest: ask_imcontext_kept intro: kept_trans)

lemma replace_surrounding_text_kept:
  assumes "received_message_replace_surrounding_text ui msg c = Done (rv, c')"
  shows "kept c c'"
  using assms
  by (auto simp: received_message_replace_surrounding_text_def split: option.splits if_splits prod.splits
      dest!: answer_kept dest: ask_imcontext_kept intro: kept_trans)

lemma dispatch_kept:
  assumes "dispatch_message ui msg c = Done (rv, c')"
  shows "kept c c'"
proof -
  have plain: "h \<in> plain_results msg c \<Longrightarrow> h = Done (rv, c') \<Longrightarrow> kept c c'" for h
    by (auto simp: plain_results_def plain_handlers intro: kept_pending split: if_splits option.splits)
  have toolkit: "h \<in> toolkit_results ui msg c \<Longrightarrow> h = Done (rv, c') \<Longrightarrow> kept c c'" for h
    by (auto simp: toolkit_results_def toolkit_handlers Let_def split: if_splits option.splits)
  have commit: "h \<in> commit_results ui msg c \<Longrightarrow> h = Done (rv, c') \<Longrightarrow> kept c c'" for h
    using kept_trans [OF call_imcontext_kept]
    by (auto simp: commit_results_def received_message_commit_string_def
        received_message_update_preedit_def split: option.splits dest!: answer_kept [OF sym])
  show ?thesis
    using dispatch_cases [of ui msg c] plain [OF _ assms] toolkit [OF _ assms] commit [OF _ assms]
      get_surrounding_text_kept [of ui msg c rv c'] delete_surrounding_text_kept [of ui msg c rv c']
      replace_surrounding_text_kept [of ui msg c rv c'] assms by auto
qed

text \<open>While the connection stays open, the ids stay too.\<close>

interpretation keeping: client_invariant ui "\<lambda>c. kept c0 c \<and> ids c = ids c0" "kept c0" for ui c0
proof (unfold_locales, goal_cases)
  case (1 c msg rv c')
  then show ?case using dispatch_kept dispatch_frame kept_trans unfolding frame_def by metis
next
  case (4 c)
  then show ?case using close_kept kept_trans by blast
qed (simp_all add: kept_pending)

text \<open>While a registration waits, only the answer to it settles the response, and with success only
  when it carries an id that is not negative.\<close>

definition registering :: "'g client \<Rightarrow> bool" where
  "registering c \<longleftrightarrow> response_header (pending_response c) = Some SCIM_BRIDGE_MESSAGE_IMCONTEXT_REGISTERED \<and>
     (status (pending_response c) = RESPONSE_SUCCEEDED \<longrightarrow> 0 \<le> imcontext_id (pending_response c)) \<and>
     status (pending_response c) \<noteq> RESPONSE_DONE"

lemma plain_handlers_registering:
  assumes "scim_bridge_message_get_header msg \<noteq> SCIM_BRIDGE_MESSAGE_IMCONTEXT_REGISTERED"
    and "registering c" "h \<in> plain_results msg c" "h = Done (rv, c')"
  shows "pending_response c' = pending_response c"
  using assms by (auto simp: plain_results_def plain_handlers awaits_def registering_def split: if_splits)

lemma dispatch_registering:
  assumes "registering c" "dispatch_message ui msg c = Done (rv, c')"
  shows "registering c'"
proof (cases "scim_bridge_message_get_header msg = SCIM_BRIDGE_MESSAGE_IMCONTEXT_REGISTERED")
  case True
  have "received_message_imcontext_registered msg c = Done (rv, c')"
    by (rule trans [OF dispatch_header(11) [OF True, symmetric] assms(2)])
  then show ?thesis
    using assms(1)
    by (auto simp: received_message_imcontext_registered_def awaits_def registering_def pending_setters
        split: if_splits option.splits)
next
  case False
  have "pending_response c' = pending_response c"
    using dispatch_cases [of ui msg c] assms plain_handlers_registering [OF False assms(1) _ assms(2)]
    by (auto dest: toolkit_handlers_frame commit_update_frame get_surrounding_text_frame [OF sym]
        delete_surrounding_text_frame [OF sym] replace_surrounding_text_frame [OF sym])
  with assms(1) show ?thesis by (simp add: registering_def)
qed

interpretation registering: client_invariant ui registering "\<lambda>_. True" for ui
proof (unfold_locales, goal_cases)
  case (1 c msg rv c')
  then show ?case by (rule dispatch_registering)
qed (simp_all add: registering_def)

lemma await_not_pending:
  "if_returns (\<lambda>(rv, c'). rv = RETVAL_SUCCEEDED \<longrightarrow> status (pending_response c') \<noteq> RESPONSE_PENDING)
    (await_response ui c)"
proof (induction ui c rule: await_response.induct)
  case (1 ui c)
  then show ?case by (subst await_response.simps) (auto split: run.splits)
qed

section \<open>Requests\<close>

lemma send_request_ids:
  "if_returns (\<lambda>(rv, c'). rv = RETVAL_SUCCEEDED \<longrightarrow> ids c' = ids c) (send_request ui msg c)"
  unfolding send_request_def if_returns_bind
  by (intro if_returnsI) (auto dest!: push_and_flush_frame simp: frame_def split: if_splits)

lemma send_request_kept:
  assumes "kept c c1"
  shows "if_returns (\<lambda>(rv, c'). kept c c') (send_request ui msg c1)"
proof -
  have "kept c c'" if "push_and_flush (Some msg) c1 = Done (rv, c')" for rv c'
    using assms push_and_flush_kept [OF that] by (rule kept_trans)
  then show ?thesis
    unfolding send_request_def if_returns_bind
    by (intro if_returnsI) (auto intro: kept_trans [OF _ close_kept] split: if_splits)
qed

lemma await_kept:
  assumes "kept c c1"
  shows "if_returns (\<lambda>(rv, c'). kept c c') (await_response ui c1)"
  by (rule if_returns_mono [OF keeping.awaited [of c1]]) (auto intro: kept_trans [OF assms])

lemma finish_kept:
  assumes "kept c c1"
  shows "if_returns (\<lambda>(rv, c'). kept c c') (finish_strict ui c1)"
    "if_returns (\<lambda>(rv, c'). kept c c') (finish_lenient ui c1)"
  unfolding finish_strict_def finish_lenient_def if_returns_bind
  by (rule if_returns_mono [OF await_kept [OF assms]]; auto simp: kept_pending)+

lemma expect_kept: "kept c c' \<Longrightarrow> kept c (expect h c')"
  by (simp add: kept_def expect_def pending_setters)

lemma send_then_kept:
  assumes "kept c c0" "\<And>c1. kept c c1 \<Longrightarrow> if_returns (\<lambda>(rv, c'). kept c c') (g c1)"
  shows "if_returns (\<lambda>(rv, c'). kept c c') (run_bind (send_request ui msg c0)
    (\<lambda>(rv, c1). if rv \<noteq> RETVAL_SUCCEEDED then Done (RETVAL_FAILED, c1) else g c1))"
  unfolding if_returns_bind
  by (rule if_returns_mono [OF send_request_kept [OF assms(1)]]) (auto intro: assms(2))

lemma handle_key_event_kept:
  "if_returns (\<lambda>(rv, r, c'). kept c c') (scim_bridge_client_handle_key_event ui ic k c)"
proof -
  let ?c0 = "set_consumed False (expect SCIM_BRIDGE_MESSAGE_KEY_EVENT_HANDLED c)"
  have c0: "kept c ?c0" by (simp add: kept_pending)
  have a: "if_returns (\<lambda>(rv, r, c'). kept c c') (run_bind (await_response ui c1) (\<lambda>(rv', c2).
      if rv' \<noteq> RETVAL_SUCCEEDED then Done (RETVAL_FAILED, None, c2)
      else if status (pending_response c2) = RESPONSE_SUCCEEDED
      then Done (RETVAL_SUCCEEDED, Some (consumed (pending_response c2)), settle c2)
      else Done (RETVAL_FAILED, None, settle c2)))" if "kept c c1" for c1
    unfolding if_returns_bind by (rule if_returns_mono [OF await_kept [OF that]]) (auto simp: kept_pending)
  have "if_returns (\<lambda>(rv, r, c'). kept c c') (run_bind (send_request ui (key_event_message i k) ?c0) (\<lambda>(rv, c1).
      if rv \<noteq> RETVAL_SUCCEEDED then Done (RETVAL_FAILED, None, c1)
      else run_bind (await_response ui c1) (\<lambda>(rv', c2).
        if rv' \<noteq> RETVAL_SUCCEEDED then Done (RETVAL_FAILED, None, c2)
        else if status (pending_response c2) = RESPONSE_SUCCEEDED
        then Done (RETVAL_SUCCEEDED, Some (consumed (pending_response c2)), settle c2)
        else Done (RETVAL_FAILED, None, settle c2))))" for i
    unfolding if_returns_bind [of _ "send_request ui m c" for ui m c]
    by (rule if_returns_mono [OF send_request_kept [OF c0]]) (auto intro: a)
  then show ?thesis by (simp add: scim_bridge_client_handle_key_event_def Let_def)
qed

lemma requests_kept:
  "if_returns (\<lambda>(rv, c'). kept c c') (scim_bridge_client_reset_imcontext ui ic c)"
  "if_returns (\<lambda>(rv, c'). kept c c') (scim_bridge_client_set_imcontext_enabled ui ic b c)"
  "if_returns (\<lambda>(rv, c'). kept c c') (scim_bridge_client_change_focus ui ic b c)"
  "if_returns (\<lambda>(rv, c'). kept c c') (scim_bridge_client_set_cursor_location ui ic x y c)"
  "if_returns (\<lambda>(rv, c'). kept c c') (scim_bridge_client_set_preedit_mode ui ic mode c)"
  unfolding scim_bridge_client_reset_imcontext_def scim_bridge_client_set_imcontext_enabled_def
    scim_bridge_client_change_focus_def scim_bridge_client_set_cursor_location_def
    scim_bridge_client_set_preedit_mode_def Let_def if_returns_if
  by (auto intro!: send_then_kept finish_kept expect_kept simp: send_request_kept kept_pending)

section \<open>Registering and deregistering\<close>

lemma if_returnsD: "if_returns P m \<Longrightarrow> m = Done x \<Longrightarrow> P x"
  by simp

lemma register_cases:
  assumes "scim_bridge_client_register_imcontext ui ic c = Done (rv, c')"
  obtains (failed) "rv = RETVAL_FAILED" "kept c c'"
  | (registered) c2 c3 where "rv = RETVAL_SUCCEEDED" "kept c c2" "ids c2 = ids c"
      "0 \<le> imcontext_id (pending_response c2)"
      "add_imcontext ic (imcontext_id (pending_response c2)) c2 = Done c3" "c' = settle c3"
proof -
  let ?reg = "\<lambda>c1. set_status RESPONSE_PENDING (set_imcontext_id (-1)
    (set_response_header (Some SCIM_BRIDGE_MESSAGE_IMCONTEXT_REGISTERED) c1))"
  consider "rv = RETVAL_FAILED" "c' = c"
    | rv1 c1 where "send_request ui (make_message SCIM_BRIDGE_MESSAGE_REGISTER_IMCONTEXT []) c = Done (rv1, c1)"
      "rv1 \<noteq> RETVAL_SUCCEEDED" "rv = RETVAL_FAILED" "c' = c1"
    | c1 rv2 c2 where "send_request ui (make_message SCIM_BRIDGE_MESSAGE_REGISTER_IMCONTEXT []) c =
        Done (RETVAL_SUCCEEDED, c1)" "await_response ui (?reg c1) = Done (rv2, c2)"
      "if rv2 \<noteq> RETVAL_SUCCEEDED then rv = RETVAL_FAILED \<and> c' = c2
       else if status (pending_response c2) = RESPONSE_FAILED then rv = RETVAL_FAILED \<and> c' = settle c2
       else \<exists>c3. rv = RETVAL_SUCCEEDED \<and> c' = settle c3 \<and>
         add_imcontext ic (imcontext_id (pending_response c2)) c2 = Done c3"
    using assms
    by (force simp: scim_bridge_client_register_imcontext_def add_imcontext_def Let_def split: if_splits)
  then show ?thesis
  proof cases
    case 2
    then show ?thesis using failed if_returnsD [OF send_request_kept [OF kept_refl] 2(1)] by simp
  next
    case 3
    have c1: "kept c c1" "ids c1 = ids c"
      using if_returnsD [OF send_request_kept [OF kept_refl] 3(1)] if_returnsD [OF send_request_ids 3(1)]
      by simp_all
    have "kept c (?reg c1)" by (intro kept_pending c1(1))
    from if_returnsD [OF await_kept [OF this] 3(2)] have c2: "kept c c2" by simp
    have k: "rv2 = RETVAL_SUCCEEDED \<longrightarrow> ids c2 = ids (?reg c1)"
      using keeping.awaited [of "?reg c1" "?reg c1" ui] 3(2) by simp
    have "registering (?reg c1)" by (simp add: registering_def pending_setters)
    from registering.awaited [OF this, of ui] await_not_pending [of ui "?reg c1"] 3(2)
    have r: "rv2 = RETVAL_SUCCEEDED \<longrightarrow> registering c2 \<and> status (pending_response c2) \<noteq> RESPONSE_PENDING"
      by simp
    show ?thesis
    proof (cases "rv2 = RETVAL_SUCCEEDED \<and> status (pending_response c2) \<noteq> RESPONSE_FAILED")
      case True
      then have "0 \<le> imcontext_id (pending_response c2)"
        using r by (cases "status (pending_response c2)") (auto simp: registering_def)
      then show ?thesis using True 3(3) k c1(2) c2 registered by (auto simp: pending_setters)
    next
      case False
      then show ?thesis using 3(3) c2 failed kept_pending(2) by (auto split: if_splits)
    qed
  qed (use failed in simp_all)
qed

lemma settle_fields [simp]:
  "imcontext_list (settle c) = imcontext_list c" "ids (settle c) = ids c"
  "list_size (settle c) = list_size c" "found_imcontext (settle c) = found_imcontext c"
  by (simp_all add: settle_def pending_setters)

lemma registry_settle [simp]: "registry_inv (settle c) = registry_inv c" "registered i (settle c) = registered i c"
  by (simp_all add: registry_inv_def registered_def)

text \<open>A registration that succeeds has inserted the input context at its place.\<close>

lemma register_added:
  assumes "registry_inv c" "ic \<notin> set (imcontext_list c)"
    and "scim_bridge_client_register_imcontext ui ic c = Done (RETVAL_SUCCEEDED, c')"
    and "\<forall>y \<in> set (imcontext_list c). ids c y \<noteq> ids c' ic"
  obtains c2 where "registry_inv c2" "imcontext_list c2 = imcontext_list c" "ids c2 = ids c" "0 \<le> ids c' ic"
    "new_entry ic (ids c' ic) c2" "c' = settle (added ic (ids c' ic) c2)"
  using assms(3)
proof (cases rule: register_cases)
  case (registered c2 c3)
  let ?i = "imcontext_id (pending_response c2)"
  have inv2: "registry_inv c2" by (rule kept_registry [OF assms(1) registered(2)])
  have l: "imcontext_list c2 = imcontext_list c" using registered(2) by (simp add: kept_def)
  have i: "ids c' ic = ?i"
    using registered(5,6) by (auto simp: add_imcontext_def insert_imcontext_def
        scim_bridge_client_imcontext_set_id_def split: if_splits option.splits)
  have new: "new_entry ic ?i c2"
    using assms(2,4) registered l i by (auto simp: new_entry_def)
  have "c3 = added ic ?i c2" using add_imcontext_eq [OF inv2 new] registered(5) by simp
  with that [OF inv2 l registered(3)] registered(4,6) new show ?thesis unfolding i by blast
qed simp

text \<open>C5: registering keeps the registry. A registration that succeeds has got an id from the agent that
  is not negative; if no other registered input context has this id, as the protocol promises, the new
  one is in the list, is found by its id, and all others are found as before. A registration that
  fails adds nothing.\<close>

theorem register_correct:
  assumes "registry_inv c" "ic \<notin> set (imcontext_list c)"
    and "scim_bridge_client_register_imcontext ui ic c = Done (rv, c')"
    and "rv = RETVAL_SUCCEEDED \<longrightarrow> (\<forall>y \<in> set (imcontext_list c). ids c y \<noteq> ids c' ic)"
  shows "registry_inv c' \<and>
    (if rv = RETVAL_SUCCEEDED
     then 0 \<le> ids c' ic \<and> set (imcontext_list c') = insert ic (set (imcontext_list c)) \<and>
       (\<forall>j \<ge> 0. fst (scim_bridge_client_find_imcontext j c') =
          (if j = ids c' ic then Some ic else fst (scim_bridge_client_find_imcontext j c)))
     else imcontext_list c' = imcontext_list c)"
proof (cases "rv = RETVAL_SUCCEEDED")
  case True
  with assms(3,4) obtain c2 where c2: "registry_inv c2" "imcontext_list c2 = imcontext_list c" "ids c2 = ids c"
    "0 \<le> ids c' ic" "new_entry ic (ids c' ic) c2" "c' = settle (added ic (ids c' ic) c2)"
    using register_added [OF assms(1,2)] by blast
  have "Bridge_Registry.registered j c2 = Bridge_Registry.registered j c" for j
    using c2(2,3) by (simp add: registered_def)
  moreover have "registry_inv c'" "set (imcontext_list c') = insert ic (set (imcontext_list c))"
    using added_inv [OF c2(1,5)] by (subst c2(6); simp add: c2(2) added_def)+
  moreover have "Bridge_Registry.registered j c' = (if j = ids c' ic then Some ic else Bridge_Registry.registered j c2)"
    if "0 \<le> j" for j
    using registered_added [OF c2(1,5) that] by (subst c2(6)) simp
  ultimately show ?thesis
    using True c2(4) find_imcontext_registered [OF assms(1)] find_imcontext_registered [of c'] by simp
next
  case False
  with assms(3) have "kept c c'" by (cases rule: register_cases) simp_all
  with False show ?thesis using kept_registry [OF assms(1)] by (simp add: kept_def)
qed

section \<open>A registration that is answered\<close>

text \<open>The client after the answer: everything but the connection and the pending response is as before.\<close>

lemma register_returns:
  fixes c :: "'g client"
  assumes "settled c" "ids c ic = -1" "is_cstring s"
    and "ready c (length (encode_message (make_message SCIM_BRIDGE_MESSAGE_REGISTER_IMCONTEXT [])))
      (encode_strings [SCIM_BRIDGE_MESSAGE_IMCONTEXT_REGISTERED, s])"
  shows "\<exists>c2. imcontext_list c2 = imcontext_list c \<and> list_size c2 = list_size c \<and> ids c2 = ids c \<and>
    found_imcontext c2 = found_imcontext c \<and> client_messenger c2 \<noteq> None \<and>
    initialized c2 = initialized c \<and>
    scim_bridge_client_register_imcontext ui ic c =
      (case scim_bridge_string_to_int (Some s) of
         Some i \<Rightarrow> if 0 \<le> i then run_bind (add_imcontext ic i c2) (\<lambda>c3. Done (RETVAL_SUCCEEDED, settle c3))
                   else Done (RETVAL_FAILED, settle c2)
       | None \<Rightarrow> Done (RETVAL_FAILED, settle c2))"
proof -
  let ?H = SCIM_BRIDGE_MESSAGE_IMCONTEXT_REGISTERED
  let ?msg = "make_message SCIM_BRIDGE_MESSAGE_REGISTER_IMCONTEXT []"
  let ?reg = "\<lambda>c1 :: 'g client. set_status RESPONSE_PENDING (set_imcontext_id (-1) (set_response_header (Some ?H) c1))"
  from send_request_ready [OF assms(4), of ui] obtain m1 net1 where
    r: "send_request ui ?msg c = Done (RETVAL_SUCCEEDED, with_io m1 net1 c)"
    "messenger_inv m1" "0 \<le> socket_fd m1" "benign_rx (rx net1)"
    "ring_content (receiving m1) @ rx_stream (rx net1) = encode_strings [?H, s]" by auto
  let ?c1 = "?reg (with_io m1 net1 c)"
  let ?c2 = "case scim_bridge_string_to_int (Some s) of
      Some i \<Rightarrow> if 0 \<le> i then set_status RESPONSE_SUCCEEDED (set_imcontext_id i ?c1) else set_status RESPONSE_FAILED ?c1
    | None \<Rightarrow> set_status RESPONSE_FAILED ?c1"
  have handler: "dispatch_message ui (packed ?H [s]) (with_io m' net' ?c1) =
      Done (RETVAL_SUCCEEDED, with_io m' net' ?c2)" for m' net'
    by (simp add: dispatch_header received_message_imcontext_registered_def awaits_def pending_setters
        with_io_def split: option.splits)
  have c1: "initialized ?c1" "client_messenger ?c1 = Some m1"
    "status (pending_response ?c1) = RESPONSE_PENDING" "benign_rx (rx (kernel ?c1))"
    "ring_content (receiving m1) @ rx_stream (rx (kernel ?c1)) = encode_strings [?H, s]"
    using assms(4) r(4,5) by (simp_all add: ready_def pending_setters)
  have c2: "status (pending_response ?c2) \<noteq> RESPONSE_PENDING"
    by (simp add: pending_setters split: option.splits)
  from await_reply [OF c1(1-3) r(2,3) c1(4) answer_headers_clean(2) [OF assms(3)] c1(5) handler c2]
  obtain m' net' where a: "await_response ui ?c1 = Done (RETVAL_SUCCEEDED, with_io m' net' ?c2)" by blast
  let ?c' = "with_io m' net' ?c2"
  have "scim_bridge_client_register_imcontext ui ic c =
      (case scim_bridge_string_to_int (Some s) of
         Some i \<Rightarrow> if 0 \<le> i then run_bind (add_imcontext ic i ?c') (\<lambda>c3. Done (RETVAL_SUCCEEDED, settle c3))
                   else Done (RETVAL_FAILED, settle ?c')
       | None \<Rightarrow> Done (RETVAL_FAILED, settle ?c'))"
    using assms(1,2,4) r(1) a
    by (auto simp: scim_bridge_client_register_imcontext_def scim_bridge_client_imcontext_get_id_def
        scim_bridge_client_is_messenger_opened_def ready_def settled_def pending_setters add_imcontext_def
        with_io_def split: option.splits)
  then show ?thesis
    by (intro exI [of _ ?c']) (simp add: pending_setters with_io_def split: option.splits)
qed

text \<open>a registration on a working connection is answered. When the agent answers with an id that no
  other input context has, the request succeeds exactly if the id is not negative, the connection
  stays open, nothing is left pending, and the new input context is found by its id.\<close>

theorem register_answered:
  assumes "settled c" "registry_inv c" "ids c ic = -1" "ic \<notin> set (imcontext_list c)" "is_cstring s"
    and "ready c (length (encode_message (make_message SCIM_BRIDGE_MESSAGE_REGISTER_IMCONTEXT [])))
      (encode_strings [SCIM_BRIDGE_MESSAGE_IMCONTEXT_REGISTERED, s])"
    and "scim_bridge_string_to_int (Some s) = Some i" "\<forall>y \<in> set (imcontext_list c). ids c y \<noteq> i"
  shows "\<exists>c'. scim_bridge_client_register_imcontext ui ic c =
      Done (if 0 \<le> i then RETVAL_SUCCEEDED else RETVAL_FAILED, c') \<and>
    client_messenger c' \<noteq> None \<and> settled c' \<and> registry_inv c' \<and>
    (if 0 \<le> i then fst (scim_bridge_client_find_imcontext i c') = Some ic \<and> ids c' = (ids c)(ic := i)
     else imcontext_list c' = imcontext_list c \<and> ids c' = ids c)"
proof -
  from register_returns [OF assms(1,3,5,6), of ui] assms(7) obtain c2 where
    c2: "imcontext_list c2 = imcontext_list c" "list_size c2 = list_size c" "ids c2 = ids c"
      "found_imcontext c2 = found_imcontext c" "client_messenger c2 \<noteq> None"
    and r: "scim_bridge_client_register_imcontext ui ic c =
      (if 0 \<le> i then run_bind (add_imcontext ic i c2) (\<lambda>c3. Done (RETVAL_SUCCEEDED, settle c3))
       else Done (RETVAL_FAILED, settle c2))" by auto
  have inv: "registry_inv c2" using assms(2) c2 by (simp add: registry_inv_def)
  have open_settle: "client_messenger (settle c') = client_messenger c'" for c' :: "'a client"
    by (simp add: settle_def pending_setters)
  show ?thesis
  proof (cases "0 \<le> i")
    case True
    then have new: "new_entry ic i c2" using assms(4,8) c2 by (simp add: new_entry_def)
    have e: "registry_inv (settle (added ic i c2))" "registered i (settle (added ic i c2)) = Some ic"
      using registry.insert_inv [OF inv new] registry.entry_inserted [OF inv new] by simp_all
    then have "fst (scim_bridge_client_find_imcontext i (settle (added ic i c2))) = Some ic"
      using find_imcontext_registered [OF e(1), of i] by simp
    with True r e(1) c2 add_imcontext_eq [OF inv new] show ?thesis
      by (intro exI [of _ "settle (added ic i c2)"]) (simp add: open_settle, simp add: added_def)
  next
    case False
    with r c2 inv show ?thesis by (intro exI [of _ "settle c2"]) (simp add: open_settle)
  qed
qed

lemma finish_lenient_ids:
  "if_returns (\<lambda>(rv, c'). rv = RETVAL_SUCCEEDED \<longrightarrow> ids c' = ids c) (finish_lenient ui c)"
  unfolding finish_lenient_def if_returns_bind
  by (rule if_returns_mono [OF keeping.awaited [of c c]]) (auto split: if_splits)

lemma expect_ids [simp]: "ids (expect h c) = ids c"
  by (simp add: expect_def pending_setters)

lemma deregister_cases:
  assumes "registry_inv c" "ic \<in> set (imcontext_list c)" "0 \<le> ids c ic"
  shows "if_returns (\<lambda>(rv, c'). rv = RETVAL_FAILED \<and> c' = c \<or>
      kept (removed ic c) c' \<and> (rv = RETVAL_SUCCEEDED \<longrightarrow> ids c' = ids (removed ic c)))
    (scim_bridge_client_deregister_imcontext ui ic c)"
proof -
  let ?Q = "\<lambda>(rv, c'). rv = RETVAL_FAILED \<and> c' = c \<or>
      kept (removed ic c) c' \<and> (rv = RETVAL_SUCCEEDED \<longrightarrow> ids c' = ids (removed ic c))"
  have o: "ordered (ids c) (imcontext_list c)" using assms(1) by (simp add: registry_inv_def)
  have l: "remove_from_list (ids c) (ids c ic) (imcontext_list c) = Some (remove1 ic (imcontext_list c))"
    using remove_from_list_registered [OF o assms(3,2)] .
  have ne: "imcontext_list c \<noteq> []" using assms(2) by auto
  have rest: "if_returns ?Q (run_bind (send_request ui msg (removed ic c)) (\<lambda>(rv, c2).
      if rv \<noteq> RETVAL_SUCCEEDED then Done (RETVAL_FAILED, c2)
      else finish_lenient ui (expect SCIM_BRIDGE_MESSAGE_IMCONTEXT_DEREGISTERED c2)))" for msg
    unfolding if_returns_bind
  proof (rule if_returnsI, clarify)
    fix rv c2 assume s: "send_request ui msg (removed ic c) = Done (rv, c2)"
    have k: "kept (removed ic c) c2" using if_returnsD [OF send_request_kept [OF kept_refl] s] by simp
    have i: "rv = RETVAL_SUCCEEDED \<longrightarrow> ids c2 = ids (removed ic c)"
      using if_returnsD [OF send_request_ids s] by simp
    show "if_returns ?Q (if rv \<noteq> RETVAL_SUCCEEDED then Done (RETVAL_FAILED, c2)
      else finish_lenient ui (expect SCIM_BRIDGE_MESSAGE_IMCONTEXT_DEREGISTERED c2))"
      using k i finish_kept(2) [OF expect_kept [OF k], of ui SCIM_BRIDGE_MESSAGE_IMCONTEXT_DEREGISTERED]
        finish_lenient_ids [of "expect SCIM_BRIDGE_MESSAGE_IMCONTEXT_DEREGISTERED c2" ui]
      by (cases "finish_lenient ui (expect SCIM_BRIDGE_MESSAGE_IMCONTEXT_DEREGISTERED c2)") auto
  qed
  let ?c0 = "if found_imcontext c = Some ic then c\<lparr>found_imcontext := None\<rparr> else c"
  have c0: "scim_bridge_client_imcontext_set_id ic (-1)
      (?c0\<lparr>imcontext_list := remove1 ic (imcontext_list c), list_size := list_size ?c0 - 1\<rparr>) = removed ic c"
    by (simp add: removed_def scim_bridge_client_imcontext_set_id_def)
  show ?thesis
    using rest l ne c0
    by (cases "found_imcontext c = Some ic")
      (simp_all add: scim_bridge_client_deregister_imcontext_def Let_def
        scim_bridge_client_imcontext_get_id_def)
qed

text \<open>C6: deregistering an input context that is registered keeps the registry whatever happens, and when
  it succeeds the input context is gone from the list and from the cache, has no id any more, and all
  others are found as before.\<close>

theorem deregister_correct:
  assumes "registry_inv c" "ic \<in> set (imcontext_list c)" "0 \<le> ids c ic"
  shows "if_returns (\<lambda>(rv, c'). registry_inv c' \<and>
      (rv = RETVAL_SUCCEEDED \<longrightarrow>
        ids c' ic = -1 \<and> ic \<notin> set (imcontext_list c') \<and> found_imcontext c' \<noteq> Some ic \<and>
        (\<forall>j \<ge> 0. fst (scim_bridge_client_find_imcontext j c') =
          (if j = ids c ic then None else fst (scim_bridge_client_find_imcontext j c)))))
    (scim_bridge_client_deregister_imcontext ui ic c)"
proof (rule if_returns_mono [OF deregister_cases [OF assms]], clarify)
  fix rv c'
  assume h: "rv = RETVAL_FAILED \<and> c' = c \<or>
    kept (removed ic c) c' \<and> (rv = RETVAL_SUCCEEDED \<longrightarrow> ids c' = ids (removed ic c))"
  note r = removed_inv [OF assms(1,2)]
  show "registry_inv c' \<and> (rv = RETVAL_SUCCEEDED \<longrightarrow>
      ids c' ic = -1 \<and> ic \<notin> set (imcontext_list c') \<and> found_imcontext c' \<noteq> Some ic \<and>
      (\<forall>j \<ge> 0. fst (scim_bridge_client_find_imcontext j c') =
        (if j = ids c ic then None else fst (scim_bridge_client_find_imcontext j c))))"
  proof (cases "rv = RETVAL_FAILED \<and> c' = c")
    case True
    with assms(1) show ?thesis by simp
  next
    case False
    with h have k: "kept (removed ic c) c'" "rv = RETVAL_SUCCEEDED \<longrightarrow> ids c' = ids (removed ic c)" by auto
    have inv: "registry_inv c'" by (rule kept_registry [OF r k(1)])
    have l: "imcontext_list c' = remove1 ic (imcontext_list c)" using k(1) by (simp add: kept_def removed_def)
    have n: "ic \<notin> set (imcontext_list c')" using assms(1) l by (simp add: registry_inv_def)
    have "registered j c' = registered j (removed ic c)" if "rv = RETVAL_SUCCEEDED" for j
      using k that l by (simp add: registered_def removed_def)
    with inv n l k(2) registered_removed [OF assms(1,2)] find_imcontext_registered [OF inv]
      find_imcontext_registered [OF assms(1)]
    show ?thesis by (auto simp: registry_inv_def removed_def)
  qed
qed

text \<open>C7: all other requests, reading and dispatching, closing, initializing and finalizing keep the
  registry, whatever is received meanwhile and however the connection fails.\<close>

theorem requests_keep_registry:
  assumes "registry_inv c"
  shows "if_returns (\<lambda>(rv, c'). registry_inv c') (scim_bridge_client_reset_imcontext ui ic c) \<and>
    if_returns (\<lambda>(rv, c'). registry_inv c') (scim_bridge_client_set_imcontext_enabled ui ic b c) \<and>
    if_returns (\<lambda>(rv, r, c'). registry_inv c') (scim_bridge_client_handle_key_event ui ic k c) \<and>
    if_returns (\<lambda>(rv, c'). registry_inv c') (scim_bridge_client_change_focus ui ic b c) \<and>
    if_returns (\<lambda>(rv, c'). registry_inv c') (scim_bridge_client_set_cursor_location ui ic x y c) \<and>
    if_returns (\<lambda>(rv, c'). registry_inv c') (scim_bridge_client_set_preedit_mode ui ic mode c) \<and>
    if_returns (\<lambda>(rv, c'). registry_inv c') (scim_bridge_client_read_and_dispatch ui c) \<and>
    registry_inv (snd (scim_bridge_client_close_messenger ui c)) \<and>
    registry_inv (snd (scim_bridge_client_initialize c)) \<and>
    registry_inv (snd (scim_bridge_client_finalize ui c))"
proof -
  have k: "if_returns (\<lambda>(rv, c'). kept c c') m \<Longrightarrow> if_returns (\<lambda>(rv, c'). registry_inv c') m" for m
    by (erule if_returns_mono) (auto intro: kept_registry [OF assms])
  have rd: "if_returns (\<lambda>(rv, c'). kept c c') (scim_bridge_client_read_and_dispatch ui c)"
    by (rule if_returns_mono [OF keeping.read_and_dispatch [of c c]]) auto
  have h: "if_returns (\<lambda>(rv, r, c'). registry_inv c') (scim_bridge_client_handle_key_event ui ic k c)"
    by (rule if_returns_mono [OF handle_key_event_kept]) (auto intro: kept_registry [OF assms])
  have "registry_inv (snd (scim_bridge_client_initialize c))" "registry_inv (snd (scim_bridge_client_finalize ui c))"
    using assms by (auto simp: scim_bridge_client_initialize_def scim_bridge_client_finalize_def Let_def
        registry_inv_def ordered_def)
  with h show ?thesis by (intro conjI k rd requests_kept kept_registry [OF assms close_kept]) simp_all
qed

text \<open>C22: when the connection is closed all registered input contexts lose their ids and none is found,
  not even the one found last, while the list itself is kept for the next connection; nothing is
  left pending.\<close>

theorem close_forgets:
  assumes "registry_inv c" "client_messenger c \<noteq> None"
  shows "let c' = snd (scim_bridge_client_close_messenger ui c) in
    client_messenger c' = None \<and> settled c' \<and> imcontext_list c' = imcontext_list c \<and>
    (\<forall>x \<in> set (imcontext_list c). ids c' x = -1) \<and>
    (\<forall>j. fst (scim_bridge_client_find_imcontext j c') = None)"
proof -
  let ?c' = "snd (scim_bridge_client_close_messenger ui c)"
  have f: "client_messenger ?c' = None" "imcontext_list ?c' = imcontext_list c"
    "\<forall>x \<in> set (imcontext_list c). ids ?c' x = -1"
    using assms(2) by (auto simp: scim_bridge_client_close_messenger_def Let_def pending_setters)
  have "registered j ?c' = None" for j
    using f(2,3) by (auto simp: registered_def find_None_iff)
  with f close_settles [OF assms(2)] find_imcontext_registered [OF kept_registry [OF assms(1) close_kept]]
  show ?thesis by (simp add: Let_def)
qed

section \<open>Reconnecting\<close>

lemma register_ids_new:
  assumes "scim_bridge_client_register_imcontext ui ic c = Done (RETVAL_SUCCEEDED, c')" "x \<noteq> ic"
  shows "ids c' x = ids c x"
  using assms(1)
proof (cases rule: register_cases)
  case (registered c2 c3)
  with assms(2) show ?thesis
    by (auto simp: add_imcontext_def insert_imcontext_def scim_bridge_client_imcontext_set_id_def
        split: if_splits option.splits)
qed simp_all

lemma reregister_ids:
  "reregister ui ics n c = Done (RETVAL_SUCCEEDED, c') \<Longrightarrow> x \<notin> set ics \<Longrightarrow> ids c' x = ids c x"
proof (induction ics arbitrary: n c)
  case (Cons ic ics)
  then obtain c1 where
    r: "scim_bridge_client_register_imcontext ui ic c = Done (RETVAL_SUCCEEDED, c1)"
    and rest: "reregister ui ics (n - 1) c1 = Done (RETVAL_SUCCEEDED, c')" by (auto split: if_splits)
  from Cons.IH [OF rest] register_ids_new [OF r] Cons.prems(2) show ?case by simp
qed simp

text \<open>When the ids of all input contexts differ in the end, every registration has found its own id new.\<close>

lemma reregister_registered:
  assumes "reregister ui ics n c = Done (RETVAL_SUCCEEDED, c')" "registry_inv c" "distinct ics"
    and "set ics \<inter> set (imcontext_list c) = {}" "\<forall>x \<in> set (imcontext_list c). 0 \<le> ids c x"
    and "inj_on (ids c') (set ics \<union> set (imcontext_list c))"
  shows "registry_inv c' \<and> set (imcontext_list c') = set ics \<union> set (imcontext_list c) \<and>
    (\<forall>x \<in> set (imcontext_list c'). 0 \<le> ids c' x)"
  using assms
proof (induction ics arbitrary: n c)
  case (Cons ic ics)
  from Cons.prems(1) obtain c1 where
    r: "scim_bridge_client_register_imcontext ui ic c = Done (RETVAL_SUCCEEDED, c1)"
    and rest: "reregister ui ics (n - 1) c1 = Done (RETVAL_SUCCEEDED, c')" by (auto split: if_splits)
  have i: "ids c' ic = ids c1 ic" using reregister_ids [OF rest] Cons.prems(3) by simp
  have old: "ids c' y = ids c y" if "y \<in> set (imcontext_list c)" for y
  proof -
    from that Cons.prems(4) have "y \<notin> set ics" "y \<noteq> ic" by auto
    with reregister_ids [OF rest] register_ids_new [OF r] show ?thesis by simp
  qed
  have ic: "ic \<notin> set (imcontext_list c)" using Cons.prems(4) by simp
  have "\<forall>y \<in> set (imcontext_list c). ids c y \<noteq> ids c1 ic"
  proof
    fix y assume y: "y \<in> set (imcontext_list c)"
    with ic have "y \<noteq> ic" by blast
    with y inj_onD [OF Cons.prems(6), of y ic] have "ids c' y \<noteq> ids c' ic" by auto
    with old [OF y] i show "ids c y \<noteq> ids c1 ic" by simp
  qed
  from register_added [OF Cons.prems(2) ic r this] obtain c2 where
    c2: "registry_inv c2" "imcontext_list c2 = imcontext_list c" "ids c2 = ids c" "0 \<le> ids c1 ic"
    "new_entry ic (ids c1 ic) c2" "c1 = settle (added ic (ids c1 ic) c2)" by blast
  have inv: "registry_inv c1" and l: "set (imcontext_list c1) = insert ic (set (imcontext_list c))"
    using added_inv [OF c2(1,5)] by (subst c2(6); simp add: c2(2) added_def)+
  have "set ics \<inter> set (imcontext_list c1) = {}" using Cons.prems(3,4) l by auto
  moreover have "\<forall>x \<in> set (imcontext_list c1). 0 \<le> ids c1 x"
    using c2(4) Cons.prems(5) register_ids_new [OF r] unfolding l by (metis insert_iff)
  moreover have "inj_on (ids c') (set ics \<union> set (imcontext_list c1))" using Cons.prems(6) l by simp
  ultimately show ?case using Cons.IH [OF rest inv] Cons.prems(3) l by simp
qed simp

text \<open>C23: a reconnection that succeeds has registered every input context of the old list again: provided that the
  agent gives no two of them the same id, as the protocol promises, the new list holds exactly the old input
  contexts, in the order of their new ids, none of which is negative, and every one is found by its new id.\<close>

theorem reconnection_registers:
  assumes "registry_inv c" "client_messenger c = None"
    and "scim_bridge_client_open_messenger ui env c = Done (RETVAL_SUCCEEDED, c')"
    and "inj_on (ids c') (set (imcontext_list c))"
  shows "initialized c \<and> registry_inv c' \<and> set (imcontext_list c') = set (imcontext_list c) \<and>
    list_size c' = list_size c \<and>
    (\<forall>x \<in> set (imcontext_list c). 0 \<le> ids c' x \<and> fst (scim_bridge_client_find_imcontext (ids c' x) c') = Some x)"
proof -
  have c: "distinct (imcontext_list c)" "list_size c = length (imcontext_list c)"
    using assms(1) by (simp_all add: registry_inv_def)
  let ?c1 = "\<lambda>fd. c\<lparr>client_messenger := scim_bridge_alloc_messenger fd (fcntl_flags env) (fcntl_setfl env),
      kernel := connection env,
      pending_response := \<lparr>status = RESPONSE_DONE, response_header = None, consumed = True, imcontext_id = -1\<rparr>,
      imcontext_list := [], list_size := 0, found_imcontext := None\<rparr>"
  from assms(2,3) obtain fd c2 where
    r: "initialized c" "reregister ui (imcontext_list c) (list_size c) (?c1 fd) = Done (RETVAL_SUCCEEDED, c2)"
    "c' = c2\<lparr>gui := ui_messenger_opened ui (gui c2)\<rparr>"
    by (auto simp: scim_bridge_client_open_messenger_def Let_def split: if_splits option.splits)
  have "registry_inv (?c1 fd)" by (simp add: registry_inv_def ordered_def)
  from reregister_registered [OF r(2) this c(1)] assms(4)
  have c2: "registry_inv c2" "set (imcontext_list c2) = set (imcontext_list c)"
    "\<forall>x \<in> set (imcontext_list c2). 0 \<le> ids c2 x" by (simp_all add: r(3))
  then have inv: "registry_inv c'" by (simp add: r(3) registry_inv_def)
  moreover have "list_size c' = list_size c"
  proof -
    have "distinct (imcontext_list c2)" "list_size c2 = length (imcontext_list c2)"
      using c2(1) by (simp_all add: registry_inv_def)
    with c c2(2) show ?thesis by (simp add: r(3)) (metis distinct_card)
  qed
  moreover have "fst (scim_bridge_client_find_imcontext (ids c' x) c') = Some x" if "x \<in> set (imcontext_list c)" for x
    using find_imcontext_registered [OF inv] registered_iff [OF inv] that c2(2,3) by (simp add: r(3))
  ultimately show ?thesis using r(1) c2(2,3) by (simp add: r(3))
qed

text \<open>What the code relies on for a connection that works: a descriptor, the flags of the socket, and a
  script without errors that delivers exactly \<open>reply\<close>.\<close>

definition good_connection :: "connection_env \<Rightarrow> nat \<Rightarrow> string \<Rightarrow> bool" where
  "good_connection env n reply \<longleftrightarrow> scim_binary env \<and> (\<exists>fd \<ge> 0. connect_loop env 0 10 = Some fd) \<and>
     0 \<le> fcntl_flags env \<and> fcntl_setfl env = 0 \<and> benign_rx (rx (connection env)) \<and>
     benign_tx (tx (connection env)) \<and> n \<le> accepts (tx (connection env)) \<and>
     rx_stream (rx (connection env)) = reply"

definition reconnected :: "connection_env \<Rightarrow> 'g client \<Rightarrow> 'g client" where
  "reconnected env c = c\<lparr>client_messenger := scim_bridge_alloc_messenger (the (connect_loop env 0 10))
       (fcntl_flags env) (fcntl_setfl env),
     kernel := connection env,
     pending_response := \<lparr>status = RESPONSE_DONE, response_header = None, consumed = True, imcontext_id = -1\<rparr>,
     imcontext_list := [], list_size := 0, found_imcontext := None\<rparr>"

lemma reconnected_ready:
  assumes "good_connection env n reply" "initialized c"
  shows "ready (reconnected env c) n reply \<and> settled (reconnected env c)"
proof -
  from assms(1) obtain fd where fd: "0 \<le> fd" "connect_loop env 0 10 = Some fd"
    by (auto simp: good_connection_def)
  with assms obtain m where m: "scim_bridge_alloc_messenger fd (fcntl_flags env) (fcntl_setfl env) = Some m"
    "m = \<lparr>socket_fd = fd, sending = ring_alloc 20, receiving = ring_alloc 20, has_received_message = False\<rparr>"
    by (auto simp: good_connection_def scim_bridge_alloc_messenger_def)
  with alloc_messenger_inv [OF m(1)] assms fd ring_alloc_inv [of 20] show ?thesis
    by (simp add: ready_def settled_def reconnected_def good_connection_def)
qed

text \<open>when the agent refuses to register the first input context after a reconnection, the connection
  is left open with no input context registered: the call fails, but calling it again reports
  success at once and registers nothing.\<close>

theorem refused_reconnection_sticks:
  assumes "initialized c" "client_messenger c = None" "imcontext_list c = ic # ics" "ids c ic = -1"
    and "good_connection env (length (encode_message (make_message SCIM_BRIDGE_MESSAGE_REGISTER_IMCONTEXT [])))
      (encode_strings [SCIM_BRIDGE_MESSAGE_IMCONTEXT_REGISTERED, s])"
    and "is_cstring s" "scim_bridge_string_to_int (Some s) = Some i" "i < 0"
  shows "\<exists>c'. scim_bridge_client_open_messenger ui env c = Done (RETVAL_FAILED, c') \<and>
    client_messenger c' \<noteq> None \<and> (\<forall>x \<in> set (imcontext_list c). ids c' x = -1) \<and>
    scim_bridge_client_open_messenger ui env' c' = Done (RETVAL_SUCCEEDED, c')"
proof -
  note r = reconnected_ready [OF assms(5,1)]
  have "ids (reconnected env c) ic = -1" using assms(4) by (simp add: reconnected_def)
  from register_returns [OF _ this assms(6), of ui] r assms(7,8) obtain c2 where
    c2: "imcontext_list c2 = []" "client_messenger c2 \<noteq> None" "initialized c2"
    "scim_bridge_client_register_imcontext ui ic (reconnected env c) = Done (RETVAL_FAILED, settle c2)"
    using assms(1) by (auto simp: reconnected_def)
  let ?c' = "forget_ids ((settle c2)\<lparr>imcontext_list := ic # ics, list_size := list_size c2 + list_size c\<rparr>)"
  have o: "scim_bridge_client_open_messenger ui env c = Done (RETVAL_FAILED, ?c')"
    using assms(1-3,5) c2
    by (auto simp: scim_bridge_client_open_messenger_def good_connection_def Let_def reconnected_def)
  have open_settle: "client_messenger (settle c') = client_messenger c'" "initialized (settle c') = initialized c'"
    for c' :: "'a client" by (simp_all add: settle_def pending_setters)
  show ?thesis
  proof (intro exI conjI)
    show "scim_bridge_client_open_messenger ui env c = Done (RETVAL_FAILED, ?c')" by (rule o)
    show "client_messenger ?c' \<noteq> None" using c2(2) by (simp add: open_settle)
    show "\<forall>x \<in> set (imcontext_list c). ids ?c' x = -1" using assms(3) by simp
    show "scim_bridge_client_open_messenger ui env' ?c' = Done (RETVAL_SUCCEEDED, ?c')"
      using c2(2,3) by (simp add: scim_bridge_client_open_messenger_def open_settle)
  qed
qed

section \<open>Witnesses\<close>

text \<open>The agent registers the input context 1 with the id 7; later, or when it refuses, with -1.\<close>

definition registered_reply :: "string \<Rightarrow> string" where
  "registered_reply s = encode_strings [SCIM_BRIDGE_MESSAGE_IMCONTEXT_REGISTERED, s]"

definition registering_client :: "string \<Rightarrow> unit client" where
  "registering_client s = connected [Rx_again, Rx_bytes (registered_reply s)] (replicate 30 (Tx_accept 4))"

lemma registering_client_ready:
  "ready (registering_client s) (length (encode_message (make_message SCIM_BRIDGE_MESSAGE_REGISTER_IMCONTEXT [])))
     (encode_strings [SCIM_BRIDGE_MESSAGE_IMCONTEXT_REGISTERED, s]) \<and> settled (registering_client s)"
proof -
  have "registered_reply s \<noteq> []" by (simp add: registered_reply_def)
  moreover have "length (encode_message (make_message SCIM_BRIDGE_MESSAGE_REGISTER_IMCONTEXT [])) \<le>
      accepts (replicate 30 (Tx_accept 4))"
    unfolding make_message_packed by code_simp
  moreover have "benign_tx (replicate 30 (Tx_accept 4))" by (simp add: benign_tx_def)
  ultimately show ?thesis
    unfolding registering_client_def
    by (intro connected_ready) (simp_all add: registered_reply_def)
qed

lemma registering_client_registry:
  "registry_inv (registering_client s)" "ids (registering_client s) = (\<lambda>_. -1)"
  "imcontext_list (registering_client s) = []"
  by (simp_all add: registering_client_def connected_def registry_inv_def ordered_def)

lemma string_to_int_7: "scim_bridge_string_to_int (Some ''7'') = Some 7"
  by (simp add: string_to_int_iff int_value.simps dec_value.simps digit_of_char_def)

theorem register_correct_witness:
  "\<exists>c'. scim_bridge_client_register_imcontext quiet_toolkit 1 (registering_client ''7'') = Done (RETVAL_SUCCEEDED, c') \<and>
    registry_inv c' \<and> 0 \<le> ids c' 1 \<and> set (imcontext_list c') = {1}"
proof -
  obtain c' where r: "scim_bridge_client_register_imcontext quiet_toolkit 1 (registering_client ''7'') =
      Done (RETVAL_SUCCEEDED, c')"
    using register_returns [of "registering_client ''7''" 1 "''7''" quiet_toolkit]
      registering_client_ready [of "''7''"] registering_client_registry [of "''7''"] string_to_int_7
    by (auto simp: is_cstring_code add_imcontext_def insert_imcontext_def scim_bridge_client_imcontext_set_id_def
        registry_inv_def)
  from register_correct [OF registering_client_registry(1) _ this] show ?thesis
    using r registering_client_registry(3) [of "''7''"] by auto
qed

definition one_registered :: "unit client" where
  "one_registered = added 1 7 (connected [Rx_closed] [Tx_accept 100])"

lemma one_registered_fields:
  "registry_inv one_registered" "imcontext_list one_registered = [1]" "ids one_registered 1 = 7"
  "client_messenger one_registered \<noteq> None"
proof -
  have "registry_inv (connected [Rx_closed] [Tx_accept 100])" "new_entry 1 7 (connected [Rx_closed] [Tx_accept 100])"
    by (simp_all add: connected_def registry_inv_def ordered_def new_entry_def)
  from registry.insert_inv [OF this] show "registry_inv one_registered" by (simp add: one_registered_def)
qed (simp_all add: one_registered_def added_def connected_def put_in_order_def)

theorem deregister_correct_witness:
  "if_returns (\<lambda>(rv, c'). registry_inv c' \<and>
      (rv = RETVAL_SUCCEEDED \<longrightarrow>
        ids c' 1 = -1 \<and> 1 \<notin> set (imcontext_list c') \<and> found_imcontext c' \<noteq> Some 1 \<and>
        (\<forall>j \<ge> 0. fst (scim_bridge_client_find_imcontext j c') =
          (if j = ids one_registered 1 then None else fst (scim_bridge_client_find_imcontext j one_registered)))))
    (scim_bridge_client_deregister_imcontext quiet_toolkit 1 one_registered)"
  using one_registered_fields by (intro deregister_correct) simp_all

theorem requests_keep_registry_witness:
  "if_returns (\<lambda>(rv, c'). registry_inv c') (scim_bridge_client_change_focus quiet_toolkit 1 True one_registered)"
  using requests_keep_registry [OF one_registered_fields(1), of quiet_toolkit 1 True] by blast

theorem close_forgets_witness:
  "fst (scim_bridge_client_find_imcontext 7 (snd (scim_bridge_client_close_messenger quiet_toolkit one_registered))) = None"
  using close_forgets [OF one_registered_fields(1,4), of quiet_toolkit] by (simp add: Let_def)

definition demo_env :: "string \<Rightarrow> connection_env" where
  "demo_env s = \<lparr>scim_binary = True, launch_succeeds = True, socket_fds = (\<lambda>_. 3), connects = (\<lambda>i. i = 2),
     fcntl_flags = 2, fcntl_setfl = 0, connection = kernel (registering_client s)\<rparr>"

definition disconnected :: "unit client" where
  "disconnected = one_registered\<lparr>client_messenger := None, ids := (\<lambda>_. -1)\<rparr>"

lemma demo_env_good:
  "good_connection (demo_env s) (length (encode_message (make_message SCIM_BRIDGE_MESSAGE_REGISTER_IMCONTEXT [])))
     (encode_strings [SCIM_BRIDGE_MESSAGE_IMCONTEXT_REGISTERED, s])"
proof -
  have "connect_loop (demo_env s) 0 10 = Some 3"
    by (simp add: demo_env_def numeral_eq_Suc)
  then show ?thesis
    using registering_client_ready [of s]
    by (auto simp: good_connection_def demo_env_def ready_def registering_client_def connected_def
        fresh_messenger_fields)
qed

lemma disconnected_fields:
  "initialized disconnected" "client_messenger disconnected = None" "imcontext_list disconnected = [1]"
  "ids disconnected = (\<lambda>_. -1)" "registry_inv disconnected"
  using one_registered_fields
  by (simp_all add: disconnected_def registry_inv_def ordered_def, simp add: one_registered_def added_def connected_def)

theorem reconnection_registers_witness:
  "\<exists>c'. scim_bridge_client_open_messenger quiet_toolkit (demo_env ''7'') disconnected = Done (RETVAL_SUCCEEDED, c') \<and>
    imcontext_list c' = [1] \<and> 0 \<le> ids c' 1 \<and> fst (scim_bridge_client_find_imcontext (ids c' 1) c') = Some 1"
proof -
  note r = reconnected_ready [OF demo_env_good disconnected_fields(1), of "''7''"]
  have "ids (reconnected (demo_env ''7'') disconnected) 1 = -1"
    by (simp add: reconnected_def disconnected_fields)
  from register_returns [OF _ this _ r [THEN conjunct1], of quiet_toolkit] r string_to_int_7
  obtain c1 where "scim_bridge_client_register_imcontext quiet_toolkit 1 (reconnected (demo_env ''7'') disconnected) =
      Done (RETVAL_SUCCEEDED, c1)"
    by (auto simp: is_cstring_code add_imcontext_def insert_imcontext_def reconnected_def
        scim_bridge_client_imcontext_set_id_def)
  moreover have "connect_loop (demo_env ''7'') 0 10 = Some 3"
    by (simp add: demo_env_def numeral_eq_Suc)
  ultimately obtain c' where
    "scim_bridge_client_open_messenger quiet_toolkit (demo_env ''7'') disconnected = Done (RETVAL_SUCCEEDED, c')"
    using disconnected_fields
    by (auto simp: scim_bridge_client_open_messenger_def reconnected_def Let_def demo_env_def)
  moreover from reconnection_registers [OF disconnected_fields(5,2) this] disconnected_fields(3)
  have "registry_inv c'" "set (imcontext_list c') = {1}" "list_size c' = list_size disconnected" "0 \<le> ids c' 1"
    "fst (scim_bridge_client_find_imcontext (ids c' 1) c') = Some 1" by simp_all
  moreover have "imcontext_list c' = [1]"
  proof -
    have "distinct (imcontext_list c')" using \<open>registry_inv c'\<close> by (simp add: registry_inv_def)
    then show ?thesis
      using \<open>set (imcontext_list c') = {1}\<close> by (cases "imcontext_list c'" rule: list.exhaust [case_names Nil Cons])
        (auto simp: subset_singleton_iff)
  qed
  ultimately show ?thesis by blast
qed

end
