(* ===== verification/Spec2Isabelle.thy ===== *)
theory Spec2Isabelle
  imports Core_Transfer Core_Server Core_Global_Config Core_Hotkey_Laws Core_Compose_Laws Bridge_Display Bridge_Register
begin

text \<open>
  A verification development for SCIM, the Smart Common Input Method platform: the client and the
  common library of the SCIM bridge, by which the input modules of GTK, Qt and Clutter talk to the
  input method agent (theories \<open>Bridge_\<close>\<dots>), and the parts of the core library that keep, encode and
  transport its data, store what the user has chosen, and interpret key events (theories \<open>Core_\<close>\<dots>).

  \<^bold>\<open>The bridge.\<close> An application loads an input module. The module links the client library
  (\<^verbatim>\<open>extras/immodules/client-common/scim-bridge-client.c\<close>) and the common library
  (\<^verbatim>\<open>extras/immodules/common/\<close>), and connects to the agent by a socket. Requests (register an input
  context, handle a key event, change the focus) are messages: a header and arguments, all strings.
  A messenger writes them into a ring buffer, escaped and separated, and sends the buffer in pieces;
  the other side collects the pieces in a ring buffer and polls complete messages out of it. A
  request waits for its answer by reading and dispatching; what arrives meanwhile (preedit strings,
  commits, forwarded keys) goes to handlers that look the input context up and call the toolkit.

  \<^bold>\<open>The core library.\<close> Front ends, input method engines, panels and configuration are processes that
  exchange transactions (\<^verbatim>\<open>src/scim_transaction.cpp\<close>): sequences of typed items in a buffer with a
  checksum, written to and read from sockets (\<^verbatim>\<open>src/scim_socket.cpp\<close>). The items are commands, numbers,
  strings, key events, attributes, properties, lookup tables (\<^verbatim>\<open>src/scim_lookup_table.cpp\<close>) and
  transactions. What the user has chosen is kept by a configuration
  (\<^verbatim>\<open>modules/Config/scim_simple_config.cpp\<close>), read once and written to its file when it is flushed, and by the
  global configuration (\<^verbatim>\<open>src/scim_global_config.cpp\<close>). Among it are the hotkeys (\<^verbatim>\<open>src/scim_hotkey.cpp\<close>), stored
  as the strings of key events (\<^verbatim>\<open>src/scim_event.cpp\<close>, with the names of \<^verbatim>\<open>src/scim_keyevent_data.h\<close>). Key events
  that are no hotkeys go to an input method engine; the one that the library itself contains composes
  characters (\<^verbatim>\<open>src/scim_compose_key.cpp\<close>, with the sequences of \<^verbatim>\<open>src/scim_compose_key_data.h\<close>).

  \<^bold>\<open>The theories of the bridge\<close>, from the bottom up:

    \<^item> \<open>Bridge_Prelude\<close>: results of calls (\<open>retval\<close>), runs that return, block or are undefined
      (\<open>run\<close>), characters and bytes, and the interfaces \<open>accessor\<close>, \<open>independent_accessors\<close> and
      \<open>text_codec\<close>.
    \<^item> \<open>Bridge_String\<close>, \<open>Bridge_Utf8\<close>, \<open>Bridge_Wstring\<close>: \<^verbatim>\<open>scim-bridge-string.c\<close>. Numbers and
      booleans as text and UTF-8 as wide strings; exact characterisations, bounds and round trips.
    \<^item> \<open>Bridge_Message\<close>: \<^verbatim>\<open>scim-bridge-message.c\<close>, with the interface \<open>argument_store\<close>.
    \<^item> \<open>Bridge_Ring\<close>: the ring buffers of \<^verbatim>\<open>scim-bridge-messenger.c\<close>; \<open>ring_inv\<close> and the abstraction
      \<open>ring_content\<close>, with the interface \<open>byte_queue\<close>.
    \<^item> \<open>Bridge_Messenger\<close>: the operations of the messenger. \<open>Bridge_Wire\<close>: what push writes and
      poll reads, against the encoding \<open>encode_message\<close>. \<open>Bridge_Stream\<close>: what send and receive
      conserve, and two messengers joined by a socket as a state machine that refines a queue of
      those messages that the poller understands (\<open>clean\<close>).
    \<^item> \<open>Bridge_Key_Event\<close>, \<open>Bridge_Attribute\<close>, \<open>Bridge_Constants\<close>, \<open>Bridge_Display\<close>: key events and
      preedit attributes (packed words), the literals of the protocol, and what is taken from the
      environment (\<^verbatim>\<open>scim-bridge-display.c\<close>, \<^verbatim>\<open>-path.c\<close>, \<^verbatim>\<open>-client-debug.c\<close>).
    \<^item> \<open>Bridge_Client_State\<close>: the static variables of \<^verbatim>\<open>scim-bridge-client.c\<close>. \<open>Bridge_Handlers\<close>: the
      handlers of messages and their dispatcher. \<open>Bridge_Dispatch\<close>: reading and dispatching.
      \<open>Bridge_Client\<close>: the requests and the reconnection.
    \<^item> \<open>Bridge_Session\<close>: transfers without errors, an answer that arrives, no response left pending.
      \<open>Bridge_Requests\<close>: the properties of requests and handlers. \<open>Bridge_Registry\<close>: the ordered
      list of input contexts as an index by id (interface \<open>id_index\<close>). \<open>Bridge_Register\<close>: what every
      dispatched message preserves (interface \<open>client_invariant\<close>), registering, deregistering, closing
      and reconnecting (which rebuilds the registry).

  \<^bold>\<open>The theories of the core library:\<close>

    \<^item> \<open>Core_Utf8\<close>, \<open>Core_Strings\<close>: \<^verbatim>\<open>scim_utility.cpp\<close>. UTF-8 with six-byte sequences, lists written as
      one string, and the table of half and full width.
    \<^item> \<open>Core_Lookup_Table\<close>: \<^verbatim>\<open>scim_lookup_table.cpp\<close>. Paging and the cursor (\<open>page_inv\<close>), and the packed
      storage of candidates and attributes as a list of entries (\<open>lookup_table_represents\<close>).
    \<^item> \<open>Core_Holder\<close>: \<^verbatim>\<open>TransactionHolder\<close>, its growing buffer (\<open>writes\<close>) and its checksum. \<open>Core_Put\<close>,
      \<open>Core_Get\<close>: every \<^verbatim>\<open>put_\<close> and \<^verbatim>\<open>get_\<close> function. \<open>Core_Format\<close>: reads stay inside what was written
      (\<open>reads_safely\<close>). \<open>Core_Items\<close>: the format of items and the round trip.
    \<^item> \<open>Core_Address\<close>, \<open>Core_Socket\<close>, \<open>Core_Transfer\<close>, \<open>Core_Server\<close>: addresses, reading, writing and
      waiting with time-outs, transactions over sockets, and the life of sockets and of the server of
      sockets (\<open>server_inv\<close>).
    \<^item> \<open>Core_Config_File\<close>, \<open>Core_Simple_Config\<close>: the lines of the configuration file and the operations of
      \<^verbatim>\<open>SimpleConfig\<close>, with the interface \<open>dictionary\<close>. \<open>Core_Config_Laws\<close>: a configuration as a map of keys to
      values (\<open>config_is_map\<close>) and its file as a round trip. \<open>Core_Config_Flush\<close>: what is in the file after
      a flush, and after those of two processes. \<open>Core_Global_Config\<close>: \<^verbatim>\<open>scim_global_config.cpp\<close>.
    \<^item> \<open>Core_Key_Tables\<close>, \<open>Core_Key_Order\<close>: the names and characters of keys, and that the tables are in
      order. \<open>Core_Key_String\<close>, \<open>Core_Key_Laws\<close>: key events as strings and as characters.
    \<^item> \<open>Core_Hotkey\<close>, \<open>Core_Hotkey_Laws\<close>: the matchers of hotkeys, over the order of key events (an instance
      of \<^verbatim>\<open>linorder\<close>), and the reads of a configuration with a default (\<^verbatim>\<open>scim_config_base.cpp\<close>); which
      event is matched, and hotkeys saved to and loaded from a configuration, those included that come back.
    \<^item> \<open>Core_Compose_Table\<close>, \<open>Core_Compose_Order\<close>: the compose sequences, their order and their keys.
      \<open>Core_Compose\<close>, \<open>Core_Compose_Laws\<close>: the engine; what it does with a key (\<open>compose_step\<close>), with a whole
      sequence, and what its buffer may hold.

  \<^bold>\<open>Conventions.\<close> In the bridge, a C string is a list of characters without \<^verbatim>\<open>NUL\<close>; in the core library,
  a string is a list of bytes, a wide string a list of words. A pointer that may be \<^verbatim>\<open>NULL\<close>
  is an option; what the code stores through a pointer is a component of the result. Integers of the
  machine are words where they may wrap (\<^verbatim>\<open>unsigned int\<close> values, colours, modifiers, checksums, the
  sizes in transactions) and integers with the check written out where an overflow is undefined. Other
  sizes are natural numbers: a \<^verbatim>\<open>size_t\<close> would wrap only past the size of memory. A cell of a buffer is
  an option, \<^term>\<open>None\<close> while nothing has been written to it. A \<^verbatim>\<open>std::map\<close> is an association list in the order
  of its keys; where the build has a hash map instead, its order is not the one modelled. The tables of the source are
  lists with the rows of the source, cut into parts of at most 150 lines, whose order is checked part by part by
  evaluation; \<open>lower_bound\<close> is the first element that is not less, which a search by halves finds in such an order.
  \<open>Undefined\<close> stands for undefined behaviour
  (a read of memory never written, a failed assertion, an abort), \<open>Blocks\<close> for a call that never returns.

  \<^bold>\<open>The system.\<close> The kernel is a finite script of its answers (\<open>rx_event\<close>, \<open>tx_event\<close>, and in the core
  library the scripts of \<^verbatim>\<open>select\<close>, \<^verbatim>\<open>read\<close>, \<^verbatim>\<open>write\<close>, \<^verbatim>\<open>accept\<close> and the clock), consumed by
  the system calls; waiting on an exhausted script blocks. No fuel is used: the loops
  are functions whose termination is proved from the length of the script and the size
  of the buffers (\<open>work\<close>, \<open>rx_weight\<close>). The toolkit and the slots of the server's signals are
  parameters; those of the toolkit are taken not to call back into the client. The content of configuration files,
  whether they can be written, and the clock are arguments of the operations of the configuration; the conversions of
  \<^verbatim>\<open>double\<close> are parameters.

  \<^bold>\<open>Not modelled.\<close> Traces and complaints; memory management (the \<^verbatim>\<open>free\<close> functions and reference
  counts); keyboard layouts; modules, panels and the base classes of engines and front
  ends; the C++ agent, the widget code of the toolkits, the X Input Method server and
  the user interfaces.
\<close>

end
